(* ===== verification/Adm_Prelude.thy ===== *)
theory Adm_Prelude
  imports Main "HOL-Library.List_Lexorder" "HOL-Library.Char_ord" "HOL-Library.Product_Lexorder"
begin

text \<open>
  The vocabulary the components share: table operations on row lists (the where-clauses of the
  code's queries become predicates), transactions with rollback, JSON values, and the
  JavaScript string functions the code calls. Strings are lists of 8-bit characters, read as the
  Latin-1 range of JavaScript's code units; times are milliseconds since the epoch.
\<close>

named_theorems tx_simps "unfolding of the transaction combinators"
named_theorems keeps_intros "introduction rules for transactions that keep a relation"

section \<open>Rows and queries\<close>

definition update_where :: "('a \<Rightarrow> bool) \<Rightarrow> ('a \<Rightarrow> 'a) \<Rightarrow> 'a list \<Rightarrow> 'a list" where
  "update_where p f xs = map (\<lambda>x. if p x then f x else x) xs"

definition count_where :: "('a \<Rightarrow> bool) \<Rightarrow> 'a list \<Rightarrow> nat" where
  "count_where p xs = length (filter p xs)"

fun latest_of :: "('a \<Rightarrow> 'k::linorder) \<Rightarrow> 'a \<Rightarrow> 'a list \<Rightarrow> 'a" where
  "latest_of key best [] = best"
| "latest_of key best (x # xs) = latest_of key (if key best < key x then x else best) xs"

definition find_latest :: "('a \<Rightarrow> 'k::linorder) \<Rightarrow> ('a \<Rightarrow> bool) \<Rightarrow> 'a list \<Rightarrow> 'a option" where
  "find_latest key p xs = (case filter p xs of [] \<Rightarrow> None | y # ys \<Rightarrow> Some (latest_of key y ys))"

text \<open>\<open>[...new Set(xs)]\<close>.\<close>

definition unique_in_order :: "'a list \<Rightarrow> 'a list" where
  "unique_in_order xs = rev (remdups (rev xs))"

lemma set_update_where: "set (update_where p f xs) = {x \<in> set xs. \<not> p x} \<union> f ` {x \<in> set xs. p x}"
  by (auto simp: update_where_def)

lemma in_update_where:
  "y \<in> set (update_where p f xs) \<longleftrightarrow> (\<exists>x \<in> set xs. y = (if p x then f x else x))"
  by (auto simp: update_where_def)

lemma length_update_where [simp]: "length (update_where p f xs) = length xs"
  by (simp add: update_where_def)

lemma map_update_where:
  "(\<And>x. p x \<Longrightarrow> g (f x) = g x) \<Longrightarrow> map g (update_where p f xs) = map g xs"
  by (auto simp: update_where_def)

lemma update_where_id [simp]: "(\<And>x. x \<in> set xs \<Longrightarrow> \<not> p x) \<Longrightarrow> update_where p f xs = xs"
  by (auto simp: update_where_def intro: map_idI)

lemma count_where_0: "count_where p xs = 0 \<longleftrightarrow> (\<forall>x \<in> set xs. \<not> p x)"
  by (simp add: count_where_def filter_empty_conv)

lemma find_set: "List.find p xs = Some x \<Longrightarrow> x \<in> set xs \<and> p x"
  by (induction xs) (auto split: if_splits)

lemma find_None: "List.find p xs = None \<longleftrightarrow> (\<forall>x \<in> set xs. \<not> p x)"
  by (induction xs) auto

lemma find_update_where:
  "(\<And>x. q (f x) = q x) \<Longrightarrow>
   List.find q (update_where p f xs) = map_option (\<lambda>x. if p x then f x else x) (List.find q xs)"
  by (induction xs) (auto simp: update_where_def)

lemma find_cong_set:
  "(\<And>x. x \<in> set xs \<Longrightarrow> p x = q x) \<Longrightarrow> List.find p xs = List.find q xs"
  by (induction xs) auto

lemma find_unique:
  assumes "x \<in> set xs" "p x" and uniq: "\<And>y. y \<in> set xs \<Longrightarrow> p y \<Longrightarrow> y = x"
  shows "List.find p xs = Some x"
proof (cases "List.find p xs")
  case None
  with assms(1,2) show ?thesis by (simp add: find_None)
next
  case (Some y)
  with uniq find_set [OF Some] show ?thesis by simp
qed

lemma latest_of_in: "latest_of key b xs \<in> insert b (set xs)"
  by (induction xs arbitrary: b) auto

lemma latest_of_ge: "y \<in> insert b (set xs) \<Longrightarrow> key y \<le> key (latest_of key b xs)"
proof (induction xs arbitrary: b y)
  case (Cons x xs)
  define b' where "b' = (if key b < key x then x else b)"
  have le: "key b \<le> key b'" "key x \<le> key b'" by (auto simp: b'_def)
  have step: "latest_of key b (x # xs) = latest_of key b' xs" by (simp add: b'_def)
  have top: "key b' \<le> key (latest_of key b' xs)" by (rule Cons.IH) simp
  from Cons.prems consider "y = b" | "y = x" | "y \<in> set xs" by auto
  then show ?case
  proof cases
    case 1
    then show ?thesis using le(1) top step by simp
  next
    case 2
    then show ?thesis using le(2) top step by simp
  next
    case 3
    then have "y \<in> insert b' (set xs)" by simp
    then have "key y \<le> key (latest_of key b' xs)" by (rule Cons.IH)
    then show ?thesis using step by simp
  qed
qed simp

lemma find_latest_Some:
  assumes "find_latest key p xs = Some x"
  shows "x \<in> set xs" "p x" "\<And>y. y \<in> set xs \<Longrightarrow> p y \<Longrightarrow> key y \<le> key x"
proof -
  from assms obtain y ys where f: "filter p xs = y # ys" and x: "x = latest_of key y ys"
    by (auto simp: find_latest_def split: list.splits)
  have "set (filter p xs) = insert y (set ys)" by (simp add: f)
  then have s: "{z \<in> set xs. p z} = insert y (set ys)" by simp
  with latest_of_in [of key y ys] x show "x \<in> set xs" "p x" by auto
  show "key z \<le> key x" if "z \<in> set xs" "p z" for z
    using s that x latest_of_ge [of z y ys key] by auto
qed

lemma find_latest_None: "find_latest key p xs = None \<longleftrightarrow> (\<forall>x \<in> set xs. \<not> p x)"
proof
  assume "find_latest key p xs = None"
  then have "filter p xs = []" by (simp add: find_latest_def split: list.splits)
  then show "\<forall>x \<in> set xs. \<not> p x" by (simp add: filter_empty_conv)
next
  assume "\<forall>x \<in> set xs. \<not> p x"
  then have "filter p xs = []" by (simp add: filter_empty_conv)
  then show "find_latest key p xs = None" by (simp add: find_latest_def)
qed

lemma find_latest_unique:
  assumes "x \<in> set xs" "p x" "\<And>y. y \<in> set xs \<Longrightarrow> p y \<Longrightarrow> key x \<le> key y \<Longrightarrow> y = x"
  shows "find_latest key p xs = Some x"
proof (cases "find_latest key p xs")
  case None
  with assms show ?thesis by (simp add: find_latest_None)
next
  case (Some y)
  with assms find_latest_Some [OF Some] show ?thesis by auto
qed

section \<open>Transactions\<close>

text \<open>
  A transaction reads and changes the state, or fails: \<open>Inl e\<close> carries the thrown error, and
  the state is the one before the transaction (the database rolls every write back).
  \<open>interfere\<close> marks a point where the transaction waits or holds no lock that excludes them:
  whatever other transactions commit meanwhile is the function it is given.
\<close>

type_synonym ('s, 'e, 'a) tx = "'s \<Rightarrow> 'e + ('a \<times> 's)"

definition tx_return :: "'a \<Rightarrow> ('s, 'e, 'a) tx" where
  "tx_return a s = Inr (a, s)"

definition tx_throw :: "'e \<Rightarrow> ('s, 'e, 'a) tx" where
  "tx_throw e s = Inl e"

definition tx_bind :: "('s, 'e, 'a) tx \<Rightarrow> ('a \<Rightarrow> ('s, 'e, 'b) tx) \<Rightarrow> ('s, 'e, 'b) tx" where
  "tx_bind m f s = (case m s of Inl e \<Rightarrow> Inl e | Inr (a, s') \<Rightarrow> f a s')"

definition tx_read :: "('s \<Rightarrow> 'a) \<Rightarrow> ('s, 'e, 'a) tx" where
  "tx_read f s = Inr (f s, s)"

definition tx_write :: "('s \<Rightarrow> 's) \<Rightarrow> ('s, 'e, unit) tx" where
  "tx_write f s = Inr ((), f s)"

definition interfere :: "('s \<Rightarrow> 's) \<Rightarrow> ('s, 'e, unit) tx" where
  "interfere f s = Inr ((), f s)"

definition run_tx :: "('s, 'e, 'a) tx \<Rightarrow> 's \<Rightarrow> ('e + 'a) \<times> 's" where
  "run_tx m s = (case m s of Inl e \<Rightarrow> (Inl e, s) | Inr (a, s') \<Rightarrow> (Inr a, s'))"

fun tx_fold :: "('a \<Rightarrow> 'b \<Rightarrow> ('s, 'e, 'b) tx) \<Rightarrow> 'a list \<Rightarrow> 'b \<Rightarrow> ('s, 'e, 'b) tx" where
  "tx_fold f [] b = tx_return b"
| "tx_fold f (x # xs) b = tx_bind (f x b) (\<lambda>b'. tx_fold f xs b')"

declare tx_return_def [tx_simps] tx_throw_def [tx_simps] tx_bind_def [tx_simps]
  tx_read_def [tx_simps] tx_write_def [tx_simps] interfere_def [tx_simps]

lemma tx_bind_Inr:
  "tx_bind m f s = Inr (b, s'') \<longleftrightarrow> (\<exists>a s'. m s = Inr (a, s') \<and> f a s' = Inr (b, s''))"
  by (auto simp: tx_bind_def split: sum.splits)

lemma tx_bindE:
  assumes "tx_bind m f s = Inr (b, s'')"
  obtains a s' where "m s = Inr (a, s')" "f a s' = Inr (b, s'')"
  using assms by (auto simp: tx_bind_Inr)

lemma tx_bind_return [simp]: "tx_bind (tx_return a) f = f a"
  by (simp add: tx_bind_def tx_return_def fun_eq_iff)

lemma tx_bind_assoc: "tx_bind (tx_bind m f) g = tx_bind m (\<lambda>a. tx_bind (f a) g)"
  by (auto simp: tx_bind_def fun_eq_iff split: sum.splits)

text \<open>
  \<open>tx_all R m\<close>: whenever the transaction \<open>m\<close> returns, the states before and after are in
  the relation \<open>R\<close>. For a reflexive and transitive \<open>R\<close> (an invariant that is kept, a table
  that is not touched, a log that only grows) this goes through every combinator.
\<close>

definition tx_all :: "('s \<Rightarrow> 's \<Rightarrow> bool) \<Rightarrow> ('s, 'e, 'a) tx \<Rightarrow> bool" where
  "tx_all R m \<longleftrightarrow> (\<forall>s a s'. m s = Inr (a, s') \<longrightarrow> R s s')"

lemma tx_allI: "(\<And>s a s'. m s = Inr (a, s') \<Longrightarrow> R s s') \<Longrightarrow> tx_all R m"
  by (simp add: tx_all_def)

lemma tx_allD: "tx_all R m \<Longrightarrow> m s = Inr (a, s') \<Longrightarrow> R s s'"
  by (auto simp: tx_all_def)

lemma tx_all_throw [keeps_intros]: "tx_all R (tx_throw e)"
  by (simp add: tx_all_def tx_throw_def)

lemma tx_all_if [keeps_intros]:
  "(b \<Longrightarrow> tx_all R m) \<Longrightarrow> (\<not> b \<Longrightarrow> tx_all R n) \<Longrightarrow> tx_all R (if b then m else n)"
  by simp

lemma tx_all_option [keeps_intros]:
  "(x = None \<Longrightarrow> tx_all R m) \<Longrightarrow> (\<And>y. x = Some y \<Longrightarrow> tx_all R (f y)) \<Longrightarrow>
   tx_all R (case x of None \<Rightarrow> m | Some y \<Rightarrow> f y)"
  by (cases x) auto

lemma tx_all_write: "(\<And>s. R s (f s)) \<Longrightarrow> tx_all R (tx_write f)"
  by (simp add: tx_all_def tx_write_def)

lemma tx_all_interfere: "(\<And>s. R s (f s)) \<Longrightarrow> tx_all R (interfere f)"
  by (simp add: tx_all_def interfere_def)

locale step_relation =
  fixes R :: "'s \<Rightarrow> 's \<Rightarrow> bool"
  assumes rel_refl: "R s s"
    and rel_trans: "R s t \<Longrightarrow> R t u \<Longrightarrow> R s u"
begin

lemma all_return [keeps_intros]: "tx_all R (tx_return a)"
  by (simp add: tx_all_def tx_return_def rel_refl)

lemma all_read [keeps_intros]: "tx_all R (tx_read f)"
  by (simp add: tx_all_def tx_read_def rel_refl)

lemma all_bind [keeps_intros]:
  "tx_all R m \<Longrightarrow> (\<And>a. tx_all R (f a)) \<Longrightarrow> tx_all R (tx_bind m f)"
  by (fastforce simp: tx_all_def tx_bind_Inr intro: rel_trans)

lemma all_fold [keeps_intros]:
  "(\<And>x b. tx_all R (f x b)) \<Longrightarrow> tx_all R (tx_fold f xs b)"
proof (induction xs arbitrary: b)
  case Nil
  then show ?case by (simp add: all_return)
next
  case (Cons x xs)
  then show ?case by (auto intro: all_bind)
qed

lemma all_run: "tx_all R m \<Longrightarrow> R s (snd (run_tx m s))"
  by (auto simp: run_tx_def rel_refl dest: tx_allD split: sum.splits)

end

section \<open>Operations of several transactions\<close>

text \<open>
  An operation runs its transactions one after the other: what an earlier one committed stays when
  a later one fails, so the state comes back with the error as well.
\<close>

type_synonym ('s, 'e, 'a) op = "'s \<Rightarrow> ('e + 'a) \<times> 's"

definition op_return :: "'a \<Rightarrow> ('s, 'e, 'a) op" where
  "op_return a s = (Inr a, s)"

definition op_bind :: "('s, 'e, 'a) op \<Rightarrow> ('a \<Rightarrow> ('s, 'e, 'b) op) \<Rightarrow> ('s, 'e, 'b) op" where
  "op_bind m f s = (case m s of (Inl e, s') \<Rightarrow> (Inl e, s') | (Inr a, s') \<Rightarrow> f a s')"

definition op_read :: "('s \<Rightarrow> 'a) \<Rightarrow> ('s, 'e, 'a) op" where
  "op_read f s = (Inr (f s), s)"

text \<open>\<open>try\<close> around an operation: the errors \<open>h\<close> accepts become a result, the rest pass on.\<close>

definition op_catch :: "('s, 'e, 'a) op \<Rightarrow> ('e \<Rightarrow> 'a option) \<Rightarrow> ('s, 'e, 'a) op" where
  "op_catch m h s = (case m s of
     (Inl e, s') \<Rightarrow> (case h e of None \<Rightarrow> (Inl e, s') | Some a \<Rightarrow> (Inr a, s'))
   | (Inr a, s') \<Rightarrow> (Inr a, s'))"

fun op_fold :: "('a \<Rightarrow> 'b \<Rightarrow> ('s, 'e, 'b) op) \<Rightarrow> 'a list \<Rightarrow> 'b \<Rightarrow> ('s, 'e, 'b) op" where
  "op_fold f [] b = op_return b"
| "op_fold f (x # xs) b = op_bind (f x b) (\<lambda>b'. op_fold f xs b')"

declare op_return_def [tx_simps] op_bind_def [tx_simps] op_read_def [tx_simps]
  op_catch_def [tx_simps] run_tx_def [tx_simps]

definition op_all :: "('s \<Rightarrow> 's \<Rightarrow> bool) \<Rightarrow> ('s, 'e, 'a) op \<Rightarrow> bool" where
  "op_all R m \<longleftrightarrow> (\<forall>s. R s (snd (m s)))"

lemma op_allD: "op_all R m \<Longrightarrow> R s (snd (m s))"
  by (simp add: op_all_def)

lemma op_all_if [keeps_intros]:
  "(b \<Longrightarrow> op_all R m) \<Longrightarrow> (\<not> b \<Longrightarrow> op_all R n) \<Longrightarrow> op_all R (if b then m else n)"
  by simp

lemma op_all_option [keeps_intros]:
  "(x = None \<Longrightarrow> op_all R m) \<Longrightarrow> (\<And>y. x = Some y \<Longrightarrow> op_all R (f y)) \<Longrightarrow>
   op_all R (case x of None \<Rightarrow> m | Some y \<Rightarrow> f y)"
  by (cases x) auto

lemma snd_op_catch: "snd (op_catch m h s) = snd (m s)"
proof (cases "m s")
  case (Pair r t)
  then show ?thesis by (cases r) (auto simp: op_catch_def split: option.splits)
qed

context step_relation
begin

lemma op_return_all [keeps_intros]: "op_all R (op_return a)"
  by (simp add: op_all_def op_return_def rel_refl)

lemma op_read_all [keeps_intros]: "op_all R (op_read f)"
  by (simp add: op_all_def op_read_def rel_refl)

lemma op_run_all [keeps_intros]: "tx_all R m \<Longrightarrow> op_all R (run_tx m)"
  by (simp add: op_all_def all_run)

lemma op_bind_all [keeps_intros]:
  assumes m: "op_all R m" and f: "\<And>a. op_all R (f a)"
  shows "op_all R (op_bind m f)"
  unfolding op_all_def
proof
  fix s
  obtain r t where ms: "m s = (r, t)" by (cases "m s")
  with op_allD [OF m, of s] have st: "R s t" by simp
  show "R s (snd (op_bind m f s))"
  proof (cases r)
    case (Inl e)
    with ms st show ?thesis by (simp add: op_bind_def)
  next
    case (Inr a)
    with ms st op_allD [OF f, of t a] show ?thesis by (auto simp: op_bind_def intro: rel_trans)
  qed
qed

lemma op_catch_all [keeps_intros]: "op_all R m \<Longrightarrow> op_all R (op_catch m h)"
  by (simp add: op_all_def snd_op_catch)

lemma op_fold_all_in:
  "(\<And>x b. x \<in> set xs \<Longrightarrow> op_all R (f x b)) \<Longrightarrow> op_all R (op_fold f xs b)"
proof (induction xs arbitrary: b)
  case Nil
  then show ?case by (simp add: op_return_all)
next
  case (Cons x xs)
  then show ?case by (auto intro: op_bind_all)
qed

lemmas op_fold_all [keeps_intros] = op_fold_all_in

end

section \<open>JSON values\<close>

datatype json = JNull | JBool bool | JNum int | JStr string | JArr "json list"
  | JObj "(string \<times> json) list"

text \<open>
  \<open>prop_of raw k\<close> is the own property \<open>k\<close> of a plain object, \<open>None\<close> (undefined) for a
  missing property and for every value that is not a plain object.
\<close>

fun prop_of :: "json \<Rightarrow> string \<Rightarrow> json option" where
  "prop_of (JObj kvs) k = map_of kvs k"
| "prop_of _ k = None"

fun is_plain_object :: "json \<Rightarrow> bool" where
  "is_plain_object (JObj _) = True"
| "is_plain_object _ = False"

section \<open>JavaScript strings\<close>

definition js_space :: "char \<Rightarrow> bool" where
  "js_space c \<longleftrightarrow> (let n = of_char c :: nat in n \<in> {9, 10, 11, 12, 13, 32, 160})"

definition js_lower_char :: "char \<Rightarrow> char" where
  "js_lower_char c = (let n = of_char c :: nat in
     if (65 \<le> n \<and> n \<le> 90) \<or> (192 \<le> n \<and> n \<le> 222 \<and> n \<noteq> 215) then char_of (n + 32) else c)"

definition js_lower :: "string \<Rightarrow> string" where
  "js_lower s = map js_lower_char s"

definition trim_start :: "string \<Rightarrow> string" where
  "trim_start s = dropWhile js_space s"

definition trim_end :: "string \<Rightarrow> string" where
  "trim_end s = rev (dropWhile js_space (rev s))"

definition js_trim :: "string \<Rightarrow> string" where
  "js_trim s = trim_end (trim_start s)"

text \<open>\<open>x || null\<close> on a string: the empty string is falsy.\<close>

definition non_empty :: "string \<Rightarrow> string option" where
  "non_empty s = (if s = [] then None else Some s)"

fun starts_with :: "string \<Rightarrow> string \<Rightarrow> bool" where
  "starts_with [] s = True"
| "starts_with (p # ps) [] = False"
| "starts_with (p # ps) (c # s) = (p = c \<and> starts_with ps s)"

lemma starts_with_append: "starts_with p s \<longleftrightarrow> (\<exists>r. s = p @ r)"
  by (induction p s rule: starts_with.induct) auto

text \<open>\<open>join\<close> of an array of strings.\<close>

fun join_with :: "string \<Rightarrow> string list \<Rightarrow> string" where
  "join_with sep [] = ''''"
| "join_with sep [x] = x"
| "join_with sep (x # y # ys) = x @ sep @ join_with sep (y # ys)"

text \<open>A truthy optional string: present and not empty.\<close>

definition truthy :: "string option \<Rightarrow> bool" where
  "truthy x \<longleftrightarrow> x \<noteq> None \<and> x \<noteq> Some []"

end
