(* ===== verification/Ops_Db.thy ===== *)
theory Ops_Db
  imports Adm_Prelude
begin

text \<open>
  The tables of the event-day operations (packages/db/prisma/schema.prisma) as row lists, the
  statuses of packages/db/src/status.ts as datatypes, and the row locks of
  packages/tickets/src/attendee-lock.ts. A row keeps the columns the modelled code reads or
  writes; surrogate keys and timestamps nothing reads are left out.
\<close>

section \<open>Statuses\<close>

datatype attendee_status = Registered | Confirmed | Cancelled | Revoked

text \<open>The check-in outcomes that are stored (the others are answers only).\<close>

datatype check_in_status = Valid | Already_checked_in | Revoked_pass | Undone

text \<open>
  Item states stay strings: the operator route passes whatever the request holds, and the code
  compares. These are the values the table's CHECK constraint accepts.
\<close>

definition attendee_item_state_values :: "string list" where
  "attendee_item_state_values =
     [''pending'', ''issued'', ''returned'', ''lost'', ''problem'', ''not_applicable'']"

definition capacity_excluded_statuses :: "attendee_status list" where
  "capacity_excluded_statuses = [Revoked, Cancelled]"

section \<open>Rows\<close>

record attendee =
  att_id :: string
  att_event_id :: string
  att_email :: string
  att_name :: string
  att_first_name :: "string option"
  att_last_name :: "string option"
  att_token_hash :: "string option"
  att_token_enc :: "string option"
  att_qr_payload :: "string option"
  att_external_uuid :: "string option"
  att_public_ref :: "string option"
  att_ticket_type :: "string option"
  att_company :: "string option"
  att_department :: "string option"
  att_custom_data :: json
  att_status :: attendee_status
  att_admitted_at :: "int option"
  att_admitted_by :: "string option"
  att_erased_at :: "int option"
  att_client_timezone :: "string option"
  att_rsvp_status :: string

record check_in =
  ci_id :: string
  ci_attendee_id :: string
  ci_event_id :: string
  ci_checked_in_at :: int
  ci_status :: check_in_status
  ci_checked_in_by :: "string option"
  ci_source :: "string option"
  ci_notes :: "string option"
  ci_device_id :: "string option"
  ci_session_id :: "string option"

record event_item =
  ei_id :: string
  ei_event_id :: string
  ei_key :: string
  ei_label :: string
  ei_description :: "string option"
  ei_type :: string
  ei_enabled :: bool
  ei_icon :: "string option"
  ei_config :: json

record item_state =
  is_attendee_id :: string
  is_event_item_id :: string
  is_state :: string
  is_updated_by :: "string option"

record attendee_note =
  nt_id :: string
  nt_attendee_id :: string
  nt_event_id :: string
  nt_author_user_id :: string
  nt_body :: string
  nt_created_at :: int

record action_log =
  lg_event_id :: string
  lg_attendee_id :: "string option"
  lg_action_type :: string
  lg_actor_user_id :: "string option"
  lg_session_id :: "string option"
  lg_device_id :: "string option"
  lg_ip :: "string option"
  lg_metadata :: json
  lg_client_timezone :: "string option"

record event_row =
  ev_id :: string
  ev_organization_id :: string
  ev_ops_config :: json
  ev_capacity :: "int option"
  ev_archived_at :: "int option"
  ev_timezone :: string
  ev_slug :: string
  ev_wallet_enabled :: bool
  ev_wallet_template_id :: "string option"
  ev_wallet_api_key_enc :: "string option"
  ev_wallet_apple_enabled :: bool
  ev_wallet_google_enabled :: bool

record custom_field =
  cf_id :: string
  cf_event_id :: string
  cf_label :: string
  cf_source_field :: string
  cf_type :: string
  cf_required :: bool
  cf_options :: json
  cf_created_at :: int

record ticket_type =
  tt_id :: string
  tt_event_id :: string
  tt_key :: string
  tt_label :: string
  tt_color :: string
  tt_sort_order :: int

record mail_delivery =
  md_id :: string
  md_attendee_id :: string
  md_event_id :: string
  md_status :: string
  md_created_at :: int
  md_purpose :: string
  md_recipient_email :: "string option"
  md_rendered_subject :: "string option"
  md_rendered_html :: "string option"
  md_provider_message_id :: "string option"
  md_error :: "string option"
  md_retryable :: "bool option"
  md_organization_id :: string
  md_batch_id :: "string option"
  md_template_id :: "string option"
  md_template_id_snapshot :: "string option"
  md_template_label_snapshot :: "string option"
  md_had_wallet_cta :: bool
  md_provider :: string
  md_error_code :: "string option"
  md_attempts :: nat
  md_queued_at :: int
  md_attempted_at :: "int option"
  md_accepted_at :: "int option"
  md_sent_at :: "int option"
  md_failed_at :: "int option"
  md_viewed_at :: "int option"
  md_client_timezone :: "string option"
  md_actor_user_id :: "string option"
  md_session_id :: "string option"

record user_row =
  us_id :: string
  us_email :: string
  us_display_name :: "string option"

record ops_db =
  attendees :: "attendee list"
  check_ins :: "check_in list"
  event_items :: "event_item list"
  item_states :: "item_state list"
  attendee_notes :: "attendee_note list"
  action_logs :: "action_log list"
  events :: "event_row list"
  custom_fields :: "custom_field list"
  users :: "user_row list"
  ticket_types :: "ticket_type list"
  mail_deliveries :: "mail_delivery list"

text \<open>
  What a transaction can throw: a constraint of the database, the error classes of the code
  (\<open>Illegal_transition\<close> carries the flag \<open>erased\<close>), and plain \<open>Error\<close>s with their message.
\<close>

datatype ops_error =
    Foreign_key_violation
  | Unique_violation
  | Illegal_transition string bool
  | Undo_not_allowed string
  | Note_too_long
  | Operator_required
  | Attendee_not_found
  | Note_not_found bool
  | Note_forbidden
  | Plain_error string

type_synonym 'a ops_tx = "(ops_db, ops_error, 'a) tx"

text \<open>
  Other transactions at the waiting points of one: \<open>env k\<close> is what they commit at the \<open>k\<close>-th
  point. \<open>quiet\<close> is the schedule in which nothing else runs.
\<close>

type_synonym interference = "nat \<Rightarrow> ops_db \<Rightarrow> ops_db"

definition quiet :: interference where
  "quiet k db = db"

lemma quiet_id [simp]: "quiet k = (\<lambda>db. db)"
  by (simp add: quiet_def fun_eq_iff)

text \<open>
  What a transaction takes from outside the program: the MD5 hex digest of the platform's crypto
  module, the clock of the process (\<open>new Date()\<close>) and the one behind the \<open>now()\<close> column
  defaults, the id the database client generates for a created row (one per attendee it writes
  for, and one for a note), and the other transactions.
\<close>

record tx_env =
  te_md5 :: "string \<Rightarrow> string"
  te_now :: int
  te_db_now :: int
  te_fresh_id :: "string \<Rightarrow> string"
  te_others :: interference

section \<open>Reads\<close>

definition find_attendee :: "string \<Rightarrow> string \<Rightarrow> ops_db \<Rightarrow> attendee option" where
  "find_attendee aid eid db =
     List.find (\<lambda>a. att_id a = aid \<and> att_event_id a = eid) (attendees db)"

definition attendee_by_id :: "string \<Rightarrow> ops_db \<Rightarrow> attendee option" where
  "attendee_by_id aid db = List.find (\<lambda>a. att_id a = aid) (attendees db)"

definition event_by_id :: "string \<Rightarrow> ops_db \<Rightarrow> event_row option" where
  "event_by_id eid db = List.find (\<lambda>e. ev_id e = eid) (events db)"

definition item_state_of :: "string \<Rightarrow> string \<Rightarrow> ops_db \<Rightarrow> item_state option" where
  "item_state_of aid iid db =
     List.find (\<lambda>s. is_attendee_id s = aid \<and> is_event_item_id s = iid) (item_states db)"

section \<open>Row locks\<close>

record locked_attendee =
  lk_id :: string
  lk_status :: attendee_status
  lk_erased :: bool

definition lock_attendee_row :: "string \<Rightarrow> string option \<Rightarrow> ops_db \<Rightarrow> locked_attendee option" where
  "lock_attendee_row aid eid db =
     (case List.find (\<lambda>a. att_id a = aid \<and>
            (case eid of None \<Rightarrow> True | Some e \<Rightarrow> att_event_id a = e)) (attendees db) of
        None \<Rightarrow> None
      | Some row \<Rightarrow> Some \<lparr>lk_id = att_id row, lk_status = att_status row,
                           lk_erased = (att_erased_at row \<noteq> None)\<rparr>)"

definition is_attendee_gone :: "locked_attendee option \<Rightarrow> bool" where
  "is_attendee_gone locked = (case locked of None \<Rightarrow> True | Some l \<Rightarrow> lk_erased l)"

text \<open>The locked rows come in id order, and the caller keeps them as a set of ids.\<close>

definition lock_live_attendees :: "string list \<Rightarrow> ops_db \<Rightarrow> string list" where
  "lock_live_attendees ids db =
     (if ids = [] then []
      else map att_id (filter (\<lambda>a. att_erased_at a = None)
             (sort_key att_id (filter (\<lambda>a. att_id a \<in> set ids) (attendees db)))))"

definition lock_attendees_for_update :: "string \<Rightarrow> string list \<Rightarrow> ops_db \<Rightarrow> string list" where
  "lock_attendees_for_update eid ids db =
     (if ids = [] then []
      else map att_id (sort_key att_id
             (filter (\<lambda>a. att_event_id a = eid \<and> att_id a \<in> set ids) (attendees db))))"

section \<open>The last check before data leaves (lock-check.ts)\<close>

definition attendee_is_live :: "ops_db \<Rightarrow> string \<Rightarrow> bool" where
  "attendee_is_live db aid =
     (case lock_attendee_row aid None db of None \<Rightarrow> False | Some l \<Rightarrow> \<not> lk_erased l)"

definition live_attendee_ids :: "ops_db \<Rightarrow> string list \<Rightarrow> string list" where
  "live_attendee_ids db ids = lock_live_attendees ids db"

definition keep_live_rows :: "ops_db \<Rightarrow> ('a \<Rightarrow> string) \<Rightarrow> 'a list \<Rightarrow> 'a list" where
  "keep_live_rows db row_id rows =
     (if rows = [] then []
      else let live = live_attendee_ids db (map row_id rows)
           in filter (\<lambda>row. row_id row \<in> set live) rows)"

section \<open>Well-formed tables\<close>

text \<open>
  The primary and unique keys of the schema that the proofs rest on, the foreign key of an
  attendee (its event) and the one of a check-in (attendee and event must match one attendee row).
\<close>

definition wf_db :: "ops_db \<Rightarrow> bool" where
  "wf_db db \<longleftrightarrow>
     distinct (map att_id (attendees db)) \<and>
     distinct (map ci_id (check_ins db)) \<and>
     distinct (map nt_id (attendee_notes db)) \<and>
     distinct (map (\<lambda>s. (is_attendee_id s, is_event_item_id s)) (item_states db)) \<and>
     (\<forall>s \<in> set (item_states db). is_state s \<in> set attendee_item_state_values) \<and>
     distinct (map (\<lambda>i. (ei_event_id i, ei_key i)) (event_items db)) \<and>
     distinct (map ei_id (event_items db)) \<and>
     distinct (map ev_id (events db)) \<and>
     (\<forall>a \<in> set (attendees db). \<exists>e \<in> set (events db). ev_id e = att_event_id a) \<and>
     (\<forall>c \<in> set (check_ins db). \<exists>a \<in> set (attendees db).
        att_id a = ci_attendee_id c \<and> att_event_id a = ci_event_id c)"

lemma distinct_keyD:
  "\<lbrakk>distinct (map k xs); x \<in> set xs; y \<in> set xs; k x = k y\<rbrakk> \<Longrightarrow> x = y"
  by (auto simp: distinct_map dest: inj_onD)

lemma wf_attendee_inj:
  "\<lbrakk>wf_db db; a \<in> set (attendees db); b \<in> set (attendees db); att_id a = att_id b\<rbrakk> \<Longrightarrow> a = b"
  unfolding wf_db_def by (blast dest: distinct_keyD)

lemma wf_check_in_inj:
  "\<lbrakk>wf_db db; c \<in> set (check_ins db); d \<in> set (check_ins db); ci_id c = ci_id d\<rbrakk> \<Longrightarrow> c = d"
  unfolding wf_db_def by (blast dest: distinct_keyD)

lemma find_attendee_Some:
  "find_attendee aid eid db = Some a \<Longrightarrow>
   a \<in> set (attendees db) \<and> att_id a = aid \<and> att_event_id a = eid"
  unfolding find_attendee_def by (drule find_set) simp

lemma find_attendeeI:
  "\<lbrakk>wf_db db; a \<in> set (attendees db)\<rbrakk> \<Longrightarrow>
   find_attendee (att_id a) (att_event_id a) db = Some a"
  unfolding find_attendee_def
  by (rule find_unique) (auto dest: wf_attendee_inj)

lemma lock_attendee_row_Some:
  "lock_attendee_row aid (Some eid) db =
   map_option (\<lambda>row. \<lparr>lk_id = att_id row, lk_status = att_status row,
                        lk_erased = (att_erased_at row \<noteq> None)\<rparr>) (find_attendee aid eid db)"
  by (simp add: lock_attendee_row_def find_attendee_def split: option.splits)

lemma attendee_is_live_iff:
  "wf_db db \<Longrightarrow> attendee_is_live db aid \<longleftrightarrow>
   (\<exists>a \<in> set (attendees db). att_id a = aid \<and> att_erased_at a = None)"
  by (auto simp: attendee_is_live_def lock_attendee_row_def find_None
           dest: find_set wf_attendee_inj split: option.splits)

lemma live_attendee_ids_set:
  "set (live_attendee_ids db ids) =
   {att_id a | a. a \<in> set (attendees db) \<and> att_id a \<in> set ids \<and> att_erased_at a = None}"
  by (auto simp: live_attendee_ids_def lock_live_attendees_def)

end
