(* ===== verification/Ops_Audit.thy ===== *)
theory Ops_Audit
  imports Ops_Db
begin

text \<open>
  The audit trail of event-day operations (packages/tickets/src/ops-audit.ts) and the two inserts
  every operation shares: a check-in row and an activity-log row, with the constraints the
  database checks on them.
\<close>

record audit_ctx =
  au_operator :: "string option"
  au_session_id :: "string option"
  au_device_id :: "string option"
  au_ip :: "string option"
  au_timezone :: "string option"

section \<open>Inserts\<close>

definition create_check_in :: "check_in \<Rightarrow> unit ops_tx" where
  "create_check_in c db =
     (if \<exists>d \<in> set (check_ins db). ci_id d = ci_id c then Inl Unique_violation
      else if \<not> (\<exists>a \<in> set (attendees db).
                 att_id a = ci_attendee_id c \<and> att_event_id a = ci_event_id c)
      then Inl Foreign_key_violation
      else Inr ((), db\<lparr>check_ins := check_ins db @ [c]\<rparr>))"

definition log_fk_ok :: "action_log \<Rightarrow> ops_db \<Rightarrow> bool" where
  "log_fk_ok r db \<longleftrightarrow> (\<exists>e \<in> set (events db). ev_id e = lg_event_id r) \<and>
     (case lg_attendee_id r of None \<Rightarrow> True
      | Some aid \<Rightarrow> \<exists>a \<in> set (attendees db). att_id a = aid)"

definition create_action_logs :: "action_log list \<Rightarrow> unit ops_tx" where
  "create_action_logs rows db =
     (if \<forall>r \<in> set rows. log_fk_ok r db
      then Inr ((), db\<lparr>action_logs := action_logs db @ rows\<rparr>)
      else Inl Foreign_key_violation)"

definition log_row :: "string \<Rightarrow> string option \<Rightarrow> string \<Rightarrow> audit_ctx \<Rightarrow> json option \<Rightarrow> action_log" where
  "log_row eid aid action audit metadata =
     \<lparr>lg_event_id = eid, lg_attendee_id = aid, lg_action_type = action,
      lg_actor_user_id = au_operator audit, lg_session_id = au_session_id audit,
      lg_device_id = au_device_id audit, lg_ip = au_ip audit,
      lg_metadata = (case metadata of None \<Rightarrow> JNull | Some j \<Rightarrow> j),
      lg_client_timezone = au_timezone audit\<rparr>"

section \<open>Writing the log\<close>

definition write_bulk_action_log :: "string \<Rightarrow> string \<Rightarrow> audit_ctx \<Rightarrow> json option \<Rightarrow> unit ops_tx" where
  "write_bulk_action_log eid action audit metadata =
     create_action_logs [log_row eid None action audit metadata]"

definition write_action_log_many ::
  "string \<Rightarrow> string \<Rightarrow> audit_ctx \<Rightarrow> (string \<times> json option) list \<Rightarrow> unit ops_tx" where
  "write_action_log_many eid action audit entries =
     (if entries = [] then tx_return ()
      else tx_bind (tx_read (\<lambda>db. map att_id (filter (\<lambda>a. att_erased_at a \<noteq> None)
             (filter (\<lambda>a. att_id a \<in> set (map fst entries)) (attendees db)))))
        (\<lambda>erased. let live = filter (\<lambda>en. fst en \<notin> set erased) entries in
           if live = [] then tx_return ()
           else create_action_logs
                  (map (\<lambda>en. log_row eid (Some (fst en)) action audit (snd en)) live)))"

definition write_action_log ::
  "string \<Rightarrow> string \<Rightarrow> string \<Rightarrow> audit_ctx \<Rightarrow> json option \<Rightarrow> bool ops_tx" where
  "write_action_log eid aid action audit metadata =
     tx_bind (tx_read (lock_attendee_row aid None)) (\<lambda>locked.
       if (case locked of None \<Rightarrow> False | Some l \<Rightarrow> lk_erased l) then tx_return False
       else tx_bind (create_action_logs [log_row eid (Some aid) action audit metadata])
              (\<lambda>_. tx_return True))"

section \<open>What the inserts leave alone\<close>

lemma create_check_in_Inr:
  "create_check_in c db = Inr (u, db') \<longleftrightarrow>
   (\<forall>d \<in> set (check_ins db). ci_id d \<noteq> ci_id c) \<and>
   (\<exists>a \<in> set (attendees db). att_id a = ci_attendee_id c \<and> att_event_id a = ci_event_id c) \<and>
   db' = db\<lparr>check_ins := check_ins db @ [c]\<rparr>"
  by (auto simp: create_check_in_def split: if_splits)

lemma create_action_logs_Inr:
  "create_action_logs rows db = Inr (u, db') \<longleftrightarrow>
   (\<forall>r \<in> set rows. log_fk_ok r db) \<and> db' = db\<lparr>action_logs := action_logs db @ rows\<rparr>"
  by (auto simp: create_action_logs_def split: if_splits)

lemma write_action_log_Inr:
  assumes "write_action_log eid aid action audit metadata db = Inr (b, db')"
  obtains "\<not> b" "db' = db" "\<exists>l. lock_attendee_row aid None db = Some l \<and> lk_erased l"
  | "b" "db' = db\<lparr>action_logs := action_logs db @ [log_row eid (Some aid) action audit metadata]\<rparr>"
    "\<exists>l. lock_attendee_row aid None db = Some l \<and> \<not> lk_erased l"
proof (cases "lock_attendee_row aid None db")
  case None
  then have "\<not> log_fk_ok (log_row eid (Some aid) action audit metadata) db"
    by (auto simp: log_fk_ok_def log_row_def lock_attendee_row_def find_None split: option.splits)
  with None assms show ?thesis
    by (auto simp: write_action_log_def tx_simps create_action_logs_def)
next
  case (Some l)
  with assms that show ?thesis
    by (auto simp: write_action_log_def tx_simps create_action_logs_def split: if_splits)
qed

end
