(* ===== verification/Event_Items.thy ===== *)
theory Event_Items
  imports Ops_Audit
begin

text \<open>
  Event configuration and hand-out items: the operations config (ops-config.ts), which statuses
  are admitted (admittable.ts), the built-in badge item (event-items.ts, event-item-usability.ts)
  and the item state machine with its operator, admin and check-in paths (item-states.ts), all of
  packages/tickets/src.
\<close>

section \<open>Operations config\<close>

record event_ops_config =
  oc_require_confirm_on_scan :: bool
  oc_badge_at_entry :: bool
  oc_allow_manual_lookup :: bool
  oc_auto_advance_on_valid :: bool

definition default_ops_config :: event_ops_config where
  "default_ops_config = \<lparr>oc_require_confirm_on_scan = False, oc_badge_at_entry = True,
     oc_allow_manual_lookup = True, oc_auto_advance_on_valid = True\<rparr>"

definition parse_event_ops_config :: "json \<Rightarrow> event_ops_config" where
  "parse_event_ops_config raw =
     (if \<not> is_plain_object raw then default_ops_config
      else \<lparr>oc_require_confirm_on_scan =
               (prop_of raw ''require_confirm_on_scan'' = Some (JBool True)),
            oc_badge_at_entry = (prop_of raw ''badge_at_entry'' \<noteq> Some (JBool False)),
            oc_allow_manual_lookup = (prop_of raw ''allow_manual_lookup'' \<noteq> Some (JBool False)),
            oc_auto_advance_on_valid =
               (prop_of raw ''auto_advance_on_valid'' \<noteq> Some (JBool False))\<rparr>)"

definition load_event_ops_config :: "string \<Rightarrow> ops_db \<Rightarrow> event_ops_config" where
  "load_event_ops_config eid db =
     parse_event_ops_config (case event_by_id eid db of None \<Rightarrow> JNull | Some e \<Rightarrow> ev_ops_config e)"

section \<open>Admittable statuses\<close>

definition admittable_statuses :: "attendee_status list" where
  "admittable_statuses = [Registered, Confirmed]"

definition is_admittable :: "attendee_status \<Rightarrow> bool" where
  "is_admittable st \<longleftrightarrow> st \<in> set admittable_statuses"

lemma is_admittable_simps [simp]:
  "is_admittable Registered" "is_admittable Confirmed"
  "\<not> is_admittable Cancelled" "\<not> is_admittable Revoked"
  by (simp_all add: is_admittable_def admittable_statuses_def)

section \<open>The badge item\<close>

definition is_badge_item_usable :: "bool \<Rightarrow> json \<Rightarrow> bool" where
  "is_badge_item_usable enabled config \<longleftrightarrow>
     enabled \<and> prop_of config ''issue_on_checkin'' \<noteq> Some (JBool False)"

definition badge_item_key :: string where
  "badge_item_key = ''badge''"

definition default_event_item_id :: "(string \<Rightarrow> string) \<Rightarrow> string \<Rightarrow> string \<Rightarrow> string" where
  "default_event_item_id md5 eid key = ''ei_'' @ take 24 (md5 (eid @ '':'' @ key))"

definition default_badge_item :: "(string \<Rightarrow> string) \<Rightarrow> string \<Rightarrow> event_item" where
  "default_badge_item md5 eid =
     \<lparr>ei_id = default_event_item_id md5 eid badge_item_key, ei_event_id = eid,
      ei_key = badge_item_key, ei_label = ''Badge'',
      ei_description = Some ''Name badge issued at check-in.'', ei_type = ''item'',
      ei_enabled = True, ei_icon = Some ''id-badge-2'',
      ei_config = JObj [(''issue_on_checkin'', JBool True), (''requires_return'', JBool False)]\<rparr>"

definition find_item :: "string \<Rightarrow> string \<Rightarrow> ops_db \<Rightarrow> event_item option" where
  "find_item eid key db =
     List.find (\<lambda>i. ei_event_id i = eid \<and> ei_key i = key) (event_items db)"

definition find_enabled_item :: "string \<Rightarrow> string \<Rightarrow> ops_db \<Rightarrow> event_item option" where
  "find_enabled_item eid key db =
     List.find (\<lambda>i. ei_event_id i = eid \<and> ei_key i = key \<and> ei_enabled i) (event_items db)"

definition ensure_badge_event_item :: "tx_env \<Rightarrow> string \<Rightarrow> unit ops_tx" where
  "ensure_badge_event_item env eid db =
     (case find_item eid badge_item_key db of
        Some _ \<Rightarrow> Inr ((), db)
      | None \<Rightarrow>
          let row = default_badge_item (te_md5 env) eid in
          if \<exists>i \<in> set (event_items db).
               ei_id i = ei_id row \<or> (ei_event_id i = eid \<and> ei_key i = ei_key row)
          then Inr ((), db)
          else if \<not> (\<exists>e \<in> set (events db). ev_id e = eid) then Inl Foreign_key_violation
          else Inr ((), db\<lparr>event_items := event_items db @ [row]\<rparr>))"

section \<open>Item states\<close>

definition operator_transitions_for :: "string \<Rightarrow> string list" where
  "operator_transitions_for state =
     (if state = ''pending'' then [''issued'']
      else if state = ''issued'' then [''returned''] else [])"

definition revocable_item_states :: "string list" where
  "revocable_item_states = [''issued'', ''returned'']"

definition allowed_target :: "string \<Rightarrow> string \<Rightarrow> bool" where
  "allowed_target current target \<longleftrightarrow> target \<in> set (operator_transitions_for current)"

definition operator_item_actions :: "string \<Rightarrow> json \<Rightarrow> string list" where
  "operator_item_actions state config =
     (let actions = operator_transitions_for state in
      if state = ''issued'' \<and> prop_of config ''requires_return'' = Some (JBool False)
      then filter (\<lambda>action. action \<noteq> ''returned'') actions else actions)"

text \<open>\<open>createMany\<close> with \<open>skipDuplicates\<close> on the unique key (attendee, item).\<close>

fun insert_missing_states :: "item_state list \<Rightarrow> item_state list \<Rightarrow> item_state list" where
  "insert_missing_states [] table = table"
| "insert_missing_states (r # rs) table = insert_missing_states rs
     (if \<exists>s \<in> set table. is_attendee_id s = is_attendee_id r \<and>
                          is_event_item_id s = is_event_item_id r
      then table else table @ [r])"

definition ensure_attendee_item_states :: "tx_env \<Rightarrow> string \<Rightarrow> string \<Rightarrow> unit ops_tx" where
  "ensure_attendee_item_states env aid eid =
     tx_bind (ensure_badge_event_item env eid) (\<lambda>_.
     tx_bind (tx_read (\<lambda>db. filter (\<lambda>i. ei_event_id i = eid \<and> ei_enabled i) (event_items db)))
       (\<lambda>items db.
         if items = [] then Inr ((), db)
         else if \<not> (\<exists>a \<in> set (attendees db). att_id a = aid) then Inl Foreign_key_violation
         else Inr ((), db\<lparr>item_states := insert_missing_states
                (map (\<lambda>i. \<lparr>is_attendee_id = aid, is_event_item_id = ei_id i,
                             is_state = ''pending'', is_updated_by = None\<rparr>) items)
                (item_states db)\<rparr>)))"

text \<open>The guarded update every transition uses: only rows still in state \<open>from\<close>, with a count.\<close>

definition move_item_state ::
  "string \<Rightarrow> string \<Rightarrow> string \<Rightarrow> string \<Rightarrow> string option \<Rightarrow> nat ops_tx" where
  "move_item_state aid iid from to_state operator db =
     (let hit = (\<lambda>s. is_attendee_id s = aid \<and> is_event_item_id s = iid \<and> is_state s = from)
      in Inr (count_where hit (item_states db),
              db\<lparr>item_states := update_where hit
                   (\<lambda>s. s\<lparr>is_state := to_state, is_updated_by := operator\<rparr>) (item_states db)\<rparr>))"

definition load_attendee_for_item_action :: "string \<Rightarrow> string \<Rightarrow> locked_attendee ops_tx" where
  "load_attendee_for_item_action aid eid =
     tx_bind (tx_read (lock_attendee_row aid (Some eid))) (\<lambda>locked.
       case locked of
         None \<Rightarrow> tx_throw (Illegal_transition ''Attendee not found for this event'' False)
       | Some l \<Rightarrow> if lk_erased l
           then tx_throw (Illegal_transition ''Attendee data has been erased'' True)
           else tx_return l)"

definition issue_badge_on_check_in ::
  "tx_env \<Rightarrow> string \<Rightarrow> string \<Rightarrow> string \<Rightarrow> audit_ctx \<Rightarrow> unit ops_tx" where
  "issue_badge_on_check_in env aid eid check_in_id audit =
     tx_bind (tx_read (find_enabled_item eid ''badge'')) (\<lambda>badge_item.
     case badge_item of
       None \<Rightarrow> tx_return ()
     | Some item \<Rightarrow>
         if prop_of (ei_config item) ''issue_on_checkin'' = Some (JBool False) then tx_return ()
         else
           tx_bind (ensure_attendee_item_states env aid eid) (\<lambda>_.
           tx_bind (move_item_state aid (ei_id item) ''pending'' ''issued'' (au_operator audit))
             (\<lambda>updated.
             if updated = 0 then tx_return ()
             else tx_bind (write_action_log eid aid ''item_issued'' audit
                    (Some (JObj [(''event_item_key'', JStr ''badge''),
                                 (''check_in_id'', JStr check_in_id)])))
                    (\<lambda>_. tx_return ()))))"

section \<open>Operator transitions\<close>

definition transition_item_state ::
  "tx_env \<Rightarrow> string \<Rightarrow> string \<Rightarrow> string \<Rightarrow> string \<Rightarrow> audit_ctx \<Rightarrow> string ops_tx" where
  "transition_item_state env aid eid item_key target audit =
     tx_bind (load_attendee_for_item_action aid eid) (\<lambda>_.
     tx_bind (ensure_attendee_item_states env aid eid) (\<lambda>_.
     tx_bind (tx_read (find_enabled_item eid item_key)) (\<lambda>found.
     case found of
       None \<Rightarrow> tx_throw (Illegal_transition ''Item not found or disabled'' False)
     | Some item \<Rightarrow>
       tx_bind (tx_read (item_state_of aid (ei_id item))) (\<lambda>current.
       let from = (case current of None \<Rightarrow> ''pending'' | Some s \<Rightarrow> is_state s) in
       if \<not> allowed_target from target
       then tx_throw (Illegal_transition (''Illegal transition '' @ from @ '' -> '' @ target) False)
       else if target = ''returned'' \<and> prop_of (ei_config item) ''requires_return'' = Some (JBool False)
       then tx_throw (Illegal_transition ''Return is not enabled for this item'' False)
       else
         tx_bind (interfere (te_others env 2)) (\<lambda>_.
         tx_bind (move_item_state aid (ei_id item) from target (au_operator audit)) (\<lambda>updated.
         if updated = 0 then
           tx_bind (interfere (te_others env 3)) (\<lambda>_.
           tx_bind (tx_read (item_state_of aid (ei_id item))) (\<lambda>reread.
           if (case reread of None \<Rightarrow> False | Some s \<Rightarrow> is_state s = target) then tx_return target
           else tx_throw (Illegal_transition (''Concurrent transition on '' @ item_key) False)))
         else
           tx_bind (write_action_log eid aid
               (if target = ''returned'' then ''item_returned'' else ''item_issued'') audit
               (Some (JObj [(''event_item_key'', JStr item_key), (''from_state'', JStr from),
                            (''to_state'', JStr target)])))
             (\<lambda>_. tx_return target)))))))"

section \<open>Admin resets\<close>

definition reset_item_state_to_pending ::
  "tx_env \<Rightarrow> string \<Rightarrow> string \<Rightarrow> string \<Rightarrow> string \<Rightarrow> string \<Rightarrow> audit_ctx \<Rightarrow> bool ops_tx" where
  "reset_item_state_to_pending env aid eid iid item_key from audit =
     tx_bind (interfere (te_others env 2)) (\<lambda>_.
     tx_bind (move_item_state aid iid from ''pending'' (au_operator audit)) (\<lambda>updated.
     if updated = 0 then
       tx_bind (interfere (te_others env 3)) (\<lambda>_.
       tx_bind (tx_read (item_state_of aid iid)) (\<lambda>reread.
       if (case reread of None \<Rightarrow> False | Some s \<Rightarrow> is_state s = ''pending'') then tx_return False
       else tx_throw (Illegal_transition (''Concurrent transition on '' @ item_key) False)))
     else
       tx_bind (write_action_log eid aid ''item_revoked'' audit
           (Some (JObj [(''event_item_key'', JStr item_key), (''from_state'', JStr from),
                        (''to_state'', JStr ''pending'')])))
         (\<lambda>_. tx_return True)))"

definition revoke_item_state ::
  "tx_env \<Rightarrow> string \<Rightarrow> string \<Rightarrow> string \<Rightarrow> audit_ctx \<Rightarrow> string ops_tx" where
  "revoke_item_state env aid eid item_key audit =
     tx_bind (load_attendee_for_item_action aid eid) (\<lambda>attendee.
     if \<not> is_admittable (lk_status attendee)
     then tx_throw (Illegal_transition ''Attendee's pass is not active'' False)
     else
       tx_bind (tx_read (find_item eid item_key)) (\<lambda>found.
       case found of
         None \<Rightarrow> tx_throw (Illegal_transition ''Item not found or disabled'' False)
       | Some item \<Rightarrow>
         tx_bind (tx_read (item_state_of aid (ei_id item))) (\<lambda>current.
         let from = (case current of None \<Rightarrow> ''pending'' | Some s \<Rightarrow> is_state s) in
         if from \<notin> set revocable_item_states then tx_return from
         else tx_bind (reset_item_state_to_pending env aid eid (ei_id item) item_key from audit)
                (\<lambda>_. tx_return ''pending''))))"

definition revocable_states_of :: "string \<Rightarrow> string \<Rightarrow> ops_db \<Rightarrow> item_state list" where
  "revocable_states_of aid eid db =
     filter (\<lambda>s. is_attendee_id s = aid \<and> is_state s \<in> set revocable_item_states \<and>
       (\<exists>i \<in> set (event_items db). ei_id i = is_event_item_id s \<and> ei_event_id i = eid))
       (item_states db)"

definition reset_all_item_states_for_revoke ::
  "tx_env \<Rightarrow> string \<Rightarrow> string \<Rightarrow> audit_ctx \<Rightarrow> nat ops_tx" where
  "reset_all_item_states_for_revoke env aid eid audit =
     tx_bind (load_attendee_for_item_action aid eid) (\<lambda>attendee.
     if \<not> is_admittable (lk_status attendee)
     then tx_throw (Illegal_transition ''Attendee's pass is not active'' False)
     else
       tx_bind (tx_read (revocable_states_of aid eid)) (\<lambda>states.
       if states = [] then tx_return 0
       else
         tx_bind (tx_read (\<lambda>db. filter (\<lambda>i. ei_id i \<in> set (map is_event_item_id states) \<and>
                                          ei_event_id i = eid) (event_items db)))
           (\<lambda>items. let key_by_id = map_of (rev (map (\<lambda>i. (ei_id i, ei_key i)) items)) in
           tx_fold (\<lambda>s reset_count.
               tx_bind (reset_item_state_to_pending env aid eid (is_event_item_id s)
                   (case key_by_id (is_event_item_id s) of None \<Rightarrow> ''undefined'' | Some k \<Rightarrow> k)
                   (is_state s) audit)
                 (\<lambda>did_reset. tx_return (if did_reset then Suc reset_count else reset_count)))
             states 0)))"

definition rollback_badge_for_check_in ::
  "string \<Rightarrow> string \<Rightarrow> string \<Rightarrow> audit_ctx \<Rightarrow> unit ops_tx" where
  "rollback_badge_for_check_in aid eid check_in_id audit =
     tx_bind (tx_read (\<lambda>db. List.find (\<lambda>r. lg_event_id r = eid \<and> lg_attendee_id r = Some aid \<and>
          lg_action_type r = ''item_issued'' \<and>
          prop_of (lg_metadata r) ''check_in_id'' = Some (JStr check_in_id)) (action_logs db)))
       (\<lambda>badge_log. case badge_log of None \<Rightarrow> tx_return () | Some _ \<Rightarrow>
     tx_bind (tx_read (find_item eid ''badge'')) (\<lambda>badge_item.
     case badge_item of None \<Rightarrow> tx_return () | Some item \<Rightarrow>
     tx_bind (move_item_state aid (ei_id item) ''issued'' ''pending'' (au_operator audit))
       (\<lambda>updated.
       if updated = 0 then tx_return ()
       else tx_bind (write_action_log eid aid ''item_returned'' audit
              (Some (JObj [(''event_item_key'', JStr ''badge''),
                           (''check_in_id'', JStr check_in_id),
                           (''reason'', JStr ''check_in_undo'')])))
              (\<lambda>_. tx_return ()))))"

section \<open>What the single writes do\<close>

lemma default_badge_item_simps [simp]:
  "ei_event_id (default_badge_item md5 eid) = eid"
  "ei_key (default_badge_item md5 eid) = badge_item_key"
  "ei_enabled (default_badge_item md5 eid)"
  by (simp_all add: default_badge_item_def)

lemma ensure_badge_event_itemE:
  assumes m: "ensure_badge_event_item env eid db = Inr (u, db')"
  obtains "db' = db"
  | "\<forall>i \<in> set (event_items db). ei_id i \<noteq> ei_id (default_badge_item (te_md5 env) eid) \<and>
       \<not> (ei_event_id i = eid \<and> ei_key i = badge_item_key)"
    "db' = db\<lparr>event_items := event_items db @ [default_badge_item (te_md5 env) eid]\<rparr>"
proof -
  have "db' = db \<or>
    (\<forall>i \<in> set (event_items db). ei_id i \<noteq> ei_id (default_badge_item (te_md5 env) eid) \<and>
       \<not> (ei_event_id i = eid \<and> ei_key i = badge_item_key)) \<and>
    db' = db\<lparr>event_items := event_items db @ [default_badge_item (te_md5 env) eid]\<rparr>"
  proof (cases "find_item eid badge_item_key db")
    case None
    then show ?thesis
      using m by (simp add: ensure_badge_event_item_def Let_def split: if_splits)
  next
    case (Some i)
    then show ?thesis using m by (simp add: ensure_badge_event_item_def)
  qed
  with that show ?thesis by blast
qed

lemma move_item_state_Inr:
  "move_item_state aid iid from to_state operator db = Inr (n, db') \<longleftrightarrow>
   n = count_where (\<lambda>s. is_attendee_id s = aid \<and> is_event_item_id s = iid \<and> is_state s = from)
         (item_states db) \<and>
   db' = db\<lparr>item_states := update_where
         (\<lambda>s. is_attendee_id s = aid \<and> is_event_item_id s = iid \<and> is_state s = from)
         (\<lambda>s. s\<lparr>is_state := to_state, is_updated_by := operator\<rparr>) (item_states db)\<rparr>"
  by (auto simp: move_item_state_def Let_def)

end
