(* ===== verification/Attendee_Card.thy ===== *)
theory Attendee_Card
  imports Event_Items
begin

text \<open>
  What the door operator sees: custom data (custom-data.ts), the custom-field registry
  (event-custom-fields.ts), the hint of an item (event-item-contents.ts), and the attendee card,
  the name lookup and the door statistics (attendee-card.ts). Instants stay numbers where the
  code formats them as ISO text.
\<close>

section \<open>Custom data\<close>

definition trimmed_prop :: "json \<Rightarrow> string \<Rightarrow> string option" where
  "trimmed_prop raw k =
     (case prop_of raw k of Some (JStr v) \<Rightarrow> non_empty (js_trim v) | _ \<Rightarrow> None)"

definition parse_custom_data :: "json \<Rightarrow> string option \<times> string option" where
  "parse_custom_data raw = (trimmed_prop raw ''company'', trimmed_prop raw ''department'')"

definition custom_data_value :: "json \<Rightarrow> string \<Rightarrow> string option" where
  "custom_data_value raw field = trimmed_prop raw field"

definition or_else :: "'a option \<Rightarrow> 'a option \<Rightarrow> 'a option" where
  "or_else x y = (case x of None \<Rightarrow> y | Some v \<Rightarrow> Some v)"

definition company_from_attendee :: "attendee \<Rightarrow> string option \<times> string option" where
  "company_from_attendee row =
     (let cd = parse_custom_data (att_custom_data row)
      in (or_else (fst cd) (att_company row), or_else (snd cd) (att_department row)))"

section \<open>The custom-field registry\<close>

record item_content =
  ct_label :: string
  ct_source_field :: string
  ct_type :: string
  ct_required :: bool
  ct_options :: "string list option"

fun string_options :: "json \<Rightarrow> string list option" where
  "string_options (JArr xs) =
     (let os = concat (map (\<lambda>o'. case o' of JStr s \<Rightarrow> [s] | _ \<Rightarrow> []) xs)
      in if os = [] then None else Some os)"
| "string_options _ = None"

definition load_event_custom_data_fields :: "string \<Rightarrow> ops_db \<Rightarrow> item_content list" where
  "load_event_custom_data_fields eid db =
     map (\<lambda>row. \<lparr>ct_label = cf_label row, ct_source_field = cf_source_field row,
                  ct_type = cf_type row, ct_required = cf_required row,
                  ct_options = string_options (cf_options row)\<rparr>)
       (sort_key (\<lambda>row. (cf_created_at row, cf_id row))
          (filter (\<lambda>row. cf_event_id row = eid) (custom_fields db)))"

section \<open>Operator hints\<close>

definition detail_separator :: string where
  "detail_separator = [CHR 0x20, CHR 0xB7, CHR 0x20]"

definition boolean_true :: "string list" where
  "boolean_true = [''true'', ''yes'', ''1'']"

definition boolean_false :: "string list" where
  "boolean_false = [''false'', ''no'', ''0'']"

definition format_content_value :: "string \<Rightarrow> string \<Rightarrow> string" where
  "format_content_value ty value =
     (if ty = ''boolean'' then
        let lower = js_lower (js_trim value) in
        if lower \<in> set boolean_true then ''Yes''
        else if lower \<in> set boolean_false then ''No'' else value
      else value)"

definition label_with_required :: "string \<Rightarrow> bool \<Rightarrow> string" where
  "label_with_required label required = (if required then label @ ''*'' else label)"

definition resolve_content_field_keys :: "json \<Rightarrow> string list" where
  "resolve_content_field_keys config =
     (case prop_of config ''content_fields'' of
        Some (JArr fs) \<Rightarrow> concat (map (\<lambda>f. case f of JStr s \<Rightarrow> [s] | _ \<Rightarrow> []) fs)
      | _ \<Rightarrow> [])"

definition item_detail_part :: "json \<Rightarrow> item_content \<Rightarrow> string list" where
  "item_detail_part custom_data field =
     (let display = label_with_required (ct_label field) (ct_required field) in
      case custom_data_value custom_data (ct_source_field field) of
        Some value \<Rightarrow> [display @ '': '' @ format_content_value (ct_type field) value]
      | None \<Rightarrow> if ct_required field then [display @ '': -''] else [])"

definition build_item_detail ::
  "json \<Rightarrow> json \<Rightarrow> (string \<rightharpoonup> item_content) \<Rightarrow> string option" where
  "build_item_detail config custom_data registry =
     (let keys = resolve_content_field_keys config;
          parts = concat (map (\<lambda>key. case registry key of None \<Rightarrow> []
                                     | Some field \<Rightarrow> item_detail_part custom_data field) keys)
      in if keys = [] then None
         else if parts = [] then None else Some (join_with detail_separator parts))"

section \<open>The card\<close>

record card_item =
  cdi_key :: string
  cdi_label :: string
  cdi_description :: "string option"
  cdi_icon :: "string option"
  cdi_state :: string
  cdi_actions :: "string list"
  cdi_detail :: "string option"

record card_note =
  cdn_body :: string
  cdn_author_display :: string
  cdn_created_at :: int

record attendee_card =
  cd_id :: string
  cd_name :: string
  cd_company :: "string option"
  cd_department :: "string option"
  cd_ticket_type :: "string option"
  cd_admitted_at :: "int option"
  cd_items :: "card_item list"
  cd_notes :: "card_note list"
  cd_blocked :: bool

text \<open>\<open>check_in_status\<close> of the card.\<close>

definition cd_check_in_status :: "attendee_card \<Rightarrow> string" where
  "cd_check_in_status cd = (if cd_admitted_at cd \<noteq> None then ''admitted'' else ''not_admitted'')"

definition card_notes_limit :: nat where "card_notes_limit = 5"
definition lookup_limit :: nat where "lookup_limit = 20"

definition author_label :: "ops_db \<Rightarrow> string \<Rightarrow> string" where
  "author_label db uid =
     (case List.find (\<lambda>u. us_id u = uid) (users db) of
        None \<Rightarrow> ''Operator''
      | Some u \<Rightarrow> (if truthy (us_display_name u) then the (us_display_name u)
                   else if us_email u \<noteq> [] then us_email u else ''Operator''))"

definition card_items_of :: "ops_db \<Rightarrow> attendee \<Rightarrow> card_item list" where
  "card_items_of db a =
     (let eid = att_event_id a;
          items = sort_key ei_key
            (filter (\<lambda>i. ei_event_id i = eid \<and> ei_enabled i) (event_items db));
          fields_by_key = map_of (rev (map (\<lambda>f. (ct_source_field f, f))
            (load_event_custom_data_fields eid db)))
      in map (\<lambda>item.
           let state = (case item_state_of (att_id a) (ei_id item) db of
                          None \<Rightarrow> ''pending'' | Some s \<Rightarrow> is_state s)
           in \<lparr>cdi_key = ei_key item, cdi_label = ei_label item,
               cdi_description = ei_description item, cdi_icon = ei_icon item,
               cdi_state = state, cdi_actions = operator_item_actions state (ei_config item),
               cdi_detail = build_item_detail (ei_config item) (att_custom_data a) fields_by_key\<rparr>)
           items)"

definition card_notes_of :: "ops_db \<Rightarrow> attendee \<Rightarrow> card_note list" where
  "card_notes_of db a =
     map (\<lambda>n. \<lparr>cdn_body = nt_body n, cdn_author_display = author_label db (nt_author_user_id n),
               cdn_created_at = nt_created_at n\<rparr>)
       (take card_notes_limit (sort_key (\<lambda>n. - nt_created_at n)
          (filter (\<lambda>n. nt_attendee_id n = att_id a \<and> nt_event_id n = att_event_id a)
             (attendee_notes db))))"

definition build_card :: "ops_db \<Rightarrow> attendee \<Rightarrow> attendee_card" where
  "build_card db a =
     \<lparr>cd_id = att_id a, cd_name = att_name a,
      cd_company = fst (company_from_attendee a), cd_department = snd (company_from_attendee a),
      cd_ticket_type = att_ticket_type a, cd_admitted_at = att_admitted_at a,
      cd_items = card_items_of db a, cd_notes = card_notes_of db a,
      cd_blocked = (\<not> is_admittable (att_status a))\<rparr>"

definition get_attendee_card :: "tx_env \<Rightarrow> string \<Rightarrow> string \<Rightarrow> attendee_card option ops_tx" where
  "get_attendee_card env eid aid =
     tx_bind (tx_read (lock_attendee_row aid (Some eid))) (\<lambda>locked.
     if is_attendee_gone locked then tx_return None
     else
       tx_bind (tx_read (find_attendee aid eid)) (\<lambda>found.
       case found of None \<Rightarrow> tx_return None | Some attendee \<Rightarrow>
       tx_bind (ensure_attendee_item_states env aid eid) (\<lambda>_.
       tx_read (\<lambda>db. Some (build_card db attendee)))))"

section \<open>Lookup and statistics\<close>

fun contains_text :: "string \<Rightarrow> string \<Rightarrow> bool" where
  "contains_text q [] = (q = [])"
| "contains_text q (c # s) = (starts_with q (c # s) \<or> contains_text q s)"

text \<open>The database's case-insensitive \<open>contains\<close>.\<close>

definition contains_insensitive :: "string \<Rightarrow> string \<Rightarrow> bool" where
  "contains_insensitive q s \<longleftrightarrow> contains_text (js_lower q) (js_lower s)"

record lookup_result =
  lr_id :: string
  lr_name :: string
  lr_ticket_type :: "string option"
  lr_company :: "string option"
  lr_department :: "string option"
  lr_admitted :: bool

definition lookup_attendees :: "string \<Rightarrow> string \<Rightarrow> ops_db \<Rightarrow> lookup_result list" where
  "lookup_attendees eid query db =
     (let q = js_trim query in
      if q = [] then []
      else map (\<lambda>row. \<lparr>lr_id = att_id row, lr_name = att_name row,
                 lr_ticket_type = att_ticket_type row,
                 lr_company = fst (company_from_attendee row),
                 lr_department = snd (company_from_attendee row),
                 lr_admitted = (att_admitted_at row \<noteq> None \<and>
                                att_status row \<notin> set capacity_excluded_statuses)\<rparr>)
             (take lookup_limit (sort_key att_name
                (filter (\<lambda>a. att_event_id a = eid \<and> att_erased_at a = None \<and>
                   (contains_insensitive q (att_name a) \<or> contains_insensitive q (att_email a)))
                   (attendees db)))))"

definition get_check_in_stats :: "string \<Rightarrow> ops_db \<Rightarrow> nat \<times> nat" where
  "get_check_in_stats eid db =
     (let active = (\<lambda>a. att_event_id a = eid \<and> att_status a \<notin> set capacity_excluded_statuses)
      in (count_where (\<lambda>a. active a \<and> att_admitted_at a \<noteq> None) (attendees db),
          count_where active (attendees db)))"

end
