(* ===== verification/Ticket_Resolve.thy ===== *)
theory Ticket_Resolve
  imports Attendee_Card
begin

text \<open>
  Ticket URLs (packages/tickets/src/url.ts) and the resolver that turns a scanned value into an
  attendee (resolve.ts). The SHA-256 of hash.ts is a parameter. The resolver's answer is the
  attendee row and the mode; the copy of the event's columns into the answer is not modelled.
\<close>

section \<open>Tokens and URLs\<close>

definition token_char :: "char \<Rightarrow> bool" where
  "token_char c \<longleftrightarrow> (let n = of_char c :: nat in
     (65 \<le> n \<and> n \<le> 90) \<or> (97 \<le> n \<and> n \<le> 122) \<or> (48 \<le> n \<and> n \<le> 57) \<or> n = 95 \<or> n = 45)"

definition looks_like_internal_token :: "string \<Rightarrow> bool" where
  "looks_like_internal_token s \<longleftrightarrow> 40 \<le> length s \<and> length s \<le> 60 \<and> list_all token_char s"

definition ends_with_slash :: "string \<Rightarrow> bool" where
  "ends_with_slash s \<longleftrightarrow> s \<noteq> [] \<and> last s = CHR ''/''"

definition build_ticket_url :: "string \<Rightarrow> string \<Rightarrow> string" where
  "build_ticket_url base_url token =
     (if ends_with_slash base_url then butlast base_url else base_url) @ ''/t/'' @ token"

text \<open>The text after the last occurrence of a marker.\<close>

fun after_last :: "string \<Rightarrow> string \<Rightarrow> string option" where
  "after_last marker [] = None"
| "after_last marker (c # s) =
     (case after_last marker s of
        Some r \<Rightarrow> Some r
      | None \<Rightarrow> if starts_with marker (c # s) then Some (drop (length marker) (c # s)) else None)"

definition extract_token_from_url :: "string \<Rightarrow> string option" where
  "extract_token_from_url scanned =
     (let url_path = takeWhile (\<lambda>c. c \<noteq> CHR ''?'' \<and> c \<noteq> CHR ''#'') (js_trim scanned) in
      case after_last ''/t/'' url_path of
        None \<Rightarrow> None
      | Some path \<Rightarrow>
          let token = (if ends_with_slash path then butlast path else path)
          in if looks_like_internal_token token then Some token else None)"

section \<open>The resolver\<close>

datatype ticket_mode = Internal | Agency

record resolved_ticket =
  rt_mode :: ticket_mode
  rt_attendee :: attendee

definition raw_token_of :: "string \<Rightarrow> string option" where
  "raw_token_of scanned =
     or_else (extract_token_from_url scanned)
       (if looks_like_internal_token scanned then Some scanned else None)"

definition find_by_token_hash :: "string \<Rightarrow> string option \<Rightarrow> ops_db \<Rightarrow> attendee option" where
  "find_by_token_hash h eid db =
     (if truthy eid
      then List.find (\<lambda>a. att_token_hash a = Some h \<and> att_event_id a = the eid) (attendees db)
      else List.find (\<lambda>a. att_token_hash a = Some h) (attendees db))"

definition resolve_agency :: "string \<Rightarrow> string \<Rightarrow> ops_db \<Rightarrow> resolved_ticket option" where
  "resolve_agency scanned eid db =
     (let by_qr = take 2 (filter (\<lambda>a. att_event_id a = eid \<and> att_qr_payload a = Some scanned)
                            (attendees db));
          by_uuid = List.find (\<lambda>a. att_event_id a = eid \<and> att_external_uuid a = Some scanned)
                      (attendees db)
      in if length by_qr > 1 then None
         else case by_qr of
           q # _ \<Rightarrow> (case by_uuid of
               Some u \<Rightarrow> if att_id q \<noteq> att_id u then None
                         else Some \<lparr>rt_mode = Agency, rt_attendee = q\<rparr>
             | None \<Rightarrow> Some \<lparr>rt_mode = Agency, rt_attendee = q\<rparr>)
         | [] \<Rightarrow> map_option (\<lambda>u. \<lparr>rt_mode = Agency, rt_attendee = u\<rparr>) by_uuid)"

definition resolve_ticket ::
  "(string \<Rightarrow> string) \<Rightarrow> string \<Rightarrow> string option \<Rightarrow> ops_db \<Rightarrow> resolved_ticket option" where
  "resolve_ticket sha256 scanned eid db =
     (case (case raw_token_of scanned of None \<Rightarrow> None
            | Some raw \<Rightarrow> find_by_token_hash (sha256 raw) eid db) of
        Some row \<Rightarrow> Some \<lparr>rt_mode = Internal, rt_attendee = row\<rparr>
      | None \<Rightarrow> if \<not> truthy eid then None else resolve_agency scanned (the eid) db)"

section \<open>URL round trip\<close>

lemma token_charD:
  assumes "token_char c"
  shows "c \<noteq> CHR ''/''" "c \<noteq> CHR ''?''" "c \<noteq> CHR ''#''" "\<not> js_space c"
  using assms by (auto simp: token_char_def js_space_def Let_def)

lemma after_last_None:
  "\<lbrakk>marker \<noteq> []; hd marker \<notin> set s\<rbrakk> \<Longrightarrow> after_last marker s = None"
  by (induction s) (auto simp: starts_with_append neq_Nil_conv)

lemma after_last_append:
  "after_last marker s = Some r \<Longrightarrow> after_last marker (p @ s) = Some r"
  by (induction p) auto

lemma after_last_t:
  assumes "CHR ''/'' \<notin> set token"
  shows "after_last ''/t/'' (p @ ''/t/'' @ token) = Some token"
proof (rule after_last_append)
  have none: "after_last ''/t/'' token = None"
    using assms by (intro after_last_None) auto
  have "\<not> starts_with ''/t/'' (CHR ''/'' # token)"
    using assms by (auto simp: starts_with_append)
  then show "after_last ''/t/'' (''/t/'' @ token) = Some token"
    using none by (simp add: starts_with_append)
qed

lemma trim_id:
  assumes "s \<noteq> []" "\<not> js_space (hd s)" "\<not> js_space (last s)"
  shows "js_trim s = s"
proof -
  have "trim_start s = s" using assms by (cases s) (auto simp: trim_start_def)
  moreover have "trim_end s = s"
    using assms by (cases s rule: rev_cases) (auto simp: trim_end_def)
  ultimately show ?thesis by (simp add: js_trim_def)
qed

lemma looks_like_internal_tokenD:
  assumes "looks_like_internal_token t"
  shows "t \<noteq> []" "CHR ''/'' \<notin> set t" "CHR ''?'' \<notin> set t" "CHR ''#'' \<notin> set t"
    "\<not> js_space (last t)" "\<not> ends_with_slash t"
proof -
  from assms have ne: "t \<noteq> []" and all: "\<And>c. c \<in> set t \<Longrightarrow> token_char c"
    by (auto simp: looks_like_internal_token_def list_all_iff)
  show "t \<noteq> []" by (rule ne)
  show "CHR ''/'' \<notin> set t" "CHR ''?'' \<notin> set t" "CHR ''#'' \<notin> set t"
    using all token_charD by blast+
  show "\<not> js_space (last t)" "\<not> ends_with_slash t"
    using all [OF last_in_set [OF ne]] token_charD by (auto simp: ends_with_slash_def)
qed

lemma extract_built_url:
  assumes tok: "looks_like_internal_token token"
    and base: "\<forall>c \<in> set base. c \<noteq> CHR ''?'' \<and> c \<noteq> CHR ''#''"
    and start: "base \<noteq> []" "\<not> js_space (hd base)" "base \<noteq> ''/''"
  shows "extract_token_from_url (build_ticket_url base token) = Some token"
proof -
  note t = looks_like_internal_tokenD [OF tok]
  define p where "p = (if ends_with_slash base then butlast base else base)"
  define url where "url = p @ ''/t/'' @ token"
  have p_ne: "p \<noteq> []" and hd_p: "hd p = hd base" and p_set: "set p \<subseteq> set base"
    using start by (cases base rule: rev_cases; auto simp: p_def ends_with_slash_def hd_append)+
  have trim: "js_trim url = url"
    using p_ne hd_p start t by (intro trim_id) (auto simp: url_def hd_append)
  have tw: "takeWhile (\<lambda>c. c \<noteq> CHR ''?'' \<and> c \<noteq> CHR ''#'') url = url"
    using p_set base t by (auto simp: url_def takeWhile_eq_all_conv)
  have al: "after_last ''/t/'' url = Some token"
    unfolding url_def using t(2) by (rule after_last_t)
  have built: "build_ticket_url base token = url"
    by (simp add: build_ticket_url_def url_def p_def)
  show ?thesis
    by (simp add: extract_token_from_url_def built trim tw al tok t(6))
qed

end
