(* ===== verification/Check_In.thy ===== *)
theory Check_In
  imports Ticket_Resolve
begin

text \<open>
  Admission: the compare-and-set path of packages/tickets/src/admit.ts, the scan entry point and
  the recent list of checkin.ts. Point 0 of the interference lies between reading the attendee and
  the compare-and-set (the row lock taken before excludes erasures only), point 1 between a failed
  compare-and-set and reading the row again; points 4 to 6 lie between the statements and
  transactions of a scan. Locks taken before the first read (the device lock) leave no trace: the
  state a transaction starts from is the one it finds once it holds them.
\<close>

record admit_params =
  ap_attendee_id :: string
  ap_event_id :: string
  ap_method :: string
  ap_audit :: audit_ctx
  ap_notes :: "string option"

datatype check_in_result =
    Ci_valid attendee_card int
  | Ci_already attendee_card int
  | Ci_revoked attendee_card
  | Ci_invalid
  | Ci_preview attendee_card string

section \<open>Admission\<close>

definition require_card :: "tx_env \<Rightarrow> string \<Rightarrow> string \<Rightarrow> attendee_card ops_tx" where
  "require_card env eid aid =
     tx_bind (get_attendee_card env eid aid) (\<lambda>found.
     case found of
       None \<Rightarrow> tx_throw (Plain_error (''Attendee card missing for '' @ aid))
     | Some cd \<Rightarrow> tx_return cd)"

definition admission_row :: "tx_env \<Rightarrow> admit_params \<Rightarrow> check_in_status \<Rightarrow> int \<Rightarrow> check_in" where
  "admission_row env p status at =
     \<lparr>ci_id = te_fresh_id env (ap_attendee_id p), ci_attendee_id = ap_attendee_id p,
      ci_event_id = ap_event_id p, ci_checked_in_at = at, ci_status = status,
      ci_checked_in_by = au_operator (ap_audit p), ci_source = Some (ap_method p),
      ci_notes = Option.bind (ap_notes p) (\<lambda>n. non_empty (js_trim n)),
      ci_device_id = au_device_id (ap_audit p), ci_session_id = au_session_id (ap_audit p)\<rparr>"

text \<open>\<open>updateMany\<close> of the compare-and-set: not admitted yet and still admittable.\<close>

definition admit_cas :: "tx_env \<Rightarrow> admit_params \<Rightarrow> nat ops_tx" where
  "admit_cas env p db =
     (let hit = (\<lambda>a. att_id a = ap_attendee_id p \<and> att_event_id a = ap_event_id p \<and>
                     att_admitted_at a = None \<and> is_admittable (att_status a))
      in Inr (count_where hit (attendees db),
              db\<lparr>attendees := update_where hit
                   (\<lambda>a. a\<lparr>att_admitted_at := Some (te_now env),
                           att_admitted_by := au_operator (ap_audit p)\<rparr>) (attendees db)\<rparr>))"

definition admit_after_cas_failure :: "tx_env \<Rightarrow> admit_params \<Rightarrow> check_in_result ops_tx" where
  "admit_after_cas_failure env p =
     tx_bind (interfere (te_others env 1)) (\<lambda>_.
     tx_bind (tx_read (attendee_by_id (ap_attendee_id p))) (\<lambda>found.
     case found of
       None \<Rightarrow> tx_throw (Plain_error
         (''Consistency error: attendee '' @ ap_attendee_id p @ '' disappeared''))
     | Some current \<Rightarrow>
       if \<not> is_admittable (att_status current) then
         tx_bind (create_check_in (admission_row env p Revoked_pass (te_db_now env))) (\<lambda>_.
         tx_bind (require_card env (ap_event_id p) (ap_attendee_id p)) (\<lambda>cd.
         tx_return (Ci_revoked cd)))
       else case att_admitted_at current of
         None \<Rightarrow> tx_throw (Plain_error (''Consistency error: attendee '' @ ap_attendee_id p @
                    '' CAS count=0 but admitted_at is null''))
       | Some at \<Rightarrow>
         tx_bind (create_check_in (admission_row env p Already_checked_in (te_db_now env))) (\<lambda>_.
         tx_bind (require_card env (ap_event_id p) (ap_attendee_id p)) (\<lambda>cd.
         tx_return (Ci_already cd at)))))"

definition admit_after_cas :: "tx_env \<Rightarrow> admit_params \<Rightarrow> check_in_result ops_tx" where
  "admit_after_cas env p =
     tx_bind (create_check_in (admission_row env p Valid (te_now env))) (\<lambda>_.
     tx_bind (write_action_log (ap_event_id p) (ap_attendee_id p) ''check_in'' (ap_audit p)
        (Some (JObj [(''method'', JStr (ap_method p)),
                     (''check_in_id'', JStr (te_fresh_id env (ap_attendee_id p)))]))) (\<lambda>_.
     tx_bind (tx_read (load_event_ops_config (ap_event_id p))) (\<lambda>ops.
     tx_bind (if oc_badge_at_entry ops
              then issue_badge_on_check_in env (ap_attendee_id p) (ap_event_id p)
                     (te_fresh_id env (ap_attendee_id p)) (ap_audit p)
              else tx_return ()) (\<lambda>_.
     tx_bind (require_card env (ap_event_id p) (ap_attendee_id p)) (\<lambda>cd.
     tx_return (Ci_valid cd (te_now env)))))))"

definition admit_attendee :: "tx_env \<Rightarrow> admit_params \<Rightarrow> check_in_result ops_tx" where
  "admit_attendee env p =
     tx_bind (tx_read (lock_attendee_row (ap_attendee_id p) (Some (ap_event_id p)))) (\<lambda>locked.
     if is_attendee_gone locked then tx_return Ci_invalid
     else
       tx_bind (tx_read (find_attendee (ap_attendee_id p) (ap_event_id p))) (\<lambda>found.
       case found of None \<Rightarrow> tx_return Ci_invalid | Some attendee \<Rightarrow>
       tx_bind (require_card env (ap_event_id p) (ap_attendee_id p)) (\<lambda>cd.
       if \<not> is_admittable (att_status attendee) then
         tx_bind (create_check_in (admission_row env p Revoked_pass (te_db_now env)))
           (\<lambda>_. tx_return (Ci_revoked cd))
       else case att_admitted_at attendee of
         Some at \<Rightarrow>
           tx_bind (create_check_in (admission_row env p Already_checked_in (te_db_now env)))
             (\<lambda>_. tx_return (Ci_already cd at))
       | None \<Rightarrow>
           tx_bind (interfere (te_others env 0)) (\<lambda>_.
           tx_bind (admit_cas env p) (\<lambda>updated.
           if updated = 0 then admit_after_cas_failure env p else admit_after_cas env p)))))"

section \<open>Scanning\<close>

record scan_params =
  sp_scanned :: string
  sp_event_id :: string
  sp_audit :: audit_ctx

definition should_require_confirm_on_scan :: "string \<Rightarrow> ops_db \<Rightarrow> bool" where
  "should_require_confirm_on_scan eid db =
     oc_require_confirm_on_scan (load_event_ops_config eid db)"

definition record_revoked_scan :: "tx_env \<Rightarrow> scan_params \<Rightarrow> string \<Rightarrow> bool ops_tx" where
  "record_revoked_scan env p aid =
     tx_bind (tx_read (lock_attendee_row aid (Some (sp_event_id p)))) (\<lambda>locked.
     if is_attendee_gone locked then tx_return False
     else tx_bind (create_check_in
            \<lparr>ci_id = te_fresh_id env aid, ci_attendee_id = aid, ci_event_id = sp_event_id p,
             ci_checked_in_at = te_db_now env, ci_status = Revoked_pass,
             ci_checked_in_by = au_operator (sp_audit p), ci_source = Some ''scan'',
             ci_notes = None, ci_device_id = au_device_id (sp_audit p), ci_session_id = None\<rparr>)
          (\<lambda>_. tx_return True))"

definition preview_scan :: "tx_env \<Rightarrow> scan_params \<Rightarrow> string \<Rightarrow> attendee_card option ops_tx" where
  "preview_scan env p aid =
     tx_bind (get_attendee_card env (sp_event_id p) aid) (\<lambda>built.
     case built of None \<Rightarrow> tx_return None | Some cd \<Rightarrow>
     tx_bind (write_action_log (sp_event_id p) aid ''scan_preview'' (sp_audit p) None)
       (\<lambda>_. tx_return (Some cd)))"

definition check_in_scan ::
  "tx_env \<Rightarrow> (string \<Rightarrow> string) \<Rightarrow> scan_params \<Rightarrow> (ops_db, ops_error, check_in_result) op" where
  "check_in_scan env sha256 p =
     op_bind (op_read (resolve_ticket sha256 (sp_scanned p) (Some (sp_event_id p)))) (\<lambda>resolved.
     case resolved of None \<Rightarrow> op_return Ci_invalid | Some r \<Rightarrow>
     let attendee = rt_attendee r; aid = att_id attendee in
     op_bind (run_tx (interfere (te_others env 4))) (\<lambda>_.
     if \<not> is_admittable (att_status attendee) then
       op_bind (run_tx (get_attendee_card env (sp_event_id p) aid)) (\<lambda>found.
       case found of None \<Rightarrow> op_return Ci_invalid | Some cd \<Rightarrow>
       op_bind (run_tx (interfere (te_others env 5))) (\<lambda>_.
       op_bind (run_tx (record_revoked_scan env p aid)) (\<lambda>recorded.
       op_return (if recorded then Ci_revoked cd else Ci_invalid))))
     else
       op_bind (op_read (should_require_confirm_on_scan (sp_event_id p))) (\<lambda>require_confirm.
       op_bind (op_read (attendee_by_id aid)) (\<lambda>row.
       op_bind (run_tx (interfere (te_others env 6))) (\<lambda>_.
       if require_confirm \<and> (case row of None \<Rightarrow> True | Some a \<Rightarrow> att_admitted_at a = None) then
         op_bind (run_tx (preview_scan env p aid)) (\<lambda>found.
         op_return (case found of None \<Rightarrow> Ci_invalid | Some cd \<Rightarrow> Ci_preview cd aid))
       else run_tx (admit_attendee env
              \<lparr>ap_attendee_id = aid, ap_event_id = sp_event_id p, ap_method = ''scan'',
               ap_audit = sp_audit p, ap_notes = None\<rparr>))))))"

section \<open>Recent check-ins\<close>

definition safe_limit :: "int \<Rightarrow> nat" where
  "safe_limit limit = nat (max 1 (min limit 100))"

definition get_recent_check_ins :: "string \<Rightarrow> ops_db \<Rightarrow> int \<Rightarrow> check_in list" where
  "get_recent_check_ins eid db limit =
     take (safe_limit limit) (rev (sort_key (\<lambda>c. (ci_checked_in_at c, ci_id c))
       (filter (\<lambda>c. ci_event_id c = eid \<and>
          (\<exists>a \<in> set (attendees db). att_id a = ci_attendee_id c \<and>
             att_event_id a = ci_event_id c \<and> att_erased_at a = None) \<and>
          (case ci_source c of None \<Rightarrow> False
           | Some src \<Rightarrow> src \<in> set [''scan'', ''manual'', ''undo'', ''admin_revoke'']) \<and>
          ci_status c \<noteq> Already_checked_in) (check_ins db))))"

end
