(* ===== verification/Undo.thy ===== *)
theory Undo
  imports Check_In
begin

text \<open>
  Reversals of an admission (packages/tickets/src/undo.ts): the device's undo of its last
  check-in, and the admin's revocation of one attendee's admission. Point 7 of the interference
  lies where an undo waits for the admission lock, between selecting the check-in and validating
  it; from then on the row lock excludes other changes of that attendee's admission. A
  revocation takes that lock before its first read, so the state it starts from is the one it
  finds under the lock.
\<close>

section \<open>Selecting a check-in\<close>

definition one_hour_ms :: int where
  "one_hour_ms = 60 * 60 * 1000"

definition is_admission_row :: "check_in \<Rightarrow> bool" where
  "is_admission_row c \<longleftrightarrow> ci_status c = Valid \<and>
     (case ci_source c of None \<Rightarrow> False | Some src \<Rightarrow> src \<in> set [''scan'', ''manual''])"

definition last_valid_on_device :: "string \<Rightarrow> string option \<Rightarrow> ops_db \<Rightarrow> check_in option" where
  "last_valid_on_device eid device db =
     find_latest (\<lambda>c. (ci_checked_in_at c, ci_id c))
       (\<lambda>c. ci_event_id c = eid \<and> ci_device_id c = device \<and> is_admission_row c) (check_ins db)"

definition maybe_later_erased :: "string \<Rightarrow> string option \<Rightarrow> check_in \<Rightarrow> ops_db \<Rightarrow> bool" where
  "maybe_later_erased eid device lv db \<longleftrightarrow>
     (\<exists>c \<in> set (check_ins db). ci_event_id c = eid \<and> ci_device_id c = device \<and>
        is_admission_row c \<and> ci_checked_in_at c > ci_checked_in_at lv - one_hour_ms \<and>
        (\<exists>a \<in> set (attendees db). att_id a = ci_attendee_id c \<and>
           att_event_id a = ci_event_id c \<and> att_erased_at a \<noteq> None))"

text \<open>The log rows by which both reversal paths name the admission they reversed.\<close>

definition reversal_of :: "string \<Rightarrow> string \<Rightarrow> string \<Rightarrow> action_log \<Rightarrow> bool" where
  "reversal_of eid aid cid r \<longleftrightarrow>
     lg_event_id r = eid \<and> lg_attendee_id r = Some aid \<and>
     lg_action_type r \<in> set [''check_in_undo'', ''check_in_revoked''] \<and>
     prop_of (lg_metadata r) ''undone_check_in_id'' = Some (JStr cid)"

definition is_reversed :: "string \<Rightarrow> string \<Rightarrow> string \<Rightarrow> ops_db \<Rightarrow> bool" where
  "is_reversed eid aid cid db \<longleftrightarrow> (\<exists>r \<in> set (action_logs db). reversal_of eid aid cid r)"

definition newer_valid :: "string \<Rightarrow> check_in \<Rightarrow> ops_db \<Rightarrow> bool" where
  "newer_valid eid lv db \<longleftrightarrow>
     (\<exists>c \<in> set (check_ins db). ci_event_id c = eid \<and> ci_attendee_id c = ci_attendee_id lv \<and>
        is_admission_row c \<and> ci_checked_in_at c > ci_checked_in_at lv)"

definition current_admission_row :: "string \<Rightarrow> string \<Rightarrow> int \<Rightarrow> ops_db \<Rightarrow> check_in option" where
  "current_admission_row eid aid at db =
     find_latest (\<lambda>c. (ci_checked_in_at c, ci_id c))
       (\<lambda>c. ci_event_id c = eid \<and> ci_attendee_id c = aid \<and> is_admission_row c \<and>
            ci_checked_in_at c = at \<and> \<not> is_reversed eid aid (ci_id c) db) (check_ins db)"

section \<open>Clearing the admission\<close>

definition clear_admission :: "string \<Rightarrow> string \<Rightarrow> int \<Rightarrow> nat ops_tx" where
  "clear_admission eid aid at db =
     (let hit = (\<lambda>a. att_id a = aid \<and> att_event_id a = eid \<and> att_admitted_at a = Some at)
      in Inr (count_where hit (attendees db),
              db\<lparr>attendees := update_where hit
                   (\<lambda>a. a\<lparr>att_admitted_at := None, att_admitted_by := None\<rparr>) (attendees db)\<rparr>))"

definition undo_row :: "tx_env \<Rightarrow> string \<Rightarrow> string \<Rightarrow> string \<Rightarrow> audit_ctx \<Rightarrow> string \<Rightarrow> check_in" where
  "undo_row env aid eid source audit why =
     \<lparr>ci_id = te_fresh_id env aid, ci_attendee_id = aid, ci_event_id = eid,
      ci_checked_in_at = te_db_now env, ci_status = Undone, ci_checked_in_by = au_operator audit,
      ci_source = Some source, ci_notes = Some why, ci_device_id = au_device_id audit,
      ci_session_id = None\<rparr>"

section \<open>The device's undo\<close>

definition not_allowed :: "string \<Rightarrow> 'a ops_tx" where
  "not_allowed msg = tx_throw (Undo_not_allowed msg)"

definition undo_validated :: "tx_env \<Rightarrow> string \<Rightarrow> audit_ctx \<Rightarrow> check_in \<Rightarrow> attendee_card ops_tx" where
  "undo_validated env eid audit lv =
     (let aid = ci_attendee_id lv in
      tx_bind (clear_admission eid aid (ci_checked_in_at lv)) (\<lambda>cleared.
      if cleared = 0
      then not_allowed ''Check-in could not be undone (concurrent change)''
      else
        tx_bind (create_check_in (undo_row env aid eid ''undo'' audit
                   (''Undo of check-in '' @ ci_id lv))) (\<lambda>_.
        tx_bind (rollback_badge_for_check_in aid eid (ci_id lv) audit) (\<lambda>_.
        tx_bind (write_action_log eid aid ''check_in_undo'' audit
                   (Some (JObj [(''undone_check_in_id'', JStr (ci_id lv))]))) (\<lambda>_.
        tx_bind (get_attendee_card env eid aid) (\<lambda>found.
        case found of
          None \<Rightarrow> tx_throw (Plain_error ''Attendee missing after undo'')
        | Some cd \<Rightarrow> tx_return cd))))))"

definition undo_last_check_in :: "tx_env \<Rightarrow> string \<Rightarrow> audit_ctx \<Rightarrow> attendee_card ops_tx" where
  "undo_last_check_in env eid audit =
     (if \<not> truthy (au_device_id audit) then not_allowed ''Device id required for undo''
      else
        tx_bind (tx_read (last_valid_on_device eid (au_device_id audit))) (\<lambda>selected.
        case selected of None \<Rightarrow> not_allowed ''No check-in to undo on this device'' | Some lv \<Rightarrow>
        tx_bind (interfere (te_others env 7)) (\<lambda>_.
        tx_bind (tx_read (lock_attendee_row (ci_attendee_id lv) (Some eid))) (\<lambda>locked.
        if (case locked of None \<Rightarrow> False | Some l \<Rightarrow> lk_erased l)
        then not_allowed ''Attendee data has been erased''
        else
        tx_bind (tx_read (maybe_later_erased eid (au_device_id audit) lv)) (\<lambda>maybe_later.
        if maybe_later then not_allowed ''Attendee data has been erased''
        else
        tx_bind (tx_read (find_attendee (ci_attendee_id lv) eid)) (\<lambda>found.
        case Option.bind found att_admitted_at of
          None \<Rightarrow> not_allowed ''Attendee is not currently admitted''
        | Some at \<Rightarrow>
        tx_bind (tx_read (is_reversed eid (ci_attendee_id lv) (ci_id lv))) (\<lambda>reversed.
        if reversed \<or> at \<noteq> ci_checked_in_at lv
        then not_allowed ''The selected check-in is no longer the current admission''
        else
        tx_bind (tx_read (newer_valid eid lv)) (\<lambda>newer.
        if newer then not_allowed ''A newer check-in exists for this guest''
        else undo_validated env eid audit lv))))))))"

section \<open>The admin's revocation\<close>

definition revoke_check_in_mutation ::
  "tx_env \<Rightarrow> string \<Rightarrow> string \<Rightarrow> audit_ctx \<Rightarrow> bool \<Rightarrow> string option ops_tx" where
  "revoke_check_in_mutation env eid aid audit reset_items =
     tx_bind (tx_read (lock_attendee_row aid (Some eid))) (\<lambda>locked.
     if (case locked of None \<Rightarrow> False | Some l \<Rightarrow> lk_erased l)
     then tx_throw (Illegal_transition ''Attendee data has been erased'' True)
     else
     tx_bind (tx_read (find_attendee aid eid)) (\<lambda>found.
     case Option.bind found att_admitted_at of
       None \<Rightarrow> not_allowed ''Attendee is not currently admitted''
     | Some at \<Rightarrow>
     tx_bind (tx_read (current_admission_row eid aid at)) (\<lambda>lv.
     tx_bind (clear_admission eid aid at) (\<lambda>cleared.
     if cleared = 0 then not_allowed ''Check-in could not be revoked (concurrent change)''
     else
     tx_bind (create_check_in (undo_row env aid eid ''admin_revoke'' audit
         (case lv of None \<Rightarrow> ''Revoked check-in (no VALID row found)''
                   | Some c \<Rightarrow> ''Revoked check-in '' @ ci_id c))) (\<lambda>_.
     tx_bind (if reset_items
              then tx_bind (reset_all_item_states_for_revoke env aid eid audit) (\<lambda>_. tx_return ())
              else tx_return ()) (\<lambda>_.
     tx_bind (write_action_log eid aid ''check_in_revoked'' audit
         (Some (JObj (case lv of None \<Rightarrow> []
                      | Some c \<Rightarrow> [(''undone_check_in_id'', JStr (ci_id c))])))) (\<lambda>_.
     tx_return (map_option ci_id lv))))))))"

definition revoke_check_in_tx ::
  "tx_env \<Rightarrow> string \<Rightarrow> string \<Rightarrow> audit_ctx \<Rightarrow> attendee_card ops_tx" where
  "revoke_check_in_tx env eid aid audit =
     tx_bind (revoke_check_in_mutation env eid aid audit True) (\<lambda>_.
     tx_bind (get_attendee_card env eid aid) (\<lambda>found.
     case found of
       None \<Rightarrow> tx_throw (Plain_error ''Attendee missing after revoke'')
     | Some cd \<Rightarrow> tx_return cd))"

definition revoke_check_in ::
  "tx_env \<Rightarrow> string \<Rightarrow> string \<Rightarrow> audit_ctx \<Rightarrow> (ops_db, ops_error, attendee_card) op" where
  "revoke_check_in env eid aid audit = run_tx (revoke_check_in_tx env eid aid audit)"

section \<open>Event-wide revocations\<close>

text \<open>
  The event-wide revocations (packages/tickets/src/bulk-revoke.ts). Every attendee has a
  transaction of their own with its own environment \<open>envs aid\<close>; point 8 of the interference is
  what others commit before it. The transactions of one chunk run concurrently in the code; they
  lock different attendee rows, and the model runs them in list order with interference between
  them. A transaction that throws anything but the two tolerated errors rejects the chunk after
  its other transactions have run.
\<close>

definition bulk_revoke_concurrency :: nat where
  "bulk_revoke_concurrency = 10"

fun chunk :: "'a list \<Rightarrow> nat \<Rightarrow> 'a list list" where
  "chunk items n =
     (if items = [] \<or> n = 0 then [] else take n items # chunk (drop n items) n)"

declare chunk.simps [simp del]

text \<open>\<open>Promise.all\<close> over one chunk: every operation runs, then the first failure rejects.\<close>

fun settle_all :: "('a \<Rightarrow> ('s, 'e, 'b) op) \<Rightarrow> 'a list \<Rightarrow> 's \<Rightarrow> ('e + 'b) list \<times> 's" where
  "settle_all f [] s = ([], s)"
| "settle_all f (x # xs) s =
     (case f x s of (r, s') \<Rightarrow> case settle_all f xs s' of (rs, s'') \<Rightarrow> (r # rs, s''))"

fun first_failure :: "('e + 'b) list \<Rightarrow> 'e + 'b list" where
  "first_failure [] = Inr []"
| "first_failure (Inl e # rs) = Inl e"
| "first_failure (Inr b # rs) = (case first_failure rs of Inl e \<Rightarrow> Inl e | Inr bs \<Rightarrow> Inr (b # bs))"

definition promise_all :: "('a \<Rightarrow> ('s, 'e, 'b) op) \<Rightarrow> 'a list \<Rightarrow> ('s, 'e, 'b list) op" where
  "promise_all f xs s = (case settle_all f xs s of (rs, s') \<Rightarrow> (first_failure rs, s'))"

definition skip_blocked_admission :: "ops_error \<Rightarrow> bool option" where
  "skip_blocked_admission err = (case err of
     Undo_not_allowed _ \<Rightarrow> Some False | Illegal_transition _ _ \<Rightarrow> Some False | _ \<Rightarrow> None)"

definition skip_blocked_items :: "ops_error \<Rightarrow> nat option" where
  "skip_blocked_items err = (case err of Illegal_transition _ _ \<Rightarrow> Some 0 | _ \<Rightarrow> None)"

definition revoke_one :: "(string \<Rightarrow> tx_env) \<Rightarrow> string \<Rightarrow> audit_ctx \<Rightarrow> string \<Rightarrow>
    (ops_db, ops_error, bool) op" where
  "revoke_one envs eid audit aid =
     op_bind (run_tx (interfere (te_others (envs aid) 8))) (\<lambda>_.
     op_catch (run_tx (tx_bind (revoke_check_in_mutation (envs aid) eid aid audit True)
                               (\<lambda>_. tx_return True)))
       skip_blocked_admission)"

definition admitted_live_ids :: "string \<Rightarrow> ops_db \<Rightarrow> string list" where
  "admitted_live_ids eid db =
     map att_id (filter (\<lambda>a. att_event_id a = eid \<and> att_admitted_at a \<noteq> None \<and>
                             att_erased_at a = None) (attendees db))"

definition revoke_all_check_ins_for_event ::
  "(string \<Rightarrow> tx_env) \<Rightarrow> string \<Rightarrow> audit_ctx \<Rightarrow> (ops_db, ops_error, nat) op" where
  "revoke_all_check_ins_for_event envs eid audit =
     op_bind (op_read (admitted_live_ids eid)) (\<lambda>admitted.
     if admitted = [] then op_return 0
     else op_fold (\<lambda>batch revoked_count.
            op_bind (promise_all (revoke_one envs eid audit) batch) (\<lambda>outcomes.
            op_return (revoked_count + length (filter (\<lambda>b. b) outcomes))))
          (chunk admitted bulk_revoke_concurrency) 0)"

definition reset_one :: "(string \<Rightarrow> tx_env) \<Rightarrow> string \<Rightarrow> audit_ctx \<Rightarrow> string \<Rightarrow>
    (ops_db, ops_error, nat) op" where
  "reset_one envs eid audit aid =
     op_bind (run_tx (interfere (te_others (envs aid) 8))) (\<lambda>_.
     op_catch (run_tx (reset_all_item_states_for_revoke (envs aid) aid eid audit))
       skip_blocked_items)"

definition reset_items_for_attendee_ids ::
  "(string \<Rightarrow> tx_env) \<Rightarrow> string list \<Rightarrow> string \<Rightarrow> audit_ctx \<Rightarrow> (ops_db, ops_error, nat) op" where
  "reset_items_for_attendee_ids envs ids eid audit =
     op_fold (\<lambda>batch revoked_count.
       op_bind (promise_all (reset_one envs eid audit) batch) (\<lambda>counts.
       op_return (revoked_count + sum_list counts)))
     (chunk ids bulk_revoke_concurrency) 0"

text \<open>\<open>[...new Set(xs)]\<close>: the first occurrence of every element, in order.\<close>

definition revoke_all_items_for_event ::
  "(string \<Rightarrow> tx_env) \<Rightarrow> string \<Rightarrow> audit_ctx \<Rightarrow> (ops_db, ops_error, nat) op" where
  "revoke_all_items_for_event envs eid audit =
     op_bind (op_read (\<lambda>db. filter (\<lambda>s. is_state s \<in> set revocable_item_states \<and>
         (\<exists>i \<in> set (event_items db). ei_id i = is_event_item_id s \<and> ei_event_id i = eid) \<and>
         (\<exists>a \<in> set (attendees db). att_id a = is_attendee_id s \<and> att_erased_at a = None))
         (item_states db))) (\<lambda>states.
     if states = [] then op_return 0
     else reset_items_for_attendee_ids envs (unique_in_order (map is_attendee_id states)) eid audit)"

definition revoke_items_for_attendees ::
  "(string \<Rightarrow> tx_env) \<Rightarrow> string \<Rightarrow> string list \<Rightarrow> audit_ctx \<Rightarrow> (ops_db, ops_error, nat) op" where
  "revoke_items_for_attendees envs eid ids audit =
     reset_items_for_attendee_ids envs (unique_in_order ids) eid audit"

end
