(* ===== verification/Notes.thy ===== *)
theory Notes
  imports Undo
begin

text \<open>
  Staff notes on an attendee (packages/tickets/src/notes.ts). The checks on the request run before
  the transaction; an erasure holds the attendee's row lock, so it lies entirely before or after.
\<close>

definition max_attendee_note_length :: nat where
  "max_attendee_note_length = 2000"

definition log_note ::
  "string \<Rightarrow> string \<Rightarrow> string \<Rightarrow> audit_ctx \<Rightarrow> (string \<times> json) list \<Rightarrow> unit ops_tx" where
  "log_note eid aid action audit metadata =
     tx_bind (write_action_log eid aid action audit (Some (JObj metadata))) (\<lambda>_. tx_return ())"

text \<open>\<open>attendeeNote.create\<close>: unique id, and the foreign key to the author.\<close>

definition create_note :: "attendee_note \<Rightarrow> unit ops_tx" where
  "create_note n db =
     (if \<exists>m \<in> set (attendee_notes db). nt_id m = nt_id n then Inl Unique_violation
      else if \<not> (\<exists>u \<in> set (users db). us_id u = nt_author_user_id n) then Inl Foreign_key_violation
      else Inr ((), db\<lparr>attendee_notes := attendee_notes db @ [n]\<rparr>))"

definition note_request ::
  "string \<Rightarrow> audit_ctx \<Rightarrow> (string \<Rightarrow> string \<Rightarrow> 'a ops_tx) \<Rightarrow> 'a ops_tx" where
  "note_request raw audit work =
     (let body = js_trim raw in
      if body = [] then tx_throw (Plain_error ''Note body required'')
      else case au_operator audit of
        None \<Rightarrow> tx_throw Operator_required
      | Some operator \<Rightarrow>
          if operator = [] then tx_throw Operator_required
          else if length body > max_attendee_note_length then tx_throw Note_too_long
          else work body operator)"

definition add_attendee_note ::
  "tx_env \<Rightarrow> string \<Rightarrow> string \<Rightarrow> string \<Rightarrow> audit_ctx \<Rightarrow> (string \<times> int) ops_tx" where
  "add_attendee_note env aid eid raw audit = note_request raw audit (\<lambda>body operator.
     tx_bind (tx_read (lock_attendee_row aid (Some eid))) (\<lambda>locked.
     if is_attendee_gone locked then tx_throw Attendee_not_found
     else
       let n = \<lparr>nt_id = te_fresh_id env aid, nt_attendee_id = aid, nt_event_id = eid,
                nt_author_user_id = operator, nt_body = body, nt_created_at = te_db_now env\<rparr> in
       tx_bind (create_note n) (\<lambda>_.
       tx_bind (log_note eid aid ''note_added'' audit [(''note_id'', JStr (nt_id n))]) (\<lambda>_.
       tx_return (nt_id n, nt_created_at n)))))"

definition find_note :: "string \<Rightarrow> string \<Rightarrow> string \<Rightarrow> ops_db \<Rightarrow> attendee_note option" where
  "find_note nid aid eid db =
     List.find (\<lambda>n. nt_id n = nid \<and> nt_attendee_id n = aid \<and> nt_event_id n = eid)
       (attendee_notes db)"

text \<open>What an edit and a deletion share: the row lock, then the note, or the error.\<close>

definition load_note :: "string \<Rightarrow> string \<Rightarrow> string \<Rightarrow> attendee_note ops_tx" where
  "load_note nid aid eid =
     tx_bind (tx_read (lock_attendee_row aid (Some eid))) (\<lambda>locked.
     case locked of
       None \<Rightarrow> tx_throw (Note_not_found False)
     | Some l \<Rightarrow>
         if lk_erased l then tx_throw (Note_not_found True)
         else tx_bind (tx_read (find_note nid aid eid)) (\<lambda>found.
           case found of None \<Rightarrow> tx_throw (Note_not_found False) | Some n \<Rightarrow> tx_return n))"

definition update_attendee_note ::
  "string \<Rightarrow> string \<Rightarrow> string \<Rightarrow> string \<Rightarrow> audit_ctx \<Rightarrow> (string \<times> string \<times> int) ops_tx" where
  "update_attendee_note aid eid nid raw audit = note_request raw audit (\<lambda>body operator.
     tx_bind (load_note nid aid eid) (\<lambda>n.
     if nt_author_user_id n \<noteq> operator then tx_throw Note_forbidden
     else
       tx_bind (tx_write (\<lambda>db. db\<lparr>attendee_notes := update_where (\<lambda>m. nt_id m = nt_id n)
                  (\<lambda>m. m\<lparr>nt_body := body\<rparr>) (attendee_notes db)\<rparr>)) (\<lambda>_.
       tx_bind (log_note eid aid ''note_updated'' audit [(''note_id'', JStr (nt_id n))]) (\<lambda>_.
       tx_return (nt_id n, body, nt_created_at n)))))"

definition delete_attendee_note ::
  "string \<Rightarrow> string \<Rightarrow> string \<Rightarrow> bool \<Rightarrow> audit_ctx \<Rightarrow> unit ops_tx" where
  "delete_attendee_note aid eid nid can_delete_any audit =
     (if \<not> truthy (au_operator audit) then tx_throw Operator_required
      else
        tx_bind (load_note nid aid eid) (\<lambda>n.
        if nt_author_user_id n \<noteq> the (au_operator audit) \<and> \<not> can_delete_any
        then tx_throw Note_forbidden
        else
          tx_bind (tx_write (\<lambda>db. db\<lparr>attendee_notes :=
                     filter (\<lambda>m. nt_id m \<noteq> nt_id n) (attendee_notes db)\<rparr>)) (\<lambda>_.
          log_note eid aid ''note_deleted'' audit
            [(''note_id'', JStr (nt_id n)), (''author_user_id'', JStr (nt_author_user_id n))])))"

end
