(* ===== verification/Tickets.thy ===== *)
theory Tickets
  imports Notes
begin

text \<open>
  Ticket issuance (packages/tickets/src/issue.ts). The token generator, the SHA-256 of hash.ts and
  the encryption (which may throw) are parameters, one minted token per attendee. Point 9 of the
  interference lies before a compare-and-set, point 10 before the re-read after a failed one.
\<close>

record mint_env =
  mi_token :: "string \<Rightarrow> string"
  mi_sha256 :: "string \<Rightarrow> string"
  mi_encrypt :: "string \<Rightarrow> ops_error + string"
  mi_base_url :: string
  mi_others :: interference

datatype not_issuable_cause = Reason_cancelled | Reason_revoked | Reason_erased

datatype issued_ticket =
    Ticket_issued string string string string
  | Ticket_already_issued string
  | Ticket_agency string string
  | Ticket_not_issuable string not_issuable_cause

section \<open>Classification\<close>

definition is_not_issuable_status :: "attendee_status \<Rightarrow> bool" where
  "is_not_issuable_status st \<longleftrightarrow> st = Cancelled \<or> st = Revoked"

definition not_issuable_reason :: "attendee_status \<Rightarrow> not_issuable_cause" where
  "not_issuable_reason st = (if st = Cancelled then Reason_cancelled else Reason_revoked)"

definition has_agency_identifier :: "attendee \<Rightarrow> bool" where
  "has_agency_identifier a \<longleftrightarrow> att_qr_payload a \<noteq> None \<or> att_external_uuid a \<noteq> None"

definition agency_qr_payload :: "attendee \<Rightarrow> string" where
  "agency_qr_payload a =
     (case att_qr_payload a of Some q \<Rightarrow> q | None \<Rightarrow> the (att_external_uuid a))"

definition classify_upfront :: "attendee \<Rightarrow> string \<Rightarrow> issued_ticket option" where
  "classify_upfront a aid =
     (if att_erased_at a \<noteq> None then Some (Ticket_not_issuable aid Reason_erased)
      else if is_not_issuable_status (att_status a)
      then Some (Ticket_not_issuable aid (not_issuable_reason (att_status a)))
      else if has_agency_identifier a then Some (Ticket_agency aid (agency_qr_payload a))
      else if att_token_hash a \<noteq> None then Some (Ticket_already_issued aid)
      else None)"

definition classify_after_cas_failure :: "attendee \<Rightarrow> string \<Rightarrow> issued_ticket option" where
  "classify_after_cas_failure a aid =
     (if att_erased_at a \<noteq> None then Some (Ticket_not_issuable aid Reason_erased)
      else if has_agency_identifier a then Some (Ticket_agency aid (agency_qr_payload a))
      else if is_not_issuable_status (att_status a)
      then Some (Ticket_not_issuable aid (not_issuable_reason (att_status a)))
      else if att_token_hash a \<noteq> None then Some (Ticket_already_issued aid)
      else None)"

section \<open>Minting\<close>

definition mintable :: "string \<Rightarrow> attendee \<Rightarrow> bool" where
  "mintable aid a \<longleftrightarrow> att_id a = aid \<and> att_token_hash a = None \<and> att_qr_payload a = None \<and>
     att_external_uuid a = None \<and> att_erased_at a = None \<and>
     att_status a \<notin> set [Cancelled, Revoked]"

text \<open>The unique key on \<open>token_hash\<close> is not modelled: a collision of two random tokens would roll the write back.\<close>

definition mint_cas :: "string \<Rightarrow> string \<Rightarrow> string \<Rightarrow> nat ops_tx" where
  "mint_cas aid h enc db =
     Inr (count_where (mintable aid) (attendees db),
          db\<lparr>attendees := update_where (mintable aid)
               (\<lambda>a. a\<lparr>att_token_hash := Some h, att_token_enc := Some enc\<rparr>) (attendees db)\<rparr>)"

text \<open>
  The part both entry points share. \<open>issueTicket\<close> runs its statements without a transaction:
  the only write is the last statement before a result, so nothing is left half done.
\<close>

definition mint_or_explain :: "mint_env \<Rightarrow> string \<Rightarrow> issued_ticket ops_tx" where
  "mint_or_explain env aid =
     (let token = mi_token env aid; h = mi_sha256 env token in
      case mi_encrypt env token of
        Inl err \<Rightarrow> tx_throw err
      | Inr enc \<Rightarrow>
        tx_bind (interfere (mi_others env 9)) (\<lambda>_.
        tx_bind (mint_cas aid h enc) (\<lambda>updated.
        if updated \<noteq> 0
        then tx_return (Ticket_issued aid token h (build_ticket_url (mi_base_url env) token))
        else
          tx_bind (interfere (mi_others env 10)) (\<lambda>_.
          tx_bind (tx_read (attendee_by_id aid)) (\<lambda>current.
          case current of
            None \<Rightarrow> tx_throw (Plain_error (''Attendee not found: '' @ aid))
          | Some a \<Rightarrow> (case classify_after_cas_failure a aid of
              Some r \<Rightarrow> tx_return r
            | None \<Rightarrow> tx_throw (Plain_error (''Ticket issuance failed for attendee '' @ aid))))))))"

definition issue_ticket :: "mint_env \<Rightarrow> string \<Rightarrow> issued_ticket ops_tx" where
  "issue_ticket env aid =
     tx_bind (tx_read (attendee_by_id aid)) (\<lambda>found.
     case found of
       None \<Rightarrow> tx_throw (Plain_error (''Attendee not found: '' @ aid))
     | Some a \<Rightarrow> (case classify_upfront a aid of
         Some r \<Rightarrow> tx_return r
       | None \<Rightarrow> mint_or_explain env aid))"

section \<open>Issuing for an event\<close>

record issue_summary =
  sum_issued :: nat
  sum_already_issued :: nat
  sum_agency :: nat
  sum_not_issuable :: nat

fun summarize_issued_results :: "issued_ticket list \<Rightarrow> issue_summary" where
  "summarize_issued_results [] =
     \<lparr>sum_issued = 0, sum_already_issued = 0, sum_agency = 0, sum_not_issuable = 0\<rparr>"
| "summarize_issued_results (r # rs) = (let s = summarize_issued_results rs in
     case r of
       Ticket_issued _ _ _ _ \<Rightarrow> s\<lparr>sum_issued := Suc (sum_issued s)\<rparr>
     | Ticket_already_issued _ \<Rightarrow> s\<lparr>sum_already_issued := Suc (sum_already_issued s)\<rparr>
     | Ticket_agency _ _ \<Rightarrow> s\<lparr>sum_agency := Suc (sum_agency s)\<rparr>
     | Ticket_not_issuable _ _ \<Rightarrow> s\<lparr>sum_not_issuable := Suc (sum_not_issuable s)\<rparr>)"

text \<open>
  The results by index: classified rows keep their answer, the others are minted in one
  transaction, in order, and every answer goes to its own index.
\<close>

fun pending_of :: "nat \<Rightarrow> attendee list \<Rightarrow> (nat \<times> string) list" where
  "pending_of i [] = []"
| "pending_of i (a # rows) =
     (case classify_upfront a (att_id a) of
        Some _ \<Rightarrow> pending_of (Suc i) rows
      | None \<Rightarrow> (i, att_id a) # pending_of (Suc i) rows)"

fun classified_of :: "nat \<Rightarrow> attendee list \<Rightarrow> nat \<rightharpoonup> issued_ticket" where
  "classified_of i [] = Map.empty"
| "classified_of i (a # rows) =
     (case classify_upfront a (att_id a) of
        Some r \<Rightarrow> (classified_of (Suc i) rows)(i \<mapsto> r)
      | None \<Rightarrow> classified_of (Suc i) rows)"

definition issue_tickets_for_event ::
  "mint_env \<Rightarrow> string \<Rightarrow> (issued_ticket list \<times> issue_summary) ops_tx" where
  "issue_tickets_for_event env eid =
     tx_bind (tx_read (event_by_id eid)) (\<lambda>event.
     case event of
       None \<Rightarrow> tx_throw (Plain_error (''Event not found: '' @ eid))
     | Some _ \<Rightarrow>
       tx_bind (tx_read (\<lambda>db. filter (\<lambda>a. att_event_id a = eid) (attendees db))) (\<lambda>rows.
       tx_bind (tx_fold (\<lambda>(index, aid) results_by_index.
                  tx_bind (mint_or_explain env aid) (\<lambda>r.
                  tx_return (results_by_index(index \<mapsto> r))))
                (pending_of 0 rows) (classified_of 0 rows)) (\<lambda>results_by_index.
       let results = map (\<lambda>i. the (results_by_index i)) [0..<length rows] in
       tx_return (results, summarize_issued_results results))))"

end
