(* ===== verification/Ops_Frame.thy ===== *)
theory Ops_Frame
  imports Tickets
begin

text \<open>
  What every event-day operation guarantees, proved once. The locales \<open>card_guarantee\<close>
  (what building an attendee card needs), \<open>item_guarantee\<close> (what the item operations and refused
  admissions need) and \<open>ops_guarantee\<close> (what granting and reversing an admission needs) state, for
  a relation between the state before and after, the laws of the single writes the code makes for
  the attendees it serves; inside them every operation is shown to satisfy the relation, whatever
  other transactions that satisfy it do in between. The interpretations are: the tables stay
  well-formed, only the rows of the served attendees change, the audit log only grows.
\<close>

definition add_item_states :: "string \<Rightarrow> event_item list \<Rightarrow> unit ops_tx" where
  "add_item_states aid items db =
     (if items = [] then Inr ((), db)
      else if \<not> (\<exists>a \<in> set (attendees db). att_id a = aid) then Inl Foreign_key_violation
      else Inr ((), db\<lparr>item_states := insert_missing_states
             (map (\<lambda>i. \<lparr>is_attendee_id = aid, is_event_item_id = ei_id i,
                          is_state = ''pending'', is_updated_by = None\<rparr>) items)
             (item_states db)\<rparr>))"

lemma ensure_attendee_item_states_eq:
  "ensure_attendee_item_states env aid eid =
     tx_bind (ensure_badge_event_item env eid) (\<lambda>_.
     tx_bind (tx_read (\<lambda>db. filter (\<lambda>i. ei_event_id i = eid \<and> ei_enabled i) (event_items db)))
       (add_item_states aid))"
  by (simp add: ensure_attendee_item_states_def add_item_states_def [abs_def])

lemma operator_transitions_values:
  "allowed_target f t \<Longrightarrow> t \<in> set attendee_item_state_values"
  by (auto simp: allowed_target_def operator_transitions_for_def attendee_item_state_values_def
           split: if_splits)

lemma state_values [simp]:
  "''pending'' \<in> set attendee_item_state_values" "''issued'' \<in> set attendee_item_state_values"
  "''returned'' \<in> set attendee_item_state_values"
  by (simp_all add: attendee_item_state_values_def)

locale card_guarantee = step_relation R for R :: "ops_db \<Rightarrow> ops_db \<Rightarrow> bool" +
  fixes served :: "string \<Rightarrow> bool" and env :: tx_env
  assumes badge_written: "tx_all R (ensure_badge_event_item env eid)"
    and states_written: "served aid \<Longrightarrow> tx_all R (add_item_states aid items)"
begin

lemma ensure_states_keeps [keeps_intros]:
  "served aid \<Longrightarrow> tx_all R (ensure_attendee_item_states env aid eid)"
  unfolding ensure_attendee_item_states_eq
  by (intro keeps_intros badge_written states_written)

lemma card_keeps [keeps_intros]: "served aid \<Longrightarrow> tx_all R (get_attendee_card env eid aid)"
  unfolding get_attendee_card_def by (intro keeps_intros)

lemma require_card_keeps [keeps_intros]: "served aid \<Longrightarrow> tx_all R (require_card env eid aid)"
  unfolding require_card_def by (intro keeps_intros)

end

definition reversal_actions :: "string set" where
  "reversal_actions = {''check_in_undo'', ''check_in_revoked''}"

locale item_guarantee = card_guarantee R served env
  for R :: "ops_db \<Rightarrow> ops_db \<Rightarrow> bool" and served :: "string \<Rightarrow> bool" and env :: tx_env +
  assumes check_in_written: "\<lbrakk>served (ci_attendee_id c); \<not> is_admission_row c\<rbrakk> \<Longrightarrow>
      tx_all R (create_check_in c)"
    and log_written: "\<lbrakk>lg_attendee_id r = Some aid; served aid; lg_action_type r \<notin> reversal_actions\<rbrakk> \<Longrightarrow>
      tx_all R (create_action_logs [r])"
    and state_moved: "\<lbrakk>served aid; to_state \<in> set attendee_item_state_values\<rbrakk> \<Longrightarrow>
      tx_all R (move_item_state aid iid from to_state operator)"
    and others_keep: "R db (te_others env k db)"
begin

lemma interfere_keeps [keeps_intros]: "tx_all R (interfere (te_others env k))"
  by (rule tx_all_interfere) (rule others_keep)

lemma log_keeps [keeps_intros]:
  assumes "served aid" "action \<notin> reversal_actions"
  shows "tx_all R (write_action_log eid aid action audit metadata)"
proof -
  have row: "tx_all R (create_action_logs [log_row eid (Some aid) action audit metadata])"
    by (rule log_written [OF _ assms(1)]) (use assms(2) in \<open>simp_all add: log_row_def\<close>)
  show ?thesis
    unfolding write_action_log_def by (intro keeps_intros row)
qed

lemma load_attendee_keeps [keeps_intros]: "tx_all R (load_attendee_for_item_action aid eid)"
  unfolding load_attendee_for_item_action_def by (intro keeps_intros)

lemma issue_badge_keeps [keeps_intros]:
  "served aid \<Longrightarrow> tx_all R (issue_badge_on_check_in env aid eid cid audit)"
  unfolding issue_badge_on_check_in_def
  by (intro keeps_intros state_moved) (simp_all add: reversal_actions_def)

lemma transition_keeps [keeps_intros]:
  assumes "served aid"
  shows "tx_all R (transition_item_state env aid eid key target audit)"
  unfolding transition_item_state_def Let_def
  using assms by (intro keeps_intros state_moved)
    (auto dest: operator_transitions_values simp: reversal_actions_def)

lemma reset_one_keeps [keeps_intros]:
  "served aid \<Longrightarrow> tx_all R (reset_item_state_to_pending env aid eid iid key from audit)"
  unfolding reset_item_state_to_pending_def
  by (intro keeps_intros state_moved) (simp_all add: reversal_actions_def)

lemma revoke_item_keeps [keeps_intros]:
  "served aid \<Longrightarrow> tx_all R (revoke_item_state env aid eid key audit)"
  unfolding revoke_item_state_def Let_def by (intro keeps_intros)

lemma reset_all_keeps [keeps_intros]:
  "served aid \<Longrightarrow> tx_all R (reset_all_item_states_for_revoke env aid eid audit)"
  unfolding reset_all_item_states_for_revoke_def Let_def by (intro keeps_intros)

lemma reset_part_keeps:
  "served aid \<Longrightarrow> tx_all R (if reset
     then tx_bind (reset_all_item_states_for_revoke env aid eid audit) (\<lambda>_. tx_return ())
     else tx_return ())"
  by (intro keeps_intros)

lemma rollback_badge_keeps [keeps_intros]:
  "served aid \<Longrightarrow> tx_all R (rollback_badge_for_check_in aid eid cid audit)"
  unfolding rollback_badge_for_check_in_def
  by (intro keeps_intros state_moved) (simp_all add: reversal_actions_def)

lemma refused_row_keeps:
  "\<lbrakk>served (ap_attendee_id p); status \<noteq> Valid\<rbrakk> \<Longrightarrow>
   tx_all R (create_check_in (admission_row env p status at))"
  by (rule check_in_written) (simp_all add: admission_row_def is_admission_row_def)

lemma lost_cas_keeps [keeps_intros]:
  "served (ap_attendee_id p) \<Longrightarrow> tx_all R (admit_after_cas_failure env p)"
  unfolding admit_after_cas_failure_def by (intro keeps_intros refused_row_keeps) simp_all

lemma undo_row_keeps [keeps_intros]:
  "served aid \<Longrightarrow> tx_all R (create_check_in (undo_row env aid eid source audit why))"
  by (rule check_in_written) (simp_all add: undo_row_def is_admission_row_def)

lemma not_allowed_keeps [keeps_intros]: "tx_all R (not_allowed msg)"
  unfolding not_allowed_def by (intro keeps_intros)

lemma revoked_scan_keeps [keeps_intros]:
  "served aid \<Longrightarrow> tx_all R (record_revoked_scan env p aid)"
  unfolding record_revoked_scan_def
  by (intro keeps_intros check_in_written) (simp_all add: is_admission_row_def)

lemma preview_keeps [keeps_intros]: "served aid \<Longrightarrow> tx_all R (preview_scan env p aid)"
  unfolding preview_scan_def by (intro keeps_intros) (simp_all add: reversal_actions_def)

lemma scan_keeps_if:
  assumes "\<And>aid. served aid" and admit: "\<And>q. ap_method q = ''scan'' \<Longrightarrow> tx_all R (admit_attendee env q)"
  shows "op_all R (check_in_scan env sha256 p)"
  unfolding check_in_scan_def Let_def
  using assms(1) by (intro keeps_intros admit) simp_all

end

locale ops_guarantee = item_guarantee R served env
  for R :: "ops_db \<Rightarrow> ops_db \<Rightarrow> bool" and served :: "string \<Rightarrow> bool" and env :: tx_env +
  assumes valid_written: "served (ci_attendee_id c) \<Longrightarrow> tx_all R (create_check_in c)"
    and reversal_written: "\<lbrakk>lg_attendee_id r = Some aid; served aid\<rbrakk> \<Longrightarrow> tx_all R (create_action_logs [r])"
    and admission_written: "served (ap_attendee_id p) \<Longrightarrow> tx_all R (admit_cas env p)"
    and admission_cleared: "served aid \<Longrightarrow> tx_all R (clear_admission eid aid at)"
begin

lemma any_log_keeps [keeps_intros]:
  assumes "served aid"
  shows "tx_all R (write_action_log eid aid action audit metadata)"
proof -
  have row: "tx_all R (create_action_logs [log_row eid (Some aid) action audit metadata])"
    by (rule reversal_written [OF _ assms]) (simp add: log_row_def)
  show ?thesis
    unfolding write_action_log_def by (intro keeps_intros row)
qed

lemma admission_row_keeps [keeps_intros]:
  "served (ap_attendee_id p) \<Longrightarrow> tx_all R (create_check_in (admission_row env p status at))"
  by (rule valid_written) (simp add: admission_row_def)

lemma admit_keeps [keeps_intros]:
  assumes "served (ap_attendee_id p)"
  shows "tx_all R (admit_attendee env p)"
  unfolding admit_attendee_def admit_after_cas_def
  using assms by (intro keeps_intros admission_written)

lemma undo_validated_keeps [keeps_intros]:
  assumes "served (ci_attendee_id lv)"
  shows "tx_all R (undo_validated env eid audit lv)"
  unfolding undo_validated_def Let_def
  using assms by (intro keeps_intros admission_cleared)

lemma revoke_mutation_keeps [keeps_intros]:
  assumes "served aid"
  shows "tx_all R (revoke_check_in_mutation env eid aid audit reset)"
  unfolding revoke_check_in_mutation_def
  using assms by (intro keeps_intros admission_cleared)

lemma revoke_tx_keeps [keeps_intros]:
  "served aid \<Longrightarrow> tx_all R (revoke_check_in_tx env eid aid audit)"
  unfolding revoke_check_in_tx_def by (intro keeps_intros)

lemma undo_keeps [keeps_intros]:
  assumes "\<And>aid. served aid"
  shows "tx_all R (undo_last_check_in env eid audit)"
  unfolding undo_last_check_in_def
  using assms by (intro keeps_intros)

lemma scan_keeps [keeps_intros]:
  assumes "\<And>aid. served aid"
  shows "op_all R (check_in_scan env sha256 p)"
  using assms by (intro scan_keeps_if admit_keeps)

end

end
