(* ===== verification/Ops_Guarantees.thy ===== *)
theory Ops_Guarantees
  imports Ops_Frame "HOL-Library.Sublist"
begin

text \<open>
  The three relations the operations of \<open>ops_guarantee\<close> satisfy on the model of the code: the
  tables stay well-formed, only the rows of the served attendees change, and the check-in history
  and the activity log only grow.
\<close>

definition quiet_env :: "tx_env \<Rightarrow> tx_env" where
  "quiet_env env = env\<lparr>te_others := quiet\<rparr>"

lemma quiet_env_others [simp]: "te_others (quiet_env env) k db = db"
  by (simp add: quiet_env_def)

section \<open>Well-formedness\<close>

definition wf_kept :: "ops_db \<Rightarrow> ops_db \<Rightarrow> bool" where
  "wf_kept s t \<longleftrightarrow> (wf_db s \<longrightarrow> wf_db t)"

lemma wf_attendees_cong:
  assumes keys: "map (\<lambda>a. (att_id a, att_event_id a)) xs =
                 map (\<lambda>a. (att_id a, att_event_id a)) (attendees db)"
    and wf: "wf_db db"
  shows "wf_db (db\<lparr>attendees := xs\<rparr>)"
proof -
  let ?k = "\<lambda>a. (att_id a, att_event_id a)"
  have ids: "map att_id xs = map att_id (attendees db)"
    using arg_cong [OF keys, of "map fst"] by (simp add: comp_def)
  have sets: "?k ` set xs = ?k ` set (attendees db)"
    using arg_cong [OF keys, of set] by simp
  have fk: "\<exists>e \<in> set (events db). ev_id e = att_event_id a" if "a \<in> set xs" for a
  proof -
    from that sets have "?k a \<in> ?k ` set (attendees db)" by blast
    then obtain b where "b \<in> set (attendees db)" "att_event_id b = att_event_id a" by auto
    with wf show ?thesis unfolding wf_db_def by metis
  qed
  have ci: "\<exists>a \<in> set xs. att_id a = ci_attendee_id c \<and> att_event_id a = ci_event_id c"
    if "c \<in> set (check_ins db)" for c
  proof -
    from wf that have "(ci_attendee_id c, ci_event_id c) \<in> ?k ` set (attendees db)"
      unfolding wf_db_def image_iff by (metis (no_types, lifting))
    then show ?thesis unfolding sets [symmetric] by auto
  qed
  show ?thesis
    using wf ids fk ci unfolding wf_db_def by simp
qed

lemma wf_attendees_update:
  assumes "wf_db db" "\<And>a. att_id (f a) = att_id a" "\<And>a. att_event_id (f a) = att_event_id a"
  shows "wf_db (db\<lparr>attendees := update_where p f (attendees db)\<rparr>)"
  using assms by (intro wf_attendees_cong map_update_where) auto

lemma insert_missing_states_set:
  "s \<in> set (insert_missing_states rs table) \<Longrightarrow> s \<in> set table \<or> s \<in> set rs"
  by (induction rs table rule: insert_missing_states.induct) (auto split: if_splits)

lemma insert_missing_states_distinct:
  assumes "distinct (map (\<lambda>s. (is_attendee_id s, is_event_item_id s)) table)"
  shows "distinct (map (\<lambda>s. (is_attendee_id s, is_event_item_id s)) (insert_missing_states rs table))"
  using assms
proof (induction rs table rule: insert_missing_states.induct)
  case (2 r rs table)
  then have "distinct (map (\<lambda>s. (is_attendee_id s, is_event_item_id s))
      (if \<exists>s\<in>set table. is_attendee_id s = is_attendee_id r \<and> is_event_item_id s = is_event_item_id r
       then table else table @ [r]))"
    by (cases "\<exists>s\<in>set table. is_attendee_id s = is_attendee_id r \<and>
                             is_event_item_id s = is_event_item_id r") auto
  from "2.IH" [OF this] show ?case by simp
qed simp

lemma wf_check_in_created: "tx_all wf_kept (create_check_in c)"
  by (rule tx_allI) (auto simp: wf_kept_def create_check_in_Inr wf_db_def)

lemma wf_log_created: "tx_all wf_kept (create_action_logs rows)"
  by (rule tx_allI) (auto simp: wf_kept_def create_action_logs_Inr wf_db_def)

lemma wf_badge_created: "tx_all wf_kept (ensure_badge_event_item env eid)"
proof (rule tx_allI)
  fix s u t assume "ensure_badge_event_item env eid s = Inr (u, t)"
  then show "wf_kept s t"
  proof (cases rule: ensure_badge_event_itemE)
    case 2
    have "(eid, badge_item_key) \<notin> (\<lambda>i. (ei_event_id i, ei_key i)) ` set (event_items s)"
      using 2(1) by (auto simp: image_iff)
    moreover have "ei_id (default_badge_item (te_md5 env) eid) \<notin> ei_id ` set (event_items s)"
      using 2(1) by (metis (no_types, lifting) image_iff)
    ultimately show ?thesis
      unfolding wf_kept_def wf_db_def 2(2) by simp
  qed (simp add: wf_kept_def)
qed

lemma wf_states_added: "tx_all wf_kept (add_item_states aid items)"
proof (rule tx_allI)
  fix s u t assume "add_item_states aid items s = Inr (u, t)"
  then show "wf_kept s t"
    by (auto simp: wf_kept_def add_item_states_def wf_db_def insert_missing_states_distinct
             dest!: insert_missing_states_set split: if_splits)
qed

lemma wf_state_moved:
  assumes "to_state \<in> set attendee_item_state_values"
  shows "tx_all wf_kept (move_item_state aid iid from to_state operator)"
proof (rule tx_allI)
  fix s u t assume m: "move_item_state aid iid from to_state operator s = Inr (u, t)"
  show "wf_kept s t"
    unfolding wf_kept_def
  proof
    assume wf: "wf_db s"
    let ?hit = "\<lambda>x. is_attendee_id x = aid \<and> is_event_item_id x = iid \<and> is_state x = from"
    let ?f = "\<lambda>x. x\<lparr>is_state := to_state, is_updated_by := operator\<rparr>"
    have t: "t = s\<lparr>item_states := update_where ?hit ?f (item_states s)\<rparr>"
      using m by (simp add: move_item_state_Inr)
    have keys: "map (\<lambda>x. (is_attendee_id x, is_event_item_id x)) (update_where ?hit ?f (item_states s)) =
                map (\<lambda>x. (is_attendee_id x, is_event_item_id x)) (item_states s)"
      by (rule map_update_where) simp
    have vals: "\<forall>x \<in> set (update_where ?hit ?f (item_states s)). is_state x \<in> set attendee_item_state_values"
      using wf assms by (auto simp: in_update_where wf_db_def)
    show "wf_db t"
      using wf keys vals by (simp add: t wf_db_def)
  qed
qed

lemma wf_cas: "tx_all wf_kept (admit_cas env p)"
  by (rule tx_allI) (auto simp: wf_kept_def admit_cas_def Let_def intro!: wf_attendees_update)

lemma wf_cleared: "tx_all wf_kept (clear_admission eid aid at)"
  by (rule tx_allI) (auto simp: wf_kept_def clear_admission_def Let_def intro!: wf_attendees_update)

lemma wf_guarantee:
  assumes "\<And>k db. wf_db db \<Longrightarrow> wf_db (te_others env k db)"
  shows "ops_guarantee wf_kept (\<lambda>_. True) env"
proof
qed (use assms in \<open>auto simp: wf_kept_def intro: wf_check_in_created wf_log_created
      wf_badge_created wf_states_added wf_state_moved wf_cas wf_cleared\<close>)

interpretation wf_rel: card_guarantee wf_kept "\<lambda>_. True" env for env
  by unfold_locales (auto simp: wf_kept_def wf_badge_created wf_states_added)

interpretation wf: ops_guarantee wf_kept "\<lambda>_. True" "quiet_env env" for env
  by (rule wf_guarantee) simp

lemma wf_badge_issue: "tx_all wf_kept (issue_badge_on_check_in env aid eid cid audit)"
proof -
  have log: "tx_all wf_kept (write_action_log eid aid action audit m)" for action m
    by (rule wf.any_log_keeps [OF TrueI])
  show ?thesis
    unfolding issue_badge_on_check_in_def
    by (intro keeps_intros wf_state_moved log) simp_all
qed

lemma wf_after_cas: "tx_all wf_kept (admit_after_cas env p)"
proof -
  have log: "tx_all wf_kept (write_action_log eid aid action audit m)" for eid aid action audit m
    by (rule wf.any_log_keeps [OF TrueI])
  show ?thesis
    unfolding admit_after_cas_def
    by (intro keeps_intros wf_check_in_created log wf_badge_issue) simp
qed

section \<open>The rows of other attendees\<close>

definition outside_of :: "string set \<Rightarrow> ops_db \<Rightarrow>
    attendee list \<times> check_in list \<times> item_state list \<times> attendee_note list \<times> action_log list" where
  "outside_of A db =
     (filter (\<lambda>a. att_id a \<notin> A) (attendees db), filter (\<lambda>c. ci_attendee_id c \<notin> A) (check_ins db),
      filter (\<lambda>s. is_attendee_id s \<notin> A) (item_states db),
      filter (\<lambda>n. nt_attendee_id n \<notin> A) (attendee_notes db),
      filter (\<lambda>r. lg_attendee_id r \<notin> Some ` A) (action_logs db))"

definition only_rows_of :: "string set \<Rightarrow> ops_db \<Rightarrow> ops_db \<Rightarrow> bool" where
  "only_rows_of A s t \<longleftrightarrow> outside_of A t = outside_of A s \<and> events t = events s \<and>
     custom_fields t = custom_fields s \<and> users t = users s"

lemma filter_update_where:
  "(\<And>x. p x \<Longrightarrow> \<not> q x) \<Longrightarrow> (\<And>x. q (f x) = q x) \<Longrightarrow>
   filter q (update_where p f xs) = filter q xs"
  by (induction xs) (auto simp: update_where_def)

lemma filter_insert_missing:
  "(\<And>r. r \<in> set rs \<Longrightarrow> is_attendee_id r = aid) \<Longrightarrow> aid \<in> A \<Longrightarrow>
   filter (\<lambda>s. is_attendee_id s \<notin> A) (insert_missing_states rs table) =
   filter (\<lambda>s. is_attendee_id s \<notin> A) table"
  by (induction rs table rule: insert_missing_states.induct) auto

lemma only_rows_check_in: "ci_attendee_id c \<in> A \<Longrightarrow> tx_all (only_rows_of A) (create_check_in c)"
  by (intro tx_allI) (auto simp: only_rows_of_def outside_of_def create_check_in_Inr)

lemma only_rows_log:
  "\<lbrakk>lg_attendee_id r = Some aid; aid \<in> A\<rbrakk> \<Longrightarrow> tx_all (only_rows_of A) (create_action_logs [r])"
  by (intro tx_allI) (auto simp: only_rows_of_def outside_of_def create_action_logs_Inr)

lemma only_rows_guarantee:
  assumes "\<And>k db. only_rows_of A db (te_others env k db)"
  shows "ops_guarantee (only_rows_of A) (\<lambda>aid. aid \<in> A) env"
proof
  fix eid show "tx_all (only_rows_of A) (ensure_badge_event_item env eid)"
    by (rule tx_allI)
       (auto simp: only_rows_of_def outside_of_def ensure_badge_event_item_def Let_def
             split: option.splits if_splits)
next
  fix aid items assume "aid \<in> A"
  then show "tx_all (only_rows_of A) (add_item_states aid items)"
    by (intro tx_allI)
       (auto simp: only_rows_of_def outside_of_def add_item_states_def split: if_splits
             intro!: filter_insert_missing [where aid = aid])
next
  fix aid iid from_state to_state operator assume "aid \<in> A"
  then show "tx_all (only_rows_of A) (move_item_state aid iid from_state to_state operator)"
    by (intro tx_allI)
       (auto simp: only_rows_of_def outside_of_def move_item_state_def Let_def
             intro!: filter_update_where)
next
  fix p :: admit_params assume "ap_attendee_id p \<in> A"
  then show "tx_all (only_rows_of A) (admit_cas env p)"
    by (intro tx_allI)
       (auto simp: only_rows_of_def outside_of_def admit_cas_def Let_def intro!: filter_update_where)
next
  fix aid eid at assume "aid \<in> A"
  then show "tx_all (only_rows_of A) (clear_admission eid aid at)"
    by (intro tx_allI)
       (auto simp: only_rows_of_def outside_of_def clear_admission_def Let_def
             intro!: filter_update_where)
next
  fix db k show "only_rows_of A db (te_others env k db)" by (rule assms)
qed (auto simp: only_rows_of_def intro: only_rows_check_in only_rows_log)

interpretation only_rows_rel: step_relation "only_rows_of A" for A
  by unfold_locales (auto simp: only_rows_of_def)

interpretation only_rows: ops_guarantee "only_rows_of A" "\<lambda>aid. aid \<in> A" "quiet_env env" for A env
  by (rule only_rows_guarantee) (simp add: only_rows_of_def)

section \<open>Append-only history\<close>

definition history_grows :: "ops_db \<Rightarrow> ops_db \<Rightarrow> bool" where
  "history_grows s t \<longleftrightarrow> prefix (action_logs s) (action_logs t) \<and> prefix (check_ins s) (check_ins t)"

lemma history_guarantee:
  assumes "\<And>k db. history_grows db (te_others env k db)"
  shows "ops_guarantee history_grows (\<lambda>_. True) env"
proof
  show "history_grows db (te_others env k db)" for db k by (rule assms)
  show "history_grows s u" if "history_grows s t" "history_grows t u" for s t u
    using that by (auto simp: history_grows_def intro: prefix_order.trans)
qed (auto intro!: tx_allI simp: history_grows_def create_check_in_Inr create_action_logs_Inr
      ensure_badge_event_item_def add_item_states_def move_item_state_def admit_cas_def
      clear_admission_def Let_def split: option.splits if_splits)

interpretation history_rel: card_guarantee history_grows "\<lambda>_. True" env for env
  by unfold_locales
     (auto intro: prefix_order.trans intro!: tx_allI simp: history_grows_def
        ensure_badge_event_item_def add_item_states_def Let_def split: option.splits if_splits)

interpretation history: ops_guarantee history_grows "\<lambda>_. True" "quiet_env env" for env
  by (rule history_guarantee) (simp add: history_grows_def)

lemma undo_validated_history: "tx_all history_grows (undo_validated env eid audit lv)"
proof -
  have card: "tx_all history_grows (get_attendee_card env eid aid)" for aid
    by (rule history_rel.card_keeps [OF TrueI])
  show ?thesis
    unfolding undo_validated_def Let_def undo_row_def
    by (intro keeps_intros card history.admission_cleared history.valid_written TrueI)
qed

end
