(* ===== verification/Ops_Sample.thy ===== *)
theory Ops_Sample
  imports Ops_Guarantees
begin

text \<open>
  A small event the witnesses evaluate on: one event, a registered guest \<open>a1\<close>, a guest \<open>a2\<close>
  whose data has been erased, a guest \<open>a3\<close> whose pass is cancelled, and one staff user.
\<close>

definition sample_guest :: "string \<Rightarrow> attendee" where
  "sample_guest aid =
     \<lparr>att_id = aid, att_event_id = ''e1'', att_email = aid @ ''@x.org'', att_name = ''Guest'',
      att_first_name = None, att_last_name = None, att_token_hash = None, att_token_enc = None,
      att_qr_payload = None, att_external_uuid = None, att_public_ref = None,
      att_ticket_type = None, att_company = None, att_department = None,
      att_custom_data = JNull, att_status = Registered, att_admitted_at = None,
      att_admitted_by = None, att_erased_at = None, att_client_timezone = None, att_rsvp_status = ''none''\<rparr>"

definition sample_db :: ops_db where
  "sample_db =
     \<lparr>attendees = [sample_guest ''a1'',
                   (sample_guest ''a2'')\<lparr>att_erased_at := Some 5\<rparr>,
                   (sample_guest ''a3'')\<lparr>att_status := Cancelled\<rparr>],
      check_ins = [], event_items = [], item_states = [], attendee_notes = [], action_logs = [],
      events = [\<lparr>ev_id = ''e1'', ev_organization_id = ''o1'', ev_ops_config = JNull,
                 ev_capacity = None, ev_archived_at = None, ev_timezone = ''UTC'', ev_slug = ''gala'',
                 ev_wallet_enabled = False, ev_wallet_template_id = None, ev_wallet_api_key_enc = None,
                 ev_wallet_apple_enabled = False, ev_wallet_google_enabled = False\<rparr>],
      custom_fields = [],
      users = [\<lparr>us_id = ''u1'', us_email = ''staff@x.org'', us_display_name = None\<rparr>],
      ticket_types = [], mail_deliveries = []\<rparr>"

definition sample_env :: tx_env where
  "sample_env = \<lparr>te_md5 = (\<lambda>s. s), te_now = 1000, te_db_now = 1000,
                 te_fresh_id = (\<lambda>aid. ''c-'' @ aid), te_others = quiet\<rparr>"

definition sample_audit :: audit_ctx where
  "sample_audit = \<lparr>au_operator = Some ''u1'', au_session_id = None, au_device_id = Some ''d1'',
                   au_ip = None, au_timezone = None\<rparr>"

definition sample_admit :: "string \<Rightarrow> admit_params" where
  "sample_admit aid = \<lparr>ap_attendee_id = aid, ap_event_id = ''e1'', ap_method = ''scan'',
                       ap_audit = sample_audit, ap_notes = None\<rparr>"

lemmas sample_defs = sample_db_def sample_guest_def sample_env_def sample_audit_def sample_admit_def

lemma sample_others [simp]: "te_others sample_env k db = db"
  by (simp add: sample_env_def)

lemma sample_wf: "wf_db sample_db"
  by (simp add: wf_db_def sample_defs)

lemma sample_find:
  "find_attendee ''a1'' ''e1'' sample_db = Some (sample_guest ''a1'')"
  "find_attendee ''a2'' ''e1'' sample_db = Some ((sample_guest ''a2'')\<lparr>att_erased_at := Some 5\<rparr>)"
  "find_attendee ''a3'' ''e1'' sample_db = Some ((sample_guest ''a3'')\<lparr>att_status := Cancelled\<rparr>)"
  by (simp_all add: find_attendee_def sample_defs)

end
