(* ===== verification/Admission.thy ===== *)
theory Admission
  imports Ops_Sample
begin

text \<open>
  What an admission does: the tables a card may touch, inversion of \<open>admit_attendee\<close> into its
  branches, its total correctness, and the refinement of an abstract door.
\<close>

section \<open>Building a card touches items only\<close>

definition items_only :: "ops_db \<Rightarrow> ops_db \<Rightarrow> bool" where
  "items_only s t \<longleftrightarrow> t = s\<lparr>event_items := event_items t, item_states := item_states t\<rparr>"

lemma items_onlyI:
  "\<lbrakk>attendees t = attendees s; check_ins t = check_ins s; attendee_notes t = attendee_notes s;
    action_logs t = action_logs s; events t = events s; custom_fields t = custom_fields s;
    users t = users s \<and>
     ticket_types t = ticket_types s \<and> mail_deliveries t = mail_deliveries s\<rbrakk> \<Longrightarrow> items_only s t"
  by (simp add: items_only_def)

lemma items_onlyD:
  assumes "items_only s t"
  shows "attendees t = attendees s" "check_ins t = check_ins s"
    "attendee_notes t = attendee_notes s" "action_logs t = action_logs s"
    "events t = events s" "custom_fields t = custom_fields s" "users t = users s \<and>
     ticket_types t = ticket_types s \<and> mail_deliveries t = mail_deliveries s"
  using assms by (simp_all add: items_only_def) (metis (no_types) ops_db.select_convs ops_db.surjective ops_db.update_convs)+

lemma items_only_guarantee: "card_guarantee items_only (\<lambda>_. True) env"
proof
  show "items_only s s" for s by (simp add: items_only_def)
  show "items_only s u" if "items_only s t" "items_only t u" for s t u
    using items_onlyD [OF that(1)] items_onlyD [OF that(2)] by (intro items_onlyI) simp_all
  show "tx_all items_only (ensure_badge_event_item env eid)" for eid
    by (rule tx_allI, erule ensure_badge_event_itemE) (simp_all add: items_only_def)
  show "tx_all items_only (add_item_states aid items)" for aid items
    by (rule tx_allI) (auto simp: add_item_states_def items_only_def split: if_splits)
qed

interpretation items_rel: card_guarantee items_only "\<lambda>_. True" env for env
  by (rule items_only_guarantee)

lemma items_only_find:
  assumes "items_only s t"
  shows "find_attendee aid eid t = find_attendee aid eid s"
    "attendee_by_id aid t = attendee_by_id aid s"
    "lock_attendee_row aid eo t = lock_attendee_row aid eo s"
  using items_onlyD [OF assms]
  by (simp_all add: find_attendee_def attendee_by_id_def lock_attendee_row_def)

lemma find_attendee_event:
  assumes "wf_db db" "find_attendee aid eid db = Some a"
  shows "\<exists>e \<in> set (events db). ev_id e = eid" "\<exists>b \<in> set (attendees db). att_id b = aid"
  using assms find_attendee_Some [OF assms(2)] unfolding wf_db_def by (metis, metis)

lemma ensure_states_total:
  assumes wf: "wf_db db" and a: "find_attendee aid eid db = Some a"
  shows "\<exists>db'. ensure_attendee_item_states env aid eid db = Inr ((), db')"
proof -
  note fk = find_attendee_event [OF assms]
  have "\<exists>d. ensure_badge_event_item env eid db = Inr ((), d)"
    using fk(1) by (simp add: ensure_badge_event_item_def Let_def split: option.split)
  then obtain d where d: "ensure_badge_event_item env eid db = Inr ((), d)" ..
  then have "attendees d = attendees db"
    by (cases rule: ensure_badge_event_itemE) simp_all
  with d fk(2) show ?thesis
    by (auto simp: ensure_attendee_item_states_eq tx_simps add_item_states_def)
qed

lemma card_total:
  assumes wf: "wf_db db" and a: "find_attendee aid eid db = Some a" and live: "att_erased_at a = None"
  shows "\<exists>cd db'. get_attendee_card env eid aid db = Inr (Some cd, db') \<and>
           cd_admitted_at cd = att_admitted_at a"
proof -
  obtain d where "ensure_attendee_item_states env aid eid db = Inr ((), d)"
    using ensure_states_total [OF wf a] by blast
  then show ?thesis
    using a live by (simp add: get_attendee_card_def tx_simps lock_attendee_row_Some
        is_attendee_gone_def build_card_def)
qed

lemma require_card_total:
  assumes wf: "wf_db db" and a: "find_attendee aid eid db = Some a" and live: "att_erased_at a = None"
  obtains cd db' where "require_card env eid aid db = Inr (cd, db')" "items_only db db'" "wf_db db'"
proof -
  obtain cd db' where c: "get_attendee_card env eid aid db = Inr (Some cd, db')"
    using card_total [OF assms] by blast
  then have r: "require_card env eid aid db = Inr (cd, db')"
    by (simp add: require_card_def tx_simps)
  have "items_only db db'"
    using r by (rule tx_allD [OF items_rel.require_card_keeps [OF TrueI]])
  moreover have "wf_kept db db'"
    using r by (rule tx_allD [OF wf_rel.require_card_keeps [OF TrueI]])
  ultimately show thesis using r wf that by (simp add: wf_kept_def)
qed

section \<open>The branches of an admission\<close>

definition cas_hit :: "admit_params \<Rightarrow> attendee \<Rightarrow> bool" where
  "cas_hit p a \<longleftrightarrow> att_id a = ap_attendee_id p \<and> att_event_id a = ap_event_id p \<and>
     att_admitted_at a = None \<and> is_admittable (att_status a)"

definition admitted_in :: "tx_env \<Rightarrow> admit_params \<Rightarrow> ops_db \<Rightarrow> ops_db" where
  "admitted_in env p db = db\<lparr>attendees := update_where (cas_hit p)
     (\<lambda>a. a\<lparr>att_admitted_at := Some (te_now env), att_admitted_by := au_operator (ap_audit p)\<rparr>)
     (attendees db)\<rparr>"

lemma admit_cas_eq:
  "admit_cas env p db = Inr (count_where (cas_hit p) (attendees db), admitted_in env p db)"
  by (simp add: admit_cas_def admitted_in_def cas_hit_def [abs_def] Let_def)

lemma admitted_in_none:
  "count_where (cas_hit p) (attendees db) = 0 \<Longrightarrow> admitted_in env p db = db"
  by (simp add: admitted_in_def count_where_0)

lemma admit_attendee_cases:
  assumes "admit_attendee env p db = Inr (r, db')"
  obtains (gone) "r = Ci_invalid" "db' = db"
  | (refused) a cd d where "find_attendee (ap_attendee_id p) (ap_event_id p) db = Some a"
      "att_erased_at a = None" "\<not> is_admittable (att_status a)"
      "require_card env (ap_event_id p) (ap_attendee_id p) db = Inr (cd, d)"
      "create_check_in (admission_row env p Revoked_pass (te_db_now env)) d = Inr ((), db')"
      "r = Ci_revoked cd"
  | (already) a cd d at where "find_attendee (ap_attendee_id p) (ap_event_id p) db = Some a"
      "att_erased_at a = None" "is_admittable (att_status a)" "att_admitted_at a = Some at"
      "require_card env (ap_event_id p) (ap_attendee_id p) db = Inr (cd, d)"
      "create_check_in (admission_row env p Already_checked_in (te_db_now env)) d = Inr ((), db')"
      "r = Ci_already cd at"
  | (lost) a cd d where "find_attendee (ap_attendee_id p) (ap_event_id p) db = Some a"
      "att_erased_at a = None" "is_admittable (att_status a)" "att_admitted_at a = None"
      "require_card env (ap_event_id p) (ap_attendee_id p) db = Inr (cd, d)"
      "count_where (cas_hit p) (attendees (te_others env 0 d)) = 0"
      "admit_after_cas_failure env p (te_others env 0 d) = Inr (r, db')"
  | (won) a cd d where "find_attendee (ap_attendee_id p) (ap_event_id p) db = Some a"
      "att_erased_at a = None" "is_admittable (att_status a)" "att_admitted_at a = None"
      "require_card env (ap_event_id p) (ap_attendee_id p) db = Inr (cd, d)"
      "count_where (cas_hit p) (attendees (te_others env 0 d)) \<noteq> 0"
      "admit_after_cas env p (admitted_in env p (te_others env 0 d)) = Inr (r, db')"
proof (cases "find_attendee (ap_attendee_id p) (ap_event_id p) db")
  case None
  with assms gone show ?thesis
    by (simp add: admit_attendee_def tx_simps lock_attendee_row_Some is_attendee_gone_def)
next
  case (Some a)
  show ?thesis
  proof (cases "att_erased_at a")
    case e: None
    obtain cd d where card: "require_card env (ap_event_id p) (ap_attendee_id p) db = Inr (cd, d)"
      using assms Some e
      by (auto simp: admit_attendee_def tx_simps lock_attendee_row_Some is_attendee_gone_def
               split: sum.splits)
    note unfold = admit_attendee_def tx_simps lock_attendee_row_Some is_attendee_gone_def
      admit_cas_eq
    consider "\<not> is_admittable (att_status a)" | at where "is_admittable (att_status a)" "att_admitted_at a = Some at"
      | "is_admittable (att_status a)" "att_admitted_at a = None" by (cases "att_admitted_at a") auto
    then show ?thesis
    proof cases
      case 1
      with assms Some e card refused [OF Some e] show ?thesis
        by (simp add: unfold split: sum.splits prod.splits)
    next
      case 2
      with assms Some e card already [OF Some e] show ?thesis
        by (simp add: unfold split: sum.splits prod.splits)
    next
      case 3
      with assms Some e card show ?thesis
        using lost [OF Some e 3 card] won [OF Some e 3 card]
        by (cases "count_where (cas_hit p) (attendees (te_others env 0 d)) = 0")
           (simp_all add: unfold admitted_in_none)
    qed
  next
    case (Some t)
    with assms gone \<open>find_attendee _ _ _ = _\<close> show ?thesis
      by (simp add: admit_attendee_def tx_simps lock_attendee_row_Some is_attendee_gone_def)
  qed
qed

lemma find_admitted_in:
  "find_attendee aid eid (admitted_in env p db) =
   map_option (\<lambda>a. if cas_hit p a then a\<lparr>att_admitted_at := Some (te_now env),
                     att_admitted_by := au_operator (ap_audit p)\<rparr> else a)
     (find_attendee aid eid db)"
  by (simp add: find_attendee_def admitted_in_def find_update_where)

lemma cas_hit_found:
  assumes "wf_db db" "count_where (cas_hit p) (attendees db) \<noteq> 0"
  obtains a where "find_attendee (ap_attendee_id p) (ap_event_id p) db = Some a"
    "att_admitted_at a = None" "is_admittable (att_status a)" "cas_hit p a"
proof -
  from assms(2) obtain a where "a \<in> set (attendees db)" "cas_hit p a"
    by (auto simp: count_where_0)
  with find_attendeeI [OF assms(1), of a] that show thesis by (auto simp: cas_hit_def)
qed

section \<open>The tail of a won admission\<close>

definition badge_writes :: "ops_db \<Rightarrow> ops_db \<Rightarrow> bool" where
  "badge_writes s t \<longleftrightarrow>
     attendees t = attendees s \<and> check_ins t = check_ins s \<and> attendee_notes t = attendee_notes s \<and>
     events t = events s \<and> custom_fields t = custom_fields s \<and> users t = users s \<and>
     ticket_types t = ticket_types s \<and> mail_deliveries t = mail_deliveries s \<and>
     (\<exists>ls. action_logs t = action_logs s @ ls \<and> (\<forall>r \<in> set ls. lg_action_type r = ''item_issued''))"

lemma items_only_badge_writes: "items_only s t \<Longrightarrow> badge_writes s t"
  by (simp add: badge_writes_def items_onlyD [of s t])

interpretation badge_rel: card_guarantee badge_writes "\<lambda>_. True" env for env
proof
  show "badge_writes s s" for s by (simp add: badge_writes_def)
  show "badge_writes s u" if "badge_writes s t" "badge_writes t u" for s t u
    using that unfolding badge_writes_def by fastforce
  show "tx_all badge_writes (ensure_badge_event_item env eid)" for eid
    by (rule tx_allI, rule items_only_badge_writes)
       (erule tx_allD [OF items_rel.badge_written])
  show "tx_all badge_writes (add_item_states aid items)" for aid items
    by (rule tx_allI, rule items_only_badge_writes)
       (erule tx_allD [OF items_rel.states_written [OF TrueI]])
qed

lemma badge_writes_issue: "tx_all badge_writes (issue_badge_on_check_in env aid eid cid audit)"
proof -
  have move: "tx_all badge_writes (move_item_state aid iid f t operator)" for iid f t operator
    by (rule tx_allI) (auto simp: move_item_state_Inr badge_writes_def)
  have log: "tx_all badge_writes (write_action_log eid aid ''item_issued'' audit m)" for m
    by (rule tx_allI, erule write_action_log_Inr) (auto simp: badge_writes_def log_row_def)
  show ?thesis
    unfolding issue_badge_on_check_in_def by (intro keeps_intros move log TrueI)
qed

lemma badge_writes_card: "tx_all badge_writes (require_card env eid aid)"
  by (rule badge_rel.require_card_keeps) simp

lemma admit_after_cas_Inr:
  assumes "admit_after_cas env p d = Inr (r, db')"
  obtains cd ls where "r = Ci_valid cd (te_now env)" "attendees db' = attendees d"
    "check_ins db' = check_ins d @ [admission_row env p Valid (te_now env)]"
    "action_logs db' = action_logs d @ ls"
    "\<forall>l \<in> set ls. lg_action_type l \<in> {''check_in'', ''item_issued''}"
    "\<forall>c \<in> set (check_ins d). ci_id c \<noteq> te_fresh_id env (ap_attendee_id p)"
proof -
  let ?aid = "ap_attendee_id p" and ?eid = "ap_event_id p"
  from assms obtain d1 b d2 u d3 cd where
    row: "create_check_in (admission_row env p Valid (te_now env)) d = Inr ((), d1)" and
    log: "write_action_log ?eid ?aid ''check_in'' (ap_audit p)
       (Some (JObj [(''method'', JStr (ap_method p)),
                    (''check_in_id'', JStr (te_fresh_id env ?aid))])) d1 = Inr (b, d2)" and
    badge: "(if oc_badge_at_entry (load_event_ops_config ?eid d2)
             then issue_badge_on_check_in env ?aid ?eid (te_fresh_id env ?aid) (ap_audit p)
             else tx_return ()) d2 = Inr (u, d3)" and
    cd: "require_card env ?eid ?aid d3 = Inr (cd, db')" and r: "r = Ci_valid cd (te_now env)"
    unfolding admit_after_cas_def
    by (auto elim!: tx_bindE simp: tx_read_def) (simp add: tx_return_def)
  have d1: "d1 = d\<lparr>check_ins := check_ins d @ [admission_row env p Valid (te_now env)]\<rparr>"
    and fresh: "\<forall>c \<in> set (check_ins d). ci_id c \<noteq> te_fresh_id env ?aid"
    using row by (simp_all add: create_check_in_Inr admission_row_def)
  have bw: "badge_writes d2 d3"
    using badge tx_allD [OF badge_writes_issue] badge_rel.rel_refl
    by (auto simp: tx_return_def split: if_splits)
  have cw: "badge_writes d3 db'" using cd by (rule tx_allD [OF badge_writes_card])
  from badge_rel.rel_trans [OF bw cw] obtain ls where
    w: "attendees db' = attendees d2" "check_ins db' = check_ins d2"
       "action_logs db' = action_logs d2 @ ls" "\<forall>l \<in> set ls. lg_action_type l = ''item_issued''"
    by (auto simp: badge_writes_def)
  from log obtain ks where
    d2: "attendees d2 = attendees d1" "check_ins d2 = check_ins d1"
        "action_logs d2 = action_logs d1 @ ks" "\<forall>l \<in> set ks. lg_action_type l = ''check_in''"
    by (cases rule: write_action_log_Inr) (auto simp: log_row_def)
  show thesis
    using w d2 by (intro that [of cd "ks @ ls"]) (auto simp: r d1 fresh)
qed

lemma rollback_badge_Inr:
  assumes "rollback_badge_for_check_in aid eid cid audit d = Inr (u, d')"
  obtains ls where "attendees d' = attendees d" "check_ins d' = check_ins d"
    "action_logs d' = action_logs d @ ls" "\<forall>l \<in> set ls. lg_action_type l = ''item_returned''"
proof -
  define Q :: "ops_db \<Rightarrow> ops_db \<Rightarrow> bool" where "Q = (\<lambda>s t. attendees t = attendees s \<and> check_ins t = check_ins s \<and>
    (\<exists>ls. action_logs t = action_logs s @ ls \<and> (\<forall>l \<in> set ls. lg_action_type l = ''item_returned'')))"
  have Q: "step_relation Q"
    by unfold_locales (fastforce simp: Q_def)+
  have move: "tx_all Q (move_item_state aid iid f t operator)" for iid f t operator
    by (rule tx_allI) (auto simp: move_item_state_Inr Q_def)
  have log: "tx_all Q (write_action_log eid aid ''item_returned'' audit m)" for m
    by (rule tx_allI, erule write_action_log_Inr) (auto simp: Q_def log_row_def)
  have "tx_all Q (rollback_badge_for_check_in aid eid cid audit)"
    unfolding rollback_badge_for_check_in_def
    by (intro keeps_intros step_relation.all_return [OF Q] step_relation.all_read [OF Q]
        step_relation.all_bind [OF Q] move log)
  from tx_allD [OF this assms] that show thesis by (auto simp: Q_def)
qed

section \<open>Totality\<close>

lemma write_action_log_total:
  assumes wf: "wf_db db" and a: "find_attendee aid eid db = Some a"
  shows "\<exists>b db'. write_action_log eid aid action audit m db = Inr (b, db')"
proof -
  have "\<exists>x \<in> set (attendees db). att_id x = aid" and "\<exists>e \<in> set (events db). ev_id e = eid"
    using find_attendee_event [OF assms] by auto
  then have "log_fk_ok (log_row eid (Some aid) action audit m) db"
    by (simp add: log_fk_ok_def log_row_def)
  then show ?thesis
    by (simp add: write_action_log_def tx_simps create_action_logs_def ex_bool_eq)
qed

lemma issue_badge_total:
  assumes wf: "wf_db db" and a: "find_attendee aid eid db = Some a"
  shows "\<exists>db'. issue_badge_on_check_in env aid eid cid audit db = Inr ((), db')"
proof (cases "find_enabled_item eid ''badge'' db")
  case None
  then show ?thesis by (simp add: issue_badge_on_check_in_def tx_simps)
next
  case (Some item)
  obtain d where d: "ensure_attendee_item_states env aid eid db = Inr ((), d)"
    using ensure_states_total [OF assms] by blast
  have "wf_kept db d" "badge_writes db d"
    using tx_allD [OF wf_rel.ensure_states_keeps [OF TrueI] d]
      tx_allD [OF badge_rel.ensure_states_keeps [OF TrueI] d] by auto
  then have wfd: "wf_db d" and ad: "attendees d = attendees db"
    using wf by (auto simp: wf_kept_def badge_writes_def)
  have "\<exists>n d'. move_item_state aid (ei_id item) ''pending'' ''issued'' (au_operator audit) d = Inr (n, d')"
    by (simp add: move_item_state_def Let_def)
  then obtain n d' where
    m: "move_item_state aid (ei_id item) ''pending'' ''issued'' (au_operator audit) d = Inr (n, d')"
    by blast
  have "wf_kept d d'" by (rule tx_allD [OF wf_state_moved m]) simp
  with wfd have wfd': "wf_db d'" by (simp add: wf_kept_def)
  have "find_attendee aid eid d' = Some a"
    using m ad a by (simp add: move_item_state_Inr find_attendee_def)
  with wfd' obtain b db' where l: "write_action_log eid aid ''item_issued'' audit (Some (JObj
      [(''event_item_key'', JStr ''badge''), (''check_in_id'', JStr cid)])) d' = Inr (b, db')"
    using write_action_log_total by blast
  show ?thesis
  proof (cases "prop_of (ei_config item) ''issue_on_checkin'' = Some (JBool False)")
    case True
    with Some show ?thesis by (simp add: issue_badge_on_check_in_def tx_bind_def tx_read_def tx_return_def)
  next
    case False
    with Some d m l show ?thesis
      by (cases n) (simp_all add: issue_badge_on_check_in_def tx_bind_def tx_read_def tx_return_def)
  qed
qed

lemma create_check_in_total:
  assumes wf: "wf_db db" and a: "find_attendee (ci_attendee_id c) (ci_event_id c) db = Some a"
    and fresh: "\<forall>d \<in> set (check_ins db). ci_id d \<noteq> ci_id c"
  shows "create_check_in c db = Inr ((), db\<lparr>check_ins := check_ins db @ [c]\<rparr>)"
  using fresh find_attendee_Some [OF a] by (auto simp: create_check_in_def)

lemma admit_after_cas_total:
  assumes wf: "wf_db db" and a: "find_attendee (ap_attendee_id p) (ap_event_id p) db = Some a"
    and live: "att_erased_at a = None"
    and fresh: "\<forall>d \<in> set (check_ins db). ci_id d \<noteq> te_fresh_id env (ap_attendee_id p)"
  shows "\<exists>r db'. admit_after_cas env p db = Inr (r, db')"
proof -
  let ?aid = "ap_attendee_id p" and ?eid = "ap_event_id p"
  define d1 where "d1 = db\<lparr>check_ins := check_ins db @ [admission_row env p Valid (te_now env)]\<rparr>"
  have row: "create_check_in (admission_row env p Valid (te_now env)) db = Inr ((), d1)"
    unfolding d1_def by (rule create_check_in_total [OF wf])
      (use a fresh in \<open>simp_all add: admission_row_def\<close>)
  have wf1: "wf_db d1" using tx_allD [OF wf_check_in_created row] wf by (simp add: wf_kept_def)
  have a1: "find_attendee ?aid ?eid d1 = Some a" using a by (simp add: d1_def find_attendee_def)
  obtain b d2 where log: "write_action_log ?eid ?aid ''check_in'' (ap_audit p)
       (Some (JObj [(''method'', JStr (ap_method p)),
                    (''check_in_id'', JStr (te_fresh_id env ?aid))])) d1 = Inr (b, d2)"
    using write_action_log_total [OF wf1 a1] by blast
  have wf2: "wf_db d2"
    using tx_allD [OF wf.any_log_keeps [OF TrueI] log] wf1 by (simp add: wf_kept_def)
  have a2: "find_attendee ?aid ?eid d2 = Some a"
    using log a1 by (cases rule: write_action_log_Inr) (simp_all add: find_attendee_def)
  define badge :: "unit ops_tx" where "badge =
    (if oc_badge_at_entry (load_event_ops_config ?eid d2)
     then issue_badge_on_check_in env ?aid ?eid (te_fresh_id env ?aid) (ap_audit p)
     else tx_return ())"
  have "\<exists>d3. badge d2 = Inr ((), d3)"
    unfolding badge_def using issue_badge_total [OF wf2 a2] by (simp add: tx_return_def)
  then obtain d3 where d3: "badge d2 = Inr ((), d3)" ..
  have keep: "tx_all wf_kept badge"
    unfolding badge_def
    by (intro keeps_intros) (rule wf_badge_issue)
  have "wf_db d3" using tx_allD [OF keep d3] wf2 by (simp add: wf_kept_def)
  moreover have "badge_writes d2 d3"
    using d3 tx_allD [OF badge_writes_issue] badge_rel.rel_refl
    by (auto simp: badge_def tx_return_def split: if_splits)
  then have "find_attendee ?aid ?eid d3 = Some a"
    using a2 by (simp add: badge_writes_def find_attendee_def)
  ultimately obtain cd db' where "require_card env ?eid ?aid d3 = Inr (cd, db')"
    using live by (rule require_card_total)
  with row log d3 show ?thesis
    by (simp add: admit_after_cas_def tx_simps badge_def)
qed

end
