(* ===== verification/Admission_Spec.thy ===== *)
theory Admission_Spec
  imports Admission
begin

text \<open>
  The door: an abstract specification of admission that keeps a status and an admission time per
  guest, the refinement of it by \<open>admit_attendee\<close>, and the behaviour of admissions that race.
\<close>

section \<open>The abstract door\<close>

datatype door_answer = Door_valid int | Door_already int | Door_revoked | Door_invalid | Door_preview

type_synonym guest = "attendee_status \<times> int option"

fun door_answer_of :: "check_in_result \<Rightarrow> door_answer" where
  "door_answer_of (Ci_valid _ at) = Door_valid at"
| "door_answer_of (Ci_already _ at) = Door_already at"
| "door_answer_of (Ci_revoked _) = Door_revoked"
| "door_answer_of Ci_invalid = Door_invalid"
| "door_answer_of (Ci_preview _ _) = Door_preview"

text \<open>An attendee who is missing or erased is no guest.\<close>

definition guest_of :: "string \<Rightarrow> string \<Rightarrow> ops_db \<Rightarrow> guest option" where
  "guest_of aid eid db =
     (case find_attendee aid eid db of
        None \<Rightarrow> None
      | Some a \<Rightarrow> if att_erased_at a = None then Some (att_status a, att_admitted_at a) else None)"

fun door_admit :: "int \<Rightarrow> guest option \<Rightarrow> door_answer \<times> guest option" where
  "door_admit now None = (Door_invalid, None)"
| "door_admit now (Some (st, Some at)) =
     (if is_admittable st then Door_already at else Door_revoked, Some (st, Some at))"
| "door_admit now (Some (st, None)) =
     (if is_admittable st then (Door_valid now, Some (st, Some now))
      else (Door_revoked, Some (st, None)))"

lemma guest_of_Some:
  assumes "guest_of aid eid db = Some (st, at)"
  obtains a where "find_attendee aid eid db = Some a" "att_erased_at a = None"
    "att_status a = st" "att_admitted_at a = at"
  using assms by (auto simp: guest_of_def split: option.splits if_splits)

lemma guest_of_cong: "attendees t = attendees s \<Longrightarrow> guest_of aid eid t = guest_of aid eid s"
  by (simp add: guest_of_def find_attendee_def)

section \<open>Each branch returns\<close>

definition unused_id :: "tx_env \<Rightarrow> string \<Rightarrow> ops_db \<Rightarrow> bool" where
  "unused_id env aid db \<longleftrightarrow> (\<forall>c \<in> set (check_ins db). ci_id c \<noteq> te_fresh_id env aid)"

lemma logged_card:
  assumes wf: "wf_db db" and a: "find_attendee (ap_attendee_id p) (ap_event_id p) db = Some a"
    and live: "att_erased_at a = None" and fresh: "unused_id env (ap_attendee_id p) db"
  obtains cd d where "require_card env (ap_event_id p) (ap_attendee_id p) db = Inr (cd, d)"
    "items_only db d" "wf_db d" "unused_id env (ap_attendee_id p) d"
    "find_attendee (ap_attendee_id p) (ap_event_id p) d = Some a"
    "create_check_in (admission_row env p status at) d =
       Inr ((), d\<lparr>check_ins := check_ins d @ [admission_row env p status at]\<rparr>)"
proof -
  obtain cd d where c: "require_card env (ap_event_id p) (ap_attendee_id p) db = Inr (cd, d)"
    and io: "items_only db d" and wfd: "wf_db d"
    using wf a live by (rule require_card_total)
  have ad: "find_attendee (ap_attendee_id p) (ap_event_id p) d = Some a"
    using io a by (simp add: items_only_find)
  have un: "unused_id env (ap_attendee_id p) d"
    using fresh items_onlyD [OF io] by (simp add: unused_id_def)
  have "create_check_in (admission_row env p status at) d =
      Inr ((), d\<lparr>check_ins := check_ins d @ [admission_row env p status at]\<rparr>)"
    by (rule create_check_in_total [OF wfd])
       (use ad un in \<open>simp_all add: admission_row_def unused_id_def\<close>)
  with c io wfd un ad that show thesis by blast
qed

lemma admit_gone:
  assumes "guest_of (ap_attendee_id p) (ap_event_id p) db = None"
  shows "admit_attendee env p db = Inr (Ci_invalid, db)"
  using assms
  by (auto simp: admit_attendee_def tx_simps lock_attendee_row_Some is_attendee_gone_def guest_of_def
           split: option.splits if_splits)

lemma admit_refused:
  assumes wf: "wf_db db" and g: "guest_of (ap_attendee_id p) (ap_event_id p) db = Some (st, at)"
    and st: "\<not> is_admittable st" and fresh: "unused_id env (ap_attendee_id p) db"
  obtains cd db' where "admit_attendee env p db = Inr (Ci_revoked cd, db')"
    "attendees db' = attendees db" "action_logs db' = action_logs db"
    "check_ins db' = check_ins db @ [admission_row env p Revoked_pass (te_db_now env)]"
proof -
  obtain a where a: "find_attendee (ap_attendee_id p) (ap_event_id p) db = Some a"
    "att_erased_at a = None" "att_status a = st" using g by (rule guest_of_Some)
  obtain cd d where c: "require_card env (ap_event_id p) (ap_attendee_id p) db = Inr (cd, d)"
    and io: "items_only db d"
    and row: "create_check_in (admission_row env p Revoked_pass (te_db_now env)) d =
       Inr ((), d\<lparr>check_ins := check_ins d @ [admission_row env p Revoked_pass (te_db_now env)]\<rparr>)"
    using wf a(1,2) fresh by (rule logged_card)
  show thesis
    using that [of cd "d\<lparr>check_ins := check_ins d @ [admission_row env p Revoked_pass (te_db_now env)]\<rparr>"]
      a c row st items_onlyD [OF io]
    by (simp add: admit_attendee_def tx_simps lock_attendee_row_Some is_attendee_gone_def)
qed

lemma admit_repeated:
  assumes wf: "wf_db db" and g: "guest_of (ap_attendee_id p) (ap_event_id p) db = Some (st, Some at)"
    and st: "is_admittable st" and fresh: "unused_id env (ap_attendee_id p) db"
  obtains cd db' where "admit_attendee env p db = Inr (Ci_already cd at, db')"
    "attendees db' = attendees db" "action_logs db' = action_logs db"
    "check_ins db' = check_ins db @ [admission_row env p Already_checked_in (te_db_now env)]"
proof -
  obtain a where a: "find_attendee (ap_attendee_id p) (ap_event_id p) db = Some a"
    "att_erased_at a = None" "att_status a = st" "att_admitted_at a = Some at"
    using g by (rule guest_of_Some)
  obtain cd d where c: "require_card env (ap_event_id p) (ap_attendee_id p) db = Inr (cd, d)"
    and io: "items_only db d"
    and row: "create_check_in (admission_row env p Already_checked_in (te_db_now env)) d =
       Inr ((), d\<lparr>check_ins := check_ins d @ [admission_row env p Already_checked_in (te_db_now env)]\<rparr>)"
    using wf a(1,2) fresh by (rule logged_card)
  show thesis
    using that [of cd "d\<lparr>check_ins := check_ins d @ [admission_row env p Already_checked_in (te_db_now env)]\<rparr>"]
      a c row st items_onlyD [OF io]
    by (simp add: admit_attendee_def tx_simps lock_attendee_row_Some is_attendee_gone_def)
qed

text \<open>Past the read of a free, admittable guest, the code goes on from what the others left.\<close>

lemma admit_free_start:
  assumes wf: "wf_db db" and g: "guest_of (ap_attendee_id p) (ap_event_id p) db = Some (st, None)"
    and st: "is_admittable st"
  obtains d where "items_only db d" "wf_db d"
    "admit_attendee env p db =
       (if count_where (cas_hit p) (attendees (te_others env 0 d)) = 0
        then admit_after_cas_failure env p (te_others env 0 d)
        else admit_after_cas env p (admitted_in env p (te_others env 0 d)))"
proof -
  obtain a where a: "find_attendee (ap_attendee_id p) (ap_event_id p) db = Some a"
    "att_erased_at a = None" "att_status a = st" "att_admitted_at a = None"
    using g by (rule guest_of_Some)
  obtain cd d where c: "require_card env (ap_event_id p) (ap_attendee_id p) db = Inr (cd, d)"
    and io: "items_only db d" and wfd: "wf_db d"
    using wf a(1,2) by (rule require_card_total)
  show thesis
    using that [OF io wfd] a c st
    by (cases "count_where (cas_hit p) (attendees (te_others env 0 d)) = 0")
       (simp_all add: admit_attendee_def tx_simps lock_attendee_row_Some is_attendee_gone_def
          admit_cas_eq admitted_in_none)
qed

lemma cas_hit_count:
  assumes "find_attendee (ap_attendee_id p) (ap_event_id p) db = Some a"
    "att_admitted_at a = None" "is_admittable (att_status a)"
  shows "count_where (cas_hit p) (attendees db) \<noteq> 0"
  using assms find_attendee_Some [OF assms(1)] by (auto simp: count_where_0 cas_hit_def)

lemma guest_admitted_in:
  assumes "guest_of (ap_attendee_id p) (ap_event_id p) db = Some (st, None)" "is_admittable st"
  shows "guest_of (ap_attendee_id p) (ap_event_id p) (admitted_in env p db) =
         Some (st, Some (te_now env))"
proof -
  obtain a where a: "find_attendee (ap_attendee_id p) (ap_event_id p) db = Some a"
    "att_erased_at a = None" "att_status a = st" "att_admitted_at a = None"
    using assms(1) by (rule guest_of_Some)
  then have "cas_hit p a" using find_attendee_Some [OF a(1)] assms(2) by (simp add: cas_hit_def)
  with a show ?thesis by (simp add: guest_of_def find_admitted_in)
qed

lemma wf_admitted_in: "wf_db db \<Longrightarrow> wf_db (admitted_in env p db)"
  unfolding admitted_in_def by (rule wf_attendees_update) simp_all

lemma admit_won:
  assumes wf: "wf_db db" and g: "guest_of (ap_attendee_id p) (ap_event_id p) db = Some (st, None)"
    and st: "is_admittable st" and fresh: "unused_id env (ap_attendee_id p) db"
  obtains cd ls db' where "admit_after_cas env p (admitted_in env p db) = Inr (Ci_valid cd (te_now env), db')"
    "guest_of (ap_attendee_id p) (ap_event_id p) db' = Some (st, Some (te_now env))"
    "check_ins db' = check_ins db @ [admission_row env p Valid (te_now env)]"
    "action_logs db' = action_logs db @ ls"
    "\<forall>l \<in> set ls. lg_action_type l \<in> {''check_in'', ''item_issued''}" "wf_db db'"
proof -
  let ?d = "admitted_in env p db"
  have wfd: "wf_db ?d" using wf by (rule wf_admitted_in)
  have gd: "guest_of (ap_attendee_id p) (ap_event_id p) ?d = Some (st, Some (te_now env))"
    using g st by (rule guest_admitted_in)
  obtain a where a: "find_attendee (ap_attendee_id p) (ap_event_id p) ?d = Some a"
    "att_erased_at a = None" using gd by (rule guest_of_Some)
  have un: "\<forall>c \<in> set (check_ins ?d). ci_id c \<noteq> te_fresh_id env (ap_attendee_id p)"
    using fresh by (simp add: unused_id_def admitted_in_def)
  obtain r db' where r: "admit_after_cas env p ?d = Inr (r, db')"
    using admit_after_cas_total [OF wfd a un] by blast
  then obtain cd ls where q: "r = Ci_valid cd (te_now env)" "attendees db' = attendees ?d"
    "check_ins db' = check_ins ?d @ [admission_row env p Valid (te_now env)]"
    "action_logs db' = action_logs ?d @ ls"
    "\<forall>l \<in> set ls. lg_action_type l \<in> {''check_in'', ''item_issued''}"
    by (rule admit_after_cas_Inr)
  have "wf_kept ?d db'" using r by (rule tx_allD [OF wf_after_cas])
  with wfd have wf': "wf_db db'" by (simp add: wf_kept_def)
  have "guest_of (ap_attendee_id p) (ap_event_id p) db' = Some (st, Some (te_now env))"
    using gd guest_of_cong [OF q(2)] by simp
  with r q wf' show thesis
    by (intro that [of cd db' ls]) (simp_all add: admitted_in_def)
qed

lemma guest_hit:
  assumes g: "guest_of (ap_attendee_id p) (ap_event_id p) db = Some (st, None)" and st: "is_admittable st"
  shows "count_where (cas_hit p) (attendees db) \<noteq> 0"
proof -
  obtain a where "find_attendee (ap_attendee_id p) (ap_event_id p) db = Some a"
    "att_status a = st" "att_admitted_at a = None" using g by (rule guest_of_Some)
  with st show ?thesis using cas_hit_count [of p db a] by auto
qed

text \<open>A free guest, with nothing committed in between.\<close>

lemma admit_free:
  assumes wf: "wf_db db" and g: "guest_of (ap_attendee_id p) (ap_event_id p) db = Some (st, None)"
    and st: "is_admittable st" and fresh: "unused_id env (ap_attendee_id p) db"
    and others: "\<And>d. te_others env 0 d = d"
  obtains cd ls db' where "admit_attendee env p db = Inr (Ci_valid cd (te_now env), db')"
    "guest_of (ap_attendee_id p) (ap_event_id p) db' = Some (st, Some (te_now env))"
    "check_ins db' = check_ins db @ [admission_row env p Valid (te_now env)]"
    "action_logs db' = action_logs db @ ls"
    "\<forall>l \<in> set ls. lg_action_type l \<in> {''check_in'', ''item_issued''}" "wf_db db'"
proof -
  obtain d where d: "items_only db d" "wf_db d" and start: "admit_attendee env p db =
     (if count_where (cas_hit p) (attendees (te_others env 0 d)) = 0
      then admit_after_cas_failure env p (te_others env 0 d)
      else admit_after_cas env p (admitted_in env p (te_others env 0 d)))"
    using wf g st by (rule admit_free_start)
  have gd: "guest_of (ap_attendee_id p) (ap_event_id p) d = Some (st, None)"
    and un: "unused_id env (ap_attendee_id p) d"
    using g fresh items_onlyD [OF d(1)] guest_of_cong [of d db] by (simp_all add: unused_id_def)
  obtain cd ls db' where "admit_after_cas env p (admitted_in env p d) = Inr (Ci_valid cd (te_now env), db')"
    "guest_of (ap_attendee_id p) (ap_event_id p) db' = Some (st, Some (te_now env))"
    "check_ins db' = check_ins d @ [admission_row env p Valid (te_now env)]"
    "action_logs db' = action_logs d @ ls"
    "\<forall>l \<in> set ls. lg_action_type l \<in> {''check_in'', ''item_issued''}" "wf_db db'"
    using d(2) gd st un by (rule admit_won)
  with start others guest_hit [OF gd st] items_onlyD [OF d(1)] show thesis
    by (intro that [of cd db' ls]) simp_all
qed

section \<open>Losing the compare-and-set\<close>

lemma admit_after_cas_failure_no_valid:
  "admit_after_cas_failure env p db \<noteq> Inr (Ci_valid cd at, db')"
proof
  assume "admit_after_cas_failure env p db = Inr (Ci_valid cd at, db')"
  then show False
    unfolding admit_after_cas_failure_def
    by (auto simp: tx_bind_Inr tx_throw_def tx_return_def split: option.splits if_splits)
qed

lemma admitted_no_hit:
  assumes wf: "wf_db db" and g: "guest_of (ap_attendee_id p) (ap_event_id p) db = Some (st, Some at)"
  shows "count_where (cas_hit p) (attendees db) = 0"
proof (rule ccontr)
  assume "count_where (cas_hit p) (attendees db) \<noteq> 0"
  with wf obtain a where "find_attendee (ap_attendee_id p) (ap_event_id p) db = Some a"
    "att_admitted_at a = None" by (rule cas_hit_found)
  with g show False by (auto simp: guest_of_def split: if_splits)
qed

lemma by_id_found:
  assumes "wf_db db" "find_attendee aid eid db = Some a"
  shows "attendee_by_id aid db = Some a"
  using assms find_attendee_Some [OF assms(2)] unfolding attendee_by_id_def
  by (intro find_unique) (auto dest: wf_attendee_inj)

lemma cas_failure_repeated:
  assumes wf: "wf_db db" and g: "guest_of (ap_attendee_id p) (ap_event_id p) db = Some (st, Some at)"
    and st: "is_admittable st" and fresh: "unused_id env (ap_attendee_id p) db"
    and others: "te_others env 1 db = db"
  obtains cd db' where "admit_after_cas_failure env p db = Inr (Ci_already cd at, db')"
    "attendees db' = attendees db"
    "check_ins db' = check_ins db @ [admission_row env p Already_checked_in (te_db_now env)]"
proof -
  obtain a where a: "find_attendee (ap_attendee_id p) (ap_event_id p) db = Some a"
    "att_erased_at a = None" "att_status a = st" "att_admitted_at a = Some at"
    using g by (rule guest_of_Some)
  let ?row = "admission_row env p Already_checked_in (te_db_now env)"
  define d where "d = db\<lparr>check_ins := check_ins db @ [?row]\<rparr>"
  have row: "create_check_in ?row db = Inr ((), d)"
    unfolding d_def by (rule create_check_in_total [OF wf])
      (use a fresh in \<open>simp_all add: admission_row_def unused_id_def\<close>)
  have "wf_kept db d" using row by (rule tx_allD [OF wf_check_in_created])
  with wf have wfd: "wf_db d" by (simp add: wf_kept_def)
  have ad: "find_attendee (ap_attendee_id p) (ap_event_id p) d = Some a"
    using a by (simp add: d_def find_attendee_def)
  obtain cd db' where c: "require_card env (ap_event_id p) (ap_attendee_id p) d = Inr (cd, db')"
    "items_only d db'" using wfd ad a(2) by (rule require_card_total)
  show thesis
    using that [of cd db'] row c a st items_onlyD [OF c(2)] by_id_found [OF wf a(1)] others
    by (simp add: admit_after_cas_failure_def tx_simps d_def)
qed

section \<open>Properties\<close>

text \<open>C1: An admission that is not interfered with always returns, and it implements the abstract
  door: a free guest with an admittable pass is admitted now and answered VALID, an admitted one is
  answered with the time of the first admission, a cancelled or revoked pass is refused, and a
  missing or erased attendee is no valid ticket; nobody else's admission is needed for the answer.\<close>

theorem admit_refines_door:
  assumes wf: "wf_db db" and fresh: "unused_id env (ap_attendee_id p) db"
  shows "\<exists>r db'. admit_attendee (quiet_env env) p db = Inr (r, db') \<and>
    (door_answer_of r, guest_of (ap_attendee_id p) (ap_event_id p) db') =
      door_admit (te_now env) (guest_of (ap_attendee_id p) (ap_event_id p) db)"
proof -
  let ?e = "quiet_env env" and ?g = "guest_of (ap_attendee_id p) (ap_event_id p)"
  have now: "te_now ?e = te_now env" by (simp add: quiet_env_def)
  have fr: "unused_id ?e (ap_attendee_id p) db" using fresh by (simp add: unused_id_def quiet_env_def)
  consider (gone) "?g db = None"
    | (refused) st at where "?g db = Some (st, at)" "\<not> is_admittable st"
    | (repeated) st at where "?g db = Some (st, Some at)" "is_admittable st"
    | (free) st where "?g db = Some (st, None)" "is_admittable st"
    by (cases "?g db") (auto, metis option.exhaust)
  then show ?thesis
  proof cases
    case gone
    then show ?thesis using admit_gone [OF gone, of ?e] by simp
  next
    case refused
    obtain cd db' where "admit_attendee ?e p db = Inr (Ci_revoked cd, db')" "attendees db' = attendees db"
      using wf refused fr by (rule admit_refused)
    then show ?thesis using refused guest_of_cong [of db' db] by (cases at) auto
  next
    case repeated
    obtain cd db' where "admit_attendee ?e p db = Inr (Ci_already cd at, db')" "attendees db' = attendees db"
      using wf repeated fr by (rule admit_repeated)
    then show ?thesis using repeated guest_of_cong [of db' db] by auto
  next
    case free
    obtain cd db' where "admit_attendee ?e p db = Inr (Ci_valid cd (te_now ?e), db')"
      "?g db' = Some (st, Some (te_now ?e))"
      using wf free fr by (rule admit_free) simp
    then show ?thesis using free by (simp add: now)
  qed
qed

lemma admit_refines_door_witness:
  "\<exists>r db'. admit_attendee (quiet_env sample_env) (sample_admit ''a1'') sample_db = Inr (r, db') \<and>
    (door_answer_of r, guest_of ''a1'' ''e1'' db') = (Door_valid 1000, Some (Registered, Some 1000))"
proof -
  have un: "unused_id sample_env (ap_attendee_id (sample_admit ''a1'')) sample_db"
    by (simp add: unused_id_def sample_db_def)
  have g: "guest_of ''a1'' ''e1'' sample_db = Some (Registered, None)"
    by (simp add: guest_of_def sample_find sample_guest_def)
  show ?thesis
    using admit_refines_door [OF sample_wf un] g by (simp add: sample_admit_def sample_env_def)
qed

text \<open>C2: Whatever other transactions do between the read and the compare-and-set (as long as the
  tables stay well-formed), an admission answered VALID found the guest unadmitted and admittable
  when it wrote, its answer carries its own time, the guest is admitted with exactly that time, and
  exactly one VALID check-in row was added.\<close>

theorem admit_valid_only_if_free:
  assumes valid: "admit_attendee env p db = Inr (Ci_valid cd at, db')"
    and wf: "wf_db db" and others: "\<And>d. wf_db d \<Longrightarrow> wf_db (te_others env 0 d)"
  shows "at = te_now env \<and> (\<exists>d a. items_only db d \<and>
    find_attendee (ap_attendee_id p) (ap_event_id p) (te_others env 0 d) = Some a \<and>
    att_admitted_at a = None \<and> is_admittable (att_status a) \<and>
    find_attendee (ap_attendee_id p) (ap_event_id p) db' =
      Some (a\<lparr>att_admitted_at := Some at, att_admitted_by := au_operator (ap_audit p)\<rparr>) \<and>
    check_ins db' = check_ins (te_others env 0 d) @ [admission_row env p Valid at])"
  using valid
proof (cases rule: admit_attendee_cases)
  case (lost a cd' d)
  then show ?thesis by (simp add: admit_after_cas_failure_no_valid)
next
  case (won a cd' d)
  have io: "items_only db d" using won(5) by (rule tx_allD [OF items_rel.require_card_keeps [OF TrueI]])
  have "wf_kept db d" using won(5) by (rule tx_allD [OF wf_rel.require_card_keeps [OF TrueI]])
  with wf others have wfd: "wf_db (te_others env 0 d)" by (simp add: wf_kept_def)
  obtain a where a: "find_attendee (ap_attendee_id p) (ap_event_id p) (te_others env 0 d) = Some a"
    "att_admitted_at a = None" "is_admittable (att_status a)" "cas_hit p a"
    using wfd won(6) by (rule cas_hit_found)
  from won(7) show ?thesis
  proof (cases rule: admit_after_cas_Inr)
    case (1 cd ls)
    have "find_attendee (ap_attendee_id p) (ap_event_id p) db' =
          find_attendee (ap_attendee_id p) (ap_event_id p) (admitted_in env p (te_others env 0 d))"
      using 1(2) by (simp add: find_attendee_def)
    also have "\<dots> = Some (a\<lparr>att_admitted_at := Some (te_now env), att_admitted_by := au_operator (ap_audit p)\<rparr>)"
      using a by (simp add: find_admitted_in)
    finally show ?thesis using io a 1 by (auto simp: admitted_in_def)
  qed
qed simp_all

text \<open>C3: Two admissions of the same free guest that race, the second one committing between the
  first one's read and its compare-and-set: the one that commits first is answered VALID, the other
  one ALREADY CHECKED IN with the winner's time, the guest is admitted with the winner's time, and
  the history gains exactly one VALID row and one ALREADY CHECKED IN row.\<close>

theorem admit_race:
  assumes wf: "wf_db db" and g: "guest_of (ap_attendee_id p) (ap_event_id p) db = Some (st, None)"
    and st: "is_admittable st"
    and q: "ap_attendee_id q = ap_attendee_id p" "ap_event_id q = ap_event_id p"
    and ids: "unused_id env (ap_attendee_id p) db" "unused_id rival (ap_attendee_id p) db"
      "te_fresh_id env (ap_attendee_id p) \<noteq> te_fresh_id rival (ap_attendee_id p)"
    and rival: "te_others env = (\<lambda>k d. if k = 0 then snd (run_tx (admit_attendee (quiet_env rival) q) d) else d)"
  shows "\<exists>cd db'. admit_attendee env p db = Inr (Ci_already cd (te_now rival), db') \<and>
    guest_of (ap_attendee_id p) (ap_event_id p) db' = Some (st, Some (te_now rival)) \<and>
    check_ins db' = check_ins db @ [admission_row (quiet_env rival) q Valid (te_now rival),
                                    admission_row env p Already_checked_in (te_db_now env)]"
proof -
  let ?e = "quiet_env rival" and ?g = "guest_of (ap_attendee_id p) (ap_event_id p)"
  have now: "te_now ?e = te_now rival" by (simp add: quiet_env_def)
  obtain d where d: "items_only db d" "wf_db d" and start: "admit_attendee env p db =
     (if count_where (cas_hit p) (attendees (te_others env 0 d)) = 0
      then admit_after_cas_failure env p (te_others env 0 d)
      else admit_after_cas env p (admitted_in env p (te_others env 0 d)))"
    using wf g st by (rule admit_free_start)
  have gd: "guest_of (ap_attendee_id q) (ap_event_id q) d = Some (st, None)"
    using g q items_onlyD [OF d(1)] guest_of_cong [of d db] by simp
  have un: "unused_id ?e (ap_attendee_id q) d"
    using ids q items_onlyD [OF d(1)] by (simp add: unused_id_def quiet_env_def)
  obtain cd ls t where won: "admit_attendee ?e q d = Inr (Ci_valid cd (te_now ?e), t)"
    "guest_of (ap_attendee_id q) (ap_event_id q) t = Some (st, Some (te_now ?e))"
    "check_ins t = check_ins d @ [admission_row ?e q Valid (te_now ?e)]" "wf_db t"
    using d(2) gd st un by (rule admit_free) simp
  have oth: "te_others env 0 d = t" using won(1) by (simp add: rival run_tx_def)
  have gt: "?g t = Some (st, Some (te_now rival))" using won(2) q by (simp add: now)
  have ct: "check_ins t = check_ins db @ [admission_row ?e q Valid (te_now rival)]"
    using won(3) items_onlyD [OF d(1)] by (simp add: now)
  have "unused_id env (ap_attendee_id p) t"
    using ids(1,3) q by (auto simp: unused_id_def ct admission_row_def quiet_env_def)
  with won(4) gt st obtain cd' db' where "admit_after_cas_failure env p t = Inr (Ci_already cd' (te_now rival), db')"
    "attendees db' = attendees t"
    "check_ins db' = check_ins t @ [admission_row env p Already_checked_in (te_db_now env)]"
    by (rule cas_failure_repeated) (simp add: rival)
  moreover have "count_where (cas_hit p) (attendees t) = 0"
    using won(4) gt by (rule admitted_no_hit)
  ultimately show ?thesis using start gt by (simp add: oth ct guest_of_cong [of db' t])
qed

lemma sample_guest_free:
  "guest_of (ap_attendee_id (sample_admit ''a1'')) (ap_event_id (sample_admit ''a1'')) sample_db =
   Some (Registered, None)"
  by (simp add: sample_admit_def guest_of_def sample_find) (simp add: sample_guest_def)

lemma sample_unused: "unused_id env aid sample_db"
  by (simp add: unused_id_def sample_db_def)

lemma admit_valid_only_if_free_witness:
  "\<exists>cd at db'. admit_attendee sample_env (sample_admit ''a1'') sample_db = Inr (Ci_valid cd at, db') \<and>
     at = 1000 \<and> (\<exists>a. find_attendee ''a1'' ''e1'' db' = Some a \<and> att_admitted_at a = Some 1000)"
proof -
  have adm: "is_admittable Registered" by simp
  obtain cd ls db' where
    r: "admit_attendee sample_env (sample_admit ''a1'') sample_db = Inr (Ci_valid cd (te_now sample_env), db')"
    by (rule admit_free [OF sample_wf sample_guest_free adm sample_unused sample_others])
  show ?thesis
    using r admit_valid_only_if_free [OF r sample_wf] by (auto simp: sample_admit_def sample_env_def quiet_def)
qed

definition sample_rival :: tx_env where
  "sample_rival = sample_env\<lparr>te_now := 2000, te_fresh_id := (\<lambda>aid. ''r-'' @ aid)\<rparr>"

lemma admit_race_witness:
  "\<exists>cd db'. admit_attendee (sample_env\<lparr>te_others := (\<lambda>k d. if k = 0
       then snd (run_tx (admit_attendee (quiet_env sample_rival) (sample_admit ''a1'')) d) else d)\<rparr>)
     (sample_admit ''a1'') sample_db = Inr (Ci_already cd 2000, db') \<and>
     guest_of ''a1'' ''e1'' db' = Some (Registered, Some 2000)"
proof -
  let ?env = "sample_env\<lparr>te_others := (\<lambda>k d. if k = 0
       then snd (run_tx (admit_attendee (quiet_env sample_rival) (sample_admit ''a1'')) d) else d)\<rparr>"
  have adm: "is_admittable Registered" by simp
  have ids: "te_fresh_id ?env (ap_attendee_id (sample_admit ''a1'')) \<noteq>
             te_fresh_id sample_rival (ap_attendee_id (sample_admit ''a1''))"
    by (simp add: sample_rival_def sample_env_def)
  have others: "te_others ?env = (\<lambda>k d. if k = 0
       then snd (run_tx (admit_attendee (quiet_env sample_rival) (sample_admit ''a1'')) d) else d)"
    by simp
  show ?thesis
    using admit_race [OF sample_wf sample_guest_free adm refl refl sample_unused sample_unused ids others]
    by (auto simp: sample_admit_def sample_rival_def)
qed

end
