(* ===== verification/Reversal.thy ===== *)
theory Reversal
  imports Admission_Spec
begin

text \<open>
  The admission of one attendee as the reversal paths see it: the attendee row, the VALID scan and
  manual rows, and the log rows that name a reversed check-in. Item operations, refused scans and
  cards leave this view alone; an undo and a revocation are inverted into what they found and did.
\<close>

section \<open>The admission view\<close>

definition admission_view :: "string \<Rightarrow> ops_db \<Rightarrow> attendee list \<times> check_in list \<times> action_log list" where
  "admission_view aid db =
     (filter (\<lambda>a. att_id a = aid) (attendees db),
      filter (\<lambda>c. ci_attendee_id c = aid \<and> is_admission_row c) (check_ins db),
      filter (\<lambda>r. lg_attendee_id r = Some aid \<and> lg_action_type r \<in> reversal_actions) (action_logs db))"

definition same_admission :: "string set \<Rightarrow> ops_db \<Rightarrow> ops_db \<Rightarrow> bool" where
  "same_admission A s t \<longleftrightarrow> (\<forall>aid \<in> A. admission_view aid t = admission_view aid s)"

lemma same_admission_guarantee:
  assumes "\<And>k db. same_admission A db (te_others env k db)"
  shows "item_guarantee (same_admission A) (\<lambda>_. True) env"
proof
  show "tx_all (same_admission A) (create_check_in c)" if "\<not> is_admission_row c" for c
    using that by (intro tx_allI) (auto simp: same_admission_def admission_view_def create_check_in_Inr)
  show "tx_all (same_admission A) (create_action_logs [r])" if "lg_action_type r \<notin> reversal_actions" for r
    using that by (intro tx_allI) (auto simp: same_admission_def admission_view_def create_action_logs_Inr)
  show "tx_all (same_admission A) (move_item_state aid iid from_state to_state operator)"
    for aid iid from_state to_state operator
    by (rule tx_allI) (auto simp: same_admission_def admission_view_def move_item_state_Inr)
  show "tx_all (same_admission A) (ensure_badge_event_item env eid)" for eid
    by (rule tx_allI, erule ensure_badge_event_itemE) (auto simp: same_admission_def admission_view_def)
  show "tx_all (same_admission A) (add_item_states aid items)" for aid items
    by (rule tx_allI) (auto simp: same_admission_def admission_view_def add_item_states_def split: if_splits)
qed (use assms in \<open>auto simp: same_admission_def\<close>)

interpretation same_adm: item_guarantee "same_admission A" "\<lambda>_. True" "quiet_env env" for A env
  by (rule same_admission_guarantee) (simp add: same_admission_def)

lemma find_attendee_view:
  "find_attendee aid eid db = List.find (\<lambda>a. att_event_id a = eid) (fst (admission_view aid db))"
proof -
  have "List.find (\<lambda>a. att_id a = aid \<and> att_event_id a = eid) xs =
        List.find (\<lambda>a. att_event_id a = eid) (filter (\<lambda>a. att_id a = aid) xs)" for xs
    by (induction xs) auto
  then show ?thesis by (simp add: find_attendee_def admission_view_def)
qed

lemma same_admission_find:
  "same_admission A s t \<Longrightarrow> aid \<in> A \<Longrightarrow> find_attendee aid eid t = find_attendee aid eid s"
  by (simp add: find_attendee_view same_admission_def)

lemma live_log_written:
  assumes m: "write_action_log eid aid action audit md db = Inr (b, db')"
    and wf: "wf_db db" and a: "find_attendee aid e db = Some a" "att_erased_at a = None"
  shows "db' = db\<lparr>action_logs := action_logs db @ [log_row eid (Some aid) action audit md]\<rparr>"
  using m
proof (cases rule: write_action_log_Inr)
  case 1
  then obtain l where l: "lock_attendee_row aid None db = Some l" "lk_erased l" by blast
  then obtain x where x: "x \<in> set (attendees db)" "att_id x = aid" "att_erased_at x \<noteq> None"
    by (auto simp: lock_attendee_row_def split: option.splits dest: find_set)
  moreover have "a \<in> set (attendees db)" "att_id a = aid" using find_attendee_Some [OF a(1)] by auto
  ultimately have "x = a" using wf wf_attendee_inj by metis
  with x a show ?thesis by simp
qed

section \<open>Undo\<close>

definition cleared_in :: "string \<Rightarrow> string \<Rightarrow> int \<Rightarrow> ops_db \<Rightarrow> ops_db" where
  "cleared_in eid aid at db = db\<lparr>attendees := update_where
     (\<lambda>a. att_id a = aid \<and> att_event_id a = eid \<and> att_admitted_at a = Some at)
     (\<lambda>a. a\<lparr>att_admitted_at := None, att_admitted_by := None\<rparr>) (attendees db)\<rparr>"

lemma clear_admission_eq:
  "clear_admission eid aid at db = Inr (count_where
     (\<lambda>a. att_id a = aid \<and> att_event_id a = eid \<and> att_admitted_at a = Some at) (attendees db),
     cleared_in eid aid at db)"
  by (simp add: clear_admission_def cleared_in_def Let_def)

lemma find_cleared_in:
  "find_attendee x e (cleared_in eid aid at db) =
   map_option (\<lambda>a. if att_id a = aid \<and> att_event_id a = eid \<and> att_admitted_at a = Some at
                   then a\<lparr>att_admitted_at := None, att_admitted_by := None\<rparr> else a)
     (find_attendee x e db)"
  by (simp add: find_attendee_def cleared_in_def find_update_where)

lemma wf_cleared_in: "wf_db db \<Longrightarrow> wf_db (cleared_in eid aid at db)"
  unfolding cleared_in_def by (rule wf_attendees_update) simp_all

lemma undo_last_check_inE:
  assumes "undo_last_check_in env eid audit db = Inr (cd, db')"
  obtains lv a where "truthy (au_device_id audit)"
    "last_valid_on_device eid (au_device_id audit) db = Some lv"
    "find_attendee (ci_attendee_id lv) eid (te_others env 7 db) = Some a" "att_erased_at a = None"
    "att_admitted_at a = Some (ci_checked_in_at lv)"
    "\<not> is_reversed eid (ci_attendee_id lv) (ci_id lv) (te_others env 7 db)"
    "\<not> newer_valid eid lv (te_others env 7 db)"
    "\<not> maybe_later_erased eid (au_device_id audit) lv (te_others env 7 db)"
    "undo_validated env eid audit lv (te_others env 7 db) = Inr (cd, db')"
proof -
  let ?d = "te_others env 7 db"
  have dev: "truthy (au_device_id audit)"
    using assms by (auto simp: undo_last_check_in_def not_allowed_def tx_throw_def split: if_splits)
  obtain lv where lv: "last_valid_on_device eid (au_device_id audit) db = Some lv"
    using assms dev
    by (cases "last_valid_on_device eid (au_device_id audit) db")
       (auto simp: undo_last_check_in_def not_allowed_def tx_simps)
  obtain a where a: "find_attendee (ci_attendee_id lv) eid ?d = Some a" "att_admitted_at a \<noteq> None"
    using assms dev lv
    by (cases "find_attendee (ci_attendee_id lv) eid ?d")
       (auto simp: undo_last_check_in_def not_allowed_def tx_simps split: if_splits option.splits)
  then obtain at where at: "att_admitted_at a = Some at" by auto
  have "att_erased_at a = None \<and> \<not> maybe_later_erased eid (au_device_id audit) lv ?d \<and>
    \<not> is_reversed eid (ci_attendee_id lv) (ci_id lv) ?d \<and> at = ci_checked_in_at lv \<and>
    \<not> newer_valid eid lv ?d \<and> undo_validated env eid audit lv ?d = Inr (cd, db')"
    using assms dev lv a(1) at
    by (auto simp: undo_last_check_in_def not_allowed_def tx_simps lock_attendee_row_Some
             split: if_splits)
  with dev lv a(1) at show thesis by (intro that) auto
qed

text \<open>The activity log gains the badge's return, if it was issued, and the reversal, in this order.\<close>

lemma undo_validatedE:
  assumes m: "undo_validated env eid audit lv d = Inr (cd, db')"
    and wf: "wf_db d" and a: "find_attendee (ci_attendee_id lv) eid d = Some a" "att_erased_at a = None"
      "att_admitted_at a = Some (ci_checked_in_at lv)"
  obtains ls where
    "attendees db' = attendees (cleared_in eid (ci_attendee_id lv) (ci_checked_in_at lv) d)"
    "check_ins db' = check_ins d @ [undo_row env (ci_attendee_id lv) eid ''undo'' audit
       (''Undo of check-in '' @ ci_id lv)]"
    "action_logs db' = action_logs d @ ls @ [log_row eid (Some (ci_attendee_id lv)) ''check_in_undo''
       audit (Some (JObj [(''undone_check_in_id'', JStr (ci_id lv))]))]"
    "\<forall>l \<in> set ls. lg_action_type l = ''item_returned''" "wf_db db'"
proof -
  let ?aid = "ci_attendee_id lv" and ?at = "ci_checked_in_at lv"
  let ?row = "undo_row env ?aid eid ''undo'' audit (''Undo of check-in '' @ ci_id lv)"
  let ?log = "log_row eid (Some ?aid) ''check_in_undo'' audit
                (Some (JObj [(''undone_check_in_id'', JStr (ci_id lv))]))"
  have n: "count_where (\<lambda>a. att_id a = ?aid \<and> att_event_id a = eid \<and> att_admitted_at a = Some ?at)
             (attendees d) \<noteq> 0"
    using a find_attendee_Some [OF a(1)] by (auto simp: count_where_0)
  from m n obtain d1 d2 b d3 where
    d1: "create_check_in ?row (cleared_in eid ?aid ?at d) = Inr ((), d1)" and
    d2: "rollback_badge_for_check_in ?aid eid (ci_id lv) audit d1 = Inr ((), d2)" and
    d3: "write_action_log eid ?aid ''check_in_undo'' audit
           (Some (JObj [(''undone_check_in_id'', JStr (ci_id lv))])) d2 = Inr (b, d3)" and
    c: "get_attendee_card env eid ?aid d3 = Inr (Some cd, db')"
    by (auto simp: undo_validated_def Let_def clear_admission_eq tx_bind_def tx_throw_def tx_return_def
        not_allowed_def split: sum.splits option.splits prod.splits if_splits)
  have wf0: "wf_db (cleared_in eid ?aid ?at d)" using wf by (rule wf_cleared_in)
  have "wf_kept (cleared_in eid ?aid ?at d) d1" using d1 by (rule tx_allD [OF wf_check_in_created])
  moreover have "wf_kept d1 d2" using d2 by (rule tx_allD [OF wf.rollback_badge_keeps [OF TrueI]])
  moreover have "wf_kept d2 d3" using d3 by (rule tx_allD [OF wf.any_log_keeps [OF TrueI]])
  moreover have "wf_kept d3 db'" using c by (rule tx_allD [OF wf_rel.card_keeps [OF TrueI]])
  ultimately have wf2: "wf_db d2" and wf': "wf_db db'" using wf0 by (auto simp: wf_kept_def)
  obtain ls where ls: "attendees d2 = attendees d1" "check_ins d2 = check_ins d1"
    "action_logs d2 = action_logs d1 @ ls" "\<forall>l \<in> set ls. lg_action_type l = ''item_returned''"
    using d2 by (rule rollback_badge_Inr)
  have a2: "find_attendee ?aid eid d2 = Some (a\<lparr>att_admitted_at := None, att_admitted_by := None\<rparr>)"
    using d1 ls(1) a find_cleared_in [of ?aid eid eid ?aid ?at d] find_attendee_Some [OF a(1)]
    by (auto simp: create_check_in_Inr find_attendee_def)
  have log: "d3 = d2\<lparr>action_logs := action_logs d2 @ [?log]\<rparr>"
    by (rule live_log_written [OF d3 wf2 a2]) (simp add: a(2))
  have io: "items_only d3 db'" using c by (rule tx_allD [OF items_rel.card_keeps [OF TrueI]])
  show thesis
    using d1 ls log items_onlyD [OF io] wf'
    by (intro that [of ls]) (auto simp: create_check_in_Inr cleared_in_def)
qed

lemma rollback_badge_total:
  assumes wf: "wf_db db" and a: "find_attendee aid eid db = Some a"
  shows "\<exists>db'. rollback_badge_for_check_in aid eid cid audit db = Inr ((), db')"
proof -
  have "\<exists>n d'. move_item_state aid iid ''issued'' ''pending'' (au_operator audit) db = Inr (n, d') \<and>
      wf_db d' \<and> find_attendee aid eid d' = Some a" for iid
  proof -
    have "\<exists>n d'. move_item_state aid iid ''issued'' ''pending'' (au_operator audit) db = Inr (n, d')"
      by (simp add: move_item_state_def Let_def)
    then obtain n d' where m: "move_item_state aid iid ''issued'' ''pending'' (au_operator audit) db = Inr (n, d')"
      by blast
    have "wf_kept db d'" by (rule tx_allD [OF wf_state_moved m]) simp
    with m wf a show ?thesis by (auto simp: wf_kept_def move_item_state_Inr find_attendee_def)
  qed
  then have step: "\<exists>n d'. move_item_state aid iid ''issued'' ''pending'' (au_operator audit) db = Inr (n, d') \<and>
      (\<exists>b db'. write_action_log eid aid ''item_returned'' audit md d' = Inr (b, db'))" for iid md
    using write_action_log_total by blast
  let ?log = "\<lambda>r. lg_event_id r = eid \<and> lg_attendee_id r = Some aid \<and>
     lg_action_type r = ''item_issued'' \<and> prop_of (lg_metadata r) ''check_in_id'' = Some (JStr cid)"
  show ?thesis
  proof (cases "List.find ?log (action_logs db)")
    case None
    then show ?thesis by (simp add: rollback_badge_for_check_in_def tx_simps)
  next
    case log: (Some r)
    show ?thesis
    proof (cases "find_item eid ''badge'' db")
      case None
      with log show ?thesis by (simp add: rollback_badge_for_check_in_def tx_simps)
    next
      case (Some item)
      obtain n d' b db' where
        m: "move_item_state aid (ei_id item) ''issued'' ''pending'' (au_operator audit) db = Inr (n, d')"
        and l: "write_action_log eid aid ''item_returned'' audit (Some (JObj [(''event_item_key'', JStr ''badge''),
            (''check_in_id'', JStr cid), (''reason'', JStr ''check_in_undo'')])) d' = Inr (b, db')"
        using step by blast
      show ?thesis
        using log Some m l
        by (cases n) (simp_all add: rollback_badge_for_check_in_def tx_bind_def tx_read_def tx_return_def)
    qed
  qed
qed

lemma undo_validated_total:
  assumes wf: "wf_db d" and a: "find_attendee (ci_attendee_id lv) eid d = Some a" "att_erased_at a = None"
      "att_admitted_at a = Some (ci_checked_in_at lv)"
    and fresh: "unused_id env (ci_attendee_id lv) d"
  shows "\<exists>cd db'. undo_validated env eid audit lv d = Inr (cd, db')"
proof -
  let ?aid = "ci_attendee_id lv" and ?at = "ci_checked_in_at lv"
  let ?row = "undo_row env ?aid eid ''undo'' audit (''Undo of check-in '' @ ci_id lv)"
  let ?a = "a\<lparr>att_admitted_at := None, att_admitted_by := None\<rparr>"
  let ?c = "cleared_in eid ?aid ?at d"
  have n: "count_where (\<lambda>a. att_id a = ?aid \<and> att_event_id a = eid \<and> att_admitted_at a = Some ?at)
             (attendees d) \<noteq> 0"
    using a find_attendee_Some [OF a(1)] by (auto simp: count_where_0)
  have wfc: "wf_db ?c" using wf by (rule wf_cleared_in)
  have ac: "find_attendee ?aid eid ?c = Some ?a"
    using a find_cleared_in [of ?aid eid eid ?aid ?at d] find_attendee_Some [OF a(1)] by simp
  define d1 where "d1 = ?c\<lparr>check_ins := check_ins ?c @ [?row]\<rparr>"
  have row: "create_check_in ?row ?c = Inr ((), d1)"
    unfolding d1_def by (rule create_check_in_total [OF wfc])
      (use ac fresh in \<open>simp_all add: undo_row_def unused_id_def cleared_in_def\<close>)
  have "wf_kept ?c d1" using row by (rule tx_allD [OF wf_check_in_created])
  with wfc have wf1: "wf_db d1" by (simp add: wf_kept_def)
  have a1: "find_attendee ?aid eid d1 = Some ?a" using ac by (simp add: d1_def find_attendee_def)
  obtain d2 where d2: "rollback_badge_for_check_in ?aid eid (ci_id lv) audit d1 = Inr ((), d2)"
    using rollback_badge_total [OF wf1 a1] by blast
  have "wf_kept d1 d2" using d2 by (rule tx_allD [OF wf.rollback_badge_keeps [OF TrueI]])
  with wf1 have wf2: "wf_db d2" by (simp add: wf_kept_def)
  have a2: "find_attendee ?aid eid d2 = Some ?a"
    by (rule rollback_badge_Inr [OF d2]) (use a1 in \<open>simp add: find_attendee_def\<close>)
  obtain b d3 where d3: "write_action_log eid ?aid ''check_in_undo'' audit
       (Some (JObj [(''undone_check_in_id'', JStr (ci_id lv))])) d2 = Inr (b, d3)"
    using write_action_log_total [OF wf2 a2] by blast
  have "wf_kept d2 d3" using d3 by (rule tx_allD [OF wf.any_log_keeps [OF TrueI]])
  with wf2 have wf3: "wf_db d3" by (simp add: wf_kept_def)
  have a3: "find_attendee ?aid eid d3 = Some ?a"
    using d3 a2 by (cases rule: write_action_log_Inr) (simp_all add: find_attendee_def)
  obtain cd db' where "get_attendee_card env eid ?aid d3 = Inr (Some cd, db')"
    using card_total [OF wf3 a3, of env] a(2) by auto
  with n row d2 d3 show ?thesis
    by (simp add: undo_validated_def Let_def clear_admission_eq tx_bind_def tx_return_def)
qed

section \<open>An undo right after the admission\<close>

lemma admit_then_undo:
  assumes wf: "wf_db db" and g: "guest_of (ap_attendee_id p) (ap_event_id p) db = Some (st, None)"
    and st: "is_admittable st" and how: "ap_method p \<in> {''scan'', ''manual''}"
    and dev: "truthy (au_device_id (ap_audit p))"
    and ids: "unused_id env (ap_attendee_id p) db" "unused_id env' (ap_attendee_id p) db"
      "te_fresh_id env' (ap_attendee_id p) \<noteq> te_fresh_id env (ap_attendee_id p)"
    and unused: "\<not> is_reversed (ap_event_id p) (ap_attendee_id p) (te_fresh_id env (ap_attendee_id p)) db"
    and past: "\<forall>c \<in> set (check_ins db). ci_checked_in_at c + one_hour_ms \<le> te_now env"
  obtains cd t cd' db' where "admit_attendee (quiet_env env) p db = Inr (Ci_valid cd (te_now env), t)"
    "undo_last_check_in (quiet_env env') (ap_event_id p) (ap_audit p) t = Inr (cd', db')"
    "guest_of (ap_attendee_id p) (ap_event_id p) db' = Some (st, None)" "wf_db t"
proof -
  let ?aid = "ap_attendee_id p" and ?eid = "ap_event_id p" and ?dev = "au_device_id (ap_audit p)"
  let ?e = "quiet_env env" and ?e' = "quiet_env env'"
  have fr: "unused_id ?e ?aid db" and now: "te_now ?e = te_now env"
    and fid: "te_fresh_id ?e = te_fresh_id env" "te_fresh_id ?e' = te_fresh_id env'"
    using ids(1) by (simp_all add: unused_id_def quiet_env_def)
  obtain cd ls t where adm: "admit_attendee ?e p db = Inr (Ci_valid cd (te_now ?e), t)"
    "guest_of ?aid ?eid t = Some (st, Some (te_now ?e))"
    "check_ins t = check_ins db @ [admission_row ?e p Valid (te_now ?e)]"
    "action_logs t = action_logs db @ ls" "\<forall>l \<in> set ls. lg_action_type l \<in> {''check_in'', ''item_issued''}"
    "wf_db t" using wf g st fr by (rule admit_free) simp
  define lv where "lv = admission_row ?e p Valid (te_now ?e)"
  have lv: "ci_attendee_id lv = ?aid" "ci_event_id lv = ?eid" "ci_device_id lv = ?dev"
    "is_admission_row lv" "ci_checked_in_at lv = te_now env" "ci_id lv = te_fresh_id env ?aid"
    using how by (auto simp: lv_def admission_row_def is_admission_row_def now fid)
  have ct: "check_ins t = check_ins db @ [lv]" using adm(3) by (simp add: lv_def)
  have early: "ci_checked_in_at c < ci_checked_in_at lv" if "c \<in> set (check_ins db)" for c
    using past that by (auto simp: lv one_hour_ms_def)
  have sel: "last_valid_on_device ?eid ?dev t = Some lv"
    unfolding last_valid_on_device_def
    by (rule find_latest_unique) (auto simp: ct lv dest: early)
  obtain a where a: "find_attendee ?aid ?eid t = Some a" "att_erased_at a = None" "att_status a = st"
    "att_admitted_at a = Some (te_now ?e)" using adm(2) by (rule guest_of_Some)
  have nr: "\<not> is_reversed ?eid ?aid (ci_id lv) t"
    using unused adm(4,5) by (auto simp: is_reversed_def reversal_of_def lv)
  have nv: "\<not> newer_valid ?eid lv t"
    by (auto simp: newer_valid_def ct dest: early)
  have nm: "\<not> maybe_later_erased ?eid ?dev lv t"
  proof
    assume "maybe_later_erased ?eid ?dev lv t"
    then obtain c x where c: "c \<in> set (check_ins t)" "ci_checked_in_at c > ci_checked_in_at lv - one_hour_ms"
      "x \<in> set (attendees t)" "att_id x = ci_attendee_id c" "att_erased_at x \<noteq> None"
      by (auto simp: maybe_later_erased_def)
    show False
    proof (cases "c = lv")
      case True
      then have "att_id x = att_id a" using c(4) lv(1) find_attendee_Some [OF a(1)] by simp
      with c(3) find_attendee_Some [OF a(1)] adm(6) have "x = a" by (metis wf_attendee_inj)
      with c(5) a(2) show ?thesis by simp
    next
      case False
      with c(1) ct past have "ci_checked_in_at c + one_hour_ms \<le> te_now env" by auto
      with c(2) lv(5) show ?thesis by simp
    qed
  qed
  have un: "unused_id ?e' (ci_attendee_id lv) t"
    using ids(2,3) by (auto simp: unused_id_def ct lv fid)
  have al: "find_attendee (ci_attendee_id lv) ?eid t = Some a" "att_admitted_at a = Some (ci_checked_in_at lv)"
    using a lv now by simp_all
  obtain cd' db' where u: "undo_validated ?e' ?eid (ap_audit p) lv t = Inr (cd', db')"
    using undo_validated_total [OF adm(6) al(1) a(2) al(2) un] by blast
  have undo: "undo_last_check_in ?e' ?eid (ap_audit p) t = Inr (cd', db')"
    using dev sel al(1) a nm nr nv u lv now
    by (simp add: undo_last_check_in_def tx_simps lock_attendee_row_Some not_allowed_def)
  have att: "attendees db' = attendees (cleared_in ?eid ?aid (te_now env) t)"
    using u adm(6) al(1) a(2) al(2) by (rule undo_validatedE) (simp add: lv)
  have "guest_of ?aid ?eid db' = guest_of ?aid ?eid (cleared_in ?eid ?aid (te_now env) t)"
    using att by (rule guest_of_cong)
  also have "\<dots> = Some (st, None)"
    using a find_attendee_Some [OF a(1)] by (simp add: guest_of_def find_cleared_in now)
  finally show thesis using adm(1,6) undo that by (simp add: now)
qed

section \<open>Properties\<close>

text \<open>C4: An undo that succeeds, whatever other transactions committed while it waited for the
  attendee's row, reverses exactly the admission granted by the check-in it selected on its own
  device: when it took the lock the guest was admitted with the time of that check-in, which had
  not been reversed yet; afterwards the guest is unadmitted, and the history and the activity log
  each gained one row that names that check-in.\<close>

theorem undo_reverses_its_own_check_in:
  assumes ok: "undo_last_check_in env eid audit db = Inr (cd, db')"
    and wf: "wf_db (te_others env 7 db)"
  shows "\<exists>lv a ls. last_valid_on_device eid (au_device_id audit) db = Some lv \<and>
    find_attendee (ci_attendee_id lv) eid (te_others env 7 db) = Some a \<and>
    att_admitted_at a = Some (ci_checked_in_at lv) \<and> att_erased_at a = None \<and>
    \<not> is_reversed eid (ci_attendee_id lv) (ci_id lv) (te_others env 7 db) \<and>
    find_attendee (ci_attendee_id lv) eid db' =
      Some (a\<lparr>att_admitted_at := None, att_admitted_by := None\<rparr>) \<and>
    check_ins db' = check_ins (te_others env 7 db) @
      [undo_row env (ci_attendee_id lv) eid ''undo'' audit (''Undo of check-in '' @ ci_id lv)] \<and>
    action_logs db' = action_logs (te_others env 7 db) @ ls @
      [log_row eid (Some (ci_attendee_id lv)) ''check_in_undo'' audit
         (Some (JObj [(''undone_check_in_id'', JStr (ci_id lv))]))] \<and>
    (\<forall>l \<in> set ls. lg_action_type l = ''item_returned'')"
proof -
  obtain lv a where lv: "last_valid_on_device eid (au_device_id audit) db = Some lv"
    and a: "find_attendee (ci_attendee_id lv) eid (te_others env 7 db) = Some a" "att_erased_at a = None"
      "att_admitted_at a = Some (ci_checked_in_at lv)"
    and nr: "\<not> is_reversed eid (ci_attendee_id lv) (ci_id lv) (te_others env 7 db)"
    and u: "undo_validated env eid audit lv (te_others env 7 db) = Inr (cd, db')"
    using ok by (rule undo_last_check_inE)
  from u wf a obtain ls where
    r: "attendees db' = attendees (cleared_in eid (ci_attendee_id lv) (ci_checked_in_at lv) (te_others env 7 db))"
    "check_ins db' = check_ins (te_others env 7 db) @
       [undo_row env (ci_attendee_id lv) eid ''undo'' audit (''Undo of check-in '' @ ci_id lv)]"
    "action_logs db' = action_logs (te_others env 7 db) @ ls @
       [log_row eid (Some (ci_attendee_id lv)) ''check_in_undo'' audit
         (Some (JObj [(''undone_check_in_id'', JStr (ci_id lv))]))]"
    "\<forall>l \<in> set ls. lg_action_type l = ''item_returned''"
    by (rule undo_validatedE)
  have "find_attendee (ci_attendee_id lv) eid db' =
      find_attendee (ci_attendee_id lv) eid (cleared_in eid (ci_attendee_id lv) (ci_checked_in_at lv) (te_others env 7 db))"
    using r(1) by (simp add: find_attendee_def)
  also have "\<dots> = Some (a\<lparr>att_admitted_at := None, att_admitted_by := None\<rparr>)"
    using a find_attendee_Some [OF a(1)] by (simp add: find_cleared_in)
  finally show ?thesis using lv a nr r by blast
qed

lemma sample_device: "truthy (au_device_id (ap_audit (sample_admit aid)))"
  by (simp add: sample_admit_def sample_audit_def truthy_def)

lemma sample_undo_ids: "te_fresh_id sample_rival aid \<noteq> te_fresh_id sample_env aid"
  by (simp add: sample_rival_def sample_env_def)

lemma sample_not_reversed: "\<not> is_reversed eid aid cid sample_db"
  by (simp add: is_reversed_def sample_db_def)

lemma sample_past: "\<forall>c \<in> set (check_ins sample_db). ci_checked_in_at c + one_hour_ms \<le> te_now env"
  by (simp add: sample_db_def)

lemma sample_method: "ap_method (sample_admit aid) \<in> {''scan'', ''manual''}"
  by (simp add: sample_admit_def)

lemma undo_reverses_its_own_check_in_witness:
  "\<exists>db cd db' lv. undo_last_check_in (quiet_env sample_rival) ''e1'' sample_audit db = Inr (cd, db') \<and>
     last_valid_on_device ''e1'' (Some ''d1'') db = Some lv \<and>
     (\<exists>a. find_attendee (ci_attendee_id lv) ''e1'' db' = Some a \<and> att_admitted_at a = None)"
proof -
  have adm: "is_admittable Registered" by simp
  obtain cd t cd' db' where u: "undo_last_check_in (quiet_env sample_rival)
      (ap_event_id (sample_admit ''a1'')) (ap_audit (sample_admit ''a1'')) t = Inr (cd', db')" "wf_db t"
    by (rule admit_then_undo [OF sample_wf sample_guest_free adm sample_method sample_device sample_unused
          sample_unused sample_undo_ids sample_not_reversed sample_past])
  from u(2) have wf: "wf_db (te_others (quiet_env sample_rival) 7 t)" by simp
  show ?thesis
    using undo_reverses_its_own_check_in [OF u(1) wf] u(1)
    by (fastforce simp: sample_admit_def sample_audit_def)
qed

text \<open>Undoing an admission right after it on the same device, with the clock past every earlier
  check-in, succeeds and brings the guest back to unadmitted with the status they had, whoever they
  are and whatever the item configuration.\<close>

theorem admit_undo_roundtrip:
  assumes wf: "wf_db db" and g: "guest_of (ap_attendee_id p) (ap_event_id p) db = Some (st, None)"
    and st: "is_admittable st" and how: "ap_method p \<in> {''scan'', ''manual''}"
    and dev: "truthy (au_device_id (ap_audit p))"
    and ids: "unused_id env (ap_attendee_id p) db" "unused_id env' (ap_attendee_id p) db"
      "te_fresh_id env' (ap_attendee_id p) \<noteq> te_fresh_id env (ap_attendee_id p)"
    and unused: "\<not> is_reversed (ap_event_id p) (ap_attendee_id p) (te_fresh_id env (ap_attendee_id p)) db"
    and past: "\<forall>c \<in> set (check_ins db). ci_checked_in_at c + one_hour_ms \<le> te_now env"
  shows "\<exists>cd t cd' db'. admit_attendee (quiet_env env) p db = Inr (Ci_valid cd (te_now env), t) \<and>
    undo_last_check_in (quiet_env env') (ap_event_id p) (ap_audit p) t = Inr (cd', db') \<and>
    guest_of (ap_attendee_id p) (ap_event_id p) db' = Some (st, None)"
  using admit_then_undo [OF assms] by metis

lemma admit_undo_roundtrip_witness:
  "\<exists>cd t cd' db'. admit_attendee (quiet_env sample_env) (sample_admit ''a1'') sample_db =
       Inr (Ci_valid cd 1000, t) \<and>
     undo_last_check_in (quiet_env sample_rival) ''e1'' sample_audit t = Inr (cd', db') \<and>
     guest_of ''a1'' ''e1'' db' = Some (Registered, None)"
proof -
  have adm: "is_admittable Registered" by simp
  show ?thesis
    using admit_undo_roundtrip [OF sample_wf sample_guest_free adm sample_method sample_device
        sample_unused sample_unused sample_undo_ids sample_not_reversed sample_past]
    by (simp add: sample_admit_def sample_env_def)
qed

end
