(* ===== verification/Admission_Inv.thy ===== *)
theory Admission_Inv
  imports Reversal
begin

text \<open>
  The invariant of admissions: who is admitted has a VALID check-in row with exactly that time
  which no log row reverses, a reversal names a check-in of the same attendee and event, and no
  check-in is reversed twice. Every operation keeps it and only extends the history, whatever
  other transactions that do so commit at its waiting points.
\<close>

section \<open>The invariant\<close>

definition reversed_id :: "action_log \<Rightarrow> string list" where
  "reversed_id r = (case prop_of (lg_metadata r) ''undone_check_in_id'' of Some (JStr c) \<Rightarrow> [c] | _ \<Rightarrow> [])"

definition reversed_ids :: "action_log list \<Rightarrow> string list" where
  "reversed_ids ls = concat (map reversed_id ls)"

lemma reversed_ids_append [simp]: "reversed_ids (xs @ ys) = reversed_ids xs @ reversed_ids ys"
  by (simp add: reversed_ids_def)

lemma reversed_ids_Nil [simp]: "reversed_ids [] = []"
  by (simp add: reversed_ids_def)

lemma reversed_ids_log:
  "reversed_ids [log_row eid ao act audit (Some (JObj [(''undone_check_in_id'', JStr c)]))] = [c]"
  "reversed_ids [log_row eid ao act audit (Some (JObj []))] = []"
  by (simp_all add: reversed_ids_def reversed_id_def log_row_def)

lemma set_reversed_id:
  "c \<in> set (reversed_id r) \<longleftrightarrow> prop_of (lg_metadata r) ''undone_check_in_id'' = Some (JStr c)"
  by (auto simp: reversed_id_def split: option.splits json.splits)

lemma in_reversed_ids: "c \<in> set (reversed_ids ls) \<longleftrightarrow>
   (\<exists>r \<in> set ls. prop_of (lg_metadata r) ''undone_check_in_id'' = Some (JStr c))"
  by (simp add: reversed_ids_def set_reversed_id)

fun good_view :: "attendee list \<times> check_in list \<times> action_log list \<Rightarrow> bool" where
  "good_view (as, cs, ls) \<longleftrightarrow>
     (\<forall>a \<in> set as. \<forall>t. att_admitted_at a = Some t \<longrightarrow>
        (\<exists>c \<in> set cs. ci_event_id c = att_event_id a \<and> ci_checked_in_at c = t \<and>
           ci_id c \<notin> set (reversed_ids ls))) \<and>
     (\<forall>r \<in> set ls. \<forall>cid \<in> set (reversed_id r).
        \<exists>c \<in> set cs. ci_id c = cid \<and> ci_event_id c = lg_event_id r) \<and>
     distinct (reversed_ids ls)"

definition adm_inv :: "ops_db \<Rightarrow> bool" where
  "adm_inv db \<longleftrightarrow> wf_db db \<and> (\<forall>aid. good_view (admission_view aid db))"

lemma adm_inv_same:
  assumes "adm_inv s" "wf_db t" "same_admission UNIV s t"
  shows "adm_inv t"
  using assms by (simp add: adm_inv_def same_admission_def)

text \<open>The database's test for a reversal agrees with the ids in the view.\<close>

lemma is_reversed_view:
  assumes inv: "adm_inv db" and c: "c \<in> set (check_ins db)" "ci_attendee_id c = aid"
    "ci_event_id c = eid" "is_admission_row c"
  shows "is_reversed eid aid (ci_id c) db \<longleftrightarrow>
    ci_id c \<in> set (reversed_ids (snd (snd (admission_view aid db))))"
proof
  assume "is_reversed eid aid (ci_id c) db"
  then show "ci_id c \<in> set (reversed_ids (snd (snd (admission_view aid db))))"
    by (auto simp: is_reversed_def reversal_of_def admission_view_def in_reversed_ids reversal_actions_def)
next
  assume "ci_id c \<in> set (reversed_ids (snd (snd (admission_view aid db))))"
  then obtain r where r: "r \<in> set (action_logs db)" "lg_attendee_id r = Some aid"
    "lg_action_type r \<in> reversal_actions"
    "prop_of (lg_metadata r) ''undone_check_in_id'' = Some (JStr (ci_id c))"
    by (auto simp: admission_view_def in_reversed_ids)
  have "good_view (admission_view aid db)" and wf: "wf_db db" using inv by (auto simp: adm_inv_def)
  then have "\<forall>r \<in> set (snd (snd (admission_view aid db))). \<forall>cid \<in> set (reversed_id r).
      \<exists>c \<in> set (fst (snd (admission_view aid db))). ci_id c = cid \<and> ci_event_id c = lg_event_id r"
    by (cases "admission_view aid db") simp
  moreover have "r \<in> set (snd (snd (admission_view aid db)))" "ci_id c \<in> set (reversed_id r)"
    using r by (simp_all add: admission_view_def reversed_id_def)
  ultimately have "\<exists>d \<in> set (fst (snd (admission_view aid db))). ci_id d = ci_id c \<and> ci_event_id d = lg_event_id r"
    by blast
  then obtain d where "d \<in> set (check_ins db)" "ci_id d = ci_id c" "ci_event_id d = lg_event_id r"
    by (auto simp: admission_view_def)
  with wf c have "lg_event_id r = eid" by (metis wf_check_in_inj)
  with r show "is_reversed eid aid (ci_id c) db"
    by (auto simp: is_reversed_def reversal_of_def reversal_actions_def)
qed

section \<open>Granting and reversing one admission\<close>

lemma good_view_granted:
  assumes good: "good_view (as, cs, ls)" and fresh: "ci_id c \<notin> set (reversed_ids ls)"
    and upd: "\<And>a. att_event_id (f a) = att_event_id a"
      "\<And>a. hit a \<Longrightarrow> att_event_id a = ci_event_id c \<and> att_admitted_at (f a) = Some (ci_checked_in_at c)"
  shows "good_view (update_where hit f as, cs @ [c], ls)"
proof -
  have "\<exists>d \<in> set (cs @ [c]). ci_event_id d = att_event_id a \<and> ci_checked_in_at d = t \<and>
      ci_id d \<notin> set (reversed_ids ls)"
    if mem: "a \<in> set (update_where hit f as)" and at: "att_admitted_at a = Some t" for a t
  proof -
    obtain x where x: "x \<in> set as" "a = (if hit x then f x else x)"
      using mem unfolding in_update_where by blast
    show ?thesis
    proof (cases "hit x")
      case True
      with x at upd fresh show ?thesis by auto
    next
      case False
      with x at good show ?thesis by auto
    qed
  qed
  with good show ?thesis by auto
qed

lemma good_view_reversed:
  assumes good: "good_view (as, cs, ls)" and c: "c \<in> set cs" "ci_id c \<notin> set (reversed_ids ls)"
    and log: "reversed_id l = [ci_id c]" "lg_event_id l = ci_event_id c"
    and ids: "\<And>d. d \<in> set cs \<Longrightarrow> ci_id d = ci_id c \<Longrightarrow> d = c"
    and upd: "\<And>a. att_event_id (f a) = att_event_id a" "\<And>a. att_admitted_at (f a) = None"
      "\<And>a. \<lbrakk>a \<in> set as; att_event_id a = ci_event_id c; att_admitted_at a = Some (ci_checked_in_at c)\<rbrakk> \<Longrightarrow> hit a"
  shows "good_view (update_where hit f as, cs, ls @ [l])"
proof -
  have rev: "reversed_ids [l] = [ci_id c]" using log by (simp add: reversed_ids_def)
  have "\<exists>d \<in> set cs. ci_event_id d = att_event_id a \<and> ci_checked_in_at d = t \<and>
      ci_id d \<notin> set (reversed_ids (ls @ [l]))"
    if mem: "a \<in> set (update_where hit f as)" and at: "att_admitted_at a = Some t" for a t
  proof -
    obtain x where x: "x \<in> set as" "a = (if hit x then f x else x)"
      using mem unfolding in_update_where by blast
    with that(2) upd have nh: "\<not> hit x" "a = x" by (auto split: if_splits)
    with x at good obtain d where d: "d \<in> set cs" "ci_event_id d = att_event_id a"
      "ci_checked_in_at d = t" "ci_id d \<notin> set (reversed_ids ls)" by auto
    have "ci_id d \<noteq> ci_id c" using d nh x at ids upd(3) by metis
    with d show ?thesis using rev by auto
  qed
  with good c log rev show ?thesis by auto
qed

lemma good_view_cleared:
  assumes good: "good_view (as, cs, ls)" and log: "reversed_id l = []"
    and upd: "\<And>a. att_event_id (f a) = att_event_id a" "\<And>a. att_admitted_at (f a) = None"
  shows "good_view (update_where hit f as, cs, ls @ [l])"
proof -
  have rev: "reversed_ids [l] = []" using log by (simp add: reversed_ids_def)
  with good log upd show ?thesis by (auto simp: in_update_where split: if_splits)
qed

lemma good_view_unadmitted:
  assumes good: "good_view (as, cs, ls)"
    and upd: "\<And>a. att_event_id (f a) = att_event_id a" "\<And>a. att_admitted_at (f a) = None"
  shows "good_view (update_where hit f as, cs, ls)"
  using good upd by (auto simp: in_update_where split: if_splits)

lemma good_view_relabelled:
  assumes good: "good_view (as, cs, ls)"
    and upd: "\<And>a. att_event_id (f a) = att_event_id a" "\<And>a. att_admitted_at (f a) = att_admitted_at a"
  shows "good_view (update_where hit f as, cs, ls)"
proof -
  have "att_event_id (if hit x then f x else x) = att_event_id x"
    "att_admitted_at (if hit x then f x else x) = att_admitted_at x" for x
    using upd by simp_all
  with good show ?thesis by (auto simp: in_update_where)
qed

lemma filter_update_where_comm:
  "(\<And>x. q (f x) = q x) \<Longrightarrow> filter q (update_where p f xs) = update_where p f (filter q xs)"
  by (induction xs) (auto simp: update_where_def)

lemma good_view_reversed_known:
  assumes "good_view (as, cs, ls)" "x \<in> set (reversed_ids ls)"
  shows "\<exists>c \<in> set cs. ci_id c = x"
  using assms unfolding reversed_ids_def by fastforce

declare good_view.simps [simp del]

section \<open>The guarantee of every operation\<close>

definition adm_step :: "ops_db \<Rightarrow> ops_db \<Rightarrow> bool" where
  "adm_step s t \<longleftrightarrow> (adm_inv s \<longrightarrow> adm_inv t) \<and> history_grows s t"

lemma adm_step_refl: "adm_step s s"
  by (simp add: adm_step_def history_grows_def)

lemma adm_step_trans: "adm_step s t \<Longrightarrow> adm_step t u \<Longrightarrow> adm_step s u"
  using history_rel.rel_trans by (auto simp: adm_step_def)

lemma adm_stepI:
  assumes "wf_kept s t" "same_admission UNIV s t" "history_grows s t"
  shows "adm_step s t"
  using assms adm_inv_same by (auto simp: adm_step_def adm_inv_def wf_kept_def)

lemma quiet_keeps:
  assumes "tx_all wf_kept m" "tx_all (same_admission UNIV) m" "tx_all history_grows m"
  shows "tx_all adm_step m"
  using assms by (auto intro!: tx_allI adm_stepI dest: tx_allD)

lemma adm_step_guarantee:
  assumes "\<And>k db. adm_step db (te_others env k db)"
  shows "item_guarantee adm_step (\<lambda>_. True) env"
proof
  show "adm_step db (te_others env k db)" for db k by (rule assms)
  show "adm_step s s" for s by (rule adm_step_refl)
  show "adm_step s u" if "adm_step s t" "adm_step t u" for s t u using that by (rule adm_step_trans)
  show "tx_all adm_step (create_check_in c)" if "\<not> is_admission_row c" for c
    using that by (intro quiet_keeps wf_check_in_created same_adm.check_in_written history.check_in_written TrueI)
  show "tx_all adm_step (create_action_logs [r])"
    if "lg_attendee_id r = Some aid" "lg_action_type r \<notin> reversal_actions" for r aid
    using that by (intro quiet_keeps wf_log_created same_adm.log_written history.log_written TrueI)
  show "tx_all adm_step (move_item_state aid iid from_state to_state operator)"
    if "to_state \<in> set attendee_item_state_values" for aid iid from_state to_state operator
    using that by (intro quiet_keeps wf_state_moved same_adm.state_moved history.state_moved TrueI)
  show "tx_all adm_step (ensure_badge_event_item env eid)" for eid
  proof (rule tx_allI)
    fix s u t assume m: "ensure_badge_event_item env eid s = Inr (u, t)"
    have "same_admission UNIV s t" "history_grows s t"
      using m by (cases rule: ensure_badge_event_itemE;
          simp add: same_admission_def admission_view_def history_grows_def)+
    with tx_allD [OF wf_badge_created m] show "adm_step s t" by (intro adm_stepI)
  qed
  show "tx_all adm_step (add_item_states aid items)" for aid items
    by (intro quiet_keeps wf_states_added same_adm.states_written history_rel.states_written TrueI)
qed

interpretation adm: item_guarantee adm_step "\<lambda>_. True" "quiet_env env" for env
  by (rule adm_step_guarantee) (simp add: adm_step_refl)

end
