(* ===== verification/Admission_Steps.thy ===== *)
theory Admission_Steps
  imports Admission_Inv
begin

text \<open>
  The three operations that change who is admitted keep the invariant: an admission, an undo and a
  revocation, each with interference at its waiting points. A revocation also needs what its row
  lock gives: meanwhile nobody else changes the admission of its attendee.
\<close>

section \<open>Admission\<close>

lemma admit_won_step:
  assumes m: "admit_after_cas env p (admitted_in env p d) = Inr (r, t)"
    and how: "ap_method p \<in> {''scan'', ''manual''}"
  shows "adm_step d t"
  using m
proof (cases rule: admit_after_cas_Inr)
  case (1 cd ls)
  let ?aid = "ap_attendee_id p"
  let ?row = "admission_row env p Valid (te_now env)"
  let ?f = "\<lambda>a. a\<lparr>att_admitted_at := Some (te_now env), att_admitted_by := au_operator (ap_audit p)\<rparr>"
  have row: "is_admission_row ?row" "ci_attendee_id ?row = ?aid" "ci_event_id ?row = ap_event_id p"
    "ci_checked_in_at ?row = te_now env" "ci_id ?row = te_fresh_id env ?aid"
    using how by (auto simp: is_admission_row_def admission_row_def)
  have atts: "attendees t = update_where (cas_hit p) ?f (attendees d)"
    and cis: "check_ins t = check_ins d @ [?row]" and lgs: "action_logs t = action_logs d @ ls"
    using 1 by (simp_all add: admitted_in_def)
  have quiet: "filter (\<lambda>r. lg_attendee_id r = Some aid \<and> lg_action_type r \<in> reversal_actions) ls = []" for aid
    using 1(5) by (auto simp: filter_empty_conv reversal_actions_def)
  have view: "admission_view aid t = (update_where (cas_hit p) ?f (fst (admission_view aid d)),
      fst (snd (admission_view aid d)) @ (if aid = ?aid then [?row] else []), snd (snd (admission_view aid d)))" for aid
    using row by (auto simp: admission_view_def atts cis lgs quiet intro!: filter_update_where_comm)
  show ?thesis
    unfolding adm_step_def
  proof (intro conjI impI)
    show "history_grows d t" by (simp add: history_grows_def cis lgs)
    assume inv: "adm_inv d"
    have "wf_kept (admitted_in env p d) t" using m by (rule tx_allD [OF wf_after_cas])
    with inv have "wf_db t" by (simp add: adm_inv_def wf_kept_def wf_admitted_in)
    moreover have "good_view (admission_view aid t)" for aid
    proof -
      obtain as cs rs where v: "admission_view aid d = (as, cs, rs)" by (cases "admission_view aid d")
      have good: "good_view (as, cs, rs)" using inv v by (metis adm_inv_def)
      show ?thesis
      proof (cases "aid = ?aid")
        case True
        have "set cs \<subseteq> set (check_ins d)" using v by (auto simp: admission_view_def)
        moreover have "\<forall>c \<in> set (check_ins d). ci_id c \<noteq> ci_id ?row" using 1(6) by (simp add: admitted_in_def row)
        moreover have "\<forall>x \<in> set (reversed_ids rs). \<exists>c \<in> set cs. ci_id c = x"
          using good_view_reversed_known [OF good] by blast
        ultimately have "ci_id ?row \<notin> set (reversed_ids rs)" by blast
        with good have "good_view (update_where (cas_hit p) ?f as, cs @ [?row], rs)"
          by (rule good_view_granted) (auto simp: cas_hit_def row)
        then show ?thesis unfolding view v using True by simp
      next
        case False
        have "update_where (cas_hit p) ?f as = as"
          using v False by (intro update_where_id) (auto simp: admission_view_def cas_hit_def)
        with good show ?thesis unfolding view v using False by simp
      qed
    qed
    ultimately show "adm_inv t" by (simp add: adm_inv_def)
  qed
qed

lemma admit_adm_step:
  assumes others: "\<And>k db. adm_step db (te_others env k db)"
    and how: "ap_method p \<in> {''scan'', ''manual''}"
  shows "tx_all adm_step (admit_attendee env p)"
proof (rule tx_allI)
  fix s r t assume m: "admit_attendee env p s = Inr (r, t)"
  note G = adm_step_guarantee [OF others]
  note card = tx_allD [OF card_guarantee.require_card_keeps [OF item_guarantee.axioms(1) [OF G] TrueI]]
  have row: "adm_step d u" if "create_check_in (admission_row env p st at) d = Inr (v, u)" "st \<noteq> Valid" for st at d u v
    using that(1) by (rule tx_allD [OF item_guarantee.refused_row_keeps [OF G TrueI that(2)]])
  from m show "adm_step s t"
  proof (cases rule: admit_attendee_cases)
    case gone
    then show ?thesis by (simp add: adm_step_refl)
  next
    case (refused a cd d)
    then show ?thesis using card row [of Revoked_pass] by (blast intro: adm_step_trans)
  next
    case (already a cd d at)
    then show ?thesis using card row [of Already_checked_in] by (blast intro: adm_step_trans)
  next
    case (lost a cd d)
    have "adm_step s d" using lost(5) by (rule card)
    moreover have "adm_step (te_others env 0 d) t"
      using lost(7) by (rule tx_allD [OF item_guarantee.lost_cas_keeps [OF G TrueI]])
    ultimately show ?thesis using others adm_step_trans by blast
  next
    case (won a cd d)
    have "adm_step s d" using won(5) by (rule card)
    moreover have "adm_step (te_others env 0 d) t" using won(7) how by (rule admit_won_step)
    ultimately show ?thesis using others adm_step_trans by blast
  qed
qed

section \<open>Undo\<close>

lemma undo_adm_step:
  assumes others: "\<And>k db. adm_step db (te_others env k db)"
  shows "tx_all adm_step (undo_last_check_in env eid audit)"
proof (rule tx_allI)
  fix s cd t assume "undo_last_check_in env eid audit s = Inr (cd, t)"
  then obtain lv a where lv: "last_valid_on_device eid (au_device_id audit) s = Some lv"
    and a: "find_attendee (ci_attendee_id lv) eid (te_others env 7 s) = Some a" "att_erased_at a = None"
      "att_admitted_at a = Some (ci_checked_in_at lv)"
    and nr: "\<not> is_reversed eid (ci_attendee_id lv) (ci_id lv) (te_others env 7 s)"
    and u: "undo_validated env eid audit lv (te_others env 7 s) = Inr (cd, t)"
    by (rule undo_last_check_inE)
  define d where "d = te_others env 7 s"
  let ?aid = "ci_attendee_id lv"
  have sd: "adm_step s d" unfolding d_def by (rule others)
  have lv': "lv \<in> set (check_ins s)" "is_admission_row lv" "ci_event_id lv = eid"
    using find_latest_Some [OF lv [unfolded last_valid_on_device_def]] by auto
  have lvd: "lv \<in> set (check_ins d)"
    using sd lv'(1) by (auto simp: adm_step_def history_grows_def prefix_def)
  show "adm_step s t"
    unfolding adm_step_def
  proof (intro conjI impI)
    assume "adm_inv s"
    then have inv: "adm_inv d" using sd by (simp add: adm_step_def)
    then have wf: "wf_db d" by (simp add: adm_inv_def)
    from undo_validatedE [OF u [folded d_def] wf a [folded d_def]] obtain ls where
      t: "attendees t = attendees (cleared_in eid ?aid (ci_checked_in_at lv) d)"
      "check_ins t = check_ins d @ [undo_row env ?aid eid ''undo'' audit (''Undo of check-in '' @ ci_id lv)]"
      "action_logs t = action_logs d @ ls @ [log_row eid (Some ?aid) ''check_in_undo''
         audit (Some (JObj [(''undone_check_in_id'', JStr (ci_id lv))]))]"
      "\<forall>l \<in> set ls. lg_action_type l = ''item_returned''" "wf_db t" .
    let ?log = "log_row eid (Some ?aid) ''check_in_undo'' audit
                  (Some (JObj [(''undone_check_in_id'', JStr (ci_id lv))]))"
    have "good_view (admission_view aid t)" for aid
    proof -
      let ?hit = "\<lambda>a. att_id a = ?aid \<and> att_event_id a = eid \<and> att_admitted_at a = Some (ci_checked_in_at lv)"
      let ?f = "\<lambda>a. a\<lparr>att_admitted_at := None, att_admitted_by := None\<rparr>"
      obtain as cs rs where v: "admission_view aid d = (as, cs, rs)" by (cases "admission_view aid d")
      have good: "good_view (as, cs, rs)" using inv v by (metis adm_inv_def)
      have logs: "filter (\<lambda>r. lg_attendee_id r = Some aid \<and> lg_action_type r \<in> reversal_actions) (ls @ [?log]) =
          (if aid = ?aid then [?log] else [])"
        using t(4) by (auto simp: filter_empty_conv reversal_actions_def log_row_def)
      have view: "admission_view aid t = (update_where ?hit ?f as, cs, rs @ (if aid = ?aid then [?log] else []))"
        using v t logs
        by (simp add: admission_view_def cleared_in_def filter_update_where_comm is_admission_row_def undo_row_def)
      show ?thesis
      proof (cases "aid = ?aid")
        case True
        have lc: "lv \<in> set cs" using v lvd lv' True by (auto simp: admission_view_def)
        have new: "ci_id lv \<notin> set (reversed_ids rs)"
          using nr [folded d_def] is_reversed_view [OF inv lvd refl lv'(3) lv'(2)] v True by simp
        have "good_view (update_where ?hit ?f as, cs, rs @ [?log])"
        proof (rule good_view_reversed [OF good lc new])
          show "reversed_id ?log = [ci_id lv]" "lg_event_id ?log = ci_event_id lv"
            by (simp_all add: reversed_id_def log_row_def lv')
          show "x = lv" if "x \<in> set cs" "ci_id x = ci_id lv" for x
            using that v lvd wf wf_check_in_inj by (fastforce simp: admission_view_def)
          show "?hit x" if "x \<in> set as" "att_event_id x = ci_event_id lv"
            "att_admitted_at x = Some (ci_checked_in_at lv)" for x
            using that v True lv' by (auto simp: admission_view_def)
        qed simp_all
        then show ?thesis unfolding view using True by simp
      next
        case False
        have "update_where ?hit ?f as = as"
          using v False by (intro update_where_id) (auto simp: admission_view_def)
        with good show ?thesis unfolding view using False by simp
      qed
    qed
    with t(5) show "adm_inv t" by (simp add: adm_inv_def)
  next
    have "history_grows d t"
      using tx_allD [OF undo_validated_history u] by (simp add: d_def)
    with sd show "history_grows s t" using history_rel.rel_trans by (auto simp: adm_step_def)
  qed
qed

section \<open>Revocation\<close>

lemma revoke_check_in_mutationE:
  assumes "revoke_check_in_mutation env eid aid audit reset db = Inr (x, db')"
  obtains a at d1 d2 b where "find_attendee aid eid db = Some a" "att_erased_at a = None"
    "att_admitted_at a = Some at" "x = map_option ci_id (current_admission_row eid aid at db)"
    "create_check_in (undo_row env aid eid ''admin_revoke'' audit
       (case current_admission_row eid aid at db of None \<Rightarrow> ''Revoked check-in (no VALID row found)''
        | Some c \<Rightarrow> ''Revoked check-in '' @ ci_id c)) (cleared_in eid aid at db) = Inr ((), d1)"
    "(if reset then tx_bind (reset_all_item_states_for_revoke env aid eid audit) (\<lambda>_. tx_return ())
      else tx_return ()) d1 = Inr ((), d2)"
    "write_action_log eid aid ''check_in_revoked'' audit
       (Some (JObj (case current_admission_row eid aid at db of None \<Rightarrow> []
          | Some c \<Rightarrow> [(''undone_check_in_id'', JStr (ci_id c))]))) d2 = Inr (b, db')"
proof -
  obtain a where a: "find_attendee aid eid db = Some a" "att_admitted_at a \<noteq> None"
    using assms
    by (cases "find_attendee aid eid db")
       (auto simp: revoke_check_in_mutation_def not_allowed_def tx_simps split: if_splits option.splits)
  then obtain at where at: "att_admitted_at a = Some at" by auto
  have live: "att_erased_at a = None"
    using assms a(1)
    by (auto simp: revoke_check_in_mutation_def tx_simps lock_attendee_row_Some split: if_splits)
  have n: "count_where (\<lambda>a. att_id a = aid \<and> att_event_id a = eid \<and> att_admitted_at a = Some at)
             (attendees db) \<noteq> 0"
    using at find_attendee_Some [OF a(1)] by (auto simp: count_where_0)
  from assms a(1) at live n show thesis
    by (auto simp: revoke_check_in_mutation_def tx_bind_def tx_read_def tx_return_def tx_throw_def
          lock_attendee_row_Some clear_admission_eq
          split: sum.splits prod.splits intro!: that [OF a(1) live at])
qed

text \<open>The reversal log row of a revocation, and what it reverses.\<close>

lemma revoke_adm_step:
  assumes others: "\<And>k db. adm_step db (te_others env k db)"
    and locked: "\<And>k db. same_admission {aid} db (te_others env k db)"
  shows "tx_all adm_step (revoke_check_in_mutation env eid aid audit reset)"
proof (rule tx_allI)
  fix s x t assume "revoke_check_in_mutation env eid aid audit reset s = Inr (x, t)"
  then obtain a at d1 d2 b where a: "find_attendee aid eid s = Some a" "att_erased_at a = None"
      "att_admitted_at a = Some at" and
    row: "create_check_in (undo_row env aid eid ''admin_revoke'' audit
       (case current_admission_row eid aid at s of None \<Rightarrow> ''Revoked check-in (no VALID row found)''
        | Some c \<Rightarrow> ''Revoked check-in '' @ ci_id c)) (cleared_in eid aid at s) = Inr ((), d1)" and
    items: "(if reset then tx_bind (reset_all_item_states_for_revoke env aid eid audit) (\<lambda>_. tx_return ())
      else tx_return ()) d1 = Inr ((), d2)" and
    log: "write_action_log eid aid ''check_in_revoked'' audit
       (Some (JObj (case current_admission_row eid aid at s of None \<Rightarrow> []
          | Some c \<Rightarrow> [(''undone_check_in_id'', JStr (ci_id c))]))) d2 = Inr (b, t)"
    by (rule revoke_check_in_mutationE)
  let ?lv = "current_admission_row eid aid at s"
  let ?log = "log_row eid (Some aid) ''check_in_revoked'' audit (Some (JObj (case ?lv of None \<Rightarrow> []
          | Some c \<Rightarrow> [(''undone_check_in_id'', JStr (ci_id c))])))"
  let ?hit = "\<lambda>a. att_id a = aid \<and> att_event_id a = eid \<and> att_admitted_at a = Some at"
  let ?f = "\<lambda>a. a\<lparr>att_admitted_at := None, att_admitted_by := None\<rparr>"
  have d12: "adm_step d1 d2"
    using items by (rule tx_allD [OF item_guarantee.reset_part_keeps [OF adm_step_guarantee [OF others] TrueI]])
  have same12: "same_admission {aid} d1 d2"
    using items by (rule tx_allD [OF item_guarantee.reset_part_keeps [OF same_admission_guarantee [OF locked] TrueI]])
  have cis: "check_ins d1 = check_ins s @ [undo_row env aid eid ''admin_revoke'' audit
       (case ?lv of None \<Rightarrow> ''Revoked check-in (no VALID row found)'' | Some c \<Rightarrow> ''Revoked check-in '' @ ci_id c)]"
    and rest1: "attendees d1 = update_where ?hit ?f (attendees s)" "action_logs d1 = action_logs s"
    using row by (simp_all add: create_check_in_Inr cleared_in_def)
  show "adm_step s t"
    unfolding adm_step_def
  proof (intro conjI impI)
    have "history_grows s d1" using cis rest1 by (simp add: history_grows_def)
    moreover have "history_grows d1 d2" using d12 by (simp add: adm_step_def)
    moreover have "history_grows d2 t" using log by (rule tx_allD [OF history.any_log_keeps [OF TrueI]])
    ultimately show "history_grows s t" by (blast intro: history_rel.rel_trans)
    assume inv: "adm_inv s"
    have view1: "admission_view z d1 = (update_where ?hit ?f (fst (admission_view z s)),
        fst (snd (admission_view z s)), snd (snd (admission_view z s)))" for z
      by (simp add: admission_view_def cis rest1 filter_update_where_comm is_admission_row_def undo_row_def)
    have wf1: "wf_db d1"
      using tx_allD [OF wf_check_in_created row] inv by (simp add: wf_kept_def wf_cleared_in adm_inv_def)
    have good1: "good_view (admission_view z d1)" for z
    proof -
      obtain as cs rs where v: "admission_view z s = (as, cs, rs)" by (cases "admission_view z s")
      have good: "good_view (as, cs, rs)" using inv v by (metis adm_inv_def)
      show ?thesis unfolding view1 v fst_conv snd_conv
        by (rule good_view_unadmitted [OF good]) simp_all
    qed
    with wf1 have "adm_inv d1" by (simp add: adm_inv_def)
    with d12 have inv2: "adm_inv d2" by (simp add: adm_step_def)
    then have wf2: "wf_db d2" by (simp add: adm_inv_def)
    have "find_attendee aid eid d1 = Some (?f a)"
      using a find_attendee_Some [OF a(1)]
      by (simp add: find_attendee_def rest1 find_update_where)
    then have a2: "find_attendee aid eid d2 = Some (?f a)"
      using same_admission_find [OF same12] by simp
    have t: "t = d2\<lparr>action_logs := action_logs d2 @ [?log]\<rparr>"
      by (rule live_log_written [OF log wf2 a2]) (simp add: a(2))
    have "wf_db t" using tx_allD [OF wf.any_log_keeps [OF TrueI] log] wf2 by (simp add: wf_kept_def)
    moreover have "good_view (admission_view z t)" for z
    proof (cases "z = aid")
      case False
      have "admission_view z t = admission_view z d2"
        using False by (simp add: admission_view_def t log_row_def)
      with inv2 show ?thesis by (simp add: adm_inv_def)
    next
      case True
      obtain as cs rs where v: "admission_view aid s = (as, cs, rs)" by (cases "admission_view aid s")
      have good: "good_view (as, cs, rs)" using inv v by (metis adm_inv_def)
      have "admission_view aid d2 = (update_where ?hit ?f as, cs, rs)"
        using same12 view1 [of aid] v by (simp add: same_admission_def)
      then have view: "admission_view aid t = (update_where ?hit ?f as, cs, rs @ [?log])"
        by (simp add: admission_view_def t log_row_def reversal_actions_def)
      show ?thesis
      proof (cases ?lv)
        case None
        have "good_view (update_where ?hit ?f as, cs, rs @ [?log])"
          by (rule good_view_cleared [OF good]) (simp_all add: None reversed_id_def log_row_def)
        then show ?thesis unfolding True view .
      next
        case (Some c)
        have c: "c \<in> set (check_ins s)" "ci_event_id c = eid" "ci_attendee_id c = aid"
          "is_admission_row c" "ci_checked_in_at c = at" "\<not> is_reversed eid aid (ci_id c) s"
          using find_latest_Some [OF Some [unfolded current_admission_row_def]] by auto
        have cc: "c \<in> set cs" using v c by (auto simp: admission_view_def)
        have new: "ci_id c \<notin> set (reversed_ids rs)"
          using c(6) is_reversed_view [OF inv c(1,3,2,4)] v by simp
        have wf: "wf_db s" using inv by (simp add: adm_inv_def)
        have "good_view (update_where ?hit ?f as, cs, rs @ [?log])"
        proof (rule good_view_reversed [OF good cc new])
          show "reversed_id ?log = [ci_id c]" "lg_event_id ?log = ci_event_id c"
            by (simp_all add: Some reversed_id_def log_row_def c)
          show "x = c" if "x \<in> set cs" "ci_id x = ci_id c" for x
            using that v c(1) wf wf_check_in_inj by (fastforce simp: admission_view_def)
          show "?hit x" if "x \<in> set as" "att_event_id x = ci_event_id c"
            "att_admitted_at x = Some (ci_checked_in_at c)" for x
            using that v c by (auto simp: admission_view_def)
        qed simp_all
        then show ?thesis unfolding True view .
      qed
    qed
    ultimately show "adm_inv t" by (simp add: adm_inv_def)
  qed
qed

section \<open>Notes and tickets\<close>

lemma update_note_adm_step:
  "tx_all adm_step (tx_write (\<lambda>db. db\<lparr>attendee_notes := update_where p (\<lambda>m. m\<lparr>nt_body := body\<rparr>) (attendee_notes db)\<rparr>))"
proof (rule tx_all_write, rule adm_stepI)
  fix s :: ops_db
  let ?t = "s\<lparr>attendee_notes := update_where p (\<lambda>m. m\<lparr>nt_body := body\<rparr>) (attendee_notes s)\<rparr>"
  have "map nt_id (update_where p (\<lambda>m. m\<lparr>nt_body := body\<rparr>) (attendee_notes s)) = map nt_id (attendee_notes s)"
    by (rule map_update_where) simp
  then show "wf_kept s ?t" by (simp add: wf_kept_def wf_db_def)
qed (simp_all add: same_admission_def admission_view_def history_grows_def)

lemma delete_note_adm_step:
  "tx_all adm_step (tx_write (\<lambda>db. db\<lparr>attendee_notes := filter p (attendee_notes db)\<rparr>))"
  by (rule tx_all_write, rule adm_stepI)
     (auto simp: wf_kept_def wf_db_def same_admission_def admission_view_def history_grows_def distinct_map_filter)

lemma create_note_adm_step: "tx_all adm_step (create_note n)"
proof (rule tx_allI)
  fix s u t assume "create_note n s = Inr (u, t)"
  then have new: "nt_id n \<notin> nt_id ` set (attendee_notes s)"
    and t: "t = s\<lparr>attendee_notes := attendee_notes s @ [n]\<rparr>"
    by (auto simp: create_note_def split: if_splits)
  show "adm_step s t"
    unfolding t
  proof (rule adm_stepI)
    show "wf_kept s (s\<lparr>attendee_notes := attendee_notes s @ [n]\<rparr>)"
      using new by (simp add: wf_kept_def wf_db_def)
  qed (simp_all add: same_admission_def admission_view_def history_grows_def)
qed

lemma log_note_adm_step:
  assumes "action \<notin> reversal_actions"
  shows "tx_all adm_step (log_note eid aid action audit md)"
  unfolding log_note_def by (intro keeps_intros TrueI) (rule assms)

lemma load_note_adm_step: "tx_all adm_step (load_note nid aid eid)"
  unfolding load_note_def by (intro keeps_intros)

lemma note_request_adm_step:
  "(\<And>body operator. tx_all adm_step (work body operator)) \<Longrightarrow> tx_all adm_step (note_request raw audit work)"
  unfolding note_request_def Let_def by (intro keeps_intros)

lemma notes_adm_step:
  "tx_all adm_step (add_attendee_note env aid eid raw audit)"
  "tx_all adm_step (update_attendee_note aid eid nid raw audit)"
  "tx_all adm_step (delete_attendee_note aid eid nid any audit)"
  unfolding add_attendee_note_def update_attendee_note_def delete_attendee_note_def Let_def
  by (intro keeps_intros note_request_adm_step create_note_adm_step load_note_adm_step log_note_adm_step
      update_note_adm_step delete_note_adm_step; simp add: reversal_actions_def)+

end
