(* ===== verification/Ops_Machine.thy ===== *)
theory Ops_Machine
  imports Admission_Steps
begin

text \<open>
  The event day as a state machine. A step runs one operation; at its waiting points other
  operations run, which are steps of the same machine, so every interleaving at those points is
  covered, nested to any depth. While a revocation holds the lock on its attendee's row, the steps
  at its points leave that attendee's admission alone.
\<close>

section \<open>Requests\<close>

datatype ops_request =
    Admit admit_params
  | Scan scan_params "string \<Rightarrow> string"
  | Undo_last string audit_ctx
  | Revoke string string audit_ctx bool
  | Move_item string string string string audit_ctx
  | Revoke_item string string string audit_ctx
  | Reset_items string string audit_ctx
  | Add_note string string string audit_ctx
  | Edit_note string string string string audit_ctx
  | Delete_note string string string bool audit_ctx
  | Issue mint_env string

fun perform :: "tx_env \<Rightarrow> ops_request \<Rightarrow> ops_db \<Rightarrow> ops_db" where
  "perform env (Admit p) db = snd (run_tx (admit_attendee env p) db)"
| "perform env (Scan p sha) db = snd (check_in_scan env sha p db)"
| "perform env (Undo_last eid audit) db = snd (run_tx (undo_last_check_in env eid audit) db)"
| "perform env (Revoke eid aid audit reset) db =
     snd (run_tx (revoke_check_in_mutation env eid aid audit reset) db)"
| "perform env (Move_item aid eid key target audit) db =
     snd (run_tx (transition_item_state env aid eid key target audit) db)"
| "perform env (Revoke_item aid eid key audit) db =
     snd (run_tx (revoke_item_state env aid eid key audit) db)"
| "perform env (Reset_items aid eid audit) db =
     snd (run_tx (reset_all_item_states_for_revoke env aid eid audit) db)"
| "perform env (Add_note aid eid body audit) db =
     snd (run_tx (add_attendee_note env aid eid body audit) db)"
| "perform env (Edit_note aid eid nid body audit) db =
     snd (run_tx (update_attendee_note aid eid nid body audit) db)"
| "perform env (Delete_note aid eid nid any audit) db =
     snd (run_tx (delete_attendee_note aid eid nid any audit) db)"
| "perform env (Issue mint aid) db =
     snd (run_tx (issue_ticket (mint\<lparr>mi_others := te_others env\<rparr>) aid) db)"

text \<open>What the request types of the code allow: an admission is by scan or by hand.\<close>

fun request_ok :: "ops_request \<Rightarrow> bool" where
  "request_ok (Admit p) \<longleftrightarrow> ap_method p \<in> {''scan'', ''manual''}"
| "request_ok _ \<longleftrightarrow> True"

fun locks_kept :: "tx_env \<Rightarrow> ops_request \<Rightarrow> bool" where
  "locks_kept env (Revoke eid aid audit reset) \<longleftrightarrow>
     (\<forall>k db. same_admission {aid} db (te_others env k db))"
| "locks_kept env _ \<longleftrightarrow> True"

section \<open>Every request keeps the invariant\<close>

lemma mint_adm_step: "tx_all adm_step (mint_cas aid h enc)"
proof (rule tx_allI)
  fix s u t assume m: "mint_cas aid h enc s = Inr (u, t)"
  let ?f = "\<lambda>a. a\<lparr>att_token_hash := Some h, att_token_enc := Some enc\<rparr>"
  have t: "t = s\<lparr>attendees := update_where (mintable aid) ?f (attendees s)\<rparr>"
    using m by (simp add: mint_cas_def)
  have "adm_inv t" if inv: "adm_inv s"
  proof -
    have "good_view (admission_view z t)" for z
    proof -
      obtain as cs rs where v: "admission_view z s = (as, cs, rs)" by (cases "admission_view z s")
      have good: "good_view (as, cs, rs)" using inv v by (metis adm_inv_def)
      have "admission_view z t = (update_where (mintable aid) ?f as, cs, rs)"
        using v by (simp add: admission_view_def t filter_update_where_comm)
      moreover have "good_view (update_where (mintable aid) ?f as, cs, rs)"
        by (rule good_view_relabelled [OF good]) simp_all
      ultimately show ?thesis by simp
    qed
    with inv show ?thesis by (simp add: adm_inv_def t wf_attendees_update)
  qed
  then show "adm_step s t" by (simp add: adm_step_def history_grows_def t)
qed

lemma issue_adm_step:
  assumes "\<And>k db. adm_step db (mi_others env k db)"
  shows "tx_all adm_step (issue_ticket env aid)"
proof -
  have inter: "tx_all adm_step (interfere (mi_others env k))" for k
    by (rule tx_all_interfere) (rule assms)
  have mint: "tx_all adm_step (mint_or_explain env aid)"
  proof (cases "mi_encrypt env (mi_token env aid)")
    case (Inl e)
    then show ?thesis by (simp add: mint_or_explain_def tx_all_throw)
  next
    case (Inr enc)
    then show ?thesis
      by (simp add: mint_or_explain_def Let_def) (intro keeps_intros inter mint_adm_step)
  qed
  show ?thesis
    unfolding issue_ticket_def by (intro keeps_intros mint)
qed

lemma perform_adm_step:
  assumes others: "\<And>k db. adm_step db (te_others env k db)"
    and ok: "request_ok r" and locks: "locks_kept env r"
  shows "adm_step db (perform env r db)"
proof -
  note G = adm_step_guarantee [OF others]
  have run: "tx_all adm_step m \<Longrightarrow> adm_step db (snd (run_tx m db))" for m :: "'a ops_tx"
    by (rule adm.all_run)
  show ?thesis
  proof (cases r)
    case (Admit p)
    with ok show ?thesis by (simp add: run admit_adm_step [OF others])
  next
    case (Scan p sha)
    have "tx_all adm_step (admit_attendee env q)" if "ap_method q = ''scan''" for q
      using that by (intro admit_adm_step [OF others]) simp
    then show ?thesis
      using Scan op_allD [OF item_guarantee.scan_keeps_if [OF G]] by simp
  next
    case (Undo_last eid audit)
    then show ?thesis by (simp add: run undo_adm_step [OF others])
  next
    case (Revoke eid aid audit reset)
    with locks show ?thesis by (simp add: run revoke_adm_step [OF others])
  next
    case (Issue mint aid)
    with others show ?thesis by (simp add: run issue_adm_step)
  qed (simp_all add: run notes_adm_step item_guarantee.transition_keeps [OF G]
      item_guarantee.revoke_item_keeps [OF G] item_guarantee.reset_all_keeps [OF G])
qed

section \<open>The machine\<close>

inductive ops_step :: "ops_db \<Rightarrow> ops_db \<Rightarrow> bool" where
  "\<lbrakk>\<And>k d. ops_step\<^sup>*\<^sup>* d (te_others env k d); request_ok r; locks_kept env r\<rbrakk> \<Longrightarrow>
   ops_step db (perform env r db)"
  monos rtranclp_mono

inductive_cases ops_stepE: "ops_step s t"

text \<open>What every request guarantees under others that guarantee it holds along all runs.\<close>

lemma ops_step_guarantee:
  assumes R: "step_relation R"
    and perform: "\<And>env r db. \<lbrakk>\<And>k d. R d (te_others env k d); request_ok r; locks_kept env r\<rbrakk> \<Longrightarrow>
      R db (perform env r db)"
    and run: "ops_step\<^sup>*\<^sup>* s t"
  shows "R s t"
proof -
  have steps: "R s t" if "(\<lambda>x y. ops_step x y \<and> R x y)\<^sup>*\<^sup>* s t" for s t
    using that
    by (induction rule: rtranclp_induct)
       (auto intro: step_relation.rel_refl [OF R] step_relation.rel_trans [OF R])
  have one: "R s t" if "ops_step s t" for s t
    using that
  proof (induction rule: ops_step.induct)
    case (1 env r db)
    have "R d (te_others env k d)" for k d using 1(1) [of d k] by (rule steps)
    then show ?case using 1(2,3) by (rule perform)
  qed
  show ?thesis
    using run
    by (induction rule: rtranclp_induct)
       (auto intro: step_relation.rel_refl [OF R] step_relation.rel_trans [OF R] one)
qed

lemma ops_steps_adm: "ops_step\<^sup>*\<^sup>* s t \<Longrightarrow> adm_step s t"
  by (rule ops_step_guarantee [OF adm.step_relation_axioms perform_adm_step])

lemma quiet_step: "request_ok r \<Longrightarrow> ops_step db (perform (quiet_env env) r db)"
proof (rule ops_step.intros)
  show "locks_kept (quiet_env env) r" by (cases r) (simp_all add: same_admission_def)
qed simp_all

lemma adm_inv_view:
  assumes "adm_inv db"
  shows "good_view (filter (\<lambda>a. att_id a = aid) (attendees db),
    filter (\<lambda>c. ci_attendee_id c = aid \<and> is_admission_row c) (check_ins db),
    filter (\<lambda>r. lg_attendee_id r = Some aid \<and> lg_action_type r \<in> reversal_actions) (action_logs db))"
  using assms by (simp add: adm_inv_def admission_view_def)

lemma adm_inv_sample: "adm_inv sample_db"
  using sample_wf
  by (auto simp: adm_inv_def admission_view_def good_view.simps)
     (auto simp: sample_db_def sample_guest_def)

lemma at_most_one_source:
  "distinct (concat (map f xs)) \<Longrightarrow> length (filter (\<lambda>x. c \<in> set (f x)) xs) \<le> 1"
proof (induction xs)
  case (Cons x xs)
  show ?case
  proof (cases "c \<in> set (f x)")
    case True
    with Cons.prems have "filter (\<lambda>x. c \<in> set (f x)) xs = []" by (auto simp: filter_empty_conv)
    then show ?thesis by simp
  next
    case False
    with Cons show ?thesis by simp
  qed
qed simp

lemma reversal_of_view:
  assumes "reversal_of eid aid cid r"
  shows "(lg_attendee_id r = Some aid \<and> lg_action_type r \<in> reversal_actions) \<and> cid \<in> set (reversed_id r)"
  using assms by (simp add: reversal_of_def reversed_id_def reversal_actions_def)

lemma length_filter_mono:
  "(\<And>x. p x \<Longrightarrow> q x) \<Longrightarrow> length (filter p xs) \<le> length (filter q xs)"
  by (induction xs) auto

section \<open>Properties\<close>

text \<open>C5: In every state the event day can reach, through any operations interleaved at their
  waiting points, an attendee who is admitted has a VALID check-in row of their own, by scan or by
  hand, with exactly the time of the admission, that has not been reversed.\<close>

theorem admitted_has_unreversed_check_in:
  assumes run: "ops_step\<^sup>*\<^sup>* db0 db" and start: "adm_inv db0"
    and a: "a \<in> set (attendees db)" "att_admitted_at a = Some t"
  shows "\<exists>c \<in> set (check_ins db). ci_attendee_id c = att_id a \<and> ci_event_id c = att_event_id a \<and>
    is_admission_row c \<and> ci_checked_in_at c = t \<and> \<not> is_reversed (att_event_id a) (att_id a) (ci_id c) db"
proof -
  have inv: "adm_inv db" using ops_steps_adm [OF run] start by (simp add: adm_step_def)
  from adm_inv_view [OF inv, of "att_id a"] a obtain c where
    c: "c \<in> set (check_ins db)" "ci_attendee_id c = att_id a" "is_admission_row c"
      "ci_event_id c = att_event_id a" "ci_checked_in_at c = t"
      "ci_id c \<notin> set (reversed_ids (filter (\<lambda>r. lg_attendee_id r = Some (att_id a) \<and>
         lg_action_type r \<in> reversal_actions) (action_logs db)))"
    unfolding good_view.simps by fastforce
  then have "\<not> is_reversed (att_event_id a) (att_id a) (ci_id c) db"
    using is_reversed_view [OF inv c(1,2,4,3)] by (simp add: admission_view_def)
  with c show ?thesis by blast
qed

lemma admitted_has_unreversed_check_in_witness:
  "\<exists>db a. ops_step\<^sup>*\<^sup>* sample_db db \<and> a \<in> set (attendees db) \<and> att_admitted_at a = Some 1000 \<and>
     (\<exists>c \<in> set (check_ins db). ci_attendee_id c = att_id a \<and> ci_checked_in_at c = 1000)"
proof -
  have adm: "is_admittable Registered" by simp
  have others: "te_others (quiet_env sample_env) 0 d = d" for d by simp
  obtain cd ls db where r: "admit_attendee (quiet_env sample_env) (sample_admit ''a1'') sample_db =
      Inr (Ci_valid cd (te_now (quiet_env sample_env)), db)"
    and g: "guest_of (ap_attendee_id (sample_admit ''a1'')) (ap_event_id (sample_admit ''a1'')) db =
      Some (Registered, Some (te_now (quiet_env sample_env)))"
    by (rule admit_free [OF sample_wf sample_guest_free adm sample_unused others])
  have "ops_step sample_db (perform (quiet_env sample_env) (Admit (sample_admit ''a1'')) sample_db)"
    by (rule quiet_step) (simp add: sample_admit_def)
  then have run: "ops_step\<^sup>*\<^sup>* sample_db db" using r by (simp add: run_tx_def)
  obtain a where f: "find_attendee (ap_attendee_id (sample_admit ''a1'')) (ap_event_id (sample_admit ''a1'')) db = Some a"
    and at: "att_admitted_at a = Some 1000"
    using g by (rule guest_of_Some) (simp add: quiet_env_def sample_env_def)
  have mem: "a \<in> set (attendees db)" using find_attendee_Some [OF f] by simp
  show ?thesis
    using admitted_has_unreversed_check_in [OF run adm_inv_sample mem at] run mem at by blast
qed

text \<open>C6: In every reachable state every check-in is reversed at most once: at most one row of the
  activity log, by an undo or by a revocation, names it.\<close>

theorem check_in_reversed_at_most_once:
  assumes run: "ops_step\<^sup>*\<^sup>* db0 db" and start: "adm_inv db0"
  shows "count_where (reversal_of eid aid cid) (action_logs db) \<le> 1"
proof -
  let ?v = "filter (\<lambda>r. lg_attendee_id r = Some aid \<and> lg_action_type r \<in> reversal_actions) (action_logs db)"
  have inv: "adm_inv db" using ops_steps_adm [OF run] start by (simp add: adm_step_def)
  then have "distinct (reversed_ids ?v)" using adm_inv_view [OF inv, of aid] by (simp add: good_view.simps)
  then have "length (filter (\<lambda>r. cid \<in> set (reversed_id r)) ?v) \<le> 1"
    unfolding reversed_ids_def by (rule at_most_one_source)
  then have one: "length (filter (\<lambda>r. (lg_attendee_id r = Some aid \<and> lg_action_type r \<in> reversal_actions) \<and>
      cid \<in> set (reversed_id r)) (action_logs db)) \<le> 1"
    by (simp only: filter_filter)
  have "length (filter (reversal_of eid aid cid) (action_logs db)) \<le>
      length (filter (\<lambda>r. (lg_attendee_id r = Some aid \<and> lg_action_type r \<in> reversal_actions) \<and>
      cid \<in> set (reversed_id r)) (action_logs db))"
    by (rule length_filter_mono) (rule reversal_of_view)
  with one show ?thesis unfolding count_where_def by (rule order_trans [rotated])
qed

lemma check_in_reversed_at_most_once_witness:
  "\<exists>db. ops_step\<^sup>*\<^sup>* sample_db db \<and> db \<noteq> sample_db \<and>
     count_where (reversal_of ''e1'' ''a1'' ''c-a1'') (action_logs db) \<le> 1"
proof -
  have adm: "is_admittable Registered" by simp
  have others: "te_others (quiet_env sample_env) 0 d = d" for d by simp
  obtain cd ls db where r: "admit_attendee (quiet_env sample_env) (sample_admit ''a1'') sample_db =
      Inr (Ci_valid cd (te_now (quiet_env sample_env)), db)"
    and ci: "check_ins db = check_ins sample_db @
      [admission_row (quiet_env sample_env) (sample_admit ''a1'') Valid (te_now (quiet_env sample_env))]"
    by (rule admit_free [OF sample_wf sample_guest_free adm sample_unused others])
  have "ops_step sample_db (perform (quiet_env sample_env) (Admit (sample_admit ''a1'')) sample_db)"
    by (rule quiet_step) (simp add: sample_admit_def)
  then have run: "ops_step\<^sup>*\<^sup>* sample_db db" using r by (simp add: run_tx_def)
  moreover have "db \<noteq> sample_db" using ci by auto
  ultimately show ?thesis using check_in_reversed_at_most_once [OF run adm_inv_sample] by blast
qed

end
