(* ===== verification/Ops_Properties.thy ===== *)
theory Ops_Properties
  imports Ops_Machine
begin

text \<open>
  What holds of all requests alike: they touch the rows of one attendee, an erased attendee is left
  alone, and the history is append-only over well-formed tables.
\<close>

fun subject_of :: "ops_request \<Rightarrow> string option" where
  "subject_of (Admit p) = Some (ap_attendee_id p)"
| "subject_of (Scan p sha) = None"
| "subject_of (Undo_last eid audit) = None"
| "subject_of (Revoke eid aid audit reset) = Some aid"
| "subject_of (Move_item aid eid key target audit) = Some aid"
| "subject_of (Revoke_item aid eid key audit) = Some aid"
| "subject_of (Reset_items aid eid audit) = Some aid"
| "subject_of (Add_note aid eid body audit) = Some aid"
| "subject_of (Edit_note aid eid nid body audit) = Some aid"
| "subject_of (Delete_note aid eid nid any audit) = Some aid"
| "subject_of (Issue mint aid) = Some aid"

section \<open>Notes and tickets touch one attendee\<close>

definition keeps_others :: "string \<Rightarrow> ops_db \<Rightarrow> ops_db \<Rightarrow> bool" where
  "keeps_others aid s t \<longleftrightarrow> (wf_db s \<longrightarrow> only_rows_of {aid} s t)"

lemma run_only_rows:
  assumes "\<And>a t. m db = Inr (a, t) \<Longrightarrow> only_rows_of A db t"
  shows "only_rows_of A db (snd (run_tx m db))"
  using assms by (auto simp: run_tx_def only_rows_of_def split: sum.splits)

lemma log_note_only_rows:
  assumes "log_note eid aid action audit md s = Inr (u, t)"
  shows "only_rows_of {aid} s t"
proof -
  have "tx_all (only_rows_of {aid}) (log_note eid aid action audit md)"
    unfolding log_note_def
    by (rule only_rows_rel.all_bind [OF only_rows.any_log_keeps only_rows_rel.all_return]) simp
  with assms show ?thesis by (auto dest: tx_allD)
qed

lemma load_noteE:
  assumes "load_note nid aid eid s = Inr (n, t)"
  obtains "t = s" "n \<in> set (attendee_notes s)" "nt_id n = nid" "nt_attendee_id n = aid"
    "nt_event_id n = eid" "\<exists>a. find_attendee aid eid s = Some a \<and> att_erased_at a = None"
  using assms
  by (auto simp: load_note_def tx_simps lock_attendee_row_Some find_note_def dest!: find_set
           split: option.splits if_splits)

lemma note_requestE:
  assumes "note_request raw audit work s = Inr (x, t)"
  obtains operator where "au_operator audit = Some operator" "operator \<noteq> []" "js_trim raw \<noteq> []"
    "length (js_trim raw) \<le> max_attendee_note_length" "work (js_trim raw) operator s = Inr (x, t)"
  using assms
  by (auto simp: note_request_def Let_def tx_throw_def split: option.splits if_splits)

lemma add_note_only_rows:
  assumes "add_attendee_note env aid eid raw audit s = Inr (x, t)"
  shows "only_rows_of {aid} s t"
proof -
  from assms obtain n d md where "nt_attendee_id n = aid" "create_note n s = Inr ((), d)"
    "log_note eid aid ''note_added'' audit md d = Inr ((), t)"
    unfolding add_attendee_note_def Let_def
    by (elim note_requestE tx_bindE)
       (simp add: tx_read_def tx_return_def tx_throw_def tx_bind_Inr split: if_splits;
        metis (no_types, lifting) attendee_note.select_convs)
  moreover from this have "only_rows_of {aid} s d"
    by (auto simp: create_note_def only_rows_of_def outside_of_def split: if_splits)
  ultimately show ?thesis using log_note_only_rows only_rows_rel.rel_trans by blast
qed

lemma edit_note_only_rows:
  assumes "update_attendee_note aid eid nid raw audit s = Inr (x, t)" and wf: "wf_db s"
  shows "only_rows_of {aid} s t"
proof -
  from assms(1) obtain n body where n: "n \<in> set (attendee_notes s)" "nt_attendee_id n = aid" and
    l: "log_note eid aid ''note_updated'' audit [(''note_id'', JStr (nt_id n))]
      (s\<lparr>attendee_notes := update_where (\<lambda>m. nt_id m = nt_id n) (\<lambda>m. m\<lparr>nt_body := body\<rparr>)
         (attendee_notes s)\<rparr>) = Inr ((), t)"
    unfolding update_attendee_note_def
    by (elim note_requestE tx_bindE load_noteE)
       (auto simp: tx_throw_def tx_return_def tx_write_def elim!: tx_bindE split: if_splits)
  have own: "nt_attendee_id m = aid" if "m \<in> set (attendee_notes s)" "nt_id m = nt_id n" for m
    using that n wf unfolding wf_db_def by (metis distinct_keyD)
  have "filter (\<lambda>m. nt_attendee_id m \<notin> {aid})
      (update_where (\<lambda>m. nt_id m = nt_id n) (\<lambda>m. m\<lparr>nt_body := body\<rparr>) (attendee_notes s)) =
    filter (\<lambda>m. nt_attendee_id m \<notin> {aid}) (attendee_notes s)"
    by (subst filter_update_where_comm) (auto intro!: update_where_id dest: own)
  then have "only_rows_of {aid} s (s\<lparr>attendee_notes := update_where (\<lambda>m. nt_id m = nt_id n)
      (\<lambda>m. m\<lparr>nt_body := body\<rparr>) (attendee_notes s)\<rparr>)"
    by (simp add: only_rows_of_def outside_of_def)
  then show ?thesis using log_note_only_rows [OF l] only_rows_rel.rel_trans by blast
qed

lemma delete_note_only_rows:
  assumes "delete_attendee_note aid eid nid any audit s = Inr (x, t)" and wf: "wf_db s"
  shows "only_rows_of {aid} s t"
proof -
  from assms(1) obtain n md where n: "n \<in> set (attendee_notes s)" "nt_attendee_id n = aid" and
    l: "log_note eid aid ''note_deleted'' audit md
      (s\<lparr>attendee_notes := filter (\<lambda>m. nt_id m \<noteq> nt_id n) (attendee_notes s)\<rparr>) = Inr ((), t)"
    unfolding delete_attendee_note_def
    by (auto simp: tx_throw_def tx_write_def elim!: tx_bindE load_noteE split: if_splits)
  have own: "nt_attendee_id m = aid" if "m \<in> set (attendee_notes s)" "nt_id m = nt_id n" for m
    using that n wf unfolding wf_db_def by (metis distinct_keyD)
  have "filter (\<lambda>m. nt_attendee_id m \<notin> {aid}) (filter (\<lambda>m. nt_id m \<noteq> nt_id n) (attendee_notes s)) =
    filter (\<lambda>m. nt_attendee_id m \<notin> {aid}) (attendee_notes s)"
    unfolding filter_filter by (rule filter_cong) (auto dest: own)
  then have "only_rows_of {aid} s (s\<lparr>attendee_notes := filter (\<lambda>m. nt_id m \<noteq> nt_id n) (attendee_notes s)\<rparr>)"
    by (simp add: only_rows_of_def outside_of_def)
  then show ?thesis using log_note_only_rows [OF l] only_rows_rel.rel_trans by blast
qed

lemma issue_only_rows:
  assumes "\<And>k d. mi_others env k d = d"
  shows "tx_all (only_rows_of {aid}) (issue_ticket env aid)"
proof -
  have inter: "tx_all (only_rows_of {aid}) (interfere (mi_others env k))" for k
    by (rule tx_all_interfere) (simp add: assms only_rows_of_def)
  have cas: "tx_all (only_rows_of {aid}) (mint_cas aid h enc)" for h enc
    by (rule tx_allI) (auto simp: mint_cas_def only_rows_of_def outside_of_def mintable_def
        intro!: filter_update_where)
  have mint: "tx_all (only_rows_of {aid}) (mint_or_explain env aid)"
  proof (cases "mi_encrypt env (mi_token env aid)")
    case (Inl e)
    then show ?thesis by (simp add: mint_or_explain_def tx_all_throw)
  next
    case (Inr enc)
    then show ?thesis
      by (simp add: mint_or_explain_def Let_def) (intro keeps_intros inter cas)
  qed
  show ?thesis unfolding issue_ticket_def by (intro keeps_intros mint)
qed

lemma failed_bind: "\<exists>e. m db = Inl e \<Longrightarrow> snd (run_tx (tx_bind m f) db) = db"
  by (auto simp: run_tx_def tx_bind_def)

section \<open>Properties\<close>

text \<open>A request that names an attendee changes rows of that attendee only: everybody else's
  attendee row, check-ins, item states, notes and activity log are exactly as before, and so are
  the events, the custom fields and the users.\<close>

theorem request_touches_one_attendee:
  assumes subj: "subject_of r = Some aid" and wf: "wf_db db"
  shows "only_rows_of {aid} db (perform (quiet_env env) r db)"
proof -
  have run: "tx_all (only_rows_of {aid}) m \<Longrightarrow> only_rows_of {aid} db (snd (run_tx m db))" for m :: "'a ops_tx"
    by (rule only_rows_rel.all_run)
  have mem: "aid \<in> {aid}" by simp
  show ?thesis
  proof (cases r)
    case (Add_note aid' eid body audit)
    with subj show ?thesis by (auto intro: run_only_rows add_note_only_rows)
  next
    case (Edit_note aid' eid nid body audit)
    with subj show ?thesis by (auto intro: run_only_rows edit_note_only_rows wf)
  next
    case (Delete_note aid' eid nid any audit)
    with subj show ?thesis by (auto intro: run_only_rows delete_note_only_rows wf)
  next
    case (Issue mint aid')
    with subj show ?thesis by (simp add: run issue_only_rows)
  qed (use subj in \<open>simp_all add: run only_rows.admit_keeps only_rows.revoke_mutation_keeps
        only_rows.transition_keeps only_rows.revoke_item_keeps only_rows.reset_all_keeps\<close>)
qed

lemma request_touches_one_attendee_witness:
  "only_rows_of {''a1''} sample_db (perform (quiet_env sample_env) (Admit (sample_admit ''a1'')) sample_db)"
  by (rule request_touches_one_attendee [OF _ sample_wf]) (simp add: sample_admit_def)

text \<open>Once an attendee's data has been erased, no request that names them changes anything:
  whatever it answers, and whatever runs beside it, it leaves every table as it was.\<close>

theorem erased_attendee_untouched:
  assumes subj: "subject_of r = Some (att_id a)" and wf: "wf_db db"
    and a: "a \<in> set (attendees db)" "att_erased_at a \<noteq> None"
  shows "perform env r db = db"
proof -
  have own: "find_attendee (att_id a) eid db = None \<or> find_attendee (att_id a) eid db = Some a" for eid
  proof (cases "find_attendee (att_id a) eid db")
    case (Some b)
    then have "b \<in> set (attendees db)" "att_id b = att_id a" using find_attendee_Some by auto
    with wf a(1) have "b = a" by (blast intro: wf_attendee_inj)
    with Some show ?thesis by simp
  qed simp
  have lock: "lock_attendee_row (att_id a) (Some eid) db = None \<or>
      (\<exists>l. lock_attendee_row (att_id a) (Some eid) db = Some l \<and> lk_erased l)" for eid
    using own [of eid] a(2) by (auto simp: lock_attendee_row_Some)
  have load: "\<exists>e. load_attendee_for_item_action (att_id a) eid db = Inl e" for eid
    using lock [of eid] by (auto simp: load_attendee_for_item_action_def tx_simps)
  have id: "attendee_by_id (att_id a) db = Some a"
    unfolding attendee_by_id_def using wf a(1) by (intro find_unique) (auto dest: wf_attendee_inj)
  have load2: "\<exists>e. load_note nid (att_id a) eid db = Inl e" for nid eid
    using lock [of eid] by (auto simp: load_note_def tx_simps)
  show ?thesis
  proof (cases r)
    case (Admit p)
    have "guest_of (att_id a) (ap_event_id p) db = None"
      using own [of "ap_event_id p"] a(2) by (auto simp: guest_of_def)
    with Admit subj admit_gone [of p db env] show ?thesis by (simp add: run_tx_def)
  next
    case (Revoke eid aid audit reset)
    with subj own [of eid] a(2) show ?thesis
      by (auto simp: run_tx_def revoke_check_in_mutation_def tx_simps lock_attendee_row_Some not_allowed_def)
  next
    case (Add_note aid eid body audit)
    with subj lock [of eid] show ?thesis
      by (auto simp: run_tx_def add_attendee_note_def note_request_def Let_def tx_simps is_attendee_gone_def
               split: option.splits)
  next
    case (Edit_note aid eid nid body audit)
    with subj load2 [of nid eid] show ?thesis
      by (auto simp: run_tx_def update_attendee_note_def note_request_def Let_def tx_bind_def tx_throw_def
               split: option.splits)
  next
    case (Delete_note aid eid nid any audit)
    with subj load2 [of nid eid] show ?thesis
      by (auto simp: run_tx_def delete_attendee_note_def tx_bind_def tx_throw_def)
  next
    case (Issue mint aid)
    with subj id a(2) show ?thesis
      by (auto simp: run_tx_def issue_ticket_def classify_upfront_def tx_simps)
  qed (use subj in \<open>simp_all add: failed_bind load transition_item_state_def revoke_item_state_def
        reset_all_item_states_for_revoke_def\<close>)
qed

lemma erased_attendee_untouched_witness:
  "perform sample_env (Revoke ''e1'' ''a2'' sample_audit True) sample_db = sample_db"
proof -
  have s: "subject_of (Revoke ''e1'' ''a2'' sample_audit True) =
    Some (att_id ((sample_guest ''a2'')\<lparr>att_erased_at := Some 5\<rparr>))" by (simp add: sample_guest_def)
  show ?thesis
    by (rule erased_attendee_untouched [OF s sample_wf]) (simp_all add: sample_db_def)
qed

text \<open>C7: Over any reachable sequence of operations the tables stay well-formed and the check-in
  history and the activity log only grow: no row of either is ever changed, removed or reordered.\<close>

theorem history_is_append_only:
  assumes run: "ops_step\<^sup>*\<^sup>* db0 db" and start: "adm_inv db0"
  shows "wf_db db \<and> prefix (check_ins db0) (check_ins db) \<and> prefix (action_logs db0) (action_logs db)"
  using ops_steps_adm [OF run] start by (simp add: adm_step_def adm_inv_def history_grows_def)

lemma history_is_append_only_witness:
  "wf_db (perform (quiet_env sample_env) (Admit (sample_admit ''a1'')) sample_db) \<and>
   prefix (check_ins sample_db)
     (check_ins (perform (quiet_env sample_env) (Admit (sample_admit ''a1'')) sample_db))"
proof -
  have "ops_step\<^sup>*\<^sup>* sample_db (perform (quiet_env sample_env) (Admit (sample_admit ''a1'')) sample_db)"
    by (intro r_into_rtranclp quiet_step) (simp add: sample_admit_def)
  from history_is_append_only [OF this adm_inv_sample] show ?thesis by blast
qed

end
