(* ===== verification/Item_Props.thy ===== *)
theory Item_Props
  imports Ops_Properties
begin

text \<open>
  The item state machine: an operator's transition on every branch, the admin's reset, and the
  badge that an admission issues and an undo takes back.
\<close>

section \<open>Ensured item states\<close>

lemma item_state_insert_missing:
  "List.find (\<lambda>s. is_attendee_id s = aid \<and> is_event_item_id s = iid) (insert_missing_states rs table) =
   or_else (List.find (\<lambda>s. is_attendee_id s = aid \<and> is_event_item_id s = iid) table)
           (List.find (\<lambda>s. is_attendee_id s = aid \<and> is_event_item_id s = iid) rs)"
proof (induction rs table rule: insert_missing_states.induct)
  case (1 table)
  then show ?case by (simp add: or_else_def split: option.splits)
next
  case (2 r rs table)
  let ?p = "\<lambda>s. is_attendee_id s = aid \<and> is_event_item_id s = iid"
  have app: "List.find ?p (table @ [r]) = or_else (List.find ?p table) (if ?p r then Some r else None)"
    by (induction table) (auto simp: or_else_def)
  show ?case
  proof (cases "\<exists>s\<in>set table. is_attendee_id s = is_attendee_id r \<and> is_event_item_id s = is_event_item_id r")
    case True
    have "?p r \<Longrightarrow> List.find ?p table \<noteq> None" using True by (auto simp: find_None)
    with 2 True show ?thesis by (auto simp: or_else_def split: option.splits)
  next
    case False
    from "2.IH" have eq: "List.find ?p (insert_missing_states (r # rs) table) =
        or_else (List.find ?p (table @ [r])) (List.find ?p rs)"
      by (simp only: insert_missing_states.simps False if_False)
    show ?thesis
      unfolding eq app by (cases "?p r"; cases "List.find ?p table") (auto simp: or_else_def)
  qed
qed

lemma ensured_item_state:
  assumes m: "ensure_attendee_item_states env aid eid db = Inr (u, d)"
    and item: "find_enabled_item eid key db = Some item"
  shows "find_enabled_item eid key d = Some item"
    "\<exists>s. item_state_of aid (ei_id item) d = Some s \<and>
         is_state s = (case item_state_of aid (ei_id item) db of None \<Rightarrow> ''pending'' | Some s \<Rightarrow> is_state s)"
proof -
  from m obtain d1 where badge: "ensure_badge_event_item env eid db = Inr ((), d1)"
    and add: "add_item_states aid (filter (\<lambda>i. ei_event_id i = eid \<and> ei_enabled i) (event_items d1)) d1 = Inr (u, d)"
    by (auto simp: ensure_attendee_item_states_eq tx_bind_Inr tx_read_def)
  have find1: "find_enabled_item eid key d1 = Some item"
    using badge item
  proof (cases rule: ensure_badge_event_itemE)
    case 2
    have "List.find p (xs @ ys) = Some x" if "List.find p xs = Some x" for p :: "event_item \<Rightarrow> bool" and xs ys x
      using that by (induction xs) (auto split: if_splits)
    with 2 item show ?thesis by (simp add: find_enabled_item_def)
  qed simp
  have states1: "item_states d1 = item_states db"
    using badge by (cases rule: ensure_badge_event_itemE) simp_all
  have mem: "item \<in> set (event_items d1)" "ei_event_id item = eid" "ei_enabled item"
    using find_set [OF find1 [unfolded find_enabled_item_def]] by auto
  show "find_enabled_item eid key d = Some item"
    using find1 add by (auto simp: find_enabled_item_def add_item_states_def split: if_splits)
  let ?rows = "map (\<lambda>i. \<lparr>is_attendee_id = aid, is_event_item_id = ei_id i, is_state = ''pending'', is_updated_by = None\<rparr>)
      (filter (\<lambda>i. ei_event_id i = eid \<and> ei_enabled i) (event_items d1))"
  let ?p = "\<lambda>s. is_attendee_id s = aid \<and> is_event_item_id s = ei_id item"
  have d: "item_states d = insert_missing_states ?rows (item_states db)"
    using add mem states1 by (auto simp: add_item_states_def split: if_splits)
  have "List.find ?p ?rows \<noteq> None" using mem by (auto simp: find_None)
  then obtain r where r: "List.find ?p ?rows = Some r" by auto
  have "is_state r = ''pending''" using find_set [OF r] by auto
  then show "\<exists>s. item_state_of aid (ei_id item) d = Some s \<and>
         is_state s = (case item_state_of aid (ei_id item) db of None \<Rightarrow> ''pending'' | Some s \<Rightarrow> is_state s)"
    using r unfolding item_state_of_def d item_state_insert_missing
    by (auto simp: or_else_def split: option.splits)
qed

lemma moved_item_state:
  assumes s: "item_state_of aid iid d = Some s" and m: "move_item_state aid iid (is_state s) target operator d = Inr (n, d')"
    and wf: "wf_db d"
  shows "n \<noteq> 0" "item_state_of aid iid d' = Some (s\<lparr>is_state := target, is_updated_by := operator\<rparr>)"
proof -
  have k: "s \<in> set (item_states d)" "is_attendee_id s = aid" "is_event_item_id s = iid"
    using find_set [OF s [unfolded item_state_of_def]] by auto
  then show "n \<noteq> 0" using m by (auto simp: move_item_state_Inr count_where_0)
  show "item_state_of aid iid d' = Some (s\<lparr>is_state := target, is_updated_by := operator\<rparr>)"
    using m s k by (simp add: move_item_state_Inr item_state_of_def find_update_where)
qed

section \<open>Properties\<close>

definition current_item_state :: "string \<Rightarrow> string \<Rightarrow> ops_db \<Rightarrow> string" where
  "current_item_state aid iid db =
     (case item_state_of aid iid db of None \<Rightarrow> ''pending'' | Some s \<Rightarrow> is_state s)"

definition may_move :: "string \<Rightarrow> string \<Rightarrow> json \<Rightarrow> bool" where
  "may_move from_state target config \<longleftrightarrow>
     (from_state = ''pending'' \<and> target = ''issued'') \<or>
     (from_state = ''issued'' \<and> target = ''returned'' \<and>
        prop_of config ''requires_return'' \<noteq> Some (JBool False))"

lemma may_move_iff: "may_move f t config \<longleftrightarrow>
   allowed_target f t \<and> \<not> (t = ''returned'' \<and> prop_of config ''requires_return'' = Some (JBool False))"
  by (auto simp: may_move_def allowed_target_def operator_transitions_for_def)

text \<open>C8: An operator's request to move an enabled item of a live attendee succeeds exactly for
  pending to issued and, unless the item needs no return, issued to returned: then the item is in
  the requested state in the operator's name, admission and history of check-ins are untouched, and
  the log gains exactly one row with the item, the old state and the new one. Every other request
  is refused as an illegal transition.\<close>

theorem transition_item_state_spec:
  assumes wf: "wf_db db" and a: "find_attendee aid eid db = Some a" "att_erased_at a = None"
    and item: "find_enabled_item eid key db = Some item"
    and f: "f = current_item_state aid (ei_id item) db"
  shows "if may_move f target (ei_config item)
    then \<exists>db'. transition_item_state (quiet_env env) aid eid key target audit db = Inr (target, db') \<and>
      current_item_state aid (ei_id item) db' = target \<and>
      attendees db' = attendees db \<and> check_ins db' = check_ins db \<and>
      action_logs db' = action_logs db @ [log_row eid (Some aid)
        (if target = ''returned'' then ''item_returned'' else ''item_issued'') audit
        (Some (JObj [(''event_item_key'', JStr key), (''from_state'', JStr f), (''to_state'', JStr target)]))]
    else \<exists>msg. transition_item_state (quiet_env env) aid eid key target audit db =
      Inl (Illegal_transition msg False)"
proof -
  let ?env = "quiet_env env"
  have load: "load_attendee_for_item_action aid eid db =
      Inr (\<lparr>lk_id = att_id a, lk_status = att_status a, lk_erased = False\<rparr>, db)"
    using a by (simp add: load_attendee_for_item_action_def tx_simps lock_attendee_row_Some)
  obtain d where d: "ensure_attendee_item_states ?env aid eid db = Inr ((), d)"
    using ensure_states_total [OF wf a(1)] by blast
  have io: "items_only db d" using d by (rule tx_allD [OF items_rel.ensure_states_keeps [OF TrueI]])
  have "wf_kept db d" using d by (rule tx_allD [OF wf_rel.ensure_states_keeps [OF TrueI]])
  with wf have wfd: "wf_db d" by (simp add: wf_kept_def)
  note found = ensured_item_state(1) [OF d item]
  obtain s where s: "item_state_of aid (ei_id item) d = Some s" "is_state s = f"
    using ensured_item_state(2) [OF d item] f by (auto simp: current_item_state_def)
  show ?thesis
  proof (cases "may_move f target (ei_config item)")
    case False
    then have "\<not> allowed_target f target \<or>
        (target = ''returned'' \<and> prop_of (ei_config item) ''requires_return'' = Some (JBool False))"
      by (simp add: may_move_iff)
    with load d found s show ?thesis
      using False by (auto simp: transition_item_state_def tx_simps Let_def)
  next
    case True
    then have ok: "allowed_target f target"
      "\<not> (target = ''returned'' \<and> prop_of (ei_config item) ''requires_return'' = Some (JBool False))"
      by (auto simp: may_move_iff)
    have "\<exists>n d2. move_item_state aid (ei_id item) (is_state s) target (au_operator audit) d = Inr (n, d2)"
      by (simp add: move_item_state_def Let_def)
    then obtain n d2 where m: "move_item_state aid (ei_id item) (is_state s) target (au_operator audit) d = Inr (n, d2)"
      by blast
    note moved = moved_item_state [OF s(1) m wfd]
    have "wf_kept d d2" by (rule tx_allD [OF wf_state_moved m]) (use ok(1) in \<open>rule operator_transitions_values\<close>)
    with wfd have wf2: "wf_db d2" by (simp add: wf_kept_def)
    have a2: "find_attendee aid eid d2 = Some a"
      using m a(1) items_onlyD [OF io] by (simp add: move_item_state_Inr find_attendee_def)
    let ?act = "if target = ''returned'' then ''item_returned'' else ''item_issued''"
    let ?md = "Some (JObj [(''event_item_key'', JStr key), (''from_state'', JStr f), (''to_state'', JStr target)])"
    obtain b db' where l: "write_action_log eid aid ?act audit ?md d2 = Inr (b, db')"
      using write_action_log_total [OF wf2 a2] by blast
    note log = live_log_written [OF l wf2 a2 a(2)]
    have "transition_item_state ?env aid eid key target audit db = Inr (target, db')"
      using load d found s ok m moved l
      by (cases "target = ''returned''")
         (simp_all add: transition_item_state_def tx_bind_def tx_read_def tx_return_def Let_def interfere_def)
    moreover have "current_item_state aid (ei_id item) db' = target"
      using moved(2) by (simp add: log current_item_state_def item_state_of_def)
    moreover have "attendees db' = attendees db" "check_ins db' = check_ins db"
      "action_logs db' = action_logs db @ [log_row eid (Some aid) ?act audit ?md]"
      using m items_onlyD [OF io] by (simp_all add: log move_item_state_Inr)
    ultimately show ?thesis using True by auto
  qed
qed

definition sample_item_db :: ops_db where
  "sample_item_db = sample_db\<lparr>event_items := [\<lparr>ei_id = ''i1'', ei_event_id = ''e1'', ei_key = ''bag'',
     ei_label = ''Bag'', ei_description = None, ei_type = ''item'', ei_enabled = True, ei_icon = None,
     ei_config = JObj []\<rparr>]\<rparr>"

lemma sample_item_wf: "wf_db sample_item_db"
  using sample_wf by (simp add: sample_item_db_def wf_db_def)

lemma transition_item_state_spec_witness:
  "\<exists>db'. transition_item_state (quiet_env sample_env) ''a1'' ''e1'' ''bag'' ''issued'' sample_audit sample_item_db =
     Inr (''issued'', db') \<and> current_item_state ''a1'' ''i1'' db' = ''issued''"
proof -
  have a: "find_attendee ''a1'' ''e1'' sample_item_db = Some (sample_guest ''a1'')"
    "att_erased_at (sample_guest ''a1'') = None"
    using sample_find by (simp_all add: sample_item_db_def find_attendee_def sample_guest_def)
  have item: "find_enabled_item ''e1'' ''bag'' sample_item_db = Some (hd (event_items sample_item_db))"
    by (simp add: sample_item_db_def find_enabled_item_def)
  have f: "''pending'' = current_item_state ''a1'' (ei_id (hd (event_items sample_item_db))) sample_item_db"
    by (simp add: sample_item_db_def current_item_state_def item_state_of_def sample_db_def)
  have may: "may_move ''pending'' ''issued'' c" for c by (simp add: may_move_def)
  show ?thesis
    using transition_item_state_spec [OF sample_item_wf a item f, of "''issued''" sample_env sample_audit] may
    by (auto simp: sample_item_db_def)
qed

end
