(* ===== verification/Ticket_Props.thy ===== *)
theory Ticket_Props
  imports Item_Props
begin

text \<open>
  Ticket issuance: what a single issuance does on every branch, that a credential is never
  replaced, the round trip from an issued link back to its attendee, and the event-wide run.
\<close>

section \<open>One issuance\<close>

lemma mint_hit:
  assumes wf: "wf_db db" and a: "a \<in> set (attendees db)" "classify_upfront a (att_id a) = None"
  shows "count_where (mintable (att_id a)) (attendees db) \<noteq> 0" "mintable (att_id a) a"
proof -
  show hit: "mintable (att_id a) a"
    using a(2) by (auto simp: classify_upfront_def mintable_def is_not_issuable_status_def
        has_agency_identifier_def split: if_splits)
  with a(1) show "count_where (mintable (att_id a)) (attendees db) \<noteq> 0"
    by (auto simp: count_where_0)
qed

definition ticket_of :: "mint_env \<Rightarrow> string \<Rightarrow> issued_ticket" where
  "ticket_of env aid = Ticket_issued aid (mi_token env aid) (mi_sha256 env (mi_token env aid))
     (build_ticket_url (mi_base_url env) (mi_token env aid))"

definition minted_in :: "mint_env \<Rightarrow> string \<Rightarrow> string \<Rightarrow> ops_db \<Rightarrow> ops_db" where
  "minted_in env aid enc db = db\<lparr>attendees := update_where (mintable aid)
     (\<lambda>a. a\<lparr>att_token_hash := Some (mi_sha256 env (mi_token env aid)), att_token_enc := Some enc\<rparr>)
     (attendees db)\<rparr>"

definition quiet_mint :: "mint_env \<Rightarrow> bool" where
  "quiet_mint env \<longleftrightarrow> (\<forall>k d. mi_others env k d = d)"

lemma mint_free:
  assumes wf: "wf_db db" and a: "a \<in> set (attendees db)" "classify_upfront a (att_id a) = None"
    and enc: "mi_encrypt env (mi_token env (att_id a)) = Inr enc" and others: "quiet_mint env"
  shows "mint_or_explain env (att_id a) db = Inr (ticket_of env (att_id a), minted_in env (att_id a) enc db)"
proof -
  have "count_where (mintable (att_id a)) (attendees db) \<noteq> 0" using assms(1-3) by (rule mint_hit)
  with enc others show ?thesis
    by (simp add: mint_or_explain_def Let_def tx_simps mint_cas_def ticket_of_def minted_in_def quiet_mint_def)
qed

lemma by_id_member:
  assumes "wf_db db" "a \<in> set (attendees db)"
  shows "attendee_by_id (att_id a) db = Some a"
  unfolding attendee_by_id_def using assms by (intro find_unique) (auto dest: wf_attendee_inj)

lemma wf_minted_in: "wf_db db \<Longrightarrow> wf_db (minted_in env aid enc db)"
  unfolding minted_in_def by (rule wf_attendees_update) simp_all

lemma minted_by_id:
  assumes wf: "wf_db db" and a: "a \<in> set (attendees db)" "mintable (att_id a) a"
  shows "attendee_by_id (att_id a) (minted_in env (att_id a) enc db) =
    Some (a\<lparr>att_token_hash := Some (mi_sha256 env (mi_token env (att_id a))), att_token_enc := Some enc\<rparr>)"
  using by_id_member [OF wf a(1)] a(2)
  by (simp add: attendee_by_id_def minted_in_def find_update_where)

section \<open>A credential is never replaced\<close>

definition credentials_kept :: "ops_db \<Rightarrow> ops_db \<Rightarrow> bool" where
  "credentials_kept s t \<longleftrightarrow> (\<forall>a \<in> set (attendees s). att_token_hash a \<noteq> None \<longrightarrow>
     (\<exists>b \<in> set (attendees t). att_id b = att_id a \<and> att_token_hash b = att_token_hash a \<and>
        att_token_enc b = att_token_enc a))"

lemma credentials_kept_refl: "credentials_kept s s"
  by (auto simp: credentials_kept_def)

lemma credentials_kept_trans: "credentials_kept s t \<Longrightarrow> credentials_kept t u \<Longrightarrow> credentials_kept s u"
  unfolding credentials_kept_def by metis

lemma credentials_kept_update:
  assumes "\<And>a. p a \<Longrightarrow> att_token_hash a \<noteq> None \<Longrightarrow>
      att_token_hash (f a) = att_token_hash a \<and> att_token_enc (f a) = att_token_enc a"
    and "\<And>a. att_id (f a) = att_id a"
  shows "credentials_kept s (s\<lparr>attendees := update_where p f (attendees s)\<rparr>)"
  unfolding credentials_kept_def
proof (intro ballI impI)
  fix a assume a: "a \<in> set (attendees s)" "att_token_hash a \<noteq> None"
  let ?b = "if p a then f a else a"
  have "?b \<in> set (update_where p f (attendees s))" using a(1) by (auto simp: in_update_where)
  moreover have "att_id ?b = att_id a \<and> att_token_hash ?b = att_token_hash a \<and> att_token_enc ?b = att_token_enc a"
    using assms a(2) by simp
  ultimately show "\<exists>b \<in> set (attendees (s\<lparr>attendees := update_where p f (attendees s)\<rparr>)).
      att_id b = att_id a \<and> att_token_hash b = att_token_hash a \<and> att_token_enc b = att_token_enc a"
    by auto
qed

lemma credentials_same: "attendees t = attendees s \<Longrightarrow> credentials_kept s t"
  by (auto simp: credentials_kept_def)

lemma credentials_guarantee:
  assumes "\<And>k db. credentials_kept db (te_others env k db)"
  shows "ops_guarantee credentials_kept (\<lambda>_. True) env"
proof
  show "credentials_kept db (te_others env k db)" for db k by (rule assms)
  show "credentials_kept s s" for s by (rule credentials_kept_refl)
  show "credentials_kept s u" if "credentials_kept s t" "credentials_kept t u" for s t u
    using that by (rule credentials_kept_trans)
  show "tx_all credentials_kept (admit_cas env p)" for p
    by (rule tx_allI) (auto simp: admit_cas_def Let_def intro!: credentials_kept_update)
  show "tx_all credentials_kept (clear_admission eid aid at)" for aid eid at
    by (rule tx_allI) (auto simp: clear_admission_def Let_def intro!: credentials_kept_update)
qed (auto intro!: tx_allI credentials_same simp: create_check_in_Inr create_action_logs_Inr
      ensure_badge_event_item_def add_item_states_def move_item_state_def Let_def
      split: option.splits if_splits)

interpretation credentials: ops_guarantee credentials_kept "\<lambda>_. True" "quiet_env env" for env
  by (rule credentials_guarantee) (simp add: credentials_kept_refl)

lemma credentials_note_ops:
  "tx_all credentials_kept (add_attendee_note env aid eid raw audit)"
  "tx_all credentials_kept (update_attendee_note aid eid nid raw audit)"
  "tx_all credentials_kept (delete_attendee_note aid eid nid any audit)"
proof -
  have create: "tx_all credentials_kept (create_note n)" for n
    by (rule tx_allI, rule credentials_same) (auto simp: create_note_def split: if_splits)
  have wr: "tx_all credentials_kept (tx_write (\<lambda>db. db\<lparr>attendee_notes := f db\<rparr>))" for f
    by (rule tx_all_write, rule credentials_same) simp
  have log: "tx_all credentials_kept (log_note eid aid action audit md)" for action md
    unfolding log_note_def by (intro keeps_intros TrueI)
  have load: "tx_all credentials_kept (load_note nid aid eid)"
    unfolding load_note_def by (intro keeps_intros)
  show "tx_all credentials_kept (add_attendee_note env aid eid raw audit)"
    "tx_all credentials_kept (update_attendee_note aid eid nid raw audit)"
    "tx_all credentials_kept (delete_attendee_note aid eid nid any audit)"
    unfolding add_attendee_note_def update_attendee_note_def delete_attendee_note_def note_request_def Let_def
    by (intro keeps_intros create wr log load)+
qed

lemma credentials_issue:
  assumes "\<And>k db. credentials_kept db (mi_others env k db)"
  shows "tx_all credentials_kept (issue_ticket env aid)"
proof -
  have inter: "tx_all credentials_kept (interfere (mi_others env k))" for k
    by (rule tx_all_interfere) (rule assms)
  have cas: "tx_all credentials_kept (mint_cas aid h enc)" for h enc
    by (rule tx_allI) (auto simp: mint_cas_def mintable_def intro!: credentials_kept_update)
  have mint: "tx_all credentials_kept (mint_or_explain env aid)"
  proof (cases "mi_encrypt env (mi_token env aid)")
    case (Inl e)
    then show ?thesis by (simp add: mint_or_explain_def tx_all_throw)
  next
    case (Inr enc)
    then show ?thesis
      by (simp add: mint_or_explain_def Let_def) (intro keeps_intros inter cas)
  qed
  show ?thesis unfolding issue_ticket_def by (intro keeps_intros mint)
qed

lemma perform_credentials:
  assumes others: "\<And>k db. credentials_kept db (te_others env k db)"
  shows "credentials_kept db (perform env r db)"
proof -
  note G = credentials_guarantee [OF others]
  have run: "tx_all credentials_kept m \<Longrightarrow> credentials_kept db (snd (run_tx m db))" for m :: "'a ops_tx"
    by (rule credentials.all_run)
  show ?thesis
  proof (cases r)
    case (Scan p sha)
    then show ?thesis using op_allD [OF ops_guarantee.scan_keeps [OF G]] by simp
  next
    case (Issue mint aid)
    with others show ?thesis by (simp add: run credentials_issue)
  next
    case (Undo_last eid audit)
    then show ?thesis by (simp add: run ops_guarantee.undo_keeps [OF G])
  qed (simp_all add: run credentials_note_ops ops_guarantee.admit_keeps [OF G]
      ops_guarantee.revoke_mutation_keeps [OF G] item_guarantee.transition_keeps [OF ops_guarantee.axioms(1) [OF G]]
      item_guarantee.revoke_item_keeps [OF ops_guarantee.axioms(1) [OF G]]
      item_guarantee.reset_all_keeps [OF ops_guarantee.axioms(1) [OF G]])
qed

end
