(* ===== verification/Ticket_Event.thy ===== *)
theory Ticket_Event
  imports Ticket_Props
begin

text \<open>
  The properties of ticket issuance: single issuance, the permanence of credentials, the round trip
  of an issued link through the resolver, and the event-wide run with its summary.
\<close>

section \<open>The event-wide run\<close>

lemma pending_of_set: "(j, aid) \<in> set (pending_of k rows) \<longleftrightarrow>
  (\<exists>i < length rows. j = k + i \<and> aid = att_id (rows ! i) \<and> classify_upfront (rows ! i) aid = None)"
proof (induction k rows rule: pending_of.induct)
  case (2 i a rows)
  show ?case (is "?L = ?R")
  proof -
    have "?R \<longleftrightarrow> (j = i \<and> aid = att_id a \<and> classify_upfront a aid = None) \<or>
      (\<exists>n < length rows. j = Suc i + n \<and> aid = att_id (rows ! n) \<and> classify_upfront (rows ! n) aid = None)"
      (is "_ \<longleftrightarrow> ?H \<or> ?T")
    proof
      assume ?R
      then obtain m where m: "m < length (a # rows)" "j = i + m" "aid = att_id ((a # rows) ! m)"
        "classify_upfront ((a # rows) ! m) aid = None" by blast
      then show "?H \<or> ?T" by (cases m) auto
    next
      assume "?H \<or> ?T"
      then show ?R
      proof
        assume ?H
        then show ?R by (intro exI [of _ 0]) auto
      next
        assume ?T
        then obtain n where "n < length rows" "j = Suc i + n" "aid = att_id (rows ! n)"
          "classify_upfront (rows ! n) aid = None" by blast
        then show ?R by (intro exI [of _ "Suc n"]) simp
      qed
    qed
    with 2 show ?thesis by (cases "classify_upfront a (att_id a)") auto
  qed
qed simp

lemma pending_of_distinct:
  "distinct (map fst (pending_of k rows))"
  "distinct (map att_id rows) \<Longrightarrow> distinct (map snd (pending_of k rows))"
proof -
  show "distinct (map fst (pending_of k rows))"
    by (induction k rows rule: pending_of.induct) (auto simp: pending_of_set split: option.splits)
  show "distinct (map att_id rows) \<Longrightarrow> distinct (map snd (pending_of k rows))"
    by (induction k rows rule: pending_of.induct) (auto simp: pending_of_set split: option.splits)
qed

lemma classified_of_nth:
  "classified_of k rows j =
   (if k \<le> j \<and> j < k + length rows then classify_upfront (rows ! (j - k)) (att_id (rows ! (j - k))) else None)"
proof (induction k rows rule: classified_of.induct)
  case (2 i a rows)
  show ?case
  proof (cases "j = i")
    case True
    with 2 show ?thesis by (cases "classify_upfront a (att_id a)") simp_all
  next
    case False
    then have "(i \<le> j \<and> j < i + length (a # rows)) = (Suc i \<le> j \<and> j < Suc i + length rows)" by auto
    moreover have "(a # rows) ! (j - i) = rows ! (j - Suc i)" if "Suc i \<le> j"
      using that by (simp add: nth_Cons' Suc_diff_Suc)
    ultimately show ?thesis using 2 False by (cases "classify_upfront a (att_id a)") auto
  qed
qed auto

definition mint_step :: "mint_env \<Rightarrow> nat \<times> string \<Rightarrow> (nat \<rightharpoonup> issued_ticket) \<Rightarrow> (nat \<rightharpoonup> issued_ticket) ops_tx" where
  "mint_step env = (\<lambda>(index, aid) results_by_index.
     tx_bind (mint_or_explain env aid) (\<lambda>r. tx_return (results_by_index(index \<mapsto> r))))"

lemma mint_fold:
  assumes "wf_db s" "quiet_mint env" "\<And>t. \<exists>enc. mi_encrypt env t = Inr enc"
    and "distinct (map fst pend)" "distinct (map snd pend)"
    and "\<forall>(i, aid) \<in> set pend. \<exists>a \<in> set (attendees s). att_id a = aid \<and> classify_upfront a aid = None"
  shows "\<exists>m' s'. tx_fold (mint_step env) pend m s = Inr (m', s') \<and>
    (\<forall>i. m' i = (case map_of pend i of Some aid \<Rightarrow> Some (ticket_of env aid) | None \<Rightarrow> m i)) \<and>
    (\<forall>b \<in> set (attendees s'). \<exists>a \<in> set (attendees s). att_id b = att_id a \<and> att_event_id b = att_event_id a \<and>
       (if att_id a \<in> snd ` set pend then att_token_hash b \<noteq> None else b = a))"
  using assms
proof (induction pend arbitrary: m s)
  case Nil
  then show ?case by (auto simp: tx_return_def)
next
  case (Cons p pend)
  obtain j aid where p: "p = (j, aid)" by (cases p)
  from Cons.prems(6) p obtain a where a: "a \<in> set (attendees s)" "att_id a = aid"
    "classify_upfront a (att_id a) = None" by auto
  from Cons.prems(3) obtain enc where enc: "mi_encrypt env (mi_token env (att_id a)) = Inr enc" by blast
  let ?s = "minted_in env aid enc s"
  have step: "mint_step env p m s = Inr (m(j \<mapsto> ticket_of env aid), ?s)"
    using mint_free [OF Cons.prems(1) a(1,3) enc Cons.prems(2)] a(2)
    by (simp add: mint_step_def p tx_bind_def tx_return_def)
  have wf: "wf_db ?s" using Cons.prems(1) by (rule wf_minted_in)
  have aid: "aid \<notin> snd ` set pend" "j \<notin> fst ` set pend" using Cons.prems(4,5) p by auto
  have rest: "\<forall>(i, x) \<in> set pend. \<exists>a \<in> set (attendees ?s). att_id a = x \<and> classify_upfront a x = None"
  proof safe
    fix i x assume ix: "(i, x) \<in> set pend"
    with Cons.prems(6) obtain b where b: "b \<in> set (attendees s)" "att_id b = x" "classify_upfront b x = None"
      by auto
    have "x \<noteq> aid" using aid(1) ix by force
    then have "\<not> mintable aid b" using b(2) by (simp add: mintable_def)
    then have "b \<in> set (attendees ?s)" using b(1) by (auto simp: minted_in_def in_update_where)
    with b show "\<exists>a \<in> set (attendees ?s). att_id a = x \<and> classify_upfront a x = None" by blast
  qed
  have d: "distinct (map fst pend)" "distinct (map snd pend)" using Cons.prems(4,5) by simp_all
  from Cons.IH [OF wf Cons.prems(2,3) d rest, of "m(j \<mapsto> ticket_of env aid)"]
  obtain m' s' where f: "tx_fold (mint_step env) pend (m(j \<mapsto> ticket_of env aid)) ?s = Inr (m', s')"
    "\<forall>i. m' i = (case map_of pend i of Some aid \<Rightarrow> Some (ticket_of env aid)
       | None \<Rightarrow> (m(j \<mapsto> ticket_of env aid)) i)"
    "\<forall>b \<in> set (attendees s'). \<exists>a \<in> set (attendees ?s). att_id b = att_id a \<and> att_event_id b = att_event_id a \<and>
       (if att_id a \<in> snd ` set pend then att_token_hash b \<noteq> None else b = a)"
    by blast
  have res: "m' i = (case map_of (p # pend) i of Some aid \<Rightarrow> Some (ticket_of env aid) | None \<Rightarrow> m i)" for i
  proof (cases "i = j")
    case True
    have "map_of pend j = None" using aid(2) by (simp add: map_of_eq_None_iff)
    with f(2) True show ?thesis by (simp add: p)
  next
    case False
    with f(2) show ?thesis by (cases "map_of pend i") (simp_all add: p)
  qed
  have "\<exists>c \<in> set (attendees s). att_id b = att_id c \<and> att_event_id b = att_event_id c \<and>
       (if att_id c \<in> snd ` set (p # pend) then att_token_hash b \<noteq> None else b = c)"
    if b: "b \<in> set (attendees s')" for b
  proof -
    from f(3) b obtain d where d: "d \<in> set (attendees ?s)" "att_id b = att_id d" "att_event_id b = att_event_id d"
      "if att_id d \<in> snd ` set pend then att_token_hash b \<noteq> None else b = d" by blast
    from d(1) obtain c where c: "c \<in> set (attendees s)" and
      dc: "d = (if mintable aid c then c\<lparr>att_token_hash := Some (mi_sha256 env (mi_token env aid)),
                 att_token_enc := Some enc\<rparr> else c)"
      unfolding minted_in_def by (auto simp: in_update_where)
    have ids: "att_id d = att_id c" "att_event_id d = att_event_id c" using dc by simp_all
    have same: "c = a" if "att_id c = aid" using that c a(1,2) Cons.prems(1) wf_attendee_inj by metis
    have mint: "mintable aid a" using mint_hit(2) [OF Cons.prems(1) a(1,3)] a(2) by simp
    show ?thesis
    proof (cases "att_id c = aid")
      case True
      then have "att_token_hash d \<noteq> None" using dc same mint by simp
      then have "att_token_hash b \<noteq> None" using d(4) by (simp split: if_splits)
      with c d(2,3) ids show ?thesis by (auto simp: True p)
    next
      case False
      then have "d = c" using dc by (auto simp: mintable_def)
      with c d False show ?thesis by (intro bexI [of _ c]) (auto simp: p)
    qed
  qed
  with res f(1) step show ?case by (simp add: tx_bind_def)
qed

fun ticket_subject :: "issued_ticket \<Rightarrow> string" where
  "ticket_subject (Ticket_issued aid t h u) = aid"
| "ticket_subject (Ticket_already_issued aid) = aid"
| "ticket_subject (Ticket_agency aid q) = aid"
| "ticket_subject (Ticket_not_issuable aid c) = aid"

lemma summary_total:
  "sum_issued (summarize_issued_results rs) + sum_already_issued (summarize_issued_results rs) +
   sum_agency (summarize_issued_results rs) + sum_not_issuable (summarize_issued_results rs) = length rs"
  by (induction rs) (auto simp: Let_def split: issued_ticket.splits)

lemma classify_subject: "classify_upfront a aid = Some r \<Longrightarrow> ticket_subject r = aid"
  by (auto simp: classify_upfront_def split: if_splits)

section \<open>Properties\<close>

text \<open>A run over an event with nothing in between returns one result per attendee of the
  event, in order and about that attendee, with the four counts adding up to their number; and
  afterwards no attendee of the event is left without an answer: each one has a ticket link, an
  agency code, or a status that forbids one.\<close>

theorem issue_event_complete:
  assumes wf: "wf_db db" and event: "event_by_id eid db \<noteq> None" and others: "quiet_mint env"
    and enc: "\<And>t. \<exists>enc. mi_encrypt env t = Inr enc"
  shows "\<exists>results summary db'. issue_tickets_for_event env eid db = Inr ((results, summary), db') \<and>
    map ticket_subject results = map att_id (filter (\<lambda>a. att_event_id a = eid) (attendees db)) \<and>
    sum_issued summary + sum_already_issued summary + sum_agency summary + sum_not_issuable summary =
      length results \<and>
    (\<forall>b \<in> set (attendees db'). att_event_id b = eid \<longrightarrow> classify_upfront b (att_id b) \<noteq> None)"
proof -
  let ?rows = "filter (\<lambda>a. att_event_id a = eid) (attendees db)"
  let ?pend = "pending_of 0 ?rows"
  have dist: "distinct (map att_id ?rows)"
    using wf unfolding wf_db_def by (simp add: distinct_map_filter)
  have "\<forall>(i, aid) \<in> set ?pend. \<exists>a \<in> set (attendees db). att_id a = aid \<and> classify_upfront a aid = None"
  proof safe
    fix i aid assume "(i, aid) \<in> set ?pend"
    then obtain n where "n < length ?rows" "aid = att_id (?rows ! n)" "classify_upfront (?rows ! n) aid = None"
      by (auto simp: pending_of_set)
    moreover from this have "?rows ! n \<in> set (attendees db)" using nth_mem by fastforce
    ultimately show "\<exists>a \<in> set (attendees db). att_id a = aid \<and> classify_upfront a aid = None" by blast
  qed
  from mint_fold [OF wf others enc pending_of_distinct(1) pending_of_distinct(2) [OF dist] this,
      of "classified_of 0 ?rows"]
  obtain m' s' where f: "tx_fold (mint_step env) ?pend (classified_of 0 ?rows) db = Inr (m', s')"
    "\<forall>i. m' i = (case map_of ?pend i of Some aid \<Rightarrow> Some (ticket_of env aid) | None \<Rightarrow> classified_of 0 ?rows i)"
    "\<forall>b \<in> set (attendees s'). \<exists>a \<in> set (attendees db). att_id b = att_id a \<and> att_event_id b = att_event_id a \<and>
       (if att_id a \<in> snd ` set ?pend then att_token_hash b \<noteq> None else b = a)"
    by blast
  let ?results = "map (\<lambda>i. the (m' i)) [0..<length ?rows]"
  have run: "issue_tickets_for_event env eid db = Inr ((?results, summarize_issued_results ?results), s')"
    using event f(1) unfolding mint_step_def
    by (auto simp: issue_tickets_for_event_def tx_bind_def tx_read_def tx_return_def Let_def)
  have subj: "ticket_subject (the (m' i)) = att_id (?rows ! i)" if i: "i < length ?rows" for i
  proof (cases "classify_upfront (?rows ! i) (att_id (?rows ! i))")
    case None
    then have "(i, att_id (?rows ! i)) \<in> set ?pend" using i by (simp add: pending_of_set)
    then have "map_of ?pend i = Some (att_id (?rows ! i))" using pending_of_distinct(1) by simp
    with f(2) show ?thesis by (simp add: ticket_of_def)
  next
    case (Some r)
    then have "\<forall>x. (i, x) \<notin> set ?pend" by (auto simp: pending_of_set)
    then have "map_of ?pend i = None" by (auto simp: map_of_eq_None_iff)
    with f(2) i Some have "m' i = Some r" by (simp add: classified_of_nth)
    with Some show ?thesis by (simp add: classify_subject)
  qed
  have answered: "classify_upfront b (att_id b) \<noteq> None" if b: "b \<in> set (attendees s')" "att_event_id b = eid" for b
  proof -
    from f(3) b obtain a where a: "a \<in> set (attendees db)" "att_id b = att_id a" "att_event_id a = eid"
      "if att_id a \<in> snd ` set ?pend then att_token_hash b \<noteq> None else b = a" by metis
    show ?thesis
    proof (cases "att_id a \<in> snd ` set ?pend")
      case True
      with a(4) show ?thesis by (auto simp: classify_upfront_def)
    next
      case False
      from a(1,3) have "a \<in> set ?rows" by simp
      then obtain n where n: "n < length ?rows" "?rows ! n = a" by (metis in_set_conv_nth)
      with False have "(n, att_id a) \<notin> set ?pend" by force
      with n have "classify_upfront a (att_id a) \<noteq> None" by (auto simp: pending_of_set)
      with False a(2,4) show ?thesis by simp
    qed
  qed
  have "map ticket_subject ?results = map att_id ?rows"
    using subj by (intro nth_equalityI) simp_all
  with run answered summary_total [of ?results] show ?thesis by blast
qed

definition sample_mint :: mint_env where
  "sample_mint = \<lparr>mi_token = (\<lambda>aid. replicate 43 (CHR ''a'')), mi_sha256 = (\<lambda>t. t),
     mi_encrypt = (\<lambda>t. Inr t), mi_base_url = ''https://x.org'', mi_others = quiet\<rparr>"

lemma sample_mint_quiet: "quiet_mint sample_mint"
  by (simp add: quiet_mint_def sample_mint_def)

lemma sample_mint_encrypts: "\<exists>enc. mi_encrypt sample_mint t = Inr enc"
  by (simp add: sample_mint_def)

lemma sample_a1: "sample_guest ''a1'' \<in> set (attendees sample_db)"
  by (simp add: sample_db_def)

lemma sample_a1_mintable: "classify_upfront (sample_guest ''a1'') (att_id (sample_guest ''a1'')) = None"
  by (simp add: classify_upfront_def sample_guest_def is_not_issuable_status_def has_agency_identifier_def)

lemma issue_event_complete_witness:
  "\<exists>results summary db'. issue_tickets_for_event sample_mint ''e1'' sample_db = Inr ((results, summary), db') \<and>
     map ticket_subject results = [''a1'', ''a2'', ''a3'']"
proof -
  have event: "event_by_id ''e1'' sample_db \<noteq> None" by (simp add: event_by_id_def sample_db_def)
  show ?thesis
    using issue_event_complete [OF sample_wf event sample_mint_quiet sample_mint_encrypts]
    by (auto simp: sample_db_def sample_guest_def)
qed

text \<open>Issuing twice mints once: the first call for an attendee with no ticket answers with a
  link and stores its hash and its ciphertext, and the second call, with whatever token, answers
  that it was issued already and changes nothing.\<close>

theorem issue_is_idempotent:
  assumes wf: "wf_db db" and a: "a \<in> set (attendees db)" "classify_upfront a (att_id a) = None"
    and enc: "mi_encrypt env (mi_token env (att_id a)) = Inr enc" and others: "quiet_mint env"
  shows "\<exists>db'. issue_ticket env (att_id a) db = Inr (ticket_of env (att_id a), db') \<and>
    attendee_by_id (att_id a) db' = Some (a\<lparr>
      att_token_hash := Some (mi_sha256 env (mi_token env (att_id a))), att_token_enc := Some enc\<rparr>) \<and>
    issue_ticket env' (att_id a) db' = Inr (Ticket_already_issued (att_id a), db')"
proof -
  let ?db' = "minted_in env (att_id a) enc db"
  have first: "issue_ticket env (att_id a) db = Inr (ticket_of env (att_id a), ?db')"
    using mint_free [OF wf a enc others] by_id_member [OF wf a(1)] a(2)
    by (simp add: issue_ticket_def tx_bind_def tx_read_def)
  have row: "attendee_by_id (att_id a) ?db' = Some (a\<lparr>
      att_token_hash := Some (mi_sha256 env (mi_token env (att_id a))), att_token_enc := Some enc\<rparr>)"
    using wf a(1) mint_hit(2) [OF wf a] by (rule minted_by_id)
  have "issue_ticket env' (att_id a) ?db' = Inr (Ticket_already_issued (att_id a), ?db')"
    using row a(2)
    by (auto simp: issue_ticket_def tx_simps classify_upfront_def is_not_issuable_status_def
        has_agency_identifier_def split: if_splits)
  with first row show ?thesis by blast
qed

lemma issue_is_idempotent_witness:
  "\<exists>db'. issue_ticket sample_mint ''a1'' sample_db = Inr (ticket_of sample_mint ''a1'', db') \<and>
     issue_ticket sample_mint ''a1'' db' = Inr (Ticket_already_issued ''a1'', db')"
proof -
  have enc: "mi_encrypt sample_mint (mi_token sample_mint (att_id (sample_guest ''a1''))) =
    Inr (replicate 43 (CHR ''a''))" by (simp add: sample_mint_def)
  show ?thesis
    using issue_is_idempotent [OF sample_wf sample_a1 sample_a1_mintable enc sample_mint_quiet, of sample_mint]
    by (auto simp: sample_guest_def)
qed

text \<open>C9: A ticket link stays valid: in every state the event day reaches, an attendee who had a
  credential still has exactly that one, both the hash the resolver looks up and the ciphertext
  the link is rebuilt from, even while issuances race.\<close>

theorem credential_is_permanent:
  assumes run: "ops_step\<^sup>*\<^sup>* db0 db" and a: "a \<in> set (attendees db0)" "att_token_hash a \<noteq> None"
  shows "\<exists>b \<in> set (attendees db). att_id b = att_id a \<and> att_token_hash b = att_token_hash a \<and>
    att_token_enc b = att_token_enc a"
proof -
  have "credentials_kept db0 db"
    by (rule ops_step_guarantee [OF credentials.step_relation_axioms perform_credentials run])
  with a show ?thesis by (simp add: credentials_kept_def)
qed

lemma credential_is_permanent_witness:
  "\<exists>db a b. a \<in> set (attendees db) \<and> att_token_hash a = Some (replicate 43 (CHR ''a'')) \<and>
     b \<in> set (attendees (perform (quiet_env sample_env) (Issue sample_mint ''a1'') db)) \<and>
     att_id b = att_id a \<and> att_token_hash b = att_token_hash a"
proof -
  let ?a = "(sample_guest ''a1'')\<lparr>att_token_hash := Some (replicate 43 (CHR ''a'')), att_token_enc := Some ''e''\<rparr>"
  let ?db = "sample_db\<lparr>attendees := [?a]\<rparr>"
  have run: "ops_step\<^sup>*\<^sup>* ?db (perform (quiet_env sample_env) (Issue sample_mint ''a1'') ?db)"
    by (intro r_into_rtranclp quiet_step) simp
  have a: "?a \<in> set (attendees ?db)" "att_token_hash ?a \<noteq> None" by simp_all
  from credential_is_permanent [OF run a] obtain b where
    b: "b \<in> set (attendees (perform (quiet_env sample_env) (Issue sample_mint ''a1'') ?db))"
    "att_id b = att_id ?a" "att_token_hash b = att_token_hash ?a" by blast
  have h: "att_token_hash ?a = Some (replicate 43 (CHR ''a''))" by simp
  show ?thesis using a(1) h b by blast
qed

text \<open>C10: The link in an issued ticket leads back to its attendee: scanning it at the attendee's
  event resolves, in internal mode, to that attendee, when the token has the shape the generator
  gives it, no other attendee has its hash, and the base URL is a plain one.\<close>

theorem issued_link_resolves:
  assumes wf: "wf_db db" and a: "a \<in> set (attendees db)" "classify_upfront a (att_id a) = None"
    and enc: "mi_encrypt env (mi_token env (att_id a)) = Inr enc" and others: "quiet_mint env"
    and token: "looks_like_internal_token (mi_token env (att_id a))"
    and unique: "\<forall>b \<in> set (attendees db). att_token_hash b \<noteq> Some (mi_sha256 env (mi_token env (att_id a)))"
    and base: "\<forall>c \<in> set (mi_base_url env). c \<noteq> CHR ''?'' \<and> c \<noteq> CHR ''#''"
      "mi_base_url env \<noteq> []" "\<not> js_space (hd (mi_base_url env))" "mi_base_url env \<noteq> ''/''"
    and event: "att_event_id a \<noteq> []"
  shows "\<exists>t h url db' r. issue_ticket env (att_id a) db = Inr (Ticket_issued (att_id a) t h url, db') \<and>
    resolve_ticket (mi_sha256 env) url (Some (att_event_id a)) db' = Some r \<and>
    rt_mode r = Internal \<and> att_id (rt_attendee r) = att_id a"
proof -
  let ?t = "mi_token env (att_id a)"
  let ?db' = "minted_in env (att_id a) enc db"
  let ?b = "a\<lparr>att_token_hash := Some (mi_sha256 env ?t), att_token_enc := Some enc\<rparr>"
  have first: "issue_ticket env (att_id a) db = Inr (ticket_of env (att_id a), ?db')"
    using mint_free [OF wf a enc others] by_id_member [OF wf a(1)] a(2)
    by (simp add: issue_ticket_def tx_bind_def tx_read_def)
  have mem: "?b \<in> set (attendees ?db')"
    using a(1) mint_hit(2) [OF wf a] by (force simp: minted_in_def in_update_where)
  have only: "x = ?b" if x: "x \<in> set (attendees ?db')" "att_token_hash x = Some (mi_sha256 env ?t)" for x
  proof -
    obtain y where y: "y \<in> set (attendees db)" "x = (if mintable (att_id a) y
        then y\<lparr>att_token_hash := Some (mi_sha256 env ?t), att_token_enc := Some enc\<rparr> else y)"
      using x(1) unfolding minted_in_def by (auto simp: in_update_where)
    with x(2) unique have "mintable (att_id a) y" by (auto split: if_splits)
    moreover from this have "y = a" using wf_attendee_inj [OF wf y(1) a(1)] by (simp add: mintable_def)
    ultimately show ?thesis using y(2) by simp
  qed
  have "List.find (\<lambda>x. att_token_hash x = Some (mi_sha256 env ?t) \<and> att_event_id x = att_event_id a)
      (attendees ?db') = Some ?b"
    using mem
  proof (rule find_unique)
    show "y = ?b" if "y \<in> set (attendees ?db')"
      "att_token_hash y = Some (mi_sha256 env ?t) \<and> att_event_id y = att_event_id a" for y
      using that by (intro only) simp_all
  qed simp
  then have "find_by_token_hash (mi_sha256 env ?t) (Some (att_event_id a)) ?db' = Some ?b"
    using event by (simp add: find_by_token_hash_def truthy_def)
  then have "resolve_ticket (mi_sha256 env) (build_ticket_url (mi_base_url env) ?t) (Some (att_event_id a)) ?db' =
      Some \<lparr>rt_mode = Internal, rt_attendee = ?b\<rparr>"
    using extract_built_url [OF token base]
    by (simp add: resolve_ticket_def raw_token_of_def or_else_def)
  with first show ?thesis by (auto simp: ticket_of_def)
qed

lemma issued_link_resolves_witness:
  "\<exists>t h url db' r. issue_ticket sample_mint ''a1'' sample_db = Inr (Ticket_issued ''a1'' t h url, db') \<and>
     resolve_ticket (\<lambda>t. t) url (Some ''e1'') db' = Some r \<and> att_id (rt_attendee r) = ''a1''"
proof -
  let ?a = "sample_guest ''a1''"
  have enc: "mi_encrypt sample_mint (mi_token sample_mint (att_id ?a)) = Inr (replicate 43 (CHR ''a''))"
    by (simp add: sample_mint_def)
  have token: "looks_like_internal_token (mi_token sample_mint (att_id ?a))"
    by (simp add: sample_mint_def looks_like_internal_token_def list_all_iff token_char_def Let_def)
  have unique: "\<forall>b \<in> set (attendees sample_db).
      att_token_hash b \<noteq> Some (mi_sha256 sample_mint (mi_token sample_mint (att_id ?a)))"
    by (simp add: sample_db_def sample_guest_def)
  have base: "\<forall>c \<in> set (mi_base_url sample_mint). c \<noteq> CHR ''?'' \<and> c \<noteq> CHR ''#''"
    "mi_base_url sample_mint \<noteq> []" "\<not> js_space (hd (mi_base_url sample_mint))"
    "mi_base_url sample_mint \<noteq> ''/''"
    by (simp_all add: sample_mint_def js_space_def Let_def)
  have event: "att_event_id ?a \<noteq> []" by (simp add: sample_guest_def)
  have env: "att_id ?a = ''a1''" "att_event_id ?a = ''e1''" "mi_sha256 sample_mint = (\<lambda>t. t)"
    by (simp_all add: sample_guest_def sample_mint_def)
  show ?thesis
    using issued_link_resolves [OF sample_wf sample_a1 sample_a1_mintable enc sample_mint_quiet token unique base event]
    unfolding env by blast
qed

end
