(* ===== verification/Bulk_Props.thy ===== *)
theory Bulk_Props
  imports Ticket_Event
begin

text \<open>
  The event-wide revocation of check-ins: the reset of one attendee's items, the total correctness
  of one revocation, the run over chunks, and the completeness of the whole.
\<close>

section \<open>Resetting the items of one attendee\<close>

definition in_state :: "string \<Rightarrow> item_state \<Rightarrow> ops_db \<Rightarrow> bool" where
  "in_state aid s db \<longleftrightarrow> item_state_of aid (is_event_item_id s) db = Some s"

lemma reset_one_total:
  assumes wf: "wf_db d" and a: "find_attendee aid eid d = Some a" "att_erased_at a = None"
    and s: "in_state aid s d" and q: "\<And>k d. te_others env k d = d"
  shows "\<exists>d'. reset_item_state_to_pending env aid eid (is_event_item_id s) key (is_state s) audit d = Inr (True, d') \<and>
    wf_db d' \<and> attendees d' = attendees d \<and> check_ins d' = check_ins d \<and>
    (\<forall>r. is_event_item_id r \<noteq> is_event_item_id s \<longrightarrow> in_state aid r d \<longrightarrow> in_state aid r d')"
proof -
  let ?iid = "is_event_item_id s"
  have "\<exists>n d1. move_item_state aid ?iid (is_state s) ''pending'' (au_operator audit) d = Inr (n, d1)"
    by (simp add: move_item_state_def Let_def)
  then obtain n d1 where m: "move_item_state aid ?iid (is_state s) ''pending'' (au_operator audit) d = Inr (n, d1)"
    by blast
  have n: "n \<noteq> 0" using moved_item_state(1) [OF s [unfolded in_state_def] m wf] .
  have "wf_kept d d1" by (rule tx_allD [OF wf_state_moved m]) simp
  with wf have wf1: "wf_db d1" by (simp add: wf_kept_def)
  have a1: "find_attendee aid eid d1 = Some a" using m a(1) by (simp add: move_item_state_Inr find_attendee_def)
  let ?md = "Some (JObj [(''event_item_key'', JStr key), (''from_state'', JStr (is_state s)),
                         (''to_state'', JStr ''pending'')])"
  obtain b d' where l: "write_action_log eid aid ''item_revoked'' audit ?md d1 = Inr (b, d')"
    using write_action_log_total [OF wf1 a1] by blast
  have "wf_kept d1 d'" using l by (rule tx_allD [OF wf.any_log_keeps [OF TrueI]])
  with wf1 have wf': "wf_db d'" by (simp add: wf_kept_def)
  note log = live_log_written [OF l wf1 a1 a(2)]
  have "reset_item_state_to_pending env aid eid ?iid key (is_state s) audit d = Inr (True, d')"
    using m n l q by (simp add: reset_item_state_to_pending_def tx_bind_def interfere_def tx_return_def)
  moreover have "in_state aid r d'" if "is_event_item_id r \<noteq> ?iid" "in_state aid r d" for r
    using that m unfolding log in_state_def item_state_of_def
    by (auto simp: move_item_state_Inr find_update_where dest!: find_set)
  moreover have "attendees d' = attendees d" "check_ins d' = check_ins d"
    using m by (simp_all add: log move_item_state_Inr)
  ultimately show ?thesis using wf' by blast
qed

lemma reset_fold_total:
  assumes "wf_db d" "find_attendee aid eid d = Some a" "att_erased_at a = None"
    and q: "\<And>k d. te_others env k d = d"
    and "distinct (map is_event_item_id states)" "\<forall>s \<in> set states. in_state aid s d"
  shows "\<exists>n d'. tx_fold (\<lambda>s reset_count.
      tx_bind (reset_item_state_to_pending env aid eid (is_event_item_id s) (key s) (is_state s) audit)
        (\<lambda>did_reset. tx_return (if did_reset then Suc reset_count else reset_count))) states n0 d = Inr (n, d') \<and>
    n = n0 + length states \<and> wf_db d' \<and> attendees d' = attendees d \<and> check_ins d' = check_ins d"
  using assms(1-3,5,6)
proof (induction states arbitrary: d n0)
  case Nil
  then show ?case by (simp add: tx_return_def)
next
  case (Cons s states)
  have "in_state aid s d" using Cons.prems(5) by simp
  from reset_one_total [OF Cons.prems(1-3) this q, of "key s" audit] obtain d1 where
    d1: "reset_item_state_to_pending env aid eid (is_event_item_id s) (key s) (is_state s) audit d = Inr (True, d1)"
    "wf_db d1" "attendees d1 = attendees d" "check_ins d1 = check_ins d"
    "\<forall>r. is_event_item_id r \<noteq> is_event_item_id s \<longrightarrow> in_state aid r d \<longrightarrow> in_state aid r d1" by blast
  have a1: "find_attendee aid eid d1 = Some a" using Cons.prems(2) d1(3) by (simp add: find_attendee_def)
  have st: "\<forall>r \<in> set states. in_state aid r d1"
    using Cons.prems(4,5) d1(5) by (auto simp: image_iff)
  have di: "distinct (map is_event_item_id states)" using Cons.prems(4) by simp
  from Cons.IH [OF d1(2) a1 Cons.prems(3) di st, of "Suc n0"] d1 show ?case
    by (auto simp: tx_bind_def tx_return_def)
qed

lemma reset_all_total:
  assumes wf: "wf_db d" and a: "find_attendee aid eid d = Some a" "att_erased_at a = None"
    and adm: "is_admittable (att_status a)" and q: "\<And>k d. te_others env k d = d"
  shows "\<exists>n d'. reset_all_item_states_for_revoke env aid eid audit d = Inr (n, d') \<and> wf_db d' \<and>
    attendees d' = attendees d \<and> check_ins d' = check_ins d"
proof -
  have load: "load_attendee_for_item_action aid eid d =
      Inr (\<lparr>lk_id = att_id a, lk_status = att_status a, lk_erased = False\<rparr>, d)"
    using a by (simp add: load_attendee_for_item_action_def tx_simps lock_attendee_row_Some)
  let ?states = "revocable_states_of aid eid d"
  have keys: "distinct (map (\<lambda>s. (is_attendee_id s, is_event_item_id s)) (item_states d))"
    using wf by (simp add: wf_db_def)
  have own: "is_attendee_id s = aid \<and> s \<in> set (item_states d)" if "s \<in> set ?states" for s
    using that by (simp add: revocable_states_of_def)
  have st: "\<forall>s \<in> set ?states. in_state aid s d"
  proof
    fix s assume s: "s \<in> set ?states"
    show "in_state aid s d"
      unfolding in_state_def item_state_of_def
    proof (rule find_unique)
      show "s \<in> set (item_states d)" "is_attendee_id s = aid \<and> is_event_item_id s = is_event_item_id s"
        using own [OF s] by simp_all
      show "y = s" if "y \<in> set (item_states d)" "is_attendee_id y = aid \<and> is_event_item_id y = is_event_item_id s" for y
        using distinct_keyD [OF keys that(1), of s] own [OF s] that(2) by simp
    qed
  qed
  have di: "distinct (map is_event_item_id ?states)"
  proof -
    have "inj_on is_event_item_id (set ?states)"
    proof (rule inj_onI)
      fix x y assume "x \<in> set ?states" "y \<in> set ?states" "is_event_item_id x = is_event_item_id y"
      with own show "x = y" using distinct_keyD [OF keys, of x y] by simp
    qed
    moreover have "distinct ?states"
      using keys by (simp add: revocable_states_of_def distinct_map)
    ultimately show ?thesis by (simp add: distinct_map)
  qed
  show ?thesis
  proof (cases "?states = []")
    case True
    with load adm wf show ?thesis
      by (simp add: reset_all_item_states_for_revoke_def tx_bind_def tx_read_def tx_return_def)
  next
    case False
    define key :: "item_state \<Rightarrow> string" where "key = (\<lambda>s. case map_of (rev (map (\<lambda>i. (ei_id i, ei_key i))
        (filter (\<lambda>i. ei_id i \<in> set (map is_event_item_id ?states) \<and> ei_event_id i = eid) (event_items d))))
        (is_event_item_id s) of None \<Rightarrow> ''undefined'' | Some k \<Rightarrow> k)"
    from reset_fold_total [OF wf a q di st, of key audit 0] obtain n d' where
      f: "tx_fold (\<lambda>s reset_count.
      tx_bind (reset_item_state_to_pending env aid eid (is_event_item_id s) (key s) (is_state s) audit)
        (\<lambda>did_reset. tx_return (if did_reset then Suc reset_count else reset_count))) ?states 0 d = Inr (n, d')"
      "wf_db d'" "attendees d' = attendees d" "check_ins d' = check_ins d" by blast
    have "reset_all_item_states_for_revoke env aid eid audit d = Inr (n, d')"
      using load adm False f(1)
      by (simp add: reset_all_item_states_for_revoke_def tx_bind_def tx_read_def Let_def key_def)
    with f show ?thesis by blast
  qed
qed

section \<open>One revocation\<close>

lemma revoke_total:
  assumes wf: "wf_db db" and a: "find_attendee aid eid db = Some a" "att_erased_at a = None"
      "att_admitted_at a = Some at"
    and adm: "is_admittable (att_status a)" and q: "\<And>k d. te_others env k d = d"
    and fresh: "unused_id env aid db"
  shows "\<exists>x db' row. revoke_check_in_mutation env eid aid audit True db = Inr (x, db') \<and>
    attendees db' = attendees (cleared_in eid aid at db) \<and> wf_db db' \<and>
    check_ins db' = check_ins db @ [row] \<and> ci_id row = te_fresh_id env aid"
proof -
  let ?lv = "current_admission_row eid aid at db"
  let ?row = "undo_row env aid eid ''admin_revoke'' audit
       (case ?lv of None \<Rightarrow> ''Revoked check-in (no VALID row found)'' | Some c \<Rightarrow> ''Revoked check-in '' @ ci_id c)"
  let ?c = "cleared_in eid aid at db"
  let ?a = "a\<lparr>att_admitted_at := None, att_admitted_by := None\<rparr>"
  have n: "count_where (\<lambda>a. att_id a = aid \<and> att_event_id a = eid \<and> att_admitted_at a = Some at)
             (attendees db) \<noteq> 0"
    using a find_attendee_Some [OF a(1)] by (auto simp: count_where_0)
  have wfc: "wf_db ?c" using wf by (rule wf_cleared_in)
  have ac: "find_attendee aid eid ?c = Some ?a"
    using a find_attendee_Some [OF a(1)] by (simp add: find_cleared_in)
  define d1 where "d1 = ?c\<lparr>check_ins := check_ins ?c @ [?row]\<rparr>"
  have row: "create_check_in ?row ?c = Inr ((), d1)"
    unfolding d1_def by (rule create_check_in_total [OF wfc])
      (use ac fresh in \<open>simp_all add: undo_row_def unused_id_def cleared_in_def\<close>)
  have "wf_kept ?c d1" using row by (rule tx_allD [OF wf_check_in_created])
  with wfc have wf1: "wf_db d1" by (simp add: wf_kept_def)
  have a1: "find_attendee aid eid d1 = Some ?a" using ac by (simp add: d1_def find_attendee_def)
  obtain k d2 where d2: "reset_all_item_states_for_revoke env aid eid audit d1 = Inr (k, d2)" "wf_db d2"
    "attendees d2 = attendees d1" "check_ins d2 = check_ins d1"
    using reset_all_total [OF wf1 a1 _ _ q, of audit] a(2) adm by auto
  have a2: "find_attendee aid eid d2 = Some ?a" using a1 d2(3) by (simp add: find_attendee_def)
  obtain b db' where l: "write_action_log eid aid ''check_in_revoked'' audit
       (Some (JObj (case ?lv of None \<Rightarrow> [] | Some c \<Rightarrow> [(''undone_check_in_id'', JStr (ci_id c))]))) d2 = Inr (b, db')"
    using write_action_log_total [OF d2(2) a2] by blast
  have "wf_kept d2 db'" using l by (rule tx_allD [OF wf.any_log_keeps [OF TrueI]])
  with d2(2) have wf': "wf_db db'" by (simp add: wf_kept_def)
  have live: "att_erased_at ?a = None" using a(2) by simp
  note log = live_log_written [OF l d2(2) a2 live]
  have run: "revoke_check_in_mutation env eid aid audit True db = Inr (map_option ci_id ?lv, db')"
    using a n row d2(1) l
    by (simp add: revoke_check_in_mutation_def tx_bind_def tx_read_def tx_return_def
        lock_attendee_row_Some clear_admission_eq)
  moreover have "attendees db' = attendees ?c" using d2(3) by (simp add: log d1_def)
  moreover have "check_ins db' = check_ins db @ [?row]" using d2(4) by (simp add: log d1_def cleared_in_def)
  moreover have "ci_id ?row = te_fresh_id env aid" by (simp add: undo_row_def)
  ultimately show ?thesis using wf' by blast
qed

lemma revoke_blocked:
  assumes wf: "wf_db db" and a: "find_attendee aid eid db = Some a" "att_erased_at a = None"
      "att_admitted_at a = Some at"
    and adm: "\<not> is_admittable (att_status a)" and fresh: "unused_id env aid db"
  shows "revoke_check_in_mutation env eid aid audit True db =
    Inl (Illegal_transition ''Attendee's pass is not active'' False)"
proof -
  let ?lv = "current_admission_row eid aid at db"
  let ?row = "undo_row env aid eid ''admin_revoke'' audit
       (case ?lv of None \<Rightarrow> ''Revoked check-in (no VALID row found)'' | Some c \<Rightarrow> ''Revoked check-in '' @ ci_id c)"
  let ?c = "cleared_in eid aid at db"
  have n: "count_where (\<lambda>a. att_id a = aid \<and> att_event_id a = eid \<and> att_admitted_at a = Some at)
             (attendees db) \<noteq> 0"
    using a find_attendee_Some [OF a(1)] by (auto simp: count_where_0)
  have wfc: "wf_db ?c" using wf by (rule wf_cleared_in)
  have ac: "find_attendee aid eid ?c = Some (a\<lparr>att_admitted_at := None, att_admitted_by := None\<rparr>)"
    using a find_attendee_Some [OF a(1)] by (simp add: find_cleared_in)
  have row: "create_check_in ?row ?c = Inr ((), ?c\<lparr>check_ins := check_ins ?c @ [?row]\<rparr>)"
    by (rule create_check_in_total [OF wfc])
      (use ac fresh in \<open>simp_all add: undo_row_def unused_id_def cleared_in_def\<close>)
  have "load_attendee_for_item_action aid eid (?c\<lparr>check_ins := check_ins ?c @ [?row]\<rparr>) =
      Inr (\<lparr>lk_id = att_id a, lk_status = att_status a, lk_erased = False\<rparr>, ?c\<lparr>check_ins := check_ins ?c @ [?row]\<rparr>)"
    using ac a(2) by (simp add: load_attendee_for_item_action_def tx_simps lock_attendee_row_Some find_attendee_def)
  then have "reset_all_item_states_for_revoke env aid eid audit (?c\<lparr>check_ins := check_ins ?c @ [?row]\<rparr>) =
      Inl (Illegal_transition ''Attendee's pass is not active'' False)"
    using adm by (simp add: reset_all_item_states_for_revoke_def tx_bind_def tx_throw_def)
  with a n row show ?thesis
    by (simp add: revoke_check_in_mutation_def tx_bind_def tx_read_def tx_return_def
        lock_attendee_row_Some clear_admission_eq)
qed

section \<open>Chunks\<close>

lemma chunk_concat: "0 < n \<Longrightarrow> concat (chunk xs n) = xs"
proof (induction xs n rule: chunk.induct)
  case (1 items n)
  then show ?case by (subst chunk.simps) simp
qed

lemma chunk_size: "xs \<in> set (chunk items n) \<Longrightarrow> length xs \<le> n"
proof (induction items n rule: chunk.induct)
  case (1 items n)
  then show ?case by (subst (asm) (2) chunk.simps) (auto split: if_splits)
qed

lemma settle_all_append:
  "settle_all f (xs @ ys) s =
   (case settle_all f xs s of (rs, t) \<Rightarrow> case settle_all f ys t of (qs, u) \<Rightarrow> (rs @ qs, u))"
  by (induction xs arbitrary: s) (auto split: prod.splits)

lemma settle_all_length: "settle_all f xs s = (rs, t) \<Longrightarrow> length rs = length xs"
  by (induction xs arbitrary: s rs t) (auto split: prod.splits)

lemma first_failure_Inr [simp]: "first_failure (map Inr bs) = Inr bs"
  by (induction bs) simp_all

lemma chunked_run:
  assumes g: "g [] = (0::nat)" "\<And>xs ys. g (xs @ ys) = g xs + g ys"
    and run: "settle_all f (concat cs) s = (map Inr bs, t)"
  shows "op_fold (\<lambda>batch n. op_bind (promise_all f batch) (\<lambda>os. op_return (n + g os))) cs n0 s =
    (Inr (n0 + g bs), t)"
  using run
proof (induction cs arbitrary: s bs n0)
  case Nil
  then show ?case by (simp add: op_return_def g)
next
  case (Cons c cs)
  obtain rs s1 where c: "settle_all f c s = (rs, s1)" by (cases "settle_all f c s")
  obtain qs u where cs: "settle_all f (concat cs) s1 = (qs, u)" by (cases "settle_all f (concat cs) s1")
  from Cons.prems c cs have "rs @ qs = map Inr bs" and u: "u = t" by (simp_all add: settle_all_append)
  then obtain b1 b2 where b: "bs = b1 @ b2" "rs = map Inr b1" "qs = map Inr b2"
    by (metis map_eq_append_conv)
  have "promise_all f c s = (Inr b1, s1)" using c b(2) by (simp add: promise_all_def)
  then show ?case
    using Cons.IH [of s1 b2 "n0 + g b1"] cs b u g(2) by (simp add: op_bind_def op_return_def)
qed

lemma count_split:
  assumes "distinct xs" "a \<in> set xs" "att_id a = i" "i \<notin> set ids"
    and "\<And>x. x \<in> set xs \<Longrightarrow> att_id x = i \<Longrightarrow> x = a"
  shows "count_where (\<lambda>x. att_id x \<in> set (i # ids) \<and> p x) xs =
    (if p a then 1 else 0) + count_where (\<lambda>x. att_id x \<in> set ids \<and> p x) xs"
proof -
  have one: "filter (\<lambda>x. x = a \<and> p x) xs = (if p a then [a] else [])"
    using assms(1,2) by (induction xs) (auto simp: filter_empty_conv)
  have "count_where (\<lambda>x. att_id x \<in> set (i # ids) \<and> p x) xs =
    count_where (\<lambda>x. (x = a \<and> p x) \<or> (att_id x \<in> set ids \<and> p x)) xs"
    unfolding count_where_def
    by (rule arg_cong [where f = length], rule filter_cong) (use assms(3,5) in auto)
  also have "\<dots> = count_where (\<lambda>x. x = a \<and> p x) xs + count_where (\<lambda>x. att_id x \<in> set ids \<and> p x) xs"
    unfolding count_where_def using assms(3,4)
    by (induction xs) auto
  finally show ?thesis using one by (simp add: count_where_def)
qed

section \<open>The whole event\<close>

definition revocable :: "attendee \<Rightarrow> bool" where
  "revocable a \<longleftrightarrow> att_erased_at a = None \<and> att_admitted_at a \<noteq> None \<and> is_admittable (att_status a)"

definition after_revocation :: "string list \<Rightarrow> attendee \<Rightarrow> attendee" where
  "after_revocation ids a = (if att_id a \<in> set ids \<and> revocable a
     then a\<lparr>att_admitted_at := None, att_admitted_by := None\<rparr> else a)"

lemma not_revocable_cleared [simp]:
  "\<not> revocable (a\<lparr>att_admitted_at := None, att_admitted_by := by_whom\<rparr>)"
  by (simp add: revocable_def)

lemma after_revocation_comp:
  "after_revocation ids (after_revocation [i] x) = after_revocation (i # ids) x"
  by (cases "att_id x = i"; cases "revocable x") (simp_all add: after_revocation_def)

lemma revoke_one_step:
  assumes wf: "wf_db s" and a: "a \<in> set (attendees s)" "att_event_id a = eid"
      "att_erased_at a = None" "att_admitted_at a \<noteq> None"
    and q: "\<And>k d. te_others (envs (att_id a)) k d = d" and fresh: "unused_id (envs (att_id a)) (att_id a) s"
  obtains t where "revoke_one envs eid audit (att_id a) s = (Inr (is_admittable (att_status a)), t)" "wf_db t"
    "attendees t = map (after_revocation [att_id a]) (attendees s)"
    "\<forall>c \<in> set (check_ins t). c \<in> set (check_ins s) \<or> ci_id c = te_fresh_id (envs (att_id a)) (att_id a)"
proof -
  let ?env = "envs (att_id a)"
  have f: "find_attendee (att_id a) eid s = Some a" using find_attendeeI [OF wf a(1)] a(2) by simp
  obtain at where at: "att_admitted_at a = Some at" using a(4) by auto
  have same: "x = a" if "x \<in> set (attendees s)" "att_id x = att_id a" for x
    using wf_attendee_inj [OF wf that(1) a(1) that(2)] .
  show thesis
  proof (cases "is_admittable (att_status a)")
    case True
    from revoke_total [OF wf f a(3) at True q fresh, of audit] obtain x t row where
      t: "revoke_check_in_mutation ?env eid (att_id a) audit True s = Inr (x, t)"
      "attendees t = attendees (cleared_in eid (att_id a) at s)" "wf_db t"
      "check_ins t = check_ins s @ [row]" "ci_id row = te_fresh_id ?env (att_id a)" by blast
    have "revoke_one envs eid audit (att_id a) s = (Inr True, t)"
      using t(1) q by (simp add: revoke_one_def tx_simps)
    moreover have "attendees t = map (after_revocation [att_id a]) (attendees s)"
    proof -
      have "(if att_id x = att_id a \<and> att_event_id x = eid \<and> att_admitted_at x = Some at
          then x\<lparr>att_admitted_at := None, att_admitted_by := None\<rparr> else x) = after_revocation [att_id a] x"
        if "x \<in> set (attendees s)" for x
      proof (cases "att_id x = att_id a")
        case eq: True
        then have "x = a" using same that by simp
        then show ?thesis using a(2,3) at True by (simp add: after_revocation_def revocable_def)
      qed (simp add: after_revocation_def)
      then show ?thesis unfolding t(2) by (simp add: cleared_in_def update_where_def)
    qed
    ultimately show thesis using t True by (intro that [of t]) auto
  next
    case False
    have "revoke_one envs eid audit (att_id a) s = (Inr False, s)"
      using revoke_blocked [OF wf f a(3) at False fresh, of audit] q
      by (simp add: revoke_one_def tx_simps skip_blocked_admission_def)
    moreover have "map (after_revocation [att_id a]) (attendees s) = attendees s"
      using same False by (intro map_idI) (auto simp: after_revocation_def revocable_def)
    ultimately show thesis using wf False by (intro that [of s]) simp_all
  qed
qed

lemma revoke_settled:
  assumes "wf_db s" "distinct ids"
    and "\<forall>i \<in> set ids. \<exists>a \<in> set (attendees s). att_id a = i \<and> att_event_id a = eid \<and>
      att_erased_at a = None \<and> att_admitted_at a \<noteq> None"
    and q: "\<And>i k d. te_others (envs i) k d = d"
    and "\<forall>i \<in> set ids. unused_id (envs i) i s"
    and ids: "\<And>i j. i \<noteq> j \<Longrightarrow> te_fresh_id (envs i) i \<noteq> te_fresh_id (envs j) j"
  shows "\<exists>bs t. settle_all (revoke_one envs eid audit) ids s = (map Inr bs, t) \<and>
    attendees t = map (after_revocation ids) (attendees s) \<and>
    length (filter (\<lambda>b. b) bs) = count_where (\<lambda>a. att_id a \<in> set ids \<and> revocable a) (attendees s)"
  using assms(1-3,5)
proof (induction ids arbitrary: s)
  case Nil
  have "map (after_revocation []) (attendees s) = attendees s"
    by (intro map_idI) (simp add: after_revocation_def)
  then show ?case by (intro exI [of _ "[]"] exI [of _ s]) (simp add: count_where_def)
next
  case (Cons i ids)
  from Cons.prems(3) obtain a where a: "a \<in> set (attendees s)" "att_id a = i" "att_event_id a = eid"
    "att_erased_at a = None" "att_admitted_at a \<noteq> None" by auto
  have q': "te_others (envs (att_id a)) k d = d" for k d by (rule q)
  have fresh: "unused_id (envs (att_id a)) (att_id a) s" using Cons.prems(4) a(2) by simp
  obtain t where t: "revoke_one envs eid audit (att_id a) s = (Inr (is_admittable (att_status a)), t)" "wf_db t"
    "attendees t = map (after_revocation [att_id a]) (attendees s)"
    "\<forall>c \<in> set (check_ins t). c \<in> set (check_ins s) \<or> ci_id c = te_fresh_id (envs (att_id a)) (att_id a)"
    by (rule revoke_one_step [where envs = envs, OF Cons.prems(1) a(1,3,4,5) q' fresh])
  have i: "i \<notin> set ids" "distinct ids" using Cons.prems(2) by simp_all
  have rest: "\<forall>j \<in> set ids. \<exists>b \<in> set (attendees t). att_id b = j \<and> att_event_id b = eid \<and>
      att_erased_at b = None \<and> att_admitted_at b \<noteq> None"
  proof
    fix j assume j: "j \<in> set ids"
    with Cons.prems(3) obtain b where b: "b \<in> set (attendees s)" "att_id b = j" "att_event_id b = eid"
      "att_erased_at b = None" "att_admitted_at b \<noteq> None" by auto
    have "after_revocation [att_id a] b = b" using b(2) j i(1) a(2) by (auto simp: after_revocation_def)
    then have "b \<in> set (attendees t)" unfolding t(3) using b(1) by (metis image_eqI list.set_map)
    with b show "\<exists>b \<in> set (attendees t). att_id b = j \<and> att_event_id b = eid \<and>
      att_erased_at b = None \<and> att_admitted_at b \<noteq> None" by blast
  qed
  have un: "\<forall>j \<in> set ids. unused_id (envs j) j t"
    unfolding unused_id_def
  proof (intro ballI)
    fix j c assume j: "j \<in> set ids" and c: "c \<in> set (check_ins t)"
    have "j \<noteq> i" using j i(1) by auto
    with t(4) c Cons.prems(4) j a(2) ids [of i j] show "ci_id c \<noteq> te_fresh_id (envs j) j"
      by (auto simp: unused_id_def)
  qed
  from Cons.IH [OF t(2) i(2) rest un] obtain bs u where
    u: "settle_all (revoke_one envs eid audit) ids t = (map Inr bs, u)"
    "attendees u = map (after_revocation ids) (attendees t)"
    "length (filter (\<lambda>b. b) bs) = count_where (\<lambda>a. att_id a \<in> set ids \<and> revocable a) (attendees t)" by blast
  let ?b = "is_admittable (att_status a)"
  have run: "settle_all (revoke_one envs eid audit) (i # ids) s = (map Inr (?b # bs), u)"
    using t(1) u(1) a(2) by simp
  have atts: "attendees u = map (after_revocation (i # ids)) (attendees s)"
    unfolding u(2) t(3) a(2) by (simp add: after_revocation_comp)
  have same: "x = a" if "x \<in> set (attendees s)" "att_id x = i" for x
    by (rule wf_attendee_inj [OF Cons.prems(1) that(1) a(1)]) (simp add: that(2) a(2))
  have point: "(att_id (after_revocation [att_id a] x) \<in> set ids \<and> revocable (after_revocation [att_id a] x)) =
      (att_id x \<in> set ids \<and> revocable x)" for x
  proof (cases "att_id x = i")
    case True
    then show ?thesis using i(1) by (simp add: after_revocation_def)
  next
    case False
    then have "after_revocation [att_id a] x = x" using a(2) by (simp add: after_revocation_def)
    then show ?thesis by simp
  qed
  have cnt: "count_where (\<lambda>a. att_id a \<in> set ids \<and> revocable a) (attendees t) =
      count_where (\<lambda>a. att_id a \<in> set ids \<and> revocable a) (attendees s)"
    unfolding count_where_def t(3) filter_map length_map comp_def point ..
  have "distinct (attendees s)" using Cons.prems(1) unfolding wf_db_def by (simp add: distinct_map)
  then have split: "count_where (\<lambda>x. att_id x \<in> set (i # ids) \<and> revocable x) (attendees s) =
      (if revocable a then 1 else 0) + count_where (\<lambda>x. att_id x \<in> set ids \<and> revocable x) (attendees s)"
    using a(1,2) i(1) same by (rule count_split)
  have "revocable a \<longleftrightarrow> ?b" using a by (simp add: revocable_def)
  with run atts u(3) cnt split show ?case
    by (intro exI [of _ "?b # bs"] exI [of _ u]) simp
qed

section \<open>Properties\<close>

text \<open>Revoking all check-ins of an event, with nothing in between, returns the number of
  attendees it un-admitted: exactly the admitted, live attendees of the event whose pass is active
  lose their admission, everyone else, erased attendees, blocked passes and other events included,
  keeps it, whatever the size of the event and however it falls into chunks.\<close>

theorem revoke_all_complete:
  assumes wf: "wf_db db" and others: "\<And>i k d. te_others (envs i) k d = d"
    and ids: "\<And>i j. i \<noteq> j \<Longrightarrow> te_fresh_id (envs i) i \<noteq> te_fresh_id (envs j) j"
    and fresh: "\<And>i. unused_id (envs i) i db"
  shows "\<exists>t. revoke_all_check_ins_for_event envs eid audit db =
      (Inr (count_where (\<lambda>a. att_event_id a = eid \<and> revocable a) (attendees db)), t) \<and>
    attendees t = map (\<lambda>a. if att_event_id a = eid \<and> revocable a
       then a\<lparr>att_admitted_at := None, att_admitted_by := None\<rparr> else a) (attendees db)"
proof -
  let ?ids = "admitted_live_ids eid db"
  have inj: "x = y" if "x \<in> set (attendees db)" "y \<in> set (attendees db)" "att_id x = att_id y" for x y
    using wf_attendee_inj [OF wf that] .
  have mem: "a \<in> set (attendees db) \<Longrightarrow> att_id a \<in> set ?ids \<and> revocable a \<longleftrightarrow>
      att_event_id a = eid \<and> revocable a" for a
    using inj by (fastforce simp: admitted_live_ids_def revocable_def)
  have dist: "distinct ?ids"
    using wf unfolding wf_db_def admitted_live_ids_def by (simp add: distinct_map_filter)
  have found: "\<forall>i \<in> set ?ids. \<exists>a \<in> set (attendees db). att_id a = i \<and> att_event_id a = eid \<and>
      att_erased_at a = None \<and> att_admitted_at a \<noteq> None"
    by (auto simp: admitted_live_ids_def)
  from fresh have un: "\<forall>i \<in> set ?ids. unused_id (envs i) i db" by blast
  from revoke_settled [where envs = envs, OF wf dist found others un ids] obtain bs t where
    t: "settle_all (revoke_one envs eid audit) ?ids db = (map Inr bs, t)"
    "attendees t = map (after_revocation ?ids) (attendees db)"
    "length (filter (\<lambda>b. b) bs) = count_where (\<lambda>a. att_id a \<in> set ?ids \<and> revocable a) (attendees db)" by blast
  have cnt: "length (filter (\<lambda>b. b) bs) = count_where (\<lambda>a. att_event_id a = eid \<and> revocable a) (attendees db)"
    unfolding t(3) count_where_def by (rule arg_cong [where f = length], rule filter_cong) (simp_all add: mem)
  have atts: "attendees t = map (\<lambda>a. if att_event_id a = eid \<and> revocable a
       then a\<lparr>att_admitted_at := None, att_admitted_by := None\<rparr> else a) (attendees db)"
    unfolding t(2) by (rule map_cong [OF refl]) (simp add: after_revocation_def mem)
  have "revoke_all_check_ins_for_event envs eid audit db = (Inr (length (filter (\<lambda>b. b) bs)), t)"
  proof (cases "?ids = []")
    case True
    with t(1) show ?thesis by (simp add: revoke_all_check_ins_for_event_def tx_simps)
  next
    case False
    have "settle_all (revoke_one envs eid audit) (concat (chunk ?ids bulk_revoke_concurrency)) db = (map Inr bs, t)"
      using t(1) by (simp add: chunk_concat bulk_revoke_concurrency_def)
    from chunked_run [of "\<lambda>os. length (filter (\<lambda>b. b) os)", OF _ _ this, of 0] False
    show ?thesis by (simp add: revoke_all_check_ins_for_event_def op_bind_def op_read_def)
  qed
  with cnt atts show ?thesis by simp
qed

lemma revoke_all_complete_witness:
  "\<exists>t. revoke_all_check_ins_for_event (\<lambda>i. sample_env) ''e1'' sample_audit
      (sample_db\<lparr>attendees := map (\<lambda>a. a\<lparr>att_admitted_at := Some 7\<rparr>) (attendees sample_db)\<rparr>) = (Inr 1, t) \<and>
    map att_admitted_at (attendees t) = [None, Some 7, Some 7]"
proof -
  let ?db = "sample_db\<lparr>attendees := map (\<lambda>a. a\<lparr>att_admitted_at := Some 7\<rparr>) (attendees sample_db)\<rparr>"
  have wf: "wf_db ?db" by (simp add: sample_db_def sample_guest_def wf_db_def)
  have fresh: "unused_id sample_env i ?db" for i by (simp add: unused_id_def sample_db_def)
  have ids: "te_fresh_id sample_env i \<noteq> te_fresh_id sample_env j" if "i \<noteq> j" for i j
    using that by (simp add: sample_env_def)
  have adm: "count_where (\<lambda>a. att_event_id a = ''e1'' \<and> revocable a) (attendees ?db) = 1"
    by (simp add: sample_db_def sample_guest_def revocable_def count_where_def)
  show ?thesis
    using revoke_all_complete [OF wf sample_others ids fresh, of "''e1''" sample_audit] adm
    by (auto simp: sample_db_def sample_guest_def revocable_def)
qed

end
