(* ===== verification/Access.thy ===== *)
theory Access
  imports Complex_Main Adm_Prelude
begin

text \<open>
  Who may do what: \<open>packages/db/src/roles.ts\<close> and \<open>packages/auth/src/authorization.ts\<close>. Roles are
  rows of the assignment table at a scope (the instance, an organization, an event). Each check
  reads one snapshot of the tables. Decrypting a provider key is a parameter, with \<open>False\<close> for the
  exception of a key that does not decrypt.
\<close>

section \<open>Tables\<close>

record role_assignment =
  ra_id :: string
  ra_user_id :: string
  ra_role :: string
  ra_scope_type :: string
  ra_scope_id :: "string option"

record location_pin =
  lp_venue_name :: "string option"
  lp_latitude :: "rat option"
  lp_longitude :: "rat option"
  lp_map_zoom :: "int option"

record event_base =
  ae_id :: string
  ae_title :: string
  ae_slug :: string
  ae_date :: int
  ae_timezone :: string
  ae_hours_start :: "string option"
  ae_hours_end :: "string option"
  ae_organization_id :: string
  ae_capacity :: "nat option"
  ae_archived_at :: "int option"
  ae_created_at :: int
  ae_created_by_user_id :: "string option"
  ae_created_by_timezone :: "string option"
  ae_archived_by_user_id :: "string option"
  ae_archived_by_timezone :: "string option"
  ae_wallet_enabled :: bool
  ae_wallet_apple_enabled :: bool
  ae_wallet_google_enabled :: bool
  ae_wallet_samsung_enabled :: bool

record event_select = event_base +
  es_location_details :: "location_pin option"
  es_wallet_template_id :: "string option"
  es_wallet_api_key_enc :: "string option"

record pin_fields =
  pf_location :: "string option"
  pf_has_coordinates :: bool
  pf_map_latitude :: "rat option"
  pf_map_longitude :: "rat option"
  pf_map_zoom :: "int option"

record event_summary = event_base +
  sm_pin :: pin_fields
  sm_wallet_configured :: bool

record access_db =
  role_assignments :: "role_assignment list"
  access_events :: "event_select list"

section \<open>Capabilities\<close>

definition has_scope :: "access_db \<Rightarrow> string \<Rightarrow> string \<Rightarrow> string \<Rightarrow> string option \<Rightarrow> bool" where
  "has_scope db uid role scope_type scope_id \<longleftrightarrow>
     count_where (\<lambda>r. ra_user_id r = uid \<and> ra_role r = role \<and> ra_scope_type r = scope_type \<and>
                      ra_scope_id r = scope_id) (role_assignments db) > 0"

definition find_event :: "access_db \<Rightarrow> string \<Rightarrow> event_select option" where
  "find_event db eid = List.find (\<lambda>e. ae_id e = eid) (access_events db)"

definition load_event_org_id :: "access_db \<Rightarrow> string \<Rightarrow> string option" where
  "load_event_org_id db eid = map_option ae_organization_id (find_event db eid)"

definition can_manage_instance :: "access_db \<Rightarrow> string \<Rightarrow> bool" where
  "can_manage_instance db uid = has_scope db uid ''superadmin'' ''instance'' None"

definition can_access_event :: "access_db \<Rightarrow> string \<Rightarrow> string \<Rightarrow> bool" where
  "can_access_event db uid eid =
     (if has_scope db uid ''superadmin'' ''instance'' None then True
      else let org = load_event_org_id db eid in
        if \<not> truthy org then False
        else if has_scope db uid ''admin'' ''organization'' org then True
        else has_scope db uid ''operator'' ''event'' (Some eid))"

definition can_perform_check_in :: "access_db \<Rightarrow> string \<Rightarrow> string \<Rightarrow> bool" where
  "can_perform_check_in db uid eid = can_access_event db uid eid"

definition can_manage_event :: "access_db \<Rightarrow> string \<Rightarrow> string \<Rightarrow> bool" where
  "can_manage_event db uid eid =
     (if has_scope db uid ''superadmin'' ''instance'' None then True
      else let org = load_event_org_id db eid in
        if \<not> truthy org then False else has_scope db uid ''admin'' ''organization'' org)"

datatype auth_capability = Checkin | Manage_event | Manage_instance

definition check_capability ::
  "access_db \<Rightarrow> auth_capability \<Rightarrow> string \<Rightarrow> string option \<Rightarrow> bool" where
  "check_capability db capability uid eid =
     (case capability of
        Checkin \<Rightarrow> if \<not> truthy eid then False else can_perform_check_in db uid (the eid)
      | Manage_event \<Rightarrow> if \<not> truthy eid then False else can_manage_event db uid (the eid)
      | Manage_instance \<Rightarrow> can_manage_instance db uid)"

section \<open>Panels\<close>

definition can_access_admin_panel :: "access_db \<Rightarrow> string \<Rightarrow> bool" where
  "can_access_admin_panel db uid =
     (if has_scope db uid ''superadmin'' ''instance'' None then True
      else List.find (\<lambda>r. ra_user_id r = uid \<and> ra_role r = ''admin'' \<and>
             ra_scope_type r = ''organization'' \<and> ra_scope_id r \<noteq> None) (role_assignments db) \<noteq> None)"

text \<open>The two sets the check-in panel and its list collect from the user's assignments.\<close>

fun collect_scopes ::
  "role_assignment list \<Rightarrow> string set \<Rightarrow> string set \<Rightarrow> string set \<times> string set" where
  "collect_scopes [] orgs events = (orgs, events)"
| "collect_scopes (a # as) orgs events = collect_scopes as
     (if ra_role a = ''admin'' \<and> ra_scope_type a = ''organization'' \<and> truthy (ra_scope_id a)
      then insert (the (ra_scope_id a)) orgs else orgs)
     (if ra_scope_type a = ''event'' \<and> truthy (ra_scope_id a) \<and> ra_role a = ''operator''
      then insert (the (ra_scope_id a)) events else events)"

definition check_in_scopes :: "access_db \<Rightarrow> string \<Rightarrow> string set \<times> string set" where
  "check_in_scopes db uid =
     collect_scopes (filter (\<lambda>r. ra_user_id r = uid) (role_assignments db)) {} {}"

definition in_scopes :: "string set \<times> string set \<Rightarrow> event_select \<Rightarrow> bool" where
  "in_scopes scopes e \<longleftrightarrow>
     (fst scopes \<noteq> {} \<and> ae_organization_id e \<in> fst scopes) \<or>
     (snd scopes \<noteq> {} \<and> ae_id e \<in> snd scopes)"

definition can_access_check_in_panel :: "access_db \<Rightarrow> string \<Rightarrow> bool" where
  "can_access_check_in_panel db uid =
     (if has_scope db uid ''superadmin'' ''instance'' None then access_events db \<noteq> []
      else let scopes = check_in_scopes db uid in
        if fst scopes = {} \<and> snd scopes = {} then False
        else List.find (in_scopes scopes) (access_events db) \<noteq> None)"

section \<open>Event lists\<close>

definition location_pin_fields :: "location_pin option \<Rightarrow> pin_fields" where
  "location_pin_fields d =
     (let lat = Option.bind d lp_latitude;
          lng = Option.bind d lp_longitude;
          has = lat \<noteq> None \<and> lng \<noteq> None
      in \<lparr>pf_location = Option.bind d lp_venue_name, pf_has_coordinates = has,
          pf_map_latitude = (if has then lat else None),
          pf_map_longitude = (if has then lng else None),
          pf_map_zoom = (if has then lp_map_zoom (the d) else None)\<rparr>)"

definition is_wallet_configured ::
  "(string \<Rightarrow> bool) \<Rightarrow> string option \<Rightarrow> string option \<Rightarrow> bool" where
  "is_wallet_configured decrypts template_id api_key_enc =
     (if \<not> truthy template_id \<or> \<not> truthy api_key_enc then False else decrypts (the api_key_enc))"

definition to_event_summary :: "(string \<Rightarrow> bool) \<Rightarrow> event_select \<Rightarrow> event_summary" where
  "to_event_summary decrypts row =
     event_base.extend (event_base.truncate row)
       (event_summary.fields (location_pin_fields (es_location_details row))
         (is_wallet_configured decrypts (es_wallet_template_id row) (es_wallet_api_key_enc row)))"

definition list_check_in_events ::
  "(string \<Rightarrow> bool) \<Rightarrow> access_db \<Rightarrow> string \<Rightarrow> event_summary list" where
  "list_check_in_events decrypts db uid =
     (if has_scope db uid ''superadmin'' ''instance'' None
      then map (to_event_summary decrypts)
             (sort_key ae_date (filter (\<lambda>e. ae_archived_at e = None) (access_events db)))
      else let scopes = check_in_scopes db uid in
        if fst scopes = {} \<and> snd scopes = {} then []
        else map (to_event_summary decrypts)
               (sort_key ae_date (filter (\<lambda>e. ae_archived_at e = None \<and> in_scopes scopes e)
                 (access_events db))))"

definition admin_org_ids :: "access_db \<Rightarrow> string \<Rightarrow> string list" where
  "admin_org_ids db uid =
     map the (filter truthy (map ra_scope_id
       (filter (\<lambda>r. ra_user_id r = uid \<and> ra_role r = ''admin'' \<and> ra_scope_type r = ''organization'')
         (role_assignments db))))"

definition list_admin_events ::
  "(string \<Rightarrow> bool) \<Rightarrow> access_db \<Rightarrow> string \<Rightarrow> bool \<Rightarrow> event_summary list" where
  "list_admin_events decrypts db uid include_archived =
     (if \<not> can_access_admin_panel db uid then []
      else let kept = (\<lambda>e. include_archived \<or> ae_archived_at e = None) in
        if has_scope db uid ''superadmin'' ''instance'' None
        then map (to_event_summary decrypts) (sort_key ae_date (filter kept (access_events db)))
        else let orgs = admin_org_ids db uid in
          if orgs = [] then []
          else map (to_event_summary decrypts) (sort_key ae_date
                 (filter (\<lambda>e. ae_organization_id e \<in> set orgs \<and> kept e) (access_events db))))"

definition get_admin_event ::
  "(string \<Rightarrow> bool) \<Rightarrow> access_db \<Rightarrow> string \<Rightarrow> string \<Rightarrow> event_summary option" where
  "get_admin_event decrypts db uid eid =
     (if \<not> can_access_admin_panel db uid then None
      else if has_scope db uid ''superadmin'' ''instance'' None
      then map_option (to_event_summary decrypts) (find_event db eid)
      else let orgs = admin_org_ids db uid in
        if orgs = [] then None
        else map_option (to_event_summary decrypts)
               (List.find (\<lambda>e. ae_id e = eid \<and> ae_organization_id e \<in> set orgs) (access_events db)))"

section \<open>What the tables guarantee\<close>

text \<open>Ids are generated, never empty; the event's is its primary key.\<close>

definition wf_access :: "access_db \<Rightarrow> bool" where
  "wf_access db \<longleftrightarrow> distinct (map ae_id (access_events db)) \<and>
     (\<forall>e \<in> set (access_events db). ae_id e \<noteq> [] \<and> ae_organization_id e \<noteq> [])"

end
