(* ===== verification/Access_Props.thy ===== *)
theory Access_Props
  imports Access
begin

text \<open>
  The lists and panels agree with the checks: what a picker offers is exactly what the
  corresponding check lets the user do.
\<close>

section \<open>The contract of a picker\<close>

locale event_picker =
  fixes sound :: "'db \<Rightarrow> bool" and rows :: "'db \<Rightarrow> 'e list" and key :: "'e \<Rightarrow> string"
    and day :: "'e \<Rightarrow> int" and shown :: "'e \<Rightarrow> bool"
    and allowed :: "'db \<Rightarrow> string \<Rightarrow> string \<Rightarrow> bool"
    and listed :: "'db \<Rightarrow> string \<Rightarrow> 'e list"
  assumes listed_eq: "sound db \<Longrightarrow>
    listed db uid = sort_key day (filter (\<lambda>e. shown e \<and> allowed db uid (key e)) (rows db))"
begin

lemma listed_iff:
  "sound db \<Longrightarrow> e \<in> set (listed db uid) \<longleftrightarrow> e \<in> set (rows db) \<and> shown e \<and> allowed db uid (key e)"
  by (simp add: listed_eq)

lemma listed_in_order: "sound db \<Longrightarrow> sorted (map day (listed db uid))"
  by (simp add: listed_eq)

lemma narrower:
  assumes "sound db" and "\<And>e. \<lbrakk>e \<in> set (rows db); shown' e \<and> allowed' (key e)\<rbrakk> \<Longrightarrow>
    shown e \<and> allowed db uid (key e)"
  shows "filter (\<lambda>e. shown' e \<and> allowed' (key e)) (listed db uid) =
    sort_key day (filter (\<lambda>e. shown' e \<and> allowed' (key e)) (rows db))"
  using assms by (simp add: listed_eq filter_sort) (rule arg_cong [of _ _ "sort_key day"],
    rule filter_cong, auto)

end

section \<open>The checks over the assignment table\<close>

lemma has_scope_iff:
  "has_scope db uid role st sid \<longleftrightarrow>
     (\<exists>r \<in> set (role_assignments db). ra_user_id r = uid \<and> ra_role r = role \<and>
        ra_scope_type r = st \<and> ra_scope_id r = sid)"
  by (auto simp: has_scope_def count_where_def filter_empty_conv)

lemma collect_scopes_eq:
  "collect_scopes as orgs events =
     (orgs \<union> {x. x \<noteq> [] \<and> (\<exists>a \<in> set as. ra_role a = ''admin'' \<and> ra_scope_type a = ''organization'' \<and>
                  ra_scope_id a = Some x)},
      events \<union> {e. e \<noteq> [] \<and> (\<exists>a \<in> set as. ra_role a = ''operator'' \<and> ra_scope_type a = ''event'' \<and>
                  ra_scope_id a = Some e)})"
  by (induction as orgs events rule: collect_scopes.induct) (auto simp: truthy_def)

lemma check_in_scopes_eq:
  "check_in_scopes db uid =
     ({x. x \<noteq> [] \<and> has_scope db uid ''admin'' ''organization'' (Some x)},
      {e. e \<noteq> [] \<and> has_scope db uid ''operator'' ''event'' (Some e)})"
  by (auto simp: check_in_scopes_def collect_scopes_eq has_scope_iff)

lemma admin_org_ids_iff:
  "oid \<in> set (admin_org_ids db uid) \<longleftrightarrow>
     oid \<noteq> [] \<and> has_scope db uid ''admin'' ''organization'' (Some oid)"
  by (auto simp: admin_org_ids_def has_scope_iff truthy_def image_iff; metis option.sel)

lemma find_event_in:
  assumes "wf_access db" "e \<in> set (access_events db)"
  shows "find_event db (ae_id e) = Some e"
  unfolding find_event_def
  by (rule find_unique [OF assms(2)]) (use assms in \<open>auto simp: wf_access_def distinct_map inj_on_def\<close>)

lemma event_ids:
  assumes "wf_access db" "e \<in> set (access_events db)"
  shows "ae_id e \<noteq> []" "ae_organization_id e \<noteq> []"
  using assms by (auto simp: wf_access_def)

lemma in_scopes_iff:
  assumes "wf_access db" "e \<in> set (access_events db)"
    and "\<not> has_scope db uid ''superadmin'' ''instance'' None"
  shows "in_scopes (check_in_scopes db uid) e \<longleftrightarrow> can_perform_check_in db uid (ae_id e)"
  using assms event_ids [OF assms(1,2)]
  by (auto simp: in_scopes_def check_in_scopes_eq can_perform_check_in_def can_access_event_def
      load_event_org_id_def find_event_in truthy_def Let_def)

lemma can_manage_iff:
  assumes "wf_access db" "e \<in> set (access_events db)"
    and "\<not> has_scope db uid ''superadmin'' ''instance'' None"
  shows "ae_organization_id e \<in> set (admin_org_ids db uid) \<longleftrightarrow> can_manage_event db uid (ae_id e)"
  using assms event_ids [OF assms(1,2)]
  by (auto simp: admin_org_ids_iff can_manage_event_def load_event_org_id_def find_event_in
      truthy_def Let_def)

lemma manage_is_access: "can_manage_event db uid eid \<Longrightarrow> can_perform_check_in db uid eid"
  by (auto simp: can_manage_event_def can_perform_check_in_def can_access_event_def Let_def
      split: if_splits)

section \<open>The pickers\<close>

definition check_in_rows :: "access_db \<Rightarrow> string \<Rightarrow> event_select list" where
  "check_in_rows db uid =
     (if has_scope db uid ''superadmin'' ''instance'' None
      then sort_key ae_date (filter (\<lambda>e. ae_archived_at e = None) (access_events db))
      else sort_key ae_date (filter (\<lambda>e. ae_archived_at e = None \<and>
        in_scopes (check_in_scopes db uid) e) (access_events db)))"

definition admin_rows :: "bool \<Rightarrow> access_db \<Rightarrow> string \<Rightarrow> event_select list" where
  "admin_rows archived db uid =
     (if has_scope db uid ''superadmin'' ''instance'' None
      then sort_key ae_date (filter (\<lambda>e. archived \<or> ae_archived_at e = None) (access_events db))
      else sort_key ae_date (filter (\<lambda>e. ae_organization_id e \<in> set (admin_org_ids db uid) \<and>
        (archived \<or> ae_archived_at e = None)) (access_events db)))"

lemma list_check_in_rows:
  "list_check_in_events decrypts db uid = map (to_event_summary decrypts) (check_in_rows db uid)"
proof -
  have "filter (\<lambda>e. ae_archived_at e = None \<and> in_scopes ({}, {}) e) xs = []" for xs
    by (simp add: in_scopes_def)
  then show ?thesis
    by (cases "check_in_scopes db uid") (auto simp: list_check_in_events_def check_in_rows_def Let_def)
qed

lemma admin_panel_open:
  assumes "has_scope db uid ''superadmin'' ''instance'' None \<or> admin_org_ids db uid \<noteq> []"
  shows "can_access_admin_panel db uid"
  using assms
proof
  assume "admin_org_ids db uid \<noteq> []"
  then obtain oid where "oid \<in> set (admin_org_ids db uid)" by (meson last_in_set)
  then show ?thesis
    by (auto simp: admin_org_ids_iff has_scope_iff can_access_admin_panel_def find_None)
qed (simp add: can_access_admin_panel_def)

lemma list_admin_rows:
  "list_admin_events decrypts db uid archived =
     map (to_event_summary decrypts) (admin_rows archived db uid)"
  using admin_panel_open [of db uid]
  by (auto simp: list_admin_events_def admin_rows_def Let_def can_access_admin_panel_def)

lemma find_managed:
  assumes wf: "wf_access db" and not_super: "\<not> has_scope db uid ''superadmin'' ''instance'' None"
  shows "List.find (\<lambda>e. ae_id e = eid \<and> ae_organization_id e \<in> set (admin_org_ids db uid))
    (access_events db) = (if can_manage_event db uid eid then find_event db eid else None)"
proof (cases "find_event db eid")
  case None
  then have "\<forall>e \<in> set (access_events db). ae_id e \<noteq> eid" by (simp add: find_event_def find_None)
  then have "List.find (\<lambda>e. ae_id e = eid \<and> ae_organization_id e \<in> set (admin_org_ids db uid))
    (access_events db) = None"
    unfolding find_None by blast
  with None show ?thesis by simp
next
  case (Some e)
  then have e: "e \<in> set (access_events db)" "ae_id e = eid"
    unfolding find_event_def by (blast dest: find_set)+
  have managed: "can_manage_event db uid eid \<longleftrightarrow>
      ae_organization_id e \<in> set (admin_org_ids db uid)"
    using can_manage_iff [OF wf e(1) not_super] e(2) by simp
  have same: "f = e" if "f \<in> set (access_events db)" "ae_id f = eid" for f
    using wf e that unfolding wf_access_def distinct_map by (blast intro: inj_onD)
  show ?thesis
  proof (cases "can_manage_event db uid eid")
    case True
    have "List.find (\<lambda>e. ae_id e = eid \<and> ae_organization_id e \<in> set (admin_org_ids db uid))
        (access_events db) = Some e"
    proof (rule find_unique [OF e(1)])
      show "ae_id e = eid \<and> ae_organization_id e \<in> set (admin_org_ids db uid)"
        using e(2) managed True by blast
    next
      fix f assume f: "f \<in> set (access_events db)"
        "ae_id f = eid \<and> ae_organization_id f \<in> set (admin_org_ids db uid)"
      show "f = e" by (rule same [OF f(1) conjunct1 [OF f(2)]])
    qed
    with True Some show ?thesis by simp
  next
    case False
    then have "List.find (\<lambda>e. ae_id e = eid \<and> ae_organization_id e \<in> set (admin_org_ids db uid))
        (access_events db) = None"
      unfolding find_None using managed same by blast
    with False show ?thesis by simp
  qed
qed

lemma superadmin_allowed:
  assumes "has_scope db uid ''superadmin'' ''instance'' None"
  shows "can_perform_check_in db uid eid" "can_manage_event db uid eid"
  using assms by (simp_all add: can_perform_check_in_def can_access_event_def can_manage_event_def)

interpretation check_in_picker: event_picker wf_access access_events ae_id ae_date
  "\<lambda>e. ae_archived_at e = None" can_perform_check_in check_in_rows
proof
  fix db uid assume wf: "wf_access db"
  show "check_in_rows db uid = sort_key ae_date (filter (\<lambda>e. ae_archived_at e = None \<and>
    can_perform_check_in db uid (ae_id e)) (access_events db))"
    by (auto simp: check_in_rows_def superadmin_allowed in_scopes_iff [OF wf]
        intro!: arg_cong [of _ _ "sort_key ae_date"] filter_cong)
qed

interpretation admin_picker: event_picker wf_access access_events ae_id ae_date
  "\<lambda>e. archived \<or> ae_archived_at e = None" can_manage_event "admin_rows archived" for archived
proof
  fix db uid assume wf: "wf_access db"
  show "admin_rows archived db uid = sort_key ae_date (filter (\<lambda>e. (archived \<or>
    ae_archived_at e = None) \<and> can_manage_event db uid (ae_id e)) (access_events db))"
    by (auto simp: admin_rows_def superadmin_allowed can_manage_iff [OF wf]
        intro!: arg_cong [of _ _ "sort_key ae_date"] filter_cong)
qed

lemma summary_id [simp]: "ae_id (to_event_summary decrypts e) = ae_id e"
  by (simp add: to_event_summary_def event_base.defs)

section \<open>A small installation\<close>

definition sample_event :: "string \<Rightarrow> string \<Rightarrow> int \<Rightarrow> int option \<Rightarrow> event_select" where
  "sample_event eid org day archived =
     \<lparr>ae_id = eid, ae_title = ''Gala'', ae_slug = eid, ae_date = day, ae_timezone = ''UTC'',
      ae_hours_start = None, ae_hours_end = None, ae_organization_id = org, ae_capacity = None,
      ae_archived_at = archived, ae_created_at = 0, ae_created_by_user_id = None,
      ae_created_by_timezone = None, ae_archived_by_user_id = None, ae_archived_by_timezone = None,
      ae_wallet_enabled = True, ae_wallet_apple_enabled = True, ae_wallet_google_enabled = False,
      ae_wallet_samsung_enabled = False,
      es_location_details = Some \<lparr>lp_venue_name = Some ''Hall'', lp_latitude = Some 52,
        lp_longitude = None, lp_map_zoom = Some 12\<rparr>,
      es_wallet_template_id = Some ''t'', es_wallet_api_key_enc = Some ''k''\<rparr>"

definition sample_access :: access_db where
  "sample_access =
     \<lparr>role_assignments =
        [\<lparr>ra_id = ''r1'', ra_user_id = ''root'', ra_role = ''superadmin'', ra_scope_type = ''instance'', ra_scope_id = None\<rparr>,
         \<lparr>ra_id = ''r2'', ra_user_id = ''anna'', ra_role = ''admin'', ra_scope_type = ''organization'', ra_scope_id = Some ''o1''\<rparr>,
         \<lparr>ra_id = ''r3'', ra_user_id = ''anna'', ra_role = ''operator'', ra_scope_type = ''event'', ra_scope_id = Some ''e3''\<rparr>],
      access_events = [sample_event ''e1'' ''o1'' 30 None, sample_event ''e2'' ''o1'' 10 (Some 5),
                       sample_event ''e3'' ''o2'' 20 None]\<rparr>"

lemma sample_access_wf: "wf_access sample_access"
  by (simp add: wf_access_def sample_access_def sample_event_def)

lemma sample_rights:
  "map (can_perform_check_in sample_access ''anna'') [''e1'', ''e2'', ''e3''] = [True, True, True]"
  "map (can_manage_event sample_access ''anna'') [''e1'', ''e2'', ''e3''] = [True, True, False]"
  by (simp_all add: can_perform_check_in_def can_access_event_def can_manage_event_def has_scope_def
      load_event_org_id_def find_event_def sample_access_def sample_event_def truthy_def count_where_def)

section \<open>Properties\<close>

text \<open>C11: The check-in picker offers exactly the events at which the user may check people in and
  that are not archived, each with its summary, by date; and the check-in panel opens exactly when
  there is an event, archived or not, at which the user may.\<close>

theorem check_in_picker_exact:
  assumes wf: "wf_access db"
  shows "list_check_in_events decrypts db uid = map (to_event_summary decrypts)
      (sort_key ae_date (filter (\<lambda>e. ae_archived_at e = None \<and> can_perform_check_in db uid (ae_id e))
        (access_events db))) \<and>
    (can_access_check_in_panel db uid \<longleftrightarrow>
      (\<exists>e \<in> set (access_events db). can_perform_check_in db uid (ae_id e)))"
proof
  show "list_check_in_events decrypts db uid = map (to_event_summary decrypts)
      (sort_key ae_date (filter (\<lambda>e. ae_archived_at e = None \<and> can_perform_check_in db uid (ae_id e))
        (access_events db)))"
    by (simp add: list_check_in_rows check_in_picker.listed_eq [OF wf])
  show "can_access_check_in_panel db uid \<longleftrightarrow>
      (\<exists>e \<in> set (access_events db). can_perform_check_in db uid (ae_id e))"
  proof (cases "has_scope db uid ''superadmin'' ''instance'' None")
    case True
    then show ?thesis
      by (simp add: can_access_check_in_panel_def superadmin_allowed neq_Nil_conv)
        (metis list.set_intros(1) list.set_cases)
  next
    case False
    have "can_access_check_in_panel db uid \<longleftrightarrow>
        (\<exists>e \<in> set (access_events db). in_scopes (check_in_scopes db uid) e)"
      using False by (auto simp: can_access_check_in_panel_def Let_def find_None in_scopes_def)
    then show ?thesis by (simp add: in_scopes_iff [OF wf _ False])
  qed
qed

lemma check_in_picker_exact_witness:
  "map ae_id (list_check_in_events (\<lambda>_. True) sample_access ''anna'') = [''e3'', ''e1''] \<and>
   can_access_check_in_panel sample_access ''anna''"
  using check_in_picker_exact [OF sample_access_wf, of "\<lambda>_. True" "''anna''"] sample_rights
  by (simp add: sample_access_def sample_event_def comp_def)

text \<open>The admin picker is the check-in picker narrowed to the events the user manages, in the
  same order; with archived events it offers exactly the managed events; and an event opens by its
  id exactly when it exists and the user manages it.\<close>

theorem admin_picker_exact:
  assumes wf: "wf_access db"
  shows "list_admin_events decrypts db uid False =
      filter (\<lambda>s. can_manage_event db uid (ae_id s)) (list_check_in_events decrypts db uid) \<and>
    list_admin_events decrypts db uid True = map (to_event_summary decrypts)
      (sort_key ae_date (filter (\<lambda>e. can_manage_event db uid (ae_id e)) (access_events db))) \<and>
    get_admin_event decrypts db uid eid =
      (if can_manage_event db uid eid then map_option (to_event_summary decrypts) (find_event db eid)
       else None)"
proof (intro conjI)
  have "filter (\<lambda>e. can_manage_event db uid (ae_id e)) (check_in_rows db uid) = admin_rows False db uid"
    by (auto simp: check_in_picker.listed_eq [OF wf] admin_picker.listed_eq [OF wf] filter_sort
        manage_is_access intro!: arg_cong [of _ _ "sort_key ae_date"] filter_cong)
  then show "list_admin_events decrypts db uid False =
      filter (\<lambda>s. can_manage_event db uid (ae_id s)) (list_check_in_events decrypts db uid)"
    by (simp add: list_check_in_rows list_admin_rows filter_map comp_def)
  show "list_admin_events decrypts db uid True = map (to_event_summary decrypts)
      (sort_key ae_date (filter (\<lambda>e. can_manage_event db uid (ae_id e)) (access_events db)))"
    by (simp add: list_admin_rows admin_picker.listed_eq [OF wf])
  note found = find_managed [OF wf]
  show "get_admin_event decrypts db uid eid =
      (if can_manage_event db uid eid then map_option (to_event_summary decrypts) (find_event db eid)
       else None)"
  proof (cases "has_scope db uid ''superadmin'' ''instance'' None")
    case True
    then show ?thesis by (simp add: get_admin_event_def can_access_admin_panel_def superadmin_allowed)
  next
    case False
    show ?thesis
    proof (cases "admin_org_ids db uid = []")
      case True
      then have "List.find (\<lambda>e. ae_id e = eid \<and> ae_organization_id e \<in> set (admin_org_ids db uid))
          (access_events db) = None"
        by (simp add: find_None)
      with found [OF False, of eid] False True show ?thesis
        by (simp add: get_admin_event_def split: if_splits)
    next
      case nonempty: False
      with False admin_panel_open have "can_access_admin_panel db uid" by blast
      with found [OF False, of eid] False nonempty show ?thesis by (simp add: get_admin_event_def)
    qed
  qed
qed

lemma admin_picker_exact_witness:
  "map ae_id (list_admin_events (\<lambda>_. True) sample_access ''anna'' True) = [''e2'', ''e1''] \<and>
   get_admin_event (\<lambda>_. True) sample_access ''anna'' ''e3'' = None"
  using admin_picker_exact [OF sample_access_wf, of "\<lambda>_. True" "''anna''" "''e3''"] sample_rights
  by (simp add: sample_access_def sample_event_def comp_def)

end
