(* ===== verification/Oidc_Roles.thy ===== *)
theory Oidc_Roles
  imports Access
begin

text \<open>
  The role synchronisation of an external login, \<open>packages/auth/src/oidc/group-role-mapping.ts\<close>,
  called with the root client. Every grant and every rule is a transaction of its own, retried
  when the database reports a serialization failure. A serializable transaction is one step; a
  plain one has points (\<open>re_inner\<close>) at which other transactions commit between its statements, and
  before each attempt of any transaction others may have run (\<open>re_others\<close>). The backoff delay has
  no effect on the tables. The callback of an elevated grant is the list of alerts.
\<close>

section \<open>Tables\<close>

record role_grant =
  gr_id :: string
  gr_user_id :: string
  gr_provider_id :: string
  gr_role :: string
  gr_scope_type :: string
  gr_scope_id :: "string option"
  gr_role_assignment_id :: string

record group_rule =
  gm_id :: string
  gm_provider_id :: string
  gm_group :: string
  gm_role :: string
  gm_scope_type :: string
  gm_scope_id :: string

record account =
  ac_id :: string
  ac_is_active :: bool

record elevated_grant =
  el_role :: string
  el_scope_type :: string
  el_scope_id :: "string option"

record role_db =
  rd_assignments :: "role_assignment list"
  rd_grants :: "role_grant list"
  rd_rules :: "group_rule list"
  rd_accounts :: "account list"
  rd_security_log :: "(string \<times> string \<times> string) list"
  rd_alerts :: "elevated_grant list"

datatype role_error = Ro_serialization | Ro_unique | Ro_foreign_key | Ro_check | Ro_unreachable

type_synonym 'a role_tx = "(role_db, role_error, 'a) tx"
type_synonym 'a role_op = "(role_db, role_error, 'a) op"

record role_env =
  re_conflict :: "string \<Rightarrow> nat \<Rightarrow> bool"
  re_others :: "string \<Rightarrow> nat \<Rightarrow> role_db \<Rightarrow> role_db"
  re_inner :: "string \<Rightarrow> nat \<Rightarrow> role_db \<Rightarrow> role_db"
  re_fresh_assignment :: "string \<Rightarrow> nat \<Rightarrow> string"
  re_fresh_grant :: "string \<Rightarrow> nat \<Rightarrow> string"

section \<open>Keys and checks\<close>

definition role_assignment_scope_id :: "string \<Rightarrow> string option \<Rightarrow> string option" where
  "role_assignment_scope_id scope_type scope_id =
     (if scope_type = ''instance'' then None
      else case scope_id of None \<Rightarrow> None | Some s \<Rightarrow> non_empty (js_trim s))"

definition grant_where ::
  "string \<Rightarrow> string \<Rightarrow> group_rule \<Rightarrow> string option \<Rightarrow> role_grant \<Rightarrow> bool" where
  "grant_where uid pid rule scope_id g \<longleftrightarrow> gr_user_id g = uid \<and> gr_provider_id g = pid \<and>
     gr_role g = gm_role rule \<and> gr_scope_type g = gm_scope_type rule \<and> gr_scope_id g = scope_id"

definition assignment_where ::
  "string \<Rightarrow> group_rule \<Rightarrow> string option \<Rightarrow> role_assignment \<Rightarrow> bool" where
  "assignment_where uid rule scope_id r \<longleftrightarrow> ra_user_id r = uid \<and> ra_role r = gm_role rule \<and>
     ra_scope_type r = gm_scope_type rule \<and> ra_scope_id r = scope_id"

definition role_precedence :: "string \<Rightarrow> nat" where
  "role_precedence role = (if role = ''superadmin'' then 0 else if role = ''admin'' then 1
     else if role = ''operator'' then 2 else 9007199254740991)"

definition rule_still_authorizes_grant ::
  "role_grant \<Rightarrow> group_rule list \<Rightarrow> string list \<Rightarrow> bool" where
  "rule_still_authorizes_grant g rules groups \<longleftrightarrow>
     (\<exists>rule \<in> set rules. gm_group rule \<in> set groups \<and> gm_role rule = gr_role g \<and>
        gm_scope_type rule = gr_scope_type g \<and>
        role_assignment_scope_id (gm_scope_type rule) (Some (gm_scope_id rule)) = gr_scope_id g)"

definition is_active_account :: "role_db \<Rightarrow> string \<Rightarrow> bool" where
  "is_active_account db uid \<longleftrightarrow> (\<exists>u \<in> set (rd_accounts db). ac_id u = uid \<and> ac_is_active u)"

definition is_instance_superadmin :: "role_assignment \<Rightarrow> bool" where
  "is_instance_superadmin r \<longleftrightarrow>
     ra_role r = ''superadmin'' \<and> ra_scope_type r = ''instance'' \<and> ra_scope_id r = None"

definition count_active_instance_superadmins :: "role_db \<Rightarrow> nat" where
  "count_active_instance_superadmins db =
     count_where (\<lambda>r. is_instance_superadmin r \<and> is_active_account db (ra_user_id r))
       (rd_assignments db)"

definition is_instance_superadmin_grant :: "role_grant \<Rightarrow> bool" where
  "is_instance_superadmin_grant g \<longleftrightarrow>
     gr_role g = ''superadmin'' \<and> gr_scope_type g = ''instance'' \<and> gr_scope_id g = None"

definition removes_active_instance_superadmin :: "role_grant \<Rightarrow> string \<Rightarrow> role_db \<Rightarrow> bool" where
  "removes_active_instance_superadmin g uid db \<longleftrightarrow>
     count_where (\<lambda>r. ra_id r = gr_role_assignment_id g \<and> ra_user_id r = uid \<and>
                      is_active_account db (ra_user_id r)) (rd_assignments db) > 0"

section \<open>Serialization retries\<close>

definition serialization_retry_attempts :: nat where
  "serialization_retry_attempts = 12"

fun serial_attempts ::
  "role_env \<Rightarrow> string \<Rightarrow> (nat \<Rightarrow> 'a role_op) \<Rightarrow> nat \<Rightarrow> nat \<Rightarrow> 'a role_op" where
  "serial_attempts env label body attempt 0 = run_tx (tx_throw Ro_unreachable)"
| "serial_attempts env label body attempt (Suc left) =
     op_bind (run_tx (interfere (re_others env label attempt))) (\<lambda>_.
     if re_conflict env label attempt
     then (if attempt < serialization_retry_attempts - 1
           then serial_attempts env label body (Suc attempt) left
           else run_tx (tx_throw Ro_serialization))
     else body attempt)"

section \<open>Revoking a grant\<close>

text \<open>Deleting the assignment cascades to the grants that reference it.\<close>

definition delete_assignment :: "string \<Rightarrow> string \<Rightarrow> role_db \<Rightarrow> role_db" where
  "delete_assignment aid uid db =
     (let hit = (\<lambda>r. ra_id r = aid \<and> ra_user_id r = uid);
          gone = ra_id ` set (filter hit (rd_assignments db))
      in db\<lparr>rd_assignments := filter (\<lambda>r. \<not> hit r) (rd_assignments db),
            rd_grants := filter (\<lambda>g. gr_role_assignment_id g \<notin> gone) (rd_grants db)\<rparr>)"

definition log_superadmin_revoke_blocked :: "string \<Rightarrow> string \<Rightarrow> role_db \<Rightarrow> role_db" where
  "log_superadmin_revoke_blocked pid uid db =
     db\<lparr>rd_security_log := rd_security_log db @ [(''auth.oidc.superadmin_revoke_blocked'', pid, uid)]\<rparr>"

definition statement_gap :: "role_env \<Rightarrow> bool \<Rightarrow> string \<Rightarrow> nat \<Rightarrow> unit role_tx" where
  "statement_gap env serializable label k =
     (if serializable then tx_return () else interfere (re_inner env label k))"

definition revoke_body ::
  "role_env \<Rightarrow> bool \<Rightarrow> role_grant \<Rightarrow> string \<Rightarrow> string \<Rightarrow> bool role_tx" where
  "revoke_body env serializable g uid pid =
     tx_bind
       (if is_instance_superadmin_grant g
        then tx_bind (tx_read (removes_active_instance_superadmin g uid)) (\<lambda>removes.
             if removes
             then tx_bind (statement_gap env serializable (gr_id g) 0) (\<lambda>_.
                  tx_bind (tx_read count_active_instance_superadmins) (\<lambda>remaining.
                  tx_return (remaining \<le> 1)))
             else tx_return False)
        else tx_return False)
       (\<lambda>blocked.
        if blocked
        then tx_bind (tx_write (log_superadmin_revoke_blocked pid uid)) (\<lambda>_. tx_return False)
        else tx_bind (statement_gap env serializable (gr_id g) 1) (\<lambda>_.
             tx_bind (tx_write (delete_assignment (gr_role_assignment_id g) uid)) (\<lambda>_.
             tx_return True)))"

definition revoke_oidc_role_grant :: "role_env \<Rightarrow> role_grant \<Rightarrow> string \<Rightarrow> string \<Rightarrow> bool role_op" where
  "revoke_oidc_role_grant env g uid pid =
     op_bind (op_read (\<lambda>db. is_instance_superadmin_grant g \<and>
                             removes_active_instance_superadmin g uid db)) (\<lambda>serializable.
     serial_attempts env (gr_id g) (\<lambda>_. run_tx (revoke_body env serializable g uid pid))
       0 serialization_retry_attempts)"

section \<open>Granting by a rule\<close>

text \<open>The CHECK, foreign key and unique constraints of the two tables, in that order.\<close>

definition assignment_checks :: "role_assignment \<Rightarrow> bool" where
  "assignment_checks r \<longleftrightarrow> ra_role r \<in> set [''superadmin'', ''admin'', ''operator''] \<and>
     ra_scope_type r \<in> set [''instance'', ''organization'', ''event''] \<and>
     (if ra_scope_type r = ''instance'' then ra_scope_id r = None
      else case ra_scope_id r of None \<Rightarrow> False | Some s \<Rightarrow> dropWhile (\<lambda>c. c = CHR '' '') s \<noteq> [])"

definition create_assignment :: "role_assignment \<Rightarrow> unit role_tx" where
  "create_assignment r db =
     (if \<not> assignment_checks r then Inl Ro_check
      else if ra_user_id r \<notin> ac_id ` set (rd_accounts db) then Inl Ro_foreign_key
      else if ra_id r \<in> ra_id ` set (rd_assignments db) then Inl Ro_unique
      else if \<exists>q \<in> set (rd_assignments db). ra_user_id q = ra_user_id r \<and> ra_role q = ra_role r \<and>
                ra_scope_type q = ra_scope_type r \<and> ra_scope_id q = ra_scope_id r then Inl Ro_unique
      else Inr ((), db\<lparr>rd_assignments := rd_assignments db @ [r]\<rparr>))"

definition create_grant :: "role_grant \<Rightarrow> unit role_tx" where
  "create_grant g db =
     (if gr_role_assignment_id g \<notin> ra_id ` set (rd_assignments db) then Inl Ro_foreign_key
      else if gr_id g \<in> gr_id ` set (rd_grants db) then Inl Ro_unique
      else if \<exists>h \<in> set (rd_grants db). gr_user_id h = gr_user_id g \<and>
                gr_provider_id h = gr_provider_id g \<and> gr_role h = gr_role g \<and>
                gr_scope_type h = gr_scope_type g \<and> gr_scope_id h = gr_scope_id g then Inl Ro_unique
      else Inr ((), db\<lparr>rd_grants := rd_grants db @ [g]\<rparr>))"

definition new_assignment ::
  "role_env \<Rightarrow> nat \<Rightarrow> string \<Rightarrow> group_rule \<Rightarrow> string option \<Rightarrow> role_assignment" where
  "new_assignment env attempt uid rule scope_id =
     \<lparr>ra_id = re_fresh_assignment env (gm_id rule) attempt, ra_user_id = uid,
      ra_role = gm_role rule, ra_scope_type = gm_scope_type rule, ra_scope_id = scope_id\<rparr>"

definition new_grant ::
  "role_env \<Rightarrow> nat \<Rightarrow> string \<Rightarrow> string \<Rightarrow> group_rule \<Rightarrow> string option \<Rightarrow> role_grant" where
  "new_grant env attempt uid pid rule scope_id =
     \<lparr>gr_id = re_fresh_grant env (gm_id rule) attempt, gr_user_id = uid, gr_provider_id = pid,
      gr_role = gm_role rule, gr_scope_type = gm_scope_type rule, gr_scope_id = scope_id,
      gr_role_assignment_id = re_fresh_assignment env (gm_id rule) attempt\<rparr>"

definition ensure_body ::
  "role_env \<Rightarrow> nat \<Rightarrow> string \<Rightarrow> string \<Rightarrow> group_rule \<Rightarrow> string option \<Rightarrow> bool role_tx" where
  "ensure_body env attempt uid pid rule scope_id =
     tx_bind (tx_read (\<lambda>db. List.find (grant_where uid pid rule scope_id) (rd_grants db))) (\<lambda>g.
     if g \<noteq> None then tx_return False
     else tx_bind (tx_read (\<lambda>db. List.find (assignment_where uid rule scope_id) (rd_assignments db))) (\<lambda>r.
     if r \<noteq> None then tx_return False
     else tx_bind (tx_read (\<lambda>db. List.find (\<lambda>q. ra_user_id q = uid \<and> ra_role q \<noteq> gm_role rule)
                                  (rd_assignments db))) (\<lambda>q.
     if q \<noteq> None then tx_return False
     else
       tx_bind (create_assignment (new_assignment env attempt uid rule scope_id)) (\<lambda>_.
       tx_bind (create_grant (new_grant env attempt uid pid rule scope_id)) (\<lambda>_.
       tx_return True)))))"

text \<open>
  A unique violation is caught and answered \<open>False\<close>; the database has then aborted the
  transaction, so nothing of it is kept.
\<close>

definition lost_race :: "role_error \<Rightarrow> bool option" where
  "lost_race e = (if e = Ro_unique then Some False else None)"

definition ensure_oidc_grant_for_rule ::
  "role_env \<Rightarrow> string \<Rightarrow> string \<Rightarrow> group_rule \<Rightarrow> string option \<Rightarrow> bool role_op" where
  "ensure_oidc_grant_for_rule env uid pid rule scope_id =
     serial_attempts env (gm_id rule)
       (\<lambda>attempt. op_catch (run_tx (ensure_body env attempt uid pid rule scope_id)) lost_race)
       0 serialization_retry_attempts"

section \<open>The synchronisation\<close>

definition revoke_unmatched ::
  "role_env \<Rightarrow> string \<Rightarrow> string \<Rightarrow> string list \<Rightarrow> group_rule list \<Rightarrow> role_grant \<Rightarrow> nat \<Rightarrow> nat role_op" where
  "revoke_unmatched env pid uid groups rules g changed =
     (if rule_still_authorizes_grant g rules groups then op_return changed
      else op_bind (revoke_oidc_role_grant env g uid pid) (\<lambda>revoked.
           op_return (if revoked then changed + 1 else changed)))"

definition report_elevated :: "group_rule \<Rightarrow> string option \<Rightarrow> role_db \<Rightarrow> role_db" where
  "report_elevated rule scope_id db =
     (if gm_role rule = ''admin'' \<or> gm_role rule = ''superadmin''
      then db\<lparr>rd_alerts := rd_alerts db @ [\<lparr>el_role = gm_role rule,
             el_scope_type = gm_scope_type rule, el_scope_id = scope_id\<rparr>]\<rparr>
      else db)"

definition grant_matched ::
  "role_env \<Rightarrow> string \<Rightarrow> string \<Rightarrow> string list \<Rightarrow> group_rule \<Rightarrow> nat \<Rightarrow> nat role_op" where
  "grant_matched env pid uid groups rule changed =
     (if gm_group rule \<notin> set groups then op_return changed
      else let scope_id = role_assignment_scope_id (gm_scope_type rule) (Some (gm_scope_id rule)) in
        op_bind (ensure_oidc_grant_for_rule env uid pid rule scope_id) (\<lambda>created.
        if created
        then op_bind (run_tx (tx_write (report_elevated rule scope_id))) (\<lambda>_. op_return (changed + 1))
        else op_return changed))"

definition apply_oidc_group_role_mappings ::
  "role_env \<Rightarrow> string \<Rightarrow> string \<Rightarrow> string list option \<Rightarrow> nat role_op" where
  "apply_oidc_group_role_mappings env pid uid asserted =
     (case asserted of
        None \<Rightarrow> op_return 0
      | Some groups \<Rightarrow>
          op_bind (op_read (\<lambda>db. filter (\<lambda>r. gm_provider_id r = pid) (rd_rules db))) (\<lambda>rules.
          op_bind (op_read (\<lambda>db. filter (\<lambda>g. gr_user_id g = uid \<and> gr_provider_id g = pid)
                                  (rd_grants db))) (\<lambda>grants.
          op_bind (op_fold (revoke_unmatched env pid uid groups rules) grants 0) (\<lambda>changed.
          op_fold (grant_matched env pid uid groups)
            (sort_key (\<lambda>r. role_precedence (gm_role r)) rules) changed))))"

end
