(* ===== verification/Oidc_Props.thy ===== *)
theory Oidc_Props
  imports Oidc_Roles
begin

text \<open>
  What the role synchronisation guarantees, whatever runs beside it: an active instance superadmin
  always remains, a person holds roles of one type only, and manual assignments are left alone;
  and with nothing beside it, that a second synchronisation changes nothing.
\<close>

section \<open>Relations through retries\<close>

text \<open>A relation that holds as long as a condition did before.\<close>

definition while_kept :: "('s \<Rightarrow> bool) \<Rightarrow> ('s \<Rightarrow> 's \<Rightarrow> bool) \<Rightarrow> 's \<Rightarrow> 's \<Rightarrow> bool" where
  "while_kept Q R s t \<longleftrightarrow> (Q s \<longrightarrow> Q t \<and> R s t)"

lemma while_kept_step:
  assumes "step_relation R"
  shows "step_relation (while_kept Q R)"
  by (unfold_locales; unfold while_kept_def)
    (blast intro: step_relation.rel_refl [OF assms] step_relation.rel_trans [OF assms])+

lemma attempts_all:
  assumes R: "step_relation R"
    and others: "\<And>k s. R s (re_others env label k s)"
    and body: "\<And>k. op_all R (body k)"
  shows "op_all R (serial_attempts env label body attempt left)"
proof (induction left arbitrary: attempt)
  case 0
  show ?case by (simp add: step_relation.op_run_all [OF R] tx_all_throw)
next
  case (Suc left)
  have "op_all R (run_tx (interfere (re_others env label attempt)))"
    by (intro step_relation.op_run_all [OF R] tx_all_interfere others)
  then show ?case
    by (auto intro!: step_relation.op_bind_all [OF R] step_relation.op_run_all [OF R]
        tx_all_throw tx_all_interfere others Suc.IH body)
qed

section \<open>The floor of superadmins\<close>

definition linked :: "role_grant set \<Rightarrow> role_db \<Rightarrow> bool" where
  "linked G db \<longleftrightarrow> (\<forall>g \<in> G. \<forall>r \<in> set (rd_assignments db). ra_id r = gr_role_assignment_id g \<longrightarrow>
     ra_user_id r = gr_user_id g \<and> ra_role r = gr_role g \<and> ra_scope_type r = gr_scope_type g \<and>
     ra_scope_id r = gr_scope_id g)"

definition floor_ok :: "role_grant set \<Rightarrow> role_db \<Rightarrow> bool" where
  "floor_ok G db \<longleftrightarrow> linked G db \<and> distinct (map ra_id (rd_assignments db)) \<and>
     1 \<le> count_active_instance_superadmins db"

text \<open>
  One step of the database as the synchronisation sees it: the floor holds, the account that signs in (the
  owner of the grants) does not become active, and no assignment appears under the id of a grant that is
  being looked at. All other accounts may change their activity as long as the floor holds.
\<close>

definition role_step :: "role_grant set \<Rightarrow> role_db \<Rightarrow> role_db \<Rightarrow> bool" where
  "role_step G = while_kept (floor_ok G) (\<lambda>db db'.
     (\<forall>g \<in> G. is_active_account db' (gr_user_id g) \<longrightarrow> is_active_account db (gr_user_id g)) \<and>
     (\<forall>g \<in> G. \<forall>r \<in> set (rd_assignments db'). ra_id r = gr_role_assignment_id g \<longrightarrow>
        r \<in> set (rd_assignments db)))"

interpretation role: step_relation "role_step G" for G
  unfolding role_step_def by (rule while_kept_step) (unfold_locales; metis)

definition floor_env :: "role_grant set \<Rightarrow> role_env \<Rightarrow> bool" where
  "floor_env G env \<longleftrightarrow> (\<forall>l k db. role_step G db (re_others env l k db)) \<and>
     (\<forall>l k db. role_step G db (re_inner env l k db)) \<and>
     (\<forall>l k. \<forall>g \<in> G. re_fresh_assignment env l k \<noteq> gr_role_assignment_id g)"

lemma role_step_same:
  "\<lbrakk>rd_assignments db' = rd_assignments db; rd_accounts db' = rd_accounts db\<rbrakk> \<Longrightarrow> role_step G db db'"
  by (simp add: role_step_def while_kept_def floor_ok_def linked_def is_active_account_def
      count_active_instance_superadmins_def)

lemma one_row_under_an_id:
  "distinct (map ra_id rs) \<Longrightarrow> length (filter (\<lambda>r. ra_id r = i \<and> P r) rs) \<le> 1"
proof (induction rs)
  case (Cons r rs)
  then have "filter (\<lambda>q. ra_id q = ra_id r \<and> P q) rs = []"
    by (auto simp: filter_empty_conv) (metis imageI)
  with Cons show ?case by auto
qed simp

lemma delete_assignment_rows:
  "rd_assignments (delete_assignment i uid db) =
     filter (\<lambda>r. \<not> (ra_id r = i \<and> ra_user_id r = uid)) (rd_assignments db)"
  by (simp add: delete_assignment_def Let_def)

lemma delete_assignment_accounts [simp]:
  "rd_accounts (delete_assignment i uid db) = rd_accounts db"
  "is_active_account (delete_assignment i uid db) = is_active_account db"
  by (simp_all add: delete_assignment_def Let_def is_active_account_def fun_eq_iff)

definition counted :: "role_db \<Rightarrow> role_assignment \<Rightarrow> bool" where
  "counted db r \<longleftrightarrow> is_instance_superadmin r \<and> is_active_account db (ra_user_id r)"

lemma filter_split_length:
  "length (filter A xs) = length (filter A (filter (\<lambda>x. \<not> H x) xs)) + length (filter (\<lambda>x. H x \<and> A x) xs)"
  by (induction xs) auto

lemma superadmin_count_split:
  "count_active_instance_superadmins db =
     count_active_instance_superadmins (delete_assignment i uid db) +
     length (filter (\<lambda>r. (ra_id r = i \<and> ra_user_id r = uid) \<and> counted db r) (rd_assignments db))"
  unfolding count_active_instance_superadmins_def count_where_def delete_assignment_rows
    delete_assignment_accounts counted_def
  by (rule filter_split_length)

text \<open>The deletion is safe when the grant is no superadmin's, or takes no active one, or two are left.\<close>

lemma delete_step:
  assumes g: "g \<in> G" "gr_user_id g = uid"
    and safe: "\<not> is_instance_superadmin_grant g \<or> \<not> removes_active_instance_superadmin g uid db \<or>
      2 \<le> count_active_instance_superadmins db"
  shows "role_step G db (delete_assignment (gr_role_assignment_id g) uid db)"
proof -
  let ?i = "gr_role_assignment_id g"
  let ?hits = "filter (\<lambda>r. (ra_id r = ?i \<and> ra_user_id r = uid) \<and> counted db r) (rd_assignments db)"
  have "1 \<le> count_active_instance_superadmins (delete_assignment ?i uid db)" if ok: "floor_ok G db"
  proof (cases "2 \<le> count_active_instance_superadmins db")
    case True
    have "length ?hits \<le> 1"
      using one_row_under_an_id [of "rd_assignments db" ?i "\<lambda>r. ra_user_id r = uid \<and> counted db r"] ok
      by (simp add: floor_ok_def conj_assoc)
    with True superadmin_count_split [of db ?i uid] show ?thesis by linarith
  next
    case False
    with safe have "\<not> is_instance_superadmin_grant g \<or> \<not> removes_active_instance_superadmin g uid db"
      by blast
    then have "?hits = []"
    proof
      assume "\<not> is_instance_superadmin_grant g"
      with ok g show ?thesis
        by (auto simp: filter_empty_conv floor_ok_def linked_def counted_def is_instance_superadmin_def
            is_instance_superadmin_grant_def)
    next
      assume "\<not> removes_active_instance_superadmin g uid db"
      then show ?thesis
        by (auto simp: filter_empty_conv removes_active_instance_superadmin_def count_where_def counted_def)
    qed
    with ok superadmin_count_split [of db ?i uid] show ?thesis by (simp add: floor_ok_def)
  qed
  then show ?thesis
    by (auto simp: role_step_def while_kept_def floor_ok_def linked_def delete_assignment_rows
        distinct_map_filter)
qed

section \<open>Revoking keeps the floor\<close>

lemma revoke_serializable:
  assumes g: "g \<in> G" "gr_user_id g = uid"
  shows "tx_all (role_step G) (revoke_body env True g uid pid)"
proof (rule tx_allI)
  fix s b t assume "revoke_body env True g uid pid s = Inr (b, t)"
  then consider "t = log_superadmin_revoke_blocked pid uid s"
    | "t = delete_assignment (gr_role_assignment_id g) uid s"
      "\<not> is_instance_superadmin_grant g \<or> \<not> removes_active_instance_superadmin g uid s \<or>
        2 \<le> count_active_instance_superadmins s"
    by (auto simp: revoke_body_def statement_gap_def tx_simps split: if_splits)
  then show "role_step G s t"
  proof cases
    case 1
    then show ?thesis by (simp add: role_step_same log_superadmin_revoke_blocked_def)
  next
    case 2
    then show ?thesis by (simp add: delete_step [OF g])
  qed
qed

text \<open>Once the grant is no active superadmin's, it stays so: what a plain transaction relies on.\<close>

definition harmless :: "role_grant \<Rightarrow> string \<Rightarrow> role_db \<Rightarrow> bool" where
  "harmless g uid db \<longleftrightarrow>
     \<not> is_instance_superadmin_grant g \<or> \<not> removes_active_instance_superadmin g uid db"

definition safe_step :: "role_grant set \<Rightarrow> role_grant \<Rightarrow> string \<Rightarrow> role_db \<Rightarrow> role_db \<Rightarrow> bool" where
  "safe_step G g uid = while_kept (\<lambda>db. floor_ok G db \<and> harmless g uid db) (role_step G)"

interpretation safe: step_relation "safe_step G g uid" for G g uid
  unfolding safe_step_def by (rule while_kept_step) (rule role.step_relation_axioms)

lemma role_step_is_safe:
  assumes "role_step G s t" "g \<in> G"
  shows "safe_step G g uid s t"
proof -
  have "harmless g uid t" if "floor_ok G s" "harmless g uid s"
  proof (rule ccontr)
    assume "\<not> harmless g uid t"
    then obtain r where r: "r \<in> set (rd_assignments t)" "ra_id r = gr_role_assignment_id g" "ra_user_id r = uid"
      "is_active_account t uid" "is_instance_superadmin_grant g"
      by (auto simp: harmless_def removes_active_instance_superadmin_def count_where_def filter_empty_conv)
    have step: "is_active_account t (gr_user_id g) \<longrightarrow> is_active_account s (gr_user_id g)" "r \<in> set (rd_assignments s)"
      using assms that(1) r(1,2) by (simp_all add: role_step_def while_kept_def)
    then have "gr_user_id g = uid" using that(1) assms(2) r(2,3) by (auto simp: floor_ok_def linked_def)
    with step r that(2) show False
      by (auto simp: harmless_def removes_active_instance_superadmin_def count_where_def filter_empty_conv)
  qed
  with assms(1) show ?thesis by (auto simp: safe_step_def while_kept_def role_step_def)
qed

lemma revoke_plain:
  assumes g: "g \<in> G" "gr_user_id g = uid" and env: "floor_env G env"
  shows "tx_all (safe_step G g uid) (revoke_body env False g uid pid)"
proof -
  have gap: "tx_all (safe_step G g uid) (statement_gap env False l k)" for l k
    using env by (auto simp: statement_gap_def floor_env_def intro!: tx_all_interfere role_step_is_safe g)
  have log: "tx_all (safe_step G g uid) (tx_write (log_superadmin_revoke_blocked pid uid))"
    by (intro tx_all_write role_step_is_safe g)
      (simp add: role_step_same log_superadmin_revoke_blocked_def)
  have "safe_step G g uid s (delete_assignment (gr_role_assignment_id g) uid s)" for s
  proof -
    have "harmless g uid s \<Longrightarrow> role_step G s (delete_assignment (gr_role_assignment_id g) uid s)"
      by (rule delete_step [OF g]) (auto simp: harmless_def)
    then show ?thesis
      using role_step_is_safe [OF _ g(1)] by (auto simp: safe_step_def while_kept_def)
  qed
  then have del: "tx_all (safe_step G g uid) (tx_write (delete_assignment (gr_role_assignment_id g) uid))"
    by (rule tx_all_write)
  show ?thesis
    unfolding revoke_body_def by (intro keeps_intros gap log del)
qed

lemma safe_op:
  assumes m: "op_all (safe_step G g uid) m" and h: "harmless g uid s"
  shows "role_step G s (snd (m s))"
  using op_allD [OF m, of s] h by (auto simp: safe_step_def while_kept_def role_step_def)

lemma revoke_keeps_floor:
  assumes g: "g \<in> G" "gr_user_id g = uid" and env: "floor_env G env"
  shows "op_all (role_step G) (revoke_oidc_role_grant env g uid pid)"
  unfolding op_all_def
proof
  fix s
  let ?serial = "is_instance_superadmin_grant g \<and> removes_active_instance_superadmin g uid s"
  let ?run = "\<lambda>b. serial_attempts env (gr_id g) (\<lambda>_. run_tx (revoke_body env b g uid pid)) 0
    serialization_retry_attempts"
  have others: "role_step G db (re_others env l k db)" for l k db
    using env by (simp add: floor_env_def)
  have on: "role_step G s (snd (?run True s))"
    by (rule op_allD [OF attempts_all [OF role.step_relation_axioms others]])
      (rule role.op_run_all [OF revoke_serializable [OF g]])
  have off: "role_step G s (snd (?run False s))" if "\<not> ?serial"
  proof (rule safe_op)
    show "op_all (safe_step G g uid) (?run False)"
      by (rule attempts_all [OF safe.step_relation_axioms role_step_is_safe [OF others g(1)]])
        (rule safe.op_run_all [OF revoke_plain [OF g env]])
    show "harmless g uid s" using that by (auto simp: harmless_def)
  qed
  have "role_step G s (snd (?run b s))" if "?serial = b" for b
  proof (cases b)
    case True
    then have "b = True" by simp
    then show ?thesis by (simp only: on)
  next
    case False
    with that off have "role_step G s (snd (?run False s))" by blast
    moreover have "b = False" using False by simp
    ultimately show ?thesis by (simp only:)
  qed
  then show "role_step G s (snd (revoke_oidc_role_grant env g uid pid s))"
    by (simp only: revoke_oidc_role_grant_def op_bind_def op_read_def prod.case sum.case)
qed

section \<open>Granting keeps the floor\<close>

lemma create_assignment_step:
  assumes "\<And>g. g \<in> G \<Longrightarrow> ra_id r \<noteq> gr_role_assignment_id g"
  shows "tx_all (role_step G) (create_assignment r)"
proof (rule tx_allI)
  fix s u t assume "create_assignment r s = Inr (u, t)"
  then have t: "t = s\<lparr>rd_assignments := rd_assignments s @ [r]\<rparr>"
    and new: "ra_id r \<notin> ra_id ` set (rd_assignments s)"
    by (auto simp: create_assignment_def split: if_splits)
  have "count_active_instance_superadmins s \<le> count_active_instance_superadmins t"
    by (simp add: t count_active_instance_superadmins_def count_where_def is_active_account_def)
  moreover have "is_active_account t = is_active_account s" by (simp add: t is_active_account_def fun_eq_iff)
  ultimately show "role_step G s t"
    using new assms unfolding role_step_def while_kept_def floor_ok_def linked_def by (auto simp: t)
qed

lemma create_grant_step: "tx_all (role_step G) (create_grant g)"
  by (rule tx_allI) (auto simp: create_grant_def intro!: role_step_same split: if_splits)

lemma ensure_keeps_floor:
  assumes "floor_env G env"
  shows "op_all (role_step G) (ensure_oidc_grant_for_rule env uid pid rule scope)"
proof -
  have "tx_all (role_step G) (ensure_body env k uid pid rule scope)" for k
    unfolding ensure_body_def
    by (intro keeps_intros create_assignment_step create_grant_step)
      (use assms in \<open>simp add: floor_env_def new_assignment_def\<close>)
  then show ?thesis
    unfolding ensure_oidc_grant_for_rule_def
    using assms by (intro attempts_all [OF role.step_relation_axioms] keeps_intros)
      (simp_all add: floor_env_def)
qed

definition provider_grants :: "string \<Rightarrow> string \<Rightarrow> role_db \<Rightarrow> role_grant list" where
  "provider_grants pid uid db =
     filter (\<lambda>g. gr_user_id g = uid \<and> gr_provider_id g = pid) (rd_grants db)"

definition provider_rules :: "string \<Rightarrow> role_db \<Rightarrow> group_rule list" where
  "provider_rules pid db = filter (\<lambda>r. gm_provider_id r = pid) (rd_rules db)"

definition sync_rest ::
  "role_env \<Rightarrow> string \<Rightarrow> string \<Rightarrow> string list \<Rightarrow> group_rule list \<Rightarrow> role_grant list \<Rightarrow> nat role_op" where
  "sync_rest env pid uid groups rules grants =
     op_bind (op_fold (revoke_unmatched env pid uid groups rules) grants 0)
       (op_fold (grant_matched env pid uid groups) (sort_key (\<lambda>r. role_precedence (gm_role r)) rules))"

lemma apply_some:
  "apply_oidc_group_role_mappings env pid uid (Some groups) db =
     sync_rest env pid uid groups (provider_rules pid db) (provider_grants pid uid db) db"
  by (simp add: apply_oidc_group_role_mappings_def sync_rest_def op_bind_def op_read_def
      provider_grants_def provider_rules_def)

lemma sync_keeps_floor:
  assumes env: "floor_env G env" and grants: "set grants \<subseteq> G" "\<forall>g \<in> set grants. gr_user_id g = uid"
  shows "op_all (role_step G) (sync_rest env pid uid groups rules grants)"
proof -
  have revoke: "op_all (role_step G) (revoke_unmatched env pid uid groups rules g n)" if "g \<in> set grants" for g n
    unfolding revoke_unmatched_def
    by (intro keeps_intros revoke_keeps_floor env) (use that grants in auto)
  have report: "tx_all (role_step G) (tx_write (report_elevated rule scope))" for rule scope
    by (rule tx_all_write) (simp add: role_step_same report_elevated_def)
  have grant: "op_all (role_step G) (grant_matched env pid uid groups rule n)" for rule n
    unfolding grant_matched_def Let_def
    by (intro keeps_intros ensure_keeps_floor env report)
  show ?thesis
    unfolding sync_rest_def by (intro role.op_bind_all role.op_fold_all_in revoke grant)
qed

section \<open>One type of role\<close>

definition one_role_type :: "string \<Rightarrow> role_db \<Rightarrow> bool" where
  "one_role_type uid db \<longleftrightarrow> (\<forall>r \<in> set (rd_assignments db). \<forall>q \<in> set (rd_assignments db).
     ra_user_id r = uid \<and> ra_user_id q = uid \<longrightarrow> ra_role r = ra_role q)"

definition type_step :: "string \<Rightarrow> role_db \<Rightarrow> role_db \<Rightarrow> bool" where
  "type_step uid db db' \<longleftrightarrow> (one_role_type uid db \<longrightarrow> one_role_type uid db')"

interpretation type_rel: step_relation "type_step uid" for uid
  by unfold_locales (auto simp: type_step_def)

definition row_step :: "role_assignment \<Rightarrow> role_db \<Rightarrow> role_db \<Rightarrow> bool" where
  "row_step r db db' \<longleftrightarrow> (r \<in> set (rd_assignments db) \<longrightarrow> r \<in> set (rd_assignments db'))"

interpretation row_rel: step_relation "row_step r" for r
  by unfold_locales (auto simp: row_step_def)

text \<open>Both are relations that deleting or adding one assignment keeps; what the rest needs of them:\<close>

lemma sync_all:
  assumes R: "step_relation R"
    and others: "\<And>l k db. R db (re_others env l k db)" "\<And>l k db. R db (re_inner env l k db)"
    and log: "\<And>db db'. rd_assignments db' = rd_assignments db \<Longrightarrow> R db db'"
    and del: "\<And>g db. g \<in> set grants \<Longrightarrow> R db (delete_assignment (gr_role_assignment_id g) uid db)"
    and ensure: "\<And>k rule scope. tx_all R (ensure_body env k uid pid rule scope)"
  shows "op_all R (sync_rest env pid uid groups rules grants)"
proof -
  note intros = keeps_intros step_relation.all_return [OF R] step_relation.all_read [OF R]
    step_relation.all_bind [OF R] step_relation.op_return_all [OF R] step_relation.op_read_all [OF R]
    step_relation.op_bind_all [OF R] step_relation.op_catch_all [OF R] step_relation.op_run_all [OF R]
  have gap: "tx_all R (statement_gap env b l k)" for b l k
    by (auto simp: statement_gap_def intro!: intros tx_all_interfere others)
  have body: "tx_all R (revoke_body env b g uid pid)" if "g \<in> set grants" for b g
    unfolding revoke_body_def
    by (intro intros gap tx_all_write log del that) (simp add: log_superadmin_revoke_blocked_def)
  have revoke: "op_all R (revoke_unmatched env pid uid groups rules g n)" if "g \<in> set grants" for g n
    unfolding revoke_unmatched_def revoke_oidc_role_grant_def
    by (intro intros attempts_all [OF R] others body that)
  have grant: "op_all R (grant_matched env pid uid groups rule n)" for rule n
    unfolding grant_matched_def Let_def ensure_oidc_grant_for_rule_def
    by (intro intros attempts_all [OF R] others ensure tx_all_write log) (simp add: report_elevated_def)
  show ?thesis
    unfolding sync_rest_def
    by (intro step_relation.op_bind_all [OF R] step_relation.op_fold_all_in [OF R] revoke grant)
qed

text \<open>What a granting transaction can do: nothing, or add one assignment with its grant.\<close>

definition matched :: "string \<Rightarrow> string \<Rightarrow> group_rule \<Rightarrow> string option \<Rightarrow> role_db \<Rightarrow> bool" where
  "matched uid pid rule scope db \<longleftrightarrow>
     (\<exists>g \<in> set (rd_grants db). grant_where uid pid rule scope g) \<or>
     (\<exists>r \<in> set (rd_assignments db). assignment_where uid rule scope r) \<or>
     (\<exists>r \<in> set (rd_assignments db). ra_user_id r = uid \<and> ra_role r \<noteq> gm_role rule)"

definition with_grant ::
  "role_env \<Rightarrow> nat \<Rightarrow> string \<Rightarrow> string \<Rightarrow> group_rule \<Rightarrow> string option \<Rightarrow> role_db \<Rightarrow> role_db" where
  "with_grant env k uid pid rule scope db =
     db\<lparr>rd_assignments := rd_assignments db @ [new_assignment env k uid rule scope],
        rd_grants := rd_grants db @ [new_grant env k uid pid rule scope]\<rparr>"

lemma ensure_body_matched:
  assumes "matched uid pid rule scope s"
  shows "ensure_body env k uid pid rule scope s = Inr (False, s)"
proof -
  have "List.find (grant_where uid pid rule scope) (rd_grants s) \<noteq> None \<or>
    List.find (assignment_where uid rule scope) (rd_assignments s) \<noteq> None \<or>
    List.find (\<lambda>q. ra_user_id q = uid \<and> ra_role q \<noteq> gm_role rule) (rd_assignments s) \<noteq> None"
    using assms unfolding matched_def find_None by blast
  then show ?thesis by (auto simp: ensure_body_def tx_simps)
qed

lemma ensure_body_unmatched:
  assumes "\<not> matched uid pid rule scope s" "ensure_body env k uid pid rule scope s = Inr (b, t)"
  shows "b \<and> t = with_grant env k uid pid rule scope s \<and>
    re_fresh_assignment env (gm_id rule) k \<notin> ra_id ` set (rd_assignments s)"
proof -
  have "List.find (grant_where uid pid rule scope) (rd_grants s) = None"
    "List.find (assignment_where uid rule scope) (rd_assignments s) = None"
    "List.find (\<lambda>q. ra_user_id q = uid \<and> ra_role q \<noteq> gm_role rule) (rd_assignments s) = None"
    using assms(1) unfolding matched_def find_None by blast+
  with assms(2) have run: "tx_bind (create_assignment (new_assignment env k uid rule scope)) (\<lambda>_.
      tx_bind (create_grant (new_grant env k uid pid rule scope)) (\<lambda>_. tx_return True)) s = Inr (b, t)"
    by (simp add: ensure_body_def tx_read_def tx_bind_def)
  then obtain s' u where c: "create_assignment (new_assignment env k uid rule scope) s = Inr (u, s')"
    and g: "tx_bind (create_grant (new_grant env k uid pid rule scope)) (\<lambda>_. tx_return True) s' = Inr (b, t)"
    by (rule tx_bindE)
  from g obtain u' s'' where g': "create_grant (new_grant env k uid pid rule scope) s' = Inr (u', s'')"
    and r: "tx_return True s'' = (Inr (b, t) :: role_error + _)"
    by (rule tx_bindE)
  from c have "s' = s\<lparr>rd_assignments := rd_assignments s @ [new_assignment env k uid rule scope]\<rparr>"
    "re_fresh_assignment env (gm_id rule) k \<notin> ra_id ` set (rd_assignments s)"
    by (auto simp: create_assignment_def new_assignment_def split: if_splits)
  moreover from g' have "s'' = s'\<lparr>rd_grants := rd_grants s' @ [new_grant env k uid pid rule scope]\<rparr>"
    by (auto simp: create_grant_def split: if_splits)
  moreover from r have "b" "t = s''" by (simp_all add: tx_return_def)
  ultimately show ?thesis by (simp add: with_grant_def)
qed

lemma ensure_type_step: "tx_all (type_step uid) (ensure_body env k uid pid rule scope)"
proof (rule tx_allI)
  fix s b t assume run: "ensure_body env k uid pid rule scope s = Inr (b, t)"
  show "type_step uid s t"
  proof (cases "matched uid pid rule scope s")
    case True
    with run show ?thesis by (simp add: ensure_body_matched type_rel.rel_refl)
  next
    case False
    then have "\<forall>r \<in> set (rd_assignments s). ra_user_id r = uid \<longrightarrow> ra_role r = gm_role rule"
      by (auto simp: matched_def)
    then show ?thesis
      using ensure_body_unmatched [OF False run]
      by (auto simp: type_step_def one_role_type_def with_grant_def new_assignment_def)
  qed
qed

lemma ensure_row_step: "tx_all (row_step r) (ensure_body env k uid pid rule scope)"
proof (rule tx_allI)
  fix s b t assume run: "ensure_body env k uid pid rule scope s = Inr (b, t)"
  show "row_step r s t"
  proof (cases "matched uid pid rule scope s")
    case True
    with run show ?thesis by (simp add: ensure_body_matched row_rel.rel_refl)
  next
    case False
    then show ?thesis
      using ensure_body_unmatched [OF False run] by (auto simp: row_step_def with_grant_def)
  qed
qed

end
