(* ===== verification/Oidc_Sync.thy ===== *)
theory Oidc_Sync
  imports Oidc_Props
begin

text \<open>
  The synchronisation when nothing runs beside it: what it leaves, and that doing it again with the
  same groups changes nothing.
\<close>

section \<open>Nothing beside it\<close>

definition quiet_roles :: "role_env \<Rightarrow> bool" where
  "quiet_roles env \<longleftrightarrow> (\<forall>l k. \<not> re_conflict env l k) \<and> (\<forall>l k db. re_others env l k db = db) \<and>
     (\<forall>l k db. re_inner env l k db = db)"

lemma quiet_attempts:
  "quiet_roles env \<Longrightarrow> serial_attempts env l body 0 serialization_retry_attempts = body 0"
  by (simp add: serialization_retry_attempts_def eval_nat_numeral quiet_roles_def tx_simps fun_eq_iff)

definition blocked :: "role_grant \<Rightarrow> string \<Rightarrow> role_db \<Rightarrow> bool" where
  "blocked g uid db \<longleftrightarrow> is_instance_superadmin_grant g \<and> removes_active_instance_superadmin g uid db \<and>
     count_active_instance_superadmins db \<le> 1"

lemma quiet_gap: "quiet_roles env \<Longrightarrow> statement_gap env b l k = tx_return ()"
  by (auto simp: statement_gap_def quiet_roles_def interfere_def tx_return_def fun_eq_iff)

lemma quiet_revoke:
  assumes "quiet_roles env"
  shows "revoke_oidc_role_grant env g uid pid db =
    (if blocked g uid db then (Inr False, log_superadmin_revoke_blocked pid uid db)
     else (Inr True, delete_assignment (gr_role_assignment_id g) uid db))"
  using assms
  by (simp add: revoke_oidc_role_grant_def quiet_attempts revoke_body_def quiet_gap tx_simps blocked_def)

lemma quiet_ensure:
  "quiet_roles env \<Longrightarrow> ensure_oidc_grant_for_rule env uid pid rule scope db =
     op_catch (run_tx (ensure_body env 0 uid pid rule scope)) lost_race db"
  by (simp add: ensure_oidc_grant_for_rule_def quiet_attempts)

text \<open>What the tables' keys give: every grant references an assignment with its own key.\<close>

definition grant_key :: "role_grant \<Rightarrow> string \<times> string \<times> string \<times> string \<times> string option" where
  "grant_key g = (gr_user_id g, gr_provider_id g, gr_role g, gr_scope_type g, gr_scope_id g)"

definition wf_roles :: "role_db \<Rightarrow> bool" where
  "wf_roles db \<longleftrightarrow> distinct (map ra_id (rd_assignments db)) \<and>
     distinct (map grant_key (rd_grants db)) \<and> linked (set (rd_grants db)) db \<and>
     (\<forall>g \<in> set (rd_grants db). \<exists>r \<in> set (rd_assignments db). ra_id r = gr_role_assignment_id g)"

lemma wf_delete:
  assumes "wf_roles db"
  shows "wf_roles (delete_assignment i uid db)"
proof -
  have "\<exists>r \<in> set (rd_assignments db). \<not> (ra_id r = i \<and> ra_user_id r = uid) \<and> ra_id r = gr_role_assignment_id g"
    if g: "g \<in> set (rd_grants (delete_assignment i uid db))" for g
  proof -
    from g have g': "g \<in> set (rd_grants db)"
      and kept: "\<forall>r \<in> set (rd_assignments db). ra_id r = i \<and> ra_user_id r = uid \<longrightarrow>
        ra_id r \<noteq> gr_role_assignment_id g"
      by (auto simp: delete_assignment_def Let_def)
    from assms g' obtain r where "r \<in> set (rd_assignments db)" "ra_id r = gr_role_assignment_id g"
      by (auto simp: wf_roles_def)
    with kept show ?thesis by blast
  qed
  moreover have "set (rd_grants (delete_assignment i uid db)) \<subseteq> set (rd_grants db)"
    by (auto simp: delete_assignment_def Let_def)
  moreover have "distinct (map grant_key (rd_grants (delete_assignment i uid db)))"
    using assms by (simp add: wf_roles_def delete_assignment_def Let_def distinct_map_filter)
  ultimately show ?thesis
    using assms by (fastforce simp: wf_roles_def linked_def delete_assignment_rows distinct_map_filter)
qed

lemma wf_with_grant:
  assumes "wf_roles db" "re_fresh_assignment env (gm_id rule) k \<notin> ra_id ` set (rd_assignments db)"
    and free: "\<not> matched uid pid rule scope db"
  shows "wf_roles (with_grant env k uid pid rule scope db)"
proof -
  have old: "re_fresh_assignment env (gm_id rule) k \<noteq> gr_role_assignment_id g"
    if "g \<in> set (rd_grants db)" for g
    using assms that by (auto simp: wf_roles_def) (metis imageI)
  have new: "ra_id r \<noteq> re_fresh_assignment env (gm_id rule) k" if "r \<in> set (rd_assignments db)" for r
    using assms(2) that by (metis imageI)
  have "grant_key (new_grant env k uid pid rule scope) \<notin> grant_key ` set (rd_grants db)"
    using free by (auto simp: matched_def grant_key_def new_grant_def grant_where_def)
  then show ?thesis
    using assms(1,2) old new
    by (auto simp: wf_roles_def linked_def with_grant_def new_grant_def new_assignment_def)
qed

text \<open>The grants of the person that stay are authorized or are the last active superadmin's.\<close>

definition settled_grants ::
  "string \<Rightarrow> string \<Rightarrow> string list \<Rightarrow> group_rule list \<Rightarrow> role_db \<Rightarrow> bool" where
  "settled_grants pid uid groups rules db \<longleftrightarrow> (\<forall>g \<in> set (provider_grants pid uid db).
     rule_still_authorizes_grant g rules groups \<or> blocked g uid db)"

lemma delete_keeps_blocked:
  assumes wf: "wf_roles db" and g: "g \<in> set (rd_grants db)" "blocked g uid db"
    and h: "h \<in> set (rd_grants db)" "\<not> blocked h uid db"
  shows "blocked g uid (delete_assignment (gr_role_assignment_id h) uid db) \<and>
    g \<in> set (rd_grants (delete_assignment (gr_role_assignment_id h) uid db))"
proof -
  have other: "gr_role_assignment_id g \<noteq> gr_role_assignment_id h"
  proof
    assume same: "gr_role_assignment_id g = gr_role_assignment_id h"
    from wf g obtain r where r: "r \<in> set (rd_assignments db)" "ra_id r = gr_role_assignment_id g"
      by (auto simp: wf_roles_def)
    with wf g h same have "gr_role h = gr_role g" "gr_scope_type h = gr_scope_type g"
      "gr_scope_id h = gr_scope_id g"
      unfolding wf_roles_def linked_def by (metis (no_types))+
    with g(2) same have "blocked h uid db"
      by (simp add: blocked_def is_instance_superadmin_grant_def removes_active_instance_superadmin_def)
    with h(2) show False by blast
  qed
  then have "removes_active_instance_superadmin g uid (delete_assignment (gr_role_assignment_id h) uid db)"
    using g(2) by (auto simp: blocked_def removes_active_instance_superadmin_def count_where_def
        delete_assignment_rows filter_empty_conv)
  moreover have "count_active_instance_superadmins (delete_assignment (gr_role_assignment_id h) uid db)
      \<le> count_active_instance_superadmins db"
    using superadmin_count_split [of db "gr_role_assignment_id h" uid] by linarith
  moreover have "g \<in> set (rd_grants (delete_assignment (gr_role_assignment_id h) uid db))"
    using g(1) other by (auto simp: delete_assignment_def Let_def)
  ultimately show ?thesis using g(2) by (simp add: blocked_def)
qed

lemma delete_removes:
  assumes wf: "wf_roles db" and g: "g \<in> set (provider_grants pid uid db)"
  shows "g \<notin> set (provider_grants pid uid (delete_assignment (gr_role_assignment_id g) uid db))"
proof -
  from g have in_db: "g \<in> set (rd_grants db)" "gr_user_id g = uid" by (simp_all add: provider_grants_def)
  with wf obtain r where "r \<in> set (rd_assignments db)" "ra_id r = gr_role_assignment_id g" "ra_user_id r = uid"
    by (auto simp: wf_roles_def linked_def)
  then show ?thesis by (auto simp: provider_grants_def delete_assignment_def Let_def)
qed

lemma delete_spares:
  assumes wf: "wf_roles db" and g: "g \<in> set (provider_grants pid uid db)"
    and h: "h \<in> set (provider_grants pid uid db)" "grant_key h \<noteq> grant_key g"
  shows "h \<in> set (provider_grants pid uid (delete_assignment (gr_role_assignment_id g) uid db))"
proof -
  have "gr_role_assignment_id h \<noteq> gr_role_assignment_id g"
  proof
    assume same: "gr_role_assignment_id h = gr_role_assignment_id g"
    from wf g obtain r where "r \<in> set (rd_assignments db)" "ra_id r = gr_role_assignment_id g"
      by (auto simp: wf_roles_def provider_grants_def)
    with wf g h(1) same have "gr_role h = gr_role g" "gr_scope_type h = gr_scope_type g"
      "gr_scope_id h = gr_scope_id g" "gr_user_id h = gr_user_id g"
      unfolding wf_roles_def linked_def provider_grants_def set_filter by (metis (no_types, lifting) mem_Collect_eq)+
    with g h show False by (simp add: grant_key_def provider_grants_def)
  qed
  with h(1) show ?thesis by (auto simp: provider_grants_def delete_assignment_def Let_def)
qed

lemma log_same [simp]:
  "wf_roles (log_superadmin_revoke_blocked pid uid db) = wf_roles db"
  "provider_grants pid uid (log_superadmin_revoke_blocked pid uid db) = provider_grants pid uid db"
  "blocked g uid (log_superadmin_revoke_blocked pid uid db) = blocked g uid db"
  "rd_rules (log_superadmin_revoke_blocked pid uid db) = rd_rules db"
  by (simp_all add: log_superadmin_revoke_blocked_def wf_roles_def linked_def provider_grants_def
      blocked_def removes_active_instance_superadmin_def is_active_account_def
      count_active_instance_superadmins_def)

lemma revoke_phase:
  assumes quiet: "quiet_roles env"
  shows "\<lbrakk>wf_roles db; set gs \<subseteq> set (provider_grants pid uid db); distinct (map grant_key gs)\<rbrakk> \<Longrightarrow>
    \<exists>n' db'. op_fold (revoke_unmatched env pid uid groups rules) gs n db = (Inr n', db') \<and>
      wf_roles db' \<and> rd_rules db' = rd_rules db \<and>
      set (provider_grants pid uid db') \<subseteq> set (provider_grants pid uid db) \<and>
      set (rd_assignments db') \<subseteq> set (rd_assignments db) \<and> set (rd_grants db') \<subseteq> set (rd_grants db) \<and>
      (\<forall>g \<in> set gs. rule_still_authorizes_grant g rules groups \<or>
        g \<notin> set (provider_grants pid uid db') \<or> blocked g uid db') \<and>
      (\<forall>g \<in> set (provider_grants pid uid db). blocked g uid db \<longrightarrow>
        g \<in> set (provider_grants pid uid db') \<and> blocked g uid db')"
    (is "_ \<Longrightarrow> _ \<Longrightarrow> _ \<Longrightarrow> \<exists>n' db'. ?P gs n db n' db'")
proof (induction gs arbitrary: n db)
  case Nil
  then show ?case by (simp add: op_return_def)
next
  case (Cons g gs)
  have g: "g \<in> set (provider_grants pid uid db)" using Cons.prems by simp
  then have user: "g \<in> set (rd_grants db)" by (simp add: provider_grants_def)
  consider "rule_still_authorizes_grant g rules groups"
    | "\<not> rule_still_authorizes_grant g rules groups" "blocked g uid db"
    | "\<not> rule_still_authorizes_grant g rules groups" "\<not> blocked g uid db"
    by blast
  then show ?case
  proof cases
    case 1
    from Cons.IH [of db n] Cons.prems obtain n' db' where IH: "?P gs n db n' db'" by auto
    have "?P (g # gs) n db n' db'"
      using IH 1 by (simp add: revoke_unmatched_def op_bind_def op_return_def)
    then show ?thesis by blast
  next
    case 2
    let ?db = "log_superadmin_revoke_blocked pid uid db"
    from Cons.IH [of ?db n] Cons.prems obtain n' db' where IH: "?P gs n ?db n' db'" by auto
    have rows: "rd_assignments ?db = rd_assignments db" "rd_grants ?db = rd_grants db"
      by (simp_all add: log_superadmin_revoke_blocked_def)
    have "?P (g # gs) n db n' db'"
      using IH 2 g
      by (simp add: revoke_unmatched_def op_bind_def op_return_def quiet_revoke [OF quiet] rows)
    then show ?thesis by blast
  next
    case 3
    let ?db = "delete_assignment (gr_role_assignment_id g) uid db"
    have "h \<in> set (provider_grants pid uid ?db)" if "h \<in> set gs" for h
      using that Cons.prems by (intro delete_spares [OF _ g]) (auto, metis imageI)
    then have sub: "set gs \<subseteq> set (provider_grants pid uid ?db)" by blast
    have dist: "distinct (map grant_key gs)" using Cons.prems(3) by simp
    obtain n' db' where IH: "?P gs (n + 1) ?db n' db'"
      using Cons.IH [OF wf_delete [OF Cons.prems(1)] sub dist, of "n + 1"] by blast
    have rules: "rd_rules ?db = rd_rules db" by (simp add: delete_assignment_def Let_def)
    have fewer: "set (provider_grants pid uid ?db) \<subseteq> set (provider_grants pid uid db)"
      "set (rd_assignments ?db) \<subseteq> set (rd_assignments db)" "set (rd_grants ?db) \<subseteq> set (rd_grants db)"
      by (auto simp: provider_grants_def delete_assignment_def Let_def)
    have gone: "g \<notin> set (provider_grants pid uid db')"
      using delete_removes [OF Cons.prems(1) g] IH by blast
    have still: "h \<in> set (provider_grants pid uid ?db) \<and> blocked h uid ?db"
      if "h \<in> set (provider_grants pid uid db)" "blocked h uid db" for h
      using delete_keeps_blocked [OF Cons.prems(1) _ that(2) user 3(2)] that(1)
      by (simp add: provider_grants_def)
    have run: "op_fold (revoke_unmatched env pid uid groups rules) (g # gs) n db =
        op_fold (revoke_unmatched env pid uid groups rules) gs (n + 1) ?db"
      using 3 by (simp add: revoke_unmatched_def op_bind_def op_return_def quiet_revoke [OF quiet])
    have "?P (g # gs) n db n' db'"
      unfolding run using IH gone still fewer rules by (auto 0 3)
    then show ?thesis by blast
  qed
qed

definition rule_scope :: "group_rule \<Rightarrow> string option" where
  "rule_scope rule = role_assignment_scope_id (gm_scope_type rule) (Some (gm_scope_id rule))"

definition fresh_ids :: "role_env \<Rightarrow> group_rule list \<Rightarrow> role_db \<Rightarrow> bool" where
  "fresh_ids env rs db \<longleftrightarrow> distinct (map (\<lambda>r. re_fresh_assignment env (gm_id r) 0) rs) \<and>
     distinct (map (\<lambda>r. re_fresh_grant env (gm_id r) 0) rs) \<and>
     (\<forall>r \<in> set rs. re_fresh_assignment env (gm_id r) 0 \<notin> ra_id ` set (rd_assignments db) \<and>
        re_fresh_grant env (gm_id r) 0 \<notin> gr_id ` set (rd_grants db))"

lemma create_assignment_not_unique:
  assumes "\<not> matched uid pid rule scope s"
    "re_fresh_assignment env (gm_id rule) k \<notin> ra_id ` set (rd_assignments s)"
  shows "create_assignment (new_assignment env k uid rule scope) s \<noteq> Inl Ro_unique"
  using assms by (auto simp: create_assignment_def new_assignment_def matched_def assignment_where_def)

lemma ensure_not_lost:
  assumes free: "\<not> matched uid pid rule scope s"
    and fresh: "re_fresh_assignment env (gm_id rule) k \<notin> ra_id ` set (rd_assignments s)"
      "re_fresh_grant env (gm_id rule) k \<notin> gr_id ` set (rd_grants s)"
  shows "ensure_body env k uid pid rule scope s \<noteq> Inl Ro_unique"
proof -
  have none: "List.find (grant_where uid pid rule scope) (rd_grants s) = None"
    "List.find (assignment_where uid rule scope) (rd_assignments s) = None"
    "List.find (\<lambda>q. ra_user_id q = uid \<and> ra_role q \<noteq> gm_role rule) (rd_assignments s) = None"
    using free unfolding matched_def find_None by blast+
  let ?s = "s\<lparr>rd_assignments := rd_assignments s @ [new_assignment env k uid rule scope]\<rparr>"
  have "create_grant (new_grant env k uid pid rule scope) ?s \<noteq> Inl Ro_unique"
    using free fresh(2)
    by (auto simp: create_grant_def new_grant_def matched_def grant_where_def)
  with create_assignment_not_unique [OF free fresh(1)] none show ?thesis
    by (auto simp: ensure_body_def tx_read_def tx_bind_def tx_return_def create_assignment_def
        split: if_splits sum.splits)
qed

lemma with_grant_keeps_matched:
  "matched uid' pid' rule' scope' db \<Longrightarrow> matched uid' pid' rule' scope' (with_grant env k uid pid rule scope db)"
  by (auto simp: matched_def with_grant_def)

lemma with_grant_matched: "matched uid pid rule scope (with_grant env k uid pid rule scope db)"
  by (auto simp: matched_def with_grant_def new_assignment_def assignment_where_def)

lemma with_grant_keeps_blocked:
  assumes wf: "wf_roles db" and g: "g \<in> set (provider_grants pid uid db)" "blocked g uid db"
    and free: "\<not> matched uid pid rule scope db"
  shows "blocked g uid (with_grant env k uid pid rule scope db)"
proof -
  let ?r = "new_assignment env k uid rule scope"
  from wf g(1) obtain r where r: "r \<in> set (rd_assignments db)" "ra_id r = gr_role_assignment_id g"
    by (auto simp: wf_roles_def provider_grants_def)
  with wf g have key: "ra_user_id r = uid" "is_instance_superadmin r"
    by (auto simp: wf_roles_def linked_def provider_grants_def blocked_def
        is_instance_superadmin_grant_def is_instance_superadmin_def)
  have "\<not> is_instance_superadmin ?r"
  proof
    assume "is_instance_superadmin ?r"
    with key have "assignment_where uid rule scope r"
      by (simp add: is_instance_superadmin_def assignment_where_def new_assignment_def)
    with r(1) free show False by (auto simp: matched_def)
  qed
  with g(2) show ?thesis
    by (auto simp: blocked_def with_grant_def removes_active_instance_superadmin_def count_where_def
        count_active_instance_superadmins_def is_active_account_def)
qed

lemma grant_phase:
  assumes quiet: "quiet_roles env"
  shows "\<lbrakk>wf_roles db; fresh_ids env rs db;
      op_fold (grant_matched env pid uid groups) rs n db = (Inr n', db')\<rbrakk> \<Longrightarrow>
    wf_roles db' \<and> rd_rules db' = rd_rules db \<and>
    (\<forall>g \<in> set (provider_grants pid uid db'). g \<in> set (provider_grants pid uid db) \<or>
      rule_still_authorizes_grant g rs groups) \<and>
    (\<forall>g \<in> set (provider_grants pid uid db). blocked g uid db \<longrightarrow> blocked g uid db') \<and>
    (\<forall>rule \<in> set rs. gm_group rule \<in> set groups \<longrightarrow> matched uid pid rule (rule_scope rule) db') \<and>
    (\<forall>rule sc. matched uid pid rule sc db \<longrightarrow> matched uid pid rule sc db')"
    (is "_ \<Longrightarrow> _ \<Longrightarrow> _ \<Longrightarrow> ?P rs db db'")
proof (induction rs arbitrary: n db)
  case Nil
  then show ?case by (simp add: op_return_def)
next
  case (Cons rule rs)
  have fresh: "re_fresh_assignment env (gm_id rule) 0 \<notin> ra_id ` set (rd_assignments db)"
    "re_fresh_grant env (gm_id rule) 0 \<notin> gr_id ` set (rd_grants db)" "fresh_ids env rs db"
    using Cons.prems(2) by (simp_all add: fresh_ids_def)
  have wider: "rule_still_authorizes_grant g (rule # rs) groups" if "rule_still_authorizes_grant g rs groups" for g
    using that by (simp add: rule_still_authorizes_grant_def)
  consider "gm_group rule \<notin> set groups"
    | "gm_group rule \<in> set groups" "matched uid pid rule (rule_scope rule) db"
    | "gm_group rule \<in> set groups" "\<not> matched uid pid rule (rule_scope rule) db" by blast
  then show ?case
  proof cases
    case 1
    then have "grant_matched env pid uid groups rule n db = (Inr n, db)"
      by (simp add: grant_matched_def op_return_def)
    with Cons.prems(3) have "op_fold (grant_matched env pid uid groups) rs n db = (Inr n', db')"
      by (simp add: op_bind_def)
    from Cons.IH [OF Cons.prems(1) fresh(3) this] 1 wider show ?thesis by auto
  next
    case 2
    then have "grant_matched env pid uid groups rule n db = (Inr n, db)"
      by (simp add: grant_matched_def op_bind_def op_return_def quiet_ensure [OF quiet] Let_def
          rule_scope_def [symmetric] ensure_body_matched run_tx_def op_catch_def)
    with Cons.prems(3) have "op_fold (grant_matched env pid uid groups) rs n db = (Inr n', db')"
      by (simp add: op_bind_def)
    from Cons.IH [OF Cons.prems(1) fresh(3) this] 2 wider show ?thesis by auto
  next
    case 3
    let ?e = "ensure_body env 0 uid pid rule (rule_scope rule) db"
    obtain b t where run: "?e = Inr (b, t)"
    proof (cases ?e)
      case (Inl e)
      with ensure_not_lost [OF 3(2) fresh(1,2)] have "e \<noteq> Ro_unique" by blast
      with Inl 3(1) have "grant_matched env pid uid groups rule n db = (Inl e, db)"
        by (simp add: grant_matched_def op_bind_def quiet_ensure [OF quiet] Let_def rule_scope_def [symmetric]
            run_tx_def op_catch_def lost_race_def)
      with Cons.prems(3) show ?thesis by (simp add: op_bind_def)
    qed (use that in auto)
    with ensure_body_unmatched [OF 3(2) run] have b: "b" "t = with_grant env 0 uid pid rule (rule_scope rule) db"
      by blast+
    let ?t = "report_elevated rule (rule_scope rule) t"
    have "grant_matched env pid uid groups rule n db = (Inr (n + 1), ?t)"
      using 3(1) run b(1)
      by (simp add: grant_matched_def op_bind_def quiet_ensure [OF quiet] Let_def rule_scope_def [symmetric]
          run_tx_def op_catch_def op_return_def tx_write_def)
    with Cons.prems(3) have rest: "op_fold (grant_matched env pid uid groups) rs (n + 1) ?t = (Inr n', db')"
      by (simp add: op_bind_def)
    have same: "rd_assignments ?t = rd_assignments t" "rd_grants ?t = rd_grants t"
      "rd_rules ?t = rd_rules t" "rd_accounts ?t = rd_accounts t"
      by (simp_all add: report_elevated_def)
    have views: "wf_roles ?t = wf_roles t" "provider_grants pid uid ?t = provider_grants pid uid t"
      "blocked g uid ?t = blocked g uid t" "matched uid pid r sc ?t = matched uid pid r sc t" for g r sc
      by (simp_all add: wf_roles_def linked_def provider_grants_def blocked_def matched_def same
          removes_active_instance_superadmin_def is_active_account_def count_active_instance_superadmins_def)
    have wf: "wf_roles ?t"
      using wf_with_grant [OF Cons.prems(1) fresh(1) 3(2)] unfolding views(1) b(2) [symmetric] .
    have rows: "rd_assignments ?t = rd_assignments db @ [new_assignment env 0 uid rule (rule_scope rule)]"
      "rd_grants ?t = rd_grants db @ [new_grant env 0 uid pid rule (rule_scope rule)]"
      by (simp_all add: report_elevated_def b(2) with_grant_def)
    have fresh': "fresh_ids env rs ?t"
      using Cons.prems(2)
      by (auto simp: fresh_ids_def rows new_assignment_def new_grant_def image_iff)
    have auth: "rule_still_authorizes_grant (new_grant env 0 uid pid rule (rule_scope rule)) (rule # rs) groups"
      using 3(1) by (simp add: new_grant_def rule_still_authorizes_grant_def rule_scope_def)
    have new: "g \<in> set (provider_grants pid uid db) \<or> rule_still_authorizes_grant g (rule # rs) groups"
      if "g \<in> set (provider_grants pid uid ?t)" for g
      using that auth by (auto simp: provider_grants_def rows split: if_splits)
    have old: "set (provider_grants pid uid db) \<subseteq> set (provider_grants pid uid ?t)"
      by (auto simp: provider_grants_def rows)
    have kept: "blocked g uid ?t" if "g \<in> set (provider_grants pid uid db)" "blocked g uid db" for g
      using with_grant_keeps_blocked [OF Cons.prems(1) that 3(2), of env 0] unfolding views(3) b(2) [symmetric] .
    have now: "matched uid pid rule (rule_scope rule) ?t"
      "\<And>r sc. matched uid pid r sc db \<Longrightarrow> matched uid pid r sc ?t"
      using with_grant_matched [of uid pid rule "rule_scope rule" env 0 db]
        with_grant_keeps_matched [of uid pid _ _ db env 0 uid pid rule "rule_scope rule"]
      unfolding views(4) b(2) [symmetric] by blast+
    have rules: "rd_rules ?t = rd_rules db" by (simp add: report_elevated_def b(2) with_grant_def)
    from Cons.IH [OF wf fresh' rest] have IH: "?P rs ?t db'" .
    show ?thesis
    proof (intro conjI)
      show "wf_roles db'" "rd_rules db' = rd_rules db" using IH rules by simp_all
      show "\<forall>g \<in> set (provider_grants pid uid db'). g \<in> set (provider_grants pid uid db) \<or>
          rule_still_authorizes_grant g (rule # rs) groups"
        using IH new wider by blast
      show "\<forall>g \<in> set (provider_grants pid uid db). blocked g uid db \<longrightarrow> blocked g uid db'"
        using IH old kept by blast
      show "\<forall>r \<in> set (rule # rs). gm_group r \<in> set groups \<longrightarrow> matched uid pid r (rule_scope r) db'"
        using IH now(1) by (auto simp del: set_filter)
      show "\<forall>r sc. matched uid pid r sc db \<longrightarrow> matched uid pid r sc db'"
        using IH now(2) by blast
    qed
  qed
qed

lemma settled_revoke:
  assumes quiet: "quiet_roles env"
  shows "\<lbrakk>\<forall>g \<in> set gs. rule_still_authorizes_grant g rules groups \<or> blocked g uid db\<rbrakk> \<Longrightarrow>
    \<exists>log. op_fold (revoke_unmatched env pid uid groups rules) gs n db = (Inr n, db\<lparr>rd_security_log := log\<rparr>)"
proof (induction gs arbitrary: db)
  case Nil
  have "db\<lparr>rd_security_log := rd_security_log db\<rparr> = db" by simp
  then show ?case by (metis op_fold.simps(1) op_return_def)
next
  case (Cons g gs)
  show ?case
  proof (cases "rule_still_authorizes_grant g rules groups")
    case True
    then have "revoke_unmatched env pid uid groups rules g n db = (Inr n, db)"
      by (simp add: revoke_unmatched_def op_return_def)
    with Cons show ?thesis by (simp add: op_bind_def)
  next
    case False
    let ?db = "log_superadmin_revoke_blocked pid uid db"
    from False Cons.prems have "revoke_unmatched env pid uid groups rules g n db = (Inr n, ?db)"
      by (simp add: revoke_unmatched_def op_bind_def op_return_def quiet_revoke [OF quiet])
    moreover obtain log where "op_fold (revoke_unmatched env pid uid groups rules) gs n ?db =
        (Inr n, ?db\<lparr>rd_security_log := log\<rparr>)"
      using Cons.IH [of ?db] Cons.prems by auto
    ultimately show ?thesis by (auto simp: op_bind_def log_superadmin_revoke_blocked_def)
  qed
qed

lemma settled_grant:
  assumes quiet: "quiet_roles env"
    and matched: "\<forall>rule \<in> set rs. gm_group rule \<in> set groups \<longrightarrow> matched uid pid rule (rule_scope rule) db"
  shows "op_fold (grant_matched env pid uid groups) rs n db = (Inr n, db)"
  using matched
proof (induction rs)
  case (Cons rule rs)
  then have "grant_matched env pid uid groups rule n db = (Inr n, db)"
    by (cases "gm_group rule \<in> set groups")
      (simp_all add: grant_matched_def op_bind_def op_return_def quiet_ensure [OF quiet] Let_def
        rule_scope_def [symmetric] ensure_body_matched run_tx_def op_catch_def)
  with Cons show ?case by (simp add: op_bind_def)
qed (simp add: op_return_def)

section \<open>A first and a second synchronisation\<close>

lemma first_sync:
  assumes quiet: "quiet_roles env" and wf: "wf_roles db"
    and fresh: "fresh_ids env (provider_rules pid db) db"
    and run: "apply_oidc_group_role_mappings env pid uid (Some groups) db = (Inr n, db')"
  shows "rd_rules db' = rd_rules db" "settled_grants pid uid groups (provider_rules pid db) db'"
    "\<forall>rule \<in> set (provider_rules pid db). gm_group rule \<in> set groups \<longrightarrow>
       matched uid pid rule (rule_scope rule) db'"
proof -
  let ?rules = "provider_rules pid db"
  let ?sorted = "sort_key (\<lambda>r. role_precedence (gm_role r)) ?rules"
  have keys: "distinct (map grant_key (provider_grants pid uid db))"
    using wf by (simp add: wf_roles_def provider_grants_def distinct_map_filter)
  from revoke_phase [OF quiet wf subset_refl keys, of groups ?rules 0]
  obtain m db1 where r: "op_fold (revoke_unmatched env pid uid groups ?rules) (provider_grants pid uid db) 0 db = (Inr m, db1)"
    and wf1: "wf_roles db1" "rd_rules db1 = rd_rules db"
    and sub: "set (provider_grants pid uid db1) \<subseteq> set (provider_grants pid uid db)"
      "set (rd_assignments db1) \<subseteq> set (rd_assignments db)" "set (rd_grants db1) \<subseteq> set (rd_grants db)"
    and done1: "\<forall>g \<in> set (provider_grants pid uid db). rule_still_authorizes_grant g ?rules groups \<or>
      g \<notin> set (provider_grants pid uid db1) \<or> blocked g uid db1"
    by blast
  have grants: "op_fold (grant_matched env pid uid groups) ?sorted m db1 = (Inr n, db')"
    using run r by (simp add: apply_some sync_rest_def op_bind_def)
  have "distinct (map f ?sorted) = distinct (map f ?rules)" for f :: "group_rule \<Rightarrow> string"
    by (metis distinct_map distinct_sort set_sort)
  with fresh sub(2,3) have fresh1: "fresh_ids env ?sorted db1"
    unfolding fresh_ids_def by (auto simp: image_iff)
  note G = grant_phase [OF quiet wf1(1) fresh1 grants]
  have same: "rule_still_authorizes_grant g ?sorted groups = rule_still_authorizes_grant g ?rules groups" for g
    by (simp add: rule_still_authorizes_grant_def)
  show "rd_rules db' = rd_rules db" using G wf1(2) by simp
  show "settled_grants pid uid groups ?rules db'"
    using G done1 sub(1) unfolding settled_grants_def same by blast
  show "\<forall>rule \<in> set ?rules. gm_group rule \<in> set groups \<longrightarrow> matched uid pid rule (rule_scope rule) db'"
    using G by simp
qed

section \<open>A small provider\<close>

definition sample_roles :: role_db where
  "sample_roles =
     \<lparr>rd_assignments =
        [\<lparr>ra_id = ''r1'', ra_user_id = ''u1'', ra_role = ''superadmin'', ra_scope_type = ''instance'', ra_scope_id = None\<rparr>,
         \<lparr>ra_id = ''r2'', ra_user_id = ''u2'', ra_role = ''operator'', ra_scope_type = ''event'', ra_scope_id = Some ''e9''\<rparr>],
      rd_grants =
        [\<lparr>gr_id = ''g1'', gr_user_id = ''u1'', gr_provider_id = ''p'', gr_role = ''superadmin'',
          gr_scope_type = ''instance'', gr_scope_id = None, gr_role_assignment_id = ''r1''\<rparr>],
      rd_rules =
        [\<lparr>gm_id = ''m1'', gm_provider_id = ''p'', gm_group = ''staff'', gm_role = ''operator'',
          gm_scope_type = ''event'', gm_scope_id = ''e1''\<rparr>],
      rd_accounts = [\<lparr>ac_id = ''u1'', ac_is_active = True\<rparr>, \<lparr>ac_id = ''u2'', ac_is_active = True\<rparr>],
      rd_security_log = [], rd_alerts = []\<rparr>"

definition sample_role_env :: role_env where
  "sample_role_env = \<lparr>re_conflict = (\<lambda>_ _. False), re_others = (\<lambda>_ _ db. db), re_inner = (\<lambda>_ _ db. db),
     re_fresh_assignment = (\<lambda>l _. ''new-'' @ l), re_fresh_grant = (\<lambda>l _. ''new-'' @ l)\<rparr>"

lemma sample_quiet: "quiet_roles sample_role_env"
  by (simp add: quiet_roles_def sample_role_env_def)

lemma sample_roles_wf: "wf_roles sample_roles" "fresh_ids sample_role_env (provider_rules ''p'' sample_roles) sample_roles"
  by (simp_all add: wf_roles_def linked_def sample_roles_def grant_key_def fresh_ids_def
      sample_role_env_def provider_rules_def)

lemma sample_roles_count: "count_active_instance_superadmins sample_roles = 1"
  by (simp add: count_active_instance_superadmins_def sample_roles_def is_instance_superadmin_def
      is_active_account_def count_where_def)

section \<open>Properties\<close>

text \<open>C12: However a synchronisation is interleaved with other transactions, and however often the
  database makes it retry, it never takes the last active instance superadmin away: if one was
  there, and the others keep one, one is there afterwards. The others may grant, revoke, activate and deactivate
  as long as they keep the floor, keep ids unique, and neither rewrite an assignment the provider granted to this
  person nor activate the very account that is signing in. The last condition is needed:
  \<open>activation_race_empties_the_floor\<close> below is the run that breaks the floor without it.\<close>

theorem superadmin_floor:
  assumes wf: "wf_roles db" and start: "1 \<le> count_active_instance_superadmins db"
    and others: "floor_env (set (provider_grants pid uid db)) env"
  shows "1 \<le> count_active_instance_superadmins (snd (apply_oidc_group_role_mappings env pid uid asserted db))"
proof (cases asserted)
  case None
  with start show ?thesis by (simp add: apply_oidc_group_role_mappings_def op_return_def)
next
  case (Some groups)
  let ?G = "set (provider_grants pid uid db)"
  have ok: "floor_ok ?G db"
    using wf start by (auto simp: floor_ok_def wf_roles_def linked_def provider_grants_def)
  have "op_all (role_step ?G) (sync_rest env pid uid groups (provider_rules pid db) (provider_grants pid uid db))"
    by (rule sync_keeps_floor [OF others]) (auto simp: provider_grants_def)
  then have "role_step ?G db (snd (apply_oidc_group_role_mappings env pid uid (Some groups) db))"
    unfolding apply_some by (rule op_allD)
  with ok Some show ?thesis by (simp add: role_step_def while_kept_def floor_ok_def)
qed

text \<open>
  The race. \<open>revokeOidcRoleGrant\<close> decides from a read whether it needs a serializable transaction. A person whose account is inactive at
  that read, and at the read inside the plain transaction, is activated before the delete, and the other superadmin
  (who is no longer the last one) is deactivated. Both steps of the others keep a superadmin, and the delete takes the last one.
\<close>

definition racing_env :: role_env where
  "racing_env = sample_role_env\<lparr>re_inner := (\<lambda>_ k db. if k = 1
     then db\<lparr>rd_accounts := [\<lparr>ac_id = ''u1'', ac_is_active = True\<rparr>, \<lparr>ac_id = ''u2'', ac_is_active = False\<rparr>]\<rparr> else db)\<rparr>"

definition racing_roles :: role_db where
  "racing_roles = \<lparr>rd_assignments = [
       \<lparr>ra_id = ''r1'', ra_user_id = ''u1'', ra_role = ''superadmin'', ra_scope_type = ''instance'', ra_scope_id = None\<rparr>,
       \<lparr>ra_id = ''r2'', ra_user_id = ''u2'', ra_role = ''superadmin'', ra_scope_type = ''instance'', ra_scope_id = None\<rparr>],
     rd_grants = [\<lparr>gr_id = ''g1'', gr_user_id = ''u1'', gr_provider_id = ''p'', gr_role = ''superadmin'',
       gr_scope_type = ''instance'', gr_scope_id = None, gr_role_assignment_id = ''r1''\<rparr>],
     rd_rules = [], rd_accounts = [\<lparr>ac_id = ''u1'', ac_is_active = False\<rparr>, \<lparr>ac_id = ''u2'', ac_is_active = True\<rparr>],
     rd_security_log = [], rd_alerts = []\<rparr>"

lemma activation_race_empties_the_floor:
  "count_active_instance_superadmins racing_roles = 1 \<and>
   count_active_instance_superadmins (re_inner racing_env l 1 racing_roles) = 1 \<and>
   count_active_instance_superadmins (snd (apply_oidc_group_role_mappings racing_env ''p'' ''u1'' (Some []) racing_roles)) = 0"
  by code_simp

lemma superadmin_floor_witness:
  "1 \<le> count_active_instance_superadmins
     (snd (apply_oidc_group_role_mappings sample_role_env ''p'' ''u1'' (Some []) sample_roles))"
proof (rule superadmin_floor)
  show "floor_env (set (provider_grants ''p'' ''u1'' sample_roles)) sample_role_env"
    by (simp add: floor_env_def sample_role_env_def role_step_same provider_grants_def sample_roles_def)
qed (simp_all add: sample_roles_wf sample_roles_count)

text \<open>A synchronisation never gives a person a second type of role: if all of the person's
  assignments were of one type, they are afterwards, whatever runs beside it that keeps this; and
  no assignment that is not one of the provider's own grants to the person is lost.\<close>

theorem sync_defers_to_existing_roles:
  assumes one: "one_role_type uid db"
    and others: "\<And>l k s. type_step uid s (re_others env l k s) \<and> row_step r s (re_others env l k s)"
      "\<And>l k s. type_step uid s (re_inner env l k s) \<and> row_step r s (re_inner env l k s)"
    and manual: "r \<in> set (rd_assignments db)"
      "\<forall>g \<in> set (rd_grants db). gr_user_id g = uid \<and> gr_provider_id g = pid \<longrightarrow> gr_role_assignment_id g \<noteq> ra_id r"
  shows "one_role_type uid (snd (apply_oidc_group_role_mappings env pid uid asserted db)) \<and>
    r \<in> set (rd_assignments (snd (apply_oidc_group_role_mappings env pid uid asserted db)))"
proof (cases asserted)
  case None
  with one manual show ?thesis by (simp add: apply_oidc_group_role_mappings_def op_return_def)
next
  case (Some groups)
  let ?rest = "sync_rest env pid uid groups (provider_rules pid db) (provider_grants pid uid db)"
  have type_del: "type_step uid s (delete_assignment i uid s)" for i s
    by (auto simp: type_step_def one_role_type_def delete_assignment_rows)
  have row_del: "row_step r s (delete_assignment (gr_role_assignment_id g) uid s)"
    if "g \<in> set (provider_grants pid uid db)" for g s
  proof -
    have "gr_role_assignment_id g \<noteq> ra_id r" using manual(2) that by (simp add: provider_grants_def)
    then show ?thesis by (simp add: row_step_def delete_assignment_rows)
  qed
  have "op_all (type_step uid) ?rest"
  proof (rule sync_all [OF type_rel.step_relation_axioms conjunct1 [OF others(1)] conjunct1 [OF others(2)]
        _ type_del ensure_type_step])
    show "type_step uid s t" if "rd_assignments t = rd_assignments s" for s t
      unfolding type_step_def one_role_type_def that by blast
  qed
  moreover have "op_all (row_step r) ?rest"
  proof (rule sync_all [OF row_rel.step_relation_axioms conjunct2 [OF others(1)] conjunct2 [OF others(2)]
        _ row_del ensure_row_step])
    show "row_step r s t" if "rd_assignments t = rd_assignments s" for s t
      using that by (simp add: row_step_def)
  qed
  ultimately show ?thesis
    using one manual(1) Some op_allD [of "type_step uid" ?rest db] op_allD [of "row_step r" ?rest db]
    by (simp add: apply_some type_step_def row_step_def)
qed

lemma sync_defers_to_existing_roles_witness:
  "one_role_type ''u2'' (snd (apply_oidc_group_role_mappings sample_role_env ''p'' ''u2'' (Some [''staff'']) sample_roles)) \<and>
   rd_assignments sample_roles ! 1 \<in> set (rd_assignments
     (snd (apply_oidc_group_role_mappings sample_role_env ''p'' ''u2'' (Some [''staff'']) sample_roles)))"
proof (rule sync_defers_to_existing_roles)
  show "one_role_type ''u2'' sample_roles" by (simp add: one_role_type_def sample_roles_def)
  show "type_step ''u2'' s (re_others sample_role_env l k s) \<and>
    row_step (rd_assignments sample_roles ! 1) s (re_others sample_role_env l k s)" for l k s
    by (simp only: sample_role_env_def role_env.simps) (intro conjI type_rel.rel_refl row_rel.rel_refl)
  show "type_step ''u2'' s (re_inner sample_role_env l k s) \<and>
    row_step (rd_assignments sample_roles ! 1) s (re_inner sample_role_env l k s)" for l k s
    by (simp only: sample_role_env_def role_env.simps) (intro conjI type_rel.rel_refl row_rel.rel_refl)
qed (simp_all add: sample_roles_def)

text \<open>After a synchronisation that nothing disturbed, every role the provider still gives the
  person is one that a current rule and an asserted group authorize, or the last active instance
  superadmin's; and synchronising again with the same groups answers 0 and changes no assignment,
  no grant and no alert, the security log alone recording a revocation that stays blocked.\<close>

theorem sync_settles:
  assumes quiet: "quiet_roles env" "quiet_roles env'" and wf: "wf_roles db"
    and fresh: "fresh_ids env (provider_rules pid db) db"
    and run: "apply_oidc_group_role_mappings env pid uid (Some groups) db = (Inr n, db')"
  shows "(\<forall>g \<in> set (rd_grants db'). gr_user_id g = uid \<and> gr_provider_id g = pid \<longrightarrow>
      rule_still_authorizes_grant g (provider_rules pid db) groups \<or>
      is_instance_superadmin_grant g \<and> count_active_instance_superadmins db' \<le> 1) \<and>
    (\<exists>log. apply_oidc_group_role_mappings env' pid uid (Some groups) db' =
      (Inr 0, db'\<lparr>rd_security_log := log\<rparr>))"
proof
  note F = first_sync [OF quiet(1) wf fresh run]
  show "\<forall>g \<in> set (rd_grants db'). gr_user_id g = uid \<and> gr_provider_id g = pid \<longrightarrow>
      rule_still_authorizes_grant g (provider_rules pid db) groups \<or>
      is_instance_superadmin_grant g \<and> count_active_instance_superadmins db' \<le> 1"
    using F(2) by (auto simp: settled_grants_def provider_grants_def blocked_def)
  have rules: "provider_rules pid db' = provider_rules pid db" by (simp add: provider_rules_def F(1))
  obtain log where r: "op_fold (revoke_unmatched env' pid uid groups (provider_rules pid db))
      (provider_grants pid uid db') 0 db' = (Inr 0, db'\<lparr>rd_security_log := log\<rparr>)"
    using settled_revoke [OF quiet(2)] F(2) unfolding settled_grants_def by blast
  have "matched uid pid rule sc (db'\<lparr>rd_security_log := log\<rparr>) = matched uid pid rule sc db'" for rule sc
    by (simp add: matched_def)
  with F(3) have "op_fold (grant_matched env' pid uid groups)
      (sort_key (\<lambda>r. role_precedence (gm_role r)) (provider_rules pid db)) 0 (db'\<lparr>rd_security_log := log\<rparr>) =
      (Inr 0, db'\<lparr>rd_security_log := log\<rparr>)"
    by (intro settled_grant [OF quiet(2)]) simp
  with r show "\<exists>log. apply_oidc_group_role_mappings env' pid uid (Some groups) db' =
      (Inr 0, db'\<lparr>rd_security_log := log\<rparr>)"
    by (auto simp: apply_some sync_rest_def op_bind_def rules)
qed

lemma sync_settles_witness:
  "\<exists>n db' log. apply_oidc_group_role_mappings sample_role_env ''p'' ''u1'' (Some [''staff'']) sample_roles = (Inr n, db') \<and>
     apply_oidc_group_role_mappings sample_role_env ''p'' ''u1'' (Some [''staff'']) db' =
       (Inr 0, db'\<lparr>rd_security_log := log\<rparr>)"
proof -
  obtain n db' where run: "apply_oidc_group_role_mappings sample_role_env ''p'' ''u1'' (Some [''staff'']) sample_roles = (Inr n, db')"
  proof -
    have "isl (fst (apply_oidc_group_role_mappings sample_role_env ''p'' ''u1'' (Some [''staff'']) sample_roles)) = False"
      by code_simp
    then show ?thesis
      using that by (cases "apply_oidc_group_role_mappings sample_role_env ''p'' ''u1'' (Some [''staff'']) sample_roles")
        (auto simp: isl_def split: sum.splits, metis sum.exhaust)
  qed
  from sync_settles [OF sample_quiet sample_quiet sample_roles_wf run] run show ?thesis by blast
qed

end
