(* ===== verification/Attendee_List.thy ===== *)
theory Attendee_List
  imports Attendee_Card
begin

text \<open>
  The filtered attendee list and its queries, \<open>packages/tickets/src/attendees-list-filters.ts\<close>.
  A WHERE clause is a predicate on rows, a fragment that is left out is the predicate that holds;
  \<open>as_text\<close> is the database's \<open>->>\<close> on a JSON value (\<open>None\<close> for null), a parameter.
\<close>

section \<open>Filters\<close>

definition attendee_mail_status_filters :: "string list" where
  "attendee_mail_status_filters = [''not_sent'', ''sent'', ''pending'', ''failed'']"

definition mail_filter_statuses :: "string \<Rightarrow> string list" where
  "mail_filter_statuses bucket =
     (if bucket = ''sent'' then [''accepted'', ''sent'', ''delivered'']
      else if bucket = ''pending'' then [''queued'']
      else if bucket = ''failed'' then [''failed'', ''bounced'', ''rejected''] else [])"

record custom_field_filter =
  ff_source_field :: string
  ff_type :: string
  ff_values :: "string list option"
  ff_text :: "string option"

record list_filter =
  lf_q :: "string option"
  lf_status :: string
  lf_ticket_type :: "string list option"
  lf_rsvp_status :: "string list option"
  lf_mail_status :: "string list option"
  lf_custom_fields :: "custom_field_filter list option"
  lf_include_erased :: bool

definition export_row_cap :: nat where
  "export_row_cap = 50000"

text \<open>\<open>x && x.length > 0\<close> on an optional array.\<close>

definition given :: "'a list option \<Rightarrow> bool" where
  "given xs \<longleftrightarrow> (case xs of None \<Rightarrow> False | Some ys \<Rightarrow> ys \<noteq> [])"

section \<open>ILIKE\<close>

text \<open>
  Pattern matching of the database, with the backslash as escape character: \<open>%\<close> any text,
  \<open>_\<close> any character, case ignored. The patterns of the code never end in a lone escape.
\<close>

fun ilike :: "string \<Rightarrow> string \<Rightarrow> bool" where
  "ilike [] s \<longleftrightarrow> s = []"
| "ilike (p # ps) [] \<longleftrightarrow> p = CHR ''%'' \<and> ilike ps []"
| "ilike (p # ps) (c # cs) \<longleftrightarrow>
     (if p = CHR ''%'' then ilike ps (c # cs) \<or> ilike (p # ps) cs
      else if p = CHR ''_'' then ilike ps cs
      else if p = CHR 0x5C
      then (case ps of [] \<Rightarrow> False
          | e # ps' \<Rightarrow> js_lower_char e = js_lower_char c \<and> ilike ps' cs)
      else js_lower_char p = js_lower_char c \<and> ilike ps cs)"

definition like_special :: "char \<Rightarrow> bool" where
  "like_special c \<longleftrightarrow> c = CHR 0x5C \<or> c = CHR ''%'' \<or> c = CHR ''_''"

definition escape_like_pattern :: "string \<Rightarrow> string" where
  "escape_like_pattern value = concat (map (\<lambda>c. if like_special c then [CHR 0x5C, c] else [c]) value)"

definition contains_pattern :: "string \<Rightarrow> string" where
  "contains_pattern t = CHR ''%'' # t @ [CHR ''%'']"

definition ilike_opt :: "string option \<Rightarrow> string \<Rightarrow> bool" where
  "ilike_opt s pattern \<longleftrightarrow> (case s of None \<Rightarrow> False | Some v \<Rightarrow> ilike pattern v)"

section \<open>WHERE\<close>

type_synonym json_text = "json \<Rightarrow> string option"

definition custom_text :: "json_text \<Rightarrow> attendee \<Rightarrow> string \<Rightarrow> string option" where
  "custom_text as_text a key = Option.bind (prop_of (att_custom_data a) key) as_text"

definition attendee_erased_sql :: "bool \<Rightarrow> attendee \<Rightarrow> bool" where
  "attendee_erased_sql include_erased a \<longleftrightarrow> include_erased \<or> att_erased_at a = None"

definition attendee_status_sql :: "string \<Rightarrow> attendee \<Rightarrow> bool" where
  "attendee_status_sql status a \<longleftrightarrow>
     (if status = ''admitted'' then att_admitted_at a \<noteq> None
      else if status = ''not_admitted'' then att_admitted_at a = None else True)"

definition attendee_ticket_type_sql :: "string list option \<Rightarrow> attendee \<Rightarrow> bool" where
  "attendee_ticket_type_sql types a \<longleftrightarrow>
     (if given types then (case att_ticket_type a of None \<Rightarrow> False | Some t \<Rightarrow> t \<in> set (the types)) else True)"

definition attendee_rsvp_status_sql :: "string list option \<Rightarrow> attendee \<Rightarrow> bool" where
  "attendee_rsvp_status_sql statuses a \<longleftrightarrow>
     (if given statuses then att_rsvp_status a \<in> set (the statuses) else True)"

definition latest_mail_status :: "ops_db \<Rightarrow> attendee \<Rightarrow> string option" where
  "latest_mail_status db a =
     map_option md_status (find_latest (\<lambda>d. (md_created_at d, md_id d))
       (\<lambda>d. md_attendee_id d = att_id a) (mail_deliveries db))"

definition attendee_mail_status_bucket_sql :: "ops_db \<Rightarrow> string \<Rightarrow> attendee \<Rightarrow> bool" where
  "attendee_mail_status_bucket_sql db bucket a \<longleftrightarrow>
     (if bucket = ''not_sent''
      then \<not> (\<exists>d \<in> set (mail_deliveries db). md_attendee_id d = att_id a) \<or>
           latest_mail_status db a = Some ''cancelled''
      else case latest_mail_status db a of None \<Rightarrow> False
           | Some st \<Rightarrow> st \<in> set (mail_filter_statuses bucket))"

definition attendee_mail_status_sql :: "ops_db \<Rightarrow> string list option \<Rightarrow> attendee \<Rightarrow> bool" where
  "attendee_mail_status_sql db buckets a \<longleftrightarrow>
     (if given buckets then \<exists>b \<in> set (the buckets). attendee_mail_status_bucket_sql db b a else True)"

definition attendee_custom_field_sql :: "json_text \<Rightarrow> custom_field_filter \<Rightarrow> attendee \<Rightarrow> bool" where
  "attendee_custom_field_sql as_text f a \<longleftrightarrow>
     (if ff_type f = ''text''
      then (if \<not> truthy (ff_text f) then True
            else ilike_opt (custom_text as_text a (ff_source_field f))
                   (contains_pattern (escape_like_pattern (the (ff_text f)))))
      else if given (ff_values f)
      then (case custom_text as_text a (ff_source_field f) of None \<Rightarrow> False
          | Some v \<Rightarrow> v \<in> set (the (ff_values f)))
      else True)"

definition attendee_custom_fields_sql ::
  "json_text \<Rightarrow> custom_field_filter list option \<Rightarrow> attendee \<Rightarrow> bool" where
  "attendee_custom_fields_sql as_text fs a \<longleftrightarrow>
     (if given fs then \<forall>f \<in> set (the fs). attendee_custom_field_sql as_text f a else True)"

definition attendee_search_or_sql :: "json_text \<Rightarrow> string option \<Rightarrow> attendee \<Rightarrow> bool" where
  "attendee_search_or_sql as_text q a \<longleftrightarrow>
     (if \<not> truthy q then True
      else let pattern = contains_pattern (the q) in
        ilike pattern (att_name a) \<or> ilike pattern (att_email a) \<or>
        ilike_opt (att_company a) pattern \<or> ilike_opt (att_department a) pattern \<or>
        ilike_opt (custom_text as_text a ''company'') pattern \<or>
        ilike_opt (custom_text as_text a ''department'') pattern)"

text \<open>The Prisma filter, without search, mail and custom fields, and the raw query's WHERE.\<close>

definition build_attendee_list_where :: "string \<Rightarrow> list_filter \<Rightarrow> attendee \<Rightarrow> bool" where
  "build_attendee_list_where eid params a \<longleftrightarrow> att_event_id a = eid \<and>
     (lf_include_erased params \<or> att_erased_at a = None) \<and>
     (lf_status params = ''admitted'' \<longrightarrow> att_admitted_at a \<noteq> None) \<and>
     (lf_status params = ''not_admitted'' \<longrightarrow> att_admitted_at a = None) \<and>
     (given (lf_ticket_type params) \<longrightarrow>
        (case att_ticket_type a of None \<Rightarrow> False | Some t \<Rightarrow> t \<in> set (the (lf_ticket_type params)))) \<and>
     (given (lf_rsvp_status params) \<longrightarrow> att_rsvp_status a \<in> set (the (lf_rsvp_status params)))"

definition list_where_sql :: "json_text \<Rightarrow> ops_db \<Rightarrow> string \<Rightarrow> list_filter \<Rightarrow> attendee \<Rightarrow> bool" where
  "list_where_sql as_text db eid params a \<longleftrightarrow> att_event_id a = eid \<and>
     attendee_erased_sql (lf_include_erased params) a \<and> attendee_status_sql (lf_status params) a \<and>
     attendee_ticket_type_sql (lf_ticket_type params) a \<and>
     attendee_rsvp_status_sql (lf_rsvp_status params) a \<and>
     attendee_mail_status_sql db (lf_mail_status params) a \<and>
     attendee_custom_fields_sql as_text (lf_custom_fields params) a \<and>
     attendee_search_or_sql as_text (lf_q params) a"

definition simple_filter :: "list_filter \<Rightarrow> bool" where
  "simple_filter params \<longleftrightarrow> \<not> truthy (lf_q params) \<and> \<not> given (lf_mail_status params) \<and>
     \<not> given (lf_custom_fields params)"

definition count_filtered_attendees ::
  "json_text \<Rightarrow> string \<Rightarrow> list_filter \<Rightarrow> ops_db \<Rightarrow> nat" where
  "count_filtered_attendees as_text eid params db =
     (if simple_filter params then count_where (build_attendee_list_where eid params) (attendees db)
      else count_where (list_where_sql as_text db eid params) (attendees db))"

section \<open>ORDER BY\<close>

text \<open>Stable in both directions, nulls last.\<close>

definition order_by :: "bool \<Rightarrow> ('a \<Rightarrow> 'k::linorder option) \<Rightarrow> 'a list \<Rightarrow> 'a list" where
  "order_by desc key xs =
     (let keyed = filter (\<lambda>x. key x \<noteq> None) xs
      in (if desc then rev (sort_key (\<lambda>x. the (key x)) (rev keyed)) else sort_key (\<lambda>x. the (key x)) keyed) @
         filter (\<lambda>x. key x = None) xs)"

definition lower_name :: "attendee \<Rightarrow> string" where
  "lower_name a = js_lower (att_name a)"

definition ticket_sort_order :: "ops_db \<Rightarrow> attendee \<Rightarrow> int option" where
  "ticket_sort_order db a =
     map_option tt_sort_order (List.find (\<lambda>t. tt_event_id t = att_event_id a \<and>
       Some (tt_key t) = att_ticket_type a) (ticket_types db))"

fun status_text :: "attendee_status \<Rightarrow> string" where
  "status_text Registered = ''registered''"
| "status_text Confirmed = ''confirmed''"
| "status_text Cancelled = ''cancelled''"
| "status_text Revoked = ''revoked''"

definition attendee_order_by_sql ::
  "json_text \<Rightarrow> ops_db \<Rightarrow> string \<Rightarrow> string \<Rightarrow> attendee list \<Rightarrow> attendee list" where
  "attendee_order_by_sql as_text db sort_by sort_dir rows =
     (let desc = (sort_dir = ''desc'');
          by_id = sort_key att_id rows;
          by_name = sort_key lower_name by_id
      in if sort_by = ''ticket_type'' then order_by desc (ticket_sort_order db) by_name
         else if sort_by = ''company''
         then order_by desc (\<lambda>a. map_option js_lower
                (or_else (custom_text as_text a ''company'') (att_company a))) by_name
         else if sort_by = ''admitted_at'' then order_by desc att_admitted_at by_name
         else if sort_by = ''rsvp_status'' then order_by desc (\<lambda>a. Some (att_rsvp_status a)) by_name
         else if sort_by = ''status'' then order_by desc (\<lambda>a. Some (status_text (att_status a))) by_name
         else order_by desc (\<lambda>a. Some (lower_name a)) by_id)"

definition find_filtered_attendees_for_list ::
  "json_text \<Rightarrow> string \<Rightarrow> list_filter \<Rightarrow> nat \<Rightarrow> nat \<Rightarrow> string \<Rightarrow> string \<Rightarrow> ops_db \<Rightarrow> attendee list" where
  "find_filtered_attendees_for_list as_text eid params page page_size sort_by sort_dir db =
     (let skip = (page - 1) * page_size
      in take page_size (drop skip (attendee_order_by_sql as_text db sort_by sort_dir
           (filter (list_where_sql as_text db eid params) (attendees db)))))"

section \<open>Rows of an export\<close>

definition find_selected_attendees_for_export ::
  "string \<Rightarrow> string list \<Rightarrow> ops_db \<Rightarrow> attendee list" where
  "find_selected_attendees_for_export eid ids db =
     (if ids = [] then []
      else take export_row_cap (sort_key att_name
             (filter (\<lambda>a. att_event_id a = eid \<and> att_id a \<in> set ids \<and> att_erased_at a = None)
                (attendees db))))"

definition find_filtered_attendees_for_export ::
  "json_text \<Rightarrow> string \<Rightarrow> list_filter \<Rightarrow> ops_db \<Rightarrow> attendee list" where
  "find_filtered_attendees_for_export as_text eid filter_params db =
     (let params = filter_params\<lparr>lf_include_erased := False\<rparr>
      in if simple_filter params
         then take export_row_cap (sort_key att_name
                (filter (build_attendee_list_where eid params) (attendees db)))
         else take export_row_cap (sort_key att_name
                (filter (list_where_sql as_text db eid params) (attendees db))))"

end
