(* ===== verification/Attendee_List_Props.thy ===== *)
theory Attendee_List_Props
  imports Attendee_List Ops_Sample "HOL-Library.Multiset"
begin

text \<open>
  The list shows every matching attendee exactly once over its pages, its count is their number,
  and a text filter finds exactly the values that contain the text.
\<close>

section \<open>Sorting keeps the rows\<close>

lemma mset_order_by: "mset (order_by desc key xs) = mset xs"
proof -
  have "mset (filter P xs) + mset (filter (\<lambda>x. \<not> P x) xs) = mset xs" for P
    by (induction xs) auto
  from this [of "\<lambda>x. key x \<noteq> None"] show ?thesis by (simp add: order_by_def Let_def)
qed

lemma mset_attendee_order: "mset (attendee_order_by_sql as_text db sort_by sort_dir rows) = mset rows"
  by (simp add: attendee_order_by_sql_def Let_def mset_order_by)

lemma where_agree:
  "simple_filter params \<Longrightarrow> list_where_sql as_text db eid params = build_attendee_list_where eid params"
  by (rule ext) (auto simp: simple_filter_def list_where_sql_def build_attendee_list_where_def
      attendee_erased_sql_def attendee_status_sql_def attendee_ticket_type_sql_def
      attendee_rsvp_status_sql_def attendee_mail_status_sql_def attendee_custom_fields_sql_def
      attendee_search_or_sql_def)

lemma count_is_where:
  "count_filtered_attendees as_text eid params db = count_where (list_where_sql as_text db eid params) (attendees db)"
  by (simp add: count_filtered_attendees_def where_agree)

section \<open>Pages\<close>

lemma pages_of_list:
  "concat (map (\<lambda>p. take k (drop (p * k) xs)) [0..<n]) = take (n * k) xs"
proof (induction n)
  case (Suc n)
  have "take (Suc n * k) xs = take (n * k) xs @ take k (drop (n * k) xs)"
    using take_add [of "n * k" k xs] by (simp add: add.commute)
  with Suc show ?case by simp
qed simp

section \<open>ILIKE\<close>

lemma ilike_percent: "ilike (CHR ''%'' # ps) s \<longleftrightarrow> (\<exists>u w. s = u @ w \<and> ilike ps w)"
proof (induction s)
  case (Cons c cs)
  have "(\<exists>u w. c # cs = u @ w \<and> ilike ps w) \<longleftrightarrow> ilike ps (c # cs) \<or> (\<exists>u w. cs = u @ w \<and> ilike ps w)"
    by (metis append_Cons append_Nil list.inject neq_Nil_conv)
  with Cons show ?case by simp
qed simp

lemma ilike_rest: "ilike [CHR ''%''] s"
  using ilike_percent [of "[]" s] by auto

lemma ilike_escaped:
  "ilike (escape_like_pattern t @ ps) s \<longleftrightarrow> (\<exists>v w. s = v @ w \<and> js_lower v = js_lower t \<and> ilike ps w)"
proof (induction t arbitrary: s)
  case Nil
  show ?case by (auto simp: escape_like_pattern_def js_lower_def)
next
  case (Cons c t)
  have step: "ilike (escape_like_pattern (c # t) @ ps) (d # ds) \<longleftrightarrow>
      js_lower_char c = js_lower_char d \<and> ilike (escape_like_pattern t @ ps) ds" for d ds
    by (auto simp: escape_like_pattern_def like_special_def)
  have none: "\<not> ilike (escape_like_pattern (c # t) @ ps) []"
    by (auto simp: escape_like_pattern_def like_special_def)
  show ?case
  proof (cases s)
    case Nil
    with none show ?thesis by (simp add: js_lower_def)
  next
    case (Cons d ds)
    show ?thesis
    proof
      assume "ilike (escape_like_pattern (c # t) @ ps) s"
      with step Cons Cons.IH obtain v w where "ds = v @ w" "js_lower v = js_lower t" "ilike ps w"
        "js_lower_char c = js_lower_char d" by blast
      with Cons have "s = (d # v) @ w \<and> js_lower (d # v) = js_lower (c # t) \<and> ilike ps w"
        by (simp add: js_lower_def)
      then show "\<exists>v w. s = v @ w \<and> js_lower v = js_lower (c # t) \<and> ilike ps w" by blast
    next
      assume "\<exists>v w. s = v @ w \<and> js_lower v = js_lower (c # t) \<and> ilike ps w"
      then obtain v w where vw: "s = v @ w" "js_lower v = js_lower (c # t)" "ilike ps w" by blast
      then obtain v' where "v = d # v'" using Cons by (cases v) (auto simp: js_lower_def)
      with vw Cons step Cons.IH show "ilike (escape_like_pattern (c # t) @ ps) s"
        by (auto simp: js_lower_def)
    qed
  qed
qed

lemma contains_text_iff: "contains_text q s \<longleftrightarrow> (\<exists>u w. s = u @ q @ w)"
proof (induction s)
  case (Cons c cs)
  have "(\<exists>u w. c # cs = u @ q @ w) \<longleftrightarrow> (\<exists>w. c # cs = q @ w) \<or> (\<exists>u w. cs = u @ q @ w)"
    by (metis append_Cons append_Nil list.inject neq_Nil_conv)
  with Cons show ?case by (simp add: starts_with_append)
qed auto

lemma contains_insensitive_iff:
  "contains_insensitive q s \<longleftrightarrow> (\<exists>u v w. s = u @ v @ w \<and> js_lower v = js_lower q)"
proof
  assume "contains_insensitive q s"
  then obtain a b where split: "js_lower s = a @ js_lower q @ b"
    by (auto simp: contains_insensitive_def contains_text_iff)
  let ?u = "take (length a) s" and ?v = "take (length q) (drop (length a) s)"
    and ?w = "drop (length q) (drop (length a) s)"
  have "js_lower ?v = take (length q) (drop (length a) (js_lower s))"
    by (simp add: js_lower_def take_map drop_map)
  also have "\<dots> = js_lower q" by (simp add: split) (simp add: js_lower_def)
  finally have "s = ?u @ ?v @ ?w \<and> js_lower ?v = js_lower q" by (simp del: take_drop drop_drop)
  then show "\<exists>u v w. s = u @ v @ w \<and> js_lower v = js_lower q" by blast
next
  assume "\<exists>u v w. s = u @ v @ w \<and> js_lower v = js_lower q"
  then obtain u v w where "s = u @ v @ w" "js_lower v = js_lower q" by blast
  then have "js_lower s = js_lower u @ js_lower q @ js_lower w" by (simp add: js_lower_def)
  then show "contains_insensitive q s" unfolding contains_insensitive_def contains_text_iff by blast
qed

lemma escaped_contains: "ilike (contains_pattern (escape_like_pattern t)) s \<longleftrightarrow> contains_insensitive t s"
proof -
  have "ilike (contains_pattern (escape_like_pattern t)) s \<longleftrightarrow>
      (\<exists>u x. s = u @ x \<and> (\<exists>v w. x = v @ w \<and> js_lower v = js_lower t))"
    by (simp add: contains_pattern_def ilike_percent ilike_escaped ilike_rest)
  then show ?thesis unfolding contains_insensitive_iff by blast
qed

definition all_pages ::
  "json_text \<Rightarrow> string \<Rightarrow> list_filter \<Rightarrow> nat \<Rightarrow> nat \<Rightarrow> string \<Rightarrow> string \<Rightarrow> ops_db \<Rightarrow> attendee list" where
  "all_pages as_text eid params pages per_page sort_by sort_dir db =
     concat (map (\<lambda>p. find_filtered_attendees_for_list as_text eid params p per_page sort_by sort_dir db)
       [1..<Suc pages])"

definition name_filter :: "string \<Rightarrow> list_filter" where
  "name_filter q = \<lparr>lf_q = Some q, lf_status = ''all'', lf_ticket_type = None, lf_rsvp_status = None,
     lf_mail_status = None, lf_custom_fields = None, lf_include_erased = False\<rparr>"

section \<open>Properties\<close>

text \<open>Paging through the attendee list shows every attendee that matches the filter exactly
  once, in the order of the sort, and no one else: the pages one after the other are the whole
  sorted result, and its length is the count shown with it, whichever of its two queries counts.\<close>

theorem list_pages_cover:
  assumes enough: "count_filtered_attendees as_text eid params db \<le> pages * per_page"
  shows "all_pages as_text eid params pages per_page sort_by sort_dir db =
      attendee_order_by_sql as_text db sort_by sort_dir
        (filter (list_where_sql as_text db eid params) (attendees db)) \<and>
    mset (all_pages as_text eid params pages per_page sort_by sort_dir db) =
      mset (filter (list_where_sql as_text db eid params) (attendees db)) \<and>
    length (all_pages as_text eid params pages per_page sort_by sort_dir db) =
      count_filtered_attendees as_text eid params db"
proof -
  let ?rows = "filter (list_where_sql as_text db eid params) (attendees db)"
  let ?sorted = "attendee_order_by_sql as_text db sort_by sort_dir ?rows"
  have same: "mset ?sorted = mset ?rows" by (rule mset_attendee_order)
  then have len: "length ?sorted = count_filtered_attendees as_text eid params db"
    by (metis count_is_where count_where_def size_mset)
  have "[1..<Suc pages] = map Suc [0..<pages]" by (simp add: map_Suc_upt)
  then have "all_pages as_text eid params pages per_page sort_by sort_dir db =
      concat (map (\<lambda>p. take per_page (drop (p * per_page) ?sorted)) [0..<pages])"
    by (simp add: all_pages_def find_filtered_attendees_for_list_def Let_def comp_def del: upt_Suc)
  also have "\<dots> = ?sorted" using enough len by (simp add: pages_of_list)
  finally show ?thesis using same len by simp
qed

lemma list_pages_cover_witness:
  "mset (all_pages (\<lambda>_. None) ''e1'' (name_filter ''guest'') 2 1 ''name'' ''asc'' sample_db) =
     mset (filter (list_where_sql (\<lambda>_. None) sample_db ''e1'' (name_filter ''guest'')) (attendees sample_db))"
proof -
  have "count_filtered_attendees (\<lambda>_. None) ''e1'' (name_filter ''guest'') sample_db \<le> 2 * 1"
    by code_simp
  from list_pages_cover [OF this, of "''name''" "''asc''"] show ?thesis by blast
qed

text \<open>The text filter of a custom field finds exactly the attendees whose stored value contains
  the text, ignoring case, whatever characters the text has: the pattern characters of the
  database in it stand for themselves.\<close>

theorem text_filter_is_containment:
  assumes "ff_type f = ''text''" "ff_text f = Some t" "t \<noteq> []"
  shows "attendee_custom_field_sql as_text f a \<longleftrightarrow>
    (\<exists>v. custom_text as_text a (ff_source_field f) = Some v \<and> contains_insensitive t v)"
  using assms
  by (simp add: attendee_custom_field_sql_def truthy_def ilike_opt_def escaped_contains split: option.splits)

lemma text_filter_is_containment_witness:
  "\<not> attendee_custom_field_sql (\<lambda>j. case j of JStr s \<Rightarrow> Some s | _ \<Rightarrow> None)
     \<lparr>ff_source_field = ''size'', ff_type = ''text'', ff_values = None, ff_text = Some ''_''\<rparr>
     ((sample_guest ''a1'')\<lparr>att_custom_data := JObj [(''size'', JStr ''XL'')]\<rparr>)"
proof -
  let ?f = "\<lparr>ff_source_field = ''size'', ff_type = ''text'', ff_values = None, ff_text = Some ''_''\<rparr>"
  have "ff_type ?f = ''text''" "ff_text ?f = Some ''_''" "''_'' \<noteq> []" by simp_all
  moreover have "\<not> contains_insensitive ''_'' ''XL''" by code_simp
  ultimately show ?thesis
    using text_filter_is_containment [of ?f "''_''"] by (simp add: custom_text_def)
qed

end
