(* ===== verification/Csv_Text.thy ===== *)
theory Csv_Text
  imports Adm_Prelude
begin

text \<open>
  CSV text: the field splitter (\<open>packages/shared/src/csvUtils.ts\<close>), the record scanner and the
  choice of separator (\<open>packages/import/src/csv-records.ts\<close>, \<open>csv-delimiter.ts\<close>), and the cell
  writers of the exports (\<open>packages/tickets/src/csv-sanitize.ts\<close>). An index into a line is the rest
  of the line from there. The byte-order mark is outside the characters of the model, so a text
  never starts with one.
\<close>

abbreviation quote_mark :: char where
  "quote_mark \<equiv> CHR 0x22"

abbreviation newline :: char where
  "newline \<equiv> CHR 0x0A"

abbreviation carriage_return :: char where
  "carriage_return \<equiv> CHR 0x0D"

section \<open>Splitting a line\<close>

text \<open>The field after an opening quote, and the rest after its closing one.\<close>

fun parse_quoted_field :: "string \<Rightarrow> string \<times> string" where
  "parse_quoted_field [] = ([], [])"
| "parse_quoted_field (c # cs) =
     (if c = quote_mark
      then (case cs of
          d # ds \<Rightarrow>
            if d = quote_mark then (case parse_quoted_field ds of (field, rest) \<Rightarrow> (quote_mark # field, rest))
            else ([], cs)
        | [] \<Rightarrow> ([], []))
      else (case parse_quoted_field cs of (field, rest) \<Rightarrow> (c # field, rest)))"

lemma parse_quoted_field_shorter: "length (snd (parse_quoted_field s)) \<le> length s"
proof (induction s rule: parse_quoted_field.induct)
  case (2 c cs)
  show ?case
  proof (cases "c = quote_mark")
    case True
    with 2 show ?thesis by (cases cs) (auto simp: case_prod_unfold intro: le_SucI)
  next
    case False
    with 2 show ?thesis by (simp add: case_prod_unfold)
  qed
qed simp

function split_csv_line :: "char \<Rightarrow> string \<Rightarrow> string list" where
  "split_csv_line delimiter [] = [[]]"
| "split_csv_line delimiter (c # cs) =
     (if c = quote_mark
      then fst (parse_quoted_field cs) # (case snd (parse_quoted_field cs) of
             d # rest \<Rightarrow> if d = delimiter then split_csv_line delimiter rest else []
           | [] \<Rightarrow> [])
      else (case dropWhile (\<lambda>d. d \<noteq> delimiter) (c # cs) of
          [] \<Rightarrow> [c # cs]
        | _ # rest \<Rightarrow> takeWhile (\<lambda>d. d \<noteq> delimiter) (c # cs) # split_csv_line delimiter rest))"
  by pat_completeness auto
termination
proof (relation "measure (\<lambda>(delimiter, line). length line)", goal_cases)
  case 1
  then show ?case by (rule wf_measure)
next
  case (2 delimiter c cs d rest)
  then show ?case using parse_quoted_field_shorter [of cs] by simp
next
  case (3 delimiter c cs d rest)
  then have "length (d # rest) \<le> length (c # cs)" by (metis length_dropWhile_le)
  then show ?case by simp
qed

declare split_csv_line.simps [simp del]

section \<open>The separator\<close>

definition csv_delimiters :: "char list" where
  "csv_delimiters = [CHR '','', CHR '';'', CHR 0x09]"

definition required_columns :: "string list" where
  "required_columns = [''first_name'', ''last_name'', ''email'']"

fun first_non_blank_line :: "nat \<Rightarrow> string \<Rightarrow> string" where
  "first_non_blank_line 0 csv = []"
| "first_non_blank_line (Suc fuel) csv =
     (if csv = [] then []
      else let line = takeWhile (\<lambda>c. c \<noteq> newline) csv
        in if js_trim line \<noteq> [] then line
           else first_non_blank_line fuel (drop (length line + 1) csv))"

declare first_non_blank_line.simps [simp del]

definition required_columns_found :: "string \<Rightarrow> char \<Rightarrow> nat" where
  "required_columns_found header delimiter =
     (let names = map (\<lambda>cell. js_lower (js_trim cell)) (split_csv_line delimiter header)
      in length (filter (\<lambda>column. column \<in> set names) required_columns))"

text \<open>The scan with the best separator so far and its score; \<open>-1\<close> before the first.\<close>

fun best_delimiter :: "string \<Rightarrow> char list \<Rightarrow> char \<Rightarrow> int \<Rightarrow> char" where
  "best_delimiter header [] best best_score = best"
| "best_delimiter header (d # ds) best best_score =
     (let score = int (required_columns_found header d)
      in if score > best_score then best_delimiter header ds d score
         else best_delimiter header ds best best_score)"

definition detect_csv_delimiter :: "string \<Rightarrow> char" where
  "detect_csv_delimiter csv =
     best_delimiter (first_non_blank_line (length csv + 1) csv) csv_delimiters (CHR '','') (-1)"

section \<open>Records\<close>

record csv_record =
  cr_text :: string
  cr_malformed :: bool

datatype csv_kind = Start | Plain | Quoted | Closed | Closed_space

record csv_state =
  cs_kind :: csv_kind
  cs_malformed :: bool

definition csv_start :: csv_state where
  "csv_start = \<lparr>cs_kind = Start, cs_malformed = False\<rparr>"

text \<open>\<open>True\<close> for the second half of an escaped quote; \<open>None\<close> is the end of the text.\<close>

definition advance_csv_state ::
  "csv_state \<Rightarrow> char \<Rightarrow> char option \<Rightarrow> char \<Rightarrow> bool \<times> csv_state" where
  "advance_csv_state state c following delimiter =
     (if cs_kind state = Quoted
      then (if c \<noteq> quote_mark then (False, state)
            else if following = Some quote_mark then (True, state)
            else (False, state\<lparr>cs_kind := Closed\<rparr>))
      else if c = delimiter
      then (False, \<lparr>cs_kind = Start, cs_malformed = cs_malformed state \<or> cs_kind state = Closed_space\<rparr>)
      else if cs_kind state = Start
      then (False, state\<lparr>cs_kind := (if c = quote_mark then Quoted else Plain)\<rparr>)
      else if cs_kind state = Closed \<or> cs_kind state = Closed_space
      then (False, \<lparr>cs_kind = Closed_space, cs_malformed = cs_malformed state \<or> js_trim [c] \<noteq> []\<rparr>)
      else (False, state))"

text \<open>The record from its reversed characters; a blank one is not yielded.\<close>

definition yield_record :: "string \<Rightarrow> bool \<Rightarrow> csv_record list" where
  "yield_record seen malformed =
     (let text = trim_end (rev seen)
      in if js_trim text \<noteq> [] then [\<lparr>cr_text = text, cr_malformed = malformed\<rparr>] else [])"

fun csv_scan :: "char \<Rightarrow> string \<Rightarrow> csv_state \<Rightarrow> string \<Rightarrow> csv_record list" where
  "csv_scan delimiter seen state [] =
     yield_record seen (cs_malformed state \<or> cs_kind state = Quoted)"
| "csv_scan delimiter seen state [c] =
     (if c = newline \<and> cs_kind state \<noteq> Quoted
      then yield_record seen (cs_malformed state) @ csv_scan delimiter [] csv_start []
      else csv_scan delimiter (c # seen) (snd (advance_csv_state state c None delimiter)) [])"
| "csv_scan delimiter seen state (c # d # cs) =
     (if c = newline \<and> cs_kind state \<noteq> Quoted
      then yield_record seen (cs_malformed state) @ csv_scan delimiter [] csv_start (d # cs)
      else (case advance_csv_state state c (Some d) delimiter of (skip, state') \<Rightarrow>
          if skip then csv_scan delimiter (d # c # seen) state' cs
          else csv_scan delimiter (c # seen) state' (d # cs)))"

definition csv_records :: "string \<Rightarrow> char \<Rightarrow> csv_record list" where
  "csv_records csv delimiter = csv_scan delimiter [] csv_start csv"

section \<open>Writing cells\<close>

definition formula_start :: "char \<Rightarrow> bool" where
  "formula_start c \<longleftrightarrow> c \<in> set [CHR ''='', CHR ''+'', CHR ''-'', CHR ''@'']"

definition blank_char :: "char \<Rightarrow> bool" where
  "blank_char c \<longleftrightarrow> c \<in> set [CHR 0x09, CHR 0x0D, CHR 0x0A]"

definition sanitize_csv_cell :: "string option \<Rightarrow> string" where
  "sanitize_csv_cell value = (case value of None \<Rightarrow> []
     | Some s \<Rightarrow>
         if (s \<noteq> [] \<and> blank_char (hd s)) \<or>
            (case dropWhile (\<lambda>c. c = CHR '' '' \<or> blank_char c) s of [] \<Rightarrow> False | c # _ \<Rightarrow> formula_start c)
         then CHR 0x27 # s else s)"

fun double_quotes :: "string \<Rightarrow> string" where
  "double_quotes [] = []"
| "double_quotes (c # cs) = (if c = quote_mark then [quote_mark, quote_mark] else [c]) @ double_quotes cs"

definition quote_csv_cell :: "string \<Rightarrow> string" where
  "quote_csv_cell value = [quote_mark] @ double_quotes value @ [quote_mark]"

end
