(* ===== verification/Export.thy ===== *)
theory Export
  imports Csv_Text Attendee_List Ops_Audit
begin

text \<open>
  The CSV export of the attendees, \<open>packages/tickets/src/attendees-export.ts\<close>. The formatting of a
  time in the event's zone is the platform's (\<open>Intl\<close>), a parameter. The first column of the other
  formats is a check mark, which is outside the characters of the model and written \<open>v\<close>; the CSV
  leaves it out.
\<close>

definition export_base_columns :: "string list" where
  "export_base_columns = [''v'', ''Name'', ''Email'', ''Company'', ''Department'', ''Ticket type'',
     ''Check-in status'', ''Admitted at'']"

record export_row =
  xr_check_off :: string
  xr_name :: string
  xr_email :: string
  xr_company :: string
  xr_department :: string
  xr_ticket_type :: string
  xr_check_in_status :: string
  xr_admitted_at :: string
  xr_attribute_values :: "string list"

datatype export_error = Export_too_large nat nat | Event_not_found

definition load_event_ticket_types :: "ops_db \<Rightarrow> string \<Rightarrow> ticket_type list" where
  "load_event_ticket_types db eid =
     sort_key tt_sort_order (filter (\<lambda>t. tt_event_id t = eid) (ticket_types db))"

definition resolve_company_department :: "attendee \<Rightarrow> string option \<times> string option" where
  "resolve_company_department a =
     (let cd = parse_custom_data (att_custom_data a)
      in (or_else (fst cd) (att_company a), or_else (snd cd) (att_department a)))"

definition resolve_ticket_type_label :: "string option \<Rightarrow> ticket_type list \<Rightarrow> string option" where
  "resolve_ticket_type_label raw types =
     (if \<not> truthy raw then raw
      else case List.find (\<lambda>t. tt_key t = the raw) types of Some t \<Rightarrow> Some (tt_label t) | None \<Rightarrow> raw)"

definition build_sanitized_export_row ::
  "(int \<Rightarrow> string \<Rightarrow> string) \<Rightarrow> item_content list \<Rightarrow> string \<Rightarrow> ticket_type list \<Rightarrow> attendee \<Rightarrow> export_row" where
  "build_sanitized_export_row format_local attrs zone types row =
     (let cd = resolve_company_department row
      in \<lparr>xr_check_off = [], xr_name = sanitize_csv_cell (Some (att_name row)),
          xr_email = sanitize_csv_cell (Some (att_email row)),
          xr_company = sanitize_csv_cell (fst cd), xr_department = sanitize_csv_cell (snd cd),
          xr_ticket_type = sanitize_csv_cell (resolve_ticket_type_label (att_ticket_type row) types),
          xr_check_in_status = (if att_admitted_at row \<noteq> None then ''Checked in'' else ''Not checked in''),
          xr_admitted_at = (case att_admitted_at row of None \<Rightarrow> [] | Some t \<Rightarrow> format_local t zone),
          xr_attribute_values = map (\<lambda>f. sanitize_csv_cell
            (custom_data_value (att_custom_data row) (ct_source_field f))) attrs\<rparr>)"

definition build_export_column_labels :: "item_content list \<Rightarrow> string list" where
  "build_export_column_labels attrs =
     map (\<lambda>f. sanitize_csv_cell (Some
       (if count_where (\<lambda>g. ct_label g = ct_label f) attrs > 1
        then ct_label f @ '' ('' @ ct_source_field f @ '')'' else ct_label f))) attrs"

definition build_export_columns :: "item_content list \<Rightarrow> string list" where
  "build_export_columns attrs = export_base_columns @ build_export_column_labels attrs"

definition export_cells :: "export_row \<Rightarrow> string list" where
  "export_cells r = [xr_name r, xr_email r, xr_company r, xr_department r, xr_ticket_type r,
     xr_check_in_status r, xr_admitted_at r] @ xr_attribute_values r"

definition build_export_csv :: "export_row list \<Rightarrow> string list \<Rightarrow> string" where
  "build_export_csv rows columns =
     (let header = join_with [CHR '',''] (map quote_csv_cell (drop 1 columns));
          csv_rows = map (\<lambda>r. join_with [CHR '',''] (map quote_csv_cell (export_cells r))) rows
      in join_with [carriage_return, newline] (header # csv_rows))"

record export_result =
  xp_csv :: string
  xp_row_count :: nat
  xp_columns :: "string list"
  xp_rows :: "export_row list"

text \<open>The rows are read, other transactions commit, and the last check drops who was erased since.\<close>

definition export_attendees_csv ::
  "json_text \<Rightarrow> (int \<Rightarrow> string \<Rightarrow> string) \<Rightarrow> (string \<Rightarrow> string) \<Rightarrow> (ops_db \<Rightarrow> ops_db) \<Rightarrow> string \<Rightarrow>
   list_filter \<Rightarrow> ops_db \<Rightarrow> (export_error + export_result) \<times> ops_db" where
  "export_attendees_csv as_text format_local zone_of others eid filters db =
     (case event_by_id eid db of None \<Rightarrow> (Inl Event_not_found, db)
      | Some event \<Rightarrow>
          let zone = zone_of (ev_timezone event);
              total = count_filtered_attendees as_text eid (filters\<lparr>lf_include_erased := False\<rparr>) db
          in if total > export_row_cap then (Inl (Export_too_large total export_row_cap), db)
             else let rows = find_filtered_attendees_for_export as_text eid filters db;
                      attrs = load_event_custom_data_fields eid db;
                      types = load_event_ticket_types db eid;
                      columns = build_export_columns attrs;
                      db' = others db;
                      kept = keep_live_rows db' att_id rows;
                      export_rows = map (build_sanitized_export_row format_local attrs zone types) kept
               in (Inr \<lparr>xp_csv = build_export_csv export_rows columns, xp_row_count = length export_rows,
                        xp_columns = columns, xp_rows = export_rows\<rparr>, db'))"

end
