(* ===== verification/Csv_Props.thy ===== *)
theory Csv_Props
  imports Csv_Text
begin

text \<open>
  Reading back quoted cells: the splitter recovers the cells of a line the writer made, and the
  scanner finds exactly the lines that were written, whatever the cells hold.
\<close>

section \<open>Cells of a line\<close>

lemma parse_quoted_written:
  "rest = [] \<or> hd rest \<noteq> quote_mark \<Longrightarrow>
   parse_quoted_field (double_quotes v @ quote_mark # rest) = (v, rest)"
proof (induction v)
  case Nil
  then show ?case by (cases rest) auto
qed simp

lemma split_csv_line_quoted:
  assumes "rest = [] \<or> hd rest \<noteq> quote_mark"
  shows "split_csv_line d (quote_csv_cell v @ rest) =
    v # (case rest of c # cs \<Rightarrow> if c = d then split_csv_line d cs else [] | [] \<Rightarrow> [])"
  using parse_quoted_written [OF assms, of v]
  by (simp add: quote_csv_cell_def split_csv_line.simps(2))

definition csv_line :: "char \<Rightarrow> string list \<Rightarrow> string" where
  "csv_line d cells = join_with [d] (map quote_csv_cell cells)"

lemma split_csv_line_written:
  assumes d: "d \<noteq> quote_mark"
  shows "cells \<noteq> [] \<Longrightarrow> split_csv_line d (csv_line d cells) = cells"
proof (induction cells rule: induct_list012)
  case (2 v)
  show ?case
    using split_csv_line_quoted [of "[]" d v] by (simp add: csv_line_def)
next
  case (3 v w vs)
  have "split_csv_line d (csv_line d (v # w # vs)) =
      split_csv_line d (quote_csv_cell v @ d # csv_line d (w # vs))"
    by (simp add: csv_line_def)
  also have "\<dots> = v # split_csv_line d (csv_line d (w # vs))"
    using split_csv_line_quoted [of "d # csv_line d (w # vs)" d v] d by simp
  finally show ?case using 3 by simp
qed simp

section \<open>Scanning a written line\<close>

lemma csv_scan_Cons:
  "csv_scan d seen state (c # cs) =
     (if c = newline \<and> cs_kind state \<noteq> Quoted
      then yield_record seen (cs_malformed state) @ csv_scan d [] csv_start cs
      else let step = advance_csv_state state c (if cs = [] then None else Some (hd cs)) d
        in if fst step \<and> cs \<noteq> [] then csv_scan d (hd cs # c # seen) (snd step) (tl cs)
           else csv_scan d (c # seen) (snd step) cs)"
  by (cases cs) (simp_all add: Let_def case_prod_unfold)

definition scan_state :: "csv_kind \<Rightarrow> csv_state" where
  "scan_state kind = \<lparr>cs_kind = kind, cs_malformed = False\<rparr>"

lemma scan_state_simps [simp]:
  "cs_kind (scan_state k) = k" "\<not> cs_malformed (scan_state k)" "csv_start = scan_state Start"
  by (simp_all add: scan_state_def csv_start_def)

lemma scan_inside_quotes:
  assumes "rest = [] \<or> hd rest \<noteq> quote_mark"
  shows "csv_scan d seen (scan_state Quoted) (double_quotes v @ quote_mark # rest) =
    csv_scan d (quote_mark # rev (double_quotes v) @ seen) (scan_state Closed) rest"
proof (induction v arbitrary: seen)
  case Nil
  from assms show ?case
    by (auto simp: csv_scan_Cons [of d seen] advance_csv_state_def scan_state_def)
next
  case (Cons c cs)
  show ?case
  proof (cases "c = quote_mark")
    case True
    have "csv_scan d seen (scan_state Quoted) (quote_mark # quote_mark # double_quotes cs @ quote_mark # rest) =
        csv_scan d (quote_mark # quote_mark # seen) (scan_state Quoted) (double_quotes cs @ quote_mark # rest)"
      by (simp add: csv_scan_Cons [of d seen] advance_csv_state_def)
    with True Cons show ?thesis by simp
  next
    case False
    then have "csv_scan d seen (scan_state Quoted) (c # double_quotes cs @ quote_mark # rest) =
        csv_scan d (c # seen) (scan_state Quoted) (double_quotes cs @ quote_mark # rest)"
      by (simp add: csv_scan_Cons [of d seen] advance_csv_state_def)
    with False Cons show ?thesis by simp
  qed
qed

lemma scan_cell:
  assumes d: "d \<noteq> quote_mark" and rest: "rest = [] \<or> hd rest \<noteq> quote_mark"
  shows "csv_scan d seen (scan_state Start) (quote_csv_cell v @ rest) =
    csv_scan d (rev (quote_csv_cell v) @ seen) (scan_state Closed) rest"
proof -
  have "csv_scan d seen (scan_state Start) (quote_csv_cell v @ rest) =
      csv_scan d (quote_mark # seen) (scan_state Quoted) (double_quotes v @ quote_mark # rest)"
    using d by (simp add: quote_csv_cell_def csv_scan_Cons [of d seen] advance_csv_state_def scan_state_def)
  also have "\<dots> = csv_scan d (quote_mark # rev (double_quotes v) @ quote_mark # seen) (scan_state Closed) rest"
    by (rule scan_inside_quotes [OF rest])
  finally show ?thesis by (simp add: quote_csv_cell_def)
qed

lemma scan_line:
  assumes d: "d \<noteq> quote_mark" "d \<noteq> newline" and rest: "rest = [] \<or> hd rest \<noteq> quote_mark"
  shows "cells \<noteq> [] \<Longrightarrow> csv_scan d seen (scan_state Start) (csv_line d cells @ rest) =
    csv_scan d (rev (csv_line d cells) @ seen) (scan_state Closed) rest"
proof (induction cells arbitrary: seen rule: induct_list012)
  case (2 v)
  show ?case using scan_cell [OF d(1) rest] by (simp add: csv_line_def)
next
  case (3 v w vs)
  let ?more = "csv_line d (w # vs) @ rest"
  have "csv_scan d seen (scan_state Start) (csv_line d (v # w # vs) @ rest) =
      csv_scan d (rev (quote_csv_cell v) @ seen) (scan_state Closed) (d # ?more)"
    using scan_cell [OF d(1), of "d # ?more" seen v] d(1) by (simp add: csv_line_def)
  also have "\<dots> = csv_scan d (d # rev (quote_csv_cell v) @ seen) (scan_state Start) ?more"
    using d by (simp add: csv_scan_Cons [of d _ _ d] advance_csv_state_def scan_state_def)
  also have "\<dots> = csv_scan d (rev (csv_line d (w # vs)) @ d # rev (quote_csv_cell v) @ seen) (scan_state Closed) rest"
    using 3 by simp
  finally show ?case by (simp add: csv_line_def)
qed simp

section \<open>The records of a written text\<close>

lemma js_space_chars [simp]:
  "\<not> js_space quote_mark" "js_space carriage_return" "js_space newline"
  by (simp_all add: js_space_def)

lemma csv_line_last: "cells \<noteq> [] \<Longrightarrow> csv_line d cells \<noteq> [] \<and> last (csv_line d cells) = quote_mark \<and>
    hd (csv_line d cells) = quote_mark"
  by (induction cells rule: induct_list012)
    (auto simp: csv_line_def quote_csv_cell_def hd_append)

lemma trim_end_solid: "s \<noteq> [] \<Longrightarrow> \<not> js_space (last s) \<Longrightarrow> trim_end s = s"
  by (cases s rule: rev_cases) (simp_all add: trim_end_def)

lemma js_trim_solid: "\<lbrakk>s \<noteq> []; \<not> js_space (hd s)\<rbrakk> \<Longrightarrow> js_trim s \<noteq> []"
  by (cases s) (auto simp: js_trim_def trim_start_def trim_end_def dropWhile_eq_Nil_conv)

lemma yield_written:
  assumes "cells \<noteq> []" "tail = [] \<or> tail = [carriage_return]"
  shows "yield_record (tail @ rev (csv_line d cells)) m = [\<lparr>cr_text = csv_line d cells, cr_malformed = m\<rparr>]"
proof -
  have solid: "trim_end (csv_line d cells) = csv_line d cells"
    using csv_line_last [OF assms(1)] by (auto intro!: trim_end_solid)
  have "trim_end (s @ [carriage_return]) = trim_end s" for s
    by (simp add: trim_end_def)
  with solid assms(2) have "trim_end (rev (tail @ rev (csv_line d cells))) = csv_line d cells"
    by auto
  moreover have "js_trim (csv_line d cells) \<noteq> []"
    using csv_line_last [OF assms(1)] by (intro js_trim_solid) auto
  ultimately show ?thesis by (simp add: yield_record_def)
qed

definition csv_text :: "char \<Rightarrow> string list list \<Rightarrow> string" where
  "csv_text d rows = join_with [carriage_return, newline] (map (csv_line d) rows)"

lemma csv_records_written:
  assumes d: "d \<noteq> quote_mark" "d \<noteq> newline" "d \<noteq> carriage_return"
  shows "\<forall>r \<in> set rows. r \<noteq> [] \<Longrightarrow> rows \<noteq> [] \<Longrightarrow> csv_records (csv_text d rows) d =
    map (\<lambda>r. \<lparr>cr_text = csv_line d r, cr_malformed = False\<rparr>) rows"
proof (induction rows rule: induct_list012)
  case (2 r)
  then show ?case
    using scan_line [OF d(1,2), of "[]" r "[]"] yield_written [of r "[]" d False]
    by (simp add: csv_records_def csv_text_def)
next
  case (3 r s rows)
  let ?more = "csv_text d (s # rows)"
  have "csv_records (csv_text d (r # s # rows)) d =
      csv_scan d [] (scan_state Start) (csv_line d r @ carriage_return # newline # ?more)"
    by (simp add: csv_records_def csv_text_def)
  also have "\<dots> = csv_scan d (rev (csv_line d r)) (scan_state Closed) (carriage_return # newline # ?more)"
    using scan_line [OF d(1,2), of "carriage_return # newline # ?more" r "[]"] 3 by simp
  also have "\<dots> = csv_scan d (carriage_return # rev (csv_line d r)) (scan_state Closed_space) (newline # ?more)"
    using d by (simp add: csv_scan_Cons [of d _ _ carriage_return] advance_csv_state_def scan_state_def
        js_trim_def trim_start_def trim_end_def)
  also have "\<dots> = yield_record ([carriage_return] @ rev (csv_line d r)) False @ csv_records ?more d"
    by (simp add: csv_scan_Cons [of d _ _ newline] csv_records_def)
  also have "\<dots> = \<lparr>cr_text = csv_line d r, cr_malformed = False\<rparr> # csv_records ?more d"
    using yield_written [of r "[carriage_return]" d False] 3 by simp
  finally show ?case using 3 by simp
qed simp

end
