(* ===== verification/Export_Props.thy ===== *)
theory Export_Props
  imports Export Csv_Props Attendee_List_Props
begin

text \<open>
  What an exported file holds: the import's own reader finds exactly the header and the rows that
  were written, and every row is about a live attendee the filter asked for.
\<close>

lemma build_export_csv_text:
  "build_export_csv rows columns = csv_text (CHR '','') (drop 1 columns # map export_cells rows)"
  by (simp add: build_export_csv_def csv_text_def csv_line_def comp_def Let_def)

lemma export_header:
  "\<exists>more. drop 1 (build_export_columns attrs) = ''Name'' # ''Email'' # ''Company'' # more"
  by (simp add: build_export_columns_def export_base_columns_def)

section \<open>The separator of an exported file\<close>

lemma first_line_of_export:
  "\<exists>more. first_non_blank_line (length csv + 1) csv =
     quote_csv_cell ''Name'' @ CHR '','' # quote_csv_cell ''Email'' @ CHR '','' # more"
  if "csv = quote_csv_cell ''Name'' @ CHR '','' # quote_csv_cell ''Email'' @ CHR '','' # rest"
proof -
  let ?start = "quote_csv_cell ''Name'' @ CHR '','' # quote_csv_cell ''Email'' @ [CHR '','']"
  have csv: "csv = ?start @ rest" using that by simp
  have "\<forall>c \<in> set ?start. c \<noteq> newline" by (simp add: quote_csv_cell_def)
  then have line: "takeWhile (\<lambda>c. c \<noteq> newline) csv = ?start @ takeWhile (\<lambda>c. c \<noteq> newline) rest"
    unfolding csv by (intro takeWhile_append2) blast
  have "csv \<noteq> []" by (simp add: csv quote_csv_cell_def)
  moreover have "js_trim (?start @ takeWhile (\<lambda>c. c \<noteq> newline) rest) \<noteq> []"
    by (rule js_trim_solid) (simp_all add: quote_csv_cell_def)
  ultimately have "first_non_blank_line (length csv + 1) csv = ?start @ takeWhile (\<lambda>c. c \<noteq> newline) rest"
    using line by (simp only: Suc_eq_plus1 [symmetric] first_non_blank_line.simps Let_def if_False if_True) simp
  then show ?thesis by auto
qed

lemma email_cell: "js_lower (js_trim ''Email'') = ''email''" "js_lower (js_trim ''Name'') = ''name''"
  by code_simp+

lemma detect_export: "detect_csv_delimiter csv = CHR '',''"
  if csv: "csv = quote_csv_cell ''Name'' @ CHR '','' # quote_csv_cell ''Email'' @ CHR '','' # rest"
proof -
  obtain more where header: "first_non_blank_line (length csv + 1) csv =
      quote_csv_cell ''Name'' @ CHR '','' # quote_csv_cell ''Email'' @ CHR '','' # more" (is "_ = ?h")
    using first_line_of_export [OF csv] by blast
  have by_comma: "split_csv_line (CHR '','') ?h = ''Name'' # ''Email'' # split_csv_line (CHR '','') more"
    by (simp add: split_csv_line_quoted)
  have comma: "required_columns_found ?h (CHR '','') \<ge> 1"
    unfolding required_columns_found_def by_comma
    by (simp add: email_cell required_columns_def Let_def)
  have "split_csv_line d ?h = [''Name'']" if "d \<noteq> CHR '',''" for d
    using that by (simp add: split_csv_line_quoted)
  then have other: "required_columns_found ?h d = 0" if "d \<noteq> CHR '',''" for d
    using that by (simp add: required_columns_found_def required_columns_def email_cell Let_def)
  show ?thesis
    unfolding detect_csv_delimiter_def header csv_delimiters_def
    using comma other [of "CHR '';''"] other [of "CHR 0x09"] by (simp add: Let_def)
qed

lemma export_text_start:
  "\<exists>rest. build_export_csv rows (build_export_columns attrs) =
     quote_csv_cell ''Name'' @ CHR '','' # quote_csv_cell ''Email'' @ CHR '','' # rest"
proof -
  obtain more where header: "drop 1 (build_export_columns attrs) = ''Name'' # ''Email'' # ''Company'' # more"
    using export_header by blast
  have line: "csv_line (CHR '','') (''Name'' # ''Email'' # ''Company'' # more) =
      quote_csv_cell ''Name'' @ CHR '','' # quote_csv_cell ''Email'' @ CHR '','' #
      csv_line (CHR '','') (''Company'' # more)"
    by (simp add: csv_line_def)
  show ?thesis
    unfolding build_export_csv_text header
    by (cases rows) (simp_all add: csv_text_def line)
qed

section \<open>Properties\<close>

text \<open>C28: An exported file reads back: the reader of the import finds the comma as its separator,
  one well-formed record for the header and one for each exported row, and in each record exactly
  the cells that were written, whatever quotes, separators and line breaks they hold.\<close>

theorem export_reads_back:
  "detect_csv_delimiter (build_export_csv rows (build_export_columns attrs)) = CHR '','' \<and>
   map (\<lambda>r. (split_csv_line (CHR '','') (cr_text r), cr_malformed r))
     (csv_records (build_export_csv rows (build_export_columns attrs)) (CHR '','')) =
   map (\<lambda>cells. (cells, False)) (drop 1 (build_export_columns attrs) # map export_cells rows)"
proof
  obtain more where header: "drop 1 (build_export_columns attrs) = ''Name'' # ''Email'' # ''Company'' # more"
    using export_header by blast
  show "detect_csv_delimiter (build_export_csv rows (build_export_columns attrs)) = CHR '',''"
    using export_text_start detect_export by blast
  have cells: "\<forall>r \<in> set (drop 1 (build_export_columns attrs) # map export_cells rows). r \<noteq> []"
    using header by (auto simp: export_cells_def)
  have "split_csv_line (CHR '','') (csv_line (CHR '','') r) = r"
    if "r \<in> set (drop 1 (build_export_columns attrs) # map export_cells rows)" for r
    using cells that by (intro split_csv_line_written) auto
  then have "map (\<lambda>r. (split_csv_line (CHR '','') (csv_line (CHR '','') r), False))
      (drop 1 (build_export_columns attrs) # map export_cells rows) =
    map (\<lambda>cells. (cells, False)) (drop 1 (build_export_columns attrs) # map export_cells rows)"
    by (intro map_cong) simp_all
  moreover have "csv_records (csv_text (CHR '','') (drop 1 (build_export_columns attrs) # map export_cells rows)) (CHR '','') =
      map (\<lambda>r. \<lparr>cr_text = csv_line (CHR '','') r, cr_malformed = False\<rparr>)
        (drop 1 (build_export_columns attrs) # map export_cells rows)"
    by (rule csv_records_written [OF _ _ _ cells]) simp_all
  ultimately show "map (\<lambda>r. (split_csv_line (CHR '','') (cr_text r), cr_malformed r))
     (csv_records (build_export_csv rows (build_export_columns attrs)) (CHR '','')) =
   map (\<lambda>cells. (cells, False)) (drop 1 (build_export_columns attrs) # map export_cells rows)"
    unfolding build_export_csv_text by (simp only: map_map comp_def csv_record.simps)
qed

text \<open>An export holds no erased person: each of its rows is about an attendee of the event whom
  the filter selects, who had not been erased when the file was built, even if the erasure
  committed while the export ran; and there are at most as many rows as the cap.\<close>

theorem export_only_live_attendees:
  assumes run: "export_attendees_csv as_text format_local zone_of others eid filters db = (Inr res, db')"
  shows "\<exists>kept attrs types zone. xp_rows res = map (build_sanitized_export_row format_local attrs zone types) kept \<and>
    length kept \<le> export_row_cap \<and>
    (\<forall>a \<in> set kept. a \<in> set (attendees db) \<and> att_event_id a = eid \<and> list_where_sql as_text db eid filters a \<and>
      (\<exists>b \<in> set (attendees db'). att_id b = att_id a \<and> att_erased_at b = None))"
proof -
  let ?rows = "find_filtered_attendees_for_export as_text eid filters db"
  from run obtain event where event: "event_by_id eid db = Some event"
    by (auto simp: export_attendees_csv_def split: option.splits)
  let ?attrs = "load_event_custom_data_fields eid db" and ?types = "load_event_ticket_types db eid"
  let ?kept = "keep_live_rows db' att_id ?rows"
  have rows: "xp_rows res = map (build_sanitized_export_row format_local ?attrs (zone_of (ev_timezone event)) ?types) ?kept"
    using run event by (auto simp: export_attendees_csv_def Let_def split: if_splits)
  have few: "length ?rows \<le> export_row_cap"
    by (simp add: find_filtered_attendees_for_export_def Let_def)
  then have "length ?kept \<le> export_row_cap"
    by (auto simp: keep_live_rows_def Let_def intro: order_trans [OF length_filter_le])
  moreover have "a \<in> set (attendees db) \<and> att_event_id a = eid \<and> list_where_sql as_text db eid filters a \<and>
      (\<exists>b \<in> set (attendees db'). att_id b = att_id a \<and> att_erased_at b = None)"
    if a: "a \<in> set ?kept" for a
  proof -
    have in_rows: "a \<in> set ?rows" and live: "att_id a \<in> set (live_attendee_ids db' (map att_id ?rows))"
      using a by (auto simp: keep_live_rows_def Let_def split: if_splits)
    let ?p = "filters\<lparr>lf_include_erased := False\<rparr>"
    have "a \<in> set (attendees db) \<and> list_where_sql as_text db eid ?p a"
      using in_rows where_agree [of ?p as_text db eid]
      by (auto simp: find_filtered_attendees_for_export_def Let_def dest!: in_set_takeD split: if_splits)
    moreover have "list_where_sql as_text db eid ?p a \<Longrightarrow> list_where_sql as_text db eid filters a"
      by (simp add: list_where_sql_def attendee_erased_sql_def)
    ultimately show ?thesis
      using live by (auto simp: live_attendee_ids_set list_where_sql_def)
  qed
  ultimately show ?thesis using rows by blast
qed

lemma export_only_live_attendees_witness:
  "\<exists>res kept attrs types zone. export_attendees_csv (\<lambda>_. None) (\<lambda>_ _. []) (\<lambda>z. z) (\<lambda>d. d) ''e1'' (name_filter ''guest'') sample_db = (Inr res, sample_db) \<and>
     xp_rows res = map (build_sanitized_export_row (\<lambda>_ _. []) attrs zone types) kept \<and> length kept \<le> export_row_cap"
proof -
  have "\<exists>res. export_attendees_csv (\<lambda>_. None) (\<lambda>_ _. []) (\<lambda>z. z) (\<lambda>d. d) ''e1'' (name_filter ''guest'') sample_db = (Inr res, sample_db)"
  proof -
    have "count_filtered_attendees (\<lambda>_. None) ''e1'' ((name_filter ''guest'')\<lparr>lf_include_erased := False\<rparr>) sample_db \<le> export_row_cap"
      by (rule order_trans [of _ "length (attendees sample_db)"])
        (simp_all add: count_is_where count_where_def export_row_cap_def sample_db_def)
    then show ?thesis by (simp add: export_attendees_csv_def event_by_id_def sample_db_def Let_def)
  qed
  then obtain res where run: "export_attendees_csv (\<lambda>_. None) (\<lambda>_ _. []) (\<lambda>z. z) (\<lambda>d. d) ''e1'' (name_filter ''guest'') sample_db = (Inr res, sample_db)" by blast
  from export_only_live_attendees [OF run] run show ?thesis by blast
qed

end
