(* ===== verification/Custom_Data.thy ===== *)
theory Custom_Data
  imports Attendee_Card "HOL-Library.AList"
begin

text \<open>
  The custom fields of an attendee: which slugs are reserved
  (\<open>packages/tickets/src/custom-data-reserved.ts\<close>), how a value is normalized and checked
  (\<open>validate-custom-data.ts\<close>), and how the cells of an imported row become custom data
  (\<open>packages/import/src/custom-data-import.ts\<close>). A plain object with string values is an
  association list with unique keys; a thrown \<open>Error\<close> is a constructor with the slug in its message.
\<close>

type_synonym string_record = "(string \<times> string) list"

datatype custom_data_error =
    Invalid_custom_data_value string
  | Required_custom_data_field_missing string
  | Unknown_custom_data_field string
  | Validation_failed string

section \<open>Reserved slugs\<close>

definition reserved_custom_data_source_fields :: "string list" where
  "reserved_custom_data_source_fields =
     [''first_name'', ''last_name'', ''name'', ''email'', ''ticket_type'', ''external_uuid'',
      ''qr_payload'', ''company'', ''department'', ''__proto__'', ''constructor'', ''prototype'']"

definition is_reserved_custom_data_source_field :: "string \<Rightarrow> bool" where
  "is_reserved_custom_data_source_field slug \<longleftrightarrow> slug \<in> set reserved_custom_data_source_fields"

definition filter_custom_data_attribute_fields :: "item_content list \<Rightarrow> item_content list" where
  "filter_custom_data_attribute_fields attrs =
     filter (\<lambda>f. \<not> is_reserved_custom_data_source_field (ct_source_field f)) attrs"

section \<open>Values\<close>

definition normalize_custom_data_field_value ::
  "item_content \<Rightarrow> string option \<Rightarrow> custom_data_error + string option" where
  "normalize_custom_data_field_value f raw = (case raw of None \<Rightarrow> Inr None
     | Some r \<Rightarrow>
         let trimmed = js_trim r in
         if trimmed = [] then Inr None
         else if ct_type f = ''boolean''
         then (let lower = js_lower trimmed in
               if lower \<in> set boolean_true then Inr (Some ''true'')
               else if lower \<in> set boolean_false then Inr (Some ''false'')
               else Inl (Invalid_custom_data_value (ct_source_field f)))
         else if ct_type f = ''select''
         then (case List.find (\<lambda>opt. opt = trimmed)
                 (case ct_options f of None \<Rightarrow> [] | Some opts \<Rightarrow> opts) of
               None \<Rightarrow> Inl (Invalid_custom_data_value (ct_source_field f))
             | Some opt \<Rightarrow> Inr (Some opt))
         else Inr (Some (take 100 trimmed)))"

fun assert_required_fields_present ::
  "item_content list \<Rightarrow> (string \<Rightarrow> string option) \<Rightarrow> custom_data_error + unit" where
  "assert_required_fields_present [] values = Inr ()"
| "assert_required_fields_present (f # fs) values =
     (if ct_required f \<and> \<not> truthy (values (ct_source_field f))
      then Inl (Required_custom_data_field_missing (ct_source_field f))
      else assert_required_fields_present fs values)"

fun assert_values_normalize ::
  "item_content list \<Rightarrow> (string \<Rightarrow> string option) \<Rightarrow> custom_data_error + unit" where
  "assert_values_normalize [] values = Inr ()"
| "assert_values_normalize (f # fs) values =
     (if truthy (values (ct_source_field f))
      then (case normalize_custom_data_field_value f (values (ct_source_field f)) of
          Inl e \<Rightarrow> Inl e
        | Inr _ \<Rightarrow> assert_values_normalize fs values)
      else assert_values_normalize fs values)"

definition assert_stored_custom_data_valid ::
  "item_content list \<Rightarrow> (string \<Rightarrow> string option) \<Rightarrow> custom_data_error + unit" where
  "assert_stored_custom_data_valid attrs values =
     (case assert_values_normalize attrs values of Inl e \<Rightarrow> Inl e
      | Inr _ \<Rightarrow> assert_required_fields_present attrs values)"

text \<open>The map from slug to field: of two fields with one slug, the later.\<close>

definition field_by_key :: "item_content list \<Rightarrow> string \<Rightarrow> item_content option" where
  "field_by_key attrs key = List.find (\<lambda>f. ct_source_field f = key) (rev attrs)"

definition assign_custom_data_entry ::
  "item_content list \<Rightarrow> string_record \<Rightarrow> string \<Rightarrow> json \<Rightarrow> custom_data_error + string_record" where
  "assign_custom_data_entry attrs out key value =
     (case field_by_key attrs key of None \<Rightarrow> Inl (Unknown_custom_data_field key)
      | Some f \<Rightarrow>
          (case value of
             JNull \<Rightarrow> Inr out
           | JStr s \<Rightarrow>
               if s = [] then Inr out
               else (case normalize_custom_data_field_value f (Some s) of
                   Inl e \<Rightarrow> Inl e
                 | Inr n \<Rightarrow> Inr (if truthy n then AList.update key (the n) out else out))
           | _ \<Rightarrow> Inl (Validation_failed key)))"

fun assign_entries ::
  "item_content list \<Rightarrow> (string \<times> json) list \<Rightarrow> string_record \<Rightarrow> custom_data_error + string_record" where
  "assign_entries attrs [] out = Inr out"
| "assign_entries attrs ((key, value) # kvs) out =
     (case assign_custom_data_entry attrs out key value of Inl e \<Rightarrow> Inl e
      | Inr out' \<Rightarrow> assign_entries attrs kvs out')"

definition build_custom_data_from_input ::
  "item_content list \<Rightarrow> (string \<times> json) list option \<Rightarrow> custom_data_error + string_record option" where
  "build_custom_data_from_input attrs input =
     (case assign_entries attrs (case input of None \<Rightarrow> [] | Some kvs \<Rightarrow> kvs) [] of
        Inl e \<Rightarrow> Inl e
      | Inr out \<Rightarrow>
          (case assert_required_fields_present attrs (map_of out) of
             Inl e \<Rightarrow> Inl e
           | Inr _ \<Rightarrow> Inr (if out \<noteq> [] then Some out else None)))"

fun apply_patch ::
  "item_content list \<Rightarrow> (string \<times> string option) list \<Rightarrow> (string \<times> string option) list \<Rightarrow>
   (string \<times> string option) list \<Rightarrow>
   custom_data_error + ((string \<times> string option) list \<times> (string \<times> string option) list)" where
  "apply_patch attrs [] merged normalized = Inr (merged, normalized)"
| "apply_patch attrs ((key, value) # kvs) merged normalized =
     (case List.find (\<lambda>f. ct_source_field f = key) attrs of
        None \<Rightarrow> Inl (Unknown_custom_data_field key)
      | Some f \<Rightarrow>
          if value = None \<or> value = Some []
          then apply_patch attrs kvs (AList.update key None merged) (AList.update key None normalized)
          else (case normalize_custom_data_field_value f value of
              Inl e \<Rightarrow> Inl e
            | Inr n \<Rightarrow> apply_patch attrs kvs (AList.update key n merged) (AList.update key n normalized)))"

definition stored_values :: "item_content list \<Rightarrow> json \<Rightarrow> (string \<times> string option) list" where
  "stored_values attrs stored =
     fold (\<lambda>f kvs. AList.update (ct_source_field f) (custom_data_value stored (ct_source_field f)) kvs) attrs []"

definition own_value :: "(string \<times> string option) list \<Rightarrow> string \<Rightarrow> string option" where
  "own_value kvs key = Option.bind (map_of kvs key) (\<lambda>v. v)"

definition validate_custom_data_patch ::
  "item_content list \<Rightarrow> json \<Rightarrow> (string \<times> string option) list \<Rightarrow>
   custom_data_error + (string \<times> string option) list" where
  "validate_custom_data_patch attrs existing patch =
     (case apply_patch attrs patch (stored_values attrs existing) [] of
        Inl e \<Rightarrow> Inl e
      | Inr (merged, normalized) \<Rightarrow>
          (case assert_stored_custom_data_valid attrs (own_value merged) of
             Inl e \<Rightarrow> Inl e
           | Inr _ \<Rightarrow> Inr normalized))"

definition assert_custom_data_meets_requirements ::
  "item_content list \<Rightarrow> json \<Rightarrow> custom_data_error + unit" where
  "assert_custom_data_meets_requirements attrs custom_data =
     assert_stored_custom_data_valid attrs (own_value (stored_values attrs custom_data))"

section \<open>Cells of an imported row\<close>

definition normalized_label_key :: "string \<Rightarrow> string" where
  "normalized_label_key label = js_lower (js_trim label)"

definition duplicate_labels :: "item_content list \<Rightarrow> string set" where
  "duplicate_labels attrs = {l \<in> set (map (\<lambda>f. normalized_label_key (ct_label f)) attrs).
     count_where (\<lambda>f. normalized_label_key (ct_label f) = l) attrs > 1}"

definition export_style_label :: "item_content \<Rightarrow> string set \<Rightarrow> string" where
  "export_style_label f dups =
     (if normalized_label_key (ct_label f) \<in> dups
      then ct_label f @ '' ('' @ ct_source_field f @ '')'' else ct_label f)"

definition build_attribute_header_keys :: "item_content list \<Rightarrow> string set \<times> string set" where
  "build_attribute_header_keys attrs =
     (let dups = duplicate_labels attrs
      in (set (concat (map (\<lambda>f. [ct_source_field f, js_lower (js_trim (export_style_label f dups))]) attrs)), dups))"

definition read_attribute_cell :: "string_record \<Rightarrow> item_content \<Rightarrow> string set \<Rightarrow> string" where
  "read_attribute_cell raw f dups =
     (case map_of raw (ct_source_field f) of Some direct \<Rightarrow> js_trim direct
      | None \<Rightarrow>
          let label_key = js_lower (js_trim (export_style_label f dups))
          in if is_reserved_custom_data_source_field label_key then []
             else js_trim (case map_of raw label_key of None \<Rightarrow> [] | Some v \<Rightarrow> v))"

fun partial_entries ::
  "item_content list \<Rightarrow> string_record \<Rightarrow> string_record \<Rightarrow> custom_data_error + string_record" where
  "partial_entries attrs [] out = Inr out"
| "partial_entries attrs ((key, value) # kvs) out =
     (case field_by_key attrs key of None \<Rightarrow> Inl (Unknown_custom_data_field key)
      | Some f \<Rightarrow>
          (case normalize_custom_data_field_value f (Some value) of Inl e \<Rightarrow> Inl e
           | Inr n \<Rightarrow> partial_entries attrs kvs (if truthy n then AList.update key (the n) out else out)))"

definition build_partial_custom_data_from_input ::
  "item_content list \<Rightarrow> string_record \<Rightarrow> custom_data_error + string_record option" where
  "build_partial_custom_data_from_input attrs input =
     (case partial_entries attrs input [] of Inl e \<Rightarrow> Inl e
      | Inr out \<Rightarrow> Inr (if out \<noteq> [] then Some out else None))"

definition import_custom_data_skip_reason :: "custom_data_error \<Rightarrow> item_content list \<Rightarrow> string" where
  "import_custom_data_skip_reason err attrs =
     (case err of
        Required_custom_data_field_missing slug \<Rightarrow>
          ''Missing required attribute: '' @
          (case List.find (\<lambda>f. ct_source_field f = slug) attrs of Some f \<Rightarrow> ct_label f | None \<Rightarrow> slug)
      | _ \<Rightarrow> ''Invalid custom attribute data'')"

definition invalid_value_hint :: "item_content \<Rightarrow> string" where
  "invalid_value_hint f =
     (if ct_type f = ''select'' \<and> (case ct_options f of None \<Rightarrow> False | Some opts \<Rightarrow> opts \<noteq> [])
      then '' (expected one of: '' @ join_with '', '' (the (ct_options f)) @ '')''
      else if ct_type f = ''boolean'' then '' (expected Yes/No or true/false)''
      else [])"

definition find_invalid_custom_data_field ::
  "string_record \<Rightarrow> item_content list \<Rightarrow> string set \<Rightarrow> item_content option" where
  "find_invalid_custom_data_field raw attrs dups =
     List.find (\<lambda>f. let value = read_attribute_cell raw f dups
                    in value \<noteq> [] \<and> isl (normalize_custom_data_field_value f (Some value))) attrs"

definition custom_data_extraction_failure ::
  "custom_data_error \<Rightarrow> string_record \<Rightarrow> item_content list \<Rightarrow> string set \<Rightarrow> string" where
  "custom_data_extraction_failure err raw attrs dups =
     (case err of
        Invalid_custom_data_value _ \<Rightarrow>
          (case find_invalid_custom_data_field raw attrs dups of
             Some f \<Rightarrow> ''Invalid value for '' @ ct_label f @ invalid_value_hint f
           | None \<Rightarrow> ''Invalid custom attribute data'')
      | _ \<Rightarrow> ''Invalid custom attribute data'')"

text \<open>\<open>Inl\<close> is a failure with its reason, \<open>Inr\<close> the custom data of the row, if it has any.\<close>

definition extract_custom_data_from_row ::
  "string_record \<Rightarrow> item_content list \<Rightarrow> string set \<Rightarrow> string + string_record option" where
  "extract_custom_data_from_row raw attribute_fields dups =
     (let attrs = filter_custom_data_attribute_fields attribute_fields in
      if attrs = [] then Inr None
      else let input = fold (\<lambda>f kvs.
                 let value = read_attribute_cell raw f dups
                 in if value \<noteq> [] then AList.update (ct_source_field f) value kvs else kvs) attrs []
        in case build_partial_custom_data_from_input attrs input of
             Inl err \<Rightarrow> Inl (custom_data_extraction_failure err raw attrs dups)
           | Inr custom_data \<Rightarrow> Inr custom_data)"

end
