(* ===== verification/Import_Parse.thy ===== *)
theory Import_Parse
  imports Csv_Text Custom_Data
begin

text \<open>
  From the text of an import file to rows: \<open>packages/import/src/parser.ts\<close> and
  \<open>ticket-type-import.ts\<close>. Whether an address is well-formed (zod's email check) is a parameter.
  A row index counts the records after the header, from 1.
\<close>

section \<open>Rows\<close>

record import_ticket_type =
  it_key :: string
  it_label :: string

record attendee_row =
  rw_row_index :: nat
  rw_first_name :: string
  rw_last_name :: string
  rw_email :: string
  rw_ticket_type :: "string option"
  rw_external_uuid :: "string option"
  rw_qr_payload :: "string option"
  rw_company :: "string option"
  rw_department :: "string option"
  rw_custom_data :: "string_record option"

record invalid_row =
  iv_row_index :: nat
  iv_raw :: string_record
  iv_reason :: string

record parse_result =
  pr_valid_rows :: "attendee_row list"
  pr_invalid_rows :: "invalid_row list"
  pr_warnings :: "string list"

record parse_options =
  po_attribute_fields :: "item_content list"
  po_ticket_types :: "import_ticket_type list option"

section \<open>The header\<close>

definition canonical_columns :: "string list" where
  "canonical_columns = filter (\<lambda>column. column \<noteq> ''name'') reserved_custom_data_source_fields"

definition normalize_header :: "string \<Rightarrow> string" where
  "normalize_header h = js_lower (js_trim h)"

definition build_row :: "string list \<Rightarrow> string list \<Rightarrow> string_record" where
  "build_row headers cells =
     fold (\<lambda>(i, key) row. AList.update key (js_trim (if i < length cells then cells ! i else [])) row)
       (enumerate 0 headers) []"

text \<open>The values that occurred before, each once, in the order of their second occurrence.\<close>

definition duplicates_of :: "string list \<Rightarrow> string list" where
  "duplicates_of xs = unique_in_order (map snd (filter (\<lambda>(i, x). x \<in> set (take i xs)) (enumerate 0 xs)))"

definition parse_header_line :: "string \<Rightarrow> string set \<Rightarrow> char \<Rightarrow> string list \<times> string list" where
  "parse_header_line header_line attribute_header_keys delimiter =
     (let raw_headers = map normalize_header (split_csv_line delimiter header_line);
          dups = duplicates_of raw_headers;
          dup_warning = (if dups \<noteq> []
            then [''Duplicate column(s) detected (last value used): '' @ join_with '', '' dups] else []);
          unknown = map (\<lambda>h. ''Unknown column ignored: '' @ [quote_mark] @ h @ [quote_mark])
            (filter (\<lambda>h. h \<notin> set canonical_columns \<and> h \<notin> attribute_header_keys) raw_headers);
          no_email = (if ''email'' \<notin> set raw_headers
            then [''CSV has no 'email' column. All rows will be invalid''] else [])
      in (raw_headers, dup_warning @ unknown @ no_email))"

section \<open>One row\<close>

text \<open>\<open>packages/tickets/src/erase-attendees.ts\<close>: the namespace of erased attendees' addresses.\<close>

definition erased_email_domain :: string where
  "erased_email_domain = ''erased.invalid''"

definition is_erased_placeholder_email :: "string \<Rightarrow> bool" where
  "is_erased_placeholder_email email =
     starts_with (rev (CHR ''@'' # erased_email_domain)) (rev (js_lower (js_trim email)))"

definition quoted_text :: "string \<Rightarrow> string" where
  "quoted_text s = [quote_mark] @ s @ [quote_mark]"

definition resolve_identity ::
  "(string \<Rightarrow> bool) \<Rightarrow> string \<Rightarrow> string \<Rightarrow> string \<Rightarrow> string + (string \<times> string)" where
  "resolve_identity email_ok first last_name email =
     (if first = [] \<or> last_name = [] then Inl ''Both first_name and last_name are required''
      else if email = [] then Inl ''Missing email''
      else if \<not> email_ok email \<or> is_erased_placeholder_email email
      then Inl (''Invalid email: '' @ quoted_text email)
      else Inr (first, last_name))"

record seen_identifiers =
  sn_emails :: "string set"
  sn_uuids :: "string set"
  sn_qr_payloads :: "string set"
  sn_agency :: "string set"

definition nothing_seen :: seen_identifiers where
  "nothing_seen = \<lparr>sn_emails = {}, sn_uuids = {}, sn_qr_payloads = {}, sn_agency = {}\<rparr>"

definition find_duplicate_identifier_conflict ::
  "string \<Rightarrow> string option \<Rightarrow> string option \<Rightarrow> seen_identifiers \<Rightarrow> string option" where
  "find_duplicate_identifier_conflict email uuid qr seen =
     (if email \<in> sn_emails seen then Some (''Duplicate email in file: '' @ quoted_text email)
      else if truthy uuid \<and> the uuid \<in> sn_uuids seen
      then Some (''Duplicate external_uuid in file: '' @ quoted_text (the uuid))
      else if truthy qr \<and> the qr \<in> sn_qr_payloads seen
      then Some (''Duplicate qr_payload in file: '' @ quoted_text (the qr))
      else if truthy uuid \<and> the uuid \<in> sn_agency seen \<and> the uuid \<notin> sn_uuids seen
      then Some (''Agency identifier collides across columns: '' @ quoted_text (the uuid))
      else if truthy qr \<and> the qr \<in> sn_agency seen \<and> the qr \<notin> sn_qr_payloads seen
      then Some (''Agency identifier collides across columns: '' @ quoted_text (the qr))
      else None)"

definition resolve_import_ticket_type ::
  "string \<Rightarrow> import_ticket_type list \<Rightarrow> import_ticket_type option" where
  "resolve_import_ticket_type raw catalog =
     (let norm = js_lower (js_trim raw) in
      if norm = [] then None
      else let label_matches = filter (\<lambda>t. js_lower (it_label t) = norm) catalog
        in case List.find (\<lambda>t. js_lower (it_key t) = norm) catalog of
             Some key_match \<Rightarrow>
               if \<exists>t \<in> set label_matches. it_key t \<noteq> it_key key_match then None else Some key_match
           | None \<Rightarrow> (case label_matches of [t] \<Rightarrow> Some t | _ \<Rightarrow> None))"

definition resolve_row_ticket_type ::
  "string option \<Rightarrow> import_ticket_type list option \<Rightarrow> string + string option" where
  "resolve_row_ticket_type raw types =
     (case (raw, types) of
        (Some r, Some catalog) \<Rightarrow>
          (case resolve_import_ticket_type r catalog of
             None \<Rightarrow> Inl (''Unknown ticket type: '' @ quoted_text r)
           | Some found \<Rightarrow> Inr (Some (it_key found)))
      | _ \<Rightarrow> Inr raw)"

definition add_identifier :: "string option \<Rightarrow> string set \<Rightarrow> string set" where
  "add_identifier x S = (if truthy x then insert (the x) S else S)"

definition mark_identifiers_seen ::
  "string \<Rightarrow> string option \<Rightarrow> string option \<Rightarrow> seen_identifiers \<Rightarrow> seen_identifiers" where
  "mark_identifiers_seen email uuid qr seen =
     \<lparr>sn_emails = insert email (sn_emails seen),
      sn_uuids = add_identifier uuid (sn_uuids seen),
      sn_qr_payloads = add_identifier qr (sn_qr_payloads seen),
      sn_agency = add_identifier qr (add_identifier uuid (sn_agency seen))\<rparr>"

text \<open>Malformed quoting or extra cells refuse the record.\<close>

definition record_cells :: "csv_record \<Rightarrow> nat \<Rightarrow> char \<Rightarrow> string list option" where
  "record_cells r header_count delimiter =
     (if cr_malformed r then None
      else let cells = split_csv_line delimiter (cr_text r)
        in if length cells > header_count then None else Some cells)"

definition cell_of :: "string_record \<Rightarrow> string \<Rightarrow> string" where
  "cell_of raw column = js_trim (case map_of raw column of None \<Rightarrow> [] | Some v \<Rightarrow> v)"

definition optional_cell :: "string_record \<Rightarrow> string \<Rightarrow> string option" where
  "optional_cell raw column = non_empty (cell_of raw column)"

definition build_validated_row ::
  "nat \<Rightarrow> string_record \<Rightarrow> string \<Rightarrow> string \<Rightarrow> string option \<Rightarrow> string_record option \<Rightarrow> attendee_row" where
  "build_validated_row idx raw first last_name ticket_type custom_data =
     \<lparr>rw_row_index = idx, rw_first_name = first, rw_last_name = last_name,
      rw_email = js_lower (cell_of raw ''email''), rw_ticket_type = ticket_type,
      rw_external_uuid = optional_cell raw ''external_uuid'',
      rw_qr_payload = optional_cell raw ''qr_payload'',
      rw_company = optional_cell raw ''company'', rw_department = optional_cell raw ''department'',
      rw_custom_data = custom_data\<rparr>"

text \<open>One turn of the loop: the row or the reason it is refused.\<close>

definition parse_record ::
  "(string \<Rightarrow> bool) \<Rightarrow> parse_options \<Rightarrow> string set \<Rightarrow> char \<Rightarrow> string list \<Rightarrow> seen_identifiers \<Rightarrow>
   nat \<Rightarrow> csv_record \<Rightarrow> invalid_row + attendee_row" where
  "parse_record email_ok options dups delimiter headers seen idx r =
     (case record_cells r (length headers) delimiter of
        None \<Rightarrow> Inl \<lparr>iv_row_index = idx, iv_raw = [], iv_reason = ''Malformed CSV record''\<rparr>
      | Some cells \<Rightarrow>
          let raw = build_row headers cells;
              refuse = (\<lambda>reason. Inl \<lparr>iv_row_index = idx, iv_raw = raw, iv_reason = reason\<rparr>);
              email = js_lower (cell_of raw ''email'');
              uuid = optional_cell raw ''external_uuid'';
              qr = optional_cell raw ''qr_payload''
          in case resolve_identity email_ok (cell_of raw ''first_name'') (cell_of raw ''last_name'') email of
               Inl reason \<Rightarrow> refuse reason
             | Inr (first, last_name) \<Rightarrow>
                 (case find_duplicate_identifier_conflict email uuid qr seen of
                    Some reason \<Rightarrow> refuse reason
                  | None \<Rightarrow>
                      (case extract_custom_data_from_row raw (po_attribute_fields options) dups of
                         Inl reason \<Rightarrow> refuse reason
                       | Inr custom_data \<Rightarrow>
                           (case resolve_row_ticket_type (optional_cell raw ''ticket_type'') (po_ticket_types options) of
                              Inl reason \<Rightarrow> refuse reason
                            | Inr ticket_type \<Rightarrow>
                                Inr (build_validated_row idx raw first last_name ticket_type custom_data)))))"

fun parse_records ::
  "(string \<Rightarrow> bool) \<Rightarrow> parse_options \<Rightarrow> string set \<Rightarrow> char \<Rightarrow> string list \<Rightarrow> seen_identifiers \<Rightarrow>
   nat \<Rightarrow> csv_record list \<Rightarrow> attendee_row list \<times> invalid_row list" where
  "parse_records email_ok options dups delimiter headers seen idx [] = ([], [])"
| "parse_records email_ok options dups delimiter headers seen idx (r # rs) =
     (case parse_record email_ok options dups delimiter headers seen idx r of
        Inl bad \<Rightarrow>
          (let rest = parse_records email_ok options dups delimiter headers seen (Suc idx) rs
           in (fst rest, bad # snd rest))
      | Inr row \<Rightarrow>
          (let seen' = mark_identifiers_seen (rw_email row) (rw_external_uuid row) (rw_qr_payload row) seen;
               rest = parse_records email_ok options dups delimiter headers seen' (Suc idx) rs
           in (row # fst rest, snd rest)))"

section \<open>The whole file\<close>

definition parse_attendees :: "(string \<Rightarrow> bool) \<Rightarrow> string \<Rightarrow> parse_options \<Rightarrow> parse_result" where
  "parse_attendees email_ok csv options =
     (let keys = build_attribute_header_keys (po_attribute_fields options);
          delimiter = detect_csv_delimiter csv
      in case csv_records csv delimiter of
           [] \<Rightarrow> \<lparr>pr_valid_rows = [], pr_invalid_rows = [], pr_warnings = [''CSV is empty'']\<rparr>
         | header # rest \<Rightarrow>
             if cr_malformed header
             then \<lparr>pr_valid_rows = [], pr_invalid_rows = [], pr_warnings = [''Malformed CSV header'']\<rparr>
             else let parsed_header = parse_header_line (cr_text header) (fst keys) delimiter;
                      rows = parse_records email_ok options (snd keys) delimiter (fst parsed_header)
                               nothing_seen 1 rest
               in \<lparr>pr_valid_rows = fst rows, pr_invalid_rows = snd rows,
                   pr_warnings = snd parsed_header @
                     (if fst rows = [] \<and> snd rows = []
                      then [''CSV has a header row but no data rows''] else [])\<rparr>)"

end
