(* ===== verification/Import_Parse_Props.thy ===== *)
theory Import_Parse_Props
  imports Import_Parse "HOL-Library.Multiset"
begin

text \<open>
  What the parser of an import file promises: every record after the header is either a valid row
  or a refused one, a valid row has everything the commit relies on, and no two valid rows share
  an address or an agency identifier.
\<close>

lemma optional_cell_truthy [simp]: "truthy (optional_cell raw column) \<longleftrightarrow> optional_cell raw column \<noteq> None"
  by (auto simp: optional_cell_def non_empty_def truthy_def)

lemma optional_cell_nonempty: "optional_cell raw column = Some v \<Longrightarrow> v \<noteq> []"
  by (auto simp: optional_cell_def non_empty_def split: if_splits)

section \<open>A row that is accepted\<close>

lemma parse_record_Inl:
  "parse_record email_ok options dups d headers seen idx r = Inl bad \<Longrightarrow> iv_row_index bad = idx"
  by (auto simp: parse_record_def Let_def split: option.splits sum.splits prod.splits)

lemma parse_record_Inr:
  assumes "parse_record email_ok options dups d headers seen idx r = Inr row"
  obtains raw custom_data ticket_type where
    "row = build_validated_row idx raw (cell_of raw ''first_name'') (cell_of raw ''last_name'') ticket_type custom_data"
    "resolve_identity email_ok (cell_of raw ''first_name'') (cell_of raw ''last_name'') (rw_email row) =
       Inr (cell_of raw ''first_name'', cell_of raw ''last_name'')"
    "find_duplicate_identifier_conflict (rw_email row) (rw_external_uuid row) (rw_qr_payload row) seen = None"
    "extract_custom_data_from_row raw (po_attribute_fields options) dups = Inr custom_data"
    "resolve_row_ticket_type (optional_cell raw ''ticket_type'') (po_ticket_types options) = Inr ticket_type"
proof -
  from assms obtain cells where cells: "record_cells r (length headers) d = Some cells"
    by (auto simp: parse_record_def split: option.splits)
  let ?raw = "build_row headers cells"
  have identity: "resolve_identity email_ok f l e = Inr (f', l') \<Longrightarrow> f' = f \<and> l' = l" for f l e f' l'
    by (auto simp: resolve_identity_def split: if_splits)
  obtain f l where id: "resolve_identity email_ok (cell_of ?raw ''first_name'') (cell_of ?raw ''last_name'')
      (js_lower (cell_of ?raw ''email'')) = Inr (f, l)"
    using assms cells by (auto simp: parse_record_def Let_def split: sum.splits)
  have none: "find_duplicate_identifier_conflict (js_lower (cell_of ?raw ''email''))
      (optional_cell ?raw ''external_uuid'') (optional_cell ?raw ''qr_payload'') seen = None"
    using assms cells id by (auto simp: parse_record_def Let_def split: option.splits)
  obtain custom where custom: "extract_custom_data_from_row ?raw (po_attribute_fields options) dups = Inr custom"
    using assms cells id none by (auto simp: parse_record_def Let_def split: sum.splits)
  obtain tt where tt: "resolve_row_ticket_type (optional_cell ?raw ''ticket_type'') (po_ticket_types options) = Inr tt"
    using assms cells id none custom by (auto simp: parse_record_def Let_def split: sum.splits)
  have row: "row = build_validated_row idx ?raw (cell_of ?raw ''first_name'') (cell_of ?raw ''last_name'') tt custom"
    using assms cells id none custom tt identity [OF id] by (simp add: parse_record_def Let_def)
  show thesis
  proof (rule that [OF row _ _ custom tt])
    show "resolve_identity email_ok (cell_of ?raw ''first_name'') (cell_of ?raw ''last_name'') (rw_email row) =
       Inr (cell_of ?raw ''first_name'', cell_of ?raw ''last_name'')"
      using id identity [OF id] by (simp add: row build_validated_row_def)
    show "find_duplicate_identifier_conflict (rw_email row) (rw_external_uuid row) (rw_qr_payload row) seen = None"
      using none by (simp add: row build_validated_row_def)
  qed
qed

section \<open>Every record is accounted for\<close>

lemma parse_records_indices:
  "mset (map rw_row_index (fst (parse_records email_ok options dups d headers seen idx rs)) @
     map iv_row_index (snd (parse_records email_ok options dups d headers seen idx rs))) =
   mset [idx..<idx + length rs]"
proof (induction rs arbitrary: seen idx)
  case (Cons r rs)
  have range: "[idx..<idx + length (r # rs)] = idx # [Suc idx..<Suc idx + length rs]"
    by (simp add: upt_conv_Cons del: upt_Suc)
  show ?case
  proof (cases "parse_record email_ok options dups d headers seen idx r")
    case (Inl bad)
    with Cons.IH [of seen "Suc idx"] parse_record_Inl [OF Inl] show ?thesis
      unfolding range by (simp add: Let_def del: upt_Suc)
  next
    case (Inr row)
    then have "rw_row_index row = idx"
      by (rule parse_record_Inr) (simp add: build_validated_row_def)
    with Inr Cons.IH show ?thesis unfolding range by (simp add: Let_def del: upt_Suc)
  qed
qed simp

section \<open>No shared identifiers\<close>

definition agency_ids :: "attendee_row \<Rightarrow> string set" where
  "agency_ids row = set_option (rw_external_uuid row) \<union> set_option (rw_qr_payload row)"

definition no_shared_id :: "attendee_row \<Rightarrow> attendee_row \<Rightarrow> bool" where
  "no_shared_id r s \<longleftrightarrow> rw_email r \<noteq> rw_email s \<and> agency_ids r \<inter> agency_ids s = {}"

definition seen_ok :: "seen_identifiers \<Rightarrow> bool" where
  "seen_ok seen \<longleftrightarrow> sn_agency seen = sn_uuids seen \<union> sn_qr_payloads seen"

lemma no_conflict_iff:
  "find_duplicate_identifier_conflict email uuid qr seen = None \<longleftrightarrow>
     email \<notin> sn_emails seen \<and>
     (truthy uuid \<longrightarrow> the uuid \<notin> sn_uuids seen \<and> the uuid \<notin> sn_agency seen) \<and>
     (truthy qr \<longrightarrow> the qr \<notin> sn_qr_payloads seen \<and> the qr \<notin> sn_agency seen)"
  unfolding find_duplicate_identifier_conflict_def by (simp split: if_split) blast

lemma no_conflict_fresh:
  assumes "find_duplicate_identifier_conflict email uuid qr seen = None" "seen_ok seen"
    and "uuid \<noteq> Some []" "qr \<noteq> Some []"
  shows "email \<notin> sn_emails seen \<and> (set_option uuid \<union> set_option qr) \<inter> sn_agency seen = {}"
  using assms unfolding no_conflict_iff by (cases uuid; cases qr) (simp_all add: truthy_def)

lemma mark_seen_simps:
  "uuid \<noteq> Some [] \<Longrightarrow> qr \<noteq> Some [] \<Longrightarrow>
   sn_emails (mark_identifiers_seen email uuid qr seen) = insert email (sn_emails seen) \<and>
   sn_agency (mark_identifiers_seen email uuid qr seen) = set_option uuid \<union> set_option qr \<union> sn_agency seen"
  by (auto simp: mark_identifiers_seen_def add_identifier_def truthy_def)

lemma mark_seen_ok: "seen_ok seen \<Longrightarrow> seen_ok (mark_identifiers_seen email uuid qr seen)"
  by (auto simp: seen_ok_def mark_identifiers_seen_def add_identifier_def)

lemma parsed_ids_nonempty:
  "parse_record email_ok options dups d headers seen idx r = Inr row \<Longrightarrow>
   rw_external_uuid row \<noteq> Some [] \<and> rw_qr_payload row \<noteq> Some []"
  by (erule parse_record_Inr) (auto simp: build_validated_row_def dest: optional_cell_nonempty)

lemma parse_records_ids:
  assumes "seen_ok seen"
  shows "sorted_wrt no_shared_id (fst (parse_records email_ok options dups d headers seen idx rs)) \<and>
    (\<forall>row \<in> set (fst (parse_records email_ok options dups d headers seen idx rs)).
       rw_email row \<notin> sn_emails seen \<and> agency_ids row \<inter> sn_agency seen = {})"
  using assms
proof (induction rs arbitrary: seen idx)
  case (Cons r rs)
  show ?case
  proof (cases "parse_record email_ok options dups d headers seen idx r")
    case (Inl bad)
    with Cons.IH [OF Cons.prems] show ?thesis by (simp add: Let_def)
  next
    case (Inr row)
    note ids = parsed_ids_nonempty [OF Inr]
    from Inr have none: "find_duplicate_identifier_conflict (rw_email row) (rw_external_uuid row) (rw_qr_payload row) seen = None"
      by (rule parse_record_Inr)
    let ?seen = "mark_identifiers_seen (rw_email row) (rw_external_uuid row) (rw_qr_payload row) seen"
    have marked: "sn_emails ?seen = insert (rw_email row) (sn_emails seen)"
      "sn_agency ?seen = agency_ids row \<union> sn_agency seen"
      using mark_seen_simps ids by (auto simp: agency_ids_def)
    have new: "rw_email row \<notin> sn_emails seen" "agency_ids row \<inter> sn_agency seen = {}"
      using no_conflict_fresh [OF none Cons.prems] ids by (auto simp: agency_ids_def)
    let ?rest = "fst (parse_records email_ok options dups d headers ?seen (Suc idx) rs)"
    have IH: "sorted_wrt no_shared_id ?rest" "\<forall>s \<in> set ?rest. rw_email s \<noteq> rw_email row \<and>
        rw_email s \<notin> sn_emails seen \<and> agency_ids s \<inter> (agency_ids row \<union> sn_agency seen) = {}"
      using Cons.IH [OF mark_seen_ok [OF Cons.prems], of "rw_email row" "rw_external_uuid row" "rw_qr_payload row" "Suc idx"]
      by (simp_all add: marked)
    have "no_shared_id row s" if "s \<in> set (fst (parse_records email_ok options dups d headers ?seen (Suc idx) rs))" for s
      using IH(2) that by (auto simp: no_shared_id_def)
    with IH new Inr show ?thesis by (auto simp: Let_def)
  qed
qed simp

section \<open>What a valid row holds\<close>

lemma field_by_key_Some:
  "field_by_key attrs key = Some f \<Longrightarrow> f \<in> set attrs \<and> ct_source_field f = key"
  unfolding field_by_key_def by (drule find_set) simp

text \<open>A stored value of a custom field: what the field's normalization made of some text.\<close>

definition normalized_entry :: "item_content list \<Rightarrow> string \<times> string \<Rightarrow> bool" where
  "normalized_entry attrs kv \<longleftrightarrow> snd kv \<noteq> [] \<and>
     (\<exists>f \<in> set attrs. ct_source_field f = fst kv \<and>
        (\<exists>raw. normalize_custom_data_field_value f (Some raw) = Inr (Some (snd kv))))"

lemma normalized_value_nonempty:
  "normalize_custom_data_field_value f (Some raw) = Inr (Some v) \<Longrightarrow> truthy (Some v) \<Longrightarrow> v \<noteq> []"
  by (simp add: truthy_def)

lemma set_alist_update: "set (AList.update k v al) \<subseteq> insert (k, v) (set al)"
  by (induction al) auto

lemma partial_entries_normalized:
  assumes "partial_entries attrs kvs out = Inr res" "\<forall>kv \<in> set out. normalized_entry attrs kv"
  shows "\<forall>kv \<in> set res. normalized_entry attrs kv"
  using assms
proof (induction kvs arbitrary: out)
  case (Cons kv kvs)
  obtain key v where kv: "kv = (key, v)" by (cases kv)
  obtain f n where f: "field_by_key attrs key = Some f"
    and n: "normalize_custom_data_field_value f (Some v) = Inr n"
    and rest: "partial_entries attrs kvs (if truthy n then AList.update key (the n) out else out) = Inr res"
    using Cons.prems(1) by (auto simp: kv split: option.splits sum.splits)
  have "normalized_entry attrs (key, the n)" if "truthy n"
    using that n field_by_key_Some [OF f]
    by (cases n) (auto simp: normalized_entry_def truthy_def)
  with Cons.prems(2) set_alist_update [of key "the n" out]
  have "\<forall>kv \<in> set (if truthy n then AList.update key (the n) out else out). normalized_entry attrs kv"
    by (auto split: if_splits)
  with Cons.IH [OF rest] show ?case by blast
qed simp

lemma extracted_custom_data:
  assumes "extract_custom_data_from_row raw attrs dups = Inr (Some data)"
  shows "data \<noteq> [] \<and> (\<forall>kv \<in> set data. normalized_entry (filter_custom_data_attribute_fields attrs) kv)"
proof -
  let ?attrs = "filter_custom_data_attribute_fields attrs"
  obtain input where "build_partial_custom_data_from_input ?attrs input = Inr (Some data)"
    using assms by (auto simp: extract_custom_data_from_row_def Let_def split: if_splits sum.splits)
  then have "partial_entries ?attrs input [] = Inr data \<and> data \<noteq> []"
    by (auto simp: build_partial_custom_data_from_input_def split: sum.splits if_splits)
  with partial_entries_normalized [of ?attrs input "[]" data] show ?thesis by simp
qed

lemma resolved_identity:
  "resolve_identity email_ok first last_name email = Inr names \<Longrightarrow>
   first \<noteq> [] \<and> last_name \<noteq> [] \<and> email_ok email \<and> \<not> is_erased_placeholder_email email"
  by (auto simp: resolve_identity_def split: if_splits)

lemma resolved_ticket_type:
  assumes "resolve_row_ticket_type raw (Some catalog) = Inr (Some key)"
  shows "\<exists>t \<in> set catalog. it_key t = key"
proof -
  obtain r found where "raw = Some r" and found: "resolve_import_ticket_type r catalog = Some found"
    and "key = it_key found"
    using assms by (auto simp: resolve_row_ticket_type_def split: option.splits)
  have single: "x \<in> set xs" if "filter p xs = [x]" for p and x :: import_ticket_type and xs
    using arg_cong [OF that, of set] by auto
  have "found \<in> set catalog"
    using found by (auto simp: resolve_import_ticket_type_def Let_def split: if_splits option.splits list.splits
             dest: find_set single)
  with \<open>key = it_key found\<close> show ?thesis by blast
qed

definition row_sound :: "(string \<Rightarrow> bool) \<Rightarrow> parse_options \<Rightarrow> attendee_row \<Rightarrow> bool" where
  "row_sound email_ok options row \<longleftrightarrow>
     rw_first_name row \<noteq> [] \<and> rw_last_name row \<noteq> [] \<and> email_ok (rw_email row) \<and>
     \<not> is_erased_placeholder_email (rw_email row) \<and>
     (\<forall>catalog key. po_ticket_types options = Some catalog \<longrightarrow> rw_ticket_type row = Some key \<longrightarrow>
        key \<in> it_key ` set catalog) \<and>
     (\<forall>data. rw_custom_data row = Some data \<longrightarrow> data \<noteq> [] \<and>
        (\<forall>kv \<in> set data. normalized_entry (filter_custom_data_attribute_fields (po_attribute_fields options)) kv))"

lemma parse_record_sound:
  assumes "parse_record email_ok options dups d headers seen idx r = Inr row"
  shows "row_sound email_ok options row"
  using assms
proof (rule parse_record_Inr)
  fix raw custom_data ticket_type
  assume row: "row = build_validated_row idx raw (cell_of raw ''first_name'') (cell_of raw ''last_name'') ticket_type custom_data"
    and id: "resolve_identity email_ok (cell_of raw ''first_name'') (cell_of raw ''last_name'') (rw_email row) =
       Inr (cell_of raw ''first_name'', cell_of raw ''last_name'')"
    and custom: "extract_custom_data_from_row raw (po_attribute_fields options) dups = Inr custom_data"
    and tt: "resolve_row_ticket_type (optional_cell raw ''ticket_type'') (po_ticket_types options) = Inr ticket_type"
  have "\<forall>catalog key. po_ticket_types options = Some catalog \<longrightarrow> ticket_type = Some key \<longrightarrow> key \<in> it_key ` set catalog"
    using tt resolved_ticket_type by (metis image_eqI)
  moreover have "\<forall>data. custom_data = Some data \<longrightarrow> data \<noteq> [] \<and>
      (\<forall>kv \<in> set data. normalized_entry (filter_custom_data_attribute_fields (po_attribute_fields options)) kv)"
    using custom extracted_custom_data by blast
  ultimately show ?thesis
    using resolved_identity [OF id] by (simp add: row_sound_def row build_validated_row_def)
qed

lemma parse_records_sound:
  "\<forall>row \<in> set (fst (parse_records email_ok options dups d headers seen idx rs)). row_sound email_ok options row"
proof (induction rs arbitrary: seen idx)
  case (Cons r rs)
  then show ?case
    by (cases "parse_record email_ok options dups d headers seen idx r")
       (auto simp: Let_def dest: parse_record_sound)
qed simp

section \<open>The parser's contract\<close>

lemma parse_attendees_rows:
  obtains "pr_valid_rows (parse_attendees email_ok csv options) = []"
    "pr_invalid_rows (parse_attendees email_ok csv options) = []"
    "case csv_records csv (detect_csv_delimiter csv) of [] \<Rightarrow> True | header # _ \<Rightarrow> cr_malformed header"
  | header rest dups headers where
    "csv_records csv (detect_csv_delimiter csv) = header # rest" "\<not> cr_malformed header"
    "pr_valid_rows (parse_attendees email_ok csv options) =
       fst (parse_records email_ok options dups (detect_csv_delimiter csv) headers nothing_seen 1 rest)"
    "pr_invalid_rows (parse_attendees email_ok csv options) =
       snd (parse_records email_ok options dups (detect_csv_delimiter csv) headers nothing_seen 1 rest)"
proof (cases "csv_records csv (detect_csv_delimiter csv)")
  case Nil
  then show ?thesis by (intro that(1)) (simp_all add: parse_attendees_def Let_def)
next
  case (Cons header rest)
  show ?thesis
  proof (cases "cr_malformed header")
    case True
    with Cons show ?thesis by (intro that(1)) (simp_all add: parse_attendees_def Let_def)
  next
    case False
    with Cons show ?thesis by (intro that(2) [of header rest]) (simp_all add: parse_attendees_def Let_def)
  qed
qed

lemma nothing_seen_ok: "seen_ok nothing_seen"
  by (simp add: seen_ok_def nothing_seen_def)

text \<open>No record of an import file is lost or counted twice: for every text, every field
  configuration and every address check, the row indices of the accepted and the refused rows
  together are exactly the positions 1, 2, ... of the records after a well-formed header, each
  once; an empty file or a malformed header gives no rows at all.\<close>

theorem parse_accounts_for_every_record:
  "mset (map rw_row_index (pr_valid_rows (parse_attendees email_ok csv options)) @
     map iv_row_index (pr_invalid_rows (parse_attendees email_ok csv options))) =
   mset (case csv_records csv (detect_csv_delimiter csv) of [] \<Rightarrow> []
     | header # rest \<Rightarrow> if cr_malformed header then [] else [1..<Suc (length rest)])"
proof (rule parse_attendees_rows [of email_ok csv options])
  fix header rest dups headers
  assume recs: "csv_records csv (detect_csv_delimiter csv) = header # rest" "\<not> cr_malformed header"
    and "pr_valid_rows (parse_attendees email_ok csv options) =
       fst (parse_records email_ok options dups (detect_csv_delimiter csv) headers nothing_seen 1 rest)"
      "pr_invalid_rows (parse_attendees email_ok csv options) =
       snd (parse_records email_ok options dups (detect_csv_delimiter csv) headers nothing_seen 1 rest)"
  then show ?thesis
    using parse_records_indices [of email_ok options dups "detect_csv_delimiter csv" headers nothing_seen 1 rest]
    by simp
qed (auto split: list.splits)

definition sample_options :: parse_options where
  "sample_options = \<lparr>po_attribute_fields =
       [\<lparr>ct_label = ''Size'', ct_source_field = ''shirt'', ct_type = ''select'', ct_required = False,
          ct_options = Some [''S'', ''M'']\<rparr>],
     po_ticket_types = Some [\<lparr>it_key = ''vip'', it_label = ''VIP''\<rparr>]\<rparr>"

definition sample_file :: string where
  "sample_file = ''First_Name,last_name,email,external_uuid,ticket_type,Size'' @ [CHR 0x0A] @
     ''Ada,Lovelace,ADA@x.org,u1,VIP,M'' @ [CHR 0x0A] @
     ''Alan,Turing,alan@x.org,u1,VIP,S'' @ [CHR 0x0A] @
     ''Kurt,Goedel,kurt@x.org,,vip,XL'' @ [CHR 0x0A] @
     ''Emmy,Noether,emmy@x.org,u2,,''"

lemma sample_rows:
  "map (\<lambda>r. (rw_row_index r, rw_email r, rw_ticket_type r, rw_custom_data r))
     (pr_valid_rows (parse_attendees (\<lambda>e. CHR ''@'' \<in> set e) sample_file sample_options)) =
   [(1, ''ada@x.org'', Some ''vip'', Some [(''shirt'', ''M'')]), (4, ''emmy@x.org'', None, None)]"
  by code_simp


text \<open>C29: Every accepted row is one the commit can rely on: both names are there, the address passed
  the address check and is not in the namespace of erased attendees, a ticket type is the key of a
  catalog entry (when the event's catalog was given), and each custom value belongs to a field of
  the event whose slug is not reserved, and is what that field's normalization produced.\<close>

theorem parse_valid_rows_sound:
  assumes "row \<in> set (pr_valid_rows (parse_attendees email_ok csv options))"
  shows "row_sound email_ok options row \<and>
    (\<forall>data kv. rw_custom_data row = Some data \<longrightarrow> kv \<in> set data \<longrightarrow>
       \<not> is_reserved_custom_data_source_field (fst kv))"
proof -
  have sound: "row_sound email_ok options row"
    using assms by (rule_tac parse_attendees_rows [of email_ok csv options]) (auto simp: parse_records_sound)
  moreover have "\<not> is_reserved_custom_data_source_field (fst kv)"
    if "normalized_entry (filter_custom_data_attribute_fields fs) kv" for fs and kv
    using that by (auto simp: normalized_entry_def filter_custom_data_attribute_fields_def)
  ultimately show ?thesis unfolding row_sound_def by blast
qed

definition sample_row :: attendee_row where
  "sample_row = hd (pr_valid_rows (parse_attendees (\<lambda>e. CHR ''@'' \<in> set e) sample_file sample_options))"

lemma sample_row_in:
  "sample_row \<in> set (pr_valid_rows (parse_attendees (\<lambda>e. CHR ''@'' \<in> set e) sample_file sample_options))"
proof -
  have "pr_valid_rows (parse_attendees (\<lambda>e. CHR ''@'' \<in> set e) sample_file sample_options) \<noteq> []"
    using sample_rows by auto
  then show ?thesis unfolding sample_row_def by (rule hd_in_set)
qed

theorem parse_valid_rows_sound_witness:
  "rw_email sample_row = ''ada@x.org'' \<and> row_sound (\<lambda>e. CHR ''@'' \<in> set e) sample_options sample_row"
proof -
  let ?rows = "pr_valid_rows (parse_attendees (\<lambda>e. CHR ''@'' \<in> set e) sample_file sample_options)"
  have "rw_email sample_row = ''ada@x.org''"
    using sample_rows unfolding sample_row_def by (cases ?rows) auto
  with parse_valid_rows_sound [OF sample_row_in] show ?thesis by blast
qed

text \<open>The accepted rows of one file never contend for an attendee: no two of them have the
  same address, and no external id or QR payload of one occurs in either column of another, so
  the one-pass matching of the commit cannot tie two rows to one identifier.\<close>

theorem parse_identifiers_unique:
  "sorted_wrt (\<lambda>r s. rw_email r \<noteq> rw_email s \<and>
       (set_option (rw_external_uuid r) \<union> set_option (rw_qr_payload r)) \<inter>
       (set_option (rw_external_uuid s) \<union> set_option (rw_qr_payload s)) = {})
     (pr_valid_rows (parse_attendees email_ok csv options))"
proof -
  have "no_shared_id = (\<lambda>r s. rw_email r \<noteq> rw_email s \<and>
       (set_option (rw_external_uuid r) \<union> set_option (rw_qr_payload r)) \<inter>
       (set_option (rw_external_uuid s) \<union> set_option (rw_qr_payload s)) = {})"
    by (simp add: no_shared_id_def agency_ids_def fun_eq_iff)
  moreover have "sorted_wrt no_shared_id (pr_valid_rows (parse_attendees email_ok csv options))"
    by (rule parse_attendees_rows [of email_ok csv options]) (auto simp: parse_records_ids [OF nothing_seen_ok])
  ultimately show ?thesis by simp
qed

end
