(* ===== verification/Job_Privacy.thy ===== *)
theory Job_Privacy
  imports Attendee_List "HOL-Library.AList"
begin

text \<open>
  What a background job may keep and show: the scrubbing of search text from an export's stored
  request (\<open>packages/tickets/src/export-job-privacy.ts\<close>) and the fixed error messages of export and
  import jobs (\<open>export-job-errors.ts\<close>, \<open>packages/import/src/import-job-errors.ts\<close>). A stored JSON
  document has unique keys; a property that is undefined is left out of what is stored.
\<close>

section \<open>JavaScript values\<close>

fun js_truthy :: "json \<Rightarrow> bool" where
  "js_truthy JNull = False"
| "js_truthy (JBool b) = b"
| "js_truthy (JNum n) = (n \<noteq> 0)"
| "js_truthy (JStr s) = (s \<noteq> [])"
| "js_truthy (JArr _) = True"
| "js_truthy (JObj _) = True"

text \<open>Whether \<open>String(value).trim()\<close> is empty; an array is the text of its elements with commas.\<close>

fun blank_as_text :: "json \<Rightarrow> bool" where
  "blank_as_text (JStr s) = (js_trim s = [])"
| "blank_as_text (JArr []) = True"
| "blank_as_text (JArr [x]) = (x = JNull \<or> blank_as_text x)"
| "blank_as_text _ = False"

definition stored_object :: "(string \<times> json option) list \<Rightarrow> json" where
  "stored_object kvs = JObj (concat (map (\<lambda>(k, v). case v of None \<Rightarrow> [] | Some x \<Rightarrow> [(k, x)]) kvs))"

section \<open>Redaction\<close>

text \<open>\<open>None\<close> is the TypeError of reading a property of null, or of mapping what is not an array.\<close>

definition redact_custom_field_filter :: "json \<Rightarrow> json option" where
  "redact_custom_field_filter f =
     (if f = JNull then None
      else if prop_of f ''type'' = Some (JStr ''text'')
      then Some (stored_object [(''source_field'', prop_of f ''source_field''), (''type'', prop_of f ''type''),
             (''has_text'', Some (JBool (case prop_of f ''text'' of None \<Rightarrow> False | Some t \<Rightarrow> js_truthy t)))])
      else Some (stored_object [(''source_field'', prop_of f ''source_field''), (''type'', prop_of f ''type''),
             (''values'', prop_of f ''values'')]))"

fun redact_all :: "json list \<Rightarrow> json list option" where
  "redact_all [] = Some []"
| "redact_all (x # xs) = (case redact_custom_field_filter x of None \<Rightarrow> None
     | Some y \<Rightarrow> map_option (\<lambda>ys. y # ys) (redact_all xs))"

definition redact_attendee_list_filters_for_storage :: "json \<Rightarrow> json option" where
  "redact_attendee_list_filters_for_storage filters =
     (let custom = (case prop_of filters ''customFields'' of
            None \<Rightarrow> Some None
          | Some JNull \<Rightarrow> Some None
          | Some (JArr xs) \<Rightarrow> map_option (\<lambda>ys. Some (JArr ys)) (redact_all xs)
          | Some _ \<Rightarrow> None)
      in case custom of None \<Rightarrow> None
         | Some c \<Rightarrow> Some (stored_object
             [(''status'', prop_of filters ''status''),
              (''ticket_type'', Some (case prop_of filters ''ticket_type'' of None \<Rightarrow> JNull | Some t \<Rightarrow> t)),
              (''rsvp_status'', prop_of filters ''rsvp_status''),
              (''mail_status'', prop_of filters ''mail_status''),
              (''customFields'', c),
              (''has_query'', Some (JBool (case prop_of filters ''q'' of None \<Rightarrow> False
                 | Some q \<Rightarrow> js_truthy q \<and> \<not> blank_as_text q)))]))"

definition with_property :: "string \<Rightarrow> json \<Rightarrow> json \<Rightarrow> json" where
  "with_property k v j = (case j of JObj kvs \<Rightarrow> JObj (AList.update k v kvs) | _ \<Rightarrow> j)"

definition scrub_export_job_result_json :: "json \<Rightarrow> json option" where
  "scrub_export_job_result_json result =
     (case prop_of result ''request'' of None \<Rightarrow> Some result
      | Some request \<Rightarrow>
          (case prop_of request ''filters'' of None \<Rightarrow> Some result
           | Some filters \<Rightarrow>
               if \<not> is_plain_object filters then Some result
               else (case redact_attendee_list_filters_for_storage filters of
                   None \<Rightarrow> None
                 | Some redacted \<Rightarrow>
                     Some (with_property ''request'' (with_property ''filters'' redacted request) result))))"

section \<open>Invalidation\<close>

definition invalidated_result :: "json \<Rightarrow> json" where
  "invalidated_result result =
     with_property ''invalidated'' (JBool True) (if is_plain_object result then result else JObj [])"

definition is_export_invalidated :: "json \<Rightarrow> bool" where
  "is_export_invalidated result \<longleftrightarrow> prop_of result ''invalidated'' = Some (JBool True)"

section \<open>Messages of export and import jobs\<close>

definition export_stopped_by_erasure_error :: string where
  "export_stopped_by_erasure_error =
     ''Export stopped: someone in this event was erased or removed before it finished. Run it again.''"

definition import_stopped_by_erasure_error :: string where
  "import_stopped_by_erasure_error =
     ''Import stopped: someone in this event was erased or removed before it finished. Run the import again, and leave that person out of the file if it lists them.''"

definition stale_export_job_error :: string where
  "stale_export_job_error = ''Export job abandoned (worker stopped while running). Start the export again.''"

definition stale_export_pending_error :: string where
  "stale_export_pending_error =
     ''Export job was never picked up by the worker. Start the worker and export again.''"

definition stale_import_job_error :: string where
  "stale_import_job_error = ''Import job abandoned (worker stopped while running). Upload the file again.''"

definition stale_import_pending_error :: string where
  "stale_import_pending_error =
     ''Import job was never picked up by the worker. Start the worker and upload again.''"

definition export_job_failed_error :: string where
  "export_job_failed_error = ''Export failed. Run the export again.''"

definition import_job_failed_error :: string where
  "import_job_failed_error = ''Import failed. Upload the file again.''"

definition import_capacity_error :: string where
  "import_capacity_error =
     ''Import would exceed event capacity. Reduce the attendee count or review event capacity.''"

definition safe_export_errors :: "string list" where
  "safe_export_errors = [export_job_failed_error, export_stopped_by_erasure_error, stale_export_job_error,
     stale_export_pending_error, ''export_job_incomplete'', ''export_job_bad_request'', ''export_too_large'']"

definition safe_export_job_error :: "string option \<Rightarrow> string option" where
  "safe_export_job_error error = (case error of None \<Rightarrow> None
     | Some e \<Rightarrow> Some (if e \<in> set safe_export_errors then e else export_job_failed_error))"

definition safe_import_errors :: "string list" where
  "safe_import_errors = [import_job_failed_error, import_capacity_error, import_stopped_by_erasure_error,
     stale_import_job_error, stale_import_pending_error, ''Import stopped before it finished.'',
     ''import_job_incomplete'']"

definition is_digit :: "char \<Rightarrow> bool" where
  "is_digit c \<longleftrightarrow> (let n = of_char c :: nat in 48 \<le> n \<and> n \<le> 57)"

text \<open>A message of the form \<open>lit1 \d+ lit2 \d+ ... litn\<close>, from its literals.\<close>

fun matches_numbers :: "string list \<Rightarrow> string \<Rightarrow> bool" where
  "matches_numbers [] s \<longleftrightarrow> s = []"
| "matches_numbers [l] s \<longleftrightarrow> s = l"
| "matches_numbers (l # ls) s \<longleftrightarrow> starts_with l s \<and>
     (let rest = drop (length l) s in takeWhile is_digit rest \<noteq> [] \<and> matches_numbers ls (dropWhile is_digit rest))"

definition capacity_message_parts :: "string list" where
  "capacity_message_parts =
     [''Import would exceed capacity. '', '' existing + '', '' new = '', '' > '', ''.'']"

definition safe_import_job_error :: "string option \<Rightarrow> string option" where
  "safe_import_job_error error = (case error of None \<Rightarrow> None
     | Some e \<Rightarrow> Some (if e \<in> set safe_import_errors then e
         else if matches_numbers capacity_message_parts e then import_capacity_error
         else import_job_failed_error))"

end
