(* ===== verification/Admin_Jobs.thy ===== *)
theory Admin_Jobs
  imports Job_Privacy Export Ops_Audit
begin

text \<open>
  Background jobs: the rows and their claim (\<open>packages/tickets/src/claim-admin-job.ts\<close>), their stop by
  an erasure or a removal (\<open>stop-open-jobs.ts\<close>), the worker heartbeat
  (\<open>packages/db/src/worker-heartbeat.ts\<close>) and the reclaiming of stale jobs
  (\<open>reclaim-stale-export-jobs.ts\<close>, \<open>reclaim-stale-admin-jobs-by-type.ts\<close>). Statements outside a
  transaction commit one by one: between two of them other transactions run (\<open>others k\<close>). A query
  that orders by a column with ties returns ties in table order. The cut of a message to 2,000
  characters never applies to the fixed messages and is left out.
\<close>

section \<open>State\<close>

record admin_job =
  aj_id :: string
  aj_type :: string
  aj_status :: string
  aj_organization_id :: string
  aj_event_id :: "string option"
  aj_actor_user_id :: "string option"
  aj_session_id :: "string option"
  aj_client_timezone :: "string option"
  aj_storage_key :: "string option"
  aj_filename :: "string option"
  aj_overwrite :: bool
  aj_force_capacity :: bool
  aj_import_id :: "string option"
  aj_to_create :: "int option"
  aj_to_update :: "int option"
  aj_to_skip :: "int option"
  aj_created_count :: "int option"
  aj_updated_count :: "int option"
  aj_skipped_count :: "int option"
  aj_invalid_count :: "int option"
  aj_error :: "string option"
  aj_result_json :: json
  aj_created_at :: int
  aj_started_at :: "int option"
  aj_finished_at :: "int option"

text \<open>A wallet pass of an attendee, and an entry of the central audit log.\<close>

record wallet_pass =
  wp_attendee_id :: string
  wp_provider_pass_id :: "string option"
  wp_user_provided_id :: "string option"
  wp_left_behind_pass_id :: "string option"
  wp_status :: string
  wp_issued_at :: "int option"
  wp_provider_removed_at :: "int option"
  wp_download_url :: "string option"
  wp_apple_url :: "string option"
  wp_android_url :: "string option"
  wp_samsung_url :: "string option"
  wp_user_agent :: "string option"
  wp_user_agent_captured_at :: "int option"
  wp_auth_token :: "string option"
  wp_pass_url :: "string option"
  wp_serial_number :: "string option"
  wp_pass_type_id :: "string option"

record admin_audit =
  aa_organization_id :: "string option"
  aa_actor_user_id :: string
  aa_actor_email :: "string option"
  aa_actor_display_name :: "string option"
  aa_action_type :: string
  aa_session_id :: "string option"
  aa_ip :: "string option"
  aa_metadata :: json
  aa_actor_timezone :: "string option"

text \<open>The tables, the objects in storage (key and content), and the time of the last heartbeat.\<close>

record admin_db =
  ad_ops :: ops_db
  ad_jobs :: "admin_job list"
  ad_files :: "(string \<times> string) list"
  ad_heartbeat :: "int option"
  ad_system_log :: "string list"
  ad_passes :: "wallet_pass list"
  ad_audit :: "admin_audit list"

datatype job_error = Job_not_found | Job_type_error | Job_plain string | Job_other
  | Job_db ops_error | Job_check_violation

type_synonym 'a job_op = "(admin_db, job_error, 'a) op"

section \<open>Statements\<close>

definition statement :: "('s \<Rightarrow> 'a \<times> 's) \<Rightarrow> ('s, 'e, 'a) op" where
  "statement f s = (case f s of (a, s') \<Rightarrow> (Inr a, s'))"

definition op_throw :: "'e \<Rightarrow> ('s, 'e, 'a) op" where
  "op_throw e s = (Inl e, s)"

definition meanwhile :: "('s \<Rightarrow> 's) \<Rightarrow> ('s, 'e, unit) op" where
  "meanwhile others s = (Inr (), others s)"

text \<open>\<open>updateMany\<close> on the jobs, with the number of rows.\<close>

definition update_jobs :: "(admin_job \<Rightarrow> bool) \<Rightarrow> (admin_job \<Rightarrow> admin_job) \<Rightarrow> admin_db \<Rightarrow> nat \<times> admin_db" where
  "update_jobs p f db = (count_where p (ad_jobs db), db\<lparr>ad_jobs := update_where p f (ad_jobs db)\<rparr>)"

definition job_by_id :: "string \<Rightarrow> admin_db \<Rightarrow> admin_job option" where
  "job_by_id i db = List.find (\<lambda>j. aj_id j = i) (ad_jobs db)"

section \<open>Claiming\<close>

definition next_pending :: "string \<Rightarrow> admin_db \<Rightarrow> admin_job option" where
  "next_pending ty db =
     (case sort_key aj_created_at (filter (\<lambda>j. aj_type j = ty \<and> aj_status j = ''pending'') (ad_jobs db)) of
        [] \<Rightarrow> None | j # _ \<Rightarrow> Some j)"

definition claim_next_admin_job ::
  "(nat \<Rightarrow> admin_db \<Rightarrow> admin_db) \<Rightarrow> int \<Rightarrow> string \<Rightarrow> admin_job option job_op" where
  "claim_next_admin_job others now ty =
     op_bind (op_read (next_pending ty)) (\<lambda>pending.
       case pending of None \<Rightarrow> op_return None
       | Some job \<Rightarrow>
           op_bind (meanwhile (others 0)) (\<lambda>_.
           op_bind (statement (update_jobs (\<lambda>j. aj_id j = aj_id job \<and> aj_status j = ''pending'')
                      (\<lambda>j. j\<lparr>aj_status := ''running'', aj_started_at := Some now\<rparr>))) (\<lambda>updated.
             if updated = 0 then op_return None
             else op_bind (meanwhile (others 1)) (\<lambda>_.
                  op_bind (op_read (job_by_id (aj_id job))) (\<lambda>row.
                    case row of None \<Rightarrow> op_throw Job_not_found | Some j \<Rightarrow> op_return (Some j))))))"

section \<open>Stopping the open jobs of an event\<close>

definition open_job_statuses :: "string list" where
  "open_job_statuses = [''pending'', ''running'']"

definition attendee_job_types :: "string list" where
  "attendee_job_types = [''export'', ''import_commit'']"

definition stopped_error :: "string \<Rightarrow> string" where
  "stopped_error ty =
     (if ty = ''import_commit'' then import_stopped_by_erasure_error else export_stopped_by_erasure_error)"

definition is_open_attendee_job :: "string \<Rightarrow> admin_job \<Rightarrow> bool" where
  "is_open_attendee_job eid j \<longleftrightarrow> aj_event_id j = Some eid \<and> aj_type j \<in> set attendee_job_types \<and>
     aj_status j \<in> set open_job_statuses"

text \<open>The queue lock, then the rows: others may commit while either is awaited.\<close>

definition lock_open_attendee_jobs ::
  "(nat \<Rightarrow> admin_db \<Rightarrow> admin_db) \<Rightarrow> (admin_db, job_error, unit) tx" where
  "lock_open_attendee_jobs others = tx_bind (interfere (others 0)) (\<lambda>_. interfere (others 1))"

text \<open>\<open>{ result_json }\<close> is written only for what the scrubbing gives, unless it is null.\<close>

definition with_scrubbed :: "json option \<Rightarrow> admin_job \<Rightarrow> admin_job" where
  "with_scrubbed scrubbed j = (case scrubbed of None \<Rightarrow> j
     | Some r \<Rightarrow> if r = JNull then j else j\<lparr>aj_result_json := r\<rparr>)"

definition stop_job :: "int \<Rightarrow> admin_job \<Rightarrow> nat \<Rightarrow> (admin_db, job_error, nat) tx" where
  "stop_job now job stopped =
     (let write = (\<lambda>scrubbed.
            tx_bind (\<lambda>db. Inr (update_jobs
                (\<lambda>j. aj_id j = aj_id job \<and> aj_status j \<in> set open_job_statuses)
                (\<lambda>j. with_scrubbed scrubbed (j\<lparr>aj_status := ''failed'', aj_finished_at := Some now,
                   aj_error := Some (stopped_error (aj_type job))\<rparr>)) db))
              (\<lambda>count. tx_return (stopped + count)))
      in if aj_type job = ''export''
         then (case scrub_export_job_result_json (aj_result_json job) of
             None \<Rightarrow> tx_throw Job_type_error
           | Some r \<Rightarrow> write (Some r))
         else write None)"

definition stop_open_attendee_jobs ::
  "(nat \<Rightarrow> admin_db \<Rightarrow> admin_db) \<Rightarrow> int \<Rightarrow> string \<Rightarrow> (admin_db, job_error, nat) tx" where
  "stop_open_attendee_jobs others now eid =
     tx_bind (lock_open_attendee_jobs others) (\<lambda>_.
     tx_bind (tx_read (\<lambda>db. sort_key aj_id (filter (is_open_attendee_job eid) (ad_jobs db)))) (\<lambda>jobs.
       tx_fold (stop_job now) jobs 0))"

definition attendee_job_ids_with_files :: "string \<Rightarrow> admin_db \<Rightarrow> string list" where
  "attendee_job_ids_with_files eid db =
     map aj_id (sort_key aj_id (filter (\<lambda>j. aj_event_id j = Some eid \<and> aj_type j \<in> set attendee_job_types \<and>
       aj_storage_key j \<noteq> None) (ad_jobs db)))"

definition invalidate_event_exports :: "string \<Rightarrow> (admin_db, job_error, unit) tx" where
  "invalidate_event_exports eid =
     tx_write (\<lambda>db. snd (update_jobs (\<lambda>j. aj_event_id j = Some eid \<and> aj_type j = ''export'')
       (\<lambda>j. j\<lparr>aj_result_json := invalidated_result (aj_result_json j)\<rparr>) db))"

text \<open>A new job is inserted under the shared lock: while an erasure is open it waits.\<close>

definition create_under_attendee_job_queue_lock ::
  "(nat \<Rightarrow> admin_db \<Rightarrow> admin_db) \<Rightarrow> (admin_db, job_error, 'a) tx \<Rightarrow> admin_db \<Rightarrow>
   (job_error + 'a) \<times> admin_db" where
  "create_under_attendee_job_queue_lock others create =
     run_tx (tx_bind (interfere (others 0)) (\<lambda>_. create))"

section \<open>The worker heartbeat\<close>

definition max_stale_interval_ms :: int where
  "max_stale_interval_ms = 62135596800000"

text \<open>The range of a JavaScript date.\<close>

definition max_date_ms :: int where
  "max_date_ms = 8640000000000000"

definition positive_ms_or :: "int option \<Rightarrow> int \<Rightarrow> int \<Rightarrow> int" where
  "positive_ms_or value fallback now =
     (case value of None \<Rightarrow> fallback
      | Some v \<Rightarrow>
          if v \<le> 0 \<or> v > max_stale_interval_ms then fallback
          else let cutoff = now - v
               in if cutoff \<ge> - max_stale_interval_ms \<and> \<bar>cutoff\<bar> \<le> max_date_ms then v else fallback)"

definition worker_heartbeat_stale_ms :: "int \<Rightarrow> int \<Rightarrow> int" where
  "worker_heartbeat_stale_ms tick_seconds now =
     (let tick = (if tick_seconds > 0 then tick_seconds else 60)
      in positive_ms_or (Some (max 300000 (tick * 3 * 1000 + 60000))) 300000 now)"

definition is_worker_heartbeat_stale :: "admin_db \<Rightarrow> int \<Rightarrow> int \<Rightarrow> bool" where
  "is_worker_heartbeat_stale db now stale_ms =
     (case ad_heartbeat db of None \<Rightarrow> True | Some beat \<Rightarrow> now - beat \<ge> stale_ms)"

definition stale_admin_job_or_clauses :: "int \<Rightarrow> bool \<Rightarrow> admin_job \<Rightarrow> bool" where
  "stale_admin_job_or_clauses cutoff reclaim_pending j \<longleftrightarrow>
     (aj_status j = ''running'' \<and> (case aj_started_at j of None \<Rightarrow> False | Some t \<Rightarrow> t < cutoff)) \<or>
     (reclaim_pending \<and> aj_status j = ''pending'' \<and> aj_created_at j < cutoff)"

section \<open>Reclaiming stale jobs\<close>

text \<open>\<open>ro_now\<close> is the time a caller may give, \<open>ro_clock\<close> the reading of \<open>Date.now()\<close>.\<close>

record reclaim_options =
  ro_older_than_ms :: "int option"
  ro_heartbeat_stale_ms :: "int option"
  ro_now :: int
  ro_clock :: int

definition default_job_stale_running_ms :: int where
  "default_job_stale_running_ms = 15 * 60 * 1000"

definition reclaim_pending_gate :: "reclaim_options \<Rightarrow> admin_db \<Rightarrow> bool" where
  "reclaim_pending_gate opts db =
     is_worker_heartbeat_stale db (ro_now opts)
       (positive_ms_or (ro_heartbeat_stale_ms opts) (worker_heartbeat_stale_ms 60 (ro_clock opts)) (ro_clock opts))"

definition stale_jobs :: "string \<Rightarrow> int \<Rightarrow> bool \<Rightarrow> admin_db \<Rightarrow> admin_job list" where
  "stale_jobs ty cutoff reclaim_pending db =
     sort_key aj_created_at (filter (\<lambda>j. aj_type j = ty \<and>
       stale_admin_job_or_clauses cutoff reclaim_pending j) (ad_jobs db))"

definition fail_export_job ::
  "admin_job \<Rightarrow> string \<Rightarrow> int \<Rightarrow> bool job_op" where
  "fail_export_job job error now =
     (case scrub_export_job_result_json (aj_result_json job) of
        None \<Rightarrow> op_throw Job_type_error
      | Some r \<Rightarrow>
          op_bind (statement (update_jobs (\<lambda>j. aj_id j = aj_id job \<and> aj_status j = aj_status job)
              (\<lambda>j. with_scrubbed (Some r) (j\<lparr>aj_status := ''failed'', aj_error := Some error,
                 aj_finished_at := Some now\<rparr>))))
            (\<lambda>updated. op_return (updated > 0)))"

definition reclaim_stale_export_jobs ::
  "(nat \<Rightarrow> admin_db \<Rightarrow> admin_db) \<Rightarrow> reclaim_options \<Rightarrow> nat job_op" where
  "reclaim_stale_export_jobs others opts =
     (let older = positive_ms_or (ro_older_than_ms opts) default_job_stale_running_ms (ro_clock opts)
      in op_bind (op_read (reclaim_pending_gate opts)) (\<lambda>reclaim_pending.
         op_bind (meanwhile (others 0)) (\<lambda>_.
         op_bind (op_read (stale_jobs ''export'' (ro_now opts - older) reclaim_pending)) (\<lambda>stale.
           op_fold (\<lambda>job reclaimed.
             op_bind (meanwhile (others 1)) (\<lambda>_.
             op_bind (fail_export_job job
                 (if aj_status job = ''pending'' then stale_export_pending_error else stale_export_job_error)
                 (ro_now opts))
               (\<lambda>closed. op_return (if closed then reclaimed + 1 else reclaimed)))) stale 0))))"

definition reclaim_stale_admin_jobs_by_type ::
  "(nat \<Rightarrow> admin_db \<Rightarrow> admin_db) \<Rightarrow> string \<Rightarrow> string \<Rightarrow> string \<Rightarrow> int \<Rightarrow> reclaim_options \<Rightarrow> nat job_op" where
  "reclaim_stale_admin_jobs_by_type others ty running_error pending_error default_older opts =
     (let older = positive_ms_or (ro_older_than_ms opts) default_older (ro_clock opts)
      in op_bind (op_read (reclaim_pending_gate opts)) (\<lambda>reclaim_pending.
         op_bind (meanwhile (others 0)) (\<lambda>_.
         op_bind (op_read (stale_jobs ty (ro_now opts - older) reclaim_pending)) (\<lambda>stale.
           op_fold (\<lambda>job reclaimed.
             op_bind (meanwhile (others 1)) (\<lambda>_.
             op_bind (statement (update_jobs (\<lambda>j. aj_id j = aj_id job \<and> aj_status j = aj_status job)
                 (\<lambda>j. j\<lparr>aj_status := ''failed'',
                    aj_error := Some (if aj_status job = ''pending'' then pending_error else running_error),
                    aj_finished_at := Some (ro_now opts)\<rparr>)))
               (\<lambda>updated. op_return (if updated > 0 then reclaimed + 1 else reclaimed)))) stale 0))))"

end
