(* ===== verification/Export_Jobs.thy ===== *)
theory Export_Jobs
  imports Admin_Jobs
begin

text \<open>
  Export jobs: the file (\<open>packages/tickets/src/attendees-export-artifact.ts\<close>) and the worker's run
  (\<open>drain-export-jobs.ts\<close>). The stored filters are read back as they were stored; a JSON value of
  another shape than the request's, and the PDF and XLSX writers, are outside the program and come
  as parameters. Storage is the map of keys to contents, and may fail.
\<close>

section \<open>The file\<close>

record artifact =
  af_bytes :: string
  af_filename :: string
  af_content_type :: string
  af_row_count :: nat

text \<open>
  What an export takes from outside: \<open>Intl\<close>, the zone fallback, the JSON text operator, the two
  file writers, the date in the file name, the reading of stored filters, the clock, the object
  store (the key of the next object, \<open>None\<close> when \<open>put\<close> fails; whether \<open>delete\<close> succeeds), whether
  the final write reaches the database, and the other transactions.
\<close>

record export_env =
  ee_format_local :: "int \<Rightarrow> string \<Rightarrow> string"
  ee_zone_of :: "string \<Rightarrow> string"
  ee_as_text :: json_text
  ee_pdf :: "export_row list \<Rightarrow> string list \<Rightarrow> string"
  ee_xlsx :: "export_row list \<Rightarrow> string list \<Rightarrow> string"
  ee_today :: string
  ee_filters :: "json \<Rightarrow> list_filter"
  ee_now :: int
  ee_put_key :: "string option"
  ee_delete_ok :: bool
  ee_record_ok :: bool
  ee_others :: "nat \<Rightarrow> admin_db \<Rightarrow> admin_db"

definition build_attendees_export_artifact ::
  "export_env \<Rightarrow> string \<Rightarrow> attendee list \<Rightarrow> string \<Rightarrow> event_row \<Rightarrow> artifact job_op" where
  "build_attendees_export_artifact env eid rows format event =
     op_bind (op_read (\<lambda>db. load_event_custom_data_fields eid (ad_ops db))) (\<lambda>attrs.
     op_bind (op_read (\<lambda>db. load_event_ticket_types (ad_ops db) eid)) (\<lambda>types.
     op_bind (meanwhile (ee_others env 4)) (\<lambda>_.
     op_bind (op_read (\<lambda>db. keep_live_rows (ad_ops db) att_id rows)) (\<lambda>kept.
       let zone = ee_zone_of env (ev_timezone event);
           columns = build_export_columns attrs;
           export_rows = map (build_sanitized_export_row (ee_format_local env) attrs zone types) kept;
           filename = ''attendees-'' @ eid @ ''-'' @ ee_today env @ ''.'' @ format
       in op_return
            (if format = ''csv''
             then \<lparr>af_bytes = build_export_csv export_rows columns, af_filename = filename,
                   af_content_type = ''text/csv; charset=utf-8'', af_row_count = length export_rows\<rparr>
             else if format = ''pdf''
             then \<lparr>af_bytes = ee_pdf env export_rows columns, af_filename = filename,
                   af_content_type = ''application/pdf'', af_row_count = length export_rows\<rparr>
             else \<lparr>af_bytes = ee_xlsx env export_rows columns, af_filename = filename,
                   af_content_type = ''application/vnd.openxmlformats-officedocument.spreadsheetml.sheet'',
                   af_row_count = length export_rows\<rparr>)))))"

section \<open>The request\<close>

record export_request =
  rq_format :: string
  rq_filters :: json

definition read_request :: "json \<Rightarrow> export_request option" where
  "read_request result =
     (case prop_of result ''request'' of None \<Rightarrow> None
      | Some request \<Rightarrow>
          if prop_of request ''kind'' \<noteq> Some (JStr ''attendees_filtered'') then None
          else (case prop_of request ''format'' of
              Some (JStr f) \<Rightarrow>
                if f \<in> set [''csv'', ''xlsx'', ''pdf'']
                then Some \<lparr>rq_format = f, rq_filters = (case prop_of request ''filters'' of
                       None \<Rightarrow> JObj [] | Some JNull \<Rightarrow> JObj [] | Some v \<Rightarrow> v)\<rparr>
                else None
            | _ \<Rightarrow> None))"

definition storage_ext :: "string \<Rightarrow> string" where
  "storage_ext format =
     (if format = ''csv'' then ''.csv'' else if format = ''pdf'' then ''.pdf'' else ''.xlsx'')"

section \<open>Closing a job\<close>

definition error_text :: "job_error \<Rightarrow> string option" where
  "error_text e = (case e of Job_plain message \<Rightarrow> Some message | _ \<Rightarrow> None)"

text \<open>The message of a database or runtime error is none of the fixed ones.\<close>

definition export_failure_message :: "job_error \<Rightarrow> string" where
  "export_failure_message e = (case error_text e of None \<Rightarrow> export_job_failed_error
     | Some message \<Rightarrow> the (safe_export_job_error (Some message)))"

definition mark_export_failed :: "export_env \<Rightarrow> string \<Rightarrow> job_error \<Rightarrow> unit job_op" where
  "mark_export_failed env job_id err =
     op_bind (op_read (job_by_id job_id)) (\<lambda>existing.
       case (case existing of None \<Rightarrow> Some JNull | Some j \<Rightarrow> scrub_export_job_result_json (aj_result_json j)) of
         None \<Rightarrow> op_throw Job_type_error
       | Some scrubbed \<Rightarrow>
           op_bind (meanwhile (ee_others env 7)) (\<lambda>_.
           op_bind (statement (update_jobs (\<lambda>j. aj_id j = job_id \<and> aj_status j = ''running'')
               (\<lambda>j. with_scrubbed (Some scrubbed) (j\<lparr>aj_status := ''failed'', aj_finished_at := Some (ee_now env),
                  aj_error := Some (export_failure_message err)\<rparr>)))) (\<lambda>_. op_return ())))"

definition put_file :: "string \<Rightarrow> string \<Rightarrow> admin_db \<Rightarrow> unit \<times> admin_db" where
  "put_file key bytes db = ((), db\<lparr>ad_files := AList.update key bytes (ad_files db)\<rparr>)"

definition delete_file :: "string \<Rightarrow> admin_db \<Rightarrow> unit \<times> admin_db" where
  "delete_file key db = ((), db\<lparr>ad_files := AList.delete key (ad_files db)\<rparr>)"

definition log_system :: "string \<Rightarrow> admin_db \<Rightarrow> unit \<times> admin_db" where
  "log_system entry db = ((), db\<lparr>ad_system_log := ad_system_log db @ [entry]\<rparr>)"

text \<open>The log entry keeps the key of the object that is left behind.\<close>

definition take_back_stored_file :: "export_env \<Rightarrow> admin_job \<Rightarrow> string \<Rightarrow> unit job_op" where
  "take_back_stored_file env job key =
     (if ee_delete_ok env then statement (delete_file key)
      else op_bind (statement (log_system key)) (\<lambda>_.
           op_bind (statement (update_jobs (\<lambda>j. aj_id j = aj_id job \<and> aj_storage_key j = None)
             (\<lambda>j. j\<lparr>aj_storage_key := Some key\<rparr>))) (\<lambda>_. op_return ())))"

section \<open>One job\<close>

definition stored_result :: "export_request \<Rightarrow> artifact \<Rightarrow> json option" where
  "stored_result request file =
     map_option (\<lambda>redacted. JObj
       [(''request'', JObj [(''kind'', JStr ''attendees_filtered''), (''format'', JStr (rq_format request)),
          (''filters'', redacted)]),
        (''filename'', JStr (af_filename file)), (''contentType'', JStr (af_content_type file)),
        (''rowCount'', JNum (int (af_row_count file)))])
     (redact_attendee_list_filters_for_storage (rq_filters request))"

definition record_export :: "export_env \<Rightarrow> admin_job \<Rightarrow> string \<Rightarrow> artifact \<Rightarrow> json \<Rightarrow> admin_db \<Rightarrow> nat \<times> admin_db" where
  "record_export env job key file result =
     update_jobs (\<lambda>j. aj_id j = aj_id job \<and> aj_status j = ''running'')
       (\<lambda>j. j\<lparr>aj_status := ''succeeded'', aj_finished_at := Some (ee_now env), aj_storage_key := Some key,
          aj_filename := Some (af_filename file), aj_created_count := Some (int (af_row_count file)),
          aj_result_json := result, aj_error := None\<rparr>)"

definition export_audit :: "admin_job \<Rightarrow> export_request \<Rightarrow> artifact \<Rightarrow> json" where
  "export_audit job request file = JObj
     [(''format'', JStr (rq_format request)), (''count'', JNum (int (af_row_count file))),
      (''filters'', JObj
        [(''status'', case prop_of (rq_filters request) ''status'' of None \<Rightarrow> JStr ''all''
            | Some JNull \<Rightarrow> JStr ''all'' | Some v \<Rightarrow> v),
         (''ticket_type'', case prop_of (rq_filters request) ''ticket_type'' of None \<Rightarrow> JNull | Some v \<Rightarrow> v),
         (''mail_status'', case prop_of (rq_filters request) ''mail_status'' of None \<Rightarrow> JNull | Some v \<Rightarrow> v),
         (''has_query'', JBool (case prop_of (rq_filters request) ''q'' of None \<Rightarrow> False | Some v \<Rightarrow> js_truthy v))])]"

definition job_audit :: "admin_job \<Rightarrow> audit_ctx" where
  "job_audit job = \<lparr>au_operator = aj_actor_user_id job, au_session_id = aj_session_id job, au_device_id = None,
     au_ip = None, au_timezone = aj_client_timezone job\<rparr>"

text \<open>The audit entry is best-effort: when it fails, nothing is written and the export stands.\<close>

definition audit_export :: "string \<Rightarrow> admin_job \<Rightarrow> export_request \<Rightarrow> artifact \<Rightarrow> admin_db \<Rightarrow> unit \<times> admin_db" where
  "audit_export eid job request file db =
     (case write_bulk_action_log eid ''attendees_exported'' (job_audit job) (Some (export_audit job request file))
             (ad_ops db) of
        Inl e \<Rightarrow> ((), db)
      | Inr (_, ops) \<Rightarrow> ((), db\<lparr>ad_ops := ops\<rparr>))"

definition prepare_export :: "export_env \<Rightarrow> admin_job \<Rightarrow> (string \<times> export_request \<times> artifact) job_op" where
  "prepare_export env job =
     (case aj_event_id job of None \<Rightarrow> op_throw (Job_plain ''export_job_incomplete'')
      | Some eid \<Rightarrow>
          if eid = [] \<or> aj_organization_id job = [] then op_throw (Job_plain ''export_job_incomplete'')
          else (case read_request (aj_result_json job) of
              None \<Rightarrow> op_throw (Job_plain ''export_job_bad_request'')
            | Some request \<Rightarrow>
                let filters = ee_filters env (rq_filters request) in
                op_bind (op_read (\<lambda>db. count_filtered_attendees (ee_as_text env) eid
                           (filters\<lparr>lf_include_erased := False\<rparr>) (ad_ops db))) (\<lambda>total.
                if total > export_row_cap then op_throw (Job_plain ''export_too_large'')
                else
                op_bind (meanwhile (ee_others env 2)) (\<lambda>_.
                op_bind (op_read (\<lambda>db. event_by_id eid (ad_ops db))) (\<lambda>event.
                case event of None \<Rightarrow> op_throw Job_not_found
                | Some ev \<Rightarrow>
                op_bind (meanwhile (ee_others env 3)) (\<lambda>_.
                op_bind (op_read (\<lambda>db. find_filtered_attendees_for_export (ee_as_text env) eid filters
                           (ad_ops db))) (\<lambda>rows.
                op_bind (build_attendees_export_artifact env eid rows (rq_format request) ev) (\<lambda>file.
                op_return (eid, request, file)))))))))"

text \<open>
  The stored file is recorded by one conditional write on the job while it runs. When that write
  fails or hits no row, the file is taken back.
\<close>

definition finish_export ::
  "export_env \<Rightarrow> admin_job \<Rightarrow> string \<Rightarrow> export_request \<Rightarrow> artifact \<Rightarrow> string \<Rightarrow> string job_op" where
  "finish_export env job eid request file key =
     (case (stored_result request file, ee_record_ok env) of
        (Some result, True) \<Rightarrow>
          op_bind (statement (record_export env job key file result)) (\<lambda>recorded.
          if recorded = 0
          then op_bind (take_back_stored_file env job key) (\<lambda>_. op_return ''failed'')
          else op_bind (meanwhile (ee_others env 6)) (\<lambda>_.
               op_bind (statement (audit_export eid job request file)) (\<lambda>_. op_return ''succeeded'')))
      | (None, _) \<Rightarrow> op_bind (take_back_stored_file env job key) (\<lambda>_. op_throw Job_type_error)
      | (Some _, False) \<Rightarrow> op_bind (take_back_stored_file env job key) (\<lambda>_. op_throw Job_other))"

definition attempt_export :: "export_env \<Rightarrow> admin_job \<Rightarrow> string job_op" where
  "attempt_export env job =
     op_bind (prepare_export env job) (\<lambda>(eid, request, file).
       case ee_put_key env of None \<Rightarrow> op_throw Job_other
       | Some key \<Rightarrow>
           op_bind (statement (put_file key (af_bytes file))) (\<lambda>_.
           op_bind (meanwhile (ee_others env 5)) (\<lambda>_.
             finish_export env job eid request file key)))"

definition run_one_export_job :: "export_env \<Rightarrow> admin_job \<Rightarrow> string job_op" where
  "run_one_export_job env job db =
     (case attempt_export env job db of
        (Inr outcome, db') \<Rightarrow> (Inr outcome, db')
      | (Inl err, db') \<Rightarrow>
          op_bind (mark_export_failed env (aj_id job) err) (\<lambda>_. op_return ''failed'') db')"

section \<open>The queue\<close>

record export_drain =
  xd_claimed :: nat
  xd_succeeded :: nat
  xd_failed :: nat
  xd_reclaimed :: nat

fun drain_exports :: "(nat \<Rightarrow> export_env) \<Rightarrow> nat \<Rightarrow> nat \<Rightarrow> export_drain \<Rightarrow> export_drain job_op" where
  "drain_exports envs 0 i counts = op_return counts"
| "drain_exports envs (Suc limit) i counts =
     op_bind (claim_next_admin_job (ee_others (envs i)) (ee_now (envs i)) ''export'') (\<lambda>claimed.
       case claimed of None \<Rightarrow> op_return counts
       | Some job \<Rightarrow>
           op_bind (run_one_export_job (envs i) job) (\<lambda>outcome.
             drain_exports envs limit (Suc i)
               (if outcome = ''succeeded''
                then counts\<lparr>xd_claimed := xd_claimed counts + 1, xd_succeeded := xd_succeeded counts + 1\<rparr>
                else counts\<lparr>xd_claimed := xd_claimed counts + 1, xd_failed := xd_failed counts + 1\<rparr>)))"

definition drain_export_jobs ::
  "(nat \<Rightarrow> admin_db \<Rightarrow> admin_db) \<Rightarrow> (nat \<Rightarrow> export_env) \<Rightarrow> nat \<Rightarrow> reclaim_options \<Rightarrow> export_drain job_op" where
  "drain_export_jobs others envs limit opts =
     op_bind (reclaim_stale_export_jobs others opts) (\<lambda>reclaimed.
       drain_exports envs (if limit > 0 then limit else 1) 0
         \<lparr>xd_claimed = 0, xd_succeeded = 0, xd_failed = 0, xd_reclaimed = reclaimed\<rparr>)"

end
