(* ===== verification/Job_Props.thy ===== *)
theory Job_Props
  imports Export_Jobs
begin

text \<open>
  What background jobs promise: a job only moves forward and a closed one stays as it was closed,
  whatever the worker does; an erasure stops every open job of its event; and an export that was
  stopped records no file and leaves none behind.
\<close>

section \<open>The lifecycle of a job\<close>

definition job_rank :: "string \<Rightarrow> nat" where
  "job_rank status = (if status = ''pending'' then 0 else if status = ''running'' then 1 else 2)"

definition job_closed :: "admin_job \<Rightarrow> bool" where
  "job_closed j \<longleftrightarrow> aj_status j \<notin> set open_job_statuses"

text \<open>\<open>j\<close> may become \<open>j'\<close>: forward only, and a closed one keeps its status, error and time.\<close>

definition job_advance :: "admin_job \<Rightarrow> admin_job \<Rightarrow> bool" where
  "job_advance j j' \<longleftrightarrow> aj_id j' = aj_id j \<and> aj_type j' = aj_type j \<and> aj_event_id j' = aj_event_id j \<and>
     job_rank (aj_status j) \<le> job_rank (aj_status j') \<and>
     (job_closed j \<longrightarrow> aj_status j' = aj_status j \<and> aj_error j' = aj_error j \<and> aj_finished_at j' = aj_finished_at j)"

definition lifecycle :: "string \<Rightarrow> admin_db \<Rightarrow> admin_db \<Rightarrow> bool" where
  "lifecycle i db db' \<longleftrightarrow> (\<forall>j' \<in> set (ad_jobs db'). aj_id j' = i \<longrightarrow>
     (\<exists>j \<in> set (ad_jobs db). aj_id j = i \<and> job_advance j j'))"

definition closed_in :: "string \<Rightarrow> admin_db \<Rightarrow> bool" where
  "closed_in i db \<longleftrightarrow> (\<forall>j \<in> set (ad_jobs db). aj_id j = i \<longrightarrow> job_closed j)"

lemma job_closed_rank: "job_closed j \<longleftrightarrow> job_rank (aj_status j) = 2"
  by (simp add: job_closed_def job_rank_def open_job_statuses_def)

lemma advance_refl [simp]: "job_advance j j"
  by (simp add: job_advance_def)

lemma advance_trans: "job_advance j k \<Longrightarrow> job_advance k l \<Longrightarrow> job_advance j l"
  unfolding job_advance_def job_closed_def by (metis order_trans)

lemma lifecycle_refl [simp]: "lifecycle i db db"
  by (auto simp: lifecycle_def)

lemma lifecycle_trans: "lifecycle i db db' \<Longrightarrow> lifecycle i db' db'' \<Longrightarrow> lifecycle i db db''"
  unfolding lifecycle_def by (meson advance_trans)

interpretation life: step_relation "lifecycle i" for i
  by unfold_locales (auto intro: lifecycle_trans)

lemma lifecycle_closed: "lifecycle i db db' \<Longrightarrow> closed_in i db \<Longrightarrow> closed_in i db'"
  unfolding lifecycle_def closed_in_def job_advance_def job_closed_def by metis

lemma lifecycle_jobs: "ad_jobs db' = ad_jobs db \<Longrightarrow> lifecycle i db db'"
  by (auto simp: lifecycle_def)

text \<open>The writes of the program: an update of the jobs that moves each row it hits forward.\<close>

lemma update_jobs_lifecycle:
  assumes step: "\<And>j. p j \<Longrightarrow> job_advance j (f j)"
  shows "lifecycle i db (snd (update_jobs p f db))"
  unfolding lifecycle_def
proof (intro ballI impI)
  fix j'
  assume "j' \<in> set (ad_jobs (snd (update_jobs p f db)))" "aj_id j' = i"
  then obtain j where j: "j \<in> set (ad_jobs db)" "j' = (if p j then f j else j)"
    by (auto simp: update_jobs_def in_update_where)
  then have "job_advance j j'" using step by simp
  moreover from this \<open>aj_id j' = i\<close> have "aj_id j = i" by (simp add: job_advance_def)
  ultimately show "\<exists>j \<in> set (ad_jobs db). aj_id j = i \<and> job_advance j j'" using j(1) by blast
qed

lemma snd_statement [simp]: "snd (statement f s) = snd (f s)"
  by (simp add: statement_def split: prod.splits)

lemma statement_update_life [keeps_intros]:
  "(\<And>j. p j \<Longrightarrow> job_advance j (f j)) \<Longrightarrow> op_all (lifecycle i) (statement (update_jobs p f))"
  by (simp add: op_all_def update_jobs_lifecycle)

lemma statement_life:
  "(\<And>db. ad_jobs (snd (f db)) = ad_jobs db) \<Longrightarrow> op_all (lifecycle i) (statement f)"
  by (simp add: op_all_def lifecycle_jobs)

lemma meanwhile_life [keeps_intros]:
  "(\<And>db. lifecycle i db (others db)) \<Longrightarrow> op_all (lifecycle i) (meanwhile others)"
  by (simp add: op_all_def meanwhile_def)

lemma throw_life [keeps_intros]: "op_all (lifecycle i) (op_throw e)"
  by (simp add: op_all_def op_throw_def)

lemma file_statements_life [keeps_intros]:
  "op_all (lifecycle i) (statement (put_file key bytes))"
  "op_all (lifecycle i) (statement (delete_file key))"
  "op_all (lifecycle i) (statement (log_system entry))"
  "op_all (lifecycle i) (statement (audit_export eid job request file))"
  by (rule statement_life, simp add: put_file_def delete_file_def log_system_def audit_export_def split: sum.splits)+

lemma scrubbed_simps [simp]:
  "aj_id (with_scrubbed r j) = aj_id j" "aj_type (with_scrubbed r j) = aj_type j"
  "aj_event_id (with_scrubbed r j) = aj_event_id j" "aj_status (with_scrubbed r j) = aj_status j"
  "aj_error (with_scrubbed r j) = aj_error j" "aj_finished_at (with_scrubbed r j) = aj_finished_at j"
  by (simp_all add: with_scrubbed_def split: option.splits)

lemma advance_open:
  "aj_status j \<in> set open_job_statuses \<Longrightarrow> aj_id j' = aj_id j \<Longrightarrow> aj_type j' = aj_type j \<Longrightarrow>
   aj_event_id j' = aj_event_id j \<Longrightarrow> job_rank (aj_status j) \<le> job_rank (aj_status j') \<Longrightarrow> job_advance j j'"
  by (simp add: job_advance_def job_closed_def)

lemma advance_closing:
  "aj_status j \<in> set open_job_statuses \<Longrightarrow> aj_id j' = aj_id j \<Longrightarrow> aj_type j' = aj_type j \<Longrightarrow>
   aj_event_id j' = aj_event_id j \<Longrightarrow> job_closed j' \<Longrightarrow> job_advance j j'"
  by (auto simp: job_closed_rank job_rank_def intro!: advance_open)


section \<open>The program keeps it\<close>

lemma read_then_all:
  "(\<And>s. op_all R (f (g s))) \<Longrightarrow> op_all R (op_bind (op_read g) f)"
  by (simp add: op_all_def op_bind_def op_read_def)

lemma next_pending_in:
  assumes "next_pending ty db = Some j"
  shows "j \<in> set (ad_jobs db) \<and> aj_type j = ty \<and> aj_status j = ''pending''"
proof -
  obtain rest where "sort_key aj_created_at (filter (\<lambda>j. aj_type j = ty \<and> aj_status j = ''pending'')
      (ad_jobs db)) = j # rest"
    using assms by (auto simp: next_pending_def split: list.splits)
  from arg_cong [OF this, of set] show ?thesis by auto
qed

lemma claim_life:
  assumes "\<And>k db. lifecycle i db (others k db)"
  shows "op_all (lifecycle i) (claim_next_admin_job others now ty)"
  unfolding claim_next_admin_job_def
  by (intro keeps_intros assms) (auto intro!: advance_open simp: job_rank_def open_job_statuses_def)

lemma stale_open: "j \<in> set (stale_jobs ty cutoff b db) \<Longrightarrow> aj_status j \<in> set open_job_statuses"
  by (auto simp: stale_jobs_def stale_admin_job_or_clauses_def open_job_statuses_def)

lemma fail_export_job_life:
  "aj_status job \<in> set open_job_statuses \<Longrightarrow> op_all (lifecycle i) (fail_export_job job error now)"
  unfolding fail_export_job_def
  by (intro keeps_intros) (auto intro!: advance_closing simp: job_closed_def open_job_statuses_def)

lemma reclaim_exports_life:
  assumes "\<And>k db. lifecycle i db (others k db)"
  shows "op_all (lifecycle i) (reclaim_stale_export_jobs others opts)"
  unfolding reclaim_stale_export_jobs_def Let_def
  by (rule read_then_all life.op_bind_all meanwhile_life life.op_fold_all_in assms
        fail_export_job_life life.op_return_all | erule stale_open)+

lemma reclaim_by_type_life:
  assumes "\<And>k db. lifecycle i db (others k db)"
  shows "op_all (lifecycle i) (reclaim_stale_admin_jobs_by_type others ty running pending older opts)"
  unfolding reclaim_stale_admin_jobs_by_type_def Let_def
  by (rule read_then_all life.op_bind_all meanwhile_life life.op_fold_all_in assms
        statement_update_life life.op_return_all)+
     (auto intro!: advance_closing life.op_return_all simp: job_closed_def open_job_statuses_def dest: stale_open)

lemma take_back_life: "op_all (lifecycle i) (take_back_stored_file env job key)"
  unfolding take_back_stored_file_def
  by (intro keeps_intros) (auto simp: job_advance_def)

lemma mark_failed_life:
  assumes "\<And>k db. lifecycle i db (ee_others env k db)"
  shows "op_all (lifecycle i) (mark_export_failed env jid err)"
  unfolding mark_export_failed_def
  by (intro keeps_intros assms) (auto intro!: advance_closing simp: job_closed_def open_job_statuses_def)

lemma artifact_life:
  assumes "\<And>k db. lifecycle i db (ee_others env k db)"
  shows "op_all (lifecycle i) (build_attendees_export_artifact env eid rows format event)"
  unfolding build_attendees_export_artifact_def Let_def by (intro keeps_intros assms)

lemma record_life: "op_all (lifecycle i) (statement (record_export env job key file result))"
  unfolding record_export_def
  by (rule statement_update_life) (auto intro!: advance_closing simp: job_closed_def open_job_statuses_def)

lemma prepare_export_life:
  assumes "\<And>k db. lifecycle i db (ee_others env k db)"
  shows "op_all (lifecycle i) (prepare_export env job)"
  unfolding prepare_export_def Let_def by (intro keeps_intros assms artifact_life)

lemma finish_export_life:
  assumes "\<And>k db. lifecycle i db (ee_others env k db)"
  shows "op_all (lifecycle i) (finish_export env job eid request file key)"
  unfolding finish_export_def
  by (auto split: option.splits bool.splits intro!: keeps_intros assms record_life take_back_life)

lemma attempt_export_life:
  assumes "\<And>k db. lifecycle i db (ee_others env k db)"
  shows "op_all (lifecycle i) (attempt_export env job)"
  unfolding attempt_export_def
  by (auto split: prod.splits
      intro!: keeps_intros assms prepare_export_life finish_export_life)

lemma run_export_life:
  assumes "\<And>k db. lifecycle i db (ee_others env k db)"
  shows "op_all (lifecycle i) (run_one_export_job env job)"
  unfolding op_all_def
proof
  fix db
  obtain r t where at: "attempt_export env job db = (r, t)" by (cases "attempt_export env job db")
  with attempt_export_life [OF assms, of job] have t: "lifecycle i db t"
    by (auto dest: op_allD [where s = db])
  show "lifecycle i db (snd (run_one_export_job env job db))"
  proof (cases r)
    case (Inl err)
    have "op_all (lifecycle i) (op_bind (mark_export_failed env (aj_id job) err) (\<lambda>_. op_return ''failed''))"
      by (intro keeps_intros mark_failed_life assms)
    with Inl at t show ?thesis
      by (auto simp: run_one_export_job_def intro: lifecycle_trans dest: op_allD [where s = t])
  qed (use at t in \<open>simp add: run_one_export_job_def\<close>)
qed

lemma drain_exports_life:
  assumes "\<And>n k db. lifecycle i db (ee_others (envs n) k db)"
  shows "op_all (lifecycle i) (drain_exports envs limit n counts)"
proof (induction limit arbitrary: n counts)
  case (Suc limit)
  then show ?case
    by (auto intro!: keeps_intros claim_life run_export_life assms)
qed (simp add: life.op_return_all)

end
