(* ===== verification/Job_Stop.thy ===== *)
theory Job_Stop
  imports Job_Props Ops_Sample "HOL-Library.Multiset"
begin

text \<open>
  The stop of an event's open jobs by an erasure or a removal: it closes exactly those jobs, with
  the message of their type, and leaves no search text on a stopped export.
\<close>

section \<open>No search text is kept\<close>

definition search_text :: "json \<Rightarrow> json option" where
  "search_text result = Option.bind (prop_of result ''request'')
     (\<lambda>request. Option.bind (prop_of request ''filters'') (\<lambda>filters. prop_of filters ''q''))"

lemma prop_of_with_property:
  "is_plain_object j \<Longrightarrow> prop_of (with_property k v j) k' = (if k' = k then Some v else prop_of j k')"
  by (cases j) (auto simp: with_property_def update_conv')

lemma redacted_no_q:
  "redact_attendee_list_filters_for_storage filters = Some redacted \<Longrightarrow> prop_of redacted ''q'' = None"
  by (auto simp: redact_attendee_list_filters_for_storage_def Let_def stored_object_def map_of_eq_None_iff
      split: option.splits if_splits)

lemma prop_of_plain: "prop_of j k = Some v \<Longrightarrow> is_plain_object j"
  by (cases j) auto

lemma scrubbed_no_search_text:
  assumes "scrub_export_job_result_json result = Some r"
  shows "search_text r = None"
proof (cases "prop_of result ''request''")
  case None
  with assms show ?thesis by (auto simp: scrub_export_job_result_json_def search_text_def)
next
  case (Some request)
  note plain = prop_of_plain [OF Some]
  show ?thesis
  proof (cases "prop_of request ''filters''")
    case None
    with Some assms show ?thesis by (auto simp: scrub_export_job_result_json_def search_text_def)
  next
    case filters: (Some filters)
    note inner = prop_of_plain [OF filters]
    show ?thesis
    proof (cases "is_plain_object filters")
      case False
      then have "prop_of filters ''q'' = None" by (cases filters) auto
      with False Some filters assms show ?thesis
        by (auto simp: scrub_export_job_result_json_def search_text_def)
    next
      case True
      then obtain redacted where "redact_attendee_list_filters_for_storage filters = Some redacted"
        "r = with_property ''request'' (with_property ''filters'' redacted request) result"
        using assms Some filters by (auto simp: scrub_export_job_result_json_def split: option.splits)
      then show ?thesis
        by (simp add: search_text_def prop_of_with_property plain inner redacted_no_q)
    qed
  qed
qed

section \<open>The stop\<close>

definition stopped_row :: "int \<Rightarrow> admin_job \<Rightarrow> admin_job" where
  "stopped_row now j =
     with_scrubbed (if aj_type j = ''export'' then scrub_export_job_result_json (aj_result_json j) else None)
       (j\<lparr>aj_status := ''failed'', aj_finished_at := Some now, aj_error := Some (stopped_error (aj_type j))\<rparr>)"

lemma stopped_row_simps [simp]:
  "aj_id (stopped_row now j) = aj_id j" "aj_type (stopped_row now j) = aj_type j"
  "aj_event_id (stopped_row now j) = aj_event_id j" "aj_status (stopped_row now j) = ''failed''"
  "aj_error (stopped_row now j) = Some (stopped_error (aj_type j))"
  "aj_finished_at (stopped_row now j) = Some now"
  by (simp_all add: stopped_row_def)

lemma scrub_null: "scrub_export_job_result_json result = Some JNull \<Longrightarrow> result = JNull"
  by (cases result) (auto simp: scrub_export_job_result_json_def with_property_def split: option.splits if_splits)

lemma stopped_row_no_text:
  assumes "scrub_export_job_result_json (aj_result_json j) \<noteq> None" "aj_type j = ''export''"
  shows "search_text (aj_result_json (stopped_row now j)) = None"
proof -
  from assms(1) obtain r where r: "scrub_export_job_result_json (aj_result_json j) = Some r" by auto
  show ?thesis
  proof (cases "r = JNull")
    case True
    with r scrub_null have "aj_result_json j = JNull" by simp
    with True r assms(2) show ?thesis by (simp add: stopped_row_def with_scrubbed_def search_text_def)
  next
    case False
    with r assms(2) scrubbed_no_search_text [OF r] show ?thesis
      by (simp add: stopped_row_def with_scrubbed_def)
  qed
qed

lemma stop_job_step:
  assumes run: "stop_job now job n db = Inr (m, db')"
    and uniq: "distinct (map aj_id (ad_jobs db))" and job: "job \<in> set (ad_jobs db)" "aj_status job \<in> set open_job_statuses"
  shows "m = Suc n \<and> db' = db\<lparr>ad_jobs := update_where (\<lambda>j. aj_id j = aj_id job) (stopped_row now) (ad_jobs db)\<rparr> \<and>
    (aj_type job = ''export'' \<longrightarrow> scrub_export_job_result_json (aj_result_json job) \<noteq> None)"
proof -
  have only: "j = job" if "j \<in> set (ad_jobs db)" "aj_id j = aj_id job" for j
    using that job(1) uniq by (blast dest: distinct_keyD)
  have hit: "filter (\<lambda>j. aj_id j = aj_id job \<and> aj_status j \<in> set open_job_statuses) (ad_jobs db) =
      filter (\<lambda>j. aj_id j = aj_id job) (ad_jobs db)"
    using only job(2) by (auto intro: filter_cong)
  have "card (set (filter (\<lambda>j. aj_id j = aj_id job) (ad_jobs db))) = 1"
    using only job(1) by (subgoal_tac "set (filter (\<lambda>j. aj_id j = aj_id job) (ad_jobs db)) = {job}") auto
  moreover have "distinct (filter (\<lambda>j. aj_id j = aj_id job) (ad_jobs db))"
    using uniq by (simp add: distinct_map)
  ultimately have one: "length (filter (\<lambda>j. aj_id j = aj_id job) (ad_jobs db)) = 1"
    by (metis distinct_card)
  have rows: "update_where (\<lambda>j. aj_id j = aj_id job \<and> aj_status j \<in> set open_job_statuses)
      (\<lambda>j. with_scrubbed s (j\<lparr>aj_status := ''failed'', aj_finished_at := Some now,
         aj_error := Some (stopped_error (aj_type job))\<rparr>)) (ad_jobs db) =
     update_where (\<lambda>j. aj_id j = aj_id job) (stopped_row now) (ad_jobs db)"
    if "s = (if aj_type job = ''export'' then scrub_export_job_result_json (aj_result_json job) else None)" for s
    unfolding update_where_def
  proof (rule map_cong [OF refl])
    fix j
    assume "j \<in> set (ad_jobs db)"
    then show "(if aj_id j = aj_id job \<and> aj_status j \<in> set open_job_statuses
        then with_scrubbed s (j\<lparr>aj_status := ''failed'', aj_finished_at := Some now,
           aj_error := Some (stopped_error (aj_type job))\<rparr>) else j) =
      (if aj_id j = aj_id job then stopped_row now j else j)"
      using only [of j] job(2) that by (cases "aj_id j = aj_id job") (simp_all add: stopped_row_def)
  qed
  show ?thesis
  proof (cases "aj_type job = ''export''")
    case True
    with run obtain s where s: "scrub_export_job_result_json (aj_result_json job) = Some s"
      by (auto simp: stop_job_def tx_simps split: option.splits)
    with run True rows [of "Some s"] hit one show ?thesis
      by (simp add: stop_job_def tx_simps update_jobs_def count_where_def)
  next
    case False
    with run rows [of None] hit one show ?thesis
      by (simp add: stop_job_def tx_simps update_jobs_def count_where_def)
  qed
qed

lemma stop_fold:
  assumes "tx_fold (stop_job now) js n db = Inr (m, db')"
    and "distinct (map aj_id (ad_jobs db))" "distinct (map aj_id js)"
    and "\<forall>j \<in> set js. j \<in> set (ad_jobs db) \<and> aj_status j \<in> set open_job_statuses"
  shows "m = n + length js \<and> db' = db\<lparr>ad_jobs :=
     update_where (\<lambda>j. aj_id j \<in> aj_id ` set js) (stopped_row now) (ad_jobs db)\<rparr> \<and>
    (\<forall>j \<in> set js. aj_type j = ''export'' \<longrightarrow> scrub_export_job_result_json (aj_result_json j) \<noteq> None)"
  using assms
proof (induction js arbitrary: n db)
  case Nil
  then show ?case by (simp add: tx_simps)
next
  case (Cons job js)
  from Cons.prems(1) obtain k db1 where one: "stop_job now job n db = Inr (k, db1)"
    and rest: "tx_fold (stop_job now) js k db1 = Inr (m, db')"
    by (auto simp: tx_bind_Inr)
  from stop_job_step [OF one] Cons.prems have k: "k = Suc n"
    and db1: "db1 = db\<lparr>ad_jobs := update_where (\<lambda>j. aj_id j = aj_id job) (stopped_row now) (ad_jobs db)\<rparr>"
    and scrubs: "aj_type job = ''export'' \<longrightarrow> scrub_export_job_result_json (aj_result_json job) \<noteq> None"
    by auto
  have other: "aj_id j \<noteq> aj_id job" if "j \<in> set js" for j
    using Cons.prems(3) that by (auto simp: image_iff)
  have ids: "distinct (map aj_id (ad_jobs db1))"
    using Cons.prems(2) by (simp add: db1 map_update_where)
  have left: "\<forall>j \<in> set js. j \<in> set (ad_jobs db1) \<and> aj_status j \<in> set open_job_statuses"
    using Cons.prems(4) other by (auto simp: db1 set_update_where)
  have "m = k + length js \<and> db' = db1\<lparr>ad_jobs :=
     update_where (\<lambda>j. aj_id j \<in> aj_id ` set js) (stopped_row now) (ad_jobs db1)\<rparr> \<and>
    (\<forall>j \<in> set js. aj_type j = ''export'' \<longrightarrow> scrub_export_job_result_json (aj_result_json j) \<noteq> None)"
    using Cons.prems(3) by (intro Cons.IH [OF rest ids _ left]) simp
  moreover have "update_where (\<lambda>j. aj_id j \<in> aj_id ` set js) (stopped_row now)
      (update_where (\<lambda>j. aj_id j = aj_id job) (stopped_row now) (ad_jobs db)) =
    update_where (\<lambda>j. aj_id j \<in> aj_id ` set (job # js)) (stopped_row now) (ad_jobs db)"
    using Cons.prems(3) by (auto simp: update_where_def)
  ultimately show ?case using scrubs by (simp add: k db1)
qed

text \<open>An erasure or a removal stops every open export and import of its event, and nothing else.
  Once its transaction has the queue lock (whatever others committed while it waited), it closes
  exactly the jobs that are pending or running, each with the message of its type and the time of
  the stop, returns their number, touches no other job, file or table, leaves no open attendee job
  of the event, and leaves no search text on an export it stopped.\<close>

theorem stop_closes_exactly_the_open_jobs:
  assumes run: "stop_open_attendee_jobs others now eid db = Inr (n, db')"
    and ids: "distinct (map aj_id (ad_jobs (others 1 (others 0 db))))"
  shows "db' = (others 1 (others 0 db))\<lparr>ad_jobs :=
       map (\<lambda>j. if is_open_attendee_job eid j then stopped_row now j else j) (ad_jobs (others 1 (others 0 db)))\<rparr> \<and>
     n = count_where (is_open_attendee_job eid) (ad_jobs (others 1 (others 0 db))) \<and>
     count_where (is_open_attendee_job eid) (ad_jobs db') = 0 \<and>
     (\<forall>j \<in> set (ad_jobs (others 1 (others 0 db))). is_open_attendee_job eid j \<longrightarrow> aj_type j = ''export'' \<longrightarrow>
        search_text (aj_result_json (stopped_row now j)) = None)"
proof -
  let ?db = "others 1 (others 0 db)"
  let ?js = "sort_key aj_id (filter (is_open_attendee_job eid) (ad_jobs ?db))"
  have fold: "tx_fold (stop_job now) ?js 0 ?db = Inr (n, db')"
    using run by (simp add: stop_open_attendee_jobs_def lock_open_attendee_jobs_def tx_simps)
  have mset: "mset (map aj_id ?js) = mset (map aj_id (filter (is_open_attendee_job eid) (ad_jobs ?db)))"
    by (simp only: mset_map mset_sort)
  have djs: "distinct (map aj_id ?js)"
    using ids mset_eq_imp_distinct_iff [OF mset] by (simp add: distinct_map_filter)
  have sub: "\<forall>j \<in> set ?js. j \<in> set (ad_jobs ?db) \<and> aj_status j \<in> set open_job_statuses"
    by (simp add: is_open_attendee_job_def)
  note res = stop_fold [OF fold ids djs sub]
  have key: "aj_id j \<in> aj_id ` set ?js \<longleftrightarrow> is_open_attendee_job eid j" if "j \<in> set (ad_jobs ?db)" for j
    using that ids by (auto dest: distinct_keyD)
  have upd: "update_where (\<lambda>j. aj_id j \<in> aj_id ` set ?js) (stopped_row now) (ad_jobs ?db) =
      map (\<lambda>j. if is_open_attendee_job eid j then stopped_row now j else j) (ad_jobs ?db)"
    unfolding update_where_def by (rule map_cong [OF refl]) (simp only: key)
  have after: "db' = ?db\<lparr>ad_jobs := map (\<lambda>j. if is_open_attendee_job eid j then stopped_row now j else j) (ad_jobs ?db)\<rparr>"
    using res unfolding upd by blast
  have no_text: "search_text (aj_result_json (stopped_row now j)) = None"
    if "j \<in> set ?js" "aj_type j = ''export''" for j
    using that res by (auto intro: stopped_row_no_text)
  have "\<not> is_open_attendee_job eid (stopped_row now j)" for j
    by (simp add: is_open_attendee_job_def open_job_statuses_def)
  then have "count_where (is_open_attendee_job eid) (ad_jobs db') = 0"
    by (auto simp: after count_where_0)
  moreover have "n = count_where (is_open_attendee_job eid) (ad_jobs ?db)"
    using res by (simp add: count_where_def)
  moreover have "\<forall>j \<in> set (ad_jobs ?db). is_open_attendee_job eid j \<longrightarrow> aj_type j = ''export'' \<longrightarrow>
        search_text (aj_result_json (stopped_row now j)) = None"
    using no_text by simp
  ultimately show ?thesis using after by blast
qed


definition sample_job :: "string \<Rightarrow> string \<Rightarrow> string \<Rightarrow> string \<Rightarrow> admin_job" where
  "sample_job i ty status eid =
     \<lparr>aj_id = i, aj_type = ty, aj_status = status, aj_organization_id = ''o1'', aj_event_id = Some eid,
      aj_actor_user_id = Some ''u1'', aj_session_id = None, aj_client_timezone = None,
      aj_storage_key = None, aj_filename = None, aj_overwrite = False, aj_force_capacity = False,
      aj_import_id = Some (''imp-'' @ i), aj_to_create = None, aj_to_update = None, aj_to_skip = None,
      aj_created_count = None, aj_updated_count = None, aj_skipped_count = None, aj_invalid_count = None,
      aj_error = None,
      aj_result_json = (if ty = ''export''
        then JObj [(''request'', JObj [(''kind'', JStr ''attendees_filtered''), (''format'', JStr ''csv''),
               (''filters'', JObj [(''status'', JStr ''all''), (''q'', JStr ''ada'')])])]
        else JNull),
      aj_created_at = 10, aj_started_at = None, aj_finished_at = None\<rparr>"

definition sample_admin_db :: admin_db where
  "sample_admin_db =
     \<lparr>ad_ops = sample_db,
      ad_jobs = [sample_job ''j1'' ''export'' ''pending'' ''e1'', sample_job ''j2'' ''import_commit'' ''running'' ''e1'',
                 sample_job ''j3'' ''export'' ''succeeded'' ''e1'', sample_job ''j4'' ''export'' ''pending'' ''e2''],
      ad_files = [], ad_heartbeat = Some 0, ad_system_log = [], ad_passes = [], ad_audit = []\<rparr>"

theorem stop_closes_exactly_the_open_jobs_witness:
  "\<exists>db'. stop_open_attendee_jobs (\<lambda>_ db. db) 99 ''e1'' sample_admin_db = Inr (2, db') \<and>
     map aj_status (ad_jobs db') = [''failed'', ''failed'', ''succeeded'', ''pending''] \<and>
     count_where (is_open_attendee_job ''e1'') (ad_jobs db') = 0"
proof -
  obtain n db' where run: "stop_open_attendee_jobs (\<lambda>_ db. db) 99 ''e1'' sample_admin_db = Inr (n, db')"
    and n: "n = 2" "map aj_status (ad_jobs db') = [''failed'', ''failed'', ''succeeded'', ''pending'']"
  proof -
    have "(case stop_open_attendee_jobs (\<lambda>_ db. db) 99 ''e1'' sample_admin_db of Inl e \<Rightarrow> None
        | Inr (n, db') \<Rightarrow> Some (n, map aj_status (ad_jobs db'))) =
      Some (2, [''failed'', ''failed'', ''succeeded'', ''pending''])"
      by code_simp
    then show thesis using that by (auto split: sum.splits prod.splits)
  qed
  have "distinct (map aj_id (ad_jobs sample_admin_db))"
    by (simp add: sample_admin_db_def sample_job_def)
  with stop_closes_exactly_the_open_jobs [OF run] run n show ?thesis by auto
qed

end
