(* ===== verification/Export_Job_Props.thy ===== *)
theory Export_Job_Props
  imports Job_Stop
begin

text \<open>
  Exports and erasures side by side: an export whose job was closed while it ran records nothing
  and leaves no file, and every operation of the worker moves jobs forward only.
\<close>

section \<open>Where an operation ends\<close>

text \<open>\<open>ends_in Q m\<close>: whenever \<open>m\<close> returns a value, the state it leaves has \<open>Q\<close>.\<close>

definition ends_in :: "('s \<Rightarrow> bool) \<Rightarrow> ('s, 'e, 'a) op \<Rightarrow> bool" where
  "ends_in Q m \<longleftrightarrow> (\<forall>s a t. m s = (Inr a, t) \<longrightarrow> Q t)"

lemma op_bindE:
  assumes "op_bind m f s = (Inr b, t)"
  obtains a u where "m s = (Inr a, u)" "f a u = (Inr b, t)"
proof (cases "m s")
  case (Pair r u)
  with assms that show thesis by (cases r) (auto simp: op_bind_def)
qed

lemma ends_throw [simp]: "ends_in Q (op_throw e)"
  by (simp add: ends_in_def op_throw_def)

lemma ends_right: "(\<And>a. ends_in Q (f a)) \<Longrightarrow> ends_in Q (op_bind m f)"
  unfolding ends_in_def by (blast elim: op_bindE)

lemma ends_left:
  assumes "ends_in (closed_in i) m" "\<And>a. op_all (lifecycle i) (f a)"
  shows "ends_in (closed_in i) (op_bind m f)"
  unfolding ends_in_def
proof (intro allI impI)
  fix s b t
  assume "op_bind m f s = (Inr b, t)"
  then obtain a u where "m s = (Inr a, u)" "f a u = (Inr b, t)" by (rule op_bindE)
  with assms(1) op_allD [OF assms(2), of u a] show "closed_in i t"
    by (auto simp: ends_in_def intro: lifecycle_closed)
qed

lemma ends_meanwhile: "(\<And>s. Q (others s)) \<Longrightarrow> ends_in Q (meanwhile others)"
  by (auto simp: ends_in_def meanwhile_def)

lemma prepare_closed:
  assumes env: "\<And>k db. lifecycle i db (ee_others env k db)"
    and closes: "\<exists>k \<in> {2, 3, 4}. \<forall>s. closed_in i (ee_others env k s)"
  shows "ends_in (closed_in i) (prepare_export env job)"
proof -
  note life = keeps_intros env artifact_life
  have artifact: "ends_in (closed_in i) (build_attendees_export_artifact env eid rows format ev)"
    if "\<forall>s. closed_in i (ee_others env 4 s)" for eid rows format ev
    unfolding build_attendees_export_artifact_def Let_def
    using that by (intro ends_right ends_left [OF ends_meanwhile] life) auto
  from closes consider "\<forall>s. closed_in i (ee_others env 2 s)" | "\<forall>s. closed_in i (ee_others env 3 s)"
    | "\<forall>s. closed_in i (ee_others env 4 s)" by blast
  then show ?thesis
  proof cases
    case 1
    then show ?thesis unfolding prepare_export_def Let_def
      by (auto split: option.splits intro!: ends_right [where m = "op_read f" for f]
          ends_left [OF ends_meanwhile] life)
  next
    case 2
    then show ?thesis unfolding prepare_export_def Let_def
      by (auto split: option.splits intro!: ends_right [where m = "op_read f" for f]
          ends_right [where m = "meanwhile (ee_others env 2)"] ends_left [OF ends_meanwhile] life)
  next
    case 3
    then show ?thesis unfolding prepare_export_def Let_def
      by (auto split: option.splits intro!: ends_right [where m = "op_read f" for f]
          ends_right [where m = "meanwhile f" for f] ends_left [OF artifact] life)
  qed
qed

section \<open>The last write\<close>

lemma record_export_closed:
  assumes "closed_in (aj_id job) db"
  shows "record_export env job key file result db = (0, db)"
proof -
  have none: "\<not> (aj_id j = aj_id job \<and> aj_status j = ''running'')" if "j \<in> set (ad_jobs db)" for j
    using assms that by (auto simp: closed_in_def job_closed_def open_job_statuses_def)
  then have "count_where (\<lambda>j. aj_id j = aj_id job \<and> aj_status j = ''running'') (ad_jobs db) = 0"
    by (simp add: count_where_0)
  moreover have "update_where (\<lambda>j. aj_id j = aj_id job \<and> aj_status j = ''running'') f (ad_jobs db) = ad_jobs db" for f
    using none by (intro update_where_id) blast
  ultimately show ?thesis by (simp add: record_export_def update_jobs_def)
qed

lemma finish_closed:
  assumes "closed_in (aj_id job) db"
  shows "fst (finish_export env job eid request file key db) \<noteq> Inr ''succeeded''"
  using record_export_closed [OF assms]
  by (auto simp: finish_export_def tx_simps statement_def take_back_stored_file_def op_throw_def
      split: option.splits bool.splits prod.splits sum.splits)

section \<open>The file\<close>

definition file_absent :: "string \<Rightarrow> admin_db \<Rightarrow> bool" where
  "file_absent key db \<longleftrightarrow> key \<notin> fst ` set (ad_files db)"

definition absent_kept :: "string \<Rightarrow> admin_db \<Rightarrow> admin_db \<Rightarrow> bool" where
  "absent_kept key db db' \<longleftrightarrow> (file_absent key db \<longrightarrow> file_absent key db')"

interpretation absent: step_relation "absent_kept key" for key
  by unfold_locales (auto simp: absent_kept_def)

lemma absent_intros:
  "op_all (absent_kept key) (statement (update_jobs p f))"
  "op_all (absent_kept key) (statement (delete_file key'))"
  "op_all (absent_kept key) (statement (log_system entry))"
  "op_all (absent_kept key) (statement (audit_export eid job request file))"
  "op_all (absent_kept key) (statement (record_export env job key' file result))"
  "(\<And>db. absent_kept key db (others db)) \<Longrightarrow> op_all (absent_kept key) (meanwhile others)"
  "op_all (absent_kept key) (op_throw e)"
  by (auto simp: op_all_def absent_kept_def file_absent_def update_jobs_def delete_file_def log_system_def
      audit_export_def record_export_def meanwhile_def op_throw_def
      split: sum.splits dest: imageI [where f = fst, THEN subsetD [OF dom_delete_subset]])

lemma artifact_absent:
  assumes "\<And>k db. absent_kept key db (ee_others env k db)"
  shows "op_all (absent_kept key) (prepare_export env job)"
  unfolding prepare_export_def build_attendees_export_artifact_def Let_def
  by (intro keeps_intros absent_intros assms)

lemma mark_failed_absent:
  assumes "\<And>k db. absent_kept key db (ee_others env k db)"
  shows "op_all (absent_kept key) (mark_export_failed env jid err)"
  unfolding mark_export_failed_def by (intro keeps_intros absent_intros assms)

lemma take_back_absent:
  "ee_delete_ok env \<Longrightarrow> file_absent key (snd (take_back_stored_file env job key db))"
  by (simp add: take_back_stored_file_def delete_file_def file_absent_def delete_notin_dom)

lemma finish_not_recorded:
  assumes ok: "ee_delete_ok env" and closed: "closed_in (aj_id job) db"
  shows "file_absent key (snd (finish_export env job eid request file key db))"
proof -
  have taken: "file_absent key (snd (op_bind (take_back_stored_file env job key) (\<lambda>_. f) db))"
    if "\<And>s. snd (f s) = s" for f :: "string job_op"
  proof -
    obtain r t where t: "take_back_stored_file env job key db = (r, t)" by (cases "take_back_stored_file env job key db")
    with take_back_absent [OF ok, of key job db] have "file_absent key t" by simp
    with t that show ?thesis by (cases r) (simp_all add: op_bind_def)
  qed
  note taken [of "op_return ''failed''"] taken [of "op_throw e" for e]
  then show ?thesis
    using record_export_closed [OF closed]
    by (auto simp: finish_export_def op_return_def op_throw_def split: option.splits bool.splits)
       (simp_all add: op_bind_def statement_def)
qed

section \<open>A stopped export\<close>

lemma closed_before_last_write:
  assumes env: "\<And>k db. lifecycle (aj_id job) db (ee_others env k db)"
    and closed: "closed_in (aj_id job) db \<or> (\<exists>k \<in> {2, 3, 4, 5}. \<forall>s. closed_in (aj_id job) (ee_others env k s))"
    and prep: "prepare_export env job db = (Inr x, u)"
  shows "closed_in (aj_id job) (ee_others env 5 (snd (put_file key bytes u)))"
proof (cases "\<forall>s. closed_in (aj_id job) (ee_others env 5 s)")
  case False
  have "closed_in (aj_id job) u"
  proof (cases "closed_in (aj_id job) db")
    case True
    with prep op_allD [OF prepare_export_life [OF env, of job], where s = db] show ?thesis
      by (auto intro: lifecycle_closed)
  next
    case nope: False
    with False closed have "\<exists>k \<in> {2, 3, 4}. \<forall>s. closed_in (aj_id job) (ee_others env k s)" by auto
    then have "ends_in (closed_in (aj_id job)) (prepare_export env job)" by (rule prepare_closed [OF env])
    with prep show ?thesis unfolding ends_in_def by blast
  qed
  then have "closed_in (aj_id job) (snd (put_file key bytes u))"
    by (simp add: closed_in_def put_file_def)
  with env show ?thesis by (blast intro: lifecycle_closed)
qed simp

lemma attempt_of_closed_job:
  assumes env: "\<And>k db. lifecycle (aj_id job) db (ee_others env k db)"
    and files: "\<And>k db key. ee_put_key env = Some key \<Longrightarrow> absent_kept key db (ee_others env k db)"
    and fresh: "\<And>key. ee_put_key env = Some key \<Longrightarrow> file_absent key db"
    and ok: "ee_delete_ok env"
    and closed: "closed_in (aj_id job) db \<or> (\<exists>k \<in> {2, 3, 4, 5}. \<forall>s. closed_in (aj_id job) (ee_others env k s))"
    and run: "attempt_export env job db = (r, t)"
  shows "r \<noteq> Inr ''succeeded'' \<and> (\<forall>key. ee_put_key env = Some key \<longrightarrow> file_absent key t)"
proof -
  obtain q u where prep: "prepare_export env job db = (q, u)" by (cases "prepare_export env job db")
  have absent_u: "file_absent key u" if "ee_put_key env = Some key" for key
    using op_allD [OF artifact_absent [of key env job], where s = db] files [OF that] fresh [OF that] prep
    by (auto simp: absent_kept_def)
  show ?thesis
  proof (cases q)
    case (Inl e)
    with run prep absent_u show ?thesis by (auto simp: attempt_export_def op_bind_def)
  next
    case (Inr x)
    obtain eid request art where x: "x = (eid, request, art)" by (cases x)
    show ?thesis
    proof (cases "ee_put_key env")
      case None
      with run prep Inr x show ?thesis by (auto simp: attempt_export_def op_bind_def op_throw_def)
    next
      case (Some key)
      let ?v = "ee_others env 5 (snd (put_file key (af_bytes art) u))"
      have fin: "finish_export env job eid request art key ?v = (r, t)"
        using run prep Inr x Some
        by (simp add: attempt_export_def op_bind_def statement_def put_file_def meanwhile_def)
      have "closed_in (aj_id job) ?v" by (rule closed_before_last_write [OF env closed prep [unfolded Inr]])
      with finish_closed [OF this] finish_not_recorded [OF ok this] fin Some show ?thesis
        by (metis fst_conv snd_conv option.inject)
    qed
  qed
qed

text \<open>The verdict a job was closed with. Only one closes a job, and what it says of it is the verdict \<open>v\<close>.\<close>

definition verdict_on :: "admin_job \<Rightarrow> string \<times> string option \<times> int option" where
  "verdict_on j = (aj_status j, aj_error j, aj_finished_at j)"

definition closed_only_with :: "string \<Rightarrow> string \<times> string option \<times> int option \<Rightarrow> admin_db \<Rightarrow> bool" where
  "closed_only_with i v s \<longleftrightarrow> (\<forall>j \<in> set (ad_jobs s). aj_id j = i \<and> job_closed j \<longrightarrow> verdict_on j = v)"

definition verdict_kept :: "string \<Rightarrow> string \<times> string option \<times> int option \<Rightarrow> admin_db \<Rightarrow> admin_db \<Rightarrow> bool" where
  "verdict_kept i v s t \<longleftrightarrow> (closed_only_with i v s \<longrightarrow> closed_only_with i v t)"

interpretation verdict: step_relation "verdict_kept i v" for i v
  by unfold_locales (auto simp: verdict_kept_def)

lemma verdict_stays:
  assumes "lifecycle i s t" "closed_in i s" "closed_only_with i v s"
  shows "closed_in i t \<and> closed_only_with i v t"
proof
  show "closed_in i t" using assms(1,2) by (rule lifecycle_closed)
  show "closed_only_with i v t"
    unfolding closed_only_with_def
  proof (intro ballI impI)
    fix j' assume "j' \<in> set (ad_jobs t)" "aj_id j' = i \<and> job_closed j'"
    with assms(1) obtain j where j: "j \<in> set (ad_jobs s)" "aj_id j = i" "job_advance j j'" unfolding lifecycle_def by blast
    with assms(2) have "job_closed j" by (simp add: closed_in_def)
    with j assms(3) show "verdict_on j' = v" by (auto simp: closed_only_with_def job_advance_def verdict_on_def)
  qed
qed

lemma meanwhile_verdict: "(\<And>s. verdict_kept i v s (others s)) \<Longrightarrow> op_all (verdict_kept i v) (meanwhile others)"
  by (simp add: op_all_def meanwhile_def)

lemma throw_verdict: "op_all (verdict_kept i v) (op_throw e)"
  by (simp add: op_all_def op_throw_def verdict.rel_refl)

lemma prepare_verdict:
  assumes "\<And>k s. verdict_kept i v s (ee_others env k s)"
  shows "op_all (verdict_kept i v) (prepare_export env job)"
  unfolding prepare_export_def build_attendees_export_artifact_def Let_def
  by (intro keeps_intros meanwhile_verdict throw_verdict assms)

lemma attempt_verdict:
  assumes env: "\<And>k s. lifecycle (aj_id job) s (ee_others env k s)"
    and one: "\<And>k s. verdict_kept (aj_id job) v s (ee_others env k s)" and start: "closed_only_with (aj_id job) v db"
    and closed: "closed_in (aj_id job) db \<or> (\<exists>k \<in> {2, 3, 4, 5}. \<forall>s. closed_in (aj_id job) (ee_others env k s))"
    and run: "attempt_export env job db = (r, t)"
  shows "closed_only_with (aj_id job) v t \<and> (isl r \<or> closed_in (aj_id job) t)"
proof -
  let ?i = "aj_id job"
  obtain q u where prep: "prepare_export env job db = (q, u)" by (cases "prepare_export env job db")
  have u: "closed_only_with ?i v u"
    using op_allD [OF prepare_verdict [OF one, of job], where s = db] prep start by (simp add: verdict_kept_def)
  show ?thesis
  proof (cases q)
    case (Inl e)
    with run prep u show ?thesis by (auto simp: attempt_export_def op_bind_def)
  next
    case (Inr x)
    obtain eid request art where x: "x = (eid, request, art)" by (cases x)
    show ?thesis
    proof (cases "ee_put_key env")
      case None
      with run prep Inr x u show ?thesis by (auto simp: attempt_export_def op_bind_def op_throw_def)
    next
      case (Some key)
      let ?w = "snd (put_file key (af_bytes art) u)"
      let ?v = "ee_others env 5 ?w"
      have fin: "finish_export env job eid request art key ?v = (r, t)"
        using run prep Inr x Some
        by (simp add: attempt_export_def op_bind_def statement_def put_file_def meanwhile_def)
      have "closed_only_with ?i v ?w" using u by (simp add: closed_only_with_def put_file_def)
      with one have verdict: "closed_only_with ?i v ?v" by (simp add: verdict_kept_def)
      have "closed_in ?i ?v" by (rule closed_before_last_write [OF env closed prep [unfolded Inr]])
      have "op_all (lifecycle ?i) (finish_export env job eid request art key)" by (rule finish_export_life [OF env])
      from op_allD [OF this, where s = ?v] fin have "lifecycle ?i ?v t" by simp
      from verdict_stays [OF this \<open>closed_in ?i ?v\<close> verdict] show ?thesis by simp
    qed
  qed
qed

lemma mark_failed_verdict:
  assumes one: "\<And>k s. verdict_kept i v s (ee_others env k s)"
    and closes: "\<forall>s. closed_in i (ee_others env 7 s)" and start: "closed_only_with i v u"
    and run: "mark_export_failed env i err u = (q, t)" "\<not> isl q"
  shows "closed_in i t \<and> closed_only_with i v t"
proof -
  let ?w = "ee_others env 7 u"
  have w: "closed_in i ?w" "closed_only_with i v ?w" using closes one start by (simp_all add: verdict_kept_def)
  from run obtain f where t: "t = ?w\<lparr>ad_jobs := update_where (\<lambda>j. aj_id j = i \<and> aj_status j = ''running'') f (ad_jobs ?w)\<rparr>"
    by (auto simp: mark_export_failed_def op_bind_def op_read_def meanwhile_def statement_def op_return_def op_throw_def
        update_jobs_def split: option.splits)
  have "\<not> (aj_id j = i \<and> aj_status j = ''running'')" if "j \<in> set (ad_jobs ?w)" for j
    using w(1) that by (auto simp: closed_in_def job_closed_def open_job_statuses_def)
  then have "ad_jobs t = ad_jobs ?w" unfolding t by (simp add: update_where_id)
  with w show ?thesis by (simp add: closed_in_def closed_only_with_def)
qed

text \<open>C33: An export whose job an erasure stopped leaves nothing behind. If the job was closed before
  the run reads anything or while the run waits at any point before its last write, then the run
  never answers success, the job moves only forward, and the file the run stored is not in storage afterwards (given that storage can
  delete it). The run keeps the verdict, the status, error and time the job was closed with: also a job that was closed only while the
  run was on its way, up to the moment right before the run records its file or its failure, has it afterwards, wherever
  the attempt returned a value, or the job was closed when it failed, or it was closed before the failure is written.\<close>

theorem stopped_export_leaves_nothing:
  assumes env: "\<And>k db. lifecycle (aj_id job) db (ee_others env k db)"
    and files: "\<And>k db key. ee_put_key env = Some key \<Longrightarrow> absent_kept key db (ee_others env k db)"
    and fresh: "\<And>key. ee_put_key env = Some key \<Longrightarrow> file_absent key db"
    and ok: "ee_delete_ok env"
    and closed: "closed_in (aj_id job) db \<or> (\<exists>k \<in> {2, 3, 4, 5}. \<forall>s. closed_in (aj_id job) (ee_others env k s))"
    and one: "\<And>k s. verdict_kept (aj_id job) v s (ee_others env k s)" and start: "closed_only_with (aj_id job) v db"
    and run: "run_one_export_job env job db = (r, t)"
  shows "r \<noteq> Inr ''succeeded'' \<and> (\<forall>key. ee_put_key env = Some key \<longrightarrow> file_absent key t) \<and>
    lifecycle (aj_id job) db t \<and>
    (\<not> isl (fst (attempt_export env job db)) \<or> closed_in (aj_id job) (snd (attempt_export env job db)) \<or>
       \<not> isl r \<and> (\<forall>s. closed_in (aj_id job) (ee_others env 7 s)) \<longrightarrow>
     (\<forall>j \<in> set (ad_jobs t). aj_id j = aj_id job \<longrightarrow> verdict_on j = v))"
proof -
  let ?i = "aj_id job"
  obtain q u where at: "attempt_export env job db = (q, u)" by (cases "attempt_export env job db")
  note stopped = attempt_of_closed_job [OF env files fresh ok closed at]
  note verdict = attempt_verdict [OF env one start closed at]
  have life: "lifecycle ?i db t"
    using op_allD [OF run_export_life [OF env, of job], where s = db] run by simp
  have settled: "\<forall>j \<in> set (ad_jobs s). aj_id j = ?i \<longrightarrow> verdict_on j = v" if "closed_in ?i s \<and> closed_only_with ?i v s" for s
    using that by (simp add: closed_in_def closed_only_with_def)
  show ?thesis
  proof (cases q)
    case (Inr outcome)
    then have "t = u" "r = q" using at run by (simp_all add: run_one_export_job_def)
    with stopped life settled [of u] verdict Inr at show ?thesis by simp
  next
    case (Inl err)
    obtain q' u' where failed: "mark_export_failed env ?i err u = (q', u')"
      by (cases "mark_export_failed env ?i err u")
    then have t: "t = u'" "r \<noteq> Inr ''succeeded''" "isl r = isl q'"
      using Inl at run by (auto simp: run_one_export_job_def op_bind_def op_return_def split: sum.splits)
    have "file_absent key u'" if "ee_put_key env = Some key" for key
      using op_allD [OF mark_failed_absent [of key env ?i err], where s = u] files [OF that] stopped failed that
      by (auto simp: absent_kept_def)
    moreover have "closed_in ?i u' \<and> closed_only_with ?i v u'" if "closed_in ?i u"
    proof -
      have "op_all (lifecycle ?i) (mark_export_failed env ?i err)" by (rule mark_failed_life [OF env])
      from op_allD [OF this, where s = u] failed have "lifecycle ?i u u'" by simp
      from verdict_stays [OF this that] verdict show ?thesis by blast
    qed
    moreover have "closed_in ?i u' \<and> closed_only_with ?i v u'" if "\<not> isl q'" "\<forall>s. closed_in ?i (ee_others env 7 s)"
      by (rule mark_failed_verdict [OF one that(2) verdict [THEN conjunct1] failed that(1)])
    ultimately show ?thesis using t life settled [of t] Inl at by auto
  qed
qed

text \<open>The erasure that arrives while the rows are being read: it closes the job \<open>j1\<close>.\<close>

definition erasure_env :: export_env where
  "erasure_env =
     \<lparr>ee_format_local = (\<lambda>_ _. ''12:00''), ee_zone_of = (\<lambda>z. z), ee_as_text = (\<lambda>_. None),
      ee_pdf = (\<lambda>_ _. []), ee_xlsx = (\<lambda>_ _. []), ee_today = ''2026-01-01'',
      ee_filters = (\<lambda>_. \<lparr>lf_q = None, lf_status = ''all'', lf_ticket_type = None, lf_rsvp_status = None,
        lf_mail_status = None, lf_custom_fields = None, lf_include_erased = False\<rparr>),
      ee_now = 50, ee_put_key = Some ''f1'', ee_delete_ok = True, ee_record_ok = True,
      ee_others = (\<lambda>k db. if k = 3 then snd (update_jobs (\<lambda>j. aj_id j = ''j1'' \<and> aj_status j \<in> set open_job_statuses)
        (\<lambda>j. j\<lparr>aj_status := ''failed'', aj_finished_at := Some 40, aj_error := Some (stopped_error ''export'')\<rparr>) db) else db)\<rparr>"

lemma erasure_env_life: "lifecycle i db (ee_others erasure_env k db)"
  by (auto simp: erasure_env_def job_closed_def open_job_statuses_def
      intro!: update_jobs_lifecycle advance_closing)

lemma erasure_env_closes: "closed_in ''j1'' (ee_others erasure_env 3 db)"
  unfolding closed_in_def
proof (intro ballI impI)
  fix j
  assume j: "j \<in> set (ad_jobs (ee_others erasure_env 3 db))" "aj_id j = ''j1''"
  then obtain x where x: "j = (if aj_id x = ''j1'' \<and> aj_status x \<in> set open_job_statuses
      then x\<lparr>aj_status := ''failed'', aj_finished_at := Some 40, aj_error := Some (stopped_error ''export'')\<rparr> else x)"
    by (auto simp: erasure_env_def update_jobs_def in_update_where)
  then have "aj_id x = ''j1''" using j(2) by (simp split: if_splits)
  with x show "job_closed j"
    by (cases "aj_status x \<in> set open_job_statuses") (simp_all add: job_closed_def, simp add: open_job_statuses_def)
qed

lemma erasure_env_verdict: "verdict_kept i (''failed'', Some (stopped_error ''export''), Some 40) s (ee_others erasure_env k s)"
  by (auto simp: verdict_kept_def closed_only_with_def verdict_on_def erasure_env_def update_jobs_def set_update_where
      job_closed_def)

theorem stopped_export_leaves_nothing_witness:
  "\<exists>r t. run_one_export_job erasure_env (sample_job ''j1'' ''export'' ''running'' ''e1'')
      (sample_admin_db\<lparr>ad_jobs := [sample_job ''j1'' ''export'' ''running'' ''e1'']\<rparr>) = (r, t) \<and>
    r \<noteq> Inr ''succeeded'' \<and> file_absent ''f1'' t"
proof -
  let ?job = "sample_job ''j1'' ''export'' ''running'' ''e1''"
  let ?db = "sample_admin_db\<lparr>ad_jobs := [?job]\<rparr>"
  obtain r t where run: "run_one_export_job erasure_env ?job ?db = (r, t)"
    by (cases "run_one_export_job erasure_env ?job ?db")
  have j1: "aj_id ?job = ''j1''" by (simp add: sample_job_def)
  then have closes: "closed_in (aj_id ?job) ?db \<or> (\<exists>k \<in> {2, 3, 4, 5}. \<forall>s. closed_in (aj_id ?job) (ee_others erasure_env k s))"
    using erasure_env_closes by auto
  have files: "absent_kept key db (ee_others erasure_env k db)" "file_absent key ?db" "ee_delete_ok erasure_env" for k db key
    by (simp_all add: absent_kept_def file_absent_def erasure_env_def update_jobs_def sample_admin_db_def)
  have fresh: "closed_only_with (aj_id ?job) (''failed'', Some (stopped_error ''export''), Some 40) ?db"
    by (simp add: closed_only_with_def sample_job_def job_closed_def open_job_statuses_def)
  from stopped_export_leaves_nothing [OF erasure_env_life files(1,2,3) closes erasure_env_verdict fresh run]
  have "r \<noteq> Inr ''succeeded'' \<and> (\<forall>key. ee_put_key erasure_env = Some key \<longrightarrow> file_absent key t)" by blast
  with run show ?thesis by (auto simp: erasure_env_def)
qed

section \<open>Forward only\<close>

lemma tx_update_life:
  "(\<And>j. p j \<Longrightarrow> job_advance j (f j)) \<Longrightarrow> tx_all (lifecycle i) (\<lambda>db. Inr (update_jobs p f db))"
  by (rule tx_allI) (metis update_jobs_lifecycle Inr_inject snd_conv)

lemma stop_life:
  assumes "\<And>k db. lifecycle i db (others k db)"
  shows "tx_all (lifecycle i) (stop_open_attendee_jobs others now eid)"
proof -
  have job: "tx_all (lifecycle i) (stop_job now job n)" for job n
    unfolding stop_job_def Let_def
    by (intro keeps_intros tx_update_life) (auto simp: job_closed_def open_job_statuses_def intro!: advance_closing)
  show ?thesis
    unfolding stop_open_attendee_jobs_def lock_open_attendee_jobs_def
    by (intro keeps_intros tx_all_interfere assms job)
qed

text \<open>Jobs only move forward. A run of the export worker (reclaiming what is stale, claiming and
  running up to any number of jobs), a claim, and the stop by an erasure keep for every job: its
  type and event never change, it never goes back to an earlier status, and once it is closed its
  status, error and time of closing stay, provided the other transactions keep to the same.\<close>

theorem jobs_only_move_forward:
  assumes others: "\<And>k db. lifecycle i db (others k db)"
    and workers: "\<And>n k db. lifecycle i db (ee_others (envs n) k db)"
  shows "lifecycle i db (snd (drain_export_jobs others envs limit opts db)) \<and>
    lifecycle i db (snd (claim_next_admin_job others now ty db)) \<and>
    (\<forall>eid n db'. stop_open_attendee_jobs others now eid db = Inr (n, db') \<longrightarrow> lifecycle i db db')"
proof -
  have "op_all (lifecycle i) (drain_export_jobs others envs limit opts)"
    unfolding drain_export_jobs_def
    by (intro keeps_intros reclaim_exports_life drain_exports_life others workers)
  moreover have "op_all (lifecycle i) (claim_next_admin_job others now ty)"
    by (rule claim_life) (rule others)
  moreover have "tx_all (lifecycle i) (stop_open_attendee_jobs others now eid)" for eid
    by (rule stop_life) (rule others)
  ultimately show ?thesis by (auto dest: op_allD [where s = db] tx_allD)
qed

theorem jobs_only_move_forward_witness:
  "lifecycle ''j1'' sample_admin_db (snd (drain_export_jobs (\<lambda>_ db. db) (\<lambda>_. erasure_env) 2
     \<lparr>ro_older_than_ms = None, ro_heartbeat_stale_ms = None, ro_now = 900, ro_clock = 900\<rparr> sample_admin_db))"
  using jobs_only_move_forward [of "''j1''" "\<lambda>_ db. db" "\<lambda>_. erasure_env" sample_admin_db 2
      "\<lparr>ro_older_than_ms = None, ro_heartbeat_stale_ms = None, ro_now = 900, ro_clock = 900\<rparr>"] erasure_env_life
  by simp

end
