(* ===== verification/Capacity_Lock.thy ===== *)
theory Capacity_Lock
  imports Ops_Db
begin

text \<open>
  The transaction that serializes the writers of one event's capacity,
  \<open>packages/tickets/src/event-capacity.ts\<close>. The advisory lock is a waiting point; how an attempt
  to get it goes (what other transactions commit before the preparation and while the lock is
  awaited, whether the database cancels the wait or ends the transaction during the work, the
  readings of \<open>performance.now()\<close>) is given per attempt. Milliseconds are integers. The recursion of the code may go on for as long as the
  clock stands still, so its result is an option: \<open>None\<close> is not returning.
\<close>

section \<open>Policy and errors\<close>

record capacity_policy =
  cp_work_timeout :: int
  cp_lock_allowance :: int
  cp_grace :: int
  cp_wait_timeout :: int
  cp_max_wait :: int

definition event_capacity_transaction_options :: "int \<times> int" where
  "event_capacity_transaction_options = (120000, 30000)"

definition default_capacity_policy :: capacity_policy where
  "default_capacity_policy =
     \<lparr>cp_work_timeout = fst event_capacity_transaction_options, cp_lock_allowance = 30000,
      cp_grace = 1000, cp_wait_timeout = 302000, cp_max_wait = snd event_capacity_transaction_options\<rparr>"

definition event_capacity_lock_key :: "string \<Rightarrow> string" where
  "event_capacity_lock_key eid = ''event-capacity:'' @ eid"

text \<open>
  \<open>Known_request_error\<close> is the database client's error with its code and the SQLSTATE in its
  cause; \<open>Thrown\<close> is any other error.
\<close>

datatype 'e request_error =
    Known_request_error string "string option"
  | Retry_capacity_acquisition
  | Capacity_lock_timed_out
  | Thrown 'e

fun is_capacity_acquisition_timeout :: "'e request_error \<Rightarrow> bool" where
  "is_capacity_acquisition_timeout (Known_request_error code cause) \<longleftrightarrow>
     code = ''P2028'' \<or> (code = ''P2010'' \<and> cause = Some ''57014'')"
| "is_capacity_acquisition_timeout _ \<longleftrightarrow> False"

definition replayable :: "'e request_error \<Rightarrow> bool" where
  "replayable e \<longleftrightarrow> e = Retry_capacity_acquisition \<or> is_capacity_acquisition_timeout e"

section \<open>One attempt\<close>

record 's acquisition =
  aq_before :: "'s \<Rightarrow> 's"
  aq_waiting :: "'s \<Rightarrow> 's"
  aq_failure :: "(string \<times> string option) option"
  aq_expiry :: "(string \<times> string option) option"
  aq_started :: int
  aq_locked :: int
  aq_caught :: int

text \<open>
  Whether the work had started, the outcome, and the state: what an attempt that fails leaves is
  what the other transactions committed, its own statements are rolled back.
\<close>

definition capacity_attempt ::
  "capacity_policy \<Rightarrow> ('s, 'e request_error, 'p) tx \<Rightarrow> ('p \<Rightarrow> ('s, 'e request_error, 'r) tx) \<Rightarrow>
   's acquisition \<Rightarrow> 's \<Rightarrow> bool \<times> ('e request_error + 'r) \<times> 's" where
  "capacity_attempt policy prepare work a s =
     (let s1 = aq_before a s in
      case aq_failure a of Some (code, cause) \<Rightarrow> (False, Inl (Known_request_error code cause), s1)
      | None \<Rightarrow>
          (case prepare s1 of Inl e \<Rightarrow> (False, Inl e, s1)
           | Inr (p, s2) \<Rightarrow>
               if aq_locked a - aq_started a > cp_lock_allowance policy
               then (False, Inl Retry_capacity_acquisition, aq_waiting a s1)
               else (case aq_expiry a of
                   Some (code, cause) \<Rightarrow> (True, Inl (Known_request_error code cause), aq_waiting a s1)
                 | None \<Rightarrow> (case work p (aq_waiting a s2) of
                     Inl e \<Rightarrow> (True, Inl e, aq_waiting a s1)
                   | Inr (v, s3) \<Rightarrow> (True, Inr v, s3)))))"

section \<open>The retry loop\<close>

partial_function (option) capacity_attempts ::
  "capacity_policy \<Rightarrow> (nat \<Rightarrow> 's acquisition) \<Rightarrow> int \<Rightarrow> ('s, 'e request_error, 'p) tx \<Rightarrow>
   ('p \<Rightarrow> ('s, 'e request_error, 'r) tx) \<Rightarrow> nat \<Rightarrow> 's \<Rightarrow> (('e request_error + 'r) \<times> 's) option" where
  "capacity_attempts policy acq deadline prepare work k s =
     (case capacity_attempt policy prepare work (acq k) s of
        (started, Inr v, s') \<Rightarrow> Some (Inr v, s')
      | (started, Inl e, s') \<Rightarrow>
          if started \<or> \<not> replayable e then Some (Inl e, s')
          else if aq_caught (acq k) \<ge> deadline then Some (Inl Capacity_lock_timed_out, s')
          else capacity_attempts policy acq deadline prepare work (Suc k) s')"

definition run_event_capacity_transaction ::
  "capacity_policy \<Rightarrow> int \<Rightarrow> (nat \<Rightarrow> 's acquisition) \<Rightarrow> ('s, 'e request_error, 'p) tx \<Rightarrow>
   ('p \<Rightarrow> ('s, 'e request_error, 'r) tx) \<Rightarrow> 's \<Rightarrow> (('e request_error + 'r) \<times> 's) option" where
  "run_event_capacity_transaction policy began acq prepare work s =
     capacity_attempts policy acq (began + cp_wait_timeout policy) prepare work 0 s"

section \<open>It returns\<close>

lemma capacity_attempts_return:
  assumes "\<And>k. aq_caught (acq k) < aq_caught (acq (Suc k))"
  shows "capacity_attempts policy acq deadline prepare work k s \<noteq> None"
proof (induction "nat (deadline - aq_caught (acq k))" arbitrary: k s rule: less_induct)
  case less
  obtain started r s' where at: "capacity_attempt policy prepare work (acq k) s = (started, r, s')"
    by (cases "capacity_attempt policy prepare work (acq k) s") auto
  show ?case
  proof (cases "r = Inl (projl r) \<and> \<not> started \<and> replayable (projl r) \<and> aq_caught (acq k) < deadline")
    case True
    then have "nat (deadline - aq_caught (acq (Suc k))) < nat (deadline - aq_caught (acq k))"
      using assms [of k] by linarith
    from less [OF this, of s'] True at show ?thesis
      by (subst capacity_attempts.simps) (auto split: sum.splits)
  next
    case False
    with at show ?thesis
      by (subst capacity_attempts.simps) (auto split: sum.splits)
  qed
qed

text \<open>C34: The capacity transaction returns. Whatever the waits are and however often the database
  cancels them, as long as the clock advances between two failed attempts, the retry loop ends
  with a result or an error, whatever the preparation and the work do.\<close>

theorem capacity_transaction_returns:
  assumes "\<And>k. aq_caught (acq k) < aq_caught (acq (Suc k))"
  shows "\<exists>r s'. run_event_capacity_transaction policy began acq prepare work s = Some (r, s')"
  using capacity_attempts_return [where acq = acq and policy = policy and prepare = prepare and
      work = work and deadline = "began + cp_wait_timeout policy" and k = 0 and s = s, OF assms]
  by (auto simp: run_event_capacity_transaction_def)

definition blocked_acquisition :: "nat \<Rightarrow> nat acquisition" where
  "blocked_acquisition k = \<lparr>aq_before = Suc, aq_waiting = (\<lambda>n. n), aq_failure = Some (''P2028'', None), aq_expiry = None,
     aq_started = 30000 * int k, aq_locked = 30000 * int k, aq_caught = 30000 * int (Suc k)\<rparr>"

theorem capacity_transaction_returns_witness:
  "\<exists>r s'. run_event_capacity_transaction default_capacity_policy 0 blocked_acquisition
     (tx_return ()) (\<lambda>_. tx_return True :: (nat, unit request_error, bool) tx) 0 = Some (r, s')"
  by (rule capacity_transaction_returns) (simp add: blocked_acquisition_def)

section \<open>The work runs at most once\<close>

text \<open>\<open>others_wait acq n s t\<close>: from \<open>s\<close> to \<open>t\<close> by what others commit in the first \<open>n\<close> attempts.\<close>

inductive others_wait :: "(nat \<Rightarrow> 's acquisition) \<Rightarrow> nat \<Rightarrow> nat \<Rightarrow> 's \<Rightarrow> 's \<Rightarrow> bool"
  for acq :: "nat \<Rightarrow> 's acquisition" where
  wait_none: "others_wait acq k k s s"
| wait_failed: "others_wait acq (Suc k) n (aq_before (acq k) s) t \<Longrightarrow> others_wait acq k n s t"
| wait_rolled_back:
    "others_wait acq (Suc k) n (aq_waiting (acq k) (aq_before (acq k) s)) t \<Longrightarrow> others_wait acq k n s t"

lemma attempt_cases:
  assumes "capacity_attempt policy prepare work a s = (started, r, s')"
  obtains (failed) "\<not> started" "isl r"
      "s' = aq_before a s \<or> s' = aq_waiting a (aq_before a s)"
  | (threw) "started" "isl r" "s' = aq_waiting a (aq_before a s)"
  | (worked) v p s2 where "started" "r = Inr v" "prepare (aq_before a s) = Inr (p, s2)"
      "work p (aq_waiting a s2) = Inr (v, s')"
      "aq_locked a - aq_started a \<le> cp_lock_allowance policy"
proof -
  show thesis
  proof (cases "aq_failure a")
    case (Some c)
    with assms show thesis by (intro failed) (auto simp: capacity_attempt_def split: prod.splits)
  next
    case None
    note nofail = None
    show thesis
    proof (cases "prepare (aq_before a s)")
      case (Inl e)
      with assms nofail show thesis by (intro failed) (auto simp: capacity_attempt_def)
    next
      case (Inr q)
      then obtain p s2 where q: "prepare (aq_before a s) = Inr (p, s2)" by (cases q) auto
      show thesis
      proof (cases "aq_locked a - aq_started a > cp_lock_allowance policy")
        case True
        with assms nofail q show thesis by (intro failed) (auto simp: capacity_attempt_def)
      next
        case False
        have at: "(started, r, s') = (case aq_expiry a of
            Some (code, cause) \<Rightarrow> (True, Inl (Known_request_error code cause), aq_waiting a (aq_before a s))
          | None \<Rightarrow> (case work p (aq_waiting a s2) of
              Inl e \<Rightarrow> (True, Inl e, aq_waiting a (aq_before a s)) | Inr (v, s3) \<Rightarrow> (True, Inr v, s3)))"
          using assms nofail q False by (simp add: capacity_attempt_def Let_def)
        show thesis
        proof (cases "aq_expiry a = None \<and> \<not> isl (work p (aq_waiting a s2))")
          case True
          then obtain v u where "work p (aq_waiting a s2) = Inr (v, u)"
            by (cases "work p (aq_waiting a s2)") auto
          with at True q False show thesis by (intro worked [of v p s2]) auto
        next
          case False
          with at show thesis by (intro threw) (auto split: option.splits sum.splits prod.splits)
        qed
      qed
    qed
  qed
qed

definition capacity_outcome ::
  "capacity_policy \<Rightarrow> (nat \<Rightarrow> 's acquisition) \<Rightarrow> ('s, 'e request_error, 'p) tx \<Rightarrow>
   ('p \<Rightarrow> ('s, 'e request_error, 'r) tx) \<Rightarrow> nat \<Rightarrow> 's \<Rightarrow> (('e request_error + 'r) \<times> 's) \<Rightarrow> bool" where
  "capacity_outcome policy acq prepare work k s q \<longleftrightarrow>
     (case fst q of
        Inl e \<Rightarrow> \<exists>n. others_wait acq k n s (snd q)
      | Inr v \<Rightarrow> \<exists>n t p s2. others_wait acq k n s t \<and> prepare (aq_before (acq n) t) = Inr (p, s2) \<and>
          aq_locked (acq n) - aq_started (acq n) \<le> cp_lock_allowance policy \<and>
          work p (aq_waiting (acq n) s2) = Inr (v, snd q))"

lemma outcome_step:
  assumes "s' = aq_before (acq k) s \<or> s' = aq_waiting (acq k) (aq_before (acq k) s)"
    and "capacity_outcome policy acq prepare work (Suc k) s' q"
  shows "capacity_outcome policy acq prepare work k s q"
proof -
  have step: "others_wait acq k n s t" if "others_wait acq (Suc k) n s' t" for n t
    using assms(1) that by (auto intro: wait_failed wait_rolled_back)
  show ?thesis
  proof (cases "fst q")
    case (Inl e)
    with assms(2) step show ?thesis by (auto simp: capacity_outcome_def)
  next
    case (Inr v)
    with assms(2) step show ?thesis by (simp add: capacity_outcome_def) blast
  qed
qed

lemma attempts_outcome:
  assumes "capacity_attempts policy acq deadline prepare work k s = Some q"
  shows "capacity_outcome policy acq prepare work k s q"
proof (rule capacity_attempts.raw_induct [where P =
    "\<lambda>policy acq deadline prepare work k s q. capacity_outcome policy acq prepare work k s q", OF _ assms])
  fix attempts policy acq deadline prepare work k s q
  assume IH: "\<And>policy acq deadline prepare work k s q.
      attempts policy acq deadline prepare work k s = Some q \<Longrightarrow> capacity_outcome policy acq prepare work k s q"
    and step: "(case capacity_attempt policy prepare work (acq k) s of
        (started, Inl e, s') \<Rightarrow>
          if started \<or> \<not> replayable e then Some (Inl e, s')
          else if deadline \<le> aq_caught (acq k) then Some (Inl Capacity_lock_timed_out, s')
          else attempts policy acq deadline prepare work (Suc k) s'
      | (started, Inr v, s') \<Rightarrow> Some (Inr v, s')) = Some q"
  obtain started r s' where at: "capacity_attempt policy prepare work (acq k) s = (started, r, s')"
    by (cases "capacity_attempt policy prepare work (acq k) s") auto
  have here: "others_wait acq k (Suc k) s (aq_before (acq k) s)"
    "others_wait acq k (Suc k) s (aq_waiting (acq k) (aq_before (acq k) s))"
    by (auto intro: wait_failed wait_rolled_back wait_none)
  from at show "capacity_outcome policy acq prepare work k s q"
  proof (cases rule: attempt_cases)
    case failed
    then obtain e where e: "r = Inl e" by (cases r) auto
    show ?thesis
    proof (cases "replayable e \<and> aq_caught (acq k) < deadline")
      case True
      with at e failed(1) step IH have "capacity_outcome policy acq prepare work (Suc k) s' q" by simp
      with failed(3) show ?thesis by (rule outcome_step)
    next
      case False
      with at e failed(1) step have "snd q = s' \<and> isl (fst q)" by (auto split: if_splits)
      with failed(3) here show ?thesis by (cases "fst q") (auto simp: capacity_outcome_def)
    qed
  next
    case threw
    with at step here show ?thesis by (cases r) (auto simp: capacity_outcome_def)
  next
    case (worked v p s2)
    with at step have "q = (Inr v, s')" by simp
    with worked show ?thesis by (auto simp: capacity_outcome_def intro: wait_none)
  qed
qed

text \<open>The work of a capacity transaction takes effect at most once, and only on a lock that came
  within its allowance. If the transaction answers, then either it failed, and all that changed is
  what other transactions committed while its attempts waited; or it succeeded, and its result and
  state are those of one run of the work, right after the preparation and the wait of the last
  attempt, on the state the other transactions had left.\<close>

theorem capacity_work_at_most_once:
  assumes "run_event_capacity_transaction policy began acq prepare work s = Some (r, s')"
  shows "case r of
      Inl e \<Rightarrow> \<exists>n. others_wait acq 0 n s s'
    | Inr v \<Rightarrow> \<exists>n t p s2. others_wait acq 0 n s t \<and> prepare (aq_before (acq n) t) = Inr (p, s2) \<and>
        aq_locked (acq n) - aq_started (acq n) \<le> cp_lock_allowance policy \<and>
        work p (aq_waiting (acq n) s2) = Inr (v, s')"
proof -
  have "capacity_outcome policy acq prepare work 0 s (r, s')"
    using assms unfolding run_event_capacity_transaction_def by (rule attempts_outcome)
  then show ?thesis by (simp only: capacity_outcome_def fst_conv snd_conv)
qed

definition slow_then_free :: "nat \<Rightarrow> nat acquisition" where
  "slow_then_free k = \<lparr>aq_before = Suc, aq_waiting = (\<lambda>n. n), aq_failure = None, aq_expiry = None,
     aq_started = 40000 * int k, aq_locked = 40000 * int k + (if k = 0 then 30001 else 5),
     aq_caught = 40000 * int k + 30002\<rparr>"

theorem capacity_work_at_most_once_witness:
  "run_event_capacity_transaction default_capacity_policy 0 slow_then_free (tx_return ())
     (\<lambda>_ n. Inr (n, 10 * n) :: unit request_error + (nat \<times> nat)) 0 = Some (Inr 2, 20) \<and>
   (\<exists>n t. others_wait slow_then_free 0 n 0 t \<and> 10 * Suc t = 20)"
proof -
  let ?work = "\<lambda>_ n. Inr (n, 10 * n) :: unit request_error + (nat \<times> nat)"
  have run: "run_event_capacity_transaction default_capacity_policy 0 slow_then_free (tx_return ()) ?work 0 =
      Some (Inr 2, 20)"
    unfolding run_event_capacity_transaction_def
    by (subst capacity_attempts.simps, simp add: capacity_attempt_def slow_then_free_def default_capacity_policy_def
          tx_simps replayable_def event_capacity_transaction_options_def)
       (subst capacity_attempts.simps, simp add: capacity_attempt_def slow_then_free_def default_capacity_policy_def
          tx_simps replayable_def event_capacity_transaction_options_def)
  from capacity_work_at_most_once [OF run] run show ?thesis
    by (auto simp: tx_simps slow_then_free_def)
qed

end
