(* ===== verification/Import_Commit.thy ===== *)
theory Import_Commit
  imports Import_Parse Export Capacity_Lock Undo
begin

text \<open>
  Writing an import: \<open>packages/import/src/importer.ts\<close> and \<open>event-capacity.ts\<close>, with the constraints the
  database checks on an attendee. Random ids and tokens are the sequence \<open>ids\<close> (the pair drawn
  for the n-th created row); \<open>others k\<close> is what other transactions commit between the statements
  (0 while the capacity lock is awaited, 1 before the prefetch, 2 and 3 around the capacity check,
  4 between the insert and its re-read, 5 between batches). Queries without an order return rows
  in table order.
\<close>

section \<open>Options, rows and results\<close>

record import_options =
  io_overwrite :: bool
  io_dry_run :: bool
  io_force_capacity :: bool
  io_attribute_fields :: "item_content list"
  io_ticket_types :: "import_ticket_type list option"
  io_timezone :: "string option"

type_synonym skipped_row = "string \<times> string"

record import_summary =
  im_to_create :: nat
  im_to_update :: nat
  im_to_skip :: nat
  im_created :: nat
  im_updated :: nat
  im_skipped :: "skipped_row list"

record create_data =
  ac_id :: string
  ac_event_id :: string
  ac_email :: string
  ac_name :: string
  ac_first_name :: string
  ac_last_name :: string
  ac_ticket_type :: "string option"
  ac_external_uuid :: "string option"
  ac_qr_payload :: "string option"
  ac_public_ref :: "string option"
  ac_company :: "string option"
  ac_department :: "string option"
  ac_custom_data :: "string_record option"
  ac_client_timezone :: "string option"

record update_data =
  ud_name :: string
  ud_first_name :: string
  ud_last_name :: string
  ud_ticket_type :: "string option"
  ud_company :: "string option"
  ud_department :: "string option"
  ud_custom_data :: "json option"

datatype import_error =
    Import_capacity_exceeded int nat nat nat
  | Import_event_not_found string
  | Import_stopped
  | Import_record_not_found
  | Import_check_violation
  | Import_db ops_error

type_synonym import_failure = "import_error request_error"
type_synonym 'a import_tx = "(ops_db, import_failure, 'a) tx"

definition import_conflict_skip_reason :: string where
  "import_conflict_skip_reason = ''Duplicate email (conflict on insert)''"

section \<open>Custom data\<close>

text \<open>A copy of the stored object, an empty one for anything that is not a plain object.\<close>

definition clone_custom_data :: "json \<Rightarrow> (string \<times> json) list" where
  "clone_custom_data raw = (case raw of JObj kvs \<Rightarrow> kvs | _ \<Rightarrow> [])"

definition merge_custom_data :: "json \<Rightarrow> string_record \<Rightarrow> json" where
  "merge_custom_data existing incoming =
     JObj (fold (\<lambda>(key, value) merged. AList.update key (JStr value) merged) incoming (clone_custom_data existing))"

definition resolve_attribute_fields :: "import_options \<Rightarrow> item_content list" where
  "resolve_attribute_fields options = filter_custom_data_attribute_fields (io_attribute_fields options)"

definition validate_import_custom_data :: "item_content list \<Rightarrow> json \<Rightarrow> string option" where
  "validate_import_custom_data attrs custom_data =
     (if attrs = [] then None
      else case assert_custom_data_meets_requirements attrs custom_data of
          Inl err \<Rightarrow> Some (import_custom_data_skip_reason err attrs)
        | Inr _ \<Rightarrow> None)"

text \<open>\<open>Inl\<close> is the reason to skip the row.\<close>

definition validate_import_ticket_type ::
  "string option \<Rightarrow> import_ticket_type list option \<Rightarrow> string + string option" where
  "validate_import_ticket_type raw catalog =
     (case (raw, catalog) of
        (Some r, Some types) \<Rightarrow>
          (case resolve_import_ticket_type r types of
             None \<Rightarrow> Inl (''Unknown ticket type: '' @ quoted_text r)
           | Some found \<Rightarrow> Inr (Some (it_key found)))
      | _ \<Rightarrow> Inr raw)"

section \<open>The attendees a row may mean\<close>

definition prefetch_batch_size :: nat where
  "prefetch_batch_size = 5000"

definition batch_of :: "'a list \<Rightarrow> nat \<Rightarrow> 'a list" where
  "batch_of xs n = take prefetch_batch_size (drop (n * prefetch_batch_size) xs)"

definition prefetch_existing_attendees :: "string \<Rightarrow> attendee_row list \<Rightarrow> ops_db \<Rightarrow> attendee list" where
  "prefetch_existing_attendees eid rows db =
     (let emails = map rw_email rows;
          uuids = concat (map (\<lambda>r. if truthy (rw_external_uuid r) then [the (rw_external_uuid r)] else []) rows);
          qrs = concat (map (\<lambda>r. if truthy (rw_qr_payload r) then [the (rw_qr_payload r)] else []) rows);
          agency = unique_in_order (uuids @ qrs);
          batches = (max (max (length emails) (length agency)) 1 + prefetch_batch_size - 1) div prefetch_batch_size
      in concat (map (\<lambda>n. filter (\<lambda>a. att_event_id a = eid \<and>
             (js_lower (att_email a) \<in> js_lower ` set (batch_of emails n) \<or>
              (\<exists>x \<in> set_option (att_external_uuid a). x \<in> set (batch_of agency n)) \<or>
              (\<exists>x \<in> set_option (att_qr_payload a). x \<in> set (batch_of agency n)))) (attendees db))
           [0..<batches]))"

text \<open>The buckets of the maps: of several attendees under one key, the last.\<close>

definition by_uuid :: "attendee list \<Rightarrow> string \<Rightarrow> attendee option" where
  "by_uuid existing key = List.find (\<lambda>a. truthy (att_external_uuid a) \<and> att_external_uuid a = Some key) (rev existing)"

definition by_qr_payload :: "attendee list \<Rightarrow> string \<Rightarrow> attendee option" where
  "by_qr_payload existing key = List.find (\<lambda>a. truthy (att_qr_payload a) \<and> att_qr_payload a = Some key) (rev existing)"

definition by_email :: "attendee list \<Rightarrow> string \<Rightarrow> attendee option" where
  "by_email existing key = List.find (\<lambda>a. js_lower (att_email a) = key) (rev existing)"

definition looked_up :: "(string \<Rightarrow> attendee option) \<Rightarrow> string option \<Rightarrow> attendee option" where
  "looked_up bucket key = (if truthy key then bucket (the key) else None)"

definition other_than :: "attendee \<Rightarrow> attendee option \<Rightarrow> bool" where
  "other_than a b \<longleftrightarrow> map_option att_id b \<noteq> Some (att_id a)"

text \<open>The attendee found, and whether the identifiers contradict each other.\<close>

definition find_attendee_match :: "attendee_row \<Rightarrow> attendee list \<Rightarrow> attendee option \<times> bool" where
  "find_attendee_match row existing =
     (let email_match = by_email existing (js_lower (rw_email row));
          uuid_match = looked_up (by_uuid existing) (rw_external_uuid row);
          uuid_cross_match = looked_up (by_qr_payload existing) (rw_external_uuid row);
          qr_match = looked_up (by_qr_payload existing) (rw_qr_payload row);
          qr_cross_match = looked_up (by_uuid existing) (rw_qr_payload row);
          candidates = concat (map (\<lambda>c. case c of None \<Rightarrow> [] | Some a \<Rightarrow> [a])
            [uuid_match, uuid_cross_match, qr_match, qr_cross_match, email_match]);
          cross_conflict =
            (case uuid_cross_match of None \<Rightarrow> False
             | Some a \<Rightarrow> other_than a email_match \<and> other_than a uuid_match) \<or>
            (case qr_cross_match of None \<Rightarrow> False
             | Some a \<Rightarrow> other_than a email_match \<and> other_than a qr_match)
      in (case candidates of [] \<Rightarrow> None | a # _ \<Rightarrow> Some a,
          length (remdups (map att_id candidates)) > 1 \<or> cross_conflict))"

section \<open>Classifying the rows\<close>

datatype row_classification = Skip string string | Create create_data | Update string update_data

definition classify_existing_row ::
  "attendee_row \<Rightarrow> string \<Rightarrow> attendee \<Rightarrow> import_options \<Rightarrow> item_content list \<Rightarrow>
   (string \<times> update_data) list \<Rightarrow> row_classification" where
  "classify_existing_row row name found options attrs updates =
     (if \<not> io_overwrite options
      then Skip (rw_email row) (''Attendee already exists. Turn on '' @ quoted_text ''Overwrite existing attendees'' @
             '' to update it instead of skipping'')
      else let pending = map_of updates (att_id found);
               prior = (case pending of Some d \<Rightarrow>
                   (case ud_custom_data d of Some j \<Rightarrow> (if j = JNull then att_custom_data found else j)
                    | None \<Rightarrow> att_custom_data found)
                 | None \<Rightarrow> att_custom_data found);
               merged = (case rw_custom_data row of Some cd \<Rightarrow> merge_custom_data prior cd | None \<Rightarrow> prior)
           in case validate_import_custom_data attrs merged of
                Some reason \<Rightarrow> Skip (rw_email row) reason
              | None \<Rightarrow>
                  (case validate_import_ticket_type (rw_ticket_type row) (io_ticket_types options) of
                     Inl reason \<Rightarrow> Skip (rw_email row) reason
                   | Inr ticket_type \<Rightarrow>
                       let touched = (rw_custom_data row \<noteq> None \<or>
                             (case pending of None \<Rightarrow> False | Some d \<Rightarrow> ud_custom_data d \<noteq> None))
                       in Update (att_id found)
                            \<lparr>ud_name = name, ud_first_name = rw_first_name row, ud_last_name = rw_last_name row,
                             ud_ticket_type = or_else ticket_type (Option.bind pending ud_ticket_type),
                             ud_company = or_else (rw_company row) (Option.bind pending ud_company),
                             ud_department = or_else (rw_department row) (Option.bind pending ud_department),
                             ud_custom_data = (if touched then Some merged else None)\<rparr>))"

definition classify_new_row ::
  "string \<times> string \<Rightarrow> attendee_row \<Rightarrow> string \<Rightarrow> string \<Rightarrow> import_options \<Rightarrow> item_content list \<Rightarrow>
   row_classification" where
  "classify_new_row fresh row name eid options attrs =
     (case validate_import_custom_data attrs
             (JObj (map (\<lambda>(k, v). (k, JStr v)) (case rw_custom_data row of None \<Rightarrow> [] | Some cd \<Rightarrow> cd))) of
        Some reason \<Rightarrow> Skip (rw_email row) reason
      | None \<Rightarrow>
          (case validate_import_ticket_type (rw_ticket_type row) (io_ticket_types options) of
             Inl reason \<Rightarrow> Skip (rw_email row) reason
           | Inr ticket_type \<Rightarrow>
               Create \<lparr>ac_id = fst fresh, ac_event_id = eid, ac_email = rw_email row, ac_name = name,
                 ac_first_name = rw_first_name row, ac_last_name = rw_last_name row,
                 ac_ticket_type = ticket_type, ac_external_uuid = rw_external_uuid row,
                 ac_qr_payload = rw_qr_payload row,
                 ac_public_ref = (if rw_external_uuid row \<noteq> None \<or> rw_qr_payload row \<noteq> None
                   then Some (snd fresh) else None),
                 ac_company = rw_company row, ac_department = rw_department row,
                 ac_custom_data = rw_custom_data row, ac_client_timezone = io_timezone options\<rparr>))"

definition row_name :: "attendee_row \<Rightarrow> string" where
  "row_name row = join_with '' '' (filter (\<lambda>s. s \<noteq> []) [rw_first_name row, rw_last_name row])"

definition classify_row ::
  "string \<times> string \<Rightarrow> attendee_row \<Rightarrow> string \<Rightarrow> item_content list \<Rightarrow> import_options \<Rightarrow> attendee list \<Rightarrow>
   (string \<times> update_data) list \<Rightarrow> row_classification" where
  "classify_row fresh row eid attrs options existing updates =
     (case find_attendee_match row existing of
        (_, True) \<Rightarrow> Skip (rw_email row) ''Conflicting identifiers match different attendees''
      | (Some found, False) \<Rightarrow> classify_existing_row row (row_name row) found options attrs updates
      | (None, False) \<Rightarrow> classify_new_row fresh row (row_name row) eid options attrs)"

record classified =
  cl_creates :: "create_data list"
  cl_updates :: "(string \<times> update_data) list"
  cl_skipped :: "skipped_row list"

fun classify_rows ::
  "(nat \<Rightarrow> string \<times> string) \<Rightarrow> string \<Rightarrow> item_content list \<Rightarrow> import_options \<Rightarrow> attendee list \<Rightarrow>
   attendee_row list \<Rightarrow> classified \<Rightarrow> classified" where
  "classify_rows ids eid attrs options existing [] acc = acc"
| "classify_rows ids eid attrs options existing (row # rows) acc =
     classify_rows ids eid attrs options existing rows
       (case classify_row (ids (length (cl_creates acc))) row eid attrs options existing (cl_updates acc) of
          Skip email reason \<Rightarrow> acc\<lparr>cl_skipped := cl_skipped acc @ [(email, reason)]\<rparr>
        | Create d \<Rightarrow> acc\<lparr>cl_creates := cl_creates acc @ [d]\<rparr>
        | Update i d \<Rightarrow> acc\<lparr>cl_updates := AList.update i d (cl_updates acc)\<rparr>)"

end
