(* ===== verification/Import_Write.thy ===== *)
theory Import_Write
  imports Import_Commit
begin

text \<open>
  The database side of an import (\<open>createAttendeesBatch\<close>, \<open>writeAttendeeBatches\<close> and \<open>commitImport\<close> of
  \<open>packages/import/src/importer.ts\<close>): inserts that skip what a unique key refuses, updates by id, the
  capacity check, and the CHECK constraints of the attendee table.
\<close>

section \<open>Constraints of the attendee table\<close>

text \<open>Two rows that cannot both be in the table.\<close>

definition same_key :: "'a option \<Rightarrow> 'a option \<Rightarrow> bool" where
  "same_key x y \<longleftrightarrow> x \<noteq> None \<and> x = y"

definition attendee_conflict :: "attendee \<Rightarrow> attendee \<Rightarrow> bool" where
  "attendee_conflict a b \<longleftrightarrow> att_id a = att_id b \<or>
     (att_event_id a = att_event_id b \<and>
       (att_email a = att_email b \<or> same_key (att_external_uuid a) (att_external_uuid b) \<or>
        same_key (att_qr_payload a) (att_qr_payload b))) \<or>
     same_key (att_token_hash a) (att_token_hash b) \<or> same_key (att_public_ref a) (att_public_ref b)"

definition erased_placeholder_address :: "string \<Rightarrow> bool" where
  "erased_placeholder_address email \<longleftrightarrow>
     starts_with (rev (CHR ''@'' # erased_email_domain)) (rev (js_lower email))"

definition attendee_checks :: "attendee \<Rightarrow> bool" where
  "attendee_checks a \<longleftrightarrow>
     (if att_erased_at a = None then \<not> erased_placeholder_address (att_email a)
      else att_name a = ''Erased attendee'' \<and>
        att_email a = ''erased-'' @ att_id a @ CHR ''@'' # erased_email_domain \<and>
        att_first_name a = None \<and> att_last_name a = None \<and> att_company a = None \<and> att_department a = None \<and>
        att_custom_data a = JNull \<and> att_token_hash a = None \<and> att_token_enc a = None \<and>
        att_qr_payload a = None \<and> att_external_uuid a = None \<and> att_public_ref a = None)"

definition attendee_references :: "ops_db \<Rightarrow> attendee \<Rightarrow> bool" where
  "attendee_references db a \<longleftrightarrow> (\<exists>e \<in> set (events db). ev_id e = att_event_id a) \<and>
     (case att_ticket_type a of None \<Rightarrow> True
      | Some key \<Rightarrow> \<exists>t \<in> set (ticket_types db). tt_event_id t = att_event_id a \<and> tt_key t = key)"

section \<open>Inserting\<close>

definition attendee_of_create :: "create_data \<Rightarrow> attendee" where
  "attendee_of_create d =
     \<lparr>att_id = ac_id d, att_event_id = ac_event_id d, att_email = ac_email d, att_name = ac_name d,
      att_first_name = Some (ac_first_name d), att_last_name = Some (ac_last_name d),
      att_token_hash = None, att_token_enc = None, att_qr_payload = ac_qr_payload d,
      att_external_uuid = ac_external_uuid d, att_public_ref = ac_public_ref d,
      att_ticket_type = ac_ticket_type d, att_company = ac_company d, att_department = ac_department d,
      att_custom_data = (case ac_custom_data d of None \<Rightarrow> JNull
        | Some cd \<Rightarrow> JObj (map (\<lambda>(k, v). (k, JStr v)) cd)),
      att_status = Registered, att_admitted_at = None, att_admitted_by = None, att_erased_at = None,
      att_client_timezone = ac_client_timezone d, att_rsvp_status = ''none''\<rparr>"

fun insert_skipping :: "attendee list \<Rightarrow> attendee list \<Rightarrow> attendee list" where
  "insert_skipping [] rows = rows"
| "insert_skipping (a # as) rows =
     insert_skipping as (if \<exists>b \<in> set rows. attendee_conflict a b then rows else rows @ [a])"

definition create_many_skip_duplicates :: "create_data list \<Rightarrow> nat import_tx" where
  "create_many_skip_duplicates ds db =
     (let new = map attendee_of_create ds;
          after = insert_skipping new (attendees db);
          added = drop (length (attendees db)) after
      in if \<exists>a \<in> set new. \<not> attendee_checks a then Inl (Thrown Import_check_violation)
         else if \<exists>a \<in> set added. \<not> attendee_references db a then Inl (Thrown (Import_db Foreign_key_violation))
         else Inr (length added, db\<lparr>attendees := after\<rparr>))"

definition create_attendees_batch ::
  "(nat \<Rightarrow> ops_db \<Rightarrow> ops_db) \<Rightarrow> create_data list \<Rightarrow> (nat \<times> skipped_row list) import_tx" where
  "create_attendees_batch others ds =
     (if ds = [] then tx_return (0, [])
      else tx_bind (create_many_skip_duplicates ds) (\<lambda>count.
        if count = length ds then tx_return (count, [])
        else tx_bind (interfere (others 4)) (\<lambda>_.
             tx_bind (tx_read (\<lambda>db. map att_id (filter (\<lambda>a. att_id a \<in> set (map ac_id ds)) (attendees db))))
               (\<lambda>inserted. tx_return
                 (length (filter (\<lambda>d. ac_id d \<in> set inserted) ds),
                  map (\<lambda>d. (ac_email d, import_conflict_skip_reason))
                    (filter (\<lambda>d. ac_id d \<notin> set inserted) ds))))))"

section \<open>Updating\<close>

definition apply_update :: "update_data \<Rightarrow> attendee \<Rightarrow> attendee" where
  "apply_update d a =
     a\<lparr>att_name := ud_name d, att_first_name := Some (ud_first_name d), att_last_name := Some (ud_last_name d),
       att_ticket_type := or_else (ud_ticket_type d) (att_ticket_type a),
       att_company := or_else (ud_company d) (att_company a),
       att_department := or_else (ud_department d) (att_department a),
       att_custom_data := (case ud_custom_data d of None \<Rightarrow> att_custom_data a | Some j \<Rightarrow> j)\<rparr>"

definition update_attendee :: "string \<times> update_data \<Rightarrow> unit \<Rightarrow> unit import_tx" where
  "update_attendee u _ db =
     (case attendee_by_id (fst u) db of
        None \<Rightarrow> Inl (Known_request_error ''P2025'' None)
      | Some a \<Rightarrow>
          let b = apply_update (snd u) a in
          if \<not> attendee_checks b then Inl (Thrown Import_check_violation)
          else if \<not> attendee_references db b then Inl (Thrown (Import_db Foreign_key_violation))
          else Inr ((), db\<lparr>attendees := update_where (\<lambda>x. att_id x = fst u) (apply_update (snd u)) (attendees db)\<rparr>))"

definition create_batch_size :: nat where
  "create_batch_size = 1000"

definition update_batch_size :: nat where
  "update_batch_size = 250"

definition write_create_batch ::
  "(nat \<Rightarrow> ops_db \<Rightarrow> ops_db) \<Rightarrow> create_data list \<Rightarrow> nat \<times> skipped_row list \<Rightarrow>
   (nat \<times> skipped_row list) import_tx" where
  "write_create_batch others batch acc =
     tx_bind (create_attendees_batch others batch) (\<lambda>result.
     tx_bind (interfere (others 5)) (\<lambda>_.
       tx_return (fst acc + fst result, snd acc @ snd result)))"

definition write_creates ::
  "(nat \<Rightarrow> ops_db \<Rightarrow> ops_db) \<Rightarrow> create_data list \<Rightarrow> (nat \<times> skipped_row list) import_tx" where
  "write_creates others creates =
     tx_fold (write_create_batch others) (chunk creates create_batch_size) (0, [])"

definition write_update_batch ::
  "(nat \<Rightarrow> ops_db \<Rightarrow> ops_db) \<Rightarrow> (string \<times> update_data) list \<Rightarrow> nat \<Rightarrow> nat import_tx" where
  "write_update_batch others batch updated =
     tx_bind (tx_fold update_attendee batch ()) (\<lambda>_.
     tx_bind (interfere (others 5)) (\<lambda>_. tx_return (updated + length batch)))"

definition write_updates ::
  "(nat \<Rightarrow> ops_db \<Rightarrow> ops_db) \<Rightarrow> (string \<times> update_data) list \<Rightarrow> nat import_tx" where
  "write_updates others updates =
     tx_fold (write_update_batch others) (chunk updates update_batch_size) 0"

text \<open>The created and updated rows, and the rows skipped by the inserts.\<close>

definition write_attendee_batches ::
  "(nat \<Rightarrow> ops_db \<Rightarrow> ops_db) \<Rightarrow> create_data list \<Rightarrow> (string \<times> update_data) list \<Rightarrow>
   (nat \<times> nat \<times> skipped_row list) import_tx" where
  "write_attendee_batches others creates updates =
     tx_bind (write_creates others creates) (\<lambda>(created, skipped).
     tx_bind (write_updates others updates) (\<lambda>updated.
       tx_return (created, updated, skipped)))"

section \<open>Capacity\<close>

definition counts_for_capacity :: "string \<Rightarrow> attendee \<Rightarrow> bool" where
  "counts_for_capacity eid a \<longleftrightarrow> att_event_id a = eid \<and> att_status a \<notin> set capacity_excluded_statuses"

definition capacity_use :: "string \<Rightarrow> ops_db \<Rightarrow> nat" where
  "capacity_use eid db = count_where (counts_for_capacity eid) (attendees db)"

text \<open>The capacity and the count when an overflow was forced.\<close>

definition assert_import_capacity_in_tx ::
  "string \<Rightarrow> nat \<Rightarrow> bool \<Rightarrow> (int \<times> nat) option import_tx" where
  "assert_import_capacity_in_tx eid incoming force =
     (if incoming = 0 then tx_return None
      else tx_bind (tx_read (event_by_id eid)) (\<lambda>event.
        case Option.bind event ev_capacity of None \<Rightarrow> tx_return None
        | Some capacity \<Rightarrow>
            tx_bind (tx_read (capacity_use eid)) (\<lambda>current.
              if int (current + incoming) \<le> capacity then tx_return None
              else if force then tx_return (Some (capacity, current))
              else tx_throw (Thrown (Import_capacity_exceeded capacity current incoming (current + incoming))))))"

section \<open>The commit\<close>

definition no_rows_yet :: classified where
  "no_rows_yet = \<lparr>cl_creates = [], cl_updates = [], cl_skipped = []\<rparr>"

definition summary_of :: "classified \<Rightarrow> import_summary" where
  "summary_of c = \<lparr>im_to_create = length (cl_creates c), im_to_update = length (cl_updates c),
     im_to_skip = length (cl_skipped c), im_created = 0, im_updated = 0, im_skipped = cl_skipped c\<rparr>"

text \<open>Inside a transaction the caller owns, or as a dry run.\<close>

definition commit_import_owned ::
  "(nat \<Rightarrow> ops_db \<Rightarrow> ops_db) \<Rightarrow> (nat \<Rightarrow> string \<times> string) \<Rightarrow> string \<Rightarrow> attendee_row list \<Rightarrow>
   import_options \<Rightarrow> import_summary import_tx" where
  "commit_import_owned others ids eid rows options =
     tx_bind (if io_dry_run options then tx_return () else interfere (others 0)) (\<lambda>_.
     tx_bind (tx_read (event_by_id eid)) (\<lambda>event.
     if event = None then tx_throw (Thrown (Import_event_not_found eid))
     else
     tx_bind (interfere (others 1)) (\<lambda>_.
     tx_bind (tx_read (prefetch_existing_attendees eid rows)) (\<lambda>existing.
     let c = classify_rows ids eid (resolve_attribute_fields options) options existing rows no_rows_yet
     in if io_dry_run options \<or> (cl_creates c = [] \<and> cl_updates c = []) then tx_return (summary_of c)
        else
        tx_bind (interfere (others 2)) (\<lambda>_.
        tx_bind (assert_import_capacity_in_tx eid (length (cl_creates c)) (io_force_capacity options)) (\<lambda>_.
        tx_bind (interfere (others 3)) (\<lambda>_.
        tx_bind (write_attendee_batches others (cl_creates c) (cl_updates c)) (\<lambda>(created, updated, dups).
          tx_return ((summary_of c)\<lparr>im_created := created, im_updated := updated,
            im_skipped := cl_skipped c @ dups, im_to_skip := length (cl_skipped c @ dups)\<rparr>)))))))))"

text \<open>
  The standalone commit owns the capacity transaction; the catalog lock of its preparation is one
  more wait of the attempt.
\<close>

definition commit_import ::
  "capacity_policy \<Rightarrow> int \<Rightarrow> (nat \<Rightarrow> ops_db acquisition) \<Rightarrow> (nat \<Rightarrow> ops_db \<Rightarrow> ops_db) \<Rightarrow>
   (nat \<Rightarrow> string \<times> string) \<Rightarrow> string \<Rightarrow> attendee_row list \<Rightarrow> import_options \<Rightarrow> ops_db \<Rightarrow>
   ((import_failure + import_summary) \<times> ops_db) option" where
  "commit_import policy began acq others ids eid rows options db =
     (if io_dry_run options then Some (run_tx (commit_import_owned others ids eid rows options) db)
      else run_event_capacity_transaction policy began acq (tx_return ())
             (\<lambda>_. commit_import_owned others ids eid rows options) db)"

end
