(* ===== verification/Import_Jobs.thy ===== *)
theory Import_Jobs
  imports Import_Write Admin_Jobs
begin

text \<open>
  Import jobs: the one transaction that writes an import and closes its job
  (\<open>packages/import/src/executeImportCommit.ts\<close>), the worker's run (\<open>drainImportJobs.ts\<close>) and the
  reclaiming of stale imports (\<open>reclaimStaleImportJobs.ts\<close>). The staged file is read from storage.
\<close>

section \<open>Parameters and results\<close>

record import_params =
  ip_event_id :: string
  ip_csv :: string
  ip_overwrite :: bool
  ip_force_capacity :: bool
  ip_actor_user_id :: "string option"
  ip_session_id :: "string option"
  ip_timezone :: "string option"
  ip_filename :: "string option"
  ip_import_id :: string
  ip_admin_job_id :: "string option"

text \<open>A refused row: its index, its cells when the parser refused it, and the reason.\<close>

record row_problem =
  rp_row_index :: nat
  rp_raw :: "string_record option"
  rp_reason :: string

record import_outcome =
  ir_import_id :: string
  ir_summary :: import_summary
  ir_skipped :: "skipped_row list"
  ir_skipped_count :: nat
  ir_invalid_rows :: "row_problem list"
  ir_invalid_count :: nat

text \<open>
  What comes from outside: the address check, the ids and tokens drawn by the dry run and by the
  commit, the clock, the waits for the capacity lock and the other transactions.
\<close>

record import_env =
  ie_email_ok :: "string \<Rightarrow> bool"
  ie_ids :: "nat \<Rightarrow> string \<times> string"
  ie_now :: int
  ie_began :: int
  ie_acquisitions :: "nat \<Rightarrow> admin_db acquisition"
  ie_ops_others :: "nat \<Rightarrow> ops_db \<Rightarrow> ops_db"
  ie_others :: "nat \<Rightarrow> admin_db \<Rightarrow> admin_db"

definition row_detail_limit :: nat where
  "row_detail_limit = 20"

definition cap_rows :: "'a list \<Rightarrow> 'a list" where
  "cap_rows rows = take row_detail_limit rows"

definition load_import_attribute_fields :: "string \<Rightarrow> ops_db \<Rightarrow> item_content list" where
  "load_import_attribute_fields eid db =
     filter_custom_data_attribute_fields (load_event_custom_data_fields eid db)"

definition load_import_ticket_types :: "ops_db \<Rightarrow> string \<Rightarrow> import_ticket_type list" where
  "load_import_ticket_types db eid =
     map (\<lambda>t. \<lparr>it_key = tt_key t, it_label = tt_label t\<rparr>) (load_event_ticket_types db eid)"

section \<open>The transaction\<close>

definition on_ops :: "('a import_tx) \<Rightarrow> (admin_db, import_failure, 'a) tx" where
  "on_ops m db = (case m (ad_ops db) of Inl e \<Rightarrow> Inl e | Inr (a, ops) \<Rightarrow> Inr (a, db\<lparr>ad_ops := ops\<rparr>))"

definition as_import :: "'a ops_tx \<Rightarrow> 'a import_tx" where
  "as_import m db = (case m db of Inl e \<Rightarrow> Inl (Thrown (Import_db e)) | Inr r \<Rightarrow> Inr r)"

text \<open>The row of the job is locked first; an import whose job is not running any more stops here.\<close>

definition lock_import_job :: "import_params \<Rightarrow> (admin_db, import_failure, unit) tx" where
  "lock_import_job params =
     (case ip_admin_job_id params of None \<Rightarrow> tx_return ()
      | Some jid \<Rightarrow>
          if jid = [] then tx_return ()
          else tx_bind (tx_read (job_by_id jid)) (\<lambda>job.
            if map_option aj_status job = Some ''running'' then tx_return ()
            else tx_throw (Thrown Import_stopped)))"

definition type_still_there :: "import_ticket_type list \<Rightarrow> attendee_row \<Rightarrow> bool" where
  "type_still_there types row \<longleftrightarrow>
     (case rw_ticket_type row of None \<Rightarrow> True | Some key \<Rightarrow> key \<in> it_key ` set types)"

definition lock_invalidated :: "import_ticket_type list \<Rightarrow> attendee_row list \<Rightarrow> row_problem list" where
  "lock_invalidated types rows =
     map (\<lambda>r. \<lparr>rp_row_index = rw_row_index r, rp_raw = None,
              rp_reason = ''Unknown ticket type: '' @ quoted_text (the (rw_ticket_type r))\<rparr>)
       (filter (\<lambda>r. \<not> type_still_there types r) rows)"

definition optional_string :: "string option \<Rightarrow> json" where
  "optional_string s = (case s of None \<Rightarrow> JNull | Some v \<Rightarrow> JStr v)"

definition import_audit :: "import_params \<Rightarrow> import_summary \<Rightarrow> (int \<times> nat) option \<Rightarrow> json" where
  "import_audit params s forced = JObj
     ([(''created'', JNum (int (im_created s))), (''updated'', JNum (int (im_updated s))),
       (''skipped'', JNum (int (length (im_skipped s)))), (''filename'', optional_string (ip_filename params)),
       (''importId'', JStr (ip_import_id params))] @
      (case forced of None \<Rightarrow> []
       | Some (capacity, current) \<Rightarrow> [(''forced'', JBool True), (''capacity'', JNum capacity), (''current'', JNum (int current))]))"

definition skipped_json :: "skipped_row \<Rightarrow> json" where
  "skipped_json r = JObj [(''email'', JStr (fst r)), (''reason'', JStr (snd r))]"

definition problem_json :: "row_problem \<Rightarrow> json" where
  "problem_json r = JObj ([(''rowIndex'', JNum (int (rp_row_index r)))] @
     (case rp_raw r of None \<Rightarrow> []
      | Some raw \<Rightarrow> [(''raw'', JObj (map (\<lambda>(k, v). (k, JStr v)) raw))]) @ [(''reason'', JStr (rp_reason r))])"

definition import_result_json :: "string \<Rightarrow> import_summary \<Rightarrow> row_problem list \<Rightarrow> json" where
  "import_result_json import_id s problems = JObj
     [(''importId'', JStr import_id), (''toCreate'', JNum (int (im_to_create s))),
      (''toUpdate'', JNum (int (im_to_update s))), (''toSkip'', JNum (int (im_to_skip s))),
      (''created'', JNum (int (im_created s))), (''updated'', JNum (int (im_updated s))),
      (''skipped'', JArr (map skipped_json (cap_rows (im_skipped s)))),
      (''skippedCount'', JNum (int (length (im_skipped s)))),
      (''invalidRows'', JArr (map problem_json (cap_rows problems))),
      (''invalidCount'', JNum (int (length problems)))]"

definition succeed_import_job :: "int \<Rightarrow> import_params \<Rightarrow> import_summary \<Rightarrow> row_problem list \<Rightarrow>
   (admin_db, import_failure, unit) tx" where
  "succeed_import_job now params s problems =
     (case ip_admin_job_id params of None \<Rightarrow> tx_return ()
      | Some jid \<Rightarrow>
          if jid = [] then tx_return ()
          else tx_write (\<lambda>db. snd (update_jobs (\<lambda>j. aj_id j = jid \<and> aj_status j = ''running'')
            (\<lambda>j. j\<lparr>aj_status := ''succeeded'', aj_finished_at := Some now,
               aj_to_create := Some (int (im_to_create s)), aj_to_update := Some (int (im_to_update s)),
               aj_to_skip := Some (int (im_to_skip s)), aj_created_count := Some (int (im_created s)),
               aj_updated_count := Some (int (im_updated s)), aj_skipped_count := Some (int (length (im_skipped s))),
               aj_invalid_count := Some (int (length problems)),
               aj_result_json := import_result_json (ip_import_id params) s problems, aj_error := None\<rparr>) db)))"

definition import_options_of ::
  "import_params \<Rightarrow> bool \<Rightarrow> item_content list \<Rightarrow> import_ticket_type list \<Rightarrow> import_options" where
  "import_options_of params dry attrs types =
     \<lparr>io_overwrite = ip_overwrite params, io_dry_run = dry,
      io_force_capacity = (\<not> dry \<and> ip_force_capacity params), io_attribute_fields = attrs,
      io_ticket_types = Some types, io_timezone = (if dry then None else ip_timezone params)\<rparr>"

definition write_import ::
  "import_env \<Rightarrow> import_params \<Rightarrow> item_content list \<Rightarrow> import_ticket_type list \<Rightarrow> parse_result \<Rightarrow>
   (admin_db, import_failure, import_summary \<times> row_problem list) tx" where
  "write_import env params attrs types parsed =
     tx_bind (tx_read (\<lambda>db. load_import_ticket_types (ad_ops db) (ip_event_id params))) (\<lambda>fresh.
     let rows = filter (type_still_there fresh) (pr_valid_rows parsed);
         lost = lock_invalidated fresh (pr_valid_rows parsed);
         problems = map (\<lambda>r. \<lparr>rp_row_index = iv_row_index r, rp_raw = Some (iv_raw r),
           rp_reason = iv_reason r\<rparr>) (pr_invalid_rows parsed) @ lost
     in tx_bind (on_ops (commit_import_owned (ie_ops_others env) (ie_ids env) (ip_event_id params) rows
                   (import_options_of params True attrs types))) (\<lambda>dry.
        tx_bind (on_ops (assert_import_capacity_in_tx (ip_event_id params) (im_to_create dry)
                   (ip_force_capacity params))) (\<lambda>forced.
        tx_bind (on_ops (commit_import_owned (ie_ops_others env) (ie_ids env) (ip_event_id params) rows
                   (import_options_of params False attrs types))) (\<lambda>result.
        tx_bind (on_ops (as_import (write_bulk_action_log (ip_event_id params) ''attendees_imported''
                   \<lparr>au_operator = ip_actor_user_id params, au_session_id = ip_session_id params,
                    au_device_id = None, au_ip = None, au_timezone = ip_timezone params\<rparr>
                   (Some (import_audit params result forced))))) (\<lambda>_.
        tx_bind (succeed_import_job (ie_now env) params result problems) (\<lambda>_.
          tx_return (result, problems)))))))"

definition outcome_of :: "import_params \<Rightarrow> import_summary \<Rightarrow> row_problem list \<Rightarrow> import_outcome" where
  "outcome_of params s problems =
     \<lparr>ir_import_id = ip_import_id params, ir_summary = s, ir_skipped = cap_rows (im_skipped s),
      ir_skipped_count = length (im_skipped s), ir_invalid_rows = cap_rows problems,
      ir_invalid_count = length problems\<rparr>"

text \<open>The fields, the catalog and the parsed rows are read before the transaction.\<close>

definition execute_import_commit ::
  "import_env \<Rightarrow> import_params \<Rightarrow> admin_db \<Rightarrow> ((import_failure + import_outcome) \<times> admin_db) option" where
  "execute_import_commit env params db =
     (let attrs = load_import_attribute_fields (ip_event_id params) (ad_ops db);
          types = load_import_ticket_types (ad_ops db) (ip_event_id params);
          parsed = parse_attendees (ie_email_ok env) (ip_csv params)
            \<lparr>po_attribute_fields = attrs, po_ticket_types = Some types\<rparr>
      in case run_event_capacity_transaction default_capacity_policy (ie_began env) (ie_acquisitions env)
                (lock_import_job params) (\<lambda>_. write_import env params attrs types parsed) db of
           None \<Rightarrow> None
         | Some (Inl e, db') \<Rightarrow> Some (Inl e, db')
         | Some (Inr (s, problems), db') \<Rightarrow> Some (Inr (outcome_of params s problems), db'))"

definition dry_run_import_counts ::
  "import_env \<Rightarrow> string \<Rightarrow> string \<Rightarrow> bool \<Rightarrow> ops_db \<Rightarrow> (import_failure + import_summary) \<times> ops_db" where
  "dry_run_import_counts env eid csv overwrite db =
     (let attrs = load_import_attribute_fields eid db;
          types = load_import_ticket_types db eid;
          parsed = parse_attendees (ie_email_ok env) csv \<lparr>po_attribute_fields = attrs, po_ticket_types = Some types\<rparr>
      in run_tx (commit_import_owned (ie_ops_others env) (ie_ids env) eid (pr_valid_rows parsed)
           \<lparr>io_overwrite = overwrite, io_dry_run = True, io_force_capacity = False, io_attribute_fields = attrs,
            io_ticket_types = Some types, io_timezone = None\<rparr>) db)"

section \<open>Running a job\<close>

text \<open>The message of an error that reaches the worker: only fixed texts are stored on the job.\<close>

definition import_error_message :: "import_failure + job_error \<Rightarrow> string option" where
  "import_error_message e = (case e of
     Inl (Thrown (Import_event_not_found eid)) \<Rightarrow> Some (''Event not found: '' @ quoted_text eid)
   | Inl (Thrown Import_stopped) \<Rightarrow> Some ''Import stopped before it finished.''
   | Inl Capacity_lock_timed_out \<Rightarrow> Some ''Event capacity lock acquisition timed out.''
   | Inr (Job_plain message) \<Rightarrow> Some message
   | _ \<Rightarrow> None)"

definition import_failure_message :: "import_failure + job_error \<Rightarrow> string" where
  "import_failure_message e = (case e of
     Inl (Thrown (Import_capacity_exceeded _ _ _ _)) \<Rightarrow> import_capacity_error
   | _ \<Rightarrow> (case import_error_message e of None \<Rightarrow> import_job_failed_error
       | Some message \<Rightarrow> the (safe_import_job_error (Some message))))"

definition mark_import_failed :: "int \<Rightarrow> string \<Rightarrow> import_failure + job_error \<Rightarrow> admin_db \<Rightarrow> nat \<times> admin_db" where
  "mark_import_failed now jid err =
     update_jobs (\<lambda>j. aj_id j = jid \<and> aj_status j = ''running'')
       (\<lambda>j. j\<lparr>aj_status := ''failed'', aj_error := Some (import_failure_message err), aj_finished_at := Some now\<rparr>)"

text \<open>Deleting the staged file is best-effort; \<open>delete_ok\<close> says whether storage obeys.\<close>

definition best_effort_delete :: "bool \<Rightarrow> string \<Rightarrow> admin_db \<Rightarrow> admin_db" where
  "best_effort_delete delete_ok key db = (if delete_ok then db\<lparr>ad_files := AList.delete key (ad_files db)\<rparr> else db)"

definition params_of_job :: "admin_job \<Rightarrow> string \<Rightarrow> import_params" where
  "params_of_job job csv =
     \<lparr>ip_event_id = the (aj_event_id job), ip_csv = csv, ip_overwrite = aj_overwrite job,
      ip_force_capacity = aj_force_capacity job, ip_actor_user_id = aj_actor_user_id job,
      ip_session_id = aj_session_id job, ip_timezone = aj_client_timezone job, ip_filename = aj_filename job,
      ip_import_id = the (aj_import_id job), ip_admin_job_id = Some (aj_id job)\<rparr>"

text \<open>\<open>None\<close> is an import that does not return (a capacity wait that never ends).\<close>

definition process_import_job :: "import_env \<Rightarrow> bool \<Rightarrow> admin_job \<Rightarrow> admin_db \<Rightarrow> (string \<times> admin_db) option" where
  "process_import_job env delete_ok job db =
     (let failed = (\<lambda>err s. Some (''failed'', snd (mark_import_failed (ie_now env) (aj_id job) err s)))
      in if \<not> truthy (aj_event_id job) \<or> \<not> truthy (aj_storage_key job) \<or> \<not> truthy (aj_import_id job)
         then failed (Inr (Job_plain ''import_job_incomplete'')) db
         else case map_of (ad_files db) (the (aj_storage_key job)) of
             None \<Rightarrow> failed (Inr Job_other) db
           | Some csv \<Rightarrow>
               (case execute_import_commit env (params_of_job job csv) (ie_others env 2 db) of
                  None \<Rightarrow> None
                | Some (Inl e, db') \<Rightarrow> failed (Inl e) (ie_others env 3 db')
                | Some (Inr _, db') \<Rightarrow>
                    Some (''succeeded'', best_effort_delete delete_ok (the (aj_storage_key job)) (ie_others env 3 db'))))"

section \<open>Stale imports\<close>

definition history_number :: "json option \<Rightarrow> int" where
  "history_number v = (case v of Some (JNum n) \<Rightarrow> n | _ \<Rightarrow> 0)"

definition import_result_json_from_audit_metadata :: "string \<Rightarrow> json \<Rightarrow> json" where
  "import_result_json_from_audit_metadata import_id meta =
     (let created = history_number (prop_of meta ''created'');
          updated = history_number (prop_of meta ''updated'');
          skipped = history_number (prop_of meta ''skipped'')
      in JObj [(''importId'', JStr import_id), (''toCreate'', JNum created), (''toUpdate'', JNum updated),
           (''toSkip'', JNum skipped), (''created'', JNum created), (''updated'', JNum updated),
           (''skipped'', JArr []), (''skippedCount'', JNum skipped), (''invalidRows'', JArr []),
           (''invalidCount'', JNum 0)])"

definition load_import_audit_for_heal :: "string \<Rightarrow> string \<Rightarrow> admin_db \<Rightarrow> action_log option" where
  "load_import_audit_for_heal eid import_id db =
     List.find (\<lambda>l. lg_event_id l = eid \<and> lg_action_type l = ''attendees_imported'' \<and>
       prop_of (lg_metadata l) ''importId'' = Some (JStr import_id)) (action_logs (ad_ops db))"

definition delete_staged_key :: "bool \<Rightarrow> string option \<Rightarrow> admin_db \<Rightarrow> unit \<times> admin_db" where
  "delete_staged_key delete_ok key db =
     ((), if truthy key then best_effort_delete delete_ok (the key) db else db)"

definition fail_stale_pending_import_job :: "bool \<Rightarrow> admin_job \<Rightarrow> int \<Rightarrow> bool job_op" where
  "fail_stale_pending_import_job delete_ok job now =
     op_bind (statement (update_jobs (\<lambda>j. aj_id j = aj_id job \<and> aj_status j = ''pending'')
         (\<lambda>j. j\<lparr>aj_status := ''failed'', aj_error := Some stale_import_pending_error, aj_finished_at := Some now\<rparr>)))
       (\<lambda>updated. if updated = 0 then op_return False
          else op_bind (statement (delete_staged_key delete_ok (aj_storage_key job))) (\<lambda>_. op_return True))"

text \<open>A running job whose import has landed is healed; another fails.\<close>

definition reclaim_stale_running_import_job ::
  "(nat \<Rightarrow> admin_db \<Rightarrow> admin_db) \<Rightarrow> bool \<Rightarrow> admin_job \<Rightarrow> int \<Rightarrow> string job_op" where
  "reclaim_stale_running_import_job others delete_ok job now =
     op_bind (op_read (\<lambda>db. if truthy (aj_event_id job) \<and> truthy (aj_import_id job)
          then load_import_audit_for_heal (the (aj_event_id job)) (the (aj_import_id job)) db else None)) (\<lambda>audit.
     op_bind (meanwhile (others 2)) (\<lambda>_.
     op_bind (statement (update_jobs (\<lambda>j. aj_id j = aj_id job \<and> aj_status j = ''running'')
         (\<lambda>j. case audit of
            Some l \<Rightarrow>
              let result = import_result_json_from_audit_metadata (the (aj_import_id job)) (lg_metadata l)
              in j\<lparr>aj_status := ''succeeded'', aj_error := None, aj_finished_at := Some now,
                   aj_created_count := Some (history_number (prop_of result ''created'')),
                   aj_updated_count := Some (history_number (prop_of result ''updated'')),
                   aj_skipped_count := Some (history_number (prop_of result ''skippedCount'')),
                   aj_result_json := result\<rparr>
          | None \<Rightarrow> j\<lparr>aj_status := ''failed'', aj_error := Some stale_import_job_error,
                   aj_finished_at := Some now\<rparr>))) (\<lambda>updated.
       if updated = 0 then op_return ''skipped''
       else op_bind (statement (delete_staged_key delete_ok (aj_storage_key job)))
              (\<lambda>_. op_return (if audit \<noteq> None then ''healed'' else ''reclaimed'')))))"

text \<open>How many were reclaimed and how many healed.\<close>

definition reclaim_stale_import_jobs ::
  "(nat \<Rightarrow> admin_db \<Rightarrow> admin_db) \<Rightarrow> (string \<Rightarrow> bool) \<Rightarrow> reclaim_options \<Rightarrow> (nat \<times> nat) job_op" where
  "reclaim_stale_import_jobs others delete_ok opts =
     (let older = positive_ms_or (ro_older_than_ms opts) default_job_stale_running_ms (ro_now opts)
      in op_bind (op_read (reclaim_pending_gate opts)) (\<lambda>reclaim_pending.
         op_bind (meanwhile (others 0)) (\<lambda>_.
         op_bind (op_read (stale_jobs ''import_commit'' (ro_now opts - older) reclaim_pending)) (\<lambda>stale.
           op_fold (\<lambda>job (reclaimed, healed).
             op_bind (meanwhile (others 1)) (\<lambda>_.
             if aj_status job = ''pending''
             then op_bind (fail_stale_pending_import_job (delete_ok (aj_id job)) job (ro_now opts))
                    (\<lambda>closed. op_return (if closed then reclaimed + 1 else reclaimed, healed))
             else op_bind (reclaim_stale_running_import_job others (delete_ok (aj_id job)) job (ro_now opts))
                    (\<lambda>outcome. op_return
                       (if outcome = ''reclaimed'' then reclaimed + 1 else reclaimed,
                        if outcome = ''healed'' then healed + 1 else healed)))) stale (0, 0)))))"

section \<open>The queue\<close>

record import_drain =
  id_claimed :: nat
  id_succeeded :: nat
  id_failed :: nat
  id_reclaimed :: nat
  id_healed :: nat
  id_event_ids :: "string list"

fun drain_imports ::
  "(nat \<Rightarrow> import_env) \<Rightarrow> (nat \<Rightarrow> bool) \<Rightarrow> nat \<Rightarrow> nat \<Rightarrow> import_drain \<Rightarrow> admin_db \<Rightarrow>
   ((job_error + import_drain) \<times> admin_db) option" where
  "drain_imports envs delete_ok 0 i counts db = Some (Inr counts, db)"
| "drain_imports envs delete_ok (Suc limit) i counts db =
     (case claim_next_admin_job (ie_others (envs i)) (ie_now (envs i)) ''import_commit'' db of
        (Inl e, db') \<Rightarrow> Some (Inl e, db')
      | (Inr None, db') \<Rightarrow> Some (Inr counts, db')
      | (Inr (Some job), db') \<Rightarrow>
          (case process_import_job (envs i) (delete_ok i) job db' of
             None \<Rightarrow> None
           | Some (outcome, db'') \<Rightarrow>
               drain_imports envs delete_ok limit (Suc i)
                 (if outcome = ''succeeded''
                  then counts\<lparr>id_claimed := id_claimed counts + 1, id_succeeded := id_succeeded counts + 1,
                    id_event_ids := id_event_ids counts @
                      (if truthy (aj_event_id job) then [the (aj_event_id job)] else [])\<rparr>
                  else counts\<lparr>id_claimed := id_claimed counts + 1, id_failed := id_failed counts + 1\<rparr>) db''))"

definition drain_import_jobs ::
  "(nat \<Rightarrow> admin_db \<Rightarrow> admin_db) \<Rightarrow> (string \<Rightarrow> bool) \<Rightarrow> (nat \<Rightarrow> import_env) \<Rightarrow> (nat \<Rightarrow> bool) \<Rightarrow> nat \<Rightarrow>
   reclaim_options \<Rightarrow> admin_db \<Rightarrow> ((job_error + import_drain) \<times> admin_db) option" where
  "drain_import_jobs others delete_staged envs delete_ok limit opts db =
     (case reclaim_stale_import_jobs others delete_staged opts db of
        (Inl e, db') \<Rightarrow> Some (Inl e, db')
      | (Inr (reclaimed, healed), db') \<Rightarrow>
          drain_imports envs delete_ok (if limit > 0 then limit else 1) 0
            \<lparr>id_claimed = 0, id_succeeded = 0, id_failed = 0, id_reclaimed = reclaimed, id_healed = healed,
             id_event_ids = []\<rparr> db')"

end
