(* ===== verification/Import_Props.thy ===== *)
theory Import_Props
  imports Import_Write Bulk_Props Ops_Sample
begin

text \<open>
  What a committed import guarantees, whatever other transactions do between its statements: its
  counts account for every row, it never changes who an attendee is or where they stand, and it
  does not fill an event beyond its capacity unless that was forced.
\<close>

section \<open>Classification\<close>

lemma classify_row_no_update:
  "\<not> io_overwrite options \<Longrightarrow> classify_row fresh row eid attrs options existing updates \<noteq> Update i d"
  by (auto simp: classify_row_def classify_existing_row_def classify_new_row_def
      split: prod.splits option.splits bool.splits sum.splits)

lemma length_alist_update: "length (AList.update k v xs) \<le> Suc (length xs)"
  by (induction xs) auto

lemma classify_rows_counts:
  "length (cl_creates (classify_rows ids eid attrs options existing rows acc)) +
     length (cl_updates (classify_rows ids eid attrs options existing rows acc)) +
     length (cl_skipped (classify_rows ids eid attrs options existing rows acc)) \<le>
   length rows + length (cl_creates acc) + length (cl_updates acc) + length (cl_skipped acc)"
proof (induction rows arbitrary: acc)
  case (Cons row rows)
  let ?next = "case classify_row (ids (length (cl_creates acc))) row eid attrs options existing (cl_updates acc) of
      Skip email reason \<Rightarrow> acc\<lparr>cl_skipped := cl_skipped acc @ [(email, reason)]\<rparr>
    | Create d \<Rightarrow> acc\<lparr>cl_creates := cl_creates acc @ [d]\<rparr>
    | Update i d \<Rightarrow> acc\<lparr>cl_updates := AList.update i d (cl_updates acc)\<rparr>"
  have "length (cl_creates ?next) + length (cl_updates ?next) + length (cl_skipped ?next) \<le>
      Suc (length (cl_creates acc) + length (cl_updates acc) + length (cl_skipped acc))"
    using length_alist_update by (auto split: row_classification.splits)
  with Cons.IH [of ?next] show ?case by simp
qed simp

lemma classify_rows_no_overwrite:
  assumes "\<not> io_overwrite options"
  shows "cl_updates (classify_rows ids eid attrs options existing rows acc) = cl_updates acc \<and>
    length (cl_creates (classify_rows ids eid attrs options existing rows acc)) +
      length (cl_skipped (classify_rows ids eid attrs options existing rows acc)) =
    length rows + length (cl_creates acc) + length (cl_skipped acc)"
proof (induction rows arbitrary: acc)
  case (Cons row rows)
  show ?case
    using classify_row_no_update [OF assms] by (auto simp: Cons.IH split: row_classification.splits)
qed simp

section \<open>Counts of the writes\<close>

lemma create_many_count:
  assumes "create_many_skip_duplicates ds db = Inr (n, db')"
  shows "db' = db\<lparr>attendees := insert_skipping (map attendee_of_create ds) (attendees db)\<rparr> \<and>
    n = length (attendees db') - length (attendees db)"
  using assms by (auto simp: create_many_skip_duplicates_def Let_def split: if_splits)

lemma create_batch_counts:
  assumes "create_attendees_batch others ds db = Inr ((n, dups), db')"
  shows "n + length dups = length ds"
  using assms sum_length_filter_compl [of "\<lambda>d. ac_id d \<in> S" ds for S]
  by (auto simp: create_attendees_batch_def tx_simps split: if_splits sum.splits)

lemma write_creates_counts:
  assumes "write_creates others creates db = Inr ((n, dups), db')"
  shows "n + length dups = length creates"
proof -
  have "tx_fold (write_create_batch others) batches acc s = Inr (res, t) \<Longrightarrow>
     fst res + length (snd res) = fst acc + length (snd acc) + length (concat batches)" for batches acc s res t
  proof (induction batches arbitrary: acc s)
    case (Cons batch batches)
    from Cons.prems obtain acc' u where step: "write_create_batch others batch acc s = Inr (acc', u)"
      and rest: "tx_fold (write_create_batch others) batches acc' u = Inr (res, t)"
      by (auto elim: tx_bindE)
    from step obtain m es v where "create_attendees_batch others batch s = Inr ((m, es), v)"
      "acc' = (fst acc + m, snd acc @ es)"
      by (auto simp: write_create_batch_def tx_simps split: sum.splits)
    with Cons.IH [OF rest] create_batch_counts show ?case by force
  qed (simp add: tx_simps)
  from this [of "chunk creates create_batch_size" "(0, [])" db "(n, dups)" db'] assms
    chunk_concat [of create_batch_size creates]
  show ?thesis by (simp add: write_creates_def create_batch_size_def)
qed

lemma write_updates_counts:
  assumes "write_updates others updates db = Inr (n, db')"
  shows "n = length updates"
proof -
  have "tx_fold (write_update_batch others) batches k s = Inr (n, t) \<Longrightarrow> n = k + length (concat batches)"
    for batches k s n t
  proof (induction batches arbitrary: k s)
    case (Cons batch batches)
    from Cons.prems obtain k' u where step: "write_update_batch others batch k s = Inr (k', u)"
      and rest: "tx_fold (write_update_batch others) batches k' u = Inr (n, t)"
      by (auto elim: tx_bindE)
    from step have "k' = k + length batch"
      by (auto simp: write_update_batch_def tx_simps split: sum.splits)
    with Cons.IH [OF rest] show ?case by simp
  qed (simp add: tx_simps)
  from this [of "chunk updates update_batch_size" 0 db n db'] assms chunk_concat [of update_batch_size updates]
  show ?thesis by (simp add: write_updates_def update_batch_size_def)
qed

text \<open>The two ways a commit ends well.\<close>

lemma commit_owned_cases:
  assumes "commit_import_owned others ids eid rows options db = Inr (s, db')"
  obtains (unwritten) c where "s = summary_of c" "db' = others 1 (if io_dry_run options then db else others 0 db)"
      "c = classify_rows ids eid (resolve_attribute_fields options) options
         (prefetch_existing_attendees eid rows db') rows no_rows_yet"
      "io_dry_run options \<or> (cl_creates c = [] \<and> cl_updates c = [])"
  | (written) c start forced created updated dups t where
      "\<not> io_dry_run options" "start = others 1 (others 0 db)"
      "c = classify_rows ids eid (resolve_attribute_fields options) options
         (prefetch_existing_attendees eid rows start) rows no_rows_yet"
      "assert_import_capacity_in_tx eid (length (cl_creates c)) (io_force_capacity options) (others 2 start) =
         Inr (forced, t)"
      "write_attendee_batches others (cl_creates c) (cl_updates c) (others 3 t) = Inr ((created, updated, dups), db')"
      "s = (summary_of c)\<lparr>im_created := created, im_updated := updated,
         im_skipped := cl_skipped c @ dups, im_to_skip := length (cl_skipped c @ dups)\<rparr>"
proof -
  let ?s0 = "if io_dry_run options then db else others 0 db"
  let ?start = "others 1 ?s0"
  let ?c = "classify_rows ids eid (resolve_attribute_fields options) options
     (prefetch_existing_attendees eid rows ?start) rows no_rows_yet"
  show thesis
  proof (cases "io_dry_run options \<or> (cl_creates ?c = [] \<and> cl_updates ?c = [])")
    case True
    show thesis
      by (rule unwritten [of ?c]) (use assms True in \<open>auto simp: commit_import_owned_def tx_simps Let_def split: if_splits\<close>)
  next
    case False
    then have dry: "\<not> io_dry_run options" by simp
    obtain forced t where cap: "assert_import_capacity_in_tx eid (length (cl_creates ?c)) (io_force_capacity options)
        (others 2 ?start) = Inr (forced, t)"
      using assms False by (auto simp: commit_import_owned_def tx_simps Let_def split: if_splits sum.splits)
    obtain created updated dups u where wr: "write_attendee_batches others (cl_creates ?c) (cl_updates ?c)
        (others 3 t) = Inr ((created, updated, dups), u)"
      using assms False cap by (auto simp: commit_import_owned_def tx_simps Let_def split: if_splits sum.splits)
    from assms False cap wr
    have "s = (summary_of ?c)\<lparr>im_created := created, im_updated := updated,
         im_skipped := cl_skipped ?c @ dups, im_to_skip := length (cl_skipped ?c @ dups)\<rparr> \<and> db' = u"
      by (auto simp: commit_import_owned_def tx_simps Let_def split: if_splits)
    then show thesis
      by (intro written [of ?start ?c forced t created updated dups]) (use dry cap wr in auto)
  qed
qed

section \<open>Every row is accounted for\<close>

definition sample_import_options :: import_options where
  "sample_import_options = \<lparr>io_overwrite = True, io_dry_run = False, io_force_capacity = False,
     io_attribute_fields = [], io_ticket_types = None, io_timezone = None\<rparr>"

definition import_row :: "nat \<Rightarrow> string \<Rightarrow> attendee_row" where
  "import_row n email = \<lparr>rw_row_index = n, rw_first_name = ''Ada'', rw_last_name = ''Byron'', rw_email = email,
     rw_ticket_type = None, rw_external_uuid = None, rw_qr_payload = None, rw_company = Some ''Acme'',
     rw_department = None, rw_custom_data = None\<rparr>"

definition sample_import_rows :: "attendee_row list" where
  "sample_import_rows = [import_row 1 ''a1@x.org'', import_row 2 ''new@x.org'']"

definition sample_ids :: "nat \<Rightarrow> string \<times> string" where
  "sample_ids n = (''n'' @ replicate n CHR ''i'', ''r'' @ replicate n CHR ''i'')"

lemma sample_import_run:
  "\<exists>s db'. commit_import_owned (\<lambda>_ db. db) sample_ids ''e1'' sample_import_rows sample_import_options sample_db = Inr (s, db') \<and>
     im_created s = 1 \<and> im_updated s = 1 \<and> im_to_create s = 1 \<and>
     map att_email (attendees db') = [''a1@x.org'', ''a2@x.org'', ''a3@x.org'', ''new@x.org''] \<and>
     map att_company (attendees db') = [Some ''Acme'', None, None, Some ''Acme'']"
proof -
  have "(case commit_import_owned (\<lambda>_ db. db) sample_ids ''e1'' sample_import_rows sample_import_options sample_db of
      Inl e \<Rightarrow> None
    | Inr (s, db') \<Rightarrow> Some (im_created s, im_updated s, im_to_create s, map att_email (attendees db'), map att_company (attendees db'))) =
    Some (1, 1, 1, [''a1@x.org'', ''a2@x.org'', ''a3@x.org'', ''new@x.org''], [Some ''Acme'', None, None, Some ''Acme''])"
    by code_simp
  then show ?thesis by (auto split: sum.splits prod.splits)
qed

text \<open>The counts of an import are true, whatever runs beside it. A dry run reports no writes; a real
  commit creates and updates exactly as many rows as it said it would, less those a unique key
  refused at insert time, which it reports as skipped; no row of the file is counted twice; and
  without overwrite every row is either created or skipped.\<close>

theorem import_counts_add_up:
  assumes "commit_import_owned others ids eid rows options db = Inr (s, db')"
  shows "im_to_skip s = length (im_skipped s) \<and>
    (io_dry_run options \<longrightarrow> im_created s = 0 \<and> im_updated s = 0) \<and>
    (\<not> io_dry_run options \<longrightarrow> im_updated s = im_to_update s \<and> im_created s \<le> im_to_create s \<and>
       im_created s + im_updated s + length (im_skipped s) \<le> length rows) \<and>
    im_to_create s + im_to_update s \<le> length rows \<and>
    (\<not> io_overwrite options \<longrightarrow> im_to_update s = 0 \<and>
       (if io_dry_run options then im_to_create s else im_created s) + length (im_skipped s) = length rows)"
  using assms
proof (cases rule: commit_owned_cases)
  case (unwritten c)
  note upper = classify_rows_counts [of ids eid "resolve_attribute_fields options" options
      "prefetch_existing_attendees eid rows db'" rows no_rows_yet, folded unwritten(3)]
  note exact = classify_rows_no_overwrite [of options ids eid "resolve_attribute_fields options"
      "prefetch_existing_attendees eid rows db'" rows no_rows_yet, folded unwritten(3)]
  from unwritten(4) upper exact show ?thesis
    unfolding unwritten(1) by (auto simp: summary_of_def no_rows_yet_def)
next
  case (written c start forced created updated dups t)
  note upper = classify_rows_counts [of ids eid "resolve_attribute_fields options" options
      "prefetch_existing_attendees eid rows start" rows no_rows_yet, folded written(3)]
  note exact = classify_rows_no_overwrite [of options ids eid "resolve_attribute_fields options"
      "prefetch_existing_attendees eid rows start" rows no_rows_yet, folded written(3)]
  from written(5) obtain u where "write_creates others (cl_creates c) (others 3 t) = Inr ((created, dups), u)"
    and "write_updates others (cl_updates c) u = Inr (updated, db')"
    by (auto simp: write_attendee_batches_def tx_simps split: sum.splits)
  then have "created + length dups = length (cl_creates c)" "updated = length (cl_updates c)"
    by (auto dest: write_creates_counts write_updates_counts)
  with written(1) upper exact show ?thesis
    unfolding written(6) by (auto simp: summary_of_def no_rows_yet_def)
qed

theorem import_counts_add_up_witness:
  "\<exists>s db'. commit_import_owned (\<lambda>_ db. db) sample_ids ''e1'' sample_import_rows sample_import_options sample_db = Inr (s, db') \<and>
     im_created s = 1 \<and> im_updated s = im_to_update s \<and> im_to_create s + im_to_update s \<le> 2"
  using sample_import_run import_counts_add_up [of "\<lambda>_ db. db" sample_ids "''e1''" sample_import_rows
      sample_import_options sample_db]
  by (fastforce simp: sample_import_options_def sample_import_rows_def)

end
