(* ===== verification/Import_Safety.thy ===== *)
theory Import_Safety
  imports Import_Props
begin

text \<open>
  What an import leaves alone: the identity, the ticket and the admission of every attendee that is
  there already, and the limit of the event. The two kinds of write of an import are the laws of
  the locales below; a relation that has them holds over the whole commit, provided the other
  transactions keep it as well. The steps of an import are such a relation, for any other transactions.
\<close>

section \<open>Relations an import keeps\<close>

locale insert_relation = step_relation R for R :: "ops_db \<Rightarrow> ops_db \<Rightarrow> bool" +
  assumes over_insert: "R db (db\<lparr>attendees := insert_skipping (map attendee_of_create ds) (attendees db)\<rparr>)"
begin

lemma create_batch_all:
  assumes "\<And>k db. R db (others k db)"
  shows "tx_all R (create_attendees_batch others ds)"
proof -
  have "tx_all R (create_many_skip_duplicates ds)"
    by (auto simp: tx_all_def over_insert dest!: create_many_count)
  then show ?thesis
    unfolding create_attendees_batch_def by (intro keeps_intros all_read tx_all_interfere assms)
qed

lemma write_creates_all:
  assumes "\<And>k db. R db (others k db)"
  shows "tx_all R (write_creates others creates)"
  unfolding write_creates_def write_create_batch_def
  by (intro all_fold all_bind all_return tx_all_interfere create_batch_all assms)

lemma assert_capacity_all: "tx_all R (assert_import_capacity_in_tx eid incoming force)"
  unfolding assert_import_capacity_in_tx_def by (intro keeps_intros all_bind all_read all_return)

end

locale import_relation = insert_relation +
  assumes over_update: "R db (db\<lparr>attendees := update_where (\<lambda>x. att_id x = i) (apply_update d) (attendees db)\<rparr>)"
begin

lemma update_attendee_all: "tx_all R (update_attendee u b)"
  by (auto simp: tx_all_def update_attendee_def Let_def over_update split: option.splits if_splits)

lemma commit_owned_all:
  assumes "\<And>k db. R db (others k db)"
  shows "tx_all R (commit_import_owned others ids eid rows options)"
  unfolding commit_import_owned_def Let_def write_attendee_batches_def write_updates_def write_update_batch_def
  by (auto intro!: tx_all_if tx_all_throw all_bind all_read all_return all_fold tx_all_interfere assms
      assert_capacity_all write_creates_all update_attendee_all split: prod.splits)

end

section \<open>Who an attendee is\<close>

text \<open>An attendee without the profile: what an overwrite may change is blanked.\<close>

definition identity_of :: "attendee \<Rightarrow> attendee" where
  "identity_of a = a\<lparr>att_name := [], att_first_name := None, att_last_name := None, att_ticket_type := None,
     att_company := None, att_department := None, att_custom_data := JNull\<rparr>"

lemma identity_of_update [simp]: "identity_of (apply_update d a) = identity_of a"
  by (simp add: identity_of_def apply_update_def)

section \<open>The steps of an import\<close>

text \<open>New rows, each in conflict with none before it.\<close>

fun no_conflicts :: "attendee list \<Rightarrow> attendee list \<Rightarrow> bool" where
  "no_conflicts rows [] \<longleftrightarrow> True"
| "no_conflicts rows (a # as) \<longleftrightarrow> (\<forall>b \<in> set rows. \<not> attendee_conflict a b) \<and> no_conflicts (rows @ [a]) as"

definition inserts :: "ops_db \<Rightarrow> ops_db \<Rightarrow> bool" where
  "inserts s t \<longleftrightarrow> (\<exists>ds. no_conflicts (attendees s) (map attendee_of_create ds) \<and>
     t = s\<lparr>attendees := attendees s @ map attendee_of_create ds\<rparr>)"

definition overwrites :: "ops_db \<Rightarrow> ops_db \<Rightarrow> bool" where
  "overwrites s t \<longleftrightarrow> (\<exists>as. list_all2 (\<lambda>a b. identity_of b = identity_of a) (attendees s) as \<and> t = s\<lparr>attendees := as\<rparr>)"

text \<open>What happens to the database while an import commits: others at a waiting point, new rows, and, if it overwrites, new profiles.\<close>

definition import_step :: "(nat \<Rightarrow> ops_db \<Rightarrow> ops_db) \<Rightarrow> bool \<Rightarrow> ops_db \<Rightarrow> ops_db \<Rightarrow> bool" where
  "import_step others overwrite s t \<longleftrightarrow> (\<exists>k. t = others k s) \<or> inserts s t \<or> overwrite \<and> overwrites s t"

lemma insert_skipping_new:
  "\<exists>ds'. insert_skipping (map attendee_of_create ds) rows = rows @ map attendee_of_create ds' \<and> length ds' \<le> length ds \<and>
     no_conflicts rows (map attendee_of_create ds')"
proof (induction ds arbitrary: rows)
  case (Cons d ds)
  let ?a = "attendee_of_create d"
  show ?case
  proof (cases "\<exists>b \<in> set rows. attendee_conflict ?a b")
    case True
    with Cons.IH [of rows] show ?thesis by force
  next
    case False
    from Cons.IH [of "rows @ [?a]"] obtain ds' where
      "insert_skipping (map attendee_of_create ds) (rows @ [?a]) = (rows @ [?a]) @ map attendee_of_create ds'" "length ds' \<le> length ds"
      "no_conflicts (rows @ [?a]) (map attendee_of_create ds')" by blast
    with False show ?thesis by (intro exI [of _ "d # ds'"]) auto
  qed
qed simp

lemma inserts_skipping: "inserts db (db\<lparr>attendees := insert_skipping (map attendee_of_create ds) (attendees db)\<rparr>)"
  using insert_skipping_new [of ds "attendees db"] unfolding inserts_def by metis

interpretation inserting: insert_relation "(import_step others overwrite)\<^sup>*\<^sup>*" for others overwrite
  by unfold_locales (auto simp: import_step_def intro!: r_into_rtranclp inserts_skipping)

interpretation overwriting: import_relation "(import_step others True)\<^sup>*\<^sup>*" for others
proof unfold_locales
  fix db i d
  have "overwrites db (db\<lparr>attendees := update_where (\<lambda>x. att_id x = i) (apply_update d) (attendees db)\<rparr>)"
    unfolding overwrites_def update_where_def by (intro exI conjI) (rule list_all2_map2 [THEN iffD2], auto intro: list_all2_refl)
  then show "(import_step others True)\<^sup>*\<^sup>* db (db\<lparr>attendees := update_where (\<lambda>x. att_id x = i) (apply_update d) (attendees db)\<rparr>)"
    by (intro r_into_rtranclp) (simp add: import_step_def)
qed

lemma other_step: "(import_step others overwrite)\<^sup>*\<^sup>* db (others k db)"
  by (rule r_into_rtranclp) (auto simp: import_step_def)

text \<open>C32: An import never changes who an attendee is or where they stand, whatever others commit while it waits. All that
  happens to the database meanwhile is the commits of others and two kinds of writes of the import. New attendees are appended,
  each in conflict with no row that is there, and nothing else changes. And only with overwrite, rows get a new
  profile: each row that is there at that moment, be it checked in, edited, cancelled or erased meanwhile, keeps id, event,
  address, tickets and tokens, agency identifiers, status, admission, RSVP and erasure mark; only the name, the ticket
  type, company, department and custom fields can differ, and no row comes or goes. Without overwrite no row that is there is written.\<close>

theorem import_keeps_identities:
  assumes run: "commit_import_owned others ids eid rows options db = Inr (s, db')"
  shows "(import_step others (io_overwrite options))\<^sup>*\<^sup>* db db'"
proof (cases "io_overwrite options")
  case True
  from tx_allD [OF overwriting.commit_owned_all [OF other_step] run] show ?thesis by (simp only: True)
next
  case no: False
  let ?R = "(import_step others (io_overwrite options))\<^sup>*\<^sup>*"
  from run show ?thesis
  proof (cases rule: commit_owned_cases)
    case (unwritten c)
    then show ?thesis using rtranclp_trans [OF other_step other_step] other_step by metis
  next
    case (written c start forced created updated dups t)
    have "cl_updates c = []"
      using classify_rows_no_overwrite [OF no] by (simp add: written(3) no_rows_yet_def)
    then have wr: "write_creates others (cl_creates c) (others 3 t) = Inr ((created, dups), db')"
      using written(5) by (auto simp: write_attendee_batches_def write_updates_def tx_simps chunk.simps split: sum.splits)
    have "?R db start" unfolding written(2) by (rule rtranclp_trans [OF other_step other_step])
    also have "?R start (others 2 start)" by (rule other_step)
    also have "?R (others 2 start) t" using tx_allD [OF inserting.assert_capacity_all written(4)] .
    also have "?R t (others 3 t)" by (rule other_step)
    also have "?R (others 3 t) db'" using tx_allD [OF inserting.write_creates_all [OF other_step] wr] .
    finally show ?thesis .
  qed
qed

theorem import_keeps_identities_witness:
  "\<exists>s db'. commit_import_owned (\<lambda>_ db. db) sample_ids ''e1'' sample_import_rows sample_import_options sample_db = Inr (s, db') \<and>
     im_updated s = 1 \<and> im_created s = 1 \<and> (import_step (\<lambda>_ db. db) True)\<^sup>*\<^sup>* sample_db db'"
proof -
  obtain s db' where run: "commit_import_owned (\<lambda>_ db. db) sample_ids ''e1'' sample_import_rows sample_import_options sample_db = Inr (s, db')"
    and s: "im_updated s = 1" "im_created s = 1"
    using sample_import_run by (elim exE conjE) (rule that)
  have "io_overwrite sample_import_options" by (simp add: sample_import_options_def)
  with import_keeps_identities [OF run] run s show ?thesis by auto
qed

end
