(* ===== verification/Import_Capacity.thy ===== *)
theory Import_Capacity
  imports Import_Safety
begin

text \<open>The limit of an event: an import that was not forced never fills it beyond its capacity.\<close>

definition capacity_of :: "string \<Rightarrow> ops_db \<Rightarrow> int option" where
  "capacity_of eid db = Option.bind (event_by_id eid db) ev_capacity"

text \<open>
  What the capacity lock promises: no other transaction adds a counted attendee. The limit itself is not guarded by that lock:
  an edit of the event's settings (\<open>event-settings-routes.ts\<close>) writes it without, so that it stays as it is meanwhile is a condition of its own.
\<close>

definition capacity_calm :: "string \<Rightarrow> ops_db \<Rightarrow> ops_db \<Rightarrow> bool" where
  "capacity_calm eid db db' \<longleftrightarrow> capacity_use eid db' \<le> capacity_use eid db \<and> capacity_of eid db' = capacity_of eid db"

interpretation calm: step_relation "capacity_calm eid" for eid
  by unfold_locales (auto simp: capacity_calm_def)

lemma count_where_append [simp]: "count_where p (xs @ ys) = count_where p xs + count_where p ys"
  by (simp add: count_where_def)

lemma count_where_le: "count_where p xs \<le> length xs"
  by (simp add: count_where_def)

lemma insert_skipping_append: "\<exists>new. insert_skipping as rows = rows @ new \<and> length new \<le> length as"
proof (induction as arbitrary: rows)
  case (Cons a as)
  show ?case
  proof (cases "\<exists>b \<in> set rows. attendee_conflict a b")
    case True
    with Cons.IH [of rows] show ?thesis by force
  next
    case False
    from Cons.IH [of "rows @ [a]"] obtain new where
      "insert_skipping as (rows @ [a]) = (rows @ [a]) @ new" "length new \<le> length as" by blast
    with False show ?thesis by (intro exI [of _ "a # new"]) auto
  qed
qed simp

lemma use_after_insert:
  "capacity_use eid (db\<lparr>attendees := insert_skipping as (attendees db)\<rparr>) \<le> capacity_use eid db + length as"
proof -
  obtain new where "insert_skipping as (attendees db) = attendees db @ new" "length new \<le> length as"
    using insert_skipping_append by blast
  with count_where_le [of "counts_for_capacity eid" new] show ?thesis
    by (simp add: capacity_use_def)
qed

lemma count_where_map: "count_where p (map f xs) = count_where (p \<circ> f) xs"
  by (simp add: count_where_def filter_map)

lemma use_after_update:
  "capacity_use eid (db\<lparr>attendees := update_where (\<lambda>x. att_id x = i) (apply_update d) (attendees db)\<rparr>) = capacity_use eid db"
proof -
  have "counts_for_capacity eid (if att_id x = i then apply_update d x else x) = counts_for_capacity eid x" for x
    by (simp add: counts_for_capacity_def apply_update_def)
  then show ?thesis by (simp add: capacity_use_def update_where_def count_where_map comp_def)
qed

lemma capacity_of_attendees [simp]: "capacity_of eid (db\<lparr>attendees := as\<rparr>) = capacity_of eid db"
  by (simp add: capacity_of_def event_by_id_def)

lemma update_calm: "tx_all (capacity_calm eid) (update_attendee u b)"
  by (auto simp: tx_all_def update_attendee_def Let_def capacity_calm_def use_after_update split: option.splits if_splits)

lemma write_updates_calm:
  assumes "\<And>k db. capacity_calm eid db (others k db)"
  shows "tx_all (capacity_calm eid) (write_updates others updates)"
  unfolding write_updates_def write_update_batch_def
  by (intro keeps_intros tx_all_interfere assms update_calm)

lemma create_batch_use:
  assumes others: "\<And>k db. capacity_calm eid db (others k db)"
    and run: "create_attendees_batch others ds db = Inr (r, db')"
  shows "capacity_use eid db' \<le> capacity_use eid db + length ds"
proof (cases "ds = []")
  case False
  with run obtain n u where ins: "create_many_skip_duplicates ds db = Inr (n, u)"
    and rest: "db' = u \<or> db' = others 4 u"
    by (auto simp: create_attendees_batch_def tx_simps split: sum.splits if_splits)
  have "capacity_use eid u \<le> capacity_use eid db + length ds"
    using create_many_count [OF ins] use_after_insert [where eid = eid and db = db and as = "map attendee_of_create ds"] by simp
  with rest others [of u 4] show ?thesis by (auto simp: capacity_calm_def)
qed (use run in \<open>simp add: create_attendees_batch_def tx_simps\<close>)

lemma write_creates_use:
  assumes others: "\<And>k db. capacity_calm eid db (others k db)"
    and run: "write_creates others creates db = Inr (r, db')"
  shows "capacity_use eid db' \<le> capacity_use eid db + length creates"
proof -
  have "tx_fold (write_create_batch others) batches acc s = Inr (r, t) \<Longrightarrow>
      capacity_use eid t \<le> capacity_use eid s + length (concat batches)" for batches acc s t
  proof (induction batches arbitrary: acc s)
    case (Cons batch batches)
    from Cons.prems obtain acc' u where step: "write_create_batch others batch acc s = Inr (acc', u)"
      and rest: "tx_fold (write_create_batch others) batches acc' u = Inr (r, t)"
      by (auto elim: tx_bindE)
    from step obtain q v where "create_attendees_batch others batch s = Inr (q, v)" "u = others 5 v"
      by (auto simp: write_create_batch_def tx_simps split: sum.splits)
    with create_batch_use [OF others] others [of v 5]
    have "capacity_use eid u \<le> capacity_use eid s + length batch"
      by (fastforce simp: capacity_calm_def)
    with Cons.IH [OF rest] show ?case by simp
  qed (simp add: tx_simps)
  from this [of "chunk creates create_batch_size" "(0, [])" db db'] run chunk_concat [of create_batch_size creates]
  show ?thesis by (simp add: write_creates_def create_batch_size_def)
qed

lemma assert_capacity_Inr:
  assumes "assert_import_capacity_in_tx eid n False db = Inr (forced, t)"
  shows "t = db \<and> (n = 0 \<or> (\<forall>c. capacity_of eid db = Some c \<longrightarrow> int (capacity_use eid db + n) \<le> c))"
  using assms by (auto simp: assert_import_capacity_in_tx_def capacity_of_def tx_simps split: if_splits option.splits)

text \<open>C31: An import that was not forced respects the limit of the event, also while other people are
  revoked or moved beside it. If the event has a capacity, then after the commit the counted
  attendees are at most that capacity whenever the import creates anyone, and otherwise they are
  no more than before. This needs what the capacity lock gives, that nobody else adds a counted
  attendee while the import runs, and that nobody edits the limit meanwhile, which the lock does not prevent.\<close>

theorem import_respects_capacity:
  assumes others: "\<And>k db. capacity_calm eid db (others k db)"
    and run: "commit_import_owned others ids eid rows options db = Inr (s, db')"
    and limit: "capacity_of eid db = Some c" and unforced: "\<not> io_force_capacity options"
  shows "if im_created s > 0 then int (capacity_use eid db') \<le> c else capacity_use eid db' \<le> max (capacity_use eid db) (nat c)"
  using run
proof (cases rule: commit_owned_cases)
  case (unwritten cl)
  have "capacity_calm eid db db'"
    unfolding unwritten(2) using calm.rel_trans [OF others others] others by simp
  then show ?thesis unfolding unwritten(1) by (auto simp: summary_of_def capacity_calm_def le_max_iff_disj)
next
  case (written cl start forced created updated dups t)
  have "capacity_calm eid db start"
    unfolding written(2) by (rule calm.rel_trans [OF others others])
  then have start: "capacity_calm eid db (others 2 start)" by (rule calm.rel_trans [OF _ others])
  have "assert_import_capacity_in_tx eid (length (cl_creates cl)) False (others 2 start) = Inr (forced, t)"
    using written(4) unforced by simp
  note cap = assert_capacity_Inr [OF this]
  from written(5) obtain u where wc: "write_creates others (cl_creates cl) (others 3 t) = Inr ((created, dups), u)"
    and wu: "write_updates others (cl_updates cl) u = Inr (updated, db')"
    by (auto simp: write_attendee_batches_def tx_simps split: sum.splits)
  have use: "capacity_use eid db' \<le> capacity_use eid (others 2 start) + length (cl_creates cl)"
    using tx_allD [OF write_updates_calm [OF others] wu] write_creates_use [OF others wc] others [of t 3] cap
    by (auto simp: capacity_calm_def)
  have "length (cl_creates cl) = 0 \<or> int (capacity_use eid (others 2 start) + length (cl_creates cl)) \<le> c"
    using cap start limit by (auto simp: capacity_calm_def)
  moreover have "created \<le> length (cl_creates cl)" using write_creates_counts [OF wc] by linarith
  ultimately show ?thesis
    unfolding written(6) using use start by (auto simp: summary_of_def capacity_calm_def le_max_iff_disj)
qed

definition capped_db :: ops_db where
  "capped_db = sample_db\<lparr>events := map (\<lambda>e. e\<lparr>ev_capacity := Some 3\<rparr>) (events sample_db)\<rparr>"

text \<open>Beside the import, somebody revokes the pass of \<open>a1\<close>.\<close>

definition revoking :: "nat \<Rightarrow> ops_db \<Rightarrow> ops_db" where
  "revoking k db = db\<lparr>attendees := update_where (\<lambda>a. att_id a = ''a1'') (\<lambda>a. a\<lparr>att_status := Revoked\<rparr>) (attendees db)\<rparr>"

lemma count_where_mono: "(\<And>x. x \<in> set xs \<Longrightarrow> p x \<Longrightarrow> q x) \<Longrightarrow> count_where p xs \<le> count_where q xs"
  by (induction xs) (auto simp: count_where_def intro: le_SucI)

lemma revoking_calm: "capacity_calm eid db (revoking k db)"
proof -
  have "count_where (counts_for_capacity eid) (attendees (revoking k db)) \<le> count_where (counts_for_capacity eid) (attendees db)"
    unfolding revoking_def update_where_def
    by (simp add: count_where_map comp_def)
       (rule count_where_mono, auto simp: counts_for_capacity_def capacity_excluded_statuses_def split: if_splits)
  then show ?thesis by (simp add: capacity_calm_def capacity_use_def revoking_def)
qed

theorem import_respects_capacity_witness:
  "\<exists>s db'. commit_import_owned revoking sample_ids ''e1'' sample_import_rows sample_import_options capped_db = Inr (s, db') \<and>
     im_created s = 1 \<and> int (capacity_use ''e1'' db') \<le> 3"
proof -
  have run: "case commit_import_owned revoking sample_ids ''e1'' sample_import_rows sample_import_options capped_db of
      Inl e \<Rightarrow> False | Inr (s, db') \<Rightarrow> im_created s = 1"
    by code_simp
  then obtain s db' where r: "commit_import_owned revoking sample_ids ''e1'' sample_import_rows sample_import_options
      capped_db = Inr (s, db')" and s: "im_created s = 1"
    by (auto split: sum.splits prod.splits)
  have "capacity_of ''e1'' capped_db = Some 3"
    by (simp add: capacity_of_def event_by_id_def capped_db_def sample_db_def)
  moreover have "\<not> io_force_capacity sample_import_options" by (simp add: sample_import_options_def)
  ultimately have "if im_created s > 0 then int (capacity_use ''e1'' db') \<le> 3
      else capacity_use ''e1'' db' \<le> max (capacity_use ''e1'' capped_db) (nat 3)"
    by (rule import_respects_capacity [OF revoking_calm r])
  with r s show ?thesis by auto
qed

end
