(* ===== verification/Import_Job_Props.thy ===== *)
theory Import_Job_Props
  imports Import_Jobs Job_Stop Import_Capacity
begin

text \<open>
  Imports as jobs: the rows of an import and the end of its job are one commit, an import whose job
  was closed writes nothing, and a stale job is failed only when its import has not landed.
\<close>

section \<open>The transaction of an import\<close>

lemma lock_import_job_Inr:
  assumes "lock_import_job params s = Inr (u, s')"
  shows "s' = s \<and> (\<forall>jid. ip_admin_job_id params = Some jid \<longrightarrow> jid \<noteq> [] \<longrightarrow>
    map_option aj_status (job_by_id jid s) = Some ''running'')"
  using assms by (auto simp: lock_import_job_def tx_simps split: option.splits if_splits)

lemma on_ops_jobs: "on_ops m db = Inr (a, db') \<Longrightarrow> ad_jobs db' = ad_jobs db"
  by (auto simp: on_ops_def split: sum.splits)

definition succeeded_row :: "int \<Rightarrow> import_params \<Rightarrow> import_summary \<Rightarrow> row_problem list \<Rightarrow> admin_job \<Rightarrow> admin_job" where
  "succeeded_row now params s problems j =
     j\<lparr>aj_status := ''succeeded'', aj_finished_at := Some now,
       aj_to_create := Some (int (im_to_create s)), aj_to_update := Some (int (im_to_update s)),
       aj_to_skip := Some (int (im_to_skip s)), aj_created_count := Some (int (im_created s)),
       aj_updated_count := Some (int (im_updated s)), aj_skipped_count := Some (int (length (im_skipped s))),
       aj_invalid_count := Some (int (length problems)),
       aj_result_json := import_result_json (ip_import_id params) s problems, aj_error := None\<rparr>"

lemma job_by_id_update:
  assumes "\<And>j. aj_id (f j) = aj_id j"
  shows "job_by_id i (snd (update_jobs p f db)) = map_option (\<lambda>j. if p j then f j else j) (job_by_id i db)"
  by (simp add: job_by_id_def update_jobs_def find_update_where assms)

lemma write_import_closes:
  assumes run: "write_import env params attrs types parsed db = Inr ((s, problems), db')"
    and jid: "ip_admin_job_id params = Some jid" "jid \<noteq> []"
    and job: "job_by_id jid db = Some j" "aj_status j = ''running''"
  shows "job_by_id jid db' = Some (succeeded_row (ie_now env) params s problems j)"
proof -
  from run obtain u where jobs: "ad_jobs u = ad_jobs db"
    and last: "succeed_import_job (ie_now env) params s problems u = Inr ((), db')"
    by (auto simp: write_import_def tx_simps Let_def split: sum.splits dest!: on_ops_jobs)
  have here: "job_by_id jid u = Some j" using job(1) jobs by (simp add: job_by_id_def)
  have id: "aj_id j = jid" using job(1) by (auto simp: job_by_id_def dest: find_set)
  have "db' = snd (update_jobs (\<lambda>j. aj_id j = jid \<and> aj_status j = ''running'')
      (succeeded_row (ie_now env) params s problems) u)"
    using last jid by (simp add: succeed_import_job_def tx_simps succeeded_row_def [abs_def])
  moreover have "aj_id (succeeded_row (ie_now env) params s problems k) = aj_id k" for k
    by (simp add: succeeded_row_def)
  ultimately show ?thesis using here id job(2) by (simp add: job_by_id_update)
qed

text \<open>C30: The rows of an import and the success of its job are one commit. If the import of a job
  answers with an error (the job was closed, the capacity exceeded, the lock not obtained, a
  constraint, ...), then nothing of it was written: the state differs only by what others
  committed while it waited. If it answers with a result, the job was running when the transaction
  looked, its writes started from the state the others had left, and in the final state the job is
  succeeded with exactly the counts of the answer. Other transactions are only asked not to touch
  the row of the job while the import holds its lock.\<close>

theorem import_commits_with_its_job:
  assumes run: "execute_import_commit env params db = Some (r, db')"
    and jid: "ip_admin_job_id params = Some jid" "jid \<noteq> []"
    and locked: "\<And>k s. job_by_id jid (aq_waiting (ie_acquisitions env k) s) = job_by_id jid s"
  shows "case r of
      Inl e \<Rightarrow> \<exists>n. others_wait (ie_acquisitions env) 0 n db db'
    | Inr out \<Rightarrow> \<exists>n t j attrs types parsed problems. others_wait (ie_acquisitions env) 0 n db t \<and>
        job_by_id jid (aq_before (ie_acquisitions env n) t) = Some j \<and> aj_status j = ''running'' \<and>
        write_import env params attrs types parsed
          (aq_waiting (ie_acquisitions env n) (aq_before (ie_acquisitions env n) t)) =
          Inr ((ir_summary out, problems), db') \<and>
        job_by_id jid db' = Some (succeeded_row (ie_now env) params (ir_summary out) problems j)"
proof -
  let ?attrs = "load_import_attribute_fields (ip_event_id params) (ad_ops db)"
  let ?types = "load_import_ticket_types (ad_ops db) (ip_event_id params)"
  let ?parsed = "parse_attendees (ie_email_ok env) (ip_csv params) \<lparr>po_attribute_fields = ?attrs, po_ticket_types = Some ?types\<rparr>"
  obtain q where q: "run_event_capacity_transaction default_capacity_policy (ie_began env) (ie_acquisitions env)
      (lock_import_job params) (\<lambda>_. write_import env params ?attrs ?types ?parsed) db = Some (q, db')"
    and r: "r = (case q of Inl e \<Rightarrow> Inl e | Inr (s, problems) \<Rightarrow> Inr (outcome_of params s problems))"
    using run by (auto simp: execute_import_commit_def Let_def split: option.splits sum.splits)
  have out: "capacity_outcome default_capacity_policy (ie_acquisitions env) (lock_import_job params)
      (\<lambda>_. write_import env params ?attrs ?types ?parsed) 0 db (q, db')"
    using q unfolding run_event_capacity_transaction_def by (rule attempts_outcome)
  show ?thesis
  proof (cases q)
    case (Inl e)
    with out r show ?thesis by (simp add: capacity_outcome_def)
  next
    case (Inr v)
    obtain s problems where v: "v = (s, problems)" by (cases v)
    from out Inr v obtain n t u s2 where n: "others_wait (ie_acquisitions env) 0 n db t"
      "lock_import_job params (aq_before (ie_acquisitions env n) t) = Inr (u, s2)"
      "write_import env params ?attrs ?types ?parsed (aq_waiting (ie_acquisitions env n) s2) = Inr ((s, problems), db')"
      by (auto simp: capacity_outcome_def)
    from lock_import_job_Inr [OF n(2)] jid obtain j where s2: "s2 = aq_before (ie_acquisitions env n) t"
      and j: "job_by_id jid (aq_before (ie_acquisitions env n) t) = Some j" "aj_status j = ''running''"
      by auto
    have "job_by_id jid (aq_waiting (ie_acquisitions env n) s2) = Some j"
      using locked s2 j(1) by simp
    from write_import_closes [OF n(3) jid this j(2)]
    have "job_by_id jid db' = Some (succeeded_row (ie_now env) params s problems j)" .
    moreover have "r = Inr (outcome_of params s problems)" "ir_summary (outcome_of params s problems) = s"
      using r Inr v by (simp_all add: outcome_of_def)
    ultimately show ?thesis using n(1,3) j unfolding s2 by (simp only: sum.case) blast
  qed
qed

declare capacity_attempts.simps [code]

definition sample_acquisition :: "nat \<Rightarrow> admin_db acquisition" where
  "sample_acquisition k =
     \<lparr>aq_before = (\<lambda>db. db), aq_waiting = (\<lambda>db. db), aq_failure = None, aq_expiry = None, aq_started = 0, aq_locked = 5, aq_caught = 0\<rparr>"

definition sample_import_env :: import_env where
  "sample_import_env =
     \<lparr>ie_email_ok = (\<lambda>_. True), ie_ids = (\<lambda>k. (replicate (Suc k) CHR ''n'', replicate (Suc k) CHR ''q'')),
      ie_now = 99, ie_began = 0, ie_acquisitions = sample_acquisition, ie_ops_others = (\<lambda>_ db. db),
      ie_others = (\<lambda>_ db. db)\<rparr>"

definition sample_import_params :: import_params where
  "sample_import_params =
     \<lparr>ip_event_id = ''e1'',
      ip_csv = ''email,first_name,last_name'' @ [CHR 0x0A] @ ''ada@x.org,Ada,L'' @ [CHR 0x0A] @ ''bob@x.org,,M'',
      ip_overwrite = False, ip_force_capacity = False, ip_actor_user_id = Some ''u1'', ip_session_id = None,
      ip_timezone = None, ip_filename = Some ''guests.csv'', ip_import_id = ''i2'', ip_admin_job_id = Some ''j2''\<rparr>"

theorem import_commits_with_its_job_witness:
  "\<exists>out db' j problems. execute_import_commit sample_import_env sample_import_params sample_admin_db = Some (Inr out, db') \<and>
     im_created (ir_summary out) = 1 \<and> length (ir_invalid_rows out) = 1 \<and>
     job_by_id ''j2'' db' = Some (succeeded_row 99 sample_import_params (ir_summary out) problems j)"
proof -
  have "(case execute_import_commit sample_import_env sample_import_params sample_admin_db of
      Some (Inr out, db') \<Rightarrow> im_created (ir_summary out) = 1 \<and> length (ir_invalid_rows out) = 1 | _ \<Rightarrow> False)"
    by code_simp
  then obtain out db' where run: "execute_import_commit sample_import_env sample_import_params sample_admin_db = Some (Inr out, db')"
    and out: "im_created (ir_summary out) = 1" "length (ir_invalid_rows out) = 1"
    by (auto split: option.splits sum.splits prod.splits)
  have j: "ip_admin_job_id sample_import_params = Some ''j2''" "''j2'' \<noteq> []"
    "ie_now sample_import_env = 99"
    by (simp_all add: sample_import_params_def sample_import_env_def)
  have locked: "job_by_id ''j2'' (aq_waiting (ie_acquisitions sample_import_env k) s) = job_by_id ''j2'' s" for k s
    by (simp add: sample_import_env_def sample_acquisition_def)
  from import_commits_with_its_job [OF run j(1,2) locked] out run j(3) show ?thesis by auto
qed

end
