(* ===== verification/Erase_Attendees.thy ===== *)
theory Erase_Attendees
  imports Import_Jobs
begin

text \<open>
  Erasing a person's data in place: \<open>packages/tickets/src/erase-attendees.ts\<close> with the copies of
  an identity that live elsewhere (\<open>attendee-traces.ts\<close>) and the zone of an event
  (\<open>resolvePreviewEventTimeZone\<close> of \<open>packages/mail-templates/src/formatEventDate.ts\<close>).
  Everything runs in the caller's transaction. Other transactions are let in where this one waits:
  at the queue lock, the job rows and the attendee rows. What the columns
  \<open>email_bounce_dismissed_at\<close>, \<open>updated_at\<close> and \<open>CheckIn.created_at\<close> hold is not modelled.
\<close>

section \<open>From outside\<close>

text \<open>
  The waits, \<open>NOW()\<close> of the database, \<open>new Date()\<close>, the local time of a zone, the zones the
  platform knows, the default zone of the installation, and the text \<open>->>\<close> gives a JSON value.
\<close>

record erase_env =
  er_others :: "nat \<Rightarrow> admin_db \<Rightarrow> admin_db"
  er_now :: int
  er_clock :: int
  er_local :: "string \<Rightarrow> int \<Rightarrow> int"
  er_zone_ok :: "string \<Rightarrow> bool"
  er_default_zone :: string
  er_as_text :: json_text

section \<open>Placeholders, addresses and times\<close>

definition erased_attendee_name :: string where
  "erased_attendee_name = ''Erased attendee''"

definition erased_attendee_email :: "string \<Rightarrow> string" where
  "erased_attendee_email aid = ''erased-'' @ aid @ CHR ''@'' # erased_email_domain"

definition normalized_address :: "string \<Rightarrow> string" where
  "normalized_address value = js_lower (js_trim value)"

text \<open>\<open>LOWER(TRIM(column))\<close>: the database trims blanks only.\<close>

definition sql_address :: "string \<Rightarrow> string" where
  "sql_address value = js_lower (rev (dropWhile (\<lambda>c. c = CHR '' '') (rev (dropWhile (\<lambda>c. c = CHR '' '') value))))"

definition sql_address_in :: "string list \<Rightarrow> string option \<Rightarrow> bool" where
  "sql_address_in addresses value = (case value of None \<Rightarrow> False | Some v \<Rightarrow> sql_address v \<in> set addresses)"

definition safe_time_zone :: "erase_env \<Rightarrow> string \<Rightarrow> string" where
  "safe_time_zone env zone = (if er_zone_ok env zone then zone else ''UTC'')"

definition resolve_preview_event_time_zone :: "erase_env \<Rightarrow> string \<Rightarrow> string" where
  "resolve_preview_event_time_zone env explicit =
     (let trimmed = js_trim explicit
      in if trimmed \<noteq> [] then safe_time_zone env trimmed else safe_time_zone env (er_default_zone env))"

text \<open>Times are milliseconds; \<open>DATE_TRUNC('hour', local)\<close> drops what is past the hour.\<close>

definition truncated_to_local_hour :: "erase_env \<Rightarrow> string \<Rightarrow> int \<Rightarrow> int" where
  "truncated_to_local_hour env zone t = t - (er_local env zone t - (er_local env zone t - er_local env zone t mod 3600000))"

section \<open>Traces elsewhere\<close>

definition collect_attendee_addresses :: "string \<Rightarrow> attendee list \<Rightarrow> ops_db \<Rightarrow> string list" where
  "collect_attendee_addresses eid people db =
     (let current = unique_in_order (filter (\<lambda>e. e \<noteq> []) (map (normalized_address \<circ> att_email) people));
          ids = map att_id people
      in if people = [] then current
         else let first_mails = filter (\<lambda>d. md_event_id d = eid \<and> md_attendee_id d \<in> set ids \<and>
                    md_purpose d = ''initial'' \<and> md_recipient_email d \<noteq> None) (mail_deliveries db);
                  older = filter (\<lambda>e. e \<noteq> [] \<and> e \<notin> set current)
                    (unique_in_order (map (normalized_address \<circ> the \<circ> md_recipient_email) first_mails))
              in if older = [] then current
                 else current @ filter (\<lambda>e.
                   \<not> (\<exists>a \<in> set (attendees db). att_event_id a = eid \<and> att_id a \<notin> set ids \<and> sql_address (att_email a) = e) \<and>
                   \<not> (\<exists>d \<in> set (mail_deliveries db). md_event_id d = eid \<and> md_purpose d = ''initial'' \<and>
                        md_attendee_id d \<notin> set ids \<and> sql_address_in [e] (md_recipient_email d))) older)"

text \<open>Mail that still waits to go out.\<close>

definition mail_waits :: "mail_delivery \<Rightarrow> bool" where
  "mail_waits d \<longleftrightarrow> md_status d = ''queued'' \<or> (md_status d = ''failed'' \<and> md_retryable d = Some True)"

definition cancelled_mail :: "mail_delivery \<Rightarrow> mail_delivery" where
  "cancelled_mail d = (if mail_waits d then d\<lparr>md_status := ''cancelled'', md_retryable := Some False\<rparr> else d)"

definition scrubbed_copy :: "mail_delivery \<Rightarrow> mail_delivery" where
  "scrubbed_copy d = (cancelled_mail d)\<lparr>md_recipient_email := None, md_provider_message_id := None, md_error := None\<rparr>"

definition on_ops_tables :: "(ops_db \<Rightarrow> ops_db) \<Rightarrow> (admin_db, job_error, unit) tx" where
  "on_ops_tables f = tx_write (\<lambda>db. db\<lparr>ad_ops := f (ad_ops db)\<rparr>)"

definition metadata_text :: "erase_env \<Rightarrow> json \<Rightarrow> string \<Rightarrow> string option" where
  "metadata_text env meta key = Option.bind (prop_of meta key) (er_as_text env)"

text \<open>\<open>metadata - 'key'\<close>.\<close>

fun without_key :: "string \<Rightarrow> json \<Rightarrow> json" where
  "without_key key (JObj kvs) = JObj (filter (\<lambda>(k, _). k \<noteq> key) kvs)"
| "without_key key j = j"

definition names_created :: "erase_env \<Rightarrow> string \<Rightarrow> string list \<Rightarrow> admin_audit \<Rightarrow> bool" where
  "names_created env eid ids l \<longleftrightarrow> aa_action_type l = ''attendee_created_manual'' \<and>
     metadata_text env (aa_metadata l) ''event_id'' = Some eid \<and>
     (case metadata_text env (aa_metadata l) ''attendee_id'' of None \<Rightarrow> False | Some i \<Rightarrow> i \<in> set ids)"

definition scrub_attendee_traces ::
  "erase_env \<Rightarrow> string \<Rightarrow> string list \<Rightarrow> string list \<Rightarrow> (admin_db, job_error, unit) tx" where
  "scrub_attendee_traces env eid ids emails =
     (if ids = [] then tx_return ()
      else tx_bind (stop_open_attendee_jobs (\<lambda>k. er_others env (3 + k)) (er_clock env) eid) (\<lambda>_.
           tx_bind (invalidate_event_exports eid) (\<lambda>_.
           tx_bind (if emails = [] then tx_return ()
              else on_ops_tables (\<lambda>db. db\<lparr>mail_deliveries := update_where (\<lambda>d. md_event_id d = eid \<and>
                  sql_address_in emails (md_recipient_email d) \<and> md_attendee_id d \<notin> set ids)
                  scrubbed_copy (mail_deliveries db)\<rparr>)) (\<lambda>_.
             tx_write (\<lambda>db. db\<lparr>ad_audit := update_where (names_created env eid ids)
               (\<lambda>l. l\<lparr>aa_metadata := without_key ''attendee_email'' (without_key ''attendee_name'' (aa_metadata l))\<rparr>)
               (ad_audit db)\<rparr>)))))"

section \<open>The rows of the person\<close>

definition erased_row :: "erase_env \<Rightarrow> string \<Rightarrow> bool \<Rightarrow> attendee \<Rightarrow> attendee" where
  "erased_row env zone archived a =
     a\<lparr>att_name := erased_attendee_name, att_email := erased_attendee_email (att_id a),
       att_first_name := None, att_last_name := None, att_company := None, att_department := None,
       att_custom_data := JNull, att_token_hash := None, att_token_enc := None, att_qr_payload := None,
       att_external_uuid := None, att_public_ref := None,
       att_status := (if att_admitted_at a = None \<and> \<not> archived \<and> att_status a \<in> {Registered, Confirmed}
         then Cancelled else att_status a),
       att_admitted_at := map_option (truncated_to_local_hour env zone) (att_admitted_at a),
       att_erased_at := Some (er_now env)\<rparr>"

text \<open>No two rows of the attendee table share a unique key.\<close>

fun conflict_free :: "attendee list \<Rightarrow> bool" where
  "conflict_free [] = True"
| "conflict_free (a # as) \<longleftrightarrow> (\<forall>b \<in> set as. \<not> attendee_conflict a b) \<and> conflict_free as"

definition is_live_in :: "string \<Rightarrow> string list \<Rightarrow> attendee \<Rightarrow> bool" where
  "is_live_in eid ids a \<longleftrightarrow> att_event_id a = eid \<and> att_id a \<in> set ids \<and> att_erased_at a = None"

definition erase_rows ::
  "erase_env \<Rightarrow> string \<Rightarrow> string \<Rightarrow> bool \<Rightarrow> string list \<Rightarrow> (admin_db, job_error, string list) tx" where
  "erase_rows env eid zone archived ids db =
     (let old = attendees (ad_ops db);
          rows = update_where (is_live_in eid ids) (erased_row env zone archived) old
      in if \<exists>a \<in> set old. is_live_in eid ids a \<and> \<not> attendee_checks (erased_row env zone archived a)
         then Inl Job_check_violation
         else if \<not> conflict_free rows then Inl (Job_db Unique_violation)
         else Inr (map att_id (filter (is_live_in eid ids) old), db\<lparr>ad_ops := (ad_ops db)\<lparr>attendees := rows\<rparr>\<rparr>))"

definition in_ops :: "'a ops_tx \<Rightarrow> (admin_db, job_error, 'a) tx" where
  "in_ops m db = (case m (ad_ops db) of Inl e \<Rightarrow> Inl (Job_db e) | Inr (a, ops) \<Rightarrow> Inr (a, db\<lparr>ad_ops := ops\<rparr>))"

definition delete_notes_and_logs :: "string \<Rightarrow> string list \<Rightarrow> (nat \<times> nat) ops_tx" where
  "delete_notes_and_logs eid ids db =
     (let note = (\<lambda>n. nt_event_id n = eid \<and> nt_attendee_id n \<in> set ids);
          log = (\<lambda>l. lg_event_id l = eid \<and> (case lg_attendee_id l of None \<Rightarrow> False | Some i \<Rightarrow> i \<in> set ids))
      in Inr ((count_where note (attendee_notes db), count_where log (action_logs db)),
           db\<lparr>attendee_notes := filter (\<lambda>n. \<not> note n) (attendee_notes db),
              action_logs := filter (\<lambda>l. \<not> log l) (action_logs db)\<rparr>))"

definition clear_check_ins :: "erase_env \<Rightarrow> string \<Rightarrow> string \<Rightarrow> string list \<Rightarrow> nat ops_tx" where
  "clear_check_ins env eid zone ids db =
     (let hit = (\<lambda>c. ci_event_id c = eid \<and> ci_attendee_id c \<in> set ids)
      in Inr (count_where hit (check_ins db), db\<lparr>check_ins := update_where hit
           (\<lambda>c. c\<lparr>ci_notes := None, ci_checked_in_at := truncated_to_local_hour env zone (ci_checked_in_at c)\<rparr>)
           (check_ins db)\<rparr>))"

text \<open>Waiting mail is cancelled by one statement, then every delivery is emptied by another.\<close>

definition mail_of :: "string \<Rightarrow> string list \<Rightarrow> mail_delivery \<Rightarrow> bool" where
  "mail_of eid ids d \<longleftrightarrow> md_event_id d = eid \<and> md_attendee_id d \<in> set ids"

definition emptied_mail :: "mail_delivery \<Rightarrow> mail_delivery" where
  "emptied_mail d = d\<lparr>md_recipient_email := None, md_rendered_subject := None, md_rendered_html := None,
     md_provider_message_id := None, md_error := None\<rparr>"

definition cancel_waiting_mail :: "string \<Rightarrow> string list \<Rightarrow> unit ops_tx" where
  "cancel_waiting_mail eid ids = tx_write (\<lambda>db. db\<lparr>mail_deliveries :=
     update_where (\<lambda>d. mail_of eid ids d \<and> mail_waits d)
       (\<lambda>d. d\<lparr>md_status := ''cancelled'', md_retryable := Some False\<rparr>) (mail_deliveries db)\<rparr>)"

definition empty_mail :: "string \<Rightarrow> string list \<Rightarrow> nat ops_tx" where
  "empty_mail eid ids db =
     Inr (count_where (mail_of eid ids) (mail_deliveries db),
       db\<lparr>mail_deliveries := update_where (mail_of eid ids) emptied_mail (mail_deliveries db)\<rparr>)"

definition stripped_pass :: "wallet_pass \<Rightarrow> wallet_pass" where
  "stripped_pass w = w\<lparr>wp_download_url := None, wp_apple_url := None, wp_android_url := None, wp_samsung_url := None,
     wp_user_agent := None, wp_user_agent_captured_at := None, wp_auth_token := None, wp_pass_url := None,
     wp_serial_number := None, wp_pass_type_id := None\<rparr>"

definition strip_passes :: "string list \<Rightarrow> (admin_db, job_error, unit) tx" where
  "strip_passes ids = tx_write (\<lambda>db. db\<lparr>ad_passes :=
     update_where (\<lambda>w. wp_attendee_id w \<in> set ids) stripped_pass (ad_passes db)\<rparr>)"

section \<open>The erasure\<close>

record erase_counts =
  ec_notes :: nat
  ec_action_logs :: nat
  ec_email_deliveries :: nat
  ec_check_ins :: nat
  ec_wallet_passes :: nat

record erase_result =
  es_erased :: "string list"
  es_already_erased :: "string list"
  es_not_found :: "string list"
  es_counts :: erase_counts
  es_wallet_targets :: "(string \<times> string) list"
  es_previous_emails :: "string list"
  es_job_ids_with_files :: "string list"

definition no_erase_counts :: erase_counts where
  "no_erase_counts = \<lparr>ec_notes = 0, ec_action_logs = 0, ec_email_deliveries = 0, ec_check_ins = 0, ec_wallet_passes = 0\<rparr>"

definition nothing_erased :: "string list \<Rightarrow> string list \<Rightarrow> erase_result" where
  "nothing_erased already not_found =
     \<lparr>es_erased = [], es_already_erased = already, es_not_found = not_found, es_counts = no_erase_counts,
      es_wallet_targets = [], es_previous_emails = [], es_job_ids_with_files = []\<rparr>"

definition wallet_targets :: "wallet_pass list \<Rightarrow> (string \<times> string) list" where
  "wallet_targets passes = concat (map (\<lambda>w.
     if truthy (wp_provider_pass_id w) \<and> wp_provider_removed_at w = None
     then [(wp_attendee_id w, the (wp_provider_pass_id w))] else []) passes)"

text \<open>What is done to the people of \<open>ids\<close> once their rows are locked and read.\<close>

definition erase_found ::
  "erase_env \<Rightarrow> string \<Rightarrow> string \<Rightarrow> bool \<Rightarrow> attendee list \<Rightarrow> string list \<Rightarrow> string list \<Rightarrow>
   (admin_db, job_error, erase_result) tx" where
  "erase_found env eid zone archived people already not_found =
     tx_bind (tx_read (\<lambda>db. collect_attendee_addresses eid people (ad_ops db))) (\<lambda>previous.
     tx_bind (erase_rows env eid zone archived (map att_id people)) (\<lambda>erased.
     tx_bind (in_ops (delete_notes_and_logs eid erased)) (\<lambda>(notes, logs).
     tx_bind (in_ops (clear_check_ins env eid zone erased)) (\<lambda>check_ins.
     tx_bind (in_ops (cancel_waiting_mail eid erased)) (\<lambda>_.
     tx_bind (in_ops (empty_mail eid erased)) (\<lambda>mails.
     tx_bind (tx_read (\<lambda>db. filter (\<lambda>w. wp_attendee_id w \<in> set erased) (ad_passes db))) (\<lambda>passes.
     tx_bind (strip_passes erased) (\<lambda>_.
     tx_bind (scrub_attendee_traces env eid erased previous) (\<lambda>_.
     tx_bind (tx_read (attendee_job_ids_with_files eid)) (\<lambda>job_ids.
       tx_return \<lparr>es_erased = erased, es_already_erased = already, es_not_found = not_found,
         es_counts = \<lparr>ec_notes = notes, ec_action_logs = logs, ec_email_deliveries = mails,
           ec_check_ins = check_ins, ec_wallet_passes = length passes\<rparr>,
         es_wallet_targets = wallet_targets passes, es_previous_emails = previous,
         es_job_ids_with_files = job_ids\<rparr>))))))))))"

definition requested_rows :: "string \<Rightarrow> string list \<Rightarrow> admin_db \<Rightarrow> attendee list" where
  "requested_rows eid ids db =
     sort_key att_id (filter (\<lambda>a. att_event_id a = eid \<and> att_id a \<in> set ids) (attendees (ad_ops db)))"

definition erase_attendees ::
  "erase_env \<Rightarrow> string \<Rightarrow> string list \<Rightarrow> (admin_db, job_error, erase_result) tx" where
  "erase_attendees env eid attendee_ids =
     (let requested = unique_in_order attendee_ids
      in if requested = [] then tx_return (nothing_erased [] requested)
         else tx_bind (lock_open_attendee_jobs (er_others env)) (\<lambda>_.
              tx_bind (tx_read (\<lambda>db. event_by_id eid (ad_ops db))) (\<lambda>event.
              case event of None \<Rightarrow> tx_return (nothing_erased [] requested)
              | Some e \<Rightarrow>
                  tx_bind (interfere (er_others env 2)) (\<lambda>_.
                  tx_bind (tx_read (requested_rows eid requested)) (\<lambda>found.
                    let not_found = filter (\<lambda>i. i \<notin> att_id ` set found) requested;
                        already = map att_id (filter (\<lambda>a. att_erased_at a \<noteq> None) found);
                        people = filter (\<lambda>a. att_erased_at a = None) found
                    in if people = [] then tx_return (nothing_erased already not_found)
                       else erase_found env eid (resolve_preview_event_time_zone env (ev_timezone e))
                              (ev_archived_at e \<noteq> None) people already not_found)))))"

end
