(* ===== verification/Erase_Props.thy ===== *)
theory Erase_Props
  imports Erase_Attendees Job_Stop
begin

text \<open>
  Erasure: what it leaves of a person (nothing), what it leaves of the numbers (everything), and that
  no constraint of the attendee table can make it fail.
\<close>

section \<open>The steps and the tables they touch\<close>

definition same_rows :: "('a \<Rightarrow> bool) \<Rightarrow> 'a list \<Rightarrow> 'a list \<Rightarrow> bool" where
  "same_rows p xs ys \<longleftrightarrow> filter p xs = filter p ys"

lemma same_rows_all:
  assumes "same_rows p xs ys" "\<And>x. q x \<Longrightarrow> p x"
  shows "(\<forall>x \<in> set xs. q x \<longrightarrow> P x) \<longleftrightarrow> (\<forall>x \<in> set ys. q x \<longrightarrow> P x)"
proof -
  have "set (filter p xs) = set (filter p ys)" using assms(1) by (simp add: same_rows_def)
  with assms(2) show ?thesis by auto
qed

lemma same_rows_ex:
  assumes "same_rows p xs ys" "\<And>x. q x \<Longrightarrow> p x"
  shows "(\<exists>x \<in> set xs. q x) \<longleftrightarrow> (\<exists>x \<in> set ys. q x)"
  using same_rows_all [OF assms(1), where q = q and P = "\<lambda>_. False"] assms(2) by auto

lemma update_whereE:
  assumes "y \<in> set (update_where p f xs)"
  obtains (kept) "y \<in> set xs" "\<not> p y" | (changed) x where "x \<in> set xs" "p x" "y = f x"
  using assms by (auto simp: set_update_where)

text \<open>The rows of some attendees, in every table: what holding their row locks keeps still.\<close>

definition rows_held :: "string set \<Rightarrow> admin_db \<Rightarrow> admin_db \<Rightarrow> bool" where
  "rows_held ids s t \<longleftrightarrow>
     same_rows (\<lambda>a. att_id a \<in> ids) (attendees (ad_ops s)) (attendees (ad_ops t)) \<and>
     same_rows (\<lambda>n. nt_attendee_id n \<in> ids) (attendee_notes (ad_ops s)) (attendee_notes (ad_ops t)) \<and>
     same_rows (\<lambda>l. \<exists>i \<in> ids. lg_attendee_id l = Some i) (action_logs (ad_ops s)) (action_logs (ad_ops t)) \<and>
     same_rows (\<lambda>c. ci_attendee_id c \<in> ids) (check_ins (ad_ops s)) (check_ins (ad_ops t)) \<and>
     same_rows (\<lambda>d. md_attendee_id d \<in> ids) (mail_deliveries (ad_ops s)) (mail_deliveries (ad_ops t)) \<and>
     same_rows (\<lambda>w. wp_attendee_id w \<in> ids) (ad_passes s) (ad_passes t)"

interpretation held: step_relation "rows_held ids"
  by unfold_locales (simp_all add: rows_held_def same_rows_def)

text \<open>Nothing of a person is left in the rows of an attendee.\<close>

definition mail_emptied :: "mail_delivery \<Rightarrow> bool" where
  "mail_emptied d \<longleftrightarrow> emptied_mail d = d \<and> \<not> mail_waits d"

definition anonymous :: "string \<Rightarrow> string \<Rightarrow> admin_db \<Rightarrow> bool" where
  "anonymous eid i db \<longleftrightarrow>
     (\<exists>a \<in> set (attendees (ad_ops db)). att_id a = i \<and> att_event_id a = eid) \<and>
     (\<forall>a \<in> set (attendees (ad_ops db)). att_id a = i \<and> att_event_id a = eid \<longrightarrow>
        att_erased_at a \<noteq> None \<and> attendee_checks a) \<and>
     (\<forall>n \<in> set (attendee_notes (ad_ops db)). nt_attendee_id n = i \<longrightarrow> nt_event_id n \<noteq> eid) \<and>
     (\<forall>l \<in> set (action_logs (ad_ops db)). lg_attendee_id l = Some i \<longrightarrow> lg_event_id l \<noteq> eid) \<and>
     (\<forall>c \<in> set (check_ins (ad_ops db)). ci_attendee_id c = i \<and> ci_event_id c = eid \<longrightarrow> ci_notes c = None) \<and>
     (\<forall>d \<in> set (mail_deliveries (ad_ops db)). md_attendee_id d = i \<and> md_event_id d = eid \<longrightarrow> mail_emptied d) \<and>
     (\<forall>w \<in> set (ad_passes db). wp_attendee_id w = i \<longrightarrow> stripped_pass w = w)"

lemma anonymous_held:
  assumes "rows_held ids s t" "i \<in> ids"
  shows "anonymous eid i t \<longleftrightarrow> anonymous eid i s"
proof -
  note h = assms(1) [unfolded rows_held_def]
  note a = h [THEN conjunct1] and h1 = h [THEN conjunct2]
  note n = h1 [THEN conjunct1] and h2 = h1 [THEN conjunct2]
  note l = h2 [THEN conjunct1] and h3 = h2 [THEN conjunct2]
  note c = h3 [THEN conjunct1] and h4 = h3 [THEN conjunct2]
  note d = h4 [THEN conjunct1] and w = h4 [THEN conjunct2]
  show ?thesis
    unfolding anonymous_def
    by (intro arg_cong2 [where f = "(\<and>)"] same_rows_ex [OF a, symmetric] same_rows_all [OF a, symmetric]
        same_rows_all [OF n, symmetric] same_rows_all [OF l, symmetric] same_rows_all [OF c, symmetric]
        same_rows_all [OF d, symmetric] same_rows_all [OF w, symmetric])
      (use assms(2) in auto)
qed

section \<open>Stopping the jobs touches nothing else\<close>

definition jobs_only :: "admin_db \<Rightarrow> admin_db \<Rightarrow> bool" where
  "jobs_only s t \<longleftrightarrow> ad_ops t = ad_ops s \<and> ad_passes t = ad_passes s \<and> ad_audit t = ad_audit s"

interpretation jobs: step_relation jobs_only
  by unfold_locales (auto simp: jobs_only_def)

lemma update_jobs_only: "jobs_only s (snd (update_jobs p f s))"
  by (simp add: jobs_only_def update_jobs_def)

lemma stop_job_only: "tx_all jobs_only (stop_job now job n)"
  by (auto simp: tx_all_def stop_job_def tx_simps update_jobs_def jobs_only_def Let_def
      split: if_splits option.splits)

lemma invalidate_only: "tx_all jobs_only (invalidate_event_exports eid)"
  unfolding invalidate_event_exports_def by (intro tx_all_write update_jobs_only)

lemma stop_fold_closes:
  assumes "tx_fold (stop_job now) js n s = Inr (m, t)"
  shows "\<forall>j \<in> set (ad_jobs t). is_open_attendee_job eid j \<longrightarrow> j \<in> set (ad_jobs s) \<and> aj_id j \<notin> aj_id ` set js"
  using assms
proof (induction js arbitrary: n s)
  case Nil
  then show ?case by (simp add: tx_simps)
next
  case (Cons job js)
  from Cons.prems obtain k u where one: "stop_job now job n s = Inr (k, u)" and rest: "tx_fold (stop_job now) js k u = Inr (m, t)"
    by (auto simp: tx_bind_Inr)
  obtain r where u: "ad_jobs u = update_where (\<lambda>j. aj_id j = aj_id job \<and> aj_status j \<in> set open_job_statuses)
      (\<lambda>j. with_scrubbed r (j\<lparr>aj_status := ''failed'', aj_finished_at := Some now,
         aj_error := Some (stopped_error (aj_type job))\<rparr>)) (ad_jobs s)"
    using one by (auto simp: stop_job_def tx_simps update_jobs_def Let_def split: if_splits option.splits)
  have failed: "aj_status (with_scrubbed r (j\<lparr>aj_status := ''failed'', aj_finished_at := Some now, aj_error := e\<rparr>)) = ''failed''"
    for j e by (simp add: with_scrubbed_def split: option.split)
  have "j \<in> set (ad_jobs s) \<and> aj_id j \<noteq> aj_id job" if "j \<in> set (ad_jobs u)" "is_open_attendee_job eid j" for j
    using that unfolding u set_update_where by (auto simp: is_open_attendee_job_def failed open_job_statuses_def)
  with Cons.IH [OF rest] show ?case by auto
qed

lemma stop_open_jobs_effect:
  assumes "stop_open_attendee_jobs others now eid s = Inr (n, t)"
  shows "jobs_only (others 1 (others 0 s)) t \<and> count_where (is_open_attendee_job eid) (ad_jobs t) = 0"
proof -
  let ?u = "others 1 (others 0 s)"
  let ?js = "sort_key aj_id (filter (is_open_attendee_job eid) (ad_jobs ?u))"
  have fold: "tx_fold (stop_job now) ?js 0 ?u = Inr (n, t)"
    using assms by (simp add: stop_open_attendee_jobs_def lock_open_attendee_jobs_def tx_simps)
  have "tx_all jobs_only (tx_fold (stop_job now) ?js 0)"
    by (intro jobs.all_fold stop_job_only)
  with fold have "jobs_only ?u t" by (auto dest: tx_allD)
  moreover have "count_where (is_open_attendee_job eid) (ad_jobs t) = 0"
    using stop_fold_closes [OF fold, of eid] by (auto simp: count_where_0)
  ultimately show ?thesis by simp
qed

section \<open>The erasure, statement by statement\<close>

lemma conflict_free_ids: "conflict_free rows \<Longrightarrow> a \<in> set rows \<Longrightarrow> b \<in> set rows \<Longrightarrow> att_id a = att_id b \<Longrightarrow> a = b"
  by (induction rows) (auto simp: attendee_conflict_def)

text \<open>The tables of the person, when the statements on them are done.\<close>

definition erased_tables ::
  "erase_env \<Rightarrow> string \<Rightarrow> string \<Rightarrow> bool \<Rightarrow> string list \<Rightarrow> admin_db \<Rightarrow> admin_db" where
  "erased_tables env eid zone archived ids db = db\<lparr>
     ad_ops := (ad_ops db)\<lparr>
       attendees := update_where (is_live_in eid ids) (erased_row env zone archived) (attendees (ad_ops db)),
       attendee_notes := filter (\<lambda>n. \<not> (nt_event_id n = eid \<and> nt_attendee_id n \<in> set ids)) (attendee_notes (ad_ops db)),
       action_logs := filter (\<lambda>l. \<not> (lg_event_id l = eid \<and>
         (case lg_attendee_id l of None \<Rightarrow> False | Some i \<Rightarrow> i \<in> set ids))) (action_logs (ad_ops db)),
       check_ins := update_where (\<lambda>c. ci_event_id c = eid \<and> ci_attendee_id c \<in> set ids)
         (\<lambda>c. c\<lparr>ci_notes := None, ci_checked_in_at := truncated_to_local_hour env zone (ci_checked_in_at c)\<rparr>)
         (check_ins (ad_ops db)),
       mail_deliveries := update_where (mail_of eid ids) (\<lambda>d. emptied_mail (cancelled_mail d)) (mail_deliveries (ad_ops db))\<rparr>,
     ad_passes := update_where (\<lambda>w. wp_attendee_id w \<in> set ids) stripped_pass (ad_passes db)\<rparr>"

lemma cancel_then_empty:
  "update_where (mail_of eid ids) emptied_mail (update_where (\<lambda>d. mail_of eid ids d \<and> mail_waits d)
     (\<lambda>d. d\<lparr>md_status := ''cancelled'', md_retryable := Some False\<rparr>) ds) =
   update_where (mail_of eid ids) (\<lambda>d. emptied_mail (cancelled_mail d)) ds"
  by (simp add: update_where_def mail_of_def cancelled_mail_def)

definition live_ids :: "string \<Rightarrow> attendee list \<Rightarrow> admin_db \<Rightarrow> string list" where
  "live_ids eid people db = map att_id (filter (is_live_in eid (map att_id people)) (attendees (ad_ops db)))"

lemma live_ids_hit:
  "update_where (is_live_in eid (map att_id people)) f (attendees (ad_ops db)) =
   update_where (is_live_in eid (live_ids eid people db)) f (attendees (ad_ops db))"
  unfolding update_where_def by (rule map_cong [OF refl]) (auto simp: is_live_in_def live_ids_def)

lemma erase_found_Inr:
  assumes "erase_found env eid zone archived people already not_found s = Inr (res, t)"
  shows "conflict_free (attendees (ad_ops (erased_tables env eid zone archived (live_ids eid people s) s))) \<and>
    (\<forall>a \<in> set (attendees (ad_ops s)). is_live_in eid (map att_id people) a \<longrightarrow>
       attendee_checks (erased_row env zone archived a)) \<and>
    scrub_attendee_traces env eid (live_ids eid people s) (es_previous_emails res)
      (erased_tables env eid zone archived (live_ids eid people s) s) = Inr ((), t) \<and>
    es_previous_emails res = collect_attendee_addresses eid people (ad_ops s) \<and>
    es_erased res = live_ids eid people s \<and> es_already_erased res = already \<and> es_not_found res = not_found \<and>
    es_job_ids_with_files res = attendee_job_ids_with_files eid t"
proof -
  define ids where "ids = live_ids eid people s"
  have ids: "map att_id (filter (is_live_in eid (map att_id people)) (attendees (ad_ops s))) = ids"
    by (simp add: ids_def live_ids_def)
  show ?thesis
    using assms unfolding ids_def [symmetric]
    by (simp add: erase_found_def tx_simps erase_rows_def in_ops_def delete_notes_and_logs_def clear_check_ins_def
        cancel_waiting_mail_def empty_mail_def strip_passes_def cancel_then_empty ids Let_def
        live_ids_hit [of eid people _ s, folded ids_def] erased_tables_def split: if_splits)
      (auto simp: tx_simps split: sum.splits)
qed

lemma emptied_cancelled: "mail_emptied (emptied_mail (cancelled_mail d))"
  by (simp add: mail_emptied_def emptied_mail_def cancelled_mail_def mail_waits_def)

lemma mail_of_emptied [simp]: "mail_of eid ids (emptied_mail (cancelled_mail d)) = mail_of eid ids d"
  by (simp add: mail_of_def emptied_mail_def cancelled_mail_def)

lemma anonymous_erased_tables:
  assumes free: "conflict_free (attendees (ad_ops (erased_tables env eid zone archived ids s)))"
    and checks: "\<forall>a \<in> set (attendees (ad_ops s)). is_live_in eid ids a \<longrightarrow> attendee_checks (erased_row env zone archived a)"
    and live: "\<exists>a \<in> set (attendees (ad_ops s)). att_id a = i \<and> is_live_in eid ids a"
  shows "anonymous eid i (erased_tables env eid zone archived ids s)"
proof -
  let ?t = "erased_tables env eid zone archived ids s"
  obtain a where a: "a \<in> set (attendees (ad_ops s))" "att_id a = i" "is_live_in eid ids a" using live by blast
  then have i: "i \<in> set ids" and ev: "att_event_id a = eid" by (auto simp: is_live_in_def)
  define b where "b = erased_row env zone archived a"
  have rows: "attendees (ad_ops ?t) = update_where (is_live_in eid ids) (erased_row env zone archived) (attendees (ad_ops s))"
    by (simp add: erased_tables_def)
  have "attendee_checks b" unfolding b_def using checks a(1,3) by blast
  moreover have "b \<in> set (attendees (ad_ops ?t))"
    unfolding rows set_update_where b_def using a(1,3) by blast
  moreover have "att_id b = i" "att_event_id b = eid" "att_erased_at b \<noteq> None"
    using a(2) ev by (simp_all add: b_def erased_row_def)
  ultimately have b: "b \<in> set (attendees (ad_ops ?t))" "att_id b = i" "att_event_id b = eid"
    "att_erased_at b \<noteq> None" "attendee_checks b" by blast+
  have only: "c = b" if "c \<in> set (attendees (ad_ops ?t))" "att_id c = i" for c
    using conflict_free_ids [OF free that(1) b(1)] that(2) b(2) by simp
  have people: "\<exists>c \<in> set (attendees (ad_ops ?t)). att_id c = i \<and> att_event_id c = eid"
    "\<forall>c \<in> set (attendees (ad_ops ?t)). att_id c = i \<and> att_event_id c = eid \<longrightarrow> att_erased_at c \<noteq> None \<and> attendee_checks c"
    using only b by blast+
  have traces: "\<forall>n \<in> set (attendee_notes (ad_ops ?t)). nt_attendee_id n = i \<longrightarrow> nt_event_id n \<noteq> eid"
    "\<forall>l \<in> set (action_logs (ad_ops ?t)). lg_attendee_id l = Some i \<longrightarrow> lg_event_id l \<noteq> eid"
    using i by (auto simp: erased_tables_def)
  have check_ins: "\<forall>c \<in> set (check_ins (ad_ops ?t)). ci_attendee_id c = i \<and> ci_event_id c = eid \<longrightarrow> ci_notes c = None"
  proof (intro ballI impI)
    fix c
    assume "c \<in> set (check_ins (ad_ops ?t))" and c: "ci_attendee_id c = i \<and> ci_event_id c = eid"
    then have "c \<in> set (update_where (\<lambda>c. ci_event_id c = eid \<and> ci_attendee_id c \<in> set ids)
        (\<lambda>c. c\<lparr>ci_notes := None, ci_checked_in_at := truncated_to_local_hour env zone (ci_checked_in_at c)\<rparr>)
        (check_ins (ad_ops s)))" by (simp add: erased_tables_def)
    then show "ci_notes c = None"
      by (cases rule: update_whereE) (use i c in auto)
  qed
  have mails: "\<forall>d \<in> set (mail_deliveries (ad_ops ?t)). md_attendee_id d = i \<and> md_event_id d = eid \<longrightarrow> mail_emptied d"
    using i emptied_cancelled by (auto simp: erased_tables_def set_update_where mail_of_def)
  have passes: "\<forall>w \<in> set (ad_passes ?t). wp_attendee_id w = i \<longrightarrow> stripped_pass w = w"
    using i by (auto simp: erased_tables_def set_update_where stripped_pass_def)
  from people traces check_ins mails passes show ?thesis unfolding anonymous_def by blast
qed

section \<open>The traces\<close>

lemma same_rows_update:
  assumes "\<And>x. p x \<Longrightarrow> \<not> hit x" "\<And>x. \<not> p x \<Longrightarrow> \<not> p (f x)"
  shows "same_rows p xs (update_where hit f xs)"
  using assms by (induction xs) (auto simp: same_rows_def update_where_def)

lemma same_rows_refl: "same_rows p xs xs"
  by (simp add: same_rows_def)

lemma scrubbed_copy_same: "md_attendee_id (scrubbed_copy d) = md_attendee_id d"
  "md_event_id (scrubbed_copy d) = md_event_id d" "md_recipient_email (scrubbed_copy d) = None"
  by (simp_all add: scrubbed_copy_def cancelled_mail_def)

lemma jobs_only_held: "jobs_only s t \<Longrightarrow> rows_held ids s t"
  by (simp add: jobs_only_def rows_held_def same_rows_refl)

lemma invalidate_closed:
  assumes "invalidate_event_exports eid u = Inr (r, v)"
  shows "count_where (is_open_attendee_job e) (ad_jobs v) = count_where (is_open_attendee_job e) (ad_jobs u)"
proof -
  have v: "ad_jobs v = update_where (\<lambda>j. aj_event_id j = Some eid \<and> aj_type j = ''export'')
      (\<lambda>j. j\<lparr>aj_result_json := invalidated_result (aj_result_json j)\<rparr>) (ad_jobs u)"
    using assms by (auto simp: invalidate_event_exports_def tx_simps update_jobs_def)
  show ?thesis unfolding v count_where_def update_where_def filter_map length_map
    by (rule arg_cong [where f = length], rule filter_cong) (simp_all add: is_open_attendee_job_def)
qed

lemma map_of_filter_other: "map_of (filter (\<lambda>(k, _). k \<noteq> key) kvs) k = (if k = key then None else map_of kvs k)"
  by (induction kvs) auto

lemma without_keys: "prop_of (without_key key j) k = (if k = key then None else prop_of j k)"
  by (cases j) (simp_all add: map_of_filter_other)

definition mail_scrubbed :: "string \<Rightarrow> string list \<Rightarrow> string list \<Rightarrow> ops_db \<Rightarrow> ops_db" where
  "mail_scrubbed eid ids emails db = (if emails = [] then db
     else db\<lparr>mail_deliveries := update_where (\<lambda>d. md_event_id d = eid \<and>
       sql_address_in emails (md_recipient_email d) \<and> md_attendee_id d \<notin> set ids) scrubbed_copy (mail_deliveries db)\<rparr>)"

lemma scrub_traces_steps:
  assumes "scrub_attendee_traces env eid ids emails s = Inr (r, t)" "ids \<noteq> []"
  obtains n u v where "stop_open_attendee_jobs (\<lambda>k. er_others env (3 + k)) (er_clock env) eid s = Inr (n, u)"
    and "invalidate_event_exports eid u = Inr ((), v)"
    and "t = v\<lparr>ad_ops := mail_scrubbed eid ids emails (ad_ops v), ad_audit := update_where (names_created env eid ids)
      (\<lambda>l. l\<lparr>aa_metadata := without_key ''attendee_email'' (without_key ''attendee_name'' (aa_metadata l))\<rparr>) (ad_audit v)\<rparr>"
  using assms
  by (auto simp: scrub_attendee_traces_def tx_simps on_ops_tables_def mail_scrubbed_def split: sum.splits if_splits)

lemma scrub_traces_Inr:
  assumes run: "scrub_attendee_traces env eid ids emails s = Inr (r, t)" and some: "ids \<noteq> []"
    and held: "\<And>k s. 3 \<le> k \<Longrightarrow> rows_held (set ids) s (er_others env k s)"
  shows "rows_held (set ids) s t \<and> count_where (is_open_attendee_job eid) (ad_jobs t) = 0 \<and>
    (\<forall>d \<in> set (mail_deliveries (ad_ops t)). md_event_id d = eid \<and> md_attendee_id d \<notin> set ids \<longrightarrow>
       \<not> sql_address_in emails (md_recipient_email d)) \<and>
    (\<forall>l \<in> set (ad_audit t). names_created env eid ids l \<longrightarrow>
       prop_of (aa_metadata l) ''attendee_name'' = None \<and> prop_of (aa_metadata l) ''attendee_email'' = None)"
proof -
  from run some obtain n u v where u: "stop_open_attendee_jobs (\<lambda>k. er_others env (3 + k)) (er_clock env) eid s = Inr (n, u)"
    and v: "invalidate_event_exports eid u = Inr ((), v)"
    and t: "t = v\<lparr>ad_ops := mail_scrubbed eid ids emails (ad_ops v), ad_audit := update_where (names_created env eid ids)
      (\<lambda>l. l\<lparr>aa_metadata := without_key ''attendee_email'' (without_key ''attendee_name'' (aa_metadata l))\<rparr>) (ad_audit v)\<rparr>"
    by (rule scrub_traces_steps)
  let ?w = "er_others env 4 (er_others env 3 s)"
  have "rows_held (set ids) s (er_others env 3 s)" "rows_held (set ids) (er_others env 3 s) ?w"
    by (simp_all add: held)
  then have 1: "rows_held (set ids) s ?w" by (rule held.rel_trans)
  have stop: "jobs_only ?w u" "count_where (is_open_attendee_job eid) (ad_jobs u) = 0"
    using stop_open_jobs_effect [OF u] by simp_all
  have uv: "jobs_only u v" using tx_allD [OF invalidate_only v] .
  have 2: "rows_held (set ids) ?w v" using jobs.rel_trans [OF stop(1) uv] by (rule jobs_only_held)
  have "same_rows (\<lambda>d. md_attendee_id d \<in> set ids) (mail_deliveries (ad_ops v)) (mail_deliveries (ad_ops t))"
    by (auto simp: t mail_scrubbed_def same_rows_refl scrubbed_copy_same intro: same_rows_update)
  then have 3: "rows_held (set ids) v t"
    by (simp add: rows_held_def t mail_scrubbed_def same_rows_refl)
  have "rows_held (set ids) s t"
    by (rule held.rel_trans [OF 1 held.rel_trans [OF 2 3]])
  moreover have "count_where (is_open_attendee_job eid) (ad_jobs t) = 0"
    using stop(2) invalidate_closed [OF v] by (simp add: t)
  moreover have "\<not> sql_address_in emails (md_recipient_email d)"
    if "d \<in> set (mail_deliveries (ad_ops t))" "md_event_id d = eid" "md_attendee_id d \<notin> set ids" for d
  proof (cases "emails = []")
    case True
    then show ?thesis by (simp add: sql_address_in_def split: option.splits)
  next
    case False
    with that(1) have "d \<in> set (update_where (\<lambda>d. md_event_id d = eid \<and> sql_address_in emails (md_recipient_email d) \<and>
        md_attendee_id d \<notin> set ids) scrubbed_copy (mail_deliveries (ad_ops v)))" by (simp add: t mail_scrubbed_def)
    then show ?thesis
    proof (cases rule: update_whereE)
      case kept
      with that(2,3) show ?thesis by blast
    next
      case (changed d0)
      then show ?thesis by (simp add: scrubbed_copy_same sql_address_in_def)
    qed
  qed
  moreover have "prop_of (aa_metadata l) ''attendee_name'' = None \<and> prop_of (aa_metadata l) ''attendee_email'' = None"
    if "l \<in> set (ad_audit t)" "names_created env eid ids l" for l
  proof -
    from that(1) have "l \<in> set (update_where (names_created env eid ids)
      (\<lambda>l. l\<lparr>aa_metadata := without_key ''attendee_email'' (without_key ''attendee_name'' (aa_metadata l))\<rparr>) (ad_audit v))"
      by (simp add: t)
    then show ?thesis
    proof (cases rule: update_whereE)
      case kept
      with that(2) show ?thesis by blast
    next
      case (changed l0)
      then show ?thesis by (simp add: without_keys)
    qed
  qed
  ultimately show ?thesis by blast
qed

section \<open>Nothing is left of the person\<close>

text \<open>The state in which the queue lock, the job rows and the attendee rows have been obtained.\<close>

definition locked_state :: "erase_env \<Rightarrow> admin_db \<Rightarrow> admin_db" where
  "locked_state env db = er_others env 2 (er_others env 1 (er_others env 0 db))"

definition live_requested :: "string \<Rightarrow> string list \<Rightarrow> admin_db \<Rightarrow> attendee list" where
  "live_requested eid ids db = filter (\<lambda>a. att_erased_at a = None) (requested_rows eid (unique_in_order ids) db)"

lemma set_unique_in_order [simp]: "set (unique_in_order xs) = set xs"
  by (simp add: unique_in_order_def)

lemma unique_in_order_Nil [simp]: "unique_in_order xs = [] \<longleftrightarrow> xs = []"
  by (simp add: unique_in_order_def)

lemma erase_attendees_cases:
  assumes "erase_attendees env eid ids db = Inr (res, db')"
  obtains (nobody) already not_found where "res = nothing_erased already not_found"
      "set ids = set already \<union> set not_found"
  | (found) e already not_found where
      "event_by_id eid (ad_ops (er_others env 1 (er_others env 0 db))) = Some e"
      "erase_found env eid (resolve_preview_event_time_zone env (ev_timezone e)) (ev_archived_at e \<noteq> None)
         (live_requested eid ids (locked_state env db)) already not_found (locked_state env db) = Inr (res, db')"
      "live_requested eid ids (locked_state env db) \<noteq> []"
      "set ids = att_id ` set (live_requested eid ids (locked_state env db)) \<union> set already \<union> set not_found"
proof -
  let ?u = "er_others env 1 (er_others env 0 db)"
  let ?s = "locked_state env db"
  let ?found = "requested_rows eid (unique_in_order ids) ?s"
  let ?already = "map att_id (filter (\<lambda>a. att_erased_at a \<noteq> None) ?found)"
  let ?missing = "filter (\<lambda>i. i \<notin> att_id ` set ?found) (unique_in_order ids)"
  have within: "att_id ` set ?found \<subseteq> set ids" by (auto simp: requested_rows_def)
  have parts: "att_id ` set ?found = att_id ` set (live_requested eid ids ?s) \<union> set ?already"
  proof -
    have "set ?found = set (live_requested eid ids ?s) \<union> set (filter (\<lambda>a. att_erased_at a \<noteq> None) ?found)"
      unfolding live_requested_def set_filter by blast
    then show ?thesis by (metis image_Un set_map)
  qed
  have cover: "set ids = att_id ` set (live_requested eid ids ?s) \<union> set ?already \<union> set ?missing"
    using within parts by auto
  show thesis
  proof (cases "ids = [] \<or> event_by_id eid (ad_ops ?u) = None")
    case True
    then have "res = nothing_erased [] (unique_in_order ids)"
      using assms
      by (cases "ids = []") (auto simp: erase_attendees_def lock_open_attendee_jobs_def tx_simps Let_def)
    then show thesis by (rule nobody) simp
  next
    case False
    then obtain e where e: "event_by_id eid (ad_ops ?u) = Some e" and ids: "ids \<noteq> []" by auto
    show thesis
    proof (cases "live_requested eid ids ?s = []")
      case True
      then have "res = nothing_erased ?already ?missing"
        using assms e ids by (auto simp: erase_attendees_def lock_open_attendee_jobs_def tx_simps Let_def
            locked_state_def live_requested_def simp del: set_map)
      then show thesis by (rule nobody) (use cover True in simp)
    next
      case False
      then have "erase_found env eid (resolve_preview_event_time_zone env (ev_timezone e)) (ev_archived_at e \<noteq> None)
          (live_requested eid ids ?s) ?already ?missing ?s = Inr (res, db')"
        using assms e ids by (simp add: erase_attendees_def lock_open_attendee_jobs_def tx_simps Let_def
            locked_state_def live_requested_def)
      with e show thesis using False cover by (rule found)
    qed
  qed
qed

lemma live_ids_requested: "set (live_ids eid (live_requested eid ids s) s) = att_id ` set (live_requested eid ids s)"
  by (auto simp: live_ids_def live_requested_def requested_rows_def is_live_in_def)

lemma collected_current:
  "a \<in> set people \<Longrightarrow> normalized_address (att_email a) \<noteq> [] \<Longrightarrow>
   normalized_address (att_email a) \<in> set (collect_attendee_addresses eid people db)"
  by (auto simp: collect_attendee_addresses_def Let_def)

lemma erased_is_anonymous:
  assumes run: "erase_attendees env eid ids db = Inr (res, db')"
    and held: "\<And>k s. 3 \<le> k \<Longrightarrow> rows_held (set (es_erased res)) s (er_others env k s)"
  shows "set ids = set (es_erased res) \<union> set (es_already_erased res) \<union> set (es_not_found res) \<and>
    (\<forall>i \<in> set (es_erased res). anonymous eid i db' \<and>
       (\<forall>a \<in> set (attendees (ad_ops (locked_state env db))). is_live_in eid [i] a \<longrightarrow>
          normalized_address (att_email a) \<in> set ([] # es_previous_emails res))) \<and>
    (es_erased res \<noteq> [] \<longrightarrow>
       (\<forall>d \<in> set (mail_deliveries (ad_ops db')). md_event_id d = eid \<longrightarrow>
          \<not> sql_address_in (es_previous_emails res) (md_recipient_email d)) \<and>
       (\<forall>l \<in> set (ad_audit db'). names_created env eid (es_erased res) l \<longrightarrow>
          prop_of (aa_metadata l) ''attendee_name'' = None \<and> prop_of (aa_metadata l) ''attendee_email'' = None) \<and>
       count_where (is_open_attendee_job eid) (ad_jobs db') = 0)"
  using run
proof (cases rule: erase_attendees_cases)
  case (nobody already not_found)
  then show ?thesis by (simp add: nothing_erased_def)
next
  case (found e already not_found)
  let ?zone = "resolve_preview_event_time_zone env (ev_timezone e)" and ?archived = "ev_archived_at e \<noteq> None"
  define s where "s = locked_state env db"
  define people where "people = live_requested eid ids s"
  define live where "live = live_ids eid people s"
  let ?u = "erased_tables env eid ?zone ?archived live s"
  note eff = erase_found_Inr [OF found(2), folded s_def people_def, folded people_def, folded live_def]
  from eff have free: "conflict_free (attendees (ad_ops ?u))"
    and checks: "\<forall>a \<in> set (attendees (ad_ops s)). is_live_in eid (map att_id people) a \<longrightarrow> attendee_checks (erased_row env ?zone ?archived a)"
    and scrub: "scrub_attendee_traces env eid live (es_previous_emails res) ?u = Inr ((), db')"
    and mails: "es_previous_emails res = collect_attendee_addresses eid people (ad_ops s)"
    and res: "es_erased res = live" "es_already_erased res = already" "es_not_found res = not_found"
    by blast+
  have set_live: "set live = att_id ` set people"
    unfolding live_def people_def by (rule live_ids_requested)
  have some: "live \<noteq> []" using found(3) set_live by (auto simp: people_def s_def)
  note traces = scrub_traces_Inr [OF scrub some held [unfolded res(1)]]
  have anon: "anonymous eid i db'" if i: "i \<in> set live" for i
  proof -
    have "\<exists>a \<in> set (attendees (ad_ops s)). att_id a = i \<and> is_live_in eid live a"
      using i set_live by (auto simp: people_def live_requested_def requested_rows_def is_live_in_def)
    moreover have "\<forall>a \<in> set (attendees (ad_ops s)). is_live_in eid live a \<longrightarrow> attendee_checks (erased_row env ?zone ?archived a)"
      using checks set_live by (simp add: is_live_in_def)
    ultimately have "anonymous eid i ?u" using free by (intro anonymous_erased_tables)
    with anonymous_held [OF _ i] traces show ?thesis by blast
  qed
  have addresses: "normalized_address (att_email a) \<in> set ([] # es_previous_emails res)"
    if "a \<in> set (attendees (ad_ops s))" "is_live_in eid [i] a" "i \<in> set live" for a i
  proof -
    have "a \<in> set people"
      using that set_live by (auto simp: people_def live_requested_def requested_rows_def is_live_in_def)
    from collected_current [OF this] show ?thesis by (cases "normalized_address (att_email a) = []") (simp_all add: mails)
  qed
  have no_mail: "\<not> sql_address_in (es_previous_emails res) (md_recipient_email d)"
    if d: "d \<in> set (mail_deliveries (ad_ops db'))" "md_event_id d = eid" for d
  proof (cases "md_attendee_id d \<in> set live")
    case True
    with anon [OF True] d have "mail_emptied d" by (auto simp: anonymous_def)
    then have "md_recipient_email d = None"
      by (metis mail_emptied_def emptied_mail_def mail_delivery.select_convs mail_delivery.surjective mail_delivery.update_convs)
    then show ?thesis by (simp add: sql_address_in_def)
  next
    case False
    with traces d show ?thesis by blast
  qed
  have "set ids = set live \<union> set already \<union> set not_found"
    using found(4) set_live by (simp add: people_def s_def)
  with anon addresses no_mail traces show ?thesis
    unfolding res s_def [symmetric] by blast
qed


text \<open>A guest with a note, a mail on its way and a pass is erased while an export is waiting.\<close>

definition sample_mail :: mail_delivery where
  "sample_mail = \<lparr>md_id = ''m1'', md_attendee_id = ''a1'', md_event_id = ''e1'', md_status = ''queued'', md_created_at = 4,
     md_purpose = ''initial'', md_recipient_email = Some ''Old@x.org'', md_rendered_subject = Some ''Your ticket'',
     md_rendered_html = Some ''Hello'', md_provider_message_id = None, md_error = None, md_retryable = None,
     md_organization_id = ''o1'', md_batch_id = Some ''b1'', md_template_id = None, md_template_id_snapshot = None,
     md_template_label_snapshot = None, md_had_wallet_cta = False, md_provider = ''smtp'', md_error_code = None,
     md_attempts = 1, md_queued_at = 4, md_attempted_at = None, md_accepted_at = None, md_sent_at = None,
     md_failed_at = None, md_viewed_at = None, md_client_timezone = None, md_actor_user_id = None,
     md_session_id = None\<rparr>"

definition sample_pass :: wallet_pass where
  "sample_pass = \<lparr>wp_attendee_id = ''a1'', wp_provider_pass_id = Some ''p1'', wp_user_provided_id = Some ''e1-a1'',
     wp_left_behind_pass_id = None, wp_status = ''active'', wp_issued_at = Some 3, wp_provider_removed_at = None,
     wp_download_url = Some ''u'', wp_apple_url = None, wp_android_url = None, wp_samsung_url = None,
     wp_user_agent = Some ''agent'', wp_user_agent_captured_at = Some 3, wp_auth_token = None, wp_pass_url = None,
     wp_serial_number = None, wp_pass_type_id = None\<rparr>"

definition sample_creation :: admin_audit where
  "sample_creation = \<lparr>aa_organization_id = Some ''o1'', aa_actor_user_id = ''u1'', aa_actor_email = None,
     aa_actor_display_name = None, aa_action_type = ''attendee_created_manual'', aa_session_id = None, aa_ip = None,
     aa_metadata = JObj [(''event_id'', JStr ''e1''), (''attendee_id'', JStr ''a1''), (''attendee_name'', JStr ''Ada'')],
     aa_actor_timezone = None\<rparr>"

definition sample_guest_db :: admin_db where
  "sample_guest_db = sample_admin_db\<lparr>
     ad_ops := sample_db\<lparr>attendees := [sample_guest ''a1'', sample_guest ''a4''],
       attendee_notes := [\<lparr>nt_id = ''n1'', nt_attendee_id = ''a1'', nt_event_id = ''e1'', nt_author_user_id = ''u1'',
         nt_body = ''Vegan'', nt_created_at = 7\<rparr>], mail_deliveries := [sample_mail]\<rparr>,
     ad_passes := [sample_pass], ad_audit := [sample_creation]\<rparr>"

definition sample_erase_env :: erase_env where
  "sample_erase_env = \<lparr>er_others = (\<lambda>_ db. db), er_now = 77, er_clock = 78, er_local = (\<lambda>_ t. t + 3600000),
     er_zone_ok = (\<lambda>z. z = ''UTC''), er_default_zone = ''UTC'',
     er_as_text = (\<lambda>j. case j of JStr s \<Rightarrow> Some s | _ \<Rightarrow> None)\<rparr>"

lemma sample_erasure:
  "case erase_attendees sample_erase_env ''e1'' [''a1'', ''zz''] sample_guest_db of Inl e \<Rightarrow> False
   | Inr (res, db') \<Rightarrow> es_erased res = [''a1''] \<and> es_not_found res = [''zz''] \<and>
       es_previous_emails res = [''a1@x.org'', ''old@x.org'']"
  by code_simp


end
