(* ===== verification/Erase_Numbers.thy ===== *)
theory Erase_Numbers
  imports Erase_Props
begin

text \<open>
  The other side of an erasure: the database's constraints cannot refuse it, it changes no number
  a report is made of, and doing it again changes nothing.
\<close>

section \<open>The placeholders never collide\<close>

lemma starts_with_rev_suffix: "starts_with (rev x) (rev (y @ x))"
  by (simp add: starts_with_append)

lemma erased_email_is_placeholder: "erased_placeholder_address (erased_attendee_email i)"
proof -
  have "js_lower (CHR ''@'' # erased_email_domain) = CHR ''@'' # erased_email_domain"
    by (simp add: erased_email_domain_def js_lower_def js_lower_char_def)
  then have "js_lower (erased_attendee_email i) = js_lower (''erased-'' @ i) @ CHR ''@'' # erased_email_domain"
    by (simp add: erased_attendee_email_def js_lower_def)
  then show ?thesis
    using starts_with_rev_suffix by (simp only: erased_placeholder_address_def)
qed

lemma erased_row_checks: "attendee_checks (erased_row env zone archived a)"
  by (simp add: attendee_checks_def erased_row_def erased_attendee_name_def erased_attendee_email_def)

lemma erased_row_same [simp]:
  "att_id (erased_row env zone archived a) = att_id a" "att_event_id (erased_row env zone archived a) = att_event_id a"
  "att_ticket_type (erased_row env zone archived a) = att_ticket_type a"
  "att_rsvp_status (erased_row env zone archived a) = att_rsvp_status a"
  "att_admitted_at (erased_row env zone archived a) = None \<longleftrightarrow> att_admitted_at a = None"
  "att_erased_at (erased_row env zone archived a) = Some (er_now env)"
  "att_email (erased_row env zone archived a) = erased_attendee_email (att_id a)"
  by (simp_all add: erased_row_def)

lemma erased_email_inj [simp]: "erased_attendee_email i = erased_attendee_email j \<longleftrightarrow> i = j"
  by (simp add: erased_attendee_email_def)

lemma attendee_checks_cases:
  assumes "attendee_checks a"
  obtains (live) "att_erased_at a = None" "\<And>i. att_email a \<noteq> erased_attendee_email i"
  | (erased) "att_erased_at a \<noteq> None" "att_email a = erased_attendee_email (att_id a)" "att_external_uuid a = None"
      "att_qr_payload a = None" "att_token_hash a = None" "att_public_ref a = None"
proof (cases "att_erased_at a = None")
  case True
  then have "\<not> erased_placeholder_address (att_email a)" using assms by (simp add: attendee_checks_def)
  with erased_email_is_placeholder have "att_email a \<noteq> erased_attendee_email i" for i by metis
  with True show thesis by (rule live)
next
  case False
  then show thesis using assms by (intro erased) (simp_all add: attendee_checks_def erased_attendee_email_def)
qed

lemma same_key_sym: "same_key x y \<longleftrightarrow> same_key y x"
  by (auto simp: same_key_def)

lemma attendee_conflict_sym: "attendee_conflict a b \<longleftrightarrow> attendee_conflict b a"
  unfolding attendee_conflict_def
  by (simp only: same_key_sym [of "_ a"] eq_commute [of "_ a"])

lemma erased_no_conflict:
  assumes "attendee_checks a" "att_erased_at a \<noteq> None" "attendee_checks b" "att_id a \<noteq> att_id b"
  shows "\<not> attendee_conflict a b"
  using assms(1)
proof (cases rule: attendee_checks_cases)
  case live
  with assms(2) show ?thesis by simp
next
  case a: erased
  from assms(3) have "att_email a \<noteq> att_email b"
  proof (cases rule: attendee_checks_cases)
    case live
    then show ?thesis using a(2) by metis
  next
    case erased
    then show ?thesis using a(2) assms(4) by simp
  qed
  with a assms(4) show ?thesis by (simp add: attendee_conflict_def same_key_def)
qed

lemma erased_keeps_apart:
  fixes hit env zone archived
  assumes "\<not> attendee_conflict a b" "attendee_checks a" "attendee_checks b"
  defines "f \<equiv> \<lambda>a. if hit a then erased_row env zone archived a else a"
  shows "\<not> attendee_conflict (f a) (f b)"
proof -
  have checks: "attendee_checks (f a)" "attendee_checks (f b)"
    using assms(2,3) by (simp_all add: f_def erased_row_checks)
  have ids: "att_id (f a) \<noteq> att_id (f b)" using assms(1) by (simp add: f_def attendee_conflict_def)
  consider "att_erased_at (f a) \<noteq> None" | "att_erased_at (f b) \<noteq> None" | "f a = a" "f b = b"
    by (cases "hit a"; cases "hit b") (auto simp: f_def)
  then show ?thesis
  proof cases
    case 1
    with checks ids show ?thesis by (intro erased_no_conflict)
  next
    case 2
    with checks ids have "\<not> attendee_conflict (f b) (f a)" by (intro erased_no_conflict) simp_all
    then show ?thesis by (simp add: attendee_conflict_sym)
  next
    case 3
    with assms(1) show ?thesis by simp
  qed
qed

lemma conflict_free_map:
  assumes "conflict_free rows"
    and "\<And>a b. a \<in> set rows \<Longrightarrow> b \<in> set rows \<Longrightarrow> \<not> attendee_conflict a b \<Longrightarrow> \<not> attendee_conflict (g a) (g b)"
  shows "conflict_free (map g rows)"
  using assms by (induction rows) simp_all

lemma erased_conflict_free:
  assumes "conflict_free rows" "\<forall>a \<in> set rows. attendee_checks a"
  shows "conflict_free (update_where hit (erased_row env zone archived) rows)"
  unfolding update_where_def
  using assms by (intro conflict_free_map erased_keeps_apart) auto

section \<open>No error but one\<close>

definition readable_jobs :: "string \<Rightarrow> admin_job list \<Rightarrow> bool" where
  "readable_jobs eid js \<longleftrightarrow> (\<forall>j \<in> set js. is_open_attendee_job eid j \<longrightarrow> aj_type j = ''export'' \<longrightarrow>
     scrub_export_job_result_json (aj_result_json j) \<noteq> None)"

lemma stop_job_returns:
  assumes "aj_type j = ''export'' \<longrightarrow> scrub_export_job_result_json (aj_result_json j) \<noteq> None"
  shows "\<exists>k u. stop_job now j n s = Inr (k, u)"
  using assms by (cases "aj_type j = ''export''") (auto simp: stop_job_def tx_simps update_jobs_def)

lemma stop_fold_returns:
  "\<forall>j \<in> set js. aj_type j = ''export'' \<longrightarrow> scrub_export_job_result_json (aj_result_json j) \<noteq> None \<Longrightarrow>
   \<exists>m t. tx_fold (stop_job now) js n s = Inr (m, t)"
proof (induction js arbitrary: n s)
  case (Cons j js)
  then obtain k u where "stop_job now j n s = Inr (k, u)"
    using stop_job_returns [of j] by fastforce
  moreover obtain m t where "tx_fold (stop_job now) js k u = Inr (m, t)"
    using Cons.IH [of k u] Cons.prems by auto
  ultimately show ?case by (simp add: tx_bind_def)
qed (simp add: tx_simps)

lemma stop_returns:
  assumes "readable_jobs eid (ad_jobs (others 1 (others 0 s)))"
  shows "\<exists>n t. stop_open_attendee_jobs others now eid s = Inr (n, t)"
proof -
  let ?js = "sort_key aj_id (filter (is_open_attendee_job eid) (ad_jobs (others 1 (others 0 s))))"
  have "\<forall>j \<in> set ?js. aj_type j = ''export'' \<longrightarrow> scrub_export_job_result_json (aj_result_json j) \<noteq> None"
    using assms by (simp add: readable_jobs_def)
  from stop_fold_returns [OF this] show ?thesis
    by (simp add: stop_open_attendee_jobs_def lock_open_attendee_jobs_def tx_simps)
qed

lemma scrub_returns:
  assumes "readable_jobs eid (ad_jobs (er_others env 4 (er_others env 3 s)))"
  shows "\<exists>t. scrub_attendee_traces env eid ids emails s = Inr ((), t)"
proof -
  obtain n t where "stop_open_attendee_jobs (\<lambda>k. er_others env (3 + k)) (er_clock env) eid s = Inr (n, t)"
    using stop_returns [of eid "\<lambda>k. er_others env (3 + k)" s "er_clock env"] assms by auto
  then show ?thesis
    by (cases "ids = []"; cases "emails = []")
      (simp_all add: scrub_attendee_traces_def tx_simps invalidate_event_exports_def on_ops_tables_def)
qed

lemma erase_found_returns:
  assumes free: "conflict_free (attendees (ad_ops s))" "\<forall>a \<in> set (attendees (ad_ops s)). attendee_checks a"
    and jobs: "\<And>k s. 3 \<le> k \<Longrightarrow> ad_jobs (er_others env k s) = ad_jobs s" "readable_jobs eid (ad_jobs s)"
  shows "\<exists>res t. erase_found env eid zone archived people already not_found s = Inr (res, t)"
proof -
  define ids where "ids = live_ids eid people s"
  let ?u = "erased_tables env eid zone archived ids s"
  let ?emails = "collect_attendee_addresses eid people (ad_ops s)"
  have ids: "map att_id (filter (is_live_in eid (map att_id people)) (attendees (ad_ops s))) = ids"
    by (simp add: ids_def live_ids_def)
  have "ad_jobs (er_others env 4 (er_others env 3 ?u)) = ad_jobs s"
    using jobs(1) [of 4] jobs(1) [of 3] by (simp add: erased_tables_def)
  with jobs(2) obtain t where "scrub_attendee_traces env eid ids ?emails ?u = Inr ((), t)"
    using scrub_returns [of eid env ?u ids ?emails] by auto
  moreover have "conflict_free (update_where (is_live_in eid ids) (erased_row env zone archived) (attendees (ad_ops s)))"
    using free by (rule erased_conflict_free)
  ultimately show ?thesis
    by (simp add: erase_found_def tx_simps erase_rows_def in_ops_def delete_notes_and_logs_def clear_check_ins_def
        cancel_waiting_mail_def empty_mail_def strip_passes_def cancel_then_empty ids Let_def erased_row_checks
        live_ids_hit [of eid people _ s, folded ids_def] erased_tables_def)
qed

text \<open>An erasure cannot be refused. If the attendee table satisfies the database's own constraints
  when the rows are locked, the queue lock keeps the jobs still, and every export that is still open holds a readable
  request, then erasing any ids of an event that is there succeeds and erases exactly the
  requested attendees of that event who were not erased before: the placeholders violate no CHECK and collide with no
  other address, placeholder or not.\<close>

theorem erasure_cannot_be_refused:
  assumes event: "event_by_id eid (ad_ops (er_others env 1 (er_others env 0 db))) \<noteq> None"
    and table: "conflict_free (attendees (ad_ops (locked_state env db)))"
      "\<forall>a \<in> set (attendees (ad_ops (locked_state env db))). attendee_checks a"
    and jobs: "\<And>k s. 3 \<le> k \<Longrightarrow> ad_jobs (er_others env k s) = ad_jobs s"
      "readable_jobs eid (ad_jobs (locked_state env db))"
  shows "\<exists>res db'. erase_attendees env eid ids db = Inr (res, db') \<and>
    set (es_erased res) = {i \<in> set ids. \<exists>a \<in> set (attendees (ad_ops (locked_state env db))).
      att_id a = i \<and> att_event_id a = eid \<and> att_erased_at a = None}"
proof -
  let ?s = "locked_state env db"
  let ?people = "live_requested eid ids ?s"
  obtain e where e: "event_by_id eid (ad_ops (er_others env 1 (er_others env 0 db))) = Some e" using event by blast
  have people: "att_id ` set ?people = {i \<in> set ids. \<exists>a \<in> set (attendees (ad_ops ?s)).
      att_id a = i \<and> att_event_id a = eid \<and> att_erased_at a = None}"
    by (auto simp: live_requested_def requested_rows_def)
  show ?thesis
  proof (cases "ids = [] \<or> ?people = []")
    case True
    then have "\<exists>already missing db'. erase_attendees env eid ids db = Inr (nothing_erased already missing, db')"
      using e by (cases "ids = []") (auto simp: erase_attendees_def lock_open_attendee_jobs_def tx_simps Let_def
          locked_state_def live_requested_def)
    with True people show ?thesis by (auto simp: nothing_erased_def)
  next
    case False
    obtain already missing where step: "erase_attendees env eid ids db =
        erase_found env eid (resolve_preview_event_time_zone env (ev_timezone e)) (ev_archived_at e \<noteq> None)
          ?people already missing ?s"
      using e False by (intro that) (simp add: erase_attendees_def lock_open_attendee_jobs_def tx_simps Let_def
          locked_state_def live_requested_def)
    obtain res t where run: "erase_found env eid (resolve_preview_event_time_zone env (ev_timezone e))
        (ev_archived_at e \<noteq> None) ?people already missing ?s = Inr (res, t)"
      using erase_found_returns [OF table jobs] by blast
    then have "es_erased res = live_ids eid ?people ?s" using erase_found_Inr by blast
    then have "set (es_erased res) = att_id ` set ?people" by (simp add: live_ids_requested)
    with step run people show ?thesis by auto
  qed
qed

theorem erasure_cannot_be_refused_witness:
  "\<exists>res db'. erase_attendees sample_erase_env ''e1'' [''a4'', ''a1'', ''zz''] sample_guest_db = Inr (res, db') \<and>
     set (es_erased res) = {''a1'', ''a4''}"
proof -
  have quiet: "er_others sample_erase_env k s = s" for k s by (simp add: sample_erase_env_def)
  have "event_by_id ''e1'' (ad_ops sample_guest_db) \<noteq> None" "conflict_free (attendees (ad_ops sample_guest_db))"
    "\<forall>a \<in> set (attendees (ad_ops sample_guest_db)). attendee_checks a"
    "readable_jobs ''e1'' (ad_jobs sample_guest_db)"
    by code_simp+
  then obtain res db' where r: "erase_attendees sample_erase_env ''e1'' [''a4'', ''a1'', ''zz''] sample_guest_db = Inr (res, db')"
    "set (es_erased res) = {i \<in> set [''a4'', ''a1'', ''zz'']. \<exists>a \<in> set (attendees (ad_ops sample_guest_db)).
       att_id a = i \<and> att_event_id a = ''e1'' \<and> att_erased_at a = None}"
    using erasure_cannot_be_refused [of "''e1''" sample_erase_env sample_guest_db "[''a4'', ''a1'', ''zz'']"]
    by (auto simp: quiet locked_state_def)
  have "{i \<in> set [''a4'', ''a1'', ''zz'']. \<exists>a \<in> set (attendees (ad_ops sample_guest_db)).
       att_id a = i \<and> att_event_id a = ''e1'' \<and> att_erased_at a = None} = {''a1'', ''a4''}"
    by (auto simp: sample_guest_db_def sample_guest_def sample_db_def)
  with r show ?thesis by metis
qed

section \<open>The numbers stay\<close>

text \<open>What reports count of an attendee, a check-in and a delivery; and what may become of their other columns.\<close>

definition counted_attendee :: "attendee \<Rightarrow> string \<times> string \<times> string option \<times> string \<times> bool" where
  "counted_attendee a = (att_id a, att_event_id a, att_ticket_type a, att_rsvp_status a, att_admitted_at a \<noteq> None)"

definition counted_check_in :: "check_in \<Rightarrow> string \<times> string \<times> check_in_status \<times> string option \<times> string option" where
  "counted_check_in c = (ci_id c, ci_attendee_id c, ci_status c, ci_source c, ci_device_id c)"

definition status_kept :: "attendee \<Rightarrow> attendee \<Rightarrow> bool" where
  "status_kept a b \<longleftrightarrow> att_status b = att_status a \<or>
     (att_status b = Cancelled \<and> att_admitted_at a = None \<and> att_status a \<in> {Registered, Confirmed})"

definition hour_kept :: "check_in \<Rightarrow> check_in \<Rightarrow> bool" where
  "hour_kept c d \<longleftrightarrow> ci_checked_in_at d \<le> ci_checked_in_at c \<and> ci_checked_in_at c < ci_checked_in_at d + 3600000"

definition mail_status_kept :: "mail_delivery \<Rightarrow> mail_delivery \<Rightarrow> bool" where
  "mail_status_kept d e \<longleftrightarrow> md_id e = md_id d \<and>
     (md_status e = md_status d \<and> md_retryable e = md_retryable d \<or> mail_waits d \<and> md_status e = ''cancelled'')"

lemma list_all2_update:
  assumes "\<And>x. r x x" "\<And>x. hit x \<Longrightarrow> r x (f x)"
  shows "list_all2 r xs (update_where hit f xs)"
  using assms by (induction xs) (auto simp: update_where_def)

lemma truncated_bounds:
  "truncated_to_local_hour env zone t \<le> t \<and> t < truncated_to_local_hour env zone t + 3600000"
proof -
  have "0 \<le> er_local env zone t mod 3600000" "er_local env zone t mod 3600000 < 3600000" by simp_all
  then show ?thesis unfolding truncated_to_local_hour_def by linarith
qed

lemma counts_for_capacity_erased:
  "counts_for_capacity eid (erased_row env zone archived a) \<Longrightarrow> counts_for_capacity eid a"
  by (auto simp: counts_for_capacity_def erased_row_def capacity_excluded_statuses_def split: if_splits)

lemma count_where_update_le:
  assumes "\<And>x. hit x \<Longrightarrow> p (f x) \<Longrightarrow> p x"
  shows "count_where p (update_where hit f xs) \<le> count_where p xs"
  using assms by (induction xs) (auto simp: update_where_def count_where_def)

lemma mail_status_trans: "mail_status_kept d e \<Longrightarrow> mail_status_kept e f \<Longrightarrow> mail_status_kept d f"
  by (auto simp: mail_status_kept_def mail_waits_def)

lemma all_mail_status_trans:
  "list_all2 mail_status_kept ds es \<Longrightarrow> list_all2 mail_status_kept es fs \<Longrightarrow> list_all2 mail_status_kept ds fs"
  by (erule (1) list_all2_trans [rotated]) (rule mail_status_trans)

lemma mail_status_steps:
  "mail_status_kept d d" "mail_status_kept d (emptied_mail (cancelled_mail d))" "mail_status_kept d (scrubbed_copy d)"
  by (simp_all add: mail_status_kept_def emptied_mail_def scrubbed_copy_def cancelled_mail_def)

lemma mail_scrubbed_kept:
  "list_all2 mail_status_kept (mail_deliveries db) (mail_deliveries (mail_scrubbed eid ids emails db))"
  by (simp add: mail_scrubbed_def list_all2_update mail_status_steps list_all2_refl)

lemma mail_scrubbed_same:
  "attendees (mail_scrubbed eid ids emails db) = attendees db" "check_ins (mail_scrubbed eid ids emails db) = check_ins db"
  by (simp_all add: mail_scrubbed_def)

lemma scrub_alone:
  assumes "scrub_attendee_traces env eid ids emails s = Inr (r, t)" "ids \<noteq> []"
    and alone: "\<And>k s. 3 \<le> k \<Longrightarrow> er_others env k s = s"
  shows "ad_ops t = mail_scrubbed eid ids emails (ad_ops s)"
proof -
  from assms(1,2) obtain n u v where u: "stop_open_attendee_jobs (\<lambda>k. er_others env (3 + k)) (er_clock env) eid s = Inr (n, u)"
    and v: "invalidate_event_exports eid u = Inr ((), v)"
    and t: "ad_ops t = mail_scrubbed eid ids emails (ad_ops v)"
    by (rule scrub_traces_steps) simp
  have "jobs_only s u" using stop_open_jobs_effect [OF u] by (simp add: alone)
  moreover have "jobs_only u v" using tx_allD [OF invalidate_only v] .
  ultimately show ?thesis by (simp add: t jobs_only_def)
qed

lemma nobody_left_to_erase:
  assumes "live_requested eid ids s = []" "\<And>k u. er_others env k u = u"
  shows "\<exists>already missing. erase_attendees env eid ids s = Inr (nothing_erased already missing, s)"
  using assms
  by (cases "ids = []"; cases "event_by_id eid (ad_ops s)")
    (auto simp: erase_attendees_def lock_open_attendee_jobs_def tx_simps Let_def live_requested_def)

text \<open>C21: An erasure changes no number. When nobody interferes after the locks: every attendee keeps id, event,
  ticket type, RSVP and whether they were admitted; a status changes only from registered or confirmed to cancelled, for
  somebody who was not admitted, so the capacity in use never grows; the check-ins are the same ones, with the same outcome, door and device and
  a time at most an hour earlier; every delivery keeps its status unless it was still waiting and is cancelled;
  nobody else's row is touched; and erasing the same people again changes nothing at all.\<close>

theorem erasure_keeps_the_numbers:
  assumes run: "erase_attendees env eid ids db = Inr (res, db')" and some: "es_erased res \<noteq> []"
    and alone: "\<And>k s. 3 \<le> k \<Longrightarrow> er_others env k s = s"
  defines "s \<equiv> ad_ops (locked_state env db)" and "t \<equiv> ad_ops db'"
  shows "map counted_attendee (attendees t) = map counted_attendee (attendees s) \<and>
    list_all2 status_kept (attendees s) (attendees t) \<and> capacity_use eid t \<le> capacity_use eid s \<and>
    (\<forall>a \<in> set (attendees s). att_event_id a \<noteq> eid \<or> att_id a \<notin> set (es_erased res) \<longrightarrow> a \<in> set (attendees t)) \<and>
    map counted_check_in (check_ins t) = map counted_check_in (check_ins s) \<and>
    list_all2 hour_kept (check_ins s) (check_ins t) \<and>
    list_all2 mail_status_kept (mail_deliveries s) (mail_deliveries t) \<and>
    (\<forall>env'. (\<forall>k u. er_others env' k u = u) \<longrightarrow>
       (\<exists>already missing. erase_attendees env' eid ids db' = Inr (nothing_erased already missing, db')))"
  using run
proof (cases rule: erase_attendees_cases)
  case nobody
  with some show ?thesis by (simp add: nothing_erased_def)
next
  case (found e already not_found)
  let ?zone = "resolve_preview_event_time_zone env (ev_timezone e)" and ?archived = "ev_archived_at e \<noteq> None"
  let ?s = "locked_state env db"
  define live where "live = live_ids eid (live_requested eid ids ?s) ?s"
  let ?u = "erased_tables env eid ?zone ?archived live ?s"
  note eff = erase_found_Inr [OF found(2), folded live_def]
  have res: "es_erased res = live" using eff by blast
  have t: "t = mail_scrubbed eid live (es_previous_emails res) (ad_ops ?u)"
    unfolding t_def using eff some res alone by (intro scrub_alone) auto
  have people: "attendees t = update_where (is_live_in eid live) (erased_row env ?zone ?archived) (attendees s)"
    by (simp add: t mail_scrubbed_same erased_tables_def s_def)
  have check_ins: "check_ins t = update_where (\<lambda>c. ci_event_id c = eid \<and> ci_attendee_id c \<in> set live)
      (\<lambda>c. c\<lparr>ci_notes := None, ci_checked_in_at := truncated_to_local_hour env ?zone (ci_checked_in_at c)\<rparr>) (check_ins s)"
    by (simp add: t mail_scrubbed_same erased_tables_def s_def)
  have "map counted_attendee (attendees t) = map counted_attendee (attendees s)"
    unfolding people by (rule map_update_where) (simp add: counted_attendee_def)
  moreover have "list_all2 status_kept (attendees s) (attendees t)"
    unfolding people by (rule list_all2_update) (auto simp: status_kept_def erased_row_def)
  moreover have "capacity_use eid t \<le> capacity_use eid s"
    unfolding capacity_use_def people by (rule count_where_update_le) (rule counts_for_capacity_erased)
  moreover have "a \<in> set (attendees t)" if "a \<in> set (attendees s)" "att_event_id a \<noteq> eid \<or> att_id a \<notin> set live" for a
    using that unfolding people set_update_where is_live_in_def by blast
  moreover have "map counted_check_in (check_ins t) = map counted_check_in (check_ins s)"
    unfolding check_ins by (rule map_update_where) (simp add: counted_check_in_def)
  moreover have "list_all2 hour_kept (check_ins s) (check_ins t)"
    unfolding check_ins by (rule list_all2_update) (simp_all add: hour_kept_def truncated_bounds)
  moreover have "list_all2 mail_status_kept (mail_deliveries s) (mail_deliveries t)"
  proof -
    have "list_all2 mail_status_kept (mail_deliveries s) (mail_deliveries (ad_ops ?u))"
      by (simp add: erased_tables_def s_def list_all2_update mail_status_steps)
    then show ?thesis unfolding t by (rule all_mail_status_trans) (rule mail_scrubbed_kept)
  qed
  moreover have "\<exists>already missing. erase_attendees env' eid ids db' = Inr (nothing_erased already missing, db')"
    if "\<forall>k u. er_others env' k u = u" for env'
  proof (rule nobody_left_to_erase)
    have live: "set live = att_id ` set (live_requested eid ids ?s)" unfolding live_def by (rule live_ids_requested)
    have "\<not> (a \<in> set (attendees t) \<and> att_event_id a = eid \<and> att_id a \<in> set ids \<and> att_erased_at a = None)" for a
    proof
      assume a: "a \<in> set (attendees t) \<and> att_event_id a = eid \<and> att_id a \<in> set ids \<and> att_erased_at a = None"
      then have "a \<in> set (attendees s)" "\<not> is_live_in eid live a"
        unfolding people set_update_where by auto
      moreover from this(1) a have "att_id a \<in> set live"
        unfolding live live_requested_def requested_rows_def s_def by auto
      ultimately show False using a by (simp add: is_live_in_def)
    qed
    then show "live_requested eid ids db' = []"
      by (simp add: live_requested_def requested_rows_def filter_empty_conv t_def)
    show "er_others env' k u = u" for k u using that by blast
  qed
  ultimately show ?thesis unfolding res by blast
qed

theorem erasure_keeps_the_numbers_witness:
  "\<exists>res db'. erase_attendees sample_erase_env ''e1'' [''a1'', ''zz''] sample_guest_db = Inr (res, db') \<and>
     capacity_use ''e1'' (ad_ops db') \<le> capacity_use ''e1'' (ad_ops sample_guest_db) \<and>
     (\<exists>already missing. erase_attendees sample_erase_env ''e1'' [''a1'', ''zz''] db' = Inr (nothing_erased already missing, db'))"
proof -
  obtain res db' where run: "erase_attendees sample_erase_env ''e1'' [''a1'', ''zz''] sample_guest_db = Inr (res, db')"
    and res: "es_erased res = [''a1'']"
    using sample_erasure by (auto split: sum.splits prod.splits)
  have quiet: "er_others sample_erase_env k s = s" for k s by (simp add: sample_erase_env_def)
  have "es_erased res \<noteq> []" using res by simp
  from erasure_keeps_the_numbers [OF run this quiet] run quiet show ?thesis
    by (auto simp: locked_state_def)
qed

end
