(* ===== verification/Erase_Results.thy ===== *)
theory Erase_Results
  imports Erase_Numbers
begin

text \<open>
  Saved import results and the record of an erasure: \<open>packages/tickets/src/erase-job-results.ts\<close>,
  \<open>admin-audit.ts\<close>, and the transaction of the erase route (\<open>recordErasure\<close>, \<open>runErasure\<close> of
  \<open>apps/web/src/admin/attendee-erase-routes.ts\<close>). Letters and digits are those of Latin-1. The order
  of the keys of an object is the order it is stored in; numbers are integers.
\<close>

section \<open>Addresses in a text\<close>

definition word_character :: "char \<Rightarrow> bool" where
  "word_character c \<longleftrightarrow> (let n = of_char c :: nat in
     (48 \<le> n \<and> n \<le> 57) \<or> (65 \<le> n \<and> n \<le> 90) \<or> (97 \<le> n \<and> n \<le> 122) \<or>
     n \<in> {170, 178, 179, 181, 185, 186, 188, 189, 190} \<or> (192 \<le> n \<and> n \<noteq> 215 \<and> n \<noteq> 247))"

definition local_part_character :: "char \<Rightarrow> bool" where
  "local_part_character c \<longleftrightarrow> word_character c \<or> c \<in> set ''!#$%&*+/=?^_{|}~.-'' \<or> c = CHR 0x27 \<or> c = CHR 0x60"

definition quote_character :: "char \<Rightarrow> bool" where
  "quote_character c \<longleftrightarrow> c = CHR 0x27 \<or> c = CHR 0x60"

text \<open>\<open>charAt\<close>: the empty string outside of the text, which no class matches.\<close>

definition char_at :: "string \<Rightarrow> nat \<Rightarrow> char option" where
  "char_at s i = (if i < length s then Some (s ! i) else None)"

definition matches_class :: "(char \<Rightarrow> bool) \<Rightarrow> char option \<Rightarrow> bool" where
  "matches_class p c = (case c of None \<Rightarrow> False | Some x \<Rightarrow> p x)"

definition char_before :: "string \<Rightarrow> nat \<Rightarrow> nat \<Rightarrow> char option" where
  "char_before s i k = (if k \<le> i then char_at s (i - k) else None)"

definition local_part_continues_before :: "string \<Rightarrow> nat \<Rightarrow> bool" where
  "local_part_continues_before s i \<longleftrightarrow>
     matches_class local_part_character (char_before s i 1) \<and>
     \<not> (matches_class quote_character (char_before s i 1) \<and>
        \<not> matches_class local_part_character (char_before s i 2))"

definition domain_continues_after :: "string \<Rightarrow> nat \<Rightarrow> bool" where
  "domain_continues_after s i \<longleftrightarrow>
     matches_class word_character (char_at s i) \<or>
     (char_at s i \<in> {Some CHR ''.'', Some CHR ''-''} \<and> matches_class word_character (char_at s (i + 1)))"

definition index_of :: "string \<Rightarrow> string \<Rightarrow> nat \<Rightarrow> nat option" where
  "index_of s sub from = List.find (\<lambda>i. starts_with sub (drop i s)) [from..<Suc (length s)]"

lemma index_of_Some:
  "index_of s sub from = Some i \<Longrightarrow> from \<le> i \<and> i \<le> length s \<and> starts_with sub (drop i s)"
  unfolding index_of_def by (drule find_set) auto

text \<open>The loop of \<open>containsAddress\<close>; the callers never ask for the empty address.\<close>

function contains_from :: "string \<Rightarrow> string \<Rightarrow> nat \<Rightarrow> bool" where
  "contains_from s email from =
     (case index_of s email from of
        None \<Rightarrow> False
      | Some i \<Rightarrow>
          if \<not> local_part_continues_before s i \<and> \<not> domain_continues_after s (i + length email) then True
          else contains_from s email (Suc i))"
  by pat_completeness auto
termination
  by (relation "measure (\<lambda>(s, _, from). Suc (length s) - from)") (auto dest!: index_of_Some)

declare contains_from.simps [simp del]

definition contains_address :: "string \<Rightarrow> string \<Rightarrow> bool" where
  "contains_address s email = contains_from s email 0"

section \<open>\<open>JSON.stringify\<close>\<close>

fun nat_digits :: "nat \<Rightarrow> string" where
  "nat_digits n = (if n < 10 then [char_of (48 + n)] else nat_digits (n div 10) @ [char_of (48 + n mod 10)])"

declare nat_digits.simps [simp del]

definition decimal :: "int \<Rightarrow> string" where
  "decimal k = (if k < 0 then CHR ''-'' # nat_digits (nat (- k)) else nat_digits (nat k))"

definition hex_digit :: "nat \<Rightarrow> char" where
  "hex_digit n = char_of (if n < 10 then 48 + n else 87 + n)"

definition json_char :: "char \<Rightarrow> string" where
  "json_char c = (let n = of_char c :: nat in
     if n = 34 \<or> n = 92 then [CHR 0x5C, c]
     else if n = 8 then [CHR 0x5C, CHR ''b''] else if n = 9 then [CHR 0x5C, CHR ''t'']
     else if n = 10 then [CHR 0x5C, CHR ''n''] else if n = 12 then [CHR 0x5C, CHR ''f'']
     else if n = 13 then [CHR 0x5C, CHR ''r'']
     else if n < 32 then [CHR 0x5C, CHR ''u'', CHR ''0'', CHR ''0'', hex_digit (n div 16), hex_digit (n mod 16)]
     else [c])"

definition json_quoted :: "string \<Rightarrow> string" where
  "json_quoted s = CHR 0x22 # concat (map json_char s) @ [CHR 0x22]"

fun stringify :: "json \<Rightarrow> string" where
  "stringify JNull = ''null''"
| "stringify (JBool b) = (if b then ''true'' else ''false'')"
| "stringify (JNum n) = decimal n"
| "stringify (JStr s) = json_quoted s"
| "stringify (JArr xs) = ''['' @ join_with '','' (map stringify xs) @ '']''"
| "stringify (JObj kvs) = ''{'' @ join_with '','' (map (\<lambda>(k, v). json_quoted k @ '':'' @ stringify v) kvs) @ ''}''"

section \<open>Scrubbing the results of imports\<close>

definition removed_reason :: string where
  "removed_reason = ''Entry removed: the person'' @ [CHR 0x27] @ ''s data was erased''"

definition mentions_any :: "json \<Rightarrow> string list \<Rightarrow> bool" where
  "mentions_any value emails \<longleftrightarrow> (\<exists>e \<in> set emails. contains_address (js_lower (stringify value)) e)"

definition scrubbed_skip :: "string list \<Rightarrow> json \<Rightarrow> json" where
  "scrubbed_skip emails entry =
     (if mentions_any entry emails then JObj [(''email'', JNull), (''reason'', JStr removed_reason)] else entry)"

definition scrubbed_invalid :: "string list \<Rightarrow> json \<Rightarrow> json" where
  "scrubbed_invalid emails entry =
     (if mentions_any entry emails
      then JObj [(''rowIndex'', case prop_of entry ''rowIndex'' of None \<Rightarrow> JNull | Some v \<Rightarrow> v),
                 (''raw'', JNull), (''reason'', JStr removed_reason)]
      else entry)"

text \<open>The property \<open>key\<close> of the result, if it is an array, with \<open>f\<close> on every entry; and whether an entry changes.\<close>

definition mapped_entries :: "(json \<Rightarrow> json) \<Rightarrow> string \<Rightarrow> (string \<times> json) list \<Rightarrow> (string \<times> json) list" where
  "mapped_entries f key kvs =
     map (\<lambda>(k, v). (k, if k = key then (case v of JArr xs \<Rightarrow> JArr (map f xs) | _ \<Rightarrow> v) else v)) kvs"

definition entries_mention :: "string list \<Rightarrow> string \<Rightarrow> (string \<times> json) list \<Rightarrow> bool" where
  "entries_mention emails key kvs =
     (case map_of kvs key of Some (JArr xs) \<Rightarrow> \<exists>x \<in> set xs. mentions_any x emails | _ \<Rightarrow> False)"

definition scrubbed_result :: "string list \<Rightarrow> json \<Rightarrow> json option" where
  "scrubbed_result emails result =
     (case result of
        JObj kvs \<Rightarrow>
          if entries_mention emails ''skipped'' kvs \<or> entries_mention emails ''invalidRows'' kvs
          then Some (JObj (mapped_entries (scrubbed_invalid emails) ''invalidRows''
                 (mapped_entries (scrubbed_skip emails) ''skipped'' kvs)))
          else None
      | _ \<Rightarrow> None)"

text \<open>
  The jobs are locked in id order (others may commit while they are awaited), then read; each rewrite
  is one update by primary key.
\<close>

definition import_results :: "string \<Rightarrow> admin_db \<Rightarrow> admin_job list" where
  "import_results eid db = sort_key aj_id (filter (\<lambda>j. aj_event_id j = Some eid \<and> aj_type j = ''import_commit'' \<and>
     aj_result_json j \<noteq> JNull) (ad_jobs db))"

definition scrub_import_job_results ::
  "erase_env \<Rightarrow> string \<Rightarrow> string list \<Rightarrow> (admin_db, job_error, nat) tx" where
  "scrub_import_job_results env eid emails =
     (let needles = unique_in_order (filter (\<lambda>e. e \<noteq> []) (map normalized_address emails))
      in if needles = [] then tx_return 0
         else tx_bind (interfere (er_others env 5)) (\<lambda>_.
              tx_bind (tx_read (import_results eid)) (\<lambda>jobs.
                let rewrites = concat (map (\<lambda>j. case scrubbed_result needles (aj_result_json j) of
                      None \<Rightarrow> [] | Some r \<Rightarrow> [(aj_id j, r)]) jobs)
                in tx_bind (tx_write (\<lambda>db. snd (update_jobs (\<lambda>j. map_of rewrites (aj_id j) \<noteq> None)
                     (\<lambda>j. j\<lparr>aj_result_json := the (map_of rewrites (aj_id j))\<rparr>) db)))
                   (\<lambda>_. tx_return (length rewrites)))))"

section \<open>Recording an erasure\<close>

record admin_audit_input =
  ai_organization_id :: "string option"
  ai_actor_user_id :: string
  ai_session_id :: "string option"
  ai_ip :: "string option"
  ai_action_type :: string
  ai_metadata :: "json option"
  ai_timezone :: "string option"
  ai_actor_email :: "string option"
  ai_actor_display_name :: "string option"

definition resolve_actor_identity_snapshot ::
  "admin_audit_input \<Rightarrow> admin_db \<Rightarrow> (string \<times> string option) option" where
  "resolve_actor_identity_snapshot input db =
     (case List.find (\<lambda>u. us_id u = ai_actor_user_id input) (users (ad_ops db)) of
        Some u \<Rightarrow> Some (us_email u, us_display_name u)
      | None \<Rightarrow> if truthy (ai_actor_email input)
                then Some (the (ai_actor_email input), ai_actor_display_name input) else None)"

definition write_admin_audit_log :: "admin_audit_input \<Rightarrow> (admin_db, job_error, unit) tx" where
  "write_admin_audit_log input =
     tx_bind (tx_read (resolve_actor_identity_snapshot input)) (\<lambda>snapshot.
       tx_write (\<lambda>db. db\<lparr>ad_audit := ad_audit db @
         [\<lparr>aa_organization_id = ai_organization_id input, aa_actor_user_id = ai_actor_user_id input,
           aa_actor_email = map_option fst snapshot, aa_actor_display_name = Option.bind snapshot snd,
           aa_action_type = ai_action_type input, aa_session_id = ai_session_id input, aa_ip = ai_ip input,
           aa_metadata = (case ai_metadata input of None \<Rightarrow> JNull | Some m \<Rightarrow> m),
           aa_actor_timezone = ai_timezone input\<rparr>]\<rparr>))"

definition counts_json :: "erase_counts \<Rightarrow> json" where
  "counts_json c = JObj [(''notes'', JNum (int (ec_notes c))), (''actionLogs'', JNum (int (ec_action_logs c))),
     (''emailDeliveries'', JNum (int (ec_email_deliveries c))), (''checkIns'', JNum (int (ec_check_ins c))),
     (''walletPasses'', JNum (int (ec_wallet_passes c)))]"

definition erasure_metadata :: "bool \<Rightarrow> string list \<Rightarrow> (string \<times> json) list" where
  "erasure_metadata single erased =
     (if single then [(''attendee_id'', JStr (hd erased)), (''method'', JStr ''erase'')]
      else [(''attendee_ids'', JArr (map JStr erased)), (''count'', JNum (int (length erased))), (''method'', JStr ''erase'')])"

definition record_erasure ::
  "erase_env \<Rightarrow> string \<Rightarrow> string \<Rightarrow> string \<Rightarrow> audit_ctx \<Rightarrow> string \<Rightarrow> bool \<Rightarrow> erase_result \<Rightarrow> (admin_db, job_error, unit) tx" where
  "record_erasure env eid organization title audit user single erased =
     (let action = (if single then ''attendee_erased'' else ''attendees_bulk_erased'');
          meta = erasure_metadata single (es_erased erased)
      in tx_bind (scrub_import_job_results env eid (es_previous_emails erased)) (\<lambda>_.
         tx_bind (in_ops (write_bulk_action_log eid action audit
           (Some (JObj (meta @ [(''removed'', counts_json (es_counts erased))]))))) (\<lambda>_.
         write_admin_audit_log
           \<lparr>ai_organization_id = Some organization,
            ai_actor_user_id = (case au_operator audit of None \<Rightarrow> user | Some u \<Rightarrow> u),
            ai_session_id = au_session_id audit, ai_ip = au_ip audit, ai_action_type = action,
            ai_metadata = Some (JObj ([(''event_id'', JStr eid), (''event_title'', JStr title)] @ meta)),
            ai_timezone = au_timezone audit, ai_actor_email = None, ai_actor_display_name = None\<rparr>)))"

text \<open>The transaction of the route.\<close>

definition run_erasure ::
  "erase_env \<Rightarrow> string \<Rightarrow> string \<Rightarrow> string \<Rightarrow> audit_ctx \<Rightarrow> string \<Rightarrow> bool \<Rightarrow> string list \<Rightarrow> (admin_db, job_error, erase_result) tx" where
  "run_erasure env eid organization title audit user single ids =
     tx_bind (erase_attendees env eid ids) (\<lambda>erased.
       if es_erased erased = [] then tx_return erased
       else tx_bind (record_erasure env eid organization title audit user single erased) (\<lambda>_. tx_return erased))"

end
