(* ===== verification/Remove_Attendees.thy ===== *)
theory Remove_Attendees
  imports Erase_Results
begin

text \<open>
  Removing attendees for good: \<open>packages/tickets/src/remove-attendees.ts\<close>, the question which wallet
  pass is still to delete (\<open>passIsStillToDelete\<close>, \<open>reservedPassId\<close> of \<open>erase-wallet-passes.ts\<close>,
  \<open>walletUserProvidedId\<close> of \<open>wallet-pass-input.ts\<close>), and the transaction of the removal route
  (\<open>runRemoval\<close> of \<open>apps/web/src/admin/attendee-remove-routes.ts\<close>). The waits and the values from
  outside are those of an erasure. Deleting an attendee is refused by the database while a check-in,
  a delivery or a pass still names it, and takes notes, activity log and item states along.
\<close>

section \<open>Which passes are still to delete\<close>

definition wallet_user_provided_id :: "string \<Rightarrow> string \<Rightarrow> string" where
  "wallet_user_provided_id eid aid = ''admitto:'' @ eid @ '':'' @ aid"

definition reserved_pass_id :: "string \<Rightarrow> wallet_pass \<Rightarrow> string" where
  "reserved_pass_id eid w = (case wp_user_provided_id w of Some i \<Rightarrow> i | None \<Rightarrow> wallet_user_provided_id eid (wp_attendee_id w))"

definition pass_is_still_to_delete :: "wallet_pass \<Rightarrow> bool" where
  "pass_is_still_to_delete w \<longleftrightarrow>
     (if wp_left_behind_pass_id w \<noteq> None then True
      else if wp_provider_removed_at w \<noteq> None then False
      else wp_provider_pass_id w \<noteq> None \<or> wp_user_provided_id w \<noteq> None \<or> wp_status w = ''failed'')"

definition untracked_wallet_targets :: "string \<Rightarrow> wallet_pass list \<Rightarrow> (string \<times> string) list" where
  "untracked_wallet_targets eid passes = concat (map (\<lambda>w.
     if wp_provider_pass_id w = None \<and> pass_is_still_to_delete w
     then [(wp_attendee_id w, reserved_pass_id eid w)] else []) passes)"

section \<open>Deleting the rows\<close>

record remove_counts =
  rc_email_deliveries :: nat
  rc_wallet_passes :: nat
  rc_check_ins :: nat

record remove_result =
  rm_removed :: "string list"
  rm_not_found :: "string list"
  rm_counts :: remove_counts
  rm_wallet_targets :: "(string \<times> string) list"
  rm_untracked_wallet_targets :: "(string \<times> string) list"
  rm_previous_emails :: "string list"
  rm_job_ids_with_files :: "string list"

definition nothing_removed :: "string list \<Rightarrow> remove_result" where
  "nothing_removed requested =
     \<lparr>rm_removed = [], rm_not_found = requested,
      rm_counts = \<lparr>rc_email_deliveries = 0, rc_wallet_passes = 0, rc_check_ins = 0\<rparr>,
      rm_wallet_targets = [], rm_untracked_wallet_targets = [], rm_previous_emails = [], rm_job_ids_with_files = []\<rparr>"

definition delete_mail :: "string \<Rightarrow> string list \<Rightarrow> nat ops_tx" where
  "delete_mail eid ids db = Inr (count_where (mail_of eid ids) (mail_deliveries db),
     db\<lparr>mail_deliveries := filter (\<lambda>d. \<not> mail_of eid ids d) (mail_deliveries db)\<rparr>)"

definition delete_passes :: "string list \<Rightarrow> (admin_db, job_error, wallet_pass list) tx" where
  "delete_passes ids db = Inr (filter (\<lambda>w. wp_attendee_id w \<in> set ids) (ad_passes db),
     db\<lparr>ad_passes := filter (\<lambda>w. wp_attendee_id w \<notin> set ids) (ad_passes db)\<rparr>)"

definition check_in_of :: "string \<Rightarrow> string list \<Rightarrow> check_in \<Rightarrow> bool" where
  "check_in_of eid ids c \<longleftrightarrow> ci_event_id c = eid \<and> ci_attendee_id c \<in> set ids"

definition delete_check_ins :: "string \<Rightarrow> string list \<Rightarrow> nat ops_tx" where
  "delete_check_ins eid ids db = Inr (count_where (check_in_of eid ids) (check_ins db),
     db\<lparr>check_ins := filter (\<lambda>c. \<not> check_in_of eid ids c) (check_ins db)\<rparr>)"

text \<open>The foreign keys without a cascade: a check-in refers to the attendee and its event.\<close>

definition still_referenced :: "admin_db \<Rightarrow> attendee \<Rightarrow> bool" where
  "still_referenced db a \<longleftrightarrow>
     (\<exists>d \<in> set (mail_deliveries (ad_ops db)). md_attendee_id d = att_id a) \<or>
     (\<exists>w \<in> set (ad_passes db). wp_attendee_id w = att_id a) \<or>
     (\<exists>c \<in> set (check_ins (ad_ops db)). ci_attendee_id c = att_id a \<and> ci_event_id c = att_event_id a)"

text \<open>The rows that go by cascade with the attendees \<open>gone\<close>.\<close>

definition cascaded :: "string list \<Rightarrow> ops_db \<Rightarrow> ops_db" where
  "cascaded gone db = db\<lparr>
     attendee_notes := filter (\<lambda>n. nt_attendee_id n \<notin> set gone) (attendee_notes db),
     action_logs := filter (\<lambda>l. lg_attendee_id l \<notin> Some ` set gone) (action_logs db),
     item_states := filter (\<lambda>s. is_attendee_id s \<notin> set gone) (item_states db)\<rparr>"

definition attendee_of :: "string \<Rightarrow> string list \<Rightarrow> attendee \<Rightarrow> bool" where
  "attendee_of eid ids a \<longleftrightarrow> att_id a \<in> set ids \<and> att_event_id a = eid"

definition delete_attendees :: "string \<Rightarrow> string list \<Rightarrow> (admin_db, job_error, string list) tx" where
  "delete_attendees eid ids db =
     (let gone = map att_id (filter (attendee_of eid ids) (attendees (ad_ops db)))
      in if \<exists>a \<in> set (attendees (ad_ops db)). attendee_of eid ids a \<and> still_referenced db a
         then Inl (Job_db Foreign_key_violation)
         else Inr (gone, db\<lparr>ad_ops := cascaded gone
           ((ad_ops db)\<lparr>attendees := filter (\<lambda>a. \<not> attendee_of eid ids a) (attendees (ad_ops db))\<rparr>)\<rparr>))"

section \<open>The removal\<close>

definition remove_found ::
  "erase_env \<Rightarrow> string \<Rightarrow> string list \<Rightarrow> attendee list \<Rightarrow> (admin_db, job_error, remove_result) tx" where
  "remove_found env eid requested found =
     (let ids = map att_id found
      in tx_bind (tx_read (\<lambda>db. collect_attendee_addresses eid
             (filter (\<lambda>a. att_erased_at a = None) found) (ad_ops db))) (\<lambda>previous.
         tx_bind (in_ops (delete_mail eid ids)) (\<lambda>mails.
         tx_bind (delete_passes ids) (\<lambda>passes.
         tx_bind (in_ops (delete_check_ins eid ids)) (\<lambda>check_ins.
         tx_bind (delete_attendees eid ids) (\<lambda>removed.
         tx_bind (scrub_attendee_traces env eid removed previous) (\<lambda>_.
         tx_bind (tx_read (attendee_job_ids_with_files eid)) (\<lambda>job_ids.
           tx_return \<lparr>rm_removed = removed, rm_not_found = filter (\<lambda>i. i \<notin> set removed) requested,
             rm_counts = \<lparr>rc_email_deliveries = mails, rc_wallet_passes = length passes, rc_check_ins = check_ins\<rparr>,
             rm_wallet_targets = wallet_targets passes,
             rm_untracked_wallet_targets = untracked_wallet_targets eid passes,
             rm_previous_emails = previous, rm_job_ids_with_files = job_ids\<rparr>))))))))"

definition remove_attendees ::
  "erase_env \<Rightarrow> string \<Rightarrow> string list \<Rightarrow> (admin_db, job_error, remove_result) tx" where
  "remove_attendees env eid attendee_ids =
     (let requested = unique_in_order attendee_ids
      in if requested = [] then tx_return (nothing_removed requested)
         else tx_bind (lock_open_attendee_jobs (er_others env)) (\<lambda>_.
              tx_bind (interfere (er_others env 2)) (\<lambda>_.
              tx_bind (tx_read (requested_rows eid requested)) (\<lambda>found.
                if found = [] then tx_return (nothing_removed requested)
                else remove_found env eid requested found))))"

section \<open>Recording a removal\<close>

definition removed_counts_json :: "remove_counts \<Rightarrow> json" where
  "removed_counts_json c = JObj [(''emailDeliveries'', JNum (int (rc_email_deliveries c))),
     (''walletPasses'', JNum (int (rc_wallet_passes c))), (''checkIns'', JNum (int (rc_check_ins c)))]"

definition removal_metadata :: "bool \<Rightarrow> string \<Rightarrow> string list \<Rightarrow> (string \<times> json) list" where
  "removal_metadata single reason removed =
     (if single then [(''attendee_id'', JStr (hd removed)), (''method'', JStr ''remove''), (''reason'', JStr reason)]
      else [(''attendee_ids'', JArr (map JStr removed)), (''count'', JNum (int (length removed))),
            (''method'', JStr ''remove''), (''reason'', JStr reason)])"

definition record_removal ::
  "erase_env \<Rightarrow> string \<Rightarrow> string \<Rightarrow> string \<Rightarrow> audit_ctx \<Rightarrow> string \<Rightarrow> string \<Rightarrow> bool \<Rightarrow> remove_result \<Rightarrow>
   (admin_db, job_error, unit) tx" where
  "record_removal env eid organization title audit user reason single removed =
     (let action = (if single then ''attendee_erased'' else ''attendees_bulk_erased'');
          meta = removal_metadata single reason (rm_removed removed)
      in tx_bind (scrub_import_job_results env eid (rm_previous_emails removed)) (\<lambda>_.
         tx_bind (in_ops (write_bulk_action_log eid action audit
           (Some (JObj (meta @ [(''removed'', removed_counts_json (rm_counts removed))]))))) (\<lambda>_.
         write_admin_audit_log
           \<lparr>ai_organization_id = Some organization,
            ai_actor_user_id = (case au_operator audit of None \<Rightarrow> user | Some u \<Rightarrow> u),
            ai_session_id = au_session_id audit, ai_ip = au_ip audit, ai_action_type = action,
            ai_metadata = Some (JObj ([(''event_id'', JStr eid), (''event_title'', JStr title)] @ meta)),
            ai_timezone = au_timezone audit, ai_actor_email = None, ai_actor_display_name = None\<rparr>)))"

definition run_removal ::
  "erase_env \<Rightarrow> string \<Rightarrow> string \<Rightarrow> string \<Rightarrow> audit_ctx \<Rightarrow> string \<Rightarrow> string \<Rightarrow> bool \<Rightarrow> string list \<Rightarrow>
   (admin_db, job_error, remove_result) tx" where
  "run_removal env eid organization title audit user reason single ids =
     tx_bind (remove_attendees env eid ids) (\<lambda>removed.
       if rm_removed removed = [] then tx_return removed
       else tx_bind (record_removal env eid organization title audit user reason single removed)
              (\<lambda>_. tx_return removed))"

end
