(* ===== verification/Erase_Results_Props.thy ===== *)
theory Erase_Results_Props
  imports Erase_Results
begin

text \<open>
  Finding an address in a text, against its definition; what the scrubbing of saved import results
  leaves; and the whole transaction of an erasure.
\<close>

section \<open>The search for an address\<close>

text \<open>What stands before and after an address decides whether it is the whole one.\<close>

definition continues_before :: "string \<Rightarrow> bool" where
  "continues_before pre \<longleftrightarrow>
     (case rev pre of [] \<Rightarrow> False
      | c # r \<Rightarrow> local_part_character c \<and>
          \<not> (quote_character c \<and> (case r of [] \<Rightarrow> True | d # _ \<Rightarrow> \<not> local_part_character d)))"

definition continues_after :: "string \<Rightarrow> bool" where
  "continues_after post \<longleftrightarrow>
     (case post of [] \<Rightarrow> False
      | c # r \<Rightarrow> word_character c \<or>
          (c \<in> {CHR ''.'', CHR ''-''} \<and> (case r of [] \<Rightarrow> False | d # _ \<Rightarrow> word_character d)))"

definition whole_address_in :: "string \<Rightarrow> string \<Rightarrow> bool" where
  "whole_address_in s email \<longleftrightarrow>
     (\<exists>pre post. s = pre @ email @ post \<and> \<not> continues_before pre \<and> \<not> continues_after post)"

lemma local_part_continues_append:
  "local_part_continues_before (pre @ x) (length pre) \<longleftrightarrow> continues_before pre"
proof (cases pre rule: rev_cases)
  case Nil
  then show ?thesis
    by (simp add: local_part_continues_before_def continues_before_def char_before_def matches_class_def)
next
  case (snoc init c)
  then show ?thesis
    by (cases init rule: rev_cases)
      (auto simp: local_part_continues_before_def continues_before_def char_before_def char_at_def
        matches_class_def nth_append)
qed

lemma domain_continues_append:
  "domain_continues_after (pre @ post) (length pre) \<longleftrightarrow> continues_after post"
proof (cases post)
  case Nil
  then show ?thesis
    by (simp add: domain_continues_after_def continues_after_def char_at_def matches_class_def)
next
  case (Cons c r)
  then show ?thesis
    by (cases r) (auto simp: domain_continues_after_def continues_after_def char_at_def matches_class_def nth_append)
qed

lemma index_of_None: "index_of s sub from = None \<longleftrightarrow> (\<forall>i. from \<le> i \<and> i \<le> length s \<longrightarrow> \<not> starts_with sub (drop i s))"
  by (auto simp: index_of_def find_None)

lemma find_upt_first:
  "List.find p [m..<n] = Some i \<Longrightarrow> m \<le> j \<Longrightarrow> j < i \<Longrightarrow> \<not> p j"
proof (induction "n - m" arbitrary: m)
  case (Suc d)
  then have "[m..<n] = m # [Suc m..<n]" by (simp add: upt_conv_Cons)
  moreover from this have "p m \<Longrightarrow> i = m" "\<not> p m \<Longrightarrow> List.find p [Suc m..<n] = Some i"
    using Suc.prems(1) by simp_all
  ultimately show ?case
    using Suc.hyps(1) [of "Suc m"] Suc.hyps(2) Suc.prems(2,3) by (cases "p m"; cases "j = m") auto
qed simp

lemma index_of_first:
  "index_of s sub from = Some i \<Longrightarrow> from \<le> j \<Longrightarrow> j < i \<Longrightarrow> \<not> starts_with sub (drop j s)"
  unfolding index_of_def by (rule find_upt_first)

definition address_at :: "string \<Rightarrow> string \<Rightarrow> nat \<Rightarrow> bool" where
  "address_at s email i \<longleftrightarrow> i \<le> length s \<and> starts_with email (drop i s) \<and>
     \<not> local_part_continues_before s i \<and> \<not> domain_continues_after s (i + length email)"

lemma contains_from_iff: "contains_from s email start \<longleftrightarrow> (\<exists>i \<ge> start. address_at s email i)"
proof (induction s email start rule: contains_from.induct)
  case (1 s email start)
  show ?case
  proof (cases "index_of s email start")
    case None
    then have "\<not> contains_from s email start" by (simp add: contains_from.simps)
    moreover from None have "\<not> (\<exists>i \<ge> start. address_at s email i)"
      by (auto simp: index_of_None address_at_def)
    ultimately show ?thesis by simp
  next
    case (Some i)
    note i = index_of_Some [OF Some] and first = index_of_first [OF Some]
    show ?thesis
    proof (cases "address_at s email i")
      case True
      then show ?thesis using Some i by (subst contains_from.simps) (auto simp: address_at_def)
    next
      case False
      then have "\<not> (\<not> local_part_continues_before s i \<and> \<not> domain_continues_after s (i + length email))"
        using i by (simp add: address_at_def)
      with 1 [OF Some this] Some have "contains_from s email start \<longleftrightarrow> (\<exists>j \<ge> Suc i. address_at s email j)"
        by (subst contains_from.simps) auto
      moreover have "Suc i \<le> j" if "start \<le> j" "address_at s email j" for j
        using that False first [of j] by (cases "j < i"; cases "j = i") (auto simp: address_at_def)
      ultimately show ?thesis using i by (meson Suc_leD le_trans)
    qed
  qed
qed

lemma address_at_iff:
  "address_at s email i \<longleftrightarrow>
   (\<exists>pre post. s = pre @ email @ post \<and> length pre = i \<and> \<not> continues_before pre \<and> \<not> continues_after post)"
proof
  assume at: "address_at s email i"
  then obtain post where "drop i s = email @ post" by (auto simp: address_at_def starts_with_append)
  then have s: "s = take i s @ email @ post" by (metis append_take_drop_id)
  have len: "length (take i s) = i" using at by (simp add: address_at_def)
  have "\<not> continues_before (take i s)"
    using at local_part_continues_append [of "take i s" "email @ post"] s len by (simp add: address_at_def)
  moreover have "\<not> continues_after post"
    using at domain_continues_append [of "take i s @ email" post] s len by (simp add: address_at_def)
  ultimately show "\<exists>pre post. s = pre @ email @ post \<and> length pre = i \<and> \<not> continues_before pre \<and> \<not> continues_after post"
    using s len by blast
next
  assume "\<exists>pre post. s = pre @ email @ post \<and> length pre = i \<and> \<not> continues_before pre \<and> \<not> continues_after post"
  then obtain pre post where s: "s = pre @ email @ post" "length pre = i" "\<not> continues_before pre" "\<not> continues_after post"
    by blast
  then show "address_at s email i"
    using local_part_continues_append [of pre "email @ post"] domain_continues_append [of "pre @ email" post]
    by (auto simp: address_at_def starts_with_append)
qed

lemma contains_address_whole: "contains_address s email \<longleftrightarrow> whole_address_in s email"
  by (auto simp: contains_address_def contains_from_iff address_at_iff whole_address_in_def)

text \<open>The scan for an erased address, with its index arithmetic, finds exactly the whole addresses: the address
  stands somewhere in the text, what is before it is not a part of a longer local part (a quote mark that opens the value does
  not count), and what follows is not a longer domain (a dot or a hyphen counts only with a letter or digit behind it).\<close>

theorem contains_address_spec:
  "contains_address s email \<longleftrightarrow> whole_address_in s email"
  by (rule contains_address_whole)

section \<open>What scrubbing leaves of an import's result\<close>

lemma at_sign_lower: "CHR ''@'' \<in> set (js_lower s) \<longleftrightarrow> CHR ''@'' \<in> set s"
proof -
  have "js_lower_char c = CHR ''@'' \<longleftrightarrow> c = CHR ''@''" for c
  proof (cases "js_lower_char c = c")
    case False
    define n where "n = (of_char c :: nat)"
    have n: "65 \<le> n" "n \<le> 222" "js_lower_char c = char_of (n + 32)"
      using False by (auto simp: js_lower_char_def n_def Let_def split: if_splits)
    then have "of_char (js_lower_char c) = n + 32" by simp
    then have "of_char (js_lower_char c) \<noteq> (of_char CHR ''@'' :: nat)" using n(1) by simp
    moreover have "c \<noteq> CHR ''@''" using n(1) by (auto simp: n_def)
    ultimately show ?thesis by auto
  qed simp
  then have "CHR ''@'' = js_lower_char c \<longleftrightarrow> c = CHR ''@''" for c by metis
  then show ?thesis unfolding js_lower_def set_map image_iff by simp
qed

lemma at_sign_trim: "CHR ''@'' \<in> set (js_trim s) \<longleftrightarrow> CHR ''@'' \<in> set s"
proof -
  have keeps: "CHR ''@'' \<in> set (dropWhile js_space xs) \<longleftrightarrow> CHR ''@'' \<in> set xs" for xs
  proof -
    have "\<not> js_space CHR ''@''" by (simp add: js_space_def)
    then have "CHR ''@'' \<notin> set (takeWhile js_space xs)" using set_takeWhileD by metis
    then show ?thesis by (metis Un_iff set_append takeWhile_dropWhile_id)
  qed
  show ?thesis unfolding js_trim_def trim_start_def trim_end_def by (simp add: keeps)
qed

lemma mention_needs_at:
  assumes "contains_address s e" "CHR ''@'' \<in> set e"
  shows "CHR ''@'' \<in> set s"
  using assms by (auto simp: contains_address_whole whole_address_in_def)

lemma nat_digits_range: "c \<in> set (nat_digits n) \<Longrightarrow> of_char c < (58 :: nat)"
proof (induction n arbitrary: c rule: nat_digits.induct)
  case (1 n)
  show ?case
  proof (cases "n < 10")
    case True
    then show ?thesis using 1(2) by (simp add: nat_digits.simps [of n])
  next
    case False
    then have "c \<in> set (nat_digits (n div 10)) \<or> c = char_of (48 + n mod 10)"
      using 1(2) by (auto simp: nat_digits.simps [of n])
    then show ?thesis using 1(1) [OF False] by auto
  qed
qed

lemma nat_digits_no_at: "CHR ''@'' \<notin> set (nat_digits n)"
proof
  assume "CHR ''@'' \<in> set (nat_digits n)"
  then show False using nat_digits_range [of "CHR ''@''" n] by simp
qed

lemma decimal_no_at: "CHR ''@'' \<notin> set (decimal k)"
  by (simp add: decimal_def nat_digits_no_at)

text \<open>A row index, where there is one, is a number.\<close>

definition numbered :: "json \<Rightarrow> bool" where
  "numbered entry \<longleftrightarrow> (case prop_of entry ''rowIndex'' of None \<Rightarrow> True | Some v \<Rightarrow> v = JNull \<or> (\<exists>n. v = JNum n))"

lemma removed_texts_no_at:
  "CHR ''@'' \<notin> set (stringify (JObj [(''email'', JNull), (''reason'', JStr removed_reason)]))"
  "CHR ''@'' \<notin> set (json_quoted removed_reason)" "CHR ''@'' \<notin> set (json_quoted ''rowIndex'')"
  "CHR ''@'' \<notin> set (json_quoted ''raw'')" "CHR ''@'' \<notin> set (json_quoted ''reason'')"
  by code_simp+

lemma scrubbed_skip_silent:
  assumes "\<forall>e \<in> set emails. CHR ''@'' \<in> set e"
  shows "\<not> mentions_any (scrubbed_skip emails x) emails"
proof (cases "mentions_any x emails")
  case True
  then have x: "scrubbed_skip emails x = JObj [(''email'', JNull), (''reason'', JStr removed_reason)]"
    by (simp add: scrubbed_skip_def)
  show ?thesis unfolding x mentions_any_def
    using mention_needs_at [of "js_lower (stringify (JObj [(''email'', JNull), (''reason'', JStr removed_reason)]))"]
      assms removed_texts_no_at(1) unfolding at_sign_lower by blast
qed (simp add: scrubbed_skip_def)

lemma scrubbed_invalid_silent:
  assumes "\<forall>e \<in> set emails. CHR ''@'' \<in> set e" "numbered x"
  shows "\<not> mentions_any (scrubbed_invalid emails x) emails"
proof (cases "mentions_any x emails")
  case True
  define v where "v = (case prop_of x ''rowIndex'' of None \<Rightarrow> JNull | Some v \<Rightarrow> v)"
  have x: "scrubbed_invalid emails x = JObj [(''rowIndex'', v), (''raw'', JNull), (''reason'', JStr removed_reason)]"
    using True by (simp add: scrubbed_invalid_def v_def)
  have "v = JNull \<or> (\<exists>n. v = JNum n)" using assms(2) by (auto simp: v_def numbered_def split: option.splits)
  then have "CHR ''@'' \<notin> set (stringify v)" using decimal_no_at by auto
  then have "CHR ''@'' \<notin> set (stringify (scrubbed_invalid emails x))"
    unfolding x using removed_texts_no_at by simp
  then show ?thesis
    unfolding mentions_any_def
    using mention_needs_at [of "js_lower (stringify (scrubbed_invalid emails x))"] assms(1)
    unfolding at_sign_lower by blast
qed (simp add: scrubbed_invalid_def)

text \<open>The entries of a result under a key, if they are an array.\<close>

definition entries_of :: "string \<Rightarrow> json \<Rightarrow> json list" where
  "entries_of key result = (case prop_of result key of Some (JArr xs) \<Rightarrow> xs | _ \<Rightarrow> [])"

lemma map_of_mapped:
  "map_of (mapped_entries f key kvs) k = (if k = key
     then map_option (\<lambda>v. case v of JArr xs \<Rightarrow> JArr (map f xs) | _ \<Rightarrow> v) (map_of kvs k) else map_of kvs k)"
  by (induction kvs) (auto simp: mapped_entries_def split: json.split)

text \<open>What the scrubbing makes of the result of one job.\<close>

definition final_result :: "string list \<Rightarrow> json \<Rightarrow> json" where
  "final_result emails result = (case scrubbed_result emails result of None \<Rightarrow> result | Some r \<Rightarrow> r)"

lemma final_entries:
  "entries_of ''skipped'' (final_result emails r) = map (scrubbed_skip emails) (entries_of ''skipped'' r)"
  "entries_of ''invalidRows'' (final_result emails r) = map (scrubbed_invalid emails) (entries_of ''invalidRows'' r)"
  "k \<noteq> ''skipped'' \<Longrightarrow> k \<noteq> ''invalidRows'' \<Longrightarrow> prop_of (final_result emails r) k = prop_of r k"
proof -
  have same: "map (scrubbed_skip emails) xs = xs" "map (scrubbed_invalid emails) xs = xs"
    if "\<forall>x \<in> set xs. \<not> mentions_any x emails" for xs
    using that by (simp_all add: map_idI scrubbed_skip_def scrubbed_invalid_def)
  show "entries_of ''skipped'' (final_result emails r) = map (scrubbed_skip emails) (entries_of ''skipped'' r)"
    by (cases r) (auto simp: final_result_def scrubbed_result_def entries_of_def entries_mention_def map_of_mapped same
        split: option.splits json.splits)
  show "entries_of ''invalidRows'' (final_result emails r) = map (scrubbed_invalid emails) (entries_of ''invalidRows'' r)"
    by (cases r) (auto simp: final_result_def scrubbed_result_def entries_of_def entries_mention_def map_of_mapped same
        split: option.splits json.splits)
  show "k \<noteq> ''skipped'' \<Longrightarrow> k \<noteq> ''invalidRows'' \<Longrightarrow> prop_of (final_result emails r) k = prop_of r k"
    by (cases r) (auto simp: final_result_def scrubbed_result_def map_of_mapped)
qed

lemma map_of_picked:
  assumes "distinct (map k js)" "j \<in> set js"
  shows "map_of (concat (map (\<lambda>j. case f j of None \<Rightarrow> [] | Some r \<Rightarrow> [(k j, r)]) js)) (k j) = f j"
  using assms
proof (induction js)
  case (Cons i js)
  have other: "map_of (concat (map (\<lambda>j. case f j of None \<Rightarrow> [] | Some r \<Rightarrow> [(k j, r)]) js)) (k i) = None"
    using Cons.prems(1) by (auto simp: map_of_eq_None_iff split: option.splits)
  show ?case
  proof (cases "j = i")
    case True
    with other show ?thesis by (simp split: option.split)
  next
    case False
    then have "j \<in> set js" "k j \<noteq> k i" using Cons.prems by (auto simp: image_iff)
    with Cons show ?thesis by (simp split: option.split)
  qed
qed simp

lemma map_of_picked_None:
  assumes "x \<notin> k ` set js"
  shows "map_of (concat (map (\<lambda>j. case f j of None \<Rightarrow> [] | Some r \<Rightarrow> [(k j, r)]) js)) x = None"
  using assms by (auto simp: map_of_eq_None_iff split: option.splits)

definition is_import_of :: "string \<Rightarrow> admin_job \<Rightarrow> bool" where
  "is_import_of eid j \<longleftrightarrow> aj_event_id j = Some eid \<and> aj_type j = ''import_commit''"

lemma import_rewrites:
  fixes emails eid
  assumes "distinct (map aj_id (ad_jobs t))" "j \<in> set (ad_jobs t)"
  defines "rws \<equiv> concat (map (\<lambda>j. case scrubbed_result emails (aj_result_json j) of
    None \<Rightarrow> [] | Some r \<Rightarrow> [(aj_id j, r)]) (import_results eid t))"
  shows "map_of rws (aj_id j) = (if is_import_of eid j then scrubbed_result emails (aj_result_json j) else None)"
proof -
  have "mset (map aj_id (import_results eid t)) =
      mset (map aj_id (filter (\<lambda>j. aj_event_id j = Some eid \<and> aj_type j = ''import_commit'' \<and> aj_result_json j \<noteq> JNull) (ad_jobs t)))"
    by (simp only: import_results_def mset_map mset_sort)
  then have distinct: "distinct (map aj_id (import_results eid t))"
    using mset_eq_imp_distinct_iff distinct_map_filter [OF assms(1)] by blast
  have mem: "i \<in> set (import_results eid t) \<longleftrightarrow> i \<in> set (ad_jobs t) \<and> is_import_of eid i \<and> aj_result_json i \<noteq> JNull" for i
    by (auto simp: import_results_def is_import_of_def)
  show ?thesis
  proof (cases "j \<in> set (import_results eid t)")
    case True
    with map_of_picked [OF distinct True] mem show ?thesis unfolding rws_def by simp
  next
    case False
    have "aj_id j \<notin> aj_id ` set (import_results eid t)"
    proof
      assume "aj_id j \<in> aj_id ` set (import_results eid t)"
      then obtain i where i: "i \<in> set (import_results eid t)" "aj_id i = aj_id j" by auto
      with mem assms(2) have "i = j" using distinct_keyD [OF assms(1)] by blast
      with i False show False by simp
    qed
    then have "map_of rws (aj_id j) = None" unfolding rws_def by (rule map_of_picked_None)
    moreover have "is_import_of eid j \<Longrightarrow> scrubbed_result emails (aj_result_json j) = None"
      using False mem assms(2) by (simp add: scrubbed_result_def)
    ultimately show ?thesis by simp
  qed
qed

text \<open>A saved import result forgets an erased address and nothing else. Once the rows of the jobs are locked,
  exactly the import results of the event change; in them no skipped row and no refused row mentions any of the
  addresses any more, every entry that mentioned none is as it was, no entry appears or disappears, and all other properties
  (the counts among them) are untouched. An address has an at sign, and a row index is a number.\<close>

theorem import_results_forget:
  assumes run: "scrub_import_job_results env eid emails db = Inr (n, db')"
    and at: "\<forall>e \<in> set emails. CHR ''@'' \<in> set e"
    and ids: "distinct (map aj_id (ad_jobs (er_others env 5 db)))"
    and rows: "\<forall>j \<in> set (ad_jobs (er_others env 5 db)). is_import_of eid j \<longrightarrow>
      (\<forall>x \<in> set (entries_of ''invalidRows'' (aj_result_json j)). numbered x)"
    and some: "emails \<noteq> []"
  shows "\<exists>g. ad_jobs db' = map (\<lambda>j. if is_import_of eid j then j\<lparr>aj_result_json := g (aj_result_json j)\<rparr> else j)
      (ad_jobs (er_others env 5 db)) \<and>
    (\<forall>j \<in> set (ad_jobs db'). is_import_of eid j \<longrightarrow>
      (\<forall>x \<in> set (entries_of ''skipped'' (aj_result_json j)) \<union> set (entries_of ''invalidRows'' (aj_result_json j)).
         \<not> mentions_any x (map normalized_address emails))) \<and>
    (\<forall>r. (\<forall>k. k \<notin> {''skipped'', ''invalidRows''} \<longrightarrow> prop_of (g r) k = prop_of r k) \<and>
      (\<forall>k \<in> {''skipped'', ''invalidRows''}. list_all2 (\<lambda>x y. mentions_any x (map normalized_address emails) \<or> y = x)
         (entries_of k r) (entries_of k (g r))))"
proof -
  let ?t = "er_others env 5 db"
  define needles where "needles = unique_in_order (filter (\<lambda>e. e \<noteq> []) (map normalized_address emails))"
  have "CHR ''@'' \<in> set (normalized_address e)" if "e \<in> set emails" for e
    using that at by (simp add: normalized_address_def at_sign_lower at_sign_trim)
  then have all: "\<forall>e \<in> set (map normalized_address emails). CHR ''@'' \<in> set e" by simp
  then have no_empty: "filter (\<lambda>e. e \<noteq> []) (map normalized_address emails) = map normalized_address emails"
    by (intro filter_True) auto
  have set: "set needles = set (map normalized_address emails)"
    unfolding needles_def no_empty by simp
  then have same: "mentions_any x needles \<longleftrightarrow> mentions_any x (map normalized_address emails)" for x
    by (simp add: mentions_any_def)
  have "needles \<noteq> []" using set some by auto
  define rws where "rws = concat (map (\<lambda>j. case scrubbed_result needles (aj_result_json j) of
    None \<Rightarrow> [] | Some r \<Rightarrow> [(aj_id j, r)]) (import_results eid ?t))"
  have db': "ad_jobs db' = update_where (\<lambda>j. map_of rws (aj_id j) \<noteq> None)
      (\<lambda>j. j\<lparr>aj_result_json := the (map_of rws (aj_id j))\<rparr>) (ad_jobs ?t)"
    using run \<open>needles \<noteq> []\<close> unfolding rws_def needles_def
    by (auto simp: scrub_import_job_results_def tx_simps Let_def update_jobs_def)
  have jobs: "ad_jobs db' = map (\<lambda>j. if is_import_of eid j
      then j\<lparr>aj_result_json := final_result needles (aj_result_json j)\<rparr> else j) (ad_jobs ?t)"
    unfolding db' update_where_def
  proof (rule map_cong [OF refl])
    fix j
    assume "j \<in> set (ad_jobs ?t)"
    from import_rewrites [OF ids this, where emails = needles and eid = eid, folded rws_def]
    show "(if map_of rws (aj_id j) \<noteq> None then j\<lparr>aj_result_json := the (map_of rws (aj_id j))\<rparr> else j) =
      (if is_import_of eid j then j\<lparr>aj_result_json := final_result needles (aj_result_json j)\<rparr> else j)"
      by (auto simp: final_result_def split: option.splits)
  qed
  have at_needles: "\<forall>e \<in> set needles. CHR ''@'' \<in> set e" using all set by simp
  have silent: "\<not> mentions_any x needles"
    if j: "j \<in> set (ad_jobs db')" "is_import_of eid j"
      and x: "x \<in> set (entries_of ''skipped'' (aj_result_json j)) \<union> set (entries_of ''invalidRows'' (aj_result_json j))" for j x
  proof -
    obtain i where i: "i \<in> set (ad_jobs ?t)" "is_import_of eid i"
      "aj_result_json j = final_result needles (aj_result_json i)"
      using j unfolding jobs by (auto simp: is_import_of_def split: if_splits)
    then have "\<forall>y \<in> set (entries_of ''invalidRows'' (aj_result_json i)). numbered y" using rows by blast
    with x scrubbed_skip_silent [OF at_needles] scrubbed_invalid_silent [OF at_needles] show ?thesis
      unfolding i(3) final_entries by auto
  qed
  have lists: "list_all2 (\<lambda>x y. mentions_any x (map normalized_address emails) \<or> y = x)
      (entries_of k r) (entries_of k (final_result needles r))" if "k \<in> {''skipped'', ''invalidRows''}" for k r
  proof -
    have "list_all2 (\<lambda>x y. mentions_any x needles \<or> y = x) xs (map (scrubbed_skip needles) xs)"
      "list_all2 (\<lambda>x y. mentions_any x needles \<or> y = x) xs (map (scrubbed_invalid needles) xs)" for xs
      by (simp_all add: list.rel_map scrubbed_skip_def scrubbed_invalid_def list.rel_refl)
    with that show ?thesis unfolding same by (auto simp: final_entries)
  qed
  show ?thesis
  proof (intro exI [of _ "final_result needles"] conjI allI impI ballI)
    show "ad_jobs db' = map (\<lambda>j. if is_import_of eid j
        then j\<lparr>aj_result_json := final_result needles (aj_result_json j)\<rparr> else j) (ad_jobs ?t)" by (rule jobs)
  next
    fix j x
    assume "j \<in> set (ad_jobs db')" "is_import_of eid j"
      "x \<in> set (entries_of ''skipped'' (aj_result_json j)) \<union> set (entries_of ''invalidRows'' (aj_result_json j))"
    then show "\<not> mentions_any x (map normalized_address emails)" using silent same by blast
  next
    fix r k
    assume "k \<notin> {''skipped'', ''invalidRows''}"
    then show "prop_of (final_result needles r) k = prop_of r k" using final_entries(3) by simp
  next
    fix r k
    assume "k \<in> {''skipped'', ''invalidRows''}"
    then show "list_all2 (\<lambda>x y. mentions_any x (map normalized_address emails) \<or> y = x)
      (entries_of k r) (entries_of k (final_result needles r))" by (rule lists)
  qed
qed

definition sample_import_result :: json where
  "sample_import_result = JObj [(''created'', JNum 1),
     (''skipped'', JArr [JObj [(''email'', JStr ''Ada@x.org''), (''reason'', JStr ''Exists'')],
        JObj [(''email'', JStr ''l-ada@x.org''), (''reason'', JStr ''Exists'')]]),
     (''invalidRows'', JArr [JObj [(''rowIndex'', JNum 12), (''raw'', JObj [(''mail'', JStr ''ada@x.org'')]),
        (''reason'', JStr ''Invalid'')]])]"

definition sample_results_db :: admin_db where
  "sample_results_db = sample_guest_db\<lparr>ad_jobs :=
     [(sample_job ''j5'' ''import_commit'' ''succeeded'' ''e1'')\<lparr>aj_result_json := sample_import_result\<rparr>]\<rparr>"

lemma sample_scrub:
  "case scrub_import_job_results sample_erase_env ''e1'' [''ada@x.org''] sample_results_db of Inl e \<Rightarrow> False
   | Inr (n, db') \<Rightarrow> n = 1 \<and> map (\<lambda>j. entries_of ''skipped'' (aj_result_json j)) (ad_jobs db') =
       [[JObj [(''email'', JNull), (''reason'', JStr removed_reason)],
         JObj [(''email'', JStr ''l-ada@x.org''), (''reason'', JStr ''Exists'')]]]"
  by code_simp

theorem import_results_forget_witness:
  "\<exists>n db'. scrub_import_job_results sample_erase_env ''e1'' [''ada@x.org''] sample_results_db = Inr (n, db') \<and>
     (\<forall>j \<in> set (ad_jobs db'). \<forall>x \<in> set (entries_of ''invalidRows'' (aj_result_json j)). \<not> mentions_any x [''ada@x.org''])"
proof -
  obtain n db' where run: "scrub_import_job_results sample_erase_env ''e1'' [''ada@x.org''] sample_results_db = Inr (n, db')"
    using sample_scrub by (auto split: sum.splits prod.splits)
  have t: "er_others sample_erase_env 5 sample_results_db = sample_results_db" by (simp add: sample_erase_env_def)
  have at: "\<forall>e \<in> set [''ada@x.org'']. CHR ''@'' \<in> set e" "[''ada@x.org''] \<noteq> []" by simp_all
  have ids: "distinct (map aj_id (ad_jobs (er_others sample_erase_env 5 sample_results_db)))"
    unfolding t by code_simp
  have jobs: "\<forall>j \<in> set (ad_jobs sample_results_db). is_import_of ''e1'' j \<and>
      (\<forall>x \<in> set (entries_of ''invalidRows'' (aj_result_json j)). numbered x)"
    by (simp add: sample_results_db_def sample_guest_db_def is_import_of_def sample_job_def sample_import_result_def
        entries_of_def numbered_def)
  then have rows: "\<forall>j \<in> set (ad_jobs (er_others sample_erase_env 5 sample_results_db)). is_import_of ''e1'' j \<longrightarrow>
      (\<forall>x \<in> set (entries_of ''invalidRows'' (aj_result_json j)). numbered x)"
    unfolding t by blast
  have norm: "map normalized_address [''ada@x.org''] = [''ada@x.org'']" by code_simp
  from import_results_forget [OF run at(1) ids rows at(2), unfolded t norm]
  obtain g where after: "ad_jobs db' = map (\<lambda>j. if is_import_of ''e1'' j then j\<lparr>aj_result_json := g (aj_result_json j)\<rparr> else j)
      (ad_jobs sample_results_db)"
    and silent: "\<forall>j \<in> set (ad_jobs db'). is_import_of ''e1'' j \<longrightarrow> (\<forall>x \<in> set (entries_of ''skipped'' (aj_result_json j)) \<union>
      set (entries_of ''invalidRows'' (aj_result_json j)). \<not> mentions_any x [''ada@x.org''])"
    by (elim exE conjE) (rule that)
  have "\<forall>j \<in> set (ad_jobs db'). is_import_of ''e1'' j"
    using jobs unfolding after by (auto simp: is_import_of_def)
  with run silent show ?thesis by blast
qed

end
