(* ===== verification/Remove_Props.thy ===== *)
theory Remove_Props
  imports Remove_Attendees Erase_Results_Props
begin

text \<open>
  Removal: no row in any table names the person afterwards, every pass of theirs that may still be at
  the provider is handed to the caller, and nobody else is touched.
\<close>

section \<open>The tables after the deletes\<close>

definition named_nowhere :: "string \<Rightarrow> string \<Rightarrow> admin_db \<Rightarrow> bool" where
  "named_nowhere eid i db \<longleftrightarrow>
     (\<forall>a \<in> set (attendees (ad_ops db)). att_id a = i \<longrightarrow> att_event_id a \<noteq> eid) \<and>
     (\<forall>n \<in> set (attendee_notes (ad_ops db)). nt_attendee_id n \<noteq> i) \<and>
     (\<forall>l \<in> set (action_logs (ad_ops db)). lg_attendee_id l \<noteq> Some i) \<and>
     (\<forall>c \<in> set (check_ins (ad_ops db)). ci_attendee_id c = i \<longrightarrow> ci_event_id c \<noteq> eid) \<and>
     (\<forall>s \<in> set (item_states (ad_ops db)). is_attendee_id s \<noteq> i) \<and>
     (\<forall>d \<in> set (mail_deliveries (ad_ops db)). md_attendee_id d \<noteq> i) \<and>
     (\<forall>w \<in> set (ad_passes db). wp_attendee_id w \<noteq> i)"

text \<open>What the row locks, and then the foreign keys, keep others from writing.\<close>

definition rows_and_items_held :: "string set \<Rightarrow> admin_db \<Rightarrow> admin_db \<Rightarrow> bool" where
  "rows_and_items_held ids s t \<longleftrightarrow> rows_held ids s t \<and>
     same_rows (\<lambda>x. is_attendee_id x \<in> ids) (item_states (ad_ops s)) (item_states (ad_ops t))"

interpretation held_items: step_relation "rows_and_items_held ids"
  by unfold_locales (auto simp: rows_and_items_held_def same_rows_def intro: held.rel_refl held.rel_trans)

lemma named_nowhere_held:
  assumes "rows_and_items_held ids s t" "i \<in> ids"
  shows "named_nowhere eid i t \<longleftrightarrow> named_nowhere eid i s"
proof -
  note h = assms(1) [unfolded rows_and_items_held_def rows_held_def]
  note h0 = h [THEN conjunct1] and x = h [THEN conjunct2]
  note a = h0 [THEN conjunct1] and h1 = h0 [THEN conjunct2]
  note n = h1 [THEN conjunct1] and h2 = h1 [THEN conjunct2]
  note l = h2 [THEN conjunct1] and h3 = h2 [THEN conjunct2]
  note c = h3 [THEN conjunct1] and h4 = h3 [THEN conjunct2]
  note d = h4 [THEN conjunct1] and w = h4 [THEN conjunct2]
  have ball: "(\<forall>y \<in> set ys. k y \<noteq> j) = (\<forall>y \<in> set ys. k y = j \<longrightarrow> False)" for ys and k :: "'z \<Rightarrow> 'y" and j by simp
  show ?thesis
    unfolding named_nowhere_def ball
    by (intro arg_cong2 [where f = "(\<and>)"] same_rows_all [OF a, symmetric] same_rows_all [OF n, symmetric]
        same_rows_all [OF l, symmetric] same_rows_all [OF c, symmetric] same_rows_all [OF x, symmetric]
        same_rows_all [OF d, symmetric] same_rows_all [OF w, symmetric]) (use assms(2) in auto)
qed

lemma update_jobs_ops: "ad_ops (snd (update_jobs p f s)) = ad_ops s"
  by (simp add: update_jobs_def)

definition removed_tables :: "string \<Rightarrow> string list \<Rightarrow> admin_db \<Rightarrow> admin_db" where
  "removed_tables eid gone db = db\<lparr>
     ad_passes := filter (\<lambda>w. wp_attendee_id w \<notin> set gone) (ad_passes db),
     ad_ops := cascaded gone ((ad_ops db)\<lparr>
       mail_deliveries := filter (\<lambda>d. \<not> mail_of eid gone d) (mail_deliveries (ad_ops db)),
       check_ins := filter (\<lambda>c. \<not> check_in_of eid gone c) (check_ins (ad_ops db)),
       attendees := filter (\<lambda>a. \<not> attendee_of eid gone a) (attendees (ad_ops db))\<rparr>)\<rparr>"

text \<open>The rows that are locked, and the ids that are removed.\<close>

definition asked_ids :: "string \<Rightarrow> string list \<Rightarrow> admin_db \<Rightarrow> string list" where
  "asked_ids eid ids db = map att_id (filter (attendee_of eid ids) (attendees (ad_ops db)))"

lemma asked_ids_set:
  "set (asked_ids eid ids s) = att_id ` set (requested_rows eid (unique_in_order ids) s)"
  by (auto simp: asked_ids_def requested_rows_def attendee_of_def)

lemma attendee_of_asked:
  "a \<in> set (attendees (ad_ops s)) \<Longrightarrow>
   attendee_of eid (asked_ids eid ids s) a \<longleftrightarrow> attendee_of eid ids a"
  by (auto simp: attendee_of_def asked_ids_def)

text \<open>A statement that looks at a list of ids only for what it contains.\<close>

lemma same_ids:
  assumes "set xs = set ys"
  shows "mail_of eid xs = mail_of eid ys" "check_in_of eid xs = check_in_of eid ys"
    "attendee_of eid xs = attendee_of eid ys"
  using assms by (auto simp: fun_eq_iff mail_of_def check_in_of_def attendee_of_def)

definition unreferenced :: "string \<Rightarrow> string list \<Rightarrow> admin_db \<Rightarrow> bool" where
  "unreferenced eid gone s \<longleftrightarrow> (\<forall>d \<in> set (mail_deliveries (ad_ops s)). md_attendee_id d \<in> set gone \<longrightarrow> md_event_id d = eid)"

text \<open>The state between the deletes of the children and the delete of the attendees.\<close>

definition children_deleted :: "string \<Rightarrow> string list \<Rightarrow> admin_db \<Rightarrow> admin_db" where
  "children_deleted eid ids db = db\<lparr>
     ad_passes := filter (\<lambda>w. wp_attendee_id w \<notin> set ids) (ad_passes db),
     ad_ops := (ad_ops db)\<lparr>
       mail_deliveries := filter (\<lambda>d. \<not> mail_of eid ids d) (mail_deliveries (ad_ops db)),
       check_ins := filter (\<lambda>c. \<not> check_in_of eid ids c) (check_ins (ad_ops db))\<rparr>\<rparr>"

lemma still_referenced_children:
  assumes "attendee_of eid gone a"
  shows "still_referenced (children_deleted eid gone s) a \<longleftrightarrow>
    (\<exists>d \<in> set (mail_deliveries (ad_ops s)). md_attendee_id d = att_id a \<and> md_event_id d \<noteq> eid)"
  using assms
  by (auto simp: still_referenced_def children_deleted_def attendee_of_def mail_of_def check_in_of_def)

lemma set_gone: "i \<in> set (asked_ids eid ids s) \<longleftrightarrow>
    (\<exists>a \<in> set (attendees (ad_ops s)). attendee_of eid (asked_ids eid ids s) a \<and> att_id a = i)"
  by (auto simp: asked_ids_def attendee_of_def)

lemma delete_statements:
  fixes gone ids
  assumes ids: "ids = map att_id (requested_rows eid (unique_in_order asked) s)"
  defines "gone \<equiv> asked_ids eid asked s"
  shows "tx_bind (in_ops (delete_mail eid ids)) (\<lambda>mails.
         tx_bind (delete_passes ids) (\<lambda>passes.
         tx_bind (in_ops (delete_check_ins eid ids)) (\<lambda>checks.
         tx_bind (delete_attendees eid ids) (\<lambda>removed. next mails passes checks removed)))) s =
    (if unreferenced eid gone s
     then next (count_where (mail_of eid gone) (mail_deliveries (ad_ops s)))
       (filter (\<lambda>w. wp_attendee_id w \<in> set gone) (ad_passes s))
       (count_where (check_in_of eid gone) (check_ins (ad_ops s))) gone (removed_tables eid gone s)
     else Inl (Job_db Foreign_key_violation))"
proof -
  have set: "set ids = set gone" unfolding ids gone_def asked_ids_set by simp
  note same = same_ids [OF set]
  have people: "map att_id (filter (attendee_of eid gone) (attendees (ad_ops s))) = gone"
    unfolding gone_def asked_ids_def [of _ _ s]
    by (rule arg_cong [where f = "map att_id"], rule filter_cong [OF refl])
      (simp add: attendee_of_asked [unfolded asked_ids_def])
  have refs: "(\<exists>a \<in> set (attendees (ad_ops s)). attendee_of eid gone a \<and> still_referenced (children_deleted eid gone s) a)
     \<longleftrightarrow> \<not> unreferenced eid gone s"
    unfolding unreferenced_def gone_def by (metis (no_types, lifting) still_referenced_children set_gone)
  show ?thesis
    using refs unfolding children_deleted_def
    by (simp add: tx_simps in_ops_def delete_mail_def delete_passes_def delete_check_ins_def delete_attendees_def
        same set people removed_tables_def cascaded_def)
qed

lemma scrub_keeps_items:
  assumes run: "scrub_attendee_traces env eid ids emails s = Inr (r, t)" and some: "ids \<noteq> []"
    and held: "\<And>k s. 3 \<le> k \<Longrightarrow> rows_and_items_held I s (er_others env k s)"
  shows "same_rows (\<lambda>x. is_attendee_id x \<in> I) (item_states (ad_ops s)) (item_states (ad_ops t))"
proof -
  from run some obtain n u v where u: "stop_open_attendee_jobs (\<lambda>k. er_others env (3 + k)) (er_clock env) eid s = Inr (n, u)"
    and v: "invalidate_event_exports eid u = Inr ((), v)"
    and t: "ad_ops t = mail_scrubbed eid ids emails (ad_ops v)"
    by (rule scrub_traces_steps) simp
  let ?w = "er_others env 4 (er_others env 3 s)"
  have "rows_and_items_held I s ?w"
    by (rule held_items.rel_trans [OF held held]) simp_all
  moreover have "jobs_only ?w u" using stop_open_jobs_effect [OF u] by simp
  moreover have "jobs_only u v" using tx_allD [OF invalidate_only v] .
  ultimately show ?thesis by (simp add: t jobs_only_def rows_and_items_held_def mail_scrubbed_def)
qed

lemma named_nowhere_removed:
  assumes "i \<in> set gone" "unreferenced eid gone s"
  shows "named_nowhere eid i (removed_tables eid gone s)"
  using assms
  by (auto simp: named_nowhere_def removed_tables_def cascaded_def attendee_of_def check_in_of_def mail_of_def
      unreferenced_def)

lemma removal_read_then: "tx_bind (tx_read f) k s = k (f s) s"
  by (simp add: tx_simps)

text \<open>What a removal comes to: nothing, or the deletes at the locked state and then the scrubbing.\<close>

definition removed_addresses :: "string \<Rightarrow> string list \<Rightarrow> admin_db \<Rightarrow> string list" where
  "removed_addresses eid ids s = collect_attendee_addresses eid
     (filter (\<lambda>a. att_erased_at a = None) (requested_rows eid (unique_in_order ids) s)) (ad_ops s)"

definition removal_report :: "string \<Rightarrow> string list \<Rightarrow> admin_db \<Rightarrow> admin_db \<Rightarrow> remove_result" where
  "removal_report eid ids s t = (let gone = asked_ids eid ids s; passes = filter (\<lambda>w. wp_attendee_id w \<in> set gone) (ad_passes s) in
     \<lparr>rm_removed = gone, rm_not_found = filter (\<lambda>i. i \<notin> set gone) (unique_in_order ids),
      rm_counts = \<lparr>rc_email_deliveries = count_where (mail_of eid gone) (mail_deliveries (ad_ops s)),
        rc_wallet_passes = length passes, rc_check_ins = count_where (check_in_of eid gone) (check_ins (ad_ops s))\<rparr>,
      rm_wallet_targets = wallet_targets passes, rm_untracked_wallet_targets = untracked_wallet_targets eid passes,
      rm_previous_emails = removed_addresses eid ids s, rm_job_ids_with_files = attendee_job_ids_with_files eid t\<rparr>)"

lemma remove_attendees_run:
  assumes "ids \<noteq> []"
  shows "remove_attendees env eid ids db =
    (let s = locked_state env db; gone = asked_ids eid ids s
     in if gone = [] then Inr (nothing_removed (unique_in_order ids), s)
        else if unreferenced eid gone s
        then (case scrub_attendee_traces env eid gone (removed_addresses eid ids s) (removed_tables eid gone s) of
            Inl e \<Rightarrow> Inl e | Inr (_, t) \<Rightarrow> Inr (removal_report eid ids s t, t))
        else Inl (Job_db Foreign_key_violation))"
proof -
  define s where "s = locked_state env db"
  define gone where "gone = asked_ids eid ids s"
  define found where "found = requested_rows eid (unique_in_order ids) s"
  have set: "set gone = att_id ` set found" unfolding gone_def found_def by (rule asked_ids_set)
  have step: "remove_attendees env eid ids db =
      (if found = [] then Inr (nothing_removed (unique_in_order ids), s) else remove_found env eid (unique_in_order ids) found s)"
    using assms by (simp add: remove_attendees_def lock_open_attendee_jobs_def tx_simps Let_def found_def s_def locked_state_def)
  have "found = [] \<longleftrightarrow> gone = []" using set by auto
  moreover have "remove_found env eid (unique_in_order ids) found s =
      (if unreferenced eid gone s
       then (case scrub_attendee_traces env eid gone (removed_addresses eid ids s) (removed_tables eid gone s) of
            Inl e \<Rightarrow> Inl e | Inr (_, t) \<Rightarrow> Inr (removal_report eid ids s t, t))
       else Inl (Job_db Foreign_key_violation))"
    unfolding remove_found_def Let_def removal_read_then
      delete_statements [OF found_def [THEN arg_cong [where f = "map att_id"]], folded gone_def]
    by (simp add: tx_simps removal_report_def Let_def gone_def removed_addresses_def found_def split: sum.split prod.split)
  ultimately show ?thesis unfolding step by (simp add: Let_def s_def [symmetric] gone_def [symmetric])
qed

lemma remove_attendees_cases:
  assumes "remove_attendees env eid ids db = Inr (res, db')"
  obtains (nobody) "res = nothing_removed (unique_in_order ids)" "asked_ids eid ids (locked_state env db) = []"
  | (gone) gone s where "s = locked_state env db" "gone = asked_ids eid ids s" "gone \<noteq> []" "unreferenced eid gone s"
      "scrub_attendee_traces env eid gone (rm_previous_emails res) (removed_tables eid gone s) = Inr ((), db')"
      "res = removal_report eid ids s db'"
proof (cases "ids = []")
  case True
  with assms have "res = nothing_removed (unique_in_order ids)" by (simp add: remove_attendees_def tx_simps)
  then show thesis by (rule nobody) (simp add: True asked_ids_def attendee_of_def)
next
  case False
  let ?s = "locked_state env db"
  note run = assms [unfolded remove_attendees_run [OF False] Let_def]
  show thesis
  proof (cases "asked_ids eid ids ?s = []")
    case True
    with run show thesis by (intro nobody) simp_all
  next
    case left: False
    with run have free: "unreferenced eid (asked_ids eid ids ?s) ?s" by (simp split: if_splits)
    from run left free obtain u where "scrub_attendee_traces env eid (asked_ids eid ids ?s) (removed_addresses eid ids ?s)
        (removed_tables eid (asked_ids eid ids ?s) ?s) = Inr (u, db')" "res = removal_report eid ids ?s db'"
      by (simp split: sum.splits prod.splits)
    with left free show thesis
      by (intro gone [OF refl refl]) (simp_all add: removal_report_def Let_def)
  qed
qed

section \<open>Nothing names the person\<close>

text \<open>C22: A removal leaves no row of these tables that names the person: attendees, notes, the activity log, check-ins of the event,
  item states, mail deliveries and wallet passes. Every requested id is removed or reported as not found, never both, and those
  removed are exactly the requested attendees of the event, erased ones too. No mail of the event goes to an address they had, and no
  export or import of the event is open. The central audit log keeps the id by design: an entry about the creation of a removed attendee stays,
  but holds neither the name nor the address any more. Others may run anywhere this waits; from the row locks on they only write no
  row of the locked people.\<close>

theorem removal_leaves_no_trace:
  assumes run: "remove_attendees env eid ids db = Inr (res, db')"
    and held: "\<And>k s. 3 \<le> k \<Longrightarrow> rows_and_items_held (set (rm_removed res)) s (er_others env k s)"
  shows "set (rm_not_found res) = set ids - set (rm_removed res) \<and>
    set (rm_removed res) = {i \<in> set ids. \<exists>a \<in> set (attendees (ad_ops (locked_state env db))).
      att_id a = i \<and> att_event_id a = eid} \<and>
    (\<forall>i \<in> set (rm_removed res). named_nowhere eid i db') \<and>
    (\<forall>a \<in> set (attendees (ad_ops (locked_state env db))). is_live_in eid (rm_removed res) a \<longrightarrow>
       normalized_address (att_email a) \<in> set ([] # rm_previous_emails res)) \<and>
    (rm_removed res \<noteq> [] \<longrightarrow>
       (\<forall>d \<in> set (mail_deliveries (ad_ops db')). md_event_id d = eid \<longrightarrow>
          \<not> sql_address_in (rm_previous_emails res) (md_recipient_email d)) \<and>
       (\<forall>l \<in> set (ad_audit db'). names_created env eid (rm_removed res) l \<longrightarrow>
          prop_of (aa_metadata l) ''attendee_name'' = None \<and> prop_of (aa_metadata l) ''attendee_email'' = None) \<and>
       count_where (is_open_attendee_job eid) (ad_jobs db') = 0)"
  using run
proof (cases rule: remove_attendees_cases)
  case nobody
  have "set (asked_ids eid ids (locked_state env db)) = {}" using nobody(2) by simp
  then have "{i \<in> set ids. \<exists>a \<in> set (attendees (ad_ops (locked_state env db))). att_id a = i \<and> att_event_id a = eid} = {}"
    by (auto simp: asked_ids_def attendee_of_def)
  with nobody show ?thesis by (simp add: nothing_removed_def is_live_in_def)
next
  case (gone gone s)
  have res: "rm_removed res = gone" "rm_not_found res = filter (\<lambda>i. i \<notin> set gone) (unique_in_order ids)"
    "rm_previous_emails res = removed_addresses eid ids s"
    by (simp_all add: gone(6) removal_report_def Let_def gone(2))
  note held = held [unfolded res(1)]
  have present: "set gone = {i \<in> set ids. \<exists>a \<in> set (attendees (ad_ops s)). att_id a = i \<and> att_event_id a = eid}"
    by (auto simp: gone(2) asked_ids_def attendee_of_def)
  note traces = scrub_traces_Inr [OF gone(5,3) held [unfolded rows_and_items_held_def, THEN conjunct1]]
  have items: "same_rows (\<lambda>x. is_attendee_id x \<in> set gone) (item_states (ad_ops (removed_tables eid gone s))) (item_states (ad_ops db'))"
    by (rule scrub_keeps_items [OF gone(5,3) held])
  have kept: "rows_and_items_held (set gone) (removed_tables eid gone s) db'"
    using traces items by (simp add: rows_and_items_held_def)
  have nowhere: "named_nowhere eid i db'" if "i \<in> set gone" for i
    using named_nowhere_held [OF kept that] named_nowhere_removed [OF that gone(4)] by simp
  then have no_mail: "md_attendee_id d \<notin> set gone" if "d \<in> set (mail_deliveries (ad_ops db'))" for d
    using that by (auto simp: named_nowhere_def)
  have "set (rm_not_found res) = set ids - set gone" by (simp add: res(2) set_diff_eq)
  moreover have "normalized_address (att_email a) \<in> set ([] # rm_previous_emails res)"
    if "a \<in> set (attendees (ad_ops s))" "is_live_in eid gone a" for a
  proof -
    have "a \<in> set (filter (\<lambda>a. att_erased_at a = None) (requested_rows eid (unique_in_order ids) s))"
      using that present by (auto simp: requested_rows_def is_live_in_def)
    from collected_current [OF this] show ?thesis
      by (cases "normalized_address (att_email a) = []") (simp_all add: res(3) removed_addresses_def)
  qed
  ultimately show ?thesis using traces nowhere no_mail present unfolding gone(1) [symmetric] by (simp add: res(1))
qed

lemma sample_removal:
  "case remove_attendees sample_erase_env ''e1'' [''a1'', ''zz''] sample_guest_db of Inl e \<Rightarrow> False
   | Inr (res, db') \<Rightarrow> rm_removed res = [''a1''] \<and> rm_wallet_targets res = [(''a1'', ''p1'')]"
  by code_simp

theorem removal_leaves_no_trace_witness:
  "\<exists>res db'. remove_attendees sample_erase_env ''e1'' [''a1'', ''zz''] sample_guest_db = Inr (res, db') \<and>
     named_nowhere ''e1'' ''a1'' db' \<and> rm_wallet_targets res = [(''a1'', ''p1'')] \<and>
     count_where (is_open_attendee_job ''e1'') (ad_jobs db') = 0"
proof -
  obtain res db' where run: "remove_attendees sample_erase_env ''e1'' [''a1'', ''zz''] sample_guest_db = Inr (res, db')"
    and res: "rm_removed res = [''a1'']" "rm_wallet_targets res = [(''a1'', ''p1'')]"
    using sample_removal by (auto split: sum.splits prod.splits)
  have held: "rows_and_items_held I s (er_others sample_erase_env k s)" for I k s
    by (simp add: sample_erase_env_def held_items.rel_refl)
  from removal_leaves_no_trace [OF run held] run res show ?thesis by auto
qed

section \<open>Nobody else is touched\<close>

text \<open>The rows of a table that belong to other people are the same afterwards, column by column.\<close>

definition others_untouched :: "string \<Rightarrow> string list \<Rightarrow> admin_db \<Rightarrow> admin_db \<Rightarrow> bool" where
  "others_untouched eid gone s t \<longleftrightarrow>
     filter (\<lambda>a. \<not> attendee_of eid gone a) (attendees (ad_ops s)) = attendees (ad_ops t) \<and>
     filter (\<lambda>n. nt_attendee_id n \<notin> set gone) (attendee_notes (ad_ops s)) = attendee_notes (ad_ops t) \<and>
     filter (\<lambda>l. lg_attendee_id l \<notin> Some ` set gone) (action_logs (ad_ops s)) = action_logs (ad_ops t) \<and>
     filter (\<lambda>c. \<not> check_in_of eid gone c) (check_ins (ad_ops s)) = check_ins (ad_ops t) \<and>
     filter (\<lambda>x. is_attendee_id x \<notin> set gone) (item_states (ad_ops s)) = item_states (ad_ops t) \<and>
     filter (\<lambda>w. wp_attendee_id w \<notin> set gone) (ad_passes s) = ad_passes t \<and>
     list_all2 mail_status_kept (filter (\<lambda>d. \<not> mail_of eid gone d) (mail_deliveries (ad_ops s))) (mail_deliveries (ad_ops t))"

lemma others_untouched_alone:
  assumes "scrub_attendee_traces env eid gone emails (removed_tables eid gone s) = Inr (r, t)" "gone \<noteq> []"
    and alone: "\<And>k s. 3 \<le> k \<Longrightarrow> er_others env k s = s"
  shows "others_untouched eid gone s t"
proof -
  from assms(1,2) obtain n u v where
    u: "stop_open_attendee_jobs (\<lambda>k. er_others env (3 + k)) (er_clock env) eid (removed_tables eid gone s) = Inr (n, u)"
    and v: "invalidate_event_exports eid u = Inr ((), v)"
    and t: "ad_ops t = mail_scrubbed eid gone emails (ad_ops v)" "ad_passes t = ad_passes v"
    by (rule scrub_traces_steps) simp
  have "jobs_only (removed_tables eid gone s) u" using stop_open_jobs_effect [OF u] by (simp add: alone)
  then have "jobs_only (removed_tables eid gone s) v"
    using tx_allD [OF invalidate_only v] by (rule jobs.rel_trans)
  then show ?thesis
    by (simp add: others_untouched_def t jobs_only_def mail_scrubbed_same removed_tables_def cascaded_def)
      (simp add: mail_scrubbed_def list_all2_update mail_status_steps list_all2_refl)
qed

text \<open>A removal of people who are there cannot be refused, and touches nobody else. If every delivery of the
  requested people is one of the event, the queue lock keeps the jobs still and every export that is still open holds a
  readable request, then it returns; when nobody interferes after the locks, the rows of everybody else are left as they
  were in every table, except that other people's mail which went to an address of the removed is scrubbed and, if it was
  waiting, cancelled; the counts it reports are the rows that went; and removing the same people again finds nobody.\<close>

theorem removal_touches_nobody_else:
  assumes some: "ids \<noteq> []"
    and mails: "\<And>d. d \<in> set (mail_deliveries (ad_ops (locked_state env db))) \<Longrightarrow>
      md_attendee_id d \<in> set ids \<Longrightarrow> md_event_id d = eid"
    and alone: "\<And>k s. 3 \<le> k \<Longrightarrow> er_others env k s = s"
    and jobs: "readable_jobs eid (ad_jobs (locked_state env db))"
  shows "\<exists>res db'. remove_attendees env eid ids db = Inr (res, db') \<and>
    (let s = locked_state env db
     in others_untouched eid (rm_removed res) s db' \<and>
        length (mail_deliveries (ad_ops s)) = length (mail_deliveries (ad_ops db')) + rc_email_deliveries (rm_counts res) \<and>
        length (check_ins (ad_ops s)) = length (check_ins (ad_ops db')) + rc_check_ins (rm_counts res) \<and>
        length (ad_passes s) = length (ad_passes db') + rc_wallet_passes (rm_counts res)) \<and>
    (\<forall>env'. (\<forall>k u. er_others env' k u = u) \<longrightarrow>
       remove_attendees env' eid ids db' = Inr (nothing_removed (unique_in_order ids), db'))"
proof -
  define s where "s = locked_state env db"
  define gone where "gone = asked_ids eid ids s"
  have within: "set gone \<subseteq> set ids" by (auto simp: gone_def asked_ids_def attendee_of_def)
  have again: "remove_attendees env' eid ids t = Inr (nothing_removed (unique_in_order ids), t)"
    if "asked_ids eid ids t = []" "\<forall>k u. er_others env' k u = u" for env' t
    using that some by (simp add: remove_attendees_run Let_def locked_state_def)
  show ?thesis
  proof (cases "gone = []")
    case True
    have "others_untouched eid [] s s"
      by (simp add: others_untouched_def attendee_of_def check_in_of_def mail_of_def list_all2_refl mail_status_steps)
    with True some again [of s] show ?thesis
      by (simp add: remove_attendees_run Let_def s_def gone_def nothing_removed_def)
  next
    case False
    let ?emails = "removed_addresses eid ids s"
    have "ad_jobs (removed_tables eid gone s) = ad_jobs s" by (simp add: removed_tables_def)
    then obtain t where scrub: "scrub_attendee_traces env eid gone ?emails (removed_tables eid gone s) = Inr ((), t)"
      using scrub_returns [of eid env "removed_tables eid gone s" gone ?emails] jobs alone by (auto simp: s_def)
    have "unreferenced eid gone s" using mails within by (auto simp: unreferenced_def s_def)
    with scrub False some have run: "remove_attendees env eid ids db = Inr (removal_report eid ids s t, t)"
      by (simp add: remove_attendees_run Let_def s_def [symmetric] gone_def [symmetric])
    have frame: "others_untouched eid gone s t" using scrub False alone by (rule others_untouched_alone)
    have len: "length (filter (\<lambda>x. \<not> p x) xs) + length (filter p xs) = length xs" for p and xs :: "'z list"
      using sum_length_filter_compl [of p xs] by simp
    have none_left: "asked_ids eid ids t = []"
    proof -
      have "attendees (ad_ops t) = filter (\<lambda>a. \<not> attendee_of eid gone a) (attendees (ad_ops s))"
        using frame by (simp add: others_untouched_def)
      moreover have "attendee_of eid gone a = attendee_of eid ids a" if "a \<in> set (attendees (ad_ops s))" for a
        using attendee_of_asked [OF that] by (simp add: gone_def)
      ultimately show ?thesis by (simp add: asked_ids_def filter_empty_conv)
    qed
    have "length (mail_deliveries (ad_ops s)) = length (mail_deliveries (ad_ops t)) + count_where (mail_of eid gone) (mail_deliveries (ad_ops s))"
      using frame len [of "mail_of eid gone" "mail_deliveries (ad_ops s)"]
      by (auto simp: others_untouched_def count_where_def dest!: list_all2_lengthD)
    moreover have "length (check_ins (ad_ops s)) = length (check_ins (ad_ops t)) + count_where (check_in_of eid gone) (check_ins (ad_ops s))"
      using frame len [of "check_in_of eid gone" "check_ins (ad_ops s)"] by (auto simp: others_untouched_def count_where_def)
    moreover have "length (ad_passes s) = length (ad_passes t) + length (filter (\<lambda>w. wp_attendee_id w \<in> set gone) (ad_passes s))"
      using frame len [of "\<lambda>w. wp_attendee_id w \<in> set gone" "ad_passes s"] by (auto simp: others_untouched_def)
    ultimately show ?thesis
      using run frame again [OF none_left] by (simp add: s_def [symmetric] removal_report_def Let_def gone_def [symmetric])
  qed
qed

theorem removal_touches_nobody_else_witness:
  "\<exists>res db'. remove_attendees sample_erase_env ''e1'' [''a1'', ''zz''] sample_guest_db = Inr (res, db') \<and>
     others_untouched ''e1'' (rm_removed res) sample_guest_db db' \<and>
     remove_attendees sample_erase_env ''e1'' [''a1'', ''zz''] db' = Inr (nothing_removed (unique_in_order [''a1'', ''zz'']), db')"
proof -
  have quiet: "er_others sample_erase_env k s = s" for k s by (simp add: sample_erase_env_def)
  have mails: "md_event_id d = ''e1''" if "d \<in> set (mail_deliveries (ad_ops (locked_state sample_erase_env sample_guest_db)))" for d
    using that by (auto simp: locked_state_def quiet sample_guest_db_def sample_mail_def)
  have "readable_jobs ''e1'' (ad_jobs sample_guest_db)" by code_simp
  then have jobs: "readable_jobs ''e1'' (ad_jobs (locked_state sample_erase_env sample_guest_db))"
    by (simp add: locked_state_def quiet)
  have "[''a1'', ''zz''] \<noteq> []" by simp
  from removal_touches_nobody_else [OF this mails quiet jobs] quiet show ?thesis
    by (auto simp: locked_state_def Let_def)
qed

end
