(* ===== verification/Wallet_Follow_Up.thy ===== *)
theory Wallet_Follow_Up
  imports Remove_Props
begin

text \<open>
  Deleting the wallet passes of erased people at the provider:
  \<open>packages/tickets/src/erase-wallet-passes.ts\<close>, with \<open>walletFailureCode\<close> of \<open>packages/wallet/src/types.ts\<close>.
  The provider (\<open>WalletPassProvider\<close>) is a parameter: its two deletes act on a state of its own and
  answer, or throw an error with or without a \<open>code\<close>. The deletes of one batch, which the code starts together, run
  one after the other here; they share no row. Others may commit right before a row is marked.
\<close>

record 'p pass_provider =
  pp_delete_pass :: "string \<Rightarrow> 'p \<Rightarrow> (string option + unit) \<times> 'p"
  pp_delete_by_user_id :: "string \<Rightarrow> 'p \<Rightarrow> (string option + bool) \<times> 'p"

text \<open>
  The clock at the verdict on a person's pass, at the mark, at the start and before the batch at an index;
  and whether the database refuses the mark.
\<close>

record pass_env =
  pw_others :: "string \<Rightarrow> admin_db \<Rightarrow> admin_db"
  pw_now :: "string \<Rightarrow> int"
  pw_mark_time :: "string \<Rightarrow> int"
  pw_mark_error :: "string \<Rightarrow> string option option"
  pw_started :: int
  pw_batch_time :: "nat \<Rightarrow> int"

type_synonym ('p, 'a) pass_op = "(admin_db \<times> 'p, string option, 'a) op"

definition at_provider :: "('p \<Rightarrow> (string option + 'a) \<times> 'p) \<Rightarrow> ('p, 'a) pass_op" where
  "at_provider f s = (case f (snd s) of (r, p) \<Rightarrow> (r, (fst s, p)))"

section \<open>Which rows are in question\<close>

definition pass_row_still_at_provider :: "wallet_pass \<Rightarrow> bool" where
  "pass_row_still_at_provider w \<longleftrightarrow>
     wp_left_behind_pass_id w \<noteq> None \<or>
     (wp_provider_removed_at w = None \<and>
      (wp_provider_pass_id w \<noteq> None \<or> wp_user_provided_id w \<noteq> None \<or> wp_status w = ''failed''))"

definition erased_in_event :: "string \<Rightarrow> string \<Rightarrow> admin_db \<Rightarrow> bool" where
  "erased_in_event eid i db \<longleftrightarrow>
     (case attendee_by_id i (ad_ops db) of None \<Rightarrow> False | Some a \<Rightarrow> att_event_id a = eid \<and> att_erased_at a \<noteq> None)"

definition erased_pass_to_delete_where :: "string \<Rightarrow> string list option \<Rightarrow> admin_db \<Rightarrow> wallet_pass \<Rightarrow> bool" where
  "erased_pass_to_delete_where eid ids db w \<longleftrightarrow>
     pass_row_still_at_provider w \<and> erased_in_event eid (wp_attendee_id w) db \<and>
     (case ids of None \<Rightarrow> True | Some is \<Rightarrow> wp_attendee_id w \<in> set is)"

record pass_to_delete =
  pd_attendee_id :: string
  pd_provider_pass_id :: "string option"
  pd_left_behind_pass_id :: "string option"
  pd_issued_at :: "int option"
  pd_erased_at :: "int option"
  pd_row :: wallet_pass

definition read_pass :: "admin_db \<Rightarrow> wallet_pass \<Rightarrow> pass_to_delete" where
  "read_pass db w = \<lparr>pd_attendee_id = wp_attendee_id w, pd_provider_pass_id = wp_provider_pass_id w,
     pd_left_behind_pass_id = wp_left_behind_pass_id w, pd_issued_at = wp_issued_at w,
     pd_erased_at = Option.bind (attendee_by_id (wp_attendee_id w) (ad_ops db)) att_erased_at, pd_row = w\<rparr>"

section \<open>One pass\<close>

definition safe_wallet_error_codes :: "string list" where
  "safe_wallet_error_codes = [''wallet_provider_unauthorized'', ''wallet_provider_rate_limited'',
     ''wallet_provider_duplicate'', ''wallet_provider_not_found'', ''wallet_provider_timeout'',
     ''wallet_provider_rejected'']"

definition wallet_failure_code :: "string option \<Rightarrow> string" where
  "wallet_failure_code code = (case code of
     Some c \<Rightarrow> if c \<in> set safe_wallet_error_codes then c else ''unknown'' | None \<Rightarrow> ''unknown'')"

definition credentials_changed_code :: string where
  "credentials_changed_code = ''wallet_credential_changed''"

definition creation_settle_window_ms :: int where
  "creation_settle_window_ms = 10 * 60000"

definition max_passes_under_one_id :: nat where
  "max_passes_under_one_id = 5"

definition erasure_is_settled :: "int \<Rightarrow> int option \<Rightarrow> bool" where
  "erasure_is_settled now erased_at = (case erased_at of None \<Rightarrow> False | Some t \<Rightarrow> now - t \<ge> creation_settle_window_ms)"

definition creations_are_settled :: "int \<Rightarrow> pass_to_delete \<Rightarrow> bool" where
  "creations_are_settled now pass \<longleftrightarrow>
     (if erasure_is_settled now (pd_erased_at pass) then True
      else pd_provider_pass_id pass \<noteq> None \<and>
        (case pd_issued_at pass of None \<Rightarrow> False | Some t \<Rightarrow> now - t \<ge> creation_settle_window_ms))"

function delete_passes_under :: "'p pass_provider \<Rightarrow> string \<Rightarrow> nat \<Rightarrow> ('p, nat) pass_op" where
  "delete_passes_under pv i deleted =
     op_bind (at_provider (pp_delete_by_user_id pv i)) (\<lambda>found.
       if \<not> found then op_return deleted
       else if deleted \<ge> max_passes_under_one_id then op_throw (Some ''wallet_provider_rejected'')
       else delete_passes_under pv i (deleted + 1))"
  by pat_completeness auto
termination by (relation "measure (\<lambda>(_, _, deleted). max_passes_under_one_id - deleted)") auto

declare delete_passes_under.simps [simp del]

datatype verdict = Gone | Undecided | Elsewhere

definition verdict_of :: "int \<Rightarrow> pass_to_delete \<Rightarrow> bool \<Rightarrow> verdict" where
  "verdict_of now pass found =
     (if pd_left_behind_pass_id pass \<noteq> None then Elsewhere
      else if found \<and> pd_provider_pass_id pass = None then Gone
      else if creations_are_settled now pass then Gone else Undecided)"

definition delete_at_provider ::
  "pass_env \<Rightarrow> 'p pass_provider \<Rightarrow> string \<Rightarrow> pass_to_delete \<Rightarrow> ('p, verdict \<times> nat) pass_op" where
  "delete_at_provider env pv eid pass =
     op_bind (case pd_provider_pass_id pass of None \<Rightarrow> op_return ()
        | Some i \<Rightarrow> at_provider (pp_delete_pass pv i)) (\<lambda>_.
     op_bind (delete_passes_under pv (reserved_pass_id eid (pd_row pass)) 0) (\<lambda>found.
       op_return (verdict_of (pw_now env (pd_attendee_id pass)) pass (found > 0), found)))"

datatype outcome = Pass_gone nat | Pass_undecided nat | Pass_failed string string nat

definition mark_removed :: "int \<Rightarrow> pass_to_delete \<Rightarrow> admin_db \<Rightarrow> admin_db" where
  "mark_removed t pass db = db\<lparr>ad_passes := update_where
     (\<lambda>w. wp_attendee_id w = pd_attendee_id pass \<and> wp_provider_pass_id w = pd_provider_pass_id pass \<and>
        wp_provider_removed_at w = None \<and> wp_left_behind_pass_id w = None)
     (\<lambda>w. w\<lparr>wp_provider_removed_at := Some t\<rparr>) (ad_passes db)\<rparr>"

definition on_db :: "(admin_db \<Rightarrow> admin_db) \<Rightarrow> ('p, unit) pass_op" where
  "on_db f s = (Inr (), (f (fst s), snd s))"

definition delete_one ::
  "pass_env \<Rightarrow> 'p pass_provider \<Rightarrow> string \<Rightarrow> pass_to_delete \<Rightarrow> ('p, outcome) pass_op" where
  "delete_one env pv eid pass =
     (let aid = pd_attendee_id pass
      in op_catch
        (op_bind (delete_at_provider env pv eid pass) (\<lambda>(verdict, found).
           case verdict of
             Undecided \<Rightarrow> op_return (Pass_undecided found)
           | Elsewhere \<Rightarrow> op_return (Pass_failed aid credentials_changed_code found)
           | Gone \<Rightarrow>
               op_bind (on_db (pw_others env aid)) (\<lambda>_.
               op_bind (case pw_mark_error env aid of Some e \<Rightarrow> op_throw e
                  | None \<Rightarrow> on_db (mark_removed (pw_mark_time env aid) pass)) (\<lambda>_.
                 op_return (Pass_gone found)))))
        (\<lambda>e. Some (Pass_failed aid (wallet_failure_code e) 0)))"

section \<open>All passes of an erasure\<close>

record follow_up_result =
  fu_deleted :: nat
  fu_untracked_deleted :: nat
  fu_undecided :: nat
  fu_failed_attendee_ids :: "string list"
  fu_failure_codes :: "string list"
  fu_not_tried :: nat

definition no_follow_up :: follow_up_result where
  "no_follow_up = \<lparr>fu_deleted = 0, fu_untracked_deleted = 0, fu_undecided = 0, fu_failed_attendee_ids = [],
     fu_failure_codes = [], fu_not_tried = 0\<rparr>"

text \<open>The codes are a set that remembers the order of insertion.\<close>

definition record_outcome :: "outcome \<Rightarrow> follow_up_result \<Rightarrow> follow_up_result" where
  "record_outcome out result = (case out of
     Pass_failed aid code n \<Rightarrow> result\<lparr>fu_untracked_deleted := fu_untracked_deleted result + n,
       fu_failed_attendee_ids := fu_failed_attendee_ids result @ [aid],
       fu_failure_codes := (if code \<in> set (fu_failure_codes result) then fu_failure_codes result
         else fu_failure_codes result @ [code])\<rparr>
   | Pass_undecided n \<Rightarrow> result\<lparr>fu_untracked_deleted := fu_untracked_deleted result + n,
       fu_undecided := fu_undecided result + 1\<rparr>
   | Pass_gone n \<Rightarrow> result\<lparr>fu_untracked_deleted := fu_untracked_deleted result + n,
       fu_deleted := fu_deleted result + 1\<rparr>)"

definition delete_concurrency :: nat where
  "delete_concurrency = 8"

definition collect_outcome ::
  "pass_env \<Rightarrow> 'p pass_provider \<Rightarrow> string \<Rightarrow> pass_to_delete \<Rightarrow> outcome list \<Rightarrow> ('p, outcome list) pass_op" where
  "collect_outcome env pv eid pass outs = op_bind (delete_one env pv eid pass) (\<lambda>out. op_return (outs @ [out]))"

definition budget_is_over :: "pass_env \<Rightarrow> int option \<Rightarrow> nat \<Rightarrow> bool" where
  "budget_is_over env budget i = (case budget of None \<Rightarrow> False | Some b \<Rightarrow> pw_batch_time env i - pw_started env \<ge> b)"

function follow_up_from ::
  "pass_env \<Rightarrow> 'p pass_provider \<Rightarrow> string \<Rightarrow> int option \<Rightarrow> nat \<Rightarrow> pass_to_delete list \<Rightarrow> follow_up_result \<Rightarrow>
   ('p, follow_up_result) pass_op" where
  "follow_up_from env pv eid budget i passes result =
     (if passes = [] then op_return result
      else if budget_is_over env budget i then op_return (result\<lparr>fu_not_tried := length passes\<rparr>)
      else op_bind (op_fold (collect_outcome env pv eid) (take delete_concurrency passes) []) (\<lambda>outs.
        follow_up_from env pv eid budget (i + delete_concurrency) (drop delete_concurrency passes)
          (fold record_outcome outs result)))"
  by pat_completeness auto
termination
  by (relation "measure (\<lambda>(_, _, _, _, _, passes, _). length passes)") (auto simp: delete_concurrency_def)

declare follow_up_from.simps [simp del]

definition passes_to_delete :: "string \<Rightarrow> string list option \<Rightarrow> admin_db \<Rightarrow> pass_to_delete list" where
  "passes_to_delete eid ids db =
     map (read_pass db) (sort_key wp_attendee_id (filter (erased_pass_to_delete_where eid ids db) (ad_passes db)))"

definition delete_erased_wallet_passes ::
  "pass_env \<Rightarrow> 'p pass_provider \<Rightarrow> string \<Rightarrow> string list \<Rightarrow> int option \<Rightarrow> ('p, follow_up_result) pass_op" where
  "delete_erased_wallet_passes env pv eid ids budget =
     (if ids = [] then op_return no_follow_up
      else op_bind (op_read (\<lambda>s. passes_to_delete eid (Some ids) (fst s))) (\<lambda>passes.
        follow_up_from env pv eid budget 0 passes no_follow_up))"

section \<open>The second look\<close>

definition settled_recheck_horizon_ms :: int where
  "settled_recheck_horizon_ms = 7 * 24 * 3600000"

definition recheck_limit :: nat where
  "recheck_limit = 1000"

definition settled_untracked_pass_row :: "int \<Rightarrow> wallet_pass \<Rightarrow> bool" where
  "settled_untracked_pass_row since w \<longleftrightarrow> wp_provider_pass_id w = None \<and>
     (case wp_provider_removed_at w of None \<Rightarrow> False | Some t \<Rightarrow> t \<ge> since) \<and>
     (wp_user_provided_id w \<noteq> None \<or> wp_status w = ''failed'')"

definition attendee_id_between :: "string option \<Rightarrow> string option \<Rightarrow> string \<Rightarrow> bool" where
  "attendee_id_between after up_to i \<longleftrightarrow>
     (if truthy after then the after < i else True) \<and> (if truthy up_to then i \<le> the up_to else True)"

record recheck_result =
  rr_checked :: nat
  rr_found :: nat
  rr_failed :: nat
  rr_incomplete :: bool
  rr_last :: "string option"

definition recheck_one :: "'p pass_provider \<Rightarrow> string \<Rightarrow> wallet_pass \<Rightarrow> ('p, nat option) pass_op" where
  "recheck_one pv eid pass = op_catch
     (op_bind (delete_passes_under pv (reserved_pass_id eid pass) 0) (\<lambda>n. op_return (Some n))) (\<lambda>_. Some None)"

definition record_recheck :: "nat option \<Rightarrow> recheck_result \<Rightarrow> recheck_result" where
  "record_recheck out result = (case out of
     None \<Rightarrow> result\<lparr>rr_failed := rr_failed result + 1\<rparr>
   | Some n \<Rightarrow> result\<lparr>rr_checked := rr_checked result + 1, rr_found := rr_found result + n\<rparr>)"

definition collect_recheck ::
  "'p pass_provider \<Rightarrow> string \<Rightarrow> wallet_pass \<Rightarrow> nat option list \<Rightarrow> ('p, nat option list) pass_op" where
  "collect_recheck pv eid pass outs = op_bind (recheck_one pv eid pass) (\<lambda>out. op_return (outs @ [out]))"

function recheck_from ::
  "pass_env \<Rightarrow> 'p pass_provider \<Rightarrow> string \<Rightarrow> int option \<Rightarrow> nat \<Rightarrow> wallet_pass list \<Rightarrow> recheck_result \<Rightarrow>
   ('p, recheck_result) pass_op" where
  "recheck_from env pv eid budget i passes result =
     (if passes = [] then op_return result
      else if budget_is_over env budget i then op_return (result\<lparr>rr_incomplete := True\<rparr>)
      else let batch = take delete_concurrency passes
           in op_bind (op_fold (collect_recheck pv eid) batch []) (\<lambda>outs.
                recheck_from env pv eid budget (i + delete_concurrency) (drop delete_concurrency passes)
                  ((fold record_recheck outs result)\<lparr>rr_last := Some (wp_attendee_id (last batch))\<rparr>)))"
  by pat_completeness auto
termination
  by (relation "measure (\<lambda>(_, _, _, _, _, passes, _). length passes)") (auto simp: delete_concurrency_def)

declare recheck_from.simps [simp del]

definition settled_passes ::
  "string \<Rightarrow> int \<Rightarrow> string option \<Rightarrow> string option \<Rightarrow> nat \<Rightarrow> admin_db \<Rightarrow> wallet_pass list" where
  "settled_passes eid since after up_to limit db = take limit (sort_key wp_attendee_id
     (filter (\<lambda>w. settled_untracked_pass_row since w \<and> erased_in_event eid (wp_attendee_id w) db \<and>
        attendee_id_between after up_to (wp_attendee_id w)) (ad_passes db)))"

definition recheck_settled_wallet_passes ::
  "pass_env \<Rightarrow> 'p pass_provider \<Rightarrow> string \<Rightarrow> int option \<Rightarrow> nat option \<Rightarrow> string option \<Rightarrow> string option \<Rightarrow>
   ('p, recheck_result) pass_op" where
  "recheck_settled_wallet_passes env pv eid budget limit after up_to =
     (let limit = (case limit of None \<Rightarrow> recheck_limit | Some n \<Rightarrow> n)
      in op_bind (op_read (\<lambda>s. settled_passes eid (pw_started env - settled_recheck_horizon_ms) after up_to limit (fst s)))
        (\<lambda>passes. recheck_from env pv eid budget 0 passes
          \<lparr>rr_checked = 0, rr_found = 0, rr_failed = 0, rr_incomplete = (length passes = limit), rr_last = None\<rparr>))"

end
