(* ===== verification/Wallet_Follow_Up_Props.thy ===== *)
theory Wallet_Follow_Up_Props
  imports Wallet_Follow_Up
begin

text \<open>
  The follow-up of an erasure at the wallet provider: a row is marked removed only when nothing of
  the person is left there, every other row stays still to delete, and a provider that works ends the
  matter.
\<close>

section \<open>What the provider promises\<close>

text \<open>
  The documented contract of the two deletes, on the passes the provider holds (its id and the id Admitto
  sent): a delete that succeeds leaves no pass under the id, ``there is none'' is a real answer, and no other pass is
  ever deleted. A delete that fails may or may not have taken the pass.
\<close>

type_synonym 'p holdings = "'p \<Rightarrow> (string \<times> string) set"

definition honest_provider :: "'p pass_provider \<Rightarrow> 'p holdings \<Rightarrow> bool" where
  "honest_provider pv held \<longleftrightarrow>
     (\<forall>i p r p'. pp_delete_pass pv i p = (r, p') \<longrightarrow> held p' \<subseteq> held p \<and> held p - held p' \<subseteq> {x. fst x = i} \<and>
        (r = Inr () \<longrightarrow> (\<forall>x \<in> held p'. fst x \<noteq> i))) \<and>
     (\<forall>u p r p'. pp_delete_by_user_id pv u p = (r, p') \<longrightarrow> held p' \<subseteq> held p \<and> held p - held p' \<subseteq> {x. snd x = u} \<and>
        (r = Inr False \<longrightarrow> (\<forall>x \<in> held p'. snd x \<noteq> u)) \<and> (r = Inr True \<longrightarrow> (\<exists>x \<in> held p. snd x = u)))"

lemma honest_pass:
  assumes "honest_provider pv held" "pp_delete_pass pv i p = (r, p')"
  shows "held p' \<subseteq> held p \<and> held p - held p' \<subseteq> {x. fst x = i} \<and> (r = Inr () \<longrightarrow> (\<forall>x \<in> held p'. fst x \<noteq> i))"
  by (rule assms(1) [unfolded honest_provider_def, THEN conjunct1, rule_format, OF assms(2)])

lemma honest_user_id:
  assumes "honest_provider pv held" "pp_delete_by_user_id pv u p = (r, p')"
  shows "held p' \<subseteq> held p \<and> held p - held p' \<subseteq> {x. snd x = u} \<and>
    (r = Inr False \<longrightarrow> (\<forall>x \<in> held p'. snd x \<noteq> u)) \<and> (r = Inr True \<longrightarrow> (\<exists>x \<in> held p. snd x = u))"
  by (rule assms(1) [unfolded honest_provider_def, THEN conjunct2, rule_format, OF assms(2)])

lemma delete_passes_under_honest:
  assumes honest: "honest_provider pv held" and run: "delete_passes_under pv u n (db, p) = (r, (db', p'))"
  shows "db' = db \<and> held p' \<subseteq> held p \<and> held p - held p' \<subseteq> {x. snd x = u} \<and>
    (\<forall>m. r = Inr m \<longrightarrow> n \<le> m \<and> (\<forall>x \<in> held p'. snd x \<noteq> u) \<and> (n < m \<longrightarrow> (\<exists>x \<in> held p. snd x = u)))"
  using run
proof (induction "max_passes_under_one_id - n" arbitrary: n p rule: less_induct)
  case less
  obtain a q where one: "pp_delete_by_user_id pv u p = (a, q)" by fastforce
  note q = honest_user_id [OF honest one]
  show ?case
  proof (cases "a = Inr True \<and> n < max_passes_under_one_id")
    case True
    then have "delete_passes_under pv u (Suc n) (db, q) = (r, (db', p'))"
      using less.prems one by (subst (asm) delete_passes_under.simps) (simp add: tx_simps at_provider_def)
    moreover have "max_passes_under_one_id - Suc n < max_passes_under_one_id - n"
      using True by (intro diff_less_mono2) simp_all
    ultimately have ih: "db' = db" "held p' \<subseteq> held q" "held q - held p' \<subseteq> {x. snd x = u}"
      "\<And>m. r = Inr m \<Longrightarrow> Suc n \<le> m \<and> (\<forall>x \<in> held p'. snd x \<noteq> u)"
      using less.hyps [of "Suc n" q] by blast+
    have "held p' \<subseteq> held p" "held p - held p' \<subseteq> {x. snd x = u}" using ih(2,3) q by blast+
    with ih(1,4) q True show ?thesis by (auto dest: Suc_leD)
  next
    case False
    then have "db' = db \<and> p' = q \<and> (r = Inr n \<and> a = Inr False \<or> isl r)"
      using less.prems one by (subst (asm) delete_passes_under.simps)
        (auto simp: tx_simps at_provider_def op_throw_def split: sum.splits if_splits)
    with q show ?thesis by auto
  qed
qed

section \<open>One pass\<close>

text \<open>Why a row may be marked: nothing of it is left, and nothing can still be on its way.\<close>

definition nothing_left :: "string \<Rightarrow> 'p holdings \<Rightarrow> 'p \<Rightarrow> wallet_pass \<Rightarrow> bool" where
  "nothing_left eid held p w \<longleftrightarrow> (\<forall>x \<in> held p. snd x \<noteq> reserved_pass_id eid w \<and> wp_provider_pass_id w \<noteq> Some (fst x))"

definition settled_for :: "string \<Rightarrow> pass_env \<Rightarrow> 'p holdings \<Rightarrow> 'p \<Rightarrow> admin_db \<Rightarrow> wallet_pass \<Rightarrow> bool" where
  "settled_for eid env held p db w \<longleftrightarrow> wp_left_behind_pass_id w = None \<and>
     (creations_are_settled (pw_now env (wp_attendee_id w)) (read_pass db w) \<or>
      wp_provider_pass_id w = None \<and> (\<exists>x \<in> held p. snd x = reserved_pass_id eid w))"

text \<open>The passes at the provider that belong to a row.\<close>

definition passes_of :: "string \<Rightarrow> wallet_pass \<Rightarrow> (string \<times> string) set" where
  "passes_of eid w = {x. wp_provider_pass_id w = Some (fst x) \<or> snd x = reserved_pass_id eid w}"

lemma read_pass_simps [simp]:
  "pd_attendee_id (read_pass db w) = wp_attendee_id w" "pd_provider_pass_id (read_pass db w) = wp_provider_pass_id w"
  "pd_left_behind_pass_id (read_pass db w) = wp_left_behind_pass_id w" "pd_row (read_pass db w) = w"
  by (simp_all add: read_pass_def)

lemma delete_at_provider_honest:
  assumes honest: "honest_provider pv held" and run: "delete_at_provider env pv eid (read_pass db w) (db1, p) = (r, (db', p'))"
  shows "db' = db1 \<and> held p' \<subseteq> held p \<and> held p - held p' \<subseteq> passes_of eid w \<and>
    (\<forall>n. r = Inr (Gone, n) \<longrightarrow> nothing_left eid held p' w \<and> settled_for eid env held p db w)"
proof -
  define q where "q = (case wp_provider_pass_id w of None \<Rightarrow> p | Some i \<Rightarrow> snd (pp_delete_pass pv i p))"
  have q: "held q \<subseteq> held p \<and> held p - held q \<subseteq> passes_of eid w"
  proof (cases "wp_provider_pass_id w")
    case (Some i)
    have "pp_delete_pass pv i p = (fst (pp_delete_pass pv i p), q)" by (simp add: q_def Some)
    from honest_pass [OF honest this] Some show ?thesis by (auto simp: passes_of_def)
  qed (simp add: q_def)
  show ?thesis
  proof (cases "\<forall>i. wp_provider_pass_id w = Some i \<longrightarrow> fst (pp_delete_pass pv i p) = Inr ()")
    case False
    then have "isl r \<and> db' = db1 \<and> p' = q"
      using run by (auto simp: delete_at_provider_def op_bind_def at_provider_def q_def split: sum.splits prod.splits)
    with q show ?thesis by auto
  next
    case True
    obtain a b p2 where under: "delete_passes_under pv (reserved_pass_id eid w) 0 (db1, q) = (a, (b, p2))"
      by (metis prod_cases3)
    have "wp_provider_pass_id w = Some i \<Longrightarrow> pp_delete_pass pv i p = (Inr (), q)" for i
      using True by (simp add: q_def prod_eq_iff)
    then have first: "(case wp_provider_pass_id w of None \<Rightarrow> op_return () | Some i \<Rightarrow> at_provider (pp_delete_pass pv i)) (db1, p) = (Inr (), (db1, q))"
      by (cases "wp_provider_pass_id w") (simp add: q_def op_return_def, simp add: at_provider_def)
    have r: "b = db' \<and> p2 = p' \<and> r = map_sum id (\<lambda>n. (verdict_of (pw_now env (wp_attendee_id w)) (read_pass db w) (n > 0), n)) a"
      using run by (cases a)
        (simp_all add: delete_at_provider_def op_bind_def first under read_pass_simps op_return_def verdict_of_def)
    note u = delete_passes_under_honest [OF honest under]
    have recorded: "wp_provider_pass_id w \<noteq> Some (fst x)" if "x \<in> held p'" for x
    proof
      assume x: "wp_provider_pass_id w = Some (fst x)"
      with True have "pp_delete_pass pv (fst x) p = (Inr (), q)" by (simp add: q_def prod_eq_iff)
      from honest_pass [OF honest this] u r that show False by auto
    qed
    have "nothing_left eid held p' w \<and> settled_for eid env held p db w" if "r = Inr (Gone, n)" for n
    proof -
      from that r obtain m where m: "a = Inr m" "verdict_of (pw_now env (wp_attendee_id w)) (read_pass db w) (m > 0) = Gone"
        by (cases a) auto
      have "settled_for eid env held p db w"
      proof -
        have "\<exists>x \<in> held p. snd x = reserved_pass_id eid w" if "m > 0"
        proof -
          from u m(1) that have "\<exists>x \<in> held q. snd x = reserved_pass_id eid w" by auto
          with q show ?thesis by auto
        qed
        with m(2) show ?thesis
          by (auto simp: verdict_of_def settled_for_def read_pass_def split: if_splits)
      qed
      with u r m(1) recorded show ?thesis by (auto simp: nothing_left_def)
    qed
    moreover have "held p' \<subseteq> held p" "held p - held p' \<subseteq> passes_of eid w"
      using u r q by (auto simp: passes_of_def)
    ultimately show ?thesis using u r by simp
  qed
qed

section \<open>Everything a run writes\<close>

definition is_gone :: "outcome \<Rightarrow> bool" where
  "is_gone out = (case out of Pass_gone _ \<Rightarrow> True | _ \<Rightarrow> False)"

lemma nothing_left_mono: "held p' \<subseteq> held p \<Longrightarrow> nothing_left eid held p w \<Longrightarrow> nothing_left eid held p' w"
  by (auto simp: nothing_left_def)

lemma settled_for_mono: "held p \<subseteq> held p0 \<Longrightarrow> settled_for eid env held p db w \<Longrightarrow> settled_for eid env held p0 db w"
  by (auto simp: settled_for_def)

lemma delete_one_run:
  assumes honest: "honest_provider pv held"
  shows "\<exists>out s' q. delete_one env pv eid (read_pass db w) (s, p) = (Inr out, (s', q)) \<and>
    held q \<subseteq> held p \<and> held p - held q \<subseteq> passes_of eid w \<and>
    (is_gone out \<longrightarrow> nothing_left eid held q w \<and> settled_for eid env held p db w \<and>
      s' = mark_removed (pw_mark_time env (wp_attendee_id w)) (read_pass db w) (pw_others env (wp_attendee_id w) s)) \<and>
    (\<not> is_gone out \<longrightarrow> s' = s \<or> s' = pw_others env (wp_attendee_id w) s)"
proof -
  let ?aid = "wp_attendee_id w"
  obtain r b q where run: "delete_at_provider env pv eid (read_pass db w) (s, p) = (r, (b, q))" by (metis prod_cases3)
  note d = delete_at_provider_honest [OF honest run]
  show ?thesis
  proof (cases "\<exists>n. r = Inr (Gone, n) \<and> pw_mark_error env ?aid = None")
    case True
    then obtain n where n: "r = Inr (Gone, n)" "pw_mark_error env ?aid = None" by blast
    then have "delete_one env pv eid (read_pass db w) (s, p) = (Inr (Pass_gone n),
        (mark_removed (pw_mark_time env ?aid) (read_pass db w) (pw_others env ?aid s), q))"
      using run d by (simp add: delete_one_def Let_def op_catch_def op_bind_def on_db_def op_return_def)
    with d n show ?thesis by (simp add: is_gone_def)
  next
    case False
    then have "\<exists>out s'. \<not> is_gone out \<and> (s' = s \<or> s' = pw_others env ?aid s) \<and>
        delete_one env pv eid (read_pass db w) (s, p) = (Inr out, (s', q))"
      using run d
      by (auto simp: delete_one_def Let_def op_catch_def op_bind_def on_db_def op_return_def op_throw_def is_gone_def
          split: sum.splits verdict.splits option.splits)
    with d show ?thesis by blast
  qed
qed

text \<open>
  An invariant of the database and the rows marked so far, which others keep and every mark of a row keeps, is kept by
  a batch and by a whole run; the rows marked are those of which nothing is left.
\<close>

definition kept_by_run :: "pass_env \<Rightarrow> admin_db \<Rightarrow> wallet_pass set \<Rightarrow> (wallet_pass set \<Rightarrow> admin_db \<Rightarrow> bool) \<Rightarrow> bool" where
  "kept_by_run env db Q I \<longleftrightarrow> (\<forall>D s i. I D s \<longrightarrow> I D (pw_others env i s)) \<and>
     (\<forall>D s w. I D s \<and> w \<in> Q - D \<and> wp_left_behind_pass_id w = None \<longrightarrow>
        I (insert w D) (mark_removed (pw_mark_time env (wp_attendee_id w)) (read_pass db w) s))"

definition marked_since :: "string \<Rightarrow> pass_env \<Rightarrow> 'p holdings \<Rightarrow> admin_db \<Rightarrow> 'p \<Rightarrow> 'p \<Rightarrow> wallet_pass set \<Rightarrow> wallet_pass set \<Rightarrow> bool" where
  "marked_since eid env held db p q D D' \<longleftrightarrow> D \<subseteq> D' \<and> (\<forall>w \<in> D' - D. nothing_left eid held q w \<and> settled_for eid env held p db w)"

lemma marked_since_trans:
  assumes "marked_since eid env held db p q D D1" "marked_since eid env held db q r D1 D2" "held q \<subseteq> held p" "held r \<subseteq> held q"
  shows "marked_since eid env held db p r D D2"
  using assms nothing_left_mono [of held r q] settled_for_mono [of held q p] unfolding marked_since_def by blast

lemma collect_outcomes_run:
  assumes honest: "honest_provider pv held" and inv: "kept_by_run env db Q I"
  shows "set ws \<subseteq> Q - D \<Longrightarrow> distinct ws \<Longrightarrow> I D s \<Longrightarrow> \<exists>outs s' q D'.
    op_fold (collect_outcome env pv eid) (map (read_pass db) ws) outs0 (s, p) = (Inr (outs0 @ outs), (s', q)) \<and>
    length outs = length ws \<and> I D' s' \<and> held q \<subseteq> held p \<and> held p - held q \<subseteq> (\<Union>w \<in> set ws. passes_of eid w) \<and>
    D' - D \<subseteq> set ws \<and> marked_since eid env held db p q D D' \<and> card (D' - D) = length (filter is_gone outs)"
proof (induction ws arbitrary: outs0 D s p)
  case Nil
  then show ?case by (auto simp: op_return_def marked_since_def)
next
  case (Cons w ws)
  obtain out u q where one: "delete_one env pv eid (read_pass db w) (s, p) = (Inr out, (u, q))"
    and held: "held q \<subseteq> held p" "held p - held q \<subseteq> passes_of eid w"
    and gone: "is_gone out \<Longrightarrow> nothing_left eid held q w \<and> settled_for eid env held p db w \<and>
      u = mark_removed (pw_mark_time env (wp_attendee_id w)) (read_pass db w) (pw_others env (wp_attendee_id w) s)"
    and not_gone: "\<not> is_gone out \<Longrightarrow> u = s \<or> u = pw_others env (wp_attendee_id w) s"
    using delete_one_run [OF honest, of env eid db w s p] by blast
  define D1 where "D1 = (if is_gone out then insert w D else D)"
  have I1: "I D1 u"
    using gone not_gone Cons.prems(1,3) inv by (auto simp: D1_def kept_by_run_def settled_for_def)
  have since: "marked_since eid env held db p q D D1" using gone by (auto simp: marked_since_def D1_def)
  have "set ws \<subseteq> Q - D1" using Cons.prems by (auto simp: D1_def)
  then obtain outs s' r D2 where rest:
      "op_fold (collect_outcome env pv eid) (map (read_pass db) ws) (outs0 @ [out]) (u, q) = (Inr ((outs0 @ [out]) @ outs), (s', r))"
      "length outs = length ws" "I D2 s'" "held r \<subseteq> held q" "held q - held r \<subseteq> (\<Union>w \<in> set ws. passes_of eid w)"
      "D2 - D1 \<subseteq> set ws" "marked_since eid env held db q r D1 D2" "card (D2 - D1) = length (filter is_gone outs)"
    using Cons.IH [of D1 u "outs0 @ [out]" q] Cons.prems(2) I1 by auto
  have "card (D2 - D) = length (filter is_gone (out # outs))"
  proof (cases "is_gone out")
    case True
    then have "D2 - D = insert w (D2 - D1)" "w \<notin> D2 - D1" "finite (D2 - D1)"
      using rest(6,7) Cons.prems(1) finite_subset [OF rest(6)] by (auto simp: D1_def marked_since_def)
    with rest(8) True show ?thesis by simp
  next
    case False
    with rest(8) show ?thesis by (simp add: D1_def)
  qed
  moreover have "marked_since eid env held db p r D D2"
    using marked_since_trans [OF since rest(7) held(1) rest(4)] .
  moreover have "op_fold (collect_outcome env pv eid) (map (read_pass db) (w # ws)) outs0 (s, p) = (Inr (outs0 @ out # outs), (s', r))"
    using one rest(1) by (simp add: op_bind_def collect_outcome_def op_return_def)
  moreover have "held p - held r \<subseteq> (\<Union>w \<in> set (w # ws). passes_of eid w)" using held rest(4,5) by auto
  moreover have "D2 - D \<subseteq> set (w # ws)" using rest(6) by (auto simp: D1_def split: if_splits)
  ultimately show ?case using rest(2,3,4) held(1)
    by (intro exI [of _ "out # outs"] exI [of _ s'] exI [of _ r] exI [of _ D2]) auto
qed

section \<open>All rows\<close>

definition handled :: "follow_up_result \<Rightarrow> nat" where
  "handled r = fu_deleted r + fu_undecided r + length (fu_failed_attendee_ids r)"

lemma record_outcomes:
  "fu_deleted (fold record_outcome outs r) = fu_deleted r + length (filter is_gone outs)"
  "handled (fold record_outcome outs r) = handled r + length outs"
  "fu_not_tried (fold record_outcome outs r) = fu_not_tried r"
  by (induction outs arbitrary: r) (auto simp: record_outcome_def handled_def is_gone_def split: outcome.split)

lemma follow_up_from_run:
  assumes honest: "honest_provider pv held" and inv: "kept_by_run env db Q I"
  shows "set ws \<subseteq> Q - D \<Longrightarrow> distinct ws \<Longrightarrow> I D s \<Longrightarrow> fu_not_tried r = 0 \<Longrightarrow> \<exists>r' s' q D'.
    follow_up_from env pv eid budget i (map (read_pass db) ws) r (s, p) = (Inr r', (s', q)) \<and>
    I D' s' \<and> held q \<subseteq> held p \<and> held p - held q \<subseteq> (\<Union>w \<in> set ws. passes_of eid w) \<and>
    D' - D \<subseteq> set ws \<and> marked_since eid env held db p q D D' \<and>
    fu_deleted r' = fu_deleted r + card (D' - D) \<and> handled r' + fu_not_tried r' = handled r + length ws"
proof (induction "length ws" arbitrary: ws i D s p r rule: less_induct)
  case less
  consider (finished) "ws = []" | (over) "ws \<noteq> []" "budget_is_over env budget i"
    | (batch) "ws \<noteq> []" "\<not> budget_is_over env budget i" by blast
  then show ?case
  proof cases
    case finished
    with less.prems show ?thesis by (subst follow_up_from.simps) (auto simp: op_return_def marked_since_def intro!: exI [of _ D])
  next
    case over
    with less.prems show ?thesis
      by (subst follow_up_from.simps) (auto simp: op_return_def handled_def marked_since_def intro!: exI [of _ D])
  next
    case batch
    let ?now = "take delete_concurrency ws" and ?later = "drop delete_concurrency ws"
    have parts: "set ?now \<subseteq> set ws" "set ?later \<subseteq> set ws" by (simp_all add: set_take_subset set_drop_subset)
    have apart: "set ?now \<inter> set ?later = {}" using less.prems(2) by (rule set_take_disj_set_drop_if_distinct) simp
    obtain outs u q D1 where one: "op_fold (collect_outcome env pv eid) (map (read_pass db) ?now) [] (s, p) = (Inr outs, (u, q))"
        "length outs = length ?now" "I D1 u" "held q \<subseteq> held p" "held p - held q \<subseteq> (\<Union>w \<in> set ?now. passes_of eid w)"
        "D1 - D \<subseteq> set ?now" "marked_since eid env held db p q D D1" "card (D1 - D) = length (filter is_gone outs)"
      using collect_outcomes_run [OF honest inv subset_trans [OF parts(1) less.prems(1)] _ less.prems(3), of eid "[]" p]
        distinct_take [OF less.prems(2)] by (metis append_Nil)
    let ?r = "fold record_outcome outs r"
    have "set ?later \<subseteq> Q - D1" using less.prems(1) parts apart one(6) by blast
    moreover have "length ?later < length ws" using batch(1) by (simp add: delete_concurrency_def)
    ultimately obtain r' s' t D2 where rest:
        "follow_up_from env pv eid budget (i + delete_concurrency) (map (read_pass db) ?later) ?r (u, q) = (Inr r', (s', t))"
        "I D2 s'" "held t \<subseteq> held q" "held q - held t \<subseteq> (\<Union>w \<in> set ?later. passes_of eid w)"
        "D2 - D1 \<subseteq> set ?later" "marked_since eid env held db q t D1 D2"
        "fu_deleted r' = fu_deleted ?r + card (D2 - D1)" "handled r' + fu_not_tried r' = handled ?r + length ?later"
      using less.hyps [of ?later D1 u ?r "i + delete_concurrency" q] distinct_drop [OF less.prems(2)] one(3)
        record_outcomes(3) [of outs r, unfolded less.prems(4)] by blast
    have since: "marked_since eid env held db p t D D2"
      by (rule marked_since_trans [OF one(7) rest(6) one(4) rest(3)])
    have "D2 - D = (D2 - D1) \<union> (D1 - D)" using since one(7) rest(6) by (auto simp: marked_since_def)
    then have card: "card (D2 - D) = card (D2 - D1) + card (D1 - D)"
      using card_Un_disjoint [of "D2 - D1" "D1 - D"] finite_subset [OF rest(5)] finite_subset [OF one(6)] by auto
    have "follow_up_from env pv eid budget i (map (read_pass db) ws) r (s, p) =
        op_bind (op_fold (collect_outcome env pv eid) (map (read_pass db) ?now) []) (\<lambda>outs.
          follow_up_from env pv eid budget (i + delete_concurrency) (map (read_pass db) ?later) (fold record_outcome outs r)) (s, p)"
      using batch by (subst follow_up_from.simps) (simp add: take_map drop_map)
    also have "\<dots> = (Inr r', (s', t))" by (simp only: op_bind_def one(1) rest(1) prod.case sum.case)
    finally have "follow_up_from env pv eid budget i (map (read_pass db) ws) r (s, p) = (Inr r', (s', t))" .
    moreover have "held p - held t \<subseteq> (\<Union>w \<in> set ws. passes_of eid w)"
    proof -
      have "(\<Union>w \<in> set ?now. passes_of eid w) \<union> (\<Union>w \<in> set ?later. passes_of eid w) \<subseteq> (\<Union>w \<in> set ws. passes_of eid w)"
        by (rule Un_least) (rule UN_mono [OF parts(1) order.refl], rule UN_mono [OF parts(2) order.refl])
      moreover have "held p - held t \<subseteq> (held p - held q) \<union> (held q - held t)" by blast
      ultimately show ?thesis using Un_mono [OF one(5) rest(4)] by (meson order.trans)
    qed
    moreover have "D2 - D \<subseteq> set ws" using one(6) rest(5) parts by blast
    moreover have "held t \<subseteq> held p" using one(4) rest(3) by blast
    moreover have "fu_deleted r' = fu_deleted r + card (D2 - D)"
      using rest(7) one(8) card by (simp add: record_outcomes)
    moreover have "length ?now + length ?later = length ws" by simp
    then have "handled r' + fu_not_tried r' = handled r + length ws"
      using rest(8) one(2) by (simp add: record_outcomes)
    ultimately show ?thesis using since rest(2)
      by (intro exI [of _ r'] exI [of _ s'] exI [of _ t] exI [of _ D2] conjI)
  qed
qed

text \<open>The rows a run is about, and the whole run.\<close>

definition in_question :: "string \<Rightarrow> string list \<Rightarrow> admin_db \<Rightarrow> wallet_pass list" where
  "in_question eid ids db = filter (erased_pass_to_delete_where eid (Some ids) db) (ad_passes db)"

lemma follow_up_run:
  assumes honest: "honest_provider pv held" and inv: "kept_by_run env db (set (in_question eid ids db)) I" and start: "I {} db"
    and uniq: "distinct (map wp_attendee_id (ad_passes db))"
  shows "\<exists>res db' p' D. delete_erased_wallet_passes env pv eid ids budget (db, p) = (Inr res, (db', p')) \<and> I D db' \<and>
    D \<subseteq> set (in_question eid ids db) \<and> (\<forall>w \<in> D. nothing_left eid held p' w \<and> settled_for eid env held p db w) \<and>
    held p' \<subseteq> held p \<and> held p - held p' \<subseteq> (\<Union>w \<in> set (in_question eid ids db). passes_of eid w) \<and>
    fu_deleted res = card D \<and>
    fu_deleted res + fu_undecided res + length (fu_failed_attendee_ids res) + fu_not_tried res = length (in_question eid ids db)"
proof (cases "ids = []")
  case True
  then have "in_question eid ids db = []" by (simp add: in_question_def erased_pass_to_delete_where_def)
  with True start show ?thesis
    by (intro exI [of _ no_follow_up] exI [of _ db] exI [of _ p] exI [of _ "{}"])
      (simp add: delete_erased_wallet_passes_def op_return_def no_follow_up_def)
next
  case False
  let ?ws = "sort_key wp_attendee_id (in_question eid ids db)"
  have run: "delete_erased_wallet_passes env pv eid ids budget (db, p) =
      follow_up_from env pv eid budget 0 (map (read_pass db) ?ws) no_follow_up (db, p)"
    using False by (simp add: delete_erased_wallet_passes_def op_bind_def op_read_def passes_to_delete_def in_question_def)
  have "distinct ?ws" using uniq by (simp add: distinct_map in_question_def)
  from follow_up_from_run [OF honest inv _ this start, of no_follow_up eid budget 0 p]
  show ?thesis unfolding run by (fastforce simp: no_follow_up_def handled_def marked_since_def)
qed

text \<open>
  A step of the database while a run is on its way: a commit of others at a waiting point, or one mark of
  the run, on a row of \<open>D\<close> that still has the provider's id it was read with, no mark and no pass left behind.
\<close>

definition marks_row :: "wallet_pass \<Rightarrow> int \<Rightarrow> admin_db \<Rightarrow> admin_db \<Rightarrow> bool" where
  "marks_row w t s s' \<longleftrightarrow> s' = s\<lparr>ad_passes := ad_passes s'\<rparr> \<and> list_all2 (\<lambda>x y.
     y = (if wp_attendee_id x = wp_attendee_id w \<and> wp_provider_pass_id x = wp_provider_pass_id w \<and>
            wp_provider_removed_at x = None \<and> wp_left_behind_pass_id x = None
          then x\<lparr>wp_provider_removed_at := Some t\<rparr> else x)) (ad_passes s) (ad_passes s')"

definition follow_up_step :: "pass_env \<Rightarrow> wallet_pass set \<Rightarrow> admin_db \<Rightarrow> admin_db \<Rightarrow> bool" where
  "follow_up_step env D s s' \<longleftrightarrow> (\<exists>i. s' = pw_others env i s) \<or> (\<exists>w \<in> D. marks_row w (pw_mark_time env (wp_attendee_id w)) s s')"

lemma mark_removed_marks: "marks_row w t s (mark_removed t (read_pass db w) s)"
  by (auto simp: marks_row_def mark_removed_def update_where_def list_all2_map2 intro!: list_all2_refl)

lemma steps_kept: "kept_by_run env db Q (\<lambda>D. (follow_up_step env D)\<^sup>*\<^sup>* db)"
  unfolding kept_by_run_def
proof (intro conjI allI impI)
  fix D s i
  assume "(follow_up_step env D)\<^sup>*\<^sup>* db s"
  then show "(follow_up_step env D)\<^sup>*\<^sup>* db (pw_others env i s)"
    by (rule rtranclp.rtrancl_into_rtrancl) (auto simp: follow_up_step_def)
next
  fix D s w
  let ?t = "mark_removed (pw_mark_time env (wp_attendee_id w)) (read_pass db w) s"
  assume "(follow_up_step env D)\<^sup>*\<^sup>* db s \<and> w \<in> Q - D \<and> wp_left_behind_pass_id w = None"
  moreover have "follow_up_step env D \<le> follow_up_step env (insert w D)" by (auto simp: follow_up_step_def)
  ultimately have "(follow_up_step env (insert w D))\<^sup>*\<^sup>* db s" using rtranclp_mono by blast
  then show "(follow_up_step env (insert w D))\<^sup>*\<^sup>* db ?t"
    by (rule rtranclp.rtrancl_into_rtrancl) (auto simp: follow_up_step_def mark_removed_marks)
qed

text \<open>C23: The follow-up of an erasure at the wallet provider marks only what is gone, whatever others commit while it waits.
  Against a provider that keeps its documented contract, however often it fails, the run returns, and all that happens to the
  database meanwhile is the commits of others and marks of the run. A mark hits only a row in question (of an
  erased person of the event, as read at the start) of which the provider holds nothing any more, neither the recorded pass nor any under the
  reserved id, and of which nothing can still be on its way (the erasure or the creation is old enough, or the unrecorded pass was
  found). It hits it only if the row at that moment has the provider's id it was read with, is not marked yet and has no
  pass left behind in another account: a row that a late creation filled meanwhile stays still to delete. Nothing else of the row and no
  other row changes. The provider lost no pass of anybody else, the run reports as deleted exactly the rows it found gone, and
  the result accounts for every row in question.\<close>

theorem follow_up_marks_only_what_is_gone:
  assumes honest: "honest_provider pv held" and uniq: "distinct (map wp_attendee_id (ad_passes db))"
  shows "\<exists>res db' p' D. delete_erased_wallet_passes env pv eid ids budget (db, p) = (Inr res, (db', p')) \<and>
    (follow_up_step env D)\<^sup>*\<^sup>* db db' \<and>
    D \<subseteq> set (in_question eid ids db) \<and> (\<forall>w \<in> D. nothing_left eid held p' w \<and> settled_for eid env held p db w) \<and>
    held p' \<subseteq> held p \<and> held p - held p' \<subseteq> (\<Union>w \<in> set (in_question eid ids db). passes_of eid w) \<and>
    fu_deleted res = card D \<and>
    fu_deleted res + fu_undecided res + length (fu_failed_attendee_ids res) + fu_not_tried res = length (in_question eid ids db)"
  by (rule follow_up_run [OF honest steps_kept _ uniq]) simp

text \<open>A provider that holds its passes in a list, the reserved id of the sample guest twice.\<close>

definition sample_provider :: "(string \<times> string) list pass_provider" where
  "sample_provider = \<lparr>pp_delete_pass = (\<lambda>i p. (Inr (), filter (\<lambda>x. fst x \<noteq> i) p)),
     pp_delete_by_user_id = (\<lambda>u p. case List.find (\<lambda>x. snd x = u) p of
        None \<Rightarrow> (Inr False, p) | Some x \<Rightarrow> (Inr True, filter (\<lambda>y. y \<noteq> x) p))\<rparr>"

definition sample_holdings :: "(string \<times> string) list" where
  "sample_holdings = [(''p1'', ''e1-a1''), (''p9'', ''e1-a1''), (''pz'', ''e1-a4'')]"

definition sample_pass_env :: pass_env where
  "sample_pass_env = \<lparr>pw_others = (\<lambda>_ s. s), pw_now = (\<lambda>_. 700000), pw_mark_time = (\<lambda>_. 700001),
     pw_mark_error = (\<lambda>_. None), pw_started = 700000, pw_batch_time = (\<lambda>_. 700000)\<rparr>"

definition sample_erased_db :: admin_db where
  "sample_erased_db = sample_guest_db\<lparr>ad_ops := (ad_ops sample_guest_db)\<lparr>attendees :=
     [(sample_guest ''a1'')\<lparr>att_erased_at := Some 0\<rparr>, sample_guest ''a4'']\<rparr>\<rparr>"

lemma sample_provider_honest: "honest_provider sample_provider set"
  by (auto simp: honest_provider_def sample_provider_def find_None_iff find_Some_iff split: option.splits)

theorem follow_up_marks_only_what_is_gone_witness:
  "\<exists>res db' p' D. delete_erased_wallet_passes sample_pass_env sample_provider ''e1'' [''a1'', ''a4''] None
       (sample_erased_db, sample_holdings) = (Inr res, (db', p')) \<and> (follow_up_step sample_pass_env D)\<^sup>*\<^sup>* sample_erased_db db' \<and>
     D \<subseteq> {sample_pass} \<and> fu_deleted res = card D \<and> set p' \<subseteq> set sample_holdings \<and>
     fu_deleted res + fu_undecided res + length (fu_failed_attendee_ids res) + fu_not_tried res = 1"
proof -
  have uniq: "distinct (map wp_attendee_id (ad_passes sample_erased_db))" by code_simp
  have one: "in_question ''e1'' [''a1'', ''a4''] sample_erased_db = [sample_pass]" by code_simp
  from follow_up_marks_only_what_is_gone [OF sample_provider_honest uniq, of sample_pass_env "''e1''" "[''a1'', ''a4'']" None sample_holdings]
  show ?thesis unfolding one list.set length_0_conv by fastforce
qed

text \<open>The sixth pass under one id is deleted, too, before the run gives up.\<close>

lemma a_sixth_pass_is_deleted:
  "delete_passes_under sample_provider ''u'' 0 (sample_erased_db, map (\<lambda>i. ([i], ''u'')) ''abcdefg'') =
     (Inl (Some ''wallet_provider_rejected''), (sample_erased_db, [(''g'', ''u'')]))"
  by code_simp

section \<open>A provider that works ends the matter\<close>

definition reliable_provider :: "'p pass_provider \<Rightarrow> 'p holdings \<Rightarrow> bool" where
  "reliable_provider pv held \<longleftrightarrow> honest_provider pv held \<and>
     (\<forall>i p. isl (fst (pp_delete_pass pv i p)) = False) \<and> (\<forall>u p. isl (fst (pp_delete_by_user_id pv u p)) = False) \<and>
     (\<forall>u p p'. pp_delete_by_user_id pv u p = (Inr True, p') \<longrightarrow> held p' \<noteq> held p)"

definition few_passes :: "'p holdings \<Rightarrow> 'p \<Rightarrow> bool" where
  "few_passes held p \<longleftrightarrow> finite (held p) \<and> (\<forall>u. card {x \<in> held p. snd x = u} \<le> max_passes_under_one_id)"

lemma few_passes_mono:
  assumes sub: "held q \<subseteq> held p" and few: "few_passes held p"
  shows "few_passes held q"
proof -
  from few have fin: "finite (held p)" by (simp add: few_passes_def)
  have "card {x \<in> held q. snd x = u} \<le> card {x \<in> held p. snd x = u}" for u
    using sub fin by (intro card_mono) auto
  with few have "card {x \<in> held q. snd x = u} \<le> max_passes_under_one_id" for u
    unfolding few_passes_def by (meson le_trans)
  with finite_subset [OF sub fin] show ?thesis by (simp add: few_passes_def)
qed

lemma delete_passes_under_reliable:
  assumes reliable: "reliable_provider pv held" and few: "finite (held p)" "card {x \<in> held p. snd x = u} + n \<le> max_passes_under_one_id"
  shows "\<not> isl (fst (delete_passes_under pv u n (db, p)))"
  using few
proof (induction "max_passes_under_one_id - n" arbitrary: n p rule: less_induct)
  case less
  from reliable have honest: "honest_provider pv held" by (simp add: reliable_provider_def)
  obtain found q where one: "pp_delete_by_user_id pv u p = (Inr found, q)"
    using reliable unfolding reliable_provider_def by (metis isl_def prod.collapse sum.collapse(2))
  note q = honest_user_id [OF honest one]
  show ?case
  proof (cases found)
    case False
    with one show ?thesis by (subst delete_passes_under.simps) (simp add: op_bind_def at_provider_def op_return_def)
  next
    case True
    with one reliable have "held q \<noteq> held p" by (simp add: reliable_provider_def)
    with q have "{x \<in> held q. snd x = u} \<subset> {x \<in> held p. snd x = u}" by blast
    then have fewer: "card {x \<in> held q. snd x = u} < card {x \<in> held p. snd x = u}"
      using less.prems(1) by (intro psubset_card_mono) simp_all
    then have n: "n < max_passes_under_one_id" using less.prems(2) by linarith
    have "finite (held q)" using q less.prems(1) finite_subset by blast
    with fewer n less.prems(2) have "\<not> isl (fst (delete_passes_under pv u (Suc n) (db, q)))"
      by (intro less.hyps) simp_all
    with one True n show ?thesis
      by (subst delete_passes_under.simps) (simp add: op_bind_def at_provider_def)
  qed
qed

text \<open>A row of which nothing can be on its way, whatever the clock says at its verdict.\<close>

definition settles :: "pass_env \<Rightarrow> admin_db \<Rightarrow> wallet_pass \<Rightarrow> bool" where
  "settles env db w \<longleftrightarrow> wp_left_behind_pass_id w = None \<and> pw_mark_error env (wp_attendee_id w) = None \<and>
     creations_are_settled (pw_now env (wp_attendee_id w)) (read_pass db w)"

lemma delete_one_reliable:
  assumes reliable: "reliable_provider pv held" and few: "few_passes held p" and settles: "settles env db w"
    and run: "delete_one env pv eid (read_pass db w) (db1, p) = (Inr out, (db', q))"
  shows "is_gone out \<and> held q \<subseteq> held p"
proof -
  from reliable have honest: "honest_provider pv held" by (simp add: reliable_provider_def)
  define p1 where "p1 = (case wp_provider_pass_id w of None \<Rightarrow> p | Some i \<Rightarrow> snd (pp_delete_pass pv i p))"
  have first: "(case wp_provider_pass_id w of None \<Rightarrow> op_return () | Some i \<Rightarrow> at_provider (pp_delete_pass pv i)) (db1, p) =
      (Inr (), (db1, p1)) \<and> held p1 \<subseteq> held p"
  proof (cases "wp_provider_pass_id w")
    case (Some i)
    have "\<not> isl (fst (pp_delete_pass pv i p))" using reliable by (simp add: reliable_provider_def)
    then have one: "pp_delete_pass pv i p = (Inr (), p1)"
      by (cases "pp_delete_pass pv i p"; cases "fst (pp_delete_pass pv i p)") (simp_all add: p1_def Some)
    with honest_pass [OF honest one] Some show ?thesis by (simp add: at_provider_def)
  qed (simp add: p1_def op_return_def)
  obtain a b p2 where under: "delete_passes_under pv (reserved_pass_id eid w) 0 (db1, p1) = (a, (b, p2))"
    by (metis prod_cases3)
  have "few_passes held p1" using few_passes_mono [of held p1 p] first few by blast
  then have "\<not> isl (fst (delete_passes_under pv (reserved_pass_id eid w) 0 (db1, p1)))"
    by (intro delete_passes_under_reliable [OF reliable]) (simp_all add: few_passes_def)
  with under obtain n where n: "a = Inr n" by (cases a) simp_all
  note u = delete_passes_under_honest [OF honest under]
  have "verdict_of (pw_now env (wp_attendee_id w)) (read_pass db w) (n > 0) = Gone"
    using settles by (simp add: verdict_of_def settles_def)
  then have "delete_at_provider env pv eid (read_pass db w) (db1, p) = (Inr (Gone, n), (db1, p2))"
    using under n first u by (simp add: delete_at_provider_def op_bind_def op_return_def)
  with run settles have "out = Pass_gone n \<and> q = p2"
    by (auto simp: delete_one_def Let_def op_catch_def op_bind_def on_db_def op_return_def settles_def)
  with first u show ?thesis by (auto simp: is_gone_def)
qed

lemma collect_Cons: "op_fold (collect_outcome env pv eid) (x # xs) outs s = (case delete_one env pv eid x s of
    (Inl e, t) \<Rightarrow> (Inl e, t) | (Inr out, t) \<Rightarrow> op_fold (collect_outcome env pv eid) xs (outs @ [out]) t)"
  by (auto simp: collect_outcome_def op_bind_def op_return_def split: sum.split prod.split)

lemma collect_outcomes_reliable:
  assumes "reliable_provider pv held" "few_passes held p" "\<forall>w \<in> set ws. settles env db w"
    and "op_fold (collect_outcome env pv eid) (map (read_pass db) ws) outs0 (db1, p) = (Inr outs, (db', q))"
    and "\<forall>out \<in> set outs0. is_gone out"
  shows "(\<forall>out \<in> set outs. is_gone out) \<and> held q \<subseteq> held p \<and> length outs = length outs0 + length ws"
  using assms(2-5)
proof (induction ws arbitrary: outs0 db1 p)
  case Nil
  then show ?case by (simp add: op_return_def)
next
  case (Cons w ws)
  obtain r d p1 where one: "delete_one env pv eid (read_pass db w) (db1, p) = (r, (d, p1))" by (metis prod_cases3)
  with Cons.prems(3) obtain out where out: "r = Inr out"
      "op_fold (collect_outcome env pv eid) (map (read_pass db) ws) (outs0 @ [out]) (d, p1) = (Inr outs, (db', q))"
    by (cases r) (simp_all add: collect_Cons del: op_fold.simps)
  with Cons.prems(2) delete_one_reliable [OF assms(1) Cons.prems(1) _ one [unfolded out(1)]]
  have gone: "is_gone out" "held p1 \<subseteq> held p" by simp_all
  with Cons.IH [OF few_passes_mono [OF gone(2) Cons.prems(1)] _ out(2)] Cons.prems(2,4) show ?case by auto
qed

lemma follow_up_from_reliable:
  assumes reliable: "reliable_provider pv held"
    and "few_passes held p" "\<forall>w \<in> set ws. settles env db w"
    and "follow_up_from env pv eid None i (map (read_pass db) ws) r (db1, p) = (Inr r', (db', q))"
    and "fu_not_tried r = 0"
  shows "fu_deleted r' = fu_deleted r + length ws \<and> fu_not_tried r' = 0"
  using assms(2-5)
proof (induction "length ws" arbitrary: ws i r db1 p rule: less_induct)
  case less
  show ?case
  proof (cases "ws = []")
    case True
    with less.prems show ?thesis by (subst (asm) follow_up_from.simps) (simp add: op_return_def)
  next
    case False
    let ?now = "take delete_concurrency ws" and ?later = "drop delete_concurrency ws"
    obtain a d p1 where one: "op_fold (collect_outcome env pv eid) (map (read_pass db) ?now) [] (db1, p) = (a, (d, p1))"
      by (metis prod_cases3)
    have "follow_up_from env pv eid None i (map (read_pass db) ws) r (db1, p) =
        op_bind (op_fold (collect_outcome env pv eid) (map (read_pass db) ?now) []) (\<lambda>outs.
          follow_up_from env pv eid None (i + delete_concurrency) (map (read_pass db) ?later) (fold record_outcome outs r)) (db1, p)"
      using False by (simp add: follow_up_from.simps [of env pv eid None i "map (read_pass db) ws"] budget_is_over_def take_map drop_map)
    with less.prems(3) one obtain outs where outs: "a = Inr outs"
        "follow_up_from env pv eid None (i + delete_concurrency) (map (read_pass db) ?later) (fold record_outcome outs r) (d, p1) =
          (Inr r', (db', q))"
      by (cases a) (simp_all only: op_bind_def prod.case sum.case, auto)
    have settles: "\<forall>w \<in> set ?now. settles env db w" "\<forall>w \<in> set ?later. settles env db w"
      using less.prems(2) by (auto dest: in_set_takeD in_set_dropD)
    from collect_outcomes_reliable [OF reliable less.prems(1) settles(1) one [unfolded outs(1)]]
    have gone: "\<forall>out \<in> set outs. is_gone out" "held p1 \<subseteq> held p" and len: "length outs = length ?now" by simp_all
    have "length ?later < length ws" using False by (simp add: delete_concurrency_def)
    from less.hyps [OF this few_passes_mono [OF gone(2) less.prems(1)] settles(2) outs(2)] less.prems(4) gone(1) len
    show ?thesis by (simp add: record_outcomes filter_True)
  qed
qed

text \<open>
  What a late creation leaves behind: a row with another pass than the one read, or with one in another account.
  Others that only record such passes: they keep the erasures in question, and
  every row of these people is a late one that is still to delete, or one from before, whose pass, mark and pass left behind they keep.
\<close>

definition late :: "wallet_pass \<Rightarrow> wallet_pass \<Rightarrow> bool" where
  "late w x \<longleftrightarrow> wp_provider_pass_id x \<noteq> wp_provider_pass_id w \<or> wp_left_behind_pass_id x \<noteq> None"

definition same_pass :: "wallet_pass \<Rightarrow> wallet_pass \<Rightarrow> bool" where
  "same_pass x y \<longleftrightarrow> wp_attendee_id y = wp_attendee_id x \<and> wp_provider_pass_id y = wp_provider_pass_id x \<and>
     wp_provider_removed_at y = wp_provider_removed_at x \<and> wp_left_behind_pass_id y = wp_left_behind_pass_id x \<and>
     (pass_row_still_at_provider x \<longrightarrow> pass_row_still_at_provider y)"

definition late_creations_only :: "string \<Rightarrow> pass_env \<Rightarrow> wallet_pass list \<Rightarrow> bool" where
  "late_creations_only eid env Q \<longleftrightarrow> (\<forall>i s. \<forall>w \<in> set Q.
     (erased_in_event eid (wp_attendee_id w) s \<longrightarrow> erased_in_event eid (wp_attendee_id w) (pw_others env i s)) \<and>
     (\<forall>y \<in> set (ad_passes (pw_others env i s)). wp_attendee_id y = wp_attendee_id w \<longrightarrow>
        late w y \<and> pass_row_still_at_provider y \<or> (\<exists>x \<in> set (ad_passes s). same_pass x y)))"

text \<open>A row in question while the run is on its way: filled meanwhile, or as it was read, marked or not.\<close>

definition on_its_way :: "wallet_pass set \<Rightarrow> wallet_pass \<Rightarrow> wallet_pass \<Rightarrow> bool" where
  "on_its_way D w x \<longleftrightarrow> late w x \<and> pass_row_still_at_provider x \<or>
     \<not> late w x \<and> (wp_provider_removed_at x = None \<longleftrightarrow> w \<notin> D)"

definition question_kept :: "string \<Rightarrow> wallet_pass list \<Rightarrow> wallet_pass set \<Rightarrow> admin_db \<Rightarrow> bool" where
  "question_kept eid Q D s \<longleftrightarrow> (\<forall>w \<in> set Q. erased_in_event eid (wp_attendee_id w) s \<and>
     (\<forall>x \<in> set (ad_passes s). wp_attendee_id x = wp_attendee_id w \<longrightarrow> on_its_way D w x))"

lemma on_its_way_kept: "same_pass x y \<Longrightarrow> on_its_way D w x \<Longrightarrow> on_its_way D w y"
  by (auto simp: on_its_way_def same_pass_def late_def)

lemma erased_in_event_marked [simp]: "erased_in_event eid i (mark_removed t q s) = erased_in_event eid i s"
  by (simp add: erased_in_event_def mark_removed_def)

lemma question_kept_by_run:
  assumes others: "late_creations_only eid env Q" and inj: "inj_on wp_attendee_id (set Q)"
  shows "kept_by_run env db (set Q) (question_kept eid Q)"
  unfolding kept_by_run_def
proof (intro conjI allI impI)
  fix D s i
  assume kept: "question_kept eid Q D s"
  show "question_kept eid Q D (pw_others env i s)"
    unfolding question_kept_def
  proof (intro ballI conjI impI)
    fix w assume w: "w \<in> set Q"
    with kept others show "erased_in_event eid (wp_attendee_id w) (pw_others env i s)"
      by (simp add: question_kept_def late_creations_only_def)
    fix y assume y: "y \<in> set (ad_passes (pw_others env i s))" "wp_attendee_id y = wp_attendee_id w"
    with w others consider "late w y \<and> pass_row_still_at_provider y" | x where "x \<in> set (ad_passes s)" "same_pass x y"
      unfolding late_creations_only_def by blast
    then show "on_its_way D w y"
    proof cases
      case 1
      then show ?thesis by (simp add: on_its_way_def)
    next
      case 2
      with y(2) have "wp_attendee_id x = wp_attendee_id w" by (simp add: same_pass_def)
      with kept w 2(1) have "on_its_way D w x" by (simp add: question_kept_def)
      with 2(2) show ?thesis by (rule on_its_way_kept)
    qed
  qed
next
  fix D s v
  let ?t = "mark_removed (pw_mark_time env (wp_attendee_id v)) (read_pass db v) s"
  assume "question_kept eid Q D s \<and> v \<in> set Q - D \<and> wp_left_behind_pass_id v = None"
  then have kept: "question_kept eid Q D s" and v: "v \<in> set Q" "v \<notin> D" by simp_all
  show "question_kept eid Q (insert v D) ?t"
    unfolding question_kept_def
  proof (intro ballI conjI impI)
    fix w assume w: "w \<in> set Q"
    with kept show "erased_in_event eid (wp_attendee_id w) ?t" by (simp add: question_kept_def)
    fix y assume y: "y \<in> set (ad_passes ?t)" "wp_attendee_id y = wp_attendee_id w"
    then obtain x where x: "x \<in> set (ad_passes s)" "wp_attendee_id x = wp_attendee_id w"
        "y = (if wp_attendee_id x = wp_attendee_id v \<and> wp_provider_pass_id x = wp_provider_pass_id v \<and>
            wp_provider_removed_at x = None \<and> wp_left_behind_pass_id x = None
          then x\<lparr>wp_provider_removed_at := Some (pw_mark_time env (wp_attendee_id v))\<rparr> else x)"
      by (auto simp: mark_removed_def update_where_def split: if_splits)
    with kept w have "on_its_way D w x" by (simp add: question_kept_def)
    moreover have "wp_attendee_id w = wp_attendee_id v \<longleftrightarrow> w = v" using inj w v(1) by (auto dest: inj_onD)
    ultimately show "on_its_way (insert v D) w y" using x(2,3) v(2)
      by (auto simp: on_its_way_def late_def split: if_splits)
  qed
qed

text \<open>C24: A provider that works ends the matter, and a creation that comes late is not lost. If the provider answers every
  call and holds at most five passes under one id, the database takes the marks, no row in question has a pass left behind in
  another account, the erasures (or else the recorded creations) are older than the settle window, and others at most record late creations for the
  people in question meanwhile, then one run without a budget reports every row in question as deleted and nothing failed or undecided. The
  provider then holds no pass the rows were read with, nor any under the reserved ids. A row of one of these people is still to delete
  afterwards exactly if a late creation filled it: with another pass, or with one left behind in another account.\<close>

theorem follow_up_finishes:
  fixes eid :: string and ids :: "string list"
  assumes reliable: "reliable_provider pv held" and few: "few_passes held p"
    and uniq: "distinct (map wp_attendee_id (ad_passes db))"
    and others: "late_creations_only eid env (in_question eid ids db)"
    and settles: "\<forall>w \<in> set (in_question eid ids db). settles env db w"
  shows "\<exists>res db' p'. delete_erased_wallet_passes env pv eid ids None (db, p) = (Inr res, (db', p')) \<and>
    fu_deleted res = length (in_question eid ids db) \<and> fu_failed_attendee_ids res = [] \<and> fu_undecided res = 0 \<and>
    (\<forall>w \<in> set (in_question eid ids db). nothing_left eid held p' w \<and>
       (\<forall>x \<in> set (ad_passes db'). wp_attendee_id x = wp_attendee_id w \<longrightarrow>
          (erased_pass_to_delete_where eid (Some ids) db' x \<longleftrightarrow> late w x)))"
proof -
  let ?Q = "in_question eid ids db"
  let ?ws = "sort_key wp_attendee_id ?Q"
  have honest: "honest_provider pv held" using reliable by (simp add: reliable_provider_def)
  have inj: "inj_on wp_attendee_id (set (ad_passes db))" using uniq by (simp add: distinct_map)
  have sub: "set ?Q \<subseteq> set (ad_passes db)" by (auto simp: in_question_def)
  have start: "question_kept eid ?Q {} db"
    unfolding question_kept_def
  proof (intro ballI conjI impI)
    fix w assume w: "w \<in> set ?Q"
    then show "erased_in_event eid (wp_attendee_id w) db" by (simp add: in_question_def erased_pass_to_delete_where_def)
    fix x assume "x \<in> set (ad_passes db)" "wp_attendee_id x = wp_attendee_id w"
    with w sub inj have "x = w" by (auto dest: inj_onD)
    moreover have "pass_row_still_at_provider w" using w by (simp add: in_question_def erased_pass_to_delete_where_def)
    moreover have "wp_left_behind_pass_id w = None" using settles w by (simp add: settles_def)
    ultimately show "on_its_way {} w x" by (simp add: on_its_way_def late_def pass_row_still_at_provider_def)
  qed
  obtain res db' p' D where run: "delete_erased_wallet_passes env pv eid ids None (db, p) = (Inr res, (db', p'))"
    and kept: "question_kept eid ?Q D db'" and D: "D \<subseteq> set ?Q" and gone: "\<forall>w \<in> D. nothing_left eid held p' w"
    and counts: "fu_deleted res = card D"
      "fu_deleted res + fu_undecided res + length (fu_failed_attendee_ids res) + fu_not_tried res = length ?Q"
    using follow_up_run [OF honest question_kept_by_run [OF others inj_on_subset [OF inj sub]] start uniq, of None p] by blast
  have all: "fu_deleted res = length ?Q"
  proof (cases "ids = []")
    case True
    then have "?Q = []" by (simp add: in_question_def erased_pass_to_delete_where_def)
    with counts show ?thesis by simp
  next
    case False
    then have "follow_up_from env pv eid None 0 (map (read_pass db) ?ws) no_follow_up (db, p) = (Inr res, (db', p'))"
      using run by (simp add: delete_erased_wallet_passes_def op_bind_def op_read_def passes_to_delete_def in_question_def)
    from follow_up_from_reliable [OF reliable few _ this] settles show ?thesis by (simp add: no_follow_up_def)
  qed
  have "distinct ?Q" using uniq by (simp add: in_question_def distinct_map)
  then have "D = set ?Q" using D all counts(1) by (intro card_seteq) (simp_all add: distinct_card)
  moreover have "erased_pass_to_delete_where eid (Some ids) db' x \<longleftrightarrow> late w x"
    if "w \<in> set ?Q" "x \<in> set (ad_passes db')" "wp_attendee_id x = wp_attendee_id w" for w x
  proof -
    have ids: "wp_attendee_id w \<in> set ids" using that(1) by (simp add: in_question_def erased_pass_to_delete_where_def)
    have "erased_in_event eid (wp_attendee_id w) db'" "on_its_way (set ?Q) w x"
      using kept that \<open>D = set ?Q\<close> by (simp_all add: question_kept_def)
    with ids that show ?thesis
      by (auto simp: erased_pass_to_delete_where_def on_its_way_def pass_row_still_at_provider_def late_def)
  qed
  ultimately show ?thesis using run gone all counts by auto
qed

lemma sample_provider_reliable: "reliable_provider sample_provider set"
proof -
  have "set (filter (\<lambda>y. y \<noteq> x) p) \<noteq> set p" if "List.find (\<lambda>x. snd x = u) p = Some x" for u x and p :: "(string \<times> string) list"
    using that by (auto simp: find_Some_iff)
  then show ?thesis
    using sample_provider_honest
    by (auto simp: reliable_provider_def sample_provider_def split: option.splits)
qed

text \<open>A creation that was on its way records its pass right before the mark.\<close>

definition late_pass_env :: pass_env where
  "late_pass_env = sample_pass_env\<lparr>pw_others := (\<lambda>_ s. s\<lparr>ad_passes := map (\<lambda>w.
     if wp_attendee_id w = ''a1'' then w\<lparr>wp_provider_pass_id := Some ''p7'', wp_provider_removed_at := None\<rparr> else w) (ad_passes s)\<rparr>)\<rparr>"

theorem follow_up_finishes_witness:
  "\<exists>res db' p'. delete_erased_wallet_passes late_pass_env sample_provider ''e1'' [''a1'', ''a4''] None
       (sample_erased_db, sample_holdings) = (Inr res, (db', p')) \<and> fu_deleted res = 1 \<and>
     nothing_left ''e1'' set p' sample_pass"
proof -
  have uniq: "distinct (map wp_attendee_id (ad_passes sample_erased_db))" by code_simp
  have one: "in_question ''e1'' [''a1'', ''a4''] sample_erased_db = [sample_pass]" by code_simp
  have "settles late_pass_env sample_erased_db sample_pass" by code_simp
  then have settles: "\<forall>w \<in> set (in_question ''e1'' [''a1'', ''a4''] sample_erased_db). settles late_pass_env sample_erased_db w"
    unfolding one by simp
  have few: "few_passes set sample_holdings"
  proof -
    have "card {x \<in> set sample_holdings. snd x = u} \<le> card (set sample_holdings)" for u
      by (rule card_mono) auto
    also have "card (set sample_holdings) \<le> max_passes_under_one_id" by code_simp
    finally show ?thesis by (simp add: few_passes_def)
  qed
  have p1: "wp_provider_pass_id sample_pass \<noteq> Some ''p7'' \<and> wp_attendee_id sample_pass = ''a1''" by code_simp
  have others: "late_creations_only ''e1'' late_pass_env (in_question ''e1'' [''a1'', ''a4''] sample_erased_db)"
    unfolding one late_creations_only_def list.set
    by (auto simp: late_pass_env_def late_def pass_row_still_at_provider_def erased_in_event_def p1 [THEN conjunct1, symmetric]
        p1 [THEN conjunct2])
  obtain res db' p' where "delete_erased_wallet_passes late_pass_env sample_provider ''e1'' [''a1'', ''a4''] None
        (sample_erased_db, sample_holdings) = (Inr res, (db', p'))"
      "fu_deleted res = length [sample_pass]" "\<forall>w \<in> set [sample_pass]. nothing_left ''e1'' set p' w"
    using follow_up_finishes [OF sample_provider_reliable few uniq others settles] unfolding one by blast
  then show ?thesis by (intro exI conjI) simp_all
qed

end
