(* ===== verification/Mail_Text.thy ===== *)
theory Mail_Text
  imports Adm_Prelude
begin

text \<open>
  What is stored of a provider's error: \<open>sanitizeDeliveryError\<close> of
  packages/mail-delivery/src/sanitizeError.ts. Three passes replace long tokens, addresses and URLs by
  a marker. The regular expressions are written out as the leftmost-longest scans they stand for;
  the address pass is the cursor loop of the code, the rest of the text being what is not yet read.
\<close>

definition redacted_mark :: string where
  "redacted_mark = ''[redacted]''"

definition upper_alpha :: "char \<Rightarrow> bool" where
  "upper_alpha c \<longleftrightarrow> 65 \<le> (of_char c :: nat) \<and> (of_char c :: nat) \<le> 90"

definition lower_alpha :: "char \<Rightarrow> bool" where
  "lower_alpha c \<longleftrightarrow> 97 \<le> (of_char c :: nat) \<and> (of_char c :: nat) \<le> 122"

definition digit :: "char \<Rightarrow> bool" where
  "digit c \<longleftrightarrow> 48 \<le> (of_char c :: nat) \<and> (of_char c :: nat) \<le> 57"

definition alnum :: "char \<Rightarrow> bool" where
  "alnum c \<longleftrightarrow> upper_alpha c \<or> lower_alpha c \<or> digit c"

definition email_local_char :: "char \<Rightarrow> bool" where
  "email_local_char c \<longleftrightarrow> alnum c \<or> c \<in> set ''._%+-''"

definition email_domain_char :: "char \<Rightarrow> bool" where
  "email_domain_char c \<longleftrightarrow> alnum c \<or> c \<in> set ''.-''"

definition max_stored_error_length :: nat where
  "max_stored_error_length = 2000"

definition max_email_address_length :: nat where
  "max_email_address_length = 320"

section \<open>Tokens\<close>

text \<open>\<open>/[A-Za-z0-9_-]{40,60}/g\<close>.\<close>

definition bearer_char :: "char \<Rightarrow> bool" where
  "bearer_char c \<longleftrightarrow> alnum c \<or> c \<in> set ''_-''"

definition token_run :: "string \<Rightarrow> string" where
  "token_run s = takeWhile bearer_char (take 60 s)"

function redact_tokens :: "string \<Rightarrow> string" where
  "redact_tokens s =
     (if length (token_run s) \<ge> 40 then redacted_mark @ redact_tokens (drop (length (token_run s)) s)
      else case s of [] \<Rightarrow> [] | c # r \<Rightarrow> c # redact_tokens r)"
  by pat_completeness auto
termination
proof (relation "measure length")
  fix s :: string
  assume "40 \<le> length (token_run s)"
  moreover have "length (token_run s) \<le> length s"
    unfolding token_run_def by (metis length_takeWhile_le length_take min.cobounded1 le_trans)
  ultimately show "(drop (length (token_run s)) s, s) \<in> measure length" by simp
qed simp_all

declare redact_tokens.simps [simp del]

section \<open>Addresses\<close>

fun split_dots :: "string \<Rightarrow> string list" where
  "split_dots [] = [[]]"
| "split_dots (c # r) = (if c = CHR ''.'' then [] # split_dots r
     else case split_dots r of [] \<Rightarrow> [[c]] | l # ls \<Rightarrow> (c # l) # ls)"

definition has_email_domain_shape :: "string \<Rightarrow> bool" where
  "has_email_domain_shape value \<longleftrightarrow>
     (let labels = split_dots value in length labels \<ge> 2 \<and> (\<forall>l \<in> set labels. length l > 0 \<and> length l \<le> 63))"

text \<open>
  The two halves of the candidate around an \<open>@\<close>: the run of local characters before it, and the
  run of domain characters after it without its closing dots.
\<close>

definition candidate_local :: "string \<Rightarrow> string" where
  "candidate_local before = rev (takeWhile email_local_char (rev before))"

definition candidate_domain :: "string \<Rightarrow> string" where
  "candidate_domain after = rev (dropWhile (\<lambda>c. c = CHR ''.'') (rev (takeWhile email_domain_char after)))"

definition is_email_candidate :: "string \<Rightarrow> string \<Rightarrow> bool" where
  "is_email_candidate before after \<longleftrightarrow>
     (let local = candidate_local before
      in length local > 0 \<and> length local \<le> 64 \<and> has_email_domain_shape (candidate_domain after))"

definition not_at :: "char \<Rightarrow> bool" where
  "not_at c \<longleftrightarrow> c \<noteq> CHR ''@''"

function redact_email_like_fragments :: "string \<Rightarrow> string" where
  "redact_email_like_fragments value =
     (let before = takeWhile not_at value
      in case dropWhile not_at value of
           [] \<Rightarrow> value
         | at # after \<Rightarrow>
             if is_email_candidate before after
             then take (length before - length (candidate_local before)) before @ redacted_mark @
                  redact_email_like_fragments (drop (length (candidate_domain after)) after)
             else before @ at # redact_email_like_fragments after)"
  by pat_completeness auto
termination
proof (relation "measure length", simp)
  fix v before after :: string and a :: char
  assume "dropWhile not_at v = a # after"
  then have "length (a # after) \<le> length v" by (metis length_dropWhile_le)
  then show "(drop (length (candidate_domain after)) after, v) \<in> measure length"
    and "(after, v) \<in> measure length"
    by auto
qed

declare redact_email_like_fragments.simps [simp del]

section \<open>URLs\<close>

text \<open>\<open>/https?:\/\/\S+/gi\<close>: the length of the scheme with its slashes at the start of the text, if any.\<close>

definition url_scheme_length :: "string \<Rightarrow> nat option" where
  "url_scheme_length s =
     (let low = js_lower (take 8 s)
      in if starts_with ''https://'' low then Some 8 else if starts_with ''http://'' low then Some 7 else None)"

definition url_run :: "string \<Rightarrow> nat option" where
  "url_run s = (case url_scheme_length s of None \<Rightarrow> None
     | Some n \<Rightarrow> (let rest = takeWhile (\<lambda>c. \<not> js_space c) (drop n s)
                  in if rest = [] then None else Some (n + length rest)))"

lemma url_run_bounds:
  assumes "url_run s = Some n" shows "0 < n" "n \<le> length s"
proof -
  obtain k where k: "url_scheme_length s = Some k" and n: "n = k + length (takeWhile (\<lambda>c. \<not> js_space c) (drop k s))"
      and ne: "takeWhile (\<lambda>c. \<not> js_space c) (drop k s) \<noteq> []"
    using assms by (auto simp: url_run_def Let_def split: option.splits if_splits)
  show "0 < n" using n ne by simp
  have "length (takeWhile (\<lambda>c. \<not> js_space c) (drop k s)) \<le> length (drop k s)" by (rule length_takeWhile_le)
  moreover have "drop k s \<noteq> []" using ne by (metis takeWhile.simps(1))
  ultimately show "n \<le> length s" unfolding n by simp
qed

function redact_urls :: "string \<Rightarrow> string" where
  "redact_urls s =
     (case url_run s of
        Some n \<Rightarrow> redacted_mark @ redact_urls (drop n s)
      | None \<Rightarrow> (case s of [] \<Rightarrow> [] | c # r \<Rightarrow> c # redact_urls r))"
  by pat_completeness auto
termination
proof (relation "measure length", simp)
  fix s :: string and n
  assume "url_run s = Some n"
  from url_run_bounds [OF this] show "(drop n s, s) \<in> measure length" by simp
qed simp

declare redact_urls.simps [simp del]

section \<open>The stored text\<close>

definition sanitize_delivery_error :: "string option \<Rightarrow> string option" where
  "sanitize_delivery_error message =
     (case message of None \<Rightarrow> None
      | Some m \<Rightarrow> if m = [] then None
          else Some (take max_stored_error_length (redact_urls (redact_email_like_fragments
                 (redact_tokens (take (max_stored_error_length + max_email_address_length) m))))))"

section \<open>No address is left\<close>

text \<open>
  An address-like fragment of a text: an \<open>@\<close> with both halves of a candidate around it. The halves
  never reach past another \<open>@\<close>, so the fragments can be looked for from one \<open>@\<close> to the next.
\<close>

definition has_email_like_fragment :: "string \<Rightarrow> bool" where
  "has_email_like_fragment s \<longleftrightarrow>
     (\<exists>before after. s = before @ CHR ''@'' # after \<and> is_email_candidate before after)"

lemma at_char [simp]: "\<not> email_local_char (CHR ''@'')" "\<not> email_domain_char (CHR ''@'')" "\<not> not_at (CHR ''@'')"
  by (simp_all add: email_local_char_def email_domain_char_def alnum_def upper_alpha_def lower_alpha_def digit_def not_at_def)

lemma bracket_char [simp]: "\<not> email_local_char (CHR '']'')" "\<not> email_domain_char (CHR ''['')"
  by (simp_all add: email_local_char_def email_domain_char_def alnum_def upper_alpha_def lower_alpha_def digit_def)

lemma domain_char_is_local: "email_domain_char c \<Longrightarrow> email_local_char c"
  by (auto simp: email_local_char_def email_domain_char_def)

lemma takeWhile_stop: "\<not> p c \<Longrightarrow> takeWhile p (x @ c # y) = takeWhile p x"
  by (induction x) simp_all

lemma candidate_local_past:
  "\<not> email_local_char c \<Longrightarrow> candidate_local (x @ c # y) = candidate_local y"
  by (simp add: candidate_local_def takeWhile_stop)

lemma candidate_local_suffix:
  "take (length x - length (candidate_local x)) x @ candidate_local x = x"
proof -
  have "x = rev (dropWhile email_local_char (rev x)) @ candidate_local x"
    by (metis candidate_local_def rev_append rev_rev_ident takeWhile_dropWhile_id)
  then show ?thesis by (metis append_eq_conv_conj diff_add_inverse2 length_append)
qed

lemma candidate_local_prefix:
  "take (length x - length (candidate_local x)) x = rev (dropWhile email_local_char (rev x))"
proof -
  have "x = rev (dropWhile email_local_char (rev x)) @ candidate_local x"
    by (metis candidate_local_def rev_append rev_rev_ident takeWhile_dropWhile_id)
  then show ?thesis by (metis append_eq_conv_conj diff_add_inverse2 length_append)
qed

lemma candidate_domain_cong:
  "takeWhile email_domain_char x = takeWhile email_domain_char y \<Longrightarrow> candidate_domain x = candidate_domain y"
  by (simp add: candidate_domain_def)

lemma no_domain_no_candidate:
  "takeWhile email_domain_char after = [] \<Longrightarrow> \<not> is_email_candidate before after"
  by (simp add: is_email_candidate_def candidate_domain_def has_email_domain_shape_def Let_def)

lemma split_at:
  assumes "dropWhile not_at s = c # after"
  shows "c = CHR ''@''" "s = takeWhile not_at s @ CHR ''@'' # after" "\<forall>d \<in> set (takeWhile not_at s). not_at d"
proof -
  show c: "c = CHR ''@''" using assms hd_dropWhile [of not_at s] by (simp add: not_at_def)
  show "s = takeWhile not_at s @ CHR ''@'' # after" using assms c by (metis takeWhile_dropWhile_id)
  show "\<forall>d \<in> set (takeWhile not_at s). not_at d" by (auto dest: set_takeWhileD)
qed

lemma no_at_no_fragment: "\<forall>d \<in> set s. not_at d \<Longrightarrow> \<not> has_email_like_fragment s"
  by (auto simp: has_email_like_fragment_def)

lemma same_split:
  assumes "\<forall>d \<in> set x. not_at d" "x @ CHR ''@'' # y = b @ CHR ''@'' # a"
  obtains "b = x" "a = y" | z where "b = x @ CHR ''@'' # z" "y = z @ CHR ''@'' # a"
proof -
  from assms(2) obtain us where "x = b @ us \<and> us @ CHR ''@'' # y = CHR ''@'' # a \<or>
      x @ us = b \<and> CHR ''@'' # y = us @ CHR ''@'' # a"
    by (auto simp: append_eq_append_conv2)
  then show thesis
    using assms(1) that by (cases us) auto
qed

lemma fragment_step:
  assumes "\<forall>d \<in> set before. not_at d"
  shows "has_email_like_fragment (before @ CHR ''@'' # after) \<longleftrightarrow>
    is_email_candidate before after \<or> has_email_like_fragment after"
proof
  assume "has_email_like_fragment (before @ CHR ''@'' # after)"
  then obtain b a where split: "before @ CHR ''@'' # after = b @ CHR ''@'' # a" and cand: "is_email_candidate b a"
    by (auto simp: has_email_like_fragment_def)
  from assms split show "is_email_candidate before after \<or> has_email_like_fragment after"
  proof (cases rule: same_split)
    case 1
    then show ?thesis using cand by simp
  next
    case (2 y)
    have "is_email_candidate y a" using cand unfolding 2(1) by (simp add: is_email_candidate_def candidate_local_past)
    then show ?thesis using 2(2) by (auto simp: has_email_like_fragment_def)
  qed
next
  assume "is_email_candidate before after \<or> has_email_like_fragment after"
  then show "has_email_like_fragment (before @ CHR ''@'' # after)"
  proof
    assume "has_email_like_fragment after"
    then obtain b a where "after = b @ CHR ''@'' # a" "is_email_candidate b a" by (auto simp: has_email_like_fragment_def)
    then have "before @ CHR ''@'' # after = (before @ CHR ''@'' # b) @ CHR ''@'' # a"
        "is_email_candidate (before @ CHR ''@'' # b) a"
      by (simp_all add: is_email_candidate_def candidate_local_past)
    then show ?thesis unfolding has_email_like_fragment_def by blast
  qed (auto simp: has_email_like_fragment_def)
qed

lemma fragment_past_mark:
  assumes "\<forall>d \<in> set p. not_at d"
  shows "has_email_like_fragment (p @ redacted_mark @ r) \<longleftrightarrow> has_email_like_fragment r"
proof (cases "dropWhile not_at r")
  case Nil
  then have r: "\<forall>d \<in> set r. not_at d" by simp
  with assms have "\<forall>d \<in> set (p @ redacted_mark @ r). not_at d" by (auto simp: redacted_mark_def not_at_def)
  with r show ?thesis by (simp only: no_at_no_fragment)
next
  case (Cons c after)
  let ?b = "takeWhile not_at r"
  note r = split_at [OF Cons]
  have local: "candidate_local (p @ redacted_mark @ ?b) = candidate_local ?b"
    using candidate_local_past [of "CHR '']''" "p @ ''[redacted''" ?b] by (simp add: redacted_mark_def)
  have "\<forall>d \<in> set (p @ redacted_mark @ ?b). not_at d"
    using assms r(3) by (auto simp: redacted_mark_def not_at_def)
  from fragment_step [OF this, of after] fragment_step [OF r(3), of after] local r(2) show ?thesis
    by (simp add: is_email_candidate_def)
qed

lemma redact_cases:
  "dropWhile not_at s = [] \<Longrightarrow> redact_email_like_fragments s = s"
  "dropWhile not_at s = c # after \<Longrightarrow> is_email_candidate (takeWhile not_at s) after \<Longrightarrow>
   redact_email_like_fragments s =
     take (length (takeWhile not_at s) - length (candidate_local (takeWhile not_at s))) (takeWhile not_at s) @
     redacted_mark @ redact_email_like_fragments (drop (length (candidate_domain after)) after)"
  "dropWhile not_at s = c # after \<Longrightarrow> \<not> is_email_candidate (takeWhile not_at s) after \<Longrightarrow>
   redact_email_like_fragments s = takeWhile not_at s @ c # redact_email_like_fragments after"
  by (subst redact_email_like_fragments.simps, simp only: Let_def list.case if_True if_False simp_thms)+

text \<open>What is read after an \<open>@\<close> is either unchanged by the rest of the pass or gone.\<close>

lemma redaction_keeps_or_drops_domain:
  "takeWhile email_domain_char (redact_email_like_fragments s) \<in> {takeWhile email_domain_char s, []}"
proof (cases "dropWhile not_at s")
  case Nil
  then show ?thesis by (simp only: redact_cases) simp
next
  case (Cons c after)
  let ?b = "takeWhile not_at s"
  note s = split_at [OF Cons]
  note stop = takeWhile_stop [of email_domain_char]
  have whole: "takeWhile email_domain_char s = takeWhile email_domain_char ?b"
    using stop [of "CHR ''@''" ?b after] s(2) by simp
  show ?thesis
  proof (cases "is_email_candidate ?b after")
    case False
    then show ?thesis
      by (simp only: redact_cases(3) [OF Cons False]) (simp add: s(1) whole stop)
  next
    case True
    let ?p = "take (length ?b - length (candidate_local ?b)) ?b"
    let ?r = "redact_email_like_fragments (drop (length (candidate_domain after)) after)"
    have out: "redact_email_like_fragments s = ?p @ CHR ''['' # tl redacted_mark @ ?r"
      by (simp only: redact_cases(2) [OF Cons True]) (simp add: redacted_mark_def)
    show ?thesis
    proof (cases "?p = []")
      case True
      show ?thesis unfolding out True by simp
    next
      case False
      have "?p = butlast ?p @ [last ?p]" using False by (rule append_butlast_last_id [symmetric])
      moreover have "\<not> email_local_char (last ?p)"
        using False hd_dropWhile [of email_local_char "rev ?b"] unfolding candidate_local_prefix by (simp add: last_rev)
      then have "\<not> email_domain_char (last ?p)" using domain_char_is_local by blast
      ultimately have "takeWhile email_domain_char (?p @ x) = takeWhile email_domain_char ?p" for x
        by (metis append.assoc append_Cons append_Nil stop)
      then show ?thesis unfolding out whole by (metis candidate_local_suffix insertI1)
    qed
  qed
qed

theorem redaction_leaves_no_address: "\<not> has_email_like_fragment (redact_email_like_fragments s)"
proof (induction s rule: redact_email_like_fragments.induct)
  case (1 s)
  let ?b = "takeWhile not_at s"
  show ?case
  proof (cases "dropWhile not_at s")
    case Nil
    then have "\<forall>d \<in> set s. not_at d" by simp
    then show ?thesis unfolding redact_cases(1) [OF Nil] by (rule no_at_no_fragment)
  next
    case (Cons c after)
    note s = split_at [OF Cons]
    show ?thesis
    proof (cases "is_email_candidate ?b after")
      case True
      have p: "\<forall>d \<in> set (take n ?b). not_at d" for n using s(3) by (auto dest: in_set_takeD)
      show ?thesis
        unfolding redact_cases(2) [OF Cons True] fragment_past_mark [OF p] by (rule 1(1) [OF refl Cons True])
    next
      case False
      have "\<not> is_email_candidate ?b (redact_email_like_fragments after)"
        using redaction_keeps_or_drops_domain [of after] False no_domain_no_candidate [of _ ?b]
          candidate_domain_cong [of "redact_email_like_fragments after" after]
        by (auto simp: is_email_candidate_def)
      with 1(2) [OF refl Cons False] show ?thesis
        unfolding redact_cases(3) [OF Cons False] s(1) fragment_step [OF s(3)] by blast
    qed
  qed
qed

lemma nothing_to_redact: "\<not> has_email_like_fragment s \<Longrightarrow> redact_email_like_fragments s = s"
proof (induction s rule: redact_email_like_fragments.induct)
  case (1 s)
  show ?case
  proof (cases "dropWhile not_at s")
    case Nil
    then show ?thesis by (rule redact_cases(1))
  next
    case (Cons c after)
    note s = split_at [OF Cons]
    from "1.prems" s(2) fragment_step [OF s(3), of after]
    have "\<not> is_email_candidate (takeWhile not_at s) after" "\<not> has_email_like_fragment after" by auto
    with 1(2) [OF refl Cons] have "redact_email_like_fragments s = takeWhile not_at s @ c # after"
      by (simp only: redact_cases(3) [OF Cons] simp_thms)
    with s(1,2) show ?thesis by simp
  qed
qed

end
