(* ===== verification/Mail_World.thy ===== *)
theory Mail_World
  imports Erase_Attendees Ticket_Resolve Mail_Text
begin

text \<open>
  The ground of mail delivery (packages/mail-delivery/src): the deliveries with the mail that was handed
  to the transport, the ownership of a delivery (ownership.ts, over \<open>withSessionAdvisoryLock\<close> of
  packages/db/src/adapter.ts), the retry policy (drain-retry.ts), what is written of a result
  (mapSendResult.ts, snapshot-unusable.ts) and the last check before a send (sendable.ts).
\<close>

section \<open>Errors, messages and the world\<close>

datatype mail_error_kind =
    Unique_key | Foreign_key | No_record | Ownership_lost | Mail_config string | Mail_destination string | Other_failure

datatype mail_error = Mail_error mail_error_kind string

fun error_kind :: "mail_error \<Rightarrow> mail_error_kind" where
  "error_kind (Mail_error k m) = k"

text \<open>\<open>err instanceof Error ? err.message : String(err)\<close>.\<close>

fun error_message :: "mail_error \<Rightarrow> string" where
  "error_message (Mail_error k m) = m"

record mail_message =
  mm_to :: string
  mm_subject :: string
  mm_html :: string
  mm_idempotency_key :: string

datatype send_status = Send_accepted | Send_sent | Send_failed | Send_rejected

record send_result =
  sr_status :: send_status
  sr_provider :: string
  sr_provider_message_id :: "string option"
  sr_error :: "string option"
  sr_retryable :: "bool option"

text \<open>The outbox records every message handed to the transport, with the delivery it was for.\<close>

record mail_world =
  mw_db :: ops_db
  mw_outbox :: "(string \<times> mail_message) list"

type_synonym 'a mail_op = "(mail_world, mail_error, 'a) op"

definition mails :: "mail_world \<Rightarrow> mail_delivery list" where
  "mails w = mail_deliveries (mw_db w)"

text \<open>
  What the operations take from outside: the other transactions that commit at a point of the work on
  a delivery, the clock there, the advisory lock and whether it is still held, the answer of the
  transport, the renderer of the stored message, the mail configuration of an event, and the texts
  of the database client.
\<close>

datatype lock_answer = Lock_error string | Lock_busy | Lock_granted

record mail_links =
  ml_ticket_url :: string
  ml_qr_image_url :: string
  ml_apple_wallet_url :: string
  ml_google_wallet_url :: string

record mail_env =
  me_others :: "string \<Rightarrow> nat \<Rightarrow> ops_db \<Rightarrow> ops_db"
  me_now :: "string \<Rightarrow> nat \<Rightarrow> int"
  me_database_url :: "string option"
  me_lock :: "string \<Rightarrow> lock_answer"
  me_owned :: "string \<Rightarrow> nat \<Rightarrow> bool"
  me_send :: "string \<Rightarrow> mail_message \<Rightarrow> mail_error + send_result"
  me_materialize :: "string \<times> string \<Rightarrow> mail_links \<Rightarrow> (string \<times> string) option"
  me_mail_config :: "string \<Rightarrow> mail_error + string"
  me_url_protocol :: "string \<Rightarrow> string option"
  me_decrypt :: "string \<Rightarrow> mail_error + string"
  me_variable :: "string \<Rightarrow> string option"
  me_db_text :: "mail_error_kind \<Rightarrow> string"

section \<open>Operations\<close>

definition op_throw :: "'e \<Rightarrow> ('s, 'e, 'a) op" where
  "op_throw e s = (Inl e, s)"

text \<open>\<open>try m catch (err) h\<close> where the handler is an operation itself.\<close>

definition op_try :: "('s, 'e, 'a) op \<Rightarrow> ('e \<Rightarrow> ('s, 'e, 'a) op) \<Rightarrow> ('s, 'e, 'a) op" where
  "op_try m h s = (case m s of (Inl e, s') \<Rightarrow> h e s' | (Inr a, s') \<Rightarrow> (Inr a, s'))"

definition op_of_sum :: "'e + 'a \<Rightarrow> ('s, 'e, 'a) op" where
  "op_of_sum r s = (r, s)"

definition others_commit :: "(ops_db \<Rightarrow> ops_db) \<Rightarrow> unit mail_op" where
  "others_commit f w = (Inr (), w\<lparr>mw_db := f (mw_db w)\<rparr>)"

text \<open>\<open>updateMany\<close> on the deliveries, with the number of rows it changed.\<close>

definition update_mail :: "(mail_delivery \<Rightarrow> bool) \<Rightarrow> (mail_delivery \<Rightarrow> mail_delivery) \<Rightarrow> nat mail_op" where
  "update_mail p f w = (Inr (count_where p (mails w)),
     w\<lparr>mw_db := (mw_db w)\<lparr>mail_deliveries := update_where p f (mails w)\<rparr>\<rparr>)"

text \<open>A transaction on the tables.\<close>

definition in_mail_db :: "(ops_db, mail_error, 'a) tx \<Rightarrow> 'a mail_op" where
  "in_mail_db m w = (case m (mw_db w) of Inl e \<Rightarrow> (Inl e, w) | Inr (a, db) \<Rightarrow> (Inr a, w\<lparr>mw_db := db\<rparr>))"

declare op_throw_def [tx_simps] op_try_def [tx_simps] op_of_sum_def [tx_simps] others_commit_def [tx_simps]

section \<open>Ownership\<close>

definition assert_owned :: "mail_env \<Rightarrow> string \<Rightarrow> nat \<Rightarrow> unit mail_op" where
  "assert_owned env did k = op_bind (others_commit (me_others env did k)) (\<lambda>_.
     if me_owned env did k then op_return ()
     else op_throw (Mail_error Ownership_lost ''Delivery ownership connection lost''))"

definition with_session_advisory_lock :: "mail_env \<Rightarrow> string \<Rightarrow> 'a mail_op \<Rightarrow> 'a option mail_op" where
  "with_session_advisory_lock env did run =
     (case me_lock env (''admitto:delivery:'' @ did) of
        Lock_error m \<Rightarrow> op_throw (Mail_error Other_failure m)
      | Lock_busy \<Rightarrow> op_return None
      | Lock_granted \<Rightarrow> op_bind (assert_owned env did 0) (\<lambda>_. op_bind run (\<lambda>a. op_return (Some a))))"

definition with_delivery_ownership :: "mail_env \<Rightarrow> string \<Rightarrow> 'a mail_op \<Rightarrow> 'a option mail_op" where
  "with_delivery_ownership env did run =
     (if \<not> truthy (me_database_url env)
      then op_throw (Mail_error Other_failure ''Delivery ownership requires database configuration'')
      else with_session_advisory_lock env did run)"

definition next_delivery_revision :: "int \<Rightarrow> int \<Rightarrow> int" where
  "next_delivery_revision queued_at now = max now (queued_at + 1)"

section \<open>Retry policy\<close>

definition max_mail_drain_attempts :: nat where
  "max_mail_drain_attempts = 8"

definition mail_drain_backoff_base_ms :: int where
  "mail_drain_backoff_base_ms = 30000"

definition mail_drain_backoff_cap_ms :: int where
  "mail_drain_backoff_cap_ms = 5 * 60000"

definition mail_drain_retry_backoff_ms :: "nat \<Rightarrow> int" where
  "mail_drain_retry_backoff_ms attempts =
     (let exponent = nat (max 0 (int attempts - 1))
      in min mail_drain_backoff_cap_ms (mail_drain_backoff_base_ms * 2 ^ exponent))"

definition is_mail_drain_retry_due :: "mail_delivery \<Rightarrow> int \<Rightarrow> bool" where
  "is_mail_drain_retry_due row now_ms =
     (if md_status row = ''queued'' then True
      else case md_attempted_at row of None \<Rightarrow> True
        | Some t \<Rightarrow> now_ms - t \<ge> mail_drain_retry_backoff_ms (md_attempts row))"

definition next_mail_drain_attempts :: "nat \<Rightarrow> nat" where
  "next_mail_drain_attempts current_attempts = current_attempts + 1"

definition is_mail_drain_attempts_exhausted :: "nat \<Rightarrow> bool" where
  "is_mail_drain_attempts_exhausted next_attempts \<longleftrightarrow> next_attempts \<ge> max_mail_drain_attempts"

section \<open>What is written of a result\<close>

text \<open>A property that is \<open>undefined\<close> leaves its column as it is.\<close>

definition if_defined :: "'a option \<Rightarrow> 'a option \<Rightarrow> 'a option" where
  "if_defined v old = (case v of None \<Rightarrow> old | Some x \<Rightarrow> Some x)"

definition map_send_result_to_delivery :: "int \<Rightarrow> send_result \<Rightarrow> mail_delivery \<Rightarrow> mail_delivery" where
  "map_send_result_to_delivery now r d =
     (let base = d\<lparr>md_provider_message_id := if_defined (sr_provider_message_id r) (md_provider_message_id d),
                   md_attempted_at := Some now\<rparr>
      in case sr_status r of
           Send_accepted \<Rightarrow> base\<lparr>md_status := ''accepted'', md_accepted_at := Some now, md_error := None, md_error_code := None\<rparr>
         | Send_sent \<Rightarrow> base\<lparr>md_status := ''sent'', md_sent_at := Some now, md_error := None, md_error_code := None\<rparr>
         | Send_failed \<Rightarrow> base\<lparr>md_status := ''failed'', md_failed_at := Some now,
             md_retryable := Some (case sr_retryable r of None \<Rightarrow> False | Some b \<Rightarrow> b),
             md_error := if_defined (sanitize_delivery_error (sr_error r)) (md_error base)\<rparr>
         | Send_rejected \<Rightarrow> base\<lparr>md_status := ''rejected'', md_failed_at := Some now, md_retryable := Some False,
             md_error := if_defined (sanitize_delivery_error (sr_error r)) (md_error base)\<rparr>)"

definition is_send_success :: "send_status \<Rightarrow> bool" where
  "is_send_success st \<longleftrightarrow> st = Send_accepted \<or> st = Send_sent"

definition snapshot_unusable_error :: string where
  "snapshot_unusable_error = ''The stored message can no longer be rendered.''"

definition snapshot_unusable_update :: "int \<Rightarrow> mail_delivery \<Rightarrow> mail_delivery" where
  "snapshot_unusable_update now d = d\<lparr>md_status := ''failed'', md_retryable := Some False,
     md_error := Some snapshot_unusable_error, md_error_code := None, md_attempted_at := Some now,
     md_failed_at := Some now\<rparr>"

section \<open>The last check before a send\<close>

definition snapshot_ready :: "mail_delivery \<Rightarrow> bool" where
  "snapshot_ready d \<longleftrightarrow> md_recipient_email d \<noteq> None \<and> md_rendered_subject d \<noteq> None \<and> md_rendered_html d \<noteq> None"

record delivery_before_send =
  bs_status :: string
  bs_queued_at :: int
  bs_attempts :: nat
  bs_snapshot_ready :: bool
  bs_recipient_email :: "string option"

definition holders_of_override_addresses :: "string list \<Rightarrow> ops_db \<Rightarrow> string list" where
  "holders_of_override_addresses ids db =
     (let addresses = concat (map (\<lambda>d. case attendee_by_id (md_attendee_id d) db of
            None \<Rightarrow> []
          | Some owner \<Rightarrow> (case md_recipient_email d of
              None \<Rightarrow> []
            | Some r \<Rightarrow> if sql_address r \<noteq> [] \<and> sql_address r \<noteq> sql_address (att_email owner)
                then [(md_event_id d, sql_address r)] else []))
          (filter (\<lambda>d. md_id d \<in> set ids) (mail_deliveries db)))
      in if addresses = [] then []
         else map att_id (filter (\<lambda>h. (att_event_id h, sql_address (att_email h)) \<in> set addresses) (attendees db)))"

definition before_send_of :: "mail_delivery \<Rightarrow> delivery_before_send" where
  "before_send_of row = \<lparr>bs_status = md_status row, bs_queued_at = md_queued_at row, bs_attempts = md_attempts row,
     bs_snapshot_ready = (md_rendered_subject row \<noteq> None \<and> md_rendered_html row \<noteq> None),
     bs_recipient_email = md_recipient_email row\<rparr>"

definition deliveries_of_live :: "(string \<times> string) list \<Rightarrow> string list \<Rightarrow> ops_db \<Rightarrow> (string \<rightharpoonup> delivery_before_send)" where
  "deliveries_of_live items holders db =
     (let live = lock_live_attendees (map snd items @ holders) db;
          ids = map fst (filter (\<lambda>i. snd i \<in> set live) items)
      in map_of (map (\<lambda>row. (md_id row, before_send_of row)) (filter (\<lambda>d. md_id d \<in> set ids) (mail_deliveries db))))"

text \<open>
  The holders are read before the rows are locked: the lock waits for whoever holds them, and what those
  commit is seen by the last read.
\<close>

definition read_deliveries_before_send ::
  "(ops_db \<Rightarrow> ops_db) \<Rightarrow> (string \<times> string) list \<Rightarrow> (string \<rightharpoonup> delivery_before_send) mail_op" where
  "read_deliveries_before_send wait items =
     op_bind (op_read (\<lambda>w. holders_of_override_addresses (map fst items) (mw_db w))) (\<lambda>holders.
     op_bind (others_commit wait) (\<lambda>_.
     op_read (\<lambda>w. deliveries_of_live items holders (mw_db w))))"

section \<open>Handing mail to the transport\<close>

definition hand_over :: "mail_env \<Rightarrow> string \<Rightarrow> mail_message \<Rightarrow> send_result mail_op" where
  "hand_over env did message w =
     (me_send env did message, w\<lparr>mw_db := me_others env did 2 (mw_db w), mw_outbox := mw_outbox w @ [(did, message)]\<rparr>)"

definition send_batch :: "mail_env \<Rightarrow> string \<Rightarrow> mail_message list \<Rightarrow> send_result list mail_op" where
  "send_batch env did messages =
     op_fold (\<lambda>message results. op_bind (hand_over env did message) (\<lambda>r. op_return (results @ [r]))) messages []"

end
