(* ===== verification/Mail_Claim.thy ===== *)
theory Mail_Claim
  imports Mail_World
begin

text \<open>
  Claiming a delivery: packages/mail-delivery/src/claim.ts. One initial delivery exists per attendee and
  event (the partial unique index \<open>EmailDelivery_initial_unique\<close>); who finds it there retries it, takes a
  cancelled one over or leaves it alone. Other transactions commit at the points of
  \<open>me_others\<close> under the attendee's id: 10 before a row is inserted, 11 before the row that is in the
  way is read, 12 before a guarded update, 13 before the row is read again after a lost race.
\<close>

section \<open>Links\<close>

text \<open>
  The links of a ticket mail (packages/mail-delivery/src/links.ts), the base URL they stand on
  (baseUrl.ts) and \<open>validateHttpUrl\<close> of packages/mail-templates/src/escape.ts. What the platform's
  URL parser gives as the protocol of a text, and the decryption of a stored token, are parameters.
\<close>

definition validate_http_url :: "mail_env \<Rightarrow> string \<Rightarrow> string option" where
  "validate_http_url env v =
     (if v = [] then Some []
      else case me_url_protocol env v of None \<Rightarrow> None
        | Some p \<Rightarrow> if p \<noteq> ''http:'' \<and> p \<noteq> ''https:'' then None else Some v)"

text \<open>\<open>raw.replace(/\/$/, "")\<close>.\<close>

definition without_end_slash :: "string \<Rightarrow> string" where
  "without_end_slash s = (if ends_with_slash s then butlast s else s)"

definition normalize_base_url :: "mail_env \<Rightarrow> string \<Rightarrow> mail_error + string" where
  "normalize_base_url env raw =
     (case validate_http_url env (without_end_slash raw) of
        None \<Rightarrow> Inl (Mail_error Other_failure ''BASE_URL must be a full http:// or https:// URL when rendering the email.'')
      | Some u \<Rightarrow> Inr u)"

definition resolve_base_url :: "mail_env \<Rightarrow> mail_error + string" where
  "resolve_base_url env =
     (if truthy (me_variable env ''BASE_URL'') then normalize_base_url env (the (me_variable env ''BASE_URL''))
      else if me_variable env ''NODE_ENV'' \<noteq> Some ''development''
      then Inl (Mail_error Other_failure ''BASE_URL is required in non-development environments'')
      else Inr ''http://localhost:3000'')"

definition agency_payload :: "attendee \<Rightarrow> string option" where
  "agency_payload a = (case att_qr_payload a of None \<Rightarrow> att_external_uuid a | Some q \<Rightarrow> Some q)"

definition validated_agency_ticket_url :: "mail_env \<Rightarrow> string \<Rightarrow> string option" where
  "validated_agency_ticket_url env payload =
     (case validate_http_url env payload of None \<Rightarrow> None | Some v \<Rightarrow> if v = [] then None else Some v)"

definition wallet_configured :: "event_row \<Rightarrow> bool" where
  "wallet_configured e \<longleftrightarrow> ev_wallet_enabled e \<and> truthy (ev_wallet_template_id e) \<and> truthy (ev_wallet_api_key_enc e)"

definition apple_wallet_link :: "event_row \<Rightarrow> string \<Rightarrow> string" where
  "apple_wallet_link e path = (if wallet_configured e \<and> ev_wallet_apple_enabled e then path @ ''/wallet/apple'' else [])"

definition google_wallet_link :: "event_row \<Rightarrow> string \<Rightarrow> string" where
  "google_wallet_link e path = (if wallet_configured e \<and> ev_wallet_google_enabled e then path @ ''/wallet/google'' else [])"

definition build_attendee_mail_links ::
  "mail_env \<Rightarrow> attendee \<Rightarrow> event_row \<Rightarrow> string \<Rightarrow> string option \<Rightarrow> mail_error + mail_links" where
  "build_attendee_mail_links env a e base_url plaintext_token =
     (let root = without_end_slash base_url
      in case agency_payload a of
           Some agency \<Rightarrow>
             if \<not> truthy (att_public_ref a)
             then Inl (Mail_error Other_failure (''Agency attendee '' @ att_id a @ '' missing public_ref for mail links''))
             else let ref = the (att_public_ref a);
                      path = root @ ''/t/'' @ ev_slug e @ ''/a/'' @ ref;
                      qr = root @ ''/q/'' @ ev_slug e @ ''/a/'' @ ref @ ''.png''
                  in Inr \<lparr>ml_ticket_url = (case validated_agency_ticket_url env agency of None \<Rightarrow> path | Some u \<Rightarrow> u),
                          ml_qr_image_url = qr, ml_apple_wallet_url = apple_wallet_link e path,
                          ml_google_wallet_url = google_wallet_link e path\<rparr>
         | None \<Rightarrow>
             if \<not> truthy plaintext_token
             then Inl (Mail_error Other_failure ''Internal attendee requires plaintext token for mail links'')
             else let path = root @ ''/t/'' @ the plaintext_token
                  in Inr \<lparr>ml_ticket_url = path, ml_qr_image_url = root @ ''/q/'' @ the plaintext_token @ ''.png'',
                          ml_apple_wallet_url = apple_wallet_link e path,
                          ml_google_wallet_url = google_wallet_link e path\<rparr>)"

text \<open>The token is decrypted at the point of use.\<close>

definition links_of :: "mail_env \<Rightarrow> string \<Rightarrow> string \<Rightarrow> ops_db \<Rightarrow> mail_error + mail_links" where
  "links_of env aid base_url db =
     (case attendee_by_id aid db of
        None \<Rightarrow> Inl (Mail_error No_record (me_db_text env No_record))
      | Some a \<Rightarrow> (case event_by_id (att_event_id a) db of
          None \<Rightarrow> Inl (Mail_error No_record (me_db_text env No_record))
        | Some e \<Rightarrow>
            if agency_payload a = None
            then if \<not> truthy (att_token_enc a)
              then Inl (Mail_error Other_failure (''Attendee '' @ att_id a @ '' missing token_enc for mail links''))
              else (case me_decrypt env (the (att_token_enc a)) of
                  Inl err \<Rightarrow> Inl err
                | Inr t \<Rightarrow> build_attendee_mail_links env a e base_url (Some t))
            else build_attendee_mail_links env a e base_url None))"

definition resolve_attendee_mail_links :: "mail_env \<Rightarrow> string \<Rightarrow> string \<Rightarrow> mail_links mail_op" where
  "resolve_attendee_mail_links env aid base_url =
     (\<lambda>w. op_of_sum (links_of env aid base_url (mw_db w)) w)"

text \<open>A frozen message with its links filled in, or nothing when the renderer refuses it.\<close>

definition try_materialize_stored_message :: "mail_env \<Rightarrow> string \<times> string \<Rightarrow> mail_links \<Rightarrow> (string \<times> string) option" where
  "try_materialize_stored_message env frozen links = me_materialize env frozen links"

section \<open>Input and results\<close>

record claim_input =
  cn_organization_id :: string
  cn_event_id :: string
  cn_attendee_id :: string
  cn_batch_id :: string
  cn_template_id :: "string option"
  cn_template_label :: "string option"
  cn_has_wallet_cta :: bool
  cn_provider :: string
  cn_recipient_email :: string
  cn_rendered_subject :: string
  cn_rendered_html :: string
  cn_timezone :: "string option"
  cn_actor_user_id :: "string option"
  cn_session_id :: "string option"

record frozen_message =
  fm_to :: string
  fm_subject :: string
  fm_html :: string

datatype skip_reason = Already_sent | In_flight | Skip_erased

datatype claim_result =
    Claim_send string int frozen_message
  | Claim_skip skip_reason
  | Claim_retry_existing string int frozen_message

section \<open>Rows\<close>

definition email_delivery_success_statuses :: "string list" where
  "email_delivery_success_statuses = [''accepted'', ''sent'', ''delivered'']"

definition frozen_from_row :: "mail_delivery \<Rightarrow> mail_error + frozen_message" where
  "frozen_from_row row =
     (if \<not> truthy (md_recipient_email row) \<or> \<not> truthy (md_rendered_subject row) \<or> \<not> truthy (md_rendered_html row)
      then Inl (Mail_error Other_failure ''Delivery row missing frozen message snapshot'')
      else Inr \<lparr>fm_to = the (md_recipient_email row), fm_subject = the (md_rendered_subject row),
                fm_html = the (md_rendered_html row)\<rparr>)"

definition frozen_from_input :: "claim_input \<Rightarrow> frozen_message" where
  "frozen_from_input inp = \<lparr>fm_to = cn_recipient_email inp, fm_subject = cn_rendered_subject inp, fm_html = cn_rendered_html inp\<rparr>"

definition delivery_create_data :: "claim_input \<Rightarrow> string \<Rightarrow> int \<Rightarrow> string \<Rightarrow> int \<Rightarrow> mail_delivery" where
  "delivery_create_data inp purpose now fresh_id created_at =
     \<lparr>md_id = fresh_id, md_attendee_id = cn_attendee_id inp, md_event_id = cn_event_id inp, md_status = ''queued'',
      md_created_at = created_at, md_purpose = purpose, md_recipient_email = Some (js_lower (cn_recipient_email inp)),
      md_rendered_subject = Some (cn_rendered_subject inp), md_rendered_html = Some (cn_rendered_html inp),
      md_provider_message_id = None, md_error = None, md_retryable = None,
      md_organization_id = cn_organization_id inp, md_batch_id = Some (cn_batch_id inp),
      md_template_id = cn_template_id inp, md_template_id_snapshot = cn_template_id inp,
      md_template_label_snapshot = cn_template_label inp, md_had_wallet_cta = cn_has_wallet_cta inp,
      md_provider = cn_provider inp, md_error_code = None, md_attempts = 1, md_queued_at = now,
      md_attempted_at = None, md_accepted_at = None, md_sent_at = None, md_failed_at = None, md_viewed_at = None,
      md_client_timezone = cn_timezone inp, md_actor_user_id = cn_actor_user_id inp, md_session_id = cn_session_id inp\<rparr>"

datatype classify_result = Classified_skip skip_reason | Classified_retry frozen_message | Classified_reclaim

definition classify_existing :: "mail_delivery \<Rightarrow> mail_error + classify_result" where
  "classify_existing row =
     (if md_status row \<in> set email_delivery_success_statuses then Inr (Classified_skip Already_sent)
      else if md_status row = ''queued'' then Inr (Classified_skip In_flight)
      else if md_status row = ''failed'' \<and> md_retryable row = Some True
      then (case frozen_from_row row of Inl e \<Rightarrow> Inl e | Inr m \<Rightarrow> Inr (Classified_retry m))
      else if md_status row = ''cancelled'' then Inr Classified_reclaim
      else Inr (Classified_skip Already_sent))"

section \<open>Creating a row\<close>

definition same_initial :: "mail_delivery \<Rightarrow> mail_delivery \<Rightarrow> bool" where
  "same_initial d e \<longleftrightarrow> md_purpose d = ''initial'' \<and> md_purpose e = ''initial'' \<and>
     md_attendee_id d = md_attendee_id e \<and> md_event_id d = md_event_id e"

text \<open>\<open>emailDelivery.create\<close>: the unique keys and the foreign keys to the attendee and the event.\<close>

definition insert_delivery :: "mail_env \<Rightarrow> mail_delivery \<Rightarrow> (ops_db, mail_error, mail_delivery) tx" where
  "insert_delivery env d db =
     (if \<exists>e \<in> set (mail_deliveries db). md_id e = md_id d \<or> same_initial d e
      then Inl (Mail_error Unique_key (me_db_text env Unique_key))
      else if \<not> (\<exists>a \<in> set (attendees db). att_id a = md_attendee_id d) \<or>
              \<not> (\<exists>e \<in> set (events db). ev_id e = md_event_id d)
      then Inl (Mail_error Foreign_key (me_db_text env Foreign_key))
      else Inr (d, db\<lparr>mail_deliveries := mail_deliveries db @ [d]\<rparr>))"

text \<open>\<open>locked?.erased\<close>.\<close>

definition erased_lock :: "locked_attendee option \<Rightarrow> bool" where
  "erased_lock locked = (case locked of None \<Rightarrow> False | Some l \<Rightarrow> lk_erased l)"

text \<open>The transaction both kinds of delivery are created in; \<open>None\<close> for an erased attendee.\<close>

definition create_delivery ::
  "mail_env \<Rightarrow> claim_input \<Rightarrow> string \<Rightarrow> string \<Rightarrow> mail_delivery option mail_op" where
  "create_delivery env inp purpose fresh_id =
     (let aid = cn_attendee_id inp; now = me_now env aid 10
      in op_bind (others_commit (me_others env aid 10)) (\<lambda>_. in_mail_db (
         tx_bind (tx_read (lock_attendee_row aid None)) (\<lambda>locked.
         if erased_lock locked then tx_return None
         else tx_bind (insert_delivery env (delivery_create_data inp purpose now fresh_id (me_now env aid 14)))
                (\<lambda>d. tx_return (Some d))))))"

section \<open>Claiming\<close>

definition delivery_by_id :: "string \<Rightarrow> mail_world \<Rightarrow> mail_delivery option" where
  "delivery_by_id did w = List.find (\<lambda>d. md_id d = did) (mails w)"

definition resolve_lost_race :: "mail_env \<Rightarrow> string \<Rightarrow> string \<Rightarrow> string \<Rightarrow> claim_result mail_op" where
  "resolve_lost_race env aid did not_found =
     op_bind (others_commit (me_others env aid 13)) (\<lambda>_.
     op_bind (op_read (delivery_by_id did)) (\<lambda>refreshed.
     case refreshed of
       None \<Rightarrow> op_throw (Mail_error Other_failure not_found)
     | Some row \<Rightarrow> op_bind (op_of_sum (classify_existing row)) (\<lambda>lost.
         case lost of Classified_skip r \<Rightarrow> op_return (Claim_skip r) | _ \<Rightarrow> op_return (Claim_skip In_flight))))"

definition claim_retry_existing ::
  "mail_env \<Rightarrow> claim_input \<Rightarrow> string \<Rightarrow> int \<Rightarrow> frozen_message \<Rightarrow> claim_result mail_op" where
  "claim_retry_existing env inp did queued_at message =
     (let aid = cn_attendee_id inp; revision = next_delivery_revision queued_at (me_now env aid 12)
      in op_bind (others_commit (me_others env aid 12)) (\<lambda>_.
         op_bind (update_mail (\<lambda>d. md_id d = did \<and> md_queued_at d = queued_at \<and> md_status d = ''failed'' \<and>
              md_retryable d = Some True)
            (\<lambda>d. d\<lparr>md_status := ''queued'', md_queued_at := revision, md_batch_id := Some (cn_batch_id inp),
               md_client_timezone := cn_timezone inp, md_actor_user_id := cn_actor_user_id inp,
               md_session_id := cn_session_id inp\<rparr>)) (\<lambda>n.
         if n = 0 then resolve_lost_race env aid did ''Retry claim lost but initial delivery row not found''
         else op_return (Claim_retry_existing did revision message))))"

text \<open>
  A cancelled row is taken over with everything fresh. \<open>template_id\<close> is left alone when the request
  has none (an undefined property is no update).
\<close>

definition reclaimed :: "claim_input \<Rightarrow> int \<Rightarrow> int \<Rightarrow> mail_delivery \<Rightarrow> mail_delivery" where
  "reclaimed inp queued_at now d = d\<lparr>md_status := ''queued'',
     md_queued_at := next_delivery_revision queued_at now, md_created_at := now, md_batch_id := Some (cn_batch_id inp),
     md_template_id := if_defined (cn_template_id inp) (md_template_id d), md_template_id_snapshot := cn_template_id inp,
     md_template_label_snapshot := cn_template_label inp, md_had_wallet_cta := cn_has_wallet_cta inp,
     md_provider := cn_provider inp, md_recipient_email := Some (js_lower (cn_recipient_email inp)),
     md_rendered_subject := Some (cn_rendered_subject inp), md_rendered_html := Some (cn_rendered_html inp),
     md_attempts := 1, md_retryable := None, md_error := None, md_error_code := None,
     md_client_timezone := cn_timezone inp, md_actor_user_id := cn_actor_user_id inp,
     md_session_id := cn_session_id inp\<rparr>"

definition reclaim_row :: "claim_input \<Rightarrow> string \<Rightarrow> int \<Rightarrow> int \<Rightarrow> nat option mail_op" where
  "reclaim_row inp did queued_at now =
     op_bind (op_read (\<lambda>w. lock_attendee_row (cn_attendee_id inp) None (mw_db w))) (\<lambda>locked.
     if erased_lock locked then op_return None
     else op_bind (update_mail (\<lambda>d. md_id d = did \<and> md_status d = ''cancelled'' \<and> md_queued_at d = queued_at)
            (reclaimed inp queued_at now)) (\<lambda>n. op_return (Some n)))"

definition claim_reclaim_cancelled ::
  "mail_env \<Rightarrow> claim_input \<Rightarrow> string \<Rightarrow> int \<Rightarrow> int \<Rightarrow> claim_result mail_op" where
  "claim_reclaim_cancelled env inp did queued_at now =
     op_bind (others_commit (me_others env (cn_attendee_id inp) 12)) (\<lambda>_.
     op_bind (reclaim_row inp did queued_at now) (\<lambda>claimed.
     case claimed of
       None \<Rightarrow> op_return (Claim_skip Skip_erased)
     | Some n \<Rightarrow>
         if n = 0 then resolve_lost_race env (cn_attendee_id inp) did ''Reclaim lost but initial delivery row not found''
         else op_return (Claim_send did (next_delivery_revision queued_at now) (frozen_from_input inp))))"

definition existing_initial :: "claim_input \<Rightarrow> mail_world \<Rightarrow> mail_delivery option" where
  "existing_initial inp w = List.find (\<lambda>d. md_attendee_id d = cn_attendee_id inp \<and> md_event_id d = cn_event_id inp \<and>
     md_purpose d = ''initial'') (mails w)"

definition claim_existing :: "mail_env \<Rightarrow> claim_input \<Rightarrow> claim_result mail_op" where
  "claim_existing env inp =
     op_bind (others_commit (me_others env (cn_attendee_id inp) 11)) (\<lambda>_.
     op_bind (op_read (existing_initial inp)) (\<lambda>existing.
     case existing of
       None \<Rightarrow> op_throw (Mail_error Other_failure ''Unique constraint violated but initial delivery row not found'')
     | Some row \<Rightarrow> op_bind (op_of_sum (classify_existing row)) (\<lambda>result.
         case result of
           Classified_retry message \<Rightarrow>
             op_bind (with_delivery_ownership env (md_id row)
               (op_bind (assert_owned env (md_id row) 1)
                 (\<lambda>_. claim_retry_existing env inp (md_id row) (md_queued_at row) message)))
               (\<lambda>claimed. case claimed of Some c \<Rightarrow> op_return c | None \<Rightarrow> op_return (Claim_skip In_flight))
         | Classified_reclaim \<Rightarrow>
             claim_reclaim_cancelled env inp (md_id row) (md_queued_at row) (me_now env (cn_attendee_id inp) 10)
         | Classified_skip r \<Rightarrow> op_return (Claim_skip r))))"

text \<open>Only the violated unique key is caught, and only around the insertion.\<close>

definition claim_initial_delivery :: "mail_env \<Rightarrow> claim_input \<Rightarrow> string \<Rightarrow> claim_result mail_op" where
  "claim_initial_delivery env inp fresh_id =
     op_bind (op_try
       (op_bind (create_delivery env inp ''initial'' fresh_id) (\<lambda>created.
          case created of
            None \<Rightarrow> op_return (Some (Claim_skip Skip_erased))
          | Some d \<Rightarrow> op_return (Some (Claim_send (md_id d) (md_queued_at d) (frozen_from_input inp)))))
       (\<lambda>err. if error_kind err = Unique_key then op_return None else op_throw err)) (\<lambda>outcome.
     case outcome of Some c \<Rightarrow> op_return c | None \<Rightarrow> claim_existing env inp)"

definition create_resend_delivery ::
  "mail_env \<Rightarrow> claim_input \<Rightarrow> string \<Rightarrow> (string \<times> int \<times> frozen_message) option mail_op" where
  "create_resend_delivery env inp fresh_id =
     op_bind (create_delivery env inp ''resend'' fresh_id) (\<lambda>created.
     case created of
       None \<Rightarrow> op_return None
     | Some d \<Rightarrow> op_return (Some (md_id d, md_queued_at d, frozen_from_input inp)))"

end
