(* ===== verification/Mail_Drain.thy ===== *)
theory Mail_Drain
  imports Mail_Claim
begin

text \<open>
  Sending what waits: packages/mail-delivery/src/drain.ts, the retry of one delivery (retry.ts), the
  cancelling of a batch (cancel.ts), the note that a ticket was opened (viewed.ts) and the application of
  a bounce (bounceIngest/applyBounceResult.ts, \<open>selectBounceDeliveryIndex\<close> of correlate.ts). Other
  transactions commit, under the delivery's id, at the points 0 (the lock is taken), 4 (before the links
  are read), 1 (the last check waits for the row locks), 5 (before the mail is handed over), 2 (while it is
  with the transport), 6 (before the result is written) and 7 (before a failure is written).
\<close>

section \<open>Candidates\<close>

definition default_mail_drain_limit :: nat where
  "default_mail_drain_limit = 50"

record drain_options =
  do_limit :: "int option"
  do_event_id :: "string option"
  do_include_retryable_failed :: "bool option"
  do_base_url :: "string option"
  do_now_ms :: "int option"

record drain_result =
  dr_claimed :: nat
  dr_sent :: nat
  dr_failed :: nat
  dr_skipped :: nat
  dr_event_ids :: "string list"

text \<open>A limit is a whole number here (callers pass whole ones), so that rounding it down is the identity.\<close>

definition drain_limit :: "drain_options \<Rightarrow> nat" where
  "drain_limit opts = (case do_limit opts of None \<Rightarrow> default_mail_drain_limit
     | Some n \<Rightarrow> if n > 0 then nat n else default_mail_drain_limit)"

definition drainable :: "drain_options \<Rightarrow> mail_delivery \<Rightarrow> bool" where
  "drainable opts d \<longleftrightarrow> (truthy (do_event_id opts) \<longrightarrow> Some (md_event_id d) = do_event_id opts) \<and>
     md_attempts d < max_mail_drain_attempts \<and> snapshot_ready d"

definition claim_drain_candidates :: "int \<Rightarrow> drain_options \<Rightarrow> mail_delivery list \<Rightarrow> mail_delivery list" where
  "claim_drain_candidates clock opts rows =
     (let limit = drain_limit opts;
          include_failed = (do_include_retryable_failed opts \<noteq> Some False);
          now_ms = (case do_now_ms opts of None \<Rightarrow> clock | Some t \<Rightarrow> t);
          queued = take limit (sort_key md_queued_at (filter (\<lambda>d. drainable opts d \<and> md_status d = ''queued'') rows))
      in if \<not> include_failed \<or> length queued \<ge> limit then queued
         else let remaining = limit - length queued;
                  taken = min (remaining * 4) (max remaining 200);
                  failed = take taken (sort_key md_queued_at
                    (filter (\<lambda>d. drainable opts d \<and> md_status d = ''failed'' \<and> md_retryable d = Some True) rows));
                  due = take remaining (filter (\<lambda>d. is_mail_drain_retry_due d now_ms) failed)
              in queued @ due)"

section \<open>Writing an outcome\<close>

datatype send_outcome = Outcome_sent | Outcome_failed | Outcome_skipped

definition delivery_update_from_batch_error :: "int \<Rightarrow> string \<Rightarrow> bool \<Rightarrow> mail_delivery \<Rightarrow> mail_delivery" where
  "delivery_update_from_batch_error now message exhausted d = d\<lparr>md_status := ''failed'', md_retryable := Some (\<not> exhausted),
     md_error := if_defined (sanitize_delivery_error (Some message)) (md_error d), md_attempted_at := Some now,
     md_failed_at := Some now\<rparr>"

text \<open>The row as the attempt knew it: its revision, its attempts, and the message still there.\<close>

definition owned_row :: "string \<Rightarrow> int \<Rightarrow> nat \<Rightarrow> mail_delivery \<Rightarrow> bool" where
  "owned_row did queued_at attempts d \<longleftrightarrow>
     md_id d = did \<and> md_queued_at d = queued_at \<and> md_attempts d = attempts \<and> snapshot_ready d"

definition mark_row_failed :: "string \<Rightarrow> int \<Rightarrow> nat \<Rightarrow> (mail_delivery \<Rightarrow> mail_delivery) \<Rightarrow> bool mail_op" where
  "mark_row_failed did queued_at attempts f =
     op_bind (update_mail (\<lambda>d. owned_row did queued_at (attempts - 1) d \<and> md_status d \<noteq> ''cancelled'')
       (\<lambda>d. (f d)\<lparr>md_attempts := attempts\<rparr>)) (\<lambda>n. op_return (n > 0))"

definition applied_outcome :: "bool \<Rightarrow> send_outcome" where
  "applied_outcome applied = (if applied then Outcome_failed else Outcome_skipped)"

definition mark_claimed_row_failed :: "mail_env \<Rightarrow> mail_delivery \<Rightarrow> mail_error \<Rightarrow> bool mail_op" where
  "mark_claimed_row_failed env row err =
     (let next_attempts = next_mail_drain_attempts (md_attempts row);
          exhausted = is_mail_drain_attempts_exhausted next_attempts
      in mark_row_failed (md_id row) (md_queued_at row) next_attempts
           (delivery_update_from_batch_error (me_now env (md_id row) 7) (error_message err) exhausted))"

text \<open>An empty \<open>summary.results\<close> is no confirmed answer: nothing says whether the mail went out.\<close>

definition record_send_outcome ::
  "mail_env \<Rightarrow> mail_delivery \<Rightarrow> send_result option \<Rightarrow> nat \<Rightarrow> bool \<Rightarrow> send_outcome mail_op" where
  "record_send_outcome env row answer next_attempts exhausted =
     (let now = me_now env (md_id row) 6
      in case answer of
        None \<Rightarrow> op_bind (mark_row_failed (md_id row) (md_queued_at row) next_attempts
            (delivery_update_from_batch_error now ''empty provider result'' exhausted)) (\<lambda>applied.
          op_return (applied_outcome applied))
      | Some r \<Rightarrow>
          let failed_like = (sr_status r = Send_failed \<or> sr_status r = Send_rejected)
          in op_bind (update_mail (owned_row (md_id row) (md_queued_at row) (md_attempts row))
               (\<lambda>d. let u = (map_send_result_to_delivery now r d)\<lparr>md_provider := sr_provider r, md_attempts := next_attempts\<rparr>
                    in if failed_like \<and> exhausted then u\<lparr>md_retryable := Some False\<rparr> else u)) (\<lambda>n.
             op_return (if n = 0 then Outcome_skipped
               else if is_send_success (sr_status r) then Outcome_sent else Outcome_failed)))"

definition first_result :: "send_result list \<Rightarrow> send_result option" where
  "first_result results = (case results of [] \<Rightarrow> None | r # _ \<Rightarrow> Some r)"

section \<open>Sending one row\<close>

definition drain_idempotency_key :: "mail_delivery \<Rightarrow> string" where
  "drain_idempotency_key row =
     (if md_status row = ''failed'' then md_attendee_id row @ '':'' @ md_purpose row @ '':retry:'' @ md_id row
      else md_attendee_id row @ '':'' @ md_purpose row @ '':'' @ md_id row)"

definition still_as_claimed :: "mail_delivery \<Rightarrow> delivery_before_send option \<Rightarrow> bool" where
  "still_as_claimed row fresh = (case fresh of None \<Rightarrow> False
     | Some b \<Rightarrow> bs_status b = md_status row \<and> truthy (bs_recipient_email b) \<and> bs_snapshot_ready b \<and>
         bs_queued_at b = md_queued_at row \<and> bs_attempts b = md_attempts row)"

definition send_and_record :: "mail_env \<Rightarrow> mail_delivery \<Rightarrow> mail_message \<Rightarrow> send_outcome mail_op" where
  "send_and_record env row message =
     (let next_attempts = next_mail_drain_attempts (md_attempts row);
          exhausted = is_mail_drain_attempts_exhausted next_attempts
      in op_try
        (op_bind (assert_owned env (md_id row) 5) (\<lambda>_.
         op_bind (send_batch env (md_id row) [message]) (\<lambda>results.
         op_bind (assert_owned env (md_id row) 6) (\<lambda>_.
         record_send_outcome env row (first_result results) next_attempts exhausted))))
        (\<lambda>err. op_bind (assert_owned env (md_id row) 7) (\<lambda>_.
           op_bind (mark_row_failed (md_id row) (md_queued_at row) next_attempts
             (delivery_update_from_batch_error (me_now env (md_id row) 7) (error_message err) exhausted)) (\<lambda>applied.
           op_return (applied_outcome applied)))))"

definition send_materialized :: "mail_env \<Rightarrow> mail_delivery \<Rightarrow> string \<times> string \<Rightarrow> send_outcome mail_op" where
  "send_materialized env row rendered =
     op_bind (read_deliveries_before_send (me_others env (md_id row) 1) [(md_id row, md_attendee_id row)]) (\<lambda>fresh.
     if \<not> still_as_claimed row (fresh (md_id row)) then op_return Outcome_skipped
     else send_and_record env row \<lparr>mm_to = the (md_recipient_email row), mm_subject = fst rendered,
            mm_html = snd rendered, mm_idempotency_key = drain_idempotency_key row\<rparr>)"

text \<open>The links, or the failure of the row they could not be made for.\<close>

definition links_or_failure :: "mail_env \<Rightarrow> mail_delivery \<Rightarrow> string \<Rightarrow> (send_outcome + mail_links) mail_op" where
  "links_or_failure env row base_url =
     op_bind (others_commit (me_others env (md_id row) 4)) (\<lambda>_.
     op_try (op_bind (resolve_attendee_mail_links env (md_attendee_id row) base_url) (\<lambda>links. op_return (Inr links)))
       (\<lambda>err. op_bind (assert_owned env (md_id row) 7) (\<lambda>_.
          op_bind (mark_claimed_row_failed env row err) (\<lambda>applied. op_return (Inl (applied_outcome applied))))))"

definition send_owned_snapshot :: "mail_env \<Rightarrow> mail_delivery \<Rightarrow> string \<Rightarrow> send_outcome mail_op" where
  "send_owned_snapshot env row base_url =
     (if \<not> truthy (md_recipient_email row) \<or> \<not> truthy (md_rendered_subject row) \<or> \<not> truthy (md_rendered_html row)
      then op_return Outcome_skipped
      else op_bind (links_or_failure env row base_url) (\<lambda>linked.
        case linked of
          Inl out \<Rightarrow> op_return out
        | Inr links \<Rightarrow>
            (case try_materialize_stored_message env (the (md_rendered_subject row), the (md_rendered_html row)) links of
               None \<Rightarrow>
                 op_bind (assert_owned env (md_id row) 7) (\<lambda>_.
                 op_bind (mark_row_failed (md_id row) (md_queued_at row) (next_mail_drain_attempts (md_attempts row))
                   (snapshot_unusable_update (me_now env (md_id row) 7))) (\<lambda>applied.
                 op_return (applied_outcome applied)))
             | Some rendered \<Rightarrow> send_materialized env row rendered)))"

section \<open>Draining\<close>

record event_outcome =
  eo_sent :: nat
  eo_failed :: nat
  eo_skipped :: nat

definition nothing_drained :: event_outcome where
  "nothing_drained = \<lparr>eo_sent = 0, eo_failed = 0, eo_skipped = 0\<rparr>"

definition tally :: "send_outcome \<Rightarrow> event_outcome \<Rightarrow> event_outcome" where
  "tally out t = (case out of
     Outcome_sent \<Rightarrow> t\<lparr>eo_sent := Suc (eo_sent t)\<rparr>
   | Outcome_failed \<Rightarrow> t\<lparr>eo_failed := Suc (eo_failed t)\<rparr>
   | Outcome_skipped \<Rightarrow> t\<lparr>eo_skipped := Suc (eo_skipped t)\<rparr>)"

definition fail_event_rows :: "mail_env \<Rightarrow> mail_error \<Rightarrow> mail_delivery list \<Rightarrow> event_outcome mail_op" where
  "fail_event_rows env err rows = op_fold (\<lambda>row t.
     op_bind (with_delivery_ownership env (md_id row)
       (op_bind (assert_owned env (md_id row) 7) (\<lambda>_. mark_claimed_row_failed env row err))) (\<lambda>applied.
     op_return (tally (applied_outcome (applied = Some True)) t))) rows nothing_drained"

definition send_event_rows :: "mail_env \<Rightarrow> string \<Rightarrow> mail_delivery list \<Rightarrow> event_outcome mail_op" where
  "send_event_rows env base_url rows = op_fold (\<lambda>row t.
     op_bind (with_delivery_ownership env (md_id row) (send_owned_snapshot env row base_url)) (\<lambda>out.
     op_return (tally (case out of None \<Rightarrow> Outcome_skipped | Some x \<Rightarrow> x) t))) rows nothing_drained"

definition drain_event_batch :: "mail_env \<Rightarrow> string \<Rightarrow> string \<Rightarrow> mail_delivery list \<Rightarrow> event_outcome mail_op" where
  "drain_event_batch env base_url eid rows =
     (case me_mail_config env eid of
        Inl err \<Rightarrow> fail_event_rows env err rows
      | Inr provider \<Rightarrow> send_event_rows env base_url rows)"

definition add_event_outcome :: "event_outcome \<Rightarrow> drain_result \<Rightarrow> drain_result" where
  "add_event_outcome o1 r = r\<lparr>dr_sent := dr_sent r + eo_sent o1, dr_failed := dr_failed r + eo_failed o1,
     dr_skipped := dr_skipped r + eo_skipped o1\<rparr>"

definition drain_groups :: "mail_delivery list \<Rightarrow> (string \<times> mail_delivery list) list" where
  "drain_groups rows = map (\<lambda>eid. (eid, filter (\<lambda>d. md_event_id d = eid) rows)) (unique_in_order (map md_event_id rows))"

definition base_url_or :: "mail_env \<Rightarrow> string option \<Rightarrow> mail_error + string" where
  "base_url_or env url = (case url of Some u \<Rightarrow> Inr u | None \<Rightarrow> resolve_base_url env)"

definition drain_pending_deliveries :: "mail_env \<Rightarrow> drain_options \<Rightarrow> int \<Rightarrow> drain_result mail_op" where
  "drain_pending_deliveries env opts clock =
     op_bind (op_read (\<lambda>w. claim_drain_candidates clock opts (mails w))) (\<lambda>candidates.
     if candidates = []
     then op_return \<lparr>dr_claimed = 0, dr_sent = 0, dr_failed = 0, dr_skipped = 0, dr_event_ids = []\<rparr>
     else op_bind (op_of_sum (base_url_or env (do_base_url opts))) (\<lambda>base_url.
       op_fold (\<lambda>(eid, rows) r. op_bind (drain_event_batch env base_url eid rows) (\<lambda>out.
         op_return (add_event_outcome out r))) (drain_groups candidates)
         \<lparr>dr_claimed = length candidates, dr_sent = 0, dr_failed = 0, dr_skipped = 0,
          dr_event_ids = unique_in_order (map md_event_id candidates)\<rparr>))"

section \<open>Retrying one delivery\<close>

text \<open>The answer \<open>{ ok, reason }\<close>.\<close>

type_synonym retry_answer = "bool \<times> string option"

definition retry_refused :: "string \<Rightarrow> retry_answer" where
  "retry_refused reason = (False, Some reason)"

definition retry_update :: "mail_delivery \<Rightarrow> (mail_delivery \<Rightarrow> mail_delivery) \<Rightarrow> nat mail_op" where
  "retry_update row f = update_mail (owned_row (md_id row) (md_queued_at row) (md_attempts row))
     (\<lambda>d. (f d)\<lparr>md_attempts := md_attempts d + 1\<rparr>)"

definition still_retryable :: "mail_delivery \<Rightarrow> delivery_before_send option \<Rightarrow> bool" where
  "still_retryable row fresh = (case fresh of None \<Rightarrow> False
     | Some b \<Rightarrow> bs_status b = ''failed'' \<and> truthy (bs_recipient_email b) \<and> bs_snapshot_ready b \<and>
         bs_queued_at b = md_queued_at row \<and> bs_attempts b = md_attempts row)"

definition send_retry :: "mail_env \<Rightarrow> mail_delivery \<Rightarrow> mail_message \<Rightarrow> retry_answer mail_op" where
  "send_retry env row message =
     op_bind (read_deliveries_before_send (me_others env (md_id row) 1) [(md_id row, md_attendee_id row)]) (\<lambda>fresh.
     if \<not> still_retryable row (fresh (md_id row)) then op_return (retry_refused ''not_retryable'')
     else
       op_bind (assert_owned env (md_id row) 5) (\<lambda>_.
       op_bind (send_batch env (md_id row) [message]) (\<lambda>results.
       op_bind (assert_owned env (md_id row) 6) (\<lambda>_.
       case first_result results of
         None \<Rightarrow> op_bind (retry_update row (\<lambda>d. d)) (\<lambda>_. op_return (retry_refused ''no_result''))
       | Some r \<Rightarrow>
           op_bind (retry_update row (\<lambda>d. (map_send_result_to_delivery (me_now env (md_id row) 6) r d)
             \<lparr>md_provider := sr_provider r\<rparr>)) (\<lambda>_.
           op_return (is_send_success (sr_status r), None))))))"

text \<open>A configuration that cannot be used is noted on the row; any other failure is the caller's.\<close>

definition retry_without_mailer :: "mail_env \<Rightarrow> mail_delivery \<Rightarrow> mail_error \<Rightarrow> retry_answer mail_op" where
  "retry_without_mailer env row err =
     (case error_kind err of
        Mail_config code \<Rightarrow>
          op_bind (assert_owned env (md_id row) 7) (\<lambda>_.
          op_bind (retry_update row (\<lambda>d. d\<lparr>md_error := if_defined (sanitize_delivery_error (Some (error_message err))) (md_error d),
            md_attempted_at := Some (me_now env (md_id row) 7)\<rparr>)) (\<lambda>_.
          op_return (retry_refused code)))
      | _ \<Rightarrow> op_throw err)"

definition retry_with_links :: "mail_env \<Rightarrow> mail_delivery \<Rightarrow> mail_links \<Rightarrow> retry_answer mail_op" where
  "retry_with_links env row links =
     (case try_materialize_stored_message env (the (md_rendered_subject row), the (md_rendered_html row)) links of
        None \<Rightarrow>
          op_bind (assert_owned env (md_id row) 7) (\<lambda>_.
          op_bind (retry_update row (snapshot_unusable_update (me_now env (md_id row) 7))) (\<lambda>_.
          op_return (retry_refused ''snapshot_unusable'')))
      | Some rendered \<Rightarrow>
          (case me_mail_config env (md_event_id row) of
             Inl err \<Rightarrow> retry_without_mailer env row err
           | Inr provider \<Rightarrow> send_retry env row \<lparr>mm_to = the (md_recipient_email row), mm_subject = fst rendered,
               mm_html = snd rendered,
               mm_idempotency_key = md_attendee_id row @ '':'' @ md_purpose row @ '':retry:'' @ md_id row\<rparr>))"

definition retry_owned_delivery :: "mail_env \<Rightarrow> string option \<Rightarrow> string \<Rightarrow> retry_answer mail_op" where
  "retry_owned_delivery env base_url_option did =
     op_bind (op_read (\<lambda>w. List.find (\<lambda>d. md_id d = did) (mails w))) (\<lambda>found.
     case found of
       None \<Rightarrow> op_throw (Mail_error No_record (me_db_text env No_record))
     | Some row \<Rightarrow>
         if md_status row \<noteq> ''failed'' \<or> md_retryable row \<noteq> Some True then op_return (retry_refused ''not_retryable'')
         else if \<not> truthy (md_recipient_email row) \<or> \<not> truthy (md_rendered_subject row) \<or> \<not> truthy (md_rendered_html row)
         then op_return (retry_refused ''missing_snapshot'')
         else op_bind (op_of_sum (base_url_or env base_url_option)) (\<lambda>base_url.
           op_bind (others_commit (me_others env did 4)) (\<lambda>_.
           op_bind (op_try (op_bind (resolve_attendee_mail_links env (md_attendee_id row) base_url)
               (\<lambda>links. op_return (Some links))) (\<lambda>err. op_return None)) (\<lambda>linked.
           case linked of
             None \<Rightarrow> op_return (retry_refused ''links_unavailable'')
           | Some links \<Rightarrow> retry_with_links env row links))))"

definition retry_delivery :: "mail_env \<Rightarrow> string option \<Rightarrow> string \<Rightarrow> retry_answer mail_op" where
  "retry_delivery env base_url_option did =
     op_bind (with_delivery_ownership env did (retry_owned_delivery env base_url_option did)) (\<lambda>answer.
     op_return (case answer of Some a \<Rightarrow> a | None \<Rightarrow> retry_refused ''in_flight''))"

section \<open>Cancelling, opening, bouncing\<close>

definition cancel_bulk_send_batch :: "string \<Rightarrow> string \<Rightarrow> nat mail_op" where
  "cancel_bulk_send_batch eid batch =
     update_mail (\<lambda>d. md_event_id d = eid \<and> md_batch_id d = Some batch \<and> md_status d = ''queued'')
       (\<lambda>d. d\<lparr>md_status := ''cancelled''\<rparr>)"

definition record_ticket_viewed :: "mail_env \<Rightarrow> string \<Rightarrow> string \<Rightarrow> unit mail_op" where
  "record_ticket_viewed env aid eid =
     op_bind (others_commit (me_others env aid 10)) (\<lambda>_.
     op_bind (op_read (\<lambda>w. lock_attendee_row aid (Some eid) (mw_db w))) (\<lambda>locked.
     if is_attendee_gone locked then op_return ()
     else op_bind (op_read (\<lambda>w. find_latest md_created_at (\<lambda>d. md_attendee_id d = aid \<and> md_event_id d = eid \<and>
            md_status d \<in> set email_delivery_success_statuses \<and> md_viewed_at d = None) (mails w))) (\<lambda>found.
       case found of
         None \<Rightarrow> op_return ()
       | Some row \<Rightarrow> op_bind (update_mail (\<lambda>d. md_id d = md_id row)
           (\<lambda>d. d\<lparr>md_viewed_at := Some (me_now env aid 10)\<rparr>)) (\<lambda>_. op_return ()))))"

record bounce_line =
  bl_smtp_code :: string
  bl_enhanced_code :: "string option"
  bl_reason :: string

datatype bounce_outcome = Hard_bounced | Soft_logged | Bounce_skipped

definition non_terminal :: "string list" where
  "non_terminal = [''queued'', ''accepted'', ''sent'']"

definition build_error_code :: "bounce_line \<Rightarrow> string" where
  "build_error_code l = (if truthy (bl_enhanced_code l) then bl_smtp_code l @ ''/'' @ the (bl_enhanced_code l) else bl_smtp_code l)"

definition build_error_message :: "bounce_line \<Rightarrow> string" where
  "build_error_message l =
     (case sanitize_delivery_error (Some (''Bounce '' @ build_error_code l @ '': '' @ bl_reason l)) of
        None \<Rightarrow> ''Bounce '' @ build_error_code l | Some m \<Rightarrow> m)"

definition apply_bounce_result :: "mail_env \<Rightarrow> mail_delivery \<Rightarrow> bounce_line \<Rightarrow> bounce_outcome mail_op" where
  "apply_bounce_result env row l =
     (let class_digit = take 1 (bl_smtp_code l)
      in if class_digit = ''4'' then op_return Soft_logged
         else if class_digit \<noteq> ''5'' then op_return Bounce_skipped
         else op_bind (others_commit (me_others env (md_id row) 6)) (\<lambda>_.
           op_bind (update_mail (\<lambda>d. md_id d = md_id row \<and> md_queued_at d = md_queued_at row \<and>
                md_attempts d = md_attempts row \<and> md_status d \<in> set non_terminal \<and> md_recipient_email d \<noteq> None)
              (\<lambda>d. d\<lparr>md_status := ''bounced'', md_retryable := Some False, md_failed_at := Some (me_now env (md_id row) 6),
                 md_error_code := Some (take 64 (build_error_code l)), md_error := Some (build_error_message l)\<rparr>)) (\<lambda>n.
           op_return (if n = 0 then Bounce_skipped else Hard_bounced))))"

text \<open>\<open>/^[^<>\s@]+@[^<>\s@]+$/\<close> between the angle brackets.\<close>

definition message_id_char :: "char \<Rightarrow> bool" where
  "message_id_char c \<longleftrightarrow> c \<notin> set ''<>@'' \<and> \<not> js_space c"

definition is_rfc_message_id :: "string option \<Rightarrow> bool" where
  "is_rfc_message_id v = (case v of None \<Rightarrow> False
     | Some s \<Rightarrow> s \<noteq> [] \<and> hd s = CHR ''<'' \<and> last s = CHR ''>'' \<and>
         (let inner = butlast (tl s); local = takeWhile message_id_char inner; rest = dropWhile message_id_char inner
          in local \<noteq> [] \<and> rest \<noteq> [] \<and> hd rest = CHR ''@'' \<and> tl rest \<noteq> [] \<and> list_all message_id_char (tl rest)))"

definition can_match_by_recipient_only :: "mail_delivery \<Rightarrow> bool" where
  "can_match_by_recipient_only d \<longleftrightarrow> md_provider d \<noteq> ''smtp'' \<and> \<not> is_rfc_message_id (md_provider_message_id d)"

text \<open>\<open>findIndex\<close>; nothing stands for \<open>-1\<close>.\<close>

definition find_index :: "('a \<Rightarrow> bool) \<Rightarrow> 'a list \<Rightarrow> nat option" where
  "find_index p xs = (let n = length (takeWhile (\<lambda>x. \<not> p x) xs) in if n < length xs then Some n else None)"

definition select_bounce_delivery_index :: "mail_delivery list \<Rightarrow> string list option \<Rightarrow> nat option" where
  "select_bounce_delivery_index queue referenced_message_ids =
     (let referenced = (case referenced_message_ids of None \<Rightarrow> [] | Some ids \<Rightarrow> ids)
      in case find_index (\<lambda>d. is_rfc_message_id (md_provider_message_id d) \<and>
                js_lower (the (md_provider_message_id d)) \<in> set referenced) queue of
           Some i \<Rightarrow> Some i
         | None \<Rightarrow> find_index can_match_by_recipient_only queue)"

end
