(* ===== verification/Mail_Send.thy ===== *)
theory Mail_Send
  imports Mail_Drain Tickets Export
begin

text \<open>
  Putting ticket mail into the queue: packages/mail-delivery/src/send.ts with \<open>splitDisplayName\<close> of
  name.ts. The template of the request (its renderer and whether it carries a wallet button) and the ids
  the database client generates are parameters; sending in the same process
  (\<open>deliverImmediately\<close>) is modelled for one delivery (\<open>sendOwnedPending\<close>, \<open>failQueuedPending\<close>), not as
  the batch around it. Others commit under an attendee's id at the points of issuance and of the claim.
\<close>

section \<open>The request\<close>

record template_vars =
  tv_first_name :: string
  tv_last_name :: string
  tv_full_name :: string
  tv_email :: string
  tv_ticket_type :: string

datatype send_purpose = Purpose_initial | Purpose_resend

record send_options =
  so_attendee_ids :: "string list option"
  so_purpose :: send_purpose
  so_recipient_email :: "string option"
  so_base_url :: "string option"
  so_timezone :: "string option"
  so_actor_user_id :: "string option"
  so_session_id :: "string option"

record send_env =
  se_mail :: mail_env
  se_mint :: mint_env
  se_batch_id :: string
  se_template :: "mail_error + (string option \<times> string option \<times> bool)"
  se_render :: "event_row \<Rightarrow> template_vars \<Rightarrow> mail_error + (string \<times> string)"
  se_fresh_id :: "string \<Rightarrow> string"
  se_db_error_text :: "ops_error \<Rightarrow> string"

record pending_send =
  ps_delivery_id :: string
  ps_queued_at :: int
  ps_attendee_id :: string
  ps_to :: string
  ps_frozen_subject :: string
  ps_frozen_html :: string
  ps_links :: mail_links
  ps_idempotency_key :: string
  ps_increment_attempts :: bool

datatype attendee_send_outcome = Send_skip string string | Send_pending pending_send

section \<open>The parts of a message\<close>

definition space :: char where
  "space = CHR '' ''"

definition split_display_name :: "string \<Rightarrow> string \<times> string" where
  "split_display_name full_name =
     (let trimmed = js_trim full_name;
          first_part = takeWhile (\<lambda>c. c \<noteq> space) trimmed
      in if space \<notin> set trimmed then (trimmed, [])
         else (first_part, js_trim (drop (Suc (length first_part)) trimmed)))"

definition mail_ticket_type_label :: "string option \<Rightarrow> ticket_type list \<Rightarrow> string" where
  "mail_ticket_type_label ticket_type_key types =
     (if \<not> truthy ticket_type_key then ''General''
      else case map_of (rev (map (\<lambda>t. (tt_key t, tt_label t)) types)) (the ticket_type_key) of
             Some l \<Rightarrow> l | None \<Rightarrow> the ticket_type_key)"

definition template_vars_of :: "attendee \<Rightarrow> ticket_type list \<Rightarrow> template_vars" where
  "template_vars_of a types =
     (let names = (if att_first_name a \<noteq> None \<or> att_last_name a \<noteq> None
            then (case att_first_name a of None \<Rightarrow> [] | Some f \<Rightarrow> f, case att_last_name a of None \<Rightarrow> [] | Some l \<Rightarrow> l)
            else split_display_name (att_name a))
      in \<lparr>tv_first_name = fst names, tv_last_name = snd names, tv_full_name = att_name a, tv_email = att_email a,
          tv_ticket_type = mail_ticket_type_label (att_ticket_type a) types\<rparr>)"

definition resolve_plaintext_token :: "mail_env \<Rightarrow> attendee \<Rightarrow> issued_ticket \<Rightarrow> mail_error + string option" where
  "resolve_plaintext_token env a ticket =
     (case ticket of
        Ticket_agency _ _ \<Rightarrow> Inr None
      | Ticket_issued _ token _ _ \<Rightarrow> Inr (Some token)
      | Ticket_already_issued _ \<Rightarrow>
          if \<not> truthy (att_token_enc a)
          then Inl (Mail_error Other_failure (''Attendee '' @ att_id a @ '' is issued but token_enc is missing''))
          else (case me_decrypt env (the (att_token_enc a)) of Inl e \<Rightarrow> Inl e | Inr t \<Rightarrow> Inr (Some t))
      | Ticket_not_issuable _ _ \<Rightarrow> Inr None)"

fun not_issuable_text :: "not_issuable_cause \<Rightarrow> string" where
  "not_issuable_text Reason_cancelled = ''cancelled''"
| "not_issuable_text Reason_revoked = ''revoked''"
| "not_issuable_text Reason_erased = ''erased''"

fun skip_text :: "skip_reason \<Rightarrow> string" where
  "skip_text Already_sent = ''already_sent''"
| "skip_text In_flight = ''in_flight''"
| "skip_text Skip_erased = ''erased''"

section \<open>Claiming for one attendee\<close>

definition pending_from :: "string \<Rightarrow> string \<Rightarrow> int \<Rightarrow> frozen_message \<Rightarrow> mail_links \<Rightarrow> string \<Rightarrow> bool \<Rightarrow> pending_send" where
  "pending_from aid did queued_at message links key increment =
     \<lparr>ps_delivery_id = did, ps_queued_at = queued_at, ps_attendee_id = aid, ps_to = fm_to message,
      ps_frozen_subject = fm_subject message, ps_frozen_html = fm_html message, ps_links = links,
      ps_idempotency_key = key, ps_increment_attempts = increment\<rparr>"

definition claim_or_resend_pending ::
  "send_env \<Rightarrow> string \<Rightarrow> send_purpose \<Rightarrow> claim_input \<Rightarrow> mail_links \<Rightarrow> bool \<Rightarrow> attendee_send_outcome mail_op" where
  "claim_or_resend_pending env aid purpose inp links completed_before_request =
     (if purpose \<noteq> Purpose_initial \<or> completed_before_request
      then op_bind (create_resend_delivery (se_mail env) inp (se_fresh_id env aid)) (\<lambda>created.
        op_return (case created of
          None \<Rightarrow> Send_skip aid ''erased''
        | Some (did, queued_at, message) \<Rightarrow>
            Send_pending (pending_from aid did queued_at message links (aid @ '':resend:'' @ did) False)))
      else op_bind (claim_initial_delivery (se_mail env) inp (se_fresh_id env aid)) (\<lambda>claim.
        op_return (case claim of
          Claim_skip r \<Rightarrow> Send_skip aid (skip_text r)
        | Claim_send did queued_at message \<Rightarrow>
            Send_pending (pending_from aid did queued_at message links (aid @ '':initial'') False)
        | Claim_retry_existing did queued_at message \<Rightarrow>
            Send_pending (pending_from aid did queued_at message links (aid @ '':initial'') True))))"

text \<open>\<open>issueTicket\<close>, its errors as the caller sees them.\<close>

definition issue_for_mail :: "send_env \<Rightarrow> string \<Rightarrow> issued_ticket mail_op" where
  "issue_for_mail env aid = in_mail_db (\<lambda>db. case issue_ticket (se_mint env) aid db of
     Inl e \<Rightarrow> Inl (Mail_error Other_failure (se_db_error_text env e)) | Inr r \<Rightarrow> Inr r)"

definition process_attendee_for_send ::
  "send_env \<Rightarrow> send_options \<Rightarrow> event_row \<Rightarrow> (string option \<times> string option \<times> bool) \<Rightarrow> ticket_type list \<Rightarrow>
   string \<Rightarrow> string \<Rightarrow> bool \<Rightarrow> attendee \<Rightarrow> attendee_send_outcome mail_op" where
  "process_attendee_for_send env opts event template types base_url provider completed a =
     op_bind (issue_for_mail env (att_id a)) (\<lambda>ticket.
     case ticket of
       Ticket_not_issuable _ cause \<Rightarrow> op_return (Send_skip (att_id a) (not_issuable_text cause))
     | _ \<Rightarrow>
       (case resolve_plaintext_token (se_mail env) a ticket of
          Inl err \<Rightarrow> op_return (Send_skip (att_id a) (error_message err))
        | Inr token \<Rightarrow>
          (case build_attendee_mail_links (se_mail env) a event base_url token of
             Inl err \<Rightarrow> op_return (Send_skip (att_id a) (error_message err))
           | Inr links \<Rightarrow>
             op_bind (op_of_sum (se_render env event (template_vars_of a types))) (\<lambda>rendered.
             claim_or_resend_pending env (att_id a) (so_purpose opts)
               \<lparr>cn_organization_id = ev_organization_id event, cn_event_id = ev_id event, cn_attendee_id = att_id a,
                cn_batch_id = se_batch_id env, cn_template_id = fst template, cn_template_label = fst (snd template),
                cn_has_wallet_cta = snd (snd template), cn_provider = provider,
                cn_recipient_email = (if so_purpose opts = Purpose_resend \<and> truthy (so_recipient_email opts)
                  then the (so_recipient_email opts) else att_email a),
                cn_rendered_subject = fst rendered, cn_rendered_html = snd rendered, cn_timezone = so_timezone opts,
                cn_actor_user_id = so_actor_user_id opts, cn_session_id = so_session_id opts\<rparr> links completed))))"

section \<open>A request\<close>

definition load_attendees_with_completed_initial :: "string \<Rightarrow> string list option \<Rightarrow> mail_delivery list \<Rightarrow> string list" where
  "load_attendees_with_completed_initial eid attendee_ids rows =
     map md_attendee_id (filter (\<lambda>d. md_event_id d = eid \<and> md_purpose d = ''initial'' \<and>
       md_status d \<in> set email_delivery_success_statuses \<and>
       (case attendee_ids of None \<Rightarrow> True | Some ids \<Rightarrow> md_attendee_id d \<in> set ids)) rows)"

record send_summary =
  ss_batch_id :: string
  ss_queued :: nat
  ss_skipped :: "(string \<times> string) list"
  ss_deliveries :: "(string \<times> string) list"

fun skipped_of :: "attendee_send_outcome list \<Rightarrow> (string \<times> string) list" where
  "skipped_of [] = []"
| "skipped_of (Send_skip aid reason # os) = (aid, reason) # skipped_of os"
| "skipped_of (Send_pending p # os) = skipped_of os"

fun pending_of_outcomes :: "attendee_send_outcome list \<Rightarrow> pending_send list" where
  "pending_of_outcomes [] = []"
| "pending_of_outcomes (Send_skip aid reason # os) = pending_of_outcomes os"
| "pending_of_outcomes (Send_pending p # os) = p # pending_of_outcomes os"

definition requested_attendees :: "string \<Rightarrow> string list option \<Rightarrow> ops_db \<Rightarrow> attendee list" where
  "requested_attendees eid ids db = filter (\<lambda>a. att_event_id a = eid \<and>
     (case ids of None \<Rightarrow> True | Some is \<Rightarrow> att_id a \<in> set is)) (attendees db)"

text \<open>The request without \<open>deliverImmediately\<close>: everything is left in the queue.\<close>

definition send_ticket_emails :: "send_env \<Rightarrow> string \<Rightarrow> send_options \<Rightarrow> send_summary mail_op" where
  "send_ticket_emails env eid opts =
     op_bind (op_of_sum (base_url_or (se_mail env) (so_base_url opts))) (\<lambda>base_url.
     if truthy (so_recipient_email opts) \<and> map_option length (so_attendee_ids opts) \<noteq> Some 1
     then op_throw (Mail_error Other_failure ''recipientEmail requires exactly one attendeeId'')
     else
       op_bind (op_read (\<lambda>w. if so_purpose opts = Purpose_initial
         then load_attendees_with_completed_initial eid (so_attendee_ids opts) (mails w) else [])) (\<lambda>completed.
       op_bind (op_read (\<lambda>w. event_by_id eid (mw_db w))) (\<lambda>found.
       case found of
         None \<Rightarrow> op_throw (Mail_error No_record (me_db_text (se_mail env) No_record))
       | Some event \<Rightarrow>
         op_bind (op_of_sum (me_mail_config (se_mail env) eid)) (\<lambda>provider.
         op_bind (op_of_sum (se_template env)) (\<lambda>template.
         op_bind (op_read (\<lambda>w. load_event_ticket_types (mw_db w) eid)) (\<lambda>types.
         op_bind (op_read (\<lambda>w. requested_attendees eid (so_attendee_ids opts) (mw_db w))) (\<lambda>people.
         op_bind (op_fold (\<lambda>a outs. op_bind (process_attendee_for_send env opts event template types base_url provider
              (att_id a \<in> set completed) a) (\<lambda>out. op_return (outs @ [out]))) people []) (\<lambda>outs.
         op_return \<lparr>ss_batch_id = se_batch_id env, ss_queued = length (pending_of_outcomes outs),
           ss_skipped = skipped_of outs,
           ss_deliveries = map (\<lambda>p. (ps_attendee_id p, ps_delivery_id p)) (pending_of_outcomes outs)\<rparr>))))))))"

text \<open>A resend is a request for one attendee.\<close>

definition resend_ticket_email :: "send_env \<Rightarrow> string \<Rightarrow> send_options \<Rightarrow> send_summary mail_op" where
  "resend_ticket_email env aid opts =
     op_bind (op_read (\<lambda>w. attendee_by_id aid (mw_db w))) (\<lambda>found.
     case found of
       None \<Rightarrow> op_throw (Mail_error No_record (me_db_text (se_mail env) No_record))
     | Some a \<Rightarrow> send_ticket_emails env (att_event_id a)
         (opts\<lparr>so_attendee_ids := Some [aid], so_purpose := Purpose_resend\<rparr>))"

section \<open>Sending in the process\<close>

definition is_mail_destination_failure :: "mail_error \<Rightarrow> bool" where
  "is_mail_destination_failure err =
     (case error_kind err of Mail_destination code \<Rightarrow> starts_with ''mail_destination_'' code | _ \<Rightarrow> False)"

definition send_update_from_batch_error :: "int \<Rightarrow> string \<Rightarrow> mail_delivery \<Rightarrow> mail_delivery" where
  "send_update_from_batch_error now message d = d\<lparr>md_status := ''failed'', md_retryable := Some True,
     md_error := if_defined (sanitize_delivery_error (Some message)) (md_error d), md_attempted_at := Some now,
     md_failed_at := Some now\<rparr>"

definition materialize_pending_message :: "mail_env \<Rightarrow> pending_send \<Rightarrow> mail_message option" where
  "materialize_pending_message env p =
     map_option (\<lambda>r. \<lparr>mm_to = ps_to p, mm_subject = fst r, mm_html = snd r, mm_idempotency_key = ps_idempotency_key p\<rparr>)
       (try_materialize_stored_message env (ps_frozen_subject p, ps_frozen_html p) (ps_links p))"

definition still_queued :: "pending_send \<Rightarrow> delivery_before_send option \<Rightarrow> bool" where
  "still_queued p fresh = (case fresh of None \<Rightarrow> False
     | Some b \<Rightarrow> bs_status b = ''queued'' \<and> truthy (bs_recipient_email b) \<and> bs_snapshot_ready b \<and>
         bs_queued_at b = ps_queued_at p)"

definition maybe_increment :: "pending_send \<Rightarrow> mail_delivery \<Rightarrow> mail_delivery" where
  "maybe_increment p d = (if ps_increment_attempts p then d\<lparr>md_attempts := md_attempts d + 1\<rparr> else d)"

definition send_owned_pending :: "mail_env \<Rightarrow> pending_send \<Rightarrow> mail_message \<Rightarrow> send_result option mail_op" where
  "send_owned_pending env p message =
     (let did = ps_delivery_id p
      in op_bind (read_deliveries_before_send (me_others env did 1) [(did, ps_attendee_id p)]) (\<lambda>read.
         case read did of
           None \<Rightarrow> op_return None
         | Some fresh \<Rightarrow>
             if \<not> still_queued p (Some fresh) then op_return None
             else op_try
               (op_bind (assert_owned env did 5) (\<lambda>_.
                op_bind (hand_over env did message) (\<lambda>r.
                op_bind (assert_owned env did 6) (\<lambda>_.
                op_bind (update_mail (owned_row did (ps_queued_at p) (bs_attempts fresh))
                  (\<lambda>d. maybe_increment p ((map_send_result_to_delivery (me_now env did 6) r d)\<lparr>md_provider := sr_provider r\<rparr>)))
                  (\<lambda>_. op_return (Some r))))))
               (\<lambda>err. op_bind (assert_owned env did 7) (\<lambda>_.
                op_bind (update_mail (\<lambda>d. owned_row did (ps_queued_at p) (bs_attempts fresh) d \<and> md_status d \<noteq> ''cancelled'')
                  (\<lambda>d. maybe_increment p (send_update_from_batch_error (me_now env did 7) (error_message err) d))) (\<lambda>_.
                if is_mail_destination_failure err then op_throw err else op_return None)))))"

definition fail_queued_pending_with ::
  "mail_env \<Rightarrow> pending_send \<Rightarrow> (mail_delivery \<Rightarrow> mail_delivery) \<Rightarrow> unit mail_op" where
  "fail_queued_pending_with env p f =
     (let did = ps_delivery_id p
      in op_bind (read_deliveries_before_send (me_others env did 1) [(did, ps_attendee_id p)]) (\<lambda>read.
         case read did of
           None \<Rightarrow> op_return ()
         | Some fresh \<Rightarrow>
             if \<not> still_queued p (Some fresh) then op_return ()
             else op_bind (assert_owned env did 7) (\<lambda>_.
               op_bind (update_mail (\<lambda>d. owned_row did (ps_queued_at p) (bs_attempts fresh) d \<and> md_status d = ''queued'')
                 (\<lambda>d. maybe_increment p (f d))) (\<lambda>_. op_return ()))))"

definition fail_queued_pending :: "mail_env \<Rightarrow> pending_send \<Rightarrow> mail_error \<Rightarrow> unit mail_op" where
  "fail_queued_pending env p err =
     fail_queued_pending_with env p (send_update_from_batch_error (me_now env (ps_delivery_id p) 7) (error_message err))"

end
