(* ===== verification/Mail_Contract.thy ===== *)
theory Mail_Contract
  imports Mail_Send
begin

text \<open>
  What every operation on deliveries keeps to, stated once: a locale whose client proof walks through the
  operations, and whose assumptions are the few kinds of step they consist of (the commits of others, a
  lawful update, an update or an insertion under the lock of an attendee who is not erased, a message
  handed to the transport after the last check).
\<close>

section \<open>Lawful updates\<close>

text \<open>A delivery moves on: a higher revision, or more attempts with the same content or less.\<close>

definition same_or_gone :: "'a option \<Rightarrow> 'a option \<Rightarrow> bool" where
  "same_or_gone old new \<longleftrightarrow> new = None \<or> new = old"

definition advances :: "mail_delivery \<Rightarrow> mail_delivery \<Rightarrow> bool" where
  "advances d e \<longleftrightarrow>
     md_id e = md_id d \<and> md_attendee_id e = md_attendee_id d \<and> md_event_id e = md_event_id d \<and> md_purpose e = md_purpose d \<and>
     (md_queued_at d < md_queued_at e \<or>
      md_queued_at e = md_queued_at d \<and> md_attempts d \<le> md_attempts e \<and>
      same_or_gone (md_recipient_email d) (md_recipient_email e) \<and>
      same_or_gone (md_rendered_subject d) (md_rendered_subject e) \<and>
      same_or_gone (md_rendered_html d) (md_rendered_html e))"

lemma advances_refl [simp]: "advances d d"
  by (simp add: advances_def same_or_gone_def)

lemma same_or_gone_trans: "same_or_gone x y \<Longrightarrow> same_or_gone y z \<Longrightarrow> same_or_gone x z"
  by (auto simp: same_or_gone_def)

lemma advances_later: "advances d e \<Longrightarrow> md_queued_at d \<le> md_queued_at e"
  by (auto simp: advances_def)

lemma advances_trans:
  assumes "advances d e" "advances e f" shows "advances d f"
proof (cases "md_queued_at d < md_queued_at f")
  case True
  then show ?thesis using assms by (simp add: advances_def)
next
  case False
  with advances_later [OF assms(1)] advances_later [OF assms(2)]
  have "md_queued_at e = md_queued_at d" "md_queued_at f = md_queued_at d" by simp_all
  then show ?thesis using assms by (simp add: advances_def) (blast intro: same_or_gone_trans)
qed

text \<open>A delivery an erasure has emptied.\<close>

definition blank :: "mail_delivery \<Rightarrow> bool" where
  "blank d \<longleftrightarrow> md_recipient_email d = None \<and> md_rendered_subject d = None \<and> md_rendered_html d = None \<and> \<not> mail_waits d"

definition lawful :: "(mail_delivery \<Rightarrow> bool) \<Rightarrow> (mail_delivery \<Rightarrow> mail_delivery) \<Rightarrow> bool" where
  "lawful p f \<longleftrightarrow> (\<forall>d. p d \<longrightarrow> advances d (f d) \<and> \<not> blank d)"

definition with_mails :: "mail_delivery list \<Rightarrow> mail_world \<Rightarrow> mail_world" where
  "with_mails rows w = w\<lparr>mw_db := (mw_db w)\<lparr>mail_deliveries := rows\<rparr>\<rparr>"

definition with_outbox :: "string \<Rightarrow> mail_message \<Rightarrow> mail_world \<Rightarrow> mail_world" where
  "with_outbox did message w = w\<lparr>mw_outbox := mw_outbox w @ [(did, message)]\<rparr>"

lemma update_mail_run:
  "update_mail p f w = (Inr (count_where p (mails w)), with_mails (update_where p f (mails w)) w)"
  by (simp add: update_mail_def with_mails_def)

lemma mails_with_mails [simp]: "mails (with_mails rows w) = rows"
  by (simp add: mails_def with_mails_def)

lemma outbox_with_mails [simp]: "mw_outbox (with_mails rows w) = mw_outbox w"
  by (simp add: with_mails_def)

lemma mails_with_outbox [simp]: "mails (with_outbox did m w) = mails w"
  by (simp add: mails_def with_outbox_def)

text \<open>A change that leaves the identity, the revision, the attempts and the message alone.\<close>

definition only_marks :: "(mail_delivery \<Rightarrow> mail_delivery) \<Rightarrow> bool" where
  "only_marks f \<longleftrightarrow> (\<forall>d. md_id (f d) = md_id d \<and> md_attendee_id (f d) = md_attendee_id d \<and> md_event_id (f d) = md_event_id d \<and>
     md_purpose (f d) = md_purpose d \<and> md_queued_at (f d) = md_queued_at d \<and> md_attempts (f d) = md_attempts d \<and>
     md_recipient_email (f d) = md_recipient_email d \<and> md_rendered_subject (f d) = md_rendered_subject d \<and>
     md_rendered_html (f d) = md_rendered_html d)"

named_theorems marks "updates that only mark"

lemma marks_id [marks]: "only_marks (\<lambda>d. d)"
  by (simp add: only_marks_def)

lemma marks_batch_error [marks]: "only_marks (delivery_update_from_batch_error now m e)"
  by (simp add: only_marks_def delivery_update_from_batch_error_def)

lemma marks_send_error [marks]: "only_marks (send_update_from_batch_error now m)"
  by (simp add: only_marks_def send_update_from_batch_error_def)

lemma marks_unusable [marks]: "only_marks (snapshot_unusable_update now)"
  by (simp add: only_marks_def snapshot_unusable_update_def)

lemma marks_result [marks]: "only_marks (\<lambda>d. (map_send_result_to_delivery now r d)\<lparr>md_provider := p\<rparr>)"
  by (simp add: only_marks_def map_send_result_to_delivery_def Let_def split: send_status.split)

lemma marks_config [marks]: "only_marks (\<lambda>d. d\<lparr>md_error := g d, md_attempted_at := t\<rparr>)"
  by (simp add: only_marks_def)

lemma owned_not_blank: "owned_row did q n d \<Longrightarrow> \<not> blank d"
  by (simp add: owned_row_def snapshot_ready_def blank_def)

lemma lawful_counted:
  assumes "only_marks f" "\<And>d. p d \<Longrightarrow> owned_row did q m d" "\<And>d. p d \<Longrightarrow> md_attempts d \<le> g d"
  shows "lawful p (\<lambda>d. (f d)\<lparr>md_attempts := g d\<rparr>)"
  using assms(1) assms(3) owned_not_blank [OF assms(2)]
  by (simp add: lawful_def advances_def only_marks_def same_or_gone_def)

section \<open>The contract\<close>

definition contract :: "('s \<Rightarrow> bool) \<Rightarrow> ('s \<Rightarrow> 's \<Rightarrow> bool) \<Rightarrow> 's \<Rightarrow> 's \<Rightarrow> bool" where
  "contract Q S w w' \<longleftrightarrow> (Q w \<longrightarrow> Q w' \<and> S w w')"

definition mail_others :: "(ops_db \<Rightarrow> ops_db) \<Rightarrow> mail_world \<Rightarrow> mail_world" where
  "mail_others f w = w\<lparr>mw_db := f (mw_db w)\<rparr>"

locale mail_contract =
  fixes Q :: "mail_world \<Rightarrow> bool" and S :: "mail_world \<Rightarrow> mail_world \<Rightarrow> bool"
    and env :: mail_env and fresh sendable :: "string \<Rightarrow> bool"
  assumes S_refl: "S w w"
    and S_trans: "S u v \<Longrightarrow> S v w \<Longrightarrow> S u w"
    and others: "contract Q S w (mail_others (me_others env did k) w)"
    and lawful_update: "lawful p f \<Longrightarrow> contract Q S w (with_mails (update_where p f (mails w)) w)"
    and locked_update: "\<lbrakk>Q u; row \<in> set (mails u); Q w; \<not> erased_lock (lock_attendee_row (md_attendee_id row) eid (mw_db w));
        eid = None \<or> lock_attendee_row (md_attendee_id row) eid (mw_db w) \<noteq> None;
        \<And>d. p d \<Longrightarrow> md_id d = md_id row \<and> advances d (f d)\<rbrakk> \<Longrightarrow>
      contract Q S w (with_mails (update_where p f (mails w)) w)"
    and insertion: "\<lbrakk>\<not> erased_lock (lock_attendee_row (md_attendee_id d) None (mw_db w)); fresh (md_id d);
        insert_delivery env d (mw_db w) = Inr (e, db)\<rbrakk> \<Longrightarrow> contract Q S w (w\<lparr>mw_db := db\<rparr>)"
    and checked: "\<lbrakk>Q w; deliveries_of_live items holders (mw_db w) did = Some b; truthy (bs_recipient_email b)\<rbrakk> \<Longrightarrow> sendable did"
    and handed: "sendable did \<Longrightarrow> contract Q S w (with_outbox did message w)"

sublocale mail_contract \<subseteq> step_relation "contract Q S"
  by unfold_locales (auto simp: contract_def S_refl intro: S_trans)

context mail_contract
begin

lemma others_all: "op_all (contract Q S) (others_commit (me_others env did k))"
  using others by (auto simp: op_all_def others_commit_def mail_others_def)

lemma throw_all: "op_all (contract Q S) (op_throw e)"
  by (simp add: op_all_def op_throw_def rel_refl)

lemma sum_all: "op_all (contract Q S) (op_of_sum r)"
  by (simp add: op_all_def op_of_sum_def rel_refl)

lemma try_all:
  assumes "op_all (contract Q S) m" "\<And>e. op_all (contract Q S) (h e)"
  shows "op_all (contract Q S) (op_try m h)"
  unfolding op_all_def
proof
  fix s
  obtain r t where ms: "m s = (r, t)" by (cases "m s")
  with op_allD [OF assms(1), of s] have st: "contract Q S s t" by simp
  show "contract Q S s (snd (op_try m h s))"
  proof (cases r)
    case (Inl e)
    then show ?thesis using ms rel_trans [OF st op_allD [OF assms(2), of t e]] by (simp add: op_try_def)
  next
    case (Inr a)
    then show ?thesis using ms st by (simp add: op_try_def)
  qed
qed

lemma update_all: "lawful p f \<Longrightarrow> op_all (contract Q S) (update_mail p f)"
  by (simp add: op_all_def update_mail_run lawful_update)

text \<open>What was read in a state that keeps \<open>Q\<close>.\<close>

lemma read_then:
  assumes "\<And>w. Q w \<Longrightarrow> contract Q S w (snd (g (f w) w))"
  shows "op_all (contract Q S) (op_bind (op_read f) g)"
  unfolding op_all_def
proof
  fix s
  show "contract Q S s (snd (op_bind (op_read f) g s))"
  proof (cases "Q s")
    case True
    then show ?thesis using assms by (simp add: op_bind_def op_read_def)
  qed (simp add: contract_def)
qed

lemma assert_all: "op_all (contract Q S) (assert_owned env did k)"
  unfolding assert_owned_def by (intro op_bind_all op_all_if others_all op_return_all throw_all)

lemma ownership_all: "op_all (contract Q S) m \<Longrightarrow> op_all (contract Q S) (with_delivery_ownership env did m)"
  unfolding with_delivery_ownership_def with_session_advisory_lock_def
  by (auto split: lock_answer.split intro!: op_bind_all throw_all op_return_all assert_all)

lemma links_all: "op_all (contract Q S) (resolve_attendee_mail_links env aid base)"
  by (simp add: op_all_def resolve_attendee_mail_links_def op_of_sum_def rel_refl)

lemmas mail_intros = op_bind_all op_all_if op_all_option op_return_all op_read_all op_fold_all others_all throw_all
  sum_all try_all assert_all ownership_all links_all

section \<open>Claims\<close>

lemma create_all:
  assumes "fresh fid"
  shows "op_all (contract Q S) (create_delivery env inp purpose fid)"
proof -
  let ?d = "delivery_create_data inp purpose (me_now env (cn_attendee_id inp) 10) fid (me_now env (cn_attendee_id inp) 14)"
  have d: "md_attendee_id ?d = cn_attendee_id inp" "md_id ?d = fid" by (simp_all add: delivery_create_data_def)
  have "op_all (contract Q S) (in_mail_db (tx_bind (tx_read (lock_attendee_row (cn_attendee_id inp) None)) (\<lambda>locked.
      if erased_lock locked then tx_return None else tx_bind (insert_delivery env ?d) (\<lambda>d. tx_return (Some d)))))"
    (is "op_all _ (in_mail_db ?tx)")
    unfolding op_all_def
  proof
    fix w
    show "contract Q S w (snd (in_mail_db ?tx w))"
    proof (cases "erased_lock (lock_attendee_row (cn_attendee_id inp) None (mw_db w))")
      case True
      then show ?thesis by (simp add: in_mail_db_def tx_simps rel_refl)
    next
      case False
      show ?thesis
      proof (cases "insert_delivery env ?d (mw_db w)")
        case (Inl e)
        then show ?thesis using False by (simp add: in_mail_db_def tx_simps rel_refl)
      next
        case (Inr r)
        obtain e db where r: "r = (e, db)" by (cases r)
        from insertion [of ?d w e db] False Inr r d assms show ?thesis
          by (simp add: in_mail_db_def tx_simps)
      qed
    qed
  qed
  then show ?thesis unfolding create_delivery_def Let_def by (intro op_bind_all others_all)
qed

lemma lost_race_all: "op_all (contract Q S) (resolve_lost_race env aid did msg)"
  unfolding resolve_lost_race_def
  by (intro mail_intros) (simp split: classify_result.split add: op_return_all)

lemma retry_existing_all: "op_all (contract Q S) (claim_retry_existing env inp did q message)"
proof -
  have "lawful (\<lambda>d. md_id d = did \<and> md_queued_at d = q \<and> md_status d = ''failed'' \<and> md_retryable d = Some True)
     (\<lambda>d. d\<lparr>md_status := ''queued'', md_queued_at := next_delivery_revision q now, md_batch_id := b,
        md_client_timezone := t, md_actor_user_id := u, md_session_id := s\<rparr>)" for now b t u s
    by (auto simp: lawful_def advances_def blank_def mail_waits_def next_delivery_revision_def)
  then show ?thesis
    unfolding claim_retry_existing_def Let_def by (intro mail_intros update_all lost_race_all)
qed

lemma reclaim_step:
  assumes "Q u" "row \<in> set (mails u)" "md_attendee_id row = cn_attendee_id inp"
  shows "contract Q S u (snd (claim_reclaim_cancelled env inp (md_id row) q now u))"
proof -
  have adv: "advances d (reclaimed inp q now d)" if "md_queued_at d = q" for d
    using that by (simp add: advances_def reclaimed_def next_delivery_revision_def less_max_iff_disj)
  have upd: "contract Q S w (with_mails (update_where (\<lambda>d. md_id d = md_id row \<and> md_status d = ''cancelled'' \<and> md_queued_at d = q)
      (reclaimed inp q now) (mails w)) w)"
    if "\<not> erased_lock (lock_attendee_row (cn_attendee_id inp) None (mw_db w))" "Q w" for w
    by (rule locked_update [OF assms(1,2) that(2), where eid = None]) (use that(1) assms(3) adv in simp_all)
  have "op_all (contract Q S) (claim_reclaim_cancelled env inp (md_id row) q now)"
    unfolding claim_reclaim_cancelled_def reclaim_row_def
    by (intro op_bind_all others_all op_all_option op_return_all op_all_if lost_race_all read_then)
      (auto simp: op_return_def rel_refl op_bind_def update_mail_run upd split: if_splits)
  then show ?thesis by (rule op_allD)
qed

lemma existing_all: "op_all (contract Q S) (claim_existing env inp)"
proof -
  have "contract Q S w (snd ((case existing_initial inp w of
       None \<Rightarrow> op_throw e
     | Some row \<Rightarrow> op_bind (op_of_sum (classify_existing row)) (\<lambda>result.
         case result of
           Classified_retry message \<Rightarrow>
             op_bind (with_delivery_ownership env (md_id row)
               (op_bind (assert_owned env (md_id row) 1)
                 (\<lambda>_. claim_retry_existing env inp (md_id row) (md_queued_at row) message)))
               (\<lambda>claimed. case claimed of Some c \<Rightarrow> op_return c | None \<Rightarrow> op_return (Claim_skip In_flight))
         | Classified_reclaim \<Rightarrow>
             claim_reclaim_cancelled env inp (md_id row) (md_queued_at row) now
         | Classified_skip r \<Rightarrow> op_return (Claim_skip r))) w))" if "Q w" for w e now
  proof (cases "existing_initial inp w")
    case None
    then show ?thesis by (simp add: op_throw_def rel_refl)
  next
    case (Some row)
    then have row: "row \<in> set (mails w)" "md_attendee_id row = cn_attendee_id inp"
      unfolding existing_initial_def by (auto dest: find_set)
    show ?thesis
    proof (cases "classify_existing row")
      case (Inl err)
      with Some show ?thesis by (simp add: op_bind_def op_of_sum_def rel_refl)
    next
      case (Inr c)
      have retry: "op_all (contract Q S) (op_bind (with_delivery_ownership env (md_id row)
               (op_bind (assert_owned env (md_id row) 1)
                 (\<lambda>_. claim_retry_existing env inp (md_id row) (md_queued_at row) message)))
               (\<lambda>claimed. case claimed of Some c \<Rightarrow> op_return c | None \<Rightarrow> op_return (Claim_skip In_flight)))" for message
        by (intro mail_intros retry_existing_all)
      from Some Inr show ?thesis
        using reclaim_step [OF that row] op_allD [OF retry, of w]
        by (cases c) (simp_all add: op_bind_def [of "op_of_sum _"] op_of_sum_def op_return_def rel_refl)
    qed
  qed
  then show ?thesis unfolding claim_existing_def by (intro op_bind_all others_all read_then)
qed

lemma claim_all: "fresh fid \<Longrightarrow> op_all (contract Q S) (claim_initial_delivery env inp fid)"
  unfolding claim_initial_delivery_def by (intro mail_intros create_all existing_all)

lemma resend_all: "fresh fid \<Longrightarrow> op_all (contract Q S) (create_resend_delivery env inp fid)"
  unfolding create_resend_delivery_def by (intro mail_intros create_all)


section \<open>Draining and retrying\<close>

lemma failed_all: "only_marks f \<Longrightarrow> op_all (contract Q S) (mark_row_failed did q n f)"
  unfolding mark_row_failed_def
  by (intro op_bind_all op_return_all update_all lawful_counted [where did = did and q = q and m = "n - 1"])
    (auto simp: owned_row_def)

lemma record_all: "op_all (contract Q S) (record_send_outcome env row answer (next_mail_drain_attempts (md_attempts row)) exhausted)"
proof (cases answer)
  case None
  then show ?thesis
    unfolding record_send_outcome_def Let_def
    by (simp only: option.case) (intro op_bind_all op_return_all failed_all marks)
next
  case (Some r)
  let ?now = "me_now env (md_id row) 6" and ?n = "next_mail_drain_attempts (md_attempts row)"
  let ?u = "\<lambda>d. (map_send_result_to_delivery ?now r d)\<lparr>md_provider := sr_provider r, md_attempts := ?n\<rparr>"
  have base: "lawful (owned_row (md_id row) (md_queued_at row) (md_attempts row)) ?u"
    using lawful_counted [OF marks_result [where now = ?now and r = r and p = "sr_provider r"], of "owned_row (md_id row) (md_queued_at row) (md_attempts row)"
        "md_id row" "md_queued_at row" "md_attempts row" "\<lambda>d. ?n"]
    by (simp add: owned_row_def next_mail_drain_attempts_def)
  then have "lawful (owned_row (md_id row) (md_queued_at row) (md_attempts row))
      (\<lambda>d. let u = ?u d in if b then u\<lparr>md_retryable := x\<rparr> else u)" for b x
    by (simp add: lawful_def advances_def Let_def)
  then show ?thesis
    unfolding record_send_outcome_def Let_def Some option.case
    by (intro op_bind_all op_return_all update_all) (simp add: Let_def)
qed

lemma hand_over_all:
  assumes "sendable did"
  shows "op_all (contract Q S) (hand_over env did message)"
  unfolding op_all_def
proof
  fix w
  have "contract Q S w (with_outbox did message (mail_others (me_others env did 2) w))"
    by (rule rel_trans [OF others handed [OF assms]])
  then show "contract Q S w (snd (hand_over env did message w))"
    by (simp add: hand_over_def with_outbox_def mail_others_def)
qed

lemma send_batch_all: "sendable did \<Longrightarrow> op_all (contract Q S) (send_batch env did messages)"
  unfolding send_batch_def by (intro op_fold_all op_bind_all op_return_all hand_over_all)

lemma check_then:
  assumes "\<And>seen. (\<And>b. seen did = Some b \<Longrightarrow> truthy (bs_recipient_email b) \<Longrightarrow> sendable did) \<Longrightarrow>
      op_all (contract Q S) (g seen)"
  shows "op_all (contract Q S) (op_bind (read_deliveries_before_send (me_others env i k) items) g)"
proof -
  have "op_bind (read_deliveries_before_send (me_others env i k) items) g =
    op_bind (op_read (\<lambda>w. holders_of_override_addresses (map fst items) (mw_db w))) (\<lambda>holders.
    op_bind (others_commit (me_others env i k)) (\<lambda>_.
    op_bind (op_read (\<lambda>w. deliveries_of_live items holders (mw_db w))) g))"
    by (simp add: read_deliveries_before_send_def fun_eq_iff op_bind_def op_read_def others_commit_def)
  moreover have "op_all (contract Q S) (op_bind (op_read (\<lambda>w. deliveries_of_live items holders (mw_db w))) g)" for holders
  proof (rule read_then)
    fix w assume "Q w"
    show "contract Q S w (snd (g (deliveries_of_live items holders (mw_db w)) w))"
      by (rule op_allD [OF assms]) (rule checked [OF \<open>Q w\<close>])
  qed
  ultimately show ?thesis by (simp only:) (rule op_bind_all [OF op_read_all op_bind_all [OF others_all]])
qed

lemma send_and_record_all: "sendable (md_id row) \<Longrightarrow> op_all (contract Q S) (send_and_record env row message)"
  unfolding send_and_record_def Let_def
  by (intro try_all op_bind_all op_return_all assert_all send_batch_all record_all failed_all marks)

lemma send_materialized_all: "op_all (contract Q S) (send_materialized env row rendered)"
  unfolding send_materialized_def
  by (intro check_then [where did = "md_id row"] op_all_if op_return_all send_and_record_all)
    (auto simp: still_as_claimed_def split: option.splits)

lemma claimed_failed_all: "op_all (contract Q S) (mark_claimed_row_failed env row err)"
  unfolding mark_claimed_row_failed_def Let_def by (intro failed_all marks)

lemma send_owned_all: "op_all (contract Q S) (send_owned_snapshot env row base)"
proof -
  have "op_all (contract Q S) (links_or_failure env row base)"
    unfolding links_or_failure_def by (intro mail_intros claimed_failed_all)
  moreover have "op_all (contract Q S) (case linked of Inl out \<Rightarrow> op_return out
      | Inr links \<Rightarrow> (case try_materialize_stored_message env x links of
          None \<Rightarrow> op_bind (assert_owned env (md_id row) 7) (\<lambda>_.
            op_bind (mark_row_failed (md_id row) (md_queued_at row) (next_mail_drain_attempts (md_attempts row))
              (snapshot_unusable_update t)) (\<lambda>applied. op_return (applied_outcome applied)))
        | Some rendered \<Rightarrow> send_materialized env row rendered))" for linked x t
    by (cases linked) (auto intro!: op_return_all op_all_option op_bind_all assert_all failed_all marks send_materialized_all)
  ultimately show ?thesis
    unfolding send_owned_snapshot_def by (intro op_all_if op_return_all op_bind_all)
qed

lemma drain_event_all: "op_all (contract Q S) (drain_event_batch env base eid rows)"
  unfolding drain_event_batch_def fail_event_rows_def send_event_rows_def
  by (auto split: sum.split intro!: op_fold_all op_bind_all ownership_all assert_all claimed_failed_all op_return_all send_owned_all)

lemma drain_all: "op_all (contract Q S) (drain_pending_deliveries env opts clock)"
  unfolding drain_pending_deliveries_def
  by (intro mail_intros) (auto intro!: op_bind_all drain_event_all op_return_all split: prod.split)

lemma retry_update_all: "only_marks f \<Longrightarrow> op_all (contract Q S) (retry_update row f)"
  unfolding retry_update_def
  by (intro update_all lawful_counted [where did = "md_id row" and q = "md_queued_at row" and m = "md_attempts row"]) simp_all

lemma send_retry_all: "op_all (contract Q S) (send_retry env row message)"
  unfolding send_retry_def
  by (intro check_then [where did = "md_id row"] op_all_if op_return_all op_bind_all assert_all send_batch_all op_all_option
      retry_update_all marks) (auto simp: still_retryable_def split: option.splits)

lemma retry_with_links_all: "op_all (contract Q S) (retry_with_links env row links)"
proof -
  have "op_all (contract Q S) (retry_without_mailer env row err)" for err
    unfolding retry_without_mailer_def
    by (cases "error_kind err") (auto intro!: op_bind_all assert_all retry_update_all marks op_return_all throw_all)
  then show ?thesis
    unfolding retry_with_links_def
    by (auto split: option.split sum.split intro!: op_bind_all assert_all retry_update_all marks op_return_all send_retry_all)
qed

lemma retry_all: "op_all (contract Q S) (retry_delivery env url did)"
proof -
  have "op_all (contract Q S) (retry_owned_delivery env url did)"
    unfolding retry_owned_delivery_def
    by (intro mail_intros retry_with_links_all)
  then show ?thesis unfolding retry_delivery_def by (intro op_bind_all ownership_all op_return_all)
qed

section \<open>The rest\<close>

lemma cancel_all: "op_all (contract Q S) (cancel_bulk_send_batch eid batch)"
  unfolding cancel_bulk_send_batch_def
  by (intro update_all) (auto simp: lawful_def advances_def same_or_gone_def blank_def mail_waits_def)

lemma bounce_all: "op_all (contract Q S) (apply_bounce_result env row l)"
  unfolding apply_bounce_result_def Let_def
  by (intro op_all_if op_return_all op_bind_all others_all update_all)
    (auto simp: lawful_def advances_def same_or_gone_def blank_def)

lemma viewed_all: "op_all (contract Q S) (record_ticket_viewed env aid eid)"
proof -
  let ?p = "\<lambda>d. md_attendee_id d = aid \<and> md_event_id d = eid \<and> md_status d \<in> set email_delivery_success_statuses \<and> md_viewed_at d = None"
  have "contract Q S w (snd ((if is_attendee_gone (lock_attendee_row aid (Some eid) (mw_db w)) then op_return ()
      else op_bind (op_read (\<lambda>w. find_latest md_created_at ?p (mails w))) (\<lambda>found. case found of
         None \<Rightarrow> op_return ()
       | Some row \<Rightarrow> op_bind (update_mail (\<lambda>d. md_id d = md_id row)
           (\<lambda>d. d\<lparr>md_viewed_at := v\<rparr>)) (\<lambda>_. op_return ()))) w))" if "Q w" for w v
  proof (cases "is_attendee_gone (lock_attendee_row aid (Some eid) (mw_db w)) \<or> find_latest md_created_at ?p (mails w) = None")
    case True
    then show ?thesis by (auto simp: op_return_def rel_refl op_bind_def op_read_def)
  next
    case False
    then obtain row where row: "find_latest md_created_at ?p (mails w) = Some row" by auto
    from False have "\<not> erased_lock (lock_attendee_row aid (Some eid) (mw_db w))"
        "lock_attendee_row aid (Some eid) (mw_db w) \<noteq> None"
      by (auto simp: is_attendee_gone_def erased_lock_def split: option.splits)
    with find_latest_Some(1,2) [OF row]
    have "contract Q S w (with_mails (update_where (\<lambda>d. md_id d = md_id row) (\<lambda>d. d\<lparr>md_viewed_at := v\<rparr>) (mails w)) w)"
      by (intro locked_update [OF that _ that, where eid = "Some eid"]) (auto simp: advances_def same_or_gone_def)
    with False row show ?thesis by (simp add: op_return_def op_bind_def op_read_def update_mail_run)
  qed
  then show ?thesis unfolding record_ticket_viewed_def by (intro op_bind_all others_all read_then)
qed

lemma pending_all: "op_all (contract Q S) (send_owned_pending env p message)"
proof -
  have marked: "lawful q (\<lambda>d. maybe_increment p (f d))" if "only_marks f" "\<And>d. q d \<Longrightarrow> owned_row i t n d" for q f i t n
    using that(1) owned_not_blank [OF that(2)]
    by (simp add: lawful_def advances_def only_marks_def same_or_gone_def maybe_increment_def)
  show ?thesis
    unfolding send_owned_pending_def Let_def
    by (intro check_then [where did = "ps_delivery_id p"] op_all_if op_return_all op_bind_all assert_all op_all_option try_all
        hand_over_all throw_all update_all marked marks) (auto simp: still_queued_def)
qed

lemma fail_pending_all: "op_all (contract Q S) (fail_queued_pending env p err)"
proof -
  have marked: "lawful q (\<lambda>d. maybe_increment p (f d))" if "only_marks f" "\<And>d. q d \<Longrightarrow> owned_row i t n d" for q f i t n
    using that(1) owned_not_blank [OF that(2)]
    by (simp add: lawful_def advances_def only_marks_def same_or_gone_def maybe_increment_def)
  show ?thesis
    unfolding fail_queued_pending_def fail_queued_pending_with_def Let_def
    by (intro check_then [where did = "ps_delivery_id p"] op_all_if op_return_all op_bind_all assert_all op_all_option
        update_all marked marks) auto
qed

end

end
