(* ===== verification/Mail_Guarantees.thy ===== *)
theory Mail_Guarantees
  imports Mail_Contract
begin

text \<open>
  The requests of mail delivery as one machine, and the contract with three providers: the keys of
  the deliveries, their revisions, and the deliveries of an erased attendee.
\<close>

section \<open>Requests for tickets\<close>

text \<open>With issuance: a relation on the tables that minting a token keeps.\<close>

locale mail_send_contract = mail_contract +
  fixes P :: "ops_db \<Rightarrow> ops_db \<Rightarrow> bool" and senv :: send_env
  assumes P_refl: "P db db"
    and P_trans: "P x y \<Longrightarrow> P y z \<Longrightarrow> P x z"
    and lift: "P (mw_db w) db \<Longrightarrow> contract Q S w (w\<lparr>mw_db := db\<rparr>)"
    and mail_env_of: "se_mail senv = env"
    and minting: "mint_cas aid h enc x = Inr (n, y) \<Longrightarrow> P x y"
    and mint_others: "P x (mi_others (se_mint senv) k x)"
begin

lemma P_bind: "tx_all P m \<Longrightarrow> (\<And>a. tx_all P (f a)) \<Longrightarrow> tx_all P (tx_bind m f)"
  by (fastforce simp: tx_all_def tx_bind_Inr intro: P_trans)

lemma P_return: "tx_all P (tx_return a)"
  by (simp add: tx_all_def tx_return_def P_refl)

lemma P_read: "tx_all P (tx_read f)"
  by (simp add: tx_all_def tx_read_def P_refl)

lemma P_issue: "tx_all P (issue_ticket (se_mint senv) aid)"
proof -
  have mint: "tx_all P (mint_cas aid h enc)" for h enc
    using minting by (auto simp: tx_all_def)
  have "tx_all P (interfere (mi_others (se_mint senv) k))" for k
    using mint_others by (auto intro: tx_all_interfere)
  with mint show ?thesis
    unfolding issue_ticket_def mint_or_explain_def Let_def
    by (auto intro!: P_bind P_return P_read tx_all_throw tx_all_if split: option.split sum.split)
qed

lemma issue_all: "op_all (contract Q S) (issue_for_mail senv aid)"
  unfolding op_all_def
proof
  fix w
  show "contract Q S w (snd (issue_for_mail senv aid w))"
  proof (cases "issue_ticket (se_mint senv) aid (mw_db w)")
    case (Inl e)
    then show ?thesis by (simp add: issue_for_mail_def in_mail_db_def rel_refl)
  next
    case (Inr r)
    obtain t db where r: "r = (t, db)" by (cases r)
    with Inr have "P (mw_db w) db" using tx_allD [OF P_issue] by simp
    with Inr r lift show ?thesis by (simp add: issue_for_mail_def in_mail_db_def)
  qed
qed

lemma process_all:
  assumes "fresh (se_fresh_id senv (att_id a))"
  shows "op_all (contract Q S) (process_attendee_for_send senv opts event template types base provider completed a)"
proof -
  have claim: "op_all (contract Q S) (claim_or_resend_pending senv (att_id a) purpose inp links c)" for purpose inp links c
    unfolding claim_or_resend_pending_def mail_env_of
    by (intro op_all_if op_bind_all op_return_all claim_all resend_all assms)
  have rest: "op_all (contract Q S) (case resolve_plaintext_token (se_mail senv) a ticket of
          Inl err \<Rightarrow> op_return (Send_skip (att_id a) (error_message err))
        | Inr token \<Rightarrow> (case build_attendee_mail_links (se_mail senv) a event base token of
             Inl err \<Rightarrow> op_return (Send_skip (att_id a) (error_message err))
           | Inr links \<Rightarrow> op_bind (op_of_sum x) (\<lambda>rendered. claim_or_resend_pending senv (att_id a) purpose (inp rendered) links c)))"
    for ticket x purpose inp c
    by (auto split: sum.split intro!: op_return_all op_bind_all sum_all claim)
  show ?thesis
    unfolding process_attendee_for_send_def
  proof (intro op_bind_all issue_all)
    fix ticket
    show "op_all (contract Q S) (case ticket of
       Ticket_not_issuable _ cause \<Rightarrow> op_return (Send_skip (att_id a) (not_issuable_text cause))
     | _ \<Rightarrow> (case resolve_plaintext_token (se_mail senv) a ticket of
          Inl err \<Rightarrow> op_return (Send_skip (att_id a) (error_message err))
        | Inr token \<Rightarrow>
          (case build_attendee_mail_links (se_mail senv) a event base token of
             Inl err \<Rightarrow> op_return (Send_skip (att_id a) (error_message err))
           | Inr links \<Rightarrow>
             op_bind (op_of_sum (se_render senv event (template_vars_of a types))) (\<lambda>rendered.
             claim_or_resend_pending senv (att_id a) (so_purpose opts)
               \<lparr>cn_organization_id = ev_organization_id event, cn_event_id = ev_id event, cn_attendee_id = att_id a,
                cn_batch_id = se_batch_id senv, cn_template_id = fst template, cn_template_label = fst (snd template),
                cn_has_wallet_cta = snd (snd template), cn_provider = provider,
                cn_recipient_email = (if so_purpose opts = Purpose_resend \<and> truthy (so_recipient_email opts)
                  then the (so_recipient_email opts) else att_email a),
                cn_rendered_subject = fst rendered, cn_rendered_html = snd rendered, cn_timezone = so_timezone opts,
                cn_actor_user_id = so_actor_user_id opts, cn_session_id = so_session_id opts\<rparr> links completed))))"
      by (cases ticket) (simp_all only: issued_ticket.case rest op_return_all)
  qed
qed

lemma tickets_all:
  assumes "\<And>aid. fresh (se_fresh_id senv aid)"
  shows "op_all (contract Q S) (send_ticket_emails senv eid opts)"
  unfolding send_ticket_emails_def
  by (intro mail_intros process_all assms)

lemma resend_email_all:
  assumes "\<And>aid. fresh (se_fresh_id senv aid)"
  shows "op_all (contract Q S) (resend_ticket_email senv aid opts)"
  unfolding resend_ticket_email_def
  by (intro mail_intros tickets_all assms)

end

section \<open>The machine\<close>

datatype mail_request =
    Rq_tickets string send_options
  | Rq_resend_tickets string send_options
  | Rq_drain drain_options int
  | Rq_retry "string option" string
  | Rq_cancel string string
  | Rq_bounce mail_delivery bounce_line
  | Rq_viewed string string
  | Rq_send_now pending_send mail_message
  | Rq_fail_now pending_send mail_error

fun serve_mail :: "send_env \<Rightarrow> mail_request \<Rightarrow> mail_world \<Rightarrow> mail_world" where
  "serve_mail senv (Rq_tickets eid opts) w = snd (send_ticket_emails senv eid opts w)"
| "serve_mail senv (Rq_resend_tickets aid opts) w = snd (resend_ticket_email senv aid opts w)"
| "serve_mail senv (Rq_drain opts clock) w = snd (drain_pending_deliveries (se_mail senv) opts clock w)"
| "serve_mail senv (Rq_retry url did) w = snd (retry_delivery (se_mail senv) url did w)"
| "serve_mail senv (Rq_cancel eid batch) w = snd (cancel_bulk_send_batch eid batch w)"
| "serve_mail senv (Rq_bounce row l) w = snd (apply_bounce_result (se_mail senv) row l w)"
| "serve_mail senv (Rq_viewed aid eid) w = snd (record_ticket_viewed (se_mail senv) aid eid w)"
| "serve_mail senv (Rq_send_now p m) w = snd (send_owned_pending (se_mail senv) p m w)"
| "serve_mail senv (Rq_fail_now p e) w = snd (fail_queued_pending (se_mail senv) p e w)"

context mail_send_contract
begin

lemma serve_keeps:
  assumes "\<And>aid. fresh (se_fresh_id senv aid)"
  shows "contract Q S w (serve_mail senv req w)"
  by (cases req)
    (simp_all add: mail_env_of op_allD [OF tickets_all [OF assms]] op_allD [OF resend_email_all [OF assms]]
      op_allD [OF drain_all] op_allD [OF retry_all] op_allD [OF cancel_all] op_allD [OF bounce_all]
      op_allD [OF viewed_all] op_allD [OF pending_all] op_allD [OF fail_pending_all])

end

section \<open>Others that keep to a relation\<close>

text \<open>
  An environment whose other transactions keep a relation \<open>P\<close> on the tables. \<open>tamed\<close> makes one of any
  environment (a commit that breaks \<open>P\<close> does not happen), and leaves the others as they are.
\<close>

definition keep_to :: "(ops_db \<Rightarrow> ops_db \<Rightarrow> bool) \<Rightarrow> send_env \<Rightarrow> bool" where
  "keep_to P senv \<longleftrightarrow> (\<forall>did k db. P db (me_others (se_mail senv) did k db)) \<and> (\<forall>k db. P db (mi_others (se_mint senv) k db))"

definition tame :: "(ops_db \<Rightarrow> ops_db \<Rightarrow> bool) \<Rightarrow> (ops_db \<Rightarrow> ops_db) \<Rightarrow> ops_db \<Rightarrow> ops_db" where
  "tame P f db = (if P db (f db) then f db else db)"

definition tamed :: "(ops_db \<Rightarrow> ops_db \<Rightarrow> bool) \<Rightarrow> mail_env \<Rightarrow> mail_env" where
  "tamed P env = env\<lparr>me_others := \<lambda>did k. tame P (me_others env did k)\<rparr>"

definition tamed_send :: "(ops_db \<Rightarrow> ops_db \<Rightarrow> bool) \<Rightarrow> send_env \<Rightarrow> send_env" where
  "tamed_send P senv = senv\<lparr>se_mail := tamed P (se_mail senv),
     se_mint := (se_mint senv)\<lparr>mi_others := \<lambda>k. tame P (mi_others (se_mint senv) k)\<rparr>\<rparr>"

lemma tame_keeps: "P db db \<Longrightarrow> P db (tame P f db)"
  by (simp add: tame_def)

lemma tamed_mail_id: "(\<And>did k db. P db (me_others env did k db)) \<Longrightarrow> tamed P env = env"
  by (simp add: tamed_def tame_def fun_eq_iff)

lemma tamed_send_id: "keep_to P senv \<Longrightarrow> tamed_send P senv = senv"
  by (simp add: tamed_send_def tamed_def tame_def keep_to_def fun_eq_iff)

lemma tamed_send_sel [simp]:
  "se_mail (tamed_send P senv) = tamed P (se_mail senv)" "se_fresh_id (tamed_send P senv) = se_fresh_id senv"
  "me_others (tamed P env) did k = tame P (me_others env did k)"
  "mi_others (se_mint (tamed_send P senv)) k = tame P (mi_others (se_mint senv) k)"
  by (simp_all add: tamed_send_def tamed_def)

lemma insert_delivery_Inr:
  "insert_delivery env d db = Inr (e, db') \<Longrightarrow>
   e = d \<and> db' = db\<lparr>mail_deliveries := mail_deliveries db @ [d]\<rparr> \<and>
   (\<forall>x \<in> set (mail_deliveries db). md_id x \<noteq> md_id d \<and> \<not> same_initial d x) \<and>
   (\<exists>a \<in> set (attendees db). att_id a = md_attendee_id d)"
  by (auto simp: insert_delivery_def split: if_splits)

lemma mint_cas_Inr:
  "mint_cas aid h enc x = Inr (n, y) \<Longrightarrow> y = x\<lparr>attendees := update_where (mintable aid)
     (\<lambda>a. a\<lparr>att_token_hash := Some h, att_token_enc := Some enc\<rparr>) (attendees x)\<rparr>"
  by (simp add: mint_cas_def)

section \<open>Keys\<close>

definition one_initial :: "mail_delivery list \<Rightarrow> bool" where
  "one_initial ms \<longleftrightarrow> distinct (map md_id ms) \<and>
     (\<forall>d \<in> set ms. \<forall>e \<in> set ms. same_initial d e \<longrightarrow> d = e)"

definition keys_kept :: "ops_db \<Rightarrow> ops_db \<Rightarrow> bool" where
  "keys_kept x y \<longleftrightarrow> (one_initial (mail_deliveries x) \<longrightarrow> one_initial (mail_deliveries y))"

lemma advances_keys:
  "advances d e \<Longrightarrow> md_id e = md_id d \<and> md_attendee_id e = md_attendee_id d \<and> md_event_id e = md_event_id d \<and> md_purpose e = md_purpose d"
  by (simp add: advances_def)

lemma update_ids:
  assumes "\<And>d. p d \<Longrightarrow> advances d (f d)"
  shows "map md_id (update_where p f ms) = map md_id ms"
  by (rule map_update_where) (use advances_keys assms in blast)

lemma update_origin:
  assumes "\<And>d. p d \<Longrightarrow> advances d (f d)" "y \<in> set (update_where p f ms)"
  obtains x where "x \<in> set ms" "advances x y" "y = (if p x then f x else x)"
proof -
  from assms(2) obtain x where x: "x \<in> set ms" "y = (if p x then f x else x)" by (auto simp: in_update_where)
  moreover have "advances x y" using x(2) assms(1) [of x] by simp
  ultimately show thesis by (rule_tac that)
qed

lemma one_initial_update:
  assumes "one_initial ms" "\<And>d. p d \<Longrightarrow> advances d (f d)"
  shows "one_initial (update_where p f ms)"
proof -
  have "d = e" if de: "d \<in> set (update_where p f ms)" "e \<in> set (update_where p f ms)" "same_initial d e" for d e
  proof -
    obtain x where x: "x \<in> set ms" "advances x d" "d = (if p x then f x else x)" using update_origin [OF assms(2) de(1)] by blast
    obtain y where y: "y \<in> set ms" "advances y e" "e = (if p y then f y else y)" using update_origin [OF assms(2) de(2)] by blast
    have "same_initial x y"
      using de(3) advances_keys [OF x(2)] advances_keys [OF y(2)] by (simp add: same_initial_def)
    then have "x = y" using assms(1) x(1) y(1) by (simp add: one_initial_def)
    then show ?thesis using x(3) y(3) by simp
  qed
  then show ?thesis using assms(1) update_ids [OF assms(2)] unfolding one_initial_def by metis
qed

lemma one_initial_insert:
  assumes "one_initial ms" "\<forall>x \<in> set ms. md_id x \<noteq> md_id d \<and> \<not> same_initial d x"
  shows "one_initial (ms @ [d])"
proof -
  have sym: "same_initial x d \<Longrightarrow> same_initial d x" for x by (simp add: same_initial_def)
  show ?thesis using assms sym unfolding one_initial_def by (auto simp: image_iff)
qed

interpretation keys: mail_send_contract "\<lambda>w. one_initial (mails w)" "\<lambda>_ _. True" "tamed keys_kept (se_mail senv)"
  "\<lambda>_. True" "\<lambda>_. True" keys_kept "tamed_send keys_kept senv"
proof unfold_locales
  fix w :: mail_world and did k
  show "contract (\<lambda>w. one_initial (mails w)) (\<lambda>_ _. True) w (mail_others (me_others (tamed keys_kept (se_mail senv)) did k) w)"
    using tame_keeps [of keys_kept "mw_db w"] by (auto simp: contract_def mail_others_def mails_def keys_kept_def)
next
  fix p f and w :: mail_world
  assume "lawful p f"
  then show "contract (\<lambda>w. one_initial (mails w)) (\<lambda>_ _. True) w (with_mails (update_where p f (mails w)) w)"
    by (auto simp: contract_def lawful_def intro: one_initial_update)
next
  fix u w :: mail_world and row eid p f
  assume "\<And>d. p d \<Longrightarrow> md_id d = md_id row \<and> advances d (f d)"
  then show "contract (\<lambda>w. one_initial (mails w)) (\<lambda>_ _. True) w (with_mails (update_where p f (mails w)) w)"
    by (auto simp: contract_def intro: one_initial_update)
next
  fix d e db and w :: mail_world
  assume "insert_delivery (tamed keys_kept (se_mail senv)) d (mw_db w) = Inr (e, db)"
  from insert_delivery_Inr [OF this]
  show "contract (\<lambda>w. one_initial (mails w)) (\<lambda>_ _. True) w (w\<lparr>mw_db := db\<rparr>)"
    by (auto simp: contract_def mails_def intro: one_initial_insert)
next
  fix aid h enc x n y assume "mint_cas aid h enc x = Inr (n, y)"
  from mint_cas_Inr [OF this] show "keys_kept x y" by (simp add: keys_kept_def)
qed (auto simp: contract_def keys_kept_def mails_def tame_keeps tame_def with_outbox_def)

section \<open>Revisions\<close>

text \<open>Deliveries under known ids only move on; a new row does not take a known id.\<close>

definition revisions_grow :: "string set \<Rightarrow> mail_delivery list \<Rightarrow> mail_delivery list \<Rightarrow> bool" where
  "revisions_grow known xs ys \<longleftrightarrow>
     (\<forall>e \<in> set ys. md_id e \<in> known \<longrightarrow> (\<exists>d \<in> set xs. advances d e))"

definition revisions_kept :: "string set \<Rightarrow> ops_db \<Rightarrow> ops_db \<Rightarrow> bool" where
  "revisions_kept known x y \<longleftrightarrow> revisions_grow known (mail_deliveries x) (mail_deliveries y)"

lemma revisions_grow_refl [simp]: "revisions_grow known xs xs"
  unfolding revisions_grow_def using advances_refl by blast

lemma revisions_grow_trans:
  assumes "revisions_grow known xs ys" "revisions_grow known ys zs"
  shows "revisions_grow known xs zs"
  unfolding revisions_grow_def
proof (intro ballI impI)
  fix e assume "e \<in> set zs" "md_id e \<in> known"
  then obtain d where d: "d \<in> set ys" "advances d e" using assms(2) by (auto simp: revisions_grow_def)
  then have "md_id d \<in> known" using \<open>md_id e \<in> known\<close> advances_keys by simp
  then obtain c where "c \<in> set xs" "advances c d" using assms(1) d(1) by (auto simp: revisions_grow_def)
  then show "\<exists>c \<in> set xs. advances c e" using d(2) advances_trans by blast
qed

lemma revisions_grow_update:
  assumes "\<And>d. p d \<Longrightarrow> advances d (f d)"
  shows "revisions_grow known ms (update_where p f ms)"
  unfolding revisions_grow_def
proof (intro ballI impI)
  fix e assume "e \<in> set (update_where p f ms)"
  from assms this obtain x where "x \<in> set ms" "advances x e" by (rule update_origin)
  then show "\<exists>d \<in> set ms. advances d e" by blast
qed

lemma revisions_grow_insert: "md_id d \<notin> known \<Longrightarrow> revisions_grow known ms (ms @ [d])"
  unfolding revisions_grow_def using advances_refl by fastforce

interpretation revisions: mail_send_contract "\<lambda>_. True" "\<lambda>w w'. revisions_grow known (mails w) (mails w')"
  "tamed (revisions_kept known) (se_mail senv)" "\<lambda>i. i \<notin> known" "\<lambda>_. True" "revisions_kept known" "tamed_send (revisions_kept known) senv"
proof unfold_locales
  fix w :: mail_world and did k
  show "contract (\<lambda>_. True) (\<lambda>w w'. revisions_grow known (mails w) (mails w')) w
      (mail_others (me_others (tamed (revisions_kept known) (se_mail senv)) did k) w)"
    using tame_keeps [of "revisions_kept known" "mw_db w"]
    by (simp add: contract_def mail_others_def mails_def revisions_kept_def)
next
  fix p f and w :: mail_world assume "lawful p f"
  then show "contract (\<lambda>_. True) (\<lambda>w w'. revisions_grow known (mails w) (mails w')) w (with_mails (update_where p f (mails w)) w)"
    by (auto simp: contract_def lawful_def intro: revisions_grow_update)
next
  fix u w :: mail_world and row eid p f
  assume "\<And>d. p d \<Longrightarrow> md_id d = md_id row \<and> advances d (f d)"
  then show "contract (\<lambda>_. True) (\<lambda>w w'. revisions_grow known (mails w) (mails w')) w (with_mails (update_where p f (mails w)) w)"
    by (auto simp: contract_def intro: revisions_grow_update)
next
  fix d e db and w :: mail_world
  assume "md_id d \<notin> known" and ins: "insert_delivery (tamed (revisions_kept known) (se_mail senv)) d (mw_db w) = Inr (e, db)"
  with insert_delivery_Inr [OF ins]
  show "contract (\<lambda>_. True) (\<lambda>w w'. revisions_grow known (mails w) (mails w')) w (w\<lparr>mw_db := db\<rparr>)"
    by (simp add: contract_def mails_def revisions_grow_insert)
next
  fix x y z assume "revisions_kept known x y" "revisions_kept known y z"
  then show "revisions_kept known x z" unfolding revisions_kept_def by (rule revisions_grow_trans)
next
  fix aid h enc x n y assume "mint_cas aid h enc x = Inr (n, y)"
  from mint_cas_Inr [OF this] show "revisions_kept known x y" by (simp add: revisions_kept_def)
next
  fix u v w :: mail_world
  assume "revisions_grow known (mails u) (mails v)" "revisions_grow known (mails v) (mails w)"
  then show "revisions_grow known (mails u) (mails w)" by (rule revisions_grow_trans)
next
  fix x k
  show "revisions_kept known x (mi_others (se_mint (tamed_send (revisions_kept known) senv)) k x)"
    unfolding tamed_send_sel by (rule tame_keeps) (simp add: revisions_kept_def)
qed (simp_all add: contract_def revisions_kept_def mails_def tame_keeps with_outbox_def)

section \<open>The deliveries of an erased attendee\<close>

definition shielded :: "string \<Rightarrow> mail_delivery list \<Rightarrow> ops_db \<Rightarrow> bool" where
  "shielded i rows db \<longleftrightarrow>
     (\<exists>a \<in> set (attendees db). att_id a = i) \<and> (\<forall>a \<in> set (attendees db). att_id a = i \<longrightarrow> att_erased_at a \<noteq> None) \<and>
     distinct (map md_id (mail_deliveries db)) \<and> filter (\<lambda>d. md_attendee_id d = i) (mail_deliveries db) = rows \<and>
     (\<forall>d \<in> set rows. blank d)"

definition shield_kept :: "string \<Rightarrow> mail_delivery list \<Rightarrow> ops_db \<Rightarrow> ops_db \<Rightarrow> bool" where
  "shield_kept i rows x y \<longleftrightarrow> (shielded i rows x \<longrightarrow> shielded i rows y)"

text \<open>No message for one of these deliveries is handed over.\<close>

definition silent :: "mail_delivery list \<Rightarrow> mail_world \<Rightarrow> mail_world \<Rightarrow> bool" where
  "silent rows w w' \<longleftrightarrow> (\<exists>new. mw_outbox w' = mw_outbox w @ new \<and> (\<forall>(did, m) \<in> set new. did \<notin> md_id ` set rows))"

lemma silent_refl: "silent rows w w"
  by (simp add: silent_def)

lemma silent_same: "mw_outbox w' = mw_outbox w \<Longrightarrow> silent rows w w'"
  by (simp add: silent_def)

lemma silent_trans: "silent rows u v \<Longrightarrow> silent rows v w \<Longrightarrow> silent rows u w"
  unfolding silent_def by (elim exE conjE, rule exI [where x = "_ @ _"]) auto

lemma shielded_row:
  assumes "shielded i rows db" "d \<in> set (mail_deliveries db)"
  shows "md_id d \<in> md_id ` set rows \<longleftrightarrow> md_attendee_id d = i" "md_attendee_id d = i \<Longrightarrow> blank d"
proof -
  have rows: "set rows = {d \<in> set (mail_deliveries db). md_attendee_id d = i}"
    using assms(1) by (auto simp: shielded_def)
  show "md_id d \<in> md_id ` set rows \<longleftrightarrow> md_attendee_id d = i"
  proof
    assume "md_id d \<in> md_id ` set rows"
    then obtain x where x: "x \<in> set (mail_deliveries db)" "md_attendee_id x = i" "md_id x = md_id d" unfolding rows by force
    have "x = d" using assms x(1,3) by (auto simp: shielded_def intro: distinct_keyD)
    then show "md_attendee_id d = i" using x(2) by simp
  qed (use assms(2) rows in blast)
  show "md_attendee_id d = i \<Longrightarrow> blank d" using assms rows by (auto simp: shielded_def)
qed

lemma shielded_update:
  assumes sh: "shielded i rows (mw_db w)" and p: "\<And>d. d \<in> set (mails w) \<Longrightarrow> p d \<Longrightarrow> md_attendee_id d \<noteq> i"
    and adv: "\<And>d. p d \<Longrightarrow> advances d (f d)"
  shows "shielded i rows (mw_db (with_mails (update_where p f (mails w)) w))"
proof -
  have "filter (\<lambda>d. md_attendee_id d = i) (update_where p f ms) = filter (\<lambda>d. md_attendee_id d = i) ms"
    if "\<And>d. d \<in> set ms \<Longrightarrow> p d \<Longrightarrow> md_attendee_id d \<noteq> i" for ms
    using that advances_keys [OF adv] by (induction ms) (auto simp: update_where_def)
  with p sh update_ids [of p f, OF adv] show ?thesis
    by (simp add: shielded_def with_mails_def mails_def)
qed

lemma shielded_lock:
  assumes "shielded i rows db" "\<not> erased_lock (lock_attendee_row aid eid db)"
  shows "aid = i \<Longrightarrow> eid = None \<Longrightarrow> False" "aid = i \<Longrightarrow> lock_attendee_row aid eid db = None"
proof -
  have gone: "lock_attendee_row aid eid db = None" if "aid = i"
  proof (rule ccontr)
    assume "lock_attendee_row aid eid db \<noteq> None"
    then obtain a where "List.find (\<lambda>a. att_id a = aid \<and> (case eid of None \<Rightarrow> True | Some e \<Rightarrow> att_event_id a = e)) (attendees db) = Some a"
      by (auto simp: lock_attendee_row_def split: option.splits)
    moreover from find_set [OF this] have "att_erased_at a \<noteq> None" using assms(1) that by (auto simp: shielded_def)
    ultimately show False using assms(2) by (simp add: lock_attendee_row_def erased_lock_def)
  qed
  show "aid = i \<Longrightarrow> lock_attendee_row aid eid db = None" by (rule gone)
  show False if "aid = i" "eid = None"
    using gone [OF that(1)] that assms(1) by (auto simp: lock_attendee_row_def shielded_def find_None split: option.splits)
qed

interpretation shield: mail_send_contract "\<lambda>w. shielded i rows (mw_db w)" "silent rows"
  "tamed (shield_kept i rows) (se_mail senv)" "\<lambda>_. True" "\<lambda>did. did \<notin> md_id ` set rows" "shield_kept i rows"
  "tamed_send (shield_kept i rows) senv"
proof unfold_locales
  fix u v w :: mail_world
  show "silent rows w w" by (rule silent_refl)
  show "silent rows u v \<Longrightarrow> silent rows v w \<Longrightarrow> silent rows u w" by (rule silent_trans)
next
  fix w :: mail_world and did k
  show "contract (\<lambda>w. shielded i rows (mw_db w)) (silent rows) w
      (mail_others (me_others (tamed (shield_kept i rows) (se_mail senv)) did k) w)"
    using tame_keeps [of "shield_kept i rows" "mw_db w" "me_others (se_mail senv) did k"]
    by (simp add: contract_def mail_others_def shield_kept_def silent_same)
next
  fix p f and w :: mail_world assume "lawful p f"
  then show "contract (\<lambda>w. shielded i rows (mw_db w)) (silent rows) w (with_mails (update_where p f (mails w)) w)"
    unfolding contract_def lawful_def
    by (auto simp: mails_def intro!: shielded_update [unfolded mails_def] silent_same dest: shielded_row(2))
next
  fix u w :: mail_world and row eid p f
  assume u: "shielded i rows (mw_db u)" "row \<in> set (mails u)" and w: "shielded i rows (mw_db w)"
    and lock: "\<not> erased_lock (lock_attendee_row (md_attendee_id row) eid (mw_db w))"
      "eid = None \<or> lock_attendee_row (md_attendee_id row) eid (mw_db w) \<noteq> None"
    and p: "\<And>d. p d \<Longrightarrow> md_id d = md_id row \<and> advances d (f d)"
  have "md_attendee_id row \<noteq> i" using shielded_lock [OF w lock(1)] lock(2) by auto
  then have "md_id row \<notin> md_id ` set rows" using shielded_row(1) [OF u(1)] u(2) by (simp add: mails_def)
  then have "md_attendee_id d \<noteq> i" if "d \<in> set (mails w)" "p d" for d
    using shielded_row(1) [OF w] that p by (metis mails_def)
  then show "contract (\<lambda>w. shielded i rows (mw_db w)) (silent rows) w (with_mails (update_where p f (mails w)) w)"
    using p by (auto simp: contract_def intro!: shielded_update silent_same)
next
  fix d e db and w :: mail_world
  assume lock: "\<not> erased_lock (lock_attendee_row (md_attendee_id d) None (mw_db w))"
    and ins: "insert_delivery (tamed (shield_kept i rows) (se_mail senv)) d (mw_db w) = Inr (e, db)"
  note ins = insert_delivery_Inr [OF ins]
  have "md_attendee_id d \<noteq> i" if "shielded i rows (mw_db w)" using shielded_lock(1) [OF that lock] by auto
  with ins show "contract (\<lambda>w. shielded i rows (mw_db w)) (silent rows) w (w\<lparr>mw_db := db\<rparr>)"
    by (auto simp: contract_def shielded_def silent_same)
next
  fix w :: mail_world and items holders did b
  assume w: "shielded i rows (mw_db w)" and seen: "deliveries_of_live items holders (mw_db w) did = Some b"
    and r: "truthy (bs_recipient_email b)"
  from seen obtain d where d: "d \<in> set (mail_deliveries (mw_db w))" "md_id d = did" "b = before_send_of d"
    by (auto simp: deliveries_of_live_def Let_def dest!: map_of_SomeD)
  with r have "\<not> blank d" by (auto simp: blank_def before_send_of_def truthy_def)
  then show "did \<notin> md_id ` set rows" using shielded_row [OF w d(1)] d(2) by blast
next
  fix did message and w :: mail_world
  assume "did \<notin> md_id ` set rows"
  then show "contract (\<lambda>w. shielded i rows (mw_db w)) (silent rows) w (with_outbox did message w)"
    by (auto simp: contract_def silent_def with_outbox_def)
next
  fix aid h enc x n y assume "mint_cas aid h enc x = Inr (n, y)"
  note y = mint_cas_Inr [OF this]
  show "shield_kept i rows x y"
    unfolding shield_kept_def
  proof
    assume x: "shielded i rows x"
    have "map att_id (attendees y) = map att_id (attendees x)" unfolding y by (simp add: map_update_where)
    then have "att_id ` set (attendees y) = att_id ` set (attendees x)" by (metis set_map)
    moreover have "i \<in> att_id ` set (attendees x)" using x by (auto simp: shielded_def)
    ultimately have "\<exists>a \<in> set (attendees y). att_id a = i" by (metis imageE)
    moreover have "att_erased_at a \<noteq> None" if "a \<in> set (attendees y)" "att_id a = i" for a
    proof -
      obtain b where "b \<in> set (attendees x)" "a = (if mintable aid b then b\<lparr>att_token_hash := Some h, att_token_enc := Some enc\<rparr> else b)"
        using \<open>a \<in> set (attendees y)\<close> unfolding y by (auto simp: in_update_where)
      then show ?thesis using x that(2) by (auto simp: shielded_def split: if_splits)
    qed
    moreover have "mail_deliveries y = mail_deliveries x" unfolding y by simp
    ultimately show "shielded i rows y" using x unfolding shielded_def by simp
  qed
next
  fix x k
  show "shield_kept i rows x (mi_others (se_mint (tamed_send (shield_kept i rows) senv)) k x)"
    unfolding tamed_send_sel by (rule tame_keeps) (simp add: shield_kept_def)
qed (auto simp: contract_def shield_kept_def tame_keeps silent_same)

end
