(* ===== verification/Mail_Props.thy ===== *)
theory Mail_Props
  imports Mail_Guarantees Erase_Props
begin

text \<open>
  The properties of mail delivery: what is sent and to whom, that an answered attempt is not repeated,
  that the mail of an erased attendee stays dead, and the accounts of a drain.
\<close>

section \<open>The machine keeps its guarantees\<close>

text \<open>C38: A delivery only moves on. Whatever request is served (tickets, resends, a drain, a retry, a cancel, a
  bounce, an opened ticket, an immediate send), every delivery known before that is still there has
  the same owner, event and purpose, and either a higher revision (\<open>queued_at\<close>), or the same revision, no
  fewer attempts, and the recipient, subject and body it had or none. So the pair of revision and attempts
  that every write is guarded by never returns to an earlier value. Others that commit meanwhile are
  asked for the same; ids the database generates are new.\<close>

theorem deliveries_only_move_on:
  assumes "keep_to (revisions_kept known) senv" "\<And>aid. se_fresh_id senv aid \<notin> known"
  shows "revisions_grow known (mails w) (mails (serve_mail senv req w))"
  using revisions.serve_keeps [where senv = senv and known = known and req = req and w = w] assms by (simp add: tamed_send_id contract_def)

text \<open>At most one initial delivery per attendee and event, and no two deliveries with one id: what the unique keys keep.\<close>

lemma one_initial_delivery:
  assumes "keep_to keys_kept senv" "one_initial (mails w)"
  shows "one_initial (mails (serve_mail senv req w))"
  using keys.serve_keeps [where senv = senv and req = req and w = w] assms by (simp add: tamed_send_id contract_def)

section \<open>A claim takes the initial delivery over\<close>

definition initial_for :: "claim_input \<Rightarrow> mail_delivery \<Rightarrow> bool" where
  "initial_for inp d \<longleftrightarrow> md_purpose d = ''initial'' \<and> md_attendee_id d = cn_attendee_id inp \<and> md_event_id d = cn_event_id inp"

text \<open>The unique keys hold, and an id stands for one attendee, event and purpose, \<open>owns\<close>, for ever.\<close>

definition orderly :: "(string \<Rightarrow> string \<times> string \<times> string) \<Rightarrow> ops_db \<Rightarrow> bool" where
  "orderly owns s \<longleftrightarrow> one_initial (mail_deliveries s) \<and>
     (\<forall>d \<in> set (mail_deliveries s). owns (md_id d) = (md_attendee_id d, md_event_id d, md_purpose d))"

text \<open>
  The step of a claim that is granted: no initial mail of the attendee was waiting or had gone out, the initial delivery is queued at
  a revision above every earlier one, and no other delivery is touched.
\<close>

definition takes_over :: "claim_input \<Rightarrow> string \<Rightarrow> int \<Rightarrow> ops_db \<Rightarrow> ops_db \<Rightarrow> bool" where
  "takes_over inp did revision s t \<longleftrightarrow>
     (\<forall>x \<in> set (mail_deliveries s). initial_for inp x \<longrightarrow>
        md_status x \<noteq> ''queued'' \<and> md_status x \<notin> set email_delivery_success_statuses \<and> md_queued_at x < revision) \<and>
     (\<exists>y \<in> set (mail_deliveries t). initial_for inp y \<and> md_id y = did \<and> md_status y = ''queued'' \<and> md_queued_at y = revision) \<and>
     filter (\<lambda>x. md_id x \<noteq> did) (mail_deliveries t) = filter (\<lambda>x. md_id x \<noteq> did) (mail_deliveries s) \<and>
     t = s\<lparr>mail_deliveries := mail_deliveries t\<rparr>"

definition mail_commits :: "mail_env \<Rightarrow> ops_db \<Rightarrow> ops_db \<Rightarrow> bool" where
  "mail_commits env = (\<lambda>s t. \<exists>i k. t = me_others env i k s)\<^sup>*\<^sup>*"

text \<open>What a claim did, by its answer.\<close>

definition claim_turn :: "mail_env \<Rightarrow> claim_input \<Rightarrow> ops_db \<Rightarrow> mail_error + claim_result \<Rightarrow> ops_db \<Rightarrow> bool" where
  "claim_turn env inp s r t = (case r of
     Inr (Claim_send did revision m) \<Rightarrow> \<exists>u. mail_commits env s u \<and> takes_over inp did revision u t
   | Inr (Claim_retry_existing did revision m) \<Rightarrow> \<exists>u. mail_commits env s u \<and> takes_over inp did revision u t
   | Inr (Claim_skip reason) \<Rightarrow> mail_commits env s t
   | Inl e \<Rightarrow> error_kind e \<noteq> Unique_key \<and> mail_commits env s t)"

definition takes_turn :: "(string \<Rightarrow> string \<times> string \<times> string) \<Rightarrow> mail_env \<Rightarrow> claim_input \<Rightarrow> claim_result mail_op \<Rightarrow> bool" where
  "takes_turn owns env inp m \<longleftrightarrow>
     (\<forall>w. orderly owns (mw_db w) \<longrightarrow> claim_turn env inp (mw_db w) (fst (m w)) (mw_db (snd (m w))))"

definition orderly_others :: "(string \<Rightarrow> string \<times> string \<times> string) \<Rightarrow> mail_env \<Rightarrow> bool" where
  "orderly_others owns env \<longleftrightarrow> (\<forall>i k s. orderly owns s \<longrightarrow> orderly owns (me_others env i k s))"

lemma mail_commits_refl [simp]: "mail_commits env s s"
  by (simp add: mail_commits_def)

lemma mail_commits_first: "mail_commits env (me_others env i k s) t \<Longrightarrow> mail_commits env s t"
  unfolding mail_commits_def by (rule converse_rtranclp_into_rtranclp [rotated]) blast+

lemma claim_turn_first: "claim_turn env inp (me_others env i k s) r t \<Longrightarrow> claim_turn env inp s r t"
  by (cases r) (auto simp: claim_turn_def split: claim_result.splits dest: mail_commits_first)

text \<open>What stands before a turn: a wait, a value that is looked up, the lock of the delivery.\<close>

lemma turn_wait:
  assumes "orderly_others owns env" "takes_turn owns env inp m"
  shows "takes_turn owns env inp (op_bind (others_commit (me_others env i k)) (\<lambda>_. m))"
  unfolding takes_turn_def
proof (intro allI impI)
  fix w :: mail_world assume "orderly owns (mw_db w)"
  then have "orderly owns (mw_db (w\<lparr>mw_db := me_others env i k (mw_db w)\<rparr>))" using assms(1) by (simp add: orderly_others_def)
  with assms(2) have "claim_turn env inp (mw_db (w\<lparr>mw_db := me_others env i k (mw_db w)\<rparr>))
      (fst (m (w\<lparr>mw_db := me_others env i k (mw_db w)\<rparr>))) (mw_db (snd (m (w\<lparr>mw_db := me_others env i k (mw_db w)\<rparr>))))"
    unfolding takes_turn_def by blast
  then have "claim_turn env inp (me_others env i k (mw_db w))
      (fst (m (w\<lparr>mw_db := me_others env i k (mw_db w)\<rparr>))) (mw_db (snd (m (w\<lparr>mw_db := me_others env i k (mw_db w)\<rparr>))))"
    by simp
  from claim_turn_first [OF this]
  show "claim_turn env inp (mw_db w) (fst (op_bind (others_commit (me_others env i k)) (\<lambda>_. m) w))
      (mw_db (snd (op_bind (others_commit (me_others env i k)) (\<lambda>_. m) w)))"
    by (simp add: op_bind_def others_commit_def)
qed

lemma turn_read: "(\<And>w. orderly owns (mw_db w) \<Longrightarrow> takes_turn owns env inp (m (f w))) \<Longrightarrow> takes_turn owns env inp (op_bind (op_read f) m)"
  by (simp add: takes_turn_def op_bind_def op_read_def)

lemma turn_skip: "takes_turn owns env inp (op_return (Claim_skip reason))"
  by (simp add: takes_turn_def op_return_def claim_turn_def)

lemma turn_throw: "error_kind e \<noteq> Unique_key \<Longrightarrow> takes_turn owns env inp (Mail_World.op_throw e)"
  by (simp add: takes_turn_def Mail_World.op_throw_def claim_turn_def)

lemma turn_classified:
  assumes "\<And>c. classify_existing row = Inr c \<Longrightarrow> takes_turn owns env inp (m c)"
  shows "takes_turn owns env inp (op_bind (op_of_sum (classify_existing row)) m)"
proof (cases "classify_existing row")
  case (Inl e)
  then have "error_kind e \<noteq> Unique_key"
    by (auto simp: classify_existing_def frozen_from_row_def split: if_splits sum.splits)
  with Inl show ?thesis by (simp add: takes_turn_def op_bind_def op_of_sum_def claim_turn_def)
next
  case (Inr c)
  with assms [OF Inr] show ?thesis by (simp add: takes_turn_def op_bind_def op_of_sum_def)
qed

lemma turn_assert:
  assumes "orderly_others owns env" "takes_turn owns env inp m"
  shows "takes_turn owns env inp (op_bind (assert_owned env did k) (\<lambda>_. m))"
proof -
  have "op_bind (assert_owned env did k) (\<lambda>_. m) = op_bind (others_commit (me_others env did k))
      (\<lambda>_. if me_owned env did k then m else Mail_World.op_throw (Mail_error Ownership_lost ''Delivery ownership connection lost''))"
    by (auto simp: assert_owned_def op_bind_def others_commit_def op_return_def Mail_World.op_throw_def fun_eq_iff)
  moreover have "takes_turn owns env inp (if me_owned env did k then m
      else Mail_World.op_throw (Mail_error Ownership_lost ''Delivery ownership connection lost''))"
    using assms(2) by (simp add: turn_throw)
  ultimately show ?thesis using turn_wait [OF assms(1)] by simp
qed

lemma turn_owned:
  assumes others: "orderly_others owns env" and turn: "takes_turn owns env inp m"
  shows "takes_turn owns env inp (op_bind (with_delivery_ownership env did m)
    (\<lambda>claimed. case claimed of Some c \<Rightarrow> op_return c | None \<Rightarrow> op_return (Claim_skip In_flight)))"
proof -
  let ?answer = "\<lambda>claimed. case claimed of Some c \<Rightarrow> op_return c | None \<Rightarrow> op_return (Claim_skip In_flight)"
  have granted: "op_bind (op_bind (assert_owned env did 0) (\<lambda>_. op_bind m (\<lambda>a. op_return (Some a)))) ?answer =
      op_bind (assert_owned env did 0) (\<lambda>_. m)"
    by (auto simp: op_bind_def op_return_def fun_eq_iff split: sum.splits prod.splits)
  have "takes_turn owns env inp (op_bind (Mail_World.op_throw (Mail_error Other_failure msg)) ?answer)"
    "takes_turn owns env inp (op_bind (op_return None) ?answer)" for msg
    by (simp_all add: takes_turn_def op_bind_def Mail_World.op_throw_def op_return_def claim_turn_def)
  then show ?thesis using turn_assert [OF others turn] granted
    by (auto simp: with_delivery_ownership_def with_session_advisory_lock_def split: lock_answer.splits)
qed

text \<open>A guarded write on the initial delivery that hits its row takes it over.\<close>

lemma guarded_takes_over:
  assumes orderly: "orderly owns s" and owns: "owns did = (cn_attendee_id inp, cn_event_id inp, ''initial'')"
    and guard: "\<And>d. p d \<Longrightarrow> md_id d = did \<and> md_status d \<noteq> ''queued'' \<and> md_status d \<notin> set email_delivery_success_statuses \<and>
      md_queued_at d < revision"
    and sets: "\<And>d. p d \<Longrightarrow> md_id (f d) = md_id d \<and> md_attendee_id (f d) = md_attendee_id d \<and> md_event_id (f d) = md_event_id d \<and>
      md_purpose (f d) = md_purpose d \<and> md_status (f d) = ''queued'' \<and> md_queued_at (f d) = revision"
    and hit: "count_where p (mail_deliveries s) \<noteq> 0"
  shows "takes_over inp did revision s (s\<lparr>mail_deliveries := update_where p f (mail_deliveries s)\<rparr>)"
proof -
  obtain x where x: "x \<in> set (mail_deliveries s)" "p x" using hit by (auto simp: count_where_0)
  have mine: "initial_for inp x" using x guard [OF x(2)] orderly owns by (auto simp: orderly_def initial_for_def)
  have only: "y = x" if "y \<in> set (mail_deliveries s)" "initial_for inp y" for y
  proof -
    have "same_initial y x" using mine that(2) by (simp add: same_initial_def initial_for_def)
    with orderly that(1) x(1) show ?thesis by (auto simp: orderly_def one_initial_def)
  qed
  have "initial_for inp (f x) \<and> md_id (f x) = did \<and> md_status (f x) = ''queued'' \<and> md_queued_at (f x) = revision"
    using sets [OF x(2)] guard [OF x(2)] mine by (simp add: initial_for_def)
  moreover have "f x \<in> set (update_where p f (mail_deliveries s))" using x by (auto simp: set_update_where)
  moreover have "filter (\<lambda>x. md_id x \<noteq> did) (update_where p f ms) = filter (\<lambda>x. md_id x \<noteq> did) ms" for ms
    unfolding update_where_def using guard sets by (induction ms) auto
  ultimately show ?thesis using only guard [OF x(2)] by (auto simp: takes_over_def)
qed

lemma turn_lost: "orderly_others owns env \<Longrightarrow> takes_turn owns env inp (resolve_lost_race env aid did msg)"
  unfolding resolve_lost_race_def
  by (intro turn_wait turn_read) (auto intro!: turn_classified turn_skip turn_throw split: option.split classify_result.split)

lemma turn_update:
  assumes others: "orderly_others owns env" and owns: "owns did = (cn_attendee_id inp, cn_event_id inp, ''initial'')"
    and guard: "\<And>d. p d \<Longrightarrow> md_id d = did \<and> md_status d \<noteq> ''queued'' \<and> md_status d \<notin> set email_delivery_success_statuses \<and>
      md_queued_at d < revision"
    and sets: "\<And>d. p d \<Longrightarrow> md_id (f d) = md_id d \<and> md_attendee_id (f d) = md_attendee_id d \<and> md_event_id (f d) = md_event_id d \<and>
      md_purpose (f d) = md_purpose d \<and> md_status (f d) = ''queued'' \<and> md_queued_at (f d) = revision"
    and result: "result = Claim_send did revision message \<or> result = Claim_retry_existing did revision message"
  shows "takes_turn owns env inp (op_bind (update_mail p f)
    (\<lambda>n. if n = 0 then resolve_lost_race env aid did msg else op_return result))"
  unfolding takes_turn_def
proof (intro allI impI)
  fix w :: mail_world assume w: "orderly owns (mw_db w)"
  let ?m = "op_bind (update_mail p f) (\<lambda>n. if n = 0 then resolve_lost_race env aid did msg else op_return result)"
  show "claim_turn env inp (mw_db w) (fst (?m w)) (mw_db (snd (?m w)))"
  proof (cases "count_where p (mails w) = 0")
    case True
    then have "update_where p f (mails w) = mails w" by (intro update_where_id) (simp add: count_where_0)
    then have "?m w = resolve_lost_race env aid did msg w"
      using True by (simp add: op_bind_def update_mail_def mails_def)
    with turn_lost [OF others, of inp aid did msg] w show ?thesis by (simp add: takes_turn_def)
  next
    case False
    then have "?m w = (Inr result, w\<lparr>mw_db := (mw_db w)\<lparr>mail_deliveries := update_where p f (mails w)\<rparr>\<rparr>)"
      by (simp add: op_bind_def update_mail_def op_return_def)
    moreover have "takes_over inp did revision (mw_db w) ((mw_db w)\<lparr>mail_deliveries := update_where p f (mails w)\<rparr>)"
      using guarded_takes_over [OF w owns guard sets] False by (simp add: mails_def)
    ultimately show ?thesis using result by (auto simp: claim_turn_def intro!: exI [of _ "mw_db w"])
  qed
qed

lemma turn_retry:
  assumes "orderly_others owns env" "owns did = (cn_attendee_id inp, cn_event_id inp, ''initial'')"
  shows "takes_turn owns env inp (claim_retry_existing env inp did q message)"
  unfolding claim_retry_existing_def Let_def
  by (intro turn_wait turn_update assms)
    (auto simp: next_delivery_revision_def email_delivery_success_statuses_def)

lemma turn_reclaim:
  assumes others: "orderly_others owns env" and owns: "owns did = (cn_attendee_id inp, cn_event_id inp, ''initial'')"
  shows "takes_turn owns env inp (claim_reclaim_cancelled env inp did q now)"
proof -
  let ?lost = "resolve_lost_race env (cn_attendee_id inp) did ''Reclaim lost but initial delivery row not found''"
  let ?result = "Claim_send did (next_delivery_revision q now) (frozen_from_input inp)"
  have same: "op_bind (reclaim_row inp did q now) (\<lambda>claimed. case claimed of None \<Rightarrow> op_return (Claim_skip Skip_erased)
        | Some n \<Rightarrow> if n = 0 then ?lost else op_return ?result) =
      op_bind (op_read (\<lambda>w. lock_attendee_row (cn_attendee_id inp) None (mw_db w))) (\<lambda>locked.
        if erased_lock locked then op_return (Claim_skip Skip_erased)
        else op_bind (update_mail (\<lambda>d. md_id d = did \<and> md_status d = ''cancelled'' \<and> md_queued_at d = q) (reclaimed inp q now))
          (\<lambda>n. if n = 0 then ?lost else op_return ?result))"
    by (auto simp: reclaim_row_def op_bind_def op_read_def op_return_def update_mail_def fun_eq_iff)
  have "takes_turn owns env inp (op_bind (update_mail (\<lambda>d. md_id d = did \<and> md_status d = ''cancelled'' \<and> md_queued_at d = q)
      (reclaimed inp q now)) (\<lambda>n. if n = 0 then ?lost else op_return ?result))"
    by (rule turn_update [OF others owns])
      (auto simp: reclaimed_def next_delivery_revision_def email_delivery_success_statuses_def)
  then show ?thesis
    unfolding claim_reclaim_cancelled_def same by (intro turn_wait [OF others] turn_read) (simp add: turn_skip)
qed

lemma turn_existing:
  assumes others: "orderly_others owns env"
  shows "takes_turn owns env inp (claim_existing env inp)"
  unfolding claim_existing_def
proof (intro turn_wait [OF others] turn_read)
  fix w :: mail_world assume w: "orderly owns (mw_db w)"
  show "takes_turn owns env inp (case existing_initial inp w of
      None \<Rightarrow> Mail_World.op_throw (Mail_error Other_failure ''Unique constraint violated but initial delivery row not found'')
    | Some row \<Rightarrow> op_bind (op_of_sum (classify_existing row)) (\<lambda>result.
        case result of
          Classified_retry message \<Rightarrow>
            op_bind (with_delivery_ownership env (md_id row)
              (op_bind (assert_owned env (md_id row) 1)
                (\<lambda>_. claim_retry_existing env inp (md_id row) (md_queued_at row) message)))
              (\<lambda>claimed. case claimed of Some c \<Rightarrow> op_return c | None \<Rightarrow> op_return (Claim_skip In_flight))
        | Classified_reclaim \<Rightarrow>
            claim_reclaim_cancelled env inp (md_id row) (md_queued_at row) (me_now env (cn_attendee_id inp) 10)
        | Classified_skip r \<Rightarrow> op_return (Claim_skip r)))"
  proof (cases "existing_initial inp w")
    case None
    then show ?thesis by (simp add: turn_throw)
  next
    case (Some row)
    then have "row \<in> set (mail_deliveries (mw_db w))" "initial_for inp row"
      by (auto simp: existing_initial_def find_Some_iff mails_def initial_for_def)
    with w have owns: "owns (md_id row) = (cn_attendee_id inp, cn_event_id inp, ''initial'')"
      by (auto simp: orderly_def initial_for_def)
    show ?thesis unfolding Some option.case
      by (rule turn_classified)
        (auto intro: turn_skip turn_reclaim [OF others owns] turn_owned [OF others] turn_assert [OF others] turn_retry [OF others owns]
          split: classify_result.split)
  qed
qed

text \<open>C39: An initial mail is claimed once. Whatever others commit while it waits, other claims of the same mail included, a claim that
  is granted (a new row, a failed one to try again, a cancelled one taken over) ends with one step of the database: right
  before it no initial mail of the attendee for the event was waiting or had gone out, right after it the initial delivery is queued at a
  revision above all earlier ones, the one the claim answers with, and no other delivery is touched. So of two claims that race only one is
  granted, unless the mail failed or was cancelled in between. A claim that is not granted writes nothing, and the violated unique key of a
  lost insertion never reaches the caller. And when there is no initial delivery yet and the attendee is not erased, the
  claim is granted a new row. Others are asked to keep the unique keys, and never to give an id to another attendee, event or purpose.\<close>

theorem initial_mail_is_claimed_once:
  fixes inp :: claim_input
  assumes start: "orderly owns (mw_db w)" and others: "orderly_others owns env"
  defines "s \<equiv> me_others env (cn_attendee_id inp) 10 (mw_db w)"
  shows "claim_turn env inp (mw_db w) (fst (claim_initial_delivery env inp fid w)) (mw_db (snd (claim_initial_delivery env inp fid w))) \<and>
    ((\<forall>x \<in> set (mail_deliveries s). \<not> initial_for inp x \<and> md_id x \<noteq> fid) \<and> \<not> erased_lock (lock_attendee_row (cn_attendee_id inp) None s) \<and>
       cn_attendee_id inp \<in> att_id ` set (attendees s) \<and> cn_event_id inp \<in> ev_id ` set (events s) \<longrightarrow>
     fst (claim_initial_delivery env inp fid w) = Inr (Claim_send fid (me_now env (cn_attendee_id inp) 10) (frozen_from_input inp)))"
proof -
  let ?aid = "cn_attendee_id inp"
  let ?d = "delivery_create_data inp ''initial'' (me_now env ?aid 10) fid (me_now env ?aid 14)"
  let ?v = "w\<lparr>mw_db := s\<rparr>"
  have s: "orderly owns s" using start others by (simp add: s_def orderly_others_def)
  have same: "same_initial ?d x \<longleftrightarrow> initial_for inp x" for x
    by (auto simp: same_initial_def initial_for_def delivery_create_data_def)
  have id: "md_id ?d = fid" "md_queued_at ?d = me_now env ?aid 10" by (simp_all add: delivery_create_data_def)
  have run: "claim_initial_delivery env inp fid w =
      (if erased_lock (lock_attendee_row ?aid None s) then (Inr (Claim_skip Skip_erased), ?v)
       else case insert_delivery env ?d s of
         Inl e \<Rightarrow> if error_kind e = Unique_key then claim_existing env inp ?v else (Inl e, ?v)
       | Inr (d, db) \<Rightarrow> (Inr (Claim_send (md_id d) (md_queued_at d) (frozen_from_input inp)), w\<lparr>mw_db := db\<rparr>))"
    by (auto simp: claim_initial_delivery_def create_delivery_def op_bind_def op_try_def others_commit_def in_mail_db_def
        tx_bind_def tx_read_def tx_return_def op_return_def Mail_World.op_throw_def Let_def s_def split: sum.splits prod.splits)
  have existing: "claim_turn env inp s (fst (claim_existing env inp ?v)) (mw_db (snd (claim_existing env inp ?v)))"
  proof -
    have "orderly owns (mw_db ?v)" using s by simp
    with turn_existing [OF others, of inp] have "claim_turn env inp (mw_db ?v) (fst (claim_existing env inp ?v))
        (mw_db (snd (claim_existing env inp ?v)))"
      unfolding takes_turn_def by blast
    then show ?thesis by simp
  qed
  have inserted: "takes_over inp fid (me_now env ?aid 10) s db" if "insert_delivery env ?d s = Inr (d, db)" for d db
  proof -
    note i = insert_delivery_Inr [OF that]
    from i have none: "\<forall>x \<in> set (mail_deliveries s). md_id x \<noteq> fid \<and> \<not> initial_for inp x" unfolding same id by blast
    from i have db: "db = s\<lparr>mail_deliveries := mail_deliveries s @ [?d]\<rparr>" by blast
    have mine: "initial_for inp ?d" "md_status ?d = ''queued''" by (simp_all add: initial_for_def delivery_create_data_def)
    show ?thesis unfolding takes_over_def db using none mine id by auto
  qed
  have "claim_turn env inp s (fst (claim_initial_delivery env inp fid w)) (mw_db (snd (claim_initial_delivery env inp fid w)))"
  proof (cases "erased_lock (lock_attendee_row ?aid None s)")
    case True
    then show ?thesis by (simp add: run claim_turn_def)
  next
    case False
    show ?thesis
    proof (cases "insert_delivery env ?d s")
      case (Inl e)
      with False existing show ?thesis by (simp add: run claim_turn_def)
    next
      case (Inr r)
      obtain d db where r: "r = (d, db)" by (cases r)
      with Inr have ins: "insert_delivery env ?d s = Inr (d, db)" by simp
      have "d = ?d" using insert_delivery_Inr [OF ins] by blast
      then show ?thesis using False ins inserted [OF ins] id by (auto simp: run claim_turn_def intro!: exI [of _ s])
    qed
  qed
  then have "claim_turn env inp (mw_db w) (fst (claim_initial_delivery env inp fid w)) (mw_db (snd (claim_initial_delivery env inp fid w)))"
    unfolding s_def by (rule claim_turn_first)
  moreover have "fst (claim_initial_delivery env inp fid w) = Inr (Claim_send fid (me_now env ?aid 10) (frozen_from_input inp))"
    if free: "\<forall>x \<in> set (mail_deliveries s). \<not> initial_for inp x \<and> md_id x \<noteq> fid" "\<not> erased_lock (lock_attendee_row ?aid None s)"
      "?aid \<in> att_id ` set (attendees s)" "cn_event_id inp \<in> ev_id ` set (events s)"
  proof -
    have "insert_delivery env ?d s = Inr (?d, s\<lparr>mail_deliveries := mail_deliveries s @ [?d]\<rparr>)"
      using free unfolding insert_delivery_def same id by (auto simp: delivery_create_data_def)
    with free(2) id show ?thesis by (simp add: run)
  qed
  ultimately show ?thesis by blast
qed

section \<open>After an erasure\<close>

text \<open>Requests served one after the other, with commits of others between them as well.\<close>

inductive mail_history :: "(ops_db \<Rightarrow> ops_db \<Rightarrow> bool) \<Rightarrow> mail_world \<Rightarrow> mail_world \<Rightarrow> bool" for P w where
  start: "mail_history P w w"
| commit: "mail_history P w v \<Longrightarrow> P (mw_db v) db \<Longrightarrow> mail_history P w (v\<lparr>mw_db := db\<rparr>)"
| request: "mail_history P w v \<Longrightarrow> keep_to P senv \<Longrightarrow> mail_history P w (serve_mail senv req v)"

lemma shield_history:
  assumes "mail_history (shield_kept i rows) w v" "shielded i rows (mw_db w)"
  shows "shielded i rows (mw_db v) \<and> silent rows w v"
  using assms
proof (induction rule: mail_history.induct)
  case start
  then show ?case by (simp add: silent_refl)
next
  case (commit v db)
  then have "shielded i rows db" "silent rows w v" "silent rows v (v\<lparr>mw_db := db\<rparr>)"
    by (simp_all add: shield_kept_def silent_same)
  then show ?case using silent_trans by simp
next
  case (request v senv req)
  from shield.serve_keeps [where senv = senv and i = i and rows = rows and req = req and w = v] request
  show ?case by (auto simp: tamed_send_id contract_def intro: silent_trans)
qed

lemma emptied_is_blank: "mail_emptied d \<Longrightarrow> blank d"
proof -
  assume "mail_emptied d"
  then have e: "d = emptied_mail d" and w: "\<not> mail_waits d" by (simp_all add: mail_emptied_def)
  have "md_recipient_email (emptied_mail d) = None" "md_rendered_subject (emptied_mail d) = None"
    "md_rendered_html (emptied_mail d) = None" by (simp_all add: emptied_mail_def)
  with e w show "blank d" unfolding blank_def by metis
qed

text \<open>C35: An erased attendee gets no mail any more. After an erasure has returned, however many requests for
  tickets, resends, drains, retries, cancels, bounces and openings follow, in whatever order and with
  others committing in between that leave the erased rows alone: the deliveries of everyone it erased stay exactly as the erasure left
  them, empty and not waiting, none is added, and no message is handed to the transport for any of them.\<close>

theorem erased_attendee_gets_no_mail:
  assumes erased: "erase_attendees env eid ids db = Inr (res, db')" "i \<in> set (es_erased res)"
    and held: "\<And>k s. 3 \<le> k \<Longrightarrow> rows_held (set (es_erased res)) s (er_others env k s)"
    and keys: "wf_db (ad_ops db')" "distinct (map md_id (mail_deliveries (ad_ops db')))"
    and event: "\<And>d. d \<in> set (mail_deliveries (ad_ops db')) \<Longrightarrow> md_attendee_id d = i \<Longrightarrow> md_event_id d = eid"
    and rows: "rows = filter (\<lambda>d. md_attendee_id d = i) (mail_deliveries (ad_ops db'))"
    and later: "mail_history (shield_kept i rows) \<lparr>mw_db = ad_ops db', mw_outbox = out\<rparr> w"
  shows "filter (\<lambda>d. md_attendee_id d = i) (mails w) = rows \<and>
    (\<forall>d \<in> set rows. md_recipient_email d = None \<and> md_rendered_html d = None \<and> \<not> mail_waits d) \<and>
    (\<exists>new. mw_outbox w = out @ new \<and> (\<forall>(did, m) \<in> set new. did \<notin> md_id ` set rows))"
proof -
  have anon: "anonymous eid i db'" using erased_is_anonymous [OF erased(1) held] erased(2) by blast
  have one: "att_erased_at a \<noteq> None" if a: "a \<in> set (attendees (ad_ops db'))" "att_id a = i" for a
  proof -
    obtain b where b: "b \<in> set (attendees (ad_ops db'))" "att_id b = i" "att_event_id b = eid"
      using anon unfolding anonymous_def by blast
    then have "b = a" using a wf_attendee_inj [OF keys(1)] by simp
    then show ?thesis using anon a b(3) unfolding anonymous_def by blast
  qed
  have blanks: "\<forall>d \<in> set rows. blank d"
  proof
    fix d assume "d \<in> set rows"
    then have "d \<in> set (mail_deliveries (ad_ops db'))" "md_attendee_id d = i" by (simp_all add: rows)
    with anon event show "blank d" unfolding anonymous_def by (blast intro: emptied_is_blank)
  qed
  have "\<exists>a \<in> set (attendees (ad_ops db')). att_id a = i" using anon unfolding anonymous_def by blast
  with one keys(2) blanks have "shielded i rows (ad_ops db')" unfolding shielded_def rows by blast
  with shield_history [OF later] have "shielded i rows (mw_db w)" "silent rows \<lparr>mw_db = ad_ops db', mw_outbox = out\<rparr> w"
    by simp_all
  with blanks show ?thesis by (simp add: shielded_def silent_def mails_def blank_def)
qed

section \<open>What goes out\<close>

lemma same_out_intros:
  "mw_outbox (snd (others_commit f w)) = mw_outbox w"
  "mw_outbox (snd (update_mail p g w)) = mw_outbox w"
  by (simp_all add: others_commit_def update_mail_run)

definition same_out :: "mail_world \<Rightarrow> mail_world \<Rightarrow> bool" where
  "same_out w v \<longleftrightarrow> mw_outbox v = mw_outbox w"

interpretation out: step_relation same_out
  by unfold_locales (simp_all add: same_out_def)

lemma out_others: "op_all same_out (others_commit f)"
  by (simp add: op_all_def same_out_def others_commit_def)

lemma out_throw: "op_all same_out (op_throw e)"
  by (simp add: op_all_def same_out_def op_throw_def)

lemma out_assert: "op_all same_out (assert_owned env did k)"
  unfolding assert_owned_def by (intro out.op_bind_all op_all_if out.op_return_all out_others out_throw)

lemma out_update: "op_all same_out (update_mail p f)"
  by (simp add: op_all_def same_out_def update_mail_run)

lemma out_failed: "op_all same_out (mark_row_failed did q n f)"
  unfolding mark_row_failed_def by (intro out.op_bind_all out.op_return_all out_update)

lemma out_claimed_failed: "op_all same_out (mark_claimed_row_failed env row err)"
  unfolding mark_claimed_row_failed_def Let_def by (rule out_failed)

lemma out_record: "op_all same_out (record_send_outcome env row answer n b)"
  unfolding record_send_outcome_def Let_def
  by (cases answer) (auto intro!: out.op_bind_all out.op_return_all out_update out_failed)

lemma send_and_record_outbox:
  "mw_outbox (snd (send_and_record env row message w)) \<in> {mw_outbox w, mw_outbox w @ [(md_id row, message)]}"
proof -
  let ?n = "next_mail_drain_attempts (md_attempts row)"
  let ?x = "is_mail_drain_attempts_exhausted ?n"
  let ?rest = "\<lambda>results. op_bind (assert_owned env (md_id row) 6) (\<lambda>_. record_send_outcome env row (first_result results) ?n ?x)"
  let ?m = "op_bind (assert_owned env (md_id row) 5) (\<lambda>_. op_bind (send_batch env (md_id row) [message]) ?rest)"
  let ?h = "\<lambda>err. op_bind (assert_owned env (md_id row) 7) (\<lambda>_. op_bind (mark_row_failed (md_id row) (md_queued_at row) ?n
      (delivery_update_from_batch_error (me_now env (md_id row) 7) (error_message err) ?x)) (\<lambda>applied. op_return (applied_outcome applied)))"
  have rest: "op_all same_out (?rest results)" for results by (intro out.op_bind_all out_assert out_record)
  have h: "op_all same_out (?h err)" for err by (intro out.op_bind_all out_assert out_failed out.op_return_all)
  obtain r v where a: "assert_owned env (md_id row) 5 w = (r, v)" by (cases "assert_owned env (md_id row) 5 w")
  then have v: "mw_outbox v = mw_outbox w" using op_allD [OF out_assert [where env = env and did = "md_id row" and k = 5], of w] by (simp add: same_out_def)
  have batch: "mw_outbox (snd (send_batch env (md_id row) [message] v)) = mw_outbox v @ [(md_id row, message)]"
    by (auto simp: send_batch_def op_bind_def hand_over_def op_return_def split: sum.split)
  have "mw_outbox (snd (?m w)) \<in> {mw_outbox w, mw_outbox w @ [(md_id row, message)]}"
  proof (cases r)
    case (Inl e)
    with a v show ?thesis by (simp add: op_bind_def)
  next
    case (Inr u)
    obtain q y where b: "send_batch env (md_id row) [message] v = (q, y)" by (cases "send_batch env (md_id row) [message] v")
    from a b Inr batch v show ?thesis
      using op_allD [OF rest, where s = y] by (cases q) (simp_all add: op_bind_def [of "assert_owned env (md_id row) 5"]
          op_bind_def [of "send_batch env (md_id row) [message]"] same_out_def)
  qed
  moreover obtain q z where m: "?m w = (q, z)" by (cases "?m w")
  ultimately have "mw_outbox z \<in> {mw_outbox w, mw_outbox w @ [(md_id row, message)]}" by simp
  then show ?thesis
    using m op_allD [OF h, where s = z] unfolding send_and_record_def Let_def op_try_def
    by (cases q) (simp_all add: same_out_def)
qed

lemma send_materialized_outbox:
  assumes "mw_outbox (snd (send_materialized env row rendered w)) \<noteq> mw_outbox w"
  obtains holders where
    "still_as_claimed row (deliveries_of_live [(md_id row, md_attendee_id row)] holders
       (me_others env (md_id row) 1 (mw_db w)) (md_id row))"
    "mw_outbox (snd (send_materialized env row rendered w)) = mw_outbox w @ [(md_id row,
       \<lparr>mm_to = the (md_recipient_email row), mm_subject = fst rendered, mm_html = snd rendered,
        mm_idempotency_key = drain_idempotency_key row\<rparr>)]"
proof -
  let ?items = "[(md_id row, md_attendee_id row)]"
  let ?holders = "holders_of_override_addresses (map fst ?items) (mw_db w)"
  let ?v = "w\<lparr>mw_db := me_others env (md_id row) 1 (mw_db w)\<rparr>"
  let ?seen = "deliveries_of_live ?items ?holders (mw_db ?v) (md_id row)"
  let ?msg = "\<lparr>mm_to = the (md_recipient_email row), mm_subject = fst rendered, mm_html = snd rendered,
        mm_idempotency_key = drain_idempotency_key row\<rparr>"
  have run: "send_materialized env row rendered w =
      (if \<not> still_as_claimed row ?seen then (Inr Outcome_skipped, ?v) else send_and_record env row ?msg ?v)"
    by (simp add: send_materialized_def read_deliveries_before_send_def op_bind_def op_read_def others_commit_def op_return_def)
  show thesis
  proof (cases "still_as_claimed row ?seen")
    case True
    with run assms send_and_record_outbox [of env row ?msg ?v]
    have "mw_outbox (snd (send_materialized env row rendered w)) = mw_outbox w @ [(md_id row, ?msg)]" by auto
    with True show thesis by (intro that [of ?holders]) simp_all
  next
    case False
    with run assms show thesis by simp
  qed
qed

lemma send_owned_outbox:
  assumes "mw_outbox (snd (send_owned_snapshot env row base w)) \<noteq> mw_outbox w"
  obtains holders links rendered where
    "links_of env (md_attendee_id row) base (me_others env (md_id row) 4 (mw_db w)) = Inr links"
    "me_materialize env (the (md_rendered_subject row), the (md_rendered_html row)) links = Some rendered"
    "still_as_claimed row (deliveries_of_live [(md_id row, md_attendee_id row)] holders
       (me_others env (md_id row) 1 (me_others env (md_id row) 4 (mw_db w))) (md_id row))"
    "mw_outbox (snd (send_owned_snapshot env row base w)) = mw_outbox w @ [(md_id row,
       \<lparr>mm_to = the (md_recipient_email row), mm_subject = fst rendered, mm_html = snd rendered,
        mm_idempotency_key = drain_idempotency_key row\<rparr>)]"
proof -
  let ?v = "w\<lparr>mw_db := me_others env (md_id row) 4 (mw_db w)\<rparr>"
  have ready: "truthy (md_recipient_email row) \<and> truthy (md_rendered_subject row) \<and> truthy (md_rendered_html row)"
    using assms by (auto simp: send_owned_snapshot_def op_return_def split: if_splits)
  have fail: "op_all same_out (op_bind (assert_owned env (md_id row) 7) (\<lambda>_.
      op_bind (mark_claimed_row_failed env row err) (\<lambda>applied. op_return (Inl (applied_outcome applied) :: send_outcome + mail_links))))" for err
    by (intro out.op_bind_all out_assert out_claimed_failed out.op_return_all)
  have unusable: "op_all same_out (op_bind (assert_owned env (md_id row) 7) (\<lambda>_.
      op_bind (mark_row_failed (md_id row) (md_queued_at row) n f) (\<lambda>applied. op_return (applied_outcome applied))))" for n f
    by (intro out.op_bind_all out_assert out_failed out.op_return_all)
  show thesis
  proof (cases "links_of env (md_attendee_id row) base (mw_db ?v)")
    case (Inl err)
    obtain q z where run: "op_bind (assert_owned env (md_id row) 7) (\<lambda>_. op_bind (mark_claimed_row_failed env row err)
        (\<lambda>applied. op_return (Inl (applied_outcome applied) :: send_outcome + mail_links))) ?v = (q, z)" by (meson surj_pair)
    have "links_or_failure env row base w = (q, z)"
      using Inl run by (simp add: links_or_failure_def resolve_attendee_mail_links_def op_of_sum_def op_try_def op_bind_def
          others_commit_def)
    moreover have "mw_outbox z = mw_outbox w" using op_allD [OF fail [of err], of ?v] run by (simp add: same_out_def)
    moreover have "q = Inr (Inl x) \<Longrightarrow> True" for x by simp
    moreover have "\<forall>l. q \<noteq> Inr (Inr l)"
      using run by (auto simp: op_bind_def op_return_def split: sum.splits prod.splits)
    ultimately have "mw_outbox (snd (send_owned_snapshot env row base w)) = mw_outbox w"
      using ready by (auto simp: send_owned_snapshot_def op_bind_def op_return_def split: sum.split)
    with assms show thesis by simp
  next
    case (Inr links)
    have linked: "links_or_failure env row base w = (Inr (Inr links), ?v)"
      using Inr by (simp add: links_or_failure_def resolve_attendee_mail_links_def op_of_sum_def op_try_def op_bind_def
          others_commit_def op_return_def)
    show thesis
    proof (cases "me_materialize env (the (md_rendered_subject row), the (md_rendered_html row)) links")
      case None
      then have "send_owned_snapshot env row base w = op_bind (assert_owned env (md_id row) 7) (\<lambda>_.
          op_bind (mark_row_failed (md_id row) (md_queued_at row) (next_mail_drain_attempts (md_attempts row))
            (snapshot_unusable_update (me_now env (md_id row) 7))) (\<lambda>applied. op_return (applied_outcome applied))) ?v"
        using linked ready by (simp add: send_owned_snapshot_def op_bind_def [of "links_or_failure env row base"]
            try_materialize_stored_message_def)
      with assms op_allD [OF unusable, where s = ?v] show thesis by (simp add: same_out_def)
    next
      case (Some rendered)
      then have run: "send_owned_snapshot env row base w = send_materialized env row rendered ?v"
        using linked ready by (simp add: send_owned_snapshot_def op_bind_def [of "links_or_failure env row base"]
            try_materialize_stored_message_def)
      have "mw_outbox (snd (send_materialized env row rendered ?v)) \<noteq> mw_outbox ?v"
        using assms run by simp
      then show thesis
      proof (rule send_materialized_outbox)
        fix holders
        assume "still_as_claimed row (deliveries_of_live [(md_id row, md_attendee_id row)] holders
            (me_others env (md_id row) 1 (mw_db ?v)) (md_id row))"
          and "mw_outbox (snd (send_materialized env row rendered ?v)) = mw_outbox ?v @ [(md_id row,
            \<lparr>mm_to = the (md_recipient_email row), mm_subject = fst rendered, mm_html = snd rendered,
             mm_idempotency_key = drain_idempotency_key row\<rparr>)]"
        with Inr Some run show thesis by (intro that [of links rendered holders]) simp_all
      qed
    qed
  qed
qed

lemma seen_row:
  assumes "deliveries_of_live [(did, aid)] holders db did = Some b"
  obtains d where "d \<in> set (mail_deliveries db)" "md_id d = did" "b = before_send_of d"
    "\<exists>a \<in> set (attendees db). att_id a = aid \<and> att_erased_at a = None"
proof -
  let ?live = "lock_live_attendees (map snd [(did, aid)] @ holders) db"
  from assms obtain d where "d \<in> set (mail_deliveries db)" "md_id d = did" "b = before_send_of d" "aid \<in> set ?live"
    by (auto simp: deliveries_of_live_def Let_def dest!: map_of_SomeD split: if_splits)
  moreover have "set ?live \<subseteq> {att_id a | a. a \<in> set (attendees db) \<and> att_erased_at a = None}"
    using live_attendee_ids_set [of db "map snd [(did, aid)] @ holders"] by (auto simp: live_attendee_ids_def)
  ultimately show thesis by (intro that) auto
qed

text \<open>C36: What goes out is what the delivery held at the last check. When the drain works on a row it read
  earlier, and a message is handed to the transport at all, then at the moment of the last check (after the
  links were made and the attendee's lock was waited for) the row was there with the status, the revision and the
  attempts it had been read with; its attendee existed and was not erased; and the message carries the
  recipient of that row, and its subject and body with the links filled in, nothing older. Meanwhile others
  may commit anything that lets deliveries only move on.\<close>

theorem mail_goes_out_as_stored:
  assumes read: "row \<in> set (mails w0)" "distinct (map md_id (mails w0))" "revisions_grow {md_id row} (mails w0) (mails w)"
    and others: "\<And>k db. revisions_kept {md_id row} db (me_others env (md_id row) k db)"
    and sent: "mw_outbox (snd (send_owned_snapshot env row base w)) \<noteq> mw_outbox w"
    and check: "db = me_others env (md_id row) 1 (me_others env (md_id row) 4 (mw_db w))"
  shows "\<exists>d \<in> set (mail_deliveries db). \<exists>links subject html.
    md_id d = md_id row \<and> md_status d = md_status row \<and> md_queued_at d = md_queued_at row \<and> md_attempts d = md_attempts row \<and>
    (\<exists>a \<in> set (attendees db). att_id a = md_attendee_id d \<and> att_erased_at a = None) \<and>
    snapshot_ready d \<and>
    links_of env (md_attendee_id d) base (me_others env (md_id row) 4 (mw_db w)) = Inr links \<and>
    me_materialize env (the (md_rendered_subject d), the (md_rendered_html d)) links = Some (subject, html) \<and>
    mw_outbox (snd (send_owned_snapshot env row base w)) = mw_outbox w @ [(md_id d,
      \<lparr>mm_to = the (md_recipient_email d), mm_subject = subject, mm_html = html,
       mm_idempotency_key = drain_idempotency_key d\<rparr>)]"
  using sent
proof (rule send_owned_outbox)
  fix holders links rendered
  assume links: "links_of env (md_attendee_id row) base (me_others env (md_id row) 4 (mw_db w)) = Inr links"
    and rendered: "me_materialize env (the (md_rendered_subject row), the (md_rendered_html row)) links = Some rendered"
    and still: "still_as_claimed row (deliveries_of_live [(md_id row, md_attendee_id row)] holders
       (me_others env (md_id row) 1 (me_others env (md_id row) 4 (mw_db w))) (md_id row))"
    and out: "mw_outbox (snd (send_owned_snapshot env row base w)) = mw_outbox w @ [(md_id row,
       \<lparr>mm_to = the (md_recipient_email row), mm_subject = fst rendered, mm_html = snd rendered,
        mm_idempotency_key = drain_idempotency_key row\<rparr>)]"
  from still obtain b where b: "deliveries_of_live [(md_id row, md_attendee_id row)] holders db (md_id row) = Some b"
      and same: "bs_status b = md_status row" "truthy (bs_recipient_email b)" "bs_snapshot_ready b"
        "bs_queued_at b = md_queued_at row" "bs_attempts b = md_attempts row"
    unfolding check by (auto simp: still_as_claimed_def split: option.splits)
  from seen_row [OF b] obtain d where d: "d \<in> set (mail_deliveries db)" "md_id d = md_id row" "b = before_send_of d"
      "\<exists>a \<in> set (attendees db). att_id a = md_attendee_id row \<and> att_erased_at a = None" by blast
  have "revisions_grow {md_id row} (mails w0) (mail_deliveries db)"
    using read(3) others unfolding check revisions_kept_def mails_def by (blast intro: revisions_grow_trans)
  then obtain d0 where d0: "d0 \<in> set (mails w0)" "advances d0 d" using d(1,2) by (auto simp: revisions_grow_def)
  then have "d0 = row" using read(1,2) d(2) advances_keys [OF d0(2)] by (auto intro: distinct_keyD)
  with d0(2) d(3) same have eq: "md_attendee_id d = md_attendee_id row" "md_purpose d = md_purpose row"
      "md_status d = md_status row" "md_queued_at d = md_queued_at row" "md_attempts d = md_attempts row"
      "md_recipient_email d = md_recipient_email row" "md_rendered_subject d = md_rendered_subject row"
      "md_rendered_html d = md_rendered_html row" and ready: "snapshot_ready d"
    by (auto simp: advances_def same_or_gone_def before_send_of_def truthy_def snapshot_ready_def)
  have key: "drain_idempotency_key d = drain_idempotency_key row" using eq d(2) by (simp add: drain_idempotency_key_def)
  show ?thesis
    using d(1,2,4) eq ready links rendered out key
    by (intro bexI [of _ d] exI [of _ links] exI [of _ "fst rendered"] exI [of _ "snd rendered"]) simp_all
qed

section \<open>An answered attempt\<close>

definition answered :: "mail_delivery \<Rightarrow> send_outcome \<Rightarrow> mail_world \<Rightarrow> bool" where
  "answered row out w \<longleftrightarrow> out = Outcome_skipped \<or>
     (\<exists>d \<in> set (mails w). md_id d = md_id row \<and> md_queued_at d = md_queued_at row \<and> md_attempts d = Suc (md_attempts row))"

definition op_post :: "('r \<Rightarrow> 's \<Rightarrow> bool) \<Rightarrow> ('s, 'e, 'r) op \<Rightarrow> bool" where
  "op_post A m \<longleftrightarrow> (\<forall>w r v. m w = (Inr r, v) \<longrightarrow> A r v)"

lemma op_bind_InrE:
  assumes "op_bind m f w = (Inr b, v)"
  obtains a u where "m w = (Inr a, u)" "f a u = (Inr b, v)"
  using assms by (auto simp: op_bind_def split: sum.splits prod.splits)

lemma post_bind: "(\<And>a. op_post A (f a)) \<Longrightarrow> op_post A (op_bind m f)"
  unfolding op_post_def op_bind_def by (fastforce split: sum.splits prod.splits)

lemma post_try: "op_post A m \<Longrightarrow> (\<And>e. op_post A (h e)) \<Longrightarrow> op_post A (op_try m h)"
  unfolding op_post_def op_try_def by (fastforce split: sum.splits prod.splits)

lemma post_updated:
  assumes "\<And>d. p d \<Longrightarrow> md_id (f d) = md_id row \<and> md_queued_at (f d) = md_queued_at row \<and> md_attempts (f d) = Suc (md_attempts row)"
    and "g 0 = Outcome_skipped"
  shows "op_post (answered row) (op_bind (update_mail p f) (\<lambda>n. op_return (g n)))"
  unfolding op_post_def
proof (intro allI impI)
  fix w out v
  assume run: "op_bind (update_mail p f) (\<lambda>n. op_return (g n)) w = (Inr out, v)"
  then have out: "out = g (count_where p (mails w))" and v: "mails v = update_where p f (mails w)"
    by (auto simp: op_bind_def op_return_def update_mail_run)
  show "answered row out v"
  proof (cases "count_where p (mails w) = 0")
    case True
    then show ?thesis using out assms(2) by (simp add: answered_def)
  next
    case False
    then obtain d where "d \<in> set (mails w)" "p d" by (auto simp: count_where_0)
    then have "f d \<in> set (mails v)" unfolding v by (auto simp: set_update_where)
    then show ?thesis using assms(1) [OF \<open>p d\<close>] unfolding answered_def by blast
  qed
qed

lemma post_failed:
  assumes "only_marks f"
  shows "op_post (answered row) (op_bind (mark_row_failed (md_id row) (md_queued_at row) (next_mail_drain_attempts (md_attempts row)) f)
    (\<lambda>applied. op_return (applied_outcome applied)))"
proof -
  let ?n = "next_mail_drain_attempts (md_attempts row)"
  have "op_bind (mark_row_failed (md_id row) (md_queued_at row) ?n f) (\<lambda>applied. op_return (applied_outcome applied)) =
    op_bind (update_mail (\<lambda>d. owned_row (md_id row) (md_queued_at row) (?n - 1) d \<and> md_status d \<noteq> ''cancelled'')
       (\<lambda>d. (f d)\<lparr>md_attempts := ?n\<rparr>)) (\<lambda>n. op_return (applied_outcome (n > 0)))"
    by (simp add: mark_row_failed_def op_bind_def op_return_def fun_eq_iff update_mail_run)
  then show ?thesis
    using assms by (simp only:) (rule post_updated, simp_all add: only_marks_def owned_row_def next_mail_drain_attempts_def applied_outcome_def)
qed

lemma post_record: "op_post (answered row) (record_send_outcome env row answer (next_mail_drain_attempts (md_attempts row)) b)"
proof (cases answer)
  case None
  then show ?thesis
    unfolding record_send_outcome_def Let_def by (simp only: option.case) (rule post_failed [OF marks_batch_error])
next
  case (Some r)
  have "md_id (map_send_result_to_delivery t r d) = md_id d" "md_queued_at (map_send_result_to_delivery t r d) = md_queued_at d" for t d
    using marks_result [where now = t and r = r and p = "sr_provider r"] by (simp_all add: only_marks_def)
  then show ?thesis
    unfolding record_send_outcome_def Let_def Some option.case
    by (intro post_updated) (auto simp: owned_row_def next_mail_drain_attempts_def)
qed

lemma post_skip: "op_post (answered row) (op_return Outcome_skipped)"
  by (simp add: op_post_def op_return_def answered_def)

lemma post_send: "op_post (answered row) (send_and_record env row message)"
  unfolding send_and_record_def Let_def
  by (intro post_try post_bind post_record post_failed marks_batch_error)

lemma post_materialized: "op_post (answered row) (send_materialized env row rendered)"
  unfolding send_materialized_def by (auto intro!: post_bind post_skip post_send)

definition answered_if_done :: "mail_delivery \<Rightarrow> send_outcome + mail_links \<Rightarrow> mail_world \<Rightarrow> bool" where
  "answered_if_done row l w \<longleftrightarrow> (case l of Inl out \<Rightarrow> answered row out w | Inr links \<Rightarrow> True)"

lemma post_links_failed:
  "op_post (answered_if_done row) (op_bind (mark_claimed_row_failed env row e) (\<lambda>applied. op_return (Inl (applied_outcome applied))))"
proof -
  have "op_post (answered row) (op_bind (mark_claimed_row_failed env row e) (\<lambda>applied. op_return (applied_outcome applied)))"
    unfolding mark_claimed_row_failed_def Let_def by (rule post_failed [OF marks_batch_error])
  then show ?thesis
    unfolding op_post_def answered_if_done_def by (fastforce simp: op_bind_def op_return_def split: sum.splits prod.splits)
qed

lemma post_links: "op_post (answered_if_done row) (links_or_failure env row base)"
  unfolding links_or_failure_def
  by (rule post_bind, rule post_try, rule post_bind, simp add: op_post_def op_return_def answered_if_done_def,
      rule post_bind, rule post_links_failed)

lemma post_owned: "op_post (answered row) (send_owned_snapshot env row base)"
proof -
  have "op_post (answered row) (op_bind (links_or_failure env row base) (\<lambda>linked. case linked of Inl out \<Rightarrow> op_return out | Inr links \<Rightarrow> g links))"
    if g: "\<And>links. op_post (answered row) (g links)" for g
    unfolding op_post_def
  proof (intro allI impI)
    fix w r v
    assume run: "op_bind (links_or_failure env row base) (\<lambda>linked. case linked of Inl out \<Rightarrow> op_return out | Inr links \<Rightarrow> g links) w = (Inr r, v)"
    then obtain l u where l: "links_or_failure env row base w = (Inr l, u)"
        "(case l of Inl out \<Rightarrow> op_return out | Inr links \<Rightarrow> g links) u = (Inr r, v)"
      by (rule op_bind_InrE)
    then show "answered row r v"
      using post_links [of row env base, unfolded op_post_def] g [unfolded op_post_def]
      by (cases l) (fastforce simp: op_return_def answered_if_done_def)+
  qed
  moreover have "op_post (answered row) (case try_materialize_stored_message env x links of
       None \<Rightarrow> op_bind (assert_owned env (md_id row) 7) (\<lambda>_.
         op_bind (mark_row_failed (md_id row) (md_queued_at row) (next_mail_drain_attempts (md_attempts row))
           (snapshot_unusable_update t)) (\<lambda>applied. op_return (applied_outcome applied)))
     | Some rendered \<Rightarrow> send_materialized env row rendered)" for x links t
    by (cases "try_materialize_stored_message env x links")
      (simp_all only: option.case post_bind [OF post_failed [OF marks_unusable]] post_materialized)
  ultimately show ?thesis
    unfolding send_owned_snapshot_def by (simp only: if_split post_skip simp_thms)
qed

text \<open>C37: An answered attempt is not repeated. When work on a row (a send, or a failure noted) has returned and was not
  skipped, the same row read before it, worked on again later (by a second worker, or by one that read its
  candidates earlier), hands nothing to the transport, whatever was committed in between that lets the row only move on,
  as every request of mail delivery does.\<close>

theorem an_answered_attempt_is_not_repeated:
  assumes first: "send_owned_snapshot env row base w = (Inr out, w')" "out \<noteq> Outcome_skipped"
    and keys: "distinct (map md_id (mails w'))"
    and between: "revisions_grow {md_id row} (mails w') (mails v)"
    and others: "\<And>k db. revisions_kept {md_id row} db (me_others env2 (md_id row) k db)"
  shows "mw_outbox (snd (send_owned_snapshot env2 row base2 v)) = mw_outbox v"
proof (rule ccontr)
  assume "\<not> ?thesis"
  then show False
  proof (rule send_owned_outbox)
    fix holders links rendered
    let ?db = "me_others env2 (md_id row) 1 (me_others env2 (md_id row) 4 (mw_db v))"
    assume still: "still_as_claimed row (deliveries_of_live [(md_id row, md_attendee_id row)] holders ?db (md_id row))"
    then obtain b where b: "deliveries_of_live [(md_id row, md_attendee_id row)] holders ?db (md_id row) = Some b"
        and same: "bs_queued_at b = md_queued_at row" "bs_attempts b = md_attempts row"
      by (auto simp: still_as_claimed_def split: option.splits)
    from seen_row [OF b] obtain d where d: "d \<in> set (mail_deliveries ?db)" "md_id d = md_id row" "b = before_send_of d" by blast
    have "revisions_grow {md_id row} (mails w') (mail_deliveries ?db)"
      using between others unfolding revisions_kept_def mails_def by (blast intro: revisions_grow_trans)
    then obtain e where e: "e \<in> set (mails w')" "advances e d" using d(1,2) by (auto simp: revisions_grow_def)
    obtain x where x: "x \<in> set (mails w')" "md_id x = md_id row" "md_queued_at x = md_queued_at row" "md_attempts x = Suc (md_attempts row)"
      using post_owned [of row env base, unfolded op_post_def] first unfolding answered_def by blast
    have "e = x" using keys e(1) x(1,2) d(2) advances_keys [OF e(2)] by (auto intro: distinct_keyD)
    then show False using e(2) x(3,4) same d(3) by (auto simp: advances_def before_send_of_def)
  qed
qed

section \<open>The accounts of a drain\<close>

lemma tally_sum:
  "eo_sent (tally x t) + eo_failed (tally x t) + eo_skipped (tally x t) = Suc (eo_sent t + eo_failed t + eo_skipped t)"
  by (cases x) (simp_all add: tally_def)

lemma fold_tally:
  assumes "op_fold (\<lambda>row t. op_bind (m row) (\<lambda>x. op_return (tally (g x) t))) rows t w = (Inr r, v)"
  shows "eo_sent r + eo_failed r + eo_skipped r = eo_sent t + eo_failed t + eo_skipped t + length rows"
  using assms
proof (induction rows arbitrary: t w)
  case Nil
  then show ?case by (simp add: op_return_def)
next
  case (Cons row rows)
  have "op_bind (op_bind (m row) (\<lambda>x. op_return (tally (g x) t)))
      (\<lambda>t'. op_fold (\<lambda>row t. op_bind (m row) (\<lambda>x. op_return (tally (g x) t))) rows t') w = (Inr r, v)"
    using Cons.prems by simp
  then obtain t' u where one: "op_bind (m row) (\<lambda>x. op_return (tally (g x) t)) w = (Inr t', u)"
      and "op_fold (\<lambda>row t. op_bind (m row) (\<lambda>x. op_return (tally (g x) t))) rows t' u = (Inr r, v)"
    by (rule op_bind_InrE)
  moreover obtain x where "t' = tally (g x) t"
    using one by (auto simp: op_bind_def op_return_def split: sum.splits prod.splits)
  ultimately have "op_fold (\<lambda>row t. op_bind (m row) (\<lambda>x. op_return (tally (g x) t))) rows (tally (g x) t) u = (Inr r, v)"
    by simp
  from Cons.IH [OF this] tally_sum [of "g x" t] show ?case by simp
qed

lemma event_batch_tally:
  assumes "drain_event_batch env base eid rows w = (Inr r, v)"
  shows "eo_sent r + eo_failed r + eo_skipped r = length rows"
proof -
  have none: "eo_sent nothing_drained + eo_failed nothing_drained + eo_skipped nothing_drained = 0" by (simp add: nothing_drained_def)
  show ?thesis
  proof (cases "me_mail_config env eid")
    case (Inl err)
    with assms have "fail_event_rows env err rows w = (Inr r, v)" by (simp add: drain_event_batch_def)
    from fold_tally [OF this [unfolded fail_event_rows_def]] none show ?thesis by simp
  next
    case (Inr p)
    with assms have "send_event_rows env base rows w = (Inr r, v)" by (simp add: drain_event_batch_def)
    from fold_tally [OF this [unfolded send_event_rows_def]] none show ?thesis by simp
  qed
qed

lemma fold_groups:
  assumes "op_fold (\<lambda>(eid, rows) r. op_bind (drain_event_batch env base eid rows) (\<lambda>out. op_return (add_event_outcome out r))) gs r0 w = (Inr r, v)"
  shows "dr_sent r + dr_failed r + dr_skipped r = dr_sent r0 + dr_failed r0 + dr_skipped r0 + sum_list (map (length \<circ> snd) gs) \<and>
    dr_claimed r = dr_claimed r0 \<and> dr_event_ids r = dr_event_ids r0"
  using assms
proof (induction gs arbitrary: r0 w)
  case Nil
  then show ?case by (simp add: op_return_def)
next
  case (Cons g gs)
  obtain eid rows where g: "g = (eid, rows)" by (cases g)
  let ?step = "\<lambda>(eid, rows) r. op_bind (drain_event_batch env base eid rows) (\<lambda>out. op_return (add_event_outcome out r))"
  have "op_bind (op_bind (drain_event_batch env base eid rows) (\<lambda>out. op_return (add_event_outcome out r0)))
      (\<lambda>r1. op_fold ?step gs r1) w = (Inr r, v)"
    using Cons.prems by (simp add: g)
  then obtain r1 u where first: "op_bind (drain_event_batch env base eid rows) (\<lambda>out. op_return (add_event_outcome out r0)) w = (Inr r1, u)"
      and rest': "op_fold ?step gs r1 u = (Inr r, v)"
    by (rule op_bind_InrE)
  obtain x y where one: "drain_event_batch env base eid rows w = (Inr x, y)" and r1: "r1 = add_event_outcome x r0"
    using first by (rule op_bind_InrE) (simp add: op_return_def)
  note rest = rest' [unfolded r1]
  from Cons.IH [OF rest] event_batch_tally [OF one] show ?case by (simp add: g add_event_outcome_def)
qed

lemma sum_list_one: "distinct ks \<Longrightarrow> sum_list (map (\<lambda>i. if a = i then 1 else 0) ks) = (if a \<in> set ks then 1 else (0::nat))"
  by (induction ks) auto

lemma group_lengths:
  assumes "distinct ks" "\<forall>x \<in> set xs. k x \<in> set ks"
  shows "sum_list (map (\<lambda>i. length (filter (\<lambda>x. k x = i) xs)) ks) = length xs"
  using assms(2)
proof (induction xs)
  case (Cons x xs)
  have "sum_list (map (\<lambda>i. length (filter (\<lambda>x. k x = i) (x # xs))) ks) =
    sum_list (map (\<lambda>i. (if k x = i then 1 else 0) + length (filter (\<lambda>x. k x = i) xs)) ks)"
    by (rule arg_cong [where f = sum_list], rule map_cong) simp_all
  also have "\<dots> = sum_list (map (\<lambda>i. if k x = i then 1 else 0) ks) + length xs"
    using Cons by (simp add: sum_list_addf)
  also have "sum_list (map (\<lambda>i. if k x = i then 1 else 0) ks) = (1::nat)"
    using assms(1) Cons.prems by (simp add: sum_list_one)
  finally show ?case by simp
qed simp

lemma distinct_unique_in_order [simp]: "distinct (unique_in_order xs)"
  by (simp add: unique_in_order_def)

lemma queued_candidates:
  "set (take n (sort_key k (filter p xs))) \<subseteq> {x \<in> set xs. p x}"
  by (auto dest: in_set_takeD)

lemma all_taken: "length (take n xs) < n \<Longrightarrow> take n xs = xs"
  by simp

lemma candidates_spec:
  fixes clock opts rows
  defines "c \<equiv> claim_drain_candidates clock opts rows"
  shows "length c \<le> drain_limit opts"
    and "\<forall>d \<in> set c. d \<in> set rows \<and> drainable opts d \<and>
      (md_status d = ''queued'' \<or> md_status d = ''failed'' \<and> md_retryable d = Some True \<and>
        is_mail_drain_retry_due d (case do_now_ms opts of None \<Rightarrow> clock | Some t \<Rightarrow> t))"
    and "(\<exists>d \<in> set c. md_status d \<noteq> ''queued'') \<longrightarrow> (\<forall>d \<in> set rows. drainable opts d \<and> md_status d = ''queued'' \<longrightarrow> d \<in> set c)"
proof -
  let ?limit = "drain_limit opts"
  let ?now = "case do_now_ms opts of None \<Rightarrow> clock | Some t \<Rightarrow> t"
  let ?q = "take ?limit (sort_key md_queued_at (filter (\<lambda>d. drainable opts d \<and> md_status d = ''queued'') rows))"
  let ?f = "\<lambda>n. take n (sort_key md_queued_at
     (filter (\<lambda>d. drainable opts d \<and> md_status d = ''failed'' \<and> md_retryable d = Some True) rows))"
  let ?due = "\<lambda>n. take (?limit - length ?q) (filter (\<lambda>d. is_mail_drain_retry_due d ?now) (?f n))"
  define n where "n = min ((?limit - length ?q) * 4) (max (?limit - length ?q) 200)"
  define stop where "stop = (\<not> do_include_retryable_failed opts \<noteq> Some False \<or> length ?q \<ge> ?limit)"
  have run: "c = (if stop then ?q else ?q @ ?due n)"
    unfolding c_def claim_drain_candidates_def Let_def n_def stop_def by (rule refl)
  have c: "c = ?q \<or> length ?q < ?limit \<and> c = ?q @ ?due n"
  proof (cases stop)
    case True
    with run show ?thesis by (simp only: if_True simp_thms)
  next
    case False
    then have "length ?q < ?limit" unfolding stop_def by (simp only: not_le de_Morgan_disj)
    with False run show ?thesis by (simp only: if_False simp_thms)
  qed
  define qs ds where "qs = ?q" and "ds = ?due n"
  note c = c [folded qs_def, folded ds_def [folded qs_def]]
  have len: "length qs \<le> ?limit" "length ds \<le> ?limit - length qs" unfolding ds_def qs_def by simp_all
  have q: "d \<in> set rows \<and> drainable opts d \<and> md_status d = ''queued''" if "d \<in> set qs" for d
    using that unfolding qs_def by (auto dest: in_set_takeD)
  have f: "d \<in> set rows \<and> drainable opts d \<and> md_status d = ''failed'' \<and> md_retryable d = Some True \<and> is_mail_drain_retry_due d ?now"
    if "d \<in> set ds" for d using that unfolding ds_def by (auto dest!: in_set_takeD)
  have full: "set qs = {d \<in> set rows. drainable opts d \<and> md_status d = ''queued''}" if "length qs < ?limit"
    using that unfolding qs_def by (subst all_taken) auto
  have parts: "d \<in> set qs \<or> d \<in> set ds" if "d \<in> set c" for d using c that by auto
  show "length c \<le> ?limit" using c len by auto
  show "\<forall>d \<in> set c. d \<in> set rows \<and> drainable opts d \<and>
      (md_status d = ''queued'' \<or> md_status d = ''failed'' \<and> md_retryable d = Some True \<and> is_mail_drain_retry_due d ?now)"
    using parts q f by blast
  show "(\<exists>d \<in> set c. md_status d \<noteq> ''queued'') \<longrightarrow> (\<forall>d \<in> set rows. drainable opts d \<and> md_status d = ''queued'' \<longrightarrow> d \<in> set c)"
    using c
  proof (elim disjE conjE)
    assume "c = qs"
    with q show ?thesis by auto
  next
    assume "length qs < ?limit" "c = qs @ ds"
    with full show ?thesis by simp
  qed
qed

text \<open>C40: A drain accounts for what it took. It takes at most its limit of rows, each with its message still there and
  fewer than eight attempts, waiting or failed, retryable and due; a failed one only when every waiting
  one is taken as well, so that retries never starve fresh mail. If the drain returns, every row taken
  was counted once as sent, failed or skipped, and each event with a row taken is reported once.\<close>

theorem drain_accounts_for_its_rows:
  assumes "drain_pending_deliveries env opts clock w = (Inr r, w')"
  shows "dr_sent r + dr_failed r + dr_skipped r = dr_claimed r \<and>
    (let c = claim_drain_candidates clock opts (mails w)
     in dr_claimed r = length c \<and> length c \<le> drain_limit opts \<and>
        set (dr_event_ids r) = md_event_id ` set c \<and> distinct (dr_event_ids r) \<and>
        (\<forall>d \<in> set c. d \<in> set (mails w) \<and> snapshot_ready d \<and> md_attempts d < 8 \<and>
           (md_status d = ''queued'' \<or> md_status d = ''failed'' \<and> md_retryable d = Some True \<and>
             is_mail_drain_retry_due d (case do_now_ms opts of None \<Rightarrow> clock | Some t \<Rightarrow> t))) \<and>
        ((\<exists>d \<in> set c. md_status d \<noteq> ''queued'') \<longrightarrow>
          (\<forall>d \<in> set (mails w). drainable opts d \<and> md_status d = ''queued'' \<longrightarrow> d \<in> set c)))"
proof -
  let ?c = "claim_drain_candidates clock opts (mails w)"
  have "dr_sent r + dr_failed r + dr_skipped r = dr_claimed r \<and> dr_claimed r = length ?c \<and>
      dr_event_ids r = unique_in_order (map md_event_id ?c)"
  proof (cases "?c = []")
    case True
    then show ?thesis using assms
      by (auto simp: drain_pending_deliveries_def op_bind_def op_read_def op_return_def unique_in_order_def)
  next
    case False
    then obtain base where "op_fold (\<lambda>(eid, rows) r. op_bind (drain_event_batch env base eid rows)
        (\<lambda>out. op_return (add_event_outcome out r))) (drain_groups ?c)
         \<lparr>dr_claimed = length ?c, dr_sent = 0, dr_failed = 0, dr_skipped = 0,
          dr_event_ids = unique_in_order (map md_event_id ?c)\<rparr> w = (Inr r, w')"
      using assms by (auto simp: drain_pending_deliveries_def op_bind_def [of "op_read _"] op_bind_def [of "op_of_sum _"]
          op_read_def op_of_sum_def split: sum.splits)
    from fold_groups [OF this] group_lengths [of "unique_in_order (map md_event_id ?c)" ?c md_event_id]
    show ?thesis by (simp add: drain_groups_def comp_def)
  qed
  moreover have "\<forall>d \<in> set ?c. d \<in> set (mails w) \<and> snapshot_ready d \<and> md_attempts d < 8 \<and>
           (md_status d = ''queued'' \<or> md_status d = ''failed'' \<and> md_retryable d = Some True \<and>
             is_mail_drain_retry_due d (case do_now_ms opts of None \<Rightarrow> clock | Some t \<Rightarrow> t))"
    using candidates_spec(2) [of clock opts "mails w"] unfolding drainable_def max_mail_drain_attempts_def by blast
  ultimately show ?thesis
    using candidates_spec(1,3) [where clock = clock and opts = opts and rows = "mails w"]
    by (simp only: Let_def set_unique_in_order set_map distinct_unique_in_order simp_thms)
qed

section \<open>A delivery that is sent, and an attendee who is erased first\<close>

definition mailed_guest :: attendee where
  "mailed_guest = (sample_guest ''a1'')\<lparr>att_qr_payload := Some ''Q1'', att_public_ref := Some ''R1''\<rparr>"

definition sample_mail_world :: mail_world where
  "sample_mail_world = \<lparr>mw_db = sample_db\<lparr>attendees := [mailed_guest], mail_deliveries := [sample_mail]\<rparr>, mw_outbox = []\<rparr>"

definition sample_mail_env :: mail_env where
  "sample_mail_env = \<lparr>me_others = (\<lambda>_ _ db. db), me_now = (\<lambda>_ _. 100), me_database_url = Some ''db'',
     me_lock = (\<lambda>_. Lock_granted), me_owned = (\<lambda>_ _. True),
     me_send = (\<lambda>_ _. Inr \<lparr>sr_status = Send_accepted, sr_provider = ''smtp'', sr_provider_message_id = Some ''<1@x>'',
       sr_error = None, sr_retryable = None\<rparr>),
     me_materialize = (\<lambda>frozen links. Some (fst frozen, snd frozen @ '' '' @ ml_ticket_url links)),
     me_mail_config = (\<lambda>_. Inr ''smtp''), me_url_protocol = (\<lambda>_. None),
     me_decrypt = (\<lambda>_. Inl (Mail_error Other_failure ''no key'')), me_variable = (\<lambda>_. None), me_db_text = (\<lambda>_. ''db'')\<rparr>"

definition sample_send_env :: send_env where
  "sample_send_env = \<lparr>se_mail = sample_mail_env,
     se_mint = \<lparr>mi_token = (\<lambda>a. a), mi_sha256 = (\<lambda>t. t), mi_encrypt = (\<lambda>t. Inr t), mi_base_url = ''https://t.org'',
       mi_others = (\<lambda>_ db. db)\<rparr>,
     se_batch_id = ''b2'', se_template = Inr (None, None, False), se_render = (\<lambda>_ v. Inr (''Your ticket'', tv_full_name v)),
     se_fresh_id = (\<lambda>a. ''m-'' @ a), se_db_error_text = (\<lambda>_. ''db'')\<rparr>"

definition sample_drain :: mail_request where
  "sample_drain = Rq_drain \<lparr>do_limit = None, do_event_id = None, do_include_retryable_failed = None,
     do_base_url = Some ''https://t.org/'', do_now_ms = None\<rparr> 50"

definition sample_resend :: mail_request where
  "sample_resend = Rq_resend_tickets ''a1'' \<lparr>so_attendee_ids = None, so_purpose = Purpose_resend,
     so_recipient_email = Some ''Other@x.org'', so_base_url = Some ''https://t.org'', so_timezone = None,
     so_actor_user_id = Some ''u1'', so_session_id = None\<rparr>"

lemma mail_sample_quiet [simp]:
  "me_others sample_mail_env did k db = db" "me_others (se_mail sample_send_env) did k db = db"
  "mi_others (se_mint sample_send_env) k db = db" "se_fresh_id sample_send_env a = ''m-'' @ a"
  by (simp_all add: sample_mail_env_def sample_send_env_def)

lemma sample_sent:
  "send_owned_snapshot sample_mail_env sample_mail ''https://t.org/'' sample_mail_world =
     (Inr Outcome_sent, \<lparr>mw_db = sample_db\<lparr>attendees := [mailed_guest], mail_deliveries := [sample_mail\<lparr>
        md_status := ''accepted'', md_provider_message_id := Some ''<1@x>'', md_error := None, md_error_code := None,
        md_attempts := 2, md_attempted_at := Some 100, md_accepted_at := Some 100\<rparr>]\<rparr>,
      mw_outbox = [(''m1'', \<lparr>mm_to = ''Old@x.org'', mm_subject = ''Your ticket'', mm_html = ''Hello https://t.org/t/gala/a/R1'',
        mm_idempotency_key = ''a1:initial:m1''\<rparr>)]\<rparr>)"
  by code_simp

theorem deliveries_only_move_on_witness:
  "revisions_grow {''m1''} (mails sample_mail_world) (mails (serve_mail sample_send_env sample_resend sample_mail_world)) \<and>
   map md_recipient_email (mails (serve_mail sample_send_env sample_resend sample_mail_world)) =
     [Some ''Old@x.org'', Some ''other@x.org'']"
proof
  show "revisions_grow {''m1''} (mails sample_mail_world) (mails (serve_mail sample_send_env sample_resend sample_mail_world))"
    by (rule deliveries_only_move_on) (simp_all add: keep_to_def revisions_kept_def)
qed code_simp

definition sample_claim :: claim_input where
  "sample_claim = \<lparr>cn_organization_id = ''o1'', cn_event_id = ''e1'', cn_attendee_id = ''a1'', cn_batch_id = ''b2'', cn_template_id = None,
     cn_template_label = None, cn_has_wallet_cta = False, cn_provider = ''smtp'', cn_recipient_email = ''Old@x.org'',
     cn_rendered_subject = ''Your ticket'', cn_rendered_html = ''Hello'', cn_timezone = None, cn_actor_user_id = None, cn_session_id = None\<rparr>"

text \<open>Another claim of the same mail commits before the row is inserted.\<close>

definition racing_claims :: mail_env where
  "racing_claims = sample_mail_env\<lparr>me_others := (\<lambda>i k s.
     if mail_deliveries s = [] then s\<lparr>mail_deliveries := [sample_mail]\<rparr> else s)\<rparr>"

definition before_claim :: mail_world where
  "before_claim = sample_mail_world\<lparr>mw_db := (mw_db sample_mail_world)\<lparr>mail_deliveries := []\<rparr>\<rparr>"

theorem initial_mail_is_claimed_once_witness:
  "fst (claim_initial_delivery racing_claims sample_claim ''m2'' before_claim) = Inr (Claim_skip In_flight) \<and>
   claim_turn racing_claims sample_claim (mw_db before_claim) (Inr (Claim_skip In_flight))
     (mw_db (snd (claim_initial_delivery racing_claims sample_claim ''m2'' before_claim)))"
proof -
  let ?owns = "\<lambda>_. (''a1'', ''e1'', ''initial'')"
  have "orderly ?owns (mw_db before_claim)" by (simp add: orderly_def one_initial_def before_claim_def)
  moreover have "orderly_others ?owns racing_claims"
    by (simp add: orderly_others_def orderly_def one_initial_def racing_claims_def sample_mail_def)
  ultimately have "claim_turn racing_claims sample_claim (mw_db before_claim)
      (fst (claim_initial_delivery racing_claims sample_claim ''m2'' before_claim))
      (mw_db (snd (claim_initial_delivery racing_claims sample_claim ''m2'' before_claim)))"
    using initial_mail_is_claimed_once [of ?owns before_claim racing_claims] by blast
  moreover have "fst (claim_initial_delivery racing_claims sample_claim ''m2'' before_claim) = Inr (Claim_skip In_flight)"
    by code_simp
  ultimately show ?thesis by simp
qed

theorem mail_goes_out_as_stored_witness:
  "\<exists>d \<in> set (mail_deliveries (mw_db sample_mail_world)). md_id d = ''m1'' \<and> md_status d = ''queued'' \<and> snapshot_ready d \<and>
     mw_outbox (snd (send_owned_snapshot sample_mail_env sample_mail ''https://t.org/'' sample_mail_world)) \<noteq> []"
proof -
  have sent: "mw_outbox (snd (send_owned_snapshot sample_mail_env sample_mail ''https://t.org/'' sample_mail_world)) \<noteq>
      mw_outbox sample_mail_world"
    unfolding sample_sent by (simp add: sample_mail_world_def)
  have "sample_mail \<in> set (mails sample_mail_world)" "distinct (map md_id (mails sample_mail_world))"
    by (simp_all add: mails_def sample_mail_world_def)
  from mail_goes_out_as_stored [OF this revisions_grow_refl _ sent refl]
  have "\<exists>d \<in> set (mail_deliveries (mw_db sample_mail_world)). md_id d = md_id sample_mail \<and>
      md_status d = md_status sample_mail \<and> snapshot_ready d"
    unfolding mail_sample_quiet by (auto simp: revisions_kept_def)
  with sent show ?thesis by (auto simp: sample_mail_def sample_mail_world_def)
qed

theorem an_answered_attempt_is_not_repeated_witness:
  "let w = snd (send_owned_snapshot sample_mail_env sample_mail ''https://t.org/'' sample_mail_world)
   in length (mw_outbox w) = 1 \<and> mw_outbox (snd (send_owned_snapshot sample_mail_env sample_mail ''https://t.org/'' w)) = mw_outbox w"
proof -
  define w where "w = snd (send_owned_snapshot sample_mail_env sample_mail ''https://t.org/'' sample_mail_world)"
  have first: "send_owned_snapshot sample_mail_env sample_mail ''https://t.org/'' sample_mail_world = (Inr Outcome_sent, w)"
    unfolding w_def sample_sent by simp
  have keys: "distinct (map md_id (mails w))" unfolding w_def sample_sent by (simp add: mails_def)
  have "mw_outbox (snd (send_owned_snapshot sample_mail_env sample_mail ''https://t.org/'' w)) = mw_outbox w"
    by (rule an_answered_attempt_is_not_repeated [OF first _ keys revisions_grow_refl]) (simp_all add: revisions_kept_def)
  moreover have "length (mw_outbox w) = 1" unfolding w_def sample_sent by simp
  ultimately show ?thesis unfolding w_def [symmetric] by (simp add: Let_def)
qed

theorem drain_accounts_for_its_rows_witness:
  "\<exists>r w'. drain_pending_deliveries sample_mail_env \<lparr>do_limit = None, do_event_id = None, do_include_retryable_failed = None,
     do_base_url = Some ''https://t.org/'', do_now_ms = None\<rparr> 50 sample_mail_world = (Inr r, w') \<and>
     dr_sent r + dr_failed r + dr_skipped r = dr_claimed r \<and> dr_sent r = 1"
proof -
  let ?run = "drain_pending_deliveries sample_mail_env \<lparr>do_limit = None, do_event_id = None, do_include_retryable_failed = None,
     do_base_url = Some ''https://t.org/'', do_now_ms = None\<rparr> 50 sample_mail_world"
  have "case fst ?run of Inl e \<Rightarrow> False | Inr r \<Rightarrow> dr_sent r = 1" by code_simp
  then obtain r w' where run: "?run = (Inr r, w')" and one: "dr_sent r = 1"
    by (cases ?run) (auto split: sum.splits)
  from drain_accounts_for_its_rows [OF run] run one show ?thesis by blast
qed

theorem erased_attendee_gets_no_mail_witness:
  "\<exists>res db' rows w new. erase_attendees sample_erase_env ''e1'' [''a1'', ''zz''] sample_guest_db = Inr (res, db') \<and>
     w = serve_mail sample_send_env sample_resend (serve_mail sample_send_env sample_drain \<lparr>mw_db = ad_ops db', mw_outbox = []\<rparr>) \<and>
     map md_id rows = [''m1''] \<and> filter (\<lambda>d. md_attendee_id d = ''a1'') (mails w) = rows \<and>
     mw_outbox w = new \<and> (\<forall>(did, m) \<in> set new. did \<noteq> ''m1'')"
proof -
  have "case erase_attendees sample_erase_env ''e1'' [''a1'', ''zz''] sample_guest_db of Inl e \<Rightarrow> False
     | Inr (res, db') \<Rightarrow> es_erased res = [''a1''] \<and>
         map (\<lambda>d. (md_id d, md_attendee_id d, md_event_id d)) (mail_deliveries (ad_ops db')) = [(''m1'', ''a1'', ''e1'')] \<and>
         map att_id (attendees (ad_ops db')) = [''a1'', ''a4''] \<and> map att_event_id (attendees (ad_ops db')) = [''e1'', ''e1''] \<and>
         check_ins (ad_ops db') = [] \<and> item_states (ad_ops db') = [] \<and> event_items (ad_ops db') = [] \<and>
         map ev_id (events (ad_ops db')) = [''e1''] \<and> attendee_notes (ad_ops db') = []"
    by code_simp
  then obtain res db' where run: "erase_attendees sample_erase_env ''e1'' [''a1'', ''zz''] sample_guest_db = Inr (res, db')"
    and res: "es_erased res = [''a1'']"
    and ids: "map (\<lambda>d. (md_id d, md_attendee_id d, md_event_id d)) (mail_deliveries (ad_ops db')) = [(''m1'', ''a1'', ''e1'')]"
      "map att_id (attendees (ad_ops db')) = [''a1'', ''a4'']" "map att_event_id (attendees (ad_ops db')) = [''e1'', ''e1'']"
      "check_ins (ad_ops db') = []" "item_states (ad_ops db') = []" "event_items (ad_ops db') = []"
      "map ev_id (events (ad_ops db')) = [''e1'']" "attendee_notes (ad_ops db') = []"
    by (auto split: sum.splits prod.splits)
  obtain d where d: "mail_deliveries (ad_ops db') = [d]" "md_id d = ''m1''" "md_attendee_id d = ''a1''" "md_event_id d = ''e1''"
    using ids(1) by auto
  define rows where "rows = filter (\<lambda>d. md_attendee_id d = ''a1'') (mail_deliveries (ad_ops db'))"
  have rows: "rows = [d]" using d by (simp add: rows_def)
  have wf: "wf_db (ad_ops db')" using ids(2-) by (auto simp: wf_db_def Cons_eq_map_conv map_eq_Cons_conv)
  let ?w0 = "\<lparr>mw_db = ad_ops db', mw_outbox = []\<rparr>"
  have quiet: "keep_to (shield_kept ''a1'' rows) sample_send_env" by (simp add: keep_to_def shield_kept_def)
  have later: "mail_history (shield_kept ''a1'' rows) ?w0
      (serve_mail sample_send_env sample_resend (serve_mail sample_send_env sample_drain ?w0))"
    by (intro mail_history.request mail_history.start quiet)
  have held: "rows_held I s (er_others sample_erase_env k s)" for I k s
    by (simp add: sample_erase_env_def held.rel_refl)
  from erased_attendee_gets_no_mail [OF run _ held wf _ _ rows_def later] run rows d res
  show ?thesis by (intro exI [of _ res] exI [of _ db'] exI [of _ rows]) auto
qed

section \<open>A delivery requeued at the limit\<close>

text \<open>
  A retry by hand can leave a row failed and retryable at eight attempts. A new request puts it back
  into the queue with its attempts, and the drain never takes it again.
\<close>

lemma requeued_at_the_limit_is_never_drained:
  assumes "md_attempts d \<ge> max_mail_drain_attempts"
  shows "d \<notin> set (claim_drain_candidates clock opts rows)"
  using assms candidates_spec(2) [of clock opts rows] by (auto simp: drainable_def)

lemma a_claim_requeues_at_the_limit:
  "let stuck = sample_mail\<lparr>md_status := ''failed'', md_retryable := Some True, md_attempts := 8\<rparr>;
       w = sample_mail_world\<lparr>mw_db := (mw_db sample_mail_world)\<lparr>mail_deliveries := [stuck]\<rparr>\<rparr>;
       w' = serve_mail sample_send_env (Rq_tickets ''e1'' \<lparr>so_attendee_ids = None, so_purpose = Purpose_initial,
         so_recipient_email = None, so_base_url = Some ''https://t.org'', so_timezone = None, so_actor_user_id = None,
         so_session_id = None\<rparr>) w
   in map (\<lambda>d. (md_status d, md_attempts d)) (mails w') = [(''queued'', 8)]"
  by code_simp

end
