(* ===== verification/Auth_World.thy ===== *)
theory Auth_World
  imports Access Erase_Results
begin

text \<open>
  The ground of signing in: the tables of packages/auth/src as \<open>auth_db\<close> (users, sessions, trusted devices, second
  factors, roles with the time of their grant, settings, the security log), what the code takes from
  outside, the constants (constants.ts), the settings (settings/defaults.ts and resolver.ts) and the durable
  security log (\<open>writeSecurityAuditLog\<close> of audit.ts). The numbers of the waiting points are those of the operations
  in \<open>Auth_Mfa\<close>, \<open>Auth_Session\<close> and \<open>Auth_Login\<close>; a request visits each of its points once. An environment is that of one request,
  its verifier of authenticator codes included, which reads the clock: another request has another one.
\<close>

section \<open>Stages and methods\<close>

datatype session_stage = Stage_full | Stage_mfa_pending | Stage_enrollment_required
  | Stage_backup_codes_required | Stage_change_password_required

datatype login_next = Next_complete | Next_mfa_required | Next_enrollment_required
  | Next_backup_codes_required | Next_change_password

datatype auth_method = Auth_local | Auth_oidc

datatype factor_type = Factor_totp | Factor_webauthn | Factor_recovery

datatype mfa_way = Way_totp | Way_backup | Way_emergency | Way_webauthn

fun way_name :: "mfa_way \<Rightarrow> string" where
  "way_name Way_totp = ''totp''"
| "way_name Way_backup = ''backup''"
| "way_name Way_emergency = ''emergency''"
| "way_name Way_webauthn = ''webauthn''"

definition session_last_seen_throttle_ms :: int where "session_last_seen_throttle_ms = 60000"

definition mfa_pending_session_ttl_ms :: int where "mfa_pending_session_ttl_ms = 15 * 60 * 1000"

definition backup_codes_step_ttl_ms :: int where "backup_codes_step_ttl_ms = 10 * 60 * 1000"

definition session_ttl_admin_ms :: int where "session_ttl_admin_ms = 12 * 60 * 60 * 1000"

definition session_ttl_operator_ms :: int where "session_ttl_operator_ms = 12 * 60 * 60 * 1000"

definition session_idle_timeout_admin_ms :: int where "session_idle_timeout_admin_ms = 30 * 60 * 1000"

definition session_idle_timeout_operator_ms :: int where "session_idle_timeout_operator_ms = 2 * 60 * 60 * 1000"

definition default_trusted_device_days :: int where "default_trusted_device_days = 30"

definition backup_recovery_code_count :: nat where "backup_recovery_code_count = 10"

definition default_mfa_required_roles :: string where "default_mfa_required_roles = ''admin,superadmin''"

definition emergency_recovery_label :: string where "emergency_recovery_label = ''emergency''"

definition privileged_login_failure_alert_threshold :: nat where "privileged_login_failure_alert_threshold = 5"

section \<open>Tables\<close>

record staff_user =
  su_id :: string
  su_email :: string
  su_password_hash :: "string option"
  su_display_name :: "string option"
  su_is_active :: bool
  su_must_change_password :: bool
  su_failed_login_streak :: nat
  su_failed_mfa_streak :: nat

record login_session =
  ls_id :: string
  ls_user_id :: string
  ls_token_hash :: string
  ls_stage :: session_stage
  ls_auth_method :: auth_method
  ls_oidc_provider_id :: "string option"
  ls_device_label :: "string option"
  ls_ip :: "string option"
  ls_user_agent :: "string option"
  ls_timezone :: "string option"
  ls_created_at :: int
  ls_mfa_verified_at :: "int option"
  ls_last_seen_at :: int
  ls_remember_me :: bool
  ls_expires_at :: int
  ls_revoked_at :: "int option"

record trusted_device =
  td_id :: string
  td_user_id :: string
  td_token_hash :: string
  td_label :: "string option"
  td_ip :: "string option"
  td_user_agent :: "string option"
  td_last_used_at :: int
  td_expires_at :: int
  td_revoked_at :: "int option"

text \<open>A second factor: an authenticator app, a registered credential, or a recovery code.\<close>

record mfa_method =
  mf_id :: string
  mf_user_id :: string
  mf_type :: factor_type
  mf_secret_enc :: "string option"
  mf_credential_hash :: "string option"
  mf_label :: "string option"
  mf_confirmed_at :: "int option"
  mf_last_used_at :: "int option"
  mf_backup_codes_acknowledged_at :: "int option"
  mf_last_totp_time_step :: "int option"
  mf_recent_totp_time_steps :: "int list"
  mf_credential_id :: "string option"
  mf_public_key :: "string option"
  mf_sign_count :: "int option"
  mf_attachment :: "string option"
  mf_created_at :: int

record timed_role = role_assignment +
  tr_created_at :: int

record security_entry =
  sy_event :: string
  sy_user_id :: "string option"
  sy_user_email :: "string option"
  sy_user_display_name :: "string option"
  sy_ip :: "string option"
  sy_timezone :: "string option"
  sy_metadata :: json

record auth_db =
  az_users :: "staff_user list"
  az_sessions :: "login_session list"
  az_devices :: "trusted_device list"
  az_methods :: "mfa_method list"
  az_roles :: "timed_role list"
  az_events :: "event_base list"
  az_settings :: "(string \<times> string) list"
  az_security_log :: "security_entry list"

text \<open>
  What can be thrown: a unique or foreign key, a missing row, and the errors the code
  throws itself to abort a transaction (\<open>SessionPromotionFailedAfterCodeVerifiedError\<close> with the method that had
  matched, its WebAuthn sibling, and the plain one of a password change).
\<close>

datatype auth_error = Auth_unique_key | Auth_foreign_key | Auth_no_record | Code_verified_not_promoted mfa_way
  | Assertion_verified_not_promoted | Promotion_failed

text \<open>
  From outside: the other transactions at a point, the clock there, the random tokens and ids, the hashes, the
  ciphers, the authenticator algorithm (the time step a code matches after a given one, if any), the check of a
  signed assertion (the new counter), the check of a registration, the reading of wall clocks by \<open>Intl\<close>, the
  environment variables, the parsers of JSON and numbers, and whether the security log can be written.
\<close>

record credential_proof =
  cp_credential_id :: string
  cp_challenge :: string
  cp_payload :: string

record new_credential =
  nc_id :: string
  nc_public_key :: string
  nc_counter :: int

record auth_env =
  ax_others :: "nat \<Rightarrow> auth_db \<Rightarrow> auth_db"
  ax_now :: "nat \<Rightarrow> int"
  ax_token :: "nat \<Rightarrow> string"
  ax_fresh_id :: "nat \<Rightarrow> string"
  ax_hash_token :: "string \<Rightarrow> string"
  ax_verify_hash :: "string \<Rightarrow> string \<Rightarrow> bool"
  ax_make_hash :: "nat \<Rightarrow> string \<Rightarrow> string"
  ax_recovery_code :: "nat \<Rightarrow> string"
  ax_decrypt :: "string \<Rightarrow> string option"
  ax_encrypt :: "string \<Rightarrow> string"
  ax_totp_secret :: string
  ax_totp_step :: "string \<Rightarrow> string \<Rightarrow> int option \<Rightarrow> int option"
  ax_assertion :: "bool \<Rightarrow> mfa_method \<Rightarrow> credential_proof \<Rightarrow> int option"
  ax_registration :: "credential_proof \<Rightarrow> new_credential option"
  ax_zoned :: "int \<Rightarrow> string \<Rightarrow> int option"
  ax_variable :: "string \<Rightarrow> string option"
  ax_parse_json :: "string \<Rightarrow> json option"
  ax_parse_number :: "string \<Rightarrow> int option"
  ax_log_works :: "string \<Rightarrow> bool"

type_synonym 'a auth_tx = "(auth_db, auth_error, 'a) tx"
type_synonym 'a auth_op = "(auth_db, auth_error, 'a) op"

definition auth_waits :: "auth_env \<Rightarrow> nat \<Rightarrow> unit auth_tx" where
  "auth_waits env k = interfere (ax_others env k)"

definition auth_others :: "auth_env \<Rightarrow> nat \<Rightarrow> unit auth_op" where
  "auth_others env k db = (Inr (), ax_others env k db)"

definition user_by_id :: "string \<Rightarrow> auth_db \<Rightarrow> staff_user option" where
  "user_by_id uid db = List.find (\<lambda>u. su_id u = uid) (az_users db)"

definition update_users :: "(staff_user \<Rightarrow> bool) \<Rightarrow> (staff_user \<Rightarrow> staff_user) \<Rightarrow> nat auth_tx" where
  "update_users p f db = Inr (count_where p (az_users db), db\<lparr>az_users := update_where p f (az_users db)\<rparr>)"

definition update_sessions :: "(login_session \<Rightarrow> bool) \<Rightarrow> (login_session \<Rightarrow> login_session) \<Rightarrow> nat auth_tx" where
  "update_sessions p f db = Inr (count_where p (az_sessions db), db\<lparr>az_sessions := update_where p f (az_sessions db)\<rparr>)"

definition update_devices :: "(trusted_device \<Rightarrow> bool) \<Rightarrow> (trusted_device \<Rightarrow> trusted_device) \<Rightarrow> nat auth_tx" where
  "update_devices p f db = Inr (count_where p (az_devices db), db\<lparr>az_devices := update_where p f (az_devices db)\<rparr>)"

definition update_methods :: "(mfa_method \<Rightarrow> bool) \<Rightarrow> (mfa_method \<Rightarrow> mfa_method) \<Rightarrow> nat auth_tx" where
  "update_methods p f db = Inr (count_where p (az_methods db), db\<lparr>az_methods := update_where p f (az_methods db)\<rparr>)"

definition delete_methods :: "(mfa_method \<Rightarrow> bool) \<Rightarrow> nat auth_tx" where
  "delete_methods p db = Inr (count_where p (az_methods db), db\<lparr>az_methods := filter (\<lambda>r. \<not> p r) (az_methods db)\<rparr>)"

text \<open>The inserts, with the unique keys (the id, the hash of a token, the id of a credential) and the foreign key to the user.\<close>

definition insert_session :: "login_session \<Rightarrow> login_session auth_tx" where
  "insert_session s db =
     (if \<exists>t \<in> set (az_sessions db). ls_id t = ls_id s \<or> ls_token_hash t = ls_token_hash s then Inl Auth_unique_key
      else if user_by_id (ls_user_id s) db = None then Inl Auth_foreign_key
      else Inr (s, db\<lparr>az_sessions := az_sessions db @ [s]\<rparr>))"

definition insert_device :: "trusted_device \<Rightarrow> trusted_device auth_tx" where
  "insert_device d db =
     (if \<exists>t \<in> set (az_devices db). td_id t = td_id d \<or> td_token_hash t = td_token_hash d then Inl Auth_unique_key
      else if user_by_id (td_user_id d) db = None then Inl Auth_foreign_key
      else Inr (d, db\<lparr>az_devices := az_devices db @ [d]\<rparr>))"

definition same_credential :: "mfa_method \<Rightarrow> mfa_method \<Rightarrow> bool" where
  "same_credential a b \<longleftrightarrow> mf_credential_id a \<noteq> None \<and> mf_credential_id a = mf_credential_id b"

definition insert_method :: "mfa_method \<Rightarrow> mfa_method auth_tx" where
  "insert_method r db =
     (if \<exists>t \<in> set (az_methods db). mf_id t = mf_id r \<or> same_credential t r then Inl Auth_unique_key
      else if user_by_id (mf_user_id r) db = None then Inl Auth_foreign_key
      else Inr (r, db\<lparr>az_methods := az_methods db @ [r]\<rparr>))"

section \<open>Settings\<close>

definition setting_defaults :: "(string \<times> json) list" where
  "setting_defaults =
     [(''session_ttl'', JNum session_ttl_admin_ms), (''operator_session_ttl'', JNum session_ttl_operator_ms),
      (''session_idle_timeout'', JNum session_idle_timeout_admin_ms),
      (''operator_session_idle_timeout'', JNum session_idle_timeout_operator_ms),
      (''trusted_device_days'', JNum default_trusted_device_days), (''operator_event_day_sessions'', JBool True),
      (''mfa_required_roles'', JStr default_mfa_required_roles), (''cf_access_enabled'', JBool False),
      (''cf_access_team_domain'', JStr []), (''cf_access_aud'', JArr []),
      (''cf_access_protected_prefixes'', JArr [JStr ''/admin'', JStr ''/api/admin'', JStr ''/api/checkin'']),
      (''cf_access_source_provider_id'', JStr []), (''branding_theme'', JObj []), (''instance_url'', JNull),
      (''webauthn_enabled'', JBool True), (''passkey_login_enabled'', JBool False),
      (''passkey_conditional_ui_enabled'', JBool False), (''csp_trusted_origins'', JArr [])]"

definition setting_env_locks :: "(string \<times> string) list" where
  "setting_env_locks =
     [(''session_ttl'', ''SESSION_TTL_ADMIN_MS''), (''operator_session_ttl'', ''SESSION_TTL_OPERATOR_MS''),
      (''session_idle_timeout'', ''SESSION_IDLE_TIMEOUT_ADMIN_MS''),
      (''operator_session_idle_timeout'', ''SESSION_IDLE_TIMEOUT_OPERATOR_MS''),
      (''trusted_device_days'', ''TRUSTED_DEVICE_DAYS''), (''operator_event_day_sessions'', ''OPERATOR_EVENT_DAY_SESSIONS''),
      (''mfa_required_roles'', ''MFA_REQUIRED_ROLES''), (''cf_access_enabled'', ''CF_ACCESS_ENABLED''),
      (''cf_access_team_domain'', ''CF_ACCESS_TEAM_DOMAIN''), (''cf_access_aud'', ''CF_ACCESS_AUD''),
      (''cf_access_protected_prefixes'', ''CF_ACCESS_PROTECTED_PREFIXES''),
      (''cf_access_source_provider_id'', ''CF_ACCESS_SOURCE_PROVIDER_ID''), (''instance_url'', ''BASE_URL''),
      (''webauthn_enabled'', ''WEBAUTHN_ENABLED''), (''csp_trusted_origins'', ''CSP_TRUSTED_ORIGINS'')]"

text \<open>
  The value of a variable: a boolean where the default is one, JSON where it looks like it, a number
  where it reads as one, else the trimmed text.
\<close>

definition parse_env_value :: "auth_env \<Rightarrow> string \<Rightarrow> json option \<Rightarrow> json" where
  "parse_env_value env raw fallback =
     (let trimmed = js_trim raw; lower = js_lower trimmed;
          boolean = (case fallback of Some (JBool b) \<Rightarrow> True | _ \<Rightarrow> False);
          other = (if starts_with ''{'' trimmed \<or> starts_with ''['' trimmed \<or> starts_with [CHR 0x22] trimmed
                   then (case ax_parse_json env trimmed of Some j \<Rightarrow> j | None \<Rightarrow> JStr trimmed)
                   else case ax_parse_number env trimmed of
                     Some n \<Rightarrow> if trimmed \<noteq> [] then JNum n else JStr trimmed
                   | None \<Rightarrow> JStr trimmed)
      in if boolean \<and> (lower = ''true'' \<or> lower = ''1'') then JBool True
         else if boolean \<and> (lower = ''false'' \<or> lower = ''0'') then JBool False
         else other)"

definition env_override :: "auth_env \<Rightarrow> string \<Rightarrow> json option" where
  "env_override env key =
     (case map_of setting_env_locks key of None \<Rightarrow> None
      | Some name \<Rightarrow> (case ax_variable env name of None \<Rightarrow> None
          | Some raw \<Rightarrow> if js_trim raw = [] then None
                        else Some (parse_env_value env raw (map_of setting_defaults key))))"

definition get_setting :: "auth_env \<Rightarrow> string \<Rightarrow> auth_db \<Rightarrow> json option" where
  "get_setting env key db =
     (case env_override env key of Some j \<Rightarrow> Some j
      | None \<Rightarrow> (case map_of (az_settings db) key of
            Some v \<Rightarrow> Some (case ax_parse_json env v of Some j \<Rightarrow> j | None \<Rightarrow> JStr v)
          | None \<Rightarrow> map_of setting_defaults key))"

text \<open>\<open>typeof v === "number" && v > 0 ? v : default\<close>.\<close>

definition positive_or :: "json option \<Rightarrow> int \<Rightarrow> int" where
  "positive_or v fallback = (case v of Some (JNum n) \<Rightarrow> if n > 0 then n else fallback | _ \<Rightarrow> fallback)"

definition get_session_ttl_admin_ms :: "auth_env \<Rightarrow> auth_db \<Rightarrow> int" where
  "get_session_ttl_admin_ms env db = positive_or (get_setting env ''session_ttl'' db) session_ttl_admin_ms"

definition get_session_ttl_operator_ms :: "auth_env \<Rightarrow> auth_db \<Rightarrow> int" where
  "get_session_ttl_operator_ms env db = positive_or (get_setting env ''operator_session_ttl'' db) session_ttl_operator_ms"

definition get_session_idle_timeout_admin_ms :: "auth_env \<Rightarrow> auth_db \<Rightarrow> int" where
  "get_session_idle_timeout_admin_ms env db =
     positive_or (get_setting env ''session_idle_timeout'' db) session_idle_timeout_admin_ms"

definition get_session_idle_timeout_operator_ms :: "auth_env \<Rightarrow> auth_db \<Rightarrow> int" where
  "get_session_idle_timeout_operator_ms env db =
     positive_or (get_setting env ''operator_session_idle_timeout'' db) session_idle_timeout_operator_ms"

definition get_trusted_device_days :: "auth_env \<Rightarrow> auth_db \<Rightarrow> int" where
  "get_trusted_device_days env db = (case get_setting env ''trusted_device_days'' db of
     Some (JNum n) \<Rightarrow> if n \<ge> 0 then n else default_trusted_device_days | _ \<Rightarrow> default_trusted_device_days)"

definition get_operator_event_day_sessions_enabled :: "auth_env \<Rightarrow> auth_db \<Rightarrow> bool" where
  "get_operator_event_day_sessions_enabled env db =
     (case get_setting env ''operator_event_day_sessions'' db of Some (JBool b) \<Rightarrow> b | _ \<Rightarrow> False)"

definition boolean_setting :: "auth_env \<Rightarrow> string \<Rightarrow> auth_db \<Rightarrow> bool" where
  "boolean_setting env key db = (case get_setting env key db of Some (JBool b) \<Rightarrow> b | _ \<Rightarrow> map_of setting_defaults key = Some (JBool True))"

definition get_webauthn_enabled :: "auth_env \<Rightarrow> auth_db \<Rightarrow> bool" where
  "get_webauthn_enabled env db = boolean_setting env ''webauthn_enabled'' db"

definition get_passkey_login_enabled :: "auth_env \<Rightarrow> auth_db \<Rightarrow> bool" where
  "get_passkey_login_enabled env db = boolean_setting env ''passkey_login_enabled'' db"

definition get_passkey_conditional_ui_enabled :: "auth_env \<Rightarrow> auth_db \<Rightarrow> bool" where
  "get_passkey_conditional_ui_enabled env db = boolean_setting env ''passkey_conditional_ui_enabled'' db"

definition is_setting_env_locked :: "auth_env \<Rightarrow> string \<Rightarrow> bool" where
  "is_setting_env_locked env key \<longleftrightarrow> env_override env key \<noteq> None"

text \<open>\<open>split\<close> of a string at a character, and \<open>String(value)\<close> of a JSON value.\<close>

fun split_at_char :: "char \<Rightarrow> string \<Rightarrow> string list" where
  "split_at_char sep [] = [[]]"
| "split_at_char sep (c # s) =
     (let parts = split_at_char sep s in if c = sep then [] # parts else (c # hd parts) # tl parts)"

fun json_as_text :: "json \<Rightarrow> string" where
  "json_as_text JNull = ''null''"
| "json_as_text (JBool b) = (if b then ''true'' else ''false'')"
| "json_as_text (JNum n) = decimal n"
| "json_as_text (JStr s) = s"
| "json_as_text (JArr js) = join_with '','' (map (\<lambda>j. if j = JNull then [] else json_as_text j) js)"
| "json_as_text (JObj kvs) = ''[object Object]''"

definition get_mfa_required_roles :: "auth_env \<Rightarrow> auth_db \<Rightarrow> string list" where
  "get_mfa_required_roles env db =
     (case get_setting env ''mfa_required_roles'' db of
        Some (JArr js) \<Rightarrow> filter (\<lambda>r. r \<noteq> []) (map (\<lambda>j. js_trim (json_as_text j)) js)
      | v \<Rightarrow> let csv = (case v of Some (JStr s) \<Rightarrow> s | _ \<Rightarrow> default_mfa_required_roles)
             in filter (\<lambda>r. r \<noteq> []) (map js_trim (split_at_char CHR '','' csv)))"

section \<open>The security log\<close>

definition security_row :: "string \<Rightarrow> string option \<Rightarrow> string option \<Rightarrow> string option \<Rightarrow> (string \<times> json) list \<Rightarrow>
    auth_db \<Rightarrow> security_entry" where
  "security_row event uid ip timezone metadata db =
     (let snapshot = (case uid of None \<Rightarrow> None | Some u \<Rightarrow> if u = [] then None else user_by_id u db)
      in \<lparr>sy_event = event, sy_user_id = uid, sy_user_email = map_option su_email snapshot,
          sy_user_display_name = (case snapshot of None \<Rightarrow> None | Some u \<Rightarrow> su_display_name u),
          sy_ip = ip, sy_timezone = timezone, sy_metadata = JObj metadata\<rparr>)"

text \<open>
  It never throws: a row that cannot be written is left out. The metadata is stored as given: \<open>toDatabaseJson\<close>
  only replaces U+0000, by a mark that is outside the alphabet of the model.
\<close>

definition write_security_audit_log :: "auth_env \<Rightarrow> string \<Rightarrow> string option \<Rightarrow> string option \<Rightarrow> string option \<Rightarrow>
    (string \<times> json) list \<Rightarrow> unit auth_op" where
  "write_security_audit_log env event uid ip timezone metadata db =
     (Inr (), if ax_log_works env event
       then db\<lparr>az_security_log := az_security_log db @ [security_row event uid ip timezone metadata db]\<rparr> else db)"

definition optional_text :: "string option \<Rightarrow> json" where
  "optional_text s = (case s of None \<Rightarrow> JNull | Some t \<Rightarrow> JStr t)"

declare auth_waits_def [tx_simps] auth_others_def [tx_simps]

end
