(* ===== verification/Auth_Mfa.thy ===== *)
theory Auth_Mfa
  imports Auth_World
begin

text \<open>
  Second factors, packages/auth/src/mfa: who needs one (policy.ts), trusted devices (trusted-device.ts), recovery
  codes (recovery-hash.ts, recovery-consume.ts, backup-recovery.ts, emergency-recovery.ts), authenticator apps (totp.ts,
  enrollment.ts, enrollment-lock.ts), signed assertions (webauthn.ts, webauthn-login.ts) and the check of a
  code (verify-step-up-code.ts). Others may commit between what an operation reads and its guarded update: at
  point 1 for an authenticator code, 2 before the row is read again, 3 for a recovery code, 4 for an assertion, 5 where the
  enrollment lock is waited for, 6 before a confirmation, 7 where a session row is locked, 8 before
  a device is marked as used, 9 and 29 between the steps of an enrollment that is begun or resumed.
\<close>

section \<open>Policy\<close>

definition roles_of_user :: "string \<Rightarrow> auth_db \<Rightarrow> timed_role list" where
  "roles_of_user uid db = filter (\<lambda>r. ra_user_id r = uid) (az_roles db)"

definition user_requires_mfa :: "auth_env \<Rightarrow> string \<Rightarrow> auth_db \<Rightarrow> bool" where
  "user_requires_mfa env uid db \<longleftrightarrow>
     (let required = get_mfa_required_roles env db
      in required \<noteq> [] \<and> (\<exists>r \<in> set (roles_of_user uid db). ra_role r \<in> set required))"

definition confirmed :: "string \<Rightarrow> mfa_method \<Rightarrow> bool" where
  "confirmed uid r \<longleftrightarrow> mf_user_id r = uid \<and> mf_confirmed_at r \<noteq> None"

definition user_has_any_confirmed_mfa_method :: "string \<Rightarrow> auth_db \<Rightarrow> bool" where
  "user_has_any_confirmed_mfa_method uid db \<longleftrightarrow> List.find (confirmed uid) (az_methods db) \<noteq> None"

definition user_has_confirmed_totp :: "string \<Rightarrow> auth_db \<Rightarrow> bool" where
  "user_has_confirmed_totp uid db \<longleftrightarrow> List.find (\<lambda>r. confirmed uid r \<and> mf_type r = Factor_totp) (az_methods db) \<noteq> None"

definition user_requires_mfa_step_up :: "auth_env \<Rightarrow> string \<Rightarrow> auth_db \<Rightarrow> bool" where
  "user_requires_mfa_step_up env uid db \<longleftrightarrow> user_requires_mfa env uid db \<and> user_has_any_confirmed_mfa_method uid db"

definition unacknowledged :: "string \<Rightarrow> mfa_method \<Rightarrow> bool" where
  "unacknowledged uid r \<longleftrightarrow> confirmed uid r \<and> mf_backup_codes_acknowledged_at r = None"

definition user_has_unacknowledged_backup_codes :: "string \<Rightarrow> auth_db \<Rightarrow> bool" where
  "user_has_unacknowledged_backup_codes uid db \<longleftrightarrow> List.find (unacknowledged uid) (az_methods db) \<noteq> None"

definition mark_backup_codes_acknowledged :: "auth_env \<Rightarrow> string \<Rightarrow> unit auth_tx" where
  "mark_backup_codes_acknowledged env uid =
     tx_bind (update_methods (unacknowledged uid) (\<lambda>r. r\<lparr>mf_backup_codes_acknowledged_at := Some (ax_now env 0)\<rparr>)) (\<lambda>_.
     tx_return ())"

section \<open>Trusted devices\<close>

record device_input =
  di_user_id :: string
  di_ip :: "string option"
  di_user_agent :: "string option"
  di_label :: "string option"

definition create_trusted_device :: "auth_env \<Rightarrow> device_input \<Rightarrow> (trusted_device \<times> string) auth_tx" where
  "create_trusted_device env input =
     (let raw = ax_token env 1; now = ax_now env 1
      in tx_bind (tx_read (get_trusted_device_days env)) (\<lambda>days.
         tx_bind (insert_device \<lparr>td_id = ax_fresh_id env 1, td_user_id = di_user_id input, td_token_hash = ax_hash_token env raw,
           td_label = di_label input, td_ip = di_ip input, td_user_agent = di_user_agent input, td_last_used_at = now,
           td_expires_at = now + days * 24 * 60 * 60 * 1000, td_revoked_at = None\<rparr>) (\<lambda>d. tx_return (d, raw))))"

definition mfa_recent_window_ms :: int where "mfa_recent_window_ms = 5 * 60 * 1000"

definition mfa_recent :: "string \<Rightarrow> int \<Rightarrow> login_session \<Rightarrow> bool" where
  "mfa_recent sid now s \<longleftrightarrow> ls_id s = sid \<and> ls_revoked_at s = None \<and> ls_expires_at s > now \<and>
     (case ls_mfa_verified_at s of None \<Rightarrow> False | Some t \<Rightarrow> t \<ge> now - mfa_recent_window_ms)"

definition create_trusted_device_if_mfa_recent ::
  "auth_env \<Rightarrow> string \<Rightarrow> device_input \<Rightarrow> int \<Rightarrow> (trusted_device \<times> string) option auth_tx" where
  "create_trusted_device_if_mfa_recent env sid input now =
     tx_bind (auth_waits env 7) (\<lambda>_.
     tx_bind (tx_read (\<lambda>db. filter (mfa_recent sid now) (az_sessions db))) (\<lambda>rows.
     if rows = [] then tx_return None
     else tx_bind (create_trusted_device env input) (\<lambda>d. tx_return (Some d))))"

definition valid_device :: "auth_env \<Rightarrow> string \<Rightarrow> string \<Rightarrow> int \<Rightarrow> auth_db \<Rightarrow> trusted_device option" where
  "valid_device env uid raw now db =
     (if get_trusted_device_days env db = 0 then None
      else case List.find (\<lambda>d. td_token_hash d = ax_hash_token env raw) (az_devices db) of
             None \<Rightarrow> None
           | Some d \<Rightarrow> if td_user_id d \<noteq> uid \<or> td_revoked_at d \<noteq> None \<or> td_expires_at d \<le> now then None else Some d)"

definition validate_trusted_device :: "auth_env \<Rightarrow> string \<Rightarrow> string \<Rightarrow> bool auth_tx" where
  "validate_trusted_device env uid raw =
     tx_bind (tx_read (valid_device env uid raw (ax_now env 2))) (\<lambda>found.
     case found of None \<Rightarrow> tx_return False
     | Some d \<Rightarrow> tx_bind (auth_waits env 8) (\<lambda>_.
         tx_bind (update_devices (\<lambda>e. td_id e = td_id d) (\<lambda>e. e\<lparr>td_last_used_at := ax_now env 2\<rparr>)) (\<lambda>n.
         if n = 0 then tx_throw Auth_no_record else tx_return True)))"

definition revoke_trusted_device_by_token :: "auth_env \<Rightarrow> string \<Rightarrow> string option \<Rightarrow> unit auth_tx" where
  "revoke_trusted_device_by_token env uid raw =
     (if \<not> truthy raw then tx_return ()
      else tx_bind (update_devices (\<lambda>d. td_token_hash d = ax_hash_token env (the raw) \<and> td_user_id d = uid \<and> td_revoked_at d = None)
             (\<lambda>d. d\<lparr>td_revoked_at := Some (ax_now env 0)\<rparr>)) (\<lambda>_. tx_return ()))"

definition revoke_all_trusted_devices_for_user :: "auth_env \<Rightarrow> string \<Rightarrow> nat auth_tx" where
  "revoke_all_trusted_devices_for_user env uid =
     tx_bind (update_sessions (\<lambda>s. ls_user_id s = uid \<and> ls_mfa_verified_at s \<noteq> None) (\<lambda>s. s\<lparr>ls_mfa_verified_at := None\<rparr>)) (\<lambda>_.
     update_devices (\<lambda>d. td_user_id d = uid \<and> td_revoked_at d = None) (\<lambda>d. d\<lparr>td_revoked_at := Some (ax_now env 0)\<rparr>))"

section \<open>Recovery codes\<close>

text \<open>\<open>toUpperCase\<close> on the Latin-1 letters whose capital is Latin-1 as well.\<close>

definition js_upper_char :: "char \<Rightarrow> string" where
  "js_upper_char c = (let n = of_char c :: nat in
     if n = 223 then ''SS''
     else if (97 \<le> n \<and> n \<le> 122) \<or> (224 \<le> n \<and> n \<le> 254 \<and> n \<noteq> 247) then [char_of (n - 32)] else [c])"

definition normalize_recovery_code :: "string \<Rightarrow> string" where
  "normalize_recovery_code s = concat (map js_upper_char (filter (\<lambda>c. \<not> js_space c \<and> c \<noteq> CHR ''-'') s))"

definition hash_recovery_code :: "auth_env \<Rightarrow> nat \<Rightarrow> string \<Rightarrow> string" where
  "hash_recovery_code env i plaintext = ax_make_hash env i (normalize_recovery_code plaintext)"

definition verify_recovery_code :: "auth_env \<Rightarrow> string \<Rightarrow> string \<Rightarrow> bool" where
  "verify_recovery_code env plaintext hash = ax_verify_hash env hash (normalize_recovery_code plaintext)"

definition find_matching_recovery_row_id :: "auth_env \<Rightarrow> mfa_method list \<Rightarrow> string \<Rightarrow> string option" where
  "find_matching_recovery_row_id env candidates code =
     map_option mf_id (List.find (\<lambda>r. truthy (mf_credential_hash r) \<and> verify_recovery_code env code (the (mf_credential_hash r)))
       candidates)"

definition consume_recovery_row :: "auth_env \<Rightarrow> string \<Rightarrow> bool auth_tx" where
  "consume_recovery_row env rid =
     tx_bind (update_methods (\<lambda>r. mf_id r = rid \<and> mf_last_used_at r = None) (\<lambda>r. r\<lparr>mf_last_used_at := Some (ax_now env 3)\<rparr>))
       (\<lambda>n. tx_return (n = 1))"

definition verify_and_consume_recovery_row :: "auth_env \<Rightarrow> mfa_method list \<Rightarrow> string \<Rightarrow> bool auth_tx" where
  "verify_and_consume_recovery_row env candidates code =
     (case find_matching_recovery_row_id env candidates code of
        None \<Rightarrow> tx_return False
      | Some rid \<Rightarrow> tx_bind (auth_waits env 3) (\<lambda>_. consume_recovery_row env rid))"

definition backup_code_row :: "string \<Rightarrow> mfa_method \<Rightarrow> bool" where
  "backup_code_row uid r \<longleftrightarrow> mf_user_id r = uid \<and> mf_type r = Factor_recovery \<and> mf_label r \<noteq> Some emergency_recovery_label"

definition load_unused_backup_recovery_rows :: "string \<Rightarrow> auth_db \<Rightarrow> mfa_method list" where
  "load_unused_backup_recovery_rows uid db = filter (\<lambda>r. backup_code_row uid r \<and> mf_last_used_at r = None) (az_methods db)"

definition find_backup_recovery_row_id :: "auth_env \<Rightarrow> string \<Rightarrow> string \<Rightarrow> auth_db \<Rightarrow> string option" where
  "find_backup_recovery_row_id env uid plaintext db =
     find_matching_recovery_row_id env (load_unused_backup_recovery_rows uid db) (normalize_recovery_code plaintext)"

definition verify_backup_recovery_code :: "auth_env \<Rightarrow> string \<Rightarrow> string \<Rightarrow> bool auth_tx" where
  "verify_backup_recovery_code env uid plaintext =
     tx_bind (tx_read (load_unused_backup_recovery_rows uid)) (\<lambda>candidates.
     verify_and_consume_recovery_row env candidates (normalize_recovery_code plaintext))"

fun matched_rows :: "auth_env \<Rightarrow> mfa_method list \<Rightarrow> string list \<Rightarrow> string list \<Rightarrow> string list option" where
  "matched_rows env candidates [] seen = Some seen"
| "matched_rows env candidates (p # ps) seen =
     (case find_matching_recovery_row_id env candidates (normalize_recovery_code p) of
        None \<Rightarrow> None
      | Some rid \<Rightarrow> if rid \<in> set seen then None else matched_rows env candidates ps (rid # seen))"

definition verify_backup_recovery_codes_set :: "auth_env \<Rightarrow> string \<Rightarrow> string list \<Rightarrow> nat \<Rightarrow> auth_db \<Rightarrow> bool" where
  "verify_backup_recovery_codes_set env uid plaintexts expected db \<longleftrightarrow>
     length plaintexts = expected \<and>
     (case matched_rows env (load_unused_backup_recovery_rows uid db) plaintexts [] of
        None \<Rightarrow> False | Some seen \<Rightarrow> length seen = expected)"

text \<open>The number of codes of the current batch, and of those left.\<close>

definition get_backup_recovery_codes_status :: "string \<Rightarrow> auth_db \<Rightarrow> nat \<times> nat" where
  "get_backup_recovery_codes_status uid db =
     (let rows = filter (backup_code_row uid) (az_methods db)
      in (length rows, length (filter (\<lambda>r. mf_last_used_at r = None) rows)))"

definition blank_method :: "string \<Rightarrow> string \<Rightarrow> factor_type \<Rightarrow> int \<Rightarrow> mfa_method" where
  "blank_method mid uid type now =
     \<lparr>mf_id = mid, mf_user_id = uid, mf_type = type, mf_secret_enc = None, mf_credential_hash = None, mf_label = None,
      mf_confirmed_at = None, mf_last_used_at = None, mf_backup_codes_acknowledged_at = Some now, mf_last_totp_time_step = None,
      mf_recent_totp_time_steps = [], mf_credential_id = None, mf_public_key = None, mf_sign_count = None,
      mf_attachment = None, mf_created_at = now\<rparr>"

definition recovery_row :: "auth_env \<Rightarrow> string \<Rightarrow> nat \<Rightarrow> mfa_method" where
  "recovery_row env uid i = (blank_method (ax_fresh_id env (10 + i)) uid Factor_recovery (ax_now env 0))
     \<lparr>mf_credential_hash := Some (hash_recovery_code env i (ax_recovery_code env i))\<rparr>"

definition generate_backup_recovery_codes :: "auth_env \<Rightarrow> string \<Rightarrow> nat \<Rightarrow> string list auth_tx" where
  "generate_backup_recovery_codes env uid n =
     tx_bind (tx_fold (\<lambda>i _. tx_bind (insert_method (recovery_row env uid i)) (\<lambda>_. tx_return ())) [0..<n] ()) (\<lambda>_.
     tx_return (map (ax_recovery_code env) [0..<n]))"

definition regenerate_backup_recovery_codes :: "auth_env \<Rightarrow> string \<Rightarrow> string list auth_tx" where
  "regenerate_backup_recovery_codes env uid =
     tx_bind (delete_methods (backup_code_row uid)) (\<lambda>_. generate_backup_recovery_codes env uid backup_recovery_code_count)"

definition ensure_fresh_enrollment_backup_codes :: "auth_env \<Rightarrow> string \<Rightarrow> string list auth_tx" where
  "ensure_fresh_enrollment_backup_codes env uid =
     tx_bind (tx_read (user_has_any_confirmed_mfa_method uid)) (\<lambda>has.
     if has then tx_return [] else regenerate_backup_recovery_codes env uid)"

definition emergency_code_row :: "string \<Rightarrow> mfa_method \<Rightarrow> bool" where
  "emergency_code_row uid r \<longleftrightarrow> mf_user_id r = uid \<and> mf_type r = Factor_recovery \<and>
     mf_label r = Some emergency_recovery_label \<and> mf_last_used_at r = None"

definition generate_emergency_recovery_code :: "auth_env \<Rightarrow> string \<Rightarrow> string auth_tx" where
  "generate_emergency_recovery_code env uid =
     tx_bind (delete_methods (emergency_code_row uid)) (\<lambda>_.
     tx_bind (insert_method ((recovery_row env uid 0)\<lparr>mf_label := Some emergency_recovery_label\<rparr>)) (\<lambda>_.
     tx_return (ax_recovery_code env 0)))"

definition find_emergency_recovery_row_id :: "auth_env \<Rightarrow> string \<Rightarrow> string \<Rightarrow> auth_db \<Rightarrow> string option" where
  "find_emergency_recovery_row_id env uid plaintext db =
     find_matching_recovery_row_id env (filter (emergency_code_row uid) (az_methods db)) (normalize_recovery_code plaintext)"

definition verify_emergency_recovery_code :: "auth_env \<Rightarrow> string \<Rightarrow> string \<Rightarrow> bool auth_tx" where
  "verify_emergency_recovery_code env uid plaintext =
     tx_bind (tx_read (\<lambda>db. filter (emergency_code_row uid) (az_methods db))) (\<lambda>rows.
     verify_and_consume_recovery_row env rows (normalize_recovery_code plaintext))"

section \<open>Authenticator codes\<close>

datatype totp_verdict = Totp_valid int | Totp_invalid bool

definition normalize_totp_token :: "string \<Rightarrow> string" where
  "normalize_totp_token code = filter (\<lambda>c. \<not> js_space c) code"

text \<open>The flag of an invalid code: it is a genuine code of a step that was accepted before.\<close>

definition verify_totp_code_detailed :: "auth_env \<Rightarrow> string \<Rightarrow> string \<Rightarrow> int option \<Rightarrow> int list \<Rightarrow> totp_verdict" where
  "verify_totp_code_detailed env secret_enc code after recent =
     (case ax_decrypt env secret_enc of
        None \<Rightarrow> Totp_invalid False
      | Some secret \<Rightarrow>
          (case ax_totp_step env secret (normalize_totp_token code) after of
             Some t \<Rightarrow> Totp_valid t
           | None \<Rightarrow> Totp_invalid (after \<noteq> None \<and>
               (case ax_totp_step env secret (normalize_totp_token code) None of
                  None \<Rightarrow> False | Some t \<Rightarrow> Some t = after \<or> t \<in> set recent))))"

definition recent_totp_steps_to_keep :: nat where "recent_totp_steps_to_keep = 3"

definition recent_time_steps_after_accepting :: "int list \<Rightarrow> int \<Rightarrow> int list" where
  "recent_time_steps_after_accepting existing accepted =
     take recent_totp_steps_to_keep (accepted # filter (\<lambda>s. s \<noteq> accepted) existing)"

definition totp_row :: "string \<Rightarrow> bool \<Rightarrow> auth_db \<Rightarrow> mfa_method option" where
  "totp_row uid is_confirmed db = List.find (\<lambda>r. mf_user_id r = uid \<and> mf_type r = Factor_totp \<and>
     (mf_confirmed_at r \<noteq> None) = is_confirmed) (az_methods db)"

definition advances_watermark :: "string \<Rightarrow> int \<Rightarrow> mfa_method \<Rightarrow> bool" where
  "advances_watermark rid t r \<longleftrightarrow> mf_id r = rid \<and> (case mf_last_totp_time_step r of None \<Rightarrow> True | Some l \<Rightarrow> l < t)"

text \<open>Whether the code is accepted, and whether a refused one was used before.\<close>

definition accept_time_step :: "auth_env \<Rightarrow> mfa_method \<Rightarrow> int \<Rightarrow> (bool \<times> bool) auth_tx" where
  "accept_time_step env row t =
     tx_bind (auth_waits env 1) (\<lambda>_.
     tx_bind (update_methods (advances_watermark (mf_id row) t) (\<lambda>r. r\<lparr>mf_last_used_at := Some (ax_now env 3),
         mf_last_totp_time_step := Some t,
         mf_recent_totp_time_steps := recent_time_steps_after_accepting (mf_recent_totp_time_steps row) t\<rparr>)) (\<lambda>n.
     if n = 1 then tx_return (True, False)
     else tx_bind (auth_waits env 2) (\<lambda>_.
       tx_bind (tx_read (\<lambda>db. List.find (\<lambda>r. mf_id r = mf_id row) (az_methods db))) (\<lambda>current.
       tx_return (False, case current of None \<Rightarrow> False
         | Some r \<Rightarrow> mf_last_totp_time_step r = Some t \<or> t \<in> set (mf_recent_totp_time_steps r))))))"

definition verify_user_totp_code_detailed :: "auth_env \<Rightarrow> string \<Rightarrow> string \<Rightarrow> (bool \<times> bool) auth_tx" where
  "verify_user_totp_code_detailed env uid code =
     tx_bind (tx_read (totp_row uid True)) (\<lambda>found.
     case found of
       None \<Rightarrow> tx_return (False, False)
     | Some row \<Rightarrow>
         if \<not> truthy (mf_secret_enc row) then tx_return (False, False)
         else case verify_totp_code_detailed env (the (mf_secret_enc row)) code (mf_last_totp_time_step row)
                     (mf_recent_totp_time_steps row) of
             Totp_invalid replay \<Rightarrow> tx_return (False, replay)
           | Totp_valid t \<Rightarrow> accept_time_step env row t)"

definition start_totp_enrollment :: "auth_env \<Rightarrow> string \<Rightarrow> string list option auth_tx" where
  "start_totp_enrollment env uid =
     tx_bind (tx_read (\<lambda>db. user_by_id uid db = None \<or> user_has_confirmed_totp uid db)) (\<lambda>refused.
     if refused then tx_return None
     else tx_bind (auth_waits env 5) (\<lambda>_.
       tx_bind (tx_read (user_has_confirmed_totp uid)) (\<lambda>has.
       if has then tx_return None
       else tx_bind (delete_methods (\<lambda>r. mf_user_id r = uid \<and> mf_type r = Factor_totp)) (\<lambda>_.
         tx_bind (insert_method ((blank_method (ax_fresh_id env 9) uid Factor_totp (ax_now env 0))
           \<lparr>mf_secret_enc := Some (ax_encrypt env (ax_totp_secret env))\<rparr>)) (\<lambda>_.
         tx_bind (ensure_fresh_enrollment_backup_codes env uid) (\<lambda>codes. tx_return (Some codes)))))))"

definition pending_totp :: "string \<Rightarrow> mfa_method \<Rightarrow> bool" where
  "pending_totp uid r \<longleftrightarrow> mf_user_id r = uid \<and> mf_type r = Factor_totp \<and> mf_confirmed_at r = None"

definition drop_pending_totp :: "string \<Rightarrow> unit auth_tx" where
  "drop_pending_totp uid =
     tx_bind (delete_methods (pending_totp uid)) (\<lambda>_.
     tx_bind (tx_read (user_has_any_confirmed_mfa_method uid)) (\<lambda>has.
     if has then tx_return () else tx_bind (delete_methods (backup_code_row uid)) (\<lambda>_. tx_return ())))"

text \<open>Whether a pending enrollment can be resumed; one whose secret no longer decrypts is dropped.\<close>

definition resume_pending_totp_enrollment :: "auth_env \<Rightarrow> string \<Rightarrow> bool auth_tx" where
  "resume_pending_totp_enrollment env uid =
     tx_bind (tx_read (\<lambda>db. if user_has_confirmed_totp uid db then None else totp_row uid False db)) (\<lambda>pending.
     case pending of None \<Rightarrow> tx_return False
     | Some row \<Rightarrow> if \<not> truthy (mf_secret_enc row) then tx_return False
         else tx_bind (tx_read (user_by_id uid)) (\<lambda>user.
           if user = None then tx_return False
           else if ax_decrypt env (the (mf_secret_enc row)) \<noteq> None then tx_return True
           else tx_bind (drop_pending_totp uid) (\<lambda>_. tx_return False)))"

definition cancel_pending_totp_enrollment :: "string \<Rightarrow> unit auth_tx" where
  "cancel_pending_totp_enrollment uid =
     tx_bind (tx_read (\<lambda>db. List.find (pending_totp uid) (az_methods db))) (\<lambda>pending.
     if pending = None then tx_return () else drop_pending_totp uid)"

definition get_or_start_totp_enrollment :: "auth_env \<Rightarrow> string \<Rightarrow> string list option auth_op" where
  "get_or_start_totp_enrollment env uid =
     op_bind (op_read (user_has_confirmed_totp uid)) (\<lambda>has.
     if has then op_return None
     else op_bind (auth_others env 29) (\<lambda>_.
       op_bind (run_tx (resume_pending_totp_enrollment env uid)) (\<lambda>resumed.
       if resumed then op_return (Some [])
       else op_bind (auth_others env 9) (\<lambda>_. run_tx (start_totp_enrollment env uid)))))"

definition confirm_pending_totp :: "auth_env \<Rightarrow> string \<Rightarrow> string \<Rightarrow> bool auth_tx" where
  "confirm_pending_totp env uid code =
     tx_bind (tx_read (totp_row uid False)) (\<lambda>found.
     case found of None \<Rightarrow> tx_return False
     | Some row \<Rightarrow>
         if \<not> truthy (mf_secret_enc row) then tx_return False
         else case verify_totp_code_detailed env (the (mf_secret_enc row)) code None [] of
             Totp_invalid _ \<Rightarrow> tx_return False
           | Totp_valid t \<Rightarrow>
               tx_bind (tx_read (\<lambda>db. \<not> user_has_any_confirmed_mfa_method uid db)) (\<lambda>first.
               tx_bind (auth_waits env 6) (\<lambda>_.
               tx_bind (update_methods (\<lambda>r. mf_id r = mf_id row \<and> mf_confirmed_at r = None)
                 (\<lambda>r. let r' = r\<lparr>mf_confirmed_at := Some (ax_now env 0), mf_last_totp_time_step := Some t,
                        mf_last_used_at := Some (ax_now env 0)\<rparr>
                      in if first then r'\<lparr>mf_backup_codes_acknowledged_at := None\<rparr> else r')) (\<lambda>n.
               tx_return (n > 0)))))"

definition confirm_totp_enrollment :: "auth_env \<Rightarrow> string \<Rightarrow> string \<Rightarrow> bool \<Rightarrow> bool auth_tx" where
  "confirm_totp_enrollment env uid code only_first =
     (if only_first
      then tx_bind (auth_waits env 5) (\<lambda>_.
        tx_bind (tx_read (user_has_any_confirmed_mfa_method uid)) (\<lambda>has.
        if has then tx_return False else confirm_pending_totp env uid code))
      else confirm_pending_totp env uid code)"

definition remove_totp_method :: "string \<Rightarrow> bool auth_tx" where
  "remove_totp_method uid =
     tx_bind (delete_methods (\<lambda>r. mf_user_id r = uid \<and> mf_type r = Factor_totp)) (\<lambda>n. tx_return (n > 0))"

definition revoke_sessions :: "auth_env \<Rightarrow> (login_session \<Rightarrow> bool) \<Rightarrow> nat auth_tx" where
  "revoke_sessions env p = update_sessions (\<lambda>s. p s \<and> ls_revoked_at s = None) (\<lambda>s. s\<lparr>ls_revoked_at := Some (ax_now env 0)\<rparr>)"

definition reset_user_mfa :: "auth_env \<Rightarrow> string \<Rightarrow> unit auth_tx" where
  "reset_user_mfa env uid =
     tx_bind (delete_methods (\<lambda>r. mf_user_id r = uid)) (\<lambda>_.
     tx_bind (revoke_sessions env (\<lambda>s. ls_user_id s = uid)) (\<lambda>_.
     tx_bind (update_devices (\<lambda>d. td_user_id d = uid \<and> td_revoked_at d = None) (\<lambda>d. d\<lparr>td_revoked_at := Some (ax_now env 0)\<rparr>)) (\<lambda>_.
     tx_return ())))"

section \<open>Signed assertions\<close>

definition finish_webauthn_registration ::
  "auth_env \<Rightarrow> string \<Rightarrow> credential_proof \<Rightarrow> string \<Rightarrow> string option \<Rightarrow> bool \<Rightarrow> (string \<times> string list) option auth_tx" where
  "finish_webauthn_registration env uid proof attachment label only_first =
     (case ax_registration env proof of
        None \<Rightarrow> tx_return None
      | Some c \<Rightarrow>
          tx_bind (auth_waits env 5) (\<lambda>_.
          tx_bind (tx_read (\<lambda>db. only_first \<and> user_has_any_confirmed_mfa_method uid db)) (\<lambda>late.
          if late then tx_return None
          else tx_bind (tx_read (\<lambda>db. List.find (\<lambda>r. mf_credential_id r = Some (nc_id c)) (az_methods db))) (\<lambda>dup.
            if dup \<noteq> None then tx_return None
            else tx_bind (tx_read (\<lambda>db. \<not> user_has_any_confirmed_mfa_method uid db)) (\<lambda>first.
              tx_bind (if first then ensure_fresh_enrollment_backup_codes env uid else tx_return []) (\<lambda>codes.
              tx_bind (insert_method ((blank_method (ax_fresh_id env 9) uid Factor_webauthn (ax_now env 0))
                \<lparr>mf_label := label, mf_confirmed_at := Some (ax_now env 0), mf_last_used_at := Some (ax_now env 0),
                 mf_credential_id := Some (nc_id c), mf_public_key := Some (nc_public_key c), mf_sign_count := Some (nc_counter c),
                 mf_attachment := Some attachment,
                 mf_backup_codes_acknowledged_at := (if first then None else Some (ax_now env 0))\<rparr>)) (\<lambda>r.
              tx_return (Some (mf_id r, codes)))))))))"

definition list_webauthn_credentials :: "string \<Rightarrow> auth_db \<Rightarrow> mfa_method list" where
  "list_webauthn_credentials uid db = sort_key mf_created_at
     (filter (\<lambda>r. confirmed uid r \<and> mf_type r = Factor_webauthn) (az_methods db))"

definition remove_webauthn_credential :: "string \<Rightarrow> string \<Rightarrow> bool auth_tx" where
  "remove_webauthn_credential uid rid =
     tx_bind (delete_methods (\<lambda>r. mf_id r = rid \<and> mf_user_id r = uid \<and> mf_type r = Factor_webauthn)) (\<lambda>n. tx_return (n > 0))"

text \<open>The compare-and-set on the counter the verification was computed against.\<close>

definition advance_counter :: "auth_env \<Rightarrow> bool \<Rightarrow> mfa_method option \<Rightarrow> credential_proof \<Rightarrow> mfa_method option auth_tx" where
  "advance_counter env need_verification found proof =
     (case found of
        None \<Rightarrow> tx_return None
      | Some row \<Rightarrow>
          if \<not> truthy (mf_credential_id row) \<or> mf_public_key row = None \<or> mf_sign_count row = None then tx_return None
          else case ax_assertion env need_verification row proof of
              None \<Rightarrow> tx_return None
            | Some counter \<Rightarrow>
                tx_bind (auth_waits env 4) (\<lambda>_.
                tx_bind (update_methods (\<lambda>r. mf_id r = mf_id row \<and> mf_sign_count r = mf_sign_count row)
                  (\<lambda>r. r\<lparr>mf_sign_count := Some counter, mf_last_used_at := Some (ax_now env 3)\<rparr>)) (\<lambda>n.
                tx_return (if n = 0 then None else Some row))))"

definition finish_webauthn_assertion :: "auth_env \<Rightarrow> string \<Rightarrow> credential_proof \<Rightarrow> string option auth_tx" where
  "finish_webauthn_assertion env uid proof =
     tx_bind (tx_read (\<lambda>db. List.find (\<lambda>r. confirmed uid r \<and> mf_type r = Factor_webauthn \<and>
       mf_credential_id r = Some (cp_credential_id proof)) (az_methods db))) (\<lambda>found.
     tx_bind (advance_counter env False found proof) (\<lambda>row. tx_return (map_option mf_id row)))"

definition finish_passkey_login :: "auth_env \<Rightarrow> credential_proof \<Rightarrow> (string \<times> string) option auth_tx" where
  "finish_passkey_login env proof =
     tx_bind (tx_read (\<lambda>db. List.find (\<lambda>r. mf_type r = Factor_webauthn \<and> mf_confirmed_at r \<noteq> None \<and>
       mf_credential_id r = Some (cp_credential_id proof)) (az_methods db))) (\<lambda>found.
     tx_bind (advance_counter env True found proof) (\<lambda>row. tx_return (map_option (\<lambda>r. (mf_user_id r, mf_id r)) row)))"

section \<open>A code\<close>

datatype step_up_result = Step_up_ok mfa_way | Step_up_no_match bool | Step_up_conflict

definition find_recovery_row :: "auth_env \<Rightarrow> string \<Rightarrow> string \<Rightarrow> auth_db \<Rightarrow> (string \<times> mfa_way) option" where
  "find_recovery_row env uid code db =
     (case find_backup_recovery_row_id env uid code db of
        Some rid \<Rightarrow> Some (rid, Way_backup)
      | None \<Rightarrow> map_option (\<lambda>rid. (rid, Way_emergency)) (find_emergency_recovery_row_id env uid code db))"

definition verify_totp_or_recovery_code_detailed :: "auth_env \<Rightarrow> string \<Rightarrow> string \<Rightarrow> step_up_result auth_tx" where
  "verify_totp_or_recovery_code_detailed env uid code =
     (let trimmed = js_trim code
      in if trimmed = [] then tx_return (Step_up_no_match False)
         else tx_bind (verify_user_totp_code_detailed env uid trimmed) (\<lambda>(ok, replay).
           if ok then tx_return (Step_up_ok Way_totp)
           else tx_bind (tx_read (find_recovery_row env uid trimmed)) (\<lambda>found.
             case found of
               None \<Rightarrow> tx_return (Step_up_no_match replay)
             | Some (rid, way) \<Rightarrow>
                 tx_bind (auth_waits env 3) (\<lambda>_.
                 tx_bind (consume_recovery_row env rid) (\<lambda>consumed.
                 tx_return (if consumed then Step_up_ok way else Step_up_conflict))))))"

end
