(* ===== verification/Event_Day.thy ===== *)
theory Event_Day
  imports Auth_World
begin

text \<open>
  When an event is over and which sign-ins count as made on its day: packages/shared/src/eventEnd.ts over
  \<open>zonedWallClockToUtcIso\<close> (zonedWallClock.ts). A calendar day is the number of days since the epoch instead of
  its text; what \<open>Intl\<close> reads on the wall clock of a zone at an instant is the parameter \<open>ax_zoned\<close>
  (\<open>None\<close> for a zone it does not know, where it throws).
\<close>

definition day_ms :: int where "day_ms = 24 * 60 * 60 * 1000"

definition utc_day :: "int \<Rightarrow> int \<Rightarrow> int" where
  "utc_day date offset_days = date div day_ms + offset_days"

section \<open>Wall clocks\<close>

text \<open>
  The correction loop: at most \<open>n\<close> further passes while the wall clock at the candidate does not read
  as asked.
\<close>

fun correct_candidate :: "(int \<Rightarrow> int) \<Rightarrow> int \<Rightarrow> nat \<Rightarrow> int \<Rightarrow> int" where
  "correct_candidate read_at target 0 candidate = candidate"
| "correct_candidate read_at target (Suc n) candidate =
     (if read_at candidate = target then candidate
      else correct_candidate read_at target n (candidate + (target - read_at candidate)))"

definition settle_candidate :: "(int \<Rightarrow> int) \<Rightarrow> int \<Rightarrow> int" where
  "settle_candidate read_at target =
     (let candidate = correct_candidate read_at target 3 target
      in if read_at candidate = target then candidate
         else let other = candidate + (target - read_at candidate);
                  options = (if read_at other < read_at candidate then [other, candidate] else [candidate, other])
              in (case List.find (\<lambda>c. read_at c \<ge> target) options of Some c \<Rightarrow> c | None \<Rightarrow> last options))"

definition zoned_wall_clock_to_utc :: "auth_env \<Rightarrow> int \<Rightarrow> int \<Rightarrow> string \<Rightarrow> int option" where
  "zoned_wall_clock_to_utc env day time_ms zone =
     (let target = day * day_ms + time_ms
      in if ax_zoned env target zone = None then None
         else Some (settle_candidate (\<lambda>t. the (ax_zoned env t zone)) target))"

section \<open>The end of an event\<close>

text \<open>The pattern \<open>HH_MM\<close> and the order of texts it accepts.\<close>

definition clock_digit :: "nat \<Rightarrow> nat \<Rightarrow> char \<Rightarrow> bool" where
  "clock_digit a b c \<longleftrightarrow> (let n = of_char c :: nat in 48 + a \<le> n \<and> n \<le> 48 + b)"

definition hh_mm :: "string \<Rightarrow> bool" where
  "hh_mm s = (case s of
     [a, b, c, d, e] \<Rightarrow> (clock_digit 0 1 a \<and> clock_digit 0 9 b \<or> a = CHR ''2'' \<and> clock_digit 0 3 b) \<and>
       c = CHR '':'' \<and> clock_digit 0 5 d \<and> clock_digit 0 9 e
   | _ \<Rightarrow> False)"

definition clock_ms :: "string \<Rightarrow> int" where
  "clock_ms s = (let d = (\<lambda>i. of_char (s ! i) - 48 :: int) in ((d 0 * 10 + d 1) * 60 + d 3 * 10 + d 4) * 60000)"

definition usable_time :: "string option \<Rightarrow> string option" where
  "usable_time t = (case t of None \<Rightarrow> None | Some s \<Rightarrow> if hh_mm s then Some s else None)"

definition event_ends_at_local :: "event_base \<Rightarrow> int \<times> int" where
  "event_ends_at_local event =
     (let finish = usable_time (ae_hours_end event); start = usable_time (ae_hours_start event);
          overnight = (case (finish, start) of (Some f, Some s) \<Rightarrow> clock_ms f < clock_ms s | _ \<Rightarrow> False)
      in (utc_day (ae_date event) (if finish = None \<or> overnight then 1 else 0),
          case finish of None \<Rightarrow> 0 | Some f \<Rightarrow> clock_ms f))"

text \<open>An unknown zone falls back to UTC here, where it only closes a public page.\<close>

definition event_ends_at_utc :: "auth_env \<Rightarrow> event_base \<Rightarrow> int" where
  "event_ends_at_utc env event =
     (let (day, time) = event_ends_at_local event
      in case zoned_wall_clock_to_utc env day time (ae_timezone event) of
           Some t \<Rightarrow> t
         | None \<Rightarrow> the (zoned_wall_clock_to_utc env day time ''UTC''))"

definition is_wallet_add_closed :: "auth_env \<Rightarrow> event_base \<Rightarrow> int \<Rightarrow> bool" where
  "is_wallet_add_closed env event now \<longleftrightarrow> ae_archived_at event \<noteq> None \<or> now \<ge> event_ends_at_utc env event"

section \<open>The day of an event\<close>

definition event_day_grace_local_ms :: int where "event_day_grace_local_ms = 6 * 60 * 60 * 1000"

record day_window =
  dw_start :: int
  dw_end :: int
  dw_session_end :: int

definition event_day_window :: "auth_env \<Rightarrow> event_base \<Rightarrow> day_window option" where
  "event_day_window env event =
     (let day = utc_day (ae_date event) 0; next_day = utc_day (ae_date event) 1; zone = ae_timezone event
      in case (zoned_wall_clock_to_utc env day 0 zone, zoned_wall_clock_to_utc env next_day 0 zone,
               zoned_wall_clock_to_utc env next_day event_day_grace_local_ms zone) of
           (Some start, Some finish, Some grace) \<Rightarrow>
             let over = event_ends_at_utc env event
             in Some \<lparr>dw_start = start, dw_end = max finish over, dw_session_end = max over grace\<rparr>
         | _ \<Rightarrow> None)"

text \<open>
  In a zone with a fixed offset the loop settles after one correction: the wall clock at the instant it
  returns reads exactly as asked.
\<close>

lemma correct_fixed:
  assumes "\<And>t. read_at t = t + offset"
  shows "correct_candidate read_at target 3 target = target - offset"
  by (simp add: assms numeral_3_eq_3)

lemma settle_fixed:
  assumes "\<And>t. read_at t = t + offset"
  shows "settle_candidate read_at target = target - offset"
  by (simp add: settle_candidate_def correct_fixed [of read_at offset target] assms)

lemma settle_reads_back:
  "read_at (correct_candidate read_at target 3 target) = target \<Longrightarrow> read_at (settle_candidate read_at target) = target"
  by (simp add: settle_candidate_def Let_def)

end
