(* ===== verification/Auth_Session.thy ===== *)
theory Auth_Session
  imports Auth_Mfa Event_Day
begin

text \<open>
  Sessions: packages/auth/src/session.ts, session-ttl.ts, revocation.ts and
  emergency-purge.ts. Others may commit at point 10 before a session is
  inserted, 11 between the lookup of a token and what it writes, 12 between the decision on a promotion and its
  guarded update, 13 before the policy of a full session is checked, and 14 before the sessions of operators are revoked.
\<close>

section \<open>Lifetimes\<close>

definition device_label_max_len :: nat where "device_label_max_len = 120"

definition elevated :: "timed_role \<Rightarrow> bool" where
  "elevated r \<longleftrightarrow> ra_role r = ''superadmin'' \<or> ra_role r = ''admin''"

definition has_elevated_role :: "string \<Rightarrow> auth_db \<Rightarrow> bool" where
  "has_elevated_role uid db \<longleftrightarrow> (\<exists>r \<in> set (roles_of_user uid db). elevated r)"

definition resolve_full_ttl_ms :: "auth_env \<Rightarrow> string \<Rightarrow> auth_db \<Rightarrow> int" where
  "resolve_full_ttl_ms env uid db =
     (if has_elevated_role uid db then get_session_ttl_admin_ms env db else get_session_ttl_operator_ms env db)"

text \<open>\<open>resolveSessionTtlMs\<close> (session-ttl.ts) is the same rule in a file of its own.\<close>

definition resolve_session_ttl_ms :: "auth_env \<Rightarrow> string \<Rightarrow> auth_db \<Rightarrow> int" where
  "resolve_session_ttl_ms env uid db =
     (let assignments = roles_of_user uid db; has_elevated = list_ex elevated assignments
      in if has_elevated then get_session_ttl_admin_ms env db else get_session_ttl_operator_ms env db)"

definition resolve_idle_timeout_ms :: "auth_env \<Rightarrow> string \<Rightarrow> bool \<Rightarrow> auth_db \<Rightarrow> int option" where
  "resolve_idle_timeout_ms env uid event_day_session db =
     (let is_elevated = has_elevated_role uid db
      in if event_day_session \<and> \<not> is_elevated \<and> get_operator_event_day_sessions_enabled env db then None
         else Some (if is_elevated then get_session_idle_timeout_admin_ms env db
                    else get_session_idle_timeout_operator_ms env db))"

definition is_session_idle_expired :: "auth_env \<Rightarrow> login_session \<Rightarrow> int \<Rightarrow> auth_db \<Rightarrow> bool" where
  "is_session_idle_expired env s now db \<longleftrightarrow> ls_stage s = Stage_full \<and>
     (case resolve_idle_timeout_ms env (ls_user_id s) (ls_remember_me s) db of
        None \<Rightarrow> False | Some idle \<Rightarrow> now - ls_last_seen_at s \<ge> idle)"

definition event_day_prefilter_ms :: int where "event_day_prefilter_ms = 72 * 60 * 60 * 1000"

definition assigned_event_ids :: "string \<Rightarrow> auth_db \<Rightarrow> string list" where
  "assigned_event_ids uid db = List.map_filter ra_scope_id
     (filter (\<lambda>r. ra_role r = ''operator'' \<and> ra_scope_type r = ''event'' \<and> ra_scope_id r \<noteq> None) (roles_of_user uid db))"

definition near_events :: "string list \<Rightarrow> int \<Rightarrow> auth_db \<Rightarrow> event_base list" where
  "near_events ids now db = filter (\<lambda>e. ae_id e \<in> set ids \<and> ae_archived_at e = None \<and>
     ae_date e > now - event_day_prefilter_ms \<and> ae_date e < now + event_day_prefilter_ms) (az_events db)"

definition day_session_end :: "auth_env \<Rightarrow> int \<Rightarrow> event_base \<Rightarrow> int option" where
  "day_session_end env now event =
     (case event_day_window env event of None \<Rightarrow> None
      | Some w \<Rightarrow> if now < dw_start w \<or> now \<ge> dw_end w then None else Some (dw_session_end w))"

definition later_end :: "int option \<Rightarrow> int option \<Rightarrow> int option" where
  "later_end acc e = (case e of None \<Rightarrow> acc
     | Some t \<Rightarrow> (case acc of None \<Rightarrow> Some t | Some a \<Rightarrow> if t > a then Some t else Some a))"

definition resolve_event_day_session_end :: "auth_env \<Rightarrow> string \<Rightarrow> int \<Rightarrow> auth_db \<Rightarrow> int option" where
  "resolve_event_day_session_end env uid now db =
     (if \<not> get_operator_event_day_sessions_enabled env db \<or> has_elevated_role uid db then None
      else let ids = assigned_event_ids uid db
           in if ids = [] then None
              else foldl (\<lambda>acc e. later_end acc (day_session_end env now e)) None (near_events ids now db))"

definition persistent_cookie_max_age_seconds :: "login_session \<Rightarrow> int \<Rightarrow> int option" where
  "persistent_cookie_max_age_seconds s now =
     (if \<not> ls_remember_me s \<or> ls_stage s \<noteq> Stage_full then None
      else Some (max 0 ((ls_expires_at s - now) div 1000)))"

section \<open>Creating a session\<close>

definition resolve_post_mfa_stage :: "string \<Rightarrow> auth_db \<Rightarrow> session_stage" where
  "resolve_post_mfa_stage uid db =
     (if user_has_unacknowledged_backup_codes uid db then Stage_backup_codes_required
      else case user_by_id uid db of
             None \<Rightarrow> Stage_full
           | Some u \<Rightarrow> if su_must_change_password u then Stage_change_password_required else Stage_full)"

definition resolve_initial_session_stage :: "auth_env \<Rightarrow> string \<Rightarrow> session_stage option \<Rightarrow> auth_db \<Rightarrow> session_stage" where
  "resolve_initial_session_stage env uid explicit db =
     (case explicit of
        Some s \<Rightarrow> s
      | None \<Rightarrow> if \<not> user_requires_mfa env uid db then resolve_post_mfa_stage uid db
                else if user_has_any_confirmed_mfa_method uid db then Stage_mfa_pending
                else Stage_enrollment_required)"

record session_input =
  si_user_id :: string
  si_stage :: "session_stage option"
  si_auth_method :: "auth_method option"
  si_ip :: "string option"
  si_user_agent :: "string option"
  si_device_label :: "string option"
  si_timezone :: "string option"
  si_oidc_provider_id :: "string option"

text \<open>The end of the event day, if the session is of one, and the time it may live.\<close>

definition full_lifetime :: "auth_env \<Rightarrow> string \<Rightarrow> int \<Rightarrow> auth_db \<Rightarrow> int option \<times> int" where
  "full_lifetime env uid now db =
     (let day_end = resolve_event_day_session_end env uid now db
      in (day_end, case day_end of Some t \<Rightarrow> t - now | None \<Rightarrow> resolve_full_ttl_ms env uid db))"

definition new_session :: "auth_env \<Rightarrow> session_input \<Rightarrow> session_stage \<Rightarrow> int option \<times> int \<Rightarrow> login_session" where
  "new_session env input stage lifetime =
     (let now = ax_now env 10; way = (case si_auth_method input of None \<Rightarrow> Auth_local | Some m \<Rightarrow> m)
      in \<lparr>ls_id = ax_fresh_id env 0, ls_user_id = si_user_id input, ls_token_hash = ax_hash_token env (ax_token env 0),
          ls_stage = stage, ls_auth_method = way,
          ls_oidc_provider_id = (if way = Auth_oidc then si_oidc_provider_id input else None),
          ls_device_label = (if truthy (si_device_label input)
            then Some (take device_label_max_len (the (si_device_label input))) else None),
          ls_ip = si_ip input, ls_user_agent = si_user_agent input, ls_timezone = si_timezone input, ls_created_at = now,
          ls_mfa_verified_at = None, ls_last_seen_at = now, ls_remember_me = (fst lifetime \<noteq> None),
          ls_expires_at = now + snd lifetime, ls_revoked_at = None\<rparr>)"

definition create_session :: "auth_env \<Rightarrow> session_input \<Rightarrow> (login_session \<times> string) auth_tx" where
  "create_session env input =
     tx_bind (tx_read (\<lambda>db. if si_stage input = Some Stage_full \<and> si_auth_method input = Some Auth_oidc then Stage_full
         else resolve_initial_session_stage env (si_user_id input) (si_stage input) db)) (\<lambda>stage.
     tx_bind (tx_read (\<lambda>db. if stage = Stage_full then full_lifetime env (si_user_id input) (ax_now env 10) db
         else (None, mfa_pending_session_ttl_ms))) (\<lambda>lifetime.
     tx_bind (auth_waits env 10) (\<lambda>_.
     tx_bind (insert_session (new_session env input stage lifetime)) (\<lambda>s.
     tx_return (s, ax_token env 0)))))"

section \<open>Using a session\<close>

definition live_session :: "auth_env \<Rightarrow> string \<Rightarrow> auth_db \<Rightarrow> login_session option" where
  "live_session env raw db =
     (case List.find (\<lambda>s. ls_token_hash s = ax_hash_token env raw) (az_sessions db) of
        None \<Rightarrow> None
      | Some s \<Rightarrow>
          if ls_revoked_at s \<noteq> None \<or> ls_expires_at s \<le> ax_now env 11 then None
          else case user_by_id (ls_user_id s) db of
                 None \<Rightarrow> None
               | Some u \<Rightarrow> if su_is_active u then Some s else None)"

definition touch_session :: "auth_env \<Rightarrow> login_session \<Rightarrow> login_session option auth_tx" where
  "touch_session env s =
     (let now = ax_now env 11
      in if now - ls_last_seen_at s \<ge> session_last_seen_throttle_ms
         then tx_bind (update_sessions (\<lambda>t. ls_id t = ls_id s) (\<lambda>t. t\<lparr>ls_last_seen_at := now\<rparr>)) (\<lambda>n.
           if n = 0 then tx_throw Auth_no_record else tx_return (Some s))
         else tx_return (Some s))"

definition lookup_session_by_token :: "auth_env \<Rightarrow> string \<Rightarrow> login_session option auth_tx" where
  "lookup_session_by_token env raw =
     tx_bind (tx_read (live_session env raw)) (\<lambda>found.
     case found of None \<Rightarrow> tx_return None
     | Some s \<Rightarrow>
         tx_bind (tx_read (is_session_idle_expired env s (ax_now env 11))) (\<lambda>idle.
         tx_bind (auth_waits env 11) (\<lambda>_.
         if idle
         then tx_bind (update_sessions (\<lambda>t. ls_id t = ls_id s \<and> ls_revoked_at t = None)
                (\<lambda>t. t\<lparr>ls_revoked_at := Some (ax_now env 11)\<rparr>)) (\<lambda>_. tx_return None)
         else touch_session env s)))"

definition validate_partial_session :: "auth_env \<Rightarrow> string \<Rightarrow> login_session option auth_tx" where
  "validate_partial_session env raw = lookup_session_by_token env raw"

definition first_required_role_at :: "auth_env \<Rightarrow> string \<Rightarrow> auth_db \<Rightarrow> int option" where
  "first_required_role_at env uid db =
     (let rows = filter (\<lambda>r. ra_role r \<in> set (get_mfa_required_roles env db)) (roles_of_user uid db)
      in case sort_key tr_created_at rows of [] \<Rightarrow> None | r # _ \<Rightarrow> Some (tr_created_at r))"

definition assert_full_session_mfa_policy :: "auth_env \<Rightarrow> login_session \<Rightarrow> auth_db \<Rightarrow> bool" where
  "assert_full_session_mfa_policy env s db =
     (let uid = ls_user_id s
      in if user_has_unacknowledged_backup_codes uid db then False
         else if ls_auth_method s = Auth_oidc then True
         else if \<not> user_requires_mfa env uid db then True
         else if \<not> user_has_any_confirmed_mfa_method uid db then False
         else case first_required_role_at env uid db of None \<Rightarrow> True | Some t \<Rightarrow> \<not> ls_created_at s < t)"

definition is_full_session_mfa_policy_satisfied :: "auth_env \<Rightarrow> login_session \<Rightarrow> auth_db \<Rightarrow> bool" where
  "is_full_session_mfa_policy_satisfied env s db = assert_full_session_mfa_policy env s db"

definition validate_session :: "auth_env \<Rightarrow> string \<Rightarrow> login_session option auth_tx" where
  "validate_session env raw =
     tx_bind (lookup_session_by_token env raw) (\<lambda>found.
     case found of None \<Rightarrow> tx_return None
     | Some s \<Rightarrow>
         if ls_stage s \<noteq> Stage_full then tx_return None
         else tx_bind (auth_waits env 13) (\<lambda>_.
           tx_bind (tx_read (assert_full_session_mfa_policy env s)) (\<lambda>ok.
           tx_return (if ok then Some s else None))))"

section \<open>Promoting a session\<close>

text \<open>A guarded update that also rotates the token, whose hash must stay unique.\<close>

definition rotate_session :: "string \<Rightarrow> (login_session \<Rightarrow> bool) \<Rightarrow> (login_session \<Rightarrow> login_session) \<Rightarrow> nat auth_tx" where
  "rotate_session hash p f =
     tx_bind (tx_read (\<lambda>db. (\<exists>s \<in> set (az_sessions db). p s) \<and> (\<exists>s \<in> set (az_sessions db). ls_token_hash s = hash))) (\<lambda>clash.
     if clash then tx_throw Auth_unique_key
     else update_sessions p (\<lambda>s. (f s)\<lparr>ls_token_hash := hash\<rparr>))"

definition owned_session :: "string \<Rightarrow> string \<Rightarrow> int \<Rightarrow> login_session \<Rightarrow> bool" where
  "owned_session sid uid now s \<longleftrightarrow>
     ls_id s = sid \<and> ls_user_id s = uid \<and> ls_revoked_at s = None \<and> ls_expires_at s > now"

definition promote_session_to_backup_codes_step :: "auth_env \<Rightarrow> string \<Rightarrow> string \<Rightarrow> string option auth_tx" where
  "promote_session_to_backup_codes_step env sid uid =
     (let now = ax_now env 12
      in tx_bind (rotate_session (ax_hash_token env (ax_token env 0))
           (\<lambda>s. owned_session sid uid now s \<and> ls_stage s = Stage_enrollment_required)
           (\<lambda>s. s\<lparr>ls_stage := Stage_backup_codes_required, ls_expires_at := now + backup_codes_step_ttl_ms,
                  ls_last_seen_at := now\<rparr>)) (\<lambda>n.
         tx_return (if n = 1 then Some (ax_token env 0) else None)))"

definition source_stages :: "session_stage \<Rightarrow> session_stage list" where
  "source_stages target = filter (\<lambda>s. s \<noteq> target)
     [Stage_mfa_pending, Stage_enrollment_required, Stage_backup_codes_required, Stage_change_password_required]"

definition stage_lifetime :: "auth_env \<Rightarrow> string \<Rightarrow> session_stage \<Rightarrow> int \<Rightarrow> auth_db \<Rightarrow> int option \<times> int" where
  "stage_lifetime env uid stage now db =
     (if stage = Stage_full then full_lifetime env uid now db
      else (None, if stage = Stage_backup_codes_required then backup_codes_step_ttl_ms else mfa_pending_session_ttl_ms))"

record promotion =
  pr_stage :: session_stage
  pr_raw_token :: string
  pr_cookie_max_age_seconds :: "int option"

definition promote_session_to_full :: "auth_env \<Rightarrow> string \<Rightarrow> string \<Rightarrow> bool \<Rightarrow> promotion option auth_tx" where
  "promote_session_to_full env sid uid mfa_verified =
     (let now = ax_now env 12
      in tx_bind (tx_read (resolve_post_mfa_stage uid)) (\<lambda>target.
         tx_bind (tx_read (stage_lifetime env uid target now)) (\<lambda>lifetime.
         tx_bind (auth_waits env 12) (\<lambda>_.
         tx_bind (rotate_session (ax_hash_token env (ax_token env 0))
           (\<lambda>s. owned_session sid uid now s \<and> ls_stage s \<in> set (source_stages target))
           (\<lambda>s. let s' = s\<lparr>ls_stage := target, ls_expires_at := now + snd lifetime,
                  ls_remember_me := (fst lifetime \<noteq> None), ls_last_seen_at := now\<rparr>
                in if mfa_verified then s'\<lparr>ls_mfa_verified_at := Some now\<rparr> else s')) (\<lambda>n.
         tx_return (if n \<noteq> 1 then None
           else Some \<lparr>pr_stage = target, pr_raw_token = ax_token env 0,
             pr_cookie_max_age_seconds = (if fst lifetime \<noteq> None then Some (snd lifetime div 1000) else None)\<rparr>))))))"

definition is_mfa_recently_verified :: "string \<Rightarrow> int \<Rightarrow> auth_db \<Rightarrow> bool" where
  "is_mfa_recently_verified sid now db \<longleftrightarrow> List.find (mfa_recent sid now) (az_sessions db) \<noteq> None"

section \<open>Labels and revocations\<close>

definition update_session_device_label :: "auth_env \<Rightarrow> string \<Rightarrow> string \<Rightarrow> string option \<Rightarrow> bool auth_tx" where
  "update_session_device_label env sid uid label =
     (let trimmed = map_option js_trim label;
          normalized = (if truthy trimmed then Some (take device_label_max_len (the trimmed)) else None)
      in tx_bind (update_sessions (\<lambda>s. owned_session sid uid (ax_now env 0) s \<and> ls_stage s = Stage_full)
           (\<lambda>s. s\<lparr>ls_device_label := normalized\<rparr>)) (\<lambda>n. tx_return (n = 1)))"

definition revoke_session :: "auth_env \<Rightarrow> string \<Rightarrow> bool auth_tx" where
  "revoke_session env sid = tx_bind (revoke_sessions env (\<lambda>s. ls_id s = sid)) (\<lambda>n. tx_return (n > 0))"

definition plain_operators_of :: "string \<Rightarrow> auth_db \<Rightarrow> string list" where
  "plain_operators_of eid db =
     (let operators = unique_in_order (map ra_user_id (filter (\<lambda>r. ra_role r = ''operator'' \<and> ra_scope_type r = ''event'' \<and>
            ra_scope_id r = Some eid) (az_roles db)));
          raised = map ra_user_id (filter (\<lambda>r. ra_user_id r \<in> set operators \<and> elevated r) (az_roles db))
      in filter (\<lambda>u. u \<notin> set raised) operators)"

definition revoke_all_operator_sessions_for_event :: "auth_env \<Rightarrow> string \<Rightarrow> nat auth_tx" where
  "revoke_all_operator_sessions_for_event env eid =
     tx_bind (tx_read (plain_operators_of eid)) (\<lambda>uids.
     if uids = [] then tx_return 0
     else tx_bind (auth_waits env 14) (\<lambda>_.
       revoke_sessions env (\<lambda>s. ls_user_id s \<in> set uids \<and> ls_expires_at s > ax_now env 0)))"

definition list_sessions :: "string option \<Rightarrow> bool \<Rightarrow> auth_db \<Rightarrow> login_session list" where
  "list_sessions uid include_revoked db = sort_key (\<lambda>s. - ls_last_seen_at s)
     (filter (\<lambda>s. (truthy uid \<longrightarrow> uid = Some (ls_user_id s)) \<and> (include_revoked \<or> ls_revoked_at s = None)) (az_sessions db))"

definition revoke_other_sessions :: "auth_env \<Rightarrow> string \<Rightarrow> string \<Rightarrow> nat auth_tx" where
  "revoke_other_sessions env uid keep_session_id =
     revoke_sessions env (\<lambda>s. ls_user_id s = uid \<and> ls_id s \<noteq> keep_session_id)"

definition revoke_user_auth_state :: "auth_env \<Rightarrow> string \<Rightarrow> (nat \<times> nat) auth_tx" where
  "revoke_user_auth_state env uid =
     tx_bind (revoke_sessions env (\<lambda>s. ls_user_id s = uid)) (\<lambda>sessions.
     tx_bind (revoke_all_trusted_devices_for_user env uid) (\<lambda>devices.
     tx_return (sessions, devices)))"

text \<open>The break-glass purge of everything that is live; a dry run only counts.\<close>

definition purge_all_sessions :: "auth_env \<Rightarrow> bool \<Rightarrow> (nat \<times> nat) auth_tx" where
  "purge_all_sessions env dry_run =
     (if dry_run then tx_read (\<lambda>db. (count_where (\<lambda>s. ls_revoked_at s = None) (az_sessions db),
          count_where (\<lambda>d. td_revoked_at d = None) (az_devices db)))
      else tx_bind (revoke_sessions env (\<lambda>_. True)) (\<lambda>sessions.
        tx_bind (update_devices (\<lambda>d. td_revoked_at d = None) (\<lambda>d. d\<lparr>td_revoked_at := Some (ax_now env 0)\<rparr>)) (\<lambda>devices.
        tx_return (sessions, devices))))"

end
