(* ===== verification/Auth_Login.thy ===== *)
theory Auth_Login
  imports Auth_Session
begin

text \<open>
  Signing in: packages/auth/src/login.ts with \<open>verifyPasswordOrDummy\<close> (password.ts), \<open>findUserByEmail\<close> (user.ts), the streaks of
  failures (privileged-login-alert.ts) and the entries of the security log they make (audit.ts), and what the routes
  of apps/web/src/auth do around a promotion (routes.ts, change-password-routes.ts). Alerts that are only sent
  (new country, reused code) and the lines on standard output leave no state and are not here. Others may
  commit at points 20 to 29, between the statements of a sign-in, and inside the operations it calls.
\<close>

section \<open>The account\<close>

definition normalize_email :: "string \<Rightarrow> string" where
  "normalize_email email = js_lower (js_trim email)"

definition find_user_by_email :: "string \<Rightarrow> auth_db \<Rightarrow> staff_user option" where
  "find_user_by_email email db =
     (let normalized = normalize_email email
      in if CHR 0x00 \<in> set normalized then None
         else List.find (\<lambda>u. su_email u = normalized) (az_users db))"

definition verify_password :: "auth_env \<Rightarrow> string \<Rightarrow> string \<Rightarrow> bool" where
  "verify_password env plaintext hash = ax_verify_hash env hash plaintext"

text \<open>Without a hash a dummy is verified for the time it takes, and the answer is no.\<close>

definition verify_password_or_dummy :: "auth_env \<Rightarrow> string \<Rightarrow> string option \<Rightarrow> bool" where
  "verify_password_or_dummy env plaintext hash =
     (if truthy hash then verify_password env plaintext (the hash) else False)"

section \<open>Streaks of failures\<close>

definition timing_pad_user_id :: string where
  "timing_pad_user_id = ''00000000-0000-0000-0000-000000000000''"

definition run_timing_pad_streak_write :: "unit auth_tx" where
  "run_timing_pad_streak_write =
     tx_bind (update_users (\<lambda>u. su_id u = timing_pad_user_id)
       (\<lambda>u. u\<lparr>su_failed_login_streak := su_failed_login_streak u + 1\<rparr>)) (\<lambda>_. tx_return ())"

definition next_streak :: "nat \<Rightarrow> nat" where
  "next_streak n = (n + 1) mod privileged_login_failure_alert_threshold"

definition streak_metadata :: "(string \<times> json) list" where
  "streak_metadata = [(''streak'', JNum (int privileged_login_failure_alert_threshold))]"

definition bump_privileged_login_streak_atomic :: "auth_env \<Rightarrow> staff_user \<Rightarrow> string option \<Rightarrow> unit auth_op" where
  "bump_privileged_login_streak_atomic env user ip =
     op_bind (run_tx (update_users (\<lambda>u. su_id u = su_id user)
       (\<lambda>u. u\<lparr>su_failed_login_streak := next_streak (su_failed_login_streak u)\<rparr>))) (\<lambda>_.
     op_bind (op_read (\<lambda>db. case user_by_id (su_id user) db of None \<Rightarrow> False | Some u \<Rightarrow> su_failed_login_streak u = 0)) (\<lambda>alert.
     if alert then write_security_audit_log env ''auth.login.repeated_failures'' (Some (su_id user)) ip None streak_metadata
     else op_return ()))"

definition record_failed_login_failure_side_effects ::
  "auth_env \<Rightarrow> staff_user option \<Rightarrow> string option \<Rightarrow> unit auth_op" where
  "record_failed_login_failure_side_effects env user ip =
     op_bind (op_read (has_elevated_role (case user of None \<Rightarrow> timing_pad_user_id | Some u \<Rightarrow> su_id u))) (\<lambda>is_elevated.
     op_bind (auth_others env 25) (\<lambda>_.
     case user of
       None \<Rightarrow> run_tx run_timing_pad_streak_write
     | Some u \<Rightarrow> if \<not> is_elevated then run_tx run_timing_pad_streak_write
                 else bump_privileged_login_streak_atomic env u ip))"

definition reset_failed_login_streak :: "string \<Rightarrow> unit auth_tx" where
  "reset_failed_login_streak uid =
     tx_bind (update_users (\<lambda>u. su_id u = uid \<and> su_failed_login_streak u > 0) (\<lambda>u. u\<lparr>su_failed_login_streak := 0\<rparr>)) (\<lambda>_.
     tx_return ())"

definition bump_privileged_mfa_failure_streak_atomic :: "auth_env \<Rightarrow> string \<Rightarrow> string option \<Rightarrow> unit auth_op" where
  "bump_privileged_mfa_failure_streak_atomic env uid ip =
     op_bind (run_tx (update_users (\<lambda>u. su_id u = uid)
       (\<lambda>u. u\<lparr>su_failed_mfa_streak := next_streak (su_failed_mfa_streak u)\<rparr>))) (\<lambda>_.
     op_bind (op_read (\<lambda>db. case user_by_id uid db of None \<Rightarrow> False | Some u \<Rightarrow> su_failed_mfa_streak u = 0)) (\<lambda>alert.
     if alert then write_security_audit_log env ''auth.mfa.repeated_failures'' (Some uid) ip None streak_metadata
     else op_return ()))"

definition record_failed_mfa_failure_side_effects :: "auth_env \<Rightarrow> string \<Rightarrow> string option \<Rightarrow> unit auth_op" where
  "record_failed_mfa_failure_side_effects env uid ip =
     op_bind (op_read (\<lambda>db. has_elevated_role uid db \<and> user_by_id uid db \<noteq> None)) (\<lambda>counted.
     op_bind (auth_others env 25) (\<lambda>_.
     if counted then bump_privileged_mfa_failure_streak_atomic env uid ip else op_return ()))"

definition reset_failed_mfa_failure_streak :: "string \<Rightarrow> unit auth_tx" where
  "reset_failed_mfa_failure_streak uid =
     tx_bind (update_users (\<lambda>u. su_id u = uid \<and> su_failed_mfa_streak u > 0) (\<lambda>u. u\<lparr>su_failed_mfa_streak := 0\<rparr>)) (\<lambda>_.
     tx_return ())"

section \<open>The security log of a sign-in\<close>

record request_context =
  rc_ip :: "string option"
  rc_user_agent :: "string option"
  rc_timezone :: "string option"

definition log_login_success :: "auth_env \<Rightarrow> request_context \<Rightarrow> string \<Rightarrow> string \<Rightarrow> unit auth_op" where
  "log_login_success env ctx uid way = write_security_audit_log env ''auth.login.success'' (Some uid) (rc_ip ctx) (rc_timezone ctx)
     [(''userAgent'', optional_text (rc_user_agent ctx)), (''method'', JStr way)]"

definition log_login_failure :: "auth_env \<Rightarrow> request_context \<Rightarrow> string \<Rightarrow> string \<Rightarrow> unit auth_op" where
  "log_login_failure env ctx email reason = write_security_audit_log env ''auth.login.fail'' None (rc_ip ctx) (rc_timezone ctx)
     [(''email'', JStr email), (''reason'', JStr reason), (''userAgent'', optional_text (rc_user_agent ctx))]"

definition log_mfa_success :: "auth_env \<Rightarrow> request_context \<Rightarrow> string \<Rightarrow> string option \<Rightarrow> mfa_way \<Rightarrow> unit auth_op" where
  "log_mfa_success env ctx uid sid way = write_security_audit_log env ''auth.mfa.success'' (Some uid) (rc_ip ctx) (rc_timezone ctx)
     [(''sessionId'', optional_text sid), (''method'', JStr (way_name way)), (''userAgent'', optional_text (rc_user_agent ctx))]"

definition log_mfa_failure ::
  "auth_env \<Rightarrow> request_context \<Rightarrow> string \<Rightarrow> string option \<Rightarrow> string \<Rightarrow> mfa_way option \<Rightarrow> unit auth_op" where
  "log_mfa_failure env ctx uid sid reason way =
     write_security_audit_log env ''auth.mfa.fail'' (Some uid) (rc_ip ctx) (rc_timezone ctx)
       [(''sessionId'', optional_text sid), (''reason'', JStr reason), (''method'', optional_text (map_option way_name way)),
        (''userAgent'', optional_text (rc_user_agent ctx))]"

definition log_mfa_recovery_consumed :: "auth_env \<Rightarrow> request_context \<Rightarrow> string \<Rightarrow> string option \<Rightarrow> mfa_way \<Rightarrow> unit auth_op" where
  "log_mfa_recovery_consumed env ctx uid sid way =
     write_security_audit_log env ''auth.mfa.recovery_consumed'' (Some uid) (rc_ip ctx) (rc_timezone ctx)
       [(''method'', JStr (way_name way)), (''sessionId'', optional_text sid)]"

definition log_logout :: "auth_env \<Rightarrow> string \<Rightarrow> string \<Rightarrow> string option \<Rightarrow> unit auth_op" where
  "log_logout env uid sid ip = write_security_audit_log env ''auth.logout'' (Some uid) ip None [(''sessionId'', JStr sid)]"

definition log_trusted_device_event :: "auth_env \<Rightarrow> string \<Rightarrow> request_context \<Rightarrow> string \<Rightarrow> string option \<Rightarrow> unit auth_op" where
  "log_trusted_device_event env event ctx uid sid = write_security_audit_log env event (Some uid) (rc_ip ctx) (rc_timezone ctx)
     [(''sessionId'', optional_text sid), (''userAgent'', optional_text (rc_user_agent ctx))]"

section \<open>Signing in\<close>

record login_input =
  li_email :: string
  li_password :: string
  li_device_label :: "string option"
  li_trusted_device_token :: "string option"
  li_context :: request_context

record login_grant =
  lg_raw_token :: string
  lg_session_id :: string
  lg_user_id :: string
  lg_next :: login_next
  lg_cookie_max_age_seconds :: "int option"

datatype login_result = Login_ok login_grant | Login_invalid | Login_inactive

text \<open>The stage a verified password leads to; the flag tells that a trusted device was used.\<close>

definition password_stage ::
  "auth_env \<Rightarrow> string \<Rightarrow> string option \<Rightarrow> (session_stage \<times> login_next \<times> bool) auth_op" where
  "password_stage env uid device_token =
     op_bind (op_read (user_requires_mfa env uid)) (\<lambda>requires.
     if \<not> requires then op_return (Stage_full, Next_complete, False)
     else op_bind (auth_others env 21) (\<lambda>_.
       op_bind (op_read (user_has_any_confirmed_mfa_method uid)) (\<lambda>has.
       if \<not> has then op_return (Stage_enrollment_required, Next_enrollment_required, False)
       else op_bind (if truthy device_token then run_tx (validate_trusted_device env uid (the device_token)) else op_return False) (\<lambda>trusted.
         op_return (if trusted then (Stage_full, Next_complete, True) else (Stage_mfa_pending, Next_mfa_required, False))))))"

text \<open>The gates of every first factor: unacknowledged backup codes, then a forced change of the password.\<close>

definition owed_stage :: "staff_user \<Rightarrow> bool \<Rightarrow> session_stage \<Rightarrow> login_next \<Rightarrow> session_stage \<times> login_next" where
  "owed_stage user unacknowledged_codes stage next =
     (if stage \<noteq> Stage_full then (stage, next)
      else if unacknowledged_codes then (Stage_backup_codes_required, Next_backup_codes_required)
      else if su_must_change_password user then (Stage_change_password_required, Next_change_password)
      else (stage, next))"

definition finalize_login_session ::
  "auth_env \<Rightarrow> staff_user \<Rightarrow> session_stage \<Rightarrow> login_next \<Rightarrow> string option \<Rightarrow> request_context \<Rightarrow> string \<Rightarrow> login_result auth_op" where
  "finalize_login_session env user initial_stage initial_next label ctx way =
     op_bind (op_read (user_has_unacknowledged_backup_codes (su_id user))) (\<lambda>codes.
     let (stage, next) = owed_stage user codes initial_stage initial_next
     in op_bind (auth_others env 22) (\<lambda>_.
        op_bind (run_tx (create_session env \<lparr>si_user_id = su_id user, si_stage = Some stage, si_auth_method = None,
          si_ip = rc_ip ctx, si_user_agent = rc_user_agent ctx, si_device_label = label, si_timezone = rc_timezone ctx,
          si_oidc_provider_id = None\<rparr>)) (\<lambda>(s, raw).
        op_bind (auth_others env 23) (\<lambda>_.
        op_bind (log_login_success env ctx (su_id user) way) (\<lambda>_.
        op_bind (run_tx (reset_failed_login_streak (su_id user))) (\<lambda>_.
        op_return (Login_ok \<lparr>lg_raw_token = raw, lg_session_id = ls_id s, lg_user_id = su_id user, lg_next = next,
          lg_cookie_max_age_seconds = persistent_cookie_max_age_seconds s (ax_now env 23)\<rparr>)))))))"

definition refuse_login ::
  "auth_env \<Rightarrow> request_context \<Rightarrow> string \<Rightarrow> staff_user option \<Rightarrow> string \<Rightarrow> login_result \<Rightarrow> login_result auth_op" where
  "refuse_login env ctx email user reason answer =
     op_bind (log_login_failure env ctx email reason) (\<lambda>_.
     op_bind (auth_others env 24) (\<lambda>_.
     op_bind (record_failed_login_failure_side_effects env user (rc_ip ctx)) (\<lambda>_. op_return answer)))"

definition login :: "auth_env \<Rightarrow> login_input \<Rightarrow> login_result auth_op" where
  "login env input =
     (let email = normalize_email (li_email input); ctx = li_context input
      in op_bind (op_read (find_user_by_email email)) (\<lambda>found.
         op_bind (auth_others env 20) (\<lambda>_.
         case found of
           None \<Rightarrow> refuse_login env ctx email None ''invalid_credentials'' Login_invalid
         | Some user \<Rightarrow>
             if \<not> verify_password_or_dummy env (li_password input) (su_password_hash user)
             then refuse_login env ctx email (Some user) ''invalid_credentials'' Login_invalid
             else if \<not> su_is_active user then refuse_login env ctx email (Some user) ''inactive'' Login_inactive
             else op_bind (password_stage env (su_id user) (li_trusted_device_token input)) (\<lambda>(stage, next, trusted).
               op_bind (if trusted then log_trusted_device_event env ''auth.trusted_device.used'' ctx (su_id user) None
                 else op_return ()) (\<lambda>_.
               finalize_login_session env user stage next (li_device_label input) ctx ''manual'')))))"

definition login_with_passkey ::
  "auth_env \<Rightarrow> credential_proof \<Rightarrow> string option \<Rightarrow> request_context \<Rightarrow> login_result auth_op" where
  "login_with_passkey env proof label ctx =
     op_bind (run_tx (finish_passkey_login env proof)) (\<lambda>assertion.
     case assertion of
       None \<Rightarrow> op_bind (log_login_failure env ctx [] ''invalid_credentials'') (\<lambda>_. op_return Login_invalid)
     | Some (uid, rid) \<Rightarrow>
         op_bind (auth_others env 20) (\<lambda>_.
         op_bind (op_read (user_by_id uid)) (\<lambda>found.
         case found of
           None \<Rightarrow> op_return Login_invalid
         | Some user \<Rightarrow>
             if \<not> su_is_active user then refuse_login env ctx (su_email user) (Some user) ''inactive'' Login_inactive
             else finalize_login_session env user Stage_full Next_complete label ctx ''passkey'')))"

section \<open>The second step\<close>

record mfa_input =
  mi_user_id :: string
  mi_session_id :: string
  mi_remember_device :: bool
  mi_device_label :: "string option"
  mi_context :: request_context

record mfa_grant =
  mg_trusted_device_raw_token :: "string option"
  mg_stage :: session_stage
  mg_session_raw_token :: string
  mg_cookie_max_age_seconds :: "int option"

datatype mfa_tx_result = Mfa_refused string "mfa_way option" | Mfa_granted mfa_way mfa_grant

definition device_of_mfa :: "mfa_input \<Rightarrow> device_input" where
  "device_of_mfa input = \<lparr>di_user_id = mi_user_id input, di_ip = rc_ip (mi_context input),
     di_user_agent = rc_user_agent (mi_context input), di_label = mi_device_label input\<rparr>"

text \<open>After the promotion: remember the device if that is asked for and switched on.\<close>

definition grant_after_promotion :: "auth_env \<Rightarrow> mfa_input \<Rightarrow> mfa_way \<Rightarrow> promotion \<Rightarrow> mfa_tx_result auth_tx" where
  "grant_after_promotion env input way promoted =
     (let grant = \<lparr>mg_trusted_device_raw_token = None, mg_stage = pr_stage promoted,
            mg_session_raw_token = pr_raw_token promoted, mg_cookie_max_age_seconds = pr_cookie_max_age_seconds promoted\<rparr>
      in tx_bind (tx_read (get_trusted_device_days env)) (\<lambda>days.
         if mi_remember_device input \<and> days > 0
         then tx_bind (create_trusted_device env (device_of_mfa input)) (\<lambda>(d, raw).
           tx_return (Mfa_granted way (grant\<lparr>mg_trusted_device_raw_token := Some raw\<rparr>)))
         else tx_return (Mfa_granted way grant)))"

definition complete_mfa_in_transaction :: "auth_env \<Rightarrow> mfa_input \<Rightarrow> string \<Rightarrow> mfa_tx_result auth_tx" where
  "complete_mfa_in_transaction env input code =
     tx_bind (verify_totp_or_recovery_code_detailed env (mi_user_id input) code) (\<lambda>checked.
     case checked of
       Step_up_conflict \<Rightarrow> tx_return (Mfa_refused ''recovery_consume_conflict'' None)
     | Step_up_no_match replay \<Rightarrow> tx_return (Mfa_refused (if replay then ''totp_replay'' else ''invalid_code'') None)
     | Step_up_ok way \<Rightarrow>
         tx_bind (promote_session_to_full env (mi_session_id input) (mi_user_id input) True) (\<lambda>promoted.
         case promoted of
           None \<Rightarrow> tx_throw (Code_verified_not_promoted way)
         | Some p \<Rightarrow> grant_after_promotion env input way p))"

fun not_promoted :: "auth_error \<Rightarrow> mfa_tx_result option" where
  "not_promoted (Code_verified_not_promoted way) = Some (Mfa_refused ''session_not_promoted'' (Some way))"
| "not_promoted Assertion_verified_not_promoted = Some (Mfa_refused ''session_not_promoted'' (Some Way_webauthn))"
| "not_promoted _ = None"

definition log_mfa_granted :: "auth_env \<Rightarrow> mfa_input \<Rightarrow> mfa_way \<Rightarrow> mfa_grant \<Rightarrow> unit auth_op" where
  "log_mfa_granted env input way grant =
     (let uid = mi_user_id input; sid = Some (mi_session_id input); ctx = mi_context input
      in op_bind (log_mfa_success env ctx uid sid way) (\<lambda>_.
         op_bind (run_tx (reset_failed_mfa_failure_streak uid)) (\<lambda>_.
         if mg_trusted_device_raw_token grant \<noteq> None
         then log_trusted_device_event env ''auth.trusted_device.created'' ctx uid sid else op_return ())))"

definition emit_mfa_audit :: "auth_env \<Rightarrow> mfa_input \<Rightarrow> mfa_tx_result \<Rightarrow> unit auth_op" where
  "emit_mfa_audit env input result =
     (let uid = mi_user_id input; sid = Some (mi_session_id input); ctx = mi_context input
      in case result of
           Mfa_refused reason way \<Rightarrow>
             op_bind (log_mfa_failure env ctx uid sid reason (if reason = ''session_not_promoted'' then way else None)) (\<lambda>_.
             if reason = ''invalid_code'' then record_failed_mfa_failure_side_effects env uid (rc_ip ctx) else op_return ())
         | Mfa_granted way grant \<Rightarrow>
             op_bind (if way = Way_totp then op_return () else log_mfa_recovery_consumed env ctx uid sid way) (\<lambda>_.
             log_mfa_granted env input way grant))"

definition granted :: "mfa_tx_result \<Rightarrow> mfa_grant option" where
  "granted r = (case r of Mfa_refused _ _ \<Rightarrow> None | Mfa_granted _ g \<Rightarrow> Some g)"

definition complete_mfa :: "auth_env \<Rightarrow> mfa_input \<Rightarrow> string \<Rightarrow> mfa_grant option auth_op" where
  "complete_mfa env input code =
     op_bind (op_catch (run_tx (complete_mfa_in_transaction env input code)) not_promoted) (\<lambda>result.
     op_bind (auth_others env 26) (\<lambda>_.
     op_bind (emit_mfa_audit env input result) (\<lambda>_. op_return (granted result))))"

definition complete_mfa_with_webauthn_in_transaction :: "auth_env \<Rightarrow> mfa_input \<Rightarrow> mfa_tx_result auth_tx" where
  "complete_mfa_with_webauthn_in_transaction env input =
     tx_bind (promote_session_to_full env (mi_session_id input) (mi_user_id input) True) (\<lambda>promoted.
     case promoted of
       None \<Rightarrow> tx_throw Assertion_verified_not_promoted
     | Some p \<Rightarrow> grant_after_promotion env input Way_webauthn p)"

definition emit_mfa_webauthn_audit :: "auth_env \<Rightarrow> mfa_input \<Rightarrow> mfa_tx_result \<Rightarrow> unit auth_op" where
  "emit_mfa_webauthn_audit env input result =
     (case result of
        Mfa_refused reason way \<Rightarrow> log_mfa_failure env (mi_context input) (mi_user_id input) (Some (mi_session_id input)) reason way
      | Mfa_granted way grant \<Rightarrow> log_mfa_granted env input Way_webauthn grant)"

definition complete_mfa_with_webauthn :: "auth_env \<Rightarrow> mfa_input \<Rightarrow> credential_proof \<Rightarrow> mfa_grant option auth_op" where
  "complete_mfa_with_webauthn env input proof =
     op_bind (run_tx (finish_webauthn_assertion env (mi_user_id input) proof)) (\<lambda>verified.
     if verified = None
     then op_bind (emit_mfa_webauthn_audit env input (Mfa_refused ''invalid_webauthn'' None)) (\<lambda>_. op_return None)
     else op_bind (auth_others env 20) (\<lambda>_.
       op_bind (op_catch (run_tx (complete_mfa_with_webauthn_in_transaction env input)) not_promoted) (\<lambda>result.
       op_bind (auth_others env 26) (\<lambda>_.
       op_bind (emit_mfa_webauthn_audit env input result) (\<lambda>_. op_return (granted result))))))"

definition login_next_after_full_session :: "string \<Rightarrow> auth_db \<Rightarrow> login_next" where
  "login_next_after_full_session uid db =
     (case user_by_id uid db of None \<Rightarrow> Next_complete
      | Some u \<Rightarrow> if su_must_change_password u then Next_change_password else Next_complete)"

definition logout :: "auth_env \<Rightarrow> login_session option \<Rightarrow> string option \<Rightarrow> unit auth_op" where
  "logout env validated ip =
     (case validated of None \<Rightarrow> op_return ()
      | Some s \<Rightarrow> op_bind (run_tx (revoke_session env (ls_id s))) (\<lambda>revoked.
          if revoked then log_logout env (ls_user_id s) (ls_id s) ip else op_return ()))"

section \<open>Around a promotion\<close>

text \<open>
  The routes check the stage of the partial session first. Confirming an authenticator app or a credential at
  sign-in moves the session on to the backup codes; the flag tells that the codes to show are lost and
  made anew.
\<close>

definition totp_confirm :: "auth_env \<Rightarrow> login_session \<Rightarrow> string \<Rightarrow> bool \<Rightarrow> string option auth_op" where
  "totp_confirm env partial code codes_lost =
     (if ls_stage partial \<noteq> Stage_enrollment_required \<or> code = [] then op_return None
      else op_bind (run_tx (confirm_totp_enrollment env (ls_user_id partial) code True)) (\<lambda>ok.
        if \<not> ok then op_return None
        else op_bind (auth_others env 27) (\<lambda>_.
          op_bind (if codes_lost then run_tx (regenerate_backup_recovery_codes env (ls_user_id partial)) else op_return []) (\<lambda>_.
          op_bind (auth_others env 28) (\<lambda>_.
          run_tx (promote_session_to_backup_codes_step env (ls_id partial) (ls_user_id partial)))))))"

definition webauthn_enroll_finish :: "auth_env \<Rightarrow> login_session \<Rightarrow> credential_proof \<Rightarrow> string \<Rightarrow> string option auth_op" where
  "webauthn_enroll_finish env partial proof attachment =
     (if ls_stage partial \<noteq> Stage_enrollment_required then op_return None
      else op_bind (run_tx (finish_webauthn_registration env (ls_user_id partial) proof attachment None True)) (\<lambda>created.
        if created = None then op_return None
        else op_bind (auth_others env 28) (\<lambda>_.
          run_tx (promote_session_to_backup_codes_step env (ls_id partial) (ls_user_id partial)))))"

definition backup_codes_complete :: "auth_env \<Rightarrow> login_session \<Rightarrow> bool \<Rightarrow> promotion option auth_op" where
  "backup_codes_complete env partial codes_shown =
     (if ls_stage partial \<noteq> Stage_backup_codes_required \<or> \<not> codes_shown then op_return None
      else run_tx (tx_bind (mark_backup_codes_acknowledged env (ls_user_id partial)) (\<lambda>_.
        promote_session_to_full env (ls_id partial) (ls_user_id partial) False)))"

text \<open>A forced change of the password; the checks of its form come before.\<close>

definition change_password :: "auth_env \<Rightarrow> login_session \<Rightarrow> string \<Rightarrow> promotion option auth_op" where
  "change_password env partial password =
     (let uid = ls_user_id partial
      in if ls_stage partial \<noteq> Stage_change_password_required then op_return None
         else op_bind (op_read (user_by_id uid)) (\<lambda>found.
           case found of None \<Rightarrow> op_return None
           | Some u \<Rightarrow> if \<not> su_must_change_password u then op_return None
               else op_bind (auth_others env 27) (\<lambda>_.
                 run_tx (tx_bind (update_users (\<lambda>u. su_id u = uid)
                     (\<lambda>u. u\<lparr>su_password_hash := Some (ax_make_hash env 20 password), su_must_change_password := False\<rparr>)) (\<lambda>n.
                   if n = 0 then tx_throw Auth_no_record
                   else tx_bind (revoke_other_sessions env uid (ls_id partial)) (\<lambda>_.
                     tx_bind (promote_session_to_full env (ls_id partial) uid False) (\<lambda>promoted.
                     if promoted = None then tx_throw Promotion_failed else tx_return promoted)))))))"

text \<open>The one-tap offer to remember a device right after the second step.\<close>

definition remember_device :: "auth_env \<Rightarrow> login_session \<Rightarrow> request_context \<Rightarrow> string option auth_op" where
  "remember_device env s ctx =
     op_bind (op_read (get_trusted_device_days env)) (\<lambda>days.
     if days \<le> 0 then op_return None
     else op_bind (run_tx (create_trusted_device_if_mfa_recent env (ls_id s) \<lparr>di_user_id = ls_user_id s, di_ip = rc_ip ctx,
         di_user_agent = rc_user_agent ctx, di_label = None\<rparr> (ax_now env 7))) (\<lambda>created.
       case created of None \<Rightarrow> op_return None
       | Some (d, raw) \<Rightarrow> op_bind (log_trusted_device_event env ''auth.trusted_device.created'' (ctx\<lparr>rc_timezone := None\<rparr>)
             (ls_user_id s) (Some (ls_id s)))
           (\<lambda>_. op_return (Some raw))))"

end
