(* ===== verification/Auth_Contract.thy ===== *)
theory Auth_Contract
  imports Auth_Login
begin

text \<open>
  What every operation of signing in keeps to, stated once. The locale \<open>auth_contract\<close> asks of a relation
  that the few kinds of step have it: the commits of others, a change of the other tables, an update of sessions
  that leaves stage and token alone, one that moves the stage on under a new token, a new session, and updates,
  deletions and insertions of second factors. Its client proof walks through the operations and the machine
  of requests; the interpretations are in \<open>Auth_Guarantees\<close>.
\<close>

section \<open>Moving on\<close>

text \<open>
  How a session may change: who it belongs to stays, a revocation stays; the stage, the token and the
  end change together, only while it is neither full nor revoked, and never back to a first stage.
\<close>

definition first_stage :: "session_stage \<Rightarrow> bool" where
  "first_stage s \<longleftrightarrow> s = Stage_mfa_pending \<or> s = Stage_enrollment_required"

definition same_standing :: "login_session \<Rightarrow> login_session \<Rightarrow> bool" where
  "same_standing s t \<longleftrightarrow> ls_stage t = ls_stage s \<and> ls_token_hash t = ls_token_hash s \<and> ls_expires_at t = ls_expires_at s \<and>
     ls_remember_me t = ls_remember_me s"

definition session_moves :: "login_session \<Rightarrow> login_session \<Rightarrow> bool" where
  "session_moves s t \<longleftrightarrow> ls_id t = ls_id s \<and> ls_user_id t = ls_user_id s \<and> ls_auth_method t = ls_auth_method s \<and>
     ls_created_at t = ls_created_at s \<and> (ls_revoked_at s \<noteq> None \<longrightarrow> ls_revoked_at t = ls_revoked_at s) \<and>
     (same_standing s t \<or> ls_stage s \<noteq> Stage_full \<and> ls_revoked_at s = None \<and> \<not> first_stage (ls_stage t))"

definition sessions_move_on :: "string set \<Rightarrow> login_session list \<Rightarrow> login_session list \<Rightarrow> bool" where
  "sessions_move_on known ss ts \<longleftrightarrow> (\<forall>t \<in> set ts. ls_id t \<in> known \<longrightarrow> (\<exists>s \<in> set ss. session_moves s t))"

text \<open>
  How a second factor may change: its owner and secret stay, a used recovery code stays used, and the
  last accepted time step of a confirmed app never goes back.
\<close>

definition step_le :: "int option \<Rightarrow> int option \<Rightarrow> bool" where
  "step_le a b \<longleftrightarrow> (case a of None \<Rightarrow> True | Some x \<Rightarrow> (case b of None \<Rightarrow> False | Some y \<Rightarrow> x \<le> y))"

definition factor_moves :: "mfa_method \<Rightarrow> mfa_method \<Rightarrow> bool" where
  "factor_moves r t \<longleftrightarrow> mf_id t = mf_id r \<and> mf_user_id t = mf_user_id r \<and> mf_type t = mf_type r \<and>
     mf_secret_enc t = mf_secret_enc r \<and> mf_credential_hash t = mf_credential_hash r \<and> mf_label t = mf_label r \<and>
     (mf_last_used_at r \<noteq> None \<longrightarrow> mf_last_used_at t \<noteq> None) \<and>
     (mf_confirmed_at r \<noteq> None \<longrightarrow> mf_confirmed_at t \<noteq> None \<and> step_le (mf_last_totp_time_step r) (mf_last_totp_time_step t))"

definition factors_move_on :: "string set \<Rightarrow> mfa_method list \<Rightarrow> mfa_method list \<Rightarrow> bool" where
  "factors_move_on known rs ts \<longleftrightarrow> (\<forall>t \<in> set ts. mf_id t \<in> known \<longrightarrow> (\<exists>r \<in> set rs. factor_moves r t))"

lemma session_moves_refl [simp]: "session_moves s s"
  by (simp add: session_moves_def same_standing_def)

lemma session_moves_trans: "session_moves s t \<Longrightarrow> session_moves t u \<Longrightarrow> session_moves s u"
  unfolding session_moves_def same_standing_def by (elim conjE disjE) (auto simp: first_stage_def)

lemma step_le_refl [simp]: "step_le a a"
  by (simp add: step_le_def split: option.split)

lemma step_le_trans: "step_le a b \<Longrightarrow> step_le b c \<Longrightarrow> step_le a c"
  by (auto simp: step_le_def split: option.splits)

lemma factor_moves_refl [simp]: "factor_moves r r"
  by (simp add: factor_moves_def)

lemma factor_moves_trans: "factor_moves r s \<Longrightarrow> factor_moves s t \<Longrightarrow> factor_moves r t"
  unfolding factor_moves_def using step_le_trans by metis

lemma sessions_move_on_refl [simp]: "sessions_move_on known ss ss"
  unfolding sessions_move_on_def using session_moves_refl by blast

lemma sessions_move_on_trans:
  assumes "sessions_move_on known ss ts" "sessions_move_on known ts us"
  shows "sessions_move_on known ss us"
  unfolding sessions_move_on_def
proof (intro ballI impI)
  fix u
  assume "u \<in> set us" "ls_id u \<in> known"
  with assms(2) obtain t where t: "t \<in> set ts" "session_moves t u" by (auto simp: sessions_move_on_def)
  with \<open>ls_id u \<in> known\<close> have "ls_id t \<in> known" by (simp add: session_moves_def)
  with t assms(1) obtain s where "s \<in> set ss" "session_moves s t" by (auto simp: sessions_move_on_def)
  with t show "\<exists>s \<in> set ss. session_moves s u" using session_moves_trans by blast
qed

lemma factors_move_on_refl [simp]: "factors_move_on known rs rs"
  unfolding factors_move_on_def using factor_moves_refl by blast

lemma factors_move_on_trans:
  assumes "factors_move_on known rs ts" "factors_move_on known ts us"
  shows "factors_move_on known rs us"
  unfolding factors_move_on_def
proof (intro ballI impI)
  fix u
  assume "u \<in> set us" "mf_id u \<in> known"
  with assms(2) obtain t where t: "t \<in> set ts" "factor_moves t u" by (auto simp: factors_move_on_def)
  with \<open>mf_id u \<in> known\<close> have "mf_id t \<in> known" by (simp add: factor_moves_def)
  with t assms(1) obtain s where "s \<in> set rs" "factor_moves s t" by (auto simp: factors_move_on_def)
  with t show "\<exists>s \<in> set rs. factor_moves s u" using factor_moves_trans by blast
qed

lemma sessions_updated:
  assumes "\<And>s. p s \<Longrightarrow> session_moves s (f s)"
  shows "sessions_move_on known ss (update_where p f ss)"
  using assms by (fastforce simp: sessions_move_on_def in_update_where)

lemma factors_updated:
  assumes "\<And>r. p r \<Longrightarrow> factor_moves r (f r)"
  shows "factors_move_on known rs (update_where p f rs)"
  using assms by (fastforce simp: factors_move_on_def in_update_where)

section \<open>The contract\<close>

locale auth_contract = step_relation R for R :: "auth_db \<Rightarrow> auth_db \<Rightarrow> bool" +
  fixes env :: auth_env
  assumes others: "R db (ax_others env k db)"
    and any_users: "R db (db\<lparr>az_users := us\<rparr>)"
    and any_devices: "R db (db\<lparr>az_devices := ds\<rparr>)"
    and any_log: "R db (db\<lparr>az_security_log := entries\<rparr>)"
    and session_marks: "(\<And>s. p s \<Longrightarrow> session_moves s (f s) \<and> same_standing s (f s)) \<Longrightarrow>
      R db (db\<lparr>az_sessions := update_where p f (az_sessions db)\<rparr>)"
    and session_steps: "(\<And>s. p s \<Longrightarrow> session_moves s ((f s)\<lparr>ls_token_hash := ax_hash_token env (ax_token env 0)\<rparr>)) \<Longrightarrow>
      R db (db\<lparr>az_sessions := update_where p (\<lambda>s. (f s)\<lparr>ls_token_hash := ax_hash_token env (ax_token env 0)\<rparr>) (az_sessions db)\<rparr>)"
    and session_inserts: "R db (db\<lparr>az_sessions := az_sessions db @ [new_session env input stage lifetime]\<rparr>)"
    and factor_updates: "(\<And>r. mp r \<Longrightarrow> factor_moves r (mf r)) \<Longrightarrow>
      R db (db\<lparr>az_methods := update_where mp mf (az_methods db)\<rparr>)"
    and factor_deletes: "R db (db\<lparr>az_methods := filter mp (az_methods db)\<rparr>)"
    and factor_inserts: "mf_id r \<in> range (ax_fresh_id env) \<Longrightarrow> R db (db\<lparr>az_methods := az_methods db @ [r]\<rparr>)"
begin

lemma waits_all: "tx_all R (auth_waits env k)"
  unfolding auth_waits_def by (rule tx_all_interfere) (rule others)

lemma others_all: "op_all R (auth_others env k)"
  by (simp add: op_all_def auth_others_def others)

lemma users_all: "tx_all R (update_users p f)"
  using any_users by (auto simp: tx_all_def update_users_def)

lemma devices_all: "tx_all R (update_devices p f)"
  using any_devices by (auto simp: tx_all_def update_devices_def)

lemma device_insert_all: "tx_all R (insert_device d)"
  using any_devices by (auto simp: tx_all_def insert_device_def split: if_splits)

lemma log_all: "op_all R (write_security_audit_log env event uid ip tz metadata)"
  using any_log rel_refl by (simp add: op_all_def write_security_audit_log_def)

lemma marks_all:
  assumes "\<And>s. p s \<Longrightarrow> session_moves s (f s) \<and> same_standing s (f s)"
  shows "tx_all R (update_sessions p f)"
  using session_marks [OF assms] by (auto simp: tx_all_def update_sessions_def)

lemma rotate_all:
  assumes "\<And>s. p s \<Longrightarrow> session_moves s ((f s)\<lparr>ls_token_hash := ax_hash_token env (ax_token env 0)\<rparr>)"
  shows "tx_all R (rotate_session (ax_hash_token env (ax_token env 0)) p f)"
proof -
  have "tx_all R (update_sessions p (\<lambda>s. (f s)\<lparr>ls_token_hash := ax_hash_token env (ax_token env 0)\<rparr>))"
    using session_steps [OF assms] by (auto simp: tx_all_def update_sessions_def)
  then show ?thesis unfolding rotate_session_def by (intro all_bind all_read tx_all_if tx_all_throw)
qed

lemma session_insert_all: "tx_all R (insert_session (new_session env input stage lifetime))"
  using session_inserts by (auto simp: tx_all_def insert_session_def split: if_splits)

lemma factor_update_all:
  assumes "\<And>r. p r \<Longrightarrow> factor_moves r (f r)"
  shows "tx_all R (update_methods p f)"
  using factor_updates [OF assms] by (auto simp: tx_all_def update_methods_def)

lemma factor_delete_all: "tx_all R (delete_methods p)"
  using factor_deletes by (auto simp: tx_all_def delete_methods_def)

lemma factor_insert_all: "mf_id r \<in> range (ax_fresh_id env) \<Longrightarrow> tx_all R (insert_method r)"
  using factor_inserts by (auto simp: tx_all_def insert_method_def split: if_splits)

lemmas tx_intros = all_bind all_read all_return all_fold tx_all_if tx_all_option tx_all_throw waits_all users_all devices_all
  device_insert_all session_insert_all factor_delete_all

lemmas op_intros = op_bind_all op_all_if op_all_option op_return_all op_read_all op_run_all op_catch_all others_all log_all

section \<open>Second factors\<close>

lemma acknowledged_all: "tx_all R (mark_backup_codes_acknowledged env uid)"
  unfolding mark_backup_codes_acknowledged_def
  by (intro tx_intros factor_update_all) (simp add: factor_moves_def)

lemma revoke_sessions_all: "tx_all R (revoke_sessions env p)"
  unfolding revoke_sessions_def by (intro marks_all) (simp add: session_moves_def same_standing_def)

lemma create_device_all: "tx_all R (create_trusted_device env input)"
  unfolding create_trusted_device_def Let_def by (intro tx_intros)

lemma recent_device_all: "tx_all R (create_trusted_device_if_mfa_recent env sid input now)"
  unfolding create_trusted_device_if_mfa_recent_def by (intro tx_intros create_device_all)

lemma validate_device_all: "tx_all R (validate_trusted_device env uid raw)"
  unfolding validate_trusted_device_def by (intro tx_intros)

lemma forget_device_all: "tx_all R (revoke_trusted_device_by_token env uid raw)"
  unfolding revoke_trusted_device_by_token_def by (intro tx_intros)

lemma forget_devices_all: "tx_all R (revoke_all_trusted_devices_for_user env uid)"
  unfolding revoke_all_trusted_devices_for_user_def
  by (intro tx_intros marks_all) (simp add: session_moves_def same_standing_def)

lemma consume_all: "tx_all R (consume_recovery_row env rid)"
  unfolding consume_recovery_row_def by (intro tx_intros factor_update_all) (simp add: factor_moves_def)

lemma generate_all: "tx_all R (generate_backup_recovery_codes env uid n)"
  unfolding generate_backup_recovery_codes_def
  by (intro tx_intros factor_insert_all) (simp add: recovery_row_def blank_method_def)

lemma regenerate_all: "tx_all R (regenerate_backup_recovery_codes env uid)"
  unfolding regenerate_backup_recovery_codes_def by (intro tx_intros generate_all)

lemma fresh_codes_all: "tx_all R (ensure_fresh_enrollment_backup_codes env uid)"
  unfolding ensure_fresh_enrollment_backup_codes_def by (intro tx_intros regenerate_all)

lemma emergency_all: "tx_all R (generate_emergency_recovery_code env uid)"
  unfolding generate_emergency_recovery_code_def
  by (intro tx_intros factor_insert_all) (simp add: recovery_row_def blank_method_def)

lemma accept_all: "tx_all R (accept_time_step env row t)"
  unfolding accept_time_step_def
  by (intro tx_intros factor_update_all) (auto simp: factor_moves_def advances_watermark_def step_le_def split: option.splits)

lemma totp_all: "tx_all R (verify_user_totp_code_detailed env uid code)"
  unfolding verify_user_totp_code_detailed_def
  by (intro tx_intros) (auto intro: tx_intros accept_all split: totp_verdict.split)

lemma start_totp_all: "tx_all R (start_totp_enrollment env uid)"
  unfolding start_totp_enrollment_def
  by (intro tx_intros factor_insert_all fresh_codes_all) (simp add: blank_method_def)

lemma drop_pending_all: "tx_all R (drop_pending_totp uid)"
  unfolding drop_pending_totp_def by (intro tx_intros)

lemma resume_totp_all: "tx_all R (resume_pending_totp_enrollment env uid)"
  unfolding resume_pending_totp_enrollment_def by (intro tx_intros drop_pending_all)

lemma cancel_totp_all: "tx_all R (cancel_pending_totp_enrollment uid)"
  unfolding cancel_pending_totp_enrollment_def by (intro tx_intros drop_pending_all)

lemma enroll_totp_all: "op_all R (get_or_start_totp_enrollment env uid)"
  unfolding get_or_start_totp_enrollment_def by (intro op_intros resume_totp_all start_totp_all)

lemma confirm_pending_all: "tx_all R (confirm_pending_totp env uid code)"
proof -
  have "tx_all R (update_methods (\<lambda>r. mf_id r = rid \<and> mf_confirmed_at r = None)
     (\<lambda>r. let r' = r\<lparr>mf_confirmed_at := Some (ax_now env 0), mf_last_totp_time_step := Some t, mf_last_used_at := Some (ax_now env 0)\<rparr>
          in if first then r'\<lparr>mf_backup_codes_acknowledged_at := None\<rparr> else r'))" for rid t first
    by (intro factor_update_all) (simp add: factor_moves_def Let_def)
  then show ?thesis
    unfolding confirm_pending_totp_def by (intro tx_intros) (auto intro!: tx_intros split: totp_verdict.split)
qed

lemma confirm_all: "tx_all R (confirm_totp_enrollment env uid code only_first)"
  unfolding confirm_totp_enrollment_def by (intro tx_intros confirm_pending_all)

lemma remove_totp_all: "tx_all R (remove_totp_method uid)"
  unfolding remove_totp_method_def by (intro tx_intros)

lemma reset_mfa_all: "tx_all R (reset_user_mfa env uid)"
  unfolding reset_user_mfa_def by (intro tx_intros revoke_sessions_all)

lemma register_all: "tx_all R (finish_webauthn_registration env uid proof attachment label only_first)"
  unfolding finish_webauthn_registration_def
  by (intro tx_intros fresh_codes_all factor_insert_all) (simp add: blank_method_def)

lemma remove_credential_all: "tx_all R (remove_webauthn_credential uid rid)"
  unfolding remove_webauthn_credential_def by (intro tx_intros)

lemma counter_all: "tx_all R (advance_counter env uv found proof)"
  unfolding advance_counter_def by (intro tx_intros factor_update_all) (simp add: factor_moves_def)

lemma assertion_all: "tx_all R (finish_webauthn_assertion env uid proof)"
  unfolding finish_webauthn_assertion_def by (intro tx_intros counter_all)

lemma passkey_all: "tx_all R (finish_passkey_login env proof)"
  unfolding finish_passkey_login_def by (intro tx_intros counter_all)

lemma code_all: "tx_all R (verify_totp_or_recovery_code_detailed env uid code)"
  unfolding verify_totp_or_recovery_code_detailed_def Let_def
  by (intro tx_intros totp_all) (auto intro!: tx_intros totp_all consume_all)

section \<open>Sessions\<close>

lemma create_session_all: "tx_all R (create_session env input)"
  unfolding create_session_def by (intro tx_intros)

lemma touch_all: "tx_all R (touch_session env s)"
  unfolding touch_session_def Let_def by (intro tx_intros marks_all) (simp add: session_moves_def same_standing_def)

lemma lookup_all: "tx_all R (lookup_session_by_token env raw)"
  unfolding lookup_session_by_token_def
  by (intro tx_intros marks_all touch_all) (simp add: session_moves_def same_standing_def)

lemma validate_all: "tx_all R (validate_session env raw)"
  unfolding validate_session_def by (intro tx_intros lookup_all)

lemma backup_step_all: "tx_all R (promote_session_to_backup_codes_step env sid uid)"
  unfolding promote_session_to_backup_codes_step_def Let_def
  by (intro tx_intros rotate_all) (auto simp: session_moves_def owned_session_def first_stage_def)

lemma read_value_all: "(\<And>db. tx_all R (g (f db))) \<Longrightarrow> tx_all R (tx_bind (tx_read f) g)"
  by (auto simp: tx_all_def tx_bind_Inr tx_read_def)

lemma not_first_stage [simp]: "\<not> first_stage (resolve_post_mfa_stage uid db)"
  by (simp add: resolve_post_mfa_stage_def first_stage_def split: option.split)

lemma not_from_full [simp]: "Stage_full \<notin> set (source_stages target)"
  by (simp add: source_stages_def)

lemma promote_all: "tx_all R (promote_session_to_full env sid uid verified)"
  unfolding promote_session_to_full_def Let_def
  by (rule read_value_all, intro tx_intros rotate_all)
    (auto simp: session_moves_def owned_session_def)

lemma label_all: "tx_all R (update_session_device_label env sid uid label)"
  unfolding update_session_device_label_def Let_def
  by (intro tx_intros marks_all) (simp add: session_moves_def same_standing_def)

lemma revoke_one_all: "tx_all R (revoke_session env sid)"
  unfolding revoke_session_def by (intro tx_intros revoke_sessions_all)

lemma revoke_operators_all: "tx_all R (revoke_all_operator_sessions_for_event env eid)"
  unfolding revoke_all_operator_sessions_for_event_def by (intro tx_intros revoke_sessions_all)

lemma revoke_others_all: "tx_all R (revoke_other_sessions env uid keep)"
  unfolding revoke_other_sessions_def by (rule revoke_sessions_all)

lemma revoke_user_all: "tx_all R (revoke_user_auth_state env uid)"
  unfolding revoke_user_auth_state_def by (intro tx_intros revoke_sessions_all forget_devices_all)

lemma purge_all: "tx_all R (purge_all_sessions env dry_run)"
  unfolding purge_all_sessions_def by (intro tx_intros revoke_sessions_all)

end

end
