(* ===== verification/Auth_Guarantees.thy ===== *)
theory Auth_Guarantees
  imports Auth_Contract
begin

text \<open>
  The requests of signing in as one machine, and the contract with three providers: the sessions, the second
  factors, and the token of a session that is not full. Each relation is asked for only if the environment of
  the request keeps to it, so the interpretations hold for every environment.
\<close>

section \<open>Signing in\<close>

context auth_contract
begin

lemma bump_login_all: "op_all R (bump_privileged_login_streak_atomic env user ip)"
  unfolding bump_privileged_login_streak_atomic_def by (intro op_intros users_all)

lemma failed_login_all: "op_all R (record_failed_login_failure_side_effects env user ip)"
  unfolding record_failed_login_failure_side_effects_def run_timing_pad_streak_write_def
  by (intro op_intros tx_intros bump_login_all)

lemma failed_mfa_all: "op_all R (record_failed_mfa_failure_side_effects env uid ip)"
  unfolding record_failed_mfa_failure_side_effects_def bump_privileged_mfa_failure_streak_atomic_def
  by (intro op_intros users_all)

lemma refuse_all: "op_all R (refuse_login env ctx email user reason answer)"
  unfolding refuse_login_def log_login_failure_def by (intro op_intros failed_login_all)

lemma password_stage_all: "op_all R (password_stage env uid token)"
  unfolding password_stage_def by (intro op_intros validate_device_all)

lemma finalize_all: "op_all R (finalize_login_session env user stage next label ctx way)"
  unfolding finalize_login_session_def Let_def log_login_success_def reset_failed_login_streak_def
  by (intro op_intros) (auto intro!: op_intros tx_intros create_session_all split: prod.split)

lemma login_all: "op_all R (login env input)"
  unfolding login_def Let_def log_trusted_device_event_def
  by (intro op_intros refuse_all password_stage_all) (auto intro!: op_intros finalize_all split: prod.split)

lemma passkey_login_all: "op_all R (login_with_passkey env proof label ctx)"
  unfolding login_with_passkey_def log_login_failure_def
  by (intro op_intros passkey_all) (auto intro!: op_intros refuse_all finalize_all split: prod.split)

lemma grant_all: "tx_all R (grant_after_promotion env input way p)"
  unfolding grant_after_promotion_def Let_def
  by (intro tx_intros create_device_all) (auto intro!: tx_intros split: prod.split)

lemma mfa_tx_all: "tx_all R (complete_mfa_in_transaction env input code)"
  unfolding complete_mfa_in_transaction_def
  by (intro tx_intros code_all) (auto intro!: tx_intros promote_all grant_all split: step_up_result.split)

lemma granted_log_all: "op_all R (log_mfa_granted env input way grant)"
  unfolding log_mfa_granted_def log_mfa_success_def log_trusted_device_event_def reset_failed_mfa_failure_streak_def Let_def
  by (intro op_intros tx_intros)

lemma mfa_all: "op_all R (complete_mfa env input code)"
proof -
  have "op_all R (emit_mfa_audit env input r)" for r
    unfolding emit_mfa_audit_def log_mfa_failure_def log_mfa_recovery_consumed_def Let_def
    by (cases r) (simp_all only: mfa_tx_result.case, (intro op_intros failed_mfa_all granted_log_all)+)
  then show ?thesis unfolding complete_mfa_def by (intro op_intros mfa_tx_all)
qed

lemma mfa_webauthn_all: "op_all R (complete_mfa_with_webauthn env input proof)"
proof -
  have "op_all R (emit_mfa_webauthn_audit env input r)" for r
    unfolding emit_mfa_webauthn_audit_def log_mfa_failure_def
    by (cases r) (simp_all add: granted_log_all log_all)
  moreover have "tx_all R (complete_mfa_with_webauthn_in_transaction env input)"
    unfolding complete_mfa_with_webauthn_in_transaction_def by (intro tx_intros promote_all grant_all)
  ultimately show ?thesis unfolding complete_mfa_with_webauthn_def by (intro op_intros assertion_all)
qed

lemma logout_all: "op_all R (logout env validated ip)"
  unfolding logout_def log_logout_def by (intro op_intros revoke_one_all)

lemma totp_confirm_all: "op_all R (totp_confirm env partial code codes_lost)"
  unfolding totp_confirm_def by (intro op_intros confirm_all regenerate_all backup_step_all)

lemma webauthn_finish_all: "op_all R (webauthn_enroll_finish env partial proof attachment)"
  unfolding webauthn_enroll_finish_def by (intro op_intros register_all backup_step_all)

lemma backup_complete_all: "op_all R (backup_codes_complete env partial codes_shown)"
  unfolding backup_codes_complete_def by (intro op_intros tx_intros acknowledged_all promote_all)

lemma change_password_all: "op_all R (change_password env partial password)"
  unfolding change_password_def Let_def by (intro op_intros tx_intros revoke_others_all promote_all)

lemma remember_all: "op_all R (remember_device env s ctx)"
  unfolding remember_device_def log_trusted_device_event_def
  by (intro op_intros recent_device_all) (auto intro!: op_intros split: prod.split)

end

section \<open>The machine\<close>

datatype auth_request =
    Aq_login login_input
  | Aq_passkey credential_proof "string option" request_context
  | Aq_provider session_input
  | Aq_code mfa_input string
  | Aq_assertion mfa_input credential_proof
  | Aq_enroll_totp string
  | Aq_cancel_totp string
  | Aq_confirm_totp login_session string bool
  | Aq_confirm_credential login_session credential_proof string
  | Aq_add_credential string credential_proof string
  | Aq_backup_codes login_session bool
  | Aq_new_codes string
  | Aq_change_password login_session string
  | Aq_remember login_session request_context
  | Aq_validate string
  | Aq_validate_partial string
  | Aq_label string string "string option"
  | Aq_logout "login_session option" "string option"
  | Aq_revoke string
  | Aq_revoke_operators string
  | Aq_revoke_others string string
  | Aq_revoke_user string
  | Aq_purge bool
  | Aq_forget_device string "string option"
  | Aq_forget_devices string
  | Aq_remove_totp string
  | Aq_remove_credential string string
  | Aq_reset_mfa string
  | Aq_emergency_code string

fun serve_auth :: "auth_env \<Rightarrow> auth_request \<Rightarrow> auth_db \<Rightarrow> auth_db" where
  "serve_auth env (Aq_login input) db = snd (login env input db)"
| "serve_auth env (Aq_passkey proof label ctx) db = snd (login_with_passkey env proof label ctx db)"
| "serve_auth env (Aq_provider input) db = snd (run_tx (create_session env input) db)"
| "serve_auth env (Aq_code input code) db = snd (complete_mfa env input code db)"
| "serve_auth env (Aq_assertion input proof) db = snd (complete_mfa_with_webauthn env input proof db)"
| "serve_auth env (Aq_enroll_totp uid) db = snd (get_or_start_totp_enrollment env uid db)"
| "serve_auth env (Aq_cancel_totp uid) db = snd (run_tx (cancel_pending_totp_enrollment uid :: unit auth_tx) db)"
| "serve_auth env (Aq_confirm_totp s code lost) db = snd (totp_confirm env s code lost db)"
| "serve_auth env (Aq_confirm_credential s proof attachment) db = snd (webauthn_enroll_finish env s proof attachment db)"
| "serve_auth env (Aq_add_credential uid proof attachment) db =
     snd (run_tx (finish_webauthn_registration env uid proof attachment None False) db)"
| "serve_auth env (Aq_backup_codes s shown) db = snd (backup_codes_complete env s shown db)"
| "serve_auth env (Aq_new_codes uid) db = snd (run_tx (regenerate_backup_recovery_codes env uid) db)"
| "serve_auth env (Aq_change_password s password) db = snd (change_password env s password db)"
| "serve_auth env (Aq_remember s ctx) db = snd (remember_device env s ctx db)"
| "serve_auth env (Aq_validate raw) db = snd (run_tx (validate_session env raw) db)"
| "serve_auth env (Aq_validate_partial raw) db = snd (run_tx (validate_partial_session env raw) db)"
| "serve_auth env (Aq_label sid uid label) db = snd (run_tx (update_session_device_label env sid uid label) db)"
| "serve_auth env (Aq_logout s ip) db = snd (logout env s ip db)"
| "serve_auth env (Aq_revoke sid) db = snd (run_tx (revoke_session env sid) db)"
| "serve_auth env (Aq_revoke_operators eid) db = snd (run_tx (revoke_all_operator_sessions_for_event env eid) db)"
| "serve_auth env (Aq_revoke_others uid sid) db = snd (run_tx (revoke_other_sessions env uid sid) db)"
| "serve_auth env (Aq_revoke_user uid) db = snd (run_tx (revoke_user_auth_state env uid) db)"
| "serve_auth env (Aq_purge dry_run) db = snd (run_tx (purge_all_sessions env dry_run) db)"
| "serve_auth env (Aq_forget_device uid raw) db = snd (run_tx (revoke_trusted_device_by_token env uid raw) db)"
| "serve_auth env (Aq_forget_devices uid) db = snd (run_tx (revoke_all_trusted_devices_for_user env uid) db)"
| "serve_auth env (Aq_remove_totp uid) db = snd (run_tx (remove_totp_method uid :: bool auth_tx) db)"
| "serve_auth env (Aq_remove_credential uid rid) db = snd (run_tx (remove_webauthn_credential uid rid :: bool auth_tx) db)"
| "serve_auth env (Aq_reset_mfa uid) db = snd (run_tx (reset_user_mfa env uid) db)"
| "serve_auth env (Aq_emergency_code uid) db = snd (run_tx (generate_emergency_recovery_code env uid) db)"

text \<open>Requests one after the other, each with an environment that \<open>K\<close> accepts.\<close>

inductive auth_history :: "(auth_env \<Rightarrow> bool) \<Rightarrow> auth_db \<Rightarrow> auth_db \<Rightarrow> bool" for K where
  start: "auth_history K db db"
| request: "auth_history K db v \<Longrightarrow> K env \<Longrightarrow> auth_history K db (serve_auth env req v)"

context auth_contract
begin

lemma serve_all: "R db (serve_auth env req db)"
  by (cases req)
    (simp_all add: op_allD [OF login_all] op_allD [OF passkey_login_all] op_allD [OF mfa_all] op_allD [OF mfa_webauthn_all]
      op_allD [OF totp_confirm_all] op_allD [OF webauthn_finish_all] op_allD [OF backup_complete_all]
      op_allD [OF change_password_all] op_allD [OF remember_all] op_allD [OF logout_all] validate_partial_session_def
      all_run [OF create_session_all] op_allD [OF enroll_totp_all] all_run [OF cancel_totp_all] all_run [OF register_all]
      all_run [OF regenerate_all] all_run [OF validate_all] all_run [OF lookup_all] all_run [OF label_all]
      all_run [OF revoke_one_all] all_run [OF revoke_operators_all] all_run [OF revoke_others_all] all_run [OF revoke_user_all]
      all_run [OF purge_all] all_run [OF forget_device_all] all_run [OF forget_devices_all] all_run [OF remove_totp_all]
      all_run [OF remove_credential_all] all_run [OF reset_mfa_all] all_run [OF emergency_all])

end

section \<open>Sessions move on\<close>

definition keeps_sessions :: "string set \<Rightarrow> auth_env \<Rightarrow> bool" where
  "keeps_sessions known env \<longleftrightarrow> (\<forall>k db. sessions_move_on known (az_sessions db) (az_sessions (ax_others env k db))) \<and>
     (\<forall>k. ax_fresh_id env k \<notin> known)"

interpretation sessions: auth_contract
  "\<lambda>db db'. keeps_sessions known env \<longrightarrow> sessions_move_on known (az_sessions db) (az_sessions db')" env for known env
proof unfold_locales
  show "keeps_sessions known env \<longrightarrow>
      sessions_move_on known (az_sessions db) (az_sessions (db\<lparr>az_sessions := az_sessions db @ [new_session env input stage lifetime]\<rparr>))"
    for db input stage lifetime
  proof
    assume "keeps_sessions known env"
    then have "ls_id (new_session env input stage lifetime) \<notin> known"
      by (simp add: keeps_sessions_def new_session_def Let_def)
    then show "sessions_move_on known (az_sessions db)
        (az_sessions (db\<lparr>az_sessions := az_sessions db @ [new_session env input stage lifetime]\<rparr>))"
      using sessions_move_on_refl [of known "az_sessions db"] by (simp add: sessions_move_on_def del: sessions_move_on_refl)
  qed
qed (auto simp: keeps_sessions_def intro: sessions_move_on_trans sessions_updated)

lemma sessions_over_history:
  assumes "auth_history (keeps_sessions known) db v"
  shows "sessions_move_on known (az_sessions db) (az_sessions v)"
  using assms
proof induction
  case (request db v env req)
  then show ?case
    using sessions.serve_all [where known = known and env = env and db = v and req = req] sessions_move_on_trans by blast
qed simp

section \<open>Sessions are renewed\<close>

text \<open>A session moves on, and it keeps its standing or has a token that is none of the old ones.\<close>

definition session_renewed :: "string set \<Rightarrow> login_session \<Rightarrow> login_session \<Rightarrow> bool" where
  "session_renewed H s t \<longleftrightarrow> session_moves s t \<and> (same_standing s t \<or> ls_token_hash t \<notin> H)"

definition sessions_renewed :: "string set \<Rightarrow> string set \<Rightarrow> login_session list \<Rightarrow> login_session list \<Rightarrow> bool" where
  "sessions_renewed known H ss ts \<longleftrightarrow> (\<forall>t \<in> set ts. ls_id t \<in> known \<longrightarrow> (\<exists>s \<in> set ss. session_renewed H s t))"

lemma session_renewed_trans: "session_renewed H s t \<Longrightarrow> session_renewed H t u \<Longrightarrow> session_renewed H s u"
  using session_moves_trans by (auto simp: session_renewed_def same_standing_def)

lemma sessions_renewed_refl [simp]: "sessions_renewed known H ss ss"
  unfolding sessions_renewed_def session_renewed_def using session_moves_refl same_standing_def by blast

lemma sessions_renewed_trans:
  assumes "sessions_renewed known H ss ts" "sessions_renewed known H ts us"
  shows "sessions_renewed known H ss us"
  unfolding sessions_renewed_def
proof (intro ballI impI)
  fix u
  assume "u \<in> set us" "ls_id u \<in> known"
  with assms(2) obtain t where t: "t \<in> set ts" "session_renewed H t u" by (auto simp: sessions_renewed_def)
  with \<open>ls_id u \<in> known\<close> have "ls_id t \<in> known" by (simp add: session_renewed_def session_moves_def)
  with t assms(1) obtain s where "s \<in> set ss" "session_renewed H s t" by (auto simp: sessions_renewed_def)
  with t show "\<exists>s \<in> set ss. session_renewed H s u" using session_renewed_trans by blast
qed

lemma sessions_renewed_update:
  assumes "\<And>s. p s \<Longrightarrow> session_renewed H s (f s)"
  shows "sessions_renewed known H ss (update_where p f ss)"
proof -
  have "session_renewed H s s" for s by (simp add: session_renewed_def same_standing_def)
  with assms show ?thesis by (fastforce simp: sessions_renewed_def in_update_where)
qed

definition renews_sessions :: "string set \<Rightarrow> string set \<Rightarrow> auth_env \<Rightarrow> bool" where
  "renews_sessions known H env \<longleftrightarrow> (\<forall>k db. sessions_renewed known H (az_sessions db) (az_sessions (ax_others env k db))) \<and>
     (\<forall>k. ax_fresh_id env k \<notin> known) \<and> ax_hash_token env (ax_token env 0) \<notin> H"

interpretation renewals: auth_contract
  "\<lambda>db db'. renews_sessions known H env \<longrightarrow> sessions_renewed known H (az_sessions db) (az_sessions db')" env for known H env
proof unfold_locales
  show "renews_sessions known H env \<longrightarrow>
      sessions_renewed known H (az_sessions db) (az_sessions (db\<lparr>az_sessions := az_sessions db @ [new_session env input stage lifetime]\<rparr>))"
    for db input stage lifetime
  proof
    assume "renews_sessions known H env"
    then have "ls_id (new_session env input stage lifetime) \<notin> known"
      by (simp add: renews_sessions_def new_session_def Let_def)
    then show "sessions_renewed known H (az_sessions db)
        (az_sessions (db\<lparr>az_sessions := az_sessions db @ [new_session env input stage lifetime]\<rparr>))"
      using sessions_renewed_refl [of known H "az_sessions db"] by (simp add: sessions_renewed_def del: sessions_renewed_refl)
  qed
  show "renews_sessions known H env \<longrightarrow> sessions_renewed known H (az_sessions db)
      (az_sessions (db\<lparr>az_sessions := update_where p f (az_sessions db)\<rparr>))"
    if "\<And>s. p s \<Longrightarrow> session_moves s (f s) \<and> same_standing s (f s)" for db p f
    using that by (intro impI) (simp add: sessions_renewed_update session_renewed_def)
  show "renews_sessions known H env \<longrightarrow> sessions_renewed known H (az_sessions db) (az_sessions (db\<lparr>az_sessions := update_where p
      (\<lambda>s. (f s)\<lparr>ls_token_hash := ax_hash_token env (ax_token env 0)\<rparr>) (az_sessions db)\<rparr>))"
    if "\<And>s. p s \<Longrightarrow> session_moves s ((f s)\<lparr>ls_token_hash := ax_hash_token env (ax_token env 0)\<rparr>)" for db p f
    using that by (intro impI) (simp add: sessions_renewed_update session_renewed_def renews_sessions_def)
qed (auto simp: renews_sessions_def intro: sessions_renewed_trans)

lemma renewal_over_history:
  assumes "auth_history (renews_sessions known H) db v"
  shows "sessions_renewed known H (az_sessions db) (az_sessions v)"
  using assms
proof induction
  case (request db v env req)
  then show ?case
    using renewals.serve_all [where known = known and H = H and env = env and db = v and req = req] sessions_renewed_trans by blast
qed simp

section \<open>Second factors move on\<close>

definition keeps_factors :: "string set \<Rightarrow> auth_env \<Rightarrow> bool" where
  "keeps_factors known env \<longleftrightarrow> (\<forall>k db. factors_move_on known (az_methods db) (az_methods (ax_others env k db))) \<and>
     (\<forall>k. ax_fresh_id env k \<notin> known)"

interpretation factors: auth_contract
  "\<lambda>db db'. keeps_factors known env \<longrightarrow> factors_move_on known (az_methods db) (az_methods db')" env for known env
proof unfold_locales
  show "keeps_factors known env \<longrightarrow> factors_move_on known (az_methods db) (az_methods (db\<lparr>az_methods := az_methods db @ [r]\<rparr>))"
    if "mf_id r \<in> range (ax_fresh_id env)" for db r
    using that factors_move_on_refl [of known "az_methods db"]
    by (auto simp add: factors_move_on_def keeps_factors_def simp del: factors_move_on_refl factor_moves_refl)
  show "keeps_factors known env \<longrightarrow> factors_move_on known (az_methods db) (az_methods (db\<lparr>az_methods := filter p (az_methods db)\<rparr>))"
    for db p
    using factors_move_on_refl [of known "az_methods db"]
    by (simp add: factors_move_on_def del: factors_move_on_refl)
qed (auto simp: keeps_factors_def intro: factors_move_on_trans factors_updated)

lemma factors_over_history:
  assumes "auth_history (keeps_factors known) db v"
  shows "factors_move_on known (az_methods db) (az_methods v)"
  using assms
proof induction
  case (request db v env req)
  then show ?case
    using factors.serve_all [where known = known and env = env and db = v and req = req] factors_move_on_trans by blast
qed simp

section \<open>A token that does not open\<close>

definition shut :: "string \<Rightarrow> auth_db \<Rightarrow> bool" where
  "shut h db \<longleftrightarrow> (\<forall>s \<in> set (az_sessions db). ls_token_hash s = h \<longrightarrow> ls_stage s \<noteq> Stage_full)"

definition keeps_shut :: "string \<Rightarrow> auth_env \<Rightarrow> bool" where
  "keeps_shut h env \<longleftrightarrow> (\<forall>k db. shut h db \<longrightarrow> shut h (ax_others env k db)) \<and> ax_hash_token env (ax_token env 0) \<noteq> h"

lemma shut_marked:
  assumes "\<And>s. p s \<Longrightarrow> same_standing s (f s)" "shut h db"
  shows "shut h (db\<lparr>az_sessions := update_where p f (az_sessions db)\<rparr>)"
proof -
  have "ls_stage (if p s then f s else s) \<noteq> Stage_full"
    if "s \<in> set (az_sessions db)" "ls_token_hash (if p s then f s else s) = h" for s
    using that assms(1) [of s] assms(2) by (cases "p s") (simp_all add: same_standing_def shut_def)
  then show ?thesis by (auto simp: shut_def in_update_where)
qed

lemma shut_rotated:
  assumes "hash \<noteq> h" "shut h db"
  shows "shut h (db\<lparr>az_sessions := update_where p (\<lambda>s. (f s)\<lparr>ls_token_hash := hash\<rparr>) (az_sessions db)\<rparr>)"
proof -
  have "ls_stage (if p s then (f s)\<lparr>ls_token_hash := hash\<rparr> else s) \<noteq> Stage_full"
    if "s \<in> set (az_sessions db)" "ls_token_hash (if p s then (f s)\<lparr>ls_token_hash := hash\<rparr> else s) = h" for s
    using that assms by (cases "p s") (simp_all add: shut_def)
  then show ?thesis by (auto simp: shut_def in_update_where)
qed

lemma shut_added: "ls_token_hash s \<noteq> h \<Longrightarrow> shut h db \<Longrightarrow> shut h (db\<lparr>az_sessions := az_sessions db @ [s]\<rparr>)"
  by (auto simp: shut_def)

lemma shut_elsewhere [simp]:
  "shut h (db\<lparr>az_users := us\<rparr>) = shut h db" "shut h (db\<lparr>az_devices := ds\<rparr>) = shut h db"
  "shut h (db\<lparr>az_security_log := es\<rparr>) = shut h db" "shut h (db\<lparr>az_methods := rs\<rparr>) = shut h db"
  by (simp_all add: shut_def)

interpretation tokens: auth_contract "\<lambda>db db'. keeps_shut h env \<longrightarrow> shut h db \<longrightarrow> shut h db'" env for h env
proof unfold_locales
  show "keeps_shut h env \<longrightarrow> shut h db \<longrightarrow> shut h (db\<lparr>az_sessions := az_sessions db @ [new_session env input stage lifetime]\<rparr>)"
    for db input stage lifetime
    by (intro impI shut_added) (simp_all add: keeps_shut_def new_session_def Let_def)
  show "keeps_shut h env \<longrightarrow> shut h db \<longrightarrow> shut h (db\<lparr>az_sessions := update_where p f (az_sessions db)\<rparr>)"
    if marks: "\<And>s. p s \<Longrightarrow> session_moves s (f s) \<and> same_standing s (f s)" for db p f
    by (intro impI shut_marked) (simp_all add: marks)
  show "keeps_shut h env \<longrightarrow> shut h db \<longrightarrow> shut h (db\<lparr>az_sessions := update_where p
      (\<lambda>s. (f s)\<lparr>ls_token_hash := ax_hash_token env (ax_token env 0)\<rparr>) (az_sessions db)\<rparr>)" for db p f
    by (intro impI shut_rotated) (simp_all add: keeps_shut_def)
  show "keeps_shut h env \<longrightarrow> shut h db \<longrightarrow> shut h (ax_others env k db)" for db k
    by (simp add: keeps_shut_def)
qed simp_all

lemma shut_over_history: "auth_history (keeps_shut h) db v \<Longrightarrow> shut h db \<Longrightarrow> shut h v"
proof (induction rule: auth_history.induct)
  case (request db v env req)
  then show ?case using tokens.serve_all [where h = h and env = env and db = v and req = req] by blast
qed

end
