(* ===== verification/Auth_Props.thy ===== *)
theory Auth_Props
  imports Auth_Guarantees
begin

text \<open>
  What signing in promises: sessions only move forward, a revocation is final, the token of an unfinished
  sign-in never opens anything, a code works once, which stage a verified password leads to, how long a session lives,
  and when a streak of failures raises an alert.
\<close>

section \<open>Sessions after a revocation\<close>

text \<open>C18: Over any history of requests, a session that was there keeps its owner, its first factor and the time it was created, and a
  revocation is never undone. Its stage, its end and the mark of a remembered device change only while it is neither full nor
  revoked, never back to a first stage, and only with a new token: one that is none of the tokens (\<open>H\<close>) that were in use at the
  start. A token that was handed out for an unfinished sign-in so never names a session that got further. Others that
  commit meanwhile are asked for the same, and new ids and the hashes of new tokens for being new.\<close>

theorem sessions_only_move_on:
  assumes "auth_history (renews_sessions known H) db v"
  shows "sessions_renewed known H (az_sessions db) (az_sessions v)"
  using assms by (rule renewal_over_history)

definition all_revoked :: "string set \<Rightarrow> auth_db \<Rightarrow> bool" where
  "all_revoked known db \<longleftrightarrow> (\<forall>s \<in> set (az_sessions db). ls_id s \<in> known \<longrightarrow> ls_revoked_at s \<noteq> None)"

lemma all_revoked_later: "all_revoked known db \<Longrightarrow> sessions_move_on known (az_sessions db) (az_sessions v) \<Longrightarrow> all_revoked known v"
  by (force simp: all_revoked_def sessions_move_on_def session_moves_def)

lemma all_revokedD: "all_revoked known db \<Longrightarrow> s \<in> set (az_sessions db) \<Longrightarrow> ls_id s \<in> known \<Longrightarrow> ls_revoked_at s \<noteq> None"
  by (simp add: all_revoked_def)

lemma revoke_user_auth_state_run:
  "run_tx (revoke_user_auth_state env uid) db =
     (Inr (count_where (\<lambda>s. ls_user_id s = uid \<and> ls_revoked_at s = None) (az_sessions db),
           count_where (\<lambda>d. td_user_id d = uid \<and> td_revoked_at d = None) (az_devices db)),
      db\<lparr>az_sessions := update_where (\<lambda>s. ls_user_id s = uid \<and> ls_mfa_verified_at s \<noteq> None) (\<lambda>s. s\<lparr>ls_mfa_verified_at := None\<rparr>)
           (update_where (\<lambda>s. ls_user_id s = uid \<and> ls_revoked_at s = None) (\<lambda>s. s\<lparr>ls_revoked_at := Some (ax_now env 0)\<rparr>) (az_sessions db)),
         az_devices := update_where (\<lambda>d. td_user_id d = uid \<and> td_revoked_at d = None)
           (\<lambda>d. d\<lparr>td_revoked_at := Some (ax_now env 0)\<rparr>) (az_devices db)\<rparr>)"
  by (simp add: revoke_user_auth_state_def revoke_all_trusted_devices_for_user_def revoke_sessions_def update_sessions_def
      update_devices_def tx_simps)

lemma updated_rows: "(\<And>x. x \<in> set xs \<Longrightarrow> Q (if p x then f x else x)) \<Longrightarrow> \<forall>y \<in> set (update_where p f xs). Q y"
  unfolding in_update_where Ball_def by blast

lemma all_revoked_now:
  assumes "\<forall>s \<in> set (az_sessions db). ls_id s \<in> known \<longrightarrow> ls_user_id s = uid"
  shows "all_revoked known (snd (run_tx (revoke_user_auth_state env uid) db))"
proof -
  let ?revoked = "update_where (\<lambda>s. ls_user_id s = uid \<and> ls_revoked_at s = None) (\<lambda>s. s\<lparr>ls_revoked_at := Some (ax_now env 0)\<rparr>)
    (az_sessions db)"
  have "\<forall>s \<in> set ?revoked. ls_id s \<in> known \<longrightarrow> ls_revoked_at s \<noteq> None"
    using assms by (intro updated_rows) auto
  then have "\<forall>s \<in> set (update_where (\<lambda>s. ls_user_id s = uid \<and> ls_mfa_verified_at s \<noteq> None)
      (\<lambda>s. s\<lparr>ls_mfa_verified_at := None\<rparr>) ?revoked). ls_id s \<in> known \<longrightarrow> ls_revoked_at s \<noteq> None"
    by (intro updated_rows) (simp del: update_where_id)
  then show ?thesis by (simp add: all_revoked_def revoke_user_auth_state_run del: update_where_id)
qed

lemma devices_revoked_now:
  "\<forall>d \<in> set (az_devices (snd (run_tx (revoke_user_auth_state env uid) db))). td_user_id d = uid \<longrightarrow> td_revoked_at d \<noteq> None"
  unfolding revoke_user_auth_state_run by simp (intro updated_rows, simp)

lemma live_session_Some:
  assumes "live_session env raw db = Some s"
  shows "s \<in> set (az_sessions db)" "ls_token_hash s = ax_hash_token env raw" "ls_revoked_at s = None"
    "ls_expires_at s > ax_now env 11" "\<exists>u. user_by_id (ls_user_id s) db = Some u \<and> su_is_active u"
  using assms find_set [of "\<lambda>s. ls_token_hash s = ax_hash_token env raw" "az_sessions db" s]
  by (auto simp: live_session_def split: option.splits if_splits)

lemma lookup_returns:
  assumes "lookup_session_by_token env raw db = Inr (Some s, w)"
  shows "live_session env raw db = Some s"
  using assms by (auto simp: lookup_session_by_token_def touch_session_def Let_def tx_simps split: option.splits if_splits sum.splits)

lemma validate_returns:
  assumes "validate_session env raw db = Inr (Some s, w)"
  shows "live_session env raw db = Some s" "ls_stage s = Stage_full"
proof -
  from assms obtain found db' where f: "lookup_session_by_token env raw db = Inr (found, db')"
    and rest: "(case found of None \<Rightarrow> tx_return None
     | Some s \<Rightarrow>
         if ls_stage s \<noteq> Stage_full then tx_return None
         else tx_bind (auth_waits env 13) (\<lambda>_.
           tx_bind (tx_read (assert_full_session_mfa_policy env s)) (\<lambda>ok.
           tx_return (if ok then Some s else None)))) db' = Inr (Some s, w)"
    unfolding validate_session_def by (rule tx_bindE)
  from rest have "found = Some s \<and> ls_stage s = Stage_full"
    by (auto simp: tx_simps split: option.splits if_splits)
  then show "live_session env raw db = Some s" "ls_stage s = Stage_full"
    using lookup_returns f by auto
qed

lemma promote_returns:
  assumes "promote_session_to_full env sid uid b db = Inr (Some p, w)"
  shows "\<exists>s \<in> set (az_sessions (ax_others env 12 db)). ls_id s = sid \<and> ls_revoked_at s = None"
proof (rule ccontr)
  assume none: "\<not> (\<exists>s \<in> set (az_sessions (ax_others env 12 db)). ls_id s = sid \<and> ls_revoked_at s = None)"
  then have "count_where (\<lambda>s. owned_session sid uid (ax_now env 12) s \<and> ls_stage s \<in> set (source_stages target))
      (az_sessions (ax_others env 12 db)) = 0" for target
    by (auto simp: count_where_0 owned_session_def)
  with assms show False
    by (auto simp: promote_session_to_full_def rotate_session_def update_sessions_def Let_def tx_simps split: if_splits)
qed

lemma recent_device_returns:
  assumes "create_trusted_device_if_mfa_recent env sid input now db = Inr (Some d, w)"
  shows "\<exists>s \<in> set (az_sessions (ax_others env 7 db)). ls_id s = sid \<and> ls_revoked_at s = None"
proof -
  have "filter (mfa_recent sid now) (az_sessions (ax_others env 7 db)) \<noteq> []"
    using assms by (auto simp: create_trusted_device_if_mfa_recent_def tx_simps split: if_splits)
  then obtain s where "s \<in> set (az_sessions (ax_others env 7 db))" "mfa_recent sid now s" by (auto simp: filter_empty_conv)
  then show ?thesis by (auto simp: mfa_recent_def)
qed

lemma others_keep_revoked: "keeps_sessions known env \<Longrightarrow> all_revoked known db \<Longrightarrow> all_revoked known (ax_others env k db)"
  by (rule all_revoked_later [of _ db]) (simp_all add: keeps_sessions_def)

text \<open>C14: Once \<open>revokeUserAuthState\<close> has run, no session the user had at that moment ever validates, is promoted or
  gives a trusted device again, whatever requests follow and whatever else commits between their statements, and every
  trusted device the user had is revoked.\<close>

theorem revocation_is_final:
  assumes "\<forall>s \<in> set (az_sessions db). ls_id s \<in> known \<longrightarrow> ls_user_id s = uid"
    and "auth_history (keeps_sessions known) (snd (run_tx (revoke_user_auth_state env uid) db)) v"
    and "keeps_sessions known later"
  shows "(\<forall>raw s w. validate_session later raw v = Inr (Some s, w) \<longrightarrow> ls_id s \<notin> known) \<and>
    (\<forall>sid who b p w. sid \<in> known \<longrightarrow> promote_session_to_full later sid who b v \<noteq> Inr (Some p, w)) \<and>
    (\<forall>sid input now d w. sid \<in> known \<longrightarrow> create_trusted_device_if_mfa_recent later sid input now v \<noteq> Inr (Some d, w)) \<and>
    (\<forall>d \<in> set (az_devices (snd (run_tx (revoke_user_auth_state env uid) db))). td_user_id d = uid \<longrightarrow> td_revoked_at d \<noteq> None)"
proof (intro conjI allI impI)
  have v: "all_revoked known v"
    using all_revoked_later [OF all_revoked_now [OF assms(1)] sessions_over_history [OF assms(2)]] .
  show "ls_id s \<notin> known" if "validate_session later raw v = Inr (Some s, w)" for raw s w
    using live_session_Some [OF validate_returns(1) [OF that]] v by (auto simp: all_revoked_def)
  show "promote_session_to_full later sid who b v \<noteq> Inr (Some p, w)" if "sid \<in> known" for sid who b p w
    using promote_returns [of later sid who b v p w] that all_revokedD [OF others_keep_revoked [OF assms(3) v, of 12]] by blast
  show "create_trusted_device_if_mfa_recent later sid input now v \<noteq> Inr (Some d, w)" if "sid \<in> known" for sid input now d w
    using recent_device_returns [of later sid input now v d w] that all_revokedD [OF others_keep_revoked [OF assms(3) v, of 7]]
    by blast
qed (rule devices_revoked_now)

section \<open>The token of an unfinished sign-in\<close>

lemma auth_bindE:
  assumes "op_bind m f s = (Inr b, s'')"
  obtains a s' where "m s = (Inr a, s')" "f a s' = (Inr b, s'')"
  using assms by (cases "m s"; cases "fst (m s)") (auto simp: op_bind_def)

lemma password_stage_next:
  assumes "password_stage env uid token db = (Inr (stage, next, trusted), w)"
  shows "next = Next_complete \<longleftrightarrow> stage = Stage_full"
  using assms by (auto simp: password_stage_def auth_others_def tx_simps split: if_splits option.splits sum.splits)

lemma owed_stage_next:
  assumes "owed_stage user codes stage next = (stage', next')" "next = Next_complete \<longleftrightarrow> stage = Stage_full"
  shows "next' = Next_complete \<longleftrightarrow> stage' = Stage_full"
  using assms by (auto simp: owed_stage_def split: if_splits)

definition start_lifetime :: "auth_env \<Rightarrow> session_input \<Rightarrow> session_stage \<Rightarrow> auth_db \<Rightarrow> int option \<times> int" where
  "start_lifetime env input stage db =
     (if stage = Stage_full then full_lifetime env (si_user_id input) (ax_now env 10) db else (None, mfa_pending_session_ttl_ms))"

lemma create_session_returns:
  assumes "create_session env input db = Inr ((s, raw), w)" "si_stage input = Some stage"
  shows "raw = ax_token env 0" "s = new_session env input stage (start_lifetime env input stage db)"
    "w = (ax_others env 10 db)\<lparr>az_sessions := az_sessions (ax_others env 10 db) @ [s]\<rparr>"
    "\<forall>t \<in> set (az_sessions (ax_others env 10 db)). ls_id t \<noteq> ls_id s \<and> ls_token_hash t \<noteq> ls_token_hash s"
  using assms by (auto simp: create_session_def insert_session_def start_lifetime_def resolve_initial_session_stage_def auth_waits_def tx_simps
      split: if_splits sum.splits)

lemma create_session_shut:
  assumes "create_session env input db = Inr ((s, raw), w)" "si_stage input = Some stage" "stage \<noteq> Stage_full"
  shows "shut (ax_hash_token env raw) w"
proof -
  note r = create_session_returns [OF assms(1,2)]
  have "ls_token_hash s = ax_hash_token env raw" "ls_stage s \<noteq> Stage_full"
    by (simp_all add: r(1,2) new_session_def Let_def assms(3))
  with r(3,4) show ?thesis by (auto simp: shut_def)
qed

lemma log_entry_shut [simp]: "shut h (snd (write_security_audit_log env event uid ip tz metadata db)) = shut h db"
  by (simp add: write_security_audit_log_def shut_def)

lemma streak_reset_shut [simp]: "shut h (snd (run_tx (reset_failed_login_streak uid) db)) = shut h db"
  by (simp add: reset_failed_login_streak_def update_users_def shut_def tx_simps)

lemma finalize_shut:
  assumes run: "finalize_login_session env user stage next label ctx way db = (Inr r, w)"
    and "next = Next_complete \<longleftrightarrow> stage = Stage_full" "r = Login_ok g" "lg_next g \<noteq> Next_complete"
    and keep: "\<And>k db. shut (ax_hash_token env (ax_token env 0)) db \<Longrightarrow> shut (ax_hash_token env (ax_token env 0)) (ax_others env k db)"
  shows "lg_raw_token g = ax_token env 0 \<and> shut (ax_hash_token env (ax_token env 0)) w"
proof -
  obtain stage' next' where owed: "owed_stage user (user_has_unacknowledged_backup_codes (su_id user) db) stage next = (stage', next')"
    by (cases "owed_stage user (user_has_unacknowledged_backup_codes (su_id user) db) stage next")
  let ?input = "\<lparr>si_user_id = su_id user, si_stage = Some stage', si_auth_method = None,
          si_ip = rc_ip ctx, si_user_agent = rc_user_agent ctx, si_device_label = label, si_timezone = rc_timezone ctx,
          si_oidc_provider_id = None\<rparr>"
  from run obtain s raw d where c: "create_session env ?input (ax_others env 22 db) = Inr ((s, raw), d)"
    and w: "w = snd (run_tx (reset_failed_login_streak (su_id user)) (snd (log_login_success env ctx (su_id user) way (ax_others env 23 d))))"
    and g: "r = Login_ok \<lparr>lg_raw_token = raw, lg_session_id = ls_id s, lg_user_id = su_id user, lg_next = next',
          lg_cookie_max_age_seconds = persistent_cookie_max_age_seconds s (ax_now env 23)\<rparr>"
    by (auto simp: finalize_login_session_def owed auth_others_def log_login_success_def write_security_audit_log_def
        reset_failed_login_streak_def update_users_def tx_simps Let_def split: sum.splits prod.splits)
  from g assms(3,4) have "next' \<noteq> Next_complete" "lg_raw_token g = raw" by auto
  with owed_stage_next [OF owed assms(2)] have "stage' \<noteq> Stage_full" by simp
  with create_session_shut [OF c, of stage'] have "shut (ax_hash_token env raw) d" by simp
  moreover have "raw = ax_token env 0" using create_session_returns(1) [OF c, of stage'] by simp
  ultimately show ?thesis using keep \<open>lg_raw_token g = raw\<close> by (simp add: w log_login_success_def)
qed

lemma login_shut:
  assumes run: "login env input db = (Inr (Login_ok g), w)" and unfinished: "lg_next g \<noteq> Next_complete"
    and keep: "\<And>k db. shut (ax_hash_token env (ax_token env 0)) db \<Longrightarrow> shut (ax_hash_token env (ax_token env 0)) (ax_others env k db)"
  shows "lg_raw_token g = ax_token env 0 \<and> shut (ax_hash_token env (ax_token env 0)) w"
proof -
  let ?email = "normalize_email (li_email input)"
  obtain user where user: "find_user_by_email ?email db = Some user"
    using run by (cases "find_user_by_email ?email db")
      (auto simp: login_def refuse_login_def log_login_failure_def write_security_audit_log_def auth_others_def tx_simps Let_def split: sum.splits prod.splits)
  have pw: "verify_password_or_dummy env (li_password input) (su_password_hash user)" "su_is_active user"
    using run user by (auto simp: login_def refuse_login_def log_login_failure_def write_security_audit_log_def auth_others_def tx_simps
        Let_def split: sum.splits prod.splits if_splits)
  from run user pw have tail: "op_bind (password_stage env (su_id user) (li_trusted_device_token input)) (\<lambda>(stage, next, trusted).
               op_bind (if trusted then log_trusted_device_event env ''auth.trusted_device.used'' (li_context input) (su_id user) None
                 else op_return ()) (\<lambda>_.
               finalize_login_session env user stage next (li_device_label input) (li_context input) ''manual''))
      (ax_others env 20 db) = (Inr (Login_ok g), w)"
    by (simp add: login_def Let_def auth_others_def op_bind_def op_read_def)
  then obtain stage "next" trusted d where p: "password_stage env (su_id user) (li_trusted_device_token input) (ax_others env 20 db)
        = (Inr (stage, next, trusted), d)"
    and tail: "op_bind (if trusted then log_trusted_device_event env ''auth.trusted_device.used'' (li_context input) (su_id user) None
                 else op_return ()) (\<lambda>_.
               finalize_login_session env user stage next (li_device_label input) (li_context input) ''manual'') d = (Inr (Login_ok g), w)"
    by (elim auth_bindE) auto
  from tail obtain d' where "finalize_login_session env user stage next (li_device_label input) (li_context input) ''manual'' d'
      = (Inr (Login_ok g), w)"
    by (elim auth_bindE) auto
  from finalize_shut [OF this password_stage_next [OF p] refl unfinished keep] show ?thesis .
qed

text \<open>C13: A sign-in that is told to go on with anything but \<open>complete\<close> (a second factor, an enrollment, the backup codes, a new
  password) holds a token that never validates as a session, in whatever state later requests and other
  transactions lead to, as long as nobody else draws the same random token.\<close>

theorem unfinished_sign_in_never_unlocks:
  assumes "login env input db = (Inr (Login_ok g), v)" "lg_next g \<noteq> Next_complete"
    and "\<And>k db. shut (ax_hash_token env (ax_token env 0)) db \<Longrightarrow> shut (ax_hash_token env (ax_token env 0)) (ax_others env k db)"
    and "auth_history (keeps_shut (ax_hash_token env (lg_raw_token g))) v v'"
    and "ax_hash_token later = ax_hash_token env"
  shows "validate_session later (lg_raw_token g) v' \<noteq> Inr (Some s, w)"
proof
  assume run: "validate_session later (lg_raw_token g) v' = Inr (Some s, w)"
  from login_shut [OF assms(1,2,3)] have "shut (ax_hash_token env (lg_raw_token g)) v" by simp
  with shut_over_history [OF assms(4)] have "shut (ax_hash_token env (lg_raw_token g)) v'" .
  with live_session_Some(1,2) [OF validate_returns(1) [OF run]] validate_returns(2) [OF run] assms(5) show False
    by (auto simp: shut_def)
qed

section \<open>How long a session lives\<close>

lemma later_end_Some: "later_end acc e = Some t \<Longrightarrow> acc = Some t \<or> e = Some t"
  by (auto simp: later_end_def split: option.splits if_splits)

lemma latest_end_of:
  assumes "foldl (\<lambda>acc e. later_end acc (g e)) acc es = Some t"
  shows "acc = Some t \<or> (\<exists>e \<in> set es. g e = Some t)"
  using assms
proof (induction es arbitrary: acc)
  case (Cons e es)
  then have "foldl (\<lambda>acc e. later_end acc (g e)) (later_end acc (g e)) es = Some t" by simp
  from Cons.IH [OF this] later_end_Some show ?case by fastforce
qed simp

text \<open>The rule of the event day: who may have such a session, and where its end comes from.\<close>

definition day_pass :: "auth_env \<Rightarrow> string \<Rightarrow> int \<Rightarrow> auth_db \<Rightarrow> int \<Rightarrow> bool" where
  "day_pass env uid now db t \<longleftrightarrow> get_operator_event_day_sessions_enabled env db \<and> \<not> has_elevated_role uid db \<and>
     (\<exists>e \<in> set (az_events db). ae_id e \<in> set (assigned_event_ids uid db) \<and> ae_archived_at e = None \<and>
       (\<exists>w. event_day_window env e = Some w \<and> dw_start w \<le> now \<and> now < dw_end w \<and> t = dw_session_end w))"

lemma event_day_session_end_pass:
  assumes "resolve_event_day_session_end env uid now db = Some t"
  shows "day_pass env uid now db t"
proof -
  let ?near = "near_events (assigned_event_ids uid db) now db"
  from assms have on: "get_operator_event_day_sessions_enabled env db" "\<not> has_elevated_role uid db"
    and f: "foldl (\<lambda>acc e. later_end acc (day_session_end env now e)) None ?near = Some t"
    by (auto simp: resolve_event_day_session_end_def Let_def split: if_splits)
  from latest_end_of [OF f] obtain e where e: "e \<in> set ?near" "day_session_end env now e = Some t" by auto
  from e(2) obtain w where "event_day_window env e = Some w" "dw_start w \<le> now" "now < dw_end w" "t = dw_session_end w"
    by (auto simp: day_session_end_def split: option.splits if_splits)
  with on e(1) show ?thesis by (auto simp: day_pass_def near_events_def)
qed

text \<open>C19: How long a new session lives: an unfinished one fifteen minutes; a full one the time its role has, or, for a
  sign-in of someone who only works at events while the day of one of his events runs and the switch is on, until the end
  that this day sets.\<close>

theorem session_lifetime_bounded:
  assumes "create_session env input db = Inr ((s, raw), w)" "si_stage input = Some stage"
  shows "ls_stage s = stage \<and> ls_revoked_at s = None \<and>
    (if stage \<noteq> Stage_full then ls_expires_at s = ls_created_at s + 15 * 60 * 1000 \<and> \<not> ls_remember_me s
     else if ls_remember_me s then day_pass env (si_user_id input) (ls_created_at s) db (ls_expires_at s)
     else ls_expires_at s = ls_created_at s + (if has_elevated_role (si_user_id input) db
       then get_session_ttl_admin_ms env db else get_session_ttl_operator_ms env db))"
proof -
  have s: "s = new_session env input stage (start_lifetime env input stage db)" by (rule create_session_returns(2) [OF assms])
  show ?thesis
  proof (cases "resolve_event_day_session_end env (si_user_id input) (ax_now env 10) db")
    case None
    then show ?thesis
      by (simp add: s new_session_def Let_def start_lifetime_def mfa_pending_session_ttl_ms_def full_lifetime_def resolve_full_ttl_ms_def)
  next
    case (Some t)
    from event_day_session_end_pass [OF Some] Some show ?thesis
      by (simp add: s new_session_def Let_def start_lifetime_def mfa_pending_session_ttl_ms_def full_lifetime_def)
  qed
qed

section \<open>A code works once\<close>

lemma totp_code_accepted:
  assumes "verify_user_totp_code_detailed env uid code db = Inr ((True, replay), v)" and "totp_row uid True db = Some row"
  obtains enc t where "mf_secret_enc row = Some enc"
    "verify_totp_code_detailed env enc code (mf_last_totp_time_step row) (mf_recent_totp_time_steps row) = Totp_valid t"
    "v = (ax_others env 1 db)\<lparr>az_methods := update_where (advances_watermark (mf_id row) t) (\<lambda>r. r\<lparr>mf_last_used_at := Some (ax_now env 3),
         mf_last_totp_time_step := Some t,
         mf_recent_totp_time_steps := recent_time_steps_after_accepting (mf_recent_totp_time_steps row) t\<rparr>)
         (az_methods (ax_others env 1 db))\<rparr>"
proof -
  from assms obtain enc where enc: "mf_secret_enc row = Some enc"
    by (auto simp: verify_user_totp_code_detailed_def truthy_def tx_simps split: if_splits option.splits)
  show ?thesis
  proof (cases "verify_totp_code_detailed env enc code (mf_last_totp_time_step row) (mf_recent_totp_time_steps row)")
    case (Totp_valid t)
    with assms enc have "accept_time_step env row t db = Inr ((True, replay), v)"
      by (auto simp: verify_user_totp_code_detailed_def tx_simps split: if_splits)
    then have "v = (ax_others env 1 db)\<lparr>az_methods := update_where (advances_watermark (mf_id row) t) (\<lambda>r. r\<lparr>mf_last_used_at := Some (ax_now env 3),
         mf_last_totp_time_step := Some t,
         mf_recent_totp_time_steps := recent_time_steps_after_accepting (mf_recent_totp_time_steps row) t\<rparr>)
         (az_methods (ax_others env 1 db))\<rparr>"
      by (auto simp: accept_time_step_def update_methods_def tx_simps split: if_splits)
    with that enc Totp_valid show ?thesis by blast
  next
    case (Totp_invalid b)
    with assms enc show ?thesis by (auto simp: verify_user_totp_code_detailed_def tx_simps split: if_splits)
  qed
qed

text \<open>Every row of an app that has accepted a step stands at that step or a later one.\<close>

definition standing_at :: "string \<Rightarrow> string \<Rightarrow> int \<Rightarrow> auth_db \<Rightarrow> bool" where
  "standing_at rid enc t db \<longleftrightarrow> (\<forall>r \<in> set (az_methods db). mf_id r = rid \<longrightarrow> mf_secret_enc r = Some enc \<and> mf_confirmed_at r \<noteq> None \<and>
     (\<exists>l. mf_last_totp_time_step r = Some l \<and> t \<le> l))"

lemma standing_at_later:
  assumes "standing_at rid enc t db" "factors_move_on known (az_methods db) (az_methods v)" "rid \<in> known"
  shows "standing_at rid enc t v"
  unfolding standing_at_def
proof (intro ballI impI)
  fix r
  assume r: "r \<in> set (az_methods v)" "mf_id r = rid"
  with assms(2,3) obtain r0 where r0: "r0 \<in> set (az_methods db)" "factor_moves r0 r" by (auto simp: factors_move_on_def)
  with r(2) have "mf_id r0 = rid" by (simp add: factor_moves_def)
  with assms(1) r0 show "mf_secret_enc r = Some enc \<and> mf_confirmed_at r \<noteq> None \<and> (\<exists>l. mf_last_totp_time_step r = Some l \<and> t \<le> l)"
    by (fastforce simp: standing_at_def factor_moves_def step_le_def split: option.splits)
qed

lemma standing_after_acceptance:
  assumes acc: "verify_user_totp_code_detailed env uid code db = Inr ((True, replay), v)" and row: "totp_row uid True db = Some row"
    and alone: "\<forall>r \<in> set (az_methods db). mf_id r = mf_id row \<longrightarrow> r = row"
    and keep: "keeps_factors known env" "mf_id row \<in> known"
  obtains enc secret t where "mf_secret_enc row = Some enc" "ax_decrypt env enc = Some secret"
    "ax_totp_step env secret (normalize_totp_token code) (mf_last_totp_time_step row) = Some t" "standing_at (mf_id row) enc t v"
proof -
  from acc row obtain enc t where enc: "mf_secret_enc row = Some enc"
    and ok: "verify_totp_code_detailed env enc code (mf_last_totp_time_step row) (mf_recent_totp_time_steps row) = Totp_valid t"
    and v: "v = (ax_others env 1 db)\<lparr>az_methods := update_where (advances_watermark (mf_id row) t) (\<lambda>r. r\<lparr>mf_last_used_at := Some (ax_now env 3),
         mf_last_totp_time_step := Some t,
         mf_recent_totp_time_steps := recent_time_steps_after_accepting (mf_recent_totp_time_steps row) t\<rparr>)
         (az_methods (ax_others env 1 db))\<rparr>" by (rule totp_code_accepted)
  from ok obtain secret where s: "ax_decrypt env enc = Some secret"
    "ax_totp_step env secret (normalize_totp_token code) (mf_last_totp_time_step row) = Some t"
    by (auto simp: verify_totp_code_detailed_def split: option.splits)
  have conf: "mf_confirmed_at row \<noteq> None"
    using find_set [OF row [unfolded totp_row_def]] by simp
  have here: "mf_secret_enc r = Some enc \<and> mf_confirmed_at r \<noteq> None"
    if "r \<in> set (az_methods (ax_others env 1 db))" "mf_id r = mf_id row" for r
  proof -
    from that keep have "\<exists>r0 \<in> set (az_methods db). factor_moves r0 r" by (auto simp: keeps_factors_def factors_move_on_def)
    then obtain r0 where r0: "r0 \<in> set (az_methods db)" "factor_moves r0 r" ..
    with that(2) alone have "r0 = row" by (auto simp: factor_moves_def)
    with r0(2) enc conf show ?thesis by (simp add: factor_moves_def)
  qed
  let ?f = "\<lambda>r. r\<lparr>mf_last_used_at := Some (ax_now env 3), mf_last_totp_time_step := Some t,
         mf_recent_totp_time_steps := recent_time_steps_after_accepting (mf_recent_totp_time_steps row) t\<rparr>"
  have "\<forall>r \<in> set (update_where (advances_watermark (mf_id row) t) ?f (az_methods (ax_others env 1 db))).
      mf_id r = mf_id row \<longrightarrow> mf_secret_enc r = Some enc \<and> mf_confirmed_at r \<noteq> None \<and>
      (\<exists>l. mf_last_totp_time_step r = Some l \<and> t \<le> l)"
  proof (rule updated_rows)
    fix r
    assume r: "r \<in> set (az_methods (ax_others env 1 db))"
    let ?r = "if advances_watermark (mf_id row) t r then ?f r else r"
    show "mf_id ?r = mf_id row \<longrightarrow> mf_secret_enc ?r = Some enc \<and> mf_confirmed_at ?r \<noteq> None \<and>
      (\<exists>l. mf_last_totp_time_step ?r = Some l \<and> t \<le> l)"
      using here [OF r] by (auto simp: advances_watermark_def split: option.splits)
  qed
  then have "standing_at (mf_id row) enc t v"
    unfolding standing_at_def v by (simp del: update_where_id)
  with that enc s show ?thesis by blast
qed

lemma step_up_totp:
  assumes "verify_totp_or_recovery_code_detailed env uid code db = Inr (Step_up_ok Way_totp, v)"
  shows "\<exists>replay. verify_user_totp_code_detailed env uid (js_trim code) db = Inr ((True, replay), v)"
  using assms by (auto simp: verify_totp_or_recovery_code_detailed_def consume_recovery_row_def update_methods_def find_recovery_row_def
      auth_waits_def tx_simps Let_def split: if_splits sum.splits option.splits)

text \<open>C15: A time step of an authenticator app is accepted at most once. When the app was accepted with a code, and is accepted
  with a code again in whatever state later requests and other transactions lead to, then under the same secret the step of the
  second is later than the step of the first: a replayed code, or any code of a step that was used or passed over, is refused. The
  verifier may answer differently at each request (its clock moves on); it is only asked, at the second, what totp.ts
  relies on: a match is later than the step given as \<open>afterTimeStep\<close>.
\<close>

theorem authenticator_step_works_once:
  assumes "verify_totp_or_recovery_code_detailed env uid code db = Inr (Step_up_ok Way_totp, v)"
    and "totp_row uid True db = Some row" "\<forall>r \<in> set (az_methods db). mf_id r = mf_id row \<longrightarrow> r = row"
    and "keeps_factors known env" "mf_id row \<in> known" "auth_history (keeps_factors known) v v'"
    and "totp_row uid True v' = Some row'" "mf_id row' = mf_id row"
    and "\<And>secret c a t. ax_totp_step later secret c (Some a) = Some t \<Longrightarrow> a < t"
    and "verify_totp_or_recovery_code_detailed later uid code' v' = Inr (Step_up_ok Way_totp, w)"
  shows "\<exists>enc secret secret' t u. mf_secret_enc row = Some enc \<and> mf_secret_enc row' = Some enc \<and>
    ax_decrypt env enc = Some secret \<and> ax_decrypt later enc = Some secret' \<and>
    ax_totp_step env secret (normalize_totp_token (js_trim code)) (mf_last_totp_time_step row) = Some t \<and>
    ax_totp_step later secret' (normalize_totp_token (js_trim code')) (mf_last_totp_time_step row') = Some u \<and> t < u"
proof -
  from step_up_totp [OF assms(10)] obtain b where again: "verify_user_totp_code_detailed later uid (js_trim code') v' = Inr ((True, b), w)" ..
  from step_up_totp [OF assms(1)] obtain a where "verify_user_totp_code_detailed env uid (js_trim code) db = Inr ((True, a), v)" ..
  from standing_after_acceptance [OF this assms(2-5)] obtain enc secret t where dec: "mf_secret_enc row = Some enc" "ax_decrypt env enc = Some secret"
    and t: "ax_totp_step env secret (normalize_totp_token (js_trim code)) (mf_last_totp_time_step row) = Some t"
    and st: "standing_at (mf_id row) enc t v" .
  have "standing_at (mf_id row) enc t v'" by (rule standing_at_later [OF st factors_over_history [OF assms(6)] assms(5)])
  moreover have "row' \<in> set (az_methods v')" using find_set [OF assms(7) [unfolded totp_row_def]] by simp
  ultimately obtain l where l: "mf_secret_enc row' = Some enc" "mf_last_totp_time_step row' = Some l" "t \<le> l"
    using assms(8) by (auto simp: standing_at_def)
  from totp_code_accepted [OF again assms(7)] obtain enc' u where "mf_secret_enc row' = Some enc'"
    "verify_totp_code_detailed later enc' (js_trim code') (mf_last_totp_time_step row') (mf_recent_totp_time_steps row') = Totp_valid u" .
  with l obtain secret' where "ax_decrypt later enc = Some secret'"
    "ax_totp_step later secret' (normalize_totp_token (js_trim code')) (Some l) = Some u"
    by (auto simp: verify_totp_code_detailed_def split: option.splits)
  with assms(9) [OF this(2)] dec t l show ?thesis by auto
qed

definition used_up :: "string \<Rightarrow> auth_db \<Rightarrow> bool" where
  "used_up rid db \<longleftrightarrow> (\<forall>r \<in> set (az_methods db). mf_id r = rid \<longrightarrow> mf_last_used_at r \<noteq> None)"

lemma used_up_later: "used_up rid db \<Longrightarrow> factors_move_on known (az_methods db) (az_methods v) \<Longrightarrow> rid \<in> known \<Longrightarrow> used_up rid v"
  by (force simp: used_up_def factors_move_on_def factor_moves_def)

lemma consumed_used_up:
  assumes "consume_recovery_row env rid db = Inr (ok, v)"
  shows "used_up rid v" "ok \<Longrightarrow> \<not> used_up rid db"
proof -
  have "\<forall>r \<in> set (update_where (\<lambda>r. mf_id r = rid \<and> mf_last_used_at r = None) (\<lambda>r. r\<lparr>mf_last_used_at := Some (ax_now env 3)\<rparr>)
      (az_methods db)). mf_id r = rid \<longrightarrow> mf_last_used_at r \<noteq> None"
    by (rule updated_rows) simp
  with assms show "used_up rid v"
    by (auto simp: used_up_def consume_recovery_row_def update_methods_def tx_simps simp del: update_where_id)
  show "\<not> used_up rid db" if ok
  proof
    assume "used_up rid db"
    then have "count_where (\<lambda>r. mf_id r = rid \<and> mf_last_used_at r = None) (az_methods db) = 0"
      by (auto simp: count_where_0 used_up_def)
    with assms that show False by (simp add: consume_recovery_row_def update_methods_def tx_simps)
  qed
qed

lemma matching_row_unused:
  assumes "find_recovery_row env uid code db = Some (rid, way)"
  shows "\<not> used_up rid db"
proof -
  have found: "\<exists>r \<in> set rows. mf_id r = rid" if "find_matching_recovery_row_id env rows c = Some rid" for rows c
    using that find_set by (force simp: find_matching_recovery_row_id_def)
  have "find_backup_recovery_row_id env uid code db = Some rid \<or> find_emergency_recovery_row_id env uid code db = Some rid"
    using assms by (auto simp: find_recovery_row_def split: option.splits)
  then have "(\<exists>r \<in> set (load_unused_backup_recovery_rows uid db). mf_id r = rid) \<or>
      (\<exists>r \<in> set (filter (emergency_code_row uid) (az_methods db)). mf_id r = rid)"
    unfolding find_backup_recovery_row_id_def find_emergency_recovery_row_id_def using found by blast
  then show ?thesis by (auto simp: used_up_def load_unused_backup_recovery_rows_def emergency_code_row_def)
qed

text \<open>C16: A recovery code is accepted at most once: the row that matched it is consumed by the same transaction, and in
  whatever state later requests and other transactions lead to it neither matches any code nor can it be consumed.
\<close>

theorem recovery_code_works_once:
  assumes "verify_totp_or_recovery_code_detailed env uid code db = Inr (Step_up_ok way, v)" "way \<noteq> Way_totp"
  shows "\<exists>d rid. find_recovery_row env uid (js_trim code) d = Some (rid, way) \<and>
    consume_recovery_row env rid (ax_others env 3 d) = Inr (True, v) \<and>
    (\<forall>known v' later c way' w. rid \<in> known \<longrightarrow> auth_history (keeps_factors known) v v' \<longrightarrow>
       find_recovery_row later uid c v' \<noteq> Some (rid, way') \<and> consume_recovery_row later rid v' \<noteq> Inr (True, w))"
proof -
  from assms obtain d rid where d: "find_recovery_row env uid (js_trim code) d = Some (rid, way)"
    "consume_recovery_row env rid (ax_others env 3 d) = Inr (True, v)"
    by (auto simp: verify_totp_or_recovery_code_detailed_def auth_waits_def tx_simps Let_def split: if_splits sum.splits option.splits)
  have "find_recovery_row later uid c v' \<noteq> Some (rid, way') \<and> consume_recovery_row later rid v' \<noteq> Inr (True, w)"
    if "rid \<in> known" "auth_history (keeps_factors known) v v'" for known v' later c way' w
    using used_up_later [OF consumed_used_up(1) [OF d(2)] factors_over_history [OF that(2)] that(1)]
      matching_row_unused [of later uid c v' rid way'] consumed_used_up(2) [of later rid v' True w] by auto
  with d show ?thesis by blast
qed

section \<open>What a verified password leads to\<close>

definition quiet_auth :: "auth_env \<Rightarrow> bool" where
  "quiet_auth env \<longleftrightarrow> (\<forall>k db. ax_others env k db = db) \<and> (\<forall>event. ax_log_works env event)"

text \<open>The order of the gates: a missing second factor, one to be asked for, the backup codes, a new password.\<close>

definition device_trusted :: "auth_env \<Rightarrow> string \<Rightarrow> string option \<Rightarrow> auth_db \<Rightarrow> bool" where
  "device_trusted env uid token db \<longleftrightarrow> truthy token \<and> valid_device env uid (the token) (ax_now env 2) db \<noteq> None"

definition owes_factor :: "auth_env \<Rightarrow> string \<Rightarrow> string option \<Rightarrow> auth_db \<Rightarrow> bool" where
  "owes_factor env uid token db \<longleftrightarrow> user_requires_mfa env uid db \<and>
     \<not> (user_has_any_confirmed_mfa_method uid db \<and> device_trusted env uid token db)"

definition gate_of :: "auth_env \<Rightarrow> staff_user \<Rightarrow> string option \<Rightarrow> auth_db \<Rightarrow> session_stage" where
  "gate_of env u token db =
     (if owes_factor env (su_id u) token db
      then if user_has_any_confirmed_mfa_method (su_id u) db then Stage_mfa_pending else Stage_enrollment_required
      else if user_has_unacknowledged_backup_codes (su_id u) db then Stage_backup_codes_required
      else if su_must_change_password u then Stage_change_password_required
      else Stage_full)"

fun next_of :: "session_stage \<Rightarrow> login_next" where
  "next_of Stage_full = Next_complete"
| "next_of Stage_mfa_pending = Next_mfa_required"
| "next_of Stage_enrollment_required = Next_enrollment_required"
| "next_of Stage_backup_codes_required = Next_backup_codes_required"
| "next_of Stage_change_password_required = Next_change_password"

lemma validate_device_quiet:
  assumes "quiet_auth env"
  shows "\<exists>ds. run_tx (validate_trusted_device env uid raw) db =
    (Inr (valid_device env uid raw (ax_now env 2) db \<noteq> None), db\<lparr>az_devices := ds\<rparr>)"
proof (cases "valid_device env uid raw (ax_now env 2) db")
  case None
  then have "run_tx (validate_trusted_device env uid raw) db =
    (Inr (valid_device env uid raw (ax_now env 2) db \<noteq> None), db\<lparr>az_devices := az_devices db\<rparr>)"
    by (simp add: validate_trusted_device_def tx_simps)
  then show ?thesis ..
next
  case (Some d)
  then have "d \<in> set (az_devices db)"
    by (auto simp: valid_device_def split: if_splits option.splits dest: find_set)
  then have "count_where (\<lambda>e. td_id e = td_id d) (az_devices db) \<noteq> 0" by (auto simp: count_where_0)
  with Some assms have "run_tx (validate_trusted_device env uid raw) db =
    (Inr (valid_device env uid raw (ax_now env 2) db \<noteq> None), db\<lparr>az_devices := update_where (\<lambda>e. td_id e = td_id d)
      (\<lambda>e. e\<lparr>td_last_used_at := ax_now env 2\<rparr>) (az_devices db)\<rparr>)"
    by (simp add: validate_trusted_device_def update_devices_def quiet_auth_def auth_waits_def tx_simps)
  then show ?thesis ..
qed

lemma password_stage_quiet:
  assumes "quiet_auth env"
  shows "\<exists>stage next trusted ds. password_stage env uid token db = (Inr (stage, next, trusted), db\<lparr>az_devices := ds\<rparr>) \<and>
    next = next_of stage \<and>
    stage = (if owes_factor env uid token db
      then if user_has_any_confirmed_mfa_method uid db then Stage_mfa_pending else Stage_enrollment_required else Stage_full)"
proof -
  obtain ds where v: "run_tx (validate_trusted_device env uid (the token)) db =
    (Inr (valid_device env uid (the token) (ax_now env 2) db \<noteq> None), db\<lparr>az_devices := ds\<rparr>)"
    using validate_device_quiet [OF assms] by blast
  have same: "\<exists>ds. db = db\<lparr>az_devices := ds\<rparr>" by (rule exI [of _ "az_devices db"]) simp
  have others [simp]: "ax_others env k db = db" for k using assms by (simp add: quiet_auth_def)
  consider "\<not> user_requires_mfa env uid db" | "user_requires_mfa env uid db" "\<not> user_has_any_confirmed_mfa_method uid db"
    | "user_requires_mfa env uid db" "user_has_any_confirmed_mfa_method uid db" "\<not> truthy token"
    | "user_requires_mfa env uid db" "user_has_any_confirmed_mfa_method uid db" "truthy token" by blast
  then show ?thesis
  proof cases
    case 4
    then have "password_stage env uid token db =
      (Inr (if device_trusted env uid token db then (Stage_full, Next_complete, True) else (Stage_mfa_pending, Next_mfa_required, False)),
       db\<lparr>az_devices := ds\<rparr>)"
      by (simp add: password_stage_def auth_others_def op_bind_def op_read_def op_return_def v device_trusted_def)
    with 4 show ?thesis by (cases "device_trusted env uid token db") (auto simp: owes_factor_def)
  qed (use same in \<open>auto simp: password_stage_def auth_others_def op_bind_def op_read_def op_return_def owes_factor_def device_trusted_def\<close>)
qed

definition opened_session :: "auth_env \<Rightarrow> login_input \<Rightarrow> staff_user \<Rightarrow> session_stage \<Rightarrow> auth_db \<Rightarrow> login_session" where
  "opened_session env input u stage db =
     (let si = \<lparr>si_user_id = su_id u, si_stage = Some stage, si_auth_method = None, si_ip = rc_ip (li_context input),
            si_user_agent = rc_user_agent (li_context input), si_device_label = li_device_label input,
            si_timezone = rc_timezone (li_context input), si_oidc_provider_id = None\<rparr>
      in new_session env si stage (start_lifetime env si stage db))"

lemma elsewhere_devices [simp]:
  "user_has_unacknowledged_backup_codes uid (db\<lparr>az_devices := ds\<rparr>) = user_has_unacknowledged_backup_codes uid db"
  "user_by_id uid (db\<lparr>az_devices := ds\<rparr>) = user_by_id uid db"
  by (simp_all add: user_has_unacknowledged_backup_codes_def user_by_id_def)

lemma elsewhere_log [simp]:
  "user_has_unacknowledged_backup_codes uid (db\<lparr>az_security_log := es\<rparr>) = user_has_unacknowledged_backup_codes uid db"
  "user_by_id uid (db\<lparr>az_security_log := es\<rparr>) = user_by_id uid db"
  by (simp_all add: user_has_unacknowledged_backup_codes_def user_by_id_def)

lemma settings_elsewhere [simp]:
  "get_setting env key (db\<lparr>az_devices := ds\<rparr>) = get_setting env key db"
  "roles_of_user uid (db\<lparr>az_devices := ds\<rparr>) = roles_of_user uid db"
  "near_events ids now (db\<lparr>az_devices := ds\<rparr>) = near_events ids now db"
  "get_setting env key (db\<lparr>az_security_log := es\<rparr>) = get_setting env key db"
  "roles_of_user uid (db\<lparr>az_security_log := es\<rparr>) = roles_of_user uid db"
  "near_events ids now (db\<lparr>az_security_log := es\<rparr>) = near_events ids now db"
  by (cases "env_override env key"; simp add: get_setting_def roles_of_user_def near_events_def)+

lemma ends_elsewhere [simp]:
  "resolve_event_day_session_end env uid now (db\<lparr>az_devices := ds\<rparr>) = resolve_event_day_session_end env uid now db"
  "resolve_full_ttl_ms env uid (db\<lparr>az_devices := ds\<rparr>) = resolve_full_ttl_ms env uid db"
  "resolve_event_day_session_end env uid now (db\<lparr>az_security_log := es\<rparr>) = resolve_event_day_session_end env uid now db"
  "resolve_full_ttl_ms env uid (db\<lparr>az_security_log := es\<rparr>) = resolve_full_ttl_ms env uid db"
  by (simp_all add: resolve_event_day_session_end_def resolve_full_ttl_ms_def has_elevated_role_def assigned_event_ids_def
      get_operator_event_day_sessions_enabled_def get_session_ttl_admin_ms_def get_session_ttl_operator_ms_def Let_def)

lemma lifetime_elsewhere [simp]:
  "start_lifetime env si stage (db\<lparr>az_devices := ds\<rparr>) = start_lifetime env si stage db"
  "start_lifetime env si stage (db\<lparr>az_security_log := es\<rparr>) = start_lifetime env si stage db"
  by (simp_all add: start_lifetime_def full_lifetime_def Let_def split: option.split)

lemma refuse_login_quiet:
  assumes "quiet_auth env"
  shows "fst (refuse_login env ctx email user reason answer db) = Inr answer \<and>
    az_sessions (snd (refuse_login env ctx email user reason answer db)) = az_sessions db"
  using assms by (auto simp: refuse_login_def log_login_failure_def record_failed_login_failure_side_effects_def run_timing_pad_streak_write_def
      bump_privileged_login_streak_atomic_def write_security_audit_log_def update_users_def auth_others_def quiet_auth_def tx_simps
      split: option.split)

lemma finalize_quiet:
  assumes "quiet_auth env" "owed_stage user (user_has_unacknowledged_backup_codes (su_id user) db) stage next = (stage', next')"
    and "user_by_id (su_id user) db \<noteq> None"
    and "\<forall>s \<in> set (az_sessions db). ls_id s \<noteq> ax_fresh_id env 0 \<and> ls_token_hash s \<noteq> ax_hash_token env (ax_token env 0)"
    and "s = opened_session env \<lparr>li_email = [], li_password = [], li_device_label = label, li_trusted_device_token = None,
      li_context = ctx\<rparr> user stage' db"
  shows "fst (finalize_login_session env user stage next label ctx way db) = Inr (Login_ok \<lparr>lg_raw_token = ax_token env 0,
      lg_session_id = ax_fresh_id env 0, lg_user_id = su_id user, lg_next = next',
      lg_cookie_max_age_seconds = persistent_cookie_max_age_seconds s (ax_now env 23)\<rparr>) \<and>
    az_sessions (snd (finalize_login_session env user stage next label ctx way db)) = az_sessions db @ [s]"
proof -
  let ?input = "\<lparr>si_user_id = su_id user, si_stage = Some stage', si_auth_method = None, si_ip = rc_ip ctx,
    si_user_agent = rc_user_agent ctx, si_device_label = label, si_timezone = rc_timezone ctx, si_oidc_provider_id = None\<rparr>"
  have s: "s = new_session env ?input stage' (start_lifetime env ?input stage' db)"
    by (simp add: assms(5) opened_session_def Let_def)
  have keys: "ls_id s = ax_fresh_id env 0" "ls_token_hash s = ax_hash_token env (ax_token env 0)" "ls_user_id s = su_id user"
    by (simp_all add: s new_session_def Let_def)
  have "insert_session s db = Inr (s, db\<lparr>az_sessions := az_sessions db @ [s]\<rparr>)"
    using assms(3,4) by (auto simp: insert_session_def keys)
  then have "create_session env ?input db = Inr ((s, ax_token env 0), db\<lparr>az_sessions := az_sessions db @ [s]\<rparr>)"
    using assms(1) by (simp add: create_session_def resolve_initial_session_stage_def auth_waits_def quiet_auth_def tx_simps
        s start_lifetime_def)
  with assms(1,2) keys(1) show ?thesis
    by (simp add: finalize_login_session_def auth_others_def log_login_success_def write_security_audit_log_def
        reset_failed_login_streak_def update_users_def quiet_auth_def tx_simps Let_def)
qed

lemma gate_owed:
  assumes "next = next_of stage"
    and "stage = (if owes_factor env (su_id u) token db
      then if user_has_any_confirmed_mfa_method (su_id u) db then Stage_mfa_pending else Stage_enrollment_required else Stage_full)"
  shows "owed_stage u (user_has_unacknowledged_backup_codes (su_id u) db) stage next = (gate_of env u token db, next_of (gate_of env u token db))"
  using assms by (simp add: owed_stage_def gate_of_def)

lemma find_user_by_email_Some:
  assumes "find_user_by_email email db = Some u"
  shows "user_by_id (su_id u) db \<noteq> None"
  using assms by (auto simp: find_user_by_email_def user_by_id_def find_None Let_def split: if_splits dest: find_set)

text \<open>C17: What a password sign-in answers, when nothing else commits meanwhile: an unknown address, a wrong password and an inactive
  account are refused and open nothing; else exactly one session is opened, under the fresh token, at the first gate of
  the order missing factor, second factor unless the device is trusted, unread backup codes, forced new
  password, and the caller is told to go on with just that.
\<close>

theorem login_opens_one_session:
  assumes quiet: "quiet_auth env"
    and fresh: "\<forall>s \<in> set (az_sessions db). ls_id s \<noteq> ax_fresh_id env 0 \<and> ls_token_hash s \<noteq> ax_hash_token env (ax_token env 0)"
  shows "case find_user_by_email (normalize_email (li_email input)) db of
      None \<Rightarrow> fst (login env input db) = Inr Login_invalid \<and> az_sessions (snd (login env input db)) = az_sessions db
    | Some u \<Rightarrow>
        if \<not> verify_password_or_dummy env (li_password input) (su_password_hash u)
        then fst (login env input db) = Inr Login_invalid \<and> az_sessions (snd (login env input db)) = az_sessions db
        else if \<not> su_is_active u
        then fst (login env input db) = Inr Login_inactive \<and> az_sessions (snd (login env input db)) = az_sessions db
        else let stage = gate_of env u (li_trusted_device_token input) db; s = opened_session env input u stage db
          in fst (login env input db) = Inr (Login_ok \<lparr>lg_raw_token = ax_token env 0, lg_session_id = ax_fresh_id env 0,
                lg_user_id = su_id u, lg_next = next_of stage,
                lg_cookie_max_age_seconds = persistent_cookie_max_age_seconds s (ax_now env 23)\<rparr>) \<and>
             az_sessions (snd (login env input db)) = az_sessions db @ [s]"
proof -
  have others: "auth_others env k db = (Inr (), db)" for k db using quiet by (simp add: auth_others_def quiet_auth_def)
  show ?thesis
  proof (cases "find_user_by_email (normalize_email (li_email input)) db")
    case None
    with refuse_login_quiet [OF quiet] show ?thesis
      by (simp add: login_def Let_def others op_bind_def op_read_def)
  next
    case (Some u)
    show ?thesis
    proof (cases "verify_password_or_dummy env (li_password input) (su_password_hash u) \<and> su_is_active u")
      case False
      with Some refuse_login_quiet [OF quiet] show ?thesis
        by (auto simp: login_def Let_def others op_bind_def op_read_def)
    next
      case True
      let ?token = "li_trusted_device_token input"
      obtain stage "next" trusted ds where p: "password_stage env (su_id u) ?token db = (Inr (stage, next, trusted), db\<lparr>az_devices := ds\<rparr>)"
        and st: "next = next_of stage" "stage = (if owes_factor env (su_id u) ?token db
          then if user_has_any_confirmed_mfa_method (su_id u) db then Stage_mfa_pending else Stage_enrollment_required else Stage_full)"
        using password_stage_quiet [OF quiet] by blast
      define d where "d = snd ((if trusted then log_trusted_device_event env ''auth.trusted_device.used'' (li_context input) (su_id u) None
                 else op_return ()) (db\<lparr>az_devices := ds\<rparr>))"
      obtain es where d: "d = db\<lparr>az_devices := ds, az_security_log := es\<rparr>"
      proof (cases trusted)
        case False
        then have "d = db\<lparr>az_devices := ds, az_security_log := az_security_log db\<rparr>" by (simp add: d_def op_return_def)
        then show thesis by (rule that)
      qed (use that quiet in \<open>auto simp: d_def log_trusted_device_event_def write_security_audit_log_def quiet_auth_def\<close>)
      have run: "login env input db = finalize_login_session env u stage next (li_device_label input) (li_context input) ''manual'' d"
        using Some True by (simp add: login_def Let_def others op_bind_def op_read_def p d_def log_trusted_device_event_def
            write_security_audit_log_def op_return_def)
      let ?s = "opened_session env input u (gate_of env u ?token db) db"
      have s: "?s = opened_session env \<lparr>li_email = [], li_password = [], li_device_label = li_device_label input,
          li_trusted_device_token = None, li_context = li_context input\<rparr> u (gate_of env u ?token db) d"
        by (simp add: d opened_session_def Let_def)
      from finalize_quiet [OF quiet _ _ _ s, of stage "next" "next_of (gate_of env u ?token db)" "''manual''"]
        gate_owed [OF st] find_user_by_email_Some [OF Some] fresh Some True run
      show ?thesis by (simp add: d Let_def)
    qed
  qed
qed

section \<open>Streaks of failures\<close>

definition alerts :: "string \<Rightarrow> auth_db \<Rightarrow> nat" where
  "alerts uid db = length (filter (\<lambda>e. sy_event e = ''auth.login.repeated_failures'' \<and> sy_user_id e = Some uid) (az_security_log db))"

text \<open>Failed sign-ins of one account, one after the other.\<close>

primrec fail_times :: "auth_env \<Rightarrow> staff_user \<Rightarrow> string option \<Rightarrow> nat \<Rightarrow> auth_db \<Rightarrow> auth_db" where
  "fail_times env u ip 0 db = db"
| "fail_times env u ip (Suc n) db = snd (record_failed_login_failure_side_effects env (Some u) ip (fail_times env u ip n db))"

definition on_streak :: "string \<Rightarrow> nat \<Rightarrow> auth_db \<Rightarrow> bool" where
  "on_streak uid k db \<longleftrightarrow> has_elevated_role uid db \<and> (\<exists>row. user_by_id uid db = Some row \<and> su_failed_login_streak row = k)"

lemma streak_step:
  assumes quiet: "quiet_auth env" and streak: "on_streak (su_id u) k db"
  shows "on_streak (su_id u) (next_streak k) (snd (record_failed_login_failure_side_effects env (Some u) ip db)) \<and>
    alerts (su_id u) (snd (record_failed_login_failure_side_effects env (Some u) ip db)) =
      alerts (su_id u) db + (if next_streak k = 0 then 1 else 0)"
proof -
  from streak obtain row where row: "user_by_id (su_id u) db = Some row" "su_failed_login_streak row = k" "has_elevated_role (su_id u) db"
    by (auto simp: on_streak_def)
  let ?f = "\<lambda>x. x\<lparr>su_failed_login_streak := next_streak (su_failed_login_streak x)\<rparr>"
  let ?d = "db\<lparr>az_users := update_where (\<lambda>x. su_id x = su_id u) ?f (az_users db)\<rparr>"
  have "su_id row = su_id u" using find_set [OF row(1) [unfolded user_by_id_def]] by simp
  then have found: "user_by_id (su_id u) ?d = Some (?f row)"
    using row(1) by (simp add: user_by_id_def find_update_where)
  have roles: "has_elevated_role (su_id u) ?d" "has_elevated_role (su_id u) (?d\<lparr>az_security_log := es\<rparr>)" for es
    using row(3) by (simp_all add: has_elevated_role_def roles_of_user_def)
  have "snd (record_failed_login_failure_side_effects env (Some u) ip db) =
    (if next_streak k = 0 then ?d\<lparr>az_security_log := az_security_log db @
       [security_row ''auth.login.repeated_failures'' (Some (su_id u)) ip None streak_metadata ?d]\<rparr> else ?d)"
    using quiet row found by (simp add: record_failed_login_failure_side_effects_def bump_privileged_login_streak_atomic_def update_users_def
        auth_others_def quiet_auth_def write_security_audit_log_def tx_simps)
  then show ?thesis
    using found roles row(2) by (simp add: on_streak_def alerts_def security_row_def Let_def)
qed

text \<open>Of the failed sign-ins of an account with an elevated role every fifth raises an alert: after \<open>n\<close> failures from a
  streak of \<open>k\<close> the streak is \<open>(k + n) mod 5\<close> and \<open>(k + n) div 5\<close> alerts were written.\<close>

theorem every_fifth_failure_alerts:
  assumes "quiet_auth env" "on_streak (su_id u) k db" "k < 5"
  shows "on_streak (su_id u) ((k + n) mod 5) (fail_times env u ip n db) \<and>
    alerts (su_id u) (fail_times env u ip n db) = alerts (su_id u) db + (k + n) div 5"
proof (induction n)
  case 0
  with assms show ?case by simp
next
  case (Suc n)
  have next': "next_streak ((k + n) mod 5) = (k + Suc n) mod 5"
    by (simp add: next_streak_def privileged_login_failure_alert_threshold_def mod_Suc_eq)
  have "(k + Suc n) div 5 = (k + n) div 5 + (if (k + Suc n) mod 5 = 0 then 1 else 0)"
    by (simp add: div_Suc)
  with Suc streak_step [OF assms(1), of u "(k + n) mod 5" "fail_times env u ip n db" ip] next' show ?case by simp
qed

section \<open>Sample\<close>

definition sample_auth_user :: "string \<Rightarrow> staff_user" where
  "sample_auth_user uid = \<lparr>su_id = uid, su_email = uid @ ''@x.org'', su_password_hash = Some ''H:pw'', su_display_name = None,
     su_is_active = True, su_must_change_password = False, su_failed_login_streak = 3, su_failed_mfa_streak = 0\<rparr>"

definition sample_auth_env :: auth_env where
  "sample_auth_env = \<lparr>ax_others = (\<lambda>_ db. db), ax_now = (\<lambda>_. 1000000), ax_token = (\<lambda>k. if k = 0 then ''tok'' else ''dev''),
     ax_fresh_id = (\<lambda>k. ''n'' @ decimal (int k)), ax_hash_token = (\<lambda>t. ''#'' @ t), ax_verify_hash = (\<lambda>h p. h = ''H:'' @ p),
     ax_make_hash = (\<lambda>_ p. ''H:'' @ p), ax_recovery_code = (\<lambda>k. ''R'' @ decimal (int k)), ax_decrypt = (\<lambda>c. Some c),
     ax_encrypt = (\<lambda>p. p), ax_totp_secret = ''secret'',
     ax_totp_step = (\<lambda>_ c after. if c = ''123456'' \<and> (case after of None \<Rightarrow> True | Some a \<Rightarrow> a < 40) then Some 40 else None),
     ax_assertion = (\<lambda>_ _ _. None), ax_registration = (\<lambda>_. None), ax_zoned = (\<lambda>t _. Some t), ax_variable = (\<lambda>_. None),
     ax_parse_json = (\<lambda>_. None), ax_parse_number = (\<lambda>_. None), ax_log_works = (\<lambda>_. True)\<rparr>"

definition sample_totp :: mfa_method where
  "sample_totp = (blank_method ''m1'' ''u1'' Factor_totp 5)\<lparr>mf_secret_enc := Some ''secret'', mf_confirmed_at := Some 6,
     mf_last_totp_time_step := Some 39\<rparr>"

definition sample_recovery :: mfa_method where
  "sample_recovery = (blank_method ''m2'' ''u1'' Factor_recovery 5)\<lparr>mf_credential_hash := Some ''H:AB12''\<rparr>"

definition sample_auth_role :: "string \<Rightarrow> timed_role" where
  "sample_auth_role role = \<lparr>ra_id = ''r1'', ra_user_id = ''u1'', ra_role = role, ra_scope_type = ''global'', ra_scope_id = None,
     tr_created_at = 1\<rparr>"

definition sample_auth_db :: auth_db where
  "sample_auth_db = \<lparr>az_users = [sample_auth_user ''u1'', sample_auth_user ''u2''],
     az_sessions = [\<lparr>ls_id = ''s1'', ls_user_id = ''u1'', ls_token_hash = ''#old'', ls_stage = Stage_full, ls_auth_method = Auth_local,
       ls_oidc_provider_id = None, ls_device_label = None, ls_ip = None, ls_user_agent = None, ls_timezone = None,
       ls_created_at = 900000, ls_mfa_verified_at = Some 900000, ls_last_seen_at = 900000, ls_remember_me = False,
       ls_expires_at = 99000000, ls_revoked_at = None\<rparr>],
     az_devices = [], az_methods = [sample_totp, sample_recovery], az_roles = [sample_auth_role ''superadmin''], az_events = [],
     az_settings = [], az_security_log = []\<rparr>"

definition sample_context :: request_context where
  "sample_context = \<lparr>rc_ip = None, rc_user_agent = None, rc_timezone = None\<rparr>"

definition sample_login :: login_input where
  "sample_login = \<lparr>li_email = '' U1@x.org'', li_password = ''pw'', li_device_label = None, li_trusted_device_token = None,
     li_context = sample_context\<rparr>"

text \<open>A sign-in that waits for its second factor, and the request that brings it.\<close>

definition half_signed_in :: auth_db where
  "half_signed_in = sample_auth_db\<lparr>az_sessions := az_sessions sample_auth_db @
     [\<lparr>ls_id = ''s2'', ls_user_id = ''u1'', ls_token_hash = ''#half'', ls_stage = Stage_mfa_pending, ls_auth_method = Auth_local,
       ls_oidc_provider_id = None, ls_device_label = None, ls_ip = None, ls_user_agent = None, ls_timezone = None,
       ls_created_at = 990000, ls_mfa_verified_at = None, ls_last_seen_at = 990000, ls_remember_me = False,
       ls_expires_at = 1890000, ls_revoked_at = None\<rparr>]\<rparr>"

definition half_code :: auth_request where
  "half_code = Aq_code \<lparr>mi_user_id = ''u1'', mi_session_id = ''s2'', mi_remember_device = False, mi_device_label = None,
     mi_context = sample_context\<rparr> ''123456''"

lemma sample_auth_quiet [simp]: "ax_others sample_auth_env k db = db"
  by (simp add: sample_auth_env_def)

lemma sample_is_quiet: "quiet_auth sample_auth_env"
  by (simp add: quiet_auth_def sample_auth_env_def)

lemma sample_fresh: "hd (ax_fresh_id sample_auth_env k) = CHR ''n''"
  by (simp add: sample_auth_env_def)

lemma sample_keeps_sessions: "(\<And>i. i \<in> known \<Longrightarrow> hd i \<noteq> CHR ''n'') \<Longrightarrow> keeps_sessions known sample_auth_env"
  using sample_fresh by (auto simp: keeps_sessions_def)

lemma sample_keeps_factors: "(\<And>i. i \<in> known \<Longrightarrow> hd i \<noteq> CHR ''n'') \<Longrightarrow> keeps_factors known sample_auth_env"
  using sample_fresh by (auto simp: keeps_factors_def)

theorem sessions_only_move_on_witness:
  "sessions_renewed {''s1'', ''s2''} {''#old'', ''#half''} (az_sessions half_signed_in) (az_sessions (serve_auth sample_auth_env half_code half_signed_in)) \<and>
   map (\<lambda>s. (ls_id s, ls_stage s, ls_token_hash s)) (az_sessions (serve_auth sample_auth_env half_code half_signed_in)) =
     [(''s1'', Stage_full, ''#old''), (''s2'', Stage_full, ''#tok'')]"
proof
  have "renews_sessions {''s1'', ''s2''} {''#old'', ''#half''} sample_auth_env"
    using sample_fresh by (auto simp: renews_sessions_def sample_auth_env_def)
  then have "auth_history (renews_sessions {''s1'', ''s2''} {''#old'', ''#half''}) half_signed_in (serve_auth sample_auth_env half_code half_signed_in)"
    by (intro auth_history.request auth_history.start)
  then show "sessions_renewed {''s1'', ''s2''} {''#old'', ''#half''} (az_sessions half_signed_in)
      (az_sessions (serve_auth sample_auth_env half_code half_signed_in))"
    by (rule sessions_only_move_on)
qed code_simp

theorem revocation_is_final_witness:
  "(\<exists>s w. validate_session sample_auth_env ''old'' sample_auth_db = Inr (Some s, w)) \<and>
   \<not> (\<exists>raw s w. validate_session sample_auth_env raw (snd (run_tx (revoke_user_auth_state sample_auth_env ''u1'') sample_auth_db)) =
      Inr (Some s, w) \<and> ls_id s = ''s1'')"
proof
  have "case validate_session sample_auth_env ''old'' sample_auth_db of Inl e \<Rightarrow> False | Inr (found, w) \<Rightarrow> found \<noteq> None" by code_simp
  then show "\<exists>s w. validate_session sample_auth_env ''old'' sample_auth_db = Inr (Some s, w)"
    by (auto split: sum.splits prod.splits)
  have "\<forall>s \<in> set (az_sessions sample_auth_db). ls_id s \<in> {''s1''} \<longrightarrow> ls_user_id s = ''u1''" by (simp add: sample_auth_db_def)
  from revocation_is_final [OF this auth_history.start sample_keeps_sessions, of sample_auth_env]
  show "\<not> (\<exists>raw s w. validate_session sample_auth_env raw (snd (run_tx (revoke_user_auth_state sample_auth_env ''u1'') sample_auth_db)) =
      Inr (Some s, w) \<and> ls_id s = ''s1'')" by auto
qed

lemma sample_signed_in:
  "fst (login sample_auth_env sample_login sample_auth_db) = Inr (Login_ok \<lparr>lg_raw_token = ''tok'', lg_session_id = ''n0'', lg_user_id = ''u1'',
     lg_next = Next_mfa_required, lg_cookie_max_age_seconds = None\<rparr>)"
  by code_simp

theorem unfinished_sign_in_never_unlocks_witness:
  "\<exists>g v. login sample_auth_env sample_login sample_auth_db = (Inr (Login_ok g), v) \<and> length (az_sessions v) = 2 \<and>
     (\<forall>s w. validate_session sample_auth_env (lg_raw_token g) v \<noteq> Inr (Some s, w))"
proof -
  obtain v where run: "login sample_auth_env sample_login sample_auth_db = (Inr (Login_ok \<lparr>lg_raw_token = ''tok'', lg_session_id = ''n0'',
     lg_user_id = ''u1'', lg_next = Next_mfa_required, lg_cookie_max_age_seconds = None\<rparr>), v)"
    using sample_signed_in by (cases "login sample_auth_env sample_login sample_auth_db") auto
  have "length (az_sessions (snd (login sample_auth_env sample_login sample_auth_db))) = 2" by code_simp
  with run unfinished_sign_in_never_unlocks [OF run _ _ auth_history.start refl] show ?thesis by auto
qed

theorem session_lifetime_bounded_witness:
  "\<exists>s w. create_session sample_auth_env \<lparr>si_user_id = ''u1'', si_stage = Some Stage_full, si_auth_method = None, si_ip = None,
     si_user_agent = None, si_device_label = None, si_timezone = None, si_oidc_provider_id = None\<rparr> sample_auth_db =
     Inr ((s, ''tok''), w) \<and> ls_expires_at s = 1000000 + 12 * 60 * 60 * 1000"
proof -
  let ?si = "\<lparr>si_user_id = ''u1'', si_stage = Some Stage_full, si_auth_method = None, si_ip = None,
     si_user_agent = None, si_device_label = None, si_timezone = None, si_oidc_provider_id = None\<rparr>"
  have "case create_session sample_auth_env ?si sample_auth_db of Inl e \<Rightarrow> False
    | Inr ((s, raw), w) \<Rightarrow> raw = ''tok'' \<and> \<not> ls_remember_me s \<and> ls_created_at s = 1000000" by code_simp
  then obtain s w where run: "create_session sample_auth_env ?si sample_auth_db = Inr ((s, ''tok''), w)"
    and s: "\<not> ls_remember_me s" "ls_created_at s = 1000000"
    by (auto split: sum.splits prod.splits)
  have "has_elevated_role ''u1'' sample_auth_db" "get_session_ttl_admin_ms sample_auth_env sample_auth_db = 12 * 60 * 60 * 1000"
    by code_simp+
  with session_lifetime_bounded [OF run, of Stage_full] s have "ls_expires_at s = 1000000 + 12 * 60 * 60 * 1000" by simp
  with run show ?thesis by blast
qed

theorem recovery_code_works_once_witness:
  "\<exists>v d rid. verify_totp_or_recovery_code_detailed sample_auth_env ''u1'' ''ab-12'' sample_auth_db = Inr (Step_up_ok Way_backup, v) \<and>
     find_recovery_row sample_auth_env ''u1'' (js_trim ''ab-12'') d = Some (rid, Way_backup) \<and>
     (\<forall>c way. find_recovery_row sample_auth_env ''u1'' c v \<noteq> Some (rid, way))"
proof -
  let ?run = "verify_totp_or_recovery_code_detailed sample_auth_env ''u1'' ''ab-12''"
  have "case ?run sample_auth_db of Inl e \<Rightarrow> False | Inr (r, v) \<Rightarrow> r = Step_up_ok Way_backup" by code_simp
  then obtain v where run: "?run sample_auth_db = Inr (Step_up_ok Way_backup, v)" by (auto split: sum.splits prod.splits)
  from recovery_code_works_once [OF run] obtain d rid where d: "find_recovery_row sample_auth_env ''u1'' (js_trim ''ab-12'') d = Some (rid, Way_backup)"
    and used: "\<And>known v' c way'. rid \<in> known \<Longrightarrow> auth_history (keeps_factors known) v v' \<Longrightarrow>
       find_recovery_row sample_auth_env ''u1'' c v' \<noteq> Some (rid, way')" by auto
  from used [of "{rid}" v, OF _ auth_history.start] run d show ?thesis by auto
qed

section \<open>Two gaps\<close>

text \<open>
  \<open>confirmTotpEnrollment\<close> does not put the step it accepts among the recent ones: once a later step was accepted, a replay of the
  code of the enrollment counts as a wrong guess, not as one used before.
\<close>

definition two_step_env :: auth_env where
  "two_step_env = sample_auth_env\<lparr>ax_totp_step := (\<lambda>_ c after. let t = (if c = ''111111'' then 40 else 41)
     in if (case after of None \<Rightarrow> True | Some a \<Rightarrow> a < t) then Some t else None)\<rparr>"

text \<open>The codes of two steps are accepted one after the other; between them, the first is refused although the clock is still in its step.\<close>

theorem authenticator_step_works_once_witness:
  "\<exists>v w t u. verify_totp_or_recovery_code_detailed two_step_env ''u1'' ''111 111'' sample_auth_db = Inr (Step_up_ok Way_totp, v) \<and>
     verify_totp_or_recovery_code_detailed two_step_env ''u1'' ''111111'' v = Inr (Step_up_no_match True, v) \<and>
     verify_totp_or_recovery_code_detailed two_step_env ''u1'' ''222222'' v = Inr (Step_up_ok Way_totp, w) \<and>
     ax_totp_step two_step_env ''secret'' ''111111'' (Some 39) = Some t \<and>
     ax_totp_step two_step_env ''secret'' ''222222'' (Some 40) = Some u \<and> t < u"
proof -
  let ?run = "verify_totp_or_recovery_code_detailed two_step_env ''u1''"
  have "case ?run ''111 111'' sample_auth_db of Inl e \<Rightarrow> False | Inr (r, v) \<Rightarrow> r = Step_up_ok Way_totp \<and>
      map_option (\<lambda>row. (mf_id row, mf_last_totp_time_step row)) (totp_row ''u1'' True v) = Some (''m1'', Some 40) \<and>
      map_sum id fst (?run ''222222'' v) = Inr (Step_up_ok Way_totp) \<and>
      ?run ''111111'' v = Inr (Step_up_no_match True, v)" by code_simp
  then obtain v where runs: "?run ''111 111'' sample_auth_db = Inr (Step_up_ok Way_totp, v)"
      "?run ''111111'' v = Inr (Step_up_no_match True, v)" and second: "map_sum id fst (?run ''222222'' v) = Inr (Step_up_ok Way_totp)"
    and found: "map_option (\<lambda>row. (mf_id row, mf_last_totp_time_step row)) (totp_row ''u1'' True v) = Some (''m1'', Some 40)"
    by (cases "?run ''111 111'' sample_auth_db") auto
  from second obtain w where run2: "?run ''222222'' v = Inr (Step_up_ok Way_totp, w)" by (cases "?run ''222222'' v") auto
  from found obtain row' where row': "totp_row ''u1'' True v = Some row'" "mf_id row' = ''m1''" "mf_last_totp_time_step row' = Some 40"
    by (cases "totp_row ''u1'' True v") auto
  have row: "totp_row ''u1'' True sample_auth_db = Some sample_totp" "mf_last_totp_time_step sample_totp = Some 39"
    "\<forall>r \<in> set (az_methods sample_auth_db). mf_id r = mf_id sample_totp \<longrightarrow> r = sample_totp" "mf_id sample_totp = ''m1''"
    by (simp_all add: totp_row_def sample_auth_db_def sample_totp_def sample_recovery_def blank_method_def)
  have norm: "normalize_totp_token (js_trim ''111 111'') = ''111111''" "normalize_totp_token (js_trim ''222222'') = ''222222''"
    by code_simp+
  have after: "a < t" if "ax_totp_step two_step_env s c (Some a) = Some t" for s c a t
    using that by (auto simp: two_step_env_def Let_def split: if_splits)
  have keeps: "keeps_factors {''m1''} two_step_env"
    using sample_keeps_factors [of "{''m1''}"] by (simp add: keeps_factors_def two_step_env_def)
  have "\<exists>enc secret secret' t u. mf_secret_enc sample_totp = Some enc \<and> mf_secret_enc row' = Some enc \<and>
    ax_decrypt two_step_env enc = Some secret \<and> ax_decrypt two_step_env enc = Some secret' \<and>
    ax_totp_step two_step_env secret ''111111'' (Some 39) = Some t \<and> ax_totp_step two_step_env secret' ''222222'' (Some 40) = Some u \<and> t < u"
    using authenticator_step_works_once [OF runs(1) row(1,3) keeps _ auth_history.start row'(1) _ after run2] row(2,4) row'(2,3)
    unfolding norm by simp
  then have "\<exists>t u. ax_totp_step two_step_env ''secret'' ''111111'' (Some 39) = Some t \<and>
      ax_totp_step two_step_env ''secret'' ''222222'' (Some 40) = Some u \<and> t < u"
    by (simp add: two_step_env_def)
  with runs run2 show ?thesis by blast
qed

definition enrolling_db :: auth_db where
  "enrolling_db = sample_auth_db\<lparr>az_methods := [sample_totp\<lparr>mf_confirmed_at := None, mf_last_totp_time_step := None\<rparr>]\<rparr>"

lemma enrollment_replay_is_a_wrong_guess:
  "case tx_bind (confirm_totp_enrollment two_step_env ''u1'' ''111111'' True) (\<lambda>confirmed.
     tx_bind (verify_user_totp_code_detailed two_step_env ''u1'' ''222222'') (\<lambda>second.
     tx_bind (verify_user_totp_code_detailed two_step_env ''u1'' ''111111'') (\<lambda>replay.
     tx_return (confirmed, second, replay)))) enrolling_db of
   Inl e \<Rightarrow> False | Inr (r, v) \<Rightarrow> r = (True, (True, False), (False, False))"
  by code_simp

text \<open>
  A sign-in that has checked the old password when the sessions of its user are revoked still creates its session
  afterwards: the revocation sees only the sessions there are.
\<close>

definition overtaken_env :: auth_env where
  "overtaken_env = sample_auth_env\<lparr>ax_others := (\<lambda>k db. if k = 22 then snd (run_tx (revoke_user_auth_state sample_auth_env ''u1'') db)
     else db)\<rparr>"

lemma overtaken_sign_in_survives:
  "case login overtaken_env sample_login (sample_auth_db\<lparr>az_roles := [], az_methods := []\<rparr>) of (r, v) \<Rightarrow>
     (case validate_session sample_auth_env ''old'' v of Inl e \<Rightarrow> False | Inr (found, w) \<Rightarrow> found = None) \<and>
     (case validate_session sample_auth_env ''tok'' v of Inl e \<Rightarrow> False | Inr (found, w) \<Rightarrow> found \<noteq> None)"
  by code_simp

theorem login_opens_one_session_witness:
  "az_sessions (snd (login sample_auth_env sample_login sample_auth_db)) = az_sessions sample_auth_db @
     [opened_session sample_auth_env sample_login (sample_auth_user ''u1'') Stage_mfa_pending sample_auth_db]"
proof -
  have "\<forall>s \<in> set (az_sessions sample_auth_db). ls_id s \<noteq> ax_fresh_id sample_auth_env 0 \<and>
      ls_token_hash s \<noteq> ax_hash_token sample_auth_env (ax_token sample_auth_env 0)" by code_simp
  moreover have "find_user_by_email (normalize_email (li_email sample_login)) sample_auth_db = Some (sample_auth_user ''u1'')" by code_simp
  moreover have "verify_password_or_dummy sample_auth_env (li_password sample_login) (su_password_hash (sample_auth_user ''u1''))"
    "su_is_active (sample_auth_user ''u1'')" by code_simp+
  moreover have "gate_of sample_auth_env (sample_auth_user ''u1'') (li_trusted_device_token sample_login) sample_auth_db = Stage_mfa_pending"
    by code_simp
  ultimately show ?thesis
    using login_opens_one_session [OF sample_is_quiet, of sample_auth_db sample_login] by (simp add: Let_def)
qed

theorem every_fifth_failure_alerts_witness:
  "alerts ''u1'' (fail_times sample_auth_env (sample_auth_user ''u1'') None 7 sample_auth_db) = 2"
proof -
  have "on_streak (su_id (sample_auth_user ''u1'')) 3 sample_auth_db"
    by (simp add: on_streak_def has_elevated_role_def roles_of_user_def elevated_def sample_auth_role_def sample_auth_db_def
        sample_auth_user_def user_by_id_def)
  from every_fifth_failure_alerts [OF sample_is_quiet this, of 7 None]
  show ?thesis by (simp add: alerts_def sample_auth_db_def sample_auth_user_def)
qed

end
