(* ===== verification/Stored_Files.thy ===== *)
theory Stored_Files
  imports Erase_Results Import_Jobs
begin

text \<open>
  The files that jobs leave in storage: packages/storage/src/gc (purgeJobFiles.ts, sweepOrphanedJobFiles.ts) with the
  layout of a key (keys.ts). A file is named by the storage key of a job row. The store is \<open>ad_files\<close>; whether a
  delete works and when a file was written come from the environment, and others may commit at point 0 before a
  delete, 1 between the delete and the update of the row, 2 between two pages, 3 after the names of a sweep are
  read, 4 before a file of a sweep is looked up, 5 before it is deleted, and 6 between a transaction and the
  deletion of files that follows its commit.
\<close>

record file_env =
  fe_others :: "nat \<Rightarrow> string \<Rightarrow> admin_db \<Rightarrow> admin_db"
  fe_delete_works :: "string \<Rightarrow> bool"
  fe_written_at :: "string \<Rightarrow> int"

section \<open>Keys\<close>

fun path_parts :: "string \<Rightarrow> string list" where
  "path_parts [] = [[]]"
| "path_parts (c # s) =
     (if c = CHR ''/'' then [] # path_parts s else (case path_parts s of [] \<Rightarrow> [[c]] | p # ps \<Rightarrow> (c # p) # ps))"

definition lower_or_digit :: "char \<Rightarrow> bool" where
  "lower_or_digit c \<longleftrightarrow> (let n = of_char c :: nat in 97 \<le> n \<and> n \<le> 122 \<or> 48 \<le> n \<and> n \<le> 57)"

definition hex_char :: "char \<Rightarrow> bool" where
  "hex_char c \<longleftrightarrow> (let n = of_char c :: nat in 97 \<le> n \<and> n \<le> 102 \<or> 48 \<le> n \<and> n \<le> 57)"

definition id_segment :: "nat \<Rightarrow> string \<Rightarrow> bool" where
  "id_segment most s \<longleftrightarrow> (case s of [] \<Rightarrow> False
     | c # rest \<Rightarrow> lower_or_digit c \<and> length rest \<le> most \<and> (\<forall>d \<in> set rest. lower_or_digit d \<or> d = CHR ''_'' \<or> d = CHR ''-''))"

definition org_id_pattern :: "string \<Rightarrow> bool" where "org_id_pattern s \<longleftrightarrow> id_segment 63 s"

definition event_id_pattern :: "string \<Rightarrow> bool" where "event_id_pattern s \<longleftrightarrow> id_segment 127 s"

definition uuid_text :: "string \<Rightarrow> bool" where
  "uuid_text s \<longleftrightarrow> length s = 36 \<and>
     (\<forall>i \<in> set [0..<36]. if i \<in> {8, 13, 18, 23} then s ! i = CHR ''-'' else hex_char (s ! i))"

definition file_name_pattern :: "string list \<Rightarrow> string \<Rightarrow> bool" where
  "file_name_pattern extensions s \<longleftrightarrow> uuid_text (take 36 s) \<and> drop 36 s \<in> set extensions"

definition upload_filename_pattern :: "string \<Rightarrow> bool" where
  "upload_filename_pattern = file_name_pattern [''.png'', ''.jpg'', ''.webp'', ''.woff2'', ''.woff'', ''.ttf'', ''.otf'']"

definition job_filename_pattern :: "string \<Rightarrow> bool" where
  "job_filename_pattern = file_name_pattern [''.csv'', ''.xlsx'', ''.pdf'']"

fun has_two_dots :: "string \<Rightarrow> bool" where
  "has_two_dots (a # b # s) = (a = CHR ''.'' \<and> b = CHR ''.'' \<or> has_two_dots (b # s))"
| "has_two_dots _ = False"

definition split_safe_key :: "string \<Rightarrow> string list option" where
  "split_safe_key key =
     (if key = [] \<or> CHR 0x5C \<in> set key \<or> has_two_dots key \<or> hd key = CHR ''/'' \<or> last key = CHR ''/'' then None
      else let parts = path_parts key
           in if \<exists>p \<in> set parts. p = [] \<or> p = ''.'' \<or> p = ''..'' then None else Some parts)"

definition is_managed_upload_key :: "string \<Rightarrow> bool" where
  "is_managed_upload_key key = (case split_safe_key key of
     Some [org, file_name] \<Rightarrow> org_id_pattern org \<and> upload_filename_pattern file_name
   | Some [org, folder, file_name] \<Rightarrow> folder = ''theme'' \<and> org_id_pattern org \<and> upload_filename_pattern file_name
   | Some [org, folder, event, file_name] \<Rightarrow>
       folder = ''events'' \<and> org_id_pattern org \<and> event_id_pattern event \<and> upload_filename_pattern file_name
   | _ \<Rightarrow> False)"

definition is_job_file_key :: "string \<Rightarrow> bool" where
  "is_job_file_key key = (case split_safe_key key of
     Some [org, folder, event, file_name] \<Rightarrow>
       folder = ''events'' \<and> org_id_pattern org \<and> event_id_pattern event \<and> job_filename_pattern file_name
   | _ \<Rightarrow> False)"

text \<open>No branding upload has the shape of a job file, so a sweep over one cannot reach the other.\<close>

lemma job_files_are_no_uploads: "is_job_file_key key \<Longrightarrow> \<not> is_managed_upload_key key"
  by (auto simp: is_job_file_key_def is_managed_upload_key_def job_filename_pattern_def upload_filename_pattern_def
      file_name_pattern_def split: option.splits list.splits)

section \<open>Retention windows\<close>

definition default_export_file_retention_days :: int where "default_export_file_retention_days = 7"

definition default_staged_import_retention_days :: int where "default_staged_import_retention_days = 7"

definition max_retention_days :: int where "max_retention_days = 36500"

definition normalize_days :: "int option \<Rightarrow> int \<Rightarrow> int" where
  "normalize_days days fallback =
     (case days of None \<Rightarrow> fallback | Some d \<Rightarrow> if d < 1 then fallback else min d max_retention_days)"

text \<open>A number of that many digits is infinite for JavaScript, and falls back.\<close>

definition digits_value :: "string \<Rightarrow> int" where
  "digits_value s = foldl (\<lambda>n c. 10 * n + (of_char c - 48)) 0 s"

definition resolve_days :: "string option \<Rightarrow> int \<Rightarrow> int" where
  "resolve_days raw fallback =
     (let trimmed = (case raw of None \<Rightarrow> [] | Some s \<Rightarrow> js_trim s)
      in if trimmed = [] \<or> (\<exists>c \<in> set trimmed. \<not> (48 \<le> (of_char c :: nat) \<and> (of_char c :: nat) \<le> 57)) then fallback
         else if digits_value trimmed \<ge> 2 ^ 1024 - 2 ^ 970 then fallback
         else normalize_days (Some (digits_value trimmed)) fallback)"

definition resolve_export_file_retention_days :: "(string \<Rightarrow> string option) \<Rightarrow> int" where
  "resolve_export_file_retention_days env = resolve_days (env ''EXPORT_FILE_RETENTION_DAYS'') default_export_file_retention_days"

definition resolve_staged_import_retention_days :: "(string \<Rightarrow> string option) \<Rightarrow> int" where
  "resolve_staged_import_retention_days env =
     resolve_days (env ''IMPORT_STAGED_FILE_RETENTION_DAYS'') default_staged_import_retention_days"

section \<open>The purge\<close>

definition file_page_size :: nat where "file_page_size = 200"

definition jobs_with_file :: "(admin_job \<Rightarrow> bool) \<Rightarrow> string option \<Rightarrow> admin_db \<Rightarrow> admin_job list" where
  "jobs_with_file p cursor db = sort_key aj_id (filter (\<lambda>j. p j \<and> aj_storage_key j \<noteq> None \<and>
     (truthy cursor \<longrightarrow> the cursor < aj_id j)) (ad_jobs db))"

text \<open>Whether the file is gone. A file that cannot be deleted keeps its key.\<close>

definition purge_job_file :: "file_env \<Rightarrow> bool \<Rightarrow> admin_job \<Rightarrow> admin_db \<Rightarrow> bool \<times> admin_db" where
  "purge_job_file env dry_run job db =
     (if dry_run then (True, db)
      else let key = the (aj_storage_key job); db' = fe_others env 0 (aj_id job) db
           in if \<not> fe_delete_works env key then (False, db')
              else (True, snd (update_jobs (\<lambda>j. aj_id j = aj_id job \<and> aj_storage_key j = aj_storage_key job)
                     (\<lambda>j. j\<lparr>aj_storage_key := None\<rparr>) (fe_others env 1 (aj_id job) (snd (delete_file key db'))))))"

fun purge_page :: "file_env \<Rightarrow> bool \<Rightarrow> admin_job list \<Rightarrow> nat \<times> nat \<Rightarrow> admin_db \<Rightarrow> (nat \<times> nat) \<times> admin_db" where
  "purge_page env dry_run [] counts db = (counts, db)"
| "purge_page env dry_run (job # page) counts db =
     (case purge_job_file env dry_run job db of (ok, db') \<Rightarrow>
        purge_page env dry_run page (if ok then (fst counts + 1, snd counts) else (fst counts, snd counts + 1)) db')"

text \<open>The walk over the pages; \<open>None\<close> is a walk that never ends.\<close>

partial_function (option) purge_pages ::
  "file_env \<Rightarrow> bool \<Rightarrow> (admin_job \<Rightarrow> bool) \<Rightarrow> string option \<Rightarrow> nat \<times> nat \<Rightarrow> admin_db \<Rightarrow> ((nat \<times> nat) \<times> admin_db) option" where
  "purge_pages env dry_run p cursor counts db =
     (let page = take file_page_size (jobs_with_file p cursor db); done = purge_page env dry_run page counts db
      in if length page < file_page_size then Some done
         else purge_pages env dry_run p (Some (aj_id (last page))) (fst done)
                (fe_others env 2 (aj_id (last page)) (snd done)))"

definition purge_files_where ::
  "file_env \<Rightarrow> bool \<Rightarrow> (admin_job \<Rightarrow> bool) \<Rightarrow> admin_db \<Rightarrow> ((nat \<times> nat) \<times> admin_db) option" where
  "purge_files_where env dry_run p db = purge_pages env dry_run p None (0, 0) db"

definition cutoff_before :: "int \<Rightarrow> int \<Rightarrow> int" where
  "cutoff_before now days = now - days * 24 * 60 * 60 * 1000"

definition finished_by :: "int \<Rightarrow> admin_job \<Rightarrow> bool" where
  "finished_by cutoff j \<longleftrightarrow> (case aj_finished_at j of None \<Rightarrow> False | Some t \<Rightarrow> t \<le> cutoff)"

text \<open>The files of exports and of staged imports deleted, and the failures.\<close>

definition purge_job_files ::
  "file_env \<Rightarrow> bool \<Rightarrow> int \<Rightarrow> int option \<Rightarrow> int option \<Rightarrow> admin_db \<Rightarrow> ((nat \<times> nat \<times> nat) \<times> admin_db) option" where
  "purge_job_files env dry_run now export_days staged_days db =
     (let export_cutoff = cutoff_before now (normalize_days export_days default_export_file_retention_days);
          staged_cutoff = cutoff_before now (normalize_days staged_days default_staged_import_retention_days)
      in case purge_files_where env dry_run (\<lambda>j. aj_type j = ''export'' \<and> finished_by export_cutoff j) db of
           None \<Rightarrow> None
         | Some (exports, db1) \<Rightarrow>
             (case purge_files_where env dry_run (\<lambda>j. aj_type j = ''import_commit'' \<and> finished_by staged_cutoff j)
                     (fe_others env 2 [] db1) of
                None \<Rightarrow> None
              | Some (staged, db2) \<Rightarrow> Some ((fst exports, fst staged, snd exports + snd staged), db2)))"

definition purge_event_job_files ::
  "file_env \<Rightarrow> string \<Rightarrow> string list \<Rightarrow> admin_db \<Rightarrow> ((nat \<times> nat) \<times> admin_db) option" where
  "purge_event_job_files env eid job_ids db =
     (if job_ids = [] then Some ((0, 0), db)
      else case purge_files_where env False (\<lambda>j. aj_type j = ''export'' \<and> aj_event_id j = Some eid \<and> aj_id j \<in> set job_ids) db of
             None \<Rightarrow> None
           | Some (exports, db1) \<Rightarrow>
               (case purge_files_where env False (\<lambda>j. aj_type j = ''import_commit'' \<and> aj_event_id j = Some eid \<and>
                       aj_id j \<in> set job_ids \<and> aj_finished_at j \<noteq> None) (fe_others env 2 [] db1) of
                  None \<Rightarrow> None
                | Some (staged, db2) \<Rightarrow> Some ((fst exports + fst staged, snd exports + snd staged), db2)))"

text \<open>Files by key, for jobs whose rows are gone: the number deleted and the keys that failed.\<close>

definition delete_stored_files :: "file_env \<Rightarrow> string list \<Rightarrow> admin_db \<Rightarrow> (nat \<times> string list) \<times> admin_db" where
  "delete_stored_files env keys db =
     (let unique = unique_in_order keys; failed = filter (\<lambda>k. \<not> fe_delete_works env k) unique
      in ((length unique - length failed, failed),
          foldl (\<lambda>s k. if fe_delete_works env k then snd (delete_file k (fe_others env 0 k s)) else s) db unique))"

section \<open>After a commit\<close>

text \<open>A failure is logged (\<open>purge-export-files.ts\<close>); the erasure it follows has committed.\<close>

definition purge_event_job_files_best_effort ::
  "file_env \<Rightarrow> string \<Rightarrow> string list \<Rightarrow> admin_db \<Rightarrow> admin_db option" where
  "purge_event_job_files_best_effort env eid job_ids db =
     (case purge_event_job_files env eid job_ids db of
        None \<Rightarrow> None
      | Some (counts, db') \<Rightarrow> Some (if snd counts > 0 then snd (log_system ''job_file_purge_incomplete'' db') else db'))"

definition delete_event_job_files_best_effort :: "file_env \<Rightarrow> string list \<Rightarrow> admin_db \<Rightarrow> admin_db" where
  "delete_event_job_files_best_effort env keys db =
     (if keys = [] then db
      else case delete_stored_files env keys db of (counts, db') \<Rightarrow>
        if snd counts \<noteq> [] then snd (log_system ''event_job_files_purge_incomplete'' db') else db')"

text \<open>The erasure of the route up to its wallet passes: the transaction, then the files.\<close>

definition erase_and_purge ::
  "erase_env \<Rightarrow> file_env \<Rightarrow> string \<Rightarrow> string \<Rightarrow> string \<Rightarrow> audit_ctx \<Rightarrow> string \<Rightarrow> bool \<Rightarrow> string list \<Rightarrow> admin_db \<Rightarrow>
   job_error + erase_result \<times> admin_db option" where
  "erase_and_purge env fenv eid organization title audit user single ids db =
     (case run_erasure env eid organization title audit user single ids db of
        Inl e \<Rightarrow> Inl e
      | Inr (res, db') \<Rightarrow>
          Inr (res, if es_erased res = [] then Some db'
                    else purge_event_job_files_best_effort fenv eid (es_job_ids_with_files res) (fe_others fenv 6 [] db')))"

section \<open>The sweep\<close>

definition orphaned_job_file_grace_hours :: int where "orphaned_job_file_grace_hours = 24"

definition grace_ms_of :: "int option \<Rightarrow> int" where
  "grace_ms_of grace_hours =
     (case grace_hours of None \<Rightarrow> orphaned_job_file_grace_hours
      | Some h \<Rightarrow> if h \<ge> 0 then h else orphaned_job_file_grace_hours) * 60 * 60 * 1000"

definition named_job_file_keys :: "admin_db \<Rightarrow> string list" where
  "named_job_file_keys db = List.map_filter aj_storage_key (ad_jobs db)"

datatype sweep_outcome = Sweep_named | Sweep_deleted | Sweep_gone | Sweep_failed

definition remove_if_unnamed :: "file_env \<Rightarrow> bool \<Rightarrow> string \<Rightarrow> admin_db \<Rightarrow> sweep_outcome \<times> admin_db" where
  "remove_if_unnamed env dry_run key db =
     (let db' = fe_others env 4 key db
      in if List.find (\<lambda>j. aj_storage_key j = Some key) (ad_jobs db') \<noteq> None then (Sweep_named, db')
         else if dry_run then (Sweep_deleted, db')
         else let db'' = fe_others env 5 key db'
              in if \<not> fe_delete_works env key then (Sweep_failed, db'')
                 else (if map_of (ad_files db'') key = None then Sweep_gone else Sweep_deleted, snd (delete_file key db'')))"

record sweep_counts =
  sw_scanned :: nat
  sw_named :: nat
  sw_too_new :: nat
  sw_deleted :: nat
  sw_failed :: nat

definition count_outcome :: "sweep_outcome \<Rightarrow> sweep_counts \<Rightarrow> sweep_counts" where
  "count_outcome outcome c = (case outcome of
     Sweep_named \<Rightarrow> c\<lparr>sw_named := sw_named c + 1\<rparr>
   | Sweep_deleted \<Rightarrow> c\<lparr>sw_deleted := sw_deleted c + 1\<rparr>
   | Sweep_failed \<Rightarrow> c\<lparr>sw_failed := sw_failed c + 1\<rparr>
   | Sweep_gone \<Rightarrow> c)"

fun sweep_files ::
  "file_env \<Rightarrow> bool \<Rightarrow> int \<Rightarrow> int \<Rightarrow> string list \<Rightarrow> string list \<Rightarrow> sweep_counts \<Rightarrow> admin_db \<Rightarrow> sweep_counts \<times> admin_db" where
  "sweep_files env dry_run grace now named [] c db = (c, db)"
| "sweep_files env dry_run grace now named (key # keys) c db =
     (let c' = c\<lparr>sw_scanned := sw_scanned c + 1\<rparr>
      in if key \<in> set named then sweep_files env dry_run grace now named keys (c'\<lparr>sw_named := sw_named c' + 1\<rparr>) db
         else if now - fe_written_at env key < grace
         then sweep_files env dry_run grace now named keys (c'\<lparr>sw_too_new := sw_too_new c' + 1\<rparr>) db
         else case remove_if_unnamed env dry_run key db of (outcome, db') \<Rightarrow>
                sweep_files env dry_run grace now named keys (count_outcome outcome c') db')"

definition sweep_orphaned_job_files :: "file_env \<Rightarrow> bool \<Rightarrow> int option \<Rightarrow> int \<Rightarrow> admin_db \<Rightarrow> sweep_counts \<times> admin_db" where
  "sweep_orphaned_job_files env dry_run grace_hours now db =
     (let named = named_job_file_keys db; db' = fe_others env 3 [] db
      in sweep_files env dry_run (grace_ms_of grace_hours) now named (filter is_job_file_key (map fst (ad_files db')))
           \<lparr>sw_scanned = 0, sw_named = 0, sw_too_new = 0, sw_deleted = 0, sw_failed = 0\<rparr> db')"

end
