(* ===== verification/Stored_Files_Props.thy ===== *)
theory Stored_Files_Props
  imports Stored_Files Erase_Results_Props Export_Job_Props
begin

text \<open>
  The files that jobs leave behind: the walk over them ends, an erasure leaves none that held the person, and the
  sweep deletes the orphans and nothing else.
\<close>

section \<open>One file, one page\<close>

definition gone :: "admin_job \<Rightarrow> admin_db \<Rightarrow> bool" where
  "gone r s \<longleftrightarrow> (\<forall>key. aj_storage_key r = Some key \<longrightarrow> file_absent key s)"

text \<open>
  Where a job of an earlier state stands: its row still names its file (whatever else of the row has changed), its file is gone, or
  the row itself is.
\<close>

definition same_file :: "admin_job \<Rightarrow> admin_job \<Rightarrow> bool" where
  "same_file r j \<longleftrightarrow> aj_id j = aj_id r \<and> aj_storage_key j = aj_storage_key r \<and> aj_event_id j = aj_event_id r \<and>
     aj_type j = aj_type r \<and> (aj_finished_at r \<noteq> None \<longrightarrow> aj_finished_at j \<noteq> None)"

definition names_file :: "admin_job \<Rightarrow> admin_db \<Rightarrow> bool" where
  "names_file r s \<longleftrightarrow> (\<exists>j \<in> set (ad_jobs s). same_file r j)"

definition missing :: "admin_job \<Rightarrow> admin_db \<Rightarrow> bool" where
  "missing r s \<longleftrightarrow> aj_id r \<notin> aj_id ` set (ad_jobs s)"

text \<open>Of some jobs: a row lets go of its file only when the file is gone or the row is, and neither comes back.\<close>

definition files_only_go :: "admin_job set \<Rightarrow> admin_db \<Rightarrow> admin_db \<Rightarrow> bool" where
  "files_only_go R s t \<longleftrightarrow> (\<forall>r \<in> R. (names_file r s \<longrightarrow> names_file r t \<or> gone r t \<or> missing r t) \<and>
     (gone r s \<longrightarrow> gone r t) \<and> (missing r s \<longrightarrow> missing r t))"

interpretation only_go: step_relation "files_only_go R" for R
  by unfold_locales (auto simp: files_only_go_def)

definition jobs_keyed :: "(admin_job \<Rightarrow> bool) \<Rightarrow> string set \<Rightarrow> admin_db \<Rightarrow> bool" where
  "jobs_keyed p A db \<longleftrightarrow> distinct (map aj_id (ad_jobs db)) \<and> (\<forall>j \<in> set (ad_jobs db). p j \<longrightarrow> aj_id j \<in> A)"

definition ignores_key :: "(admin_job \<Rightarrow> bool) \<Rightarrow> bool" where
  "ignores_key p \<longleftrightarrow> (\<forall>j k. p (j\<lparr>aj_storage_key := k\<rparr>) = p j)"

lemma gone_delete: "aj_storage_key r = Some key \<Longrightarrow> gone r (snd (delete_file key s))"
  by (simp add: gone_def delete_file_def file_absent_def delete_notin_dom)

lemma only_go_delete: "files_only_go R s (snd (delete_file key s))"
  by (auto simp: files_only_go_def gone_def names_file_def missing_def delete_file_def file_absent_def
      dest: imageI [where f = fst, THEN subsetD [OF dom_delete_subset]])

lemma only_go_clear:
  assumes "\<And>r. r \<in> R \<Longrightarrow> aj_storage_key r = Some key \<Longrightarrow> gone r s"
  shows "files_only_go R s (snd (update_jobs (\<lambda>j. aj_id j = i \<and> aj_storage_key j = Some key) (\<lambda>j. j\<lparr>aj_storage_key := None\<rparr>) s))"
    (is "files_only_go R s ?t")
proof -
  have gone: "gone r ?t = gone r s" for r by (simp add: gone_def update_jobs_def file_absent_def)
  have "map aj_id (ad_jobs ?t) = map aj_id (ad_jobs s)"
    unfolding update_jobs_def by (simp add: map_update_where)
  then have "missing r ?t = missing r s" for r unfolding missing_def by (metis list.set_map)
  moreover have "names_file r ?t" if "names_file r s" "aj_storage_key r \<noteq> Some key" for r
    using that by (auto simp: names_file_def update_jobs_def set_update_where same_file_def)
  ultimately show ?thesis using assms unfolding files_only_go_def gone by blast
qed

lemma keyed_clear:
  assumes "ignores_key p" "jobs_keyed p A s"
  shows "jobs_keyed p A (snd (update_jobs q (\<lambda>j. j\<lparr>aj_storage_key := None\<rparr>) s))"
proof -
  have "map aj_id (update_where q (\<lambda>j. j\<lparr>aj_storage_key := None\<rparr>) (ad_jobs s)) = map aj_id (ad_jobs s)"
    by (rule map_update_where) simp
  with assms show ?thesis
    by (auto simp: jobs_keyed_def update_jobs_def set_update_where ignores_key_def)
qed

lemma keyed_delete: "jobs_keyed p A (snd (delete_file key s)) = jobs_keyed p A s"
  by (simp add: jobs_keyed_def delete_file_def)

lemma purge_job_file_step:
  assumes others: "\<And>n k s. files_only_go R s (fe_others env n k s)"
    and key: "aj_storage_key job = Some key"
    and run: "purge_job_file env dry job s = (ok, t)"
  shows "files_only_go R s t \<and> (\<not> dry \<longrightarrow> (ok \<longleftrightarrow> fe_delete_works env key) \<and>
    (fe_delete_works env key \<longrightarrow> (\<forall>r \<in> R. aj_storage_key r = Some key \<longrightarrow> gone r t)))"
proof (cases "dry \<or> \<not> fe_delete_works env key")
  case True
  with run key others show ?thesis by (auto simp: purge_job_file_def Let_def only_go.rel_refl split: if_splits)
next
  case False
  let ?a = "fe_others env 0 (aj_id job) s"
  let ?b = "snd (delete_file key ?a)"
  let ?c = "fe_others env 1 (aj_id job) ?b"
  have t: "ok" "t = snd (update_jobs (\<lambda>j. aj_id j = aj_id job \<and> aj_storage_key j = Some key) (\<lambda>j. j\<lparr>aj_storage_key := None\<rparr>) ?c)"
    using run False key by (auto simp: purge_job_file_def Let_def)
  have gone: "gone r ?c" if "r \<in> R" "aj_storage_key r = Some key" for r
    using others [of ?b 1 "aj_id job"] gone_delete [OF that(2), of ?a] that(1) by (simp add: files_only_go_def)
  have to_t: "files_only_go R ?c t" unfolding t by (rule only_go_clear) (rule gone)
  moreover have "files_only_go R s ?c"
    using only_go.rel_trans [OF only_go.rel_trans [OF others only_go_delete] others] .
  ultimately have "files_only_go R s t" using only_go.rel_trans by blast
  moreover have "gone r t" if "r \<in> R" "aj_storage_key r = Some key" for r
    using to_t gone [OF that] that(1) by (simp add: files_only_go_def)
  ultimately show ?thesis using t(1) False by blast
qed

lemma purge_job_file_keyed:
  assumes "\<And>n k s. jobs_keyed p A s \<Longrightarrow> jobs_keyed p A (fe_others env n k s)" "ignores_key p" "jobs_keyed p A s"
  shows "jobs_keyed p A (snd (purge_job_file env dry job s))"
  using assms by (simp add: purge_job_file_def Let_def keyed_clear keyed_delete)

text \<open>What a purge owes a job: the file gone or the row, or a failure that is counted.\<close>

definition dealt_with :: "file_env \<Rightarrow> nat \<Rightarrow> nat \<Rightarrow> admin_job \<Rightarrow> admin_db \<Rightarrow> bool" where
  "dealt_with env n m r t \<longleftrightarrow> gone r t \<or> missing r t \<or> (\<exists>key. aj_storage_key r = Some key \<and> \<not> fe_delete_works env key \<and> n < m)"

lemma dealt_with_go:
  "files_only_go R s t \<Longrightarrow> r \<in> R \<Longrightarrow> dealt_with env n m r s \<Longrightarrow> n' \<le> n \<Longrightarrow> m \<le> m' \<Longrightarrow> dealt_with env n' m' r t"
  by (force simp: dealt_with_def files_only_go_def)

lemma purge_page_step:
  assumes others: "\<And>n k s. files_only_go R s (fe_others env n k s)"
    and keys: "\<forall>j \<in> set page. aj_storage_key j \<noteq> None"
    and run: "purge_page env dry page c s = (c', t)"
  shows "files_only_go R s t \<and> snd c \<le> snd c' \<and>
    (\<not> dry \<longrightarrow> (\<forall>j \<in> set page. \<forall>r \<in> R. same_file r j \<longrightarrow> dealt_with env (snd c) (snd c') r t))"
  using keys run
proof (induction page arbitrary: c s)
  case Nil
  then show ?case by (auto simp: only_go.rel_refl)
next
  case (Cons job page)
  from Cons.prems(1) obtain key where key: "aj_storage_key job = Some key" by auto
  obtain ok u where one: "purge_job_file env dry job s = (ok, u)" by fastforce
  define c1 where "c1 = (if ok then (fst c + 1, snd c) else (fst c, snd c + 1))"
  note step = purge_job_file_step [OF others key one]
  have tail: "files_only_go R u t" "snd c1 \<le> snd c'"
      "\<not> dry \<Longrightarrow> \<forall>j \<in> set page. \<forall>r \<in> R. same_file r j \<longrightarrow> dealt_with env (snd c1) (snd c') r t"
    using Cons.IH [of c1 u] Cons.prems one by (simp_all add: c1_def)
  have c1: "snd c \<le> snd c1" by (simp add: c1_def)
  have "dealt_with env (snd c) (snd c') r t" if "\<not> dry" "r \<in> R" "same_file r job" for r
  proof -
    have "aj_storage_key r = Some key" using key that(3) by (simp add: same_file_def)
    with step that(1,2) have "dealt_with env (snd c) (snd c1) r u" by (auto simp: dealt_with_def c1_def)
    from dealt_with_go [OF tail(1) that(2) this _ tail(2)] show ?thesis by simp
  qed
  moreover have "dealt_with env (snd c) (snd c') r t" if "\<not> dry" "j \<in> set page" "r \<in> R" "same_file r j" for j r
    using tail(3) [OF that(1)] that(2-4) c1 dealt_with_go [OF only_go.rel_refl that(3)] by blast
  ultimately show ?case using only_go.rel_trans [OF step [THEN conjunct1] tail(1)] tail(2) c1 by auto
qed

lemma purge_page_keyed:
  assumes "\<And>n k s. jobs_keyed p A s \<Longrightarrow> jobs_keyed p A (fe_others env n k s)" "ignores_key p"
  shows "jobs_keyed p A s \<Longrightarrow> jobs_keyed p A (snd (purge_page env dry page c s))"
proof (induction page arbitrary: c s)
  case (Cons job page)
  have "jobs_keyed p A (snd (purge_job_file env dry job s))"
    using assms Cons.prems by (rule purge_job_file_keyed)
  with Cons.IH show ?case by (cases "purge_job_file env dry job s") simp
qed simp

section \<open>The walk over the pages\<close>

definition after :: "string option \<Rightarrow> string \<Rightarrow> bool" where
  "after cursor i \<longleftrightarrow> (truthy cursor \<longrightarrow> the cursor < i)"

lemma sorted_page:
  assumes keyed: "jobs_keyed p A s" and full: "length (take n (jobs_with_file p cursor s)) = n" and n: "2 \<le> n"
  defines "page \<equiv> take n (jobs_with_file p cursor s)" and "later \<equiv> drop n (jobs_with_file p cursor s)"
  shows "after cursor (aj_id (last page)) \<and> aj_id (last page) \<in> A \<and> aj_id (last page) \<noteq> [] \<and>
    (\<forall>j \<in> set later. aj_id (last page) < aj_id j)"
proof -
  let ?js = "jobs_with_file p cursor s"
  have "distinct (map aj_id ?js)"
    unfolding jobs_with_file_def using keyed
    by (metis (no_types, lifting) distinct_map distinct_map_filter jobs_keyed_def mset_sort mset_eq_imp_distinct_iff set_sort sort_key_def)
  moreover have "sorted (map aj_id ?js)" by (simp add: jobs_with_file_def)
  ultimately have strict: "sorted_wrt (<) (map aj_id page @ map aj_id later)"
    unfolding page_def later_def by (simp add: map_append [symmetric] strict_sorted_iff del: map_append)
  from full n obtain j js where page: "page = j # js" "js \<noteq> []" unfolding page_def [symmetric]
    by (cases page; cases "tl page") auto
  then have mem: "last page \<in> set page" by simp
  then have "last page \<in> set ?js" unfolding page_def by (rule in_set_takeD)
  with keyed have "after cursor (aj_id (last page))" "aj_id (last page) \<in> A"
    by (auto simp: jobs_with_file_def after_def jobs_keyed_def)
  moreover have "aj_id j < aj_id (last page)" using strict page by (simp add: sorted_wrt_append)
  moreover have "\<forall>k \<in> set later. aj_id (last page) < aj_id k"
    using strict mem by (auto simp: sorted_wrt_append)
  ultimately show ?thesis by auto
qed

lemma purge_walk:
  assumes only_go: "\<And>n k s. files_only_go R s (fe_others env n k s)"
    and others: "\<And>n k s. jobs_keyed q A s \<Longrightarrow> jobs_keyed q A (fe_others env n k s)"
    and ign: "ignores_key q" and pq: "\<And>j. p j \<Longrightarrow> q j" and fin: "finite A"
  shows "jobs_keyed q A s \<Longrightarrow> \<exists>c' t. purge_pages env dry p cursor c s = Some (c', t) \<and>
    files_only_go R s t \<and> jobs_keyed q A t \<and> snd c \<le> snd c' \<and>
    (\<not> dry \<longrightarrow> (\<forall>r \<in> R. (\<forall>j. same_file r j \<longrightarrow> p j) \<and> (gone r s \<or> missing r s \<or> names_file r s \<and> after cursor (aj_id r)) \<longrightarrow>
       dealt_with env (snd c) (snd c') r t))"
proof (induction "card {a \<in> A. after cursor a}" arbitrary: cursor c s rule: less_induct)
  case less
  define js where "js = jobs_with_file p cursor s"
  let ?page = "take file_page_size js"
  obtain c1 u where one: "purge_page env dry ?page c s = (c1, u)" by fastforce
  have keys: "\<forall>j \<in> set ?page. aj_storage_key j \<noteq> None" by (auto simp: js_def jobs_with_file_def dest: in_set_takeD)
  note step = purge_page_step [OF only_go keys one]
  have keyed: "jobs_keyed q A u" using purge_page_keyed [OF others ign less.prems, of dry ?page c] one by simp
  have listed: "\<exists>j \<in> set js. same_file r j" if "\<forall>j. same_file r j \<longrightarrow> p j" "names_file r s" "after cursor (aj_id r)" "\<not> gone r s" for r
  proof -
    from that(2) obtain j where j: "j \<in> set (ad_jobs s)" "same_file r j" by (auto simp: names_file_def)
    moreover have "aj_storage_key r \<noteq> None" using that(4) by (auto simp: gone_def)
    ultimately have "j \<in> set js" using that(1,3) by (auto simp: js_def jobs_with_file_def after_def same_file_def)
    with j(2) show ?thesis by blast
  qed
  show ?case
  proof (cases "length ?page < file_page_size")
    case True
    then have short: "length js < file_page_size" by (auto simp: min_def split: if_splits)
    then have all: "?page = js" by simp
    have run: "purge_pages env dry p cursor c s = Some (c1, u)"
      by (subst purge_pages.simps) (use one short in \<open>simp add: js_def Let_def\<close>)
    have "dealt_with env (snd c) (snd c1) r u" if "\<not> dry" "r \<in> R" "\<forall>j. same_file r j \<longrightarrow> p j"
        "gone r s \<or> missing r s \<or> names_file r s \<and> after cursor (aj_id r)" for r
    proof (cases "gone r s \<or> missing r s")
      case True
      with step that(2) show ?thesis by (auto simp: files_only_go_def dealt_with_def)
    next
      case False
      with that listed all obtain j where "j \<in> set ?page" "same_file r j" by metis
      with step that(1,2) show ?thesis by blast
    qed
    with run step keyed show ?thesis by auto
  next
    case False
    let ?last = "aj_id (last ?page)" and ?v = "fe_others env 2 (aj_id (last ?page)) u"
    have full: "length ?page = file_page_size" using False by simp
    have page_keyed: "jobs_keyed p A s" using less.prems pq by (simp add: jobs_keyed_def)
    note sorted = sorted_page [OF page_keyed full [unfolded js_def], folded js_def, unfolded file_page_size_def, simplified,
        folded file_page_size_def]
    have cursor: "after (Some ?last) a \<longleftrightarrow> ?last < a" for a
      using sorted by (simp add: after_def truthy_def file_page_size_def)
    have "{a \<in> A. after (Some ?last) a} \<subset> {a \<in> A. after cursor a}"
      using sorted unfolding cursor by (auto simp: after_def file_page_size_def)
    then have smaller: "card {a \<in> A. after (Some ?last) a} < card {a \<in> A. after cursor a}"
      using fin by (intro psubset_card_mono) auto
    obtain c2 t where rest: "purge_pages env dry p (Some ?last) c1 ?v = Some (c2, t)"
      and rest_go: "files_only_go R ?v t" and rest_keyed: "jobs_keyed q A t" and more: "snd c1 \<le> snd c2"
      and rest_dealt: "\<not> dry \<longrightarrow> (\<forall>r \<in> R. (\<forall>j. same_file r j \<longrightarrow> p j) \<and>
        (gone r ?v \<or> missing r ?v \<or> names_file r ?v \<and> after (Some ?last) (aj_id r)) \<longrightarrow> dealt_with env (snd c1) (snd c2) r t)"
      using less.hyps [OF smaller others [OF keyed], of c1] by blast
    have run: "purge_pages env dry p cursor c s = Some (c2, t)"
      by (subst purge_pages.simps) (use one False rest in \<open>simp add: js_def Let_def\<close>)
    have to_v: "files_only_go R s ?v" using only_go.rel_trans [OF step [THEN conjunct1] only_go] .
    have u_to_t: "files_only_go R u t" using only_go.rel_trans [OF only_go rest_go] .
    have fewer: "snd c \<le> snd c1" using step by blast
    have "dealt_with env (snd c) (snd c2) r t" if w: "\<not> dry" and r: "r \<in> R" "\<forall>j. same_file r j \<longrightarrow> p j"
        "gone r s \<or> missing r s \<or> names_file r s \<and> after cursor (aj_id r)" for r
    proof (cases "gone r ?v \<or> missing r ?v")
      case True
      with rest_go r(1) show ?thesis by (auto simp: files_only_go_def dealt_with_def)
    next
      case False
      with to_v r have there: "\<not> gone r s" "names_file r s" "after cursor (aj_id r)" "names_file r ?v"
        unfolding files_only_go_def by blast+
      with listed r(2) obtain j where j: "j \<in> set js" "same_file r j" by blast
      show ?thesis
      proof (cases "j \<in> set ?page")
        case True
        with step w r(1) j(2) have "dealt_with env (snd c) (snd c1) r u" by blast
        from dealt_with_go [OF u_to_t r(1) this order.refl more] show ?thesis .
      next
        case False
        with j(1) have "j \<in> set (drop file_page_size js)" by (metis Un_iff append_take_drop_id set_append)
        then have "?last < aj_id j" using sorted by (simp add: file_page_size_def)
        then have "?last < aj_id r" using j(2) by (simp add: same_file_def)
        with cursor rest_dealt w r(1,2) there(4) have "dealt_with env (snd c1) (snd c2) r t" by blast
        from dealt_with_go [OF only_go.rel_refl r(1) this fewer order.refl] show ?thesis .
      qed
    qed
    moreover have "files_only_go R s t" using only_go.rel_trans [OF to_v rest_go] .
    ultimately show ?thesis using run rest_keyed fewer more by (intro exI [of _ c2] exI [of _ t] conjI impI ballI) auto
  qed
qed

abbreviation one_job_per_id :: "admin_db \<Rightarrow> bool" where
  "one_job_per_id db \<equiv> distinct (map aj_id (ad_jobs db))"

lemma keyed_in_set: "jobs_keyed (\<lambda>j. aj_id j \<in> I) I db \<longleftrightarrow> one_job_per_id db"
  by (simp add: jobs_keyed_def)

abbreviation known :: "admin_job \<Rightarrow> admin_db \<Rightarrow> bool" where
  "known r s \<equiv> names_file r s \<or> gone r s \<or> missing r s"

lemma known_go: "files_only_go R s t \<Longrightarrow> r \<in> R \<Longrightarrow> known r s \<Longrightarrow> known r t"
  by (auto simp: files_only_go_def)

lemma purge_where_deals:
  assumes "\<And>n k s. files_only_go R s (fe_others env n k s)"
    and "\<And>n k s. one_job_per_id s \<Longrightarrow> one_job_per_id (fe_others env n k s)"
    and "one_job_per_id s" and "\<And>j. p j \<Longrightarrow> aj_id j \<in> set ids"
  shows "\<exists>n m t. purge_files_where env False p s = Some ((n, m), t) \<and> files_only_go R s t \<and> one_job_per_id t \<and>
    (\<forall>r \<in> R. (\<forall>j. same_file r j \<longrightarrow> p j) \<and> known r s \<longrightarrow> dealt_with env 0 m r t)"
proof -
  have "ignores_key (\<lambda>j. aj_id j \<in> set ids)" by (simp add: ignores_key_def)
  from purge_walk [where q = "\<lambda>j. aj_id j \<in> set ids" and A = "set ids" and dry = False and cursor = None
      and c = "(0, 0)", unfolded keyed_in_set, OF assms(1,2) this assms(4) finite_set assms(3), of p]
  show ?thesis unfolding purge_files_where_def by (auto simp: after_def truthy_def)
qed

lemma purge_event_deals:
  assumes go: "\<And>n k s. files_only_go R s (fe_others env n k s)"
    and ids: "\<And>n k s. one_job_per_id s \<Longrightarrow> one_job_per_id (fe_others env n k s)"
    and start: "one_job_per_id s"
    and jobs: "\<And>r. r \<in> R \<Longrightarrow> aj_event_id r = Some eid \<and> aj_type r \<in> set attendee_job_types \<and>
      (aj_storage_key r \<noteq> None \<longrightarrow> aj_id r \<in> set job_ids) \<and> (aj_type r = ''import_commit'' \<longrightarrow> aj_finished_at r \<noteq> None)"
    and there: "\<And>r. r \<in> R \<Longrightarrow> known r s"
  shows "\<exists>n m t. purge_event_job_files env eid job_ids s = Some ((n, m), t) \<and>
    (\<forall>r \<in> R. known r t \<and> dealt_with env 0 m r t)"
proof (cases "job_ids = []")
  case True
  with jobs there show ?thesis by (force simp: purge_event_job_files_def gone_def dealt_with_def)
next
  case False
  let ?p = "\<lambda>j. aj_type j = ''export'' \<and> aj_event_id j = Some eid \<and> aj_id j \<in> set job_ids"
  let ?q = "\<lambda>j. aj_type j = ''import_commit'' \<and> aj_event_id j = Some eid \<and> aj_id j \<in> set job_ids \<and> aj_finished_at j \<noteq> None"
  obtain n m u where u: "purge_files_where env False ?p s = Some ((n, m), u)" "files_only_go R s u" "one_job_per_id u"
    "\<forall>r \<in> R. (\<forall>j. same_file r j \<longrightarrow> ?p j) \<and> known r s \<longrightarrow> dealt_with env 0 m r u"
    using purge_where_deals [OF go ids start, of ?p job_ids] by blast
  let ?v = "fe_others env 2 [] u"
  obtain n' m' t where t: "purge_files_where env False ?q ?v = Some ((n', m'), t)" "files_only_go R ?v t"
    "\<forall>r \<in> R. (\<forall>j. same_file r j \<longrightarrow> ?q j) \<and> known r ?v \<longrightarrow> dealt_with env 0 m' r t"
    using purge_where_deals [OF go ids ids [OF u(3)], of ?q job_ids] by blast
  have v: "files_only_go R s ?v" "files_only_go R u t"
    using only_go.rel_trans [OF u(2) go] only_go.rel_trans [OF go t(2)] by simp_all
  have "known r t \<and> dealt_with env 0 (m + m') r t" if r: "r \<in> R" for r
  proof
    show "known r t" using known_go [OF only_go.rel_trans [OF v(1) t(2)] r there [OF r]] .
    show "dealt_with env 0 (m + m') r t"
    proof (cases "aj_storage_key r = None")
      case True
      then show ?thesis by (simp add: dealt_with_def gone_def)
    next
      case False
      with jobs [OF r] consider "\<forall>j. same_file r j \<longrightarrow> ?p j" | "\<forall>j. same_file r j \<longrightarrow> ?q j"
        by (auto simp: same_file_def attendee_job_types_def)
      then show ?thesis
      proof cases
        case 1
        with u(4) r there have "dealt_with env 0 m r u" by blast
        from dealt_with_go [OF v(2) r this] show ?thesis by simp
      next
        case 2
        with t(3) r known_go [OF v(1) r there [OF r]] have "dealt_with env 0 m' r t" by blast
        from dealt_with_go [OF only_go.rel_refl r this] show ?thesis by simp
      qed
    qed
  qed
  with u(1) t(1) False show ?thesis by (simp add: purge_event_job_files_def)
qed

section \<open>After an erasure\<close>

definition event_jobs_kept :: "string \<Rightarrow> admin_db \<Rightarrow> admin_db \<Rightarrow> bool" where
  "event_jobs_kept eid s t \<longleftrightarrow>
     map (\<lambda>j. j\<lparr>aj_result_json := JNull\<rparr>) (filter (\<lambda>j. aj_event_id j = Some eid) (ad_jobs s)) =
     map (\<lambda>j. j\<lparr>aj_result_json := JNull\<rparr>) (filter (\<lambda>j. aj_event_id j = Some eid) (ad_jobs t))"

interpretation event_jobs: step_relation "event_jobs_kept eid" for eid
  by unfold_locales (simp_all add: event_jobs_kept_def)

lemma event_job_before:
  assumes "event_jobs_kept eid s t" "j \<in> set (ad_jobs t)" "aj_event_id j = Some eid"
  obtains i where "i \<in> set (ad_jobs s)" "aj_event_id i = Some eid" "i\<lparr>aj_result_json := JNull\<rparr> = j\<lparr>aj_result_json := JNull\<rparr>"
proof -
  have "j\<lparr>aj_result_json := JNull\<rparr> \<in> set (map (\<lambda>j. j\<lparr>aj_result_json := JNull\<rparr>) (filter (\<lambda>j. aj_event_id j = Some eid) (ad_jobs t)))"
    using assms(2,3) by simp
  then show ?thesis using that assms(1) [unfolded event_jobs_kept_def, symmetric] by auto
qed

lemma result_update_kept:
  "event_jobs_kept eid s (snd (update_jobs p (\<lambda>j. j\<lparr>aj_result_json := f j\<rparr>) s))"
  unfolding event_jobs_kept_def update_jobs_def update_where_def by (induction "ad_jobs s") (auto simp: filter_map o_def)

lemma scrub_results_kept:
  assumes "\<And>s. event_jobs_kept eid s (er_others env 5 s)"
  shows "tx_all (event_jobs_kept eid) (scrub_import_job_results env eid emails)"
proof -
  have wait: "tx_all (event_jobs_kept eid) (interfere (er_others env 5))"
    using assms by (simp add: tx_all_def interfere_def)
  show ?thesis unfolding scrub_import_job_results_def Let_def
    by (simp only: split: if_split)
      (intro conjI impI event_jobs.all_return event_jobs.all_bind event_jobs.all_read wait tx_all_write result_update_kept)
qed

lemma record_erasure_kept:
  assumes "\<And>s. event_jobs_kept eid s (er_others env 5 s)"
  shows "tx_all (event_jobs_kept eid) (record_erasure env eid organization title audit user single res)"
proof -
  have "tx_all (event_jobs_kept eid) (in_ops m)" for m :: "unit ops_tx"
    by (auto simp: tx_all_def in_ops_def event_jobs_kept_def split: sum.splits)
  moreover have "tx_all (event_jobs_kept eid) (write_admin_audit_log input)" for input
    by (auto simp: tx_all_def write_admin_audit_log_def tx_simps event_jobs_kept_def)
  ultimately show ?thesis unfolding record_erasure_def Let_def
    by (intro event_jobs.all_bind scrub_results_kept assms)
qed

text \<open>When the erasure reads the jobs that have a file, none of the event is open any more.\<close>

lemma erasure_lists_the_files:
  assumes run: "erase_attendees env eid ids db = Inr (res, t)" and some: "es_erased res \<noteq> []"
  shows "es_job_ids_with_files res = attendee_job_ids_with_files eid t \<and> count_where (is_open_attendee_job eid) (ad_jobs t) = 0"
  using run
proof (cases rule: erase_attendees_cases)
  case (nobody already not_found)
  with some show ?thesis by (simp add: nothing_erased_def)
next
  case (found e already not_found)
  note eff = erase_found_Inr [OF found(2)]
  then have res: "es_erased res = live_ids eid (live_requested eid ids (locked_state env db)) (locked_state env db)" by blast
  from eff obtain s where scrub: "scrub_attendee_traces env eid (es_erased res) (es_previous_emails res) s = Inr ((), t)"
    unfolding res by blast
  obtain n u v where u: "stop_open_attendee_jobs (\<lambda>k. er_others env (3 + k)) (er_clock env) eid s = Inr (n, u)"
    and v: "invalidate_event_exports eid u = Inr ((), v)" and t: "ad_jobs t = ad_jobs v"
    by (rule scrub_traces_steps [OF scrub some]) simp
  have "count_where (is_open_attendee_job eid) (ad_jobs u) = 0" using stop_open_jobs_effect [OF u] by blast
  then show ?thesis using invalidate_closed [OF v] eff by (simp add: t)
qed

text \<open>C25: Erasing people leaves no file of the event that could hold them, or says so. When the transaction of the route has erased
  somebody and the files are deleted after its commit, the deletion ends, and every export and import job of the
  event that existed at the commit is dealt with: none is left out, no older export, no staged CSV of an import that
  failed, and no job that was waiting or running and that the erasure stopped. Its stored file is gone, or its row was deleted by another
  transaction, or, the deletion being best effort, the storage refused to delete just this file: then the job's row still names it, so that the
  retention run finds it, and the failure is in the log. Others may run between any two steps, other purges and deletions included, and
  may change the rows of these jobs; they are only asked not to put a deleted file or job back, and to take the key, type, event
  or end from a job only when its file is gone. While the erasure clears the results of the imports others leave the jobs of the event alone, as
  the queue lock makes them, and a job that is closed has an end time.\<close>

theorem erased_people_leave_no_file:
  assumes run: "run_erasure env eid organization title audit user single aids db = Inr (res, db')"
    and some: "es_erased res \<noteq> []"
    and queue: "\<And>s. event_jobs_kept eid s (er_others env 5 s)"
    and ids: "one_job_per_id db'"
    and closed: "\<And>j. j \<in> set (ad_jobs db') \<Longrightarrow> aj_status j \<notin> set open_job_statuses \<Longrightarrow> aj_finished_at j \<noteq> None"
    and others: "\<And>n k s. files_only_go {j \<in> set (ad_jobs db'). aj_event_id j = Some eid \<and> aj_type j \<in> set attendee_job_types} s
      (fe_others fenv n k s)"
    and keyed: "\<And>n k s. one_job_per_id s \<Longrightarrow> one_job_per_id (fe_others fenv n k s)"
  shows "\<exists>t. erase_and_purge env fenv eid organization title audit user single aids db = Inr (res, Some t) \<and>
    (\<forall>j \<in> set (ad_jobs db'). aj_event_id j = Some eid \<and> aj_type j \<in> set attendee_job_types \<longrightarrow>
       gone j t \<or> missing j t \<or>
       (\<exists>key. aj_storage_key j = Some key \<and> \<not> fe_delete_works fenv key) \<and> names_file j t \<and>
         ''job_file_purge_incomplete'' \<in> set (ad_system_log t))"
proof -
  let ?R = "{j \<in> set (ad_jobs db'). aj_event_id j = Some eid \<and> aj_type j \<in> set attendee_job_types}"
  obtain t where erase: "erase_attendees env eid aids db = Inr (res, t)"
    and recorded: "record_erasure env eid organization title audit user single res t = Inr ((), db')"
    using run some by (auto simp: run_erasure_def tx_bind_Inr tx_return_def split: if_splits)
  have kept: "event_jobs_kept eid t db'" using tx_allD [OF record_erasure_kept [OF queue] recorded] .
  note files = erasure_lists_the_files [OF erase some]
  have jobs: "aj_event_id r = Some eid \<and> aj_type r \<in> set attendee_job_types \<and>
      (aj_storage_key r \<noteq> None \<longrightarrow> aj_id r \<in> set (es_job_ids_with_files res)) \<and>
      (aj_type r = ''import_commit'' \<longrightarrow> aj_finished_at r \<noteq> None)" if r: "r \<in> ?R" for r
  proof -
    obtain i where i: "i \<in> set (ad_jobs t)" "aj_event_id i = Some eid" "i\<lparr>aj_result_json := JNull\<rparr> = r\<lparr>aj_result_json := JNull\<rparr>"
      by (rule event_job_before [OF kept, of r]) (use r in auto)
    have same: "aj_id i = aj_id r" "aj_type i = aj_type r" "aj_status i = aj_status r" "aj_storage_key i = aj_storage_key r"
      using arg_cong [OF i(3), of aj_id] arg_cong [OF i(3), of aj_type] arg_cong [OF i(3), of aj_status]
        arg_cong [OF i(3), of aj_storage_key] by simp_all
    have "\<not> is_open_attendee_job eid i" using files i(1) by (simp add: count_where_0)
    with same i(2) r have "aj_status r \<notin> set open_job_statuses" by (simp add: is_open_attendee_job_def)
    moreover have "aj_id r \<in> set (es_job_ids_with_files res)" if "aj_storage_key r \<noteq> None"
      using files i(1,2) same that r by (auto simp: attendee_job_ids_with_files_def intro!: image_eqI [where x = i])
    ultimately show ?thesis using r closed by blast
  qed
  have there: "known r (fe_others fenv 6 [] db')" if r: "r \<in> ?R" for r
  proof (rule known_go [OF others r])
    show "known r db'" using r by (auto simp: names_file_def same_file_def)
  qed
  obtain n m u where purged: "purge_event_job_files fenv eid (es_job_ids_with_files res) (fe_others fenv 6 [] db') = Some ((n, m), u)"
    and dealt: "\<forall>r \<in> ?R. known r u \<and> dealt_with fenv 0 m r u"
    using purge_event_deals [OF others keyed keyed [OF ids] jobs there] by blast
  let ?t = "if m > 0 then snd (log_system ''job_file_purge_incomplete'' u) else u"
  have same: "gone r ?t = gone r u" "missing r ?t = missing r u" "names_file r ?t = names_file r u" for r
    by (simp_all add: gone_def missing_def names_file_def file_absent_def log_system_def)
  have "erase_and_purge env fenv eid organization title audit user single aids db = Inr (res, Some ?t)"
    using run some purged by (simp add: erase_and_purge_def purge_event_job_files_best_effort_def)
  moreover have "gone r ?t \<or> missing r ?t \<or> (\<exists>key. aj_storage_key r = Some key \<and> \<not> fe_delete_works fenv key) \<and> names_file r ?t \<and>
      ''job_file_purge_incomplete'' \<in> set (ad_system_log ?t)" if "r \<in> ?R" for r
    unfolding same using dealt that by (auto simp: dealt_with_def log_system_def)
  ultimately show ?thesis by blast
qed

text \<open>C27: The walks over the stored files end, even when files cannot be deleted and stay: a page starts after the last
  id of the page before, so the retention run returns, and so does the deletion after an erasure. Others may change and
  create jobs meanwhile, as long as ids stay unique and there is a bound on the ids in use.\<close>

theorem file_walks_return:
  assumes fin: "finite A" and start: "jobs_keyed (\<lambda>_. True) A db"
    and others: "\<And>n k s. jobs_keyed (\<lambda>_. True) A s \<Longrightarrow> jobs_keyed (\<lambda>_. True) A (fe_others env n k s)"
  shows "(\<exists>r. purge_job_files env dry now export_days staged_days db = Some r) \<and>
    (\<exists>r. purge_event_job_files env eid job_ids db = Some r)"
proof -
  have walk: "\<exists>c t. purge_files_where env d p s = Some (c, t) \<and> jobs_keyed (\<lambda>_. True) A t"
    if s: "jobs_keyed (\<lambda>_. True) A s" for d p s
  proof -
    have "files_only_go {} u (fe_others env n k u)" for n k u by (simp add: files_only_go_def)
    moreover have "ignores_key (\<lambda>_. True)" by (simp add: ignores_key_def)
    moreover have "\<And>j. p j \<Longrightarrow> True" by simp
    ultimately obtain c t where "purge_pages env d p None (0, 0) s = Some (c, t)" "jobs_keyed (\<lambda>_. True) A t"
      using purge_walk [where R = "{}" and q = "\<lambda>_. True" and p = p and cursor = None and c = "(0, 0)" and dry = d,
          OF _ others _ _ fin s] by blast
    then show ?thesis by (simp add: purge_files_where_def)
  qed
  have two: "(case purge_files_where env d p db of None \<Rightarrow> None
      | Some (c, t) \<Rightarrow> (case purge_files_where env d q (fe_others env 2 [] t) of None \<Rightarrow> None | Some (c', t') \<Rightarrow> Some (f c c' t'))) \<noteq> None"
    for d p q and f :: "nat \<times> nat \<Rightarrow> nat \<times> nat \<Rightarrow> admin_db \<Rightarrow> 'x"
  proof -
    obtain c t where t: "purge_files_where env d p db = Some (c, t)" "jobs_keyed (\<lambda>_. True) A t" using walk [OF start] by blast
    from walk [OF others [OF t(2)]] obtain c' t' where "purge_files_where env d q (fe_others env 2 [] t) = Some (c', t')" by blast
    with t(1) show ?thesis by simp
  qed
  have "purge_job_files env dry now export_days staged_days db \<noteq> None"
    unfolding purge_job_files_def Let_def by (rule two)
  moreover have "purge_event_job_files env eid job_ids db \<noteq> None"
    unfolding purge_event_job_files_def by (cases "job_ids = []") (simp, simp only: if_False, rule two)
  ultimately show ?thesis by blast
qed

section \<open>The sweep\<close>

abbreviation file_content :: "string \<Rightarrow> admin_db \<Rightarrow> string option" where
  "file_content key db \<equiv> map_of (ad_files db) key"

abbreviation is_named :: "string \<Rightarrow> admin_db \<Rightarrow> bool" where
  "is_named key db \<equiv> key \<in> set (named_job_file_keys db)"

lemma named_find: "List.find (\<lambda>j. aj_storage_key j = Some key) (ad_jobs db) = None \<longleftrightarrow> \<not> is_named key db"
  by (auto simp: named_job_file_keys_def map_filter_def find_None image_iff)

lemma content_deleted: "file_content key (snd (delete_file k db)) = (if k = key then None else file_content key db)"
  by (simp add: delete_file_def delete_conv' fun_upd_def)

lemma named_deleted: "is_named key (snd (delete_file k db)) = is_named key db"
  by (simp add: delete_file_def named_job_file_keys_def)

lemma remove_step:
  assumes files: "\<And>n k s. file_content key (fe_others env n k s) = file_content key s"
    and names: "\<And>n k s. is_named key (fe_others env n k s) \<longleftrightarrow> is_named key s \<or> late \<and> n = 4 \<and> k = key"
    and run: "remove_if_unnamed env dry k s = (out, t)"
  shows "file_content key t = (if k = key \<and> \<not> is_named key s \<and> \<not> late \<and> \<not> dry \<and> fe_delete_works env key then None
      else file_content key s) \<and> (is_named key t \<longrightarrow> is_named key s \<or> late)"
  using run files names unfolding remove_if_unnamed_def Let_def
  by (auto simp: named_find content_deleted named_deleted split: if_splits)

lemma sweep_files_step:
  assumes files: "\<And>n k s. file_content key (fe_others env n k s) = file_content key s"
    and names: "\<And>n k s. is_named key (fe_others env n k s) \<longleftrightarrow> is_named key s \<or> late \<and> n = 4 \<and> k = key"
  shows "(is_named key s \<longrightarrow> late \<or> key \<in> set named) \<Longrightarrow>
    file_content key (snd (sweep_files env dry grace now named keys c s)) =
      (if key \<in> set keys \<and> key \<notin> set named \<and> grace \<le> now - fe_written_at env key \<and> \<not> late \<and> \<not> dry \<and>
          fe_delete_works env key then None else file_content key s)"
proof (induction keys arbitrary: c s)
  case (Cons k keys)
  obtain out t where one: "remove_if_unnamed env dry k s = (out, t)" by fastforce
  note step = remove_step [OF files names one]
  with Cons.prems have t: "is_named key t \<longrightarrow> late \<or> key \<in> set named" by blast
  let ?run = "sweep_files env dry grace now named keys"
  have "snd (sweep_files env dry grace now named (k # keys) c s) =
      snd (if k \<in> set named then ?run (c\<lparr>sw_scanned := sw_scanned c + 1, sw_named := sw_named c + 1\<rparr>) s
        else if now - fe_written_at env k < grace
        then ?run (c\<lparr>sw_scanned := sw_scanned c + 1, sw_too_new := sw_too_new c + 1\<rparr>) s
        else ?run (count_outcome out (c\<lparr>sw_scanned := sw_scanned c + 1\<rparr>)) t)"
    by (simp add: one Let_def)
  then show ?case using step Cons.prems Cons.IH [OF t] Cons.IH [OF Cons.prems] by auto
qed simp

text \<open>C26: The sweep of a retention run deletes the orphans and nothing else. A file is gone after it exactly if it is in the
  layout of a job file, is older than the grace window, and no job names it: neither when the sweep
  starts nor at the look-up right before the delete. So an upload, a fresh file and the file of a job that is recorded
  while the sweep runs are safe; in a dry run every file is.\<close>

theorem sweep_deletes_exactly_the_orphans:
  assumes files: "\<And>n k s. file_content key (fe_others env n k s) = file_content key s"
    and names: "\<And>n k s. is_named key (fe_others env n k s) \<longleftrightarrow> is_named key s \<or> late \<and> n = 4 \<and> k = key"
  shows "file_content key (snd (sweep_orphaned_job_files env dry grace_hours now db)) =
    (if is_job_file_key key \<and> \<not> is_managed_upload_key key \<and> \<not> is_named key db \<and> \<not> late \<and>
        grace_ms_of grace_hours \<le> now - fe_written_at env key \<and> \<not> dry \<and> fe_delete_works env key
     then None else file_content key db)"
proof -
  let ?s = "fe_others env 3 [] db"
  have s: "file_content key ?s = file_content key db" "is_named key ?s = is_named key db"
    using files names by simp_all
  have listed: "key \<in> set (filter is_job_file_key (map fst (ad_files ?s))) \<longleftrightarrow> is_job_file_key key \<and> file_content key db \<noteq> None"
    unfolding s(1) [symmetric] by (auto simp: map_of_eq_None_iff)
  show ?thesis
    unfolding sweep_orphaned_job_files_def Let_def
    by (subst sweep_files_step [OF files names]) (use s listed job_files_are_no_uploads [of key] in auto)
qed

section \<open>Samples\<close>

definition sample_file_env :: file_env where
  "sample_file_env = \<lparr>fe_others = (\<lambda>_ _ db. db), fe_delete_works = (\<lambda>_. True), fe_written_at = (\<lambda>_. 0)\<rparr>"

definition sample_key :: string where
  "sample_key = ''o1/events/e1/01234567-89ab-cdef-0123-456789abcdef.csv''"

definition sample_files_db :: admin_db where
  "sample_files_db = sample_guest_db\<lparr>
     ad_jobs := [(sample_job ''j1'' ''export'' ''pending'' ''e1'')\<lparr>aj_storage_key := Some ''k1''\<rparr>,
       (sample_job ''j2'' ''import_commit'' ''running'' ''e1'')\<lparr>aj_storage_key := Some ''k2''\<rparr>,
       (sample_job ''j3'' ''export'' ''succeeded'' ''e1'')\<lparr>aj_storage_key := Some ''k3'', aj_finished_at := Some 5\<rparr>,
       (sample_job ''j4'' ''export'' ''succeeded'' ''e2'')\<lparr>aj_storage_key := Some ''k4'', aj_finished_at := Some 5\<rparr>],
     ad_files := [(''k1'', ''1''), (''k2'', ''2''), (''k3'', ''3''), (''k4'', ''4''), (sample_key, ''5'')]\<rparr>"

lemma sample_run:
  "case run_erasure sample_erase_env ''e1'' ''o1'' ''Gala'' sample_audit ''u1'' True [''a1''] sample_files_db of Inl e \<Rightarrow> False
   | Inr (res, db') \<Rightarrow> es_erased res = [''a1''] \<and> map aj_id (ad_jobs db') = [''j1'', ''j2'', ''j3'', ''j4''] \<and>
       list_all (\<lambda>j. \<not> Option.is_none (aj_finished_at j)) (ad_jobs db') \<and>
       map (\<lambda>j. (aj_id j, aj_event_id j, aj_type j, aj_storage_key j)) (ad_jobs db') =
         [(''j1'', Some ''e1'', ''export'', Some ''k1''), (''j2'', Some ''e1'', ''import_commit'', Some ''k2''),
          (''j3'', Some ''e1'', ''export'', Some ''k3''), (''j4'', Some ''e2'', ''export'', Some ''k4'')]"
  by code_simp

text \<open>The storage deletes every file but one.\<close>

theorem erased_people_leave_no_file_witness:
  "\<exists>res t. erase_and_purge sample_erase_env (sample_file_env\<lparr>fe_delete_works := (\<lambda>k. k \<noteq> ''k2'')\<rparr>) ''e1'' ''o1'' ''Gala'' sample_audit ''u1''
       True [''a1''] sample_files_db = Inr (res, Some t) \<and>
     (file_absent ''k1'' t \<or> ''j1'' \<notin> aj_id ` set (ad_jobs t)) \<and> (file_absent ''k3'' t \<or> ''j3'' \<notin> aj_id ` set (ad_jobs t))"
proof -
  let ?fenv = "sample_file_env\<lparr>fe_delete_works := (\<lambda>k. k \<noteq> ''k2'')\<rparr>"
  obtain res db' where run: "run_erasure sample_erase_env ''e1'' ''o1'' ''Gala'' sample_audit ''u1'' True [''a1''] sample_files_db
      = Inr (res, db')"
    and res: "es_erased res = [''a1'']" and ids: "map aj_id (ad_jobs db') = [''j1'', ''j2'', ''j3'', ''j4'']"
    and ended: "list_all (\<lambda>j. \<not> Option.is_none (aj_finished_at j)) (ad_jobs db')"
    and rows: "map (\<lambda>j. (aj_id j, aj_event_id j, aj_type j, aj_storage_key j)) (ad_jobs db') =
         [(''j1'', Some ''e1'', ''export'', Some ''k1''), (''j2'', Some ''e1'', ''import_commit'', Some ''k2''),
          (''j3'', Some ''e1'', ''export'', Some ''k3''), (''j4'', Some ''e2'', ''export'', Some ''k4'')]"
    using sample_run by (auto split: sum.splits prod.splits)
  have "es_erased res \<noteq> []" "one_job_per_id db'" using res ids by simp_all
  moreover have "event_jobs_kept ''e1'' s (er_others sample_erase_env 5 s)" for s
    by (simp add: sample_erase_env_def event_jobs.rel_refl)
  moreover have "aj_finished_at j \<noteq> None" if "j \<in> set (ad_jobs db')" for j
    using ended that by (auto simp: list_all_iff Option.is_none_def)
  moreover have "files_only_go R s (fe_others ?fenv n k s)"
    "one_job_per_id s \<Longrightarrow> one_job_per_id (fe_others ?fenv n k s)" for R n k s
    by (simp_all add: sample_file_env_def only_go.rel_refl)
  ultimately obtain t where t: "erase_and_purge sample_erase_env ?fenv ''e1'' ''o1'' ''Gala'' sample_audit ''u1'' True [''a1'']
       sample_files_db = Inr (res, Some t)"
    and dealt: "\<forall>j \<in> set (ad_jobs db'). aj_event_id j = Some ''e1'' \<and> aj_type j \<in> set attendee_job_types \<longrightarrow> gone j t \<or> missing j t \<or>
       (\<exists>key. aj_storage_key j = Some key \<and> \<not> fe_delete_works ?fenv key) \<and> names_file j t \<and>
         ''job_file_purge_incomplete'' \<in> set (ad_system_log t)"
    using erased_people_leave_no_file [OF run, where fenv = ?fenv] by blast
  have "file_absent key t \<or> i \<notin> aj_id ` set (ad_jobs t)"
    if "(i, Some ''e1'', ''export'', Some key) \<in> set (map (\<lambda>j. (aj_id j, aj_event_id j, aj_type j, aj_storage_key j)) (ad_jobs db'))"
      "key \<noteq> ''k2''" for i key
  proof -
    from that(1) obtain j where j: "j \<in> set (ad_jobs db')" "aj_id j = i" "aj_event_id j = Some ''e1''" "aj_type j = ''export''"
      "aj_storage_key j = Some key" by auto
    with dealt that(2) have "gone j t \<or> missing j t" by (auto simp: attendee_job_types_def)
    with j show ?thesis by (auto simp: gone_def missing_def)
  qed
  from this [of "''j1''" "''k1''", unfolded rows] this [of "''j3''" "''k3''", unfolded rows] t show ?thesis by auto
qed

theorem file_walks_return_witness:
  "\<exists>r. purge_job_files (sample_file_env\<lparr>fe_delete_works := (\<lambda>_. False)\<rparr>) False 900000000 None (Some 1) sample_files_db = Some r"
proof -
  let ?env = "sample_file_env\<lparr>fe_delete_works := (\<lambda>_. False)\<rparr>" and ?A = "{''j1'', ''j2'', ''j3'', ''j4''} :: string set"
  have "jobs_keyed (\<lambda>_. True) ?A sample_files_db"
    by (auto simp: jobs_keyed_def sample_files_db_def sample_job_def)
  moreover have "jobs_keyed (\<lambda>_. True) ?A s \<Longrightarrow> jobs_keyed (\<lambda>_. True) ?A (fe_others ?env n k s)" for n k s
    by (simp add: sample_file_env_def)
  moreover have "finite ?A" by simp
  ultimately show ?thesis using file_walks_return [of ?A sample_files_db ?env] by blast
qed

theorem sweep_deletes_exactly_the_orphans_witness:
  "file_content sample_key sample_files_db = Some ''5'' \<and>
   file_content sample_key (snd (sweep_orphaned_job_files sample_file_env False None 86400000 sample_files_db)) = None"
proof -
  have "is_job_file_key sample_key" "\<not> is_managed_upload_key sample_key" "file_content sample_key sample_files_db = Some ''5''"
    "\<not> is_named sample_key sample_files_db" "grace_ms_of None \<le> 86400000"
    by code_simp+
  moreover have "file_content sample_key (fe_others sample_file_env n k s) = file_content sample_key s"
    "is_named sample_key (fe_others sample_file_env n k s) \<longleftrightarrow> is_named sample_key s \<or> False \<and> n = 4 \<and> k = sample_key" for n k s
    by (simp_all add: sample_file_env_def)
  ultimately show ?thesis
    using sweep_deletes_exactly_the_orphans [where key = sample_key and env = sample_file_env and late = False] by (simp add: sample_file_env_def)
qed

end
