(* ===== verification/Spec2Isabelle.thy ===== *)
theory Spec2Isabelle
  imports Bulk_Props Access_Props Oidc_Sync Attendee_List_Props Export_Props Import_Parse_Props
    Export_Job_Props Import_Job_Props Wallet_Follow_Up_Props
    Mail_Props Auth_Props Stored_Files_Props
begin

text \<open>
  Admitto is an event check-in system: attendees are imported, get tickets by mail, are admitted at a
  door, and can be exported, erased or removed. This development models the packages that carry this
  logic (\<open>src/packages\<close>: tickets, db, auth, shared, import, mail-delivery, storage and wallet in part), as functions
  on explicit states, and proves what they promise also when other requests run in between.

  The state. \<open>Ops_Db\<close> has the tables of schema.prisma as lists of records (\<open>ops_db\<close>); larger components
  add theirs around it: \<open>admin_db\<close> (jobs, wallet passes, audit log, mail batches) in \<open>Admin_Jobs\<close>, the role
  tables in \<open>Access\<close> and \<open>Oidc_Roles\<close>, those of signing in (\<open>auth_db\<close>) in \<open>Auth_World\<close>, the outbox of handed over mail in \<open>Mail_World\<close>. A row has the columns
  the modelled code reads or writes. A transaction is a function \<open>state \<Rightarrow> error + result \<times> state\<close>; an
  error rolls back. An operation that is not one transaction (\<open>op\<close>) returns the state also with an error. Both
  are in \<open>Adm_Prelude\<close>, with table operations, JSON values and the JavaScript string functions.

  Interference. Where the code waits or reads again (between statements of PostgreSQL's READ COMMITTED, at
  a lock, between transactions) the model applies a function of the state that stands for all other
  transactions that commit there; the environment records (\<open>*_others\<close>) number these points, and each
  theory says where its points lie. Properties quantify over these functions. Where an invariant
  needs the others to keep to something, the relation is a hypothesis, and the machines
  (\<open>Ops_Machine\<close>, \<open>Mail_Guarantees\<close>, \<open>Auth_Guarantees\<close>) show that the modelled operations keep to it themselves.

  The parts, and what is proved of them:

  \<^item> The event day (packages/tickets/src: attendee-lock, ops-config, ops-audit, event-items, item-states,
    attendee-card, admit, checkin, undo, bulk-revoke, notes): \<open>Ops_Db Ops_Audit Event_Items Attendee_Card Check_In
    Undo Notes\<close>. \<open>Admission\<close> and \<open>Reversal\<close> invert the operations; \<open>Admission_Spec\<close> has the abstract door
    and the refinement of it, and the race of two scans; \<open>Admission_Inv Admission_Steps Ops_Machine\<close> the
    invariant that who is admitted has an unreversed check-in; \<open>Ops_Frame Ops_Guarantees Ops_Properties\<close> state what
    all operations keep to as locales interpreted on the model; \<open>Item_Props Bulk_Props\<close> the functional properties.
  \<^item> Tickets (issue, url, resolve): \<open>Tickets Ticket_Resolve\<close>; \<open>Ticket_Props Ticket_Event\<close> show that a credential is never
    replaced, that a link resolves to its attendee, and the accounts of an event-wide run.
  \<^item> Rights and external roles (packages/db/src/roles.ts, packages/auth/src/authorization.ts,
    oidc/group-role-mapping.ts): \<open>Access Oidc_Roles\<close>; \<open>Access_Props Oidc_Props Oidc_Sync\<close>: pickers agree with the checks,
    a superadmin always remains, a synchronisation settles.
  \<^item> Lists and exports (attendees-list-filters, custom-data, attendees-export, shared/csvUtils): \<open>Csv_Text
    Custom_Data Attendee_List Export\<close>; \<open>Csv_Props Attendee_List_Props Export_Props\<close>: an export reads back, and holds live
    attendees only.
  \<^item> Imports (packages/import/src: parser, importer; event-capacity): \<open>Import_Parse Import_Write Import_Commit
    Capacity_Lock\<close>; \<open>Import_Parse_Props Import_Props Import_Safety Import_Capacity\<close>: what an accepted row holds, that
    an import writes nothing but new rows and, with overwrite, profiles, that it keeps the capacity, and that its counts add up.
  \<^item> Background jobs (claim-admin-job, stop-open-jobs, export-job-privacy, drain-export-jobs, reclaim and drain of
    imports, executeImportCommit): \<open>Admin_Jobs Job_Privacy Export_Jobs Import_Jobs\<close>; \<open>Job_Stop Job_Props Export_Job_Props
    Import_Job_Props\<close>: jobs move forward only, a stopped job leaves nothing.
  \<^item> Erasure and removal (erase-attendees, erase-job-results, remove-attendees, erase-wallet-passes): \<open>Erase_Attendees
    Erase_Results Remove_Attendees Wallet_Follow_Up\<close>; \<open>Erase_Numbers Erase_Results_Props Erase_Props Remove_Props
    Wallet_Follow_Up_Props\<close>: nothing personal is left, the numbers stay, and the provider is asked until nothing
    is left there.
  \<^item> Stored files (packages/storage/src/gc: purgeJobFiles, sweepOrphanedJobFiles, keys.ts, with
    purge-export-files.ts of apps/web): \<open>Stored_Files\<close>; \<open>Stored_Files_Props\<close>: an erasure leaves no file of an export or import that held
    the person, the walks end, and the sweep deletes the orphans and nothing else.
  \<^item> Mail delivery (packages/mail-delivery/src): \<open>Mail_Text\<close> (what is stored of a provider's error), \<open>Mail_World\<close> (the
    ownership lock, revisions and attempts, the read before a send), \<open>Mail_Claim Mail_Drain Mail_Send\<close>.
    \<open>Mail_Contract\<close> walks through all operations once, in a locale whose laws \<open>Mail_Guarantees\<close> discharges for
    the keys, the revisions and the rows of an erased attendee; \<open>Mail_Props\<close> has the properties: who gets mail, which
    message goes out, that an answered attempt is not repeated, and the accounts of a drain.

  \<^item> Signing in (packages/auth/src: settings, session, revocation, mfa, login, privileged-login-alert, and the routes of
    apps/web/src/auth around a promotion; packages/shared/src/eventEnd): \<open>Auth_World\<close> (tables, settings, security log),
    \<open>Event_Day\<close> (wall clocks and the day of an event), \<open>Auth_Mfa Auth_Session Auth_Login\<close>. \<open>Auth_Contract\<close> walks through the
    operations in a locale, \<open>Auth_Guarantees\<close> builds the machine of requests and interprets the locale for the sessions, the
    second factors and a token that does not open; \<open>Auth_Props\<close> has the properties: a revocation is final, an
    unfinished sign-in opens nothing, a code works once, the stage and the life of a session.

  \<open>Ops_Sample\<close> and the samples of the property theories are concrete states on which the witnesses evaluate.

  Bounds and fuel. Loops over rows are recursion on the list. The retry of the capacity lock is a
  \<open>partial_function (option)\<close> and is shown to return once the clock passes the deadline; so is the walk over the
  pages of stored files, which returns because its cursor moves on. The loops that claim jobs or
  chunks recurse on a measure that the code bounds itself (a batch limit, the rows left), so no
  fuel is an assumption. Times are integers in milliseconds, counts natural numbers (both far below
  2 to the 53); strings are lists of 8-bit characters, the Latin-1 part of JavaScript's strings, so
  that a length in UTF-16 code units is the length of the list.

  Parameters. Hashes, encryption, UUIDs, the clock, the authenticator and WebAuthn algorithms, the number and date formats of Intl, the URL parser, the template
  renderer, the mail transport, the advisory lock server and the wallet provider are arguments, and what
  a property needs of them is a hypothesis of it: a hash has no collision among the tokens at hand,
  a provider that works answers, the id of a new row is new.

  Not modelled. The HTTP routes (apps/web), the administration and check-in user interfaces (apps/admin,
  packages/ui) and the command line (apps/cli) call the modelled operations with parsed input and render their answers;
  the mail adapters, templates, wallet client, file stores, the garbage collection of uploads, maps and weather talk to services or format text.
  Of signing in, the sign-in through an OpenID Connect provider and Cloudflare Access (of which the role
  synchronisation is here), password rules, the purge of old rows and the command line are left out, and the U+0000 that
  \<open>toDatabaseJson\<close> replaces in the metadata of the security log. Of mail delivery, the IMAP mailbox, the parser of bounces, the listing and
  retention of deliveries and the worker pool of an immediate send are left out (the steps of the pool are in the
  machine). The wallet jobs, the XLSX and PDF writers and the route around a removal are left out as well.
\<close>

end
